(* ===== verification/Gw_Prelude.thy ===== *)
theory Gw_Prelude
  imports Main "HOL-Library.List_Lexorder" "HOL-Library.Char_ord" "HOL-Library.AList"
begin

text \<open>
  Shared vocabulary of the development: SQL tables as lists of rows and the handful of
  statements the store issues on them, JSON values with the JavaScript conversions the code
  applies to them, time stamps, and the collections of facts the component theories share.
  A nullable column is an \<open>option\<close>, a time stamp is a number of milliseconds, and a string
  is a list of characters, so that \<open>slice(0, n)\<close> is \<open>take n\<close>.
\<close>

named_theorems frame_simps \<open>which tables an operation leaves alone\<close>
named_theorems row_simps \<open>unfolding of the row mappers\<close>

type_synonym uuid = string
type_synonym time = int

section \<open>Tables\<close>

text \<open>
  \<open>UPDATE t SET .. WHERE P\<close> rewrites the rows that satisfy the condition, in place;
  \<open>RETURNING\<close> gives the rewritten rows; \<open>DELETE\<close> drops rows; \<open>EXISTS (SELECT ..)\<close> asks
  for a row. \<open>result.rows[0]\<close> of a \<open>SELECT\<close> is \<^const>\<open>find\<close>.
\<close>

definition update_rows :: "('r \<Rightarrow> bool) \<Rightarrow> ('r \<Rightarrow> 'r) \<Rightarrow> 'r list \<Rightarrow> 'r list" where
  "update_rows P f t = map (\<lambda>r. if P r then f r else r) t"

definition returning :: "('r \<Rightarrow> bool) \<Rightarrow> ('r \<Rightarrow> 'r) \<Rightarrow> 'r list \<Rightarrow> 'r list" where
  "returning P f t = map f (filter P t)"

definition delete_rows :: "('r \<Rightarrow> bool) \<Rightarrow> 'r list \<Rightarrow> 'r list" where
  "delete_rows P t = filter (\<lambda>r. \<not> P r) t"

definition exists_row :: "('r \<Rightarrow> bool) \<Rightarrow> 'r list \<Rightarrow> bool" where
  "exists_row P t = list_ex P t"

definition count_rows :: "('r \<Rightarrow> bool) \<Rightarrow> 'r list \<Rightarrow> nat" where
  "count_rows P t = length (filter P t)"

text \<open>\<open>COALESCE($n, column)\<close> on a not-null column and on a nullable one.\<close>

definition coalesce :: "'a option \<Rightarrow> 'a \<Rightarrow> 'a" where
  "coalesce v d = (case v of None \<Rightarrow> d | Some x \<Rightarrow> x)"

definition coalesce_null :: "'a option \<Rightarrow> 'a option \<Rightarrow> 'a option" where
  "coalesce_null v d = (case v of None \<Rightarrow> d | Some x \<Rightarrow> Some x)"

lemma coalesce_simps [simp]:
  "coalesce None d = d" "coalesce (Some x) d = x"
  "coalesce_null None e = e" "coalesce_null (Some x) e = Some x"
  by (simp_all add: coalesce_def coalesce_null_def)

lemma exists_row_iff [simp]: "exists_row P t \<longleftrightarrow> (\<exists>r \<in> set t. P r)"
  by (simp add: exists_row_def list_ex_iff)

lemma set_update_rows: "set (update_rows P f t) = (\<lambda>r. if P r then f r else r) ` set t"
  by (simp add: update_rows_def)

lemma update_rows_Nil [simp]: "update_rows P f [] = []"
  by (simp add: update_rows_def)

lemma update_rows_Cons [simp]:
  "update_rows P f (r # t) = (if P r then f r else r) # update_rows P f t"
  by (simp add: update_rows_def)

lemma update_rows_append [simp]:
  "update_rows P f (s @ t) = update_rows P f s @ update_rows P f t"
  by (simp add: update_rows_def)

lemma length_update_rows [simp]: "length (update_rows P f t) = length t"
  by (simp add: update_rows_def)

lemma delete_rows_simps [simp]:
  "delete_rows P [] = []"
  "delete_rows P (r # t) = (if P r then delete_rows P t else r # delete_rows P t)"
  by (simp_all add: delete_rows_def)

lemma set_delete_rows [simp]: "set (delete_rows P t) = {r \<in> set t. \<not> P r}"
  by (auto simp: delete_rows_def)

lemma returning_simps [simp]:
  "returning P f [] = []"
  "returning P f (r # t) = (if P r then f r # returning P f t else returning P f t)"
  by (simp_all add: returning_def)

lemma set_returning: "set (returning P f t) = f ` {r \<in> set t. P r}"
  by (auto simp: returning_def)

lemma update_rows_none: "(\<And>r. r \<in> set t \<Longrightarrow> \<not> P r) \<Longrightarrow> update_rows P f t = t"
  by (induction t) auto

lemma update_rows_id: "(\<And>r. r \<in> set t \<Longrightarrow> P r \<Longrightarrow> f r = r) \<Longrightarrow> update_rows P f t = t"
  by (induction t) auto

lemma in_update_rowsE:
  assumes "r \<in> set (update_rows P f t)"
  obtains r0 where "r0 \<in> set t" "P r0" "r = f r0" | "r \<in> set t" "\<not> P r"
  using assms by (auto simp: set_update_rows split: if_splits)

text \<open>A column that an update does not write keeps its values, in order.\<close>

lemma map_update_rows:
  "(\<And>r. P r \<Longrightarrow> g (f r) = g r) \<Longrightarrow> map g (update_rows P f t) = map g t"
  by (induction t) auto

lemma filter_update_rows_same:
  "(\<And>r. r \<in> set t \<Longrightarrow> P r \<Longrightarrow> \<not> Q r \<and> \<not> Q (f r)) \<Longrightarrow> filter Q (update_rows P f t) = filter Q t"
  by (induction t) auto

lemma find_none_iff: "find P t = None \<longleftrightarrow> (\<forall>r \<in> set t. \<not> P r)"
  by (induction t) auto

lemma find_someD: "find P t = Some r \<Longrightarrow> r \<in> set t \<and> P r"
  by (induction t) (auto split: if_splits)

lemma find_append: "find P (s @ t) = (case find P s of None \<Rightarrow> find P t | Some r \<Rightarrow> Some r)"
  by (induction s) auto

text \<open>
  A table with a key: when the keys are distinct, a lookup by key finds the row, and an
  update of one row by key is the only change.
\<close>

lemma find_key:
  assumes "distinct (map k t)" "r \<in> set t"
  shows "find (\<lambda>s. k s = k r) t = Some r"
  using assms by (induction t) (auto simp: image_iff)

lemma find_key_update:
  assumes "\<And>s. k (f s) = k s"
  shows "find (\<lambda>s. k s = i) (update_rows (\<lambda>s. k s = j) f t) =
    (if i = j then map_option f (find (\<lambda>s. k s = i) t) else find (\<lambda>s. k s = i) t)"
  using assms by (induction t) auto

lemma distinct_key_eq:
  assumes "distinct (map k t)" "r \<in> set t" "s \<in> set t" "k r = k s"
  shows "r = s"
  using assms by (metis find_key option.inject)

section \<open>At most one row of a kind\<close>

text \<open>
  A partial unique index \<open>UNIQUE (key) WHERE live\<close> says that, for every key, at most one
  row is live.
\<close>

definition unique_where :: "('r \<Rightarrow> bool) \<Rightarrow> ('r \<Rightarrow> 'k) \<Rightarrow> 'r list \<Rightarrow> bool" where
  "unique_where live key t \<longleftrightarrow> distinct (map key (filter live t))"

lemma unique_where_Nil [simp]: "unique_where live key []"
  by (simp add: unique_where_def)

lemma unique_where_insert:
  "unique_where live key (t @ [r]) \<longleftrightarrow>
    unique_where live key t \<and> (live r \<longrightarrow> (\<forall>s \<in> set t. live s \<longrightarrow> key s \<noteq> key r))"
  by (simp add: unique_where_def image_iff) metis

lemma unique_where_update:
  assumes "unique_where live key t"
    and "\<And>r. P r \<Longrightarrow> live (f r) \<Longrightarrow> live r" and "\<And>r. P r \<Longrightarrow> live (f r) \<Longrightarrow> key (f r) = key r"
  shows "unique_where live key (update_rows P f t)"
  using assms
proof (induction t)
  case (Cons r t)
  have sub: "key ` {s \<in> set (update_rows P f t). live s} \<subseteq> key ` {s \<in> set t. live s}"
    using Cons.prems(2,3) by (force simp: set_update_rows)
  have IH: "unique_where live key (update_rows P f t)"
    using Cons by (simp add: unique_where_def split: if_splits)
  show ?case
  proof (cases "live (if P r then f r else r)")
    case True
    then have "live r" and k: "key (if P r then f r else r) = key r"
      using Cons.prems(2,3) by (auto split: if_splits)
    then have "key r \<notin> key ` {s \<in> set t. live s}"
      using Cons.prems(1) by (simp add: unique_where_def)
    with sub k IH True show ?thesis
      by (auto simp: unique_where_def)
  next
    case False
    with IH show ?thesis by (simp add: unique_where_def)
  qed
qed simp

lemma unique_where_delete: "unique_where live key t \<Longrightarrow> unique_where live key (delete_rows P t)"
  unfolding unique_where_def delete_rows_def
  by (induction t) auto

lemma unique_where_eq:
  assumes "unique_where live key t" "r \<in> set t" "s \<in> set t" "live r" "live s" "key r = key s"
  shows "r = s"
  using assms distinct_key_eq [of key "filter live t" r s] by (simp add: unique_where_def)

section \<open>Case folding\<close>

text \<open>\<open>lower(text)\<close> and \<open>toLowerCase()\<close> on ASCII text.\<close>

definition lower_char :: "char \<Rightarrow> char" where
  "lower_char c = (let n = of_char c :: nat in if 65 \<le> n \<and> n \<le> 90 then char_of (n + 32) else c)"

definition lower :: "string \<Rightarrow> string" where
  "lower s = map lower_char s"

lemma lower_char_idem [simp]: "lower_char (lower_char c) = lower_char c"
  by (simp add: lower_char_def Let_def)

lemma lower_idem [simp]: "lower (lower s) = lower s"
  by (simp add: lower_def o_def)

section \<open>JSON values\<close>

text \<open>
  A JSON value. Numbers are integers here: the numbers the modelled code inspects are
  revisions, counts and sizes. An object is the list of its entries in order; an absent
  property (\<open>undefined\<close>) is \<^const>\<open>None\<close>.
\<close>

datatype json = JNull | JBool bool | JNum int | JStr string | JArr "json list" | JObj "(string \<times> json) list"

type_synonym jobj = "(string \<times> json) list"

definition jprop :: "jobj \<Rightarrow> string \<Rightarrow> json option" where
  "jprop obj key = map_of obj key"

text \<open>
  Setting a property, and spreading one object into another: a key that is present keeps its
  place, a new one goes to the end. A \<open>Map\<close> of JavaScript behaves the same under \<open>set\<close>.
\<close>

definition js_set :: "'k \<Rightarrow> 'v \<Rightarrow> ('k \<times> 'v) list \<Rightarrow> ('k \<times> 'v) list" where
  "js_set k v m = AList.update k v m"

definition spread :: "('k \<times> 'v) list \<Rightarrow> ('k \<times> 'v) list \<Rightarrow> ('k \<times> 'v) list" where
  "spread m n = foldl (\<lambda>acc (k, v). js_set k v acc) m n"

lemma map_of_js_set [simp]: "map_of (js_set k v m) = (map_of m)(k \<mapsto> v)"
  by (simp add: js_set_def update_conv')

lemma jprop_js_set [simp]: "jprop (js_set k v m) k' = (if k' = k then Some v else jprop m k')"
  by (simp add: jprop_def)

lemma spread_simps [simp]:
  "spread m [] = m" "spread m ((k, v) # n) = spread (js_set k v m) n"
  by (simp_all add: spread_def)

definition is_string :: "json option \<Rightarrow> bool" where
  "is_string v = (case v of Some (JStr _) \<Rightarrow> True | _ \<Rightarrow> False)"

definition is_number :: "json option \<Rightarrow> bool" where
  "is_number v = (case v of Some (JNum _) \<Rightarrow> True | _ \<Rightarrow> False)"

definition as_object :: "json option \<Rightarrow> jobj option" where
  "as_object v = (case v of Some (JObj kvs) \<Rightarrow> Some kvs | _ \<Rightarrow> None)"

definition as_string :: "json option \<Rightarrow> string option" where
  "as_string v = (case v of Some (JStr s) \<Rightarrow> Some s | _ \<Rightarrow> None)"

definition as_number :: "json option \<Rightarrow> int option" where
  "as_number v = (case v of Some (JNum n) \<Rightarrow> Some n | _ \<Rightarrow> None)"

fun digits :: "nat \<Rightarrow> string" where
  "digits n = (if n < 10 then [char_of (48 + n)] else digits (n div 10) @ [char_of (48 + n mod 10)])"

declare digits.simps [simp del]

text \<open>
  \<open>payload->>'key'\<close> of a \<open>jsonb\<close> column. It is only compared with identifiers and names, which
  neither an array nor an object renders to.
\<close>

definition json_text :: "json option \<Rightarrow> string option" where
  "json_text v = (case v of Some (JStr s) \<Rightarrow> Some s
    | Some (JNum n) \<Rightarrow> Some ((if n < 0 then ''-'' else []) @ digits (nat \<bar>n\<bar>))
    | Some (JBool b) \<Rightarrow> Some (if b then ''true'' else ''false'') | _ \<Rightarrow> None)"

text \<open>JavaScript truthiness and \<open>String(v)\<close>.\<close>

definition truthy :: "json option \<Rightarrow> bool" where
  "truthy v = (case v of None \<Rightarrow> False | Some JNull \<Rightarrow> False | Some (JBool b) \<Rightarrow> b
    | Some (JNum n) \<Rightarrow> n \<noteq> 0 | Some (JStr s) \<Rightarrow> s \<noteq> [] | Some _ \<Rightarrow> True)"

definition string_of_int :: "int \<Rightarrow> string" where
  "string_of_int i = (if i < 0 then CHR ''-'' # digits (nat (- i)) else digits (nat i))"

fun intercalate :: "string \<Rightarrow> string list \<Rightarrow> string" where
  "intercalate sep [] = []"
| "intercalate sep [s] = s"
| "intercalate sep (s # ss) = s @ sep @ intercalate sep ss"

fun json_String :: "json \<Rightarrow> string" where
  "json_String JNull = ''null''"
| "json_String (JBool b) = (if b then ''true'' else ''false'')"
| "json_String (JNum n) = string_of_int n"
| "json_String (JStr s) = s"
| "json_String (JArr vs) =
     intercalate '','' (map (\<lambda>v. case v of JNull \<Rightarrow> [] | _ \<Rightarrow> json_String v) vs)"
| "json_String (JObj kvs) = ''[object Object]''"

definition js_String :: "json option \<Rightarrow> string" where
  "js_String v = (case v of None \<Rightarrow> ''undefined'' | Some j \<Rightarrow> json_String j)"

text \<open>
  Equality of \<open>jsonb\<close> values: the order of the keys of an object and the entries a later
  entry of the same key replaces do not count.
\<close>

fun last_entries :: "jobj \<Rightarrow> jobj" where
  "last_entries [] = []"
| "last_entries ((k, v) # kvs) =
     (if k \<in> fst ` set kvs then last_entries kvs else (k, v) # last_entries kvs)"

fun jsonb :: "json \<Rightarrow> json" where
  "jsonb (JArr vs) = JArr (map jsonb vs)"
| "jsonb (JObj kvs) = JObj (sort_key fst (last_entries (map (\<lambda>(k, v). (k, jsonb v)) kvs)))"
| "jsonb v = v"

definition jsonb_eq :: "json \<Rightarrow> json \<Rightarrow> bool" where
  "jsonb_eq a b \<longleftrightarrow> jsonb a = jsonb b"

lemma jsonb_eq_refl [simp]: "jsonb_eq a a"
  by (simp add: jsonb_eq_def)

section \<open>Failures of a statement\<close>

text \<open>
  What a statement of the store can raise: a violated unique index (SQLSTATE 23505), a
  violated \<open>CHECK\<close>, an exception raised by a trigger, and an \<open>Error\<close> thrown by the
  TypeScript code itself. A transaction that raises is rolled back, so an error carries no
  state. An operation that is refused because one like it is under way returns \<open>'active'\<close>, one
  whose target is missing or disabled returns \<open>null\<close>.
\<close>

datatype 'a outcome = Accepted 'a | Active | NotFound

datatype pg_error = UniqueViolation | CheckViolation | TriggerException string | JsError string

end
