(* ===== verification/Gw_Types.thy ===== *)
theory Gw_Types
  imports Gw_Prelude
begin

text \<open>
  The data types of the control plane: the interfaces and unions of
  \<^verbatim>\<open>server/src/types.ts\<close> as records and datatypes. A field of interface \<open>I\<close> named \<open>f\<close>
  is \<open>I_f\<close>; a union of string literals is a datatype with one constructor per literal; a
  field of type \<open>T | null\<close> is an option; a time stamp keeps its numeric value instead of its
  ISO rendering.
\<close>

section \<open>Users, connectors and Cloudflare accounts\<close>

datatype Role = Owner | Operator | Viewer

record User =
  User_id :: uuid
  User_email :: string
  User_role :: Role
  User_passwordHash :: string

datatype IdentityStatus = IParsed | IPending | IVerified | IUnmatched | IMismatch | IInvalid | IFailed
datatype ConnectorDeploymentStatus = KPending | KDeploying | KActive | KFailed | KStopping | KStopped
datatype ConnectorRuntimeStatus = RtUnknown | RtConnected | RtOriginUnhealthy | RtReconnecting | RtStopped | RtFailed

record Connector =
  Connector_id :: uuid
  Connector_agentId :: uuid
  Connector_name :: string
  Connector_enabled :: bool
  Connector_cloudflareAccountId :: "uuid option"
  Connector_tunnelId :: "string option"
  Connector_desiredRevision :: int
  Connector_tokenAccountIdentifier :: "string option"
  Connector_tokenTunnelId :: "string option"
  Connector_identityStatus :: IdentityStatus
  Connector_identityVerifiedAt :: "time option"
  Connector_identityError :: "string option"
  Connector_deploymentStatus :: ConnectorDeploymentStatus
  Connector_runtimeStatus :: ConnectorRuntimeStatus
  Connector_lastError :: "string option"
  Connector_lastDeployedAt :: "time option"
  Connector_lastObservedAt :: "time option"
  Connector_createdAt :: time
  Connector_updatedAt :: time

record ConnectorDeployment =
  ConnectorDeployment_connectorId :: uuid
  ConnectorDeployment_agentId :: uuid
  ConnectorDeployment_name :: string
  ConnectorDeployment_enabled :: bool
  ConnectorDeployment_desiredRevision :: int
  ConnectorDeployment_encryptedToken :: string
  ConnectorDeployment_cloudflareAccountId :: "uuid option"
  ConnectorDeployment_tunnelId :: "string option"
  ConnectorDeployment_tokenAccountIdentifier :: "string option"
  ConnectorDeployment_tokenTunnelId :: "string option"
  ConnectorDeployment_identityStatus :: IdentityStatus

record ConnectorIdentityExpectation =
  Expectation_desiredRevision :: int
  Expectation_encryptedToken :: string

record CloudflareAccount =
  CloudflareAccount_id :: uuid
  CloudflareAccount_name :: string
  CloudflareAccount_accountIdentifier :: string
  CloudflareAccount_configured :: bool
  CloudflareAccount_enabled :: bool
  CloudflareAccount_lastSyncedAt :: "time option"
  CloudflareAccount_lastErrorAt :: "time option"
  CloudflareAccount_lastError :: "string option"
  CloudflareAccount_createdAt :: time
  CloudflareAccount_updatedAt :: time

record CloudflareAccountSecret = CloudflareAccount +
  CloudflareAccountSecret_encryptedApiToken :: string

record CloudflareAccountDeletionDependencies =
  Dependencies_connectors :: nat
  Dependencies_domainAccess :: nat
  Dependencies_guidedOperations :: nat

record CloudflareZone =
  CloudflareZone_id :: uuid
  CloudflareZone_cloudflareAccountId :: uuid
  CloudflareZone_zoneIdentifier :: string
  CloudflareZone_name :: string
  CloudflareZone_status :: string
  CloudflareZone_createdAt :: time
  CloudflareZone_updatedAt :: time

section \<open>Domain access\<close>

datatype RecordType = RecA | RecAAAA | RecCNAME
datatype RecordStatus = RecActive | RecCleanupPending | RecDeleted
datatype AccessMethod = Tunnel | PublicIp
datatype Exposure = ExpTunnel | ExpPublic
datatype DomainStatus = DomPending | DomActive | DomFailed | DomDisabled
datatype TlsStatus = TlsNotObserved | TlsValid | TlsExpiring | TlsExpired | TlsError
datatype DeploymentStatus = DepPending | DepActive | DepFailed

record DomainAccessDnsRecord =
  DnsRecord_type :: RecordType
  DnsRecord_content :: string
  DnsRecord_cloudflareRecordId :: string
  DnsRecord_ownershipMarker :: string
  DnsRecord_status :: RecordStatus
  DnsRecord_lastError :: "string option"

record CloudflareDomainAccess =
  DomainAccess_id :: uuid
  DomainAccess_cloudflareZoneId :: uuid
  DomainAccess_cloudflareAccountId :: uuid
  DomainAccess_connectorId :: "uuid option"
  DomainAccess_routeId :: uuid
  DomainAccess_hostname :: string
  DomainAccess_accessMethod :: AccessMethod
  DomainAccess_publicIpv4 :: "string list"
  DomainAccess_publicIpv6 :: "string list"
  DomainAccess_ownedDnsRecords :: "DomainAccessDnsRecord list"
  DomainAccess_dnsRecordId :: "string option"
  DomainAccess_enabled :: bool
  DomainAccess_revision :: int
  DomainAccess_proxied :: bool
  DomainAccess_status :: DomainStatus
  DomainAccess_lastError :: "string option"
  DomainAccess_lastReconciledAt :: "time option"
  DomainAccess_tlsStatus :: TlsStatus
  DomainAccess_tlsIssuer :: "string option"
  DomainAccess_tlsValidTo :: "time option"
  DomainAccess_tlsObservedAt :: "time option"
  DomainAccess_tlsError :: "string option"
  DomainAccess_createdAt :: time
  DomainAccess_updatedAt :: time

record CloudflareDomainAccessDeployment = CloudflareDomainAccess +
  DomainDeployment_accountIdentifier :: string
  DomainDeployment_encryptedApiToken :: string
  DomainDeployment_zoneIdentifier :: string
  DomainDeployment_zoneName :: string
  DomainDeployment_zoneStatus :: string
  DomainDeployment_zoneAccountId :: uuid
  DomainDeployment_accountEnabled :: bool
  DomainDeployment_routeEnabled :: bool
  DomainDeployment_routeStatus :: DeploymentStatus
  DomainDeployment_routeExposure :: Exposure
  DomainDeployment_routeAgentId :: uuid
  DomainDeployment_routeHostname :: string
  DomainDeployment_connectorEnabled :: "bool option"
  DomainDeployment_connectorAgentId :: "uuid option"
  DomainDeployment_connectorAccountId :: "uuid option"
  DomainDeployment_connectorIdentityStatus :: "IdentityStatus option"
  DomainDeployment_connectorTokenAccountIdentifier :: "string option"
  DomainDeployment_connectorTokenTunnelId :: "string option"
  DomainDeployment_tunnelId :: "string option"

datatype GuidedKind = CloudflareBootstrap | DomainPublish
datatype GuidedStatus = GPending | GWaiting | GSucceeded | GFailed

record GuidedOperation =
  Guided_id :: uuid
  Guided_kind :: GuidedKind
  Guided_idempotencyKey :: string
  Guided_requestedByUserId :: uuid
  Guided_requestHash :: string
  Guided_encryptedRequest :: "string option"
  Guided_status :: GuidedStatus
  Guided_stage :: string
  Guided_cloudflareAccountId :: "uuid option"
  Guided_connectorId :: "uuid option"
  Guided_routeId :: "uuid option"
  Guided_domainAccessId :: "uuid option"
  Guided_remoteTunnelId :: "string option"
  Guided_remoteTunnelName :: "string option"
  Guided_result :: "jobj option"
  Guided_error :: "string option"
  Guided_verificationDeadlineAt :: "time option"
  Guided_verificationAttempts :: int
  Guided_createdAt :: time
  Guided_updatedAt :: time
  Guided_completedAt :: "time option"

record TlsObservationTarget =
  TlsTarget_domainAccessId :: uuid
  TlsTarget_hostname :: string
  TlsTarget_agentId :: uuid

record TlsObservation =
  TlsObservation_status :: TlsStatus
  TlsObservation_issuer :: "string option"
  TlsObservation_validTo :: "time option"
  TlsObservation_error :: "string option"

section \<open>Agents and their commands\<close>

datatype HealthStatus = HPending | HConnected | HDegraded | HOffline

record Agent =
  Agent_id :: uuid
  Agent_name :: string
  Agent_enabled :: bool
  Agent_enrolledAt :: "time option"
  Agent_lastHeartbeatAt :: "time option"
  Agent_lastTelemetryAt :: "time option"
  Agent_lastCommandPollAt :: "time option"
  Agent_lastCommandResultAt :: "time option"
  Agent_healthStatus :: HealthStatus
  Agent_diagnostics :: "json option"
  Agent_metadata :: "jobj option"
  Agent_createdAt :: time

datatype CommandStatus = CmdPending | CmdClaimed | CmdSucceeded | CmdFailed

record AgentCommand =
  AgentCommand_id :: uuid
  AgentCommand_agentId :: uuid
  AgentCommand_type :: string
  AgentCommand_payload :: jobj
  AgentCommand_status :: CommandStatus
  AgentCommand_result :: "jobj option"

section \<open>Stacks, deployments and routes\<close>

record PostgresBackupConfig =
  PgConfig_service :: string
  PgConfig_database :: string
  PgConfig_user :: string

record ManagedStack =
  ManagedStack_id :: uuid
  ManagedStack_agentId :: uuid
  ManagedStack_name :: string
  ManagedStack_projectName :: string
  ManagedStack_enabled :: bool
  ManagedStack_configured :: bool
  ManagedStack_revision :: int
  ManagedStack_status :: DeploymentStatus
  ManagedStack_postgresBackupConfig :: "PostgresBackupConfig option"
  ManagedStack_createdAt :: time
  ManagedStack_updatedAt :: time

record StackDeployment = ManagedStack +
  StackDeployment_encryptedComposeYaml :: string

record ManagedRoute =
  ManagedRoute_id :: uuid
  ManagedRoute_gatewayAgentId :: uuid
  ManagedRoute_name :: string
  ManagedRoute_hostname :: string
  ManagedRoute_exposure :: Exposure
  ManagedRoute_backends :: "string list"
  ManagedRoute_enabled :: bool
  ManagedRoute_revision :: int
  ManagedRoute_status :: DeploymentStatus
  ManagedRoute_createdAt :: time
  ManagedRoute_updatedAt :: time

datatype OperationStatus = OpPending | OpRunning | OpSucceeded | OpFailed
datatype RunAction = Deploy | Rollback | StopRun
datatype DeploymentState = DsPending | DsDeploying | DsActive | DsStopping | DsStopped | DsFailed

record DeploymentRevision =
  Revision_id :: uuid
  Revision_deploymentId :: uuid
  Revision_commitSha :: string
  Revision_composePath :: string
  Revision_checksum :: string
  Revision_policyVersion :: int
  Revision_policyResult :: json
  Revision_createdByUserId :: uuid
  Revision_createdAt :: time

record DeploymentRun =
  Run_id :: uuid
  Run_deploymentId :: uuid
  Run_revisionId :: uuid
  Run_priorRevisionId :: "uuid option"
  Run_agentId :: uuid
  Run_commandId :: uuid
  Run_action :: RunAction
  Run_status :: OperationStatus
  Run_result :: "jobj option"
  Run_error :: "string option"
  Run_startedAt :: "time option"
  Run_completedAt :: "time option"
  Run_createdAt :: time
  Run_updatedAt :: time

record Deployment =
  Deployment_id :: uuid
  Deployment_agentId :: uuid
  Deployment_displayName :: string
  Deployment_projectName :: string
  Deployment_sourceRepository :: string
  Deployment_enabled :: bool
  Deployment_currentRevisionId :: "uuid option"
  Deployment_status :: DeploymentState
  Deployment_revisions :: "DeploymentRevision list"
  Deployment_latestRun :: "DeploymentRun option"
  Deployment_createdAt :: time
  Deployment_updatedAt :: time

record DeploymentCommandSource = DeploymentRevision +
  CommandSource_agentId :: uuid
  CommandSource_projectName :: string
  CommandSource_encryptedNormalizedCompose :: string
  CommandSource_priorRevisionId :: "uuid option"
  CommandSource_encryptedPriorNormalizedCompose :: "string option"
  CommandSource_action :: RunAction
  CommandSource_runId :: uuid
  CommandSource_commandId :: uuid

section \<open>Notifications\<close>

datatype OperationalEventType =
    AgentOffline | AgentRecovered | ServiceUnhealthy | ServiceStopped | ServiceRecovered
  | DeploymentFailed | DeploymentSucceeded | CertificateExpiring | BackupFailed
  | BackupSucceeded | RuntimeActionSucceeded | RuntimeActionFailed

definition OPERATIONAL_EVENT_TYPES :: "OperationalEventType list" where
  "OPERATIONAL_EVENT_TYPES =
     [AgentOffline, AgentRecovered, ServiceUnhealthy, ServiceStopped, ServiceRecovered,
      DeploymentFailed, DeploymentSucceeded, CertificateExpiring, BackupFailed, BackupSucceeded,
      RuntimeActionSucceeded, RuntimeActionFailed]"

text \<open>The string literal of an event type, as it is stored and compared.\<close>

fun event_name :: "OperationalEventType \<Rightarrow> string" where
  "event_name AgentOffline = ''agent.offline''"
| "event_name AgentRecovered = ''agent.recovered''"
| "event_name ServiceUnhealthy = ''service.unhealthy''"
| "event_name ServiceStopped = ''service.stopped''"
| "event_name ServiceRecovered = ''service.recovered''"
| "event_name DeploymentFailed = ''deployment.failed''"
| "event_name DeploymentSucceeded = ''deployment.succeeded''"
| "event_name CertificateExpiring = ''certificate.expiring''"
| "event_name BackupFailed = ''backup.failed''"
| "event_name BackupSucceeded = ''backup.succeeded''"
| "event_name RuntimeActionSucceeded = ''runtime.action.succeeded''"
| "event_name RuntimeActionFailed = ''runtime.action.failed''"

text \<open>
  \<open>[...new Set(xs)]\<close> keeps the first occurrence of each element, in order.
\<close>

fun new_set :: "'a list \<Rightarrow> 'a list" where
  "new_set [] = []"
| "new_set (x # xs) = x # filter (\<lambda>y. y \<noteq> x) (new_set xs)"

definition OPERATIONAL_EVENT_TYPE_SET :: "string set" where
  "OPERATIONAL_EVENT_TYPE_SET = set (map event_name OPERATIONAL_EVENT_TYPES)"

definition sanitizeOperationalEventTypes :: "json option \<Rightarrow> string list" where
  "sanitizeOperationalEventTypes value =
     (case value of
        Some (JArr items) \<Rightarrow>
          new_set (List.map_filter
            (\<lambda>item. case item of
                JStr s \<Rightarrow> if s \<in> OPERATIONAL_EVENT_TYPE_SET then Some s else None
              | _ \<Rightarrow> None) items)
      | _ \<Rightarrow> [])"

datatype RuntimeServiceStatus = SvcHealthy | SvcUnhealthy | SvcStarting | SvcCompleted | SvcRunning | SvcStopped | SvcUnknown

record NotificationSettings =
  Settings_configured :: bool
  Settings_selectedEvents :: "string list"

record NotificationServicePreference =
  ServicePref_projectName :: string
  ServicePref_serviceName :: string
  ServicePref_status :: string
  ServicePref_discovered :: bool
  ServicePref_enabled :: bool
  ServicePref_inherited :: bool
  ServicePref_directlyEnabled :: bool

record NotificationAgentPreference =
  AgentPref_id :: uuid
  AgentPref_name :: string
  AgentPref_healthStatus :: HealthStatus
  AgentPref_lastTelemetryAt :: "time option"
  AgentPref_enabled :: bool
  AgentPref_services :: "NotificationServicePreference list"

record NotificationTopology = NotificationSettings +
  Topology_agents :: "NotificationAgentPreference list"
  Topology_truncatedAgents :: bool
  Topology_truncatedServices :: bool
  Topology_truncatedScopes :: bool

record NotificationDelivery =
  Delivery_id :: uuid
  Delivery_eventId :: uuid
  Delivery_eventType :: OperationalEventType
  Delivery_payload :: jobj
  Delivery_occurredAt :: time
  Delivery_attempts :: int
  Delivery_agentId :: "uuid option"
  Delivery_projectName :: "string option"
  Delivery_serviceName :: "string option"

section \<open>Telemetry, runtime operations, backups and system recovery\<close>

record TelemetrySnapshot =
  Telemetry_agentId :: uuid
  Telemetry_observedAt :: time
  Telemetry_node :: jobj
  Telemetry_services :: "jobj list"
  Telemetry_receivedAt :: time

datatype RuntimeAction = ActStart | ActStop | ActRestart
datatype RuntimeScope = ScopeProject | ScopeService

record RuntimeOperation =
  RuntimeOp_id :: uuid
  RuntimeOp_requestedByUserId :: uuid
  RuntimeOp_agentId :: uuid
  RuntimeOp_commandId :: "uuid option"
  RuntimeOp_action :: RuntimeAction
  RuntimeOp_scope :: RuntimeScope
  RuntimeOp_projectName :: string
  RuntimeOp_serviceName :: "string option"
  RuntimeOp_status :: OperationStatus
  RuntimeOp_result :: "jobj option"
  RuntimeOp_error :: "string option"
  RuntimeOp_createdAt :: time
  RuntimeOp_updatedAt :: time
  RuntimeOp_completedAt :: "time option"

record RuntimeLogRequest =
  LogRequest_id :: uuid
  LogRequest_requestedByUserId :: uuid
  LogRequest_agentId :: uuid
  LogRequest_commandId :: "uuid option"
  LogRequest_projectName :: string
  LogRequest_serviceName :: string
  LogRequest_tail :: int
  LogRequest_since :: "time option"
  LogRequest_status :: OperationStatus
  LogRequest_result :: "jobj option"
  LogRequest_error :: "string option"
  LogRequest_createdAt :: time
  LogRequest_updatedAt :: time
  LogRequest_completedAt :: "time option"

record RuntimeInventory =
  Inventory_agent :: Agent
  Inventory_latest :: "TelemetrySnapshot option"

datatype BackupTarget = TargetLocal | TargetNas

record StackBackup =
  StackBackup_id :: uuid
  StackBackup_stackId :: uuid
  StackBackup_agentId :: uuid
  StackBackup_commandId :: uuid
  StackBackup_requestedByUserId :: uuid
  StackBackup_target :: BackupTarget
  StackBackup_stackRevision :: int
  StackBackup_status :: OperationStatus
  StackBackup_result :: "jobj option"
  StackBackup_createdAt :: time
  StackBackup_updatedAt :: time
  StackBackup_completedAt :: "time option"

record StackRestore =
  StackRestore_id :: uuid
  StackRestore_stackId :: uuid
  StackRestore_backupId :: uuid
  StackRestore_agentId :: uuid
  StackRestore_commandId :: uuid
  StackRestore_requestedByUserId :: uuid
  StackRestore_status :: OperationStatus
  StackRestore_result :: "jobj option"
  StackRestore_createdAt :: time
  StackRestore_updatedAt :: time
  StackRestore_completedAt :: "time option"

datatype SystemBackupStatus = SbRunning | SbSucceeded | SbFailed
datatype BackupSource = Created | Imported

record StoredSystemBackup =
  SystemBackup_id :: uuid
  SystemBackup_requestedByUserId :: uuid
  SystemBackup_target :: BackupTarget
  SystemBackup_status :: SystemBackupStatus
  SystemBackup_sizeBytes :: "int option"
  SystemBackup_checksum :: "string option"
  SystemBackup_error :: "string option"
  SystemBackup_createdAt :: time
  SystemBackup_completedAt :: "time option"
  SystemBackup_source :: BackupSource
  SystemBackup_metadata :: jobj
  SystemBackup_artifactPath :: string

datatype SystemRestoreStatus = SrStaging | SrStaged | SrFailed

record SystemRestore =
  SystemRestore_id :: uuid
  SystemRestore_backupId :: uuid
  SystemRestore_requestedByUserId :: uuid
  SystemRestore_status :: SystemRestoreStatus
  SystemRestore_error :: "string option"
  SystemRestore_createdAt :: time
  SystemRestore_completedAt :: "time option"

datatype ImportStatus = ImUploading | ImUploaded | ImValidating | ImImported | ImRejected

record SystemBackupImport =
  SystemImport_id :: uuid
  SystemImport_requestedByUserId :: uuid
  SystemImport_status :: ImportStatus
  SystemImport_quarantinePath :: string
  SystemImport_sizeBytes :: "int option"
  SystemImport_checksum :: "string option"
  SystemImport_backupId :: "uuid option"
  SystemImport_error :: "string option"
  SystemImport_createdAt :: time
  SystemImport_updatedAt :: time
  SystemImport_completedAt :: "time option"
  SystemImport_validationRevision :: int

section \<open>Event types are closed under sanitising\<close>

lemma set_new_set [simp]: "set (new_set xs) = set xs"
  by (induction xs) auto

lemma distinct_new_set [simp]: "distinct (new_set xs)"
  by (induction xs) auto

lemma inj_event_name: "inj event_name"
proof (rule injI)
  fix a b :: OperationalEventType
  assume "event_name a = event_name b"
  then show "a = b" by (cases a; cases b) simp_all
qed

lemma event_name_known: "event_name e \<in> OPERATIONAL_EVENT_TYPE_SET"
  by (cases e) (simp_all add: OPERATIONAL_EVENT_TYPE_SET_def OPERATIONAL_EVENT_TYPES_def)

lemma sanitize_known:
  "set (sanitizeOperationalEventTypes v) \<subseteq> OPERATIONAL_EVENT_TYPE_SET"
  by (auto simp: sanitizeOperationalEventTypes_def List.map_filter_def
      split: option.splits json.splits if_splits)

lemma sanitize_distinct: "distinct (sanitizeOperationalEventTypes v)"
  by (auto simp: sanitizeOperationalEventTypes_def split: option.splits json.splits)

end
