(* ===== verification/Gw_Schema.thy ===== *)
theory Gw_Schema
  imports Gw_Types
begin

text \<open>
  The database of the control plane, as the migrations under \<^verbatim>\<open>server/migrations\<close> leave it:
  one record per table, one list of rows per table, in the order of insertion. A column \<open>c\<close>
  of a row is a field with the prefix of its table. Foreign keys and the length bounds of
  text columns are not part of the model; the unique indexes, the triggers and the checks the
  store relies on are stated where it relies on them.
\<close>

record user_row =
  usr_id :: uuid
  usr_email :: string
  usr_password_hash :: string
  usr_role :: Role
  usr_created_at :: time

record session_row =
  ses_user_id :: uuid
  ses_token_hash :: string
  ses_expires_at :: time
  ses_last_seen_at :: time

record connector_row =
  con_id :: uuid
  con_name :: string
  con_token_encrypted :: string
  con_enabled :: bool
  con_agent_id :: uuid
  con_cloudflare_account_id :: "uuid option"
  con_tunnel_id :: "string option"
  con_desired_revision :: int
  con_token_account_identifier :: "string option"
  con_token_tunnel_id :: "string option"
  con_identity_status :: IdentityStatus
  con_identity_verified_at :: "time option"
  con_identity_error :: "string option"
  con_deployment_status :: ConnectorDeploymentStatus
  con_runtime_status :: ConnectorRuntimeStatus
  con_last_error :: "string option"
  con_last_deployed_at :: "time option"
  con_last_observed_at :: "time option"
  con_created_at :: time
  con_updated_at :: time

record account_row =
  acc_id :: uuid
  acc_name :: string
  acc_account_identifier :: string
  acc_api_token_encrypted :: string
  acc_enabled :: bool
  acc_last_synced_at :: "time option"
  acc_last_error_at :: "time option"
  acc_last_error :: "string option"
  acc_created_at :: time
  acc_updated_at :: time

record zone_row =
  zon_id :: uuid
  zon_cloudflare_account_id :: uuid
  zon_zone_identifier :: string
  zon_name :: string
  zon_status :: string
  zon_created_at :: time
  zon_updated_at :: time

record domain_row =
  dom_id :: uuid
  dom_cloudflare_zone_id :: uuid
  dom_cloudflare_account_id :: uuid
  dom_connector_id :: "uuid option"
  dom_route_id :: uuid
  dom_hostname :: string
  dom_access_method :: AccessMethod
  dom_public_ipv4 :: "string list"
  dom_public_ipv6 :: "string list"
  dom_dns_record_id :: "string option"
  dom_enabled :: bool
  dom_revision :: int
  dom_proxied :: bool
  dom_status :: DomainStatus
  dom_last_error :: "string option"
  dom_last_reconciled_at :: "time option"
  dom_tls_status :: TlsStatus
  dom_tls_issuer :: "string option"
  dom_tls_valid_to :: "time option"
  dom_tls_observed_at :: "time option"
  dom_tls_error :: "string option"
  dom_deployed_account_identifier :: string
  dom_deployed_zone_identifier :: string
  dom_deployed_tunnel_id :: "string option"
  dom_created_at :: time
  dom_updated_at :: time

record dns_row =
  dns_domain_access_id :: uuid
  dns_record_type :: RecordType
  dns_content :: string
  dns_cloudflare_record_id :: string
  dns_ownership_marker :: string
  dns_status :: RecordStatus
  dns_last_error :: "string option"
  dns_created_at :: time

record guided_row =
  gop_id :: uuid
  gop_kind :: GuidedKind
  gop_idempotency_key :: string
  gop_requested_by_user_id :: uuid
  gop_request_hash :: string
  gop_request_encrypted :: "string option"
  gop_status :: GuidedStatus
  gop_stage :: string
  gop_cloudflare_account_id :: "uuid option"
  gop_connector_id :: "uuid option"
  gop_route_id :: "uuid option"
  gop_domain_access_id :: "uuid option"
  gop_remote_tunnel_id :: "string option"
  gop_remote_tunnel_name :: "string option"
  gop_result :: "jobj option"
  gop_error :: "string option"
  gop_verification_deadline_at :: "time option"
  gop_verification_attempts :: int
  gop_created_at :: time
  gop_updated_at :: time
  gop_completed_at :: "time option"

record agent_row =
  ag_id :: uuid
  ag_name :: string
  ag_enabled :: bool
  ag_enrollment_token_hash :: "string option"
  ag_enrollment_expires_at :: "time option"
  ag_enrolled_at :: "time option"
  ag_credential_hash :: "string option"
  ag_last_heartbeat_at :: "time option"
  ag_last_metadata :: "jobj option"
  ag_offline_detected_at :: "time option"
  ag_archived_at :: "time option"
  ag_last_telemetry_at :: "time option"
  ag_last_command_poll_at :: "time option"
  ag_last_command_result_at :: "time option"
  ag_last_diagnostics :: "json option"
  ag_created_at :: time

record command_row =
  cmd_id :: uuid
  cmd_agent_id :: uuid
  cmd_type :: string
  cmd_payload :: jobj
  cmd_status :: CommandStatus
  cmd_claimed_at :: "time option"
  cmd_completed_at :: "time option"
  cmd_result :: "jobj option"
  cmd_created_at :: time
  cmd_attempts :: int
  cmd_lease_expires_at :: "time option"

record stack_row =
  stk_id :: uuid
  stk_agent_id :: uuid
  stk_name :: string
  stk_project_name :: string
  stk_compose_yaml_encrypted :: string
  stk_enabled :: bool
  stk_revision :: int
  stk_status :: DeploymentStatus
  stk_postgres_backup_config :: "PostgresBackupConfig option"
  stk_created_at :: time
  stk_updated_at :: time

record route_row =
  rte_id :: uuid
  rte_gateway_agent_id :: uuid
  rte_name :: string
  rte_hostname :: string
  rte_exposure :: Exposure
  rte_backends :: "string list"
  rte_enabled :: bool
  rte_revision :: int
  rte_status :: DeploymentStatus
  rte_created_at :: time
  rte_updated_at :: time

record deployment_row =
  dpl_id :: uuid
  dpl_agent_id :: uuid
  dpl_display_name :: string
  dpl_project_name :: string
  dpl_source_repository :: string
  dpl_enabled :: bool
  dpl_current_revision_id :: "uuid option"
  dpl_status :: DeploymentState
  dpl_created_by_user_id :: uuid
  dpl_created_at :: time
  dpl_updated_at :: time

record revision_row =
  rev_id :: uuid
  rev_deployment_id :: uuid
  rev_commit_sha :: string
  rev_compose_path :: string
  rev_source_compose_encrypted :: string
  rev_normalized_compose_encrypted :: string
  rev_checksum :: string
  rev_policy_version :: int
  rev_policy_result :: json
  rev_created_by_user_id :: uuid
  rev_created_at :: time

record run_row =
  run_id :: uuid
  run_deployment_id :: uuid
  run_revision_id :: uuid
  run_prior_revision_id :: "uuid option"
  run_agent_id :: uuid
  run_command_id :: uuid
  run_requested_by_user_id :: uuid
  run_action :: RunAction
  run_status :: OperationStatus
  run_result :: "jobj option"
  run_error :: "string option"
  run_started_at :: "time option"
  run_completed_at :: "time option"
  run_created_at :: time
  run_updated_at :: time

record settings_row =
  nst_bot_token_encrypted :: "string option"
  nst_group_id_encrypted :: "string option"
  nst_selected_events :: "string list"

record scope_row =
  scp_agent_id :: uuid
  scp_project_name :: "string option"
  scp_service_name :: "string option"
  scp_enabled :: bool
  scp_updated_by_user_id :: uuid
  scp_created_at :: time

record snapshot_row =
  tel_id :: uuid
  tel_agent_id :: uuid
  tel_observed_at :: time
  tel_node :: jobj
  tel_services :: "jobj list"
  tel_created_at :: time

record runtime_op_row =
  rop_id :: uuid
  rop_requested_by_user_id :: uuid
  rop_agent_id :: uuid
  rop_command_id :: "uuid option"
  rop_action :: RuntimeAction
  rop_scope :: RuntimeScope
  rop_project_name :: string
  rop_service_name :: "string option"
  rop_status :: OperationStatus
  rop_result :: "jobj option"
  rop_error :: "string option"
  rop_started_at :: "time option"
  rop_completed_at :: "time option"
  rop_created_at :: time
  rop_updated_at :: time

record log_request_row =
  lrq_id :: uuid
  lrq_requested_by_user_id :: uuid
  lrq_agent_id :: uuid
  lrq_command_id :: "uuid option"
  lrq_project_name :: string
  lrq_service_name :: string
  lrq_tail :: int
  lrq_since :: "time option"
  lrq_status :: OperationStatus
  lrq_result :: "jobj option"
  lrq_error :: "string option"
  lrq_started_at :: "time option"
  lrq_completed_at :: "time option"
  lrq_created_at :: time
  lrq_updated_at :: time

record backup_row =
  bkp_id :: uuid
  bkp_stack_id :: uuid
  bkp_agent_id :: uuid
  bkp_command_id :: uuid
  bkp_requested_by_user_id :: uuid
  bkp_target :: BackupTarget
  bkp_stack_revision :: int
  bkp_status :: OperationStatus
  bkp_result :: "jobj option"
  bkp_started_at :: "time option"
  bkp_completed_at :: "time option"
  bkp_created_at :: time
  bkp_updated_at :: time

record restore_row =
  rst_id :: uuid
  rst_stack_id :: uuid
  rst_backup_id :: uuid
  rst_agent_id :: uuid
  rst_command_id :: uuid
  rst_requested_by_user_id :: uuid
  rst_status :: OperationStatus
  rst_result :: "jobj option"
  rst_started_at :: "time option"
  rst_completed_at :: "time option"
  rst_created_at :: time
  rst_updated_at :: time

record system_backup_row =
  sbk_id :: uuid
  sbk_requested_by_user_id :: uuid
  sbk_target :: BackupTarget
  sbk_status :: SystemBackupStatus
  sbk_artifact_path :: string
  sbk_size_bytes :: "int option"
  sbk_checksum :: "string option"
  sbk_error :: "string option"
  sbk_source :: BackupSource
  sbk_metadata :: jobj
  sbk_created_at :: time
  sbk_completed_at :: "time option"

record import_row =
  sim_id :: uuid
  sim_requested_by_user_id :: uuid
  sim_status :: ImportStatus
  sim_quarantine_path :: string
  sim_size_bytes :: "int option"
  sim_checksum :: "string option"
  sim_backup_id :: "uuid option"
  sim_error :: "string option"
  sim_validation_revision :: int
  sim_created_at :: time
  sim_updated_at :: time
  sim_completed_at :: "time option"

record system_restore_row =
  srs_id :: uuid
  srs_backup_id :: uuid
  srs_requested_by_user_id :: uuid
  srs_status :: SystemRestoreStatus
  srs_error :: "string option"
  srs_created_at :: time
  srs_completed_at :: "time option"

datatype RecoveryStatus = RqPublishing | RqPublished | RqFailed

record recovery_row =
  srr_id :: uuid
  srr_restore_id :: uuid
  srr_requested_by_user_id :: uuid
  srr_ownership_token :: uuid
  srr_status :: RecoveryStatus
  srr_error :: "string option"
  srr_created_at :: time
  srr_updated_at :: time
  srr_completed_at :: "time option"

datatype TransferOperation = OpExport | OpImport | OpRestoreApplyRequested

record transfer_row =
  tre_requested_by_user_id :: uuid
  tre_operation :: TransferOperation
  tre_backup_id :: "uuid option"
  tre_restore_id :: "uuid option"
  tre_import_id :: "uuid option"
  tre_metadata :: jobj

record event_row =
  evt_id :: uuid
  evt_type :: OperationalEventType
  evt_agent_id :: "uuid option"
  evt_stack_id :: "uuid option"
  evt_project_name :: "string option"
  evt_service_name :: "string option"
  evt_payload :: jobj
  evt_occurred_at :: time

datatype DeliveryStatus = DlPending | DlDispatching | DlSucceeded | DlFailed | DlSkipped

record delivery_row =
  dlv_id :: uuid
  dlv_event_id :: uuid
  dlv_status :: DeliveryStatus
  dlv_attempts :: int
  dlv_next_attempt_at :: time
  dlv_claimed_at :: "time option"
  dlv_completed_at :: "time option"
  dlv_last_error :: "string option"
  dlv_created_at :: time

section \<open>The database\<close>

record db =
  users :: "user_row list"
  sessions :: "session_row list"
  connectors :: "connector_row list"
  accounts :: "account_row list"
  zones :: "zone_row list"
  domains :: "domain_row list"
  dns_records :: "dns_row list"
  guided_operations :: "guided_row list"
  agents :: "agent_row list"
  commands :: "command_row list"
  stacks :: "stack_row list"
  routes :: "route_row list"
  deployments :: "deployment_row list"
  revisions :: "revision_row list"
  runs :: "run_row list"
  settings :: "settings_row option"
  scopes :: "scope_row list"
  snapshots :: "snapshot_row list"
  runtime_ops :: "runtime_op_row list"
  log_requests :: "log_request_row list"
  backups :: "backup_row list"
  restores :: "restore_row list"
  system_backups :: "system_backup_row list"
  backup_imports :: "import_row list"
  system_restores :: "system_restore_row list"
  recovery_requests :: "recovery_row list"
  transfer_events :: "transfer_row list"
  events :: "event_row list"
  deliveries :: "delivery_row list"
  draws :: nat

definition empty_db :: db where
  "empty_db = \<lparr>users = [], sessions = [], connectors = [], accounts = [], zones = [], domains = [],
     dns_records = [], guided_operations = [], agents = [], commands = [], stacks = [], routes = [],
     deployments = [], revisions = [], runs = [], settings = None, scopes = [], snapshots = [],
     runtime_ops = [], log_requests = [], backups = [], restores = [], system_backups = [],
     backup_imports = [], system_restores = [], recovery_requests = [], transfer_events = [], events = [],
     deliveries = [], draws = 0\<rparr>"

text \<open>
  \<open>gen_random_uuid()\<close> is PostgreSQL's and \<open>randomUUID()\<close> Node's: the model takes the source of
  identifiers as a parameter \<open>gen\<close>, whose \<open>n\<close>-th draw is \<open>gen n\<close>, and counts the draws in the
  state. What the code relies on is that two draws never agree, \<open>inj gen\<close>.
\<close>

definition draw :: "(nat \<Rightarrow> uuid) \<Rightarrow> db \<Rightarrow> uuid \<times> db" where
  "draw gen d = (gen (draws d), d\<lparr>draws := Suc (draws d)\<rparr>)"

definition drawn :: "(nat \<Rightarrow> uuid) \<Rightarrow> nat \<Rightarrow> uuid set" where
  "drawn gen n = gen ` {..< n}"

lemma fresh_draw: "inj gen \<Longrightarrow> gen n \<notin> drawn gen n"
  by (auto simp: drawn_def inj_def)

lemma drawn_Suc [simp]: "drawn gen (Suc n) = insert (gen n) (drawn gen n)"
  by (auto simp: drawn_def lessThan_Suc)

lemma drawn_mono: "m \<le> n \<Longrightarrow> drawn gen m \<subseteq> drawn gen n"
  by (auto simp: drawn_def)

lemma fresh_id:
  assumes "inj gen" "f ` S \<subseteq> drawn gen n"
  shows "\<forall>r \<in> S. f r \<noteq> gen n"
proof
  fix r
  assume "r \<in> S"
  with assms(2) have "f r \<in> drawn gen n" by auto
  then show "f r \<noteq> gen n"
    using fresh_draw [OF assms(1), of n] by metis
qed

lemma draw_simps [simp]:
  "fst (draw gen d) = gen (draws d)" "snd (draw gen d) = d\<lparr>draws := Suc (draws d)\<rparr>"
  by (simp_all add: draw_def)

text \<open>A source of identifiers for concrete runs: unary numerals.\<close>

definition unary :: "nat \<Rightarrow> uuid" where
  "unary n = replicate n (CHR ''u'')"

lemma inj_unary: "inj unary"
  by (rule injI) (metis length_replicate unary_def)

end
