(* ===== verification/Gw_Rows.thy ===== *)
theory Gw_Rows
  imports Gw_Schema
begin

text \<open>
  The row mappers at the top of \<^verbatim>\<open>server/src/postgres-store.ts\<close>: each turns a row of a table
  into the interface value the store hands out, and drops what must not leave the store.
\<close>

section \<open>Users, connectors, accounts, zones and domain access\<close>

definition user :: "user_row \<Rightarrow> User" where [row_simps]:
  "user r = \<lparr>User_id = usr_id r, User_email = usr_email r, User_role = usr_role r,
     User_passwordHash = usr_password_hash r\<rparr>"

definition connector :: "connector_row \<Rightarrow> Connector" where [row_simps]:
  "connector r = \<lparr>
     Connector_id = con_id r, Connector_agentId = con_agent_id r, Connector_name = con_name r,
     Connector_enabled = con_enabled r,
     Connector_cloudflareAccountId = con_cloudflare_account_id r, Connector_tunnelId = con_tunnel_id r,
     Connector_desiredRevision = con_desired_revision r,
     Connector_tokenAccountIdentifier = con_token_account_identifier r,
     Connector_tokenTunnelId = con_token_tunnel_id r, Connector_identityStatus = con_identity_status r,
     Connector_identityVerifiedAt = con_identity_verified_at r, Connector_identityError = con_identity_error r,
     Connector_deploymentStatus = con_deployment_status r, Connector_runtimeStatus = con_runtime_status r,
     Connector_lastError = con_last_error r, Connector_lastDeployedAt = con_last_deployed_at r,
     Connector_lastObservedAt = con_last_observed_at r,
     Connector_createdAt = con_created_at r, Connector_updatedAt = con_updated_at r\<rparr>"

definition cloudflareAccount :: "account_row \<Rightarrow> CloudflareAccount" where [row_simps]:
  "cloudflareAccount r = \<lparr>
     CloudflareAccount_id = acc_id r, CloudflareAccount_name = acc_name r,
     CloudflareAccount_accountIdentifier = acc_account_identifier r,
     CloudflareAccount_configured = True, CloudflareAccount_enabled = acc_enabled r,
     CloudflareAccount_lastSyncedAt = acc_last_synced_at r, CloudflareAccount_lastErrorAt = acc_last_error_at r,
     CloudflareAccount_lastError = acc_last_error r,
     CloudflareAccount_createdAt = acc_created_at r, CloudflareAccount_updatedAt = acc_updated_at r\<rparr>"

definition cloudflareZone :: "zone_row \<Rightarrow> CloudflareZone" where [row_simps]:
  "cloudflareZone r = \<lparr>
     CloudflareZone_id = zon_id r, CloudflareZone_cloudflareAccountId = zon_cloudflare_account_id r,
     CloudflareZone_zoneIdentifier = zon_zone_identifier r, CloudflareZone_name = zon_name r,
     CloudflareZone_status = zon_status r,
     CloudflareZone_createdAt = zon_created_at r, CloudflareZone_updatedAt = zon_updated_at r\<rparr>"

text \<open>
  The columns of \<open>domainAccessColumns()\<close>: the row and its DNS records, oldest first.
\<close>

definition dns_record_json :: "dns_row \<Rightarrow> DomainAccessDnsRecord" where [row_simps]:
  "dns_record_json r = \<lparr>
     DnsRecord_type = dns_record_type r, DnsRecord_content = dns_content r,
     DnsRecord_cloudflareRecordId = dns_cloudflare_record_id r,
     DnsRecord_ownershipMarker = dns_ownership_marker r,
     DnsRecord_status = dns_status r, DnsRecord_lastError = dns_last_error r\<rparr>"

definition domainAccessColumns :: "db \<Rightarrow> domain_row \<Rightarrow> DomainAccessDnsRecord list" where
  "domainAccessColumns d h =
     map dns_record_json (sort_key dns_created_at (filter (\<lambda>r. dns_domain_access_id r = dom_id h) (dns_records d)))"

definition cloudflareDomainAccess :: "db \<Rightarrow> domain_row \<Rightarrow> CloudflareDomainAccess" where
  "cloudflareDomainAccess d r = \<lparr>
     DomainAccess_id = dom_id r, DomainAccess_cloudflareZoneId = dom_cloudflare_zone_id r,
     DomainAccess_cloudflareAccountId = dom_cloudflare_account_id r,
     DomainAccess_connectorId = dom_connector_id r, DomainAccess_routeId = dom_route_id r,
     DomainAccess_hostname = dom_hostname r, DomainAccess_accessMethod = dom_access_method r,
     DomainAccess_publicIpv4 = dom_public_ipv4 r, DomainAccess_publicIpv6 = dom_public_ipv6 r,
     DomainAccess_ownedDnsRecords = domainAccessColumns d r, DomainAccess_dnsRecordId = dom_dns_record_id r,
     DomainAccess_enabled = dom_enabled r, DomainAccess_revision = dom_revision r,
     DomainAccess_proxied = dom_proxied r, DomainAccess_status = dom_status r,
     DomainAccess_lastError = dom_last_error r, DomainAccess_lastReconciledAt = dom_last_reconciled_at r,
     DomainAccess_tlsStatus = dom_tls_status r, DomainAccess_tlsIssuer = dom_tls_issuer r,
     DomainAccess_tlsValidTo = dom_tls_valid_to r, DomainAccess_tlsObservedAt = dom_tls_observed_at r,
     DomainAccess_tlsError = dom_tls_error r,
     DomainAccess_createdAt = dom_created_at r, DomainAccess_updatedAt = dom_updated_at r\<rparr>"

definition guidedOperation :: "guided_row \<Rightarrow> GuidedOperation" where [row_simps]:
  "guidedOperation r = \<lparr>
     Guided_id = gop_id r, Guided_kind = gop_kind r, Guided_idempotencyKey = gop_idempotency_key r,
     Guided_requestedByUserId = gop_requested_by_user_id r, Guided_requestHash = gop_request_hash r,
     Guided_encryptedRequest = gop_request_encrypted r, Guided_status = gop_status r, Guided_stage = gop_stage r,
     Guided_cloudflareAccountId = gop_cloudflare_account_id r, Guided_connectorId = gop_connector_id r,
     Guided_routeId = gop_route_id r, Guided_domainAccessId = gop_domain_access_id r,
     Guided_remoteTunnelId = gop_remote_tunnel_id r, Guided_remoteTunnelName = gop_remote_tunnel_name r,
     Guided_result = gop_result r, Guided_error = gop_error r,
     Guided_verificationDeadlineAt = gop_verification_deadline_at r,
     Guided_verificationAttempts = gop_verification_attempts r,
     Guided_createdAt = gop_created_at r, Guided_updatedAt = gop_updated_at r,
     Guided_completedAt = gop_completed_at r\<rparr>"

section \<open>Agents: the health of an agent is computed when its row is read\<close>

text \<open>JavaScript's \<open>??\<close>: the right operand replaces a missing or \<open>null\<close> left one.\<close>

definition nullish :: "json option \<Rightarrow> json option \<Rightarrow> json option" where
  "nullish a b = (case a of None \<Rightarrow> b | Some JNull \<Rightarrow> b | Some v \<Rightarrow> Some v)"

definition agent_channelTimes :: "agent_row \<Rightarrow> time list" where
  "agent_channelTimes r = List.map_filter id [ag_last_heartbeat_at r, ag_last_telemetry_at r, ag_last_command_poll_at r]"

definition agent_latestChannelAt :: "agent_row \<Rightarrow> time" where
  "agent_latestChannelAt r = (case agent_channelTimes r of [] \<Rightarrow> 0 | t # ts \<Rightarrow> fold max ts t)"

definition agent_diagnostics :: "agent_row \<Rightarrow> json option" where
  "agent_diagnostics r =
     nullish (ag_last_diagnostics r)
       (nullish (case ag_last_metadata r of None \<Rightarrow> None | Some m \<Rightarrow> jprop m ''diagnostics'') None)"

definition agent_hasFailedCheck :: "agent_row \<Rightarrow> bool" where
  "agent_hasFailedCheck r =
     (case as_object (agent_diagnostics r) of
        None \<Rightarrow> False
      | Some diag \<Rightarrow>
          (case as_object (jprop diag ''checks'') of
             None \<Rightarrow> False
           | Some checks \<Rightarrow>
               list_ex (\<lambda>(_, check). case check of
                   JObj c \<Rightarrow> jprop c ''state'' = Some (JStr ''failed'') | _ \<Rightarrow> False) checks))"

definition agent_healthStatus :: "time \<Rightarrow> agent_row \<Rightarrow> HealthStatus" where
  "agent_healthStatus date_now r =
     (if ag_enrolled_at r = None then HPending
      else if agent_latestChannelAt r = 0 \<or> agent_latestChannelAt r < date_now - 3 * 60000 then HOffline
      else if agent_hasFailedCheck r then HDegraded else HConnected)"

definition agent :: "time \<Rightarrow> agent_row \<Rightarrow> Agent" where [row_simps]:
  "agent date_now r = \<lparr>
     Agent_id = ag_id r, Agent_name = ag_name r, Agent_enabled = ag_enabled r,
     Agent_enrolledAt = ag_enrolled_at r, Agent_lastHeartbeatAt = ag_last_heartbeat_at r,
     Agent_lastTelemetryAt = ag_last_telemetry_at r, Agent_lastCommandPollAt = ag_last_command_poll_at r,
     Agent_lastCommandResultAt = ag_last_command_result_at r,
     Agent_healthStatus = agent_healthStatus date_now r, Agent_diagnostics = agent_diagnostics r,
     Agent_metadata = ag_last_metadata r, Agent_createdAt = ag_created_at r\<rparr>"

definition command :: "command_row \<Rightarrow> AgentCommand" where [row_simps]:
  "command r = \<lparr>AgentCommand_id = cmd_id r, AgentCommand_agentId = cmd_agent_id r,
     AgentCommand_type = cmd_type r, AgentCommand_payload = cmd_payload r,
     AgentCommand_status = cmd_status r, AgentCommand_result = cmd_result r\<rparr>"

section \<open>Stacks, deployments and routes\<close>

definition stack :: "stack_row \<Rightarrow> ManagedStack" where [row_simps]:
  "stack r = \<lparr>
     ManagedStack_id = stk_id r, ManagedStack_agentId = stk_agent_id r, ManagedStack_name = stk_name r,
     ManagedStack_projectName = stk_project_name r, ManagedStack_enabled = stk_enabled r,
     ManagedStack_configured = (stk_compose_yaml_encrypted r \<noteq> []),
     ManagedStack_revision = stk_revision r, ManagedStack_status = stk_status r,
     ManagedStack_postgresBackupConfig = stk_postgres_backup_config r,
     ManagedStack_createdAt = stk_created_at r, ManagedStack_updatedAt = stk_updated_at r\<rparr>"

definition deploymentRevision :: "revision_row \<Rightarrow> DeploymentRevision" where [row_simps]:
  "deploymentRevision r = \<lparr>
     Revision_id = rev_id r, Revision_deploymentId = rev_deployment_id r, Revision_commitSha = rev_commit_sha r,
     Revision_composePath = rev_compose_path r, Revision_checksum = rev_checksum r,
     Revision_policyVersion = rev_policy_version r, Revision_policyResult = rev_policy_result r,
     Revision_createdByUserId = rev_created_by_user_id r, Revision_createdAt = rev_created_at r\<rparr>"

definition deploymentRun :: "run_row \<Rightarrow> DeploymentRun" where [row_simps]:
  "deploymentRun r = \<lparr>
     Run_id = run_id r, Run_deploymentId = run_deployment_id r, Run_revisionId = run_revision_id r,
     Run_priorRevisionId = run_prior_revision_id r, Run_agentId = run_agent_id r, Run_commandId = run_command_id r,
     Run_action = run_action r, Run_status = run_status r, Run_result = run_result r, Run_error = run_error r,
     Run_startedAt = run_started_at r, Run_completedAt = run_completed_at r,
     Run_createdAt = run_created_at r, Run_updatedAt = run_updated_at r\<rparr>"

definition deployment :: "deployment_row \<Rightarrow> revision_row list \<Rightarrow> run_row option \<Rightarrow> Deployment" where [row_simps]:
  "deployment r revs latest_run = \<lparr>
     Deployment_id = dpl_id r, Deployment_agentId = dpl_agent_id r, Deployment_displayName = dpl_display_name r,
     Deployment_projectName = dpl_project_name r, Deployment_sourceRepository = dpl_source_repository r,
     Deployment_enabled = dpl_enabled r, Deployment_currentRevisionId = dpl_current_revision_id r,
     Deployment_status = dpl_status r, Deployment_revisions = map deploymentRevision revs,
     Deployment_latestRun = map_option deploymentRun latest_run,
     Deployment_createdAt = dpl_created_at r, Deployment_updatedAt = dpl_updated_at r\<rparr>"

definition route :: "route_row \<Rightarrow> ManagedRoute" where [row_simps]:
  "route r = \<lparr>
     ManagedRoute_id = rte_id r, ManagedRoute_gatewayAgentId = rte_gateway_agent_id r,
     ManagedRoute_name = rte_name r, ManagedRoute_hostname = rte_hostname r,
     ManagedRoute_exposure = rte_exposure r, ManagedRoute_backends = rte_backends r,
     ManagedRoute_enabled = rte_enabled r, ManagedRoute_revision = rte_revision r,
     ManagedRoute_status = rte_status r,
     ManagedRoute_createdAt = rte_created_at r, ManagedRoute_updatedAt = rte_updated_at r\<rparr>"

section \<open>Telemetry, runtime operations, backups and system recovery\<close>

definition telemetry :: "snapshot_row \<Rightarrow> TelemetrySnapshot" where [row_simps]:
  "telemetry r = \<lparr>Telemetry_agentId = tel_agent_id r, Telemetry_observedAt = tel_observed_at r,
     Telemetry_node = tel_node r, Telemetry_services = tel_services r, Telemetry_receivedAt = tel_created_at r\<rparr>"

definition runtimeOperation :: "runtime_op_row \<Rightarrow> RuntimeOperation" where [row_simps]:
  "runtimeOperation r = \<lparr>
     RuntimeOp_id = rop_id r, RuntimeOp_requestedByUserId = rop_requested_by_user_id r,
     RuntimeOp_agentId = rop_agent_id r, RuntimeOp_commandId = rop_command_id r,
     RuntimeOp_action = rop_action r, RuntimeOp_scope = rop_scope r,
     RuntimeOp_projectName = rop_project_name r, RuntimeOp_serviceName = rop_service_name r,
     RuntimeOp_status = rop_status r, RuntimeOp_result = rop_result r, RuntimeOp_error = rop_error r,
     RuntimeOp_createdAt = rop_created_at r, RuntimeOp_updatedAt = rop_updated_at r,
     RuntimeOp_completedAt = rop_completed_at r\<rparr>"

definition runtimeLogRequest :: "log_request_row \<Rightarrow> RuntimeLogRequest" where [row_simps]:
  "runtimeLogRequest r = \<lparr>
     LogRequest_id = lrq_id r, LogRequest_requestedByUserId = lrq_requested_by_user_id r,
     LogRequest_agentId = lrq_agent_id r, LogRequest_commandId = lrq_command_id r,
     LogRequest_projectName = lrq_project_name r, LogRequest_serviceName = lrq_service_name r,
     LogRequest_tail = lrq_tail r, LogRequest_since = lrq_since r, LogRequest_status = lrq_status r,
     LogRequest_result = lrq_result r, LogRequest_error = lrq_error r,
     LogRequest_createdAt = lrq_created_at r, LogRequest_updatedAt = lrq_updated_at r,
     LogRequest_completedAt = lrq_completed_at r\<rparr>"

definition backup :: "backup_row \<Rightarrow> StackBackup" where [row_simps]:
  "backup r = \<lparr>
     StackBackup_id = bkp_id r, StackBackup_stackId = bkp_stack_id r, StackBackup_agentId = bkp_agent_id r,
     StackBackup_commandId = bkp_command_id r, StackBackup_requestedByUserId = bkp_requested_by_user_id r,
     StackBackup_target = bkp_target r, StackBackup_stackRevision = bkp_stack_revision r,
     StackBackup_status = bkp_status r, StackBackup_result = bkp_result r,
     StackBackup_createdAt = bkp_created_at r, StackBackup_updatedAt = bkp_updated_at r,
     StackBackup_completedAt = bkp_completed_at r\<rparr>"

definition restore :: "restore_row \<Rightarrow> StackRestore" where [row_simps]:
  "restore r = \<lparr>
     StackRestore_id = rst_id r, StackRestore_stackId = rst_stack_id r, StackRestore_backupId = rst_backup_id r,
     StackRestore_agentId = rst_agent_id r, StackRestore_commandId = rst_command_id r,
     StackRestore_requestedByUserId = rst_requested_by_user_id r,
     StackRestore_status = rst_status r, StackRestore_result = rst_result r,
     StackRestore_createdAt = rst_created_at r, StackRestore_updatedAt = rst_updated_at r,
     StackRestore_completedAt = rst_completed_at r\<rparr>"

definition systemBackup :: "system_backup_row \<Rightarrow> StoredSystemBackup" where [row_simps]:
  "systemBackup r = \<lparr>
     SystemBackup_id = sbk_id r, SystemBackup_requestedByUserId = sbk_requested_by_user_id r,
     SystemBackup_target = sbk_target r, SystemBackup_status = sbk_status r,
     SystemBackup_sizeBytes = sbk_size_bytes r, SystemBackup_checksum = sbk_checksum r,
     SystemBackup_error = sbk_error r, SystemBackup_createdAt = sbk_created_at r,
     SystemBackup_completedAt = sbk_completed_at r, SystemBackup_source = sbk_source r,
     SystemBackup_metadata = sbk_metadata r, SystemBackup_artifactPath = sbk_artifact_path r\<rparr>"

definition systemBackupImport :: "import_row \<Rightarrow> SystemBackupImport" where [row_simps]:
  "systemBackupImport r = \<lparr>
     SystemImport_id = sim_id r, SystemImport_requestedByUserId = sim_requested_by_user_id r,
     SystemImport_status = sim_status r, SystemImport_quarantinePath = sim_quarantine_path r,
     SystemImport_sizeBytes = sim_size_bytes r, SystemImport_checksum = sim_checksum r,
     SystemImport_backupId = sim_backup_id r, SystemImport_error = sim_error r,
     SystemImport_createdAt = sim_created_at r, SystemImport_updatedAt = sim_updated_at r,
     SystemImport_completedAt = sim_completed_at r,
     SystemImport_validationRevision = sim_validation_revision r\<rparr>"

definition systemRestore :: "system_restore_row \<Rightarrow> SystemRestore" where [row_simps]:
  "systemRestore r = \<lparr>
     SystemRestore_id = srs_id r, SystemRestore_backupId = srs_backup_id r,
     SystemRestore_requestedByUserId = srs_requested_by_user_id r,
     SystemRestore_status = srs_status r, SystemRestore_error = srs_error r,
     SystemRestore_createdAt = srs_created_at r, SystemRestore_completedAt = srs_completed_at r\<rparr>"

section \<open>When an agent counts as connected\<close>

lemma agent_latestChannelAt_Max:
  "agent_channelTimes r \<noteq> [] \<Longrightarrow> agent_latestChannelAt r = Max (set (agent_channelTimes r))"
  by (auto simp: agent_latestChannelAt_def Max.set_eq_fold [symmetric] simp del: list.set split: list.splits)

lemma agent_latestChannelAt_upper:
  "t \<in> set (agent_channelTimes r) \<Longrightarrow> t \<le> agent_latestChannelAt r"
  using agent_latestChannelAt_Max [of r] by fastforce

lemma agent_latestChannelAt_member:
  "agent_channelTimes r \<noteq> [] \<Longrightarrow> agent_latestChannelAt r \<in> set (agent_channelTimes r)"
  using agent_latestChannelAt_Max [of r] Max_in [of "set (agent_channelTimes r)"] by simp

lemma set_agent_channelTimes:
  "t \<in> set (agent_channelTimes r) \<longleftrightarrow>
    ag_last_heartbeat_at r = Some t \<or> ag_last_telemetry_at r = Some t \<or> ag_last_command_poll_at r = Some t"
  by (auto simp: agent_channelTimes_def map_filter_simps split: option.splits)

end
