(* ===== verification/Gw_Notify.thy ===== *)
theory Gw_Notify
  imports Gw_Rows
begin

text \<open>
  Notifications: the settings, the scopes that mute an agent or one of its services, the
  events the control plane records, and the deliveries that carry them to Telegram. Every
  component records its events through \<open>enqueueEvent\<close>.
\<close>

section \<open>Settings and scopes\<close>

definition getNotificationSettings :: "db \<Rightarrow> NotificationSettings" where
  "getNotificationSettings d =
     (case settings d of
        Some s \<Rightarrow> \<lparr>Settings_configured = (nst_bot_token_encrypted s \<noteq> None \<and> nst_group_id_encrypted s \<noteq> None),
                   Settings_selectedEvents =
                     sanitizeOperationalEventTypes (Some (JArr (map JStr (nst_selected_events s))))\<rparr>
      | None \<Rightarrow> \<lparr>Settings_configured = False, Settings_selectedEvents = map event_name OPERATIONAL_EVENT_TYPES\<rparr>)"

definition getNotificationSecrets :: "db \<Rightarrow> (string \<times> string) option" where
  "getNotificationSecrets d =
     (case settings d of
        None \<Rightarrow> None
      | Some s \<Rightarrow>
          (case (nst_bot_token_encrypted s, nst_group_id_encrypted s) of
             (Some b, Some g) \<Rightarrow> if b \<noteq> [] \<and> g \<noteq> [] then Some (b, g) else None
           | _ \<Rightarrow> None))"

definition saveNotificationSettings :: "string \<Rightarrow> string \<Rightarrow> string list \<Rightarrow> db \<Rightarrow> db" where
  "saveNotificationSettings botToken groupId selectedEvents d =
     d\<lparr>settings := Some \<lparr>nst_bot_token_encrypted = Some botToken, nst_group_id_encrypted = Some groupId,
                          nst_selected_events = selectedEvents\<rparr>\<rparr>"

definition agent_muted :: "uuid \<Rightarrow> db \<Rightarrow> bool" where
  "agent_muted a d = exists_row (\<lambda>s. scp_agent_id s = a \<and> scp_project_name s = None \<and> \<not> scp_enabled s) (scopes d)"

definition service_muted :: "uuid option \<Rightarrow> string option \<Rightarrow> string \<Rightarrow> db \<Rightarrow> bool" where
  "service_muted a project service d =
     exists_row (\<lambda>s. Some (scp_agent_id s) = a \<and> scp_project_name s \<noteq> None \<and> scp_project_name s = project
                   \<and> scp_service_name s = Some service \<and> \<not> scp_enabled s) (scopes d)"

text \<open>The condition under which an event is delivered, the same in the two queries that ask for it.\<close>

definition delivery_wanted ::
  "OperationalEventType \<Rightarrow> uuid option \<Rightarrow> string option \<Rightarrow> string option \<Rightarrow> db \<Rightarrow> bool" where
  "delivery_wanted type agentId projectName serviceName d =
     (case settings d of
        None \<Rightarrow> False
      | Some s \<Rightarrow>
          nst_bot_token_encrypted s \<noteq> None \<and> nst_group_id_encrypted s \<noteq> None
          \<and> event_name type \<in> set (nst_selected_events s)
          \<and> (case agentId of None \<Rightarrow> True | Some a \<Rightarrow> \<not> agent_muted a d)
          \<and> (case serviceName of None \<Rightarrow> True | Some svc \<Rightarrow> \<not> service_muted agentId projectName svc d))"

section \<open>Recording an event\<close>

record event_values =
  ev_agentId :: "uuid option"
  ev_stackId :: "uuid option"
  ev_projectName :: "string option"
  ev_serviceName :: "string option"
  ev_payload :: jobj

definition no_scope :: event_values where
  "no_scope = \<lparr>ev_agentId = None, ev_stackId = None, ev_projectName = None, ev_serviceName = None, ev_payload = []\<rparr>"

definition entry_if :: "string \<Rightarrow> string option \<Rightarrow> jobj" where
  "entry_if key v = (case v of Some s \<Rightarrow> if s \<noteq> [] then [(key, JStr s)] else [] | None \<Rightarrow> [])"

definition event_payload :: "event_values \<Rightarrow> jobj" where
  "event_payload v =
     spread (spread (spread (ev_payload v)
       (entry_if ''agentId'' (ev_agentId v))) (entry_if ''projectName'' (ev_projectName v)))
       (entry_if ''serviceName'' (ev_serviceName v))"

definition enqueueEvent ::
  "(nat \<Rightarrow> uuid) \<Rightarrow> time \<Rightarrow> OperationalEventType \<Rightarrow> event_values \<Rightarrow> db \<Rightarrow> db" where
  "enqueueEvent gen now type v d =
     (let (eid, d) = draw gen d;
          d = d\<lparr>events := events d @ [\<lparr>evt_id = eid, evt_type = type, evt_agent_id = ev_agentId v,
                evt_stack_id = ev_stackId v, evt_project_name = ev_projectName v,
                evt_service_name = ev_serviceName v, evt_payload = event_payload v, evt_occurred_at = now\<rparr>]\<rparr>
      in if delivery_wanted type (ev_agentId v) (ev_projectName v) (ev_serviceName v) d
         then let (did, d) = draw gen d
              in d\<lparr>deliveries := deliveries d @ [\<lparr>dlv_id = did, dlv_event_id = eid, dlv_status = DlPending,
                     dlv_attempts = 0, dlv_next_attempt_at = now, dlv_claimed_at = None,
                     dlv_completed_at = None, dlv_last_error = None, dlv_created_at = now\<rparr>]\<rparr>
         else d)"

text \<open>Recording a list of events, one after the other.\<close>

definition enqueueAll ::
  "(nat \<Rightarrow> uuid) \<Rightarrow> time \<Rightarrow> (OperationalEventType \<times> event_values) list \<Rightarrow> db \<Rightarrow> db" where
  "enqueueAll gen now evs d = fold (\<lambda>(t, v). enqueueEvent gen now t v) evs d"

section \<open>Delivering\<close>

definition claimable :: "time \<Rightarrow> delivery_row \<Rightarrow> bool" where
  "claimable now r =
     (dlv_status r = DlPending \<and> dlv_next_attempt_at r \<le> now
      \<or> dlv_status r = DlDispatching \<and> (case dlv_claimed_at r of None \<Rightarrow> False | Some t \<Rightarrow> t < now - 2 * 60000))"

definition next_delivery :: "time \<Rightarrow> db \<Rightarrow> delivery_row option" where
  "next_delivery now d =
     (case sort_key dlv_next_attempt_at (sort_key dlv_created_at (filter (claimable now) (deliveries d))) of
        [] \<Rightarrow> None | r # _ \<Rightarrow> Some r)"

definition claimNotificationDelivery :: "time \<Rightarrow> db \<Rightarrow> pg_error + NotificationDelivery option \<times> db" where
  "claimNotificationDelivery now d =
     (case next_delivery now d of
        None \<Rightarrow> Inr (None, d)
      | Some r \<Rightarrow>
          if dlv_attempts r + 1 > 10 then Inl CheckViolation
          else
            (case find (\<lambda>e. evt_id e = dlv_event_id r) (events d) of
               None \<Rightarrow> Inl (JsError ''TypeError'')
             | Some e \<Rightarrow>
                 Inr (Some \<lparr>Delivery_id = dlv_id r, Delivery_eventId = dlv_event_id r,
                       Delivery_eventType = evt_type e, Delivery_payload = evt_payload e,
                       Delivery_occurredAt = evt_occurred_at e, Delivery_attempts = dlv_attempts r + 1,
                       Delivery_agentId = evt_agent_id e, Delivery_projectName = evt_project_name e,
                       Delivery_serviceName = evt_service_name e\<rparr>,
                     d\<lparr>deliveries := update_rows (\<lambda>x. dlv_id x = dlv_id r)
                         (\<lambda>x. x\<lparr>dlv_status := DlDispatching, dlv_claimed_at := Some now,
                               dlv_attempts := dlv_attempts x + 1\<rparr>) (deliveries d)\<rparr>)))"

definition dispatching :: "uuid \<Rightarrow> delivery_row \<Rightarrow> bool" where
  "dispatching i r \<longleftrightarrow> dlv_id r = i \<and> dlv_status r = DlDispatching"

definition completeNotificationDelivery :: "time \<Rightarrow> uuid \<Rightarrow> db \<Rightarrow> db" where
  "completeNotificationDelivery now i d =
     d\<lparr>deliveries := update_rows (dispatching i)
         (\<lambda>r. r\<lparr>dlv_status := DlSucceeded, dlv_completed_at := Some now\<rparr>) (deliveries d)\<rparr>"

definition isNotificationDeliveryEnabled :: "NotificationDelivery \<Rightarrow> db \<Rightarrow> bool" where
  "isNotificationDeliveryEnabled dl d =
     delivery_wanted (Delivery_eventType dl) (Delivery_agentId dl) (Delivery_projectName dl)
       (Delivery_serviceName dl) d"

definition skipNotificationDelivery :: "time \<Rightarrow> uuid \<Rightarrow> db \<Rightarrow> db" where
  "skipNotificationDelivery now i d =
     d\<lparr>deliveries := update_rows (dispatching i)
         (\<lambda>r. r\<lparr>dlv_status := DlSkipped, dlv_completed_at := Some now\<rparr>) (deliveries d)\<rparr>"

definition retryNotificationDelivery :: "time \<Rightarrow> uuid \<Rightarrow> string \<Rightarrow> int \<Rightarrow> bool \<Rightarrow> db \<Rightarrow> db" where
  "retryNotificationDelivery now i err delaySeconds terminal d =
     d\<lparr>deliveries := update_rows (dispatching i)
         (\<lambda>r. r\<lparr>dlv_status := (if terminal then DlFailed else DlPending), dlv_last_error := Some err,
               dlv_next_attempt_at := now + delaySeconds * 1000, dlv_claimed_at := None,
               dlv_completed_at := (if terminal then Some now else None)\<rparr>) (deliveries d)\<rparr>"

section \<open>What recording an event does\<close>

lemma enqueueEvent_frame [frame_simps]:
  "users (enqueueEvent gen now t v d) = users d"
  "sessions (enqueueEvent gen now t v d) = sessions d"
  "connectors (enqueueEvent gen now t v d) = connectors d"
  "accounts (enqueueEvent gen now t v d) = accounts d"
  "zones (enqueueEvent gen now t v d) = zones d"
  "domains (enqueueEvent gen now t v d) = domains d"
  "dns_records (enqueueEvent gen now t v d) = dns_records d"
  "guided_operations (enqueueEvent gen now t v d) = guided_operations d"
  "agents (enqueueEvent gen now t v d) = agents d"
  "commands (enqueueEvent gen now t v d) = commands d"
  "stacks (enqueueEvent gen now t v d) = stacks d"
  "routes (enqueueEvent gen now t v d) = routes d"
  "deployments (enqueueEvent gen now t v d) = deployments d"
  "revisions (enqueueEvent gen now t v d) = revisions d"
  "runs (enqueueEvent gen now t v d) = runs d"
  "settings (enqueueEvent gen now t v d) = settings d"
  "scopes (enqueueEvent gen now t v d) = scopes d"
  "snapshots (enqueueEvent gen now t v d) = snapshots d"
  "runtime_ops (enqueueEvent gen now t v d) = runtime_ops d"
  "log_requests (enqueueEvent gen now t v d) = log_requests d"
  "backups (enqueueEvent gen now t v d) = backups d"
  "restores (enqueueEvent gen now t v d) = restores d"
  "system_backups (enqueueEvent gen now t v d) = system_backups d"
  "backup_imports (enqueueEvent gen now t v d) = backup_imports d"
  "system_restores (enqueueEvent gen now t v d) = system_restores d"
  "recovery_requests (enqueueEvent gen now t v d) = recovery_requests d"
  "transfer_events (enqueueEvent gen now t v d) = transfer_events d"
  by (simp_all add: enqueueEvent_def draw_def Let_def)

text \<open>Recording only appends: the events and the deliveries there were stay where they were.\<close>

lemma enqueueEvent_events:
  "events (enqueueEvent gen now t v d) = events d @ [\<lparr>evt_id = gen (draws d), evt_type = t,
     evt_agent_id = ev_agentId v, evt_stack_id = ev_stackId v, evt_project_name = ev_projectName v,
     evt_service_name = ev_serviceName v, evt_payload = event_payload v, evt_occurred_at = now\<rparr>]"
  by (simp add: enqueueEvent_def draw_def Let_def)

lemma delivery_wanted_events [simp]:
  "delivery_wanted t a p s (d\<lparr>draws := n, events := es\<rparr>) = delivery_wanted t a p s d"
  by (simp add: delivery_wanted_def agent_muted_def service_muted_def split: option.splits)

lemma enqueueEvent_deliveries:
  "deliveries (enqueueEvent gen now t v d) = deliveries d @
     (if delivery_wanted t (ev_agentId v) (ev_projectName v) (ev_serviceName v) d
      then [\<lparr>dlv_id = gen (Suc (draws d)), dlv_event_id = gen (draws d), dlv_status = DlPending,
             dlv_attempts = 0, dlv_next_attempt_at = now, dlv_claimed_at = None,
             dlv_completed_at = None, dlv_last_error = None, dlv_created_at = now\<rparr>]
      else [])"
  by (simp add: enqueueEvent_def draw_def Let_def)

lemma enqueueEvent_draws: "draws d < draws (enqueueEvent gen now t v d)"
  by (simp add: enqueueEvent_def draw_def Let_def)

section \<open>A sink of events\<close>

text \<open>
  The interface the other components rely on when they record events: the sink appends to
  its log and leaves the rest of the state, \<open>view\<close>, as it was.
\<close>

locale event_sink =
  fixes put :: "'t \<Rightarrow> 'v \<Rightarrow> 's \<Rightarrow> 's"
    and log :: "'s \<Rightarrow> 'e list"
    and view :: "'s \<Rightarrow> 'w"
    and entry :: "'t \<Rightarrow> 'v \<Rightarrow> 's \<Rightarrow> 'e"
  assumes log_put: "log (put t v s) = log s @ [entry t v s]"
    and view_put: "view (put t v s) = view s"
begin

lemma view_fold: "view (fold (\<lambda>(t, v). put t v) evs s) = view s"
  by (induction evs arbitrary: s) (auto simp: view_put)

lemma length_log_fold: "length (log (fold (\<lambda>(t, v). put t v) evs s)) = length (log s) + length evs"
  by (induction evs arbitrary: s) (auto simp: log_put)

lemma log_fold_prefix: "\<exists>new. log (fold (\<lambda>(t, v). put t v) evs s) = log s @ new \<and> length new = length evs"
proof (induction evs arbitrary: s)
  case (Cons ev evs)
  obtain t v where ev: "ev = (t, v)" by fastforce
  obtain new where new: "log (fold (\<lambda>(t, v). put t v) evs (put t v s)) = log (put t v s) @ new"
    "length new = length evs"
    using Cons [of "put t v s"] by blast
  have "log (fold (\<lambda>(t, v). put t v) (ev # evs) s) = log s @ (entry t v s # new)"
    by (simp add: ev new log_put)
  with new(2) show ?case by (intro exI [of _ "entry t v s # new"]) simp
qed simp

text \<open>
  An attribute of the log that the events fix, such as their type, is that of the events
  recorded, in order.
\<close>

lemma map_log_fold:
  assumes "\<And>t v s. a (entry t v s) = b t v"
  shows "map a (log (fold (\<lambda>(t, v). put t v) evs s)) = map a (log s) @ map (\<lambda>(t, v). b t v) evs"
  by (induction evs arbitrary: s) (auto simp: log_put assms)

end

text \<open>Everything but the events, the deliveries and the count of draws.\<close>

definition apart_from_events :: "db \<Rightarrow> db" where
  "apart_from_events d = d\<lparr>events := [], deliveries := [], draws := 0\<rparr>"

interpretation sink: event_sink "enqueueEvent gen now" events apart_from_events
  "\<lambda>t v d. \<lparr>evt_id = gen (draws d), evt_type = t, evt_agent_id = ev_agentId v,
     evt_stack_id = ev_stackId v, evt_project_name = ev_projectName v,
     evt_service_name = ev_serviceName v, evt_payload = event_payload v, evt_occurred_at = now\<rparr>"
  for gen now
  by unfold_locales
    (simp_all add: enqueueEvent_events apart_from_events_def enqueueEvent_def draw_def Let_def)

lemma enqueueAll_view: "apart_from_events (enqueueAll gen now evs d) = apart_from_events d"
  by (simp add: enqueueAll_def sink.view_fold)

lemma enqueueAll_types:
  "map evt_type (events (enqueueAll gen now evs d)) = map evt_type (events d) @ map fst evs"
  by (simp add: enqueueAll_def sink.map_log_fold [where b = "\<lambda>t v. t"] case_prod_beta)

lemma enqueueAll_agents:
  "map evt_agent_id (events (enqueueAll gen now evs d)) =
     map evt_agent_id (events d) @ map (\<lambda>(t, v). ev_agentId v) evs"
  by (simp add: enqueueAll_def sink.map_log_fold [where b = "\<lambda>t v. ev_agentId v"] case_prod_beta)

lemma enqueueAll_length: "length (events (enqueueAll gen now evs d)) = length (events d) + length evs"
  by (simp add: enqueueAll_def sink.length_log_fold)

lemma enqueueEvent_shape:
  "\<exists>es ds n. enqueueEvent gen now t v d = d\<lparr>events := es, deliveries := ds, draws := n\<rparr>"
proof -
  have "enqueueEvent gen now t v d =
      d\<lparr>events := events (enqueueEvent gen now t v d),
        deliveries := deliveries (enqueueEvent gen now t v d),
        draws := draws (enqueueEvent gen now t v d)\<rparr>"
    by (simp add: enqueueEvent_def draw_def Let_def)
  then show ?thesis by blast
qed

lemma enqueueAll_shape:
  "\<exists>es ds n. enqueueAll gen now evs d = d\<lparr>events := es, deliveries := ds, draws := n\<rparr>"
proof (induction evs arbitrary: d)
  case Nil
  show ?case
    by (rule exI [of _ "events d"], rule exI [of _ "deliveries d"], rule exI [of _ "draws d"])
      (simp add: enqueueAll_def)
next
  case (Cons ev evs)
  obtain t v where ev: "ev = (t, v)" by fastforce
  obtain es ds n where "enqueueEvent gen now t v d = d\<lparr>events := es, deliveries := ds, draws := n\<rparr>"
    using enqueueEvent_shape by blast
  with Cons [of "enqueueEvent gen now t v d"] show ?case
    by (auto simp: enqueueAll_def ev)
qed

lemma enqueueAll_frame [frame_simps]:
  "users (enqueueAll gen now evs d) = users d"
  "sessions (enqueueAll gen now evs d) = sessions d"
  "connectors (enqueueAll gen now evs d) = connectors d"
  "accounts (enqueueAll gen now evs d) = accounts d"
  "zones (enqueueAll gen now evs d) = zones d"
  "domains (enqueueAll gen now evs d) = domains d"
  "dns_records (enqueueAll gen now evs d) = dns_records d"
  "guided_operations (enqueueAll gen now evs d) = guided_operations d"
  "agents (enqueueAll gen now evs d) = agents d"
  "commands (enqueueAll gen now evs d) = commands d"
  "stacks (enqueueAll gen now evs d) = stacks d"
  "routes (enqueueAll gen now evs d) = routes d"
  "deployments (enqueueAll gen now evs d) = deployments d"
  "revisions (enqueueAll gen now evs d) = revisions d"
  "runs (enqueueAll gen now evs d) = runs d"
  "settings (enqueueAll gen now evs d) = settings d"
  "scopes (enqueueAll gen now evs d) = scopes d"
  "snapshots (enqueueAll gen now evs d) = snapshots d"
  "runtime_ops (enqueueAll gen now evs d) = runtime_ops d"
  "log_requests (enqueueAll gen now evs d) = log_requests d"
  "backups (enqueueAll gen now evs d) = backups d"
  "restores (enqueueAll gen now evs d) = restores d"
  "system_backups (enqueueAll gen now evs d) = system_backups d"
  "backup_imports (enqueueAll gen now evs d) = backup_imports d"
  "system_restores (enqueueAll gen now evs d) = system_restores d"
  "recovery_requests (enqueueAll gen now evs d) = recovery_requests d"
  "transfer_events (enqueueAll gen now evs d) = transfer_events d"
  using enqueueAll_shape [of gen now evs d] by auto

lemma enqueueAll_simps [simp]:
  "enqueueAll gen now [] d = d"
  "enqueueAll gen now ((t, v) # evs) d = enqueueAll gen now evs (enqueueEvent gen now t v d)"
  by (simp_all add: enqueueAll_def)

section \<open>The life of a delivery\<close>

text \<open>
  The steps a delivery can take: claimed, claimed again when its dispatcher went silent,
  delivered, skipped, put back for a later attempt, or given up. A finished one never moves.
\<close>

inductive delivery_step :: "DeliveryStatus \<Rightarrow> DeliveryStatus \<Rightarrow> bool" where
  claim: "delivery_step DlPending DlDispatching"
| reclaim: "delivery_step DlDispatching DlDispatching"
| delivered: "delivery_step DlDispatching DlSucceeded"
| skipped: "delivery_step DlDispatching DlSkipped"
| retry: "delivery_step DlDispatching DlPending"
| give_up: "delivery_step DlDispatching DlFailed"

inductive_cases delivery_step_finished:
  "delivery_step DlSucceeded s" "delivery_step DlSkipped s" "delivery_step DlFailed s"

text \<open>
  A table of deliveries follows another: the rows of the old one are still there, in place,
  each unchanged or one step further, with no fewer attempts.
\<close>

definition delivery_follows :: "delivery_row \<Rightarrow> delivery_row \<Rightarrow> bool" where
  "delivery_follows r s \<longleftrightarrow> r = s \<or>
     dlv_id s = dlv_id r \<and> dlv_event_id s = dlv_event_id r \<and> delivery_step (dlv_status r) (dlv_status s)
     \<and> (dlv_attempts s = dlv_attempts r \<or> dlv_attempts s = dlv_attempts r + 1 \<and> dlv_status s = DlDispatching)"

definition deliveries_follow :: "db \<Rightarrow> db \<Rightarrow> bool" where
  "deliveries_follow d e \<longleftrightarrow>
     (\<exists>new. list_all2 delivery_follows (deliveries d) (take (length (deliveries d)) (deliveries e))
       \<and> deliveries e = take (length (deliveries d)) (deliveries e) @ new)"

lemma list_all2_update_rows:
  "(\<And>r. r \<in> set t \<Longrightarrow> P r \<Longrightarrow> R r (f r)) \<Longrightarrow> (\<And>r. R r r) \<Longrightarrow> list_all2 R t (update_rows P f t)"
  by (induction t) auto

lemma deliveries_follow_update:
  assumes "deliveries e = update_rows P f (deliveries d)"
    and "\<And>r. r \<in> set (deliveries d) \<Longrightarrow> P r \<Longrightarrow> delivery_follows r (f r)"
  shows "deliveries_follow d e"
  using assms list_all2_update_rows [of "deliveries d" P delivery_follows f]
  by (simp add: deliveries_follow_def delivery_follows_def)

lemma deliveries_follow_append:
  assumes "deliveries e = deliveries d @ new"
  shows "deliveries_follow d e"
  using assms by (simp add: deliveries_follow_def list.rel_refl delivery_follows_def)

lemma next_delivery_claimable:
  assumes "next_delivery now d = Some r"
  shows "r \<in> set (deliveries d)" "claimable now r"
proof -
  let ?xs = "sort_key dlv_next_attempt_at (sort_key dlv_created_at (filter (claimable now) (deliveries d)))"
  have "r \<in> set ?xs"
    using assms by (cases ?xs) (simp_all add: next_delivery_def)
  then show "r \<in> set (deliveries d)" "claimable now r" by simp_all
qed

lemma next_delivery_first:
  assumes "next_delivery now d = Some r" "s \<in> set (deliveries d)" "claimable now s"
  shows "dlv_next_attempt_at r \<le> dlv_next_attempt_at s"
proof -
  let ?xs = "sort_key dlv_next_attempt_at (sort_key dlv_created_at (filter (claimable now) (deliveries d)))"
  obtain xs where xs: "?xs = r # xs"
    using assms(1) by (cases ?xs) (simp_all add: next_delivery_def)
  have "sorted (map dlv_next_attempt_at ?xs)" by simp
  moreover have "s \<in> set ?xs" using assms by simp
  ultimately show ?thesis unfolding xs by auto
qed

lemma next_delivery_none:
  "next_delivery now d = None \<longleftrightarrow> (\<forall>r \<in> set (deliveries d). \<not> claimable now r)"
proof -
  let ?xs = "sort_key dlv_next_attempt_at (sort_key dlv_created_at (filter (claimable now) (deliveries d)))"
  have "next_delivery now d = None \<longleftrightarrow> ?xs = []"
    by (cases ?xs) (simp_all add: next_delivery_def)
  also have "\<dots> \<longleftrightarrow> set ?xs = {}"
    by (rule set_empty [symmetric])
  also have "\<dots> \<longleftrightarrow> (\<forall>r \<in> set (deliveries d). \<not> claimable now r)"
    by auto
  finally show ?thesis .
qed

lemmas delivery_ops_def = completeNotificationDelivery_def skipNotificationDelivery_def
  retryNotificationDelivery_def

lemma delivery_ops_follow:
  "deliveries_follow d (completeNotificationDelivery now i d)"
  "deliveries_follow d (skipNotificationDelivery now i d)"
  "deliveries_follow d (retryNotificationDelivery now i err delay terminal d)"
  by (rule deliveries_follow_update, simp add: delivery_ops_def,
      auto simp: dispatching_def delivery_follows_def intro: delivery_step.intros)+

end
