(* ===== verification/Gw_Agents.thy ===== *)
theory Gw_Agents
  imports Gw_Notify
begin

text \<open>
  Agents: creation and removal, enrolment with a one-time token, authentication by
  credential, heartbeats, telemetry, and the sweep that detects the agents that went
  offline. \<open>Date.parse\<close> of a certificate's expiry is the parameter \<open>date_parse\<close>.
\<close>

section \<open>Creation, removal, enrolment\<close>

definition listAgents :: "time \<Rightarrow> db \<Rightarrow> Agent list" where
  "listAgents date_now d =
     map (agent date_now) (sort_key ag_name (filter (\<lambda>r. ag_archived_at r = None) (agents d)))"

definition createAgent ::
  "(nat \<Rightarrow> uuid) \<Rightarrow> time \<Rightarrow> time \<Rightarrow> string \<Rightarrow> string \<Rightarrow> time \<Rightarrow> db \<Rightarrow> pg_error + Agent \<times> db" where
  "createAgent gen now date_now name enrollmentTokenHash enrollmentExpiresAt d =
     (if exists_row (\<lambda>r. ag_name r = name) (agents d) then Inl UniqueViolation
      else
        let (aid, d) = draw gen d;
            row = \<lparr>ag_id = aid, ag_name = name, ag_enabled = True,
              ag_enrollment_token_hash = Some enrollmentTokenHash,
              ag_enrollment_expires_at = Some enrollmentExpiresAt, ag_enrolled_at = None,
              ag_credential_hash = None, ag_last_heartbeat_at = None, ag_last_metadata = None,
              ag_offline_detected_at = None, ag_archived_at = None, ag_last_telemetry_at = None,
              ag_last_command_poll_at = None, ag_last_command_result_at = None,
              ag_last_diagnostics = None, ag_created_at = now\<rparr>
        in Inr (agent date_now row, d\<lparr>agents := agents d @ [row]\<rparr>))"

datatype removal = RemovedDeleted | RemovedArchived | RemovalBlocked | RemovalMissing | RemovalRaised

definition agent_blocked :: "uuid \<Rightarrow> db \<Rightarrow> bool" where
  "agent_blocked i d =
     (exists_row (\<lambda>r. con_agent_id r = i) (connectors d)
      \<or> exists_row (\<lambda>r. stk_agent_id r = i) (stacks d)
      \<or> exists_row (\<lambda>r. dpl_agent_id r = i) (deployments d)
      \<or> exists_row (\<lambda>r. rte_gateway_agent_id r = i) (routes d)
      \<or> exists_row (\<lambda>r. bkp_agent_id r = i) (backups d)
      \<or> exists_row (\<lambda>r. rst_agent_id r = i) (restores d)
      \<or> exists_row (\<lambda>r. cmd_agent_id r = i \<and> cmd_status r \<in> {CmdPending, CmdClaimed}) (commands d))"

definition agent_referenced :: "uuid \<Rightarrow> db \<Rightarrow> bool" where
  "agent_referenced i d =
     (exists_row (\<lambda>r. cmd_agent_id r = i) (commands d)
      \<or> exists_row (\<lambda>r. tel_agent_id r = i) (snapshots d)
      \<or> exists_row (\<lambda>r. evt_agent_id r = Some i) (events d))"

text \<open>
  The remaining tables that refer to an agent, with \<open>ON DELETE RESTRICT\<close> (migrations 011, 019 and
  021): a row in one of them makes the deletion fail, and with it the whole transaction.
\<close>

definition agent_restricted :: "uuid \<Rightarrow> db \<Rightarrow> bool" where
  "agent_restricted i d =
     (exists_row (\<lambda>r. rop_agent_id r = i) (runtime_ops d)
      \<or> exists_row (\<lambda>r. lrq_agent_id r = i) (log_requests d)
      \<or> exists_row (\<lambda>r. scp_agent_id r = i) (scopes d)
      \<or> exists_row (\<lambda>r. run_agent_id r = i) (runs d))"

definition archive_agent :: "time \<Rightarrow> agent_row \<Rightarrow> agent_row" where
  "archive_agent now r = r\<lparr>ag_enabled := False, ag_enrollment_token_hash := None,
     ag_enrollment_expires_at := None, ag_credential_hash := None, ag_archived_at := Some now,
     ag_offline_detected_at := None\<rparr>"

definition removeAgent :: "time \<Rightarrow> uuid \<Rightarrow> db \<Rightarrow> removal \<times> db" where
  "removeAgent now i d =
     (case find (\<lambda>r. ag_id r = i \<and> ag_archived_at r = None) (agents d) of
        None \<Rightarrow> (RemovalMissing, d)
      | Some a \<Rightarrow>
          if agent_blocked i d then (RemovalBlocked, d)
          else if ag_enrolled_at a = None \<and> \<not> agent_referenced i d
          then (if agent_restricted i d then (RemovalRaised, d)
                else (RemovedDeleted, d\<lparr>agents := delete_rows (\<lambda>r. ag_id r = i) (agents d)\<rparr>))
          else (RemovedArchived,
                d\<lparr>agents := update_rows (\<lambda>r. ag_id r = i) (archive_agent now) (agents d)\<rparr>))"

definition enrollable :: "time \<Rightarrow> string \<Rightarrow> agent_row \<Rightarrow> bool" where
  "enrollable now tokenHash r \<longleftrightarrow>
     ag_enrollment_token_hash r = Some tokenHash
     \<and> (case ag_enrollment_expires_at r of None \<Rightarrow> False | Some t \<Rightarrow> t > now)
     \<and> ag_enrolled_at r = None \<and> ag_enabled r"

definition enroll_row :: "time \<Rightarrow> string \<Rightarrow> agent_row \<Rightarrow> agent_row" where
  "enroll_row now credentialHash r = r\<lparr>ag_credential_hash := Some credentialHash, ag_enrolled_at := Some now,
     ag_enrollment_token_hash := None, ag_enrollment_expires_at := None\<rparr>"

definition enrollAgent :: "time \<Rightarrow> time \<Rightarrow> string \<Rightarrow> string \<Rightarrow> db \<Rightarrow> Agent option \<times> db" where
  "enrollAgent now date_now tokenHash credentialHash d =
     (map_option (\<lambda>r. agent date_now (enroll_row now credentialHash r)) (find (enrollable now tokenHash) (agents d)),
      d\<lparr>agents := update_rows (enrollable now tokenHash) (enroll_row now credentialHash) (agents d)\<rparr>)"

definition authenticateAgent :: "time \<Rightarrow> string \<Rightarrow> db \<Rightarrow> Agent option" where
  "authenticateAgent date_now credentialHash d =
     map_option (agent date_now) (find (\<lambda>r. ag_credential_hash r = Some credentialHash \<and> ag_enabled r) (agents d))"

section \<open>Heartbeats\<close>

definition runtime_status_of :: "string \<Rightarrow> ConnectorRuntimeStatus option" where
  "runtime_status_of s =
     (if s = ''connected'' then Some RtConnected
      else if s = ''origin_unhealthy'' then Some RtOriginUnhealthy
      else if s = ''reconnecting'' then Some RtReconnecting
      else if s = ''stopped'' then Some RtStopped
      else if s = ''failed'' then Some RtFailed else None)"

text \<open>One entry of the connectors of a heartbeat, for agent \<open>i\<close>.\<close>

definition observe_connector :: "time \<Rightarrow> uuid \<Rightarrow> string \<times> json \<Rightarrow> connector_row list \<Rightarrow> connector_row list" where
  "observe_connector now i entry t =
     (case snd entry of
        JObj value \<Rightarrow>
          (case runtime_status_of (js_String (jprop value ''status'')) of
             None \<Rightarrow> t
           | Some st \<Rightarrow>
               update_rows (\<lambda>r. con_id r = fst entry \<and> con_agent_id r = i \<and> con_enabled r)
                 (\<lambda>r. r\<lparr>con_runtime_status := st,
                       con_last_error := map_option (take 1000) (as_string (jprop value ''error'')),
                       con_last_observed_at := Some now, con_updated_at := now\<rparr>) t)
      | _ \<Rightarrow> t)"

definition heartbeat_connectors :: "jobj \<Rightarrow> (string \<times> json) list" where
  "heartbeat_connectors metadata =
     (case as_object (jprop metadata ''diagnostics'') of
        None \<Rightarrow> []
      | Some diag \<Rightarrow>
          (case as_object (jprop diag ''connectors'') of None \<Rightarrow> [] | Some cs \<Rightarrow> take 100 cs))"

definition heartbeatAgent :: "(nat \<Rightarrow> uuid) \<Rightarrow> time \<Rightarrow> uuid \<Rightarrow> jobj \<Rightarrow> db \<Rightarrow> db" where
  "heartbeatAgent gen now i metadata d =
     (let current = find (\<lambda>r. ag_id r = i) (agents d);
          d = d\<lparr>agents := update_rows (\<lambda>r. ag_id r = i)
                 (\<lambda>r. r\<lparr>ag_last_heartbeat_at := Some now, ag_last_metadata := Some metadata,
                       ag_offline_detected_at := None\<rparr>) (agents d)\<rparr>;
          d = (case current of
                 Some a \<Rightarrow>
                   if ag_offline_detected_at a \<noteq> None
                   then enqueueEvent gen now AgentRecovered
                          (no_scope\<lparr>ev_agentId := Some i, ev_payload := [(''agentName'', JStr (ag_name a))]\<rparr>) d
                   else d
               | None \<Rightarrow> d)
      in d\<lparr>connectors := fold (observe_connector now i) (heartbeat_connectors metadata) (connectors d)\<rparr>)"

section \<open>Telemetry\<close>

definition latest_snapshot :: "uuid \<Rightarrow> db \<Rightarrow> snapshot_row option" where
  "latest_snapshot i d =
     (case rev (sort_key tel_created_at (filter (\<lambda>s. tel_agent_id s = i) (snapshots d))) of
        [] \<Rightarrow> None | s # _ \<Rightarrow> Some s)"

text \<open>The previous services by name: of two with one name the later counts.\<close>

definition service_map :: "jobj list \<Rightarrow> string \<Rightarrow> jobj option" where
  "service_map svcs = map_of (rev (map (\<lambda>s. (js_String (jprop s ''name''), s)) svcs))"

definition previous_property :: "jobj list \<Rightarrow> string \<Rightarrow> string \<Rightarrow> json option" where
  "previous_property svcs name key = (case service_map svcs name of None \<Rightarrow> None | Some s \<Rightarrow> jprop s key)"

definition service_scope :: "uuid \<Rightarrow> jobj \<Rightarrow> jobj \<Rightarrow> event_values" where
  "service_scope i service payload = no_scope\<lparr>ev_agentId := Some i,
     ev_projectName := Some (js_String (jprop service ''projectName'')),
     ev_serviceName := Some (js_String (jprop service ''serviceName'')), ev_payload := payload\<rparr>"

text \<open>The events one service of a snapshot gives rise to, against the services of the previous one.\<close>

definition service_events ::
  "(string \<Rightarrow> time option) \<Rightarrow> time \<Rightarrow> uuid \<Rightarrow> jobj list \<Rightarrow> jobj \<Rightarrow> (OperationalEventType \<times> event_values) list" where
  "service_events date_parse date_now i previous service =
     (let name = js_String (jprop service ''name'');
          status = jprop service ''status'';
          previousStatus = js_String (nullish (previous_property previous name ''status'') (Some (JStr ''unknown'')));
          wasUnhealthy = (previous_property previous name ''status'' = Some (JStr ''unhealthy''));
          unhealthy =
            (if status = Some (JStr ''unhealthy'') \<and> \<not> wasUnhealthy
             then [(ServiceUnhealthy, service_scope i service [(''service'', JStr name)])] else []);
          stopped =
            (if status = Some (JStr ''stopped'') \<and> previousStatus \<noteq> ''stopped''
             then [(ServiceStopped, service_scope i service [(''service'', JStr name)])] else []);
          recovered =
            (if js_String status \<in> {''healthy'', ''running''} \<and> previousStatus \<in> {''unhealthy'', ''stopped''}
             then [(ServiceRecovered, service_scope i service
                     [(''service'', JStr name), (''previousStatus'', JStr previousStatus)])] else []);
          expiring =
            (case jprop service ''certificateExpiresAt'' of
               Some (JStr s) \<Rightarrow>
                 (case date_parse s of
                    Some expiresAt \<Rightarrow>
                      if expiresAt \<le> date_now + 30 * 86400000
                         \<and> previous_property previous name ''certificateExpiresAt'' \<noteq> Some (JStr s)
                      then [(CertificateExpiring, service_scope i service
                              [(''service'', JStr name), (''expiresAt'', JStr s)])]
                      else []
                  | None \<Rightarrow> [])
             | _ \<Rightarrow> [])
      in unhealthy @ stopped @ recovered @ expiring)"

definition recordTelemetry ::
  "(nat \<Rightarrow> uuid) \<Rightarrow> (string \<Rightarrow> time option) \<Rightarrow> time \<Rightarrow> time \<Rightarrow> uuid \<Rightarrow> time \<Rightarrow> jobj \<Rightarrow> jobj list \<Rightarrow> db \<Rightarrow> db" where
  "recordTelemetry gen date_parse now date_now i observedAt node services d =
     (let previous = (case latest_snapshot i d of None \<Rightarrow> [] | Some s \<Rightarrow> tel_services s);
          (sid, d) = draw gen d;
          d = d\<lparr>snapshots := snapshots d @ [\<lparr>tel_id = sid, tel_agent_id = i, tel_observed_at = observedAt,
                 tel_node = node, tel_services = services, tel_created_at = now\<rparr>]\<rparr>;
          d = d\<lparr>agents := update_rows (\<lambda>r. ag_id r = i)
                 (\<lambda>r. r\<lparr>ag_last_telemetry_at := Some now, ag_offline_detected_at := None\<rparr>) (agents d)\<rparr>
      in enqueueAll gen now (concat (map (service_events date_parse date_now i previous) services)) d)"

section \<open>Monitoring\<close>

definition archived :: "db \<Rightarrow> uuid \<Rightarrow> bool" where
  "archived d i = exists_row (\<lambda>r. ag_id r = i \<and> ag_archived_at r \<noteq> None) (agents d)"

definition getMonitoringSummary :: "db \<Rightarrow> TelemetrySnapshot list" where
  "getMonitoringSummary d =
     (let live = filter (\<lambda>r. ag_archived_at r = None) (agents d)
      in map telemetry (List.map_filter (\<lambda>r. latest_snapshot (ag_id r) d) (sort_key ag_id live)))"

definition getAgentMonitoring ::
  "time \<Rightarrow> uuid \<Rightarrow> db \<Rightarrow> (Agent \<times> TelemetrySnapshot option \<times> TelemetrySnapshot list) option" where
  "getAgentMonitoring date_now i d =
     (case find (\<lambda>r. ag_id r = i \<and> ag_archived_at r = None) (agents d) of
        None \<Rightarrow> None
      | Some a \<Rightarrow>
          (let history = map telemetry (take 288
                 (rev (sort_key tel_created_at (filter (\<lambda>s. tel_agent_id s = i) (snapshots d)))))
           in Some (agent date_now a, (case history of [] \<Rightarrow> None | h # _ \<Rightarrow> Some h), history)))"

definition getLatestRuntimeInventory :: "time \<Rightarrow> db \<Rightarrow> RuntimeInventory list" where
  "getLatestRuntimeInventory date_now d =
     map (\<lambda>r. \<lparr>Inventory_agent = agent date_now r,
               Inventory_latest = map_option telemetry (latest_snapshot (ag_id r) d)\<rparr>)
       (sort_key ag_name (filter (\<lambda>r. ag_archived_at r = None) (agents d)))"

section \<open>Agents that went offline\<close>

definition went_offline :: "time \<Rightarrow> agent_row \<Rightarrow> bool" where
  "went_offline offlineBefore r \<longleftrightarrow>
     ag_enabled r \<and> ag_enrolled_at r \<noteq> None
     \<and> (case ag_last_heartbeat_at r of None \<Rightarrow> False | Some t \<Rightarrow> t < offlineBefore)
     \<and> ag_offline_detected_at r = None"

definition offline_event :: "agent_row \<Rightarrow> OperationalEventType \<times> event_values" where
  "offline_event r = (AgentOffline, no_scope\<lparr>ev_agentId := Some (ag_id r),
     ev_payload := [(''agentId'', JStr (ag_id r)), (''agentName'', JStr (ag_name r))]\<rparr>)"

definition sweepOfflineAgents :: "(nat \<Rightarrow> uuid) \<Rightarrow> time \<Rightarrow> time \<Rightarrow> db \<Rightarrow> nat \<times> db" where
  "sweepOfflineAgents gen now offlineBefore d =
     (let hit = filter (went_offline offlineBefore) (agents d);
          d = d\<lparr>agents := update_rows (went_offline offlineBefore)
                 (\<lambda>r. r\<lparr>ag_offline_detected_at := Some now\<rparr>) (agents d)\<rparr>
      in (length hit, enqueueAll gen now (map offline_event hit) d))"

section \<open>The invariant of the agents\<close>

text \<open>
  Identifiers and names are unique; an archived agent is disabled and holds no secret; an
  agent that is not archived has a credential exactly when it is enrolled, and an enrolled
  agent holds no enrolment token.
\<close>

definition agent_sane :: "agent_row \<Rightarrow> bool" where
  "agent_sane r \<longleftrightarrow>
     (ag_archived_at r \<noteq> None \<longrightarrow> \<not> ag_enabled r \<and> ag_credential_hash r = None \<and> ag_enrollment_token_hash r = None)
     \<and> (ag_archived_at r = None \<longrightarrow> (ag_credential_hash r = None) = (ag_enrolled_at r = None))
     \<and> (ag_enrolled_at r \<noteq> None \<longrightarrow> ag_enrollment_token_hash r = None)"

definition agents_ok :: "(nat \<Rightarrow> uuid) \<Rightarrow> db \<Rightarrow> bool" where
  "agents_ok gen d \<longleftrightarrow>
     distinct (map ag_id (agents d)) \<and> ag_id ` set (agents d) \<subseteq> drawn gen (draws d)
     \<and> distinct (map ag_name (agents d)) \<and> (\<forall>r \<in> set (agents d). agent_sane r)"

lemma agents_ok_empty: "agents_ok gen empty_db"
  by (simp add: agents_ok_def empty_db_def)

text \<open>Rewriting rows in place keeps the invariant when it keeps identifiers, names and sanity.\<close>

lemma agents_ok_update:
  assumes ok: "agents_ok gen d" and rows: "agents e = update_rows P f (agents d)" and "draws d \<le> draws e"
    and same: "\<And>r. ag_id (f r) = ag_id r" "\<And>r. ag_name (f r) = ag_name r"
    and sane: "\<And>r. r \<in> set (agents d) \<Longrightarrow> P r \<Longrightarrow> agent_sane r \<Longrightarrow> agent_sane (f r)"
  shows "agents_ok gen e"
proof -
  have ids: "map ag_id (agents e) = map ag_id (agents d)"
    unfolding rows by (rule map_update_rows) (simp add: same)
  have "map ag_name (agents e) = map ag_name (agents d)"
    unfolding rows by (rule map_update_rows) (simp add: same)
  moreover have "ag_id ` set (agents e) = ag_id ` set (agents d)"
    using arg_cong [OF ids, of set] by simp
  moreover have "drawn gen (draws d) \<subseteq> drawn gen (draws e)"
    using assms(3) by (rule drawn_mono)
  moreover have "\<forall>r \<in> set (agents e). agent_sane r"
    using ok sane unfolding rows agents_ok_def by (auto simp: set_update_rows)
  ultimately show ?thesis
    using ok ids unfolding agents_ok_def by auto
qed

text \<open>An operation that leaves the agents alone keeps the invariant.\<close>

lemma agents_ok_frame:
  "agents_ok gen d \<Longrightarrow> agents e = agents d \<Longrightarrow> draws d \<le> draws e \<Longrightarrow> agents_ok gen e"
  using agents_ok_update [of gen d e "\<lambda>_. False" id] by (simp add: update_rows_none)

lemma draws_enqueueAll: "draws d \<le> draws (enqueueAll gen now evs d)"
proof (induction evs arbitrary: d)
  case (Cons ev evs)
  obtain t v where "ev = (t, v)" by fastforce
  with Cons [of "enqueueEvent gen now t v d"] enqueueEvent_draws [of d gen now t v] show ?case by simp
qed simp

lemma createAgent_ok:
  assumes gen: "inj gen" and ok: "agents_ok gen d"
    and "createAgent gen now dn name tok expi d = Inr (a, d')"
  shows "agents_ok gen d'"
proof -
  have ids: "gen (draws d) \<notin> ag_id ` set (agents d)"
    using fresh_id [OF gen, of ag_id "set (agents d)" "draws d"] ok by (auto simp: agents_ok_def)
  have names: "name \<notin> ag_name ` set (agents d)"
    using assms(3) by (auto simp: createAgent_def split: if_splits)
  obtain row where row: "agents d' = agents d @ [row]" "draws d' = Suc (draws d)"
    "ag_id row = gen (draws d)" "ag_name row = name" "agent_sane row"
    using assms(3) by (auto simp: createAgent_def draw_def Let_def agent_sane_def split: if_splits)
  show ?thesis
    using ok ids names by (simp add: agents_ok_def row subset_insertI2)
qed

lemma enrollAgent_ok: "agents_ok gen d \<Longrightarrow> agents_ok gen (snd (enrollAgent now dn tok cred d))"
  by (erule agents_ok_update [where P = "enrollable now tok" and f = "enroll_row now cred"])
    (auto simp: enrollAgent_def enroll_row_def enrollable_def agent_sane_def)

lemma agents_ok_delete:
  "agents_ok gen d \<Longrightarrow> agents_ok gen (d\<lparr>agents := delete_rows P (agents d)\<rparr>)"
  unfolding agents_ok_def delete_rows_def
  by (auto simp: distinct_map intro: inj_on_subset)

lemma removeAgent_ok: "agents_ok gen d \<Longrightarrow> agents_ok gen (snd (removeAgent now i d))"
proof -
  assume ok: "agents_ok gen d"
  have "agents_ok gen (d\<lparr>agents := update_rows (\<lambda>r. ag_id r = i) (archive_agent now) (agents d)\<rparr>)"
    by (rule agents_ok_update [OF ok, where P = "\<lambda>r. ag_id r = i" and f = "archive_agent now"])
      (auto simp: archive_agent_def agent_sane_def)
  with ok agents_ok_delete [OF ok] show ?thesis
    by (auto simp: removeAgent_def split: option.splits)
qed

lemma heartbeatAgent_agents:
  "agents (heartbeatAgent gen now i m d) = update_rows (\<lambda>r. ag_id r = i)
     (\<lambda>r. r\<lparr>ag_last_heartbeat_at := Some now, ag_last_metadata := Some m, ag_offline_detected_at := None\<rparr>) (agents d)"
  by (simp add: heartbeatAgent_def Let_def frame_simps split: option.splits)

lemma heartbeatAgent_draws: "draws d \<le> draws (heartbeatAgent gen now i m d)"
  by (auto simp: heartbeatAgent_def Let_def split: option.splits
      intro!: order_trans [OF _ less_imp_le [OF enqueueEvent_draws]])

lemma heartbeatAgent_ok: "agents_ok gen d \<Longrightarrow> agents_ok gen (heartbeatAgent gen now i m d)"
  by (erule agents_ok_update [OF _ heartbeatAgent_agents heartbeatAgent_draws]) (auto simp: agent_sane_def)

lemma recordTelemetry_agents:
  "agents (recordTelemetry gen dp now dn i obs node svcs d) = update_rows (\<lambda>r. ag_id r = i)
     (\<lambda>r. r\<lparr>ag_last_telemetry_at := Some now, ag_offline_detected_at := None\<rparr>) (agents d)"
  by (simp add: recordTelemetry_def Let_def draw_def frame_simps)

lemma recordTelemetry_draws: "draws d \<le> draws (recordTelemetry gen dp now dn i obs node svcs d)"
  unfolding recordTelemetry_def Let_def draw_def prod.case
  by (rule order_trans [OF _ draws_enqueueAll]) simp

lemma recordTelemetry_ok: "agents_ok gen d \<Longrightarrow> agents_ok gen (recordTelemetry gen dp now dn i obs node svcs d)"
  by (erule agents_ok_update [OF _ recordTelemetry_agents recordTelemetry_draws]) (auto simp: agent_sane_def)

lemma sweepOfflineAgents_agents:
  "agents (snd (sweepOfflineAgents gen now b d)) =
     update_rows (went_offline b) (\<lambda>r. r\<lparr>ag_offline_detected_at := Some now\<rparr>) (agents d)"
  by (simp add: sweepOfflineAgents_def Let_def frame_simps)

lemma sweepOfflineAgents_draws: "draws d \<le> draws (snd (sweepOfflineAgents gen now b d))"
  unfolding sweepOfflineAgents_def Let_def snd_conv
  by (rule order_trans [OF _ draws_enqueueAll]) simp

lemma sweepOfflineAgents_ok: "agents_ok gen d \<Longrightarrow> agents_ok gen (snd (sweepOfflineAgents gen now b d))"
  by (erule agents_ok_update [OF _ sweepOfflineAgents_agents sweepOfflineAgents_draws]) (auto simp: agent_sane_def)

section \<open>Enrolment\<close>

lemma enrollable_later:
  "now \<le> now' \<Longrightarrow> enrollable now' tok r \<Longrightarrow> enrollable now tok r"
  by (auto simp: enrollable_def split: option.splits)

lemma not_enrollable_enrolled: "\<not> enrollable now' tok (enroll_row now cred r)"
  by (simp add: enrollable_def enroll_row_def)

lemma enrolled_authenticates:
  assumes "fst (enrollAgent now dn tok cred d) = Some a"
  shows "\<exists>b. authenticateAgent dn' cred (snd (enrollAgent now dn tok cred d)) = Some b"
proof -
  from assms obtain r where r: "r \<in> set (agents d)" "enrollable now tok r"
    by (auto simp: enrollAgent_def dest: find_someD)
  have "enroll_row now cred r \<in> set (agents (snd (enrollAgent now dn tok cred d)))"
    using r by (auto simp: enrollAgent_def set_update_rows)
  moreover have "ag_credential_hash (enroll_row now cred r) = Some cred" "ag_enabled (enroll_row now cred r)"
    using r(2) by (simp_all add: enroll_row_def enrollable_def)
  ultimately have "find (\<lambda>s. ag_credential_hash s = Some cred \<and> ag_enabled s)
      (agents (snd (enrollAgent now dn tok cred d))) \<noteq> None"
    by (auto simp: find_none_iff)
  then show ?thesis by (auto simp: authenticateAgent_def)
qed

section \<open>Events of the sweep and of telemetry\<close>

lemma sweep_again:
  assumes "snd (sweepOfflineAgents gen now b d) = d'"
  shows "fst (sweepOfflineAgents gen now' b d') = 0 \<and> snd (sweepOfflineAgents gen now' b d') = d'"
proof -
  have none: "\<forall>r \<in> set (agents d'). \<not> went_offline b r"
    unfolding assms [symmetric] sweepOfflineAgents_agents
    by (auto simp: set_update_rows went_offline_def)
  then have "filter (went_offline b) (agents d') = []" by (simp add: filter_empty_conv)
  moreover have "update_rows (went_offline b) f (agents d') = agents d'" for f
    using none by (intro update_rows_none) simp
  ultimately show ?thesis by (simp add: sweepOfflineAgents_def Let_def)
qed

lemma sweep_events:
  "map evt_type (events (snd (sweepOfflineAgents gen now b d))) =
     map evt_type (events d) @ replicate (fst (sweepOfflineAgents gen now b d)) AgentOffline"
  by (simp add: sweepOfflineAgents_def Let_def enqueueAll_types offline_event_def o_def map_replicate_const)

lemma sweep_event_agents:
  "map evt_agent_id (events (snd (sweepOfflineAgents gen now b d))) =
     map evt_agent_id (events d) @ map (\<lambda>r. Some (ag_id r)) (filter (went_offline b) (agents d))"
  by (simp add: sweepOfflineAgents_def Let_def enqueueAll_agents offline_event_def o_def case_prod_beta)

lemma service_events_types:
  "fst ` set (service_events dp dn i prev svc) \<subseteq> {ServiceUnhealthy, ServiceStopped, ServiceRecovered, CertificateExpiring}"
  by (auto simp: service_events_def Let_def split: if_splits option.splits json.splits)

lemma recordTelemetry_events:
  "map evt_type (events (recordTelemetry gen dp now dn i obs node svcs d)) = map evt_type (events d) @
     map fst (concat (map (service_events dp dn i
       (case latest_snapshot i d of None \<Rightarrow> [] | Some s \<Rightarrow> tel_services s)) svcs))"
  by (simp add: recordTelemetry_def Let_def draw_def enqueueAll_types)

end
