(* ===== verification/Gw_Queue.thy ===== *)
theory Gw_Queue
  imports Gw_Agents
begin

text \<open>
  The queue of agent commands: inserting a command, asking for the commands, and the two
  ways a change of a resource queues its synchronisation with the agent. At most one
  synchronisation of a resource is pending at an agent: the partial unique indexes of the
  table \<open>agent_commands\<close> say so, and the operations here keep it.
\<close>

definition sync_key :: "string \<Rightarrow> string option" where
  "sync_key type =
     (if type = ''cloudflare.connector.sync'' then Some ''connectorId''
      else if type = ''compose.stack.sync'' then Some ''stackId''
      else if type = ''traefik.route.sync'' then Some ''routeId'' else None)"

definition sync_target :: "command_row \<Rightarrow> string option" where
  "sync_target c = (case sync_key (cmd_type c) of None \<Rightarrow> None | Some k \<Rightarrow> json_text (jprop (cmd_payload c) k))"

definition pending_sync :: "command_row \<Rightarrow> bool" where
  "pending_sync c \<longleftrightarrow> cmd_status c = CmdPending \<and> sync_target c \<noteq> None"

definition new_command :: "uuid \<Rightarrow> time \<Rightarrow> uuid \<Rightarrow> string \<Rightarrow> jobj \<Rightarrow> command_row" where
  "new_command cid now agentId type payload =
     \<lparr>cmd_id = cid, cmd_agent_id = agentId, cmd_type = type, cmd_payload = payload,
      cmd_status = CmdPending, cmd_claimed_at = None, cmd_completed_at = None, cmd_result = None,
      cmd_created_at = now, cmd_attempts = 0, cmd_lease_expires_at = None\<rparr>"

definition command_conflict :: "uuid \<Rightarrow> string \<Rightarrow> jobj \<Rightarrow> db \<Rightarrow> bool" where
  "command_conflict agentId type payload d =
     (let c = new_command [] 0 agentId type payload
      in pending_sync c
         \<and> exists_row (\<lambda>r. pending_sync r \<and> cmd_agent_id r = agentId \<and> cmd_type r = type
                        \<and> sync_target r = sync_target c) (commands d))"

definition insert_command ::
  "(nat \<Rightarrow> uuid) \<Rightarrow> time \<Rightarrow> uuid \<Rightarrow> string \<Rightarrow> jobj \<Rightarrow> db \<Rightarrow> command_row \<times> db" where
  "insert_command gen now agentId type payload d =
     (let (cid, d) = draw gen d; c = new_command cid now agentId type payload
      in (c, d\<lparr>commands := commands d @ [c]\<rparr>))"

definition agent_enabled :: "uuid \<Rightarrow> db \<Rightarrow> bool" where
  "agent_enabled i d = exists_row (\<lambda>r. ag_id r = i \<and> ag_enabled r) (agents d)"

definition agent_ready :: "uuid \<Rightarrow> db \<Rightarrow> bool" where
  "agent_ready i d = exists_row (\<lambda>r. ag_id r = i \<and> ag_enabled r \<and> ag_enrolled_at r \<noteq> None) (agents d)"

definition createCommand ::
  "(nat \<Rightarrow> uuid) \<Rightarrow> time \<Rightarrow> uuid \<Rightarrow> string \<Rightarrow> jobj \<Rightarrow> db \<Rightarrow> pg_error + AgentCommand option \<times> db" where
  "createCommand gen now agentId type payload d =
     (if \<not> agent_enabled agentId d then Inr (None, d)
      else if command_conflict agentId type payload d then Inl UniqueViolation
      else let (c, d) = insert_command gen now agentId type payload d in Inr (Some (command c), d))"

definition listCommands :: "uuid option \<Rightarrow> db \<Rightarrow> AgentCommand list" where
  "listCommands agentId d =
     map command (take 200 (rev (sort_key cmd_created_at
       (filter (\<lambda>c. case agentId of None \<Rightarrow> True | Some i \<Rightarrow> cmd_agent_id c = i) (commands d)))))"

definition getCommand :: "uuid \<Rightarrow> db \<Rightarrow> AgentCommand option" where
  "getCommand i d = map_option command (find (\<lambda>c. cmd_id c = i) (commands d))"

definition queueInternalSync ::
  "(nat \<Rightarrow> uuid) \<Rightarrow> time \<Rightarrow> uuid \<Rightarrow> string \<Rightarrow> string \<Rightarrow> uuid \<Rightarrow> db \<Rightarrow> db" where
  "queueInternalSync gen now agentId type entityKey entityId d =
     (if command_conflict agentId type [(entityKey, JStr entityId)] d then d
      else snd (insert_command gen now agentId type [(entityKey, JStr entityId)] d))"

definition connector_payload :: "uuid \<Rightarrow> int \<Rightarrow> jobj" where
  "connector_payload connectorId revision = [(''connectorId'', JStr connectorId), (''revision'', JNum revision)]"

definition queueConnectorSync ::
  "(nat \<Rightarrow> uuid) \<Rightarrow> time \<Rightarrow> uuid \<Rightarrow> uuid \<Rightarrow> int \<Rightarrow> bool \<Rightarrow> db \<Rightarrow> db" where
  "queueConnectorSync gen now agentId connectorId revision stopping d =
     (let d = d\<lparr>connectors := update_rows (\<lambda>r. con_id r = connectorId)
                 (\<lambda>r. r\<lparr>con_deployment_status := (if stopping then KStopping else KPending),
                       con_last_error := None, con_updated_at := now\<rparr>) (connectors d)\<rparr>;
          pending = (\<lambda>c. cmd_agent_id c = agentId \<and> cmd_type c = ''cloudflare.connector.sync''
                       \<and> cmd_status c = CmdPending
                       \<and> json_text (jprop (cmd_payload c) ''connectorId'') = Some connectorId)
      in if exists_row pending (commands d)
         then d\<lparr>commands := update_rows pending
                  (\<lambda>c. c\<lparr>cmd_payload := connector_payload connectorId revision, cmd_created_at := now\<rparr>) (commands d)\<rparr>
         else snd (insert_command gen now agentId ''cloudflare.connector.sync''
                (connector_payload connectorId revision) d))"

section \<open>What the queue keeps\<close>

text \<open>
  The identifiers of the commands are unique, and for each agent, kind and resource there is
  at most one pending synchronisation.
\<close>

definition sync_slot :: "command_row \<Rightarrow> uuid \<times> string \<times> string option" where
  "sync_slot c = (cmd_agent_id c, cmd_type c, sync_target c)"

definition queue_ok :: "(nat \<Rightarrow> uuid) \<Rightarrow> db \<Rightarrow> bool" where
  "queue_ok gen d \<longleftrightarrow>
     distinct (map cmd_id (commands d)) \<and> cmd_id ` set (commands d) \<subseteq> drawn gen (draws d)
     \<and> unique_where pending_sync sync_slot (commands d)"

lemma queue_ok_empty: "queue_ok gen empty_db"
  by (simp add: queue_ok_def empty_db_def)

lemma queue_ok_frame:
  "queue_ok gen d \<Longrightarrow> commands e = commands d \<Longrightarrow> draws d \<le> draws e \<Longrightarrow> queue_ok gen e"
  using drawn_mono [of "draws d" "draws e" gen] by (auto simp: queue_ok_def)

lemma insert_command_eq:
  "insert_command gen now a t p d =
     (new_command (gen (draws d)) now a t p,
      d\<lparr>draws := Suc (draws d), commands := commands d @ [new_command (gen (draws d)) now a t p]\<rparr>)"
  by (simp add: insert_command_def draw_def Let_def)

lemma new_command_simps [simp]:
  "cmd_id (new_command i now a t p) = i" "cmd_agent_id (new_command i now a t p) = a"
  "cmd_type (new_command i now a t p) = t" "cmd_payload (new_command i now a t p) = p"
  "cmd_status (new_command i now a t p) = CmdPending" "cmd_result (new_command i now a t p) = None"
  "cmd_created_at (new_command i now a t p) = now"
  by (simp_all add: new_command_def)

lemma sync_target_new [simp]:
  "sync_target (new_command i now a t p) =
     (case sync_key t of None \<Rightarrow> None | Some k \<Rightarrow> json_text (jprop p k))"
  by (simp add: sync_target_def split: option.split)

lemma pending_sync_new [simp]:
  "pending_sync (new_command i now a t p) \<longleftrightarrow>
     (case sync_key t of None \<Rightarrow> None | Some k \<Rightarrow> json_text (jprop p k)) \<noteq> None"
  by (simp add: pending_sync_def)

lemma insert_command_ok:
  assumes gen: "inj gen" and ok: "queue_ok gen d"
    and free: "\<not> command_conflict a t p d"
  shows "queue_ok gen (snd (insert_command gen now a t p d))"
proof -
  let ?c = "new_command (gen (draws d)) now a t p"
  have ids: "gen (draws d) \<notin> cmd_id ` set (commands d)"
    using fresh_id [OF gen, of cmd_id "set (commands d)" "draws d"] ok by (auto simp: queue_ok_def)
  have "pending_sync ?c \<longrightarrow> (\<forall>s \<in> set (commands d). pending_sync s \<longrightarrow> sync_slot s \<noteq> sync_slot ?c)"
    using free by (auto simp: command_conflict_def sync_slot_def Let_def)
  with ok ids show ?thesis
    by (simp add: queue_ok_def insert_command_eq unique_where_insert subset_insertI2)
qed

lemma insert_command_no_sync:
  "sync_key t = None \<Longrightarrow> \<not> command_conflict a t p d"
  by (simp add: command_conflict_def Let_def)

lemma createCommand_ok:
  "inj gen \<Longrightarrow> queue_ok gen d \<Longrightarrow> createCommand gen now a t p d = Inr (c, d') \<Longrightarrow> queue_ok gen d'"
  using insert_command_ok [of gen d a t p now]
  by (auto simp: createCommand_def split: if_splits prod.splits)

lemma queueInternalSync_ok:
  "inj gen \<Longrightarrow> queue_ok gen d \<Longrightarrow> queue_ok gen (queueInternalSync gen now a t k i d)"
  by (simp add: queueInternalSync_def insert_command_ok)

text \<open>Rewriting commands in place keeps the queue in order when no row becomes a new pending synchronisation.\<close>

lemma queue_ok_update:
  assumes ok: "queue_ok gen d" and rows: "commands e = update_rows P f (commands d)" and "draws d \<le> draws e"
    and ids: "\<And>c. cmd_id (f c) = cmd_id c"
    and sync: "\<And>c. P c \<Longrightarrow> pending_sync (f c) \<Longrightarrow> pending_sync c \<and> sync_slot (f c) = sync_slot c"
  shows "queue_ok gen e"
proof -
  have ids': "map cmd_id (commands e) = map cmd_id (commands d)"
    unfolding rows by (rule map_update_rows) (simp add: ids)
  have "cmd_id ` set (commands e) = cmd_id ` set (commands d)"
    using arg_cong [OF ids', of set] by simp
  moreover have "unique_where pending_sync sync_slot (commands e)"
    unfolding rows using ok sync by (intro unique_where_update) (auto simp: queue_ok_def)
  ultimately show ?thesis
    using ok ids' drawn_mono [OF assms(3), of gen] by (auto simp: queue_ok_def)
qed

lemma queueConnectorSync_ok:
  assumes gen: "inj gen" and ok: "queue_ok gen d"
  shows "queue_ok gen (queueConnectorSync gen now a i rv stopping d)"
proof -
  let ?P = "\<lambda>c. cmd_agent_id c = a \<and> cmd_type c = ''cloudflare.connector.sync'' \<and> cmd_status c = CmdPending
     \<and> json_text (jprop (cmd_payload c) ''connectorId'') = Some i"
  let ?d = "d\<lparr>connectors := update_rows (\<lambda>r. con_id r = i)
     (\<lambda>r. r\<lparr>con_deployment_status := (if stopping then KStopping else KPending), con_last_error := None,
            con_updated_at := now\<rparr>) (connectors d)\<rparr>"
  show ?thesis
  proof (cases "exists_row ?P (commands d)")
    case True
    have "queue_ok gen (?d\<lparr>commands := update_rows ?P
        (\<lambda>c. c\<lparr>cmd_payload := connector_payload i rv, cmd_created_at := now\<rparr>) (commands ?d)\<rparr>)"
      by (rule queue_ok_update [OF ok, where P = ?P and f = "\<lambda>c. c\<lparr>cmd_payload := connector_payload i rv, cmd_created_at := now\<rparr>"])
        (auto simp: pending_sync_def sync_slot_def sync_target_def sync_key_def connector_payload_def
          jprop_def json_text_def split: option.splits)
    with True show ?thesis
      by (simp add: queueConnectorSync_def Let_def del: exists_row_iff split del: if_split)
  next
    case False
    have "\<not> command_conflict a ''cloudflare.connector.sync'' (connector_payload i rv) ?d"
      using False
      by (auto simp: command_conflict_def Let_def pending_sync_def sync_target_def sync_key_def
          connector_payload_def jprop_def json_text_def split: option.splits)
    moreover have "queue_ok gen ?d" using ok by (rule queue_ok_frame) simp_all
    ultimately have "queue_ok gen (snd (insert_command gen now a ''cloudflare.connector.sync''
        (connector_payload i rv) ?d))"
      by (rule insert_command_ok [OF gen, rotated])
    with False show ?thesis
      by (simp add: queueConnectorSync_def Let_def del: exists_row_iff split del: if_split)
  qed
qed

end
