(* ===== verification/Gw_Stacks.thy ===== *)
theory Gw_Stacks
  imports Gw_Queue
begin

text \<open>
  Managed stacks, routes, and the backups and restores of a stack. A change of a stack or of
  a route raises its revision, marks it pending and queues a synchronisation; a backup or a
  restore is refused while another one of the same stack is under way.
\<close>

section \<open>Stacks\<close>

definition listStacks :: "db \<Rightarrow> ManagedStack list" where
  "listStacks d = map stack (sort_key stk_name (stacks d))"

definition createStack ::
  "(nat \<Rightarrow> uuid) \<Rightarrow> time \<Rightarrow> uuid \<Rightarrow> string \<Rightarrow> string \<Rightarrow> string \<Rightarrow> bool \<Rightarrow> PostgresBackupConfig option \<Rightarrow> db
    \<Rightarrow> pg_error + ManagedStack option \<times> db" where
  "createStack gen now agentId name projectName encryptedComposeYaml enabled postgresBackupConfig d =
     (if \<not> agent_enabled agentId d then Inr (None, d)
      else if exists_row (\<lambda>r. stk_agent_id r = agentId \<and> stk_name r = name) (stacks d) then Inl UniqueViolation
      else
        let (sid, d) = draw gen d;
            row = \<lparr>stk_id = sid, stk_agent_id = agentId, stk_name = name, stk_project_name = projectName,
              stk_compose_yaml_encrypted = encryptedComposeYaml, stk_enabled = enabled, stk_revision = 1,
              stk_status = DepPending, stk_postgres_backup_config = postgresBackupConfig,
              stk_created_at = now, stk_updated_at = now\<rparr>;
            d = d\<lparr>stacks := stacks d @ [row]\<rparr>
        in Inr (Some (stack row), queueInternalSync gen now agentId ''compose.stack.sync'' ''stackId'' sid d))"

definition updated_stack ::
  "time \<Rightarrow> string option \<Rightarrow> string option \<Rightarrow> bool option \<Rightarrow> PostgresBackupConfig option option \<Rightarrow> stack_row \<Rightarrow> stack_row" where
  "updated_stack now name encryptedComposeYaml enabled postgresBackupConfig r =
     r\<lparr>stk_name := coalesce name (stk_name r),
       stk_compose_yaml_encrypted := coalesce encryptedComposeYaml (stk_compose_yaml_encrypted r),
       stk_enabled := coalesce enabled (stk_enabled r),
       stk_postgres_backup_config := coalesce postgresBackupConfig (stk_postgres_backup_config r),
       stk_revision := stk_revision r + 1, stk_status := DepPending, stk_updated_at := now\<rparr>"

definition updateStack ::
  "(nat \<Rightarrow> uuid) \<Rightarrow> time \<Rightarrow> uuid \<Rightarrow> string option \<Rightarrow> string option \<Rightarrow> bool option \<Rightarrow> PostgresBackupConfig option option \<Rightarrow> db
    \<Rightarrow> pg_error + ManagedStack option \<times> db" where
  "updateStack gen now i name encryptedComposeYaml enabled postgresBackupConfig d =
     (case find (\<lambda>s. stk_id s = i \<and> agent_enabled (stk_agent_id s) d) (stacks d) of
        None \<Rightarrow> Inr (None, d)
      | Some s \<Rightarrow>
          let row = updated_stack now name encryptedComposeYaml enabled postgresBackupConfig s
          in if exists_row (\<lambda>r. stk_id r \<noteq> i \<and> stk_agent_id r = stk_agent_id row \<and> stk_name r = stk_name row) (stacks d)
             then Inl UniqueViolation
             else
               let d = d\<lparr>stacks := update_rows (\<lambda>r. stk_id r = i)
                           (updated_stack now name encryptedComposeYaml enabled postgresBackupConfig) (stacks d)\<rparr>
               in Inr (Some (stack row),
                       queueInternalSync gen now (stk_agent_id row) ''compose.stack.sync'' ''stackId'' i d))"

definition stackDeployment :: "stack_row \<Rightarrow> StackDeployment" where
  "stackDeployment r = ManagedStack.extend (stack r) (StackDeployment.fields (stk_compose_yaml_encrypted r))"

definition getStackDeployment :: "uuid \<Rightarrow> db \<Rightarrow> StackDeployment option" where
  "getStackDeployment i d = map_option stackDeployment (find (\<lambda>s. stk_id s = i) (stacks d))"

definition queueStackAction ::
  "(nat \<Rightarrow> uuid) \<Rightarrow> time \<Rightarrow> uuid \<Rightarrow> string \<Rightarrow> db \<Rightarrow> AgentCommand option \<times> db" where
  "queueStackAction gen now stackId type d =
     (case find (\<lambda>s. stk_id s = stackId \<and> stk_enabled s \<and> agent_enabled (stk_agent_id s) d) (stacks d) of
        None \<Rightarrow> (None, d)
      | Some s \<Rightarrow>
          let (c, d) = insert_command gen now (stk_agent_id s) type
                 [(''composePath'', JStr (stk_id s @ ''/compose.yaml'')), (''stack'', JStr (stk_name s)),
                  (''project'', JStr (stk_project_name s))] d
          in (Some (command c), d))"

section \<open>Routes\<close>

definition listRoutes :: "db \<Rightarrow> ManagedRoute list" where
  "listRoutes d = map route (sort_key rte_name (routes d))"

definition createRoute ::
  "(nat \<Rightarrow> uuid) \<Rightarrow> time \<Rightarrow> uuid \<Rightarrow> string \<Rightarrow> string \<Rightarrow> Exposure \<Rightarrow> string list \<Rightarrow> bool \<Rightarrow> db
    \<Rightarrow> pg_error + ManagedRoute option \<times> db" where
  "createRoute gen now gatewayAgentId name hostname exposure backends enabled d =
     (if \<not> agent_enabled gatewayAgentId d then Inr (None, d)
      else if exists_row (\<lambda>r. rte_hostname r = hostname \<or> rte_gateway_agent_id r = gatewayAgentId \<and> rte_name r = name) (routes d)
      then Inl UniqueViolation
      else
        let (rid, d) = draw gen d;
            row = \<lparr>rte_id = rid, rte_gateway_agent_id = gatewayAgentId, rte_name = name, rte_hostname = hostname,
              rte_exposure = exposure, rte_backends = backends, rte_enabled = enabled, rte_revision = 1,
              rte_status = DepPending, rte_created_at = now, rte_updated_at = now\<rparr>;
            d = d\<lparr>routes := routes d @ [row]\<rparr>
        in Inr (Some (route row), queueInternalSync gen now gatewayAgentId ''traefik.route.sync'' ''routeId'' rid d))"

text \<open>
  The trigger \<open>managed_routes_domain_access_guard\<close>: while an enabled domain access rests on
  the route, the route may not be disabled, moved, renamed in DNS or exposed differently.
\<close>

definition route_guard :: "db \<Rightarrow> route_row \<Rightarrow> route_row \<Rightarrow> bool" where
  "route_guard d old new =
     ((rte_enabled old \<and> \<not> rte_enabled new \<or> rte_gateway_agent_id old \<noteq> rte_gateway_agent_id new
       \<or> rte_hostname old \<noteq> rte_hostname new \<or> rte_exposure old \<noteq> rte_exposure new)
      \<and> exists_row (\<lambda>h. dom_enabled h \<and> dom_route_id h = rte_id old) (domains d))"

definition updated_route ::
  "time \<Rightarrow> uuid option \<Rightarrow> string option \<Rightarrow> string option \<Rightarrow> Exposure option \<Rightarrow> string list option \<Rightarrow> bool option
    \<Rightarrow> route_row \<Rightarrow> route_row" where
  "updated_route now gatewayAgentId name hostname exposure backends enabled r =
     r\<lparr>rte_gateway_agent_id := coalesce gatewayAgentId (rte_gateway_agent_id r), rte_name := coalesce name (rte_name r),
       rte_hostname := coalesce hostname (rte_hostname r), rte_exposure := coalesce exposure (rte_exposure r),
       rte_backends := coalesce backends (rte_backends r), rte_enabled := coalesce enabled (rte_enabled r),
       rte_revision := rte_revision r + 1, rte_status := DepPending, rte_updated_at := now\<rparr>"

definition updateRoute ::
  "(nat \<Rightarrow> uuid) \<Rightarrow> time \<Rightarrow> uuid \<Rightarrow> uuid option \<Rightarrow> string option \<Rightarrow> string option \<Rightarrow> Exposure option \<Rightarrow> string list option
    \<Rightarrow> bool option \<Rightarrow> db \<Rightarrow> pg_error + ManagedRoute option \<times> db" where
  "updateRoute gen now i gatewayAgentId name hostname exposure backends enabled d =
     (case find (\<lambda>r. rte_id r = i) (routes d) of
        None \<Rightarrow> Inr (None, d)
      | Some r \<Rightarrow>
          if \<not> agent_enabled (coalesce gatewayAgentId (rte_gateway_agent_id r)) d then Inr (None, d)
          else
            let row = updated_route now gatewayAgentId name hostname exposure backends enabled r
            in if route_guard d r row then Inl (TriggerException ''domain_access_dependency_enabled'')
               else if exists_row (\<lambda>s. rte_id s \<noteq> i \<and> (rte_hostname s = rte_hostname row
                       \<or> rte_gateway_agent_id s = rte_gateway_agent_id row \<and> rte_name s = rte_name row)) (routes d)
               then Inl UniqueViolation
               else
                 let d = d\<lparr>routes := update_rows (\<lambda>s. rte_id s = i)
                             (updated_route now gatewayAgentId name hostname exposure backends enabled) (routes d)\<rparr>
                 in Inr (Some (route row),
                         queueInternalSync gen now (rte_gateway_agent_id row) ''traefik.route.sync'' ''routeId'' i d))"

definition getRouteDeployment :: "uuid \<Rightarrow> db \<Rightarrow> ManagedRoute option" where
  "getRouteDeployment i d = map_option route (find (\<lambda>r. rte_id r = i) (routes d))"

section \<open>Backups and restores of a stack\<close>

definition live_op :: "OperationStatus \<Rightarrow> bool" where
  "live_op s \<longleftrightarrow> s = OpPending \<or> s = OpRunning"

definition hasActiveStackOperation :: "uuid \<Rightarrow> db \<Rightarrow> bool" where
  "hasActiveStackOperation stackId d =
     (exists_row (\<lambda>b. bkp_stack_id b = stackId \<and> live_op (bkp_status b)) (backups d)
      \<or> exists_row (\<lambda>r. rst_stack_id r = stackId \<and> live_op (rst_status r)) (restores d))"

definition createBackup ::
  "(nat \<Rightarrow> uuid) \<Rightarrow> time \<Rightarrow> uuid \<Rightarrow> uuid \<Rightarrow> BackupTarget \<Rightarrow> db \<Rightarrow> StackBackup outcome \<times> db" where
  "createBackup gen now stackId requestedByUserId target d =
     (case find (\<lambda>s. stk_id s = stackId \<and> stk_enabled s \<and> agent_enabled (stk_agent_id s) d) (stacks d) of
        None \<Rightarrow> (NotFound, d)
      | Some s \<Rightarrow>
          if hasActiveStackOperation stackId d then (Active, d)
          else
            let (operationId, d) = draw gen d;
                (c, d) = insert_command gen now (stk_agent_id s) ''stack.backup.create'' [(''backupId'', JStr operationId)] d;
                row = \<lparr>bkp_id = operationId, bkp_stack_id = stackId, bkp_agent_id = stk_agent_id s,
                  bkp_command_id = cmd_id c, bkp_requested_by_user_id = requestedByUserId, bkp_target = target,
                  bkp_stack_revision = stk_revision s, bkp_status = OpPending, bkp_result = None,
                  bkp_started_at = None, bkp_completed_at = None, bkp_created_at = now, bkp_updated_at = now\<rparr>
            in (Accepted (backup row), d\<lparr>backups := backups d @ [row]\<rparr>))"

definition listBackups :: "db \<Rightarrow> StackBackup list" where
  "listBackups d = map backup (take 500 (rev (sort_key bkp_created_at (backups d))))"

definition getBackupDeployment :: "uuid \<Rightarrow> db \<Rightarrow> (StackBackup \<times> StackDeployment) option" where
  "getBackupDeployment i d =
     (case find (\<lambda>b. bkp_id b = i) (backups d) of
        None \<Rightarrow> None
      | Some b \<Rightarrow> map_option (\<lambda>s. (backup b, s)) (getStackDeployment (bkp_stack_id b) d))"

definition createRestore ::
  "(nat \<Rightarrow> uuid) \<Rightarrow> time \<Rightarrow> uuid \<Rightarrow> uuid \<Rightarrow> db \<Rightarrow> StackRestore outcome \<times> db" where
  "createRestore gen now backupId requestedByUserId d =
     (case find (\<lambda>b. bkp_id b = backupId \<and> bkp_status b = OpSucceeded
              \<and> exists_row (\<lambda>s. stk_id s = bkp_stack_id b) (stacks d)
              \<and> exists_row (\<lambda>a. ag_id a = bkp_agent_id b) (agents d)) (backups d) of
        None \<Rightarrow> (NotFound, d)
      | Some b \<Rightarrow>
          if \<not> exists_row (\<lambda>s. stk_id s = bkp_stack_id b \<and> stk_enabled s) (stacks d)
             \<or> \<not> agent_enabled (bkp_agent_id b) d
          then (NotFound, d)
          else if hasActiveStackOperation (bkp_stack_id b) d then (Active, d)
          else
            let (operationId, d) = draw gen d;
                (c, d) = insert_command gen now (bkp_agent_id b) ''stack.restore.apply'' [(''restoreId'', JStr operationId)] d;
                row = \<lparr>rst_id = operationId, rst_stack_id = bkp_stack_id b, rst_backup_id = backupId,
                  rst_agent_id = bkp_agent_id b, rst_command_id = cmd_id c,
                  rst_requested_by_user_id = requestedByUserId, rst_status = OpPending, rst_result = None,
                  rst_started_at = None, rst_completed_at = None, rst_created_at = now, rst_updated_at = now\<rparr>
            in (Accepted (restore row), d\<lparr>restores := restores d @ [row]\<rparr>))"

definition listRestores :: "db \<Rightarrow> StackRestore list" where
  "listRestores d = map restore (take 500 (rev (sort_key rst_created_at (restores d))))"

definition getRestoreDeployment :: "uuid \<Rightarrow> db \<Rightarrow> (StackRestore \<times> StackBackup \<times> StackDeployment) option" where
  "getRestoreDeployment i d =
     (case find (\<lambda>r. rst_id r = i) (restores d) of
        None \<Rightarrow> None
      | Some r \<Rightarrow> map_option (\<lambda>(b, s). (restore r, b, s)) (getBackupDeployment (rst_backup_id r) d))"

text \<open>Logs of a service of a stack, the older way of asking for them.\<close>

definition queueLogRequest ::
  "(nat \<Rightarrow> uuid) \<Rightarrow> time \<Rightarrow> uuid \<Rightarrow> uuid \<Rightarrow> string \<Rightarrow> int \<Rightarrow> string option \<Rightarrow> db \<Rightarrow> AgentCommand option \<times> db" where
  "queueLogRequest gen now stackId requestedByUserId service tail since d =
     (let payload = [(''stackId'', JStr stackId), (''requestedByUserId'', JStr requestedByUserId),
                     (''service'', JStr service), (''tail'', JNum tail)] @ entry_if ''since'' since
      in case find (\<lambda>s. stk_id s = stackId \<and> stk_enabled s \<and> agent_enabled (stk_agent_id s) d) (stacks d) of
           None \<Rightarrow> (None, d)
         | Some s \<Rightarrow>
             let (c, d) = insert_command gen now (stk_agent_id s) ''service.logs.read'' payload d
             in (Some (command c), d))"

definition getLogRequest :: "uuid \<Rightarrow> uuid \<Rightarrow> db \<Rightarrow> AgentCommand option" where
  "getLogRequest commandId requestedByUserId d =
     map_option command (find (\<lambda>c. cmd_id c = commandId \<and> cmd_type c = ''service.logs.read''
       \<and> json_text (jprop (cmd_payload c) ''requestedByUserId'') = Some requestedByUserId) (commands d))"

section \<open>The tables of operations\<close>

text \<open>
  A table of operations with a guard before every insertion: the interface of every part of
  the store that promises at most one operation under way per target. \<open>taken k s\<close> is the
  guard, and \<open>rows\<close> the operations. The laws say that the guard covers the rows that are
  under way; the lemma that every guarded insertion keeps the promise is proved here once.
\<close>

locale guarded_table =
  fixes rows :: "'s \<Rightarrow> 'r list"
    and live :: "'r \<Rightarrow> bool"
    and key :: "'r \<Rightarrow> 'k"
    and taken :: "'k \<Rightarrow> 's \<Rightarrow> bool"
  assumes guard_covers: "r \<in> set (rows s) \<Longrightarrow> live r \<Longrightarrow> taken (key r) s"
begin

lemma guarded_insert:
  assumes "unique_where live key (rows s)" "\<not> taken (key r) s" "rows s' = rows s @ [r]"
  shows "unique_where live key (rows s')"
  using assms guard_covers unfolding assms(3) unique_where_insert by metis

lemma guarded_update:
  assumes "unique_where live key (rows s)" "rows s' = update_rows P f (rows s)"
    and "\<And>r. P r \<Longrightarrow> live (f r) \<Longrightarrow> live r" and "\<And>r. P r \<Longrightarrow> key (f r) = key r"
  shows "unique_where live key (rows s')"
  using assms unique_where_update by metis

lemma one_live:
  assumes "unique_where live key (rows s)" "r \<in> set (rows s)" "q \<in> set (rows s)"
    "live r" "live q" "key r = key q"
  shows "r = q"
  using assms by (rule unique_where_eq)

end

interpretation stack_backups: guarded_table backups "\<lambda>b. live_op (bkp_status b)" bkp_stack_id hasActiveStackOperation
  by unfold_locales (auto simp: hasActiveStackOperation_def)

interpretation stack_restores: guarded_table restores "\<lambda>r. live_op (rst_status r)" rst_stack_id hasActiveStackOperation
  by unfold_locales (auto simp: hasActiveStackOperation_def)

text \<open>
  One operation per stack: one backup, one restore, and never a backup beside a restore.
\<close>

definition stack_ops_ok :: "db \<Rightarrow> bool" where
  "stack_ops_ok d \<longleftrightarrow>
     unique_where (\<lambda>b. live_op (bkp_status b)) bkp_stack_id (backups d)
     \<and> unique_where (\<lambda>r. live_op (rst_status r)) rst_stack_id (restores d)
     \<and> (\<forall>b \<in> set (backups d). \<forall>r \<in> set (restores d).
          live_op (bkp_status b) \<longrightarrow> live_op (rst_status r) \<longrightarrow> bkp_stack_id b \<noteq> rst_stack_id r)"

lemma stack_ops_ok_empty: "stack_ops_ok empty_db"
  by (simp add: stack_ops_ok_def empty_db_def)

lemma createBackup_cases:
  obtains (refused) "fst (createBackup gen now i u t d) \<in> {NotFound, Active}" "snd (createBackup gen now i u t d) = d"
  | (accepted) row where "\<not> hasActiveStackOperation i d" "bkp_stack_id row = i" "bkp_status row = OpPending"
      "fst (createBackup gen now i u t d) = Accepted (backup row)"
      "bkp_id row = gen (draws d)" "bkp_command_id row = gen (Suc (draws d))" "bkp_created_at row = now"
      "\<exists>s \<in> set (stacks d). stk_id s = i \<and> stk_agent_id s = bkp_agent_id row" "agent_enabled (bkp_agent_id row) d"
      "snd (createBackup gen now i u t d) = d\<lparr>draws := Suc (Suc (draws d)), commands := commands d @
            [new_command (gen (Suc (draws d))) now (bkp_agent_id row) ''stack.backup.create'' [(''backupId'', JStr (gen (draws d)))]],
          backups := backups d @ [row]\<rparr>"
proof (cases "find (\<lambda>r. stk_id r = i \<and> stk_enabled r \<and> agent_enabled (stk_agent_id r) d) (stacks d)")
  case None
  then show ?thesis by (intro refused) (simp_all add: createBackup_def)
next
  case (Some s)
  then have s: "s \<in> set (stacks d)" "stk_id s = i" "agent_enabled (stk_agent_id s) d" by (auto dest: find_someD)
  show ?thesis
  proof (cases "hasActiveStackOperation i d")
    case True
    with Some show ?thesis by (intro refused) (simp_all add: createBackup_def)
  next
    case False
    let ?row = "\<lparr>bkp_id = gen (draws d), bkp_stack_id = i, bkp_agent_id = stk_agent_id s,
        bkp_command_id = gen (Suc (draws d)), bkp_requested_by_user_id = u, bkp_target = t,
        bkp_stack_revision = stk_revision s, bkp_status = OpPending, bkp_result = None,
        bkp_started_at = None, bkp_completed_at = None, bkp_created_at = now, bkp_updated_at = now\<rparr>"
    from Some False have "createBackup gen now i u t d = (Accepted (backup ?row), d\<lparr>draws := Suc (Suc (draws d)), commands := commands d @
            [new_command (gen (Suc (draws d))) now (stk_agent_id s) ''stack.backup.create'' [(''backupId'', JStr (gen (draws d)))]],
          backups := backups d @ [?row]\<rparr>)"
      by (simp add: createBackup_def draw_def insert_command_eq Let_def)
    with s show ?thesis by (intro accepted [of ?row, OF False]) auto
  qed
qed

lemma createRestore_cases:
  obtains (refused) "fst (createRestore gen now b u d) \<in> {NotFound, Active}" "snd (createRestore gen now b u d) = d"
  | (accepted) row where "\<not> hasActiveStackOperation (rst_stack_id row) d" "rst_status row = OpPending"
      "fst (createRestore gen now b u d) = Accepted (restore row)"
      "\<exists>bk \<in> set (backups d). bkp_id bk = b \<and> bkp_status bk = OpSucceeded \<and> bkp_stack_id bk = rst_stack_id row"
      "rst_id row = gen (draws d)" "rst_command_id row = gen (Suc (draws d))" "rst_created_at row = now"
      "\<exists>s \<in> set (stacks d). stk_id s = rst_stack_id row" "agent_enabled (rst_agent_id row) d"
      "snd (createRestore gen now b u d) = d\<lparr>draws := Suc (Suc (draws d)), commands := commands d @
            [new_command (gen (Suc (draws d))) now (rst_agent_id row) ''stack.restore.apply'' [(''restoreId'', JStr (gen (draws d)))]],
          restores := restores d @ [row]\<rparr>"
proof (cases "find (\<lambda>r. bkp_id r = b \<and> bkp_status r = OpSucceeded
              \<and> exists_row (\<lambda>s. stk_id s = bkp_stack_id r) (stacks d)
              \<and> exists_row (\<lambda>a. ag_id a = bkp_agent_id r) (agents d)) (backups d)")
  case None
  then show ?thesis by (intro refused) (simp_all add: createRestore_def)
next
  case (Some r)
  then have r: "r \<in> set (backups d)" "bkp_id r = b" "bkp_status r = OpSucceeded"
      "\<exists>s \<in> set (stacks d). stk_id s = bkp_stack_id r"
    by (auto dest: find_someD)
  let ?no = "\<not> exists_row (\<lambda>s. stk_id s = bkp_stack_id r \<and> stk_enabled s) (stacks d) \<or> \<not> agent_enabled (bkp_agent_id r) d"
  consider (no) ?no | (busy) "\<not> ?no" "hasActiveStackOperation (bkp_stack_id r) d"
    | (go) "\<not> ?no" "\<not> hasActiveStackOperation (bkp_stack_id r) d" by blast
  then show ?thesis
  proof cases
    case no
    with Some show ?thesis by (intro refused) (simp_all only: createRestore_def option.case if_True fst_conv snd_conv insertI1)
  next
    case busy
    with Some show ?thesis
      by (intro refused) (simp_all only: createRestore_def option.case if_True if_False fst_conv snd_conv insert_iff simp_thms)
  next
    case go
    let ?row = "\<lparr>rst_id = gen (draws d), rst_stack_id = bkp_stack_id r, rst_backup_id = b,
        rst_agent_id = bkp_agent_id r, rst_command_id = gen (Suc (draws d)),
        rst_requested_by_user_id = u, rst_status = OpPending, rst_result = None,
        rst_started_at = None, rst_completed_at = None, rst_created_at = now, rst_updated_at = now\<rparr>"
    have eq: "createRestore gen now b u d = (Accepted (restore ?row),
        d\<lparr>draws := Suc (Suc (draws d)), commands := commands d @
            [new_command (gen (Suc (draws d))) now (bkp_agent_id r) ''stack.restore.apply'' [(''restoreId'', JStr (gen (draws d)))]],
          restores := restores d @ [?row]\<rparr>)"
      using go Some
      by (simp only: createRestore_def option.case if_False) (simp add: draw_def insert_command_eq Let_def)
    show ?thesis
      using go r by (intro accepted [of ?row]) (auto simp: eq)
  qed
qed

lemma createBackup_ops_ok:
  assumes ok: "stack_ops_ok d"
  shows "stack_ops_ok (snd (createBackup gen now s u t d))"
proof (cases rule: createBackup_cases [of gen now s u t d])
  case refused
  with ok show ?thesis by simp
next
  case (accepted row)
  have "unique_where (\<lambda>b. live_op (bkp_status b)) bkp_stack_id (backups (snd (createBackup gen now s u t d)))"
    by (rule stack_backups.guarded_insert [of d row]) (use ok accepted(1-3) in \<open>simp_all add: stack_ops_ok_def accepted(10)\<close>)
  moreover have "\<forall>r \<in> set (restores d). live_op (rst_status r) \<longrightarrow> rst_stack_id r \<noteq> s"
    using accepted(1) by (auto simp: hasActiveStackOperation_def)
  ultimately show ?thesis
    using ok accepted(2,3) by (auto simp: stack_ops_ok_def accepted(10))
qed

lemma createRestore_ops_ok:
  assumes ok: "stack_ops_ok d"
  shows "stack_ops_ok (snd (createRestore gen now b u d))"
proof (cases rule: createRestore_cases [of gen now b u d])
  case refused
  with ok show ?thesis by simp
next
  case (accepted row)
  have "unique_where (\<lambda>r. live_op (rst_status r)) rst_stack_id (restores (snd (createRestore gen now b u d)))"
    by (rule stack_restores.guarded_insert [of d row]) (use ok accepted(1-2) in \<open>simp_all add: stack_ops_ok_def accepted(10)\<close>)
  moreover have "\<forall>r \<in> set (backups d). live_op (bkp_status r) \<longrightarrow> bkp_stack_id r \<noteq> rst_stack_id row"
    using accepted(1) by (auto simp: hasActiveStackOperation_def)
  ultimately show ?thesis
    using ok accepted(2,3) by (auto simp: stack_ops_ok_def accepted(10))
qed

text \<open>Moving an operation along never makes one that is over live again.\<close>

lemma stack_ops_ok_update:
  assumes ok: "stack_ops_ok d"
    and b: "backups e = update_rows P f (backups d)" and r: "restores e = update_rows Q g (restores d)"
    and bf: "\<And>x. live_op (bkp_status (f x)) \<Longrightarrow> P x \<Longrightarrow> live_op (bkp_status x)" "\<And>x. bkp_stack_id (f x) = bkp_stack_id x"
    and rg: "\<And>x. live_op (rst_status (g x)) \<Longrightarrow> Q x \<Longrightarrow> live_op (rst_status x)" "\<And>x. rst_stack_id (g x) = rst_stack_id x"
  shows "stack_ops_ok e"
proof -
  have "unique_where (\<lambda>b. live_op (bkp_status b)) bkp_stack_id (backups e)"
    using ok by (intro stack_backups.guarded_update [OF _ b]) (auto simp: stack_ops_ok_def bf)
  moreover have "unique_where (\<lambda>r. live_op (rst_status r)) rst_stack_id (restores e)"
    using ok by (intro stack_restores.guarded_update [OF _ r]) (auto simp: stack_ops_ok_def rg)
  moreover have "\<forall>x \<in> set (backups e). \<forall>y \<in> set (restores e).
      live_op (bkp_status x) \<longrightarrow> live_op (rst_status y) \<longrightarrow> bkp_stack_id x \<noteq> rst_stack_id y"
    using ok bf rg unfolding b r stack_ops_ok_def by (force simp: set_update_rows)
  ultimately show ?thesis by (simp add: stack_ops_ok_def)
qed

end
