(* ===== verification/Gw_Deploy.thy ===== *)
theory Gw_Deploy
  imports Gw_Stacks
begin

text \<open>
  Deployments from a Git repository: a deployment has immutable revisions, and a run takes an
  agent to one of them. A run is refused while another run of the deployment is under way.
\<close>

section \<open>Operations\<close>

definition deployment_revisions :: "uuid \<Rightarrow> db \<Rightarrow> revision_row list" where
  "deployment_revisions i d = rev (sort_key rev_created_at (filter (\<lambda>r. rev_deployment_id r = i) (revisions d)))"

definition latest_run :: "uuid \<Rightarrow> db \<Rightarrow> run_row option" where
  "latest_run i d = find (\<lambda>_. True) (rev (sort_key run_created_at (filter (\<lambda>r. run_deployment_id r = i) (runs d))))"

definition listDeployments :: "db \<Rightarrow> Deployment list" where
  "listDeployments d =
     map (\<lambda>r. deployment r (deployment_revisions (dpl_id r) d) (latest_run (dpl_id r) d))
       (sort_key dpl_display_name (deployments d))"

text \<open>The values a new revision is made of.\<close>

record RevisionValues =
  Values_sourceRepository :: string
  Values_commitSha :: string
  Values_composePath :: string
  Values_encryptedSourceCompose :: string
  Values_encryptedNormalizedCompose :: string
  Values_checksum :: string
  Values_policyVersion :: int
  Values_policyResult :: json
  Values_requestedByUserId :: uuid

definition new_revision :: "uuid \<Rightarrow> time \<Rightarrow> uuid \<Rightarrow> RevisionValues \<Rightarrow> revision_row" where
  "new_revision i now deploymentId values =
     \<lparr>rev_id = i, rev_deployment_id = deploymentId, rev_commit_sha = Values_commitSha values,
      rev_compose_path = Values_composePath values,
      rev_source_compose_encrypted = Values_encryptedSourceCompose values,
      rev_normalized_compose_encrypted = Values_encryptedNormalizedCompose values,
      rev_checksum = Values_checksum values, rev_policy_version = Values_policyVersion values,
      rev_policy_result = Values_policyResult values,
      rev_created_by_user_id = Values_requestedByUserId values, rev_created_at = now\<rparr>"

definition createDeployment ::
  "(nat \<Rightarrow> uuid) \<Rightarrow> time \<Rightarrow> uuid \<Rightarrow> string \<Rightarrow> string \<Rightarrow> RevisionValues \<Rightarrow> db \<Rightarrow> pg_error + Deployment option \<times> db" where
  "createDeployment gen now agentId displayName projectName values d =
     (if \<not> agent_ready agentId d then Inr (None, d)
      else if exists_row (\<lambda>r. dpl_enabled r \<and> dpl_agent_id r = agentId \<and> dpl_project_name r = projectName) (deployments d)
      then Inl UniqueViolation
      else if Values_policyVersion values \<le> 0 then Inl CheckViolation
      else
        let (i, d) = draw gen d;
            row = \<lparr>dpl_id = i, dpl_agent_id = agentId, dpl_display_name = displayName,
              dpl_project_name = projectName, dpl_source_repository = Values_sourceRepository values,
              dpl_enabled = True, dpl_current_revision_id = None, dpl_status = DsPending,
              dpl_created_by_user_id = Values_requestedByUserId values, dpl_created_at = now, dpl_updated_at = now\<rparr>;
            (j, d) = draw gen d;
            r = new_revision j now i values
        in Inr (Some (deployment row [r] None),
                d\<lparr>deployments := deployments d @ [row], revisions := revisions d @ [r]\<rparr>))"

definition createDeploymentRevision ::
  "(nat \<Rightarrow> uuid) \<Rightarrow> time \<Rightarrow> uuid \<Rightarrow> RevisionValues \<Rightarrow> db \<Rightarrow> pg_error + DeploymentRevision option \<times> db" where
  "createDeploymentRevision gen now deploymentId values d =
     (if \<not> exists_row (\<lambda>r. dpl_id r = deploymentId \<and> dpl_enabled r
            \<and> dpl_source_repository r = Values_sourceRepository values) (deployments d)
      then Inr (None, d)
      else if Values_policyVersion values \<le> 0 then Inl CheckViolation
      else if exists_row (\<lambda>r. rev_deployment_id r = deploymentId \<and> rev_checksum r = Values_checksum values) (revisions d)
      then Inr (None, d)
      else
        let (j, d) = draw gen d; r = new_revision j now deploymentId values
        in Inr (Some (deploymentRevision r), d\<lparr>revisions := revisions d @ [r]\<rparr>))"

definition hasActiveRun :: "uuid \<Rightarrow> db \<Rightarrow> bool" where
  "hasActiveRun deploymentId d = exists_row (\<lambda>r. run_deployment_id r = deploymentId \<and> live_op (run_status r)) (runs d)"

definition run_target :: "uuid \<Rightarrow> uuid \<Rightarrow> db \<Rightarrow> deployment_row option" where
  "run_target deploymentId revisionId d =
     find (\<lambda>r. dpl_id r = deploymentId \<and> dpl_enabled r
             \<and> exists_row (\<lambda>v. rev_deployment_id v = dpl_id r \<and> rev_id v = revisionId) (revisions d)
             \<and> agent_ready (dpl_agent_id r) d) (deployments d)"

definition createDeploymentRun ::
  "(nat \<Rightarrow> uuid) \<Rightarrow> time \<Rightarrow> uuid \<Rightarrow> uuid \<Rightarrow> RunAction \<Rightarrow> uuid \<Rightarrow> db \<Rightarrow> DeploymentRun outcome \<times> db" where
  "createDeploymentRun gen now deploymentId revisionId action requestedByUserId d =
     (case run_target deploymentId revisionId d of
        None \<Rightarrow> (NotFound, d)
      | Some t \<Rightarrow>
          if hasActiveRun deploymentId d then (Active, d)
          else
            let (runId, d) = draw gen d;
                (c, d) = insert_command gen now (dpl_agent_id t) ''deployment.compose.apply'' [(''runId'', JStr runId)] d;
                row = \<lparr>run_id = runId, run_deployment_id = deploymentId, run_revision_id = revisionId,
                  run_prior_revision_id = dpl_current_revision_id t, run_agent_id = dpl_agent_id t,
                  run_command_id = cmd_id c, run_requested_by_user_id = requestedByUserId, run_action = action,
                  run_status = OpPending, run_result = None, run_error = None, run_started_at = None,
                  run_completed_at = None, run_created_at = now, run_updated_at = now\<rparr>;
                d = d\<lparr>runs := runs d @ [row],
                  deployments := update_rows (\<lambda>r. dpl_id r = deploymentId)
                    (\<lambda>r. r\<lparr>dpl_status := (if action = StopRun then DsStopping else DsDeploying), dpl_updated_at := now\<rparr>)
                    (deployments d)\<rparr>
            in (Accepted (deploymentRun row), d))"

definition getDeploymentRun :: "uuid \<Rightarrow> db \<Rightarrow> DeploymentRun option" where
  "getDeploymentRun i d = map_option deploymentRun (find (\<lambda>r. run_id r = i) (runs d))"

definition getDeploymentCommandSource :: "uuid \<Rightarrow> db \<Rightarrow> DeploymentCommandSource option" where
  "getDeploymentCommandSource runId d =
     (case find (\<lambda>r. run_id r = runId) (runs d) of
        None \<Rightarrow> None
      | Some r \<Rightarrow>
          (case (find (\<lambda>t. dpl_id t = run_deployment_id r) (deployments d),
                 find (\<lambda>v. rev_id v = run_revision_id r \<and> rev_deployment_id v = run_deployment_id r) (revisions d)) of
             (Some t, Some v) \<Rightarrow>
               let prior = (case run_prior_revision_id r of
                              None \<Rightarrow> None
                            | Some p \<Rightarrow> find (\<lambda>v. rev_id v = p \<and> rev_deployment_id v = dpl_id t) (revisions d))
               in Some (DeploymentRevision.extend (deploymentRevision v)
                    (DeploymentCommandSource.fields (dpl_agent_id t) (dpl_project_name t)
                       (rev_normalized_compose_encrypted v) (run_prior_revision_id r)
                       (map_option rev_normalized_compose_encrypted prior) (run_action r) (run_id r) (run_command_id r)))
           | _ \<Rightarrow> None))"

section \<open>What deployments keep\<close>

interpretation deployment_runs: guarded_table runs "\<lambda>r. live_op (run_status r)" run_deployment_id hasActiveRun
  by unfold_locales (auto simp: hasActiveRun_def)

text \<open>
  A revision belongs to the deployment that owns it: the revision a run takes its agent to, and
  the current revision of a deployment. One checksum occurs once per deployment, an enabled
  deployment is the only one of its project at its agent, and one run is under way.
\<close>

definition owns_revision :: "db \<Rightarrow> uuid \<Rightarrow> uuid \<Rightarrow> bool" where
  "owns_revision d i v \<longleftrightarrow> (\<exists>r \<in> set (revisions d). rev_id r = v \<and> rev_deployment_id r = i)"

definition deployment_rows_ok :: "(nat \<Rightarrow> uuid) \<Rightarrow> db \<Rightarrow> bool" where
  "deployment_rows_ok gen d \<longleftrightarrow>
     distinct (map dpl_id (deployments d)) \<and> dpl_id ` set (deployments d) \<subseteq> drawn gen (draws d)
     \<and> unique_where dpl_enabled (\<lambda>r. (dpl_agent_id r, dpl_project_name r)) (deployments d)
     \<and> (\<forall>r \<in> set (deployments d). \<forall>v. dpl_current_revision_id r = Some v \<longrightarrow> owns_revision d (dpl_id r) v)"

definition revision_rows_ok :: "(nat \<Rightarrow> uuid) \<Rightarrow> db \<Rightarrow> bool" where
  "revision_rows_ok gen d \<longleftrightarrow>
     distinct (map rev_id (revisions d)) \<and> rev_id ` set (revisions d) \<subseteq> drawn gen (draws d)
     \<and> rev_deployment_id ` set (revisions d) \<subseteq> drawn gen (draws d)
     \<and> distinct (map (\<lambda>r. (rev_deployment_id r, rev_checksum r)) (revisions d))"

definition run_rows_ok :: "db \<Rightarrow> bool" where
  "run_rows_ok d \<longleftrightarrow>
     unique_where (\<lambda>r. live_op (run_status r)) run_deployment_id (runs d)
     \<and> (\<forall>r \<in> set (runs d). owns_revision d (run_deployment_id r) (run_revision_id r)
          \<and> (\<forall>v. run_prior_revision_id r = Some v \<longrightarrow> owns_revision d (run_deployment_id r) v))"

definition deploy_ok :: "(nat \<Rightarrow> uuid) \<Rightarrow> db \<Rightarrow> bool" where
  "deploy_ok gen d \<longleftrightarrow> deployment_rows_ok gen d \<and> revision_rows_ok gen d \<and> run_rows_ok d"

lemma deploy_ok_empty: "deploy_ok gen empty_db"
  by (simp add: deploy_ok_def deployment_rows_ok_def revision_rows_ok_def run_rows_ok_def empty_db_def)

lemma owns_revision_mono:
  "set (revisions d) \<subseteq> set (revisions e) \<Longrightarrow> owns_revision d i v \<Longrightarrow> owns_revision e i v"
  by (auto simp: owns_revision_def)

lemma deploy_ok_frame:
  assumes ok: "deploy_ok gen d"
    and e: "deployments e = deployments d" "revisions e = revisions d" "runs e = runs d" "draws d \<le> draws e"
  shows "deploy_ok gen e"
proof -
  have "owns_revision e = owns_revision d" by (simp add: fun_eq_iff owns_revision_def e)
  with ok drawn_mono [OF e(4), of gen] show ?thesis
    by (auto simp: deploy_ok_def deployment_rows_ok_def revision_rows_ok_def run_rows_ok_def e)
qed

lemma new_revision_simps [simp]:
  "rev_id (new_revision i now p v) = i" "rev_deployment_id (new_revision i now p v) = p"
  "rev_checksum (new_revision i now p v) = Values_checksum v"
  by (simp_all add: new_revision_def)

lemma createDeployment_cases:
  assumes "createDeployment gen now a n p v d = Inr (r, e)"
  obtains (refused) "r = None" "e = d"
  | (created) row where "agent_ready a d"
      "\<not> exists_row (\<lambda>r. dpl_enabled r \<and> dpl_agent_id r = a \<and> dpl_project_name r = p) (deployments d)"
      "dpl_id row = gen (draws d)" "dpl_agent_id row = a" "dpl_project_name row = p"
      "dpl_current_revision_id row = None" "dpl_status row = DsPending"
      "r = Some (deployment row [new_revision (gen (Suc (draws d))) now (gen (draws d)) v] None)"
      "e = d\<lparr>draws := Suc (Suc (draws d)), deployments := deployments d @ [row],
             revisions := revisions d @ [new_revision (gen (Suc (draws d))) now (gen (draws d)) v]\<rparr>"
proof -
  consider (not_ready) "\<not> agent_ready a d"
    | (ready) "agent_ready a d" by blast
  then show thesis
  proof cases
    case not_ready
    with assms show thesis by (intro refused) (simp_all add: createDeployment_def)
  next
    case ready
    let ?row = "\<lparr>dpl_id = gen (draws d), dpl_agent_id = a, dpl_display_name = n,
              dpl_project_name = p, dpl_source_repository = Values_sourceRepository v,
              dpl_enabled = True, dpl_current_revision_id = None, dpl_status = DsPending,
              dpl_created_by_user_id = Values_requestedByUserId v, dpl_created_at = now, dpl_updated_at = now\<rparr>"
    from assms ready show thesis
      by (intro created [of ?row])
        (simp_all add: createDeployment_def draw_def Let_def del: exists_row_iff split: if_splits)
  qed
qed

lemma createDeployment_ok:
  assumes gen: "inj gen" and ok: "deploy_ok gen d" and run: "createDeployment gen now a n p v d = Inr (r, e)"
  shows "deploy_ok gen e"
  using run
proof (cases rule: createDeployment_cases)
  case refused
  with ok show ?thesis by simp
next
  case (created row)
  let ?r = "new_revision (gen (Suc (draws d))) now (gen (draws d)) v"
  have mono: "owns_revision d i w \<Longrightarrow> owns_revision e i w" for i w
    by (rule owns_revision_mono) (auto simp: created)
  have fresh: "\<forall>x \<in> set (deployments d). dpl_id x \<noteq> gen (draws d)"
    "\<forall>x \<in> set (revisions d). rev_id x \<noteq> gen (draws d)" "\<forall>x \<in> set (revisions d). rev_deployment_id x \<noteq> gen (draws d)"
    using ok by (auto intro!: fresh_id [OF gen] simp: deploy_ok_def deployment_rows_ok_def revision_rows_ok_def)
  have fresh': "\<forall>x \<in> set (revisions d). rev_id x \<noteq> gen (Suc (draws d))"
    using ok drawn_mono [of "draws d" "Suc (draws d)" gen]
    by (intro fresh_id [OF gen]) (auto simp: deploy_ok_def revision_rows_ok_def)
  have "deployment_rows_ok gen e"
    unfolding deployment_rows_ok_def
  proof (intro conjI)
    show "distinct (map dpl_id (deployments e))"
      using ok fresh(1) by (auto simp: deploy_ok_def deployment_rows_ok_def created)
    show "dpl_id ` set (deployments e) \<subseteq> drawn gen (draws e)"
      using ok by (auto simp: deploy_ok_def deployment_rows_ok_def created)
    show "unique_where dpl_enabled (\<lambda>r. (dpl_agent_id r, dpl_project_name r)) (deployments e)"
      using ok created(2) by (simp add: deploy_ok_def deployment_rows_ok_def created unique_where_insert)
    show "\<forall>x \<in> set (deployments e). \<forall>v. dpl_current_revision_id x = Some v \<longrightarrow> owns_revision e (dpl_id x) v"
      using ok mono by (simp add: deploy_ok_def deployment_rows_ok_def created(6,9))
  qed
  moreover have "revision_rows_ok gen e"
    using ok fresh fresh' by (auto simp: deploy_ok_def revision_rows_ok_def created)
  moreover have "run_rows_ok e"
    using ok mono by (auto simp: deploy_ok_def run_rows_ok_def created)
  ultimately show ?thesis by (simp add: deploy_ok_def)
qed

lemma createDeploymentRevision_cases:
  assumes "createDeploymentRevision gen now i v d = Inr (r, e)"
  obtains (refused) "r = None" "e = d"
  | (created) "\<exists>t \<in> set (deployments d). dpl_id t = i"
      "\<forall>x \<in> set (revisions d). \<not> (rev_deployment_id x = i \<and> rev_checksum x = Values_checksum v)"
      "r = Some (deploymentRevision (new_revision (gen (draws d)) now i v))"
      "e = d\<lparr>draws := Suc (draws d), revisions := revisions d @ [new_revision (gen (draws d)) now i v]\<rparr>"
proof (cases "exists_row (\<lambda>r. dpl_id r = i \<and> dpl_enabled r
    \<and> dpl_source_repository r = Values_sourceRepository v) (deployments d)
    \<and> \<not> exists_row (\<lambda>r. rev_deployment_id r = i \<and> rev_checksum r = Values_checksum v) (revisions d)")
  case True
  with assms show thesis
    by (intro created)
      (auto simp: createDeploymentRevision_def draw_def Let_def simp del: exists_row_iff split: if_splits,
       auto)
next
  case False
  with assms show thesis
    by (intro refused) (simp_all add: createDeploymentRevision_def split: if_splits del: exists_row_iff)
qed

lemma createDeploymentRevision_ok:
  assumes gen: "inj gen" and ok: "deploy_ok gen d" and run: "createDeploymentRevision gen now i v d = Inr (r, e)"
  shows "deploy_ok gen e"
  using run
proof (cases rule: createDeploymentRevision_cases)
  case refused
  with ok show ?thesis by simp
next
  case created
  have mono: "owns_revision d i w \<Longrightarrow> owns_revision e i w" for i w
    by (rule owns_revision_mono) (auto simp: created)
  have fresh: "\<forall>x \<in> set (revisions d). rev_id x \<noteq> gen (draws d)"
    using ok by (intro fresh_id [OF gen]) (auto simp: deploy_ok_def revision_rows_ok_def)
  have i: "i \<in> drawn gen (draws d)"
    using created(1) ok by (auto simp: deploy_ok_def deployment_rows_ok_def)
  have "deployment_rows_ok gen e"
    using ok mono by (auto simp: deploy_ok_def deployment_rows_ok_def created(4))
  moreover have "revision_rows_ok gen e"
    using ok fresh created(2) i by (auto simp: deploy_ok_def revision_rows_ok_def created(4))
  moreover have "run_rows_ok e"
    using ok mono by (auto simp: deploy_ok_def run_rows_ok_def created(4))
  ultimately show ?thesis by (simp add: deploy_ok_def)
qed

lemma run_target_someD:
  assumes "run_target i v d = Some t"
  shows "t \<in> set (deployments d)" "dpl_id t = i" "dpl_enabled t" "owns_revision d i v" "agent_ready (dpl_agent_id t) d"
  using find_someD [OF assms [unfolded run_target_def]] by (auto simp: owns_revision_def)

lemma createDeploymentRun_cases:
  obtains (refused) "fst (createDeploymentRun gen now i v a u d) \<in> {NotFound, Active}"
      "snd (createDeploymentRun gen now i v a u d) = d"
  | (accepted) t row where "run_target i v d = Some t" "\<not> hasActiveRun i d"
      "run_deployment_id row = i" "run_revision_id row = v" "run_prior_revision_id row = dpl_current_revision_id t"
      "run_status row = OpPending" "run_action row = a" "run_agent_id row = dpl_agent_id t"
      "run_id row = gen (draws d)" "run_command_id row = gen (Suc (draws d))" "run_created_at row = now"
      "fst (createDeploymentRun gen now i v a u d) = Accepted (deploymentRun row)"
      "snd (createDeploymentRun gen now i v a u d) = d\<lparr>draws := Suc (Suc (draws d)),
        commands := commands d @ [new_command (gen (Suc (draws d))) now (dpl_agent_id t)
          ''deployment.compose.apply'' [(''runId'', JStr (gen (draws d)))]],
        runs := runs d @ [row],
        deployments := update_rows (\<lambda>r. dpl_id r = i)
          (\<lambda>r. r\<lparr>dpl_status := (if a = StopRun then DsStopping else DsDeploying), dpl_updated_at := now\<rparr>)
          (deployments d)\<rparr>"
proof (cases "run_target i v d")
  case None
  then show ?thesis by (intro refused) (simp_all add: createDeploymentRun_def)
next
  case (Some t)
  show ?thesis
  proof (cases "hasActiveRun i d")
    case True
    with Some show ?thesis by (intro refused) (simp_all add: createDeploymentRun_def)
  next
    case False
    let ?row = "\<lparr>run_id = gen (draws d), run_deployment_id = i, run_revision_id = v,
      run_prior_revision_id = dpl_current_revision_id t, run_agent_id = dpl_agent_id t,
      run_command_id = gen (Suc (draws d)), run_requested_by_user_id = u, run_action = a,
      run_status = OpPending, run_result = None, run_error = None, run_started_at = None,
      run_completed_at = None, run_created_at = now, run_updated_at = now\<rparr>"
    show ?thesis
      using Some False
      by (intro accepted [of t ?row])
        (simp_all add: createDeploymentRun_def draw_def insert_command_eq Let_def)
  qed
qed

lemma owns_current:
  "deploy_ok gen d \<Longrightarrow> t \<in> set (deployments d) \<Longrightarrow> dpl_current_revision_id t = Some v \<Longrightarrow> owns_revision d (dpl_id t) v"
  by (auto simp: deploy_ok_def deployment_rows_ok_def)

lemma deployment_rows_ok_update:
  assumes ok: "deployment_rows_ok gen d" and rows: "deployments e = update_rows P f (deployments d)"
    and e: "revisions e = revisions d" "draws d \<le> draws e"
    and keep: "\<And>r. dpl_id (f r) = dpl_id r" "\<And>r. dpl_enabled (f r) = dpl_enabled r"
      "\<And>r. dpl_agent_id (f r) = dpl_agent_id r" "\<And>r. dpl_project_name (f r) = dpl_project_name r"
    and cur: "\<And>r v. r \<in> set (deployments d) \<Longrightarrow> P r \<Longrightarrow> dpl_current_revision_id (f r) = Some v \<Longrightarrow>
      dpl_current_revision_id r = Some v \<or> owns_revision d (dpl_id r) v"
  shows "deployment_rows_ok gen e"
proof -
  have owns: "owns_revision e = owns_revision d" by (simp add: fun_eq_iff owns_revision_def e)
  have ids: "map dpl_id (deployments e) = map dpl_id (deployments d)"
    unfolding rows by (rule map_update_rows) (simp add: keep)
  have ids': "dpl_id ` set (deployments e) = dpl_id ` set (deployments d)"
    using arg_cong [OF ids, of set] by simp
  have uniq: "unique_where dpl_enabled (\<lambda>r. (dpl_agent_id r, dpl_project_name r)) (deployments e)"
    unfolding rows using ok by (intro unique_where_update) (simp_all add: deployment_rows_ok_def keep)
  have "\<forall>r \<in> set (deployments e). \<forall>v. dpl_current_revision_id r = Some v \<longrightarrow> owns_revision e (dpl_id r) v"
  proof (intro ballI allI impI)
    fix r v
    assume "r \<in> set (deployments e)" and v: "dpl_current_revision_id r = Some v"
    then have "r \<in> set (update_rows P f (deployments d))" by (simp add: rows)
    then show "owns_revision e (dpl_id r) v"
    proof (cases rule: in_update_rowsE)
      case (1 r0)
      with cur [of r0 v] v ok keep show ?thesis by (auto simp: owns deployment_rows_ok_def)
    next
      case 2
      with ok v show ?thesis by (simp add: owns deployment_rows_ok_def)
    qed
  qed
  with ok uniq ids ids' drawn_mono [OF e(2), of gen] show ?thesis
    by (auto simp: deployment_rows_ok_def)
qed

lemma createDeploymentRun_ok:
  assumes ok: "deploy_ok gen d"
  shows "deploy_ok gen (snd (createDeploymentRun gen now i v a u d))"
proof (cases rule: createDeploymentRun_cases [of gen now i v a u d])
  case refused
  with ok show ?thesis by simp
next
  case (accepted t row)
  let ?e = "snd (createDeploymentRun gen now i v a u d)"
  note t = run_target_someD [OF accepted(1)]
  have owns: "owns_revision ?e = owns_revision d" by (simp add: fun_eq_iff owns_revision_def accepted(13))
  have runs': "runs ?e = runs d @ [row]" by (simp add: accepted(13))
  have "deployment_rows_ok gen ?e"
    using ok unfolding deploy_ok_def
    by (intro deployment_rows_ok_update [where d = d and e = ?e and P = "\<lambda>r. dpl_id r = i"
      and f = "\<lambda>r. r\<lparr>dpl_status := (if a = StopRun then DsStopping else DsDeploying), dpl_updated_at := now\<rparr>"])
      (simp_all add: accepted(13))
  moreover have "revision_rows_ok gen ?e"
    using ok drawn_mono [of "draws d" "Suc (Suc (draws d))" gen]
    by (auto simp: deploy_ok_def revision_rows_ok_def accepted(13))
  moreover have "run_rows_ok ?e"
    unfolding run_rows_ok_def
  proof (intro conjI)
    show "unique_where (\<lambda>r. live_op (run_status r)) run_deployment_id (runs ?e)"
      by (rule deployment_runs.guarded_insert [of d row])
        (use ok accepted(2,3) in \<open>simp_all add: deploy_ok_def run_rows_ok_def accepted(13)\<close>)
    show "\<forall>r \<in> set (runs ?e). owns_revision ?e (run_deployment_id r) (run_revision_id r)
          \<and> (\<forall>w. run_prior_revision_id r = Some w \<longrightarrow> owns_revision ?e (run_deployment_id r) w)"
      using ok t(2,4) owns_current [OF ok t(1)] unfolding owns runs'
      by (auto simp: deploy_ok_def run_rows_ok_def accepted(3-5))
  qed
  ultimately show ?thesis by (simp add: deploy_ok_def)
qed

text \<open>Moving a run along: never back to life, never to another deployment or revision.\<close>

lemma run_rows_ok_update:
  assumes ok: "run_rows_ok d" and rows: "runs e = update_rows P f (runs d)" and rev: "revisions e = revisions d"
    and live: "\<And>r. P r \<Longrightarrow> live_op (run_status (f r)) \<Longrightarrow> live_op (run_status r)"
    and keep: "\<And>r. run_deployment_id (f r) = run_deployment_id r" "\<And>r. run_revision_id (f r) = run_revision_id r"
      "\<And>r. run_prior_revision_id (f r) = run_prior_revision_id r"
  shows "run_rows_ok e"
proof -
  have owns: "owns_revision e = owns_revision d" by (simp add: fun_eq_iff owns_revision_def rev)
  have "unique_where (\<lambda>r. live_op (run_status r)) run_deployment_id (runs e)"
    by (rule deployment_runs.guarded_update [OF _ rows]) (use ok live keep in \<open>simp_all add: run_rows_ok_def\<close>)
  moreover have "\<forall>r \<in> set (runs e). owns_revision e (run_deployment_id r) (run_revision_id r)
          \<and> (\<forall>v. run_prior_revision_id r = Some v \<longrightarrow> owns_revision e (run_deployment_id r) v)"
    using ok unfolding rows by (auto simp: owns run_rows_ok_def set_update_rows keep)
  ultimately show ?thesis by (simp add: run_rows_ok_def)
qed

end
