(* ===== verification/Gw_Runtime.thy ===== *)
theory Gw_Runtime
  imports Gw_Deploy
begin

text \<open>
  Control of what runs at an agent: start, stop and restart of a project or of one of its
  services, and requests for the logs of a service. Two operations of an agent that touch the
  same service, or the whole project, are never under way together.
\<close>

section \<open>Operations\<close>

text \<open>
  The guard of \<open>createRuntimeOperation\<close>: an operation under way at the agent and project, on
  the whole project, or asked for on the whole project, or on the same service.
\<close>

definition runtime_taken :: "uuid \<times> string \<times> string option \<Rightarrow> db \<Rightarrow> bool" where
  "runtime_taken target d =
     (case target of (agentId, projectName, serviceName) \<Rightarrow>
        exists_row (\<lambda>r. rop_agent_id r = agentId \<and> rop_project_name r = projectName \<and> live_op (rop_status r)
          \<and> (rop_service_name r = None \<or> serviceName = None \<or> rop_service_name r = serviceName)) (runtime_ops d))"

definition runtime_index :: "runtime_op_row \<Rightarrow> uuid \<times> string \<times> string" where
  "runtime_index r = (rop_agent_id r, rop_project_name r, coalesce (rop_service_name r) [])"

definition createRuntimeOperation ::
  "(nat \<Rightarrow> uuid) \<Rightarrow> time \<Rightarrow> uuid \<Rightarrow> uuid \<Rightarrow> RuntimeAction \<Rightarrow> RuntimeScope \<Rightarrow> string \<Rightarrow> string option \<Rightarrow> db
    \<Rightarrow> pg_error + RuntimeOperation outcome \<times> db" where
  "createRuntimeOperation gen now requestedByUserId agentId action scope projectName serviceName d =
     (if runtime_taken (agentId, projectName, serviceName) d then Inr (Active, d)
      else if \<not> agent_ready agentId d then Inr (NotFound, d)
      else if (scope = ScopeService) \<noteq> (serviceName \<noteq> None) then Inl CheckViolation
      else if exists_row (\<lambda>r. live_op (rop_status r)
                \<and> runtime_index r = (agentId, projectName, coalesce serviceName [])) (runtime_ops d)
      then Inr (Active, d)
      else
        let (i, d) = draw gen d;
            (c, d) = insert_command gen now agentId ''compose.runtime.action'' [(''operationId'', JStr i)] d;
            row = \<lparr>rop_id = i, rop_requested_by_user_id = requestedByUserId, rop_agent_id = agentId,
              rop_command_id = Some (cmd_id c), rop_action = action, rop_scope = scope,
              rop_project_name = projectName, rop_service_name = serviceName, rop_status = OpPending,
              rop_result = None, rop_error = None, rop_started_at = None, rop_completed_at = None,
              rop_created_at = now, rop_updated_at = now\<rparr>
        in Inr (Accepted (runtimeOperation row), d\<lparr>runtime_ops := runtime_ops d @ [row]\<rparr>))"

definition listRuntimeOperations :: "db \<Rightarrow> RuntimeOperation list" where
  "listRuntimeOperations d = map runtimeOperation (take 200 (rev (sort_key rop_created_at (runtime_ops d))))"

definition getRuntimeOperation :: "uuid \<Rightarrow> db \<Rightarrow> RuntimeOperation option" where
  "getRuntimeOperation i d = map_option runtimeOperation (find (\<lambda>r. rop_id r = i) (runtime_ops d))"

definition createRuntimeLogRequest ::
  "(nat \<Rightarrow> uuid) \<Rightarrow> time \<Rightarrow> uuid \<Rightarrow> uuid \<Rightarrow> string \<Rightarrow> string \<Rightarrow> int \<Rightarrow> time option \<Rightarrow> db
    \<Rightarrow> pg_error + RuntimeLogRequest option \<times> db" where
  "createRuntimeLogRequest gen now requestedByUserId agentId projectName serviceName tail since d =
     (if \<not> agent_ready agentId d then Inr (None, d)
      else if tail < 1 \<or> 1000 < tail then Inl CheckViolation
      else
        let (i, d) = draw gen d;
            (c, d) = insert_command gen now agentId ''compose.runtime.logs'' [(''requestId'', JStr i)] d;
            row = \<lparr>lrq_id = i, lrq_requested_by_user_id = requestedByUserId, lrq_agent_id = agentId,
              lrq_command_id = Some (cmd_id c), lrq_project_name = projectName, lrq_service_name = serviceName,
              lrq_tail = tail, lrq_since = since, lrq_status = OpPending, lrq_result = None, lrq_error = None,
              lrq_started_at = None, lrq_completed_at = None, lrq_created_at = now, lrq_updated_at = now\<rparr>
        in Inr (Some (runtimeLogRequest row), d\<lparr>log_requests := log_requests d @ [row]\<rparr>))"

definition getRuntimeLogRequest :: "uuid \<Rightarrow> uuid option \<Rightarrow> db \<Rightarrow> RuntimeLogRequest option" where
  "getRuntimeLogRequest i requestedByUserId d =
     map_option runtimeLogRequest (find (\<lambda>r. lrq_id r = i
       \<and> (requestedByUserId = None \<or> requestedByUserId = Some (lrq_requested_by_user_id r))) (log_requests d))"

section \<open>Operations that clash\<close>

definition runtime_target :: "runtime_op_row \<Rightarrow> uuid \<times> string \<times> string option" where
  "runtime_target r = (rop_agent_id r, rop_project_name r, rop_service_name r)"

definition targets_clash :: "uuid \<times> string \<times> string option \<Rightarrow> uuid \<times> string \<times> string option \<Rightarrow> bool" where
  "targets_clash s t \<longleftrightarrow> fst s = fst t \<and> fst (snd s) = fst (snd t)
     \<and> (snd (snd s) = None \<or> snd (snd t) = None \<or> snd (snd s) = snd (snd t))"

definition runtime_ops_ok :: "db \<Rightarrow> bool" where
  "runtime_ops_ok d \<longleftrightarrow>
     sorted_wrt (\<lambda>r s. \<not> (live_op (rop_status r) \<and> live_op (rop_status s)
       \<and> targets_clash (runtime_target r) (runtime_target s))) (runtime_ops d)"

lemma runtime_ops_ok_empty: "runtime_ops_ok empty_db"
  by (simp add: runtime_ops_ok_def empty_db_def)

lemma runtime_taken_iff:
  "runtime_taken t d \<longleftrightarrow> (\<exists>r \<in> set (runtime_ops d). live_op (rop_status r) \<and> targets_clash (runtime_target r) t)"
  by (cases t) (auto simp: runtime_taken_def runtime_target_def targets_clash_def)

lemma targets_clash_refl [simp]: "targets_clash t t"
  by (simp add: targets_clash_def)

interpretation runtime_operations: guarded_table runtime_ops "\<lambda>r. live_op (rop_status r)" runtime_target runtime_taken
  by unfold_locales (auto simp: runtime_taken_iff)

lemma createRuntimeOperation_cases:
  assumes "createRuntimeOperation gen now u a act sc p s d = Inr (r, e)"
  obtains (refused) "r \<in> {NotFound, Active}" "e = d"
  | (accepted) row where "\<not> runtime_taken (a, p, s) d" "agent_ready a d" "runtime_target row = (a, p, s)"
      "rop_status row = OpPending" "rop_id row = gen (draws d)" "rop_agent_id row = a"
      "rop_command_id row = Some (gen (Suc (draws d)))"
      "rop_created_at row = now" "r = Accepted (runtimeOperation row)"
      "e = d\<lparr>draws := Suc (Suc (draws d)), commands := commands d @
              [new_command (gen (Suc (draws d))) now a ''compose.runtime.action'' [(''operationId'', JStr (gen (draws d)))]],
            runtime_ops := runtime_ops d @ [row]\<rparr>"
proof -
  let ?clash = "exists_row (\<lambda>r. live_op (rop_status r) \<and> runtime_index r = (a, p, coalesce s [])) (runtime_ops d)"
  consider (no) "runtime_taken (a, p, s) d \<or> \<not> agent_ready a d \<or> ?clash"
    | (go) "\<not> runtime_taken (a, p, s) d" "agent_ready a d" "\<not> ?clash" by blast
  then show thesis
  proof cases
    case no
    with assms show thesis
      by (intro refused) (simp_all add: createRuntimeOperation_def del: exists_row_iff split: if_splits)
  next
    case go
    let ?row = "\<lparr>rop_id = gen (draws d), rop_requested_by_user_id = u, rop_agent_id = a,
      rop_command_id = Some (gen (Suc (draws d))), rop_action = act, rop_scope = sc,
      rop_project_name = p, rop_service_name = s, rop_status = OpPending,
      rop_result = None, rop_error = None, rop_started_at = None, rop_completed_at = None,
      rop_created_at = now, rop_updated_at = now\<rparr>"
    from assms go show thesis
      by (intro accepted [of ?row])
        (simp_all add: createRuntimeOperation_def runtime_target_def draw_def insert_command_eq Let_def
          del: exists_row_iff split: if_splits)
  qed
qed

lemma createRuntimeOperation_ok:
  assumes ok: "runtime_ops_ok d" and run: "createRuntimeOperation gen now u a act sc p s d = Inr (r, e)"
  shows "runtime_ops_ok e"
  using run
proof (cases rule: createRuntimeOperation_cases)
  case refused
  with ok show ?thesis by simp
next
  case (accepted row)
  have "\<forall>x \<in> set (runtime_ops d). \<not> (live_op (rop_status x) \<and> targets_clash (runtime_target x) (runtime_target row))"
    using accepted(1,3) by (simp add: runtime_taken_iff)
  with ok show ?thesis
    unfolding runtime_ops_ok_def accepted(10) by (simp add: sorted_wrt_append)
qed

lemma runtime_ops_ok_update:
  assumes ok: "runtime_ops_ok d" and rows: "runtime_ops e = update_rows P f (runtime_ops d)"
    and live: "\<And>r. P r \<Longrightarrow> live_op (rop_status (f r)) \<Longrightarrow> live_op (rop_status r)"
    and keep: "\<And>r. P r \<Longrightarrow> runtime_target (f r) = runtime_target r"
  shows "runtime_ops_ok e"
proof -
  let ?R = "\<lambda>r s. \<not> (live_op (rop_status r) \<and> live_op (rop_status s) \<and> targets_clash (runtime_target r) (runtime_target s))"
  let ?g = "\<lambda>r. if P r then f r else r"
  have "?R r s \<Longrightarrow> ?R (?g r) (?g s)" for r s
    using live keep by auto
  then have "sorted_wrt (\<lambda>r s. ?R (?g r) (?g s)) (runtime_ops d)"
    using sorted_wrt_mono_rel [of "runtime_ops d" ?R "\<lambda>r s. ?R (?g r) (?g s)"] ok
    unfolding runtime_ops_ok_def by blast
  then show ?thesis
    by (simp add: runtime_ops_ok_def rows update_rows_def sorted_wrt_map)
qed

lemma createRuntimeLogRequest_cases:
  assumes "createRuntimeLogRequest gen now u a p s n sn d = Inr (r, e)"
  obtains (refused) "r = None" "e = d"
  | (accepted) row where "agent_ready a d" "1 \<le> n" "n \<le> 1000" "lrq_status row = OpPending" "lrq_id row = gen (draws d)"
      "lrq_agent_id row = a" "lrq_command_id row = Some (gen (Suc (draws d)))" "lrq_created_at row = now"
      "lrq_tail row = n" "lrq_requested_by_user_id row = u" "r = Some (runtimeLogRequest row)"
      "e = d\<lparr>draws := Suc (Suc (draws d)), commands := commands d @
              [new_command (gen (Suc (draws d))) now a ''compose.runtime.logs'' [(''requestId'', JStr (gen (draws d)))]],
            log_requests := log_requests d @ [row]\<rparr>"
proof (cases "agent_ready a d")
  case False
  with assms show thesis by (intro refused) (simp_all add: createRuntimeLogRequest_def)
next
  case True
  let ?row = "\<lparr>lrq_id = gen (draws d), lrq_requested_by_user_id = u, lrq_agent_id = a,
    lrq_command_id = Some (gen (Suc (draws d))), lrq_project_name = p, lrq_service_name = s,
    lrq_tail = n, lrq_since = sn, lrq_status = OpPending, lrq_result = None, lrq_error = None,
    lrq_started_at = None, lrq_completed_at = None, lrq_created_at = now, lrq_updated_at = now\<rparr>"
  from assms True show thesis
    by (intro accepted [of ?row])
      (simp_all add: createRuntimeLogRequest_def draw_def insert_command_eq Let_def split: if_splits)
qed

end
