(* ===== verification/Gw_Connectors.thy ===== *)
theory Gw_Connectors
  imports Gw_Runtime
begin

text \<open>
  Cloudflare connectors: the tunnels an agent runs. Every change of a connector raises its
  desired revision and queues a synchronisation at its agent; the identity of its token is
  verified against the revision and the token it was read at.
\<close>

section \<open>What the table checks\<close>

text \<open>
  The checks of \<open>cloudflare_connectors\<close> on a row (a tunnel belongs to an account, the identity
  of a token is complete, and the identity status agrees with the identity columns; a check that
  evaluates to \<open>NULL\<close> passes), its unique indexes, and the trigger that protects the connector of
  an enabled domain access.
\<close>

definition connector_checks :: "connector_row \<Rightarrow> bool" where
  "connector_checks r \<longleftrightarrow>
     (con_tunnel_id r \<noteq> None \<longrightarrow> con_cloudflare_account_id r \<noteq> None)
     \<and> con_desired_revision r \<ge> 1
     \<and> ((con_token_account_identifier r = None) = (con_token_tunnel_id r = None))
     \<and> (if con_identity_status r = IVerified
        then con_token_account_identifier r \<noteq> None \<and> con_token_tunnel_id r \<noteq> None
             \<and> con_cloudflare_account_id r \<noteq> None
             \<and> (con_tunnel_id r = None \<or> map_option lower (con_tunnel_id r) = map_option lower (con_token_tunnel_id r))
             \<and> con_identity_verified_at r \<noteq> None \<and> con_identity_error r = None
        else con_identity_verified_at r = None
             \<and> (con_identity_status r \<in> {IParsed, IUnmatched, IMismatch} \<longrightarrow>
                  con_token_account_identifier r \<noteq> None \<and> con_token_tunnel_id r \<noteq> None)
             \<and> (con_identity_status r \<in> {IUnmatched, IMismatch, IInvalid, IFailed} \<longrightarrow> con_identity_error r \<noteq> None))"

definition same_tunnel :: "connector_row \<Rightarrow> connector_row \<Rightarrow> bool" where
  "same_tunnel r s \<longleftrightarrow> con_tunnel_id r \<noteq> None \<and> con_tunnel_id s \<noteq> None \<and> con_cloudflare_account_id r \<noteq> None
     \<and> con_cloudflare_account_id r = con_cloudflare_account_id s
     \<and> map_option lower (con_tunnel_id r) = map_option lower (con_tunnel_id s)"

definition same_identity :: "connector_row \<Rightarrow> connector_row \<Rightarrow> bool" where
  "same_identity r s \<longleftrightarrow> con_identity_status r = IVerified \<and> con_identity_status s = IVerified
     \<and> con_token_account_identifier r \<noteq> None \<and> con_token_tunnel_id r \<noteq> None
     \<and> con_token_account_identifier r = con_token_account_identifier s
     \<and> con_token_tunnel_id r = con_token_tunnel_id s"

definition connectors_conflict :: "connector_row \<Rightarrow> connector_row \<Rightarrow> bool" where
  "connectors_conflict r s \<longleftrightarrow> con_name r = con_name s \<or> same_tunnel r s \<or> same_identity r s"

definition connector_conflict :: "connector_row \<Rightarrow> connector_row list \<Rightarrow> bool" where
  "connector_conflict r t = exists_row (\<lambda>s. con_id s \<noteq> con_id r \<and> connectors_conflict s r) t"

definition connector_guard :: "db \<Rightarrow> connector_row \<Rightarrow> connector_row \<Rightarrow> bool" where
  "connector_guard d old new =
     ((con_enabled old \<and> \<not> con_enabled new \<or> con_agent_id old \<noteq> con_agent_id new
       \<or> con_cloudflare_account_id old \<noteq> con_cloudflare_account_id new \<or> con_tunnel_id old \<noteq> con_tunnel_id new
       \<or> con_token_encrypted old \<noteq> con_token_encrypted new)
      \<and> exists_row (\<lambda>h. dom_enabled h \<and> dom_connector_id h = Some (con_id old)) (domains d))"

text \<open>Writing one row: the trigger first, then the checks, then the unique indexes.\<close>

definition write_connector :: "connector_row \<Rightarrow> connector_row \<Rightarrow> db \<Rightarrow> pg_error + db" where
  "write_connector old new d =
     (if connector_guard d old new then Inl (TriggerException ''domain_access_dependency_enabled'')
      else if \<not> connector_checks new then Inl CheckViolation
      else if connector_conflict new (connectors d) then Inl UniqueViolation
      else Inr (d\<lparr>connectors := update_rows (\<lambda>r. con_id r = con_id old) (\<lambda>_. new) (connectors d)\<rparr>))"

section \<open>Operations\<close>

definition listConnectors :: "db \<Rightarrow> Connector list" where
  "listConnectors d = map connector (sort_key con_name (connectors d))"

definition matching_account :: "uuid \<Rightarrow> string option \<Rightarrow> db \<Rightarrow> bool" where
  "matching_account i accountIdentifier d =
     (case accountIdentifier of
        None \<Rightarrow> False
      | Some ident \<Rightarrow> exists_row (\<lambda>a. acc_id a = i \<and> acc_enabled a
          \<and> lower (acc_account_identifier a) = lower ident) (accounts d))"

definition createConnector ::
  "(nat \<Rightarrow> uuid) \<Rightarrow> time \<Rightarrow> string \<Rightarrow> string \<Rightarrow> bool \<Rightarrow> uuid \<Rightarrow> uuid option \<Rightarrow> string \<Rightarrow> string \<Rightarrow> IdentityStatus
    \<Rightarrow> string option \<Rightarrow> db \<Rightarrow> pg_error + Connector option \<times> db" where
  "createConnector gen now name encryptedToken enabled agentId accountId accountIdentifier tunnelId
      identityStatus identityError d =
     (let account = (case accountId of None \<Rightarrow> None
            | Some i \<Rightarrow> if matching_account i (Some accountIdentifier) d then Some i else None)
      in if \<not> agent_ready agentId d \<or> (accountId \<noteq> None \<and> account = None) then Inr (None, d)
         else
           let (i, d) = draw gen d;
               row = \<lparr>con_id = i, con_name = name, con_token_encrypted = encryptedToken, con_enabled = enabled,
                 con_agent_id = agentId, con_cloudflare_account_id = account,
                 con_tunnel_id = (if account = None then None else Some tunnelId), con_desired_revision = 1,
                 con_token_account_identifier = Some accountIdentifier, con_token_tunnel_id = Some (lower tunnelId),
                 con_identity_status = identityStatus,
                 con_identity_verified_at = (if identityStatus = IVerified then Some now else None),
                 con_identity_error = map_option (take 100) identityError, con_deployment_status = KPending,
                 con_runtime_status = RtUnknown, con_last_error = None, con_last_deployed_at = None,
                 con_last_observed_at = None, con_created_at = now, con_updated_at = now\<rparr>
           in if \<not> connector_checks row then Inl CheckViolation
              else if connector_conflict row (connectors d) then Inl UniqueViolation
              else
                let d = d\<lparr>connectors := connectors d @ [row]\<rparr>
                in Inr (Some (connector row),
                        if enabled then queueConnectorSync gen now agentId i 1 False d else d))"

record ConnectorUpdate =
  Update_name :: "string option"
  Update_encryptedToken :: "string option"
  Update_enabled :: "bool option"
  Update_agentId :: "uuid option"
  Update_accountId :: "uuid option"
  Update_accountIdentifier :: "string option"
  Update_tunnelId :: "string option"

definition updated_connector :: "time \<Rightarrow> ConnectorUpdate \<Rightarrow> connector_row \<Rightarrow> connector_row" where
  "updated_connector now values r =
     (let linked = Update_accountId values \<noteq> None; enabled = coalesce (Update_enabled values) (con_enabled r)
      in r\<lparr>con_name := coalesce (Update_name values) (con_name r),
           con_token_encrypted := coalesce (Update_encryptedToken values) (con_token_encrypted r),
           con_enabled := enabled,
           con_agent_id := coalesce (Update_agentId values) (con_agent_id r),
           con_cloudflare_account_id := (if linked then Update_accountId values else con_cloudflare_account_id r),
           con_tunnel_id := (if linked then Update_tunnelId values else con_tunnel_id r),
           con_token_account_identifier := (if linked then Update_accountIdentifier values else con_token_account_identifier r),
           con_token_tunnel_id := (if linked then map_option lower (Update_tunnelId values) else con_token_tunnel_id r),
           con_identity_status := (if linked then IVerified else con_identity_status r),
           con_identity_verified_at := (if linked then Some now else con_identity_verified_at r),
           con_identity_error := (if linked then None else con_identity_error r),
           con_desired_revision := con_desired_revision r + 1,
           con_deployment_status := (if enabled then KPending else KStopping),
           con_runtime_status := (if enabled then RtUnknown else con_runtime_status r),
           con_last_error := None, con_updated_at := now\<rparr>)"

text \<open>A connector whose token has no usable identity may not be switched on.\<close>

definition refuses_enable :: "ConnectorUpdate \<Rightarrow> connector_row \<Rightarrow> bool" where
  "refuses_enable values r \<longleftrightarrow>
     Update_enabled values = Some True \<and> coalesce (Update_encryptedToken values) [] = []
     \<and> (con_identity_status r \<notin> {IVerified, IParsed, IUnmatched, IMismatch, IFailed}
        \<or> coalesce (con_token_account_identifier r) [] = [] \<or> coalesce (con_token_tunnel_id r) [] = [])"

definition updateConnector ::
  "(nat \<Rightarrow> uuid) \<Rightarrow> time \<Rightarrow> uuid \<Rightarrow> ConnectorUpdate \<Rightarrow> db \<Rightarrow> pg_error + Connector option \<times> db" where
  "updateConnector gen now i values d =
     (case find (\<lambda>r. con_id r = i) (connectors d) of
        None \<Rightarrow> Inr (None, d)
      | Some r \<Rightarrow>
          if \<not> agent_ready (coalesce (Update_agentId values) (con_agent_id r)) d
             \<or> (case Update_accountId values of None \<Rightarrow> False
                | Some a \<Rightarrow> \<not> matching_account a (Update_accountIdentifier values) d)
             \<or> refuses_enable values r
          then Inr (None, d)
          else
            let d = (if Update_agentId values \<noteq> None \<and> Update_agentId values \<noteq> Some (con_agent_id r)
                     then snd (insert_command gen now (con_agent_id r) ''cloudflare.connector.remove''
                            (connector_payload i (con_desired_revision r + 1)) d)
                     else d);
                new = updated_connector now values r
            in (case write_connector r new d of
                  Inl err \<Rightarrow> Inl err
                | Inr d \<Rightarrow>
                    Inr (Some (connector new),
                         queueConnectorSync gen now (con_agent_id new) i (con_desired_revision new)
                           (\<not> con_enabled new) d)))"

definition connectorDeployment :: "connector_row \<Rightarrow> ConnectorDeployment" where
  "connectorDeployment r = \<lparr>
     ConnectorDeployment_connectorId = con_id r, ConnectorDeployment_agentId = con_agent_id r,
     ConnectorDeployment_name = con_name r, ConnectorDeployment_enabled = con_enabled r,
     ConnectorDeployment_desiredRevision = con_desired_revision r,
     ConnectorDeployment_encryptedToken = con_token_encrypted r,
     ConnectorDeployment_cloudflareAccountId = con_cloudflare_account_id r,
     ConnectorDeployment_tunnelId = con_tunnel_id r,
     ConnectorDeployment_tokenAccountIdentifier = con_token_account_identifier r,
     ConnectorDeployment_tokenTunnelId = con_token_tunnel_id r,
     ConnectorDeployment_identityStatus = con_identity_status r\<rparr>"

definition getConnectorDeployment :: "uuid \<Rightarrow> db \<Rightarrow> ConnectorDeployment option" where
  "getConnectorDeployment i d = map_option connectorDeployment (find (\<lambda>r. con_id r = i) (connectors d))"

definition listConnectorIdentityDeployments :: "time \<Rightarrow> int \<Rightarrow> db \<Rightarrow> ConnectorDeployment list" where
  "listConnectorIdentityDeployments now limit d =
     map connectorDeployment (take (nat (max 1 (min limit 50))) (sort_key con_updated_at
       (filter (\<lambda>r. con_identity_status r \<in> {IPending, IParsed, IFailed}
          \<or> con_identity_status r = IUnmatched \<and> con_updated_at r < now - 3600000) (connectors d))))"

record IdentityValues =
  Identity_status :: IdentityStatus
  Identity_accountId :: "uuid option"
  Identity_accountIdentifier :: "string option"
  Identity_tunnelId :: "string option"
  Identity_error :: "string option"

text \<open>
  The account and the tunnel a connector is already bound to, against those just verified:
  they differ, or they agree in the three-valued logic of SQL.
\<close>

definition identity_differs :: "IdentityValues \<Rightarrow> connector_row \<Rightarrow> bool" where
  "identity_differs v r \<longleftrightarrow>
     (con_cloudflare_account_id r \<noteq> None \<and> con_cloudflare_account_id r \<noteq> Identity_accountId v)
     \<or> (con_tunnel_id r \<noteq> None \<and> map_option lower (con_tunnel_id r) \<noteq> map_option lower (Identity_tunnelId v))"

definition marked_connector :: "time \<Rightarrow> IdentityValues \<Rightarrow> connector_row \<Rightarrow> connector_row" where
  "marked_connector now v r =
     (let verified = Identity_status v = IVerified; differs = identity_differs v r
      in r\<lparr>con_identity_status := (if verified \<and> differs then IMismatch else Identity_status v),
           con_cloudflare_account_id := (if verified \<and> \<not> differs
             then coalesce_null (con_cloudflare_account_id r) (Identity_accountId v) else con_cloudflare_account_id r),
           con_tunnel_id := (if verified \<and> \<not> differs
             then coalesce_null (con_tunnel_id r) (Identity_tunnelId v) else con_tunnel_id r),
           con_token_account_identifier := Identity_accountIdentifier v,
           con_token_tunnel_id := map_option lower (Identity_tunnelId v),
           con_identity_verified_at := (if verified \<and> \<not> differs then Some now else None),
           con_identity_error := (if verified \<and> differs then Some ''connector_identity_mismatch''
             else if verified then None else map_option (take 100) (Identity_error v)),
           con_updated_at := now\<rparr>)"

definition markConnectorIdentity ::
  "time \<Rightarrow> uuid \<Rightarrow> ConnectorIdentityExpectation \<Rightarrow> IdentityValues \<Rightarrow> db \<Rightarrow> pg_error + Connector option \<times> db" where
  "markConnectorIdentity now i expected v d =
     (case find (\<lambda>r. con_id r = i \<and> con_desired_revision r = Expectation_desiredRevision expected
             \<and> con_token_encrypted r = Expectation_encryptedToken expected) (connectors d) of
        None \<Rightarrow> Inr (None, d)
      | Some r \<Rightarrow>
          (case write_connector r (marked_connector now v r) d of
             Inl err \<Rightarrow> Inl err
           | Inr d \<Rightarrow> Inr (Some (connector (marked_connector now v r)), d)))"

section \<open>The outcomes of a write\<close>

lemma createConnector_cases:
  assumes "createConnector gen now n tok b a aid ident tun st err d = Inr (x, e)"
  obtains (refused) "x = None" "e = d"
  | (created) row where "agent_ready a d" "connector_checks row" "\<not> connector_conflict row (connectors d)"
      "con_id row = gen (draws d)" "con_agent_id row = a" "con_desired_revision row = 1" "con_enabled row = b"
      "x = Some (connector row)"
      "e = (let d' = d\<lparr>draws := Suc (draws d), connectors := connectors d @ [row]\<rparr>
            in if b then queueConnectorSync gen now a (gen (draws d)) 1 False d' else d')"
proof -
  let ?account = "case aid of None \<Rightarrow> None | Some i \<Rightarrow> if matching_account i (Some ident) d then Some i else None"
  consider (no) "\<not> agent_ready a d \<or> (aid \<noteq> None \<and> ?account = None)"
    | (go) "\<not> (\<not> agent_ready a d \<or> (aid \<noteq> None \<and> ?account = None))" by blast
  then show thesis
  proof cases
    case no
    with assms show thesis by (intro refused) (simp_all only: createConnector_def Let_def if_True sum.inject prod.inject)
  next
    case go
    let ?row = "\<lparr>con_id = gen (draws d), con_name = n, con_token_encrypted = tok, con_enabled = b,
      con_agent_id = a, con_cloudflare_account_id = ?account,
      con_tunnel_id = (if ?account = None then None else Some tun), con_desired_revision = 1,
      con_token_account_identifier = Some ident, con_token_tunnel_id = Some (lower tun),
      con_identity_status = st,
      con_identity_verified_at = (if st = IVerified then Some now else None),
      con_identity_error = map_option (take 100) err, con_deployment_status = KPending,
      con_runtime_status = RtUnknown, con_last_error = None, con_last_deployed_at = None,
      con_last_observed_at = None, con_created_at = now, con_updated_at = now\<rparr>"
    from assms go have "connector_checks ?row" "\<not> connector_conflict ?row (connectors d)"
        "x = Some (connector ?row)"
        "e = (let d' = d\<lparr>draws := Suc (draws d), connectors := connectors d @ [?row]\<rparr>
            in if b then queueConnectorSync gen now a (gen (draws d)) 1 False d' else d')"
      by (simp_all only: createConnector_def Let_def if_False draw_def prod.case)
        (simp_all split: if_split_asm)
    with go show thesis by (intro created [of ?row]) simp_all
  qed
qed

lemma write_connector_Inr:
  assumes "write_connector old new d = Inr e"
  shows "e = d\<lparr>connectors := update_rows (\<lambda>r. con_id r = con_id old) (\<lambda>_. new) (connectors d)\<rparr>"
    "\<not> connector_guard d old new" "connector_checks new" "\<not> connector_conflict new (connectors d)"
  using assms by (simp_all add: write_connector_def split: if_splits)

text \<open>A connector that moves to another agent is removed at the one it leaves.\<close>

definition queue_removal :: "(nat \<Rightarrow> uuid) \<Rightarrow> time \<Rightarrow> ConnectorUpdate \<Rightarrow> connector_row \<Rightarrow> db \<Rightarrow> db" where
  "queue_removal gen now v r d =
     (if Update_agentId v \<noteq> None \<and> Update_agentId v \<noteq> Some (con_agent_id r)
      then snd (insert_command gen now (con_agent_id r) ''cloudflare.connector.remove''
             (connector_payload (con_id r) (con_desired_revision r + 1)) d)
      else d)"

lemma updated_connector_agent [simp]:
  "con_agent_id (updated_connector now v r) = coalesce (Update_agentId v) (con_agent_id r)"
  by (simp add: updated_connector_def Let_def)

lemma updateConnector_cases:
  assumes "updateConnector gen now i v d = Inr (x, e)"
  obtains (refused) "x = None" "e = d"
  | (updated) r e' where "find (\<lambda>r. con_id r = i) (connectors d) = Some r" "r \<in> set (connectors d)" "con_id r = i"
      "agent_ready (con_agent_id (updated_connector now v r)) d" "\<not> refuses_enable v r"
      "write_connector r (updated_connector now v r) (queue_removal gen now v r d) = Inr e'"
      "x = Some (connector (updated_connector now v r))"
      "e = queueConnectorSync gen now (con_agent_id (updated_connector now v r)) i
         (con_desired_revision (updated_connector now v r)) (\<not> con_enabled (updated_connector now v r)) e'"
proof (cases "find (\<lambda>r. con_id r = i) (connectors d)")
  case None
  with assms show thesis by (intro refused) (simp_all add: updateConnector_def)
next
  case (Some r)
  then have r: "r \<in> set (connectors d)" "con_id r = i" by (auto dest: find_someD)
  let ?no = "\<not> agent_ready (coalesce (Update_agentId v) (con_agent_id r)) d
      \<or> (case Update_accountId v of None \<Rightarrow> False | Some a \<Rightarrow> \<not> matching_account a (Update_accountIdentifier v) d)
      \<or> refuses_enable v r"
  show thesis
  proof (cases ?no)
    case True
    with assms Some show thesis
      by (intro refused) (simp_all only: updateConnector_def option.case if_True sum.inject prod.inject)
  next
    case False
    let ?new = "updated_connector now v r"
    from assms Some False obtain e' where
      "write_connector r ?new (queue_removal gen now v r d) = Inr e'" "x = Some (connector ?new)"
      "e = queueConnectorSync gen now (con_agent_id ?new) i (con_desired_revision ?new) (\<not> con_enabled ?new) e'"
      unfolding queue_removal_def r(2)
      by (simp only: updateConnector_def option.case if_False Let_def) (auto split: sum.splits)
    with False show thesis by (intro updated [OF Some r]) simp_all
  qed
qed

end
