(* ===== verification/Gw_Cloudflare.thy ===== *)
theory Gw_Cloudflare
  imports Gw_Connectors
begin

text \<open>
  Cloudflare accounts, the zones read from them, and the guided operations that take a user
  from a token to a published domain.
\<close>

section \<open>Accounts\<close>

definition listCloudflareAccounts :: "db \<Rightarrow> CloudflareAccount list" where
  "listCloudflareAccounts d = map cloudflareAccount (sort_key acc_name (accounts d))"

definition account_conflict :: "account_row \<Rightarrow> account_row list \<Rightarrow> bool" where
  "account_conflict r t = exists_row (\<lambda>s. acc_id s \<noteq> acc_id r
     \<and> (lower (acc_name s) = lower (acc_name r)
        \<or> lower (acc_account_identifier s) = lower (acc_account_identifier r))) t"

definition createCloudflareAccount ::
  "(nat \<Rightarrow> uuid) \<Rightarrow> time \<Rightarrow> string \<Rightarrow> string \<Rightarrow> string \<Rightarrow> bool \<Rightarrow> db \<Rightarrow> pg_error + CloudflareAccount \<times> db" where
  "createCloudflareAccount gen now name accountIdentifier encryptedApiToken enabled d =
     (let (i, d) = draw gen d;
          row = \<lparr>acc_id = i, acc_name = name, acc_account_identifier = accountIdentifier,
            acc_api_token_encrypted = encryptedApiToken, acc_enabled = enabled, acc_last_synced_at = None,
            acc_last_error_at = None, acc_last_error = None, acc_created_at = now, acc_updated_at = now\<rparr>
      in if account_conflict row (accounts d) then Inl UniqueViolation
         else Inr (cloudflareAccount row, d\<lparr>accounts := accounts d @ [row]\<rparr>))"

text \<open>The trigger that protects the account of an enabled domain access.\<close>

definition account_guard :: "db \<Rightarrow> account_row \<Rightarrow> account_row \<Rightarrow> bool" where
  "account_guard d old new =
     ((acc_enabled old \<and> \<not> acc_enabled new \<or> acc_account_identifier old \<noteq> acc_account_identifier new
       \<or> acc_api_token_encrypted old \<noteq> acc_api_token_encrypted new)
      \<and> exists_row (\<lambda>h. dom_enabled h \<and> dom_cloudflare_account_id h = acc_id old) (domains d))"

definition updated_account ::
  "time \<Rightarrow> string option \<Rightarrow> string option \<Rightarrow> string option \<Rightarrow> bool option \<Rightarrow> account_row \<Rightarrow> account_row" where
  "updated_account now name accountIdentifier encryptedApiToken enabled r =
     r\<lparr>acc_name := coalesce name (acc_name r),
       acc_account_identifier := coalesce accountIdentifier (acc_account_identifier r),
       acc_api_token_encrypted := coalesce encryptedApiToken (acc_api_token_encrypted r),
       acc_enabled := coalesce enabled (acc_enabled r), acc_updated_at := now\<rparr>"

definition updateCloudflareAccount ::
  "time \<Rightarrow> uuid \<Rightarrow> string option \<Rightarrow> string option \<Rightarrow> string option \<Rightarrow> bool option \<Rightarrow> db
    \<Rightarrow> pg_error + CloudflareAccount option \<times> db" where
  "updateCloudflareAccount now i name accountIdentifier encryptedApiToken enabled d =
     (case find (\<lambda>r. acc_id r = i) (accounts d) of
        None \<Rightarrow> Inr (None, d)
      | Some r \<Rightarrow>
          let new = updated_account now name accountIdentifier encryptedApiToken enabled r
          in if account_guard d r new then Inl (TriggerException ''domain_access_dependency_enabled'')
             else if account_conflict new (accounts d) then Inl UniqueViolation
             else Inr (Some (cloudflareAccount new),
                       d\<lparr>accounts := update_rows (\<lambda>s. acc_id s = i) (\<lambda>_. new) (accounts d)\<rparr>))"

definition cloudflareAccountDeletionDependencies :: "uuid \<Rightarrow> db \<Rightarrow> CloudflareAccountDeletionDependencies" where
  "cloudflareAccountDeletionDependencies i d = \<lparr>
     Dependencies_connectors = count_rows (\<lambda>r. con_cloudflare_account_id r = Some i) (connectors d),
     Dependencies_domainAccess = count_rows (\<lambda>r. dom_cloudflare_account_id r = i) (domains d),
     Dependencies_guidedOperations = count_rows (\<lambda>r. gop_cloudflare_account_id r = Some i) (guided_operations d)\<rparr>"

definition deleteCloudflareAccount ::
  "uuid \<Rightarrow> db \<Rightarrow> (bool \<times> CloudflareAccountDeletionDependencies) option \<times> db" where
  "deleteCloudflareAccount i d =
     (if \<not> exists_row (\<lambda>r. acc_id r = i) (accounts d) then (None, d)
      else
        let dependencies = cloudflareAccountDeletionDependencies i d
        in if Dependencies_connectors dependencies + Dependencies_domainAccess dependencies
              + Dependencies_guidedOperations dependencies > 0
           then (Some (False, dependencies), d)
           else (Some (True, dependencies),
                 d\<lparr>zones := delete_rows (\<lambda>z. zon_cloudflare_account_id z = i) (zones d),
                   accounts := delete_rows (\<lambda>r. acc_id r = i) (accounts d)\<rparr>))"

definition cloudflareAccountSecret :: "account_row \<Rightarrow> CloudflareAccountSecret" where
  "cloudflareAccountSecret r =
     CloudflareAccount.extend (cloudflareAccount r) (CloudflareAccountSecret.fields (acc_api_token_encrypted r))"

definition getCloudflareAccountSecret :: "uuid \<Rightarrow> db \<Rightarrow> CloudflareAccountSecret option" where
  "getCloudflareAccountSecret i d = map_option cloudflareAccountSecret (find (\<lambda>r. acc_id r = i) (accounts d))"

definition getCloudflareAccountSecretByIdentifier :: "string \<Rightarrow> db \<Rightarrow> CloudflareAccountSecret option" where
  "getCloudflareAccountSecretByIdentifier accountIdentifier d =
     map_option cloudflareAccountSecret (find (\<lambda>r. acc_enabled r
       \<and> lower (acc_account_identifier r) = lower accountIdentifier) (accounts d))"

section \<open>Zones\<close>

definition account_zones :: "uuid \<Rightarrow> db \<Rightarrow> CloudflareZone list" where
  "account_zones i d = map cloudflareZone (sort_key zon_name (filter (\<lambda>z. zon_cloudflare_account_id z = i) (zones d)))"

text \<open>
  One zone of the answer of Cloudflare, by identifier, name and status. The conflict clause
  names the index on the identifier only, so a zone whose name the account already has under
  another identifier violates \<open>UNIQUE (cloudflare_account_id, name)\<close>.
\<close>

definition zone_name_taken :: "uuid \<Rightarrow> string \<Rightarrow> string \<Rightarrow> zone_row list \<Rightarrow> bool" where
  "zone_name_taken accountId ident name t =
     exists_row (\<lambda>z. lower (zon_zone_identifier z) \<noteq> lower ident
       \<and> zon_cloudflare_account_id z = accountId \<and> zon_name z = name) t"

definition sync_zone ::
  "(nat \<Rightarrow> uuid) \<Rightarrow> time \<Rightarrow> uuid \<Rightarrow> string \<times> string \<times> string \<Rightarrow> db \<Rightarrow> pg_error + db" where
  "sync_zone gen now accountId zone d =
     (case zone of (ident, name, status) \<Rightarrow>
        (case find (\<lambda>z. lower (zon_zone_identifier z) = lower ident) (zones d) of
           Some z \<Rightarrow>
             if zon_cloudflare_account_id z \<noteq> accountId then Inr d
             else if zone_name_taken accountId ident name (zones d) then Inl UniqueViolation
             else Inr (d\<lparr>zones := update_rows (\<lambda>r. lower (zon_zone_identifier r) = lower ident)
                    (\<lambda>r. r\<lparr>zon_name := name, zon_status := status, zon_updated_at := now\<rparr>) (zones d)\<rparr>)
         | None \<Rightarrow>
             if zone_name_taken accountId ident name (zones d) then Inl UniqueViolation
             else
               let (i, d) = draw gen d
               in Inr (d\<lparr>zones := zones d @ [\<lparr>zon_id = i, zon_cloudflare_account_id = accountId,
                    zon_zone_identifier = ident, zon_name = name, zon_status = status,
                    zon_created_at = now, zon_updated_at = now\<rparr>]\<rparr>)))"

fun sync_zones ::
  "(nat \<Rightarrow> uuid) \<Rightarrow> time \<Rightarrow> uuid \<Rightarrow> (string \<times> string \<times> string) list \<Rightarrow> db \<Rightarrow> pg_error + db" where
  "sync_zones gen now accountId [] d = Inr d"
| "sync_zones gen now accountId (zone # rest) d =
     (case sync_zone gen now accountId zone d of
        Inl err \<Rightarrow> Inl err
      | Inr d \<Rightarrow> sync_zones gen now accountId rest d)"

definition syncCloudflareZones ::
  "(nat \<Rightarrow> uuid) \<Rightarrow> time \<Rightarrow> uuid \<Rightarrow> (string \<times> string \<times> string) list \<Rightarrow> string option \<Rightarrow> db
    \<Rightarrow> pg_error + CloudflareZone list option \<times> db" where
  "syncCloudflareZones gen now accountId zs error d =
     (if \<not> exists_row (\<lambda>r. acc_id r = accountId) (accounts d) then Inr (None, d)
      else
        let d = d\<lparr>accounts := update_rows (\<lambda>r. acc_id r = accountId)
                 (\<lambda>r. r\<lparr>acc_last_synced_at := (if error = None then Some now else acc_last_synced_at r),
                       acc_last_error_at := (if error = None then None else Some now),
                       acc_last_error := error, acc_updated_at := now\<rparr>) (accounts d)\<rparr>
        in if coalesce error [] \<noteq> [] then Inr (Some (account_zones accountId d), d)
           else
             let d = d\<lparr>zones := update_rows (\<lambda>z. zon_cloudflare_account_id z = accountId
                          \<and> zon_zone_identifier z \<notin> set (map fst zs))
                        (\<lambda>z. z\<lparr>zon_status := ''unavailable'', zon_updated_at := now\<rparr>) (zones d)\<rparr>
             in (case sync_zones gen now accountId zs d of
                   Inl err \<Rightarrow> Inl err
                 | Inr d \<Rightarrow> Inr (Some (account_zones accountId d), d)))"

definition listCloudflareZones :: "uuid \<Rightarrow> db \<Rightarrow> CloudflareZone list option" where
  "listCloudflareZones accountId d =
     (if exists_row (\<lambda>r. acc_id r = accountId) (accounts d) then Some (account_zones accountId d) else None)"

section \<open>Guided operations\<close>

definition guided_key :: "guided_row \<Rightarrow> uuid \<times> GuidedKind \<times> string" where
  "guided_key r = (gop_requested_by_user_id r, gop_kind r, gop_idempotency_key r)"

definition createOrGetGuidedOperation ::
  "(nat \<Rightarrow> uuid) \<Rightarrow> time \<Rightarrow> GuidedKind \<Rightarrow> string \<Rightarrow> uuid \<Rightarrow> string \<Rightarrow> string \<Rightarrow> db \<Rightarrow> (GuidedOperation \<times> bool) \<times> db" where
  "createOrGetGuidedOperation gen now kind idempotencyKey requestedByUserId requestHash encryptedRequest d =
     (case find (\<lambda>r. guided_key r = (requestedByUserId, kind, idempotencyKey)) (guided_operations d) of
        Some r \<Rightarrow> ((guidedOperation r, False), d)
      | None \<Rightarrow>
          let (i, d) = draw gen d;
              row = \<lparr>gop_id = i, gop_kind = kind, gop_idempotency_key = idempotencyKey,
                gop_requested_by_user_id = requestedByUserId, gop_request_hash = requestHash,
                gop_request_encrypted = Some encryptedRequest, gop_status = GPending, gop_stage = ''created'',
                gop_cloudflare_account_id = None, gop_connector_id = None, gop_route_id = None,
                gop_domain_access_id = None, gop_remote_tunnel_id = None, gop_remote_tunnel_name = None,
                gop_result = None, gop_error = None, gop_verification_deadline_at = None,
                gop_verification_attempts = 0, gop_created_at = now, gop_updated_at = now, gop_completed_at = None\<rparr>
          in ((guidedOperation row, True), d\<lparr>guided_operations := guided_operations d @ [row]\<rparr>))"

record GuidedUpdate =
  GuidedUpdate_status :: "GuidedStatus option"
  GuidedUpdate_stage :: "string option"
  GuidedUpdate_accountId :: "uuid option"
  GuidedUpdate_connectorId :: "uuid option"
  GuidedUpdate_routeId :: "uuid option"
  GuidedUpdate_domainAccessId :: "uuid option"
  GuidedUpdate_remoteTunnelId :: "string option"
  GuidedUpdate_remoteTunnelName :: "string option"
  GuidedUpdate_result :: "jobj option"
  GuidedUpdate_error :: "string option option"
  GuidedUpdate_clearEncryptedRequest :: bool
  GuidedUpdate_verificationDeadlineAt :: "time option"
  GuidedUpdate_incrementVerificationAttempts :: bool

definition updated_guided :: "time \<Rightarrow> GuidedUpdate \<Rightarrow> guided_row \<Rightarrow> guided_row" where
  "updated_guided now v r =
     r\<lparr>gop_status := coalesce (GuidedUpdate_status v) (gop_status r),
       gop_stage := coalesce (GuidedUpdate_stage v) (gop_stage r),
       gop_cloudflare_account_id := coalesce_null (GuidedUpdate_accountId v) (gop_cloudflare_account_id r),
       gop_connector_id := coalesce_null (GuidedUpdate_connectorId v) (gop_connector_id r),
       gop_route_id := coalesce_null (GuidedUpdate_routeId v) (gop_route_id r),
       gop_domain_access_id := coalesce_null (GuidedUpdate_domainAccessId v) (gop_domain_access_id r),
       gop_remote_tunnel_id := coalesce_null (GuidedUpdate_remoteTunnelId v) (gop_remote_tunnel_id r),
       gop_remote_tunnel_name := coalesce_null (GuidedUpdate_remoteTunnelName v) (gop_remote_tunnel_name r),
       gop_result := coalesce_null (GuidedUpdate_result v) (gop_result r),
       gop_error := (case GuidedUpdate_error v of None \<Rightarrow> gop_error r | Some e \<Rightarrow> e),
       gop_request_encrypted := (if GuidedUpdate_clearEncryptedRequest v then None else gop_request_encrypted r),
       gop_verification_deadline_at := coalesce_null (GuidedUpdate_verificationDeadlineAt v) (gop_verification_deadline_at r),
       gop_verification_attempts := gop_verification_attempts r
         + (if GuidedUpdate_incrementVerificationAttempts v then 1 else 0),
       gop_updated_at := now,
       gop_completed_at := (if coalesce (GuidedUpdate_status v) (gop_status r) = GSucceeded then Some now
                            else gop_completed_at r)\<rparr>"

definition updateGuidedOperation :: "time \<Rightarrow> uuid \<Rightarrow> GuidedUpdate \<Rightarrow> db \<Rightarrow> GuidedOperation option \<times> db" where
  "updateGuidedOperation now i v d =
     (map_option (\<lambda>r. guidedOperation (updated_guided now v r)) (find (\<lambda>r. gop_id r = i) (guided_operations d)),
      d\<lparr>guided_operations := update_rows (\<lambda>r. gop_id r = i) (updated_guided now v) (guided_operations d)\<rparr>)"

definition getGuidedOperation :: "uuid \<Rightarrow> db \<Rightarrow> GuidedOperation option" where
  "getGuidedOperation i d = map_option guidedOperation (find (\<lambda>r. gop_id r = i) (guided_operations d))"

definition listGuidedOperationsPendingVerification :: "int \<Rightarrow> db \<Rightarrow> GuidedOperation list" where
  "listGuidedOperationsPendingVerification limit d =
     map guidedOperation (take (nat (max 1 (min limit 50))) (sort_key gop_updated_at
       (filter (\<lambda>r. gop_kind r = DomainPublish \<and> gop_status r = GWaiting
          \<and> gop_stage r = ''pending_https_verification'') (guided_operations d))))"

end
