(* ===== verification/Gw_Domain.thy ===== *)
theory Gw_Domain
  imports Gw_Cloudflare "HOL-Library.Option_ord"
begin

text \<open>
  Domain access: the publication of a route under its hostname, through a tunnel or at public
  addresses. Reconciliation runs outside the database; what it writes back is fenced by the
  revision it worked on.
\<close>

section \<open>The \<open>LIKE\<close> of SQL\<close>

fun like :: "string \<Rightarrow> string \<Rightarrow> bool" where
  "like [] s \<longleftrightarrow> s = []"
| "like (p # ps) s \<longleftrightarrow>
     (if p = CHR ''%'' then (\<exists>n \<in> {.. length s}. like ps (drop n s))
      else if p = CHR ''_'' then (case s of [] \<Rightarrow> False | _ # t \<Rightarrow> like ps t)
      else (case s of [] \<Rightarrow> False | c # t \<Rightarrow> c = p \<and> like ps t))"

definition plain :: "string \<Rightarrow> bool" where
  "plain p \<longleftrightarrow> list_all (\<lambda>c. c \<noteq> CHR ''%'' \<and> c \<noteq> CHR ''_'' \<and> c \<noteq> CHR 0x5C) p"

lemma like_plain: "plain p \<Longrightarrow> like p s \<longleftrightarrow> s = p"
  by (induction p arbitrary: s) (auto simp: plain_def split: list.splits)

definition suffix_of :: "string \<Rightarrow> string \<Rightarrow> bool" where
  "suffix_of p s \<longleftrightarrow> (\<exists>q. s = q @ p)"

lemma like_suffix:
  assumes "plain p"
  shows "like (CHR ''%'' # p) s \<longleftrightarrow> suffix_of p s"
proof
  assume "like (CHR ''%'' # p) s"
  then obtain n where "drop n s = p" using like_plain [OF assms] by auto
  then have "s = take n s @ p" by (metis append_take_drop_id)
  then show "suffix_of p s" unfolding suffix_of_def by blast
next
  assume "suffix_of p s"
  then obtain q where "s = q @ p" by (auto simp: suffix_of_def)
  then have "drop (length q) s = p" "length q \<le> length s" by simp_all
  then show "like (CHR ''%'' # p) s" using like_plain [OF assms, of p] by auto
qed

section \<open>Reading\<close>

definition listCloudflareDomainAccess :: "db \<Rightarrow> CloudflareDomainAccess list" where
  "listCloudflareDomainAccess d = map (cloudflareDomainAccess d) (sort_key dom_hostname (domains d))"

definition getDomainAccess :: "uuid \<Rightarrow> db \<Rightarrow> CloudflareDomainAccess option" where
  "getDomainAccess i d = map_option (cloudflareDomainAccess d) (find (\<lambda>h. dom_id h = i) (domains d))"

definition tls_due :: "time \<Rightarrow> domain_row \<Rightarrow> bool" where
  "tls_due now h \<longleftrightarrow> dom_enabled h \<and> dom_status h = DomActive \<and> dom_access_method h = PublicIp \<and> \<not> dom_proxied h
     \<and> (case dom_tls_observed_at h of None \<Rightarrow> True | Some t \<Rightarrow> t < now - 6 * 3600000)"

definition listTlsObservationTargets :: "time \<Rightarrow> int \<Rightarrow> db \<Rightarrow> TlsObservationTarget list" where
  "listTlsObservationTargets now limit d =
     take (nat (max 1 (min limit 50)))
       (List.map_filter (\<lambda>h. map_option (\<lambda>r. \<lparr>TlsTarget_domainAccessId = dom_id h, TlsTarget_hostname = dom_hostname h,
            TlsTarget_agentId = rte_gateway_agent_id r\<rparr>) (find (\<lambda>r. rte_id r = dom_route_id h) (routes d)))
          (sort_key dom_tls_observed_at (filter (tls_due now) (domains d))))"

datatype dependency = DependsAccount | DependsConnector | DependsRoute

definition hasEnabledDomainAccessDependency :: "dependency \<Rightarrow> uuid \<Rightarrow> db \<Rightarrow> bool" where
  "hasEnabledDomainAccessDependency dep i d =
     exists_row (\<lambda>h. dom_enabled h \<and> (case dep of
         DependsAccount \<Rightarrow> dom_cloudflare_account_id h = i
       | DependsConnector \<Rightarrow> dom_connector_id h = Some i
       | DependsRoute \<Rightarrow> dom_route_id h = i)) (domains d)"

definition getCloudflareDomainAccessDeployment :: "uuid \<Rightarrow> db \<Rightarrow> CloudflareDomainAccessDeployment option" where
  "getCloudflareDomainAccessDeployment i d =
     (case find (\<lambda>h. dom_id h = i) (domains d) of
        None \<Rightarrow> None
      | Some h \<Rightarrow>
          (case (find (\<lambda>a. acc_id a = dom_cloudflare_account_id h) (accounts d),
                 find (\<lambda>z. zon_id z = dom_cloudflare_zone_id h) (zones d),
                 find (\<lambda>r. rte_id r = dom_route_id h) (routes d)) of
             (Some a, Some z, Some r) \<Rightarrow>
               let c = (case dom_connector_id h of None \<Rightarrow> None | Some k \<Rightarrow> find (\<lambda>c. con_id c = k) (connectors d))
               in Some (CloudflareDomainAccess.extend (cloudflareDomainAccess d h)
                    (CloudflareDomainAccessDeployment.fields
                       (dom_deployed_account_identifier h) (acc_api_token_encrypted a)
                       (dom_deployed_zone_identifier h) (zon_name z) (zon_status z) (zon_cloudflare_account_id z)
                       (acc_enabled a) (rte_enabled r) (rte_status r) (rte_exposure r) (rte_gateway_agent_id r)
                       (rte_hostname r) (map_option con_enabled c) (map_option con_agent_id c)
                       (Option.bind c con_cloudflare_account_id) (map_option con_identity_status c)
                       (Option.bind c con_token_account_identifier) (Option.bind c con_token_tunnel_id)
                       (dom_deployed_tunnel_id h)))
           | _ \<Rightarrow> None))"

section \<open>Observing certificates\<close>

definition tls_event_payload :: "uuid \<Rightarrow> string option \<Rightarrow> jobj" where
  "tls_event_payload i validTo = (''domainAccessId'', JStr i) # entry_if ''validTo'' validTo"

text \<open>\<open>to_iso\<close> renders a time stamp as the ISO string of the event.\<close>

definition saveTlsObservation ::
  "(nat \<Rightarrow> uuid) \<Rightarrow> (time \<Rightarrow> string) \<Rightarrow> time \<Rightarrow> uuid \<Rightarrow> TlsObservation \<Rightarrow> db \<Rightarrow> db" where
  "saveTlsObservation gen to_iso now i obs d =
     (case find (\<lambda>h. dom_id h = i) (domains d) of
        None \<Rightarrow> d
      | Some h \<Rightarrow>
          let d = d\<lparr>domains := update_rows (\<lambda>r. dom_id r = i)
                (\<lambda>r. r\<lparr>dom_tls_status := TlsObservation_status obs, dom_tls_issuer := TlsObservation_issuer obs,
                  dom_tls_valid_to := TlsObservation_validTo obs,
                  dom_tls_error := map_option (take 500) (TlsObservation_error obs),
                  dom_tls_observed_at := Some now, dom_updated_at := now\<rparr>) (domains d)\<rparr>
          in if TlsObservation_status obs = TlsExpiring \<and> dom_tls_status h \<noteq> TlsExpiring
             then (case find (\<lambda>r. rte_id r = dom_route_id h) (routes d) of
                     None \<Rightarrow> d
                   | Some r \<Rightarrow> enqueueEvent gen now CertificateExpiring
                       (no_scope\<lparr>ev_agentId := Some (rte_gateway_agent_id r),
                          ev_payload := tls_event_payload i (map_option to_iso (TlsObservation_validTo obs))\<rparr>) d)
             else d)"

section \<open>Publishing, enabling and disabling\<close>

text \<open>
  The checks of the table: the status agrees with \<open>enabled\<close>, a tunnel has a connector and no
  addresses, public addresses are at most four of each family and at least one.
\<close>

definition domain_checks :: "domain_row \<Rightarrow> bool" where
  "domain_checks h \<longleftrightarrow>
     (dom_status h = DomActive \<longrightarrow> dom_enabled h) \<and> (dom_status h = DomDisabled \<longrightarrow> \<not> dom_enabled h)
     \<and> length (dom_public_ipv4 h) \<le> 4 \<and> length (dom_public_ipv6 h) \<le> 4 \<and> dom_revision h > 0
     \<and> (case dom_access_method h of
          Tunnel \<Rightarrow> dom_connector_id h \<noteq> None \<and> dom_public_ipv4 h = [] \<and> dom_public_ipv6 h = []
        | PublicIp \<Rightarrow> dom_connector_id h = None \<and> length (dom_public_ipv4 h) + length (dom_public_ipv6 h) \<ge> 1)"

definition tunnel_ready :: "account_row \<Rightarrow> route_row \<Rightarrow> connector_row \<Rightarrow> bool" where
  "tunnel_ready a r c \<longleftrightarrow>
     rte_exposure r = ExpTunnel \<and> con_enabled c \<and> con_identity_status c = IVerified \<and> con_tunnel_id c \<noteq> None
     \<and> con_cloudflare_account_id c = Some (acc_id a)
     \<and> map_option lower (con_token_account_identifier c) = Some (lower (acc_account_identifier a))
     \<and> map_option lower (con_token_tunnel_id c) = map_option lower (con_tunnel_id c)
     \<and> con_agent_id c = rte_gateway_agent_id r"

definition domain_source ::
  "uuid \<Rightarrow> uuid \<Rightarrow> uuid \<Rightarrow> AccessMethod \<Rightarrow> uuid option \<Rightarrow> db
    \<Rightarrow> (zone_row \<times> account_row \<times> route_row \<times> connector_row option) option" where
  "domain_source accountId zoneId routeId accessMethod connectorId d =
     (case (find (\<lambda>z. zon_id z = zoneId) (zones d), find (\<lambda>a. acc_id a = accountId) (accounts d),
            find (\<lambda>r. rte_id r = routeId) (routes d)) of
        (Some z, Some a, Some r) \<Rightarrow>
          let c = (case connectorId of None \<Rightarrow> None | Some k \<Rightarrow> find (\<lambda>c. con_id c = k) (connectors d))
          in if zon_cloudflare_account_id z = acc_id a \<and> acc_enabled a \<and> zon_status z = ''active''
                \<and> rte_enabled r \<and> rte_status r = DepActive
                \<and> (case accessMethod of
                     Tunnel \<Rightarrow> (case c of None \<Rightarrow> False | Some k \<Rightarrow> tunnel_ready a r k)
                   | PublicIp \<Rightarrow> rte_exposure r = ExpPublic \<and> c = None)
                \<and> (lower (rte_hostname r) = lower (zon_name z)
                   \<or> like (''%.'' @ lower (zon_name z)) (lower (rte_hostname r)))
             then Some (z, a, r, c) else None
      | _ \<Rightarrow> None)"

definition createPendingDomainAccess ::
  "(nat \<Rightarrow> uuid) \<Rightarrow> time \<Rightarrow> uuid \<Rightarrow> uuid \<Rightarrow> uuid \<Rightarrow> AccessMethod \<Rightarrow> uuid option \<Rightarrow> string list \<Rightarrow> string list
    \<Rightarrow> bool \<Rightarrow> db \<Rightarrow> pg_error + CloudflareDomainAccess option \<times> db" where
  "createPendingDomainAccess gen now accountId zoneId routeId accessMethod connectorId publicIpv4 publicIpv6 proxied d =
     (case domain_source accountId zoneId routeId accessMethod connectorId d of
        None \<Rightarrow> Inr (None, d)
      | Some (z, a, r, c) \<Rightarrow>
          let (i, d) = draw gen d;
              row = \<lparr>dom_id = i, dom_cloudflare_zone_id = zon_id z, dom_cloudflare_account_id = acc_id a,
                dom_connector_id = map_option con_id c, dom_route_id = rte_id r, dom_hostname = rte_hostname r,
                dom_access_method = accessMethod, dom_public_ipv4 = publicIpv4, dom_public_ipv6 = publicIpv6,
                dom_dns_record_id = None, dom_enabled = True, dom_revision = 1, dom_proxied = proxied,
                dom_status = DomPending, dom_last_error = None, dom_last_reconciled_at = None,
                dom_tls_status = TlsNotObserved, dom_tls_issuer = None, dom_tls_valid_to = None,
                dom_tls_observed_at = None, dom_tls_error = None,
                dom_deployed_account_identifier = acc_account_identifier a,
                dom_deployed_zone_identifier = zon_zone_identifier z,
                dom_deployed_tunnel_id = Option.bind c con_tunnel_id, dom_created_at = now, dom_updated_at = now\<rparr>
          in if \<not> domain_checks row then Inl CheckViolation
             else if exists_row (\<lambda>h. dom_route_id h = rte_id r \<or> lower (dom_hostname h) = lower (rte_hostname r)) (domains d)
             then Inr (None, d)
             else
               let d = d\<lparr>domains := domains d @ [row]\<rparr>
               in Inr (getDomainAccess i d, d))"

definition pending_domain :: "time \<Rightarrow> bool option \<Rightarrow> domain_row \<Rightarrow> domain_row" where
  "pending_domain now enabled h = h\<lparr>dom_enabled := coalesce enabled (dom_enabled h),
     dom_revision := dom_revision h + 1, dom_status := DomPending, dom_last_error := None, dom_updated_at := now\<rparr>"

definition setDomainAccessPending :: "time \<Rightarrow> uuid \<Rightarrow> bool option \<Rightarrow> db \<Rightarrow> CloudflareDomainAccess option \<times> db" where
  "setDomainAccessPending now i enabled d =
     (let d = d\<lparr>domains := update_rows (\<lambda>h. dom_id h = i) (pending_domain now enabled) (domains d)\<rparr>
      in (getDomainAccess i d, d))"

section \<open>What reconciliation writes back\<close>

definition at_revision :: "uuid \<Rightarrow> int \<Rightarrow> domain_row \<Rightarrow> bool" where
  "at_revision i revision h \<longleftrightarrow> dom_id h = i \<and> dom_revision h = revision"

definition ownership_marker :: "uuid \<Rightarrow> string" where
  "ownership_marker i = ''gateway-control:domain-access:'' @ i"

definition saveDomainAccessDnsRecord ::
  "time \<Rightarrow> uuid \<Rightarrow> int \<Rightarrow> RecordType \<Rightarrow> string \<Rightarrow> string \<Rightarrow> string \<Rightarrow> db
    \<Rightarrow> pg_error + CloudflareDomainAccess option \<times> db" where
  "saveDomainAccessDnsRecord now i revision type content cloudflareRecordId marker d =
     (if \<not> exists_row (at_revision i revision) (domains d) then Inr (None, d)
      else if marker \<noteq> ownership_marker i then Inl CheckViolation
      else if exists_row (\<lambda>r. dns_domain_access_id r = i \<and> dns_cloudflare_record_id r = cloudflareRecordId) (dns_records d)
      then
        let d = d\<lparr>dns_records := update_rows
              (\<lambda>r. dns_domain_access_id r = i \<and> dns_cloudflare_record_id r = cloudflareRecordId)
              (\<lambda>r. r\<lparr>dns_record_type := type, dns_content := content, dns_ownership_marker := marker,
                    dns_status := RecActive, dns_last_error := None\<rparr>) (dns_records d)\<rparr>
        in Inr (getDomainAccess i d, d)
      else if exists_row (\<lambda>r. dns_cloudflare_record_id r = cloudflareRecordId) (dns_records d)
      then Inl UniqueViolation
      else
        let d = d\<lparr>dns_records := dns_records d @ [\<lparr>dns_domain_access_id = i, dns_record_type = type,
              dns_content = content, dns_cloudflare_record_id = cloudflareRecordId, dns_ownership_marker = marker,
              dns_status = RecActive, dns_last_error = None, dns_created_at = now\<rparr>]\<rparr>
        in Inr (getDomainAccess i d, d))"

text \<open>\<open>deleted\<close> or \<open>cleanup_pending\<close>, the two statuses the caller may ask for.\<close>

definition markDomainAccessDnsRecordStatus ::
  "uuid \<Rightarrow> int \<Rightarrow> string \<Rightarrow> RecordStatus \<Rightarrow> string option \<Rightarrow> db \<Rightarrow> bool \<times> db" where
  "markDomainAccessDnsRecordStatus i revision cloudflareRecordId status lastError d =
     (let P = (\<lambda>r. dns_domain_access_id r = i \<and> dns_cloudflare_record_id r = cloudflareRecordId
                \<and> exists_row (at_revision i revision) (domains d));
          err = (if status = RecCleanupPending
                 then Some (case lastError of None \<Rightarrow> ''Cloudflare DNS cleanup failed.'' | Some e \<Rightarrow> take 500 e)
                 else None)
      in (count_rows P (dns_records d) = 1,
          d\<lparr>dns_records := update_rows P (\<lambda>r. r\<lparr>dns_status := status, dns_last_error := err\<rparr>) (dns_records d)\<rparr>))"

definition active_cname :: "uuid \<Rightarrow> db \<Rightarrow> string option" where
  "active_cname i d = map_option dns_cloudflare_record_id
     (find (\<lambda>_. True) (sort_key dns_created_at
        (filter (\<lambda>r. dns_domain_access_id r = i \<and> dns_record_type r = RecCNAME \<and> dns_status r = RecActive) (dns_records d))))"

definition outcome_domain :: "time \<Rightarrow> DomainStatus \<Rightarrow> string option \<Rightarrow> string option \<Rightarrow> domain_row \<Rightarrow> domain_row" where
  "outcome_domain now status lastError cname h = h\<lparr>dom_status := status, dom_last_error := lastError,
     dom_last_reconciled_at := Some now, dom_updated_at := now, dom_dns_record_id := cname\<rparr>"

definition markDomainAccessOutcome ::
  "time \<Rightarrow> uuid \<Rightarrow> int \<Rightarrow> DomainStatus \<Rightarrow> string option \<Rightarrow> db \<Rightarrow> pg_error + CloudflareDomainAccess option \<times> db" where
  "markDomainAccessOutcome now i revision status lastError d =
     (let f = outcome_domain now status lastError (active_cname i d)
      in case find (at_revision i revision) (domains d) of
           None \<Rightarrow> Inr (None, d)
         | Some h \<Rightarrow>
             if \<not> domain_checks (f h) then Inl CheckViolation
             else
               let d = d\<lparr>domains := update_rows (at_revision i revision) f (domains d)\<rparr>
               in Inr (getDomainAccess i d, d))"

end
