(* ===== verification/Gw_Commands.thy ===== *)
theory Gw_Commands
  imports Gw_Domain
begin

text \<open>
  The life of an agent command: an agent claims commands under a lease, reports their outcome
  once, and a command nobody completes in time is failed together with the operation it stands
  for. Completing a command moves the operation behind it (connector, stack, route, backup,
  restore, runtime action, log request, deployment run) and records the events.
\<close>

section \<open>Claiming\<close>

definition claimable_command :: "time \<Rightarrow> uuid \<Rightarrow> command_row \<Rightarrow> bool" where
  "claimable_command now agentId c \<longleftrightarrow> cmd_agent_id c = agentId
     \<and> (cmd_status c = CmdPending
        \<or> cmd_status c = CmdClaimed \<and> (case cmd_lease_expires_at c of None \<Rightarrow> False | Some t \<Rightarrow> t \<le> now))"

definition long_running :: "string \<Rightarrow> bool" where
  "long_running type \<longleftrightarrow> type \<in> {''stack.backup.create'', ''stack.restore.apply'', ''deployment.compose.apply''}"

definition claimed_command :: "time \<Rightarrow> command_row \<Rightarrow> command_row" where
  "claimed_command now c = c\<lparr>cmd_status := CmdClaimed, cmd_claimed_at := Some now,
     cmd_lease_expires_at := Some (now + (if long_running (cmd_type c) then 2 * 3600000 else 10 * 60000)),
     cmd_attempts := cmd_attempts c + 1\<rparr>"

definition selected_commands :: "time \<Rightarrow> uuid \<Rightarrow> nat \<Rightarrow> db \<Rightarrow> uuid list" where
  "selected_commands now agentId limit d =
     map cmd_id (take limit (sort_key cmd_created_at (filter (claimable_command now agentId) (commands d))))"

definition payload_id :: "command_row \<Rightarrow> string \<Rightarrow> uuid option" where
  "payload_id c key = as_string (jprop (cmd_payload c) key)"

definition payload_revision :: "command_row \<Rightarrow> int option" where
  "payload_revision c = as_number (jprop (cmd_payload c) ''revision'')"

text \<open>The columns a claim writes on the operation behind a command.\<close>

definition start_backup :: "time \<Rightarrow> backup_row \<Rightarrow> backup_row" where
  "start_backup now r = r\<lparr>bkp_status := OpRunning, bkp_started_at := Some (coalesce (bkp_started_at r) now), bkp_updated_at := now\<rparr>"

definition start_restore :: "time \<Rightarrow> restore_row \<Rightarrow> restore_row" where
  "start_restore now r = r\<lparr>rst_status := OpRunning, rst_started_at := Some (coalesce (rst_started_at r) now), rst_updated_at := now\<rparr>"

definition start_runtime_op :: "time \<Rightarrow> runtime_op_row \<Rightarrow> runtime_op_row" where
  "start_runtime_op now r = r\<lparr>rop_status := OpRunning, rop_started_at := Some (coalesce (rop_started_at r) now), rop_updated_at := now\<rparr>"

definition start_log_request :: "time \<Rightarrow> log_request_row \<Rightarrow> log_request_row" where
  "start_log_request now r = r\<lparr>lrq_status := OpRunning, lrq_started_at := Some (coalesce (lrq_started_at r) now), lrq_updated_at := now\<rparr>"

definition start_run :: "time \<Rightarrow> run_row \<Rightarrow> run_row" where
  "start_run now r = r\<lparr>run_status := OpRunning, run_started_at := Some (coalesce (run_started_at r) now), run_updated_at := now\<rparr>"

definition deploying_connector :: "time \<Rightarrow> connector_row \<Rightarrow> connector_row" where
  "deploying_connector now r = r\<lparr>con_deployment_status := (if con_enabled r then KDeploying else KStopping),
     con_last_error := None, con_updated_at := now\<rparr>"

definition start_operation :: "time \<Rightarrow> uuid \<Rightarrow> command_row \<Rightarrow> db \<Rightarrow> db" where
  "start_operation now agentId c d =
     (if cmd_type c = ''cloudflare.connector.sync''
      then (case (payload_id c ''connectorId'', payload_revision c) of
              (Some k, Some v) \<Rightarrow> d\<lparr>connectors := update_rows
                (\<lambda>r. con_id r = k \<and> con_agent_id r = agentId \<and> con_desired_revision r = v)
                (deploying_connector now) (connectors d)\<rparr>
            | _ \<Rightarrow> d)
      else if cmd_type c = ''stack.backup.create''
      then d\<lparr>backups := update_rows (\<lambda>r. Some (bkp_id r) = payload_id c ''backupId'' \<and> bkp_status r = OpPending)
             (start_backup now) (backups d)\<rparr>
      else if cmd_type c = ''stack.restore.apply''
      then d\<lparr>restores := update_rows (\<lambda>r. Some (rst_id r) = payload_id c ''restoreId'' \<and> rst_status r = OpPending)
             (start_restore now) (restores d)\<rparr>
      else if cmd_type c = ''compose.runtime.action''
      then d\<lparr>runtime_ops := update_rows (\<lambda>r. Some (rop_id r) = payload_id c ''operationId'' \<and> rop_agent_id r = agentId
               \<and> rop_status r = OpPending) (start_runtime_op now) (runtime_ops d)\<rparr>
      else if cmd_type c = ''compose.runtime.logs''
      then d\<lparr>log_requests := update_rows (\<lambda>r. Some (lrq_id r) = payload_id c ''requestId'' \<and> lrq_agent_id r = agentId
               \<and> lrq_status r = OpPending) (start_log_request now) (log_requests d)\<rparr>
      else if cmd_type c = ''deployment.compose.apply''
      then d\<lparr>runs := update_rows (\<lambda>r. Some (run_id r) = payload_id c ''runId'' \<and> run_agent_id r = agentId
               \<and> run_status r = OpPending) (start_run now) (runs d)\<rparr>
      else d)"

definition claimCommands :: "time \<Rightarrow> uuid \<Rightarrow> nat \<Rightarrow> db \<Rightarrow> AgentCommand list \<times> db" where
  "claimCommands now agentId limit d =
     (let d = d\<lparr>agents := update_rows (\<lambda>a. ag_id a = agentId \<and> ag_enabled a)
                (\<lambda>a. a\<lparr>ag_last_command_poll_at := Some now\<rparr>) (agents d)\<rparr>;
          P = (\<lambda>c. cmd_id c \<in> set (selected_commands now agentId limit d));
          claimed = returning P (claimed_command now) (commands d);
          d = d\<lparr>commands := update_rows P (claimed_command now) (commands d)\<rparr>
      in (map command claimed, fold (start_operation now agentId) claimed d))"

section \<open>Completing\<close>

datatype completion = Updated | Idempotent | Conflict | Missing | CompletionRaised

definition op_status_of :: "CommandStatus \<Rightarrow> OperationStatus" where
  "op_status_of s = (if s = CmdSucceeded then OpSucceeded else OpFailed)"

definition command_result :: "string \<Rightarrow> jobj \<Rightarrow> jobj" where
  "command_result type result =
     (if type = ''compose.runtime.logs''
      then [(''truncated'', JBool (jprop result ''truncated'' = Some (JBool True)))] else result)"

definition js_or :: "json option \<Rightarrow> json option \<Rightarrow> json option" where
  "js_or a b = (if truthy a then a else b)"

definition error_text :: "jobj \<Rightarrow> string \<Rightarrow> string" where
  "error_text result fallback = take 500 (js_String (js_or (jprop result ''error'') (Some (JStr fallback))))"

definition safeRuntimeResult :: "jobj \<Rightarrow> jobj" where
  "safeRuntimeResult result =
     List.map_filter (\<lambda>key. case jprop result key of
         Some (JNum n) \<Rightarrow> Some (key, JNum n)
       | Some (JStr s) \<Rightarrow> Some (key, JStr (take 500 s))
       | _ \<Rightarrow> None) [''matched'', ''succeeded'', ''failed'', ''message'']"

definition close_command :: "time \<Rightarrow> CommandStatus \<Rightarrow> jobj \<Rightarrow> command_row \<Rightarrow> command_row" where
  "close_command now status result c = c\<lparr>cmd_status := status, cmd_result := Some result,
     cmd_completed_at := Some now, cmd_lease_expires_at := None\<rparr>"

text \<open>
  Diagnostics are any value of type \<open>object\<close>. The driver writes an object as JSON but an array as a
  PostgreSQL array literal: \<open>[]\<close> is the text \<open>{}\<close>, an empty object to the \<open>jsonb\<close> column, and the
  literal of any other array is no JSON, so the statement fails and the completion is rolled back.
\<close>

definition unstorable_diagnostics :: "string \<Rightarrow> CommandStatus \<Rightarrow> jobj \<Rightarrow> bool" where
  "unstorable_diagnostics type status result \<longleftrightarrow> type = ''agent.diagnostics.run'' \<and> status = CmdSucceeded
     \<and> (case jprop result ''diagnostics'' of Some (JArr x) \<Rightarrow> x \<noteq> [] | _ \<Rightarrow> False)"

definition complete_agent :: "time \<Rightarrow> uuid \<Rightarrow> string \<Rightarrow> CommandStatus \<Rightarrow> jobj \<Rightarrow> db \<Rightarrow> db" where
  "complete_agent now agentId type status result d =
     (let d = d\<lparr>agents := update_rows (\<lambda>a. ag_id a = agentId) (\<lambda>a. a\<lparr>ag_last_command_result_at := Some now\<rparr>) (agents d)\<rparr>
      in if type = ''agent.diagnostics.run'' \<and> status = CmdSucceeded
         then (case jprop result ''diagnostics'' of
                 Some (JObj x) \<Rightarrow> d\<lparr>agents := update_rows (\<lambda>a. ag_id a = agentId)
                   (\<lambda>a. a\<lparr>ag_last_diagnostics := Some (JObj x)\<rparr>) (agents d)\<rparr>
               | Some (JArr x) \<Rightarrow> d\<lparr>agents := update_rows (\<lambda>a. ag_id a = agentId)
                   (\<lambda>a. a\<lparr>ag_last_diagnostics := Some (JObj [])\<rparr>) (agents d)\<rparr>
               | _ \<Rightarrow> d)
         else d)"

definition reported_runtime_status :: "CommandStatus \<Rightarrow> jobj \<Rightarrow> ConnectorRuntimeStatus" where
  "reported_runtime_status status result =
     (if status = CmdFailed then RtFailed
      else if jprop result ''runtimeStatus'' = Some (JStr ''origin_unhealthy'') then RtOriginUnhealthy
      else if jprop result ''runtimeStatus'' = Some (JStr ''stopped'') then RtStopped
      else if jprop result ''runtimeStatus'' = Some (JStr ''connected'') then RtConnected
      else RtReconnecting)"

definition connector_error :: "CommandStatus \<Rightarrow> jobj \<Rightarrow> string option" where
  "connector_error status result =
     (if status = CmdFailed
      then Some (take 1000 (js_String (js_or (jprop result ''error'')
             (js_or (jprop result ''stderr'') (Some (JStr ''Connector deployment failed.''))))))
      else map_option (take 1000) (as_string (jprop result ''message'')))"

definition completed_connector :: "time \<Rightarrow> CommandStatus \<Rightarrow> jobj \<Rightarrow> connector_row \<Rightarrow> connector_row" where
  "completed_connector now status result r =
     (let rt = reported_runtime_status status result
      in r\<lparr>con_deployment_status := (if status = CmdSucceeded then if rt = RtStopped then KStopped else KActive else KFailed),
           con_runtime_status := rt, con_last_error := connector_error status result,
           con_last_deployed_at := Some now, con_last_observed_at := Some now, con_updated_at := now\<rparr>)"

definition complete_connector :: "time \<Rightarrow> uuid \<Rightarrow> command_row \<Rightarrow> CommandStatus \<Rightarrow> jobj \<Rightarrow> db \<Rightarrow> db" where
  "complete_connector now agentId c status result d =
     (if cmd_type c = ''cloudflare.connector.sync''
      then (case (payload_id c ''connectorId'', payload_revision c) of
              (Some k, Some v) \<Rightarrow> d\<lparr>connectors := update_rows
                (\<lambda>r. con_id r = k \<and> con_agent_id r = agentId \<and> con_desired_revision r = v)
                (completed_connector now status result) (connectors d)\<rparr>
            | _ \<Rightarrow> d)
      else d)"

text \<open>A later change of the stack or route is still queued: its status stays pending.\<close>

definition later_sync :: "string \<Rightarrow> string \<Rightarrow> uuid \<Rightarrow> db \<Rightarrow> bool" where
  "later_sync type key i d = exists_row (\<lambda>c. cmd_type c = type \<and> cmd_status c = CmdPending
     \<and> json_text (jprop (cmd_payload c) key) = Some i) (commands d)"

definition complete_stack :: "time \<Rightarrow> uuid \<Rightarrow> command_row \<Rightarrow> CommandStatus \<Rightarrow> db \<Rightarrow> db" where
  "complete_stack now agentId c status d =
     (if cmd_type c = ''compose.stack.sync''
      then (case payload_id c ''stackId'' of
              None \<Rightarrow> d
            | Some i \<Rightarrow> d\<lparr>stacks := update_rows
                (\<lambda>r. stk_id r = i \<and> stk_agent_id r = agentId \<and> \<not> later_sync ''compose.stack.sync'' ''stackId'' i d)
                (\<lambda>r. r\<lparr>stk_status := (if status = CmdSucceeded then DepActive else DepFailed), stk_updated_at := now\<rparr>)
                (stacks d)\<rparr>)
      else d)"

definition complete_route :: "time \<Rightarrow> uuid \<Rightarrow> command_row \<Rightarrow> CommandStatus \<Rightarrow> db \<Rightarrow> db" where
  "complete_route now agentId c status d =
     (if cmd_type c = ''traefik.route.sync''
      then (case payload_id c ''routeId'' of
              None \<Rightarrow> d
            | Some i \<Rightarrow> d\<lparr>routes := update_rows
                (\<lambda>r. rte_id r = i \<and> rte_gateway_agent_id r = agentId \<and> \<not> later_sync ''traefik.route.sync'' ''routeId'' i d)
                (\<lambda>r. r\<lparr>rte_status := (if status = CmdSucceeded then DepActive else DepFailed), rte_updated_at := now\<rparr>)
                (routes d)\<rparr>)
      else d)"

definition stack_project :: "uuid \<Rightarrow> db \<Rightarrow> string option" where
  "stack_project i d = map_option stk_project_name (find (\<lambda>s. stk_id s = i) (stacks d))"

definition sync_failure_values :: "uuid \<Rightarrow> command_row \<Rightarrow> db \<Rightarrow> event_values" where
  "sync_failure_values agentId c d =
     (let project = (if cmd_type c = ''compose.stack.sync''
            then (case payload_id c ''stackId'' of
                    None \<Rightarrow> None
                  | Some i \<Rightarrow> map_option stk_project_name (find (\<lambda>s. stk_id s = i \<and> stk_agent_id s = agentId) (stacks d)))
            else None)
      in no_scope\<lparr>ev_agentId := Some agentId,
           ev_projectName := (if coalesce project [] = [] then None else project),
           ev_payload := [(''commandId'', JStr (cmd_id c)), (''commandType'', JStr (cmd_type c))]\<rparr>)"

definition report_sync_failure :: "(nat \<Rightarrow> uuid) \<Rightarrow> time \<Rightarrow> uuid \<Rightarrow> command_row \<Rightarrow> CommandStatus \<Rightarrow> db \<Rightarrow> db" where
  "report_sync_failure gen now agentId c status d =
     (if status = CmdFailed \<and> cmd_type c \<in> {''compose.stack.sync'', ''traefik.route.sync'', ''cloudflare.connector.sync''}
      then enqueueEvent gen now DeploymentFailed (sync_failure_values agentId c d) d else d)"

definition completed_backup :: "time \<Rightarrow> CommandStatus \<Rightarrow> jobj \<Rightarrow> backup_row \<Rightarrow> backup_row" where
  "completed_backup now status result r = r\<lparr>bkp_status := op_status_of status, bkp_result := Some result,
     bkp_completed_at := Some now, bkp_updated_at := now\<rparr>"

definition complete_backup :: "(nat \<Rightarrow> uuid) \<Rightarrow> time \<Rightarrow> uuid \<Rightarrow> command_row \<Rightarrow> CommandStatus \<Rightarrow> jobj \<Rightarrow> db \<Rightarrow> db" where
  "complete_backup gen now agentId c status result d =
     (case (cmd_type c = ''stack.backup.create'', payload_id c ''backupId'') of
        (True, Some i) \<Rightarrow>
          let P = (\<lambda>r. bkp_id r = i \<and> bkp_agent_id r = agentId);
              d' = d\<lparr>backups := update_rows P (completed_backup now status result) (backups d)\<rparr>
          in (case find P (backups d) of
                None \<Rightarrow> d'
              | Some r \<Rightarrow> enqueueEvent gen now (if status = CmdSucceeded then BackupSucceeded else BackupFailed)
                  (no_scope\<lparr>ev_agentId := Some agentId, ev_stackId := Some (bkp_stack_id r),
                     ev_projectName := stack_project (bkp_stack_id r) d',
                     ev_payload := [(''backupId'', JStr i)]\<rparr>) d')
      | _ \<Rightarrow> d)"

definition completed_restore :: "time \<Rightarrow> CommandStatus \<Rightarrow> jobj \<Rightarrow> restore_row \<Rightarrow> restore_row" where
  "completed_restore now status result r = r\<lparr>rst_status := op_status_of status, rst_result := Some result,
     rst_completed_at := Some now, rst_updated_at := now\<rparr>"

definition restore_payload :: "uuid \<Rightarrow> uuid \<Rightarrow> jobj" where
  "restore_payload restoreId backupId =
     [(''restoreId'', JStr restoreId), (''backupId'', JStr backupId), (''operation'', JStr ''restore'')]"

definition complete_restore :: "(nat \<Rightarrow> uuid) \<Rightarrow> time \<Rightarrow> uuid \<Rightarrow> command_row \<Rightarrow> CommandStatus \<Rightarrow> jobj \<Rightarrow> db \<Rightarrow> db" where
  "complete_restore gen now agentId c status result d =
     (case (cmd_type c = ''stack.restore.apply'', payload_id c ''restoreId'') of
        (True, Some i) \<Rightarrow>
          let P = (\<lambda>r. rst_id r = i \<and> rst_agent_id r = agentId);
              d' = d\<lparr>restores := update_rows P (completed_restore now status result) (restores d)\<rparr>
          in (case find P (restores d) of
                None \<Rightarrow> d'
              | Some r \<Rightarrow>
                  if status = CmdFailed
                  then enqueueEvent gen now BackupFailed
                    (no_scope\<lparr>ev_agentId := Some agentId, ev_stackId := Some (rst_stack_id r),
                       ev_projectName := stack_project (rst_stack_id r) d',
                       ev_payload := restore_payload i (rst_backup_id r)\<rparr>) d'
                  else d')
      | _ \<Rightarrow> d)"

definition action_text :: "RuntimeAction \<Rightarrow> string" where
  "action_text a = (case a of ActStart \<Rightarrow> ''start'' | ActStop \<Rightarrow> ''stop'' | ActRestart \<Rightarrow> ''restart'')"

definition scope_text :: "RuntimeScope \<Rightarrow> string" where
  "scope_text s = (case s of ScopeProject \<Rightarrow> ''project'' | ScopeService \<Rightarrow> ''service'')"

definition run_action_text :: "RunAction \<Rightarrow> string" where
  "run_action_text a = (case a of Deploy \<Rightarrow> ''deploy'' | Rollback \<Rightarrow> ''rollback'' | StopRun \<Rightarrow> ''stop'')"

definition runtime_event_values :: "uuid \<Rightarrow> runtime_op_row \<Rightarrow> event_values" where
  "runtime_event_values agentId r = no_scope\<lparr>ev_agentId := Some agentId, ev_projectName := Some (rop_project_name r),
     ev_serviceName := rop_service_name r,
     ev_payload := [(''action'', JStr (action_text (rop_action r))), (''scope'', JStr (scope_text (rop_scope r)))]\<rparr>"

definition completed_runtime_op :: "time \<Rightarrow> CommandStatus \<Rightarrow> jobj \<Rightarrow> runtime_op_row \<Rightarrow> runtime_op_row" where
  "completed_runtime_op now status result r = r\<lparr>rop_status := op_status_of status, rop_result := Some (safeRuntimeResult result),
     rop_error := (if status = CmdFailed then Some (error_text result ''Runtime action failed.'') else None),
     rop_completed_at := Some now, rop_updated_at := now\<rparr>"

definition complete_runtime_op :: "(nat \<Rightarrow> uuid) \<Rightarrow> time \<Rightarrow> uuid \<Rightarrow> command_row \<Rightarrow> CommandStatus \<Rightarrow> jobj \<Rightarrow> db \<Rightarrow> db" where
  "complete_runtime_op gen now agentId c status result d =
     (case (cmd_type c = ''compose.runtime.action'', payload_id c ''operationId'') of
        (True, Some i) \<Rightarrow>
          let P = (\<lambda>r. rop_id r = i \<and> rop_agent_id r = agentId \<and> live_op (rop_status r));
              d' = d\<lparr>runtime_ops := update_rows P (completed_runtime_op now status result) (runtime_ops d)\<rparr>
          in (case find P (runtime_ops d) of
                None \<Rightarrow> d'
              | Some r \<Rightarrow> enqueueEvent gen now
                  (if status = CmdSucceeded then RuntimeActionSucceeded else RuntimeActionFailed)
                  (runtime_event_values agentId r) d')
      | _ \<Rightarrow> d)"

definition completed_log_request :: "time \<Rightarrow> CommandStatus \<Rightarrow> jobj \<Rightarrow> log_request_row \<Rightarrow> log_request_row" where
  "completed_log_request now status result r =
     (let logs = (case as_string (jprop result ''logs'') of None \<Rightarrow> [] | Some s \<Rightarrow> take 262144 s)
      in r\<lparr>lrq_status := op_status_of status,
           lrq_result := (if status = CmdSucceeded
             then Some [(''logs'', JStr logs), (''truncated'', JBool (jprop result ''truncated'' = Some (JBool True)))] else None),
           lrq_error := (if status = CmdFailed then Some (error_text result ''Runtime log request failed.'') else None),
           lrq_completed_at := Some now, lrq_updated_at := now\<rparr>)"

definition complete_log_request :: "time \<Rightarrow> uuid \<Rightarrow> command_row \<Rightarrow> CommandStatus \<Rightarrow> jobj \<Rightarrow> db \<Rightarrow> db" where
  "complete_log_request now agentId c status result d =
     (case (cmd_type c = ''compose.runtime.logs'', payload_id c ''requestId'') of
        (True, Some i) \<Rightarrow> d\<lparr>log_requests := update_rows
            (\<lambda>r. lrq_id r = i \<and> lrq_agent_id r = agentId \<and> live_op (lrq_status r))
            (completed_log_request now status result) (log_requests d)\<rparr>
      | _ \<Rightarrow> d)"

definition completed_run :: "time \<Rightarrow> CommandStatus \<Rightarrow> jobj \<Rightarrow> run_row \<Rightarrow> run_row" where
  "completed_run now status result r = r\<lparr>run_status := op_status_of status, run_result := Some (safeRuntimeResult result),
     run_error := (if status = CmdFailed then Some (error_text result ''Deployment failed.'') else None),
     run_completed_at := Some now, run_updated_at := now\<rparr>"

definition completed_deployment :: "time \<Rightarrow> CommandStatus \<Rightarrow> run_row \<Rightarrow> deployment_row \<Rightarrow> deployment_row" where
  "completed_deployment now status r t =
     t\<lparr>dpl_status := (if status = CmdSucceeded then if run_action r = StopRun then DsStopped else DsActive else DsFailed),
       dpl_current_revision_id := (if status = CmdSucceeded \<and> run_action r \<noteq> StopRun
         then Some (run_revision_id r) else dpl_current_revision_id t),
       dpl_updated_at := now\<rparr>"

definition deployment_event_values :: "uuid \<Rightarrow> run_row \<Rightarrow> string option \<Rightarrow> event_values" where
  "deployment_event_values agentId r project = no_scope\<lparr>ev_agentId := Some agentId, ev_projectName := project,
     ev_payload := [(''deploymentId'', JStr (run_deployment_id r)), (''runId'', JStr (run_id r)),
                    (''action'', JStr (run_action_text (run_action r)))]\<rparr>"

definition complete_run :: "(nat \<Rightarrow> uuid) \<Rightarrow> time \<Rightarrow> uuid \<Rightarrow> command_row \<Rightarrow> CommandStatus \<Rightarrow> jobj \<Rightarrow> db \<Rightarrow> db" where
  "complete_run gen now agentId c status result d =
     (case (cmd_type c = ''deployment.compose.apply'', payload_id c ''runId'') of
        (True, Some i) \<Rightarrow>
          let P = (\<lambda>r. run_id r = i \<and> run_agent_id r = agentId \<and> live_op (run_status r));
              d' = d\<lparr>runs := update_rows P (completed_run now status result) (runs d)\<rparr>
          in (case find P (runs d) of
                None \<Rightarrow> d'
              | Some r \<Rightarrow>
                  let Q = (\<lambda>t. dpl_id t = run_deployment_id r \<and> dpl_agent_id t = agentId);
                      d'' = d'\<lparr>deployments := update_rows Q (completed_deployment now status r) (deployments d')\<rparr>
                  in enqueueEvent gen now (if status = CmdSucceeded then DeploymentSucceeded else DeploymentFailed)
                       (deployment_event_values agentId r (map_option dpl_project_name (find Q (deployments d')))) d'')
      | _ \<Rightarrow> d)"

definition completeCommand ::
  "(nat \<Rightarrow> uuid) \<Rightarrow> time \<Rightarrow> uuid \<Rightarrow> uuid \<Rightarrow> CommandStatus \<Rightarrow> jobj \<Rightarrow> db \<Rightarrow> completion \<times> db" where
  "completeCommand gen now agentId commandId status result d =
     (case find (\<lambda>c. cmd_id c = commandId \<and> cmd_agent_id c = agentId) (commands d) of
        None \<Rightarrow> (Missing, d)
      | Some c \<Rightarrow>
          let commandResult = command_result (cmd_type c) result
          in if cmd_status c = status
                \<and> (case cmd_result c of None \<Rightarrow> False | Some r \<Rightarrow> jsonb_eq (JObj r) (JObj commandResult))
             then (Idempotent, d)
             else if cmd_status c \<noteq> CmdClaimed then (Conflict, d)
             else if unstorable_diagnostics (cmd_type c) status result then (CompletionRaised, d)
             else
               let d = d\<lparr>commands := update_rows (\<lambda>r. cmd_id r = commandId \<and> cmd_agent_id r = agentId)
                          (close_command now status commandResult) (commands d)\<rparr>;
                   d = complete_agent now agentId (cmd_type c) status result d;
                   d = complete_connector now agentId c status result d;
                   d = complete_stack now agentId c status d;
                   d = complete_route now agentId c status d;
                   d = report_sync_failure gen now agentId c status d;
                   d = complete_backup gen now agentId c status result d;
                   d = complete_restore gen now agentId c status result d;
                   d = complete_runtime_op gen now agentId c status result d;
                   d = complete_log_request now agentId c status result d;
                   d = complete_run gen now agentId c status result d
               in (Updated, d))"

end
