(* ===== verification/Gw_Stale.thy ===== *)
theory Gw_Stale
  imports Gw_Commands
begin

text \<open>
  The two maintenance passes over the commands: failing those nobody completed within the
  completion window, together with the operations behind them, and dropping the logs of old
  requests.
\<close>

section \<open>Failing stale commands\<close>

definition stale_error :: string where
  "stale_error = ''The operation exceeded the 24-hour completion window.''"

definition stale_result :: jobj where
  "stale_result = [(''error'', JStr stale_error)]"

definition operation_type :: "string \<Rightarrow> bool" where
  "operation_type type \<longleftrightarrow> type \<in> {''stack.backup.create'', ''stack.restore.apply'', ''compose.runtime.action'',
     ''compose.runtime.logs'', ''deployment.compose.apply''}"

definition live_command :: "command_row \<Rightarrow> bool" where
  "live_command c \<longleftrightarrow> cmd_status c = CmdPending \<or> cmd_status c = CmdClaimed"

definition stale_command :: "time \<Rightarrow> time \<Rightarrow> command_row \<Rightarrow> bool" where
  "stale_command now staleBefore c \<longleftrightarrow> live_command c
     \<and> (operation_type (cmd_type c) \<and> cmd_created_at c < staleBefore
        \<or> cmd_type c \<in> {''cloudflare.connector.sync'', ''cloudflare.connector.remove''}
          \<and> cmd_created_at c < now - 30 * 60000)"

definition stale_connector :: "time \<Rightarrow> connector_row \<Rightarrow> connector_row" where
  "stale_connector now r = r\<lparr>con_deployment_status := KFailed, con_last_error := Some stale_error, con_updated_at := now\<rparr>"

definition stale_backup :: "time \<Rightarrow> backup_row \<Rightarrow> backup_row" where
  "stale_backup now r = r\<lparr>bkp_status := OpFailed, bkp_result := Some stale_result, bkp_completed_at := Some now, bkp_updated_at := now\<rparr>"

definition stale_restore :: "time \<Rightarrow> restore_row \<Rightarrow> restore_row" where
  "stale_restore now r = r\<lparr>rst_status := OpFailed, rst_result := Some stale_result, rst_completed_at := Some now, rst_updated_at := now\<rparr>"

definition stale_runtime_op :: "time \<Rightarrow> runtime_op_row \<Rightarrow> runtime_op_row" where
  "stale_runtime_op now r = r\<lparr>rop_status := OpFailed, rop_result := Some stale_result, rop_error := Some stale_error,
     rop_completed_at := Some now, rop_updated_at := now\<rparr>"

definition stale_log_request :: "time \<Rightarrow> log_request_row \<Rightarrow> log_request_row" where
  "stale_log_request now r = r\<lparr>lrq_status := OpFailed, lrq_result := Some stale_result, lrq_error := Some stale_error,
     lrq_completed_at := Some now, lrq_updated_at := now\<rparr>"

definition stale_run :: "time \<Rightarrow> run_row \<Rightarrow> run_row" where
  "stale_run now r = r\<lparr>run_status := OpFailed, run_result := Some stale_result, run_error := Some stale_error,
     run_completed_at := Some now, run_updated_at := now\<rparr>"

definition fail_connector :: "time \<Rightarrow> command_row \<Rightarrow> db \<Rightarrow> db" where
  "fail_connector now c d =
     (if cmd_type c = ''cloudflare.connector.sync''
      then d\<lparr>connectors := update_rows (\<lambda>r. Some (con_id r) = payload_id c ''connectorId'' \<and> con_agent_id r = cmd_agent_id c
               \<and> Some (con_desired_revision r) = payload_revision c) (stale_connector now) (connectors d)\<rparr>
      else d)"

definition fail_backup :: "(nat \<Rightarrow> uuid) \<Rightarrow> time \<Rightarrow> command_row \<Rightarrow> db \<Rightarrow> db" where
  "fail_backup gen now c d =
     (if cmd_type c = ''stack.backup.create''
      then
        let P = (\<lambda>r. bkp_command_id r = cmd_id c \<and> live_op (bkp_status r) \<and> stack_project (bkp_stack_id r) d \<noteq> None);
            d' = d\<lparr>backups := update_rows P (stale_backup now) (backups d)\<rparr>
        in (case find P (backups d) of
              None \<Rightarrow> d'
            | Some r \<Rightarrow> enqueueEvent gen now BackupFailed
                (no_scope\<lparr>ev_agentId := Some (cmd_agent_id c), ev_stackId := Some (bkp_stack_id r),
                   ev_projectName := stack_project (bkp_stack_id r) d,
                   ev_payload := [(''backupId'', JStr (bkp_id r)), (''operation'', JStr ''backup''), (''reason'', JStr ''stale'')]\<rparr>) d')
      else d)"

definition fail_restore :: "(nat \<Rightarrow> uuid) \<Rightarrow> time \<Rightarrow> command_row \<Rightarrow> db \<Rightarrow> db" where
  "fail_restore gen now c d =
     (if cmd_type c = ''stack.restore.apply''
      then
        let P = (\<lambda>r. rst_command_id r = cmd_id c \<and> live_op (rst_status r) \<and> stack_project (rst_stack_id r) d \<noteq> None);
            d' = d\<lparr>restores := update_rows P (stale_restore now) (restores d)\<rparr>
        in (case find P (restores d) of
              None \<Rightarrow> d'
            | Some r \<Rightarrow> enqueueEvent gen now BackupFailed
                (no_scope\<lparr>ev_agentId := Some (cmd_agent_id c), ev_stackId := Some (rst_stack_id r),
                   ev_projectName := stack_project (rst_stack_id r) d,
                   ev_payload := restore_payload (rst_id r) (rst_backup_id r) @ [(''reason'', JStr ''stale'')]\<rparr>) d')
      else d)"

definition fail_runtime_op :: "(nat \<Rightarrow> uuid) \<Rightarrow> time \<Rightarrow> command_row \<Rightarrow> db \<Rightarrow> db" where
  "fail_runtime_op gen now c d =
     (if cmd_type c = ''compose.runtime.action''
      then
        let P = (\<lambda>r. rop_command_id r = Some (cmd_id c) \<and> live_op (rop_status r));
            d' = d\<lparr>runtime_ops := update_rows P (stale_runtime_op now) (runtime_ops d)\<rparr>
        in (case find P (runtime_ops d) of
              None \<Rightarrow> d'
            | Some r \<Rightarrow> enqueueEvent gen now RuntimeActionFailed (runtime_event_values (cmd_agent_id c) r) d')
      else d)"

definition fail_log_request :: "time \<Rightarrow> command_row \<Rightarrow> db \<Rightarrow> db" where
  "fail_log_request now c d =
     (if cmd_type c = ''compose.runtime.logs''
      then d\<lparr>log_requests := update_rows (\<lambda>r. lrq_command_id r = Some (cmd_id c) \<and> live_op (lrq_status r))
             (stale_log_request now) (log_requests d)\<rparr>
      else d)"

definition fail_run :: "time \<Rightarrow> command_row \<Rightarrow> db \<Rightarrow> db" where
  "fail_run now c d =
     (if cmd_type c = ''deployment.compose.apply''
      then
        let P = (\<lambda>r. run_command_id r = cmd_id c \<and> live_op (run_status r));
            d' = d\<lparr>runs := update_rows P (stale_run now) (runs d)\<rparr>
        in (case find P (runs d) of
              None \<Rightarrow> d'
            | Some r \<Rightarrow> d'\<lparr>deployments := update_rows (\<lambda>t. dpl_id t = run_deployment_id r)
                (\<lambda>t. t\<lparr>dpl_status := DsFailed, dpl_updated_at := now\<rparr>) (deployments d')\<rparr>)
      else d)"

definition fail_operation :: "(nat \<Rightarrow> uuid) \<Rightarrow> time \<Rightarrow> command_row \<Rightarrow> db \<Rightarrow> db" where
  "fail_operation gen now c d =
     (let d = fail_connector now c d;
          d = fail_backup gen now c d;
          d = fail_restore gen now c d;
          d = fail_runtime_op gen now c d;
          d = fail_log_request now c d
      in fail_run now c d)"

definition failStaleCommands :: "(nat \<Rightarrow> uuid) \<Rightarrow> time \<Rightarrow> time \<Rightarrow> db \<Rightarrow> nat \<times> db" where
  "failStaleCommands gen now staleBefore d =
     (let P = stale_command now staleBefore;
          rows = returning P (close_command now CmdFailed stale_result) (commands d);
          d = d\<lparr>commands := update_rows P (close_command now CmdFailed stale_result) (commands d)\<rparr>
      in (length rows, fold (fail_operation gen now) rows d))"

section \<open>Retention of logs\<close>

definition expired_logs :: "time \<Rightarrow> log_request_row \<Rightarrow> bool" where
  "expired_logs before r \<longleftrightarrow> lrq_result r \<noteq> None \<and> (case lrq_completed_at r of None \<Rightarrow> False | Some t \<Rightarrow> t < before)"

definition without_key :: "string \<Rightarrow> jobj \<Rightarrow> jobj" where
  "without_key key kvs = filter (\<lambda>kv. fst kv \<noteq> key) kvs"

definition purgeRuntimeLogResults :: "time \<Rightarrow> time \<Rightarrow> db \<Rightarrow> nat \<times> db" where
  "purgeRuntimeLogResults now completedBefore d =
     (let P = expired_logs completedBefore;
          commandIds = List.map_filter lrq_command_id (filter P (log_requests d));
          d' = d\<lparr>log_requests := update_rows P (\<lambda>r. r\<lparr>lrq_result := None, lrq_updated_at := now\<rparr>) (log_requests d)\<rparr>
      in (count_rows P (log_requests d),
          if commandIds \<noteq> []
          then d'\<lparr>commands := update_rows (\<lambda>c. cmd_id c \<in> set commandIds \<and> cmd_type c = ''compose.runtime.logs'')
                 (\<lambda>c. c\<lparr>cmd_result := Some (without_key ''logs'' (coalesce (cmd_result c) []))\<rparr>) (commands d')\<rparr>
          else d'))"

end
