(* ===== verification/Gw_Recovery.thy ===== *)
theory Gw_Recovery
  imports Gw_Stale
begin

text \<open>
  The records of system recovery: backups of the control plane, imports of backups made
  elsewhere, staged restores, and requests to apply one. One import and one recovery request
  are active at a time, and a record leaves each of its states once.
\<close>

section \<open>System backups\<close>

definition createSystemBackup ::
  "(nat \<Rightarrow> uuid) \<Rightarrow> time \<Rightarrow> uuid \<Rightarrow> BackupTarget \<Rightarrow> string \<Rightarrow> db \<Rightarrow> StoredSystemBackup \<times> db" where
  "createSystemBackup gen now requestedByUserId target artifactPath d =
     (let (i, d) = draw gen d;
          row = \<lparr>sbk_id = i, sbk_requested_by_user_id = requestedByUserId, sbk_target = target,
            sbk_status = SbRunning, sbk_artifact_path = artifactPath, sbk_size_bytes = None, sbk_checksum = None,
            sbk_error = None, sbk_source = Created, sbk_metadata = [], sbk_created_at = now, sbk_completed_at = None\<rparr>
      in (systemBackup row, d\<lparr>system_backups := system_backups d @ [row]\<rparr>))"

definition running_backup :: "uuid \<Rightarrow> system_backup_row \<Rightarrow> bool" where
  "running_backup i r \<longleftrightarrow> sbk_id r = i \<and> sbk_status r = SbRunning"

text \<open>An update of no row leaves \<open>rows[0]\<close> undefined, and the mapper raises a \<open>TypeError\<close>.\<close>

definition settle_backup ::
  "uuid \<Rightarrow> (system_backup_row \<Rightarrow> system_backup_row) \<Rightarrow> db \<Rightarrow> pg_error + StoredSystemBackup \<times> db" where
  "settle_backup i f d =
     (case find (running_backup i) (system_backups d) of
        None \<Rightarrow> Inl (JsError ''TypeError'')
      | Some r \<Rightarrow> Inr (systemBackup (f r),
          d\<lparr>system_backups := update_rows (running_backup i) f (system_backups d)\<rparr>))"

definition completeSystemBackup :: "time \<Rightarrow> uuid \<Rightarrow> int \<Rightarrow> string \<Rightarrow> db \<Rightarrow> pg_error + StoredSystemBackup \<times> db" where
  "completeSystemBackup now i sizeBytes checksum d =
     (if exists_row (running_backup i) (system_backups d) \<and> sizeBytes < 0 then Inl CheckViolation
      else settle_backup i (\<lambda>r. r\<lparr>sbk_status := SbSucceeded, sbk_size_bytes := Some sizeBytes,
             sbk_checksum := Some checksum, sbk_completed_at := Some now\<rparr>) d)"

definition failSystemBackup :: "time \<Rightarrow> uuid \<Rightarrow> string \<Rightarrow> db \<Rightarrow> pg_error + StoredSystemBackup \<times> db" where
  "failSystemBackup now i error d =
     settle_backup i (\<lambda>r. r\<lparr>sbk_status := SbFailed, sbk_error := Some (take 500 error), sbk_completed_at := Some now\<rparr>) d"

definition listSystemBackups :: "db \<Rightarrow> StoredSystemBackup list" where
  "listSystemBackups d = map systemBackup (take 500 (rev (sort_key sbk_created_at (system_backups d))))"

definition getSystemBackup :: "uuid \<Rightarrow> db \<Rightarrow> StoredSystemBackup option" where
  "getSystemBackup i d = map_option systemBackup
     (find (\<lambda>r. sbk_id r = i \<and> sbk_status r = SbSucceeded) (system_backups d))"

datatype import_outcome = ImportCreated | ImportIdempotent | ImportConflict

definition importSystemBackup ::
  "time \<Rightarrow> uuid \<Rightarrow> uuid \<Rightarrow> string \<Rightarrow> int \<Rightarrow> string \<Rightarrow> uuid \<Rightarrow> db \<Rightarrow> pg_error + import_outcome \<times> db" where
  "importSystemBackup now i requestedByUserId artifactPath sizeBytes checksum importId d =
     (case find (\<lambda>r. sbk_id r = i) (system_backups d) of
        Some r \<Rightarrow> Inr (if sbk_checksum r = Some checksum \<and> coalesce (sbk_size_bytes r) 0 = sizeBytes
                      then ImportIdempotent else ImportConflict, d)
      | None \<Rightarrow>
          if sizeBytes < 0 then Inl CheckViolation
          else Inr (ImportCreated, d\<lparr>system_backups := system_backups d @
                [\<lparr>sbk_id = i, sbk_requested_by_user_id = requestedByUserId, sbk_target = TargetLocal,
                  sbk_status = SbSucceeded, sbk_artifact_path = artifactPath, sbk_size_bytes = Some sizeBytes,
                  sbk_checksum = Some checksum, sbk_error = None, sbk_source = Imported,
                  sbk_metadata = [(''importId'', JStr importId)], sbk_created_at = now, sbk_completed_at = Some now\<rparr>]\<rparr>))"

section \<open>Imports\<close>

definition active_import :: "import_row \<Rightarrow> bool" where
  "active_import r \<longleftrightarrow> sim_status r \<in> {ImUploading, ImUploaded, ImValidating}"

definition import_active :: "unit \<Rightarrow> db \<Rightarrow> bool" where
  "import_active u d = exists_row active_import (backup_imports d)"

definition import_checks :: "import_row \<Rightarrow> bool" where
  "import_checks r \<longleftrightarrow> active_import r = (sim_completed_at r = None)
     \<and> (sim_status r \<in> {ImUploaded, ImValidating, ImImported} \<longrightarrow> sim_size_bytes r \<noteq> None \<and> sim_checksum r \<noteq> None)
     \<and> (case sim_size_bytes r of None \<Rightarrow> True | Some n \<Rightarrow> n \<ge> 0) \<and> sim_validation_revision r \<ge> 0"

definition createSystemBackupImport ::
  "(nat \<Rightarrow> uuid) \<Rightarrow> time \<Rightarrow> uuid \<Rightarrow> string \<Rightarrow> db \<Rightarrow> SystemBackupImport outcome \<times> db" where
  "createSystemBackupImport gen now requestedByUserId quarantinePath d =
     (if import_active () d then (Active, d)
      else
        let (i, d) = draw gen d;
            row = \<lparr>sim_id = i, sim_requested_by_user_id = requestedByUserId, sim_status = ImUploading,
              sim_quarantine_path = quarantinePath, sim_size_bytes = None, sim_checksum = None, sim_backup_id = None,
              sim_error = None, sim_validation_revision = 0, sim_created_at = now, sim_updated_at = now,
              sim_completed_at = None\<rparr>
        in (Accepted (systemBackupImport row), d\<lparr>backup_imports := backup_imports d @ [row]\<rparr>))"

definition updated_import ::
  "time \<Rightarrow> ImportStatus \<Rightarrow> int option \<Rightarrow> string option \<Rightarrow> uuid option \<Rightarrow> string option \<Rightarrow> import_row \<Rightarrow> import_row" where
  "updated_import now status sizeBytes checksum backupId error r =
     r\<lparr>sim_status := status, sim_size_bytes := coalesce_null sizeBytes (sim_size_bytes r),
       sim_checksum := coalesce_null checksum (sim_checksum r), sim_backup_id := coalesce_null backupId (sim_backup_id r),
       sim_error := map_option (take 100) error, sim_updated_at := now,
       sim_completed_at := (if status \<in> {ImImported, ImRejected} then Some now else None)\<rparr>"

definition updateSystemBackupImport ::
  "time \<Rightarrow> uuid \<Rightarrow> ImportStatus \<Rightarrow> int option \<Rightarrow> string option \<Rightarrow> uuid option \<Rightarrow> string option \<Rightarrow> db
    \<Rightarrow> pg_error + SystemBackupImport \<times> db" where
  "updateSystemBackupImport now i status sizeBytes checksum backupId error d =
     (let f = updated_import now status sizeBytes checksum backupId error
      in case find (\<lambda>r. sim_id r = i) (backup_imports d) of
           None \<Rightarrow> Inl (JsError ''The system backup import record was not found.'')
         | Some r \<Rightarrow>
             if \<not> import_checks (f r) then Inl CheckViolation
             else if active_import (f r) \<and> exists_row (\<lambda>s. sim_id s \<noteq> i \<and> active_import s) (backup_imports d)
             then Inl UniqueViolation
             else Inr (systemBackupImport (f r),
                       d\<lparr>backup_imports := update_rows (\<lambda>s. sim_id s = i) f (backup_imports d)\<rparr>))"

datatype import_claim = ImportClaimed SystemBackupImport | ImportValidating | ImportNotClaimable

definition uploaded_of :: "uuid \<Rightarrow> uuid \<Rightarrow> import_row \<Rightarrow> bool" where
  "uploaded_of i requestedByUserId r \<longleftrightarrow> sim_id r = i \<and> sim_requested_by_user_id r = requestedByUserId \<and> sim_status r = ImUploaded"

definition claim_import :: "time \<Rightarrow> import_row \<Rightarrow> import_row" where
  "claim_import now r = r\<lparr>sim_status := ImValidating, sim_validation_revision := sim_validation_revision r + 1,
     sim_updated_at := now\<rparr>"

definition claimSystemBackupImport :: "time \<Rightarrow> uuid \<Rightarrow> uuid \<Rightarrow> db \<Rightarrow> import_claim \<times> db" where
  "claimSystemBackupImport now i requestedByUserId d =
     (case find (uploaded_of i requestedByUserId) (backup_imports d) of
        Some r \<Rightarrow> (ImportClaimed (systemBackupImport (claim_import now r)),
          d\<lparr>backup_imports := update_rows (uploaded_of i requestedByUserId) (claim_import now) (backup_imports d)\<rparr>)
      | None \<Rightarrow>
          (case find (\<lambda>r. sim_id r = i \<and> sim_requested_by_user_id r = requestedByUserId) (backup_imports d) of
             Some r \<Rightarrow> (if sim_status r = ImValidating then ImportValidating else ImportNotClaimable, d)
           | None \<Rightarrow> (ImportNotClaimable, d)))"

definition validating_at :: "uuid \<Rightarrow> int \<Rightarrow> import_row \<Rightarrow> bool" where
  "validating_at i revision r \<longleftrightarrow> sim_id r = i \<and> sim_validation_revision r = revision \<and> sim_status r = ImValidating"

definition finish_import :: "time \<Rightarrow> ImportStatus \<Rightarrow> uuid option \<Rightarrow> string option \<Rightarrow> import_row \<Rightarrow> import_row" where
  "finish_import now status backupId error r = r\<lparr>sim_status := status,
     sim_backup_id := coalesce_null backupId (sim_backup_id r), sim_error := map_option (take 100) error,
     sim_updated_at := now, sim_completed_at := Some now\<rparr>"

text \<open>The caller asks for \<open>imported\<close> or \<open>rejected\<close>.\<close>

definition finishSystemBackupImport ::
  "time \<Rightarrow> uuid \<Rightarrow> int \<Rightarrow> ImportStatus \<Rightarrow> uuid option \<Rightarrow> string option \<Rightarrow> db \<Rightarrow> SystemBackupImport option \<times> db" where
  "finishSystemBackupImport now i validationRevision status backupId error d =
     (map_option (\<lambda>r. systemBackupImport (finish_import now status backupId error r))
        (find (validating_at i validationRevision) (backup_imports d)),
      d\<lparr>backup_imports := update_rows (validating_at i validationRevision)
           (finish_import now status backupId error) (backup_imports d)\<rparr>)"

definition getSystemBackupImport :: "uuid \<Rightarrow> db \<Rightarrow> SystemBackupImport option" where
  "getSystemBackupImport i d = map_option systemBackupImport (find (\<lambda>r. sim_id r = i) (backup_imports d))"

definition listSystemBackupImports :: "db \<Rightarrow> SystemBackupImport list" where
  "listSystemBackupImports d = map systemBackupImport (take 100 (rev (sort_key sim_created_at (backup_imports d))))"

definition stale_import :: "time \<Rightarrow> import_row \<Rightarrow> bool" where
  "stale_import before r \<longleftrightarrow> active_import r \<and> sim_updated_at r < before"

definition reject_import :: "time \<Rightarrow> import_row \<Rightarrow> import_row" where
  "reject_import now r = r\<lparr>sim_status := ImRejected, sim_error := Some ''upload_interrupted'',
     sim_updated_at := now, sim_completed_at := Some now\<rparr>"

definition rejectStaleSystemBackupImports :: "time \<Rightarrow> time \<Rightarrow> db \<Rightarrow> SystemBackupImport list \<times> db" where
  "rejectStaleSystemBackupImports now before d =
     (map systemBackupImport (returning (stale_import before) (reject_import now) (backup_imports d)),
      d\<lparr>backup_imports := update_rows (stale_import before) (reject_import now) (backup_imports d)\<rparr>)"

section \<open>Transfers, recovery requests and restores\<close>

definition recordSystemBackupTransferEvent ::
  "uuid \<Rightarrow> TransferOperation \<Rightarrow> uuid option \<Rightarrow> uuid option \<Rightarrow> uuid option \<Rightarrow> jobj option \<Rightarrow> db \<Rightarrow> db" where
  "recordSystemBackupTransferEvent requestedByUserId operation backupId restoreId importId metadata d =
     d\<lparr>transfer_events := transfer_events d @ [\<lparr>tre_requested_by_user_id = requestedByUserId, tre_operation = operation,
         tre_backup_id = backupId, tre_restore_id = restoreId, tre_import_id = importId,
         tre_metadata = coalesce metadata []\<rparr>]\<rparr>"

definition active_recovery :: "recovery_row \<Rightarrow> bool" where
  "active_recovery r \<longleftrightarrow> srr_status r \<in> {RqPublishing, RqPublished}"

definition recovery_active :: "unit \<Rightarrow> db \<Rightarrow> bool" where
  "recovery_active u d = exists_row active_recovery (recovery_requests d)"

text \<open>
  A second active request violates the index \<open>system_recovery_requests_one_active_idx\<close>, a reused
  token the one on \<open>ownership_token\<close>; both come back as \<open>'active'\<close>.
\<close>

definition createSystemRecoveryRequest ::
  "(nat \<Rightarrow> uuid) \<Rightarrow> time \<Rightarrow> uuid \<Rightarrow> uuid \<Rightarrow> uuid \<Rightarrow> db \<Rightarrow> (uuid \<times> uuid) outcome \<times> db" where
  "createSystemRecoveryRequest gen now restoreId requestedByUserId ownershipToken d =
     (if recovery_active () d \<or> exists_row (\<lambda>r. srr_ownership_token r = ownershipToken) (recovery_requests d)
      then (Active, d)
      else
        let (i, d) = draw gen d;
            row = \<lparr>srr_id = i, srr_restore_id = restoreId, srr_requested_by_user_id = requestedByUserId,
              srr_ownership_token = ownershipToken, srr_status = RqPublishing, srr_error = None,
              srr_created_at = now, srr_updated_at = now, srr_completed_at = None\<rparr>
        in (Accepted (i, ownershipToken), d\<lparr>recovery_requests := recovery_requests d @ [row]\<rparr>))"

definition publishing_with :: "uuid \<Rightarrow> uuid \<Rightarrow> recovery_row \<Rightarrow> bool" where
  "publishing_with i ownershipToken r \<longleftrightarrow> srr_id r = i \<and> srr_ownership_token r = ownershipToken \<and> srr_status r = RqPublishing"

definition finish_recovery :: "time \<Rightarrow> RecoveryStatus \<Rightarrow> string option \<Rightarrow> recovery_row \<Rightarrow> recovery_row" where
  "finish_recovery now status error r = r\<lparr>srr_status := status, srr_error := map_option (take 100) error,
     srr_updated_at := now, srr_completed_at := (if status = RqFailed then Some now else None)\<rparr>"

definition finishSystemRecoveryRequest ::
  "time \<Rightarrow> uuid \<Rightarrow> uuid \<Rightarrow> RecoveryStatus \<Rightarrow> string option \<Rightarrow> db \<Rightarrow> bool \<times> db" where
  "finishSystemRecoveryRequest now i ownershipToken status error d =
     (count_rows (publishing_with i ownershipToken) (recovery_requests d) = 1,
      d\<lparr>recovery_requests := update_rows (publishing_with i ownershipToken) (finish_recovery now status error)
           (recovery_requests d)\<rparr>)"

definition createSystemRestore ::
  "(nat \<Rightarrow> uuid) \<Rightarrow> time \<Rightarrow> uuid \<Rightarrow> uuid \<Rightarrow> SystemRestoreStatus \<Rightarrow> string option \<Rightarrow> db \<Rightarrow> SystemRestore \<times> db" where
  "createSystemRestore gen now backupId requestedByUserId status error d =
     (let (i, d) = draw gen d;
          row = \<lparr>srs_id = i, srs_backup_id = backupId, srs_requested_by_user_id = requestedByUserId,
            srs_status = status, srs_error = map_option (take 500) error, srs_created_at = now,
            srs_completed_at = (if status = SrFailed then Some now else None)\<rparr>
      in (systemRestore row, d\<lparr>system_restores := system_restores d @ [row]\<rparr>))"

definition staging_restore :: "uuid \<Rightarrow> system_restore_row \<Rightarrow> bool" where
  "staging_restore i r \<longleftrightarrow> srs_id r = i \<and> srs_status r = SrStaging"

definition updateSystemRestore ::
  "time \<Rightarrow> uuid \<Rightarrow> SystemRestoreStatus \<Rightarrow> string option \<Rightarrow> db \<Rightarrow> pg_error + SystemRestore \<times> db" where
  "updateSystemRestore now i status error d =
     (let f = (\<lambda>r. r\<lparr>srs_status := status, srs_error := map_option (take 500) error, srs_completed_at := Some now\<rparr>)
      in case find (staging_restore i) (system_restores d) of
           None \<Rightarrow> Inl (JsError ''The system restore audit record could not be transitioned.'')
         | Some r \<Rightarrow> Inr (systemRestore (f r),
             d\<lparr>system_restores := update_rows (staging_restore i) f (system_restores d)\<rparr>))"

definition listSystemRestores :: "db \<Rightarrow> SystemRestore list" where
  "listSystemRestores d = map systemRestore (take 500 (rev (sort_key srs_created_at (system_restores d))))"

definition getSystemRestore :: "uuid \<Rightarrow> db \<Rightarrow> SystemRestore option" where
  "getSystemRestore i d = map_option systemRestore (find (\<lambda>r. srs_id r = i) (system_restores d))"

section \<open>One at a time\<close>

interpretation import_table: guarded_table backup_imports active_import "\<lambda>_. ()" import_active
  by unfold_locales (auto simp: import_active_def)

interpretation recovery_table: guarded_table recovery_requests active_recovery "\<lambda>_. ()" recovery_active
  by unfold_locales (auto simp: recovery_active_def)

definition recovery_ok :: "(nat \<Rightarrow> uuid) \<Rightarrow> db \<Rightarrow> bool" where
  "recovery_ok gen d \<longleftrightarrow>
     unique_where active_import (\<lambda>_. ()) (backup_imports d)
     \<and> distinct (map sim_id (backup_imports d)) \<and> sim_id ` set (backup_imports d) \<subseteq> drawn gen (draws d)
     \<and> list_all import_checks (backup_imports d)
     \<and> unique_where active_recovery (\<lambda>_. ()) (recovery_requests d)
     \<and> distinct (map srr_ownership_token (recovery_requests d))
     \<and> list_all (\<lambda>r. (srr_status r = RqFailed) = (srr_completed_at r \<noteq> None)) (recovery_requests d)"

lemma recovery_ok_empty: "recovery_ok gen empty_db"
  by (simp add: recovery_ok_def empty_db_def)

lemma recovery_ok_frame:
  assumes "recovery_ok gen d" "backup_imports e = backup_imports d" "recovery_requests e = recovery_requests d"
    "draws d \<le> draws e"
  shows "recovery_ok gen e"
  using assms drawn_mono [OF assms(4), of gen] by (auto simp: recovery_ok_def)

lemma recovery_ok_imports:
  assumes ok: "recovery_ok gen d" and rows: "backup_imports e = update_rows P f (backup_imports d)"
    and e: "recovery_requests e = recovery_requests d" "draws d \<le> draws e"
    and ids: "\<And>r. sim_id (f r) = sim_id r"
    and live: "\<And>r. P r \<Longrightarrow> active_import (f r) \<Longrightarrow> active_import r"
    and checks: "\<And>r. r \<in> set (backup_imports d) \<Longrightarrow> P r \<Longrightarrow> import_checks r \<Longrightarrow> import_checks (f r)"
  shows "recovery_ok gen e"
proof -
  have ids': "map sim_id (backup_imports e) = map sim_id (backup_imports d)"
    unfolding rows by (rule map_update_rows) (simp add: ids)
  have "sim_id ` set (backup_imports e) = sim_id ` set (backup_imports d)"
    using arg_cong [OF ids', of set] by simp
  moreover have "unique_where active_import (\<lambda>_. ()) (backup_imports e)"
    by (rule import_table.guarded_update [OF _ rows]) (use ok live in \<open>simp_all add: recovery_ok_def\<close>)
  moreover have "list_all import_checks (backup_imports e)"
    using ok checks unfolding rows by (auto simp: recovery_ok_def list_all_iff set_update_rows)
  ultimately show ?thesis
    using ok ids' e drawn_mono [OF e(2), of gen] by (auto simp: recovery_ok_def)
qed

lemma createSystemBackupImport_ok:
  assumes gen: "inj gen" and ok: "recovery_ok gen d"
  shows "recovery_ok gen (snd (createSystemBackupImport gen now u p d))"
proof (cases "import_active () d")
  case True
  with ok show ?thesis by (simp add: createSystemBackupImport_def)
next
  case False
  have "\<forall>r \<in> set (backup_imports d). sim_id r \<noteq> gen (draws d)"
    using ok by (intro fresh_id [OF gen]) (simp add: recovery_ok_def)
  with False ok show ?thesis
    by (auto simp: createSystemBackupImport_def draw_def Let_def recovery_ok_def unique_where_insert
        import_active_def import_checks_def active_import_def)
qed

lemma claimSystemBackupImport_ok:
  assumes ok: "recovery_ok gen d"
  shows "recovery_ok gen (snd (claimSystemBackupImport now i u d))"
proof (cases "find (uploaded_of i u) (backup_imports d)")
  case None
  with ok show ?thesis by (simp add: claimSystemBackupImport_def split: option.split)
next
  case (Some r)
  have "recovery_ok gen (d\<lparr>backup_imports := update_rows (uploaded_of i u) (claim_import now) (backup_imports d)\<rparr>)"
    using ok
    by (rule recovery_ok_imports [where P = "uploaded_of i u" and f = "claim_import now"])
      (auto simp: uploaded_of_def claim_import_def active_import_def import_checks_def)
  with Some show ?thesis by (simp add: claimSystemBackupImport_def)
qed

lemma finishSystemBackupImport_ok:
  assumes ok: "recovery_ok gen d" and st: "st \<in> {ImImported, ImRejected}"
  shows "recovery_ok gen (snd (finishSystemBackupImport now i v st b e d))"
  unfolding finishSystemBackupImport_def snd_conv
  using ok
  by (rule recovery_ok_imports [where P = "validating_at i v" and f = "finish_import now st b e"])
    (use st in \<open>auto simp: validating_at_def finish_import_def active_import_def import_checks_def\<close>)

lemma rejectStaleSystemBackupImports_ok:
  assumes ok: "recovery_ok gen d"
  shows "recovery_ok gen (snd (rejectStaleSystemBackupImports now t d))"
  unfolding rejectStaleSystemBackupImports_def snd_conv
  using ok
  by (rule recovery_ok_imports [where P = "stale_import t" and f = "reject_import now"])
    (auto simp: stale_import_def reject_import_def active_import_def import_checks_def)

text \<open>
  An import that is moved back to an active state takes the place of the active one: the index
  refuses it while another import is active.
\<close>

lemma unique_one_id:
  assumes "distinct (map k t)" "\<And>s. s \<in> set t \<Longrightarrow> live s \<Longrightarrow> k s = i"
  shows "unique_where live (\<lambda>_. ()) t"
  using assms
proof (induction t)
  case (Cons r t)
  have rest: "unique_where live (\<lambda>_. ()) t" using Cons by simp
  show ?case
  proof (cases "live r")
    case True
    then have "k r = i" using Cons.prems(2) by simp
    moreover have "\<forall>s \<in> set t. live s \<longrightarrow> k s = i" using Cons.prems(2) by simp
    ultimately have "filter live t = []"
      using Cons.prems(1) by (auto simp: filter_empty_conv image_iff)
    with True show ?thesis by (simp add: unique_where_def)
  next
    case False
    with rest show ?thesis by (simp add: unique_where_def)
  qed
qed simp

lemma updateSystemBackupImport_ok:
  assumes ok: "recovery_ok gen d" and run: "updateSystemBackupImport now i st n c b er d = Inr (x, e)"
  shows "recovery_ok gen e"
proof -
  let ?f = "updated_import now st n c b er"
  have ids: "sim_id (?f r) = sim_id r" for r by (simp add: updated_import_def)
  from run obtain r where r: "find (\<lambda>r. sim_id r = i) (backup_imports d) = Some r"
    and checks: "import_checks (?f r)"
    and free: "active_import (?f r) \<longrightarrow> (\<forall>s \<in> set (backup_imports d). sim_id s \<noteq> i \<longrightarrow> \<not> active_import s)"
    and e: "e = d\<lparr>backup_imports := update_rows (\<lambda>s. sim_id s = i) ?f (backup_imports d)\<rparr>"
    by (auto simp: updateSystemBackupImport_def Let_def split: option.splits if_splits)
  let ?t = "update_rows (\<lambda>s. sim_id s = i) ?f (backup_imports d)"
  have keys: "map sim_id ?t = map sim_id (backup_imports d)"
    by (rule map_update_rows) (simp add: ids)
  then have dist: "distinct (map sim_id ?t)" using ok by (simp add: recovery_ok_def)
  have r': "r \<in> set (backup_imports d)" "sim_id r = i" using find_someD [OF r] by auto
  have same: "s = r" if "s \<in> set (backup_imports d)" "sim_id s = i" for s
    using distinct_key_eq [of sim_id "backup_imports d" s r] ok that r' by (simp add: recovery_ok_def)
  have uniq: "unique_where active_import (\<lambda>_. ()) ?t"
  proof (cases "active_import (?f r)")
    case True
    show ?thesis
      by (rule unique_one_id [OF dist, where i = i])
        (use free True same in \<open>auto simp: set_update_rows ids split: if_splits\<close>)
  next
    case False
    have sub: "\<And>s. s \<in> set (backup_imports d) \<Longrightarrow> sim_id s = i \<Longrightarrow> \<not> active_import (?f s)"
      using False same by simp
    have "unique_where (\<lambda>s. active_import s) (\<lambda>_. ()) (update_rows (\<lambda>s. sim_id s = i \<and> s \<in> set (backup_imports d)) ?f (backup_imports d))"
      using ok sub by (intro unique_where_update) (auto simp: recovery_ok_def)
    moreover have "update_rows (\<lambda>s. sim_id s = i \<and> s \<in> set (backup_imports d)) ?f (backup_imports d) = ?t"
      by (simp add: update_rows_def)
    ultimately show ?thesis by simp
  qed
  have "list_all import_checks ?t"
    using ok checks same by (auto simp: recovery_ok_def list_all_iff set_update_rows)
  moreover have "sim_id ` set ?t = sim_id ` set (backup_imports d)"
    using arg_cong [OF keys, of set] by simp
  ultimately show ?thesis
    using ok dist uniq by (simp add: e recovery_ok_def)
qed

lemma recovery_ok_requests:
  assumes ok: "recovery_ok gen d" and e: "backup_imports e = backup_imports d" "draws d \<le> draws e"
    and u: "unique_where active_recovery (\<lambda>_. ()) (recovery_requests e)"
    and t: "distinct (map srr_ownership_token (recovery_requests e))"
    and c: "list_all (\<lambda>r. (srr_status r = RqFailed) = (srr_completed_at r \<noteq> None)) (recovery_requests e)"
  shows "recovery_ok gen e"
  using ok u t c drawn_mono [OF e(2), of gen] by (auto simp: recovery_ok_def e(1))

lemma createSystemRecoveryRequest_ok:
  assumes ok: "recovery_ok gen d"
  shows "recovery_ok gen (snd (createSystemRecoveryRequest gen now rs u tk d))"
proof (cases "recovery_active () d \<or> exists_row (\<lambda>r. srr_ownership_token r = tk) (recovery_requests d)")
  case True
  with ok show ?thesis by (simp add: createSystemRecoveryRequest_def del: exists_row_iff)
next
  case False
  have free: "\<forall>s \<in> set (recovery_requests d). \<not> active_recovery s"
    "\<forall>s \<in> set (recovery_requests d). srr_ownership_token s \<noteq> tk"
    using False by (auto simp: recovery_active_def)
  from False have eq: "snd (createSystemRecoveryRequest gen now rs u tk d) = d\<lparr>draws := Suc (draws d),
      recovery_requests := recovery_requests d @ [\<lparr>srr_id = gen (draws d), srr_restore_id = rs, srr_requested_by_user_id = u,
              srr_ownership_token = tk, srr_status = RqPublishing, srr_error = None,
              srr_created_at = now, srr_updated_at = now, srr_completed_at = None\<rparr>]\<rparr>"
    by (simp add: createSystemRecoveryRequest_def draw_def Let_def del: exists_row_iff)
  show ?thesis
    by (rule recovery_ok_requests [OF ok])
      (use ok free in \<open>auto simp: eq recovery_ok_def unique_where_insert\<close>)
qed

lemma finishSystemRecoveryRequest_ok:
  assumes ok: "recovery_ok gen d"
  shows "recovery_ok gen (snd (finishSystemRecoveryRequest now i tk st er d))"
proof (rule recovery_ok_requests [OF ok])
  let ?t = "update_rows (publishing_with i tk) (finish_recovery now st er) (recovery_requests d)"
  have rows: "recovery_requests (snd (finishSystemRecoveryRequest now i tk st er d)) = ?t"
    by (simp add: finishSystemRecoveryRequest_def)
  show "unique_where active_recovery (\<lambda>_. ()) (recovery_requests (snd (finishSystemRecoveryRequest now i tk st er d)))"
    by (rule recovery_table.guarded_update [OF _ rows])
      (use ok in \<open>simp_all add: recovery_ok_def publishing_with_def active_recovery_def\<close>)
  have "map srr_ownership_token ?t = map srr_ownership_token (recovery_requests d)"
    by (rule map_update_rows) (simp add: finish_recovery_def)
  then show "distinct (map srr_ownership_token (recovery_requests (snd (finishSystemRecoveryRequest now i tk st er d))))"
    using ok by (simp add: rows recovery_ok_def)
  show "list_all (\<lambda>r. (srr_status r = RqFailed) = (srr_completed_at r \<noteq> None))
      (recovery_requests (snd (finishSystemRecoveryRequest now i tk st er d)))"
    using ok by (auto simp: rows recovery_ok_def list_all_iff set_update_rows finish_recovery_def)
qed (simp_all add: finishSystemRecoveryRequest_def)

end
