(* ===== verification/Gw_Effects.thy ===== *)
theory Gw_Effects
  imports Gw_Recovery
begin

text \<open>
  What the life of a command does to the tables: which tables each part of claiming, completing
  and failing leaves alone, and how the tables of operations change, as one update of rows each.
  The invariants of the other theories follow from these facts.
\<close>

section \<open>Tables left alone\<close>

lemma start_operation_frame [frame_simps]:
  "users (start_operation now a c d) = users d"
  "sessions (start_operation now a c d) = sessions d"
  "accounts (start_operation now a c d) = accounts d"
  "zones (start_operation now a c d) = zones d"
  "domains (start_operation now a c d) = domains d"
  "dns_records (start_operation now a c d) = dns_records d"
  "guided_operations (start_operation now a c d) = guided_operations d"
  "agents (start_operation now a c d) = agents d"
  "commands (start_operation now a c d) = commands d"
  "stacks (start_operation now a c d) = stacks d"
  "routes (start_operation now a c d) = routes d"
  "deployments (start_operation now a c d) = deployments d"
  "revisions (start_operation now a c d) = revisions d"
  "settings (start_operation now a c d) = settings d"
  "scopes (start_operation now a c d) = scopes d"
  "snapshots (start_operation now a c d) = snapshots d"
  "system_backups (start_operation now a c d) = system_backups d"
  "backup_imports (start_operation now a c d) = backup_imports d"
  "system_restores (start_operation now a c d) = system_restores d"
  "recovery_requests (start_operation now a c d) = recovery_requests d"
  "transfer_events (start_operation now a c d) = transfer_events d"
  "events (start_operation now a c d) = events d"
  "deliveries (start_operation now a c d) = deliveries d"
  "draws (start_operation now a c d) = draws d"
  by (simp_all add: start_operation_def Let_def frame_simps split: option.split bool.split json.split)

lemma complete_agent_frame [frame_simps]:
  "users (complete_agent now a t s res d) = users d"
  "sessions (complete_agent now a t s res d) = sessions d"
  "connectors (complete_agent now a t s res d) = connectors d"
  "accounts (complete_agent now a t s res d) = accounts d"
  "zones (complete_agent now a t s res d) = zones d"
  "domains (complete_agent now a t s res d) = domains d"
  "dns_records (complete_agent now a t s res d) = dns_records d"
  "guided_operations (complete_agent now a t s res d) = guided_operations d"
  "commands (complete_agent now a t s res d) = commands d"
  "stacks (complete_agent now a t s res d) = stacks d"
  "routes (complete_agent now a t s res d) = routes d"
  "deployments (complete_agent now a t s res d) = deployments d"
  "revisions (complete_agent now a t s res d) = revisions d"
  "runs (complete_agent now a t s res d) = runs d"
  "settings (complete_agent now a t s res d) = settings d"
  "scopes (complete_agent now a t s res d) = scopes d"
  "snapshots (complete_agent now a t s res d) = snapshots d"
  "runtime_ops (complete_agent now a t s res d) = runtime_ops d"
  "log_requests (complete_agent now a t s res d) = log_requests d"
  "backups (complete_agent now a t s res d) = backups d"
  "restores (complete_agent now a t s res d) = restores d"
  "system_backups (complete_agent now a t s res d) = system_backups d"
  "backup_imports (complete_agent now a t s res d) = backup_imports d"
  "system_restores (complete_agent now a t s res d) = system_restores d"
  "recovery_requests (complete_agent now a t s res d) = recovery_requests d"
  "transfer_events (complete_agent now a t s res d) = transfer_events d"
  "events (complete_agent now a t s res d) = events d"
  "deliveries (complete_agent now a t s res d) = deliveries d"
  "draws (complete_agent now a t s res d) = draws d"
  by (simp_all add: complete_agent_def Let_def frame_simps split: option.split bool.split json.split)

lemma complete_connector_frame [frame_simps]:
  "users (complete_connector now a c s res d) = users d"
  "sessions (complete_connector now a c s res d) = sessions d"
  "accounts (complete_connector now a c s res d) = accounts d"
  "zones (complete_connector now a c s res d) = zones d"
  "domains (complete_connector now a c s res d) = domains d"
  "dns_records (complete_connector now a c s res d) = dns_records d"
  "guided_operations (complete_connector now a c s res d) = guided_operations d"
  "agents (complete_connector now a c s res d) = agents d"
  "commands (complete_connector now a c s res d) = commands d"
  "stacks (complete_connector now a c s res d) = stacks d"
  "routes (complete_connector now a c s res d) = routes d"
  "deployments (complete_connector now a c s res d) = deployments d"
  "revisions (complete_connector now a c s res d) = revisions d"
  "runs (complete_connector now a c s res d) = runs d"
  "settings (complete_connector now a c s res d) = settings d"
  "scopes (complete_connector now a c s res d) = scopes d"
  "snapshots (complete_connector now a c s res d) = snapshots d"
  "runtime_ops (complete_connector now a c s res d) = runtime_ops d"
  "log_requests (complete_connector now a c s res d) = log_requests d"
  "backups (complete_connector now a c s res d) = backups d"
  "restores (complete_connector now a c s res d) = restores d"
  "system_backups (complete_connector now a c s res d) = system_backups d"
  "backup_imports (complete_connector now a c s res d) = backup_imports d"
  "system_restores (complete_connector now a c s res d) = system_restores d"
  "recovery_requests (complete_connector now a c s res d) = recovery_requests d"
  "transfer_events (complete_connector now a c s res d) = transfer_events d"
  "events (complete_connector now a c s res d) = events d"
  "deliveries (complete_connector now a c s res d) = deliveries d"
  "draws (complete_connector now a c s res d) = draws d"
  by (simp_all add: complete_connector_def Let_def frame_simps split: option.split bool.split json.split)

lemma complete_stack_frame [frame_simps]:
  "users (complete_stack now a c s d) = users d"
  "sessions (complete_stack now a c s d) = sessions d"
  "connectors (complete_stack now a c s d) = connectors d"
  "accounts (complete_stack now a c s d) = accounts d"
  "zones (complete_stack now a c s d) = zones d"
  "domains (complete_stack now a c s d) = domains d"
  "dns_records (complete_stack now a c s d) = dns_records d"
  "guided_operations (complete_stack now a c s d) = guided_operations d"
  "agents (complete_stack now a c s d) = agents d"
  "commands (complete_stack now a c s d) = commands d"
  "routes (complete_stack now a c s d) = routes d"
  "deployments (complete_stack now a c s d) = deployments d"
  "revisions (complete_stack now a c s d) = revisions d"
  "runs (complete_stack now a c s d) = runs d"
  "settings (complete_stack now a c s d) = settings d"
  "scopes (complete_stack now a c s d) = scopes d"
  "snapshots (complete_stack now a c s d) = snapshots d"
  "runtime_ops (complete_stack now a c s d) = runtime_ops d"
  "log_requests (complete_stack now a c s d) = log_requests d"
  "backups (complete_stack now a c s d) = backups d"
  "restores (complete_stack now a c s d) = restores d"
  "system_backups (complete_stack now a c s d) = system_backups d"
  "backup_imports (complete_stack now a c s d) = backup_imports d"
  "system_restores (complete_stack now a c s d) = system_restores d"
  "recovery_requests (complete_stack now a c s d) = recovery_requests d"
  "transfer_events (complete_stack now a c s d) = transfer_events d"
  "events (complete_stack now a c s d) = events d"
  "deliveries (complete_stack now a c s d) = deliveries d"
  "draws (complete_stack now a c s d) = draws d"
  by (simp_all add: complete_stack_def Let_def frame_simps split: option.split bool.split json.split)

lemma complete_route_frame [frame_simps]:
  "users (complete_route now a c s d) = users d"
  "sessions (complete_route now a c s d) = sessions d"
  "connectors (complete_route now a c s d) = connectors d"
  "accounts (complete_route now a c s d) = accounts d"
  "zones (complete_route now a c s d) = zones d"
  "domains (complete_route now a c s d) = domains d"
  "dns_records (complete_route now a c s d) = dns_records d"
  "guided_operations (complete_route now a c s d) = guided_operations d"
  "agents (complete_route now a c s d) = agents d"
  "commands (complete_route now a c s d) = commands d"
  "stacks (complete_route now a c s d) = stacks d"
  "deployments (complete_route now a c s d) = deployments d"
  "revisions (complete_route now a c s d) = revisions d"
  "runs (complete_route now a c s d) = runs d"
  "settings (complete_route now a c s d) = settings d"
  "scopes (complete_route now a c s d) = scopes d"
  "snapshots (complete_route now a c s d) = snapshots d"
  "runtime_ops (complete_route now a c s d) = runtime_ops d"
  "log_requests (complete_route now a c s d) = log_requests d"
  "backups (complete_route now a c s d) = backups d"
  "restores (complete_route now a c s d) = restores d"
  "system_backups (complete_route now a c s d) = system_backups d"
  "backup_imports (complete_route now a c s d) = backup_imports d"
  "system_restores (complete_route now a c s d) = system_restores d"
  "recovery_requests (complete_route now a c s d) = recovery_requests d"
  "transfer_events (complete_route now a c s d) = transfer_events d"
  "events (complete_route now a c s d) = events d"
  "deliveries (complete_route now a c s d) = deliveries d"
  "draws (complete_route now a c s d) = draws d"
  by (simp_all add: complete_route_def Let_def frame_simps split: option.split bool.split json.split)

lemma report_sync_failure_frame [frame_simps]:
  "users (report_sync_failure gen now a c s d) = users d"
  "sessions (report_sync_failure gen now a c s d) = sessions d"
  "connectors (report_sync_failure gen now a c s d) = connectors d"
  "accounts (report_sync_failure gen now a c s d) = accounts d"
  "zones (report_sync_failure gen now a c s d) = zones d"
  "domains (report_sync_failure gen now a c s d) = domains d"
  "dns_records (report_sync_failure gen now a c s d) = dns_records d"
  "guided_operations (report_sync_failure gen now a c s d) = guided_operations d"
  "agents (report_sync_failure gen now a c s d) = agents d"
  "commands (report_sync_failure gen now a c s d) = commands d"
  "stacks (report_sync_failure gen now a c s d) = stacks d"
  "routes (report_sync_failure gen now a c s d) = routes d"
  "deployments (report_sync_failure gen now a c s d) = deployments d"
  "revisions (report_sync_failure gen now a c s d) = revisions d"
  "runs (report_sync_failure gen now a c s d) = runs d"
  "settings (report_sync_failure gen now a c s d) = settings d"
  "scopes (report_sync_failure gen now a c s d) = scopes d"
  "snapshots (report_sync_failure gen now a c s d) = snapshots d"
  "runtime_ops (report_sync_failure gen now a c s d) = runtime_ops d"
  "log_requests (report_sync_failure gen now a c s d) = log_requests d"
  "backups (report_sync_failure gen now a c s d) = backups d"
  "restores (report_sync_failure gen now a c s d) = restores d"
  "system_backups (report_sync_failure gen now a c s d) = system_backups d"
  "backup_imports (report_sync_failure gen now a c s d) = backup_imports d"
  "system_restores (report_sync_failure gen now a c s d) = system_restores d"
  "recovery_requests (report_sync_failure gen now a c s d) = recovery_requests d"
  "transfer_events (report_sync_failure gen now a c s d) = transfer_events d"
  by (simp_all add: report_sync_failure_def Let_def frame_simps split: option.split bool.split json.split)

lemma complete_backup_frame [frame_simps]:
  "users (complete_backup gen now a c s res d) = users d"
  "sessions (complete_backup gen now a c s res d) = sessions d"
  "connectors (complete_backup gen now a c s res d) = connectors d"
  "accounts (complete_backup gen now a c s res d) = accounts d"
  "zones (complete_backup gen now a c s res d) = zones d"
  "domains (complete_backup gen now a c s res d) = domains d"
  "dns_records (complete_backup gen now a c s res d) = dns_records d"
  "guided_operations (complete_backup gen now a c s res d) = guided_operations d"
  "agents (complete_backup gen now a c s res d) = agents d"
  "commands (complete_backup gen now a c s res d) = commands d"
  "stacks (complete_backup gen now a c s res d) = stacks d"
  "routes (complete_backup gen now a c s res d) = routes d"
  "deployments (complete_backup gen now a c s res d) = deployments d"
  "revisions (complete_backup gen now a c s res d) = revisions d"
  "runs (complete_backup gen now a c s res d) = runs d"
  "settings (complete_backup gen now a c s res d) = settings d"
  "scopes (complete_backup gen now a c s res d) = scopes d"
  "snapshots (complete_backup gen now a c s res d) = snapshots d"
  "runtime_ops (complete_backup gen now a c s res d) = runtime_ops d"
  "log_requests (complete_backup gen now a c s res d) = log_requests d"
  "restores (complete_backup gen now a c s res d) = restores d"
  "system_backups (complete_backup gen now a c s res d) = system_backups d"
  "backup_imports (complete_backup gen now a c s res d) = backup_imports d"
  "system_restores (complete_backup gen now a c s res d) = system_restores d"
  "recovery_requests (complete_backup gen now a c s res d) = recovery_requests d"
  "transfer_events (complete_backup gen now a c s res d) = transfer_events d"
  by (simp_all add: complete_backup_def Let_def frame_simps split: option.split bool.split json.split)

lemma complete_restore_frame [frame_simps]:
  "users (complete_restore gen now a c s res d) = users d"
  "sessions (complete_restore gen now a c s res d) = sessions d"
  "connectors (complete_restore gen now a c s res d) = connectors d"
  "accounts (complete_restore gen now a c s res d) = accounts d"
  "zones (complete_restore gen now a c s res d) = zones d"
  "domains (complete_restore gen now a c s res d) = domains d"
  "dns_records (complete_restore gen now a c s res d) = dns_records d"
  "guided_operations (complete_restore gen now a c s res d) = guided_operations d"
  "agents (complete_restore gen now a c s res d) = agents d"
  "commands (complete_restore gen now a c s res d) = commands d"
  "stacks (complete_restore gen now a c s res d) = stacks d"
  "routes (complete_restore gen now a c s res d) = routes d"
  "deployments (complete_restore gen now a c s res d) = deployments d"
  "revisions (complete_restore gen now a c s res d) = revisions d"
  "runs (complete_restore gen now a c s res d) = runs d"
  "settings (complete_restore gen now a c s res d) = settings d"
  "scopes (complete_restore gen now a c s res d) = scopes d"
  "snapshots (complete_restore gen now a c s res d) = snapshots d"
  "runtime_ops (complete_restore gen now a c s res d) = runtime_ops d"
  "log_requests (complete_restore gen now a c s res d) = log_requests d"
  "backups (complete_restore gen now a c s res d) = backups d"
  "system_backups (complete_restore gen now a c s res d) = system_backups d"
  "backup_imports (complete_restore gen now a c s res d) = backup_imports d"
  "system_restores (complete_restore gen now a c s res d) = system_restores d"
  "recovery_requests (complete_restore gen now a c s res d) = recovery_requests d"
  "transfer_events (complete_restore gen now a c s res d) = transfer_events d"
  by (simp_all add: complete_restore_def Let_def frame_simps split: option.split bool.split json.split)

lemma complete_runtime_op_frame [frame_simps]:
  "users (complete_runtime_op gen now a c s res d) = users d"
  "sessions (complete_runtime_op gen now a c s res d) = sessions d"
  "connectors (complete_runtime_op gen now a c s res d) = connectors d"
  "accounts (complete_runtime_op gen now a c s res d) = accounts d"
  "zones (complete_runtime_op gen now a c s res d) = zones d"
  "domains (complete_runtime_op gen now a c s res d) = domains d"
  "dns_records (complete_runtime_op gen now a c s res d) = dns_records d"
  "guided_operations (complete_runtime_op gen now a c s res d) = guided_operations d"
  "agents (complete_runtime_op gen now a c s res d) = agents d"
  "commands (complete_runtime_op gen now a c s res d) = commands d"
  "stacks (complete_runtime_op gen now a c s res d) = stacks d"
  "routes (complete_runtime_op gen now a c s res d) = routes d"
  "deployments (complete_runtime_op gen now a c s res d) = deployments d"
  "revisions (complete_runtime_op gen now a c s res d) = revisions d"
  "runs (complete_runtime_op gen now a c s res d) = runs d"
  "settings (complete_runtime_op gen now a c s res d) = settings d"
  "scopes (complete_runtime_op gen now a c s res d) = scopes d"
  "snapshots (complete_runtime_op gen now a c s res d) = snapshots d"
  "log_requests (complete_runtime_op gen now a c s res d) = log_requests d"
  "backups (complete_runtime_op gen now a c s res d) = backups d"
  "restores (complete_runtime_op gen now a c s res d) = restores d"
  "system_backups (complete_runtime_op gen now a c s res d) = system_backups d"
  "backup_imports (complete_runtime_op gen now a c s res d) = backup_imports d"
  "system_restores (complete_runtime_op gen now a c s res d) = system_restores d"
  "recovery_requests (complete_runtime_op gen now a c s res d) = recovery_requests d"
  "transfer_events (complete_runtime_op gen now a c s res d) = transfer_events d"
  by (simp_all add: complete_runtime_op_def Let_def frame_simps split: option.split bool.split json.split)

lemma complete_log_request_frame [frame_simps]:
  "users (complete_log_request now a c s res d) = users d"
  "sessions (complete_log_request now a c s res d) = sessions d"
  "connectors (complete_log_request now a c s res d) = connectors d"
  "accounts (complete_log_request now a c s res d) = accounts d"
  "zones (complete_log_request now a c s res d) = zones d"
  "domains (complete_log_request now a c s res d) = domains d"
  "dns_records (complete_log_request now a c s res d) = dns_records d"
  "guided_operations (complete_log_request now a c s res d) = guided_operations d"
  "agents (complete_log_request now a c s res d) = agents d"
  "commands (complete_log_request now a c s res d) = commands d"
  "stacks (complete_log_request now a c s res d) = stacks d"
  "routes (complete_log_request now a c s res d) = routes d"
  "deployments (complete_log_request now a c s res d) = deployments d"
  "revisions (complete_log_request now a c s res d) = revisions d"
  "runs (complete_log_request now a c s res d) = runs d"
  "settings (complete_log_request now a c s res d) = settings d"
  "scopes (complete_log_request now a c s res d) = scopes d"
  "snapshots (complete_log_request now a c s res d) = snapshots d"
  "runtime_ops (complete_log_request now a c s res d) = runtime_ops d"
  "backups (complete_log_request now a c s res d) = backups d"
  "restores (complete_log_request now a c s res d) = restores d"
  "system_backups (complete_log_request now a c s res d) = system_backups d"
  "backup_imports (complete_log_request now a c s res d) = backup_imports d"
  "system_restores (complete_log_request now a c s res d) = system_restores d"
  "recovery_requests (complete_log_request now a c s res d) = recovery_requests d"
  "transfer_events (complete_log_request now a c s res d) = transfer_events d"
  "events (complete_log_request now a c s res d) = events d"
  "deliveries (complete_log_request now a c s res d) = deliveries d"
  "draws (complete_log_request now a c s res d) = draws d"
  by (simp_all add: complete_log_request_def Let_def frame_simps split: option.split bool.split json.split)

lemma complete_run_frame [frame_simps]:
  "users (complete_run gen now a c s res d) = users d"
  "sessions (complete_run gen now a c s res d) = sessions d"
  "connectors (complete_run gen now a c s res d) = connectors d"
  "accounts (complete_run gen now a c s res d) = accounts d"
  "zones (complete_run gen now a c s res d) = zones d"
  "domains (complete_run gen now a c s res d) = domains d"
  "dns_records (complete_run gen now a c s res d) = dns_records d"
  "guided_operations (complete_run gen now a c s res d) = guided_operations d"
  "agents (complete_run gen now a c s res d) = agents d"
  "commands (complete_run gen now a c s res d) = commands d"
  "stacks (complete_run gen now a c s res d) = stacks d"
  "routes (complete_run gen now a c s res d) = routes d"
  "revisions (complete_run gen now a c s res d) = revisions d"
  "settings (complete_run gen now a c s res d) = settings d"
  "scopes (complete_run gen now a c s res d) = scopes d"
  "snapshots (complete_run gen now a c s res d) = snapshots d"
  "runtime_ops (complete_run gen now a c s res d) = runtime_ops d"
  "log_requests (complete_run gen now a c s res d) = log_requests d"
  "backups (complete_run gen now a c s res d) = backups d"
  "restores (complete_run gen now a c s res d) = restores d"
  "system_backups (complete_run gen now a c s res d) = system_backups d"
  "backup_imports (complete_run gen now a c s res d) = backup_imports d"
  "system_restores (complete_run gen now a c s res d) = system_restores d"
  "recovery_requests (complete_run gen now a c s res d) = recovery_requests d"
  "transfer_events (complete_run gen now a c s res d) = transfer_events d"
  by (simp_all add: complete_run_def Let_def frame_simps split: option.split bool.split json.split)

lemma fail_connector_frame [frame_simps]:
  "users (fail_connector now c d) = users d"
  "sessions (fail_connector now c d) = sessions d"
  "accounts (fail_connector now c d) = accounts d"
  "zones (fail_connector now c d) = zones d"
  "domains (fail_connector now c d) = domains d"
  "dns_records (fail_connector now c d) = dns_records d"
  "guided_operations (fail_connector now c d) = guided_operations d"
  "agents (fail_connector now c d) = agents d"
  "commands (fail_connector now c d) = commands d"
  "stacks (fail_connector now c d) = stacks d"
  "routes (fail_connector now c d) = routes d"
  "deployments (fail_connector now c d) = deployments d"
  "revisions (fail_connector now c d) = revisions d"
  "runs (fail_connector now c d) = runs d"
  "settings (fail_connector now c d) = settings d"
  "scopes (fail_connector now c d) = scopes d"
  "snapshots (fail_connector now c d) = snapshots d"
  "runtime_ops (fail_connector now c d) = runtime_ops d"
  "log_requests (fail_connector now c d) = log_requests d"
  "backups (fail_connector now c d) = backups d"
  "restores (fail_connector now c d) = restores d"
  "system_backups (fail_connector now c d) = system_backups d"
  "backup_imports (fail_connector now c d) = backup_imports d"
  "system_restores (fail_connector now c d) = system_restores d"
  "recovery_requests (fail_connector now c d) = recovery_requests d"
  "transfer_events (fail_connector now c d) = transfer_events d"
  "events (fail_connector now c d) = events d"
  "deliveries (fail_connector now c d) = deliveries d"
  "draws (fail_connector now c d) = draws d"
  by (simp_all add: fail_connector_def Let_def frame_simps split: option.split bool.split json.split)

lemma fail_backup_frame [frame_simps]:
  "users (fail_backup gen now c d) = users d"
  "sessions (fail_backup gen now c d) = sessions d"
  "connectors (fail_backup gen now c d) = connectors d"
  "accounts (fail_backup gen now c d) = accounts d"
  "zones (fail_backup gen now c d) = zones d"
  "domains (fail_backup gen now c d) = domains d"
  "dns_records (fail_backup gen now c d) = dns_records d"
  "guided_operations (fail_backup gen now c d) = guided_operations d"
  "agents (fail_backup gen now c d) = agents d"
  "commands (fail_backup gen now c d) = commands d"
  "stacks (fail_backup gen now c d) = stacks d"
  "routes (fail_backup gen now c d) = routes d"
  "deployments (fail_backup gen now c d) = deployments d"
  "revisions (fail_backup gen now c d) = revisions d"
  "runs (fail_backup gen now c d) = runs d"
  "settings (fail_backup gen now c d) = settings d"
  "scopes (fail_backup gen now c d) = scopes d"
  "snapshots (fail_backup gen now c d) = snapshots d"
  "runtime_ops (fail_backup gen now c d) = runtime_ops d"
  "log_requests (fail_backup gen now c d) = log_requests d"
  "restores (fail_backup gen now c d) = restores d"
  "system_backups (fail_backup gen now c d) = system_backups d"
  "backup_imports (fail_backup gen now c d) = backup_imports d"
  "system_restores (fail_backup gen now c d) = system_restores d"
  "recovery_requests (fail_backup gen now c d) = recovery_requests d"
  "transfer_events (fail_backup gen now c d) = transfer_events d"
  by (simp_all add: fail_backup_def Let_def frame_simps split: option.split bool.split json.split)

lemma fail_restore_frame [frame_simps]:
  "users (fail_restore gen now c d) = users d"
  "sessions (fail_restore gen now c d) = sessions d"
  "connectors (fail_restore gen now c d) = connectors d"
  "accounts (fail_restore gen now c d) = accounts d"
  "zones (fail_restore gen now c d) = zones d"
  "domains (fail_restore gen now c d) = domains d"
  "dns_records (fail_restore gen now c d) = dns_records d"
  "guided_operations (fail_restore gen now c d) = guided_operations d"
  "agents (fail_restore gen now c d) = agents d"
  "commands (fail_restore gen now c d) = commands d"
  "stacks (fail_restore gen now c d) = stacks d"
  "routes (fail_restore gen now c d) = routes d"
  "deployments (fail_restore gen now c d) = deployments d"
  "revisions (fail_restore gen now c d) = revisions d"
  "runs (fail_restore gen now c d) = runs d"
  "settings (fail_restore gen now c d) = settings d"
  "scopes (fail_restore gen now c d) = scopes d"
  "snapshots (fail_restore gen now c d) = snapshots d"
  "runtime_ops (fail_restore gen now c d) = runtime_ops d"
  "log_requests (fail_restore gen now c d) = log_requests d"
  "backups (fail_restore gen now c d) = backups d"
  "system_backups (fail_restore gen now c d) = system_backups d"
  "backup_imports (fail_restore gen now c d) = backup_imports d"
  "system_restores (fail_restore gen now c d) = system_restores d"
  "recovery_requests (fail_restore gen now c d) = recovery_requests d"
  "transfer_events (fail_restore gen now c d) = transfer_events d"
  by (simp_all add: fail_restore_def Let_def frame_simps split: option.split bool.split json.split)

lemma fail_runtime_op_frame [frame_simps]:
  "users (fail_runtime_op gen now c d) = users d"
  "sessions (fail_runtime_op gen now c d) = sessions d"
  "connectors (fail_runtime_op gen now c d) = connectors d"
  "accounts (fail_runtime_op gen now c d) = accounts d"
  "zones (fail_runtime_op gen now c d) = zones d"
  "domains (fail_runtime_op gen now c d) = domains d"
  "dns_records (fail_runtime_op gen now c d) = dns_records d"
  "guided_operations (fail_runtime_op gen now c d) = guided_operations d"
  "agents (fail_runtime_op gen now c d) = agents d"
  "commands (fail_runtime_op gen now c d) = commands d"
  "stacks (fail_runtime_op gen now c d) = stacks d"
  "routes (fail_runtime_op gen now c d) = routes d"
  "deployments (fail_runtime_op gen now c d) = deployments d"
  "revisions (fail_runtime_op gen now c d) = revisions d"
  "runs (fail_runtime_op gen now c d) = runs d"
  "settings (fail_runtime_op gen now c d) = settings d"
  "scopes (fail_runtime_op gen now c d) = scopes d"
  "snapshots (fail_runtime_op gen now c d) = snapshots d"
  "log_requests (fail_runtime_op gen now c d) = log_requests d"
  "backups (fail_runtime_op gen now c d) = backups d"
  "restores (fail_runtime_op gen now c d) = restores d"
  "system_backups (fail_runtime_op gen now c d) = system_backups d"
  "backup_imports (fail_runtime_op gen now c d) = backup_imports d"
  "system_restores (fail_runtime_op gen now c d) = system_restores d"
  "recovery_requests (fail_runtime_op gen now c d) = recovery_requests d"
  "transfer_events (fail_runtime_op gen now c d) = transfer_events d"
  by (simp_all add: fail_runtime_op_def Let_def frame_simps split: option.split bool.split json.split)

lemma fail_log_request_frame [frame_simps]:
  "users (fail_log_request now c d) = users d"
  "sessions (fail_log_request now c d) = sessions d"
  "connectors (fail_log_request now c d) = connectors d"
  "accounts (fail_log_request now c d) = accounts d"
  "zones (fail_log_request now c d) = zones d"
  "domains (fail_log_request now c d) = domains d"
  "dns_records (fail_log_request now c d) = dns_records d"
  "guided_operations (fail_log_request now c d) = guided_operations d"
  "agents (fail_log_request now c d) = agents d"
  "commands (fail_log_request now c d) = commands d"
  "stacks (fail_log_request now c d) = stacks d"
  "routes (fail_log_request now c d) = routes d"
  "deployments (fail_log_request now c d) = deployments d"
  "revisions (fail_log_request now c d) = revisions d"
  "runs (fail_log_request now c d) = runs d"
  "settings (fail_log_request now c d) = settings d"
  "scopes (fail_log_request now c d) = scopes d"
  "snapshots (fail_log_request now c d) = snapshots d"
  "runtime_ops (fail_log_request now c d) = runtime_ops d"
  "backups (fail_log_request now c d) = backups d"
  "restores (fail_log_request now c d) = restores d"
  "system_backups (fail_log_request now c d) = system_backups d"
  "backup_imports (fail_log_request now c d) = backup_imports d"
  "system_restores (fail_log_request now c d) = system_restores d"
  "recovery_requests (fail_log_request now c d) = recovery_requests d"
  "transfer_events (fail_log_request now c d) = transfer_events d"
  "events (fail_log_request now c d) = events d"
  "deliveries (fail_log_request now c d) = deliveries d"
  "draws (fail_log_request now c d) = draws d"
  by (simp_all add: fail_log_request_def Let_def frame_simps split: option.split bool.split json.split)

lemma fail_run_frame [frame_simps]:
  "users (fail_run now c d) = users d"
  "sessions (fail_run now c d) = sessions d"
  "connectors (fail_run now c d) = connectors d"
  "accounts (fail_run now c d) = accounts d"
  "zones (fail_run now c d) = zones d"
  "domains (fail_run now c d) = domains d"
  "dns_records (fail_run now c d) = dns_records d"
  "guided_operations (fail_run now c d) = guided_operations d"
  "agents (fail_run now c d) = agents d"
  "commands (fail_run now c d) = commands d"
  "stacks (fail_run now c d) = stacks d"
  "routes (fail_run now c d) = routes d"
  "revisions (fail_run now c d) = revisions d"
  "settings (fail_run now c d) = settings d"
  "scopes (fail_run now c d) = scopes d"
  "snapshots (fail_run now c d) = snapshots d"
  "runtime_ops (fail_run now c d) = runtime_ops d"
  "log_requests (fail_run now c d) = log_requests d"
  "backups (fail_run now c d) = backups d"
  "restores (fail_run now c d) = restores d"
  "system_backups (fail_run now c d) = system_backups d"
  "backup_imports (fail_run now c d) = backup_imports d"
  "system_restores (fail_run now c d) = system_restores d"
  "recovery_requests (fail_run now c d) = recovery_requests d"
  "transfer_events (fail_run now c d) = transfer_events d"
  "events (fail_run now c d) = events d"
  "deliveries (fail_run now c d) = deliveries d"
  "draws (fail_run now c d) = draws d"
  by (simp_all add: fail_run_def Let_def frame_simps split: option.split bool.split json.split)
section \<open>Tables of operations, as one update each\<close>

lemma start_operation_rows:
  "backups (start_operation now a c d) = update_rows (\<lambda>r. cmd_type c = ''stack.backup.create''
     \<and> Some (bkp_id r) = payload_id c ''backupId'' \<and> bkp_status r = OpPending) (start_backup now) (backups d)"
  "restores (start_operation now a c d) = update_rows (\<lambda>r. cmd_type c = ''stack.restore.apply''
     \<and> Some (rst_id r) = payload_id c ''restoreId'' \<and> rst_status r = OpPending) (start_restore now) (restores d)"
  "runtime_ops (start_operation now a c d) = update_rows (\<lambda>r. cmd_type c = ''compose.runtime.action''
     \<and> Some (rop_id r) = payload_id c ''operationId'' \<and> rop_agent_id r = a \<and> rop_status r = OpPending)
     (start_runtime_op now) (runtime_ops d)"
  "log_requests (start_operation now a c d) = update_rows (\<lambda>r. cmd_type c = ''compose.runtime.logs''
     \<and> Some (lrq_id r) = payload_id c ''requestId'' \<and> lrq_agent_id r = a \<and> lrq_status r = OpPending)
     (start_log_request now) (log_requests d)"
  "runs (start_operation now a c d) = update_rows (\<lambda>r. cmd_type c = ''deployment.compose.apply''
     \<and> Some (run_id r) = payload_id c ''runId'' \<and> run_agent_id r = a \<and> run_status r = OpPending) (start_run now) (runs d)"
  by (simp_all add: start_operation_def update_rows_def split: option.split)

lemma complete_backup_rows:
  "backups (complete_backup gen now a c s res d) =
     update_rows (\<lambda>r. cmd_type c = ''stack.backup.create'' \<and> payload_id c ''backupId'' = Some (bkp_id r) \<and> bkp_agent_id r = a)
       (completed_backup now s res) (backups d)"
  by (cases "payload_id c ''backupId''")
    (auto simp: complete_backup_def Let_def frame_simps update_rows_def split: option.split bool.split)

lemma complete_restore_rows:
  "restores (complete_restore gen now a c s res d) =
     update_rows (\<lambda>r. cmd_type c = ''stack.restore.apply'' \<and> payload_id c ''restoreId'' = Some (rst_id r) \<and> rst_agent_id r = a)
       (completed_restore now s res) (restores d)"
  by (cases "payload_id c ''restoreId''")
    (auto simp: complete_restore_def Let_def frame_simps update_rows_def split: option.split bool.split)

lemma complete_runtime_op_rows:
  "runtime_ops (complete_runtime_op gen now a c s res d) =
     update_rows (\<lambda>r. cmd_type c = ''compose.runtime.action'' \<and> payload_id c ''operationId'' = Some (rop_id r)
         \<and> rop_agent_id r = a \<and> live_op (rop_status r))
       (completed_runtime_op now s res) (runtime_ops d)"
  by (cases "payload_id c ''operationId''")
    (auto simp: complete_runtime_op_def Let_def frame_simps update_rows_def split: option.split bool.split)

lemma complete_log_request_rows:
  "log_requests (complete_log_request now a c s res d) =
     update_rows (\<lambda>r. cmd_type c = ''compose.runtime.logs'' \<and> payload_id c ''requestId'' = Some (lrq_id r)
         \<and> lrq_agent_id r = a \<and> live_op (lrq_status r))
       (completed_log_request now s res) (log_requests d)"
  by (cases "payload_id c ''requestId''")
    (auto simp: complete_log_request_def Let_def frame_simps update_rows_def split: option.split bool.split)

lemma complete_run_rows:
  "runs (complete_run gen now a c s res d) =
     update_rows (\<lambda>r. cmd_type c = ''deployment.compose.apply'' \<and> payload_id c ''runId'' = Some (run_id r)
         \<and> run_agent_id r = a \<and> live_op (run_status r))
       (completed_run now s res) (runs d)"
  by (cases "payload_id c ''runId''")
    (auto simp: complete_run_def Let_def frame_simps update_rows_def split: option.split bool.split)

definition run_under :: "uuid \<Rightarrow> command_row \<Rightarrow> db \<Rightarrow> run_row option" where
  "run_under a c d =
     (if cmd_type c = ''deployment.compose.apply''
      then find (\<lambda>r. payload_id c ''runId'' = Some (run_id r) \<and> run_agent_id r = a \<and> live_op (run_status r)) (runs d)
      else None)"

lemma complete_run_deployments:
  "deployments (complete_run gen now a c s res d) =
     (case run_under a c d of
        None \<Rightarrow> deployments d
      | Some r \<Rightarrow> update_rows (\<lambda>t. dpl_id t = run_deployment_id r \<and> dpl_agent_id t = a)
          (completed_deployment now s r) (deployments d))"
proof (cases "cmd_type c = ''deployment.compose.apply''")
  case True
  show ?thesis
  proof (cases "payload_id c ''runId''")
    case None
    then have "find (\<lambda>r. payload_id c ''runId'' = Some (run_id r) \<and> run_agent_id r = a \<and> live_op (run_status r)) (runs d) = None"
      by (simp add: find_none_iff)
    with None True show ?thesis by (simp add: complete_run_def run_under_def)
  next
    case (Some i)
    have "run_under a c d = find (\<lambda>r. run_id r = i \<and> run_agent_id r = a \<and> live_op (run_status r)) (runs d)"
      using Some True by (simp add: run_under_def eq_commute [of i])
    with Some True show ?thesis
      by (simp add: complete_run_def Let_def frame_simps split: option.split)
  qed
qed (simp add: complete_run_def run_under_def split: bool.split option.split)

section \<open>Completing a command\<close>

text \<open>
  A completion that is accepted closes a claimed command of the agent and settles, in the tables
  of operations, exactly the rows the payload names.
\<close>

definition same_outcome :: "command_row \<Rightarrow> CommandStatus \<Rightarrow> jobj \<Rightarrow> bool" where
  "same_outcome c s result \<longleftrightarrow> cmd_status c = s
     \<and> (case cmd_result c of None \<Rightarrow> False | Some r \<Rightarrow> jsonb_eq (JObj r) (JObj (command_result (cmd_type c) result)))"

definition the_command :: "uuid \<Rightarrow> uuid \<Rightarrow> db \<Rightarrow> command_row option" where
  "the_command a i d = find (\<lambda>c. cmd_id c = i \<and> cmd_agent_id c = a) (commands d)"

definition completed_db :: "(nat \<Rightarrow> uuid) \<Rightarrow> time \<Rightarrow> uuid \<Rightarrow> uuid \<Rightarrow> CommandStatus \<Rightarrow> jobj \<Rightarrow> command_row \<Rightarrow> db \<Rightarrow> db" where
  "completed_db gen now a i s result c d = complete_run gen now a c s result (complete_log_request now a c s result
     (complete_runtime_op gen now a c s result (complete_restore gen now a c s result
     (complete_backup gen now a c s result (report_sync_failure gen now a c s (complete_route now a c s
     (complete_stack now a c s (complete_connector now a c s result (complete_agent now a (cmd_type c) s result
       (d\<lparr>commands := update_rows (\<lambda>r. cmd_id r = i \<and> cmd_agent_id r = a)
          (close_command now s (command_result (cmd_type c) result)) (commands d)\<rparr>))))))))))"

lemma completeCommand_cases:
  "completeCommand gen now a i s result d =
     (case the_command a i d of
        None \<Rightarrow> (Missing, d)
      | Some c \<Rightarrow>
          if same_outcome c s result then (Idempotent, d)
          else if cmd_status c \<noteq> CmdClaimed then (Conflict, d)
          else if unstorable_diagnostics (cmd_type c) s result then (CompletionRaised, d)
          else (Updated, completed_db gen now a i s result c d))"
  unfolding completeCommand_def the_command_def same_outcome_def completed_db_def Let_def ..

lemma completed_db_frame [frame_simps]:
  "users (completed_db gen now a i s result c d) = users d"
  "sessions (completed_db gen now a i s result c d) = sessions d"
  "accounts (completed_db gen now a i s result c d) = accounts d"
  "zones (completed_db gen now a i s result c d) = zones d"
  "domains (completed_db gen now a i s result c d) = domains d"
  "dns_records (completed_db gen now a i s result c d) = dns_records d"
  "guided_operations (completed_db gen now a i s result c d) = guided_operations d"
  "revisions (completed_db gen now a i s result c d) = revisions d"
  "settings (completed_db gen now a i s result c d) = settings d"
  "scopes (completed_db gen now a i s result c d) = scopes d"
  "snapshots (completed_db gen now a i s result c d) = snapshots d"
  "system_backups (completed_db gen now a i s result c d) = system_backups d"
  "backup_imports (completed_db gen now a i s result c d) = backup_imports d"
  "system_restores (completed_db gen now a i s result c d) = system_restores d"
  "recovery_requests (completed_db gen now a i s result c d) = recovery_requests d"
  "transfer_events (completed_db gen now a i s result c d) = transfer_events d"
  by (simp_all add: completed_db_def frame_simps)

lemma completed_db_rows:
  "commands (completed_db gen now a i s result c d) = update_rows (\<lambda>r. cmd_id r = i \<and> cmd_agent_id r = a)
     (close_command now s (command_result (cmd_type c) result)) (commands d)"
  "backups (completed_db gen now a i s result c d) =
     update_rows (\<lambda>r. cmd_type c = ''stack.backup.create'' \<and> payload_id c ''backupId'' = Some (bkp_id r) \<and> bkp_agent_id r = a)
       (completed_backup now s result) (backups d)"
  "restores (completed_db gen now a i s result c d) =
     update_rows (\<lambda>r. cmd_type c = ''stack.restore.apply'' \<and> payload_id c ''restoreId'' = Some (rst_id r) \<and> rst_agent_id r = a)
       (completed_restore now s result) (restores d)"
  "runtime_ops (completed_db gen now a i s result c d) =
     update_rows (\<lambda>r. cmd_type c = ''compose.runtime.action'' \<and> payload_id c ''operationId'' = Some (rop_id r)
         \<and> rop_agent_id r = a \<and> live_op (rop_status r))
       (completed_runtime_op now s result) (runtime_ops d)"
  "log_requests (completed_db gen now a i s result c d) =
     update_rows (\<lambda>r. cmd_type c = ''compose.runtime.logs'' \<and> payload_id c ''requestId'' = Some (lrq_id r)
         \<and> lrq_agent_id r = a \<and> live_op (lrq_status r))
       (completed_log_request now s result) (log_requests d)"
  "runs (completed_db gen now a i s result c d) =
     update_rows (\<lambda>r. cmd_type c = ''deployment.compose.apply'' \<and> payload_id c ''runId'' = Some (run_id r)
         \<and> run_agent_id r = a \<and> live_op (run_status r))
       (completed_run now s result) (runs d)"
  by (simp_all add: completed_db_def frame_simps complete_backup_rows complete_restore_rows
      complete_runtime_op_rows complete_log_request_rows complete_run_rows)

lemma completed_db_deployments:
  "deployments (completed_db gen now a i s result c d) =
     (case run_under a c d of
        None \<Rightarrow> deployments d
      | Some r \<Rightarrow> update_rows (\<lambda>t. dpl_id t = run_deployment_id r \<and> dpl_agent_id t = a)
          (completed_deployment now s r) (deployments d))"
  by (simp add: completed_db_def complete_run_deployments run_under_def frame_simps split: option.split)

section \<open>Failing a stale command\<close>

lemma stack_project_frame [frame_simps]:
  "stack_project i (fail_connector now c d) = stack_project i d"
  "stack_project i (fail_backup gen now c d) = stack_project i d"
  "stack_project i (fail_operation gen now c d) = stack_project i d"
  by (simp_all add: stack_project_def fail_operation_def Let_def frame_simps)

lemma fail_backup_rows:
  "backups (fail_backup gen now c d) =
     update_rows (\<lambda>r. cmd_type c = ''stack.backup.create'' \<and> bkp_command_id r = cmd_id c \<and> live_op (bkp_status r)
         \<and> stack_project (bkp_stack_id r) d \<noteq> None) (stale_backup now) (backups d)"
  by (auto simp: fail_backup_def Let_def frame_simps update_rows_def split: option.split)

lemma fail_restore_rows:
  "restores (fail_restore gen now c d) =
     update_rows (\<lambda>r. cmd_type c = ''stack.restore.apply'' \<and> rst_command_id r = cmd_id c \<and> live_op (rst_status r)
         \<and> stack_project (rst_stack_id r) d \<noteq> None) (stale_restore now) (restores d)"
  by (auto simp: fail_restore_def Let_def frame_simps update_rows_def split: option.split)

lemma fail_runtime_op_rows:
  "runtime_ops (fail_runtime_op gen now c d) =
     update_rows (\<lambda>r. cmd_type c = ''compose.runtime.action'' \<and> rop_command_id r = Some (cmd_id c) \<and> live_op (rop_status r))
       (stale_runtime_op now) (runtime_ops d)"
  by (auto simp: fail_runtime_op_def Let_def frame_simps update_rows_def split: option.split)

lemma fail_log_request_rows:
  "log_requests (fail_log_request now c d) =
     update_rows (\<lambda>r. cmd_type c = ''compose.runtime.logs'' \<and> lrq_command_id r = Some (cmd_id c) \<and> live_op (lrq_status r))
       (stale_log_request now) (log_requests d)"
  by (auto simp: fail_log_request_def update_rows_def)

lemma fail_run_rows:
  "runs (fail_run now c d) =
     update_rows (\<lambda>r. cmd_type c = ''deployment.compose.apply'' \<and> run_command_id r = cmd_id c \<and> live_op (run_status r))
       (stale_run now) (runs d)"
  by (auto simp: fail_run_def Let_def update_rows_def split: option.split)

definition failed_deployment :: "time \<Rightarrow> deployment_row \<Rightarrow> deployment_row" where
  "failed_deployment now t = t\<lparr>dpl_status := DsFailed, dpl_updated_at := now\<rparr>"

definition run_of_command :: "command_row \<Rightarrow> db \<Rightarrow> run_row option" where
  "run_of_command c d =
     (if cmd_type c = ''deployment.compose.apply''
      then find (\<lambda>r. run_command_id r = cmd_id c \<and> live_op (run_status r)) (runs d) else None)"

lemma fail_run_deployments:
  "deployments (fail_run now c d) =
     (case run_of_command c d of
        None \<Rightarrow> deployments d
      | Some r \<Rightarrow> update_rows (\<lambda>t. dpl_id t = run_deployment_id r) (failed_deployment now) (deployments d))"
  by (simp add: fail_run_def run_of_command_def failed_deployment_def Let_def update_rows_def split: option.split)

lemma fail_operation_frame [frame_simps]:
  "users (fail_operation gen now c d) = users d"
  "sessions (fail_operation gen now c d) = sessions d"
  "accounts (fail_operation gen now c d) = accounts d"
  "zones (fail_operation gen now c d) = zones d"
  "domains (fail_operation gen now c d) = domains d"
  "dns_records (fail_operation gen now c d) = dns_records d"
  "guided_operations (fail_operation gen now c d) = guided_operations d"
  "agents (fail_operation gen now c d) = agents d"
  "commands (fail_operation gen now c d) = commands d"
  "stacks (fail_operation gen now c d) = stacks d"
  "routes (fail_operation gen now c d) = routes d"
  "revisions (fail_operation gen now c d) = revisions d"
  "settings (fail_operation gen now c d) = settings d"
  "scopes (fail_operation gen now c d) = scopes d"
  "snapshots (fail_operation gen now c d) = snapshots d"
  "system_backups (fail_operation gen now c d) = system_backups d"
  "backup_imports (fail_operation gen now c d) = backup_imports d"
  "system_restores (fail_operation gen now c d) = system_restores d"
  "recovery_requests (fail_operation gen now c d) = recovery_requests d"
  "transfer_events (fail_operation gen now c d) = transfer_events d"
  by (simp_all add: fail_operation_def Let_def frame_simps)

lemma fail_operation_rows:
  "backups (fail_operation gen now c d) =
     update_rows (\<lambda>r. cmd_type c = ''stack.backup.create'' \<and> bkp_command_id r = cmd_id c \<and> live_op (bkp_status r)
         \<and> stack_project (bkp_stack_id r) d \<noteq> None) (stale_backup now) (backups d)"
  "restores (fail_operation gen now c d) =
     update_rows (\<lambda>r. cmd_type c = ''stack.restore.apply'' \<and> rst_command_id r = cmd_id c \<and> live_op (rst_status r)
         \<and> stack_project (rst_stack_id r) d \<noteq> None) (stale_restore now) (restores d)"
  "runtime_ops (fail_operation gen now c d) =
     update_rows (\<lambda>r. cmd_type c = ''compose.runtime.action'' \<and> rop_command_id r = Some (cmd_id c) \<and> live_op (rop_status r))
       (stale_runtime_op now) (runtime_ops d)"
  "log_requests (fail_operation gen now c d) =
     update_rows (\<lambda>r. cmd_type c = ''compose.runtime.logs'' \<and> lrq_command_id r = Some (cmd_id c) \<and> live_op (lrq_status r))
       (stale_log_request now) (log_requests d)"
  "runs (fail_operation gen now c d) =
     update_rows (\<lambda>r. cmd_type c = ''deployment.compose.apply'' \<and> run_command_id r = cmd_id c \<and> live_op (run_status r))
       (stale_run now) (runs d)"
  by (simp_all add: fail_operation_def Let_def frame_simps fail_backup_rows fail_restore_rows
      fail_runtime_op_rows fail_log_request_rows fail_run_rows)

lemma fail_operation_deployments:
  "deployments (fail_operation gen now c d) =
     (case run_of_command c d of
        None \<Rightarrow> deployments d
      | Some r \<Rightarrow> update_rows (\<lambda>t. dpl_id t = run_deployment_id r) (failed_deployment now) (deployments d))"
  by (simp add: fail_operation_def Let_def fail_run_deployments run_of_command_def frame_simps split: option.split)

text \<open>
  A pass over a list of commands: what every command of the list preserves, the pass preserves.
\<close>

lemma fold_invariant:
  assumes "I d" "\<And>c d. c \<in> set cs \<Longrightarrow> I d \<Longrightarrow> I (f c d)"
  shows "I (fold f cs d)"
  using assms by (induction cs arbitrary: d) auto

lemma fold_frame:
  assumes "\<And>c d. g (f c d) = g d"
  shows "g (fold f cs d) = g d"
  by (induction cs arbitrary: d) (simp_all add: assms)

end
