(* ===== verification/Gw_Live.thy ===== *)
theory Gw_Live
  imports Gw_Effects
begin

text \<open>
  Operations and the commands that carry them. A backup, a restore, a runtime operation, a log
  request or a deployment run that is under way is tied to one command of its agent, and that
  command is itself pending or claimed: it can still be completed, or failed when it grows
  stale. No part of the life of a command breaks the tie.
\<close>

section \<open>Links\<close>

text \<open>
  A link: the command, the agent, the type of the command, the key and the identifier in its
  payload, and when both were created.
\<close>

type_synonym link = "uuid option \<times> uuid \<times> string \<times> string \<times> uuid \<times> time"

definition backup_links :: "db \<Rightarrow> link list" where
  "backup_links d = map (\<lambda>r. (Some (bkp_command_id r), bkp_agent_id r, ''stack.backup.create'', ''backupId'', bkp_id r, bkp_created_at r))
     (filter (\<lambda>r. live_op (bkp_status r)) (backups d))"

definition restore_links :: "db \<Rightarrow> link list" where
  "restore_links d = map (\<lambda>r. (Some (rst_command_id r), rst_agent_id r, ''stack.restore.apply'', ''restoreId'', rst_id r, rst_created_at r))
     (filter (\<lambda>r. live_op (rst_status r)) (restores d))"

definition runtime_links :: "db \<Rightarrow> link list" where
  "runtime_links d = map (\<lambda>r. (rop_command_id r, rop_agent_id r, ''compose.runtime.action'', ''operationId'', rop_id r, rop_created_at r))
     (filter (\<lambda>r. live_op (rop_status r)) (runtime_ops d))"

definition log_links :: "db \<Rightarrow> link list" where
  "log_links d = map (\<lambda>r. (lrq_command_id r, lrq_agent_id r, ''compose.runtime.logs'', ''requestId'', lrq_id r, lrq_created_at r))
     (filter (\<lambda>r. live_op (lrq_status r)) (log_requests d))"

definition run_links :: "db \<Rightarrow> link list" where
  "run_links d = map (\<lambda>r. (Some (run_command_id r), run_agent_id r, ''deployment.compose.apply'', ''runId'', run_id r, run_created_at r))
     (filter (\<lambda>r. live_op (run_status r)) (runs d))"

lemmas link_defs = backup_links_def restore_links_def runtime_links_def log_links_def run_links_def

definition live_links :: "db \<Rightarrow> link set" where
  "live_links d = set (backup_links d) \<union> set (restore_links d) \<union> set (runtime_links d) \<union> set (log_links d) \<union> set (run_links d)"

definition carries :: "command_row \<Rightarrow> link \<Rightarrow> bool" where
  "carries c l \<longleftrightarrow> live_command c
     \<and> (\<exists>k i. l = (Some (cmd_id c), cmd_agent_id c, cmd_type c, k, i, cmd_created_at c) \<and> cmd_payload c = [(k, JStr i)])"

definition stacks_known :: "db \<Rightarrow> bool" where
  "stacks_known d \<longleftrightarrow> (\<forall>b \<in> set (backups d). stack_project (bkp_stack_id b) d \<noteq> None)
     \<and> (\<forall>r \<in> set (restores d). stack_project (rst_stack_id r) d \<noteq> None)"

definition links_ok :: "db \<Rightarrow> bool" where
  "links_ok d \<longleftrightarrow> (\<forall>l \<in> live_links d. \<exists>c \<in> set (commands d). carries c l) \<and> stacks_known d"

lemma links_ok_empty: "links_ok empty_db"
  by (simp add: links_ok_def live_links_def link_defs stacks_known_def empty_db_def)

lemma carries_live: "carries c l \<Longrightarrow> live_command c"
  by (simp add: carries_def)

lemma carries_id: "carries c l \<Longrightarrow> fst l = Some (cmd_id c)"
  by (auto simp: carries_def)

lemma carries_type: "carries c l \<Longrightarrow> fst (snd (snd l)) = cmd_type c"
  by (auto simp: carries_def)

lemma carries_created: "carries c l \<Longrightarrow> snd (snd (snd (snd (snd l)))) = cmd_created_at c"
  by (auto simp: carries_def)

lemma carries_payload:
  "carries c (ci, a, t, k, i, n) \<Longrightarrow> a = cmd_agent_id c \<and> t = cmd_type c \<and> payload_id c k = Some i"
  by (auto simp: carries_def payload_id_def as_string_def jprop_def)

lemma carries_claimed: "carries c l \<Longrightarrow> carries (claimed_command now c) l"
  by (auto simp: carries_def claimed_command_def live_command_def)

lemma carries_new:
  "carries (new_command ci now a t [(k, JStr i)]) (Some ci, a, t, k, i, now)"
  by (simp add: carries_def live_command_def)

lemma stacks_known_frame:
  "stacks_known d \<Longrightarrow> backups e = backups d \<Longrightarrow> restores e = restores d \<Longrightarrow> stacks e = stacks d \<Longrightarrow> stacks_known e"
  by (simp add: stacks_known_def stack_project_def)

lemma links_ok_frame:
  assumes ok: "links_ok d" and "stacks_known e"
    and sub: "live_links e \<subseteq> live_links d" and cmds: "set (commands d) \<subseteq> set (commands e)"
  shows "links_ok e"
  using assms unfolding links_ok_def by blast

lemma live_links_cong:
  "backups e = backups d \<Longrightarrow> restores e = restores d \<Longrightarrow> runtime_ops e = runtime_ops d \<Longrightarrow>
    log_requests e = log_requests d \<Longrightarrow> runs e = runs d \<Longrightarrow> live_links e = live_links d"
  by (simp add: live_links_def link_defs)

text \<open>A new operation comes with its command.\<close>

lemma links_ok_new:
  assumes ok: "links_ok d" and known: "stacks_known e"
    and links: "live_links e \<subseteq> insert (Some ci, a, t, k, i, now) (live_links d)"
    and cmds: "commands e = commands d @ [new_command ci now a t [(k, JStr i)]]"
  shows "links_ok e"
  unfolding links_ok_def
proof (intro conjI ballI)
  fix l
  assume "l \<in> live_links e"
  with links consider (new) "l = (Some ci, a, t, k, i, now)" | (old) "l \<in> live_links d" by blast
  then show "\<exists>c \<in> set (commands e). carries c l"
  proof cases
    case new
    then show ?thesis by (auto simp: cmds carries_new)
  next
    case old
    with ok show ?thesis by (auto simp: links_ok_def cmds)
  qed
qed (rule known)

text \<open>Rewriting commands keeps the links when it keeps what the commands carry.\<close>

lemma links_ok_commands:
  assumes ok: "links_ok d" and "stacks_known e"
    and sub: "live_links e \<subseteq> live_links d" and cmds: "commands e = update_rows P f (commands d)"
    and keep: "\<And>c l. c \<in> set (commands d) \<Longrightarrow> l \<in> live_links e \<Longrightarrow> P c \<Longrightarrow> carries c l \<Longrightarrow> carries (f c) l"
  shows "links_ok e"
  unfolding links_ok_def
proof (intro conjI ballI)
  fix l
  assume l: "l \<in> live_links e"
  with sub ok obtain c where c: "c \<in> set (commands d)" "carries c l" by (auto simp: links_ok_def)
  with keep [OF c(1) l] have "carries (if P c then f c else c) l" by simp
  moreover have "(if P c then f c else c) \<in> set (commands e)"
    using c(1) by (simp add: cmds set_update_rows)
  ultimately show "\<exists>c \<in> set (commands e). carries c l" by blast
qed (rule assms(2))

section \<open>Updates of the operations\<close>

lemma map_filter_update_same:
  assumes "\<And>r. P r \<Longrightarrow> live (f r) = live r" "\<And>r. P r \<Longrightarrow> g (f r) = g r"
  shows "map g (filter live (update_rows P f t)) = map g (filter live t)"
  using assms by (induction t) auto

text \<open>An update that settles the rows it touches only takes links away.\<close>

lemma settle_links:
  assumes "l \<in> set (map g (filter live (update_rows P f t)))" "\<And>r. P r \<Longrightarrow> \<not> live (f r)"
  shows "\<exists>r \<in> set t. l = g r \<and> live r \<and> \<not> P r"
  using assms by (induction t) (auto split: if_splits)

lemma live_links_start: "live_links (start_operation now a c d) = live_links d"
proof -
  have "backup_links (start_operation now a c d) = backup_links d"
    unfolding backup_links_def start_operation_rows
    by (rule map_filter_update_same) (simp_all add: start_backup_def live_op_def)
  moreover have "restore_links (start_operation now a c d) = restore_links d"
    unfolding restore_links_def start_operation_rows
    by (rule map_filter_update_same) (simp_all add: start_restore_def live_op_def)
  moreover have "runtime_links (start_operation now a c d) = runtime_links d"
    unfolding runtime_links_def start_operation_rows
    by (rule map_filter_update_same) (simp_all add: start_runtime_op_def live_op_def)
  moreover have "log_links (start_operation now a c d) = log_links d"
    unfolding log_links_def start_operation_rows
    by (rule map_filter_update_same) (simp_all add: start_log_request_def live_op_def)
  moreover have "run_links (start_operation now a c d) = run_links d"
    unfolding run_links_def start_operation_rows
    by (rule map_filter_update_same) (simp_all add: start_run_def live_op_def)
  ultimately show ?thesis by (simp add: live_links_def)
qed

lemma stacks_known_start: "stacks_known d \<Longrightarrow> stacks_known (start_operation now a c d)"
  unfolding stacks_known_def start_operation_rows
  by (auto simp: set_update_rows stack_project_def frame_simps start_backup_def start_restore_def)

section \<open>Claiming, completing and failing\<close>

definition polled :: "time \<Rightarrow> uuid \<Rightarrow> db \<Rightarrow> db" where
  "polled now a d = d\<lparr>agents := update_rows (\<lambda>r. ag_id r = a \<and> ag_enabled r)
     (\<lambda>r. r\<lparr>ag_last_command_poll_at := Some now\<rparr>) (agents d)\<rparr>"

definition claims :: "time \<Rightarrow> uuid \<Rightarrow> nat \<Rightarrow> db \<Rightarrow> command_row \<Rightarrow> bool" where
  "claims now a n d c \<longleftrightarrow> cmd_id c \<in> set (selected_commands now a n d)"

lemma selected_polled [simp]: "selected_commands now a n (polled now' b d) = selected_commands now a n d"
  by (simp add: selected_commands_def polled_def)

lemma claimCommands_eq:
  "claimCommands now a n d =
     (map command (returning (claims now a n d) (claimed_command now) (commands d)),
      fold (start_operation now a) (returning (claims now a n d) (claimed_command now) (commands d))
        ((polled now a d)\<lparr>commands := update_rows (claims now a n d) (claimed_command now) (commands d)\<rparr>))"
  by (simp add: claimCommands_def claims_def [abs_def] Let_def selected_commands_def polled_def)

lemma claim_ok:
  assumes ok: "links_ok d"
  shows "links_ok (snd (claimCommands now a n d))"
proof -
  let ?e = "(polled now a d)\<lparr>commands := update_rows (claims now a n d) (claimed_command now) (commands d)\<rparr>"
  have known: "stacks_known ?e"
    by (rule stacks_known_frame [of d]) (use ok in \<open>simp_all add: links_ok_def polled_def\<close>)
  have "links_ok ?e"
  proof (rule links_ok_commands [OF ok known, where P = "claims now a n d" and f = "claimed_command now"])
    show "live_links ?e \<subseteq> live_links d"
      using live_links_cong [of ?e d] by (simp add: polled_def)
  qed (simp_all add: carries_claimed)
  then have "links_ok (fold (start_operation now a) cs ?e)" for cs
    by (rule fold_invariant)
      (simp add: links_ok_def live_links_start stacks_known_start frame_simps)
  then show ?thesis by (simp add: claimCommands_eq)
qed

lemma closed_not_live: "\<not> live_command (close_command now s r c)" if "s = CmdSucceeded \<or> s = CmdFailed"
  using that by (auto simp: live_command_def close_command_def)

text \<open>
  An accepted completion takes away the links of the command it closes, and no other.
\<close>

lemma completed_links:
  assumes l: "l \<in> live_links (completed_db gen now a i s res c d)"
    and s: "s = CmdSucceeded \<or> s = CmdFailed"
  shows "l \<in> live_links d \<and> \<not> (cmd_agent_id c = a \<and> carries c l)"
proof -
  let ?e = "completed_db gen now a i s res c d"
  have over: "\<not> live_op (op_status_of s)" using s by (auto simp: op_status_of_def live_op_def)
  from l consider (b) "l \<in> set (backup_links ?e)" | (r) "l \<in> set (restore_links ?e)"
    | (o) "l \<in> set (runtime_links ?e)" | (g) "l \<in> set (log_links ?e)" | (n) "l \<in> set (run_links ?e)"
    by (auto simp: live_links_def)
  then show ?thesis
  proof cases
    case b
    obtain r where "r \<in> set (backups d)" "live_op (bkp_status r)"
        "\<not> (cmd_type c = ''stack.backup.create'' \<and> payload_id c ''backupId'' = Some (bkp_id r) \<and> bkp_agent_id r = a)"
        "l = (Some (bkp_command_id r), bkp_agent_id r, ''stack.backup.create'', ''backupId'', bkp_id r, bkp_created_at r)"
      using settle_links [OF b [unfolded backup_links_def completed_db_rows]] over
      by (auto simp: completed_backup_def)
    then show ?thesis by (auto simp: live_links_def backup_links_def dest: carries_payload)
  next
    case r
    obtain r where "r \<in> set (restores d)" "live_op (rst_status r)"
        "\<not> (cmd_type c = ''stack.restore.apply'' \<and> payload_id c ''restoreId'' = Some (rst_id r) \<and> rst_agent_id r = a)"
        "l = (Some (rst_command_id r), rst_agent_id r, ''stack.restore.apply'', ''restoreId'', rst_id r, rst_created_at r)"
      using settle_links [OF r [unfolded restore_links_def completed_db_rows]] over
      by (auto simp: completed_restore_def)
    then show ?thesis by (auto simp: live_links_def restore_links_def dest: carries_payload)
  next
    case o
    obtain r where "r \<in> set (runtime_ops d)" "live_op (rop_status r)"
        "\<not> (cmd_type c = ''compose.runtime.action'' \<and> payload_id c ''operationId'' = Some (rop_id r) \<and> rop_agent_id r = a)"
        "l = (rop_command_id r, rop_agent_id r, ''compose.runtime.action'', ''operationId'', rop_id r, rop_created_at r)"
      using settle_links [OF o [unfolded runtime_links_def completed_db_rows]] over
      by (auto simp: completed_runtime_op_def)
    then show ?thesis by (auto simp: live_links_def runtime_links_def dest: carries_payload)
  next
    case g
    obtain r where "r \<in> set (log_requests d)" "live_op (lrq_status r)"
        "\<not> (cmd_type c = ''compose.runtime.logs'' \<and> payload_id c ''requestId'' = Some (lrq_id r) \<and> lrq_agent_id r = a)"
        "l = (lrq_command_id r, lrq_agent_id r, ''compose.runtime.logs'', ''requestId'', lrq_id r, lrq_created_at r)"
      using settle_links [OF g [unfolded log_links_def completed_db_rows]] over
      by (auto simp: completed_log_request_def Let_def)
    then show ?thesis by (auto simp: live_links_def log_links_def dest: carries_payload)
  next
    case n
    obtain r where "r \<in> set (runs d)" "live_op (run_status r)"
        "\<not> (cmd_type c = ''deployment.compose.apply'' \<and> payload_id c ''runId'' = Some (run_id r) \<and> run_agent_id r = a)"
        "l = (Some (run_command_id r), run_agent_id r, ''deployment.compose.apply'', ''runId'', run_id r, run_created_at r)"
      using settle_links [OF n [unfolded run_links_def completed_db_rows]] over
      by (auto simp: completed_run_def)
    then show ?thesis by (auto simp: live_links_def run_links_def dest: carries_payload)
  qed
qed

lemma find_update_rows:
  "(\<And>r. P (f r) = P r) \<Longrightarrow> find P (update_rows Q f t) = map_option (\<lambda>r. if Q r then f r else r) (find P t)"
  by (induction t) auto

lemma stack_project_complete_stack: "stack_project i (complete_stack now a c s d) = stack_project i d"
  by (auto simp: stack_project_def complete_stack_def find_update_rows option.map_comp o_def if_distrib
      intro!: option.map_cong split: option.split)

lemma stack_project_completed: "stack_project i (completed_db gen now a k s res c d) = stack_project i d"
proof -
  have "stacks (completed_db gen now a k s res c d) = stacks (complete_stack now a c s
      (complete_connector now a c s res (complete_agent now a (cmd_type c) s res (d\<lparr>commands :=
        update_rows (\<lambda>r. cmd_id r = k \<and> cmd_agent_id r = a) (close_command now s (command_result (cmd_type c) res)) (commands d)\<rparr>))))"
    by (simp add: completed_db_def frame_simps)
  then have "stack_project i (completed_db gen now a k s res c d) = stack_project i (complete_stack now a c s
      (complete_connector now a c s res (complete_agent now a (cmd_type c) s res (d\<lparr>commands :=
        update_rows (\<lambda>r. cmd_id r = k \<and> cmd_agent_id r = a) (close_command now s (command_result (cmd_type c) res)) (commands d)\<rparr>))))"
    by (simp only: stack_project_def)
  then show ?thesis
    unfolding stack_project_complete_stack by (simp add: stack_project_def frame_simps)
qed

lemma complete_ok:
  assumes ok: "links_ok d" and dist: "distinct (map cmd_id (commands d))"
    and s: "s = CmdSucceeded \<or> s = CmdFailed"
  shows "links_ok (snd (completeCommand gen now a i s res d))"
proof (cases "fst (completeCommand gen now a i s res d) = Updated")
  case False
  then have "snd (completeCommand gen now a i s res d) = d"
    by (auto simp: completeCommand_cases split: option.splits if_splits)
  with ok show ?thesis by simp
next
  case True
  then obtain c where c: "the_command a i d = Some c"
    and e: "snd (completeCommand gen now a i s res d) = completed_db gen now a i s res c d"
    by (auto simp: completeCommand_cases split: option.splits if_splits)
  let ?e = "completed_db gen now a i s res c d"
  from c have mem: "c \<in> set (commands d)" "cmd_id c = i" "cmd_agent_id c = a"
    unfolding the_command_def by (auto dest: find_someD)
  have "stacks_known ?e"
    using ok unfolding links_ok_def stacks_known_def completed_db_rows
    by (auto simp: set_update_rows stack_project_completed completed_backup_def completed_restore_def)
  then have "links_ok ?e"
  proof (rule links_ok_commands [OF ok _ _ completed_db_rows(1)])
    show "live_links ?e \<subseteq> live_links d" using completed_links [OF _ s] by blast
    fix b l
    assume "b \<in> set (commands d)" "l \<in> live_links ?e" "cmd_id b = i \<and> cmd_agent_id b = a" "carries b l"
    moreover from this have "b = c" using distinct_key_eq [OF dist, of b c] mem by simp
    ultimately show "carries (close_command now s (command_result (cmd_type c) res) b) l"
      using completed_links [OF _ s] mem by blast
  qed
  with e show ?thesis by simp
qed

lemma stacks_known_fail: "stacks_known d \<Longrightarrow> stacks_known (fail_operation gen now c d)"
  unfolding stacks_known_def fail_operation_rows
  by (auto simp: set_update_rows frame_simps stale_backup_def stale_restore_def)

definition link_of :: "command_row \<Rightarrow> link \<Rightarrow> bool" where
  "link_of c l \<longleftrightarrow> fst l = Some (cmd_id c) \<and> fst (snd (snd l)) = cmd_type c"

lemma fail_operation_links:
  assumes l: "l \<in> live_links (fail_operation gen now c d)" and known: "stacks_known d"
  shows "l \<in> live_links d \<and> \<not> link_of c l"
proof -
  let ?e = "fail_operation gen now c d"
  have dead: "\<not> live_op OpFailed" by (simp add: live_op_def)
  from l consider (b) "l \<in> set (backup_links ?e)" | (r) "l \<in> set (restore_links ?e)"
    | (o) "l \<in> set (runtime_links ?e)" | (g) "l \<in> set (log_links ?e)" | (n) "l \<in> set (run_links ?e)"
    by (auto simp: live_links_def)
  then show ?thesis
  proof cases
    case b
    show ?thesis
      using settle_links [OF b [unfolded backup_links_def fail_operation_rows]] dead known
      by (auto simp: stale_backup_def stacks_known_def live_links_def backup_links_def link_of_def)
  next
    case r
    show ?thesis
      using settle_links [OF r [unfolded restore_links_def fail_operation_rows]] dead known
      by (auto simp: stale_restore_def stacks_known_def live_links_def restore_links_def link_of_def)
  next
    case o
    show ?thesis
      using settle_links [OF o [unfolded runtime_links_def fail_operation_rows]] dead
      by (auto simp: stale_runtime_op_def live_links_def runtime_links_def link_of_def)
  next
    case g
    show ?thesis
      using settle_links [OF g [unfolded log_links_def fail_operation_rows]] dead
      by (auto simp: stale_log_request_def live_links_def log_links_def link_of_def)
  next
    case n
    show ?thesis
      using settle_links [OF n [unfolded run_links_def fail_operation_rows]] dead
      by (auto simp: stale_run_def live_links_def run_links_def link_of_def)
  qed
qed

lemma fail_operations_links:
  assumes "l \<in> live_links (fold (fail_operation gen now) cs d)" "stacks_known d"
  shows "l \<in> live_links d \<and> (\<forall>c \<in> set cs. \<not> link_of c l)"
  using assms
proof (induction cs arbitrary: d)
  case (Cons c cs)
  have "l \<in> live_links (fail_operation gen now c d) \<and> (\<forall>c \<in> set cs. \<not> link_of c l)"
    using Cons by (simp add: stacks_known_fail)
  with Cons.prems(2) show ?case
    using fail_operation_links [of l gen now c d] by simp
qed simp

definition stale_db :: "time \<Rightarrow> time \<Rightarrow> db \<Rightarrow> db" where
  "stale_db now staleBefore d = d\<lparr>commands := update_rows (stale_command now staleBefore)
     (close_command now CmdFailed stale_result) (commands d)\<rparr>"

lemma failStaleCommands_eq:
  "failStaleCommands gen now t d =
     (length (filter (stale_command now t) (commands d)),
      fold (fail_operation gen now) (returning (stale_command now t) (close_command now CmdFailed stale_result) (commands d))
        (stale_db now t d))"
  by (simp add: failStaleCommands_def stale_db_def Let_def returning_def)

lemma fail_commands: "commands (snd (failStaleCommands gen now t d)) = commands (stale_db now t d)"
  by (simp add: failStaleCommands_eq fold_frame [where g = commands] frame_simps)

lemma fail_links:
  assumes ok: "links_ok d" and l: "l \<in> live_links (snd (failStaleCommands gen now t d))"
  shows "l \<in> live_links d" "c \<in> set (commands d) \<Longrightarrow> carries c l \<Longrightarrow> \<not> stale_command now t c"
proof -
  have same: "live_links (stale_db now t d) = live_links d"
    by (rule live_links_cong) (simp_all add: stale_db_def)
  have known: "stacks_known (stale_db now t d)"
    by (rule stacks_known_frame [of d]) (use ok in \<open>simp_all add: links_ok_def stale_db_def\<close>)
  note * = fail_operations_links [OF l [unfolded failStaleCommands_eq snd_conv] known]
  from * same show "l \<in> live_links d" by simp
  assume c: "c \<in> set (commands d)" "carries c l"
  show "\<not> stale_command now t c"
  proof
    assume "stale_command now t c"
    with c(1) have "close_command now CmdFailed stale_result c \<in>
        set (returning (stale_command now t) (close_command now CmdFailed stale_result) (commands d))"
      by (simp add: set_returning)
    with * have "\<not> link_of (close_command now CmdFailed stale_result c) l" by blast
    then show False
      using carries_id [OF c(2)] carries_type [OF c(2)] by (simp add: link_of_def close_command_def)
  qed
qed

lemma fail_ok:
  assumes ok: "links_ok d"
  shows "links_ok (snd (failStaleCommands gen now t d))"
proof -
  let ?e = "snd (failStaleCommands gen now t d)"
  have known: "stacks_known (stale_db now t d)"
    by (rule stacks_known_frame [of d]) (use ok in \<open>simp_all add: links_ok_def stale_db_def\<close>)
  then have "stacks_known ?e"
    unfolding failStaleCommands_eq snd_conv by (rule fold_invariant) (rule stacks_known_fail)
  then show ?thesis
    by (rule links_ok_commands [OF ok _ _ fail_commands [unfolded stale_db_def, simplified]])
      (use fail_links [OF ok] in blast)+
qed

text \<open>What is left under way after the pass is no older than the window.\<close>

lemma link_operation_type: "l \<in> live_links d \<Longrightarrow> operation_type (fst (snd (snd l)))"
  by (auto simp: live_links_def link_defs operation_type_def)

lemma fail_window:
  assumes ok: "links_ok d" and l: "l \<in> live_links (snd (failStaleCommands gen now t d))"
  shows "t \<le> snd (snd (snd (snd (snd l))))"
proof -
  have l': "l \<in> live_links d" using fail_links(1) [OF ok l] .
  with ok obtain c where c: "c \<in> set (commands d)" "carries c l" by (auto simp: links_ok_def)
  then have "\<not> stale_command now t c" using fail_links(2) [OF ok l] by blast
  with carries_live [OF c(2)] carries_type [OF c(2)] carries_created [OF c(2)] link_operation_type [OF l']
  show ?thesis by (simp add: stale_command_def)
qed

end
