(* ===== verification/Gw_Topology.thy ===== *)
theory Gw_Topology
  imports Gw_Live
begin

text \<open>
  Which agents and services notify: the tree of preferences shown to a user, and the two
  operations that switch an agent or one of its services on and off.
\<close>

section \<open>The tree of preferences\<close>

record topology_limits =
  max_agents :: nat
  max_services :: nat
  max_scopes :: nat

definition topology_agents :: "uuid option \<Rightarrow> db \<Rightarrow> agent_row list" where
  "topology_agents agentId d =
     sort_key ag_name (filter (\<lambda>a. ag_archived_at a = None \<and> (agentId = None \<or> agentId = Some (ag_id a))) (agents d))"

text \<open>The services of the latest snapshot of each agent, by agent.\<close>

definition topology_services :: "uuid list \<Rightarrow> db \<Rightarrow> (uuid \<times> jobj) list" where
  "topology_services ids d =
     concat (map (\<lambda>i. case latest_snapshot i d of None \<Rightarrow> [] | Some s \<Rightarrow> map (\<lambda>v. (i, v)) (tel_services s)) (sort ids))"

definition topology_scopes :: "uuid list \<Rightarrow> db \<Rightarrow> scope_row list" where
  "topology_scopes ids d = sort_key scp_created_at (filter (\<lambda>s. scp_agent_id s \<in> set ids) (scopes d))"

definition agent_scopes :: "scope_row list \<Rightarrow> (uuid \<times> bool) list" where
  "agent_scopes rows = fold (\<lambda>s m. if scp_project_name s = None then js_set (scp_agent_id s) (scp_enabled s) m else m) rows []"

definition service_scopes :: "scope_row list \<Rightarrow> ((uuid \<times> string \<times> string) \<times> bool) list" where
  "service_scopes rows = fold (\<lambda>s m. case (scp_project_name s, scp_service_name s) of
       (Some p, Some n) \<Rightarrow> js_set (scp_agent_id s, p, n) (scp_enabled s) m | _ \<Rightarrow> m) rows []"

type_synonym services_map = "((string \<times> string) \<times> NotificationServicePreference) list"

definition discovered_service ::
  "(uuid \<times> bool) list \<Rightarrow> ((uuid \<times> string \<times> string) \<times> bool) list \<Rightarrow> uuid \<times> jobj
    \<Rightarrow> (uuid \<times> services_map) list \<Rightarrow> (uuid \<times> services_map) list" where
  "discovered_service as ss row m =
     (let i = fst row; p = js_String (jprop (snd row) ''projectName''); n = js_String (jprop (snd row) ''serviceName'');
          ae = coalesce (map_of as i) True; de = coalesce (map_of ss (i, p, n)) True;
          services = coalesce (map_of m i) []
      in js_set i (js_set (p, n) \<lparr>ServicePref_projectName = p, ServicePref_serviceName = n,
           ServicePref_status = js_String (jprop (snd row) ''status''), ServicePref_discovered = True,
           ServicePref_enabled = (ae \<and> de), ServicePref_inherited = (\<not> ae \<and> de), ServicePref_directlyEnabled = de\<rparr> services) m)"

definition scoped_service ::
  "(uuid \<times> bool) list \<Rightarrow> (uuid \<times> string \<times> string) \<times> bool
    \<Rightarrow> (uuid \<times> services_map) list \<Rightarrow> (uuid \<times> services_map) list" where
  "scoped_service as scope m =
     (case scope of ((i, p, n), de) \<Rightarrow>
        let services = coalesce (map_of m i) []; ae = coalesce (map_of as i) True
        in js_set i (if (p, n) \<in> fst ` set services then services
             else js_set (p, n) \<lparr>ServicePref_projectName = p, ServicePref_serviceName = n,
               ServicePref_status = ''unknown'', ServicePref_discovered = False,
               ServicePref_enabled = (ae \<and> de), ServicePref_inherited = (\<not> ae \<and> de), ServicePref_directlyEnabled = de\<rparr> services) m)"

definition getNotificationTopology :: "topology_limits \<Rightarrow> time \<Rightarrow> uuid option \<Rightarrow> db \<Rightarrow> NotificationTopology" where
  "getNotificationTopology limits date_now agentId d =
     (let agentResult = take (max_agents limits + 1) (topology_agents agentId d);
          agentRows = take (max_agents limits) agentResult;
          agentIds = map ag_id agentRows;
          servicesResult = take (max_services limits + 1) (topology_services agentIds d);
          scopesResult = take (max_scopes limits + 1) (topology_scopes agentIds d);
          scopeRows = take (max_scopes limits) scopesResult;
          as = agent_scopes scopeRows; ss = service_scopes scopeRows;
          byAgent = fold (scoped_service as) ss
            (fold (discovered_service as ss) (take (max_services limits) servicesResult) [])
      in NotificationSettings.extend (getNotificationSettings d)
           (NotificationTopology.fields
              (map (\<lambda>r. \<lparr>AgentPref_id = ag_id r, AgentPref_name = ag_name r,
                   AgentPref_healthStatus = agent_healthStatus date_now r,
                   AgentPref_lastTelemetryAt = ag_last_telemetry_at r,
                   AgentPref_enabled = coalesce (map_of as (ag_id r)) True,
                   AgentPref_services = map snd (coalesce (map_of byAgent (ag_id r)) [])\<rparr>) agentRows)
              (length agentResult > max_agents limits) (length servicesResult > max_services limits)
              (length scopesResult > max_scopes limits)))"

section \<open>Setting a preference\<close>

definition upsert_scope :: "time \<Rightarrow> uuid \<Rightarrow> string option \<Rightarrow> string option \<Rightarrow> bool \<Rightarrow> uuid \<Rightarrow> db \<Rightarrow> db" where
  "upsert_scope now agentId projectName serviceName enabled updatedByUserId d =
     (let P = (\<lambda>s. scp_agent_id s = agentId \<and> scp_project_name s = projectName \<and> scp_service_name s = serviceName)
      in if exists_row P (scopes d)
         then d\<lparr>scopes := update_rows P (\<lambda>s. s\<lparr>scp_enabled := enabled, scp_updated_by_user_id := updatedByUserId\<rparr>) (scopes d)\<rparr>
         else d\<lparr>scopes := scopes d @ [\<lparr>scp_agent_id = agentId, scp_project_name = projectName,
                scp_service_name = serviceName, scp_enabled = enabled, scp_updated_by_user_id = updatedByUserId,
                scp_created_at = now\<rparr>]\<rparr>)"

definition setAgentNotificationPreference ::
  "topology_limits \<Rightarrow> time \<Rightarrow> time \<Rightarrow> uuid \<Rightarrow> bool \<Rightarrow> uuid \<Rightarrow> db \<Rightarrow> NotificationAgentPreference option \<times> db" where
  "setAgentNotificationPreference limits now date_now agentId enabled updatedByUserId d =
     (if \<not> exists_row (\<lambda>a. ag_id a = agentId \<and> ag_archived_at a = None) (agents d) then (None, d)
      else
        let d = upsert_scope now agentId None None enabled updatedByUserId d
        in (find (\<lambda>_. True) (Topology_agents (getNotificationTopology limits date_now (Some agentId) d)), d))"

definition service_known :: "uuid \<Rightarrow> string \<Rightarrow> string \<Rightarrow> db \<Rightarrow> bool" where
  "service_known agentId projectName serviceName d \<longleftrightarrow>
     exists_row (\<lambda>s. scp_agent_id s = agentId \<and> scp_project_name s = Some projectName
       \<and> scp_service_name s = Some serviceName) (scopes d)
     \<or> (case latest_snapshot agentId d of
          None \<Rightarrow> False
        | Some s \<Rightarrow> list_ex (\<lambda>v. json_text (jprop v ''projectName'') = Some projectName
            \<and> json_text (jprop v ''serviceName'') = Some serviceName) (tel_services s))"

definition setServiceNotificationPreference ::
  "topology_limits \<Rightarrow> time \<Rightarrow> time \<Rightarrow> uuid \<Rightarrow> string \<Rightarrow> string \<Rightarrow> bool \<Rightarrow> uuid \<Rightarrow> db
    \<Rightarrow> NotificationServicePreference option \<times> db" where
  "setServiceNotificationPreference limits now date_now agentId projectName serviceName enabled updatedByUserId d =
     (if \<not> exists_row (\<lambda>a. ag_id a = agentId \<and> ag_archived_at a = None) (agents d)
         \<or> \<not> service_known agentId projectName serviceName d
      then (None, d)
      else
        let d = upsert_scope now agentId (Some projectName) (Some serviceName) enabled updatedByUserId d
        in (case Topology_agents (getNotificationTopology limits date_now (Some agentId) d) of
              [] \<Rightarrow> None
            | a # _ \<Rightarrow> find (\<lambda>s. ServicePref_projectName s = projectName \<and> ServicePref_serviceName s = serviceName)
                (AgentPref_services a), d))"

section \<open>What a preference means for delivery\<close>

definition scopes_ok :: "db \<Rightarrow> bool" where
  "scopes_ok d \<longleftrightarrow> distinct (map (\<lambda>s. (scp_agent_id s, scp_project_name s, scp_service_name s)) (scopes d))
     \<and> (\<forall>s \<in> set (scopes d). (scp_project_name s = None) = (scp_service_name s = None))"

lemma scopes_ok_empty: "scopes_ok empty_db"
  by (simp add: scopes_ok_def empty_db_def)

lemma upsert_scope_ok:
  assumes ok: "scopes_ok d" and pair: "(p = None) = (n = None)"
  shows "scopes_ok (upsert_scope now a p n en u d)"
proof (cases "exists_row (\<lambda>s. scp_agent_id s = a \<and> scp_project_name s = p \<and> scp_service_name s = n) (scopes d)")
  case True
  let ?t = "update_rows (\<lambda>s. scp_agent_id s = a \<and> scp_project_name s = p \<and> scp_service_name s = n)
    (\<lambda>s. s\<lparr>scp_enabled := en, scp_updated_by_user_id := u\<rparr>) (scopes d)"
  have eq: "scopes (upsert_scope now a p n en u d) = ?t"
    using True by (simp add: upsert_scope_def Let_def del: exists_row_iff)
  have "map (\<lambda>s. (scp_agent_id s, scp_project_name s, scp_service_name s)) ?t =
      map (\<lambda>s. (scp_agent_id s, scp_project_name s, scp_service_name s)) (scopes d)"
    by (rule map_update_rows) simp
  with ok show ?thesis by (auto simp: scopes_ok_def eq set_update_rows)
next
  case False
  then have "scopes (upsert_scope now a p n en u d) = scopes d @ [\<lparr>scp_agent_id = a, scp_project_name = p,
      scp_service_name = n, scp_enabled = en, scp_updated_by_user_id = u, scp_created_at = now\<rparr>]"
    by (simp add: upsert_scope_def Let_def del: exists_row_iff)
  with False ok pair show ?thesis by (auto simp: scopes_ok_def)
qed

lemma bex_update_rows:
  "(\<exists>r \<in> set (update_rows P f t). Q r) \<longleftrightarrow> (\<exists>r \<in> set t. if P r then Q (f r) else Q r)"
  by (induction t) auto

lemma bex_update_rows_same:
  "(\<And>r. P r \<Longrightarrow> Q (f r) = Q r) \<Longrightarrow> (\<exists>r \<in> set (update_rows P f t). Q r) \<longleftrightarrow> (\<exists>r \<in> set t. Q r)"
  by (induction t) auto

lemma upsert_scope_muted:
  assumes "scopes_ok d"
  shows "agent_muted i (upsert_scope now a None None en u d) = (if i = a then \<not> en else agent_muted i d)"
    "service_muted (Some i) (Some p) n (upsert_scope now a (Some q) (Some m) en u d) =
       (if i = a \<and> p = q \<and> n = m then \<not> en else service_muted (Some i) (Some p) n d)"
proof -
  have pairs: "\<forall>s \<in> set (scopes d). (scp_project_name s = None) = (scp_service_name s = None)"
    using assms by (simp add: scopes_ok_def)
  then show "agent_muted i (upsert_scope now a None None en u d) = (if i = a then \<not> en else agent_muted i d)"
    by (auto simp: upsert_scope_def Let_def agent_muted_def bex_update_rows)
  have "service_muted (Some i) (Some p) n (upsert_scope now a (Some q) (Some m) en u d) \<longleftrightarrow> \<not> en"
    if "i = a \<and> p = q \<and> n = m"
    using that by (auto simp: upsert_scope_def Let_def service_muted_def bex_update_rows)
  moreover have "service_muted (Some i) (Some p) n (upsert_scope now a (Some q) (Some m) en u d)
      = service_muted (Some i) (Some p) n d" if "\<not> (i = a \<and> p = q \<and> n = m)"
  proof (cases "exists_row (\<lambda>s. scp_agent_id s = a \<and> scp_project_name s = Some q \<and> scp_service_name s = Some m) (scopes d)")
    case True
    let ?P = "\<lambda>s. scp_agent_id s = a \<and> scp_project_name s = Some q \<and> scp_service_name s = Some m"
    let ?Q = "\<lambda>s. Some (scp_agent_id s) = Some i \<and> scp_project_name s \<noteq> None \<and> scp_project_name s = Some p
      \<and> scp_service_name s = Some n \<and> \<not> scp_enabled s"
    have "(\<exists>r \<in> set (update_rows ?P (\<lambda>s. s\<lparr>scp_enabled := en, scp_updated_by_user_id := u\<rparr>) (scopes d)). ?Q r)
        \<longleftrightarrow> (\<exists>r \<in> set (scopes d). ?Q r)"
      by (rule bex_update_rows_same) (use that in auto)
    moreover have "scopes (upsert_scope now a (Some q) (Some m) en u d) =
        update_rows ?P (\<lambda>s. s\<lparr>scp_enabled := en, scp_updated_by_user_id := u\<rparr>) (scopes d)"
      using True by (simp add: upsert_scope_def Let_def del: exists_row_iff)
    ultimately show ?thesis by (simp only: service_muted_def exists_row_iff)
  next
    case False
    with that show ?thesis
      by (auto simp: upsert_scope_def Let_def service_muted_def)
  qed
  ultimately show "service_muted (Some i) (Some p) n (upsert_scope now a (Some q) (Some m) en u d) =
       (if i = a \<and> p = q \<and> n = m then \<not> en else service_muted (Some i) (Some p) n d)"
    by simp
qed

end
