(* ===== verification/Gw_Users.thy ===== *)
theory Gw_Users
  imports Gw_Rows
begin

text \<open>
  Users and sessions: \<open>isSetupComplete\<close>, \<open>createOwner\<close>, \<open>findUserByEmail\<close>, \<open>listUsers\<close>,
  \<open>createUser\<close> and the three session operations of the store. The table \<open>users\<close> has a unique
  index on \<open>lower(email)\<close> and one on the role of the owner; \<open>sessions\<close> has a unique token hash.
\<close>

definition isSetupComplete :: "db \<Rightarrow> bool" where
  "isSetupComplete d = exists_row (\<lambda>r. usr_role r = Owner) (users d)"

definition user_conflict :: "string \<Rightarrow> Role \<Rightarrow> db \<Rightarrow> bool" where
  "user_conflict email role d =
     (exists_row (\<lambda>r. lower (usr_email r) = lower email) (users d)
      \<or> role = Owner \<and> exists_row (\<lambda>r. usr_role r = Owner) (users d))"

definition insert_user :: "(nat \<Rightarrow> uuid) \<Rightarrow> time \<Rightarrow> string \<Rightarrow> string \<Rightarrow> Role \<Rightarrow> db \<Rightarrow> user_row \<times> db" where
  "insert_user gen now email passwordHash role d =
     (let (uid, d) = draw gen d;
          row = \<lparr>usr_id = uid, usr_email = email, usr_password_hash = passwordHash, usr_role = role,
                 usr_created_at = now\<rparr>
      in (row, d\<lparr>users := users d @ [row]\<rparr>))"

definition createOwner :: "(nat \<Rightarrow> uuid) \<Rightarrow> time \<Rightarrow> string \<Rightarrow> string \<Rightarrow> db \<Rightarrow> User option \<times> db" where
  "createOwner gen now email passwordHash d =
     (if exists_row (\<lambda>r. usr_role r = Owner) (users d) then (None, d)
      else if user_conflict email Owner d then (None, d)
      else let (row, d) = insert_user gen now email passwordHash Owner d in (Some (user row), d))"

definition findUserByEmail :: "string \<Rightarrow> db \<Rightarrow> User option" where
  "findUserByEmail email d = map_option user (find (\<lambda>r. lower (usr_email r) = lower email) (users d))"

definition listUsers :: "db \<Rightarrow> (uuid \<times> string \<times> Role) list" where
  "listUsers d = map (\<lambda>r. (usr_id r, usr_email r, usr_role r)) (sort_key usr_created_at (users d))"

definition createUser ::
  "(nat \<Rightarrow> uuid) \<Rightarrow> time \<Rightarrow> string \<Rightarrow> string \<Rightarrow> Role \<Rightarrow> db \<Rightarrow> pg_error + User \<times> db" where
  "createUser gen now email passwordHash role d =
     (if user_conflict email role d then Inl UniqueViolation
      else let (row, d) = insert_user gen now email passwordHash role d in Inr (user row, d))"

definition createSession :: "time \<Rightarrow> uuid \<Rightarrow> string \<Rightarrow> time \<Rightarrow> db \<Rightarrow> pg_error + db" where
  "createSession now userId tokenHash expiresAt d =
     (if exists_row (\<lambda>s. ses_token_hash s = tokenHash) (sessions d) then Inl UniqueViolation
      else Inr (d\<lparr>sessions := sessions d @ [\<lparr>ses_user_id = userId, ses_token_hash = tokenHash,
                                    ses_expires_at = expiresAt, ses_last_seen_at = now\<rparr>]\<rparr>))"

definition findSessionUser :: "time \<Rightarrow> string \<Rightarrow> db \<Rightarrow> User option \<times> db" where
  "findSessionUser now tokenHash d =
     (let live = (\<lambda>s. ses_token_hash s = tokenHash \<and> ses_expires_at s > now);
          row = (case find live (sessions d) of
                   None \<Rightarrow> None
                 | Some s \<Rightarrow> find (\<lambda>u. usr_id u = ses_user_id s) (users d))
      in (map_option user row,
          d\<lparr>sessions := update_rows live (\<lambda>s. s\<lparr>ses_last_seen_at := now\<rparr>) (sessions d)\<rparr>))"

definition deleteSession :: "string \<Rightarrow> db \<Rightarrow> db" where
  "deleteSession tokenHash d = d\<lparr>sessions := delete_rows (\<lambda>s. ses_token_hash s = tokenHash) (sessions d)\<rparr>"

section \<open>The invariant of the two tables\<close>

definition users_ok :: "(nat \<Rightarrow> uuid) \<Rightarrow> db \<Rightarrow> bool" where
  "users_ok gen d \<longleftrightarrow>
     unique_where (\<lambda>_. True) usr_id (users d)
     \<and> usr_id ` set (users d) \<subseteq> drawn gen (draws d)
     \<and> unique_where (\<lambda>_. True) (\<lambda>r. lower (usr_email r)) (users d)
     \<and> unique_where (\<lambda>r. usr_role r = Owner) usr_role (users d)
     \<and> unique_where (\<lambda>_. True) ses_token_hash (sessions d)"

lemma users_ok_empty: "users_ok gen empty_db"
  by (simp add: users_ok_def empty_db_def)

lemma insert_user_eq:
  "insert_user gen now email h role d =
     (\<lparr>usr_id = gen (draws d), usr_email = email, usr_password_hash = h, usr_role = role, usr_created_at = now\<rparr>,
      d\<lparr>draws := Suc (draws d),
        users := users d @ [\<lparr>usr_id = gen (draws d), usr_email = email, usr_password_hash = h,
                             usr_role = role, usr_created_at = now\<rparr>]\<rparr>)"
  by (simp add: insert_user_def draw_def Let_def)

lemma insert_user_ok:
  assumes gen: "inj gen" and ok: "users_ok gen d" and new: "\<not> user_conflict email role d"
  shows "users_ok gen (snd (insert_user gen now email h role d))"
proof -
  have ids: "\<forall>r \<in> set (users d). usr_id r \<noteq> gen (draws d)"
    using ok by (intro fresh_id [OF gen]) (simp add: users_ok_def)
  have mails: "\<forall>r \<in> set (users d). lower (usr_email r) \<noteq> lower email"
    and owners: "role = Owner \<longrightarrow> (\<forall>r \<in> set (users d). usr_role r \<noteq> Owner)"
    using new by (auto simp: user_conflict_def)
  let ?d = "snd (insert_user gen now email h role d)"
  have "unique_where (\<lambda>_. True) usr_id (users ?d)"
    using ok ids by (simp add: users_ok_def insert_user_eq unique_where_insert)
  moreover have "usr_id ` set (users ?d) \<subseteq> drawn gen (draws ?d)"
    using ok by (simp add: users_ok_def insert_user_eq subset_insertI2)
  moreover have "unique_where (\<lambda>_. True) (\<lambda>r. lower (usr_email r)) (users ?d)"
    using ok mails by (simp add: users_ok_def insert_user_eq unique_where_insert)
  moreover have "unique_where (\<lambda>r. usr_role r = Owner) usr_role (users ?d)"
    using ok owners by (simp add: users_ok_def insert_user_eq unique_where_insert)
  moreover have "unique_where (\<lambda>_. True) ses_token_hash (sessions ?d)"
    using ok by (simp add: users_ok_def insert_user_eq)
  ultimately show ?thesis by (simp add: users_ok_def)
qed

lemma createOwner_ok:
  "inj gen \<Longrightarrow> users_ok gen d \<Longrightarrow> users_ok gen (snd (createOwner gen now email h d))"
  using insert_user_ok [of gen d email Owner now h]
  by (auto simp: createOwner_def insert_user_eq)

lemma createUser_ok:
  "inj gen \<Longrightarrow> users_ok gen d \<Longrightarrow> createUser gen now email h role d = Inr (u, d') \<Longrightarrow> users_ok gen d'"
  using insert_user_ok [of gen d email role now h]
  by (auto simp: createUser_def insert_user_eq split: if_splits)

lemma createSession_ok:
  "users_ok gen d \<Longrightarrow> createSession now uid h e d = Inr d' \<Longrightarrow> users_ok gen d'"
  by (clarsimp simp: createSession_def users_ok_def unique_where_insert split: if_splits)

lemma findSessionUser_ok: "users_ok gen d \<Longrightarrow> users_ok gen (snd (findSessionUser now h d))"
  by (auto simp: findSessionUser_def users_ok_def Let_def intro!: unique_where_update)

lemma deleteSession_ok: "users_ok gen d \<Longrightarrow> users_ok gen (deleteSession h d)"
  by (auto simp: deleteSession_def users_ok_def intro!: unique_where_delete)

lemma owner_unique:
  assumes "users_ok gen d" "r \<in> set (users d)" "s \<in> set (users d)" "usr_role r = Owner" "usr_role s = Owner"
  shows "r = s"
  using assms unique_where_eq [of "\<lambda>r. usr_role r = Owner" usr_role "users d" r s]
  by (simp add: users_ok_def)

section \<open>Sessions grant access until they expire or are deleted\<close>

lemma findSessionUser_none:
  "(\<And>s. s \<in> set (sessions d) \<Longrightarrow> ses_token_hash s = h \<Longrightarrow> ses_expires_at s \<le> now) \<Longrightarrow>
    fst (findSessionUser now h d) = None"
  by (fastforce simp: findSessionUser_def Let_def split: option.splits dest: find_someD)

lemma findSessionUser_after_delete: "fst (findSessionUser now h (deleteSession h d)) = None"
  by (rule findSessionUser_none) (simp add: deleteSession_def)

lemma findSessionUser_created:
  assumes "users_ok gen d" "u \<in> set (users d)" "createSession now (usr_id u) h e d = Inr d'"
  shows "fst (findSessionUser now' h d') = (if now' < e then Some (user u) else None)"
proof -
  from assms have d': "d' = d\<lparr>sessions := sessions d @ [\<lparr>ses_user_id = usr_id u, ses_token_hash = h,
      ses_expires_at = e, ses_last_seen_at = now\<rparr>]\<rparr>"
    and new: "\<forall>s \<in> set (sessions d). ses_token_hash s \<noteq> h"
    by (auto simp: createSession_def split: if_splits)
  have none: "find (\<lambda>s. ses_token_hash s = h \<and> now' < ses_expires_at s) (sessions d) = None"
    using new by (simp add: find_none_iff)
  have "find (\<lambda>v. usr_id v = usr_id u) (users d) = Some u"
    using assms by (intro find_key) (simp_all add: users_ok_def unique_where_def)
  then show ?thesis
    by (simp add: findSessionUser_def d' find_append none)
qed

end
