(* ===== verification/Gw_Frames.thy ===== *)
theory Gw_Frames
  imports Gw_Topology Gw_Users
begin

text \<open>
  The operations of the store as steps, and the tables each of them leaves alone. An operation
  that raises is rolled back: the state after it is the state before it.
\<close>

definition after :: "pg_error + 'a \<times> db \<Rightarrow> db \<Rightarrow> db" where
  "after r d = (case r of Inl _ \<Rightarrow> d | Inr (_, e) \<Rightarrow> e)"

definition after_unit :: "pg_error + db \<Rightarrow> db \<Rightarrow> db" where
  "after_unit r d = (case r of Inl _ \<Rightarrow> d | Inr e \<Rightarrow> e)"

lemma after_cases:
  assumes "Q d" "\<And>x e. r = Inr (x, e) \<Longrightarrow> Q e"
  shows "Q (after r d)"
  using assms by (auto simp: after_def split: sum.split)

lemma after_unit_cases:
  assumes "Q d" "\<And>e. r = Inr e \<Longrightarrow> Q e"
  shows "Q (after_unit r d)"
  using assms by (auto simp: after_unit_def split: sum.split)

section \<open>Frames\<close>

lemma start_operations_frame [frame_simps]:
  "users (fold (start_operation now a) cs d) = users d"
  "sessions (fold (start_operation now a) cs d) = sessions d"
  "agents (fold (start_operation now a) cs d) = agents d"
  "commands (fold (start_operation now a) cs d) = commands d"
  "stacks (fold (start_operation now a) cs d) = stacks d"
  "routes (fold (start_operation now a) cs d) = routes d"
  "deployments (fold (start_operation now a) cs d) = deployments d"
  "revisions (fold (start_operation now a) cs d) = revisions d"
  "backup_imports (fold (start_operation now a) cs d) = backup_imports d"
  "recovery_requests (fold (start_operation now a) cs d) = recovery_requests d"
  "scopes (fold (start_operation now a) cs d) = scopes d"
  "domains (fold (start_operation now a) cs d) = domains d"
  "accounts (fold (start_operation now a) cs d) = accounts d"
  by (rule fold_frame, simp add: frame_simps)+

lemma start_operations_draws [frame_simps]: "draws (fold (start_operation now a) cs d) = draws d"
  by (rule fold_frame, simp add: frame_simps)

lemma fail_operations_frame [frame_simps]:
  "users (fold (fail_operation gen now) cs d) = users d"
  "sessions (fold (fail_operation gen now) cs d) = sessions d"
  "agents (fold (fail_operation gen now) cs d) = agents d"
  "commands (fold (fail_operation gen now) cs d) = commands d"
  "stacks (fold (fail_operation gen now) cs d) = stacks d"
  "routes (fold (fail_operation gen now) cs d) = routes d"
  "revisions (fold (fail_operation gen now) cs d) = revisions d"
  "backup_imports (fold (fail_operation gen now) cs d) = backup_imports d"
  "recovery_requests (fold (fail_operation gen now) cs d) = recovery_requests d"
  "scopes (fold (fail_operation gen now) cs d) = scopes d"
  "domains (fold (fail_operation gen now) cs d) = domains d"
  "accounts (fold (fail_operation gen now) cs d) = accounts d"
  by (rule fold_frame, simp add: frame_simps)+

lemma enqueueEvent_mono: "draws d \<le> draws (enqueueEvent gen now t v d)"
  using enqueueEvent_draws [of d gen now t v] by simp

lemma enqueueEvent_mono': "draws d = n \<Longrightarrow> n \<le> draws (enqueueEvent gen now t v d)"
  using enqueueEvent_mono [of d gen now t v] by simp

lemma complete_draws:
  "draws d \<le> draws (report_sync_failure gen now a c s d)"
  "draws d \<le> draws (complete_backup gen now a c s res d)"
  "draws d \<le> draws (complete_restore gen now a c s res d)"
  "draws d \<le> draws (complete_runtime_op gen now a c s res d)"
  "draws d \<le> draws (complete_run gen now a c s res d)"
  by (simp_all add: report_sync_failure_def complete_backup_def complete_restore_def complete_runtime_op_def
      complete_run_def Let_def enqueueEvent_mono' split: option.split bool.split)

lemma completed_db_draws: "draws d \<le> draws (completed_db gen now a i s res c d)"
  unfolding completed_db_def
  by (intro order_trans [OF _ complete_draws(5)], simp only: frame_simps,
      intro order_trans [OF _ complete_draws(4)] order_trans [OF _ complete_draws(3)]
        order_trans [OF _ complete_draws(2)] order_trans [OF _ complete_draws(1)])
    (simp add: frame_simps)

lemma fail_draws:
  "draws d \<le> draws (fail_backup gen now c d)"
  "draws d \<le> draws (fail_restore gen now c d)"
  "draws d \<le> draws (fail_runtime_op gen now c d)"
  by (simp_all add: fail_backup_def fail_restore_def fail_runtime_op_def Let_def enqueueEvent_mono' split: option.split)

lemma fail_operation_draws: "draws d \<le> draws (fail_operation gen now c d)"
  using fail_draws(1) [of "fail_connector now c d" gen now c]
    fail_draws(2) [of "fail_backup gen now c (fail_connector now c d)" gen now c]
    fail_draws(3) [of "fail_restore gen now c (fail_backup gen now c (fail_connector now c d))" gen now c]
  by (simp add: fail_operation_def Let_def frame_simps)

lemma fail_operations_draws: "draws d \<le> draws (fold (fail_operation gen now) cs d)"
  by (rule fold_invariant [where I = "\<lambda>e. draws d \<le> draws e"]) (auto intro: order_trans [OF _ fail_operation_draws])

lemma createOwner_frames [frame_simps]:
  "sessions (snd (createOwner gen now mail ph d)) = sessions d"
  "agents (snd (createOwner gen now mail ph d)) = agents d"
  "commands (snd (createOwner gen now mail ph d)) = commands d"
  "connectors (snd (createOwner gen now mail ph d)) = connectors d"
  "stacks (snd (createOwner gen now mail ph d)) = stacks d"
  "routes (snd (createOwner gen now mail ph d)) = routes d"
  "deployments (snd (createOwner gen now mail ph d)) = deployments d"
  "revisions (snd (createOwner gen now mail ph d)) = revisions d"
  "runs (snd (createOwner gen now mail ph d)) = runs d"
  "runtime_ops (snd (createOwner gen now mail ph d)) = runtime_ops d"
  "log_requests (snd (createOwner gen now mail ph d)) = log_requests d"
  "backups (snd (createOwner gen now mail ph d)) = backups d"
  "restores (snd (createOwner gen now mail ph d)) = restores d"
  "backup_imports (snd (createOwner gen now mail ph d)) = backup_imports d"
  "recovery_requests (snd (createOwner gen now mail ph d)) = recovery_requests d"
  "scopes (snd (createOwner gen now mail ph d)) = scopes d"
  "domains (snd (createOwner gen now mail ph d)) = domains d"
  "accounts (snd (createOwner gen now mail ph d)) = accounts d"
  "draws d \<le> draws (snd (createOwner gen now mail ph d))"
  by (simp_all add: createOwner_def insert_user_def after_def after_unit_def draw_def Let_def frame_simps del: exists_row_iff split: option.split sum.split prod.split)

lemma createUser_frames [frame_simps]:
  "sessions (after (createUser gen now mail ph role d) d) = sessions d"
  "agents (after (createUser gen now mail ph role d) d) = agents d"
  "commands (after (createUser gen now mail ph role d) d) = commands d"
  "connectors (after (createUser gen now mail ph role d) d) = connectors d"
  "stacks (after (createUser gen now mail ph role d) d) = stacks d"
  "routes (after (createUser gen now mail ph role d) d) = routes d"
  "deployments (after (createUser gen now mail ph role d) d) = deployments d"
  "revisions (after (createUser gen now mail ph role d) d) = revisions d"
  "runs (after (createUser gen now mail ph role d) d) = runs d"
  "runtime_ops (after (createUser gen now mail ph role d) d) = runtime_ops d"
  "log_requests (after (createUser gen now mail ph role d) d) = log_requests d"
  "backups (after (createUser gen now mail ph role d) d) = backups d"
  "restores (after (createUser gen now mail ph role d) d) = restores d"
  "backup_imports (after (createUser gen now mail ph role d) d) = backup_imports d"
  "recovery_requests (after (createUser gen now mail ph role d) d) = recovery_requests d"
  "scopes (after (createUser gen now mail ph role d) d) = scopes d"
  "domains (after (createUser gen now mail ph role d) d) = domains d"
  "accounts (after (createUser gen now mail ph role d) d) = accounts d"
  "draws d \<le> draws (after (createUser gen now mail ph role d) d)"
  by (simp_all add: createUser_def insert_user_def after_def after_unit_def draw_def Let_def frame_simps del: exists_row_iff split: option.split sum.split prod.split)

lemma createSession_frames [frame_simps]:
  "users (after_unit (createSession now i tok t d) d) = users d"
  "agents (after_unit (createSession now i tok t d) d) = agents d"
  "commands (after_unit (createSession now i tok t d) d) = commands d"
  "connectors (after_unit (createSession now i tok t d) d) = connectors d"
  "stacks (after_unit (createSession now i tok t d) d) = stacks d"
  "routes (after_unit (createSession now i tok t d) d) = routes d"
  "deployments (after_unit (createSession now i tok t d) d) = deployments d"
  "revisions (after_unit (createSession now i tok t d) d) = revisions d"
  "runs (after_unit (createSession now i tok t d) d) = runs d"
  "runtime_ops (after_unit (createSession now i tok t d) d) = runtime_ops d"
  "log_requests (after_unit (createSession now i tok t d) d) = log_requests d"
  "backups (after_unit (createSession now i tok t d) d) = backups d"
  "restores (after_unit (createSession now i tok t d) d) = restores d"
  "backup_imports (after_unit (createSession now i tok t d) d) = backup_imports d"
  "recovery_requests (after_unit (createSession now i tok t d) d) = recovery_requests d"
  "scopes (after_unit (createSession now i tok t d) d) = scopes d"
  "domains (after_unit (createSession now i tok t d) d) = domains d"
  "accounts (after_unit (createSession now i tok t d) d) = accounts d"
  "draws d \<le> draws (after_unit (createSession now i tok t d) d)"
  by (simp_all add: createSession_def  after_def after_unit_def draw_def Let_def frame_simps del: exists_row_iff split: option.split sum.split prod.split)

lemma findSessionUser_frames [frame_simps]:
  "users (snd (findSessionUser now tok d)) = users d"
  "agents (snd (findSessionUser now tok d)) = agents d"
  "commands (snd (findSessionUser now tok d)) = commands d"
  "connectors (snd (findSessionUser now tok d)) = connectors d"
  "stacks (snd (findSessionUser now tok d)) = stacks d"
  "routes (snd (findSessionUser now tok d)) = routes d"
  "deployments (snd (findSessionUser now tok d)) = deployments d"
  "revisions (snd (findSessionUser now tok d)) = revisions d"
  "runs (snd (findSessionUser now tok d)) = runs d"
  "runtime_ops (snd (findSessionUser now tok d)) = runtime_ops d"
  "log_requests (snd (findSessionUser now tok d)) = log_requests d"
  "backups (snd (findSessionUser now tok d)) = backups d"
  "restores (snd (findSessionUser now tok d)) = restores d"
  "backup_imports (snd (findSessionUser now tok d)) = backup_imports d"
  "recovery_requests (snd (findSessionUser now tok d)) = recovery_requests d"
  "scopes (snd (findSessionUser now tok d)) = scopes d"
  "domains (snd (findSessionUser now tok d)) = domains d"
  "accounts (snd (findSessionUser now tok d)) = accounts d"
  "draws d \<le> draws (snd (findSessionUser now tok d))"
  by (simp_all add: findSessionUser_def  after_def after_unit_def draw_def Let_def frame_simps del: exists_row_iff split: option.split sum.split prod.split)

lemma deleteSession_frames [frame_simps]:
  "users (deleteSession tok d) = users d"
  "agents (deleteSession tok d) = agents d"
  "commands (deleteSession tok d) = commands d"
  "connectors (deleteSession tok d) = connectors d"
  "stacks (deleteSession tok d) = stacks d"
  "routes (deleteSession tok d) = routes d"
  "deployments (deleteSession tok d) = deployments d"
  "revisions (deleteSession tok d) = revisions d"
  "runs (deleteSession tok d) = runs d"
  "runtime_ops (deleteSession tok d) = runtime_ops d"
  "log_requests (deleteSession tok d) = log_requests d"
  "backups (deleteSession tok d) = backups d"
  "restores (deleteSession tok d) = restores d"
  "backup_imports (deleteSession tok d) = backup_imports d"
  "recovery_requests (deleteSession tok d) = recovery_requests d"
  "scopes (deleteSession tok d) = scopes d"
  "domains (deleteSession tok d) = domains d"
  "accounts (deleteSession tok d) = accounts d"
  "draws d \<le> draws (deleteSession tok d)"
  by (simp_all add: deleteSession_def  after_def after_unit_def draw_def Let_def frame_simps del: exists_row_iff split: option.split sum.split prod.split)

lemma saveNotificationSettings_frames [frame_simps]:
  "users (saveNotificationSettings btok grp evs d) = users d"
  "sessions (saveNotificationSettings btok grp evs d) = sessions d"
  "agents (saveNotificationSettings btok grp evs d) = agents d"
  "commands (saveNotificationSettings btok grp evs d) = commands d"
  "connectors (saveNotificationSettings btok grp evs d) = connectors d"
  "stacks (saveNotificationSettings btok grp evs d) = stacks d"
  "routes (saveNotificationSettings btok grp evs d) = routes d"
  "deployments (saveNotificationSettings btok grp evs d) = deployments d"
  "revisions (saveNotificationSettings btok grp evs d) = revisions d"
  "runs (saveNotificationSettings btok grp evs d) = runs d"
  "runtime_ops (saveNotificationSettings btok grp evs d) = runtime_ops d"
  "log_requests (saveNotificationSettings btok grp evs d) = log_requests d"
  "backups (saveNotificationSettings btok grp evs d) = backups d"
  "restores (saveNotificationSettings btok grp evs d) = restores d"
  "backup_imports (saveNotificationSettings btok grp evs d) = backup_imports d"
  "recovery_requests (saveNotificationSettings btok grp evs d) = recovery_requests d"
  "scopes (saveNotificationSettings btok grp evs d) = scopes d"
  "domains (saveNotificationSettings btok grp evs d) = domains d"
  "accounts (saveNotificationSettings btok grp evs d) = accounts d"
  "draws d \<le> draws (saveNotificationSettings btok grp evs d)"
  by (simp_all add: saveNotificationSettings_def  after_def after_unit_def draw_def Let_def frame_simps del: exists_row_iff split: option.split sum.split prod.split)

lemma claimNotificationDelivery_frames [frame_simps]:
  "users (after (claimNotificationDelivery now d) d) = users d"
  "sessions (after (claimNotificationDelivery now d) d) = sessions d"
  "agents (after (claimNotificationDelivery now d) d) = agents d"
  "commands (after (claimNotificationDelivery now d) d) = commands d"
  "connectors (after (claimNotificationDelivery now d) d) = connectors d"
  "stacks (after (claimNotificationDelivery now d) d) = stacks d"
  "routes (after (claimNotificationDelivery now d) d) = routes d"
  "deployments (after (claimNotificationDelivery now d) d) = deployments d"
  "revisions (after (claimNotificationDelivery now d) d) = revisions d"
  "runs (after (claimNotificationDelivery now d) d) = runs d"
  "runtime_ops (after (claimNotificationDelivery now d) d) = runtime_ops d"
  "log_requests (after (claimNotificationDelivery now d) d) = log_requests d"
  "backups (after (claimNotificationDelivery now d) d) = backups d"
  "restores (after (claimNotificationDelivery now d) d) = restores d"
  "backup_imports (after (claimNotificationDelivery now d) d) = backup_imports d"
  "recovery_requests (after (claimNotificationDelivery now d) d) = recovery_requests d"
  "scopes (after (claimNotificationDelivery now d) d) = scopes d"
  "domains (after (claimNotificationDelivery now d) d) = domains d"
  "accounts (after (claimNotificationDelivery now d) d) = accounts d"
  "draws d \<le> draws (after (claimNotificationDelivery now d) d)"
  by (simp_all add: claimNotificationDelivery_def  after_def after_unit_def draw_def Let_def frame_simps del: exists_row_iff split: option.split sum.split prod.split)

lemma completeNotificationDelivery_frames [frame_simps]:
  "users (completeNotificationDelivery now i d) = users d"
  "sessions (completeNotificationDelivery now i d) = sessions d"
  "agents (completeNotificationDelivery now i d) = agents d"
  "commands (completeNotificationDelivery now i d) = commands d"
  "connectors (completeNotificationDelivery now i d) = connectors d"
  "stacks (completeNotificationDelivery now i d) = stacks d"
  "routes (completeNotificationDelivery now i d) = routes d"
  "deployments (completeNotificationDelivery now i d) = deployments d"
  "revisions (completeNotificationDelivery now i d) = revisions d"
  "runs (completeNotificationDelivery now i d) = runs d"
  "runtime_ops (completeNotificationDelivery now i d) = runtime_ops d"
  "log_requests (completeNotificationDelivery now i d) = log_requests d"
  "backups (completeNotificationDelivery now i d) = backups d"
  "restores (completeNotificationDelivery now i d) = restores d"
  "backup_imports (completeNotificationDelivery now i d) = backup_imports d"
  "recovery_requests (completeNotificationDelivery now i d) = recovery_requests d"
  "scopes (completeNotificationDelivery now i d) = scopes d"
  "domains (completeNotificationDelivery now i d) = domains d"
  "accounts (completeNotificationDelivery now i d) = accounts d"
  "draws d \<le> draws (completeNotificationDelivery now i d)"
  by (simp_all add: completeNotificationDelivery_def  after_def after_unit_def draw_def Let_def frame_simps del: exists_row_iff split: option.split sum.split prod.split)

lemma skipNotificationDelivery_frames [frame_simps]:
  "users (skipNotificationDelivery now i d) = users d"
  "sessions (skipNotificationDelivery now i d) = sessions d"
  "agents (skipNotificationDelivery now i d) = agents d"
  "commands (skipNotificationDelivery now i d) = commands d"
  "connectors (skipNotificationDelivery now i d) = connectors d"
  "stacks (skipNotificationDelivery now i d) = stacks d"
  "routes (skipNotificationDelivery now i d) = routes d"
  "deployments (skipNotificationDelivery now i d) = deployments d"
  "revisions (skipNotificationDelivery now i d) = revisions d"
  "runs (skipNotificationDelivery now i d) = runs d"
  "runtime_ops (skipNotificationDelivery now i d) = runtime_ops d"
  "log_requests (skipNotificationDelivery now i d) = log_requests d"
  "backups (skipNotificationDelivery now i d) = backups d"
  "restores (skipNotificationDelivery now i d) = restores d"
  "backup_imports (skipNotificationDelivery now i d) = backup_imports d"
  "recovery_requests (skipNotificationDelivery now i d) = recovery_requests d"
  "scopes (skipNotificationDelivery now i d) = scopes d"
  "domains (skipNotificationDelivery now i d) = domains d"
  "accounts (skipNotificationDelivery now i d) = accounts d"
  "draws d \<le> draws (skipNotificationDelivery now i d)"
  by (simp_all add: skipNotificationDelivery_def  after_def after_unit_def draw_def Let_def frame_simps del: exists_row_iff split: option.split sum.split prod.split)

lemma retryNotificationDelivery_frames [frame_simps]:
  "users (retryNotificationDelivery now i err n b d) = users d"
  "sessions (retryNotificationDelivery now i err n b d) = sessions d"
  "agents (retryNotificationDelivery now i err n b d) = agents d"
  "commands (retryNotificationDelivery now i err n b d) = commands d"
  "connectors (retryNotificationDelivery now i err n b d) = connectors d"
  "stacks (retryNotificationDelivery now i err n b d) = stacks d"
  "routes (retryNotificationDelivery now i err n b d) = routes d"
  "deployments (retryNotificationDelivery now i err n b d) = deployments d"
  "revisions (retryNotificationDelivery now i err n b d) = revisions d"
  "runs (retryNotificationDelivery now i err n b d) = runs d"
  "runtime_ops (retryNotificationDelivery now i err n b d) = runtime_ops d"
  "log_requests (retryNotificationDelivery now i err n b d) = log_requests d"
  "backups (retryNotificationDelivery now i err n b d) = backups d"
  "restores (retryNotificationDelivery now i err n b d) = restores d"
  "backup_imports (retryNotificationDelivery now i err n b d) = backup_imports d"
  "recovery_requests (retryNotificationDelivery now i err n b d) = recovery_requests d"
  "scopes (retryNotificationDelivery now i err n b d) = scopes d"
  "domains (retryNotificationDelivery now i err n b d) = domains d"
  "accounts (retryNotificationDelivery now i err n b d) = accounts d"
  "draws d \<le> draws (retryNotificationDelivery now i err n b d)"
  by (simp_all add: retryNotificationDelivery_def  after_def after_unit_def draw_def Let_def frame_simps del: exists_row_iff split: option.split sum.split prod.split)

lemma createAgent_frames [frame_simps]:
  "users (after (createAgent gen now dn name tok t d) d) = users d"
  "sessions (after (createAgent gen now dn name tok t d) d) = sessions d"
  "commands (after (createAgent gen now dn name tok t d) d) = commands d"
  "connectors (after (createAgent gen now dn name tok t d) d) = connectors d"
  "stacks (after (createAgent gen now dn name tok t d) d) = stacks d"
  "routes (after (createAgent gen now dn name tok t d) d) = routes d"
  "deployments (after (createAgent gen now dn name tok t d) d) = deployments d"
  "revisions (after (createAgent gen now dn name tok t d) d) = revisions d"
  "runs (after (createAgent gen now dn name tok t d) d) = runs d"
  "runtime_ops (after (createAgent gen now dn name tok t d) d) = runtime_ops d"
  "log_requests (after (createAgent gen now dn name tok t d) d) = log_requests d"
  "backups (after (createAgent gen now dn name tok t d) d) = backups d"
  "restores (after (createAgent gen now dn name tok t d) d) = restores d"
  "backup_imports (after (createAgent gen now dn name tok t d) d) = backup_imports d"
  "recovery_requests (after (createAgent gen now dn name tok t d) d) = recovery_requests d"
  "scopes (after (createAgent gen now dn name tok t d) d) = scopes d"
  "domains (after (createAgent gen now dn name tok t d) d) = domains d"
  "accounts (after (createAgent gen now dn name tok t d) d) = accounts d"
  "draws d \<le> draws (after (createAgent gen now dn name tok t d) d)"
  by (simp_all add: createAgent_def  after_def after_unit_def draw_def Let_def frame_simps del: exists_row_iff split: option.split sum.split prod.split)

lemma removeAgent_frames [frame_simps]:
  "users (snd (removeAgent now i d)) = users d"
  "sessions (snd (removeAgent now i d)) = sessions d"
  "commands (snd (removeAgent now i d)) = commands d"
  "connectors (snd (removeAgent now i d)) = connectors d"
  "stacks (snd (removeAgent now i d)) = stacks d"
  "routes (snd (removeAgent now i d)) = routes d"
  "deployments (snd (removeAgent now i d)) = deployments d"
  "revisions (snd (removeAgent now i d)) = revisions d"
  "runs (snd (removeAgent now i d)) = runs d"
  "runtime_ops (snd (removeAgent now i d)) = runtime_ops d"
  "log_requests (snd (removeAgent now i d)) = log_requests d"
  "backups (snd (removeAgent now i d)) = backups d"
  "restores (snd (removeAgent now i d)) = restores d"
  "backup_imports (snd (removeAgent now i d)) = backup_imports d"
  "recovery_requests (snd (removeAgent now i d)) = recovery_requests d"
  "scopes (snd (removeAgent now i d)) = scopes d"
  "domains (snd (removeAgent now i d)) = domains d"
  "accounts (snd (removeAgent now i d)) = accounts d"
  "draws d \<le> draws (snd (removeAgent now i d))"
  by (simp_all add: removeAgent_def  after_def after_unit_def draw_def Let_def frame_simps del: exists_row_iff split: option.split sum.split prod.split)

lemma enrollAgent_frames [frame_simps]:
  "users (snd (enrollAgent now dn tok cred d)) = users d"
  "sessions (snd (enrollAgent now dn tok cred d)) = sessions d"
  "commands (snd (enrollAgent now dn tok cred d)) = commands d"
  "connectors (snd (enrollAgent now dn tok cred d)) = connectors d"
  "stacks (snd (enrollAgent now dn tok cred d)) = stacks d"
  "routes (snd (enrollAgent now dn tok cred d)) = routes d"
  "deployments (snd (enrollAgent now dn tok cred d)) = deployments d"
  "revisions (snd (enrollAgent now dn tok cred d)) = revisions d"
  "runs (snd (enrollAgent now dn tok cred d)) = runs d"
  "runtime_ops (snd (enrollAgent now dn tok cred d)) = runtime_ops d"
  "log_requests (snd (enrollAgent now dn tok cred d)) = log_requests d"
  "backups (snd (enrollAgent now dn tok cred d)) = backups d"
  "restores (snd (enrollAgent now dn tok cred d)) = restores d"
  "backup_imports (snd (enrollAgent now dn tok cred d)) = backup_imports d"
  "recovery_requests (snd (enrollAgent now dn tok cred d)) = recovery_requests d"
  "scopes (snd (enrollAgent now dn tok cred d)) = scopes d"
  "domains (snd (enrollAgent now dn tok cred d)) = domains d"
  "accounts (snd (enrollAgent now dn tok cred d)) = accounts d"
  "draws d \<le> draws (snd (enrollAgent now dn tok cred d))"
  by (simp_all add: enrollAgent_def  after_def after_unit_def draw_def Let_def frame_simps del: exists_row_iff split: option.split sum.split prod.split)

lemma heartbeatAgent_frames [frame_simps]:
  "users (heartbeatAgent gen now i meta d) = users d"
  "sessions (heartbeatAgent gen now i meta d) = sessions d"
  "commands (heartbeatAgent gen now i meta d) = commands d"
  "stacks (heartbeatAgent gen now i meta d) = stacks d"
  "routes (heartbeatAgent gen now i meta d) = routes d"
  "deployments (heartbeatAgent gen now i meta d) = deployments d"
  "revisions (heartbeatAgent gen now i meta d) = revisions d"
  "runs (heartbeatAgent gen now i meta d) = runs d"
  "runtime_ops (heartbeatAgent gen now i meta d) = runtime_ops d"
  "log_requests (heartbeatAgent gen now i meta d) = log_requests d"
  "backups (heartbeatAgent gen now i meta d) = backups d"
  "restores (heartbeatAgent gen now i meta d) = restores d"
  "backup_imports (heartbeatAgent gen now i meta d) = backup_imports d"
  "recovery_requests (heartbeatAgent gen now i meta d) = recovery_requests d"
  "scopes (heartbeatAgent gen now i meta d) = scopes d"
  "domains (heartbeatAgent gen now i meta d) = domains d"
  "accounts (heartbeatAgent gen now i meta d) = accounts d"
  by (simp_all add: heartbeatAgent_def  after_def after_unit_def draw_def Let_def frame_simps del: exists_row_iff split: option.split sum.split prod.split)

lemmas [frame_simps] = heartbeatAgent_draws

lemma recordTelemetry_frames [frame_simps]:
  "users (recordTelemetry gen dp now dn i obs node svcs d) = users d"
  "sessions (recordTelemetry gen dp now dn i obs node svcs d) = sessions d"
  "commands (recordTelemetry gen dp now dn i obs node svcs d) = commands d"
  "connectors (recordTelemetry gen dp now dn i obs node svcs d) = connectors d"
  "stacks (recordTelemetry gen dp now dn i obs node svcs d) = stacks d"
  "routes (recordTelemetry gen dp now dn i obs node svcs d) = routes d"
  "deployments (recordTelemetry gen dp now dn i obs node svcs d) = deployments d"
  "revisions (recordTelemetry gen dp now dn i obs node svcs d) = revisions d"
  "runs (recordTelemetry gen dp now dn i obs node svcs d) = runs d"
  "runtime_ops (recordTelemetry gen dp now dn i obs node svcs d) = runtime_ops d"
  "log_requests (recordTelemetry gen dp now dn i obs node svcs d) = log_requests d"
  "backups (recordTelemetry gen dp now dn i obs node svcs d) = backups d"
  "restores (recordTelemetry gen dp now dn i obs node svcs d) = restores d"
  "backup_imports (recordTelemetry gen dp now dn i obs node svcs d) = backup_imports d"
  "recovery_requests (recordTelemetry gen dp now dn i obs node svcs d) = recovery_requests d"
  "scopes (recordTelemetry gen dp now dn i obs node svcs d) = scopes d"
  "domains (recordTelemetry gen dp now dn i obs node svcs d) = domains d"
  "accounts (recordTelemetry gen dp now dn i obs node svcs d) = accounts d"
  by (simp_all add: recordTelemetry_def  after_def after_unit_def draw_def Let_def frame_simps del: exists_row_iff split: option.split sum.split prod.split)

lemmas [frame_simps] = recordTelemetry_draws

lemma sweepOfflineAgents_frames [frame_simps]:
  "users (snd (sweepOfflineAgents gen now t d)) = users d"
  "sessions (snd (sweepOfflineAgents gen now t d)) = sessions d"
  "commands (snd (sweepOfflineAgents gen now t d)) = commands d"
  "connectors (snd (sweepOfflineAgents gen now t d)) = connectors d"
  "stacks (snd (sweepOfflineAgents gen now t d)) = stacks d"
  "routes (snd (sweepOfflineAgents gen now t d)) = routes d"
  "deployments (snd (sweepOfflineAgents gen now t d)) = deployments d"
  "revisions (snd (sweepOfflineAgents gen now t d)) = revisions d"
  "runs (snd (sweepOfflineAgents gen now t d)) = runs d"
  "runtime_ops (snd (sweepOfflineAgents gen now t d)) = runtime_ops d"
  "log_requests (snd (sweepOfflineAgents gen now t d)) = log_requests d"
  "backups (snd (sweepOfflineAgents gen now t d)) = backups d"
  "restores (snd (sweepOfflineAgents gen now t d)) = restores d"
  "backup_imports (snd (sweepOfflineAgents gen now t d)) = backup_imports d"
  "recovery_requests (snd (sweepOfflineAgents gen now t d)) = recovery_requests d"
  "scopes (snd (sweepOfflineAgents gen now t d)) = scopes d"
  "domains (snd (sweepOfflineAgents gen now t d)) = domains d"
  "accounts (snd (sweepOfflineAgents gen now t d)) = accounts d"
  by (simp_all add: sweepOfflineAgents_def  after_def after_unit_def draw_def Let_def frame_simps del: exists_row_iff split: option.split sum.split prod.split)

lemmas [frame_simps] = sweepOfflineAgents_draws

lemma createCommand_frames [frame_simps]:
  "users (after (createCommand gen now i type payload d) d) = users d"
  "sessions (after (createCommand gen now i type payload d) d) = sessions d"
  "agents (after (createCommand gen now i type payload d) d) = agents d"
  "connectors (after (createCommand gen now i type payload d) d) = connectors d"
  "stacks (after (createCommand gen now i type payload d) d) = stacks d"
  "routes (after (createCommand gen now i type payload d) d) = routes d"
  "deployments (after (createCommand gen now i type payload d) d) = deployments d"
  "revisions (after (createCommand gen now i type payload d) d) = revisions d"
  "runs (after (createCommand gen now i type payload d) d) = runs d"
  "runtime_ops (after (createCommand gen now i type payload d) d) = runtime_ops d"
  "log_requests (after (createCommand gen now i type payload d) d) = log_requests d"
  "backups (after (createCommand gen now i type payload d) d) = backups d"
  "restores (after (createCommand gen now i type payload d) d) = restores d"
  "backup_imports (after (createCommand gen now i type payload d) d) = backup_imports d"
  "recovery_requests (after (createCommand gen now i type payload d) d) = recovery_requests d"
  "scopes (after (createCommand gen now i type payload d) d) = scopes d"
  "domains (after (createCommand gen now i type payload d) d) = domains d"
  "accounts (after (createCommand gen now i type payload d) d) = accounts d"
  "draws d \<le> draws (after (createCommand gen now i type payload d) d)"
  by (simp_all add: createCommand_def  insert_command_def after_def after_unit_def draw_def Let_def frame_simps del: exists_row_iff split: option.split sum.split prod.split)

lemma createStack_frames [frame_simps]:
  "users (after (createStack gen now i name p y b cfg d) d) = users d"
  "sessions (after (createStack gen now i name p y b cfg d) d) = sessions d"
  "agents (after (createStack gen now i name p y b cfg d) d) = agents d"
  "connectors (after (createStack gen now i name p y b cfg d) d) = connectors d"
  "routes (after (createStack gen now i name p y b cfg d) d) = routes d"
  "deployments (after (createStack gen now i name p y b cfg d) d) = deployments d"
  "revisions (after (createStack gen now i name p y b cfg d) d) = revisions d"
  "runs (after (createStack gen now i name p y b cfg d) d) = runs d"
  "runtime_ops (after (createStack gen now i name p y b cfg d) d) = runtime_ops d"
  "log_requests (after (createStack gen now i name p y b cfg d) d) = log_requests d"
  "backups (after (createStack gen now i name p y b cfg d) d) = backups d"
  "restores (after (createStack gen now i name p y b cfg d) d) = restores d"
  "backup_imports (after (createStack gen now i name p y b cfg d) d) = backup_imports d"
  "recovery_requests (after (createStack gen now i name p y b cfg d) d) = recovery_requests d"
  "scopes (after (createStack gen now i name p y b cfg d) d) = scopes d"
  "domains (after (createStack gen now i name p y b cfg d) d) = domains d"
  "accounts (after (createStack gen now i name p y b cfg d) d) = accounts d"
  "draws d \<le> draws (after (createStack gen now i name p y b cfg d) d)"
  by (simp_all add: createStack_def queueInternalSync_def insert_command_def after_def after_unit_def draw_def Let_def frame_simps del: exists_row_iff split: option.split sum.split prod.split)

lemma updateStack_frames [frame_simps]:
  "users (after (updateStack gen now i nm y b cfg d) d) = users d"
  "sessions (after (updateStack gen now i nm y b cfg d) d) = sessions d"
  "agents (after (updateStack gen now i nm y b cfg d) d) = agents d"
  "connectors (after (updateStack gen now i nm y b cfg d) d) = connectors d"
  "routes (after (updateStack gen now i nm y b cfg d) d) = routes d"
  "deployments (after (updateStack gen now i nm y b cfg d) d) = deployments d"
  "revisions (after (updateStack gen now i nm y b cfg d) d) = revisions d"
  "runs (after (updateStack gen now i nm y b cfg d) d) = runs d"
  "runtime_ops (after (updateStack gen now i nm y b cfg d) d) = runtime_ops d"
  "log_requests (after (updateStack gen now i nm y b cfg d) d) = log_requests d"
  "backups (after (updateStack gen now i nm y b cfg d) d) = backups d"
  "restores (after (updateStack gen now i nm y b cfg d) d) = restores d"
  "backup_imports (after (updateStack gen now i nm y b cfg d) d) = backup_imports d"
  "recovery_requests (after (updateStack gen now i nm y b cfg d) d) = recovery_requests d"
  "scopes (after (updateStack gen now i nm y b cfg d) d) = scopes d"
  "domains (after (updateStack gen now i nm y b cfg d) d) = domains d"
  "accounts (after (updateStack gen now i nm y b cfg d) d) = accounts d"
  "draws d \<le> draws (after (updateStack gen now i nm y b cfg d) d)"
  by (simp_all add: updateStack_def queueInternalSync_def insert_command_def after_def after_unit_def draw_def Let_def frame_simps del: exists_row_iff split: option.split sum.split prod.split)

lemma queueStackAction_frames [frame_simps]:
  "users (snd (queueStackAction gen now i type d)) = users d"
  "sessions (snd (queueStackAction gen now i type d)) = sessions d"
  "agents (snd (queueStackAction gen now i type d)) = agents d"
  "connectors (snd (queueStackAction gen now i type d)) = connectors d"
  "stacks (snd (queueStackAction gen now i type d)) = stacks d"
  "routes (snd (queueStackAction gen now i type d)) = routes d"
  "deployments (snd (queueStackAction gen now i type d)) = deployments d"
  "revisions (snd (queueStackAction gen now i type d)) = revisions d"
  "runs (snd (queueStackAction gen now i type d)) = runs d"
  "runtime_ops (snd (queueStackAction gen now i type d)) = runtime_ops d"
  "log_requests (snd (queueStackAction gen now i type d)) = log_requests d"
  "backups (snd (queueStackAction gen now i type d)) = backups d"
  "restores (snd (queueStackAction gen now i type d)) = restores d"
  "backup_imports (snd (queueStackAction gen now i type d)) = backup_imports d"
  "recovery_requests (snd (queueStackAction gen now i type d)) = recovery_requests d"
  "scopes (snd (queueStackAction gen now i type d)) = scopes d"
  "domains (snd (queueStackAction gen now i type d)) = domains d"
  "accounts (snd (queueStackAction gen now i type d)) = accounts d"
  "draws d \<le> draws (snd (queueStackAction gen now i type d))"
  by (simp_all add: queueStackAction_def  insert_command_def after_def after_unit_def draw_def Let_def frame_simps del: exists_row_iff split: option.split sum.split prod.split)

lemma createRoute_frames [frame_simps]:
  "users (after (createRoute gen now i name hn ex bs b d) d) = users d"
  "sessions (after (createRoute gen now i name hn ex bs b d) d) = sessions d"
  "agents (after (createRoute gen now i name hn ex bs b d) d) = agents d"
  "connectors (after (createRoute gen now i name hn ex bs b d) d) = connectors d"
  "stacks (after (createRoute gen now i name hn ex bs b d) d) = stacks d"
  "deployments (after (createRoute gen now i name hn ex bs b d) d) = deployments d"
  "revisions (after (createRoute gen now i name hn ex bs b d) d) = revisions d"
  "runs (after (createRoute gen now i name hn ex bs b d) d) = runs d"
  "runtime_ops (after (createRoute gen now i name hn ex bs b d) d) = runtime_ops d"
  "log_requests (after (createRoute gen now i name hn ex bs b d) d) = log_requests d"
  "backups (after (createRoute gen now i name hn ex bs b d) d) = backups d"
  "restores (after (createRoute gen now i name hn ex bs b d) d) = restores d"
  "backup_imports (after (createRoute gen now i name hn ex bs b d) d) = backup_imports d"
  "recovery_requests (after (createRoute gen now i name hn ex bs b d) d) = recovery_requests d"
  "scopes (after (createRoute gen now i name hn ex bs b d) d) = scopes d"
  "domains (after (createRoute gen now i name hn ex bs b d) d) = domains d"
  "accounts (after (createRoute gen now i name hn ex bs b d) d) = accounts d"
  "draws d \<le> draws (after (createRoute gen now i name hn ex bs b d) d)"
  by (simp_all add: createRoute_def queueInternalSync_def insert_command_def after_def after_unit_def draw_def Let_def frame_simps del: exists_row_iff split: option.split sum.split prod.split)

lemma updateRoute_frames [frame_simps]:
  "users (after (updateRoute gen now i aid nm hn ex bs b d) d) = users d"
  "sessions (after (updateRoute gen now i aid nm hn ex bs b d) d) = sessions d"
  "agents (after (updateRoute gen now i aid nm hn ex bs b d) d) = agents d"
  "connectors (after (updateRoute gen now i aid nm hn ex bs b d) d) = connectors d"
  "stacks (after (updateRoute gen now i aid nm hn ex bs b d) d) = stacks d"
  "deployments (after (updateRoute gen now i aid nm hn ex bs b d) d) = deployments d"
  "revisions (after (updateRoute gen now i aid nm hn ex bs b d) d) = revisions d"
  "runs (after (updateRoute gen now i aid nm hn ex bs b d) d) = runs d"
  "runtime_ops (after (updateRoute gen now i aid nm hn ex bs b d) d) = runtime_ops d"
  "log_requests (after (updateRoute gen now i aid nm hn ex bs b d) d) = log_requests d"
  "backups (after (updateRoute gen now i aid nm hn ex bs b d) d) = backups d"
  "restores (after (updateRoute gen now i aid nm hn ex bs b d) d) = restores d"
  "backup_imports (after (updateRoute gen now i aid nm hn ex bs b d) d) = backup_imports d"
  "recovery_requests (after (updateRoute gen now i aid nm hn ex bs b d) d) = recovery_requests d"
  "scopes (after (updateRoute gen now i aid nm hn ex bs b d) d) = scopes d"
  "domains (after (updateRoute gen now i aid nm hn ex bs b d) d) = domains d"
  "accounts (after (updateRoute gen now i aid nm hn ex bs b d) d) = accounts d"
  "draws d \<le> draws (after (updateRoute gen now i aid nm hn ex bs b d) d)"
  by (simp_all add: updateRoute_def queueInternalSync_def insert_command_def after_def after_unit_def draw_def Let_def frame_simps del: exists_row_iff split: option.split sum.split prod.split)

lemma createBackup_frames [frame_simps]:
  "users (snd (createBackup gen now i u tgt d)) = users d"
  "sessions (snd (createBackup gen now i u tgt d)) = sessions d"
  "agents (snd (createBackup gen now i u tgt d)) = agents d"
  "connectors (snd (createBackup gen now i u tgt d)) = connectors d"
  "stacks (snd (createBackup gen now i u tgt d)) = stacks d"
  "routes (snd (createBackup gen now i u tgt d)) = routes d"
  "deployments (snd (createBackup gen now i u tgt d)) = deployments d"
  "revisions (snd (createBackup gen now i u tgt d)) = revisions d"
  "runs (snd (createBackup gen now i u tgt d)) = runs d"
  "runtime_ops (snd (createBackup gen now i u tgt d)) = runtime_ops d"
  "log_requests (snd (createBackup gen now i u tgt d)) = log_requests d"
  "restores (snd (createBackup gen now i u tgt d)) = restores d"
  "backup_imports (snd (createBackup gen now i u tgt d)) = backup_imports d"
  "recovery_requests (snd (createBackup gen now i u tgt d)) = recovery_requests d"
  "scopes (snd (createBackup gen now i u tgt d)) = scopes d"
  "domains (snd (createBackup gen now i u tgt d)) = domains d"
  "accounts (snd (createBackup gen now i u tgt d)) = accounts d"
  "draws d \<le> draws (snd (createBackup gen now i u tgt d))"
  by (simp_all add: createBackup_def  insert_command_def after_def after_unit_def draw_def Let_def frame_simps del: exists_row_iff split: option.split sum.split prod.split)

lemma createRestore_frames [frame_simps]:
  "users (snd (createRestore gen now i u d)) = users d"
  "sessions (snd (createRestore gen now i u d)) = sessions d"
  "agents (snd (createRestore gen now i u d)) = agents d"
  "connectors (snd (createRestore gen now i u d)) = connectors d"
  "stacks (snd (createRestore gen now i u d)) = stacks d"
  "routes (snd (createRestore gen now i u d)) = routes d"
  "deployments (snd (createRestore gen now i u d)) = deployments d"
  "revisions (snd (createRestore gen now i u d)) = revisions d"
  "runs (snd (createRestore gen now i u d)) = runs d"
  "runtime_ops (snd (createRestore gen now i u d)) = runtime_ops d"
  "log_requests (snd (createRestore gen now i u d)) = log_requests d"
  "backups (snd (createRestore gen now i u d)) = backups d"
  "backup_imports (snd (createRestore gen now i u d)) = backup_imports d"
  "recovery_requests (snd (createRestore gen now i u d)) = recovery_requests d"
  "scopes (snd (createRestore gen now i u d)) = scopes d"
  "domains (snd (createRestore gen now i u d)) = domains d"
  "accounts (snd (createRestore gen now i u d)) = accounts d"
  "draws d \<le> draws (snd (createRestore gen now i u d))"
  by (simp_all add: createRestore_def  insert_command_def after_def after_unit_def draw_def Let_def frame_simps del: exists_row_iff split: option.split sum.split prod.split)

lemma queueLogRequest_frames [frame_simps]:
  "users (snd (queueLogRequest gen now i u svc n since d)) = users d"
  "sessions (snd (queueLogRequest gen now i u svc n since d)) = sessions d"
  "agents (snd (queueLogRequest gen now i u svc n since d)) = agents d"
  "connectors (snd (queueLogRequest gen now i u svc n since d)) = connectors d"
  "stacks (snd (queueLogRequest gen now i u svc n since d)) = stacks d"
  "routes (snd (queueLogRequest gen now i u svc n since d)) = routes d"
  "deployments (snd (queueLogRequest gen now i u svc n since d)) = deployments d"
  "revisions (snd (queueLogRequest gen now i u svc n since d)) = revisions d"
  "runs (snd (queueLogRequest gen now i u svc n since d)) = runs d"
  "runtime_ops (snd (queueLogRequest gen now i u svc n since d)) = runtime_ops d"
  "log_requests (snd (queueLogRequest gen now i u svc n since d)) = log_requests d"
  "backups (snd (queueLogRequest gen now i u svc n since d)) = backups d"
  "restores (snd (queueLogRequest gen now i u svc n since d)) = restores d"
  "backup_imports (snd (queueLogRequest gen now i u svc n since d)) = backup_imports d"
  "recovery_requests (snd (queueLogRequest gen now i u svc n since d)) = recovery_requests d"
  "scopes (snd (queueLogRequest gen now i u svc n since d)) = scopes d"
  "domains (snd (queueLogRequest gen now i u svc n since d)) = domains d"
  "accounts (snd (queueLogRequest gen now i u svc n since d)) = accounts d"
  "draws d \<le> draws (snd (queueLogRequest gen now i u svc n since d))"
  by (simp_all add: queueLogRequest_def  insert_command_def after_def after_unit_def draw_def Let_def frame_simps del: exists_row_iff split: option.split sum.split prod.split)

lemma createDeployment_frames [frame_simps]:
  "users (after (createDeployment gen now i name p v d) d) = users d"
  "sessions (after (createDeployment gen now i name p v d) d) = sessions d"
  "agents (after (createDeployment gen now i name p v d) d) = agents d"
  "commands (after (createDeployment gen now i name p v d) d) = commands d"
  "connectors (after (createDeployment gen now i name p v d) d) = connectors d"
  "stacks (after (createDeployment gen now i name p v d) d) = stacks d"
  "routes (after (createDeployment gen now i name p v d) d) = routes d"
  "runs (after (createDeployment gen now i name p v d) d) = runs d"
  "runtime_ops (after (createDeployment gen now i name p v d) d) = runtime_ops d"
  "log_requests (after (createDeployment gen now i name p v d) d) = log_requests d"
  "backups (after (createDeployment gen now i name p v d) d) = backups d"
  "restores (after (createDeployment gen now i name p v d) d) = restores d"
  "backup_imports (after (createDeployment gen now i name p v d) d) = backup_imports d"
  "recovery_requests (after (createDeployment gen now i name p v d) d) = recovery_requests d"
  "scopes (after (createDeployment gen now i name p v d) d) = scopes d"
  "domains (after (createDeployment gen now i name p v d) d) = domains d"
  "accounts (after (createDeployment gen now i name p v d) d) = accounts d"
  "draws d \<le> draws (after (createDeployment gen now i name p v d) d)"
  by (simp_all add: createDeployment_def  after_def after_unit_def draw_def Let_def frame_simps del: exists_row_iff split: option.split sum.split prod.split)

lemma createDeploymentRevision_frames [frame_simps]:
  "users (after (createDeploymentRevision gen now i v d) d) = users d"
  "sessions (after (createDeploymentRevision gen now i v d) d) = sessions d"
  "agents (after (createDeploymentRevision gen now i v d) d) = agents d"
  "commands (after (createDeploymentRevision gen now i v d) d) = commands d"
  "connectors (after (createDeploymentRevision gen now i v d) d) = connectors d"
  "stacks (after (createDeploymentRevision gen now i v d) d) = stacks d"
  "routes (after (createDeploymentRevision gen now i v d) d) = routes d"
  "deployments (after (createDeploymentRevision gen now i v d) d) = deployments d"
  "runs (after (createDeploymentRevision gen now i v d) d) = runs d"
  "runtime_ops (after (createDeploymentRevision gen now i v d) d) = runtime_ops d"
  "log_requests (after (createDeploymentRevision gen now i v d) d) = log_requests d"
  "backups (after (createDeploymentRevision gen now i v d) d) = backups d"
  "restores (after (createDeploymentRevision gen now i v d) d) = restores d"
  "backup_imports (after (createDeploymentRevision gen now i v d) d) = backup_imports d"
  "recovery_requests (after (createDeploymentRevision gen now i v d) d) = recovery_requests d"
  "scopes (after (createDeploymentRevision gen now i v d) d) = scopes d"
  "domains (after (createDeploymentRevision gen now i v d) d) = domains d"
  "accounts (after (createDeploymentRevision gen now i v d) d) = accounts d"
  "draws d \<le> draws (after (createDeploymentRevision gen now i v d) d)"
  by (simp_all add: createDeploymentRevision_def  after_def after_unit_def draw_def Let_def frame_simps del: exists_row_iff split: option.split sum.split prod.split)

lemma createDeploymentRun_frames [frame_simps]:
  "users (snd (createDeploymentRun gen now i j act u d)) = users d"
  "sessions (snd (createDeploymentRun gen now i j act u d)) = sessions d"
  "agents (snd (createDeploymentRun gen now i j act u d)) = agents d"
  "connectors (snd (createDeploymentRun gen now i j act u d)) = connectors d"
  "stacks (snd (createDeploymentRun gen now i j act u d)) = stacks d"
  "routes (snd (createDeploymentRun gen now i j act u d)) = routes d"
  "revisions (snd (createDeploymentRun gen now i j act u d)) = revisions d"
  "runtime_ops (snd (createDeploymentRun gen now i j act u d)) = runtime_ops d"
  "log_requests (snd (createDeploymentRun gen now i j act u d)) = log_requests d"
  "backups (snd (createDeploymentRun gen now i j act u d)) = backups d"
  "restores (snd (createDeploymentRun gen now i j act u d)) = restores d"
  "backup_imports (snd (createDeploymentRun gen now i j act u d)) = backup_imports d"
  "recovery_requests (snd (createDeploymentRun gen now i j act u d)) = recovery_requests d"
  "scopes (snd (createDeploymentRun gen now i j act u d)) = scopes d"
  "domains (snd (createDeploymentRun gen now i j act u d)) = domains d"
  "accounts (snd (createDeploymentRun gen now i j act u d)) = accounts d"
  "draws d \<le> draws (snd (createDeploymentRun gen now i j act u d))"
  by (simp_all add: createDeploymentRun_def  insert_command_def after_def after_unit_def draw_def Let_def frame_simps del: exists_row_iff split: option.split sum.split prod.split)

lemma createRuntimeOperation_frames [frame_simps]:
  "users (after (createRuntimeOperation gen now u i act sc p s d) d) = users d"
  "sessions (after (createRuntimeOperation gen now u i act sc p s d) d) = sessions d"
  "agents (after (createRuntimeOperation gen now u i act sc p s d) d) = agents d"
  "connectors (after (createRuntimeOperation gen now u i act sc p s d) d) = connectors d"
  "stacks (after (createRuntimeOperation gen now u i act sc p s d) d) = stacks d"
  "routes (after (createRuntimeOperation gen now u i act sc p s d) d) = routes d"
  "deployments (after (createRuntimeOperation gen now u i act sc p s d) d) = deployments d"
  "revisions (after (createRuntimeOperation gen now u i act sc p s d) d) = revisions d"
  "runs (after (createRuntimeOperation gen now u i act sc p s d) d) = runs d"
  "log_requests (after (createRuntimeOperation gen now u i act sc p s d) d) = log_requests d"
  "backups (after (createRuntimeOperation gen now u i act sc p s d) d) = backups d"
  "restores (after (createRuntimeOperation gen now u i act sc p s d) d) = restores d"
  "backup_imports (after (createRuntimeOperation gen now u i act sc p s d) d) = backup_imports d"
  "recovery_requests (after (createRuntimeOperation gen now u i act sc p s d) d) = recovery_requests d"
  "scopes (after (createRuntimeOperation gen now u i act sc p s d) d) = scopes d"
  "domains (after (createRuntimeOperation gen now u i act sc p s d) d) = domains d"
  "accounts (after (createRuntimeOperation gen now u i act sc p s d) d) = accounts d"
  "draws d \<le> draws (after (createRuntimeOperation gen now u i act sc p s d) d)"
  by (simp_all add: createRuntimeOperation_def  insert_command_def after_def after_unit_def draw_def Let_def frame_simps del: exists_row_iff split: option.split sum.split prod.split)

lemma createRuntimeLogRequest_frames [frame_simps]:
  "users (after (createRuntimeLogRequest gen now u i p s n since d) d) = users d"
  "sessions (after (createRuntimeLogRequest gen now u i p s n since d) d) = sessions d"
  "agents (after (createRuntimeLogRequest gen now u i p s n since d) d) = agents d"
  "connectors (after (createRuntimeLogRequest gen now u i p s n since d) d) = connectors d"
  "stacks (after (createRuntimeLogRequest gen now u i p s n since d) d) = stacks d"
  "routes (after (createRuntimeLogRequest gen now u i p s n since d) d) = routes d"
  "deployments (after (createRuntimeLogRequest gen now u i p s n since d) d) = deployments d"
  "revisions (after (createRuntimeLogRequest gen now u i p s n since d) d) = revisions d"
  "runs (after (createRuntimeLogRequest gen now u i p s n since d) d) = runs d"
  "runtime_ops (after (createRuntimeLogRequest gen now u i p s n since d) d) = runtime_ops d"
  "backups (after (createRuntimeLogRequest gen now u i p s n since d) d) = backups d"
  "restores (after (createRuntimeLogRequest gen now u i p s n since d) d) = restores d"
  "backup_imports (after (createRuntimeLogRequest gen now u i p s n since d) d) = backup_imports d"
  "recovery_requests (after (createRuntimeLogRequest gen now u i p s n since d) d) = recovery_requests d"
  "scopes (after (createRuntimeLogRequest gen now u i p s n since d) d) = scopes d"
  "domains (after (createRuntimeLogRequest gen now u i p s n since d) d) = domains d"
  "accounts (after (createRuntimeLogRequest gen now u i p s n since d) d) = accounts d"
  "draws d \<le> draws (after (createRuntimeLogRequest gen now u i p s n since d) d)"
  by (simp_all add: createRuntimeLogRequest_def  insert_command_def after_def after_unit_def draw_def Let_def frame_simps del: exists_row_iff split: option.split sum.split prod.split)

lemma createConnector_frames [frame_simps]:
  "users (after (createConnector gen now name tok b i aid ident tun st err d) d) = users d"
  "sessions (after (createConnector gen now name tok b i aid ident tun st err d) d) = sessions d"
  "agents (after (createConnector gen now name tok b i aid ident tun st err d) d) = agents d"
  "stacks (after (createConnector gen now name tok b i aid ident tun st err d) d) = stacks d"
  "routes (after (createConnector gen now name tok b i aid ident tun st err d) d) = routes d"
  "deployments (after (createConnector gen now name tok b i aid ident tun st err d) d) = deployments d"
  "revisions (after (createConnector gen now name tok b i aid ident tun st err d) d) = revisions d"
  "runs (after (createConnector gen now name tok b i aid ident tun st err d) d) = runs d"
  "runtime_ops (after (createConnector gen now name tok b i aid ident tun st err d) d) = runtime_ops d"
  "log_requests (after (createConnector gen now name tok b i aid ident tun st err d) d) = log_requests d"
  "backups (after (createConnector gen now name tok b i aid ident tun st err d) d) = backups d"
  "restores (after (createConnector gen now name tok b i aid ident tun st err d) d) = restores d"
  "backup_imports (after (createConnector gen now name tok b i aid ident tun st err d) d) = backup_imports d"
  "recovery_requests (after (createConnector gen now name tok b i aid ident tun st err d) d) = recovery_requests d"
  "scopes (after (createConnector gen now name tok b i aid ident tun st err d) d) = scopes d"
  "domains (after (createConnector gen now name tok b i aid ident tun st err d) d) = domains d"
  "accounts (after (createConnector gen now name tok b i aid ident tun st err d) d) = accounts d"
  "draws d \<le> draws (after (createConnector gen now name tok b i aid ident tun st err d) d)"
  by (simp_all add: createConnector_def queueConnectorSync_def insert_command_def after_def after_unit_def draw_def Let_def frame_simps del: exists_row_iff split: option.split sum.split prod.split)

lemma updateConnector_frames [frame_simps]:
  "users (after (updateConnector gen now i v d) d) = users d"
  "sessions (after (updateConnector gen now i v d) d) = sessions d"
  "agents (after (updateConnector gen now i v d) d) = agents d"
  "stacks (after (updateConnector gen now i v d) d) = stacks d"
  "routes (after (updateConnector gen now i v d) d) = routes d"
  "deployments (after (updateConnector gen now i v d) d) = deployments d"
  "revisions (after (updateConnector gen now i v d) d) = revisions d"
  "runs (after (updateConnector gen now i v d) d) = runs d"
  "runtime_ops (after (updateConnector gen now i v d) d) = runtime_ops d"
  "log_requests (after (updateConnector gen now i v d) d) = log_requests d"
  "backups (after (updateConnector gen now i v d) d) = backups d"
  "restores (after (updateConnector gen now i v d) d) = restores d"
  "backup_imports (after (updateConnector gen now i v d) d) = backup_imports d"
  "recovery_requests (after (updateConnector gen now i v d) d) = recovery_requests d"
  "scopes (after (updateConnector gen now i v d) d) = scopes d"
  "domains (after (updateConnector gen now i v d) d) = domains d"
  "accounts (after (updateConnector gen now i v d) d) = accounts d"
  "draws d \<le> draws (after (updateConnector gen now i v d) d)"
  by (simp_all add: updateConnector_def queueConnectorSync_def insert_command_def write_connector_def after_def after_unit_def draw_def Let_def frame_simps del: exists_row_iff split: option.split sum.split prod.split)

lemma markConnectorIdentity_frames [frame_simps]:
  "users (after (markConnectorIdentity now i ex v d) d) = users d"
  "sessions (after (markConnectorIdentity now i ex v d) d) = sessions d"
  "agents (after (markConnectorIdentity now i ex v d) d) = agents d"
  "commands (after (markConnectorIdentity now i ex v d) d) = commands d"
  "stacks (after (markConnectorIdentity now i ex v d) d) = stacks d"
  "routes (after (markConnectorIdentity now i ex v d) d) = routes d"
  "deployments (after (markConnectorIdentity now i ex v d) d) = deployments d"
  "revisions (after (markConnectorIdentity now i ex v d) d) = revisions d"
  "runs (after (markConnectorIdentity now i ex v d) d) = runs d"
  "runtime_ops (after (markConnectorIdentity now i ex v d) d) = runtime_ops d"
  "log_requests (after (markConnectorIdentity now i ex v d) d) = log_requests d"
  "backups (after (markConnectorIdentity now i ex v d) d) = backups d"
  "restores (after (markConnectorIdentity now i ex v d) d) = restores d"
  "backup_imports (after (markConnectorIdentity now i ex v d) d) = backup_imports d"
  "recovery_requests (after (markConnectorIdentity now i ex v d) d) = recovery_requests d"
  "scopes (after (markConnectorIdentity now i ex v d) d) = scopes d"
  "domains (after (markConnectorIdentity now i ex v d) d) = domains d"
  "accounts (after (markConnectorIdentity now i ex v d) d) = accounts d"
  "draws d \<le> draws (after (markConnectorIdentity now i ex v d) d)"
  by (simp_all add: markConnectorIdentity_def write_connector_def after_def after_unit_def draw_def Let_def frame_simps del: exists_row_iff split: option.split sum.split prod.split)

lemma createCloudflareAccount_frames [frame_simps]:
  "users (after (createCloudflareAccount gen now name ident tok b d) d) = users d"
  "sessions (after (createCloudflareAccount gen now name ident tok b d) d) = sessions d"
  "agents (after (createCloudflareAccount gen now name ident tok b d) d) = agents d"
  "commands (after (createCloudflareAccount gen now name ident tok b d) d) = commands d"
  "connectors (after (createCloudflareAccount gen now name ident tok b d) d) = connectors d"
  "stacks (after (createCloudflareAccount gen now name ident tok b d) d) = stacks d"
  "routes (after (createCloudflareAccount gen now name ident tok b d) d) = routes d"
  "deployments (after (createCloudflareAccount gen now name ident tok b d) d) = deployments d"
  "revisions (after (createCloudflareAccount gen now name ident tok b d) d) = revisions d"
  "runs (after (createCloudflareAccount gen now name ident tok b d) d) = runs d"
  "runtime_ops (after (createCloudflareAccount gen now name ident tok b d) d) = runtime_ops d"
  "log_requests (after (createCloudflareAccount gen now name ident tok b d) d) = log_requests d"
  "backups (after (createCloudflareAccount gen now name ident tok b d) d) = backups d"
  "restores (after (createCloudflareAccount gen now name ident tok b d) d) = restores d"
  "backup_imports (after (createCloudflareAccount gen now name ident tok b d) d) = backup_imports d"
  "recovery_requests (after (createCloudflareAccount gen now name ident tok b d) d) = recovery_requests d"
  "scopes (after (createCloudflareAccount gen now name ident tok b d) d) = scopes d"
  "domains (after (createCloudflareAccount gen now name ident tok b d) d) = domains d"
  "draws d \<le> draws (after (createCloudflareAccount gen now name ident tok b d) d)"
  by (simp_all add: createCloudflareAccount_def  after_def after_unit_def draw_def Let_def frame_simps del: exists_row_iff split: option.split sum.split prod.split)

lemma updateCloudflareAccount_frames [frame_simps]:
  "users (after (updateCloudflareAccount now i nm ident tok b d) d) = users d"
  "sessions (after (updateCloudflareAccount now i nm ident tok b d) d) = sessions d"
  "agents (after (updateCloudflareAccount now i nm ident tok b d) d) = agents d"
  "commands (after (updateCloudflareAccount now i nm ident tok b d) d) = commands d"
  "connectors (after (updateCloudflareAccount now i nm ident tok b d) d) = connectors d"
  "stacks (after (updateCloudflareAccount now i nm ident tok b d) d) = stacks d"
  "routes (after (updateCloudflareAccount now i nm ident tok b d) d) = routes d"
  "deployments (after (updateCloudflareAccount now i nm ident tok b d) d) = deployments d"
  "revisions (after (updateCloudflareAccount now i nm ident tok b d) d) = revisions d"
  "runs (after (updateCloudflareAccount now i nm ident tok b d) d) = runs d"
  "runtime_ops (after (updateCloudflareAccount now i nm ident tok b d) d) = runtime_ops d"
  "log_requests (after (updateCloudflareAccount now i nm ident tok b d) d) = log_requests d"
  "backups (after (updateCloudflareAccount now i nm ident tok b d) d) = backups d"
  "restores (after (updateCloudflareAccount now i nm ident tok b d) d) = restores d"
  "backup_imports (after (updateCloudflareAccount now i nm ident tok b d) d) = backup_imports d"
  "recovery_requests (after (updateCloudflareAccount now i nm ident tok b d) d) = recovery_requests d"
  "scopes (after (updateCloudflareAccount now i nm ident tok b d) d) = scopes d"
  "domains (after (updateCloudflareAccount now i nm ident tok b d) d) = domains d"
  "draws d \<le> draws (after (updateCloudflareAccount now i nm ident tok b d) d)"
  by (simp_all add: updateCloudflareAccount_def  after_def after_unit_def draw_def Let_def frame_simps del: exists_row_iff split: option.split sum.split prod.split)

lemma deleteCloudflareAccount_frames [frame_simps]:
  "users (snd (deleteCloudflareAccount i d)) = users d"
  "sessions (snd (deleteCloudflareAccount i d)) = sessions d"
  "agents (snd (deleteCloudflareAccount i d)) = agents d"
  "commands (snd (deleteCloudflareAccount i d)) = commands d"
  "connectors (snd (deleteCloudflareAccount i d)) = connectors d"
  "stacks (snd (deleteCloudflareAccount i d)) = stacks d"
  "routes (snd (deleteCloudflareAccount i d)) = routes d"
  "deployments (snd (deleteCloudflareAccount i d)) = deployments d"
  "revisions (snd (deleteCloudflareAccount i d)) = revisions d"
  "runs (snd (deleteCloudflareAccount i d)) = runs d"
  "runtime_ops (snd (deleteCloudflareAccount i d)) = runtime_ops d"
  "log_requests (snd (deleteCloudflareAccount i d)) = log_requests d"
  "backups (snd (deleteCloudflareAccount i d)) = backups d"
  "restores (snd (deleteCloudflareAccount i d)) = restores d"
  "backup_imports (snd (deleteCloudflareAccount i d)) = backup_imports d"
  "recovery_requests (snd (deleteCloudflareAccount i d)) = recovery_requests d"
  "scopes (snd (deleteCloudflareAccount i d)) = scopes d"
  "domains (snd (deleteCloudflareAccount i d)) = domains d"
  "draws d \<le> draws (snd (deleteCloudflareAccount i d))"
  by (simp_all add: deleteCloudflareAccount_def  after_def after_unit_def draw_def Let_def frame_simps del: exists_row_iff split: option.split sum.split prod.split)

lemma sync_zone_shape:
  assumes "sync_zone gen now a z d = Inr e"
  shows "\<exists>t n. e = d\<lparr>zones := t, draws := n\<rparr> \<and> draws d \<le> n"
proof -
  have "e = d\<lparr>zones := zones e, draws := draws e\<rparr> \<and> draws d \<le> draws e"
    using assms by (auto simp: sync_zone_def draw_def Let_def split: prod.splits option.splits if_splits)
  then show ?thesis by blast
qed

lemma sync_zones_shape:
  "sync_zones gen now a zs d = Inr e \<Longrightarrow> \<exists>t n. e = d\<lparr>zones := t, draws := n\<rparr> \<and> draws d \<le> n"
proof (induction zs arbitrary: d)
  case Nil
  then show ?case by (intro exI [of _ "zones d"] exI [of _ "draws d"]) simp
next
  case (Cons z zs)
  then obtain d' where d': "sync_zone gen now a z d = Inr d'" "sync_zones gen now a zs d' = Inr e"
    by (auto split: sum.splits)
  obtain t n where t: "d' = d\<lparr>zones := t, draws := n\<rparr>" "draws d \<le> n" using sync_zone_shape [OF d'(1)] by blast
  obtain u m where "e = d'\<lparr>zones := u, draws := m\<rparr>" "draws d' \<le> m" using Cons.IH [OF d'(2)] by blast
  with t have "e = d\<lparr>zones := u, draws := m\<rparr> \<and> draws d \<le> m" by simp
  then show ?case by blast
qed

lemma syncCloudflareZones_shape:
  "\<exists>t u n. after (syncCloudflareZones gen now i zs err d) d = d\<lparr>accounts := t, zones := u, draws := n\<rparr> \<and> draws d \<le> n"
proof (rule after_cases)
  show "\<exists>t u n. d = d\<lparr>accounts := t, zones := u, draws := n\<rparr> \<and> draws d \<le> n"
    by (intro exI [of _ "accounts d"] exI [of _ "zones d"] exI [of _ "draws d"]) simp
  fix x e
  assume run: "syncCloudflareZones gen now i zs err d = Inr (x, e)"
  have "e = d\<lparr>accounts := accounts e, zones := zones e, draws := draws e\<rparr> \<and> draws d \<le> draws e"
  proof (cases "exists_row (\<lambda>r. acc_id r = i) (accounts d) \<and> coalesce err [] = []")
    case True
    with run show ?thesis
      by (auto simp: syncCloudflareZones_def Let_def simp del: exists_row_iff dest!: sync_zones_shape split: sum.splits)
  next
    case False
    with run show ?thesis
      by (auto simp: syncCloudflareZones_def Let_def simp del: exists_row_iff split: if_splits)
  qed
  then show "\<exists>t u n. e = d\<lparr>accounts := t, zones := u, draws := n\<rparr> \<and> draws d \<le> n" by blast
qed

lemma syncCloudflareZones_frames [frame_simps]:
  "users (after (syncCloudflareZones gen now i zs err d) d) = users d"
  "sessions (after (syncCloudflareZones gen now i zs err d) d) = sessions d"
  "agents (after (syncCloudflareZones gen now i zs err d) d) = agents d"
  "commands (after (syncCloudflareZones gen now i zs err d) d) = commands d"
  "connectors (after (syncCloudflareZones gen now i zs err d) d) = connectors d"
  "stacks (after (syncCloudflareZones gen now i zs err d) d) = stacks d"
  "routes (after (syncCloudflareZones gen now i zs err d) d) = routes d"
  "deployments (after (syncCloudflareZones gen now i zs err d) d) = deployments d"
  "revisions (after (syncCloudflareZones gen now i zs err d) d) = revisions d"
  "runs (after (syncCloudflareZones gen now i zs err d) d) = runs d"
  "runtime_ops (after (syncCloudflareZones gen now i zs err d) d) = runtime_ops d"
  "log_requests (after (syncCloudflareZones gen now i zs err d) d) = log_requests d"
  "backups (after (syncCloudflareZones gen now i zs err d) d) = backups d"
  "restores (after (syncCloudflareZones gen now i zs err d) d) = restores d"
  "backup_imports (after (syncCloudflareZones gen now i zs err d) d) = backup_imports d"
  "recovery_requests (after (syncCloudflareZones gen now i zs err d) d) = recovery_requests d"
  "scopes (after (syncCloudflareZones gen now i zs err d) d) = scopes d"
  "domains (after (syncCloudflareZones gen now i zs err d) d) = domains d"
  "draws d \<le> draws (after (syncCloudflareZones gen now i zs err d) d)"
  using syncCloudflareZones_shape [of gen now i zs err d] by auto

lemma createOrGetGuidedOperation_frames [frame_simps]:
  "users (snd (createOrGetGuidedOperation gen now k key u h req d)) = users d"
  "sessions (snd (createOrGetGuidedOperation gen now k key u h req d)) = sessions d"
  "agents (snd (createOrGetGuidedOperation gen now k key u h req d)) = agents d"
  "commands (snd (createOrGetGuidedOperation gen now k key u h req d)) = commands d"
  "connectors (snd (createOrGetGuidedOperation gen now k key u h req d)) = connectors d"
  "stacks (snd (createOrGetGuidedOperation gen now k key u h req d)) = stacks d"
  "routes (snd (createOrGetGuidedOperation gen now k key u h req d)) = routes d"
  "deployments (snd (createOrGetGuidedOperation gen now k key u h req d)) = deployments d"
  "revisions (snd (createOrGetGuidedOperation gen now k key u h req d)) = revisions d"
  "runs (snd (createOrGetGuidedOperation gen now k key u h req d)) = runs d"
  "runtime_ops (snd (createOrGetGuidedOperation gen now k key u h req d)) = runtime_ops d"
  "log_requests (snd (createOrGetGuidedOperation gen now k key u h req d)) = log_requests d"
  "backups (snd (createOrGetGuidedOperation gen now k key u h req d)) = backups d"
  "restores (snd (createOrGetGuidedOperation gen now k key u h req d)) = restores d"
  "backup_imports (snd (createOrGetGuidedOperation gen now k key u h req d)) = backup_imports d"
  "recovery_requests (snd (createOrGetGuidedOperation gen now k key u h req d)) = recovery_requests d"
  "scopes (snd (createOrGetGuidedOperation gen now k key u h req d)) = scopes d"
  "domains (snd (createOrGetGuidedOperation gen now k key u h req d)) = domains d"
  "accounts (snd (createOrGetGuidedOperation gen now k key u h req d)) = accounts d"
  "draws d \<le> draws (snd (createOrGetGuidedOperation gen now k key u h req d))"
  by (simp_all add: createOrGetGuidedOperation_def  after_def after_unit_def draw_def Let_def frame_simps del: exists_row_iff split: option.split sum.split prod.split)

lemma updateGuidedOperation_frames [frame_simps]:
  "users (snd (updateGuidedOperation now i v d)) = users d"
  "sessions (snd (updateGuidedOperation now i v d)) = sessions d"
  "agents (snd (updateGuidedOperation now i v d)) = agents d"
  "commands (snd (updateGuidedOperation now i v d)) = commands d"
  "connectors (snd (updateGuidedOperation now i v d)) = connectors d"
  "stacks (snd (updateGuidedOperation now i v d)) = stacks d"
  "routes (snd (updateGuidedOperation now i v d)) = routes d"
  "deployments (snd (updateGuidedOperation now i v d)) = deployments d"
  "revisions (snd (updateGuidedOperation now i v d)) = revisions d"
  "runs (snd (updateGuidedOperation now i v d)) = runs d"
  "runtime_ops (snd (updateGuidedOperation now i v d)) = runtime_ops d"
  "log_requests (snd (updateGuidedOperation now i v d)) = log_requests d"
  "backups (snd (updateGuidedOperation now i v d)) = backups d"
  "restores (snd (updateGuidedOperation now i v d)) = restores d"
  "backup_imports (snd (updateGuidedOperation now i v d)) = backup_imports d"
  "recovery_requests (snd (updateGuidedOperation now i v d)) = recovery_requests d"
  "scopes (snd (updateGuidedOperation now i v d)) = scopes d"
  "domains (snd (updateGuidedOperation now i v d)) = domains d"
  "accounts (snd (updateGuidedOperation now i v d)) = accounts d"
  "draws d \<le> draws (snd (updateGuidedOperation now i v d))"
  by (simp_all add: updateGuidedOperation_def  after_def after_unit_def draw_def Let_def frame_simps del: exists_row_iff split: option.split sum.split prod.split)

lemma saveTlsObservation_frames [frame_simps]:
  "users (saveTlsObservation gen iso8601 now i obs d) = users d"
  "sessions (saveTlsObservation gen iso8601 now i obs d) = sessions d"
  "agents (saveTlsObservation gen iso8601 now i obs d) = agents d"
  "commands (saveTlsObservation gen iso8601 now i obs d) = commands d"
  "connectors (saveTlsObservation gen iso8601 now i obs d) = connectors d"
  "stacks (saveTlsObservation gen iso8601 now i obs d) = stacks d"
  "routes (saveTlsObservation gen iso8601 now i obs d) = routes d"
  "deployments (saveTlsObservation gen iso8601 now i obs d) = deployments d"
  "revisions (saveTlsObservation gen iso8601 now i obs d) = revisions d"
  "runs (saveTlsObservation gen iso8601 now i obs d) = runs d"
  "runtime_ops (saveTlsObservation gen iso8601 now i obs d) = runtime_ops d"
  "log_requests (saveTlsObservation gen iso8601 now i obs d) = log_requests d"
  "backups (saveTlsObservation gen iso8601 now i obs d) = backups d"
  "restores (saveTlsObservation gen iso8601 now i obs d) = restores d"
  "backup_imports (saveTlsObservation gen iso8601 now i obs d) = backup_imports d"
  "recovery_requests (saveTlsObservation gen iso8601 now i obs d) = recovery_requests d"
  "scopes (saveTlsObservation gen iso8601 now i obs d) = scopes d"
  "accounts (saveTlsObservation gen iso8601 now i obs d) = accounts d"
  "draws d \<le> draws (saveTlsObservation gen iso8601 now i obs d)"
  by (simp_all add: enqueueEvent_mono' saveTlsObservation_def  after_def after_unit_def draw_def Let_def frame_simps del: exists_row_iff split: option.split sum.split prod.split)

lemma createPendingDomainAccess_frames [frame_simps]:
  "users (after (createPendingDomainAccess gen now i z r m c v4 v6 b d) d) = users d"
  "sessions (after (createPendingDomainAccess gen now i z r m c v4 v6 b d) d) = sessions d"
  "agents (after (createPendingDomainAccess gen now i z r m c v4 v6 b d) d) = agents d"
  "commands (after (createPendingDomainAccess gen now i z r m c v4 v6 b d) d) = commands d"
  "connectors (after (createPendingDomainAccess gen now i z r m c v4 v6 b d) d) = connectors d"
  "stacks (after (createPendingDomainAccess gen now i z r m c v4 v6 b d) d) = stacks d"
  "routes (after (createPendingDomainAccess gen now i z r m c v4 v6 b d) d) = routes d"
  "deployments (after (createPendingDomainAccess gen now i z r m c v4 v6 b d) d) = deployments d"
  "revisions (after (createPendingDomainAccess gen now i z r m c v4 v6 b d) d) = revisions d"
  "runs (after (createPendingDomainAccess gen now i z r m c v4 v6 b d) d) = runs d"
  "runtime_ops (after (createPendingDomainAccess gen now i z r m c v4 v6 b d) d) = runtime_ops d"
  "log_requests (after (createPendingDomainAccess gen now i z r m c v4 v6 b d) d) = log_requests d"
  "backups (after (createPendingDomainAccess gen now i z r m c v4 v6 b d) d) = backups d"
  "restores (after (createPendingDomainAccess gen now i z r m c v4 v6 b d) d) = restores d"
  "backup_imports (after (createPendingDomainAccess gen now i z r m c v4 v6 b d) d) = backup_imports d"
  "recovery_requests (after (createPendingDomainAccess gen now i z r m c v4 v6 b d) d) = recovery_requests d"
  "scopes (after (createPendingDomainAccess gen now i z r m c v4 v6 b d) d) = scopes d"
  "accounts (after (createPendingDomainAccess gen now i z r m c v4 v6 b d) d) = accounts d"
  "draws d \<le> draws (after (createPendingDomainAccess gen now i z r m c v4 v6 b d) d)"
  by (simp_all add: createPendingDomainAccess_def  after_def after_unit_def draw_def Let_def frame_simps del: exists_row_iff split: option.split sum.split prod.split)

lemma setDomainAccessPending_frames [frame_simps]:
  "users (snd (setDomainAccessPending now i b d)) = users d"
  "sessions (snd (setDomainAccessPending now i b d)) = sessions d"
  "agents (snd (setDomainAccessPending now i b d)) = agents d"
  "commands (snd (setDomainAccessPending now i b d)) = commands d"
  "connectors (snd (setDomainAccessPending now i b d)) = connectors d"
  "stacks (snd (setDomainAccessPending now i b d)) = stacks d"
  "routes (snd (setDomainAccessPending now i b d)) = routes d"
  "deployments (snd (setDomainAccessPending now i b d)) = deployments d"
  "revisions (snd (setDomainAccessPending now i b d)) = revisions d"
  "runs (snd (setDomainAccessPending now i b d)) = runs d"
  "runtime_ops (snd (setDomainAccessPending now i b d)) = runtime_ops d"
  "log_requests (snd (setDomainAccessPending now i b d)) = log_requests d"
  "backups (snd (setDomainAccessPending now i b d)) = backups d"
  "restores (snd (setDomainAccessPending now i b d)) = restores d"
  "backup_imports (snd (setDomainAccessPending now i b d)) = backup_imports d"
  "recovery_requests (snd (setDomainAccessPending now i b d)) = recovery_requests d"
  "scopes (snd (setDomainAccessPending now i b d)) = scopes d"
  "accounts (snd (setDomainAccessPending now i b d)) = accounts d"
  "draws d \<le> draws (snd (setDomainAccessPending now i b d))"
  by (simp_all add: setDomainAccessPending_def  after_def after_unit_def draw_def Let_def frame_simps del: exists_row_iff split: option.split sum.split prod.split)

lemma saveDomainAccessDnsRecord_frames [frame_simps]:
  "users (after (saveDomainAccessDnsRecord now i n ty content rid mk d) d) = users d"
  "sessions (after (saveDomainAccessDnsRecord now i n ty content rid mk d) d) = sessions d"
  "agents (after (saveDomainAccessDnsRecord now i n ty content rid mk d) d) = agents d"
  "commands (after (saveDomainAccessDnsRecord now i n ty content rid mk d) d) = commands d"
  "connectors (after (saveDomainAccessDnsRecord now i n ty content rid mk d) d) = connectors d"
  "stacks (after (saveDomainAccessDnsRecord now i n ty content rid mk d) d) = stacks d"
  "routes (after (saveDomainAccessDnsRecord now i n ty content rid mk d) d) = routes d"
  "deployments (after (saveDomainAccessDnsRecord now i n ty content rid mk d) d) = deployments d"
  "revisions (after (saveDomainAccessDnsRecord now i n ty content rid mk d) d) = revisions d"
  "runs (after (saveDomainAccessDnsRecord now i n ty content rid mk d) d) = runs d"
  "runtime_ops (after (saveDomainAccessDnsRecord now i n ty content rid mk d) d) = runtime_ops d"
  "log_requests (after (saveDomainAccessDnsRecord now i n ty content rid mk d) d) = log_requests d"
  "backups (after (saveDomainAccessDnsRecord now i n ty content rid mk d) d) = backups d"
  "restores (after (saveDomainAccessDnsRecord now i n ty content rid mk d) d) = restores d"
  "backup_imports (after (saveDomainAccessDnsRecord now i n ty content rid mk d) d) = backup_imports d"
  "recovery_requests (after (saveDomainAccessDnsRecord now i n ty content rid mk d) d) = recovery_requests d"
  "scopes (after (saveDomainAccessDnsRecord now i n ty content rid mk d) d) = scopes d"
  "domains (after (saveDomainAccessDnsRecord now i n ty content rid mk d) d) = domains d"
  "accounts (after (saveDomainAccessDnsRecord now i n ty content rid mk d) d) = accounts d"
  "draws d \<le> draws (after (saveDomainAccessDnsRecord now i n ty content rid mk d) d)"
  by (simp_all add: saveDomainAccessDnsRecord_def  after_def after_unit_def draw_def Let_def frame_simps del: exists_row_iff split: option.split sum.split prod.split)

lemma markDomainAccessDnsRecordStatus_frames [frame_simps]:
  "users (snd (markDomainAccessDnsRecordStatus i n rid st err d)) = users d"
  "sessions (snd (markDomainAccessDnsRecordStatus i n rid st err d)) = sessions d"
  "agents (snd (markDomainAccessDnsRecordStatus i n rid st err d)) = agents d"
  "commands (snd (markDomainAccessDnsRecordStatus i n rid st err d)) = commands d"
  "connectors (snd (markDomainAccessDnsRecordStatus i n rid st err d)) = connectors d"
  "stacks (snd (markDomainAccessDnsRecordStatus i n rid st err d)) = stacks d"
  "routes (snd (markDomainAccessDnsRecordStatus i n rid st err d)) = routes d"
  "deployments (snd (markDomainAccessDnsRecordStatus i n rid st err d)) = deployments d"
  "revisions (snd (markDomainAccessDnsRecordStatus i n rid st err d)) = revisions d"
  "runs (snd (markDomainAccessDnsRecordStatus i n rid st err d)) = runs d"
  "runtime_ops (snd (markDomainAccessDnsRecordStatus i n rid st err d)) = runtime_ops d"
  "log_requests (snd (markDomainAccessDnsRecordStatus i n rid st err d)) = log_requests d"
  "backups (snd (markDomainAccessDnsRecordStatus i n rid st err d)) = backups d"
  "restores (snd (markDomainAccessDnsRecordStatus i n rid st err d)) = restores d"
  "backup_imports (snd (markDomainAccessDnsRecordStatus i n rid st err d)) = backup_imports d"
  "recovery_requests (snd (markDomainAccessDnsRecordStatus i n rid st err d)) = recovery_requests d"
  "scopes (snd (markDomainAccessDnsRecordStatus i n rid st err d)) = scopes d"
  "domains (snd (markDomainAccessDnsRecordStatus i n rid st err d)) = domains d"
  "accounts (snd (markDomainAccessDnsRecordStatus i n rid st err d)) = accounts d"
  "draws d \<le> draws (snd (markDomainAccessDnsRecordStatus i n rid st err d))"
  by (simp_all add: markDomainAccessDnsRecordStatus_def  after_def after_unit_def draw_def Let_def frame_simps del: exists_row_iff split: option.split sum.split prod.split)

lemma markDomainAccessOutcome_frames [frame_simps]:
  "users (after (markDomainAccessOutcome now i n st err d) d) = users d"
  "sessions (after (markDomainAccessOutcome now i n st err d) d) = sessions d"
  "agents (after (markDomainAccessOutcome now i n st err d) d) = agents d"
  "commands (after (markDomainAccessOutcome now i n st err d) d) = commands d"
  "connectors (after (markDomainAccessOutcome now i n st err d) d) = connectors d"
  "stacks (after (markDomainAccessOutcome now i n st err d) d) = stacks d"
  "routes (after (markDomainAccessOutcome now i n st err d) d) = routes d"
  "deployments (after (markDomainAccessOutcome now i n st err d) d) = deployments d"
  "revisions (after (markDomainAccessOutcome now i n st err d) d) = revisions d"
  "runs (after (markDomainAccessOutcome now i n st err d) d) = runs d"
  "runtime_ops (after (markDomainAccessOutcome now i n st err d) d) = runtime_ops d"
  "log_requests (after (markDomainAccessOutcome now i n st err d) d) = log_requests d"
  "backups (after (markDomainAccessOutcome now i n st err d) d) = backups d"
  "restores (after (markDomainAccessOutcome now i n st err d) d) = restores d"
  "backup_imports (after (markDomainAccessOutcome now i n st err d) d) = backup_imports d"
  "recovery_requests (after (markDomainAccessOutcome now i n st err d) d) = recovery_requests d"
  "scopes (after (markDomainAccessOutcome now i n st err d) d) = scopes d"
  "accounts (after (markDomainAccessOutcome now i n st err d) d) = accounts d"
  "draws d \<le> draws (after (markDomainAccessOutcome now i n st err d) d)"
  by (simp_all add: markDomainAccessOutcome_def  after_def after_unit_def draw_def Let_def frame_simps del: exists_row_iff split: option.split sum.split prod.split)

lemma claimCommands_frames [frame_simps]:
  "users (snd (claimCommands now i n d)) = users d"
  "sessions (snd (claimCommands now i n d)) = sessions d"
  "stacks (snd (claimCommands now i n d)) = stacks d"
  "routes (snd (claimCommands now i n d)) = routes d"
  "deployments (snd (claimCommands now i n d)) = deployments d"
  "revisions (snd (claimCommands now i n d)) = revisions d"
  "backup_imports (snd (claimCommands now i n d)) = backup_imports d"
  "recovery_requests (snd (claimCommands now i n d)) = recovery_requests d"
  "scopes (snd (claimCommands now i n d)) = scopes d"
  "domains (snd (claimCommands now i n d)) = domains d"
  "accounts (snd (claimCommands now i n d)) = accounts d"
  "draws d \<le> draws (snd (claimCommands now i n d))"
  by (simp_all add: polled_def claimCommands_eq  after_def after_unit_def draw_def Let_def frame_simps del: exists_row_iff split: option.split sum.split prod.split)

lemma completeCommand_frames [frame_simps]:
  "users (snd (completeCommand gen now i j st res d)) = users d"
  "sessions (snd (completeCommand gen now i j st res d)) = sessions d"
  "revisions (snd (completeCommand gen now i j st res d)) = revisions d"
  "backup_imports (snd (completeCommand gen now i j st res d)) = backup_imports d"
  "recovery_requests (snd (completeCommand gen now i j st res d)) = recovery_requests d"
  "scopes (snd (completeCommand gen now i j st res d)) = scopes d"
  "domains (snd (completeCommand gen now i j st res d)) = domains d"
  "accounts (snd (completeCommand gen now i j st res d)) = accounts d"
  "draws d \<le> draws (snd (completeCommand gen now i j st res d))"
  by (simp_all add: completed_db_draws completeCommand_cases  after_def after_unit_def draw_def Let_def frame_simps del: exists_row_iff split: option.split)

lemma failStaleCommands_frames [frame_simps]:
  "users (snd (failStaleCommands gen now t d)) = users d"
  "sessions (snd (failStaleCommands gen now t d)) = sessions d"
  "agents (snd (failStaleCommands gen now t d)) = agents d"
  "stacks (snd (failStaleCommands gen now t d)) = stacks d"
  "routes (snd (failStaleCommands gen now t d)) = routes d"
  "revisions (snd (failStaleCommands gen now t d)) = revisions d"
  "backup_imports (snd (failStaleCommands gen now t d)) = backup_imports d"
  "recovery_requests (snd (failStaleCommands gen now t d)) = recovery_requests d"
  "scopes (snd (failStaleCommands gen now t d)) = scopes d"
  "domains (snd (failStaleCommands gen now t d)) = domains d"
  "accounts (snd (failStaleCommands gen now t d)) = accounts d"
  "draws d \<le> draws (snd (failStaleCommands gen now t d))"
  by (simp_all add: stale_db_def order_trans [OF _ fail_operations_draws] failStaleCommands_eq  after_def after_unit_def draw_def Let_def frame_simps del: exists_row_iff split: option.split sum.split prod.split)

lemma purgeRuntimeLogResults_frames [frame_simps]:
  "users (snd (purgeRuntimeLogResults now t d)) = users d"
  "sessions (snd (purgeRuntimeLogResults now t d)) = sessions d"
  "agents (snd (purgeRuntimeLogResults now t d)) = agents d"
  "connectors (snd (purgeRuntimeLogResults now t d)) = connectors d"
  "stacks (snd (purgeRuntimeLogResults now t d)) = stacks d"
  "routes (snd (purgeRuntimeLogResults now t d)) = routes d"
  "deployments (snd (purgeRuntimeLogResults now t d)) = deployments d"
  "revisions (snd (purgeRuntimeLogResults now t d)) = revisions d"
  "runs (snd (purgeRuntimeLogResults now t d)) = runs d"
  "runtime_ops (snd (purgeRuntimeLogResults now t d)) = runtime_ops d"
  "backups (snd (purgeRuntimeLogResults now t d)) = backups d"
  "restores (snd (purgeRuntimeLogResults now t d)) = restores d"
  "backup_imports (snd (purgeRuntimeLogResults now t d)) = backup_imports d"
  "recovery_requests (snd (purgeRuntimeLogResults now t d)) = recovery_requests d"
  "scopes (snd (purgeRuntimeLogResults now t d)) = scopes d"
  "domains (snd (purgeRuntimeLogResults now t d)) = domains d"
  "accounts (snd (purgeRuntimeLogResults now t d)) = accounts d"
  "draws d \<le> draws (snd (purgeRuntimeLogResults now t d))"
  by (simp_all add: purgeRuntimeLogResults_def  after_def after_unit_def draw_def Let_def frame_simps del: exists_row_iff split: option.split sum.split prod.split)

lemma createSystemBackup_frames [frame_simps]:
  "users (snd (createSystemBackup gen now u tgt path d)) = users d"
  "sessions (snd (createSystemBackup gen now u tgt path d)) = sessions d"
  "agents (snd (createSystemBackup gen now u tgt path d)) = agents d"
  "commands (snd (createSystemBackup gen now u tgt path d)) = commands d"
  "connectors (snd (createSystemBackup gen now u tgt path d)) = connectors d"
  "stacks (snd (createSystemBackup gen now u tgt path d)) = stacks d"
  "routes (snd (createSystemBackup gen now u tgt path d)) = routes d"
  "deployments (snd (createSystemBackup gen now u tgt path d)) = deployments d"
  "revisions (snd (createSystemBackup gen now u tgt path d)) = revisions d"
  "runs (snd (createSystemBackup gen now u tgt path d)) = runs d"
  "runtime_ops (snd (createSystemBackup gen now u tgt path d)) = runtime_ops d"
  "log_requests (snd (createSystemBackup gen now u tgt path d)) = log_requests d"
  "backups (snd (createSystemBackup gen now u tgt path d)) = backups d"
  "restores (snd (createSystemBackup gen now u tgt path d)) = restores d"
  "backup_imports (snd (createSystemBackup gen now u tgt path d)) = backup_imports d"
  "recovery_requests (snd (createSystemBackup gen now u tgt path d)) = recovery_requests d"
  "scopes (snd (createSystemBackup gen now u tgt path d)) = scopes d"
  "domains (snd (createSystemBackup gen now u tgt path d)) = domains d"
  "accounts (snd (createSystemBackup gen now u tgt path d)) = accounts d"
  "draws d \<le> draws (snd (createSystemBackup gen now u tgt path d))"
  by (simp_all add: createSystemBackup_def  after_def after_unit_def draw_def Let_def frame_simps del: exists_row_iff split: option.split sum.split prod.split)

lemma completeSystemBackup_frames [frame_simps]:
  "users (after (completeSystemBackup now i n cs d) d) = users d"
  "sessions (after (completeSystemBackup now i n cs d) d) = sessions d"
  "agents (after (completeSystemBackup now i n cs d) d) = agents d"
  "commands (after (completeSystemBackup now i n cs d) d) = commands d"
  "connectors (after (completeSystemBackup now i n cs d) d) = connectors d"
  "stacks (after (completeSystemBackup now i n cs d) d) = stacks d"
  "routes (after (completeSystemBackup now i n cs d) d) = routes d"
  "deployments (after (completeSystemBackup now i n cs d) d) = deployments d"
  "revisions (after (completeSystemBackup now i n cs d) d) = revisions d"
  "runs (after (completeSystemBackup now i n cs d) d) = runs d"
  "runtime_ops (after (completeSystemBackup now i n cs d) d) = runtime_ops d"
  "log_requests (after (completeSystemBackup now i n cs d) d) = log_requests d"
  "backups (after (completeSystemBackup now i n cs d) d) = backups d"
  "restores (after (completeSystemBackup now i n cs d) d) = restores d"
  "backup_imports (after (completeSystemBackup now i n cs d) d) = backup_imports d"
  "recovery_requests (after (completeSystemBackup now i n cs d) d) = recovery_requests d"
  "scopes (after (completeSystemBackup now i n cs d) d) = scopes d"
  "domains (after (completeSystemBackup now i n cs d) d) = domains d"
  "accounts (after (completeSystemBackup now i n cs d) d) = accounts d"
  "draws d \<le> draws (after (completeSystemBackup now i n cs d) d)"
  by (simp_all add: completeSystemBackup_def settle_backup_def after_def after_unit_def draw_def Let_def frame_simps del: exists_row_iff split: option.split sum.split prod.split)

lemma failSystemBackup_frames [frame_simps]:
  "users (after (failSystemBackup now i err d) d) = users d"
  "sessions (after (failSystemBackup now i err d) d) = sessions d"
  "agents (after (failSystemBackup now i err d) d) = agents d"
  "commands (after (failSystemBackup now i err d) d) = commands d"
  "connectors (after (failSystemBackup now i err d) d) = connectors d"
  "stacks (after (failSystemBackup now i err d) d) = stacks d"
  "routes (after (failSystemBackup now i err d) d) = routes d"
  "deployments (after (failSystemBackup now i err d) d) = deployments d"
  "revisions (after (failSystemBackup now i err d) d) = revisions d"
  "runs (after (failSystemBackup now i err d) d) = runs d"
  "runtime_ops (after (failSystemBackup now i err d) d) = runtime_ops d"
  "log_requests (after (failSystemBackup now i err d) d) = log_requests d"
  "backups (after (failSystemBackup now i err d) d) = backups d"
  "restores (after (failSystemBackup now i err d) d) = restores d"
  "backup_imports (after (failSystemBackup now i err d) d) = backup_imports d"
  "recovery_requests (after (failSystemBackup now i err d) d) = recovery_requests d"
  "scopes (after (failSystemBackup now i err d) d) = scopes d"
  "domains (after (failSystemBackup now i err d) d) = domains d"
  "accounts (after (failSystemBackup now i err d) d) = accounts d"
  "draws d \<le> draws (after (failSystemBackup now i err d) d)"
  by (simp_all add: failSystemBackup_def settle_backup_def after_def after_unit_def draw_def Let_def frame_simps del: exists_row_iff split: option.split sum.split prod.split)

lemma importSystemBackup_frames [frame_simps]:
  "users (after (importSystemBackup now i u path n cs j d) d) = users d"
  "sessions (after (importSystemBackup now i u path n cs j d) d) = sessions d"
  "agents (after (importSystemBackup now i u path n cs j d) d) = agents d"
  "commands (after (importSystemBackup now i u path n cs j d) d) = commands d"
  "connectors (after (importSystemBackup now i u path n cs j d) d) = connectors d"
  "stacks (after (importSystemBackup now i u path n cs j d) d) = stacks d"
  "routes (after (importSystemBackup now i u path n cs j d) d) = routes d"
  "deployments (after (importSystemBackup now i u path n cs j d) d) = deployments d"
  "revisions (after (importSystemBackup now i u path n cs j d) d) = revisions d"
  "runs (after (importSystemBackup now i u path n cs j d) d) = runs d"
  "runtime_ops (after (importSystemBackup now i u path n cs j d) d) = runtime_ops d"
  "log_requests (after (importSystemBackup now i u path n cs j d) d) = log_requests d"
  "backups (after (importSystemBackup now i u path n cs j d) d) = backups d"
  "restores (after (importSystemBackup now i u path n cs j d) d) = restores d"
  "backup_imports (after (importSystemBackup now i u path n cs j d) d) = backup_imports d"
  "recovery_requests (after (importSystemBackup now i u path n cs j d) d) = recovery_requests d"
  "scopes (after (importSystemBackup now i u path n cs j d) d) = scopes d"
  "domains (after (importSystemBackup now i u path n cs j d) d) = domains d"
  "accounts (after (importSystemBackup now i u path n cs j d) d) = accounts d"
  "draws d \<le> draws (after (importSystemBackup now i u path n cs j d) d)"
  by (simp_all add: importSystemBackup_def  after_def after_unit_def draw_def Let_def frame_simps del: exists_row_iff split: option.split sum.split prod.split)

lemma createSystemBackupImport_frames [frame_simps]:
  "users (snd (createSystemBackupImport gen now u path d)) = users d"
  "sessions (snd (createSystemBackupImport gen now u path d)) = sessions d"
  "agents (snd (createSystemBackupImport gen now u path d)) = agents d"
  "commands (snd (createSystemBackupImport gen now u path d)) = commands d"
  "connectors (snd (createSystemBackupImport gen now u path d)) = connectors d"
  "stacks (snd (createSystemBackupImport gen now u path d)) = stacks d"
  "routes (snd (createSystemBackupImport gen now u path d)) = routes d"
  "deployments (snd (createSystemBackupImport gen now u path d)) = deployments d"
  "revisions (snd (createSystemBackupImport gen now u path d)) = revisions d"
  "runs (snd (createSystemBackupImport gen now u path d)) = runs d"
  "runtime_ops (snd (createSystemBackupImport gen now u path d)) = runtime_ops d"
  "log_requests (snd (createSystemBackupImport gen now u path d)) = log_requests d"
  "backups (snd (createSystemBackupImport gen now u path d)) = backups d"
  "restores (snd (createSystemBackupImport gen now u path d)) = restores d"
  "recovery_requests (snd (createSystemBackupImport gen now u path d)) = recovery_requests d"
  "scopes (snd (createSystemBackupImport gen now u path d)) = scopes d"
  "domains (snd (createSystemBackupImport gen now u path d)) = domains d"
  "accounts (snd (createSystemBackupImport gen now u path d)) = accounts d"
  "draws d \<le> draws (snd (createSystemBackupImport gen now u path d))"
  by (simp_all add: createSystemBackupImport_def  after_def after_unit_def draw_def Let_def frame_simps del: exists_row_iff split: option.split sum.split prod.split)

lemma updateSystemBackupImport_frames [frame_simps]:
  "users (after (updateSystemBackupImport now i st n cs b err d) d) = users d"
  "sessions (after (updateSystemBackupImport now i st n cs b err d) d) = sessions d"
  "agents (after (updateSystemBackupImport now i st n cs b err d) d) = agents d"
  "commands (after (updateSystemBackupImport now i st n cs b err d) d) = commands d"
  "connectors (after (updateSystemBackupImport now i st n cs b err d) d) = connectors d"
  "stacks (after (updateSystemBackupImport now i st n cs b err d) d) = stacks d"
  "routes (after (updateSystemBackupImport now i st n cs b err d) d) = routes d"
  "deployments (after (updateSystemBackupImport now i st n cs b err d) d) = deployments d"
  "revisions (after (updateSystemBackupImport now i st n cs b err d) d) = revisions d"
  "runs (after (updateSystemBackupImport now i st n cs b err d) d) = runs d"
  "runtime_ops (after (updateSystemBackupImport now i st n cs b err d) d) = runtime_ops d"
  "log_requests (after (updateSystemBackupImport now i st n cs b err d) d) = log_requests d"
  "backups (after (updateSystemBackupImport now i st n cs b err d) d) = backups d"
  "restores (after (updateSystemBackupImport now i st n cs b err d) d) = restores d"
  "recovery_requests (after (updateSystemBackupImport now i st n cs b err d) d) = recovery_requests d"
  "scopes (after (updateSystemBackupImport now i st n cs b err d) d) = scopes d"
  "domains (after (updateSystemBackupImport now i st n cs b err d) d) = domains d"
  "accounts (after (updateSystemBackupImport now i st n cs b err d) d) = accounts d"
  "draws d \<le> draws (after (updateSystemBackupImport now i st n cs b err d) d)"
  by (simp_all add: updateSystemBackupImport_def  after_def after_unit_def draw_def Let_def frame_simps del: exists_row_iff split: option.split sum.split prod.split)

lemma claimSystemBackupImport_frames [frame_simps]:
  "users (snd (claimSystemBackupImport now i u d)) = users d"
  "sessions (snd (claimSystemBackupImport now i u d)) = sessions d"
  "agents (snd (claimSystemBackupImport now i u d)) = agents d"
  "commands (snd (claimSystemBackupImport now i u d)) = commands d"
  "connectors (snd (claimSystemBackupImport now i u d)) = connectors d"
  "stacks (snd (claimSystemBackupImport now i u d)) = stacks d"
  "routes (snd (claimSystemBackupImport now i u d)) = routes d"
  "deployments (snd (claimSystemBackupImport now i u d)) = deployments d"
  "revisions (snd (claimSystemBackupImport now i u d)) = revisions d"
  "runs (snd (claimSystemBackupImport now i u d)) = runs d"
  "runtime_ops (snd (claimSystemBackupImport now i u d)) = runtime_ops d"
  "log_requests (snd (claimSystemBackupImport now i u d)) = log_requests d"
  "backups (snd (claimSystemBackupImport now i u d)) = backups d"
  "restores (snd (claimSystemBackupImport now i u d)) = restores d"
  "recovery_requests (snd (claimSystemBackupImport now i u d)) = recovery_requests d"
  "scopes (snd (claimSystemBackupImport now i u d)) = scopes d"
  "domains (snd (claimSystemBackupImport now i u d)) = domains d"
  "accounts (snd (claimSystemBackupImport now i u d)) = accounts d"
  "draws d \<le> draws (snd (claimSystemBackupImport now i u d))"
  by (simp_all add: claimSystemBackupImport_def  after_def after_unit_def draw_def Let_def frame_simps del: exists_row_iff split: option.split sum.split prod.split)

lemma finishSystemBackupImport_frames [frame_simps]:
  "users (snd (finishSystemBackupImport now i n st b err d)) = users d"
  "sessions (snd (finishSystemBackupImport now i n st b err d)) = sessions d"
  "agents (snd (finishSystemBackupImport now i n st b err d)) = agents d"
  "commands (snd (finishSystemBackupImport now i n st b err d)) = commands d"
  "connectors (snd (finishSystemBackupImport now i n st b err d)) = connectors d"
  "stacks (snd (finishSystemBackupImport now i n st b err d)) = stacks d"
  "routes (snd (finishSystemBackupImport now i n st b err d)) = routes d"
  "deployments (snd (finishSystemBackupImport now i n st b err d)) = deployments d"
  "revisions (snd (finishSystemBackupImport now i n st b err d)) = revisions d"
  "runs (snd (finishSystemBackupImport now i n st b err d)) = runs d"
  "runtime_ops (snd (finishSystemBackupImport now i n st b err d)) = runtime_ops d"
  "log_requests (snd (finishSystemBackupImport now i n st b err d)) = log_requests d"
  "backups (snd (finishSystemBackupImport now i n st b err d)) = backups d"
  "restores (snd (finishSystemBackupImport now i n st b err d)) = restores d"
  "recovery_requests (snd (finishSystemBackupImport now i n st b err d)) = recovery_requests d"
  "scopes (snd (finishSystemBackupImport now i n st b err d)) = scopes d"
  "domains (snd (finishSystemBackupImport now i n st b err d)) = domains d"
  "accounts (snd (finishSystemBackupImport now i n st b err d)) = accounts d"
  "draws d \<le> draws (snd (finishSystemBackupImport now i n st b err d))"
  by (simp_all add: finishSystemBackupImport_def  after_def after_unit_def draw_def Let_def frame_simps del: exists_row_iff split: option.split sum.split prod.split)

lemma rejectStaleSystemBackupImports_frames [frame_simps]:
  "users (snd (rejectStaleSystemBackupImports now t d)) = users d"
  "sessions (snd (rejectStaleSystemBackupImports now t d)) = sessions d"
  "agents (snd (rejectStaleSystemBackupImports now t d)) = agents d"
  "commands (snd (rejectStaleSystemBackupImports now t d)) = commands d"
  "connectors (snd (rejectStaleSystemBackupImports now t d)) = connectors d"
  "stacks (snd (rejectStaleSystemBackupImports now t d)) = stacks d"
  "routes (snd (rejectStaleSystemBackupImports now t d)) = routes d"
  "deployments (snd (rejectStaleSystemBackupImports now t d)) = deployments d"
  "revisions (snd (rejectStaleSystemBackupImports now t d)) = revisions d"
  "runs (snd (rejectStaleSystemBackupImports now t d)) = runs d"
  "runtime_ops (snd (rejectStaleSystemBackupImports now t d)) = runtime_ops d"
  "log_requests (snd (rejectStaleSystemBackupImports now t d)) = log_requests d"
  "backups (snd (rejectStaleSystemBackupImports now t d)) = backups d"
  "restores (snd (rejectStaleSystemBackupImports now t d)) = restores d"
  "recovery_requests (snd (rejectStaleSystemBackupImports now t d)) = recovery_requests d"
  "scopes (snd (rejectStaleSystemBackupImports now t d)) = scopes d"
  "domains (snd (rejectStaleSystemBackupImports now t d)) = domains d"
  "accounts (snd (rejectStaleSystemBackupImports now t d)) = accounts d"
  "draws d \<le> draws (snd (rejectStaleSystemBackupImports now t d))"
  by (simp_all add: rejectStaleSystemBackupImports_def  after_def after_unit_def draw_def Let_def frame_simps del: exists_row_iff split: option.split sum.split prod.split)

lemma recordSystemBackupTransferEvent_frames [frame_simps]:
  "users (recordSystemBackupTransferEvent u op b r j m d) = users d"
  "sessions (recordSystemBackupTransferEvent u op b r j m d) = sessions d"
  "agents (recordSystemBackupTransferEvent u op b r j m d) = agents d"
  "commands (recordSystemBackupTransferEvent u op b r j m d) = commands d"
  "connectors (recordSystemBackupTransferEvent u op b r j m d) = connectors d"
  "stacks (recordSystemBackupTransferEvent u op b r j m d) = stacks d"
  "routes (recordSystemBackupTransferEvent u op b r j m d) = routes d"
  "deployments (recordSystemBackupTransferEvent u op b r j m d) = deployments d"
  "revisions (recordSystemBackupTransferEvent u op b r j m d) = revisions d"
  "runs (recordSystemBackupTransferEvent u op b r j m d) = runs d"
  "runtime_ops (recordSystemBackupTransferEvent u op b r j m d) = runtime_ops d"
  "log_requests (recordSystemBackupTransferEvent u op b r j m d) = log_requests d"
  "backups (recordSystemBackupTransferEvent u op b r j m d) = backups d"
  "restores (recordSystemBackupTransferEvent u op b r j m d) = restores d"
  "backup_imports (recordSystemBackupTransferEvent u op b r j m d) = backup_imports d"
  "recovery_requests (recordSystemBackupTransferEvent u op b r j m d) = recovery_requests d"
  "scopes (recordSystemBackupTransferEvent u op b r j m d) = scopes d"
  "domains (recordSystemBackupTransferEvent u op b r j m d) = domains d"
  "accounts (recordSystemBackupTransferEvent u op b r j m d) = accounts d"
  "draws d \<le> draws (recordSystemBackupTransferEvent u op b r j m d)"
  by (simp_all add: recordSystemBackupTransferEvent_def  after_def after_unit_def draw_def Let_def frame_simps del: exists_row_iff split: option.split sum.split prod.split)

lemma createSystemRecoveryRequest_frames [frame_simps]:
  "users (snd (createSystemRecoveryRequest gen now r u tok d)) = users d"
  "sessions (snd (createSystemRecoveryRequest gen now r u tok d)) = sessions d"
  "agents (snd (createSystemRecoveryRequest gen now r u tok d)) = agents d"
  "commands (snd (createSystemRecoveryRequest gen now r u tok d)) = commands d"
  "connectors (snd (createSystemRecoveryRequest gen now r u tok d)) = connectors d"
  "stacks (snd (createSystemRecoveryRequest gen now r u tok d)) = stacks d"
  "routes (snd (createSystemRecoveryRequest gen now r u tok d)) = routes d"
  "deployments (snd (createSystemRecoveryRequest gen now r u tok d)) = deployments d"
  "revisions (snd (createSystemRecoveryRequest gen now r u tok d)) = revisions d"
  "runs (snd (createSystemRecoveryRequest gen now r u tok d)) = runs d"
  "runtime_ops (snd (createSystemRecoveryRequest gen now r u tok d)) = runtime_ops d"
  "log_requests (snd (createSystemRecoveryRequest gen now r u tok d)) = log_requests d"
  "backups (snd (createSystemRecoveryRequest gen now r u tok d)) = backups d"
  "restores (snd (createSystemRecoveryRequest gen now r u tok d)) = restores d"
  "backup_imports (snd (createSystemRecoveryRequest gen now r u tok d)) = backup_imports d"
  "scopes (snd (createSystemRecoveryRequest gen now r u tok d)) = scopes d"
  "domains (snd (createSystemRecoveryRequest gen now r u tok d)) = domains d"
  "accounts (snd (createSystemRecoveryRequest gen now r u tok d)) = accounts d"
  "draws d \<le> draws (snd (createSystemRecoveryRequest gen now r u tok d))"
  by (simp_all add: createSystemRecoveryRequest_def  after_def after_unit_def draw_def Let_def frame_simps del: exists_row_iff split: option.split sum.split prod.split)

lemma finishSystemRecoveryRequest_frames [frame_simps]:
  "users (snd (finishSystemRecoveryRequest now i tok st err d)) = users d"
  "sessions (snd (finishSystemRecoveryRequest now i tok st err d)) = sessions d"
  "agents (snd (finishSystemRecoveryRequest now i tok st err d)) = agents d"
  "commands (snd (finishSystemRecoveryRequest now i tok st err d)) = commands d"
  "connectors (snd (finishSystemRecoveryRequest now i tok st err d)) = connectors d"
  "stacks (snd (finishSystemRecoveryRequest now i tok st err d)) = stacks d"
  "routes (snd (finishSystemRecoveryRequest now i tok st err d)) = routes d"
  "deployments (snd (finishSystemRecoveryRequest now i tok st err d)) = deployments d"
  "revisions (snd (finishSystemRecoveryRequest now i tok st err d)) = revisions d"
  "runs (snd (finishSystemRecoveryRequest now i tok st err d)) = runs d"
  "runtime_ops (snd (finishSystemRecoveryRequest now i tok st err d)) = runtime_ops d"
  "log_requests (snd (finishSystemRecoveryRequest now i tok st err d)) = log_requests d"
  "backups (snd (finishSystemRecoveryRequest now i tok st err d)) = backups d"
  "restores (snd (finishSystemRecoveryRequest now i tok st err d)) = restores d"
  "backup_imports (snd (finishSystemRecoveryRequest now i tok st err d)) = backup_imports d"
  "scopes (snd (finishSystemRecoveryRequest now i tok st err d)) = scopes d"
  "domains (snd (finishSystemRecoveryRequest now i tok st err d)) = domains d"
  "accounts (snd (finishSystemRecoveryRequest now i tok st err d)) = accounts d"
  "draws d \<le> draws (snd (finishSystemRecoveryRequest now i tok st err d))"
  by (simp_all add: finishSystemRecoveryRequest_def  after_def after_unit_def draw_def Let_def frame_simps del: exists_row_iff split: option.split sum.split prod.split)

lemma createSystemRestore_frames [frame_simps]:
  "users (snd (createSystemRestore gen now b u st err d)) = users d"
  "sessions (snd (createSystemRestore gen now b u st err d)) = sessions d"
  "agents (snd (createSystemRestore gen now b u st err d)) = agents d"
  "commands (snd (createSystemRestore gen now b u st err d)) = commands d"
  "connectors (snd (createSystemRestore gen now b u st err d)) = connectors d"
  "stacks (snd (createSystemRestore gen now b u st err d)) = stacks d"
  "routes (snd (createSystemRestore gen now b u st err d)) = routes d"
  "deployments (snd (createSystemRestore gen now b u st err d)) = deployments d"
  "revisions (snd (createSystemRestore gen now b u st err d)) = revisions d"
  "runs (snd (createSystemRestore gen now b u st err d)) = runs d"
  "runtime_ops (snd (createSystemRestore gen now b u st err d)) = runtime_ops d"
  "log_requests (snd (createSystemRestore gen now b u st err d)) = log_requests d"
  "backups (snd (createSystemRestore gen now b u st err d)) = backups d"
  "restores (snd (createSystemRestore gen now b u st err d)) = restores d"
  "backup_imports (snd (createSystemRestore gen now b u st err d)) = backup_imports d"
  "recovery_requests (snd (createSystemRestore gen now b u st err d)) = recovery_requests d"
  "scopes (snd (createSystemRestore gen now b u st err d)) = scopes d"
  "domains (snd (createSystemRestore gen now b u st err d)) = domains d"
  "accounts (snd (createSystemRestore gen now b u st err d)) = accounts d"
  "draws d \<le> draws (snd (createSystemRestore gen now b u st err d))"
  by (simp_all add: createSystemRestore_def  after_def after_unit_def draw_def Let_def frame_simps del: exists_row_iff split: option.split sum.split prod.split)

lemma updateSystemRestore_frames [frame_simps]:
  "users (after (updateSystemRestore now i st err d) d) = users d"
  "sessions (after (updateSystemRestore now i st err d) d) = sessions d"
  "agents (after (updateSystemRestore now i st err d) d) = agents d"
  "commands (after (updateSystemRestore now i st err d) d) = commands d"
  "connectors (after (updateSystemRestore now i st err d) d) = connectors d"
  "stacks (after (updateSystemRestore now i st err d) d) = stacks d"
  "routes (after (updateSystemRestore now i st err d) d) = routes d"
  "deployments (after (updateSystemRestore now i st err d) d) = deployments d"
  "revisions (after (updateSystemRestore now i st err d) d) = revisions d"
  "runs (after (updateSystemRestore now i st err d) d) = runs d"
  "runtime_ops (after (updateSystemRestore now i st err d) d) = runtime_ops d"
  "log_requests (after (updateSystemRestore now i st err d) d) = log_requests d"
  "backups (after (updateSystemRestore now i st err d) d) = backups d"
  "restores (after (updateSystemRestore now i st err d) d) = restores d"
  "backup_imports (after (updateSystemRestore now i st err d) d) = backup_imports d"
  "recovery_requests (after (updateSystemRestore now i st err d) d) = recovery_requests d"
  "scopes (after (updateSystemRestore now i st err d) d) = scopes d"
  "domains (after (updateSystemRestore now i st err d) d) = domains d"
  "accounts (after (updateSystemRestore now i st err d) d) = accounts d"
  "draws d \<le> draws (after (updateSystemRestore now i st err d) d)"
  by (simp_all add: updateSystemRestore_def  after_def after_unit_def draw_def Let_def frame_simps del: exists_row_iff split: option.split sum.split prod.split)

lemma setAgentNotificationPreference_frames [frame_simps]:
  "users (snd (setAgentNotificationPreference lim now dn i b u d)) = users d"
  "sessions (snd (setAgentNotificationPreference lim now dn i b u d)) = sessions d"
  "agents (snd (setAgentNotificationPreference lim now dn i b u d)) = agents d"
  "commands (snd (setAgentNotificationPreference lim now dn i b u d)) = commands d"
  "connectors (snd (setAgentNotificationPreference lim now dn i b u d)) = connectors d"
  "stacks (snd (setAgentNotificationPreference lim now dn i b u d)) = stacks d"
  "routes (snd (setAgentNotificationPreference lim now dn i b u d)) = routes d"
  "deployments (snd (setAgentNotificationPreference lim now dn i b u d)) = deployments d"
  "revisions (snd (setAgentNotificationPreference lim now dn i b u d)) = revisions d"
  "runs (snd (setAgentNotificationPreference lim now dn i b u d)) = runs d"
  "runtime_ops (snd (setAgentNotificationPreference lim now dn i b u d)) = runtime_ops d"
  "log_requests (snd (setAgentNotificationPreference lim now dn i b u d)) = log_requests d"
  "backups (snd (setAgentNotificationPreference lim now dn i b u d)) = backups d"
  "restores (snd (setAgentNotificationPreference lim now dn i b u d)) = restores d"
  "backup_imports (snd (setAgentNotificationPreference lim now dn i b u d)) = backup_imports d"
  "recovery_requests (snd (setAgentNotificationPreference lim now dn i b u d)) = recovery_requests d"
  "domains (snd (setAgentNotificationPreference lim now dn i b u d)) = domains d"
  "accounts (snd (setAgentNotificationPreference lim now dn i b u d)) = accounts d"
  "draws d \<le> draws (snd (setAgentNotificationPreference lim now dn i b u d))"
  by (simp_all add: setAgentNotificationPreference_def upsert_scope_def after_def after_unit_def draw_def Let_def frame_simps del: exists_row_iff split: option.split sum.split prod.split)

lemma setServiceNotificationPreference_frames [frame_simps]:
  "users (snd (setServiceNotificationPreference lim now dn i p s b u d)) = users d"
  "sessions (snd (setServiceNotificationPreference lim now dn i p s b u d)) = sessions d"
  "agents (snd (setServiceNotificationPreference lim now dn i p s b u d)) = agents d"
  "commands (snd (setServiceNotificationPreference lim now dn i p s b u d)) = commands d"
  "connectors (snd (setServiceNotificationPreference lim now dn i p s b u d)) = connectors d"
  "stacks (snd (setServiceNotificationPreference lim now dn i p s b u d)) = stacks d"
  "routes (snd (setServiceNotificationPreference lim now dn i p s b u d)) = routes d"
  "deployments (snd (setServiceNotificationPreference lim now dn i p s b u d)) = deployments d"
  "revisions (snd (setServiceNotificationPreference lim now dn i p s b u d)) = revisions d"
  "runs (snd (setServiceNotificationPreference lim now dn i p s b u d)) = runs d"
  "runtime_ops (snd (setServiceNotificationPreference lim now dn i p s b u d)) = runtime_ops d"
  "log_requests (snd (setServiceNotificationPreference lim now dn i p s b u d)) = log_requests d"
  "backups (snd (setServiceNotificationPreference lim now dn i p s b u d)) = backups d"
  "restores (snd (setServiceNotificationPreference lim now dn i p s b u d)) = restores d"
  "backup_imports (snd (setServiceNotificationPreference lim now dn i p s b u d)) = backup_imports d"
  "recovery_requests (snd (setServiceNotificationPreference lim now dn i p s b u d)) = recovery_requests d"
  "domains (snd (setServiceNotificationPreference lim now dn i p s b u d)) = domains d"
  "accounts (snd (setServiceNotificationPreference lim now dn i p s b u d)) = accounts d"
  "draws d \<le> draws (snd (setServiceNotificationPreference lim now dn i p s b u d))"
  by (simp_all add: setServiceNotificationPreference_def upsert_scope_def after_def after_unit_def draw_def Let_def frame_simps del: exists_row_iff split: option.split sum.split prod.split)

end
