(* ===== verification/Gw_Owners.thy ===== *)
theory Gw_Owners
  imports Gw_Frames
begin

text \<open>
  Agents and what rests on them. Removing an agent is blocked while a connector, a stack, a
  route, a deployment or an open command belongs to it; the operations that create these ask
  for an enabled agent.
\<close>

section \<open>Who owns what\<close>

text \<open>
  Whatever rests on an agent, and every command that is pending or claimed, belongs to an agent
  that is enabled: an agent is only archived or deleted when nothing rests on it.
\<close>

definition owners_ok :: "db \<Rightarrow> bool" where
  "owners_ok d \<longleftrightarrow>
     (\<forall>r \<in> set (connectors d). agent_enabled (con_agent_id r) d)
     \<and> (\<forall>r \<in> set (stacks d). agent_enabled (stk_agent_id r) d)
     \<and> (\<forall>r \<in> set (routes d). agent_enabled (rte_gateway_agent_id r) d)
     \<and> (\<forall>r \<in> set (deployments d). agent_enabled (dpl_agent_id r) d)
     \<and> (\<forall>c \<in> set (commands d). live_command c \<longrightarrow> agent_enabled (cmd_agent_id c) d)"

lemma owners_ok_empty: "owners_ok empty_db"
  by (simp add: owners_ok_def empty_db_def)

lemma owned_image:
  assumes "f ` set u \<subseteq> f ` set t \<union> {i. Q i}" "\<forall>r \<in> set t. Q (f r)" "\<And>i. Q i \<Longrightarrow> R i"
  shows "\<forall>r \<in> set u. R (f r)"
  using assms by auto

lemma owners_okI:
  assumes "owners_ok d" and en: "\<And>i. agent_enabled i d \<Longrightarrow> agent_enabled i e"
    and "con_agent_id ` set (connectors e) \<subseteq> con_agent_id ` set (connectors d) \<union> {i. agent_enabled i d}"
    and "stk_agent_id ` set (stacks e) \<subseteq> stk_agent_id ` set (stacks d) \<union> {i. agent_enabled i d}"
    and "rte_gateway_agent_id ` set (routes e) \<subseteq> rte_gateway_agent_id ` set (routes d) \<union> {i. agent_enabled i d}"
    and "dpl_agent_id ` set (deployments e) \<subseteq> dpl_agent_id ` set (deployments d) \<union> {i. agent_enabled i d}"
    and "\<And>c. c \<in> set (commands e) \<Longrightarrow> live_command c \<Longrightarrow>
      agent_enabled (cmd_agent_id c) d \<or> (\<exists>b \<in> set (commands d). live_command b \<and> cmd_agent_id b = cmd_agent_id c)"
  shows "owners_ok e"
proof -
  have c: "agent_enabled (cmd_agent_id c) e" if "c \<in> set (commands e)" "live_command c" for c
  proof (rule en)
    from assms(7) [OF that] assms(1) show "agent_enabled (cmd_agent_id c) d"
      unfolding owners_ok_def by force
  qed
  have d: "\<forall>r \<in> set (connectors d). agent_enabled (con_agent_id r) d" "\<forall>r \<in> set (stacks d). agent_enabled (stk_agent_id r) d"
    "\<forall>r \<in> set (routes d). agent_enabled (rte_gateway_agent_id r) d" "\<forall>r \<in> set (deployments d). agent_enabled (dpl_agent_id r) d"
    using assms(1) unfolding owners_ok_def by blast+
  show ?thesis
    unfolding owners_ok_def
  proof (intro conjI)
    show "\<forall>r \<in> set (connectors e). agent_enabled (con_agent_id r) e" by (rule owned_image [OF assms(3) d(1) en])
    show "\<forall>r \<in> set (stacks e). agent_enabled (stk_agent_id r) e" by (rule owned_image [OF assms(4) d(2) en])
    show "\<forall>r \<in> set (routes e). agent_enabled (rte_gateway_agent_id r) e" by (rule owned_image [OF assms(5) d(3) en])
    show "\<forall>r \<in> set (deployments e). agent_enabled (dpl_agent_id r) e" by (rule owned_image [OF assms(6) d(4) en])
  qed (use c in blast)
qed

lemma owners_ok_frame:
  assumes "owners_ok d" "agents e = agents d" "connectors e = connectors d" "stacks e = stacks d"
    "routes e = routes d" "deployments e = deployments d" "commands e = commands d"
  shows "owners_ok e"
  using assms by (simp add: owners_ok_def agent_enabled_def)

lemma agent_enabled_frame: "agents e = agents d \<Longrightarrow> agent_enabled i e = agent_enabled i d"
  by (simp add: agent_enabled_def)

lemma agent_enabled_update:
  assumes "agents e = update_rows P f (agents d)"
    and "\<And>r. ag_id (f r) = ag_id r" "\<And>r. P r \<Longrightarrow> ag_enabled r \<Longrightarrow> ag_enabled (f r)"
    and "agent_enabled i d"
  shows "agent_enabled i e"
  using assms(4,2,3) unfolding agent_enabled_def assms(1) exists_row_iff bex_update_rows by auto

lemma owners_ok_insert_command:
  assumes "owners_ok d" "agent_enabled a d"
  shows "owners_ok (snd (insert_command gen now a t p d))"
  using assms by (auto simp: owners_ok_def insert_command_eq agent_enabled_def)

lemma owners_ok_queueInternalSync:
  "owners_ok d \<Longrightarrow> agent_enabled a d \<Longrightarrow> owners_ok (queueInternalSync gen now a t k i d)"
  by (simp add: queueInternalSync_def owners_ok_insert_command)

lemma owners_ok_connectors:
  assumes "owners_ok d" "con_agent_id ` set t \<subseteq> con_agent_id ` set (connectors d) \<union> {i. agent_enabled i d}"
  shows "owners_ok (d\<lparr>connectors := t\<rparr>)"
  using assms(1) by (rule owners_okI) (use assms(2) in \<open>auto simp: agent_enabled_def\<close>)

lemma image_update_rows:
  "(\<And>r. P r \<Longrightarrow> g (f r) = g r) \<Longrightarrow> g ` set (update_rows P f t) = g ` set t"
  using map_update_rows [of P g f t] by (metis set_map)

lemma live_command_update:
  assumes "c \<in> set (update_rows P f t)" "live_command c"
    "\<And>b. b \<in> set t \<Longrightarrow> P b \<Longrightarrow> live_command (f b) \<Longrightarrow> live_command b \<and> cmd_agent_id (f b) = cmd_agent_id b"
  shows "\<exists>b \<in> set t. live_command b \<and> cmd_agent_id b = cmd_agent_id c"
  using assms(1)
proof (cases rule: in_update_rowsE)
  case (1 r)
  then show ?thesis using assms(2,3) by auto
next
  case 2
  then show ?thesis using assms(2) by blast
qed

lemma owners_ok_commands:
  assumes ok: "owners_ok d" and rows: "commands e = update_rows P f (commands d)"
    and e: "agents e = agents d" "con_agent_id ` set (connectors e) = con_agent_id ` set (connectors d)"
      "stk_agent_id ` set (stacks e) = stk_agent_id ` set (stacks d)"
      "rte_gateway_agent_id ` set (routes e) = rte_gateway_agent_id ` set (routes d)"
      "dpl_agent_id ` set (deployments e) = dpl_agent_id ` set (deployments d)"
    and keep: "\<And>b. b \<in> set (commands d) \<Longrightarrow> P b \<Longrightarrow> live_command (f b) \<Longrightarrow> live_command b \<and> cmd_agent_id (f b) = cmd_agent_id b"
  shows "owners_ok e"
proof (rule owners_okI [OF ok])
  fix c
  assume "c \<in> set (commands e)" "live_command c"
  then show "agent_enabled (cmd_agent_id c) d \<or> (\<exists>b \<in> set (commands d). live_command b \<and> cmd_agent_id b = cmd_agent_id c)"
    using live_command_update [of c P f "commands d"] keep by (auto simp: rows)
qed (use e in \<open>auto simp: agent_enabled_def\<close>)

lemma owners_ok_queueConnectorSync:
  assumes ok: "owners_ok d" and en: "agent_enabled a d"
  shows "owners_ok (queueConnectorSync gen now a i rv stopping d)"
proof -
  let ?f = "\<lambda>r. r\<lparr>con_deployment_status := (if stopping then KStopping else KPending), con_last_error := None, con_updated_at := now\<rparr>"
  let ?d = "d\<lparr>connectors := update_rows (\<lambda>r. con_id r = i) ?f (connectors d)\<rparr>"
  let ?P = "\<lambda>c. cmd_agent_id c = a \<and> cmd_type c = ''cloudflare.connector.sync'' \<and> cmd_status c = CmdPending
     \<and> json_text (jprop (cmd_payload c) ''connectorId'') = Some i"
  have img: "con_agent_id ` set (update_rows (\<lambda>r. con_id r = i) ?f (connectors d)) = con_agent_id ` set (connectors d)"
    by (rule image_update_rows) simp
  have d: "owners_ok ?d" by (rule owners_ok_connectors [OF ok]) (simp add: img)
  have en': "agent_enabled a ?d" using en by (simp add: agent_enabled_def)
  show ?thesis
  proof (cases "exists_row ?P (commands d)")
    case True
    have "owners_ok (?d\<lparr>commands := update_rows ?P (\<lambda>c. c\<lparr>cmd_payload := connector_payload i rv, cmd_created_at := now\<rparr>) (commands ?d)\<rparr>)"
      by (rule owners_ok_commands [OF d, where P = ?P and f = "\<lambda>c. c\<lparr>cmd_payload := connector_payload i rv, cmd_created_at := now\<rparr>"])
        (simp_all add: live_command_def)
    with True show ?thesis
      by (simp add: queueConnectorSync_def Let_def del: exists_row_iff split del: if_split)
  next
    case False
    have "owners_ok (snd (insert_command gen now a ''cloudflare.connector.sync'' (connector_payload i rv) ?d))"
      by (rule owners_ok_insert_command [OF d en'])
    with False show ?thesis
      by (simp add: queueConnectorSync_def Let_def del: exists_row_iff split del: if_split)
  qed
qed

lemma ready_enabled: "agent_ready i d \<Longrightarrow> agent_enabled i d"
  by (auto simp: agent_ready_def agent_enabled_def)

section \<open>Operations that create or move what rests on an agent\<close>

lemma owners_ok_removeAgent:
  assumes ok: "owners_ok d" and ids: "distinct (map ag_id (agents d))"
  shows "owners_ok (snd (removeAgent now i d))"
proof (cases "agent_blocked i d")
  case True
  then have "snd (removeAgent now i d) = d" by (simp add: removeAgent_def split: option.split)
  with ok show ?thesis by simp
next
  case False
  have agents: "agent_enabled j (snd (removeAgent now i d))" if "agent_enabled j d" "j \<noteq> i" for j
    using that by (auto simp: removeAgent_def agent_enabled_def bex_update_rows split: option.split)
  have free: "\<forall>r \<in> set (connectors d). con_agent_id r \<noteq> i" "\<forall>r \<in> set (stacks d). stk_agent_id r \<noteq> i"
    "\<forall>r \<in> set (routes d). rte_gateway_agent_id r \<noteq> i" "\<forall>r \<in> set (deployments d). dpl_agent_id r \<noteq> i"
    "\<forall>c \<in> set (commands d). live_command c \<longrightarrow> cmd_agent_id c \<noteq> i"
    using False by (auto simp: agent_blocked_def live_command_def)
  with ok agents show ?thesis
    by (simp add: owners_ok_def frame_simps)
qed

lemma owners_ok_agents:
  assumes "owners_ok d" "agents e = update_rows P f (agents d)" "\<And>r. ag_id (f r) = ag_id r"
    "\<And>r. P r \<Longrightarrow> ag_enabled r \<Longrightarrow> ag_enabled (f r)"
    "con_agent_id ` set (connectors e) \<subseteq> con_agent_id ` set (connectors d)" "stacks e = stacks d" "routes e = routes d"
    "deployments e = deployments d" "commands e = commands d"
  shows "owners_ok e"
  by (rule owners_okI [OF assms(1)])
    (use assms agent_enabled_update [OF assms(2-4)] in auto)

lemma owners_ok_append_stack:
  assumes "owners_ok d" "agent_enabled (stk_agent_id r) d"
  shows "owners_ok (d\<lparr>draws := n, stacks := stacks d @ [r]\<rparr>)"
  by (rule owners_okI [OF assms(1)]) (use assms(2) in \<open>auto simp: agent_enabled_def\<close>)

lemma owners_ok_createStack:
  assumes ok: "owners_ok d"
  shows "owners_ok (after (createStack gen now a n p y b cfg d) d)"
proof (rule after_cases [where Q = owners_ok, OF ok])
  fix x e
  assume run: "createStack gen now a n p y b cfg d = Inr (x, e)"
  show "owners_ok e"
  proof (cases "agent_enabled a d")
    case True
    with run show ?thesis
      by (auto simp: createStack_def draw_def Let_def agent_enabled_def simp del: exists_row_iff split: if_splits
          intro!: owners_ok_queueInternalSync owners_ok_append_stack [OF ok])
  next
    case False
    with run ok show ?thesis by (simp add: createStack_def)
  qed
qed

lemma owners_ok_updated_stacks:
  assumes "owners_ok d" "\<And>r. P r \<Longrightarrow> stk_agent_id (f r) = stk_agent_id r"
  shows "owners_ok (d\<lparr>stacks := update_rows P f (stacks d)\<rparr>)"
  by (rule owners_okI [OF assms(1)]) (use image_update_rows [of P stk_agent_id f "stacks d"] assms(2) in \<open>auto simp: agent_enabled_def\<close>)

lemma owners_ok_updateStack:
  assumes ok: "owners_ok d"
  shows "owners_ok (after (updateStack gen now i nm y b cfg d) d)"
proof (rule after_cases [where Q = owners_ok, OF ok])
  fix x e
  assume run: "updateStack gen now i nm y b cfg d = Inr (x, e)"
  show "owners_ok e"
  proof (cases "find (\<lambda>s. stk_id s = i \<and> agent_enabled (stk_agent_id s) d) (stacks d)")
    case None
    with run ok show ?thesis by (simp add: updateStack_def)
  next
    case (Some s)
    let ?f = "updated_stack now nm y b cfg"
    let ?d = "d\<lparr>stacks := update_rows (\<lambda>r. stk_id r = i) ?f (stacks d)\<rparr>"
    have "agent_enabled (stk_agent_id (?f s)) ?d"
      using find_someD [OF Some] by (simp add: updated_stack_def agent_enabled_def)
    moreover have "owners_ok ?d"
      by (rule owners_ok_updated_stacks [OF ok]) (simp add: updated_stack_def)
    ultimately show ?thesis
      using run Some by (auto simp: updateStack_def Let_def simp del: exists_row_iff split: if_splits
        intro!: owners_ok_queueInternalSync)
  qed
qed

lemma owners_ok_append_route:
  assumes "owners_ok d" "agent_enabled (rte_gateway_agent_id r) d"
  shows "owners_ok (d\<lparr>draws := n, routes := routes d @ [r]\<rparr>)"
  by (rule owners_okI [OF assms(1)]) (use assms(2) in \<open>auto simp: agent_enabled_def\<close>)

lemma owners_ok_createRoute:
  assumes ok: "owners_ok d"
  shows "owners_ok (after (createRoute gen now a n hn ex bs b d) d)"
proof (rule after_cases [where Q = owners_ok, OF ok])
  fix x e
  assume run: "createRoute gen now a n hn ex bs b d = Inr (x, e)"
  show "owners_ok e"
  proof (cases "agent_enabled a d")
    case True
    with run show ?thesis
      by (auto simp: createRoute_def draw_def Let_def agent_enabled_def simp del: exists_row_iff split: if_splits
          intro!: owners_ok_queueInternalSync owners_ok_append_route [OF ok])
  next
    case False
    with run ok show ?thesis by (simp add: createRoute_def)
  qed
qed

lemma owners_ok_updateRoute:
  assumes ok: "owners_ok d"
  shows "owners_ok (after (updateRoute gen now i a nm hn ex bs b d) d)"
proof (rule after_cases [where Q = owners_ok, OF ok])
  fix x e
  assume run: "updateRoute gen now i a nm hn ex bs b d = Inr (x, e)"
  show "owners_ok e"
  proof (cases "find (\<lambda>r. rte_id r = i) (routes d)")
    case None
    with run ok show ?thesis by (simp add: updateRoute_def)
  next
    case (Some r)
    let ?f = "updated_route now a nm hn ex bs b"
    let ?d = "d\<lparr>routes := update_rows (\<lambda>s. rte_id s = i) ?f (routes d)\<rparr>"
    show ?thesis
    proof (cases "agent_enabled (coalesce a (rte_gateway_agent_id r)) d")
      case False
      with run ok Some show ?thesis by (simp add: updateRoute_def)
    next
      case True
      have moved: "rte_gateway_agent_id (?f s) = coalesce a (rte_gateway_agent_id s)" for s
        by (simp add: updated_route_def)
      have sub: "rte_gateway_agent_id ` set (update_rows (\<lambda>s. rte_id s = i) ?f (routes d))
          \<subseteq> rte_gateway_agent_id ` set (routes d) \<union> {j. agent_enabled j d}"
        using True by (auto simp: set_update_rows updated_route_def coalesce_def split: option.splits)
      have "owners_ok ?d"
      proof (rule owners_okI [OF ok])
        show "rte_gateway_agent_id ` set (routes ?d) \<subseteq> rte_gateway_agent_id ` set (routes d) \<union> {j. agent_enabled j d}"
          using sub by simp
      qed (auto simp: agent_enabled_def)
      moreover have "agent_enabled (rte_gateway_agent_id (?f r)) ?d"
        using True by (simp add: moved agent_enabled_def)
      ultimately show ?thesis
        using run Some True by (auto simp: updateRoute_def Let_def simp del: exists_row_iff split: if_splits
          intro!: owners_ok_queueInternalSync)
    qed
  qed
qed

lemma owners_ok_insert:
  assumes ok: "owners_ok d" and en: "agent_enabled a d" and cmds: "commands e = commands d @ [new_command i now a t p]"
    and e: "agents e = agents d" "connectors e = connectors d" "stacks e = stacks d" "routes e = routes d"
      "dpl_agent_id ` set (deployments e) = dpl_agent_id ` set (deployments d)"
  shows "owners_ok e"
  by (rule owners_okI [OF ok]) (use en e in \<open>auto simp: cmds agent_enabled_def\<close>)

lemma owners_ok_createCommand:
  assumes ok: "owners_ok d"
  shows "owners_ok (after (createCommand gen now a t p d) d)"
  using ok owners_ok_insert_command [OF ok, of a gen now t p]
  by (auto simp: after_def createCommand_def split: prod.split)

lemma owners_ok_queueStackAction:
  assumes ok: "owners_ok d"
  shows "owners_ok (snd (queueStackAction gen now i t d))"
proof (cases "find (\<lambda>s. stk_id s = i \<and> stk_enabled s \<and> agent_enabled (stk_agent_id s) d) (stacks d)")
  case (Some s)
  then have "agent_enabled (stk_agent_id s) d" by (auto dest: find_someD)
  with Some owners_ok_insert_command [OF ok this] show ?thesis
    by (simp add: queueStackAction_def Let_def case_prod_beta)
qed (simp add: queueStackAction_def ok)

lemma owners_ok_queueLogRequest:
  assumes ok: "owners_ok d"
  shows "owners_ok (snd (queueLogRequest gen now i u svc n since d))"
proof (cases "find (\<lambda>s. stk_id s = i \<and> stk_enabled s \<and> agent_enabled (stk_agent_id s) d) (stacks d)")
  case (Some s)
  then have "agent_enabled (stk_agent_id s) d" by (auto dest: find_someD)
  with Some owners_ok_insert_command [OF ok this] show ?thesis
    by (simp add: queueLogRequest_def Let_def case_prod_beta)
qed (simp add: queueLogRequest_def ok)

lemma owners_ok_createBackup:
  assumes ok: "owners_ok d"
  shows "owners_ok (snd (createBackup gen now i u t d))"
proof (cases rule: createBackup_cases [of gen now i u t d])
  case (accepted row)
  show ?thesis by (rule owners_ok_insert [OF ok accepted(9)]) (simp_all add: accepted(10))
qed (simp add: ok)

lemma owners_ok_createRestore:
  assumes ok: "owners_ok d"
  shows "owners_ok (snd (createRestore gen now b u d))"
proof (cases rule: createRestore_cases [of gen now b u d])
  case (accepted row)
  show ?thesis by (rule owners_ok_insert [OF ok accepted(9)]) (simp_all add: accepted(10))
qed (simp add: ok)

lemma owners_ok_createDeployment:
  assumes ok: "owners_ok d"
  shows "owners_ok (after (createDeployment gen now a n p v d) d)"
proof (rule after_cases [where Q = owners_ok, OF ok])
  fix x e
  assume "createDeployment gen now a n p v d = Inr (x, e)"
  then show "owners_ok e"
  proof (cases rule: createDeployment_cases)
    case (created row)
    show ?thesis
      by (rule owners_okI [OF ok]) (use created(1,4,9) ready_enabled in \<open>auto simp: agent_enabled_def agent_ready_def\<close>)
  qed (simp add: ok)
qed

lemma owners_ok_createDeploymentRun:
  assumes ok: "owners_ok d"
  shows "owners_ok (snd (createDeploymentRun gen now i v a u d))"
proof (cases rule: createDeploymentRun_cases [of gen now i v a u d])
  case (accepted t row)
  have en: "agent_enabled (dpl_agent_id t) d"
    using run_target_someD(5) [OF accepted(1)] by (rule ready_enabled)
  show ?thesis
    by (rule owners_ok_insert [OF ok en]) (simp_all add: accepted(13) image_update_rows)
qed (simp add: ok)

lemma owners_ok_createRuntimeOperation:
  assumes ok: "owners_ok d"
  shows "owners_ok (after (createRuntimeOperation gen now u a act sc p s d) d)"
proof (rule after_cases [where Q = owners_ok, OF ok])
  fix x e
  assume "createRuntimeOperation gen now u a act sc p s d = Inr (x, e)"
  then show "owners_ok e"
  proof (cases rule: createRuntimeOperation_cases)
    case (accepted row)
    show ?thesis
      by (rule owners_ok_insert [OF ok ready_enabled [OF accepted(2)]]) (simp_all add: accepted(10))
  qed (simp add: ok)
qed

lemma owners_ok_createRuntimeLogRequest:
  assumes ok: "owners_ok d"
  shows "owners_ok (after (createRuntimeLogRequest gen now u a p s n since d) d)"
proof (rule after_cases [where Q = owners_ok, OF ok])
  fix x e
  assume "createRuntimeLogRequest gen now u a p s n since d = Inr (x, e)"
  then show "owners_ok e"
  proof (cases rule: createRuntimeLogRequest_cases)
    case (accepted row)
    show ?thesis
      by (rule owners_ok_insert [OF ok ready_enabled [OF accepted(1)]]) (simp_all add: accepted(12))
  qed (simp add: ok)
qed

section \<open>Connectors\<close>

lemma owners_ok_createConnector:
  assumes ok: "owners_ok d"
  shows "owners_ok (after (createConnector gen now n tok b a aid ident tun st err d) d)"
proof (rule after_cases [where Q = owners_ok, OF ok])
  fix x e
  assume "createConnector gen now n tok b a aid ident tun st err d = Inr (x, e)"
  then show "owners_ok e"
  proof (cases rule: createConnector_cases)
    case (created row)
    let ?d = "d\<lparr>draws := Suc (draws d), connectors := connectors d @ [row]\<rparr>"
    have en: "agent_enabled a d" using created(1) by (rule ready_enabled)
    then have en': "agent_enabled a ?d" by (simp add: agent_enabled_def)
    have "owners_ok ?d"
      by (rule owners_okI [OF ok]) (use en created(5) in \<open>auto simp: agent_enabled_def\<close>)
    with owners_ok_queueConnectorSync [OF this en'] show ?thesis by (simp add: created(9) Let_def)
  qed (simp add: ok)
qed

lemma owners_ok_write_connector:
  assumes ok: "owners_ok d" and w: "write_connector old new d = Inr e" and en: "agent_enabled (con_agent_id new) d"
  shows "owners_ok e"
  unfolding write_connector_Inr(1) [OF w]
  by (rule owners_ok_connectors [OF ok]) (use en in \<open>auto simp: set_update_rows\<close>)

lemma owners_ok_updateConnector:
  assumes ok: "owners_ok d"
  shows "owners_ok (after (updateConnector gen now i v d) d)"
proof (rule after_cases [where Q = owners_ok, OF ok])
  fix x e
  assume "updateConnector gen now i v d = Inr (x, e)"
  then show "owners_ok e"
  proof (cases rule: updateConnector_cases)
    case (updated r e')
    let ?d = "queue_removal gen now v r d"
    let ?new = "updated_connector now v r"
    have old: "agent_enabled (con_agent_id r) d" using ok updated(2) by (simp add: owners_ok_def)
    have ok': "owners_ok ?d" using owners_ok_insert_command [OF ok old] ok by (simp add: queue_removal_def)
    have en: "agent_enabled (con_agent_id ?new) ?d"
      using ready_enabled [OF updated(4)] by (simp add: agent_enabled_def queue_removal_def insert_command_eq)
    then have "agent_enabled (con_agent_id ?new) e'"
      using write_connector_Inr(1) [OF updated(6)] by (simp add: agent_enabled_def)
    then show ?thesis
      unfolding updated(8) by (intro owners_ok_queueConnectorSync owners_ok_write_connector [OF ok' updated(6) en])
  qed (simp add: ok)
qed

lemma owners_ok_markConnectorIdentity:
  assumes ok: "owners_ok d"
  shows "owners_ok (after (markConnectorIdentity now i ex v d) d)"
proof (rule after_cases [where Q = owners_ok, OF ok])
  fix x e
  assume run: "markConnectorIdentity now i ex v d = Inr (x, e)"
  show "owners_ok e"
  proof (cases "x = None")
    case True
    with run ok show ?thesis by (auto simp: markConnectorIdentity_def split: option.splits sum.splits)
  next
    case False
    with run obtain r where r: "r \<in> set (connectors d)" and w: "write_connector r (marked_connector now v r) d = Inr e"
      by (auto simp: markConnectorIdentity_def dest: find_someD split: option.splits sum.splits)
    have "agent_enabled (con_agent_id (marked_connector now v r)) d"
      using ok r by (simp add: owners_ok_def marked_connector_def Let_def)
    then show ?thesis by (rule owners_ok_write_connector [OF ok w])
  qed
qed

section \<open>Agents and the life of commands\<close>

lemma observe_connector_agents:
  "con_agent_id ` set (observe_connector now i en t) = con_agent_id ` set t"
  by (auto simp: observe_connector_def image_update_rows split: json.split option.split)

lemma observe_connectors_agents:
  "con_agent_id ` set (fold (observe_connector now i) es t) = con_agent_id ` set t"
  by (induction es arbitrary: t) (simp_all add: observe_connector_agents)

lemma heartbeatAgent_connectors:
  "connectors (heartbeatAgent gen now i m d) = fold (observe_connector now i) (heartbeat_connectors m) (connectors d)"
  by (simp add: heartbeatAgent_def Let_def frame_simps split: option.splits)

lemma owners_ok_heartbeatAgent:
  assumes "owners_ok d" shows "owners_ok (heartbeatAgent gen now i m d)"
  by (rule owners_ok_agents [OF assms heartbeatAgent_agents])
    (simp_all add: frame_simps heartbeatAgent_connectors observe_connectors_agents)

lemma owners_ok_recordTelemetry:
  assumes "owners_ok d" shows "owners_ok (recordTelemetry gen dp now dn i obs node svcs d)"
  by (rule owners_ok_agents [OF assms recordTelemetry_agents]) (simp_all add: frame_simps)

lemma owners_ok_sweepOfflineAgents:
  assumes "owners_ok d" shows "owners_ok (snd (sweepOfflineAgents gen now b d))"
  by (rule owners_ok_agents [OF assms sweepOfflineAgents_agents]) (simp_all add: frame_simps)

lemma owners_ok_enrollAgent:
  assumes "owners_ok d" shows "owners_ok (snd (enrollAgent now dn tok cred d))"
  by (rule owners_ok_agents [OF assms, where P = "enrollable now tok" and f = "enroll_row now cred"])
    (simp_all add: enrollAgent_def enroll_row_def)

lemma owners_ok_createAgent:
  assumes ok: "owners_ok d" shows "owners_ok (after (createAgent gen now dn name tok t d) d)"
  by (rule after_cases [where Q = owners_ok, OF ok])
    (rule owners_okI [OF ok], auto simp: createAgent_def draw_def Let_def agent_enabled_def split: if_splits)

lemma start_operation_connectors:
  "con_agent_id ` set (connectors (start_operation now a c d)) = con_agent_id ` set (connectors d)"
  by (auto simp: start_operation_def image_update_rows deploying_connector_def split: option.split)

lemma claims_claimable:
  assumes dist: "distinct (map cmd_id (commands d))" and c: "c \<in> set (commands d)" "claims now a n d c"
  shows "claimable_command now a c"
proof -
  from c(2) obtain x where x: "cmd_id x = cmd_id c"
      "x \<in> set (take n (sort_key cmd_created_at (filter (claimable_command now a) (commands d))))"
    by (auto simp: claims_def selected_commands_def)
  then have "x \<in> set (commands d)" "claimable_command now a x"
    by (auto dest: in_set_takeD)
  moreover from this have "x = c" using distinct_key_eq [OF dist, of x c] c(1) x(1) by simp
  ultimately show ?thesis by simp
qed

lemma claimable_live: "claimable_command now a c \<Longrightarrow> live_command c"
  by (auto simp: claimable_command_def live_command_def)

lemma owners_ok_claimCommands:
  assumes ok: "owners_ok d" and dist: "distinct (map cmd_id (commands d))" shows "owners_ok (snd (claimCommands now a n d))"
proof -
  let ?e = "polled now a d"
  have p: "owners_ok ?e"
    by (rule owners_ok_agents [OF ok, where P = "\<lambda>r. ag_id r = a \<and> ag_enabled r"
        and f = "\<lambda>r. r\<lparr>ag_last_command_poll_at := Some now\<rparr>"]) (simp_all add: polled_def)
  have cons: "con_agent_id ` set (connectors (fold (start_operation now a) cs x)) = con_agent_id ` set (connectors x)" for cs x
    by (rule fold_frame [where g = "\<lambda>y. con_agent_id ` set (connectors y)"]) (rule start_operation_connectors)
  have live: "live_command b" if "b \<in> set (commands d)" "claims now a n d b" for b
    using claims_claimable [OF dist that] by (rule claimable_live)
  show ?thesis
    by (rule owners_ok_commands [OF p, where P = "claims now a n d" and f = "claimed_command now"])
      (use live in \<open>auto simp: claimCommands_eq cons frame_simps polled_def claimed_command_def\<close>)
qed

lemma complete_connector_owners:
  "con_agent_id ` set (connectors (complete_connector now a c s res d)) = con_agent_id ` set (connectors d)"
proof -
  have "con_agent_id (completed_connector now s res r) = con_agent_id r" for r
    by (simp add: completed_connector_def Let_def)
  then show ?thesis by (simp add: complete_connector_def image_update_rows split: option.split)
qed

lemma complete_stack_owners:
  "stk_agent_id ` set (stacks (complete_stack now a c s d)) = stk_agent_id ` set (stacks d)"
  by (simp add: complete_stack_def image_update_rows split: option.split del: exists_row_iff)

lemma complete_route_owners:
  "rte_gateway_agent_id ` set (routes (complete_route now a c s d)) = rte_gateway_agent_id ` set (routes d)"
  by (simp add: complete_route_def image_update_rows split: option.split del: exists_row_iff)

lemma completed_db_owners:
  "con_agent_id ` set (connectors (completed_db gen now a i s res c d)) = con_agent_id ` set (connectors d)"
  "stk_agent_id ` set (stacks (completed_db gen now a i s res c d)) = stk_agent_id ` set (stacks d)"
  "rte_gateway_agent_id ` set (routes (completed_db gen now a i s res c d)) = rte_gateway_agent_id ` set (routes d)"
  "dpl_agent_id ` set (deployments (completed_db gen now a i s res c d)) = dpl_agent_id ` set (deployments d)"
  by (simp_all add: completed_db_def frame_simps complete_connector_owners complete_stack_owners complete_route_owners)
    (auto simp: completed_db_def [symmetric] completed_db_deployments image_update_rows completed_deployment_def
      split: option.split)

definition completed_agent :: "time \<Rightarrow> string \<Rightarrow> CommandStatus \<Rightarrow> jobj \<Rightarrow> agent_row \<Rightarrow> agent_row" where
  "completed_agent now t s res r = r\<lparr>ag_last_command_result_at := Some now,
     ag_last_diagnostics := (if t = ''agent.diagnostics.run'' \<and> s = CmdSucceeded
       then (case jprop res ''diagnostics'' of Some (JObj x) \<Rightarrow> Some (JObj x) | Some (JArr x) \<Rightarrow> Some (JObj [])
             | _ \<Rightarrow> ag_last_diagnostics r) else ag_last_diagnostics r)\<rparr>"

lemma completed_db_agents:
  "agents (completed_db gen now a i s res c d) =
     update_rows (\<lambda>r. ag_id r = a) (completed_agent now (cmd_type c) s res) (agents d)"
  by (auto simp: completed_db_def frame_simps complete_agent_def Let_def completed_agent_def update_rows_def
      split: option.split json.split)

lemma owners_ok_completeCommand:
  assumes ok: "owners_ok d" and s: "s = CmdSucceeded \<or> s = CmdFailed"
  shows "owners_ok (snd (completeCommand gen now a i s res d))"
proof (cases "the_command a i d")
  case None
  with ok show ?thesis by (simp add: completeCommand_cases)
next
  case (Some c)
  let ?d = "d\<lparr>agents := agents (completed_db gen now a i s res c d)\<rparr>"
  have "owners_ok ?d"
    by (rule owners_ok_agents [OF ok, where P = "\<lambda>r. ag_id r = a" and f = "completed_agent now (cmd_type c) s res"])
      (simp_all add: completed_db_agents completed_agent_def)
  then have "owners_ok (completed_db gen now a i s res c d)"
    by (rule owners_ok_commands [where P = "\<lambda>r. cmd_id r = i \<and> cmd_agent_id r = a"
        and f = "close_command now s (command_result (cmd_type c) res)"])
      (use closed_not_live [OF s] in \<open>simp_all add: completed_db_rows(1) completed_db_owners\<close>)
  with ok Some show ?thesis by (simp add: completeCommand_cases)
qed

lemma fail_operation_owners:
  "con_agent_id ` set (connectors (fail_operation gen now c d)) = con_agent_id ` set (connectors d)"
  "dpl_agent_id ` set (deployments (fail_operation gen now c d)) = dpl_agent_id ` set (deployments d)"
  by (simp add: fail_operation_def Let_def frame_simps fail_connector_def image_update_rows stale_connector_def)
    (auto simp: fail_operation_deployments image_update_rows failed_deployment_def split: option.split)

lemma owners_ok_failStaleCommands:
  assumes ok: "owners_ok d"
  shows "owners_ok (snd (failStaleCommands gen now t d))"
proof -
  have "con_agent_id ` set (connectors (fold (fail_operation gen now) cs x)) = con_agent_id ` set (connectors x)"
    "dpl_agent_id ` set (deployments (fold (fail_operation gen now) cs x)) = dpl_agent_id ` set (deployments x)" for cs x
    by (rule fold_frame [where g = "\<lambda>y. con_agent_id ` set (connectors y)"], rule fail_operation_owners)
      (rule fold_frame [where g = "\<lambda>y. dpl_agent_id ` set (deployments y)"], rule fail_operation_owners)
  then show ?thesis
    by (intro owners_ok_commands [OF ok, where P = "stale_command now t" and f = "close_command now CmdFailed stale_result"])
      (simp_all add: fail_commands stale_db_def failStaleCommands_eq frame_simps closed_not_live)
qed

lemma purge_commands:
  "\<exists>P. commands (snd (purgeRuntimeLogResults now t d)) =
    update_rows P (\<lambda>c. c\<lparr>cmd_result := Some (without_key ''logs'' (coalesce (cmd_result c) []))\<rparr>) (commands d)"
proof (cases "List.map_filter lrq_command_id (filter (expired_logs t) (log_requests d)) = []")
  case True
  then show ?thesis
    by (intro exI [of _ "\<lambda>_. False"]) (simp add: purgeRuntimeLogResults_def Let_def update_rows_none)
next
  case False
  then show ?thesis by (simp add: purgeRuntimeLogResults_def Let_def) blast
qed

lemma owners_ok_purge:
  assumes ok: "owners_ok d" shows "owners_ok (snd (purgeRuntimeLogResults now t d))"
proof -
  obtain P where "commands (snd (purgeRuntimeLogResults now t d)) =
      update_rows P (\<lambda>c. c\<lparr>cmd_result := Some (without_key ''logs'' (coalesce (cmd_result c) []))\<rparr>) (commands d)"
    using purge_commands by blast
  from owners_ok_commands [OF ok this] show ?thesis by (simp add: frame_simps live_command_def)
qed

end
