(* ===== verification/Gw_Store.thy ===== *)
theory Gw_Store
  imports Gw_Owners
begin

text \<open>
  The store as a state machine: one step per operation of the interface \<open>Store\<close> that writes,
  with any arguments and at any time, in any order. Every operation is one transaction, so an
  interleaving of requests is a sequence of steps. The invariants of the components hold in
  every state the steps reach.
\<close>

section \<open>Steps\<close>

inductive step :: "(nat \<Rightarrow> uuid) \<Rightarrow> db \<Rightarrow> db \<Rightarrow> bool" for gen where
  createOwner: "step gen d (snd (createOwner gen now mail ph d))"
| createUser: "role \<noteq> Owner \<Longrightarrow> step gen d (after (createUser gen now mail ph role d) d)"
| createSession: "step gen d (after_unit (createSession now i tok t d) d)"
| findSessionUser: "step gen d (snd (findSessionUser now tok d))"
| deleteSession: "step gen d (deleteSession tok d)"
| saveNotificationSettings: "step gen d (saveNotificationSettings btok grp evs d)"
| claimNotificationDelivery: "step gen d (after (claimNotificationDelivery now d) d)"
| completeNotificationDelivery: "step gen d (completeNotificationDelivery now i d)"
| skipNotificationDelivery: "step gen d (skipNotificationDelivery now i d)"
| retryNotificationDelivery: "step gen d (retryNotificationDelivery now i err n b d)"
| createAgent: "step gen d (after (createAgent gen now dn name tok t d) d)"
| removeAgent: "step gen d (snd (removeAgent now i d))"
| enrollAgent: "step gen d (snd (enrollAgent now dn tok cred d))"
| heartbeatAgent: "step gen d (heartbeatAgent gen now i meta d)"
| recordTelemetry: "step gen d (recordTelemetry gen dp now dn i obs node svcs d)"
| sweepOfflineAgents: "step gen d (snd (sweepOfflineAgents gen now t d))"
| createCommand: "step gen d (after (createCommand gen now i type payload d) d)"
| createStack: "step gen d (after (createStack gen now i name p y b cfg d) d)"
| updateStack: "step gen d (after (updateStack gen now i nm y b cfg d) d)"
| queueStackAction: "step gen d (snd (queueStackAction gen now i type d))"
| createRoute: "step gen d (after (createRoute gen now i name hn ex bs b d) d)"
| updateRoute: "step gen d (after (updateRoute gen now i aid nm hn ex bs b d) d)"
| createBackup: "step gen d (snd (createBackup gen now i u tgt d))"
| createRestore: "step gen d (snd (createRestore gen now i u d))"
| queueLogRequest: "step gen d (snd (queueLogRequest gen now i u svc n since d))"
| createDeployment: "step gen d (after (createDeployment gen now i name p v d) d)"
| createDeploymentRevision: "step gen d (after (createDeploymentRevision gen now i v d) d)"
| createDeploymentRun: "step gen d (snd (createDeploymentRun gen now i j act u d))"
| createRuntimeOperation: "step gen d (after (createRuntimeOperation gen now u i act sc p s d) d)"
| createRuntimeLogRequest: "step gen d (after (createRuntimeLogRequest gen now u i p s n since d) d)"
| createConnector: "step gen d (after (createConnector gen now name tok b i aid ident tun st err d) d)"
| updateConnector: "step gen d (after (updateConnector gen now i v d) d)"
| markConnectorIdentity: "step gen d (after (markConnectorIdentity now i ex v d) d)"
| createCloudflareAccount: "step gen d (after (createCloudflareAccount gen now name ident tok b d) d)"
| updateCloudflareAccount: "step gen d (after (updateCloudflareAccount now i nm ident tok b d) d)"
| deleteCloudflareAccount: "step gen d (snd (deleteCloudflareAccount i d))"
| syncCloudflareZones: "step gen d (after (syncCloudflareZones gen now i zs err d) d)"
| createOrGetGuidedOperation: "step gen d (snd (createOrGetGuidedOperation gen now k key u h req d))"
| updateGuidedOperation: "step gen d (snd (updateGuidedOperation now i v d))"
| saveTlsObservation: "step gen d (saveTlsObservation gen iso8601 now i obs d)"
| createPendingDomainAccess: "step gen d (after (createPendingDomainAccess gen now i z r m c v4 v6 b d) d)"
| setDomainAccessPending: "step gen d (snd (setDomainAccessPending now i b d))"
| saveDomainAccessDnsRecord: "step gen d (after (saveDomainAccessDnsRecord now i n ty content rid mk d) d)"
| markDomainAccessDnsRecordStatus: "step gen d (snd (markDomainAccessDnsRecordStatus i n rid st err d))"
| markDomainAccessOutcome: "step gen d (after (markDomainAccessOutcome now i n st err d) d)"
| claimCommands: "step gen d (snd (claimCommands now i n d))"
| completeCommand: "st = CmdSucceeded \<or> st = CmdFailed \<Longrightarrow> step gen d (snd (completeCommand gen now i j st res d))"
| failStaleCommands: "step gen d (snd (failStaleCommands gen now t d))"
| purgeRuntimeLogResults: "step gen d (snd (purgeRuntimeLogResults now t d))"
| createSystemBackup: "step gen d (snd (createSystemBackup gen now u tgt path d))"
| completeSystemBackup: "step gen d (after (completeSystemBackup now i n cs d) d)"
| failSystemBackup: "step gen d (after (failSystemBackup now i err d) d)"
| importSystemBackup: "step gen d (after (importSystemBackup now i u path n cs j d) d)"
| createSystemBackupImport: "step gen d (snd (createSystemBackupImport gen now u path d))"
| updateSystemBackupImport: "step gen d (after (updateSystemBackupImport now i st n cs b err d) d)"
| claimSystemBackupImport: "step gen d (snd (claimSystemBackupImport now i u d))"
| finishSystemBackupImport: "st \<in> {ImImported, ImRejected} \<Longrightarrow> step gen d (snd (finishSystemBackupImport now i n st b err d))"
| rejectStaleSystemBackupImports: "step gen d (snd (rejectStaleSystemBackupImports now t d))"
| recordSystemBackupTransferEvent: "step gen d (recordSystemBackupTransferEvent u op b r j m d)"
| createSystemRecoveryRequest: "step gen d (snd (createSystemRecoveryRequest gen now r u tok d))"
| finishSystemRecoveryRequest: "step gen d (snd (finishSystemRecoveryRequest now i tok st err d))"
| createSystemRestore: "step gen d (snd (createSystemRestore gen now b u st err d))"
| updateSystemRestore: "step gen d (after (updateSystemRestore now i st err d) d)"
| setAgentNotificationPreference: "step gen d (snd (setAgentNotificationPreference lim now dn i b u d))"
| setServiceNotificationPreference: "step gen d (snd (setServiceNotificationPreference lim now dn i p s b u d))"

inductive reachable :: "(nat \<Rightarrow> uuid) \<Rightarrow> db \<Rightarrow> bool" for gen where
  start: "reachable gen empty_db"
| more: "reachable gen d \<Longrightarrow> step gen d e \<Longrightarrow> reachable gen e"

end
