(* ===== verification/Gw_Steps.thy ===== *)
theory Gw_Steps
  imports Gw_Store
begin

text \<open>
  The invariants of the components through the life of a command: claiming, completing and
  failing commands, and purging old logs. With the lemmas of the components, which cover their
  own operations, every operation of the store is covered.
\<close>

section \<open>Agents and commands\<close>

lemma agents_ok_claimCommands: "agents_ok gen d \<Longrightarrow> agents_ok gen (snd (claimCommands now a n d))"
  by (erule agents_ok_update [where P = "\<lambda>r. ag_id r = a \<and> ag_enabled r" and f = "\<lambda>r. r\<lparr>ag_last_command_poll_at := Some now\<rparr>"])
    (simp_all add: claimCommands_def Let_def frame_simps agent_sane_def)

lemma agents_ok_completeCommand:
  assumes ok: "agents_ok gen d" shows "agents_ok gen (snd (completeCommand gen now a i s res d))"
proof -
  have "agents_ok gen (completed_db gen now a i s res c d)" for c
    by (rule agents_ok_update [OF ok completed_db_agents completed_db_draws])
      (simp_all add: completed_agent_def agent_sane_def)
  with ok show ?thesis by (simp add: completeCommand_cases split: option.split)
qed

lemma queue_ok_claimCommands:
  assumes ok: "queue_ok gen d" shows "queue_ok gen (snd (claimCommands now a n d))"
  by (rule queue_ok_update [OF ok, where P = "claims now a n d" and f = "claimed_command now"])
    (simp_all add: claimCommands_eq frame_simps claimed_command_def pending_sync_def polled_def)

lemma closed_not_pending: "s = CmdSucceeded \<or> s = CmdFailed \<Longrightarrow> \<not> pending_sync (close_command now s r c)"
  by (auto simp: pending_sync_def close_command_def)

lemma queue_ok_completeCommand:
  assumes ok: "queue_ok gen d" and s: "s = CmdSucceeded \<or> s = CmdFailed"
  shows "queue_ok gen (snd (completeCommand gen now a i s res d))"
proof -
  have "queue_ok gen (completed_db gen now a i s res c d)" for c
    by (rule queue_ok_update [OF ok completed_db_rows(1) completed_db_draws])
      (use closed_not_pending [OF s] in \<open>simp_all add: close_command_def\<close>)
  with ok show ?thesis by (simp add: completeCommand_cases split: option.split)
qed

lemma queue_ok_failStaleCommands:
  assumes ok: "queue_ok gen d" shows "queue_ok gen (snd (failStaleCommands gen now t d))"
  by (rule queue_ok_update [OF ok fail_commands [unfolded stale_db_def, simplified]])
    (use closed_not_pending in \<open>auto simp: frame_simps close_command_def\<close>)

lemma queue_ok_purge:
  assumes ok: "queue_ok gen d" shows "queue_ok gen (snd (purgeRuntimeLogResults now t d))"
proof -
  obtain P where "commands (snd (purgeRuntimeLogResults now t d)) =
      update_rows P (\<lambda>c. c\<lparr>cmd_result := Some (without_key ''logs'' (coalesce (cmd_result c) []))\<rparr>) (commands d)"
    using purge_commands by blast
  from queue_ok_update [OF ok this] show ?thesis
    by (simp add: frame_simps pending_sync_def sync_slot_def sync_target_def cong: option.case_cong)
qed

section \<open>Operations on stacks and at run time\<close>

lemma stack_ops_ok_frame:
  "stack_ops_ok d \<Longrightarrow> backups e = backups d \<Longrightarrow> restores e = restores d \<Longrightarrow> stack_ops_ok e"
  by (simp add: stack_ops_ok_def)

lemma stack_ops_ok_start: "stack_ops_ok d \<Longrightarrow> stack_ops_ok (start_operation now a c d)"
  by (erule stack_ops_ok_update [OF _ start_operation_rows(1,2)])
    (auto simp: start_backup_def start_restore_def live_op_def)

lemma stack_ops_ok_claimCommands:
  assumes ok: "stack_ops_ok d" shows "stack_ops_ok (snd (claimCommands now a n d))"
  unfolding claimCommands_eq snd_conv
  by (rule fold_invariant [where I = stack_ops_ok], rule stack_ops_ok_frame [OF ok])
    (simp_all add: polled_def stack_ops_ok_start)

lemma stack_ops_ok_completeCommand:
  assumes ok: "stack_ops_ok d" and s: "s = CmdSucceeded \<or> s = CmdFailed"
  shows "stack_ops_ok (snd (completeCommand gen now a i s res d))"
proof -
  have "stack_ops_ok (completed_db gen now a i s res c d)" for c
    by (rule stack_ops_ok_update [OF ok completed_db_rows(2,3)])
      (use s in \<open>auto simp: completed_backup_def completed_restore_def op_status_of_def live_op_def\<close>)
  with ok show ?thesis by (simp add: completeCommand_cases split: option.split)
qed

lemma stack_ops_ok_fail: "stack_ops_ok d \<Longrightarrow> stack_ops_ok (fail_operation gen now c d)"
  by (erule stack_ops_ok_update [OF _ fail_operation_rows(1,2)])
    (auto simp: stale_backup_def stale_restore_def live_op_def)

lemma stack_ops_ok_failStaleCommands:
  assumes ok: "stack_ops_ok d" shows "stack_ops_ok (snd (failStaleCommands gen now t d))"
  unfolding failStaleCommands_eq snd_conv
  by (rule fold_invariant [where I = stack_ops_ok], rule stack_ops_ok_frame [OF ok])
    (simp_all add: stale_db_def stack_ops_ok_fail)

lemma runtime_ops_ok_frame: "runtime_ops_ok d \<Longrightarrow> runtime_ops e = runtime_ops d \<Longrightarrow> runtime_ops_ok e"
  by (simp add: runtime_ops_ok_def)

lemma runtime_ops_ok_start: "runtime_ops_ok d \<Longrightarrow> runtime_ops_ok (start_operation now a c d)"
  by (erule runtime_ops_ok_update [OF _ start_operation_rows(3)])
    (auto simp: start_runtime_op_def runtime_target_def live_op_def)

lemma runtime_ops_ok_claimCommands:
  assumes ok: "runtime_ops_ok d" shows "runtime_ops_ok (snd (claimCommands now a n d))"
  unfolding claimCommands_eq snd_conv
  by (rule fold_invariant [where I = runtime_ops_ok], rule runtime_ops_ok_frame [OF ok])
    (simp_all add: polled_def runtime_ops_ok_start)

lemma runtime_ops_ok_completeCommand:
  assumes ok: "runtime_ops_ok d" and s: "s = CmdSucceeded \<or> s = CmdFailed"
  shows "runtime_ops_ok (snd (completeCommand gen now a i s res d))"
proof -
  have "runtime_ops_ok (completed_db gen now a i s res c d)" for c
    by (rule runtime_ops_ok_update [OF ok completed_db_rows(4)])
      (auto simp: completed_runtime_op_def runtime_target_def)
  with ok show ?thesis by (simp add: completeCommand_cases split: option.split)
qed

lemma runtime_ops_ok_fail: "runtime_ops_ok d \<Longrightarrow> runtime_ops_ok (fail_operation gen now c d)"
  by (erule runtime_ops_ok_update [OF _ fail_operation_rows(3)])
    (auto simp: stale_runtime_op_def runtime_target_def live_op_def)

lemma runtime_ops_ok_failStaleCommands:
  assumes ok: "runtime_ops_ok d" shows "runtime_ops_ok (snd (failStaleCommands gen now t d))"
  unfolding failStaleCommands_eq snd_conv
  by (rule fold_invariant [where I = runtime_ops_ok], rule runtime_ops_ok_frame [OF ok])
    (simp_all add: stale_db_def runtime_ops_ok_fail)

section \<open>Deployments\<close>

lemma revision_rows_ok_frame:
  "revision_rows_ok gen d \<Longrightarrow> revisions e = revisions d \<Longrightarrow> draws d \<le> draws e \<Longrightarrow> revision_rows_ok gen e"
  using drawn_mono [of "draws d" "draws e" gen] by (auto simp: revision_rows_ok_def)

lemma deployment_rows_ok_frame:
  "deployment_rows_ok gen d \<Longrightarrow> deployments e = deployments d \<Longrightarrow> revisions e = revisions d \<Longrightarrow> draws d \<le> draws e \<Longrightarrow>
    deployment_rows_ok gen e"
  by (erule deployment_rows_ok_update [where P = "\<lambda>_. False" and f = id]) (simp_all add: update_rows_none)

lemma deploy_ok_start:
  assumes ok: "deploy_ok gen d" shows "deploy_ok gen (start_operation now a c d)"
proof -
  have "run_rows_ok (start_operation now a c d)"
    by (rule run_rows_ok_update [OF _ start_operation_rows(5)])
      (use ok in \<open>auto simp: deploy_ok_def start_run_def live_op_def frame_simps\<close>)
  moreover have "deployment_rows_ok gen (start_operation now a c d)" "revision_rows_ok gen (start_operation now a c d)"
    by (rule deployment_rows_ok_frame [of gen d], use ok in \<open>simp_all add: deploy_ok_def frame_simps\<close>)
      (rule revision_rows_ok_frame [of gen d], use ok in \<open>simp_all add: deploy_ok_def frame_simps\<close>)
  ultimately show ?thesis by (simp add: deploy_ok_def)
qed

lemma deploy_ok_claimCommands:
  assumes ok: "deploy_ok gen d" shows "deploy_ok gen (snd (claimCommands now a n d))"
  unfolding claimCommands_eq snd_conv
  by (rule fold_invariant [where I = "deploy_ok gen"], rule deploy_ok_frame [OF ok])
    (simp_all add: polled_def deploy_ok_start)

lemma run_under_owns:
  assumes "run_rows_ok d" "run_under a c d = Some r"
  shows "owns_revision d (run_deployment_id r) (run_revision_id r)"
  using assms by (auto simp: run_under_def run_rows_ok_def split: if_splits dest: find_someD)

lemma deploy_ok_completed:
  assumes ok: "deploy_ok gen d" and s: "s = CmdSucceeded \<or> s = CmdFailed"
  shows "deploy_ok gen (completed_db gen now a i s res c d)"
proof -
  let ?e = "completed_db gen now a i s res c d"
  have "run_rows_ok ?e"
    by (rule run_rows_ok_update [OF _ completed_db_rows(6)])
      (use ok in \<open>simp_all add: deploy_ok_def completed_run_def completed_db_frame\<close>)
  moreover have "revision_rows_ok gen ?e"
    by (rule revision_rows_ok_frame [of gen d]) (use ok in \<open>simp_all add: deploy_ok_def frame_simps completed_db_draws\<close>)
  moreover have "deployment_rows_ok gen ?e"
  proof (cases "run_under a c d")
    case None
    then show ?thesis
      using ok by - (rule deployment_rows_ok_frame [of gen d], simp_all add: deploy_ok_def frame_simps completed_db_draws completed_db_deployments)
  next
    case (Some r)
    have "owns_revision d (run_deployment_id r) (run_revision_id r)"
      using ok Some by (intro run_under_owns) (simp_all add: deploy_ok_def)
    with Some show ?thesis
      by - (rule deployment_rows_ok_update [of gen d ?e "\<lambda>t. dpl_id t = run_deployment_id r \<and> dpl_agent_id t = a"
          "completed_deployment now s r"],
        use ok in \<open>auto simp: deploy_ok_def frame_simps completed_db_draws completed_db_deployments completed_deployment_def
          split: if_splits\<close>)
  qed
  ultimately show ?thesis by (simp add: deploy_ok_def)
qed

lemma deploy_ok_completeCommand:
  assumes ok: "deploy_ok gen d" and s: "s = CmdSucceeded \<or> s = CmdFailed"
  shows "deploy_ok gen (snd (completeCommand gen now a i s res d))"
  using ok deploy_ok_completed [OF ok s] by (simp add: completeCommand_cases split: option.split)

lemma deploy_ok_fail:
  assumes ok: "deploy_ok gen d" shows "deploy_ok gen (fail_operation gen now c d)"
proof -
  let ?e = "fail_operation gen now c d"
  have "run_rows_ok ?e"
    by (rule run_rows_ok_update [OF _ fail_operation_rows(5)])
      (use ok in \<open>simp_all add: deploy_ok_def stale_run_def fail_operation_frame\<close>)
  moreover have "revision_rows_ok gen ?e"
    by (rule revision_rows_ok_frame [of gen d]) (use ok in \<open>simp_all add: deploy_ok_def frame_simps fail_operation_draws\<close>)
  moreover have "deployment_rows_ok gen ?e"
  proof (cases "run_of_command c d")
    case None
    then show ?thesis
      using ok by - (rule deployment_rows_ok_frame [of gen d], simp_all add: deploy_ok_def frame_simps fail_operation_draws fail_operation_deployments)
  next
    case (Some r)
    with ok show ?thesis
      by (intro deployment_rows_ok_update [of gen d ?e "\<lambda>t. dpl_id t = run_deployment_id r" "failed_deployment now"])
        (auto simp: deploy_ok_def frame_simps fail_operation_draws fail_operation_deployments failed_deployment_def)
  qed
  ultimately show ?thesis by (simp add: deploy_ok_def)
qed

lemma deploy_ok_failStaleCommands:
  assumes ok: "deploy_ok gen d" shows "deploy_ok gen (snd (failStaleCommands gen now t d))"
  unfolding failStaleCommands_eq snd_conv
  by (rule fold_invariant [where I = "deploy_ok gen"], rule deploy_ok_frame [OF ok])
    (simp_all add: stale_db_def deploy_ok_fail)

end
