(* ===== verification/Gw_Reach.thy ===== *)
theory Gw_Reach
  imports Gw_Steps
begin

text \<open>
  The invariant of the whole store: the invariants of its components together, which every
  operation preserves and every reachable state has.
\<close>

section \<open>Connectors and the queue\<close>

lemma queue_ok_createConnector:
  assumes gen: "inj gen" and ok: "queue_ok gen d"
  shows "queue_ok gen (after (createConnector gen now n tok b a aid ident tun st err d) d)"
proof (rule after_cases [where Q = "queue_ok gen", OF ok])
  fix x e
  assume "createConnector gen now n tok b a aid ident tun st err d = Inr (x, e)"
  then show "queue_ok gen e"
  proof (cases rule: createConnector_cases)
    case (created row)
    have "queue_ok gen (d\<lparr>draws := Suc (draws d), connectors := connectors d @ [row]\<rparr>)"
      by (rule queue_ok_frame [OF ok]) simp_all
    with queueConnectorSync_ok [OF gen this] show ?thesis by (simp add: created(9) Let_def)
  qed (simp add: ok)
qed

lemma queue_ok_updateConnector:
  assumes gen: "inj gen" and ok: "queue_ok gen d"
  shows "queue_ok gen (after (updateConnector gen now i v d) d)"
proof (rule after_cases [where Q = "queue_ok gen", OF ok])
  fix x e
  assume "updateConnector gen now i v d = Inr (x, e)"
  then show "queue_ok gen e"
  proof (cases rule: updateConnector_cases)
    case (updated r e')
    let ?d = "queue_removal gen now v r d"
    have "queue_ok gen ?d"
      using insert_command_ok [OF gen ok insert_command_no_sync] ok
      by (simp add: queue_removal_def sync_key_def)
    then have "queue_ok gen e'"
      by (rule queue_ok_frame) (simp_all add: write_connector_Inr(1) [OF updated(6)])
    with queueConnectorSync_ok [OF gen] show ?thesis unfolding updated(8) by blast
  qed (simp add: ok)
qed

section \<open>Commands that arrive with an operation\<close>

text \<open>One new command, which is no synchronisation or does not clash with a pending one.\<close>

lemma queue_ok_insert:
  assumes gen: "inj gen" and ok: "queue_ok gen d"
    and cmds: "commands e = commands d @ [new_command (gen n) now a t p]" and n: "draws d \<le> n" "n < draws e"
    and free: "\<not> command_conflict a t p d"
  shows "queue_ok gen e"
proof -
  let ?d = "d\<lparr>draws := n\<rparr>"
  have "queue_ok gen ?d" by (rule queue_ok_frame [OF ok]) (simp_all add: n)
  moreover have "\<not> command_conflict a t p ?d" using free by (simp add: command_conflict_def)
  ultimately have "queue_ok gen (snd (insert_command gen now a t p ?d))" by (rule insert_command_ok [OF gen])
  then show ?thesis by (rule queue_ok_frame) (use n in \<open>simp_all add: insert_command_eq cmds\<close>)
qed

lemma operations_are_no_sync:
  "t \<in> {''stack.backup.create'', ''stack.restore.apply'', ''deployment.compose.apply'', ''compose.runtime.action'',
    ''compose.runtime.logs''} \<Longrightarrow> \<not> command_conflict a t p d"
  by (rule insert_command_no_sync) (auto simp: sync_key_def)

lemma queue_ok_createBackup:
  assumes gen: "inj gen" and ok: "queue_ok gen d"
  shows "queue_ok gen (snd (createBackup gen now i u t d))"
proof (cases rule: createBackup_cases [of gen now i u t d])
  case (accepted row)
  show ?thesis
    by (rule queue_ok_insert [OF gen ok, of _ "Suc (draws d)"], simp add: accepted(10))
      (simp_all add: accepted(10) operations_are_no_sync)
qed (simp add: ok)

lemma queue_ok_createRestore:
  assumes gen: "inj gen" and ok: "queue_ok gen d"
  shows "queue_ok gen (snd (createRestore gen now b u d))"
proof (cases rule: createRestore_cases [of gen now b u d])
  case (accepted row)
  show ?thesis
    by (rule queue_ok_insert [OF gen ok, of _ "Suc (draws d)"], simp add: accepted(10))
      (simp_all add: accepted(10) operations_are_no_sync)
qed (simp add: ok)

lemma queue_ok_createDeploymentRun:
  assumes gen: "inj gen" and ok: "queue_ok gen d"
  shows "queue_ok gen (snd (createDeploymentRun gen now i v a u d))"
proof (cases rule: createDeploymentRun_cases [of gen now i v a u d])
  case (accepted t row)
  show ?thesis
    by (rule queue_ok_insert [OF gen ok, of _ "Suc (draws d)"], simp add: accepted(13))
      (simp_all add: accepted(13) operations_are_no_sync)
qed (simp add: ok)

lemma queue_ok_createRuntimeOperation:
  assumes gen: "inj gen" and ok: "queue_ok gen d"
  shows "queue_ok gen (after (createRuntimeOperation gen now u a act sc p s d) d)"
proof (rule after_cases [where Q = "queue_ok gen", OF ok])
  fix x e
  assume "createRuntimeOperation gen now u a act sc p s d = Inr (x, e)"
  then show "queue_ok gen e"
  proof (cases rule: createRuntimeOperation_cases)
    case (accepted row)
    show ?thesis
      by (rule queue_ok_insert [OF gen ok, of _ "Suc (draws d)"], simp add: accepted(10))
      (simp_all add: accepted(10) operations_are_no_sync)
  qed (simp add: ok)
qed

lemma queue_ok_createRuntimeLogRequest:
  assumes gen: "inj gen" and ok: "queue_ok gen d"
  shows "queue_ok gen (after (createRuntimeLogRequest gen now u a p s n since d) d)"
proof (rule after_cases [where Q = "queue_ok gen", OF ok])
  fix x e
  assume "createRuntimeLogRequest gen now u a p s n since d = Inr (x, e)"
  then show "queue_ok gen e"
  proof (cases rule: createRuntimeLogRequest_cases)
    case (accepted row)
    show ?thesis
      by (rule queue_ok_insert [OF gen ok, of _ "Suc (draws d)"], simp add: accepted(12))
      (simp_all add: accepted(12) operations_are_no_sync)
  qed (simp add: ok)
qed

text \<open>The operations on stacks and routes queue a synchronisation for a row they have just written.\<close>

lemma queue_ok_tables:
  assumes "queue_ok gen d" shows "queue_ok gen (d\<lparr>draws := Suc (draws d), stacks := t\<rparr>)" "queue_ok gen (d\<lparr>stacks := t\<rparr>)"
    "queue_ok gen (d\<lparr>draws := Suc (draws d), routes := u\<rparr>)" "queue_ok gen (d\<lparr>routes := u\<rparr>)"
  by (rule queue_ok_frame [OF assms]; simp)+

lemma queue_ok_stacks_routes:
  assumes gen: "inj gen" and ok: "queue_ok gen d"
  shows "queue_ok gen (after (createStack gen now i nm p y b cfg d) d)"
    "queue_ok gen (after (createRoute gen now i nm hn ex bs b d) d)"
  using queue_ok_tables [OF ok, THEN queueInternalSync_ok [OF gen]] ok
  by (auto simp: after_def createStack_def createRoute_def draw_def Let_def simp del: exists_row_iff
      split: sum.split option.split prod.split if_splits)

lemma queue_ok_updateStack:
  assumes gen: "inj gen" and ok: "queue_ok gen d"
  shows "queue_ok gen (after (updateStack gen now i nm y b cfg d) d)"
proof (rule after_cases [where Q = "queue_ok gen", OF ok])
  fix x e
  assume run: "updateStack gen now i nm y b cfg d = Inr (x, e)"
  show "queue_ok gen e"
  proof (cases "find (\<lambda>s. stk_id s = i \<and> agent_enabled (stk_agent_id s) d) (stacks d)")
    case (Some s)
    with run obtain t a where "e = queueInternalSync gen now a ''compose.stack.sync'' ''stackId'' i (d\<lparr>stacks := t\<rparr>)"
      by (auto simp: updateStack_def Let_def simp del: exists_row_iff split: if_splits)
    then show ?thesis using queueInternalSync_ok [OF gen queue_ok_tables(2) [OF ok]] by simp
  qed (use run ok in \<open>simp add: updateStack_def\<close>)
qed

lemma queue_ok_updateRoute:
  assumes gen: "inj gen" and ok: "queue_ok gen d"
  shows "queue_ok gen (after (updateRoute gen now i aid nm hn ex bs b d) d)"
proof (rule after_cases [where Q = "queue_ok gen", OF ok])
  fix x e
  assume run: "updateRoute gen now i aid nm hn ex bs b d = Inr (x, e)"
  show "queue_ok gen e"
  proof (cases "find (\<lambda>r. rte_id r = i) (routes d)")
    case (Some r)
    with run have "e = d \<or> (\<exists>t a. e = queueInternalSync gen now a ''traefik.route.sync'' ''routeId'' i (d\<lparr>routes := t\<rparr>))"
      by (auto simp: updateRoute_def Let_def simp del: exists_row_iff split: if_splits)
    then show ?thesis using queueInternalSync_ok [OF gen queue_ok_tables(4) [OF ok]] ok by auto
  qed (use run ok in \<open>simp add: updateRoute_def\<close>)
qed

lemma queue_ok_queueStackAction:
  assumes gen: "inj gen" and ok: "queue_ok gen d"
  shows "queue_ok gen (snd (queueStackAction gen now i t d))"
proof (cases "find (\<lambda>s. stk_id s = i \<and> stk_enabled s \<and> agent_enabled (stk_agent_id s) d) (stacks d)")
  case (Some s)
  let ?p = "[(''composePath'', JStr (stk_id s @ ''/compose.yaml'')), (''stack'', JStr (stk_name s)),
    (''project'', JStr (stk_project_name s))]"
  have "\<not> command_conflict (stk_agent_id s) t ?p d"
    by (simp add: command_conflict_def Let_def sync_key_def jprop_def json_text_def)
  from insert_command_ok [OF gen ok this] Some show ?thesis
    by (simp add: queueStackAction_def Let_def case_prod_beta)
qed (simp add: queueStackAction_def ok)

lemma queue_ok_queueLogRequest:
  assumes gen: "inj gen" and ok: "queue_ok gen d"
  shows "queue_ok gen (snd (queueLogRequest gen now i u svc n since d))"
proof (cases "find (\<lambda>s. stk_id s = i \<and> stk_enabled s \<and> agent_enabled (stk_agent_id s) d) (stacks d)")
  case (Some s)
  have "\<not> command_conflict (stk_agent_id s) ''service.logs.read'' p d" for p
    by (rule insert_command_no_sync) (simp add: sync_key_def)
  from insert_command_ok [OF gen ok this] Some show ?thesis
    by (simp add: queueLogRequest_def Let_def case_prod_beta)
qed (simp add: queueLogRequest_def ok)

section \<open>Links\<close>

lemma stack_project_iff: "stack_project i d \<noteq> None \<longleftrightarrow> i \<in> stk_id ` set (stacks d)"
  by (auto simp: stack_project_def find_None_iff)

lemma links_ok_grow:
  assumes "links_ok d" "backups e = backups d" "restores e = restores d" "runtime_ops e = runtime_ops d"
    "log_requests e = log_requests d" "runs e = runs d" "set (commands d) \<subseteq> set (commands e)"
    "stk_id ` set (stacks d) \<subseteq> stk_id ` set (stacks e)"
  shows "links_ok e"
proof (rule links_ok_frame [OF assms(1)])
  show "stacks_known e"
    using assms(1,8) unfolding links_ok_def stacks_known_def stack_project_iff assms(2,3) by blast
  show "live_links e \<subseteq> live_links d" using live_links_cong [OF assms(2-6)] by simp
qed (rule assms(7))

lemma links_ok_same:
  "links_ok d \<Longrightarrow> backups e = backups d \<Longrightarrow> restores e = restores d \<Longrightarrow> runtime_ops e = runtime_ops d \<Longrightarrow>
    log_requests e = log_requests d \<Longrightarrow> runs e = runs d \<Longrightarrow> commands e = commands d \<Longrightarrow> stacks e = stacks d \<Longrightarrow> links_ok e"
  by (rule links_ok_grow [of d]) simp_all

text \<open>What only adds commands keeps the links.\<close>

lemma insert_command_grows: "set (commands d) \<subseteq> set (commands (snd (insert_command gen now a t p d)))"
  by (auto simp: insert_command_eq)

lemma queueInternalSync_grows: "set (commands d) \<subseteq> set (commands (queueInternalSync gen now a t k i d))"
  by (auto simp: queueInternalSync_def insert_command_eq)

lemma links_ok_createCommand:
  assumes ok: "links_ok d" shows "links_ok (after (createCommand gen now a t p d) d)"
  by (rule links_ok_grow [OF ok])
    (auto simp: frame_simps after_def createCommand_def insert_command_eq split: sum.split if_splits)

lemma links_ok_stacks_routes:
  assumes ok: "links_ok d"
  shows "links_ok (after (createStack gen now i nm p y b cfg d) d)"
    "links_ok (after (createRoute gen now i nm hn ex bs b d) d)"
    "links_ok (after (updateRoute gen now i aid nm' hn' ex' bs' b' d) d)"
  by (rule links_ok_grow [OF ok];
      auto simp: frame_simps after_def createStack_def createRoute_def updateRoute_def draw_def Let_def
        queueInternalSync_def insert_command_eq simp del: exists_row_iff split: sum.split option.split if_splits)+

lemma links_ok_updateStack:
  assumes ok: "links_ok d" shows "links_ok (after (updateStack gen now i nm y b cfg d) d)"
proof (rule after_cases [where Q = links_ok, OF ok])
  fix x e
  assume run: "updateStack gen now i nm y b cfg d = Inr (x, e)"
  show "links_ok e"
  proof (cases "find (\<lambda>s. stk_id s = i \<and> agent_enabled (stk_agent_id s) d) (stacks d)")
    case (Some s)
    with run obtain a where e: "e = queueInternalSync gen now a ''compose.stack.sync'' ''stackId'' i
        (d\<lparr>stacks := update_rows (\<lambda>r. stk_id r = i) (updated_stack now nm y b cfg) (stacks d)\<rparr>)"
      by (auto simp: updateStack_def Let_def simp del: exists_row_iff split: if_splits)
    show ?thesis
      by (rule links_ok_grow [OF ok])
        (auto simp: e queueInternalSync_def insert_command_eq updated_stack_def image_update_rows split: if_splits)
  qed (use run ok in \<open>simp add: updateStack_def\<close>)
qed

lemma links_ok_queueStackAction:
  assumes ok: "links_ok d" shows "links_ok (snd (queueStackAction gen now i t d))"
  by (rule links_ok_grow [OF ok])
    (auto simp: queueStackAction_def insert_command_eq Let_def split: option.split)

lemma links_ok_queueLogRequest:
  assumes ok: "links_ok d" shows "links_ok (snd (queueLogRequest gen now i u svc n since d))"
  by (rule links_ok_grow [OF ok])
    (auto simp: queueLogRequest_def insert_command_eq Let_def split: option.split)

text \<open>A synchronisation that is queued again carries no operation, so rewriting its payload breaks no link.\<close>

lemma links_ok_queueConnectorSync:
  assumes ok: "links_ok d" shows "links_ok (queueConnectorSync gen now a i rv stopping d)"
proof -
  let ?P = "\<lambda>c. cmd_agent_id c = a \<and> cmd_type c = ''cloudflare.connector.sync'' \<and> cmd_status c = CmdPending
     \<and> json_text (jprop (cmd_payload c) ''connectorId'') = Some i"
  let ?f = "\<lambda>c. c\<lparr>cmd_payload := connector_payload i rv, cmd_created_at := now\<rparr>"
  let ?d = "d\<lparr>connectors := update_rows (\<lambda>r. con_id r = i)
     (\<lambda>r. r\<lparr>con_deployment_status := (if stopping then KStopping else KPending), con_last_error := None,
            con_updated_at := now\<rparr>) (connectors d)\<rparr>"
  let ?e = "?d\<lparr>commands := update_rows ?P ?f (commands ?d)\<rparr>"
  have same: "live_links ?e = live_links d" by (rule live_links_cong) simp_all
  have "links_ok ?e"
  proof (rule links_ok_commands [OF ok, where P = ?P and f = ?f])
    show "stacks_known ?e" using ok by (simp add: links_ok_def stacks_known_def stack_project_def)
    fix c l
    assume l: "l \<in> live_links ?e" and c: "?P c" "carries c l"
    from l have "l \<in> live_links d" unfolding same .
    with link_operation_type [of l d] carries_type [OF c(2)] c(1) show "carries (?f c) l"
      by (simp add: operation_type_def)
  qed (unfold same, simp_all)
  moreover have "links_ok (snd (insert_command gen now a ''cloudflare.connector.sync'' (connector_payload i rv) ?d))"
    by (rule links_ok_grow [OF ok]) (auto simp: insert_command_eq)
  ultimately show ?thesis
    by (simp add: queueConnectorSync_def Let_def del: exists_row_iff split del: if_split) simp
qed

lemma links_ok_createConnector:
  assumes ok: "links_ok d"
  shows "links_ok (after (createConnector gen now n tok b a aid ident tun st err d) d)"
proof (rule after_cases [where Q = links_ok, OF ok])
  fix x e
  assume "createConnector gen now n tok b a aid ident tun st err d = Inr (x, e)"
  then show "links_ok e"
  proof (cases rule: createConnector_cases)
    case (created row)
    have "links_ok (d\<lparr>draws := Suc (draws d), connectors := connectors d @ [row]\<rparr>)"
      by (rule links_ok_same [OF ok]) simp_all
    with links_ok_queueConnectorSync [OF this] show ?thesis by (simp add: created(9) Let_def)
  qed (simp add: ok)
qed

lemma links_ok_updateConnector:
  assumes ok: "links_ok d" shows "links_ok (after (updateConnector gen now i v d) d)"
proof (rule after_cases [where Q = links_ok, OF ok])
  fix x e
  assume "updateConnector gen now i v d = Inr (x, e)"
  then show "links_ok e"
  proof (cases rule: updateConnector_cases)
    case (updated r e')
    have "links_ok (queue_removal gen now v r d)"
      by (rule links_ok_grow [OF ok]) (auto simp: queue_removal_def insert_command_eq)
    then have "links_ok e'"
      by (rule links_ok_same) (simp_all add: write_connector_Inr(1) [OF updated(6)])
    then show ?thesis unfolding updated(8) by (rule links_ok_queueConnectorSync)
  qed (simp add: ok)
qed

text \<open>A new operation brings its link and its command.\<close>

lemma links_ok_createBackup:
  assumes ok: "links_ok d" shows "links_ok (snd (createBackup gen now i u t d))"
proof (cases rule: createBackup_cases [of gen now i u t d])
  case (accepted row)
  let ?e = "snd (createBackup gen now i u t d)"
  have "bkp_stack_id row \<in> stk_id ` set (stacks d)" using accepted(2,8) by force
  with ok have "stacks_known ?e"
    unfolding links_ok_def stacks_known_def stack_project_iff accepted(10) by simp
  then show ?thesis
    by (rule links_ok_new [OF ok, where k = "''backupId''" and i = "gen (draws d)" and ci = "gen (Suc (draws d))"
        and a = "bkp_agent_id row" and t = "''stack.backup.create''" and now = now])
      (simp_all add: accepted(10) live_links_def link_defs accepted(3,5-7) live_op_def, blast?)
qed (simp add: ok)

lemma links_ok_createRestore:
  assumes ok: "links_ok d" shows "links_ok (snd (createRestore gen now b u d))"
proof (cases rule: createRestore_cases [of gen now b u d])
  case (accepted row)
  let ?e = "snd (createRestore gen now b u d)"
  have "rst_stack_id row \<in> stk_id ` set (stacks d)" using accepted(8) by force
  with ok have "stacks_known ?e"
    unfolding links_ok_def stacks_known_def stack_project_iff accepted(10) by simp
  then show ?thesis
    by (rule links_ok_new [OF ok, where k = "''restoreId''" and i = "gen (draws d)" and ci = "gen (Suc (draws d))"
        and a = "rst_agent_id row" and t = "''stack.restore.apply''" and now = now])
      (simp_all add: accepted(10) live_links_def link_defs accepted(2,5-7) live_op_def, blast?)
qed (simp add: ok)

lemma links_ok_createDeploymentRun:
  assumes ok: "links_ok d" shows "links_ok (snd (createDeploymentRun gen now i v a u d))"
proof (cases rule: createDeploymentRun_cases [of gen now i v a u d])
  case (accepted t row)
  have "stacks_known (snd (createDeploymentRun gen now i v a u d))"
    using ok by (simp add: accepted(13) links_ok_def stacks_known_def stack_project_def)
  then show ?thesis
    by (rule links_ok_new [OF ok, where k = "''runId''" and i = "gen (draws d)" and ci = "gen (Suc (draws d))"
        and a = "dpl_agent_id t" and t = "''deployment.compose.apply''" and now = now])
      (simp_all add: accepted(13) live_links_def link_defs accepted(6,8-11) live_op_def, blast?)
qed (simp add: ok)

lemma links_ok_createRuntimeOperation:
  assumes ok: "links_ok d" shows "links_ok (after (createRuntimeOperation gen now u a act sc p s d) d)"
proof (rule after_cases [where Q = links_ok, OF ok])
  fix x e
  assume "createRuntimeOperation gen now u a act sc p s d = Inr (x, e)"
  then show "links_ok e"
  proof (cases rule: createRuntimeOperation_cases)
    case (accepted row)
    have "stacks_known e" using ok by (simp add: accepted(10) links_ok_def stacks_known_def stack_project_def)
    then show ?thesis
      by (rule links_ok_new [OF ok, where k = "''operationId''" and i = "gen (draws d)" and ci = "gen (Suc (draws d))"
          and a = a and t = "''compose.runtime.action''" and now = now])
        (simp_all add: accepted(10) live_links_def link_defs accepted(4-8) live_op_def, blast?)
  qed (simp add: ok)
qed

lemma links_ok_createRuntimeLogRequest:
  assumes ok: "links_ok d" shows "links_ok (after (createRuntimeLogRequest gen now u a p s n since d) d)"
proof (rule after_cases [where Q = links_ok, OF ok])
  fix x e
  assume "createRuntimeLogRequest gen now u a p s n since d = Inr (x, e)"
  then show "links_ok e"
  proof (cases rule: createRuntimeLogRequest_cases)
    case (accepted row)
    have "stacks_known e" using ok by (simp add: accepted(12) links_ok_def stacks_known_def stack_project_def)
    then show ?thesis
      by (rule links_ok_new [OF ok, where k = "''requestId''" and i = "gen (draws d)" and ci = "gen (Suc (draws d))"
          and a = a and t = "''compose.runtime.logs''" and now = now])
        (simp_all add: accepted(12) live_links_def link_defs accepted(4-8) live_op_def, blast?)
  qed (simp add: ok)
qed

lemma links_ok_purge:
  assumes ok: "links_ok d" shows "links_ok (snd (purgeRuntimeLogResults now t d))"
proof -
  let ?e = "snd (purgeRuntimeLogResults now t d)"
  obtain P where cmds: "commands ?e = update_rows P (\<lambda>c. c\<lparr>cmd_result := Some (without_key ''logs'' (coalesce (cmd_result c) []))\<rparr>) (commands d)"
    using purge_commands by blast
  have logs: "log_requests ?e = update_rows (expired_logs t) (\<lambda>r. r\<lparr>lrq_result := None, lrq_updated_at := now\<rparr>) (log_requests d)"
    by (simp add: purgeRuntimeLogResults_def Let_def)
  have "log_links ?e = log_links d"
    unfolding log_links_def logs by (rule map_filter_update_same) simp_all
  then have same: "live_links ?e = live_links d"
    by (simp add: live_links_def backup_links_def restore_links_def runtime_links_def run_links_def frame_simps)
  have "stacks_known ?e" using ok by (simp add: links_ok_def stacks_known_def stack_project_def frame_simps)
  then show ?thesis
    by (rule links_ok_commands [OF ok _ _ cmds]) (auto simp: same carries_def live_command_def)
qed

section \<open>One step\<close>

lemma users_ok_frame:
  assumes "users_ok gen d" "users e = users d" "sessions e = sessions d" "draws d \<le> draws e"
  shows "users_ok gen e"
  using assms drawn_mono [of "draws d" "draws e" gen] by (auto simp: users_ok_def)

lemma step_users_ok:
  assumes gen: "inj gen" and ok: "users_ok gen d" and step: "step gen d e"
  shows "users_ok gen e"
  using step
proof cases
  case createUser
  then show ?thesis using createUser_ok [OF gen ok] ok by (auto intro: after_cases)
next
  case createSession
  then show ?thesis using createSession_ok [OF ok] ok by (auto intro: after_unit_cases)
qed (simp_all add: createOwner_ok [OF gen ok] findSessionUser_ok [OF ok] deleteSession_ok [OF ok],
    (rule users_ok_frame [OF ok]; simp add: frame_simps)+)

lemma step_agents_ok:
  assumes gen: "inj gen" and ok: "agents_ok gen d" and step: "step gen d e"
  shows "agents_ok gen e"
  using step
proof cases
  case createAgent
  then show ?thesis using createAgent_ok [OF gen ok] ok by (auto intro: after_cases)
qed (simp_all add: removeAgent_ok [OF ok] enrollAgent_ok [OF ok] heartbeatAgent_ok [OF ok] recordTelemetry_ok [OF ok]
      sweepOfflineAgents_ok [OF ok] agents_ok_claimCommands [OF ok] agents_ok_completeCommand [OF ok],
    (rule agents_ok_frame [OF ok]; simp add: frame_simps)+)

lemma queue_ok_createCommand:
  assumes gen: "inj gen" and ok: "queue_ok gen d"
  shows "queue_ok gen (after (createCommand gen now a t p d) d)"
  using createCommand_ok [OF gen ok] ok by (auto intro: after_cases)

lemmas queue_steps = queue_ok_createCommand queue_ok_stacks_routes queue_ok_updateStack queue_ok_updateRoute
  queue_ok_queueStackAction queue_ok_queueLogRequest queue_ok_createBackup queue_ok_createRestore
  queue_ok_createDeploymentRun queue_ok_createRuntimeOperation queue_ok_createRuntimeLogRequest
  queue_ok_createConnector queue_ok_updateConnector

lemma step_queue_ok:
  assumes gen: "inj gen" and ok: "queue_ok gen d" and step: "step gen d e"
  shows "queue_ok gen e"
  using step
proof cases
  case completeCommand
  then show ?thesis by (simp add: queue_ok_completeCommand [OF ok])
qed (simp_all add: queue_steps [OF gen ok] queue_ok_claimCommands [OF ok] queue_ok_failStaleCommands [OF ok] queue_ok_purge [OF ok],
    (rule queue_ok_frame [OF ok]; simp add: frame_simps)+)

lemma step_stack_ops_ok:
  assumes ok: "stack_ops_ok d" and step: "step gen d e"
  shows "stack_ops_ok e"
  using step
proof cases
  case completeCommand
  then show ?thesis by (simp add: stack_ops_ok_completeCommand [OF ok])
qed (simp_all add: createBackup_ops_ok [OF ok] createRestore_ops_ok [OF ok] stack_ops_ok_claimCommands [OF ok]
      stack_ops_ok_failStaleCommands [OF ok],
    (rule stack_ops_ok_frame [OF ok]; simp add: frame_simps)+)

lemma step_runtime_ops_ok:
  assumes ok: "runtime_ops_ok d" and step: "step gen d e"
  shows "runtime_ops_ok e"
  using step
proof cases
  case createRuntimeOperation
  then show ?thesis using createRuntimeOperation_ok [OF ok] ok by (auto intro: after_cases)
next
  case completeCommand
  then show ?thesis by (simp add: runtime_ops_ok_completeCommand [OF ok])
qed (simp_all add: runtime_ops_ok_claimCommands [OF ok] runtime_ops_ok_failStaleCommands [OF ok],
    (rule runtime_ops_ok_frame [OF ok]; simp add: frame_simps)+)

lemma step_deploy_ok:
  assumes gen: "inj gen" and ok: "deploy_ok gen d" and step: "step gen d e"
  shows "deploy_ok gen e"
  using step
proof cases
  case createDeployment
  then show ?thesis using createDeployment_ok [OF gen ok] ok by (auto intro: after_cases)
next
  case createDeploymentRevision
  then show ?thesis using createDeploymentRevision_ok [OF gen ok] ok by (auto intro: after_cases)
next
  case completeCommand
  then show ?thesis by (simp add: deploy_ok_completeCommand [OF ok])
qed (simp_all add: createDeploymentRun_ok [OF ok] deploy_ok_claimCommands [OF ok] deploy_ok_failStaleCommands [OF ok],
    (rule deploy_ok_frame [OF ok]; simp add: frame_simps)+)

lemma step_recovery_ok:
  assumes gen: "inj gen" and ok: "recovery_ok gen d" and step: "step gen d e"
  shows "recovery_ok gen e"
  using step
proof cases
  case updateSystemBackupImport
  then show ?thesis using updateSystemBackupImport_ok [OF ok] ok by (auto intro: after_cases)
next
  case finishSystemBackupImport
  then show ?thesis by (simp add: finishSystemBackupImport_ok [OF ok])
qed (simp_all add: createSystemBackupImport_ok [OF gen ok] claimSystemBackupImport_ok [OF ok]
      rejectStaleSystemBackupImports_ok [OF ok] createSystemRecoveryRequest_ok [OF ok] finishSystemRecoveryRequest_ok [OF ok],
    (rule recovery_ok_frame [OF ok]; simp add: frame_simps)+)

lemma step_links_ok:
  assumes ok: "links_ok d" and dist: "distinct (map cmd_id (commands d))" and step: "step gen d e"
  shows "links_ok e"
  using step
proof cases
  case (completeCommand st now i j res)
  then show ?thesis by (simp add: complete_ok [OF ok dist])
qed (simp_all add: links_ok_createCommand [OF ok] links_ok_stacks_routes [OF ok] links_ok_updateStack [OF ok]
      links_ok_queueStackAction [OF ok] links_ok_queueLogRequest [OF ok] links_ok_createBackup [OF ok]
      links_ok_createRestore [OF ok] links_ok_createDeploymentRun [OF ok] links_ok_createRuntimeOperation [OF ok]
      links_ok_createRuntimeLogRequest [OF ok] links_ok_createConnector [OF ok] links_ok_updateConnector [OF ok]
      claim_ok [OF ok] fail_ok [OF ok] links_ok_purge [OF ok],
    (rule links_ok_same [OF ok]; simp add: frame_simps)+)

lemma step_scopes_ok:
  assumes ok: "scopes_ok d" and step: "step gen d e"
  shows "scopes_ok e"
proof -
  have frame: "scopes_ok e'" if "scopes e' = scopes d" for e' using ok that by (simp add: scopes_ok_def)
  have prefs: "scopes_ok (snd (setAgentNotificationPreference lim now dn i b u d))"
    "scopes_ok (snd (setServiceNotificationPreference lim now dn i p s b u d))" for lim now dn i b u p s
    using ok upsert_scope_ok [OF ok]
    by (simp_all add: setAgentNotificationPreference_def setServiceNotificationPreference_def Let_def del: exists_row_iff)
  from step show ?thesis
    by cases (simp_all add: prefs, (rule frame; simp add: frame_simps)+)
qed

lemma step_owners_ok:
  assumes ok: "owners_ok d" and dist: "distinct (map cmd_id (commands d))" and ids: "distinct (map ag_id (agents d))"
    and step: "step gen d e"
  shows "owners_ok e"
  using step
proof cases
  case completeCommand
  then show ?thesis by (simp add: owners_ok_completeCommand [OF ok])
qed (simp_all add: owners_ok_removeAgent [OF ok ids] owners_ok_createStack [OF ok] owners_ok_updateStack [OF ok]
      owners_ok_createRoute [OF ok] owners_ok_updateRoute [OF ok] owners_ok_createCommand [OF ok]
      owners_ok_queueStackAction [OF ok] owners_ok_queueLogRequest [OF ok] owners_ok_createBackup [OF ok]
      owners_ok_createRestore [OF ok] owners_ok_createDeployment [OF ok] owners_ok_createDeploymentRun [OF ok]
      owners_ok_createRuntimeOperation [OF ok] owners_ok_createRuntimeLogRequest [OF ok] owners_ok_createConnector [OF ok]
      owners_ok_updateConnector [OF ok] owners_ok_markConnectorIdentity [OF ok] owners_ok_heartbeatAgent [OF ok]
      owners_ok_recordTelemetry [OF ok] owners_ok_sweepOfflineAgents [OF ok] owners_ok_enrollAgent [OF ok]
      owners_ok_createAgent [OF ok] owners_ok_claimCommands [OF ok dist] owners_ok_failStaleCommands [OF ok]
      owners_ok_purge [OF ok],
    (rule owners_ok_frame [OF ok]; simp add: frame_simps)+)

section \<open>Every reachable state\<close>

lemma reachable_steps: "(step gen)\<^sup>*\<^sup>* d e \<Longrightarrow> reachable gen d \<Longrightarrow> reachable gen e"
  by (induction rule: rtranclp_induct) (auto intro: reachable.more)

definition store_ok :: "(nat \<Rightarrow> uuid) \<Rightarrow> db \<Rightarrow> bool" where
  "store_ok gen d \<longleftrightarrow> users_ok gen d \<and> agents_ok gen d \<and> queue_ok gen d \<and> owners_ok d \<and> links_ok d
     \<and> stack_ops_ok d \<and> runtime_ops_ok d \<and> deploy_ok gen d \<and> recovery_ok gen d \<and> scopes_ok d"

lemma store_ok_empty: "store_ok gen empty_db"
  by (simp add: store_ok_def users_ok_empty agents_ok_empty queue_ok_empty owners_ok_empty links_ok_empty
      stack_ops_ok_empty runtime_ops_ok_empty deploy_ok_empty recovery_ok_empty scopes_ok_empty)

lemma agents_distinct: "agents_ok gen d \<Longrightarrow> distinct (map ag_id (agents d))"
  by (simp add: agents_ok_def)

lemma queue_distinct: "queue_ok gen d \<Longrightarrow> distinct (map cmd_id (commands d))"
  by (simp add: queue_ok_def)

lemma step_store_ok:
  assumes gen: "inj gen" and ok: "store_ok gen d" and step: "step gen d e"
  shows "store_ok gen e"
  using ok step_users_ok [OF gen _ step] step_agents_ok [OF gen _ step] step_queue_ok [OF gen _ step]
    step_owners_ok [OF _ queue_distinct agents_distinct step] step_links_ok [OF _ queue_distinct step] step_stack_ops_ok [OF _ step]
    step_runtime_ops_ok [OF _ step] step_deploy_ok [OF gen _ step] step_recovery_ok [OF gen _ step] step_scopes_ok [OF _ step]
  unfolding store_ok_def by blast

lemma reachable_store_ok:
  assumes "inj gen" "reachable gen d" shows "store_ok gen d"
  using assms(2) by (induction) (auto intro: store_ok_empty step_store_ok [OF assms(1)])

lemma store_okD:
  assumes "store_ok gen d"
  shows "users_ok gen d" "agents_ok gen d" "queue_ok gen d" "owners_ok d" "links_ok d"
    "stack_ops_ok d" "runtime_ops_ok d" "deploy_ok gen d" "recovery_ok gen d" "scopes_ok d"
  using assms by (simp_all add: store_ok_def)

lemmas reachable_okD = store_okD [OF reachable_store_ok]

end
