(* ===== verification/Gw_Sample.thy ===== *)
theory Gw_Sample
  imports Gw_Reach
begin

text \<open>
  A concrete run of the store from an empty database: an owner, an enrolled agent, a stack, a
  backup, a deployment and its run, a runtime operation, a Cloudflare account with a zone, a
  connector, a route and its publication, and an agent that goes silent. The witnesses of the
  properties are states of this run.
\<close>

definition sample_revision :: RevisionValues where
  "sample_revision = \<lparr>Values_sourceRepository = ''https://github.com/o/r'', Values_commitSha = ''c'',
     Values_composePath = ''docker-compose.yml'', Values_encryptedSourceCompose = ''s'',
     Values_encryptedNormalizedCompose = ''n'', Values_checksum = ''k'', Values_policyVersion = 1,
     Values_policyResult = JNull, Values_requestedByUserId = unary 0\<rparr>"

definition sample_steps :: "(db \<Rightarrow> db) list" where
  "sample_steps = [
     \<lambda>d. snd (createOwner unary 0 ''o@x'' ''hash'' d),
     \<lambda>d. after (createAgent unary 1 1 ''edge'' ''token'' 900 d) d,
     \<lambda>d. snd (enrollAgent 2 2 ''token'' ''credential'' d),
     \<lambda>d. heartbeatAgent unary 3 (unary 1) [] d,
     \<lambda>d. saveNotificationSettings ''bot'' ''chat'' [''agent.offline''] d,
     \<lambda>d. after (createStack unary 4 (unary 1) ''web'' ''proj'' ''yaml'' True None d) d,
     \<lambda>d. snd (claimCommands 5 (unary 1) 10 d),
     \<lambda>d. snd (completeCommand unary 6 (unary 1) (unary 3) CmdSucceeded [] d),
     \<lambda>d. snd (createBackup unary 7 (unary 2) (unary 0) TargetLocal d),
     \<lambda>d. after (createDeployment unary 8 (unary 1) ''app'' ''app'' sample_revision d) d,
     \<lambda>d. snd (createDeploymentRun unary 9 (unary 6) (unary 7) Deploy (unary 0) d),
     \<lambda>d. after (createRuntimeOperation unary 10 (unary 0) (unary 1) ActRestart ScopeProject ''proj'' None d) d,
     \<lambda>d. after (createCloudflareAccount unary 11 ''cf'' ''acc'' ''secret'' True d) d,
     \<lambda>d. after (syncCloudflareZones unary 12 (unary 12) [(''zone'', ''example.org'', ''active'')] None d) d,
     \<lambda>d. after (createConnector unary 13 ''tunnel'' ''sealed'' True (unary 1) (Some (unary 12)) ''acc'' ''tid'' IVerified None d) d,
     \<lambda>d. after (createRoute unary 14 (unary 1) ''www'' ''www.example.org'' ExpTunnel [''http://web:80''] True d) d,
     \<lambda>d. snd (claimCommands 15 (unary 1) 10 d),
     \<lambda>d. snd (completeCommand unary 16 (unary 1) (unary 17) CmdSucceeded [] d),
     \<lambda>d. after (createPendingDomainAccess unary 17 (unary 12) (unary 13) (unary 16) Tunnel (Some (unary 14)) [] [] True d) d,
     \<lambda>d. snd (completeCommand unary 18 (unary 1) (unary 9) CmdSucceeded [] d),
     \<lambda>d. snd (sweepOfflineAgents unary 400000 200000 d),
     \<lambda>d. after (claimNotificationDelivery 400001 d) d]"

definition sample :: "nat \<Rightarrow> db" where
  "sample n = fold (\<lambda>f d. f d) (take n sample_steps) empty_db"

lemma sample_steps_step: "f \<in> set sample_steps \<Longrightarrow> step unary d (f d)"
  unfolding sample_steps_def by (auto intro: step.intros)

lemma reachable_fold:
  "reachable gen d \<Longrightarrow> (\<And>f d. f \<in> set fs \<Longrightarrow> step gen d (f d)) \<Longrightarrow> reachable gen (fold (\<lambda>f d. f d) fs d)"
  by (induction fs arbitrary: d) (simp_all add: reachable.more)

lemma reachable_sample: "reachable unary (sample n)"
  unfolding sample_def
  by (rule reachable_fold [OF reachable.start]) (auto intro: sample_steps_step dest: in_set_takeD)

section \<open>The states the witnesses use\<close>

text \<open>Four states of the run, written out: the evaluation of a witness starts from the nearest of them.\<close>

definition sample_state_4 :: db where
  "sample_state_4 =
    \<lparr>users =
      [\<lparr>usr_id = [], usr_email = ''o@x'', usr_password_hash = ''hash'',
          usr_role = Owner, usr_created_at = 0\<rparr>],
      sessions = [], connectors = [], accounts = [], zones = [], domains = [],
      dns_records = [], guided_operations = [],
      agents =
        [\<lparr>ag_id = ''u'', ag_name = ''edge'', ag_enabled = True,
            ag_enrollment_token_hash = None, ag_enrollment_expires_at = None,
            ag_enrolled_at = Some 2, ag_credential_hash = Some ''credential'',
            ag_last_heartbeat_at = Some 3, ag_last_metadata = Some [],
            ag_offline_detected_at = None, ag_archived_at = None,
            ag_last_telemetry_at = None, ag_last_command_poll_at = None,
            ag_last_command_result_at = None, ag_last_diagnostics = None,
            ag_created_at = 1\<rparr>],
      commands = [], stacks = [], routes = [], deployments = [],
      revisions = [], runs = [], settings = None, scopes = [], snapshots = [],
      runtime_ops = [], log_requests = [], backups = [], restores = [],
      system_backups = [], backup_imports = [], system_restores = [],
      recovery_requests = [], transfer_events = [], events = [],
      deliveries = [], draws = 2\<rparr>"

definition sample_state_12 :: db where
  "sample_state_12 =
    \<lparr>users =
      [\<lparr>usr_id = [], usr_email = ''o@x'', usr_password_hash = ''hash'',
          usr_role = Owner, usr_created_at = 0\<rparr>],
      sessions = [], connectors = [], accounts = [], zones = [], domains = [],
      dns_records = [], guided_operations = [],
      agents =
        [\<lparr>ag_id = ''u'', ag_name = ''edge'', ag_enabled = True,
            ag_enrollment_token_hash = None, ag_enrollment_expires_at = None,
            ag_enrolled_at = Some 2, ag_credential_hash = Some ''credential'',
            ag_last_heartbeat_at = Some 3, ag_last_metadata = Some [],
            ag_offline_detected_at = None, ag_archived_at = None,
            ag_last_telemetry_at = None, ag_last_command_poll_at = Some 5,
            ag_last_command_result_at = Some 6, ag_last_diagnostics = None,
            ag_created_at = 1\<rparr>],
      commands =
        [\<lparr>cmd_id = ''uuu'', cmd_agent_id = ''u'',
            cmd_type = ''compose.stack.sync'',
            cmd_payload = [(''stackId'', JStr ''uu'')],
            cmd_status = CmdSucceeded, cmd_claimed_at = Some 5,
            cmd_completed_at = Some 6, cmd_result = Some [],
            cmd_created_at = 4, cmd_attempts = 1,
            cmd_lease_expires_at = None\<rparr>,
         \<lparr>cmd_id = ''uuuuu'', cmd_agent_id = ''u'',
            cmd_type = ''stack.backup.create'',
            cmd_payload = [(''backupId'', JStr ''uuuu'')],
            cmd_status = CmdPending, cmd_claimed_at = None,
            cmd_completed_at = None, cmd_result = None, cmd_created_at = 7,
            cmd_attempts = 0, cmd_lease_expires_at = None\<rparr>,
         \<lparr>cmd_id = ''uuuuuuuuu'', cmd_agent_id = ''u'',
            cmd_type = ''deployment.compose.apply'',
            cmd_payload = [(''runId'', JStr ''uuuuuuuu'')],
            cmd_status = CmdPending, cmd_claimed_at = None,
            cmd_completed_at = None, cmd_result = None, cmd_created_at = 9,
            cmd_attempts = 0, cmd_lease_expires_at = None\<rparr>,
         \<lparr>cmd_id = ''uuuuuuuuuuu'', cmd_agent_id = ''u'',
            cmd_type = ''compose.runtime.action'',
            cmd_payload = [(''operationId'', JStr ''uuuuuuuuuu'')],
            cmd_status = CmdPending, cmd_claimed_at = None,
            cmd_completed_at = None, cmd_result = None, cmd_created_at = 10,
            cmd_attempts = 0, cmd_lease_expires_at = None\<rparr>],
      stacks =
        [\<lparr>stk_id = ''uu'', stk_agent_id = ''u'', stk_name = ''web'',
            stk_project_name = ''proj'',
            stk_compose_yaml_encrypted = ''yaml'', stk_enabled = True,
            stk_revision = 1, stk_status = DepActive,
            stk_postgres_backup_config = None, stk_created_at = 4,
            stk_updated_at = 6\<rparr>],
      routes = [],
      deployments =
        [\<lparr>dpl_id = ''uuuuuu'', dpl_agent_id = ''u'',
            dpl_display_name = ''app'', dpl_project_name = ''app'',
            dpl_source_repository = ''https://github.com/o/r'',
            dpl_enabled = True, dpl_current_revision_id = None,
            dpl_status = DsDeploying, dpl_created_by_user_id = [],
            dpl_created_at = 8, dpl_updated_at = 9\<rparr>],
      revisions =
        [\<lparr>rev_id = ''uuuuuuu'', rev_deployment_id = ''uuuuuu'',
            rev_commit_sha = ''c'', rev_compose_path = ''docker-compose.yml'',
            rev_source_compose_encrypted = ''s'',
            rev_normalized_compose_encrypted = ''n'', rev_checksum = ''k'',
            rev_policy_version = 1, rev_policy_result = JNull,
            rev_created_by_user_id = [], rev_created_at = 8\<rparr>],
      runs =
        [\<lparr>run_id = ''uuuuuuuu'', run_deployment_id = ''uuuuuu'',
            run_revision_id = ''uuuuuuu'', run_prior_revision_id = None,
            run_agent_id = ''u'', run_command_id = ''uuuuuuuuu'',
            run_requested_by_user_id = [], run_action = Deploy,
            run_status = OpPending, run_result = None, run_error = None,
            run_started_at = None, run_completed_at = None,
            run_created_at = 9, run_updated_at = 9\<rparr>],
      settings =
        Some
         \<lparr>nst_bot_token_encrypted = Some ''bot'',
            nst_group_id_encrypted = Some ''chat'',
            nst_selected_events = [''agent.offline'']\<rparr>,
      scopes = [], snapshots = [],
      runtime_ops =
        [\<lparr>rop_id = ''uuuuuuuuuu'', rop_requested_by_user_id = [],
            rop_agent_id = ''u'', rop_command_id = Some ''uuuuuuuuuuu'',
            rop_action = ActRestart, rop_scope = ScopeProject,
            rop_project_name = ''proj'', rop_service_name = None,
            rop_status = OpPending, rop_result = None, rop_error = None,
            rop_started_at = None, rop_completed_at = None,
            rop_created_at = 10, rop_updated_at = 10\<rparr>],
      log_requests = [],
      backups =
        [\<lparr>bkp_id = ''uuuu'', bkp_stack_id = ''uu'', bkp_agent_id = ''u'',
            bkp_command_id = ''uuuuu'', bkp_requested_by_user_id = [],
            bkp_target = TargetLocal, bkp_stack_revision = 1,
            bkp_status = OpPending, bkp_result = None, bkp_started_at = None,
            bkp_completed_at = None, bkp_created_at = 7, bkp_updated_at = 7\<rparr>],
      restores = [], system_backups = [], backup_imports = [],
      system_restores = [], recovery_requests = [], transfer_events = [],
      events = [], deliveries = [], draws = 12\<rparr>"

definition sample_state_18 :: db where
  "sample_state_18 =
    \<lparr>users =
      [\<lparr>usr_id = [], usr_email = ''o@x'', usr_password_hash = ''hash'',
          usr_role = Owner, usr_created_at = 0\<rparr>],
      sessions = [],
      connectors =
        [\<lparr>con_id = ''uuuuuuuuuuuuuu'', con_name = ''tunnel'',
            con_token_encrypted = ''sealed'', con_enabled = True,
            con_agent_id = ''u'',
            con_cloudflare_account_id = Some ''uuuuuuuuuuuu'',
            con_tunnel_id = Some ''tid'', con_desired_revision = 1,
            con_token_account_identifier = Some ''acc'',
            con_token_tunnel_id = Some ''tid'',
            con_identity_status = IVerified,
            con_identity_verified_at = Some 13, con_identity_error = None,
            con_deployment_status = KDeploying,
            con_runtime_status = RtUnknown, con_last_error = None,
            con_last_deployed_at = None, con_last_observed_at = None,
            con_created_at = 13, con_updated_at = 15\<rparr>],
      accounts =
        [\<lparr>acc_id = ''uuuuuuuuuuuu'', acc_name = ''cf'',
            acc_account_identifier = ''acc'',
            acc_api_token_encrypted = ''secret'', acc_enabled = True,
            acc_last_synced_at = Some 12, acc_last_error_at = None,
            acc_last_error = None, acc_created_at = 11, acc_updated_at = 12\<rparr>],
      zones =
        [\<lparr>zon_id = ''uuuuuuuuuuuuu'',
            zon_cloudflare_account_id = ''uuuuuuuuuuuu'',
            zon_zone_identifier = ''zone'', zon_name = ''example.org'',
            zon_status = ''active'', zon_created_at = 12,
            zon_updated_at = 12\<rparr>],
      domains = [], dns_records = [], guided_operations = [],
      agents =
        [\<lparr>ag_id = ''u'', ag_name = ''edge'', ag_enabled = True,
            ag_enrollment_token_hash = None, ag_enrollment_expires_at = None,
            ag_enrolled_at = Some 2, ag_credential_hash = Some ''credential'',
            ag_last_heartbeat_at = Some 3, ag_last_metadata = Some [],
            ag_offline_detected_at = None, ag_archived_at = None,
            ag_last_telemetry_at = None, ag_last_command_poll_at = Some 15,
            ag_last_command_result_at = Some 16, ag_last_diagnostics = None,
            ag_created_at = 1\<rparr>],
      commands =
        [\<lparr>cmd_id = ''uuu'', cmd_agent_id = ''u'',
            cmd_type = ''compose.stack.sync'',
            cmd_payload = [(''stackId'', JStr ''uu'')],
            cmd_status = CmdSucceeded, cmd_claimed_at = Some 5,
            cmd_completed_at = Some 6, cmd_result = Some [],
            cmd_created_at = 4, cmd_attempts = 1,
            cmd_lease_expires_at = None\<rparr>,
         \<lparr>cmd_id = ''uuuuu'', cmd_agent_id = ''u'',
            cmd_type = ''stack.backup.create'',
            cmd_payload = [(''backupId'', JStr ''uuuu'')],
            cmd_status = CmdClaimed, cmd_claimed_at = Some 15,
            cmd_completed_at = None, cmd_result = None, cmd_created_at = 7,
            cmd_attempts = 1, cmd_lease_expires_at = Some 7200015\<rparr>,
         \<lparr>cmd_id = ''uuuuuuuuu'', cmd_agent_id = ''u'',
            cmd_type = ''deployment.compose.apply'',
            cmd_payload = [(''runId'', JStr ''uuuuuuuu'')],
            cmd_status = CmdClaimed, cmd_claimed_at = Some 15,
            cmd_completed_at = None, cmd_result = None, cmd_created_at = 9,
            cmd_attempts = 1, cmd_lease_expires_at = Some 7200015\<rparr>,
         \<lparr>cmd_id = ''uuuuuuuuuuu'', cmd_agent_id = ''u'',
            cmd_type = ''compose.runtime.action'',
            cmd_payload = [(''operationId'', JStr ''uuuuuuuuuu'')],
            cmd_status = CmdClaimed, cmd_claimed_at = Some 15,
            cmd_completed_at = None, cmd_result = None, cmd_created_at = 10,
            cmd_attempts = 1, cmd_lease_expires_at = Some 600015\<rparr>,
         \<lparr>cmd_id = ''uuuuuuuuuuuuuuu'', cmd_agent_id = ''u'',
            cmd_type = ''cloudflare.connector.sync'',
            cmd_payload =
              [(''connectorId'', JStr ''uuuuuuuuuuuuuu''),
               (''revision'', JNum 1)],
            cmd_status = CmdClaimed, cmd_claimed_at = Some 15,
            cmd_completed_at = None, cmd_result = None, cmd_created_at = 13,
            cmd_attempts = 1, cmd_lease_expires_at = Some 600015\<rparr>,
         \<lparr>cmd_id = ''uuuuuuuuuuuuuuuuu'', cmd_agent_id = ''u'',
            cmd_type = ''traefik.route.sync'',
            cmd_payload = [(''routeId'', JStr ''uuuuuuuuuuuuuuuu'')],
            cmd_status = CmdSucceeded, cmd_claimed_at = Some 15,
            cmd_completed_at = Some 16, cmd_result = Some [],
            cmd_created_at = 14, cmd_attempts = 1,
            cmd_lease_expires_at = None\<rparr>],
      stacks =
        [\<lparr>stk_id = ''uu'', stk_agent_id = ''u'', stk_name = ''web'',
            stk_project_name = ''proj'',
            stk_compose_yaml_encrypted = ''yaml'', stk_enabled = True,
            stk_revision = 1, stk_status = DepActive,
            stk_postgres_backup_config = None, stk_created_at = 4,
            stk_updated_at = 6\<rparr>],
      routes =
        [\<lparr>rte_id = ''uuuuuuuuuuuuuuuu'', rte_gateway_agent_id = ''u'',
            rte_name = ''www'', rte_hostname = ''www.example.org'',
            rte_exposure = ExpTunnel, rte_backends = [''http://web:80''],
            rte_enabled = True, rte_revision = 1, rte_status = DepActive,
            rte_created_at = 14, rte_updated_at = 16\<rparr>],
      deployments =
        [\<lparr>dpl_id = ''uuuuuu'', dpl_agent_id = ''u'',
            dpl_display_name = ''app'', dpl_project_name = ''app'',
            dpl_source_repository = ''https://github.com/o/r'',
            dpl_enabled = True, dpl_current_revision_id = None,
            dpl_status = DsDeploying, dpl_created_by_user_id = [],
            dpl_created_at = 8, dpl_updated_at = 9\<rparr>],
      revisions =
        [\<lparr>rev_id = ''uuuuuuu'', rev_deployment_id = ''uuuuuu'',
            rev_commit_sha = ''c'', rev_compose_path = ''docker-compose.yml'',
            rev_source_compose_encrypted = ''s'',
            rev_normalized_compose_encrypted = ''n'', rev_checksum = ''k'',
            rev_policy_version = 1, rev_policy_result = JNull,
            rev_created_by_user_id = [], rev_created_at = 8\<rparr>],
      runs =
        [\<lparr>run_id = ''uuuuuuuu'', run_deployment_id = ''uuuuuu'',
            run_revision_id = ''uuuuuuu'', run_prior_revision_id = None,
            run_agent_id = ''u'', run_command_id = ''uuuuuuuuu'',
            run_requested_by_user_id = [], run_action = Deploy,
            run_status = OpRunning, run_result = None, run_error = None,
            run_started_at = Some 15, run_completed_at = None,
            run_created_at = 9, run_updated_at = 15\<rparr>],
      settings =
        Some
         \<lparr>nst_bot_token_encrypted = Some ''bot'',
            nst_group_id_encrypted = Some ''chat'',
            nst_selected_events = [''agent.offline'']\<rparr>,
      scopes = [], snapshots = [],
      runtime_ops =
        [\<lparr>rop_id = ''uuuuuuuuuu'', rop_requested_by_user_id = [],
            rop_agent_id = ''u'', rop_command_id = Some ''uuuuuuuuuuu'',
            rop_action = ActRestart, rop_scope = ScopeProject,
            rop_project_name = ''proj'', rop_service_name = None,
            rop_status = OpRunning, rop_result = None, rop_error = None,
            rop_started_at = Some 15, rop_completed_at = None,
            rop_created_at = 10, rop_updated_at = 15\<rparr>],
      log_requests = [],
      backups =
        [\<lparr>bkp_id = ''uuuu'', bkp_stack_id = ''uu'', bkp_agent_id = ''u'',
            bkp_command_id = ''uuuuu'', bkp_requested_by_user_id = [],
            bkp_target = TargetLocal, bkp_stack_revision = 1,
            bkp_status = OpRunning, bkp_result = None,
            bkp_started_at = Some 15, bkp_completed_at = None,
            bkp_created_at = 7, bkp_updated_at = 15\<rparr>],
      restores = [], system_backups = [], backup_imports = [],
      system_restores = [], recovery_requests = [], transfer_events = [],
      events = [], deliveries = [], draws = 18\<rparr>"

definition sample_state_20 :: db where
  "sample_state_20 =
    \<lparr>users =
      [\<lparr>usr_id = [], usr_email = ''o@x'', usr_password_hash = ''hash'',
          usr_role = Owner, usr_created_at = 0\<rparr>],
      sessions = [],
      connectors =
        [\<lparr>con_id = ''uuuuuuuuuuuuuu'', con_name = ''tunnel'',
            con_token_encrypted = ''sealed'', con_enabled = True,
            con_agent_id = ''u'',
            con_cloudflare_account_id = Some ''uuuuuuuuuuuu'',
            con_tunnel_id = Some ''tid'', con_desired_revision = 1,
            con_token_account_identifier = Some ''acc'',
            con_token_tunnel_id = Some ''tid'',
            con_identity_status = IVerified,
            con_identity_verified_at = Some 13, con_identity_error = None,
            con_deployment_status = KDeploying,
            con_runtime_status = RtUnknown, con_last_error = None,
            con_last_deployed_at = None, con_last_observed_at = None,
            con_created_at = 13, con_updated_at = 15\<rparr>],
      accounts =
        [\<lparr>acc_id = ''uuuuuuuuuuuu'', acc_name = ''cf'',
            acc_account_identifier = ''acc'',
            acc_api_token_encrypted = ''secret'', acc_enabled = True,
            acc_last_synced_at = Some 12, acc_last_error_at = None,
            acc_last_error = None, acc_created_at = 11, acc_updated_at = 12\<rparr>],
      zones =
        [\<lparr>zon_id = ''uuuuuuuuuuuuu'',
            zon_cloudflare_account_id = ''uuuuuuuuuuuu'',
            zon_zone_identifier = ''zone'', zon_name = ''example.org'',
            zon_status = ''active'', zon_created_at = 12,
            zon_updated_at = 12\<rparr>],
      domains =
        [\<lparr>dom_id = ''uuuuuuuuuuuuuuuuuu'',
            dom_cloudflare_zone_id = ''uuuuuuuuuuuuu'',
            dom_cloudflare_account_id = ''uuuuuuuuuuuu'',
            dom_connector_id = Some ''uuuuuuuuuuuuuu'',
            dom_route_id = ''uuuuuuuuuuuuuuuu'',
            dom_hostname = ''www.example.org'', dom_access_method = Tunnel,
            dom_public_ipv4 = [], dom_public_ipv6 = [],
            dom_dns_record_id = None, dom_enabled = True, dom_revision = 1,
            dom_proxied = True, dom_status = DomPending,
            dom_last_error = None, dom_last_reconciled_at = None,
            dom_tls_status = TlsNotObserved, dom_tls_issuer = None,
            dom_tls_valid_to = None, dom_tls_observed_at = None,
            dom_tls_error = None, dom_deployed_account_identifier = ''acc'',
            dom_deployed_zone_identifier = ''zone'',
            dom_deployed_tunnel_id = Some ''tid'', dom_created_at = 17,
            dom_updated_at = 17\<rparr>],
      dns_records = [], guided_operations = [],
      agents =
        [\<lparr>ag_id = ''u'', ag_name = ''edge'', ag_enabled = True,
            ag_enrollment_token_hash = None, ag_enrollment_expires_at = None,
            ag_enrolled_at = Some 2, ag_credential_hash = Some ''credential'',
            ag_last_heartbeat_at = Some 3, ag_last_metadata = Some [],
            ag_offline_detected_at = None, ag_archived_at = None,
            ag_last_telemetry_at = None, ag_last_command_poll_at = Some 15,
            ag_last_command_result_at = Some 18, ag_last_diagnostics = None,
            ag_created_at = 1\<rparr>],
      commands =
        [\<lparr>cmd_id = ''uuu'', cmd_agent_id = ''u'',
            cmd_type = ''compose.stack.sync'',
            cmd_payload = [(''stackId'', JStr ''uu'')],
            cmd_status = CmdSucceeded, cmd_claimed_at = Some 5,
            cmd_completed_at = Some 6, cmd_result = Some [],
            cmd_created_at = 4, cmd_attempts = 1,
            cmd_lease_expires_at = None\<rparr>,
         \<lparr>cmd_id = ''uuuuu'', cmd_agent_id = ''u'',
            cmd_type = ''stack.backup.create'',
            cmd_payload = [(''backupId'', JStr ''uuuu'')],
            cmd_status = CmdClaimed, cmd_claimed_at = Some 15,
            cmd_completed_at = None, cmd_result = None, cmd_created_at = 7,
            cmd_attempts = 1, cmd_lease_expires_at = Some 7200015\<rparr>,
         \<lparr>cmd_id = ''uuuuuuuuu'', cmd_agent_id = ''u'',
            cmd_type = ''deployment.compose.apply'',
            cmd_payload = [(''runId'', JStr ''uuuuuuuu'')],
            cmd_status = CmdSucceeded, cmd_claimed_at = Some 15,
            cmd_completed_at = Some 18, cmd_result = Some [],
            cmd_created_at = 9, cmd_attempts = 1,
            cmd_lease_expires_at = None\<rparr>,
         \<lparr>cmd_id = ''uuuuuuuuuuu'', cmd_agent_id = ''u'',
            cmd_type = ''compose.runtime.action'',
            cmd_payload = [(''operationId'', JStr ''uuuuuuuuuu'')],
            cmd_status = CmdClaimed, cmd_claimed_at = Some 15,
            cmd_completed_at = None, cmd_result = None, cmd_created_at = 10,
            cmd_attempts = 1, cmd_lease_expires_at = Some 600015\<rparr>,
         \<lparr>cmd_id = ''uuuuuuuuuuuuuuu'', cmd_agent_id = ''u'',
            cmd_type = ''cloudflare.connector.sync'',
            cmd_payload =
              [(''connectorId'', JStr ''uuuuuuuuuuuuuu''),
               (''revision'', JNum 1)],
            cmd_status = CmdClaimed, cmd_claimed_at = Some 15,
            cmd_completed_at = None, cmd_result = None, cmd_created_at = 13,
            cmd_attempts = 1, cmd_lease_expires_at = Some 600015\<rparr>,
         \<lparr>cmd_id = ''uuuuuuuuuuuuuuuuu'', cmd_agent_id = ''u'',
            cmd_type = ''traefik.route.sync'',
            cmd_payload = [(''routeId'', JStr ''uuuuuuuuuuuuuuuu'')],
            cmd_status = CmdSucceeded, cmd_claimed_at = Some 15,
            cmd_completed_at = Some 16, cmd_result = Some [],
            cmd_created_at = 14, cmd_attempts = 1,
            cmd_lease_expires_at = None\<rparr>],
      stacks =
        [\<lparr>stk_id = ''uu'', stk_agent_id = ''u'', stk_name = ''web'',
            stk_project_name = ''proj'',
            stk_compose_yaml_encrypted = ''yaml'', stk_enabled = True,
            stk_revision = 1, stk_status = DepActive,
            stk_postgres_backup_config = None, stk_created_at = 4,
            stk_updated_at = 6\<rparr>],
      routes =
        [\<lparr>rte_id = ''uuuuuuuuuuuuuuuu'', rte_gateway_agent_id = ''u'',
            rte_name = ''www'', rte_hostname = ''www.example.org'',
            rte_exposure = ExpTunnel, rte_backends = [''http://web:80''],
            rte_enabled = True, rte_revision = 1, rte_status = DepActive,
            rte_created_at = 14, rte_updated_at = 16\<rparr>],
      deployments =
        [\<lparr>dpl_id = ''uuuuuu'', dpl_agent_id = ''u'',
            dpl_display_name = ''app'', dpl_project_name = ''app'',
            dpl_source_repository = ''https://github.com/o/r'',
            dpl_enabled = True, dpl_current_revision_id = Some ''uuuuuuu'',
            dpl_status = DsActive, dpl_created_by_user_id = [],
            dpl_created_at = 8, dpl_updated_at = 18\<rparr>],
      revisions =
        [\<lparr>rev_id = ''uuuuuuu'', rev_deployment_id = ''uuuuuu'',
            rev_commit_sha = ''c'', rev_compose_path = ''docker-compose.yml'',
            rev_source_compose_encrypted = ''s'',
            rev_normalized_compose_encrypted = ''n'', rev_checksum = ''k'',
            rev_policy_version = 1, rev_policy_result = JNull,
            rev_created_by_user_id = [], rev_created_at = 8\<rparr>],
      runs =
        [\<lparr>run_id = ''uuuuuuuu'', run_deployment_id = ''uuuuuu'',
            run_revision_id = ''uuuuuuu'', run_prior_revision_id = None,
            run_agent_id = ''u'', run_command_id = ''uuuuuuuuu'',
            run_requested_by_user_id = [], run_action = Deploy,
            run_status = OpSucceeded, run_result = Some [], run_error = None,
            run_started_at = Some 15, run_completed_at = Some 18,
            run_created_at = 9, run_updated_at = 18\<rparr>],
      settings =
        Some
         \<lparr>nst_bot_token_encrypted = Some ''bot'',
            nst_group_id_encrypted = Some ''chat'',
            nst_selected_events = [''agent.offline'']\<rparr>,
      scopes = [], snapshots = [],
      runtime_ops =
        [\<lparr>rop_id = ''uuuuuuuuuu'', rop_requested_by_user_id = [],
            rop_agent_id = ''u'', rop_command_id = Some ''uuuuuuuuuuu'',
            rop_action = ActRestart, rop_scope = ScopeProject,
            rop_project_name = ''proj'', rop_service_name = None,
            rop_status = OpRunning, rop_result = None, rop_error = None,
            rop_started_at = Some 15, rop_completed_at = None,
            rop_created_at = 10, rop_updated_at = 15\<rparr>],
      log_requests = [],
      backups =
        [\<lparr>bkp_id = ''uuuu'', bkp_stack_id = ''uu'', bkp_agent_id = ''u'',
            bkp_command_id = ''uuuuu'', bkp_requested_by_user_id = [],
            bkp_target = TargetLocal, bkp_stack_revision = 1,
            bkp_status = OpRunning, bkp_result = None,
            bkp_started_at = Some 15, bkp_completed_at = None,
            bkp_created_at = 7, bkp_updated_at = 15\<rparr>],
      restores = [], system_backups = [], backup_imports = [],
      system_restores = [], recovery_requests = [], transfer_events = [],
      events =
        [\<lparr>evt_id = ''uuuuuuuuuuuuuuuuuuu'', evt_type = DeploymentSucceeded,
            evt_agent_id = Some ''u'', evt_stack_id = None,
            evt_project_name = Some ''app'', evt_service_name = None,
            evt_payload =
              [(''deploymentId'', JStr ''uuuuuu''),
               (''runId'', JStr ''uuuuuuuu''), (''action'', JStr ''deploy''),
               (''agentId'', JStr ''u''), (''projectName'', JStr ''app'')],
            evt_occurred_at = 18\<rparr>],
      deliveries = [], draws = 20\<rparr>"

lemma sample_add: "sample (m + n) = fold (\<lambda>f d. f d) (take n (drop m sample_steps)) (sample m)"
  by (simp add: sample_def take_add)

lemma sample_runs:
  "fold (\<lambda>f d. f d) (take 4 sample_steps) empty_db = sample_state_4
   \<and> fold (\<lambda>f d. f d) (take 8 (drop 4 sample_steps)) sample_state_4 = sample_state_12
   \<and> fold (\<lambda>f d. f d) (take 6 (drop 12 sample_steps)) sample_state_12 = sample_state_18
   \<and> fold (\<lambda>f d. f d) (take 2 (drop 18 sample_steps)) sample_state_18 = sample_state_20"
  by code_simp

lemma sample_4: "sample 4 = sample_state_4"
  using sample_runs by (simp add: sample_def)

lemma sample_12: "sample 12 = sample_state_12"
  using sample_runs sample_add [of 4 8] by (simp add: sample_4)

lemma sample_18: "sample 18 = sample_state_18"
  using sample_runs sample_add [of 12 6] by (simp add: sample_12)

lemma sample_20: "sample 20 = sample_state_20"
  using sample_runs sample_add [of 18 2] by (simp add: sample_18)

lemma sample_1: "sample 1 = snd (createOwner unary 0 ''o@x'' ''hash'' empty_db)"
  by (simp add: sample_def sample_steps_def)

lemma sample_2: "sample 2 = after (createAgent unary 1 1 ''edge'' ''token'' 900 (sample 1)) (sample 1)"
  by (simp add: sample_def sample_steps_def)

lemma sample_19:
  "sample 19 = after (createPendingDomainAccess unary 17 (unary 12) (unary 13) (unary 16) Tunnel (Some (unary 14)) [] [] True
    sample_state_18) sample_state_18"
  using sample_add [of 18 1] by (simp add: sample_18) (simp add: sample_steps_def)

lemma sample_19_step:
  "sample 19 = after (createPendingDomainAccess unary 17 (unary 12) (unary 13) (unary 16) Tunnel (Some (unary 14)) [] [] True
    (sample 18)) (sample 18)"
  unfolding sample_19 sample_18 by (rule refl)

lemma sample_20_step: "sample 20 = snd (completeCommand unary 18 (unary 1) (unary 9) CmdSucceeded [] (sample 19))"
  using sample_add [of 19 1] by (simp add: sample_steps_def)

lemma sample_21: "sample 21 = snd (sweepOfflineAgents unary 400000 200000 sample_state_20)"
  using sample_add [of 20 1] by (simp add: sample_20) (simp add: sample_steps_def)

lemma sample_22: "sample 22 = after (claimNotificationDelivery 400001 (sample 21)) (sample 21)"
  using sample_add [of 21 1] by (simp add: sample_steps_def)

lemmas sample_states = sample_1 sample_2 sample_4 sample_12 sample_18 sample_19 sample_20 sample_21 sample_22

end
