(* ===== verification/Gw_Leases.thy ===== *)
theory Gw_Leases
  imports Gw_Reach
begin

text \<open>
  What a claim keeps of a command while other operations run: no operation takes a claimed command
  away from its agent before the lease has run out, so the row is leased or completed ever after.
\<close>

section \<open>Held commands\<close>

definition held :: "time \<Rightarrow> command_row \<Rightarrow> bool" where
  "held l r \<longleftrightarrow> cmd_status r = CmdSucceeded \<or> cmd_status r = CmdFailed
     \<or> cmd_status r = CmdClaimed \<and> (\<exists>t. cmd_lease_expires_at r = Some t \<and> l \<le> t)"

definition leased :: "uuid \<Rightarrow> time \<Rightarrow> db \<Rightarrow> bool" where
  "leased i l d \<longleftrightarrow> (\<exists>r \<in> set (commands d). cmd_id r = i \<and> held l r)"

lemma held_close: "s = CmdSucceeded \<or> s = CmdFailed \<Longrightarrow> held l (close_command now s res r)"
  by (auto simp: held_def close_command_def)

lemma held_claim: "held l r \<Longrightarrow> claimable_command now a r \<Longrightarrow> held l (claimed_command now r)"
  by (auto simp: held_def claimed_command_def claimable_command_def)

lemma held_not_claimable: "held l r \<Longrightarrow> now < l \<Longrightarrow> \<not> claimable_command now a r"
  by (auto simp: held_def claimable_command_def)

lemma leased_grow: "leased i l d \<Longrightarrow> set (commands d) \<subseteq> set (commands e) \<Longrightarrow> leased i l e"
  by (auto simp: leased_def)

lemma leased_update:
  assumes "leased i l d" "commands e = update_rows P f (commands d)"
    and ids: "\<And>r. cmd_id (f r) = cmd_id r"
    and kept: "\<And>r. r \<in> set (commands d) \<Longrightarrow> P r \<Longrightarrow> held l r \<Longrightarrow> held l (f r)"
  shows "leased i l e"
proof -
  from assms(1) obtain r where r: "r \<in> set (commands d)" "cmd_id r = i" "held l r" by (auto simp: leased_def)
  then have "(if P r then f r else r) \<in> set (commands e)" unfolding assms(2) set_update_rows by blast
  moreover have "cmd_id (if P r then f r else r) = i" "held l (if P r then f r else r)"
    using r ids kept [OF r(1)] by simp_all
  ultimately show ?thesis unfolding leased_def by blast
qed

section \<open>The operations\<close>

lemma leased_insert_command: "leased i l d \<Longrightarrow> leased i l (snd (insert_command gen now a t p d))"
  by (erule leased_grow) (auto simp: insert_command_eq)

lemma leased_queueInternalSync: "leased i l d \<Longrightarrow> leased i l (queueInternalSync gen now a t k j d)"
  by (erule leased_grow) (auto simp: queueInternalSync_def insert_command_eq)

text \<open>A synchronisation that is queued again is a pending one, which nobody holds.\<close>

lemma leased_queueConnectorSync:
  assumes "leased i l d" shows "leased i l (queueConnectorSync gen now a j rv stopping d)"
proof -
  let ?d = "d\<lparr>connectors := update_rows (\<lambda>r. con_id r = j)
     (\<lambda>r. r\<lparr>con_deployment_status := (if stopping then KStopping else KPending), con_last_error := None,
            con_updated_at := now\<rparr>) (connectors d)\<rparr>"
  have d: "leased i l ?d" using assms by (simp add: leased_def)
  let ?P = "\<lambda>c. cmd_agent_id c = a \<and> cmd_type c = ''cloudflare.connector.sync'' \<and> cmd_status c = CmdPending
     \<and> json_text (jprop (cmd_payload c) ''connectorId'') = Some j"
  let ?f = "\<lambda>c. c\<lparr>cmd_payload := connector_payload j rv, cmd_created_at := now\<rparr>"
  have "leased i l (?d\<lparr>commands := update_rows ?P ?f (commands d)\<rparr>)"
    by (rule leased_update [OF d, where P = ?P and f = ?f]) (auto simp: held_def)
  with leased_insert_command [OF d] show ?thesis
    by (simp add: queueConnectorSync_def Let_def del: exists_row_iff split del: if_split) simp
qed

lemma leased_createConnector:
  assumes "leased i l d" shows "leased i l (after (createConnector gen now n tok b a aid ident tun st err d) d)"
proof (rule after_cases [where Q = "leased i l", OF assms])
  fix x e
  assume "createConnector gen now n tok b a aid ident tun st err d = Inr (x, e)"
  then show "leased i l e"
  proof (cases rule: createConnector_cases)
    case (created row)
    have "leased i l (d\<lparr>draws := Suc (draws d), connectors := connectors d @ [row]\<rparr>)"
      using assms by (simp add: leased_def)
    with leased_queueConnectorSync [OF this] show ?thesis by (simp add: created(9) Let_def)
  qed (simp add: assms)
qed

lemma leased_updateConnector:
  assumes "leased i l d" shows "leased i l (after (updateConnector gen now j v d) d)"
proof (rule after_cases [where Q = "leased i l", OF assms])
  fix x e
  assume "updateConnector gen now j v d = Inr (x, e)"
  then show "leased i l e"
  proof (cases rule: updateConnector_cases)
    case (updated r e')
    have "leased i l (queue_removal gen now v r d)"
      by (rule leased_grow [OF assms]) (auto simp: queue_removal_def insert_command_eq)
    then have "leased i l e'"
      by (rule leased_grow) (simp add: write_connector_Inr(1) [OF updated(6)])
    then show ?thesis unfolding updated(8) by (rule leased_queueConnectorSync)
  qed (simp add: assms)
qed

lemma leased_createCommand: "leased i l d \<Longrightarrow> leased i l (after (createCommand gen now a t p d) d)"
  by (erule leased_grow) (auto simp: after_def createCommand_def insert_command_eq split: sum.split if_splits)

lemma leased_stacks_routes:
  assumes "leased i l d"
  shows "leased i l (after (createStack gen now a nm p y b cfg d) d)"
    "leased i l (after (createRoute gen now a nm hn ex bs b d) d)"
    "leased i l (after (updateStack gen now j nm' y' b' cfg' d) d)"
    "leased i l (after (updateRoute gen now j aid nm'' hn' ex' bs' b'' d) d)"
  by (rule leased_grow [OF assms];
      auto simp: frame_simps after_def createStack_def createRoute_def updateStack_def updateRoute_def draw_def Let_def
        queueInternalSync_def insert_command_eq simp del: exists_row_iff split: sum.split option.split if_splits)+

lemma leased_queueStackAction: "leased i l d \<Longrightarrow> leased i l (snd (queueStackAction gen now j t d))"
  by (erule leased_grow) (auto simp: queueStackAction_def insert_command_eq Let_def split: option.split)

lemma leased_queueLogRequest: "leased i l d \<Longrightarrow> leased i l (snd (queueLogRequest gen now j u svc n since d))"
  by (erule leased_grow) (auto simp: queueLogRequest_def insert_command_eq Let_def split: option.split)

lemma leased_createBackup: "leased i l d \<Longrightarrow> leased i l (snd (createBackup gen now j u t d))"
  by (cases rule: createBackup_cases [of gen now j u t d]) (auto elim!: leased_grow)

lemma leased_createRestore: "leased i l d \<Longrightarrow> leased i l (snd (createRestore gen now b u d))"
  by (cases rule: createRestore_cases [of gen now b u d]) (auto elim!: leased_grow)

lemma leased_createDeploymentRun: "leased i l d \<Longrightarrow> leased i l (snd (createDeploymentRun gen now j v a u d))"
  by (cases rule: createDeploymentRun_cases [of gen now j v a u d]) (auto elim!: leased_grow)

lemma leased_createRuntimeOperation:
  assumes "leased i l d" shows "leased i l (after (createRuntimeOperation gen now u a act sc p s d) d)"
proof (rule after_cases [where Q = "leased i l", OF assms])
  fix x e
  assume "createRuntimeOperation gen now u a act sc p s d = Inr (x, e)"
  then show "leased i l e" by (cases rule: createRuntimeOperation_cases) (use assms in \<open>auto elim!: leased_grow\<close>)
qed

lemma leased_createRuntimeLogRequest:
  assumes "leased i l d" shows "leased i l (after (createRuntimeLogRequest gen now u a p s n since d) d)"
proof (rule after_cases [where Q = "leased i l", OF assms])
  fix x e
  assume "createRuntimeLogRequest gen now u a p s n since d = Inr (x, e)"
  then show "leased i l e" by (cases rule: createRuntimeLogRequest_cases) (use assms in \<open>auto elim!: leased_grow\<close>)
qed

lemma leased_purge:
  assumes "leased i l d" shows "leased i l (snd (purgeRuntimeLogResults now t d))"
proof -
  obtain P where "commands (snd (purgeRuntimeLogResults now t d)) =
      update_rows P (\<lambda>c. c\<lparr>cmd_result := Some (without_key ''logs'' (coalesce (cmd_result c) []))\<rparr>) (commands d)"
    using purge_commands by blast
  from leased_update [OF assms this] show ?thesis by (simp add: held_def)
qed

lemma leased_failStaleCommands:
  assumes "leased i l d" shows "leased i l (snd (failStaleCommands gen now t d))"
  by (rule leased_update [OF assms, where P = "stale_command now t" and f = "close_command now CmdFailed stale_result"])
    (simp_all add: fail_commands stale_db_def held_close, simp add: close_command_def)

lemma leased_completeCommand:
  assumes "leased i l d" "s = CmdSucceeded \<or> s = CmdFailed" shows "leased i l (snd (completeCommand gen now a j s res d))"
proof (cases "the_command a j d")
  case (Some c)
  have "leased i l (completed_db gen now a j s res c d)"
    by (rule leased_update [OF assms(1) completed_db_rows(1)])
      (simp_all add: held_close [OF assms(2)], simp add: close_command_def)
  with assms(1) Some show ?thesis by (simp add: completeCommand_cases)
qed (simp add: completeCommand_cases assms(1))

text \<open>A poll takes a command over only when its lease has run out, and leases it anew.\<close>

lemma claim_commands:
  "commands (snd (claimCommands now a n d)) = update_rows (claims now a n d) (claimed_command now) (commands d)"
  by (simp add: claimCommands_eq fold_frame [where g = commands] frame_simps)

lemma leased_claimCommands:
  assumes "leased i l d" "distinct (map cmd_id (commands d))"
  shows "leased i l (snd (claimCommands now a n d))"
  by (rule leased_update [OF assms(1) claim_commands])
    (simp add: claimed_command_def, blast intro: held_claim claims_claimable [OF assms(2)])

section \<open>Any operations\<close>

lemma step_leased:
  assumes lease: "leased i l d" and dist: "distinct (map cmd_id (commands d))" and step: "step gen d e"
  shows "leased i l e"
  using step
proof cases
  case completeCommand
  then show ?thesis by (simp add: leased_completeCommand [OF lease])
qed (simp_all add: leased_createCommand [OF lease] leased_stacks_routes [OF lease] leased_queueStackAction [OF lease]
      leased_queueLogRequest [OF lease] leased_createBackup [OF lease] leased_createRestore [OF lease]
      leased_createDeploymentRun [OF lease] leased_createRuntimeOperation [OF lease]
      leased_createRuntimeLogRequest [OF lease] leased_createConnector [OF lease] leased_updateConnector [OF lease]
      leased_claimCommands [OF lease dist] leased_failStaleCommands [OF lease] leased_purge [OF lease],
    (rule leased_grow [OF lease]; simp add: frame_simps)+)

lemma later_leased:
  assumes gen: "inj gen" and d: "reachable gen d" and steps: "(step gen)\<^sup>*\<^sup>* d e" and lease: "leased i l d"
  shows "leased i l e"
  using steps
proof (induction rule: rtranclp_induct)
  case (step e f)
  from reachable_okD(3) [OF gen reachable_steps [OF step(1) d]]
  have "distinct (map cmd_id (commands e))" by (simp add: queue_ok_def)
  from step_leased [OF step(3) this step(2)] show ?case .
qed (rule lease)

lemma leased_not_claimed:
  assumes "leased i l d" "distinct (map cmd_id (commands d))" "now < l"
  shows "i \<notin> AgentCommand_id ` set (fst (claimCommands now a n d))"
proof
  assume "i \<in> AgentCommand_id ` set (fst (claimCommands now a n d))"
  then obtain c where c: "c \<in> set (commands d)" "claims now a n d c" "cmd_id c = i"
    by (auto simp: claimCommands_eq returning_def command_def claimed_command_def)
  from assms(1) obtain r where r: "r \<in> set (commands d)" "cmd_id r = i" "held l r" by (auto simp: leased_def)
  from distinct_key_eq [OF assms(2) c(1) r(1)] c(3) r(2) have "c = r" by simp
  with claims_claimable [OF assms(2) c(1,2)] held_not_claimable [OF r(3) assms(3)] show False by simp
qed

end
