(* ===== verification/Gw_Guarantees.thy ===== *)
theory Gw_Guarantees
  imports Gw_Sample Gw_Leases
begin

text \<open>
  What the store promises to the rest of the program, in every state its operations reach: leases and
  outcomes of commands, the operations that exclude each other, accounts and sessions, enrolment and
  removal of agents, notifications, guided requests, publications and the recovery records.
\<close>

section \<open>Claims\<close>

lemma length_claimed:
  assumes "distinct (map cmd_id (commands d))"
  shows "length (filter (claims now a n d) (commands d)) \<le> n"
proof -
  let ?ids = "selected_commands now a n d"
  have "length (filter (claims now a n d) (commands d)) = length (filter (\<lambda>i. i \<in> set ?ids) (map cmd_id (commands d)))"
    by (simp add: claims_def [abs_def] filter_map o_def)
  also have "\<dots> = card (set (filter (\<lambda>i. i \<in> set ?ids) (map cmd_id (commands d))))"
    by (rule distinct_card [symmetric]) (simp only: distinct_filter assms)
  also have "\<dots> \<le> card (set ?ids)" by (rule card_mono) auto
  also have "\<dots> \<le> length ?ids" by (rule card_length)
  also have "\<dots> \<le> n" by (simp add: selected_commands_def)
  finally show ?thesis .
qed

lemma claimed_rows:
  assumes "claimCommands now a n d = (cs, e)"
  shows "cs = map command (map (claimed_command now) (filter (claims now a n d) (commands d)))"
    "commands e = update_rows (claims now a n d) (claimed_command now) (commands d)"
  using assms by (auto simp: claimCommands_eq returning_def frame_simps)

lemma claimed_leased:
  assumes "claimCommands now a n d = (cs, e)" "c \<in> set cs"
  shows "leased (AgentCommand_id c) (now + (if long_running (AgentCommand_type c) then 2 * 3600000 else 10 * 60000)) e"
proof -
  note rows = claimed_rows [OF assms(1)]
  from assms(2) obtain r where r: "r \<in> set (commands d)" "claims now a n d r" "c = command (claimed_command now r)"
    by (auto simp: rows(1))
  then have "claimed_command now r \<in> set (commands e)" unfolding rows(2) set_update_rows by force
  moreover have "cmd_id (claimed_command now r) = AgentCommand_id c"
    "held (now + (if long_running (AgentCommand_type c) then 2 * 3600000 else 10 * 60000)) (claimed_command now r)"
    by (simp_all add: held_def r(3) command_def claimed_command_def)
  ultimately show ?thesis unfolding leased_def by blast
qed

text \<open>C11. An agent that polls is handed at most as many commands as it asked for, each of them its own and
  claimed from then on. Whatever operations run afterwards, in whatever order and at whatever times, no
  poll, of any agent and with any limit, is handed one of them again before its lease has run out, which
  is two hours for a backup, a restore and a deployment and ten minutes for any other command.\<close>

theorem claimed_commands_are_leased:
  assumes "inj gen" "reachable gen d" "claimCommands now a n d = (cs, e)" "(step gen)\<^sup>*\<^sup>* e f" "c \<in> set cs"
    and "now' < now + (if long_running (AgentCommand_type c) then 2 * 3600000 else 10 * 60000)"
  shows "length cs \<le> n \<and> AgentCommand_agentId c = a \<and> AgentCommand_status c = CmdClaimed
    \<and> AgentCommand_id c \<notin> AgentCommand_id ` set (fst (claimCommands now' b m f))"
proof -
  have dist: "distinct (map cmd_id (commands d))"
    using reachable_okD(3) [OF assms(1,2)] by (simp add: queue_ok_def)
  have e: "reachable gen e"
    using reachable.more [OF assms(2) step.claimCommands [of gen d now a n]] assms(3) by simp
  have "distinct (map cmd_id (commands f))"
    using reachable_okD(3) [OF assms(1) reachable_steps [OF assms(4) e]] by (simp add: queue_ok_def)
  from leased_not_claimed [OF later_leased [OF assms(1) e assms(4) claimed_leased [OF assms(3,5)]] this assms(6)]
  have "AgentCommand_id c \<notin> AgentCommand_id ` set (fst (claimCommands now' b m f))" .
  moreover have "claimable_command now a r" if "r \<in> set (commands d)" "claims now a n d r" for r
    by (rule claims_claimable [OF dist that])
  ultimately show ?thesis
    using assms(5) length_claimed [OF dist, of now a n]
    by (auto simp: claimed_rows(1) [OF assms(3)] command_def claimed_command_def claimable_command_def)
qed

definition polled_agent :: "AgentCommand list \<times> db" where
  "polled_agent = claimCommands 15 (unary 1) 10 (sample 12)"

text \<open>The agent polls again after nearly ten minutes, after another poll and a pass of the maintenance.\<close>

theorem claimed_commands_are_leased_witness:
  "length (fst polled_agent) \<le> 10 \<and> AgentCommand_agentId (hd (fst polled_agent)) = unary 1
   \<and> AgentCommand_id (hd (fst polled_agent)) \<notin> AgentCommand_id ` set (fst (claimCommands 600014 (unary 1) 10
       (snd (failStaleCommands unary 300000 0 (snd (claimCommands 16 (unary 1) 10 (snd polled_agent)))))))"
proof -
  have head: "hd (fst polled_agent) \<in> set (fst polled_agent)" by (rule hd_in_set) (unfold polled_agent_def sample_states, code_simp)
  have poll: "claimCommands 15 (unary 1) 10 (sample 12) = (fst polled_agent, snd polled_agent)"
    by (simp add: polled_agent_def)
  have later: "(step unary)\<^sup>*\<^sup>* (snd polled_agent)
      (snd (failStaleCommands unary 300000 0 (snd (claimCommands 16 (unary 1) 10 (snd polled_agent)))))"
    by (rule rtranclp.rtrancl_into_rtrancl [OF r_into_rtranclp]) (rule step.intros)+
  have "600014 < 15 + (if long_running (AgentCommand_type (hd (fst polled_agent))) then 2 * 3600000 else 10 * 60000 :: int)"
    by simp
  from claimed_commands_are_leased [OF inj_unary reachable_sample poll later head this, of "unary 1" 10]
  show ?thesis by blast
qed

section \<open>Completions\<close>

text \<open>C12. The outcome of a command is recorded once. After a completion was accepted, repeating it is
  recognised and changes nothing, and reporting the other outcome is refused and changes nothing.\<close>

theorem outcome_is_recorded_once:
  assumes "st = CmdSucceeded \<or> st = CmdFailed" "completeCommand gen now a i st res d = (Updated, e)"
  shows "completeCommand gen now' a i st res e = (Idempotent, e)
    \<and> (\<forall>st' res'. st' \<noteq> st \<longrightarrow> completeCommand gen now' a i st' res' e = (Conflict, e))"
proof -
  from assms(2) obtain c where c: "the_command a i d = Some c" and e: "e = completed_db gen now a i st res c d"
    by (auto simp: completeCommand_cases split: option.splits if_splits)
  let ?f = "close_command now st (command_result (cmd_type c) res)"
  have "commands e = update_rows (\<lambda>r. cmd_id r = i \<and> cmd_agent_id r = a) ?f (commands d)"
    unfolding e completed_db_def by (simp add: frame_simps)
  moreover have "find P (update_rows P ?f t) = map_option ?f (find P t)" if "\<And>r. P (?f r) = P r" for P t
    using that by (induction t) auto
  ultimately have "the_command a i e = Some (?f c)"
    using c by (simp add: the_command_def close_command_def)
  with assms(1) show ?thesis
    by (auto simp: completeCommand_cases same_outcome_def close_command_def)
qed

theorem outcome_is_recorded_once_witness:
  "completeCommand unary 18 (unary 1) (unary 9) CmdSucceeded [] (sample 20) = (Idempotent, sample 20)
   \<and> completeCommand unary 18 (unary 1) (unary 9) CmdFailed [] (sample 20) = (Conflict, sample 20)"
proof -
  have "fst (completeCommand unary 18 (unary 1) (unary 9) CmdSucceeded [] (sample 19)) = Updated" by (unfold sample_states, code_simp)
  moreover have "snd (completeCommand unary 18 (unary 1) (unary 9) CmdSucceeded [] (sample 19)) = sample 20"
    by (rule sample_20_step [symmetric])
  ultimately have "completeCommand unary 18 (unary 1) (unary 9) CmdSucceeded [] (sample 19) = (Updated, sample 20)"
    by (simp add: prod_eq_iff)
  from outcome_is_recorded_once [OF disjI1 [OF refl] this, of 18] show ?thesis by simp
qed

section \<open>Exclusion\<close>

lemma at_most_one_of:
  assumes "unique_where live key t"
  shows "length (filter (\<lambda>r. live r \<and> key r = k) t) \<le> 1"
proof -
  have "map key (filter (\<lambda>r. live r \<and> key r = k) t) = filter (\<lambda>x. x = k) (map key (filter live t))"
    by (induction t) auto
  then have "length (filter (\<lambda>r. live r \<and> key r = k) t) = length (filter (\<lambda>x. x = k) (map key (filter live t)))"
    by (metis length_map)
  also have "length (filter (\<lambda>x. x = k) ys) \<le> 1" if "distinct ys" for ys
    using that by (induction ys) (auto simp: filter_empty_conv)
  then have "length (filter (\<lambda>x. x = k) (map key (filter live t))) \<le> 1"
    using assms by (simp only: unique_where_def)
  finally show ?thesis .
qed

text \<open>C14. In every reachable state a stack has at most one operation under way: one backup or one
  restore that is pending or running, never two and never one of each.\<close>

theorem one_stack_operation:
  assumes "inj gen" "reachable gen d"
  shows "length (filter (\<lambda>b. live_op (bkp_status b) \<and> bkp_stack_id b = s) (backups d))
    + length (filter (\<lambda>r. live_op (rst_status r) \<and> rst_stack_id r = s) (restores d)) \<le> 1"
proof -
  have ok: "stack_ops_ok d" by (rule reachable_okD(6) [OF assms])
  then have "length (filter (\<lambda>b. live_op (bkp_status b) \<and> bkp_stack_id b = s) (backups d)) \<le> 1"
    "length (filter (\<lambda>r. live_op (rst_status r) \<and> rst_stack_id r = s) (restores d)) \<le> 1"
    by (auto simp: stack_ops_ok_def intro: at_most_one_of [where live = "\<lambda>b. live_op (bkp_status b)", simplified] at_most_one_of [where live = "\<lambda>b. live_op (rst_status b)", simplified])
  moreover have "filter (\<lambda>b. live_op (bkp_status b) \<and> bkp_stack_id b = s) (backups d) = []
    \<or> filter (\<lambda>r. live_op (rst_status r) \<and> rst_stack_id r = s) (restores d) = []"
    using ok by (auto simp: stack_ops_ok_def filter_empty_conv)
  ultimately show ?thesis by auto
qed

theorem one_stack_operation_witness:
  "length (filter (\<lambda>b. live_op (bkp_status b) \<and> bkp_stack_id b = unary 2) (backups (sample 12)))
    + length (filter (\<lambda>r. live_op (rst_status r) \<and> rst_stack_id r = unary 2) (restores (sample 12))) \<le> 1"
  by (rule one_stack_operation [OF inj_unary reachable_sample])



text \<open>C15. In every reachable state no two runtime actions under way touch the same containers: of two
  pending or running actions at one agent and project, neither is on the whole project and they are on
  different services.\<close>

theorem runtime_actions_exclude:
  assumes "inj gen" "reachable gen d" "i < j" "j < length (runtime_ops d)"
    "live_op (rop_status (runtime_ops d ! i))" "live_op (rop_status (runtime_ops d ! j))"
  shows "\<not> targets_clash (runtime_target (runtime_ops d ! i)) (runtime_target (runtime_ops d ! j))"
  using sorted_wrt_nth_less [OF reachable_okD(7) [OF assms(1,2), unfolded runtime_ops_ok_def] assms(3,4)] assms(5,6)
  by simp

definition two_actions :: db where
  "two_actions = after (createRuntimeOperation unary 19 (unary 0) (unary 1) ActStop ScopeProject ''other'' None (sample 12)) (sample 12)"

theorem runtime_actions_exclude_witness:
  "\<not> targets_clash (runtime_target (runtime_ops two_actions ! 0)) (runtime_target (runtime_ops two_actions ! 1))"
proof (rule runtime_actions_exclude [OF inj_unary])
  show "reachable unary two_actions"
    unfolding two_actions_def by (rule reachable.more [OF reachable_sample]) (rule step.intros)
  show "live_op (rop_status (runtime_ops two_actions ! 0))" "live_op (rop_status (runtime_ops two_actions ! 1))"
    "1 < length (runtime_ops two_actions)"
    by (unfold two_actions_def sample_states) code_simp+
qed simp

text \<open>C16. In every reachable state a deployment has at most one run that is pending or running, the
  revision a run deploys and the one it would fall back to are revisions of that deployment, and so is
  the revision the deployment says is current.\<close>

theorem deployment_runs_are_sound:
  assumes "inj gen" "reachable gen d"
  shows "length (filter (\<lambda>r. live_op (run_status r) \<and> run_deployment_id r = t) (runs d)) \<le> 1
    \<and> (\<forall>r \<in> set (runs d). owns_revision d (run_deployment_id r) (run_revision_id r)
        \<and> (\<forall>v. run_prior_revision_id r = Some v \<longrightarrow> owns_revision d (run_deployment_id r) v))
    \<and> (\<forall>p \<in> set (deployments d). \<forall>v. dpl_current_revision_id p = Some v \<longrightarrow> owns_revision d (dpl_id p) v)"
  using reachable_okD(8) [OF assms] at_most_one_of [of "\<lambda>r. live_op (run_status r)" run_deployment_id "runs d" t]
  by (auto simp: deploy_ok_def run_rows_ok_def deployment_rows_ok_def)

theorem deployment_runs_are_sound_witness:
  "owns_revision (sample 20) (run_deployment_id (hd (runs (sample 20)))) (run_revision_id (hd (runs (sample 20))))"
proof -
  have "hd (runs (sample 20)) \<in> set (runs (sample 20))" by (rule hd_in_set) (unfold sample_states, code_simp)
  with deployment_runs_are_sound [OF inj_unary reachable_sample] show ?thesis by blast
qed

text \<open>C18. In every reachable state there is at most one owner, no two users share an e-mail address in any
  spelling of its letters, and no two sessions share a token.\<close>

theorem accounts_are_unique:
  assumes "inj gen" "reachable gen d"
  shows "length (filter (\<lambda>u. usr_role u = Owner) (users d)) \<le> 1
    \<and> distinct (map (\<lambda>u. lower (usr_email u)) (users d)) \<and> distinct (map ses_token_hash (sessions d))"
  using reachable_okD(1) [OF assms] at_most_one_of [of "\<lambda>u. usr_role u = Owner" usr_role "users d" Owner]
  by (auto simp: users_ok_def unique_where_def cong: conj_cong)

theorem accounts_are_unique_witness:
  "length (filter (\<lambda>u. usr_role u = Owner) (users (sample 22))) \<le> 1"
  using accounts_are_unique [OF inj_unary reachable_sample, of 22] by blast

section \<open>Sessions\<close>

text \<open>
  What the sessions promise, without tables: a token is either unknown or stands for a user until a
  time. Creating, deleting and looking up are the operations of a finite map.
\<close>

definition session_map :: "db \<Rightarrow> string \<Rightarrow> (uuid \<times> time) option" where
  "session_map d tok = map_option (\<lambda>s. (ses_user_id s, ses_expires_at s)) (find (\<lambda>s. ses_token_hash s = tok) (sessions d))"

definition session_user :: "db \<Rightarrow> time \<Rightarrow> string \<Rightarrow> User option" where
  "session_user d now tok = (case session_map d tok of
      Some (u, t) \<Rightarrow> if now < t then map_option user (find (\<lambda>r. usr_id r = u) (users d)) else None
    | None \<Rightarrow> None)"

lemma find_delete:
  "(\<And>r. P r \<Longrightarrow> Q r) \<Longrightarrow> find P (delete_rows Q t) = None"
  "(\<And>r. P r \<Longrightarrow> \<not> Q r) \<Longrightarrow> find P (delete_rows Q t) = find P t"
  by (induction t) auto

lemma find_conj_unique:
  assumes "distinct (map k t)"
  shows "find (\<lambda>s. k s = i \<and> Q s) t = (case find (\<lambda>s. k s = i) t of Some s \<Rightarrow> if Q s then Some s else None | None \<Rightarrow> None)"
  using assms
proof (induction t)
  case (Cons a t)
  have "find (\<lambda>s. k s = i \<and> Q s) t = None" if "k a = i"
    using Cons.prems that by (auto simp: find_none_iff image_iff)
  with Cons show ?case by (auto split: option.split)
qed simp

text \<open>C17. The table of sessions refines a finite map from tokens to users and times: in every reachable
  state creating a session with a new token adds one entry and with a known token is refused, deleting
  one removes that entry only, and looking a token up answers from the entry, while it has not
  expired, and leaves the map as it is.\<close>

theorem sessions_refine_map:
  assumes "inj gen" "reachable gen d"
  shows "(case createSession now u tok t d of
        Inr e \<Rightarrow> session_map d tok = None \<and> session_map e = (session_map d)(tok \<mapsto> (u, t))
      | Inl err \<Rightarrow> session_map d tok \<noteq> None)
    \<and> session_map (deleteSession tok d) = (session_map d)(tok := None)
    \<and> fst (findSessionUser now tok d) = session_user d now tok
    \<and> session_map (snd (findSessionUser now tok d)) = session_map d"
proof -
  have dist: "distinct (map ses_token_hash (sessions d))"
    using reachable_okD(1) [OF assms] by (simp add: users_ok_def unique_where_def)
  have "case createSession now u tok t d of
        Inr e \<Rightarrow> session_map d tok = None \<and> session_map e = (session_map d)(tok \<mapsto> (u, t))
      | Inl err \<Rightarrow> session_map d tok \<noteq> None"
    by (auto simp: createSession_def session_map_def find_append find_none_iff fun_eq_iff dest: find_someD split: option.split)
  moreover have "session_map (deleteSession tok d) x = ((session_map d)(tok := None)) x" for x
    by (cases "x = tok") (simp_all add: deleteSession_def session_map_def find_delete)
  moreover have "fst (findSessionUser now tok d) = session_user d now tok"
    by (simp add: findSessionUser_def session_user_def session_map_def Let_def find_conj_unique [OF dist] split: option.split)
  moreover have "session_map (snd (findSessionUser now tok d)) x = session_map d x" for x
  proof -
    have "find P (update_rows Q f ss) = map_option (\<lambda>s. if Q s then f s else s) (find P ss)"
      if "\<And>s. P (f s) = P s" for P Q f and ss :: "session_row list"
      using that by (induction ss) auto
    then show ?thesis
      by (auto simp: findSessionUser_def session_map_def Let_def option.map_comp intro!: option.map_cong)
  qed
  ultimately show ?thesis by (simp add: fun_eq_iff)
qed

theorem sessions_refine_map_witness:
  "session_map (after_unit (createSession 50 (unary 0) ''tok'' 100 (sample 1)) (sample 1)) ''tok'' = Some (unary 0, 100)"
proof -
  have "createSession 50 (unary 0) ''tok'' 100 (sample 1) = Inr (after_unit (createSession 50 (unary 0) ''tok'' 100 (sample 1)) (sample 1))"
    by (unfold sample_1, simp add: createSession_def after_unit_def) code_simp
  with sessions_refine_map [OF inj_unary reachable_sample [of 1], where now = 50 and u = "unary 0" and tok = "''tok''" and t = 100]
  show ?thesis by (auto simp del: One_nat_def split: sum.splits)
qed



section \<open>Agents\<close>

text \<open>C19. An enrolment token works once. When an agent enrols with it, the agent can authenticate with its
  new credential from then on, and every later attempt to enrol with the same token, with any
  credential, is refused.\<close>

theorem enrolment_token_works_once:
  assumes "enrollAgent now dn tok cred d = (Some a, e)" "now \<le> now'"
  shows "fst (enrollAgent now' dn' tok cred' e) = None \<and> (\<exists>b. authenticateAgent dn' cred e = Some b)"
proof -
  have e: "e = d\<lparr>agents := update_rows (enrollable now tok) (enroll_row now cred) (agents d)\<rparr>"
    using assms(1) by (simp add: enrollAgent_def)
  have "\<not> enrollable now' tok r" if "r \<in> set (agents e)" for r
    using that unfolding e
    by (auto simp: set_update_rows not_enrollable_enrolled dest: enrollable_later [OF assms(2)] split: if_splits)
  then have "fst (enrollAgent now' dn' tok cred' e) = None"
    by (simp add: enrollAgent_def find_none_iff)
  with enrolled_authenticates [of now dn tok cred d a dn'] assms(1) show ?thesis by simp
qed

theorem enrolment_token_works_once_witness:
  "fst (enrollAgent 3 3 ''token'' ''other'' (snd (enrollAgent 2 2 ''token'' ''credential'' (sample 2)))) = None"
proof -
  have "fst (enrollAgent 2 2 ''token'' ''credential'' (sample 2)) \<noteq> None" by (unfold sample_states, code_simp)
  then obtain a where "enrollAgent 2 2 ''token'' ''credential'' (sample 2) = (Some a, snd (enrollAgent 2 2 ''token'' ''credential'' (sample 2)))"
    by (auto simp: prod_eq_iff)
  from enrolment_token_works_once [OF this] show ?thesis by simp
qed

text \<open>C20. An agent that was removed can do nothing any more and has nothing left to do: no credential
  authenticates it, no connector, stack, route or deployment belongs to it, and no command of it is pending
  or claimed. What is recorded about it stays as it was, its finished commands, telemetry and events
  included: the removal writes the table of agents and no other.\<close>

theorem removed_agents_are_gone:
  assumes "inj gen" "reachable gen d" "removeAgent now i d = (r, e)" "r = RemovedDeleted \<or> r = RemovedArchived"
  shows "\<not> agent_enabled i e \<and> (\<forall>dn c a. authenticateAgent dn c e = Some a \<longrightarrow> Agent_id a \<noteq> i)
    \<and> (\<forall>k \<in> set (connectors e). con_agent_id k \<noteq> i) \<and> (\<forall>s \<in> set (stacks e). stk_agent_id s \<noteq> i)
    \<and> (\<forall>t \<in> set (routes e). rte_gateway_agent_id t \<noteq> i) \<and> (\<forall>t \<in> set (deployments e). dpl_agent_id t \<noteq> i)
    \<and> (\<forall>c \<in> set (commands e). live_command c \<longrightarrow> cmd_agent_id c \<noteq> i) \<and> e = d\<lparr>agents := agents e\<rparr>"
proof -
  have "reachable gen e"
    using reachable.more [OF assms(2) step.removeAgent [of gen d now i]] assms(3) by simp
  from reachable_okD(4) [OF assms(1) this] have owners: "owners_ok e" .
  have "agents e = delete_rows (\<lambda>r. ag_id r = i) (agents d) \<or> agents e = update_rows (\<lambda>r. ag_id r = i) (archive_agent now) (agents d)"
  proof (cases "find (\<lambda>r. ag_id r = i \<and> ag_archived_at r = None) (agents d)")
    case None
    with assms(3,4) show ?thesis by (auto simp: removeAgent_def)
  next
    case (Some a)
    then have "(r, e) = (if agent_blocked i d then (RemovalBlocked, d)
      else if ag_enrolled_at a = None \<and> \<not> agent_referenced i d
      then (if agent_restricted i d then (RemovalRaised, d)
            else (RemovedDeleted, d\<lparr>agents := delete_rows (\<lambda>r. ag_id r = i) (agents d)\<rparr>))
      else (RemovedArchived, d\<lparr>agents := update_rows (\<lambda>r. ag_id r = i) (archive_agent now) (agents d)\<rparr>))"
      using assms(3) by (simp only: removeAgent_def option.case)
    with assms(4) show ?thesis by (auto split: if_split_asm)
  qed
  moreover have "\<not> exists_row (\<lambda>r. ag_id r = i \<and> ag_enabled r) (delete_rows (\<lambda>r. ag_id r = i) (agents d))"
    by (simp add: delete_rows_def)
  moreover have "\<not> exists_row (\<lambda>r. ag_id r = i \<and> ag_enabled r) (update_rows (\<lambda>r. ag_id r = i) (archive_agent now) (agents d))"
  proof -
    have "\<not> ag_enabled (archive_agent now x)" for x by (simp add: archive_agent_def)
    then show ?thesis by (simp add: set_update_rows ball_Un)
  qed
  ultimately have gone: "\<not> agent_enabled i e"
    unfolding agent_enabled_def by (elim disjE) (simp_all del: exists_row_iff)
  moreover have "Agent_id a \<noteq> i" if "authenticateAgent dn c e = Some a" for dn c a
    using that gone by (auto simp: authenticateAgent_def agent_enabled_def agent_def dest!: find_someD)
  moreover have "e = d\<lparr>agents := agents e\<rparr>"
    using assms(3) by (auto simp: removeAgent_def split: option.splits if_splits)
  ultimately show ?thesis using owners by (auto simp: owners_ok_def)
qed

theorem removed_agents_are_gone_witness:
  "\<not> agent_enabled (unary 1) (snd (removeAgent 9 (unary 1) (sample 4)))"
proof -
  have "fst (removeAgent 9 (unary 1) (sample 4)) = RemovedArchived" by (unfold sample_states, code_simp)
  then have "removeAgent 9 (unary 1) (sample 4) = (RemovedArchived, snd (removeAgent 9 (unary 1) (sample 4)))"
    by (simp add: prod_eq_iff)
  from removed_agents_are_gone [OF inj_unary reachable_sample this] show ?thesis by simp
qed

text \<open>The offline sweep reports every silent agent exactly once: it records one event for each enabled
  and enrolled agent whose last heartbeat is too old and that was not reported yet, in the order of the
  table, and a second sweep with the same limit records nothing and changes nothing.\<close>

theorem sweep_reports_once:
  fixes gen now b d
  defines "e \<equiv> snd (sweepOfflineAgents gen now b d)"
  shows "map evt_type (events e) = map evt_type (events d) @ replicate (fst (sweepOfflineAgents gen now b d)) AgentOffline
    \<and> map evt_agent_id (events e) = map evt_agent_id (events d) @ map (\<lambda>r. Some (ag_id r)) (filter (went_offline b) (agents d))
    \<and> sweepOfflineAgents gen now' b e = (0, e)"
  unfolding e_def using sweep_again [OF refl, of gen now' b now d]
  by (simp add: sweep_events sweep_event_agents prod_eq_iff)

section \<open>Notifications\<close>

text \<open>Recording an event puts a notification in the queue exactly when notifications are configured, the
  kind of event is selected and neither the agent nor the service is muted; and right after an agent is
  switched off nothing about it is queued, and right after it is switched on again its own events are
  queued as before.\<close>

theorem muted_agents_are_silent:
  assumes "inj gen" "reachable gen d" "setAgentNotificationPreference lim now dn i on u d = (Some p, e)"
    "ev_agentId v = Some i" "ev_serviceName v = None"
  shows "length (deliveries (enqueueEvent gen' now' t v e)) = length (deliveries e) +
    (if on \<and> delivery_wanted t None None None d then 1 else 0)"
proof -
  from assms(3) have e: "e = upsert_scope now i None None on u d"
    by (auto simp: setAgentNotificationPreference_def Let_def split: if_splits simp del: exists_row_iff)
  have "agent_muted i e = (\<not> on)"
    unfolding e using upsert_scope_muted(1) [OF reachable_okD(10) [OF assms(1,2)], of i now i on u] by simp
  moreover have "settings e = settings d" unfolding e by (simp add: upsert_scope_def Let_def)
  ultimately show ?thesis
    by (auto simp: enqueueEvent_deliveries delivery_wanted_def assms(4,5) split: option.split)
qed

definition small_limits :: topology_limits where
  "small_limits = \<lparr>max_agents = 10, max_services = 10, max_scopes = 10\<rparr>"

theorem muted_agents_are_silent_witness:
  "deliveries (enqueueEvent unary 400003 AgentOffline (no_scope\<lparr>ev_agentId := Some (unary 1)\<rparr>)
     (snd (setAgentNotificationPreference small_limits 400002 400002 (unary 1) False (unary 0) (sample 20)))) = []"
proof -
  let ?r = "setAgentNotificationPreference small_limits 400002 400002 (unary 1) False (unary 0) (sample 20)"
  have "fst ?r \<noteq> None" by (unfold sample_states, code_simp)
  then obtain p where "?r = (Some p, snd ?r)" by (auto simp: prod_eq_iff)
  from muted_agents_are_silent [OF inj_unary reachable_sample this, of "no_scope\<lparr>ev_agentId := Some (unary 1)\<rparr>" unary 400003 AgentOffline]
  have "length (deliveries (enqueueEvent unary 400003 AgentOffline (no_scope\<lparr>ev_agentId := Some (unary 1)\<rparr>) (snd ?r))) = length (deliveries (snd ?r))"
    by (simp add: no_scope_def)
  moreover have "deliveries (snd ?r) = []" by (unfold sample_states, code_simp)
  ultimately show ?thesis by simp
qed

section \<open>Guided operations and publications\<close>

text \<open>A guided request is carried out once per idempotency key: repeating the request of a user with
  the same kind and key returns the operation the first one created or found, as it is, whatever the
  repeated body is, is not counted as a creation and changes nothing.\<close>

theorem guided_requests_are_idempotent:
  assumes "createOrGetGuidedOperation gen now kind key u h req d = ((op, created), e)"
  shows "createOrGetGuidedOperation gen' now' kind key u h' req' e = ((op, False), e)"
  using assms
  by (auto simp: createOrGetGuidedOperation_def guided_key_def draw_def Let_def find_append split: option.splits)

theorem guided_requests_are_idempotent_witness:
  "snd (fst (createOrGetGuidedOperation unary 22 DomainPublish ''key-0001'' (unary 0) ''other'' ''sealed''
      (snd (createOrGetGuidedOperation unary 21 DomainPublish ''key-0001'' (unary 0) ''hash'' ''sealed'' (sample 20))))) = False"
proof -
  let ?r = "createOrGetGuidedOperation unary 21 DomainPublish ''key-0001'' (unary 0) ''hash'' ''sealed'' (sample 20)"
  have "?r = ((fst (fst ?r), snd (fst ?r)), snd ?r)" by simp
  from guided_requests_are_idempotent [OF this] show ?thesis by (simp only: fst_conv snd_conv)
qed

text \<open>C21. A publication that was accepted is sound: its host name is the zone's name or ends in a dot and
  the zone's name, the account is enabled, the zone active and the account's, the route enabled and
  deployed; through a tunnel, the connector is enabled, its token verified as one of the account, and
  it runs on the agent that serves the route; at public addresses, it has at least one and at most four
  of each family. It starts pending at revision one, and no other publication has its route or its
  host name.\<close>

theorem publications_are_sound:
  assumes "createPendingDomainAccess gen now a z r m k v4 v6 b d = Inr (Some x, e)"
    "\<forall>z \<in> set (zones d). plain (lower (zon_name z))"
  shows "\<exists>h zr ar rr. domains e = domains d @ [h] \<and> dom_status h = DomPending \<and> dom_revision h = 1 \<and> dom_enabled h
    \<and> zr \<in> set (zones d) \<and> ar \<in> set (accounts d) \<and> rr \<in> set (routes d)
    \<and> dom_cloudflare_zone_id h = zon_id zr \<and> dom_cloudflare_account_id h = acc_id ar \<and> dom_route_id h = rte_id rr
    \<and> (lower (dom_hostname h) = lower (zon_name zr) \<or> suffix_of (CHR ''.'' # lower (zon_name zr)) (lower (dom_hostname h)))
    \<and> acc_enabled ar \<and> zon_status zr = ''active'' \<and> zon_cloudflare_account_id zr = acc_id ar
    \<and> rte_enabled rr \<and> rte_status rr = DepActive
    \<and> (m = Tunnel \<longrightarrow> (\<exists>c \<in> set (connectors d). dom_connector_id h = Some (con_id c) \<and> tunnel_ready ar rr c))
    \<and> (m = PublicIp \<longrightarrow> rte_exposure rr = ExpPublic \<and> v4 @ v6 \<noteq> [] \<and> length v4 \<le> 4 \<and> length v6 \<le> 4)
    \<and> (\<forall>h' \<in> set (domains d). dom_route_id h' \<noteq> dom_route_id h \<and> lower (dom_hostname h') \<noteq> lower (dom_hostname h))"
proof -
  from assms(1) obtain zr ar rr c where src: "domain_source a z r m k d = Some (zr, ar, rr, c)"
    by (cases "domain_source a z r m k d") (auto simp: createPendingDomainAccess_def)
  define h where "h = \<lparr>dom_id = gen (draws d), dom_cloudflare_zone_id = zon_id zr, dom_cloudflare_account_id = acc_id ar,
                dom_connector_id = map_option con_id c, dom_route_id = rte_id rr, dom_hostname = rte_hostname rr,
                dom_access_method = m, dom_public_ipv4 = v4, dom_public_ipv6 = v6,
                dom_dns_record_id = None, dom_enabled = True, dom_revision = 1, dom_proxied = b,
                dom_status = DomPending, dom_last_error = None, dom_last_reconciled_at = None,
                dom_tls_status = TlsNotObserved, dom_tls_issuer = None, dom_tls_valid_to = None,
                dom_tls_observed_at = None, dom_tls_error = None,
                dom_deployed_account_identifier = acc_account_identifier ar,
                dom_deployed_zone_identifier = zon_zone_identifier zr,
                dom_deployed_tunnel_id = Option.bind c con_tunnel_id, dom_created_at = now, dom_updated_at = now\<rparr>"
  from assms(1) have new: "domains e = domains d @ [h]" "domain_checks h"
    "\<not> exists_row (\<lambda>h. dom_route_id h = rte_id rr \<or> lower (dom_hostname h) = lower (rte_hostname rr)) (domains d)"
    by (auto simp: createPendingDomainAccess_def src draw_def Let_def h_def simp del: exists_row_iff split: if_splits)
  from src have mem: "zr \<in> set (zones d)" "ar \<in> set (accounts d)" "rr \<in> set (routes d)"
    by (auto simp: domain_source_def Let_def dest!: find_someD split: option.splits if_splits)
  from src have cond: "zon_cloudflare_account_id zr = acc_id ar" "acc_enabled ar" "zon_status zr = ''active''"
    "rte_enabled rr" "rte_status rr = DepActive"
    "lower (rte_hostname rr) = lower (zon_name zr) \<or> like (''%.'' @ lower (zon_name zr)) (lower (rte_hostname rr))"
    by (auto simp: domain_source_def Let_def split: option.splits if_splits)
  have plain: "plain (CHR ''.'' # lower (zon_name zr))"
    using assms(2) mem(1) by (simp add: plain_def)
  have tun: "m = Tunnel \<Longrightarrow> \<exists>k \<in> set (connectors d). c = Some k \<and> tunnel_ready ar rr k"
  proof -
    assume "m = Tunnel"
    have c: "c = (case k of None \<Rightarrow> None | Some i \<Rightarrow> find (\<lambda>c. con_id c = i) (connectors d))"
      using src by (auto simp: domain_source_def Let_def split: option.splits if_splits)
    with src \<open>m = Tunnel\<close> have "case c of None \<Rightarrow> False | Some k \<Rightarrow> tunnel_ready ar rr k"
      unfolding domain_source_def Let_def c [symmetric] by (auto split: option.splits if_splits)
    with c show ?thesis by (auto dest: find_someD split: option.splits)
  qed
  have pub: "m = PublicIp \<Longrightarrow> rte_exposure rr = ExpPublic"
    using src by (auto simp: domain_source_def Let_def split: option.splits if_splits)
  show ?thesis
    using new cond mem tun pub like_suffix [OF plain, of "lower (rte_hostname rr)"]
    by (intro exI [of _ h] exI [of _ zr] exI [of _ ar] exI [of _ rr]) (auto simp: h_def domain_checks_def)
qed

theorem publications_are_sound_witness:
  "\<exists>h zr. domains (sample 19) = domains (sample 18) @ [h] \<and> zr \<in> set (zones (sample 18)) \<and> zon_status zr = ''active''
     \<and> dom_cloudflare_zone_id h = zon_id zr \<and> dom_revision h = 1"
proof -
  let ?r = "createPendingDomainAccess unary 17 (unary 12) (unary 13) (unary 16) Tunnel (Some (unary 14)) [] [] True (sample 18)"
  have "case ?r of Inr (Some x, e) \<Rightarrow> True | _ \<Rightarrow> False" by (unfold sample_states, code_simp)
  moreover have "after ?r (sample 18) = sample 19" by (rule sample_19_step [symmetric])
  ultimately obtain x where r: "?r = Inr (Some x, sample 19)"
    by (auto simp: after_def split: sum.splits option.splits)
  have "\<forall>z \<in> set (zones (sample 18)). plain (lower (zon_name z))" by (unfold sample_states, code_simp)
  from publications_are_sound [OF r this] show ?thesis by (elim exE conjE) (intro exI conjI)
qed

text \<open>C22. Reconciliation cannot overwrite a newer request. Once a publication was enabled, disabled or
  queued again, what a reconciliation of the revision before writes back, an outcome or a DNS record, is
  dropped: it is told so and the state stays as it is.\<close>

theorem stale_reconciliations_are_dropped:
  assumes "\<forall>h \<in> set (domains d). dom_id h = i \<longrightarrow> n \<le> dom_revision h"
    and "setDomainAccessPending now i b d = (x, e)"
  shows "markDomainAccessOutcome now' i n st err e = Inr (None, e)
    \<and> saveDomainAccessDnsRecord now' i n ty content rid mk e = Inr (None, e)
    \<and> fst (markDomainAccessDnsRecordStatus i n rid rst err e) = False
    \<and> snd (markDomainAccessDnsRecordStatus i n rid rst err e) = e"
proof -
  have e: "e = d\<lparr>domains := update_rows (\<lambda>h. dom_id h = i) (pending_domain now b) (domains d)\<rparr>"
    using assms(2) by (auto simp: setDomainAccessPending_def Let_def)
  have "\<not> at_revision i n (pending_domain now b h)" if "h \<in> set (domains d)" "dom_id h = i" for h
    using bspec [OF assms(1) that(1)] that(2) by (simp add: at_revision_def pending_domain_def)
  then have old: "\<forall>h \<in> set (domains e). \<not> at_revision i n h"
    by (simp add: e set_update_rows ball_Un) (simp add: at_revision_def)
  then have none: "\<not> exists_row (at_revision i n) (domains e)" "find (at_revision i n) (domains e) = None"
    by (auto simp: find_none_iff)
  then show ?thesis
    by (simp add: markDomainAccessOutcome_def saveDomainAccessDnsRecord_def markDomainAccessDnsRecordStatus_def Let_def
        count_rows_def update_rows_none del: exists_row_iff)
qed

theorem stale_reconciliations_are_dropped_witness:
  "markDomainAccessOutcome 20 (unary 18) 1 DomActive None (snd (setDomainAccessPending 19 (unary 18) (Some False) (sample 19)))
     = Inr (None, snd (setDomainAccessPending 19 (unary 18) (Some False) (sample 19)))"
proof -
  have "\<forall>h \<in> set (domains (sample 19)). dom_id h = unary 18 \<longrightarrow> 1 \<le> dom_revision h" by (unfold sample_states, code_simp)
  from stale_reconciliations_are_dropped [OF this prod.collapse [symmetric]] show ?thesis by simp
qed

section \<open>System recovery\<close>

text \<open>C33. In every reachable state at most one imported backup is being uploaded or validated and at most
  one recovery request is active; an import that has arrived has a size and a checksum; and an import
  is completed exactly when it is no longer active.\<close>

theorem one_recovery_activity:
  assumes "inj gen" "reachable gen d"
  shows "length (filter active_import (backup_imports d)) \<le> 1 \<and> length (filter active_recovery (recovery_requests d)) \<le> 1
    \<and> (\<forall>r \<in> set (backup_imports d). active_import r = (sim_completed_at r = None)
        \<and> (sim_status r \<in> {ImUploaded, ImValidating, ImImported} \<longrightarrow> sim_size_bytes r \<noteq> None \<and> sim_checksum r \<noteq> None))"
  using reachable_okD(9) [OF assms] at_most_one_of [of active_import "\<lambda>_. ()" "backup_imports d" "()"]
    at_most_one_of [of active_recovery "\<lambda>_. ()" "recovery_requests d" "()"]
  by (auto simp: recovery_ok_def list_all_iff import_checks_def)

theorem one_recovery_activity_witness:
  "length (filter active_import (backup_imports (snd (createSystemBackupImport unary 20 (unary 0) ''/backups/in.tar'' (sample 20))))) \<le> 1"
proof -
  have "reachable unary (snd (createSystemBackupImport unary 20 (unary 0) ''/backups/in.tar'' (sample 20)))"
    by (rule reachable.more [OF reachable_sample]) (rule step.intros)
  from one_recovery_activity [OF inj_unary this] show ?thesis by simp
qed

end
