(* ===== verification/Gw_Js.thy ===== *)
theory Gw_Js
  imports Complex_Main Gw_Prelude
begin

text \<open>
  What the pure modules use of the JavaScript library: the string methods, the conversion of
  a string to a number, \<open>encodeURIComponent\<close>, regular expressions as predicates on strings,
  and a result type with its sequencing for code that throws. A character stands for a UTF-16
  code unit below 256. Numbers are exact: the rounding of a double is not modelled.
\<close>

named_theorems js_simps \<open>unfolding of the string predicates\<close>

section \<open>Code that throws\<close>

text \<open>\<open>Inl\<close> is the exception; \<open>bind_ok\<close> is the sequence, \<open>check\<close> an \<open>if (..) throw\<close>.\<close>

definition bind_ok :: "'e + 'a \<Rightarrow> ('a \<Rightarrow> 'e + 'b) \<Rightarrow> 'e + 'b" where
  "bind_ok r f = (case r of Inl e \<Rightarrow> Inl e | Inr x \<Rightarrow> f x)"

definition check :: "bool \<Rightarrow> 'e \<Rightarrow> 'e + unit" where
  "check ok e = (if ok then Inr () else Inl e)"

fun map_ok :: "('a \<Rightarrow> 'e + 'b) \<Rightarrow> 'a list \<Rightarrow> 'e + 'b list" where
  "map_ok f [] = Inr []"
| "map_ok f (x # xs) = bind_ok (f x) (\<lambda>y. bind_ok (map_ok f xs) (\<lambda>ys. Inr (y # ys)))"

text \<open>A loop over a list that carries a state and may throw.\<close>

fun fold_ok :: "('a \<Rightarrow> 's \<Rightarrow> 'e + 's) \<Rightarrow> 'a list \<Rightarrow> 's \<Rightarrow> 'e + 's" where
  "fold_ok f [] s = Inr s"
| "fold_ok f (x # xs) s = bind_ok (f x s) (\<lambda>s'. fold_ok f xs s')"

definition succeeds :: "'e + 'a \<Rightarrow> bool" where
  "succeeds r \<longleftrightarrow> (case r of Inl _ \<Rightarrow> False | Inr _ \<Rightarrow> True)"

lemma bind_ok_simps [simp]: "bind_ok (Inl e) f = Inl e" "bind_ok (Inr x) f = f x"
  by (simp_all add: bind_ok_def)

lemma bind_ok_Inr [simp]: "bind_ok r f = Inr y \<longleftrightarrow> (\<exists>x. r = Inr x \<and> f x = Inr y)"
  by (cases r) simp_all

lemma check_Inr [simp]: "check ok e = Inr u \<longleftrightarrow> ok"
  by (simp add: check_def)

lemma check_simps [simp]: "check True e = Inr ()" "check False e = Inl e"
  by (simp_all add: check_def)

lemma succeeds_simps [simp]: "\<not> succeeds (Inl e)" "succeeds (Inr x)"
  by (simp_all add: succeeds_def)

lemma succeeds_iff: "succeeds r \<longleftrightarrow> (\<exists>x. r = Inr x)"
  by (cases r) simp_all

lemma map_ok_Inr: "map_ok f xs = Inr ys \<longleftrightarrow> list_all2 (\<lambda>x y. f x = Inr y) xs ys"
  by (induction xs arbitrary: ys) (auto simp: list_all2_Cons1)

lemma list_all2_in_right: "list_all2 P xs ys \<Longrightarrow> y \<in> set ys \<Longrightarrow> \<exists>x \<in> set xs. P x y"
  by (induction rule: list_all2_induct) auto

lemma list_all2_in_left: "list_all2 P xs ys \<Longrightarrow> x \<in> set xs \<Longrightarrow> \<exists>y \<in> set ys. P x y"
  by (induction rule: list_all2_induct) auto

lemma fold_ok_unit: "fold_ok f xs () = Inr () \<longleftrightarrow> (\<forall>x \<in> set xs. f x () = Inr ())"
  by (induction xs) auto

text \<open>An invariant of the loop.\<close>

lemma fold_ok_invariant:
  assumes "fold_ok f xs s = Inr t" "I s"
    and "\<And>x s t. x \<in> set xs \<Longrightarrow> I s \<Longrightarrow> f x s = Inr t \<Longrightarrow> I t"
  shows "I t"
  using assms by (induction xs arbitrary: s) auto

lemma fold_ok_each:
  assumes "fold_ok f xs s = Inr t" "x \<in> set xs"
  shows "\<exists>s1 s2. f x s1 = Inr s2"
  using assms by (induction xs arbitrary: s) auto

section \<open>Strings\<close>

definition code :: "char \<Rightarrow> nat" where
  "code c = of_char c"

definition between :: "nat \<Rightarrow> nat \<Rightarrow> char \<Rightarrow> bool" where
  "between a b c \<longleftrightarrow> a \<le> code c \<and> code c \<le> b"

definition is_digit :: "char \<Rightarrow> bool" where "is_digit c \<longleftrightarrow> between 48 57 c"
definition is_upper :: "char \<Rightarrow> bool" where "is_upper c \<longleftrightarrow> between 65 90 c"
definition is_lower :: "char \<Rightarrow> bool" where "is_lower c \<longleftrightarrow> between 97 122 c"
definition is_alpha :: "char \<Rightarrow> bool" where "is_alpha c \<longleftrightarrow> is_upper c \<or> is_lower c"
definition is_alnum :: "char \<Rightarrow> bool" where "is_alnum c \<longleftrightarrow> is_alpha c \<or> is_digit c"
definition is_lownum :: "char \<Rightarrow> bool" where "is_lownum c \<longleftrightarrow> is_lower c \<or> is_digit c"
definition is_lowhex :: "char \<Rightarrow> bool" where "is_lowhex c \<longleftrightarrow> is_digit c \<or> between 97 102 c"
definition is_hex :: "char \<Rightarrow> bool" where "is_hex c \<longleftrightarrow> is_lowhex c \<or> between 65 70 c"

text \<open>White space as \<open>\s\<close> and \<open>trim\<close> know it, and the control characters \<open>[\u0000-\u001f\u007f]\<close>.\<close>

definition is_space :: "char \<Rightarrow> bool" where
  "is_space c \<longleftrightarrow> between 9 13 c \<or> code c = 32 \<or> code c = 160"

definition is_control :: "char \<Rightarrow> bool" where
  "is_control c \<longleftrightarrow> code c \<le> 31 \<or> code c = 127"

lemmas char_classes = is_digit_def is_upper_def is_lower_def is_alpha_def is_alnum_def is_lownum_def
  is_lowhex_def is_hex_def is_space_def is_control_def between_def code_def

definition trimStart :: "string \<Rightarrow> string" where
  "trimStart s = dropWhile is_space s"

definition trimEnd :: "string \<Rightarrow> string" where
  "trimEnd s = rev (dropWhile is_space (rev s))"

definition trim :: "string \<Rightarrow> string" where
  "trim s = trimEnd (trimStart s)"

definition starts_with :: "string \<Rightarrow> string \<Rightarrow> bool" where
  "starts_with p s \<longleftrightarrow> take (length p) s = p"

definition ends_with :: "string \<Rightarrow> string \<Rightarrow> bool" where
  "ends_with p s \<longleftrightarrow> starts_with (rev p) (rev s)"

fun contains :: "string \<Rightarrow> string \<Rightarrow> bool" where
  "contains p [] \<longleftrightarrow> p = []"
| "contains p (c # s) \<longleftrightarrow> starts_with p (c # s) \<or> contains p s"

text \<open>\<open>s.split(c)\<close> for a separator of one character.\<close>

fun split_on :: "char \<Rightarrow> string \<Rightarrow> string list" where
  "split_on c [] = [[]]"
| "split_on c (d # s) = (if d = c then [] # split_on c s
     else (case split_on c s of [] \<Rightarrow> [[d]] | p # ps \<Rightarrow> (d # p) # ps))"

definition replace_all :: "char \<Rightarrow> string \<Rightarrow> string \<Rightarrow> string" where
  "replace_all c t s = concat (map (\<lambda>d. if d = c then t else [d]) s)"

text \<open>The part before the first occurrence of a character, and the part after the last.\<close>

definition before :: "char \<Rightarrow> string \<Rightarrow> string" where
  "before c s = takeWhile (\<lambda>d. d \<noteq> c) s"

definition after_last :: "char \<Rightarrow> string \<Rightarrow> string" where
  "after_last c s = rev (takeWhile (\<lambda>d. d \<noteq> c) (rev s))"

text \<open>\<open>a.padStart(n, c)\<close>\<close>

definition pad_start :: "nat \<Rightarrow> char \<Rightarrow> string \<Rightarrow> string" where
  "pad_start n c s = replicate (n - length s) c @ s"

text \<open>\<open>[...new Set(xs)]\<close>: the first occurrence of each element, in order.\<close>

fun js_unique :: "'a list \<Rightarrow> 'a list" where
  "js_unique [] = []"
| "js_unique (x # xs) = x # filter (\<lambda>y. y \<noteq> x) (js_unique xs)"

lemma set_js_unique [simp]: "set (js_unique xs) = set xs"
  by (induction xs) auto

lemma distinct_js_unique [simp]: "distinct (js_unique xs)"
  by (induction xs) auto

lemma js_unique_distinct: "distinct xs \<Longrightarrow> js_unique xs = xs"
  by (induction xs) (auto simp: filter_id_conv)

lemma split_on_not_empty [simp]: "split_on c s \<noteq> []"
  by (cases s) (auto split: list.splits)

lemma split_on_parts: "p \<in> set (split_on c s) \<Longrightarrow> c \<notin> set p"
  by (induction s arbitrary: p) (auto split: list.splits if_splits)

lemma concat_split_on: "concat (split_on c s) = filter (\<lambda>d. d \<noteq> c) s"
  by (induction s) (auto split: list.splits)

lemma split_on_subset: "p \<in> set (split_on c s) \<Longrightarrow> set p \<subseteq> set s"
  using concat_split_on [of c s] by (metis UN_upper filter_is_subset set_concat subset_trans)

text \<open>\<open>split\<close> and \<open>join\<close> are inverse.\<close>

lemma intercalate_Cons: "ps \<noteq> [] \<Longrightarrow> intercalate sep (p # ps) = p @ sep @ intercalate sep ps"
  by (cases ps) simp_all

lemma intercalate_split_on [simp]: "intercalate [c] (split_on c s) = s"
proof (induction s)
  case (Cons d s)
  show ?case
  proof (cases "split_on c s")
    case (Cons p ps)
    with \<open>intercalate [c] (split_on c s) = s\<close> show ?thesis
      by (cases ps) auto
  qed simp
qed simp

lemma split_on_none: "c \<notin> set s \<Longrightarrow> split_on c s = [s]"
  by (induction s) auto

lemma split_on_append: "c \<notin> set s \<Longrightarrow> split_on c (s @ c # t) = s # split_on c t"
  by (induction s) auto

lemma split_on_intercalate:
  "ps \<noteq> [] \<Longrightarrow> (\<forall>p \<in> set ps. c \<notin> set p) \<Longrightarrow> split_on c (intercalate [c] ps) = ps"
  by (induction "[c]" ps rule: intercalate.induct) (simp_all add: split_on_none split_on_append)

lemma starts_with_append [simp]: "starts_with p (p @ s)"
  by (simp add: starts_with_def)

lemma starts_with_iff: "starts_with p s \<longleftrightarrow> (\<exists>t. s = p @ t)"
  by (metis append_eq_conv_conj append_take_drop_id starts_with_def)

lemma includes_iff: "contains p s \<longleftrightarrow> (\<exists>u v. s = u @ p @ v)"
proof (induction s)
  case (Cons c s)
  show ?case
    unfolding contains.simps Cons.IH starts_with_iff
    by (metis append_Cons append_Nil append_eq_Cons_conv)
qed simp

lemma trim_subset: "set (trim s) \<subseteq> set s"
  unfolding trim_def trimEnd_def trimStart_def
  by (metis set_dropWhileD set_rev subsetI)

lemma replace_all_other: "c \<notin> set s \<Longrightarrow> replace_all c t s = s"
  by (induction s) (auto simp: replace_all_def)

section \<open>Regular expressions\<close>

text \<open>\<open>^[first][rest]{lo,hi}$\<close> and \<open>^[class]{lo,hi}$\<close>.\<close>

definition named :: "(char \<Rightarrow> bool) \<Rightarrow> (char \<Rightarrow> bool) \<Rightarrow> nat \<Rightarrow> nat \<Rightarrow> string \<Rightarrow> bool" where
  "named first rest lo hi s \<longleftrightarrow>
     (case s of [] \<Rightarrow> False | c # cs \<Rightarrow> first c \<and> list_all rest cs \<and> lo \<le> length cs \<and> length cs \<le> hi)"

definition all_of :: "(char \<Rightarrow> bool) \<Rightarrow> nat \<Rightarrow> nat \<Rightarrow> string \<Rightarrow> bool" where
  "all_of class lo hi s \<longleftrightarrow> list_all class s \<and> lo \<le> length s \<and> length s \<le> hi"

text \<open>\<open>/^[0-9a-f]{8}-[0-9a-f]{4}-[1-5][0-9a-f]{3}-[89ab][0-9a-f]{3}-[0-9a-f]{12}$/\<close>\<close>

definition uuid_shape :: "string \<Rightarrow> bool" where
  "uuid_shape s \<longleftrightarrow>
     (case split_on (CHR ''-'') s of
        [a, b, v, n, e] \<Rightarrow> all_of is_lowhex 8 8 a \<and> all_of is_lowhex 4 4 b
          \<and> named (between 49 53) is_lowhex 3 3 v \<and> named (\<lambda>x. x \<in> set ''89ab'') is_lowhex 3 3 n
          \<and> all_of is_lowhex 12 12 e
      | _ \<Rightarrow> False)"

lemma list_all_set: "list_all P xs \<longleftrightarrow> (\<forall>x \<in> set xs. P x)"
  by (simp add: list_all_iff)

lemma named_chars: "named first rest lo hi s \<Longrightarrow> c \<in> set s \<Longrightarrow> first c \<or> rest c"
  by (auto simp: named_def list_all_iff split: list.splits)

lemma named_length: "named first rest lo hi s \<Longrightarrow> length s \<le> Suc hi"
  by (auto simp: named_def split: list.splits)

lemma named_not_empty: "named first rest lo hi s \<Longrightarrow> s \<noteq> []"
  by (auto simp: named_def)

section \<open>Numbers\<close>

datatype js_number = Finite rat | Infinite | NaN

definition digits_value :: "string \<Rightarrow> nat" where
  "digits_value s = foldl (\<lambda>n c. n * 10 + (code c - 48)) 0 s"

definition hex_digit :: "char \<Rightarrow> nat" where
  "hex_digit c = (if is_digit c then code c - 48 else if between 97 102 c then code c - 87 else code c - 55)"

definition radix_value :: "nat \<Rightarrow> string \<Rightarrow> nat" where
  "radix_value r s = foldl (\<lambda>n c. n * r + hex_digit c) 0 s"

definition exponent_of :: "string \<Rightarrow> int option" where
  "exponent_of s =
     (case s of
        [] \<Rightarrow> Some 0
      | e # r \<Rightarrow>
          if e \<noteq> CHR ''e'' \<and> e \<noteq> CHR ''E'' then None
          else
            (let (neg, ds) = (case r of [] \<Rightarrow> (False, []) | c # cs \<Rightarrow>
                   if c = CHR ''-'' then (True, cs) else if c = CHR ''+'' then (False, cs) else (False, r))
             in if ds = [] \<or> \<not> list_all is_digit ds then None
                else Some (if neg then - int (digits_value ds) else int (digits_value ds))))"

definition power_of_ten :: "int \<Rightarrow> rat" where
  "power_of_ten e = (if 0 \<le> e then 10 ^ nat e else 1 / 10 ^ nat (- e))"

definition unsigned_decimal :: "string \<Rightarrow> js_number" where
  "unsigned_decimal s =
     (if s = ''Infinity'' then Infinite
      else
        (let ip = takeWhile is_digit s; r = dropWhile is_digit s;
             (fp, r2) = (case r of [] \<Rightarrow> ([], []) | c # cs \<Rightarrow>
               if c = CHR ''.'' then (takeWhile is_digit cs, dropWhile is_digit cs) else ([], r))
         in if ip = [] \<and> fp = [] then NaN
            else (case exponent_of r2 of
                    None \<Rightarrow> NaN
                  | Some e \<Rightarrow> Finite (of_nat (digits_value (ip @ fp)) * power_of_ten (e - int (length fp))))))"

definition js_negate :: "js_number \<Rightarrow> js_number" where
  "js_negate n = (case n of Finite q \<Rightarrow> Finite (- q) | x \<Rightarrow> x)"

definition radix_literal :: "nat \<Rightarrow> (char \<Rightarrow> bool) \<Rightarrow> string \<Rightarrow> js_number" where
  "radix_literal r digit s =
     (if s \<noteq> [] \<and> list_all digit s then Finite (of_nat (radix_value r s)) else NaN)"

text \<open>\<open>Number(text)\<close>\<close>

definition Number_string :: "string \<Rightarrow> js_number" where
  "Number_string text =
     (let s = trim text in
      case s of
        [] \<Rightarrow> Finite 0
      | c # cs \<Rightarrow>
          if c = CHR ''-'' then js_negate (unsigned_decimal cs)
          else if c = CHR ''+'' then unsigned_decimal cs
          else if take 2 s = ''0x'' \<or> take 2 s = ''0X'' then radix_literal 16 is_hex (drop 2 s)
          else if take 2 s = ''0o'' \<or> take 2 s = ''0O'' then radix_literal 8 (between 48 55) (drop 2 s)
          else if take 2 s = ''0b'' \<or> take 2 s = ''0B'' then radix_literal 2 (between 48 49) (drop 2 s)
          else unsigned_decimal s)"

text \<open>\<open>Number.isSafeInteger(n)\<close>, with the integer.\<close>

definition safe_integer :: "js_number \<Rightarrow> int option" where
  "safe_integer n =
     (case n of
        Finite q \<Rightarrow> if of_int (floor q) = q \<and> \<bar>floor q\<bar> \<le> 2 ^ 53 - 1 then Some (floor q) else None
      | _ \<Rightarrow> None)"

lemma safe_integer_bound: "safe_integer n = Some i \<Longrightarrow> \<bar>i\<bar> \<le> 2 ^ 53 - 1"
  by (auto simp: safe_integer_def split: js_number.splits if_splits)

section \<open>Percent encoding\<close>

definition hex_upper :: "nat \<Rightarrow> char" where
  "hex_upper n = char_of (if n < 10 then 48 + n else 55 + n)"

definition percent :: "nat \<Rightarrow> string" where
  "percent b = [CHR ''%'', hex_upper (b div 16), hex_upper (b mod 16)]"

definition is_unreserved :: "char \<Rightarrow> bool" where
  "is_unreserved c \<longleftrightarrow> is_alnum c \<or> code c \<in> {45, 95, 46, 33, 126, 42, 39, 40, 41}"

text \<open>A unit below 128 is one byte of UTF-8, one from 128 to 255 is two.\<close>

definition encodeURIComponent :: "string \<Rightarrow> string" where
  "encodeURIComponent s =
     concat (map (\<lambda>c. if is_unreserved c then [c]
                      else if code c < 128 then percent (code c)
                      else percent (192 + code c div 64) @ percent (128 + code c mod 64)) s)"

lemma encodeURIComponent_id: "(\<forall>c \<in> set s. is_unreserved c) \<Longrightarrow> encodeURIComponent s = s"
  by (induction s) (auto simp: encodeURIComponent_def)

section \<open>URLs\<close>

text \<open>
  What the code reads of a \<open>URL\<close>. The parser of the platform is a parameter of the definitions
  that use it; \<^const>\<open>None\<close> is the exception \<open>new URL\<close> throws.
\<close>

record url =
  url_protocol :: string
  url_hostname :: string
  url_username :: string
  url_password :: string
  url_pathname :: string
  url_search :: string
  url_hash :: string
  url_href :: string

end
