(* ===== verification/Gw_Dispatcher.thy ===== *)
theory Gw_Dispatcher
  imports Gw_Stale Gw_Js
begin

text \<open>
  The dispatcher of notification-dispatcher.ts. It works on the interface \<open>Store\<close> it is given:
  a record of the operations it calls, so that its contract is a locale over that interface
  and the database of the development one instance of it. Decryption, \<open>fetch\<close> and the
  rendering of a time are parameters. A tick is the sequence of its store operations; the
  requests that run between them are steps of \<open>Gw_Store\<close>.
\<close>

section \<open>The message\<close>

definition is_scalar :: "json \<Rightarrow> bool" where
  "is_scalar v = (case v of JStr _ \<Rightarrow> True | JNum _ \<Rightarrow> True | JBool _ \<Rightarrow> True | _ \<Rightarrow> False)"

definition newline :: string where "newline = [CHR 0x0A]"

definition message :: "(time \<Rightarrow> string) \<Rightarrow> NotificationDelivery \<Rightarrow> string" where
  "message iso8601 dl =
     (let details = map (\<lambda>(key, v). key @ '': '' @ take 300 (json_String v))
                      (take 10 (filter (\<lambda>(_, v). is_scalar v) (Delivery_payload dl)))
      in intercalate newline
           ([''Gateway Control: '' @ event_name (Delivery_eventType dl),
             ''Event ID: '' @ Delivery_eventId dl, ''Delivery ID: '' @ Delivery_id dl,
             ''Occurred: '' @ iso8601 (Delivery_occurredAt dl)] @ details))"

section \<open>The dispatcher\<close>

record 's dispatcher_store =
  st_sweepOfflineAgents :: "time \<Rightarrow> 's \<Rightarrow> 's"
  st_failStaleCommands :: "time \<Rightarrow> 's \<Rightarrow> 's"
  st_purgeRuntimeLogResults :: "time \<Rightarrow> 's \<Rightarrow> 's"
  st_claimNotificationDelivery :: "'s \<Rightarrow> pg_error + NotificationDelivery option \<times> 's"
  st_isNotificationDeliveryEnabled :: "NotificationDelivery \<Rightarrow> 's \<Rightarrow> bool"
  st_skipNotificationDelivery :: "uuid \<Rightarrow> 's \<Rightarrow> 's"
  st_getNotificationSecrets :: "'s \<Rightarrow> (string \<times> string) option"
  st_completeNotificationDelivery :: "uuid \<Rightarrow> 's \<Rightarrow> 's"
  st_retryNotificationDelivery :: "uuid \<Rightarrow> string \<Rightarrow> int \<Rightarrow> bool \<Rightarrow> 's \<Rightarrow> 's"

text \<open>\<open>fetch\<close> rejects with the message of an error, or answers with a status code.\<close>

datatype fetched = Rejected string | Responded nat

definition response_ok :: "nat \<Rightarrow> bool" where
  "response_ok status \<longleftrightarrow> 200 \<le> status \<and> status \<le> 299"

record dispatcher_options =
  opt_decrypt :: "string \<Rightarrow> string + string"
  opt_fetch :: "string \<Rightarrow> string \<times> string \<Rightarrow> fetched"
  opt_iso8601 :: "time \<Rightarrow> string"
  opt_offlineAfterMs :: "int option"
  opt_commandStaleAfterMs :: "int option"

record dispatcher =
  dsp_timer :: bool
  dsp_running :: bool

definition start :: "dispatcher \<Rightarrow> dispatcher" where
  "start p = (if dsp_timer p then p else p\<lparr>dsp_timer := True\<rparr>)"

definition stop :: "dispatcher \<Rightarrow> dispatcher" where
  "stop p = p\<lparr>dsp_timer := False\<rparr>"

text \<open>The \<open>try\<close> block of \<open>dispatch\<close> after the delivery was found to be wanted.\<close>

definition send_message :: "dispatcher_options \<Rightarrow> (string \<times> string) option \<Rightarrow> NotificationDelivery \<Rightarrow> string + unit" where
  "send_message opts secrets dl =
     (case secrets of
        None \<Rightarrow> Inl ''Telegram notifications are not configured.''
      | Some (botToken, groupId) \<Rightarrow>
          bind_ok (opt_decrypt opts botToken) (\<lambda>btok.
          bind_ok (opt_decrypt opts groupId) (\<lambda>chat.
            (case opt_fetch opts (''https://api.telegram.org/bot'' @ encodeURIComponent btok @ ''/sendMessage'')
                    (chat, message (opt_iso8601 opts) dl) of
               Rejected e \<Rightarrow> Inl e
             | Responded status \<Rightarrow>
                 check (response_ok status)
                   (''Telegram returned HTTP '' @ digits status @ ''.'')))))"

definition retry_delay :: "int \<Rightarrow> int" where
  "retry_delay attempts = min 900 (5 * 2 ^ nat (max 0 (attempts - 1)))"

definition dispatch :: "dispatcher_options \<Rightarrow> 's dispatcher_store \<Rightarrow> NotificationDelivery \<Rightarrow> 's \<Rightarrow> 's" where
  "dispatch opts S dl s =
     (if \<not> st_isNotificationDeliveryEnabled S dl s
      then st_skipNotificationDelivery S (Delivery_id dl) s
      else
        (case send_message opts (st_getNotificationSecrets S s) dl of
           Inr _ \<Rightarrow> st_completeNotificationDelivery S (Delivery_id dl) s
         | Inl err \<Rightarrow>
             st_retryNotificationDelivery S (Delivery_id dl) (take 1000 err)
               (retry_delay (Delivery_attempts dl)) (6 \<le> Delivery_attempts dl) s))"

text \<open>A tick that finds another one running does nothing; an error ends it and is logged.\<close>

definition tick :: "dispatcher_options \<Rightarrow> 's dispatcher_store \<Rightarrow> time \<Rightarrow> dispatcher \<Rightarrow> 's \<Rightarrow> 's" where
  "tick opts S date_now p s =
     (if dsp_running p then s
      else
        (let s = st_sweepOfflineAgents S (date_now - coalesce (opt_offlineAfterMs opts) (3 * 60000)) s;
             s = st_failStaleCommands S (date_now - coalesce (opt_commandStaleAfterMs opts) (24 * 60 * 60000)) s;
             s = st_purgeRuntimeLogResults S (date_now - 24 * 60 * 60 * 1000) s
         in (case st_claimNotificationDelivery S s of
               Inl _ \<Rightarrow> s
             | Inr (None, s') \<Rightarrow> s'
             | Inr (Some dl, s') \<Rightarrow> dispatch opts S dl s')))"

section \<open>The contract of the queue of deliveries\<close>

text \<open>
  \<open>status s i\<close> are the statuses of the deliveries with the identifier \<open>i\<close>. The three ways to
  finish a dispatch act on deliveries that are being dispatched, and only on the one they name.
\<close>

locale delivery_queue =
  fixes S :: "'s dispatcher_store"
    and status :: "'s \<Rightarrow> uuid \<Rightarrow> DeliveryStatus set"
  assumes completed: "status (st_completeNotificationDelivery S i s) j =
      (if j = i then (\<lambda>x. if x = DlDispatching then DlSucceeded else x) ` status s j else status s j)"
    and skipped: "status (st_skipNotificationDelivery S i s) j =
      (if j = i then (\<lambda>x. if x = DlDispatching then DlSkipped else x) ` status s j else status s j)"
    and retried: "status (st_retryNotificationDelivery S i err delay terminal s) j =
      (if j = i then (\<lambda>x. if x = DlDispatching then (if terminal then DlFailed else DlPending) else x) ` status s j
       else status s j)"
begin

lemma dispatch_others: "j \<noteq> Delivery_id dl \<Longrightarrow> status (dispatch opts S dl s) j = status s j"
  by (simp add: dispatch_def completed skipped retried split: sum.split)

lemma dispatch_settles: "DlDispatching \<notin> status (dispatch opts S dl s) (Delivery_id dl)"
  by (auto simp: dispatch_def completed skipped retried split: sum.split)

lemma dispatch_outcome:
  assumes "status s (Delivery_id dl) = {DlDispatching}"
  shows "status (dispatch opts S dl s) (Delivery_id dl) =
    {if \<not> st_isNotificationDeliveryEnabled S dl s then DlSkipped
     else if succeeds (send_message opts (st_getNotificationSecrets S s) dl) then DlSucceeded
     else if 6 \<le> Delivery_attempts dl then DlFailed else DlPending}"
  using assms by (auto simp: dispatch_def completed skipped retried split: sum.split)

end

section \<open>The store of the development\<close>

text \<open>\<open>now i\<close> is the database's time at the i-th statement of the tick.\<close>

definition pg_store :: "(nat \<Rightarrow> uuid) \<Rightarrow> (nat \<Rightarrow> time) \<Rightarrow> db dispatcher_store" where
  "pg_store gen now =
     \<lparr>st_sweepOfflineAgents = (\<lambda>t d. snd (sweepOfflineAgents gen (now 0) t d)),
      st_failStaleCommands = (\<lambda>t d. snd (failStaleCommands gen (now 1) t d)),
      st_purgeRuntimeLogResults = (\<lambda>t d. snd (purgeRuntimeLogResults (now 2) t d)),
      st_claimNotificationDelivery = claimNotificationDelivery (now 3),
      st_isNotificationDeliveryEnabled = isNotificationDeliveryEnabled,
      st_skipNotificationDelivery = skipNotificationDelivery (now 4),
      st_getNotificationSecrets = getNotificationSecrets,
      st_completeNotificationDelivery = completeNotificationDelivery (now 4),
      st_retryNotificationDelivery = retryNotificationDelivery (now 4)\<rparr>"

definition delivery_status :: "db \<Rightarrow> uuid \<Rightarrow> DeliveryStatus set" where
  "delivery_status d i = dlv_status ` {r \<in> set (deliveries d). dlv_id r = i}"

lemma image_of_kept:
  "(\<And>r. k (g r) = k r) \<Longrightarrow> h ` {y \<in> g ` A. k y = j} = (\<lambda>r. h (g r)) ` {r \<in> A. k r = j}"
  by auto

lemma delivery_status_rows:
  assumes "\<And>r. dlv_id (f r) = dlv_id r"
  shows "delivery_status (d\<lparr>deliveries := update_rows P f (deliveries d)\<rparr>) j =
    (\<lambda>r. if P r then dlv_status (f r) else dlv_status r) ` {r \<in> set (deliveries d). dlv_id r = j}"
proof -
  have rows: "deliveries (d\<lparr>deliveries := t\<rparr>) = t" for t by simp
  show ?thesis
    unfolding delivery_status_def rows set_update_rows
    by (subst image_of_kept) (simp_all add: assms if_distrib [of dlv_status] cong: image_cong)
qed

lemma delivery_status_update:
  assumes "\<And>r. dlv_id (f r) = dlv_id r" "\<And>r. dlv_status (f r) = g"
  shows "delivery_status (d\<lparr>deliveries := update_rows (dispatching i) f (deliveries d)\<rparr>) j =
    (if j = i then (\<lambda>x. if x = DlDispatching then g else x) ` delivery_status d j else delivery_status d j)"
  unfolding delivery_status_rows [of f, OF assms(1)] unfolding delivery_status_def image_image
  by (auto simp: dispatching_def assms(2) image_def)

lemma delivery_status_ops:
  "delivery_status (completeNotificationDelivery t i d) j =
    (if j = i then (\<lambda>x. if x = DlDispatching then DlSucceeded else x) ` delivery_status d j else delivery_status d j)"
  "delivery_status (skipNotificationDelivery t i d) j =
    (if j = i then (\<lambda>x. if x = DlDispatching then DlSkipped else x) ` delivery_status d j else delivery_status d j)"
  "delivery_status (retryNotificationDelivery t i err delay terminal d) j =
    (if j = i then (\<lambda>x. if x = DlDispatching then (if terminal then DlFailed else DlPending) else x) ` delivery_status d j
     else delivery_status d j)"
  unfolding delivery_ops_def by (rule delivery_status_update, simp, simp)+

interpretation pg_deliveries: delivery_queue "pg_store gen now" delivery_status for gen now
  unfolding delivery_queue_def pg_store_def dispatcher_store.simps delivery_status_ops by simp

lemma tick_running: "dsp_running p \<Longrightarrow> tick opts S date_now p s = s"
  by (simp add: tick_def)

text \<open>The delays: 5, 10, 20, 40 and 80 seconds after the first five attempts.\<close>

lemma retry_delay_bounds: "5 \<le> retry_delay n" "retry_delay n \<le> 900"
proof -
  have "(1::int) \<le> 2 ^ nat (max 0 (n - 1))" by simp
  then show "5 \<le> retry_delay n" "retry_delay n \<le> 900"
    by (simp_all add: retry_delay_def)
qed

lemma retry_delay_mono: "m \<le> n \<Longrightarrow> retry_delay m \<le> retry_delay n"
proof -
  assume "m \<le> n"
  then have "nat (max 0 (m - 1)) \<le> nat (max 0 (n - 1))" by simp
  then have "(2::int) ^ nat (max 0 (m - 1)) \<le> 2 ^ nat (max 0 (n - 1))"
    by (intro power_increasing) simp_all
  then show ?thesis
    unfolding retry_delay_def by (intro min.mono mult_left_mono) simp_all
qed

text \<open>What a claim hands out is the delivery that is due first, marked as being dispatched.\<close>

lemma claim_marks:
  assumes "claimNotificationDelivery now d = Inr (Some dl, e)" "distinct (map dlv_id (deliveries d))"
  shows "delivery_status e (Delivery_id dl) = {DlDispatching}"
proof -
  obtain r where r: "next_delivery now d = Some r" and "Delivery_id dl = dlv_id r"
    and e: "e = d\<lparr>deliveries := update_rows (\<lambda>x. dlv_id x = dlv_id r)
        (\<lambda>x. x\<lparr>dlv_status := DlDispatching, dlv_claimed_at := Some now, dlv_attempts := dlv_attempts x + 1\<rparr>) (deliveries d)\<rparr>"
    using assms(1) by (auto simp: claimNotificationDelivery_def split: option.splits if_splits)
  moreover have "r \<in> set (deliveries d)" using next_delivery_claimable(1) [OF r] .
  ultimately show ?thesis
    unfolding e by (subst delivery_status_rows) (auto simp: image_def)
qed

end
