(* ===== verification/Gw_Deliveries.thy ===== *)
theory Gw_Deliveries
  imports Gw_Sample Gw_Dispatcher
begin

text \<open>
  The log of events and the queue of deliveries over the whole store: every operation either leaves
  both alone, adds events with their deliveries, or moves deliveries along their life cycle.
  The first part says which operations leave them alone, the second what adding means, the third
  draws the invariant of the queue.
\<close>

section \<open>Operations that record no event\<close>

lemma start_operations_log [frame_simps]:
  "events (fold (start_operation now a) cs d) = events d"
  "deliveries (fold (start_operation now a) cs d) = deliveries d"
  by (rule fold_frame, simp add: frame_simps)+

lemma log_untouched_createOwner [frame_simps]:
  "events (snd (createOwner gen now mail ph d)) = events d"
  "deliveries (snd (createOwner gen now mail ph d)) = deliveries d"
  by (simp_all add: createOwner_def insert_user_def after_def after_unit_def draw_def Let_def frame_simps del: exists_row_iff split: option.split sum.split prod.split)

lemma log_untouched_createUser [frame_simps]:
  "events (after (createUser gen now mail ph role d) d) = events d"
  "deliveries (after (createUser gen now mail ph role d) d) = deliveries d"
  by (simp_all add: createUser_def insert_user_def after_def after_unit_def draw_def Let_def frame_simps del: exists_row_iff split: option.split sum.split prod.split)

lemma log_untouched_createSession [frame_simps]:
  "events (after_unit (createSession now i tok t d) d) = events d"
  "deliveries (after_unit (createSession now i tok t d) d) = deliveries d"
  by (simp_all add: createSession_def  after_def after_unit_def draw_def Let_def frame_simps del: exists_row_iff split: option.split sum.split prod.split)

lemma log_untouched_findSessionUser [frame_simps]:
  "events (snd (findSessionUser now tok d)) = events d"
  "deliveries (snd (findSessionUser now tok d)) = deliveries d"
  by (simp_all add: findSessionUser_def  after_def after_unit_def draw_def Let_def frame_simps del: exists_row_iff split: option.split sum.split prod.split)

lemma log_untouched_deleteSession [frame_simps]:
  "events (deleteSession tok d) = events d"
  "deliveries (deleteSession tok d) = deliveries d"
  by (simp_all add: deleteSession_def  after_def after_unit_def draw_def Let_def frame_simps del: exists_row_iff split: option.split sum.split prod.split)

lemma log_untouched_saveNotificationSettings [frame_simps]:
  "events (saveNotificationSettings btok grp evs d) = events d"
  "deliveries (saveNotificationSettings btok grp evs d) = deliveries d"
  by (simp_all add: saveNotificationSettings_def  after_def after_unit_def draw_def Let_def frame_simps del: exists_row_iff split: option.split sum.split prod.split)

lemma log_untouched_createAgent [frame_simps]:
  "events (after (createAgent gen now dn name tok t d) d) = events d"
  "deliveries (after (createAgent gen now dn name tok t d) d) = deliveries d"
  by (simp_all add: createAgent_def  after_def after_unit_def draw_def Let_def frame_simps del: exists_row_iff split: option.split sum.split prod.split)

lemma log_untouched_removeAgent [frame_simps]:
  "events (snd (removeAgent now i d)) = events d"
  "deliveries (snd (removeAgent now i d)) = deliveries d"
  by (simp_all add: removeAgent_def  after_def after_unit_def draw_def Let_def frame_simps del: exists_row_iff split: option.split sum.split prod.split)

lemma log_untouched_enrollAgent [frame_simps]:
  "events (snd (enrollAgent now dn tok cred d)) = events d"
  "deliveries (snd (enrollAgent now dn tok cred d)) = deliveries d"
  by (simp_all add: enrollAgent_def  after_def after_unit_def draw_def Let_def frame_simps del: exists_row_iff split: option.split sum.split prod.split)

lemma log_untouched_createCommand [frame_simps]:
  "events (after (createCommand gen now i type payload d) d) = events d"
  "deliveries (after (createCommand gen now i type payload d) d) = deliveries d"
  by (simp_all add: createCommand_def  insert_command_def after_def after_unit_def draw_def Let_def frame_simps del: exists_row_iff split: option.split sum.split prod.split)

lemma log_untouched_createStack [frame_simps]:
  "events (after (createStack gen now i name p y b cfg d) d) = events d"
  "deliveries (after (createStack gen now i name p y b cfg d) d) = deliveries d"
  by (simp_all add: createStack_def queueInternalSync_def insert_command_def after_def after_unit_def draw_def Let_def frame_simps del: exists_row_iff split: option.split sum.split prod.split)

lemma log_untouched_updateStack [frame_simps]:
  "events (after (updateStack gen now i nm y b cfg d) d) = events d"
  "deliveries (after (updateStack gen now i nm y b cfg d) d) = deliveries d"
  by (simp_all add: updateStack_def queueInternalSync_def insert_command_def after_def after_unit_def draw_def Let_def frame_simps del: exists_row_iff split: option.split sum.split prod.split)

lemma log_untouched_queueStackAction [frame_simps]:
  "events (snd (queueStackAction gen now i type d)) = events d"
  "deliveries (snd (queueStackAction gen now i type d)) = deliveries d"
  by (simp_all add: queueStackAction_def  insert_command_def after_def after_unit_def draw_def Let_def frame_simps del: exists_row_iff split: option.split sum.split prod.split)

lemma log_untouched_createRoute [frame_simps]:
  "events (after (createRoute gen now i name hn ex bs b d) d) = events d"
  "deliveries (after (createRoute gen now i name hn ex bs b d) d) = deliveries d"
  by (simp_all add: createRoute_def queueInternalSync_def insert_command_def after_def after_unit_def draw_def Let_def frame_simps del: exists_row_iff split: option.split sum.split prod.split)

lemma log_untouched_updateRoute [frame_simps]:
  "events (after (updateRoute gen now i aid nm hn ex bs b d) d) = events d"
  "deliveries (after (updateRoute gen now i aid nm hn ex bs b d) d) = deliveries d"
  by (simp_all add: updateRoute_def queueInternalSync_def insert_command_def after_def after_unit_def draw_def Let_def frame_simps del: exists_row_iff split: option.split sum.split prod.split)

lemma log_untouched_createBackup [frame_simps]:
  "events (snd (createBackup gen now i u tgt d)) = events d"
  "deliveries (snd (createBackup gen now i u tgt d)) = deliveries d"
  by (simp_all add: createBackup_def  insert_command_def after_def after_unit_def draw_def Let_def frame_simps del: exists_row_iff split: option.split sum.split prod.split)

lemma log_untouched_createRestore [frame_simps]:
  "events (snd (createRestore gen now i u d)) = events d"
  "deliveries (snd (createRestore gen now i u d)) = deliveries d"
  by (simp_all add: createRestore_def  insert_command_def after_def after_unit_def draw_def Let_def frame_simps del: exists_row_iff split: option.split sum.split prod.split)

lemma log_untouched_queueLogRequest [frame_simps]:
  "events (snd (queueLogRequest gen now i u svc n since d)) = events d"
  "deliveries (snd (queueLogRequest gen now i u svc n since d)) = deliveries d"
  by (simp_all add: queueLogRequest_def  insert_command_def after_def after_unit_def draw_def Let_def frame_simps del: exists_row_iff split: option.split sum.split prod.split)

lemma log_untouched_createDeployment [frame_simps]:
  "events (after (createDeployment gen now i name p v d) d) = events d"
  "deliveries (after (createDeployment gen now i name p v d) d) = deliveries d"
  by (simp_all add: createDeployment_def  after_def after_unit_def draw_def Let_def frame_simps del: exists_row_iff split: option.split sum.split prod.split)

lemma log_untouched_createDeploymentRevision [frame_simps]:
  "events (after (createDeploymentRevision gen now i v d) d) = events d"
  "deliveries (after (createDeploymentRevision gen now i v d) d) = deliveries d"
  by (simp_all add: createDeploymentRevision_def  after_def after_unit_def draw_def Let_def frame_simps del: exists_row_iff split: option.split sum.split prod.split)

lemma log_untouched_createDeploymentRun [frame_simps]:
  "events (snd (createDeploymentRun gen now i j act u d)) = events d"
  "deliveries (snd (createDeploymentRun gen now i j act u d)) = deliveries d"
  by (simp_all add: createDeploymentRun_def  insert_command_def after_def after_unit_def draw_def Let_def frame_simps del: exists_row_iff split: option.split sum.split prod.split)

lemma log_untouched_createRuntimeOperation [frame_simps]:
  "events (after (createRuntimeOperation gen now u i act sc p s d) d) = events d"
  "deliveries (after (createRuntimeOperation gen now u i act sc p s d) d) = deliveries d"
  by (simp_all add: createRuntimeOperation_def  insert_command_def after_def after_unit_def draw_def Let_def frame_simps del: exists_row_iff split: option.split sum.split prod.split)

lemma log_untouched_createRuntimeLogRequest [frame_simps]:
  "events (after (createRuntimeLogRequest gen now u i p s n since d) d) = events d"
  "deliveries (after (createRuntimeLogRequest gen now u i p s n since d) d) = deliveries d"
  by (simp_all add: createRuntimeLogRequest_def  insert_command_def after_def after_unit_def draw_def Let_def frame_simps del: exists_row_iff split: option.split sum.split prod.split)

lemma log_untouched_createConnector [frame_simps]:
  "events (after (createConnector gen now name tok b i aid ident tun st err d) d) = events d"
  "deliveries (after (createConnector gen now name tok b i aid ident tun st err d) d) = deliveries d"
  by (simp_all add: createConnector_def queueConnectorSync_def insert_command_def after_def after_unit_def draw_def Let_def frame_simps del: exists_row_iff split: option.split sum.split prod.split)

lemma log_untouched_updateConnector [frame_simps]:
  "events (after (updateConnector gen now i v d) d) = events d"
  "deliveries (after (updateConnector gen now i v d) d) = deliveries d"
  by (simp_all add: updateConnector_def queueConnectorSync_def insert_command_def write_connector_def after_def after_unit_def draw_def Let_def frame_simps del: exists_row_iff split: option.split sum.split prod.split)

lemma log_untouched_markConnectorIdentity [frame_simps]:
  "events (after (markConnectorIdentity now i ex v d) d) = events d"
  "deliveries (after (markConnectorIdentity now i ex v d) d) = deliveries d"
  by (simp_all add: markConnectorIdentity_def write_connector_def after_def after_unit_def draw_def Let_def frame_simps del: exists_row_iff split: option.split sum.split prod.split)

lemma log_untouched_createCloudflareAccount [frame_simps]:
  "events (after (createCloudflareAccount gen now name ident tok b d) d) = events d"
  "deliveries (after (createCloudflareAccount gen now name ident tok b d) d) = deliveries d"
  by (simp_all add: createCloudflareAccount_def  after_def after_unit_def draw_def Let_def frame_simps del: exists_row_iff split: option.split sum.split prod.split)

lemma log_untouched_updateCloudflareAccount [frame_simps]:
  "events (after (updateCloudflareAccount now i nm ident tok b d) d) = events d"
  "deliveries (after (updateCloudflareAccount now i nm ident tok b d) d) = deliveries d"
  by (simp_all add: updateCloudflareAccount_def  after_def after_unit_def draw_def Let_def frame_simps del: exists_row_iff split: option.split sum.split prod.split)

lemma log_untouched_deleteCloudflareAccount [frame_simps]:
  "events (snd (deleteCloudflareAccount i d)) = events d"
  "deliveries (snd (deleteCloudflareAccount i d)) = deliveries d"
  by (simp_all add: deleteCloudflareAccount_def  after_def after_unit_def draw_def Let_def frame_simps del: exists_row_iff split: option.split sum.split prod.split)

lemma log_untouched_syncCloudflareZones [frame_simps]:
  "events (after (syncCloudflareZones gen now i zs err d) d) = events d"
  "deliveries (after (syncCloudflareZones gen now i zs err d) d) = deliveries d"
  using syncCloudflareZones_shape [of gen now i zs err d] by auto

lemma log_untouched_createOrGetGuidedOperation [frame_simps]:
  "events (snd (createOrGetGuidedOperation gen now k key u h req d)) = events d"
  "deliveries (snd (createOrGetGuidedOperation gen now k key u h req d)) = deliveries d"
  by (simp_all add: createOrGetGuidedOperation_def  after_def after_unit_def draw_def Let_def frame_simps del: exists_row_iff split: option.split sum.split prod.split)

lemma log_untouched_updateGuidedOperation [frame_simps]:
  "events (snd (updateGuidedOperation now i v d)) = events d"
  "deliveries (snd (updateGuidedOperation now i v d)) = deliveries d"
  by (simp_all add: updateGuidedOperation_def  after_def after_unit_def draw_def Let_def frame_simps del: exists_row_iff split: option.split sum.split prod.split)

lemma log_untouched_createPendingDomainAccess [frame_simps]:
  "events (after (createPendingDomainAccess gen now i z r m c v4 v6 b d) d) = events d"
  "deliveries (after (createPendingDomainAccess gen now i z r m c v4 v6 b d) d) = deliveries d"
  by (simp_all add: createPendingDomainAccess_def  after_def after_unit_def draw_def Let_def frame_simps del: exists_row_iff split: option.split sum.split prod.split)

lemma log_untouched_setDomainAccessPending [frame_simps]:
  "events (snd (setDomainAccessPending now i b d)) = events d"
  "deliveries (snd (setDomainAccessPending now i b d)) = deliveries d"
  by (simp_all add: setDomainAccessPending_def  after_def after_unit_def draw_def Let_def frame_simps del: exists_row_iff split: option.split sum.split prod.split)

lemma log_untouched_saveDomainAccessDnsRecord [frame_simps]:
  "events (after (saveDomainAccessDnsRecord now i n ty content rid mk d) d) = events d"
  "deliveries (after (saveDomainAccessDnsRecord now i n ty content rid mk d) d) = deliveries d"
  by (simp_all add: saveDomainAccessDnsRecord_def  after_def after_unit_def draw_def Let_def frame_simps del: exists_row_iff split: option.split sum.split prod.split)

lemma log_untouched_markDomainAccessDnsRecordStatus [frame_simps]:
  "events (snd (markDomainAccessDnsRecordStatus i n rid st err d)) = events d"
  "deliveries (snd (markDomainAccessDnsRecordStatus i n rid st err d)) = deliveries d"
  by (simp_all add: markDomainAccessDnsRecordStatus_def  after_def after_unit_def draw_def Let_def frame_simps del: exists_row_iff split: option.split sum.split prod.split)

lemma log_untouched_markDomainAccessOutcome [frame_simps]:
  "events (after (markDomainAccessOutcome now i n st err d) d) = events d"
  "deliveries (after (markDomainAccessOutcome now i n st err d) d) = deliveries d"
  by (simp_all add: markDomainAccessOutcome_def  after_def after_unit_def draw_def Let_def frame_simps del: exists_row_iff split: option.split sum.split prod.split)

lemma log_untouched_claimCommands [frame_simps]:
  "events (snd (claimCommands now i n d)) = events d"
  "deliveries (snd (claimCommands now i n d)) = deliveries d"
  by (simp_all add: claimCommands_eq polled_def  after_def after_unit_def draw_def Let_def frame_simps del: exists_row_iff split: option.split sum.split prod.split)

lemma log_untouched_purgeRuntimeLogResults [frame_simps]:
  "events (snd (purgeRuntimeLogResults now t d)) = events d"
  "deliveries (snd (purgeRuntimeLogResults now t d)) = deliveries d"
  by (simp_all add: purgeRuntimeLogResults_def  after_def after_unit_def draw_def Let_def frame_simps del: exists_row_iff split: option.split sum.split prod.split)

lemma log_untouched_createSystemBackup [frame_simps]:
  "events (snd (createSystemBackup gen now u tgt path d)) = events d"
  "deliveries (snd (createSystemBackup gen now u tgt path d)) = deliveries d"
  by (simp_all add: createSystemBackup_def  after_def after_unit_def draw_def Let_def frame_simps del: exists_row_iff split: option.split sum.split prod.split)

lemma log_untouched_completeSystemBackup [frame_simps]:
  "events (after (completeSystemBackup now i n cs d) d) = events d"
  "deliveries (after (completeSystemBackup now i n cs d) d) = deliveries d"
  by (simp_all add: completeSystemBackup_def settle_backup_def after_def after_unit_def draw_def Let_def frame_simps del: exists_row_iff split: option.split sum.split prod.split)

lemma log_untouched_failSystemBackup [frame_simps]:
  "events (after (failSystemBackup now i err d) d) = events d"
  "deliveries (after (failSystemBackup now i err d) d) = deliveries d"
  by (simp_all add: failSystemBackup_def settle_backup_def after_def after_unit_def draw_def Let_def frame_simps del: exists_row_iff split: option.split sum.split prod.split)

lemma log_untouched_importSystemBackup [frame_simps]:
  "events (after (importSystemBackup now i u path n cs j d) d) = events d"
  "deliveries (after (importSystemBackup now i u path n cs j d) d) = deliveries d"
  by (simp_all add: importSystemBackup_def  after_def after_unit_def draw_def Let_def frame_simps del: exists_row_iff split: option.split sum.split prod.split)

lemma log_untouched_createSystemBackupImport [frame_simps]:
  "events (snd (createSystemBackupImport gen now u path d)) = events d"
  "deliveries (snd (createSystemBackupImport gen now u path d)) = deliveries d"
  by (simp_all add: createSystemBackupImport_def  after_def after_unit_def draw_def Let_def frame_simps del: exists_row_iff split: option.split sum.split prod.split)

lemma log_untouched_updateSystemBackupImport [frame_simps]:
  "events (after (updateSystemBackupImport now i st n cs b err d) d) = events d"
  "deliveries (after (updateSystemBackupImport now i st n cs b err d) d) = deliveries d"
  by (simp_all add: updateSystemBackupImport_def  after_def after_unit_def draw_def Let_def frame_simps del: exists_row_iff split: option.split sum.split prod.split)

lemma log_untouched_claimSystemBackupImport [frame_simps]:
  "events (snd (claimSystemBackupImport now i u d)) = events d"
  "deliveries (snd (claimSystemBackupImport now i u d)) = deliveries d"
  by (simp_all add: claimSystemBackupImport_def  after_def after_unit_def draw_def Let_def frame_simps del: exists_row_iff split: option.split sum.split prod.split)

lemma log_untouched_finishSystemBackupImport [frame_simps]:
  "events (snd (finishSystemBackupImport now i n st b err d)) = events d"
  "deliveries (snd (finishSystemBackupImport now i n st b err d)) = deliveries d"
  by (simp_all add: finishSystemBackupImport_def  after_def after_unit_def draw_def Let_def frame_simps del: exists_row_iff split: option.split sum.split prod.split)

lemma log_untouched_rejectStaleSystemBackupImports [frame_simps]:
  "events (snd (rejectStaleSystemBackupImports now t d)) = events d"
  "deliveries (snd (rejectStaleSystemBackupImports now t d)) = deliveries d"
  by (simp_all add: rejectStaleSystemBackupImports_def  after_def after_unit_def draw_def Let_def frame_simps del: exists_row_iff split: option.split sum.split prod.split)

lemma log_untouched_recordSystemBackupTransferEvent [frame_simps]:
  "events (recordSystemBackupTransferEvent u op b r j m d) = events d"
  "deliveries (recordSystemBackupTransferEvent u op b r j m d) = deliveries d"
  by (simp_all add: recordSystemBackupTransferEvent_def  after_def after_unit_def draw_def Let_def frame_simps del: exists_row_iff split: option.split sum.split prod.split)

lemma log_untouched_createSystemRecoveryRequest [frame_simps]:
  "events (snd (createSystemRecoveryRequest gen now r u tok d)) = events d"
  "deliveries (snd (createSystemRecoveryRequest gen now r u tok d)) = deliveries d"
  by (simp_all add: createSystemRecoveryRequest_def  after_def after_unit_def draw_def Let_def frame_simps del: exists_row_iff split: option.split sum.split prod.split)

lemma log_untouched_finishSystemRecoveryRequest [frame_simps]:
  "events (snd (finishSystemRecoveryRequest now i tok st err d)) = events d"
  "deliveries (snd (finishSystemRecoveryRequest now i tok st err d)) = deliveries d"
  by (simp_all add: finishSystemRecoveryRequest_def  after_def after_unit_def draw_def Let_def frame_simps del: exists_row_iff split: option.split sum.split prod.split)

lemma log_untouched_createSystemRestore [frame_simps]:
  "events (snd (createSystemRestore gen now b u st err d)) = events d"
  "deliveries (snd (createSystemRestore gen now b u st err d)) = deliveries d"
  by (simp_all add: createSystemRestore_def  after_def after_unit_def draw_def Let_def frame_simps del: exists_row_iff split: option.split sum.split prod.split)

lemma log_untouched_updateSystemRestore [frame_simps]:
  "events (after (updateSystemRestore now i st err d) d) = events d"
  "deliveries (after (updateSystemRestore now i st err d) d) = deliveries d"
  by (simp_all add: updateSystemRestore_def  after_def after_unit_def draw_def Let_def frame_simps del: exists_row_iff split: option.split sum.split prod.split)

lemma log_untouched_setAgentNotificationPreference [frame_simps]:
  "events (snd (setAgentNotificationPreference lm now dn i b u d)) = events d"
  "deliveries (snd (setAgentNotificationPreference lm now dn i b u d)) = deliveries d"
  by (simp_all add: setAgentNotificationPreference_def upsert_scope_def after_def after_unit_def draw_def Let_def frame_simps del: exists_row_iff split: option.split sum.split prod.split)

lemma log_untouched_setServiceNotificationPreference [frame_simps]:
  "events (snd (setServiceNotificationPreference lm now dn i p s b u d)) = events d"
  "deliveries (snd (setServiceNotificationPreference lm now dn i p s b u d)) = deliveries d"
  by (simp_all add: setServiceNotificationPreference_def upsert_scope_def after_def after_unit_def draw_def Let_def frame_simps del: exists_row_iff split: option.split sum.split prod.split)
section \<open>Operations that record events\<close>

text \<open>The log and the queue grow: new events at the end, new deliveries for them that nobody has claimed.\<close>

definition log_grows :: "(nat \<Rightarrow> uuid) \<Rightarrow> db \<Rightarrow> db \<Rightarrow> bool" where
  "log_grows gen d e \<longleftrightarrow> draws d \<le> draws e
     \<and> (\<exists>evs dls. events e = events d @ evs \<and> deliveries e = deliveries d @ dls
         \<and> (\<forall>r \<in> set dls. dlv_status r = DlPending \<and> dlv_attempts r = 0 \<and> dlv_event_id r \<in> evt_id ` set evs)
         \<and> distinct (map dlv_id dls) \<and> dlv_id ` set dls \<subseteq> gen ` {draws d ..< draws e})"

lemma log_grows_same:
  "draws d \<le> draws e \<Longrightarrow> events e = events d \<Longrightarrow> deliveries e = deliveries d \<Longrightarrow> log_grows gen d e"
  unfolding log_grows_def by (rule conjI, assumption, rule exI [of _ "[]"], rule exI [of _ "[]"]) simp

lemma log_grows_refl: "log_grows gen d d"
  by (rule log_grows_same) simp_all

lemma log_grows_trans:
  assumes gen: "inj gen" and de: "log_grows gen d e" and ef: "log_grows gen e f"
  shows "log_grows gen d f"
proof -
  from de obtain evs dls where 1: "draws d \<le> draws e" "events e = events d @ evs" "deliveries e = deliveries d @ dls"
    "\<forall>r \<in> set dls. dlv_status r = DlPending \<and> dlv_attempts r = 0 \<and> dlv_event_id r \<in> evt_id ` set evs"
    "distinct (map dlv_id dls)" "dlv_id ` set dls \<subseteq> gen ` {draws d ..< draws e}"
    by (auto simp: log_grows_def)
  from ef obtain evs' dls' where 2: "draws e \<le> draws f" "events f = events e @ evs'" "deliveries f = deliveries e @ dls'"
    "\<forall>r \<in> set dls'. dlv_status r = DlPending \<and> dlv_attempts r = 0 \<and> dlv_event_id r \<in> evt_id ` set evs'"
    "distinct (map dlv_id dls')" "dlv_id ` set dls' \<subseteq> gen ` {draws e ..< draws f}"
    by (auto simp: log_grows_def)
  have disj: "gen ` {draws d ..< draws e} \<inter> gen ` {draws e ..< draws f} = {}"
    by (subst image_Int [OF gen, symmetric]) simp
  have sub: "gen ` {draws d ..< draws e} \<subseteq> gen ` {draws d ..< draws f}" "gen ` {draws e ..< draws f} \<subseteq> gen ` {draws d ..< draws f}"
    using 1(1) 2(1) by (auto intro!: imageI)
  have "dlv_id ` set (dls @ dls') \<subseteq> gen ` {draws d ..< draws f}"
    by (simp only: set_append image_Un Un_subset_iff subset_trans [OF 1(6) sub(1)] subset_trans [OF 2(6) sub(2)] simp_thms)
  moreover have "distinct (map dlv_id (dls @ dls'))"
    using 1(5,6) 2(5,6) disj by (auto simp: distinct_map)
  moreover have "\<forall>r \<in> set (dls @ dls'). dlv_status r = DlPending \<and> dlv_attempts r = 0 \<and> dlv_event_id r \<in> evt_id ` set (evs @ evs')"
    using 1(4) 2(4) by auto
  ultimately show ?thesis
    unfolding log_grows_def
    by (intro conjI exI [of _ "evs @ evs'"] exI [of _ "dls @ dls'"]) (use 1(1-3) 2(1-3) in simp_all)
qed

lemma log_grows_event: "log_grows gen d (enqueueEvent gen now t v d)"
proof -
  let ?w = "delivery_wanted t (ev_agentId v) (ev_projectName v) (ev_serviceName v) d"
  show ?thesis
    unfolding log_grows_def enqueueEvent_events enqueueEvent_deliveries
    by (rule conjI, rule less_imp_le, rule enqueueEvent_draws, rule exI, rule exI, rule conjI, rule refl, rule conjI, rule refl)
      (auto simp: enqueueEvent_def draw_def Let_def delivery_wanted_events)
qed

lemma log_grows_event':
  assumes "inj gen" "log_grows gen d e"
  shows "log_grows gen d (enqueueEvent gen now t v e)"
  by (rule log_grows_trans [OF assms log_grows_event])

lemma log_grows_all:
  assumes "inj gen" "log_grows gen d e"
  shows "log_grows gen d (enqueueAll gen now evs e)"
  unfolding enqueueAll_def
  by (rule fold_invariant) (auto simp: assms split: prod.split intro: log_grows_event' [OF assms(1)])

text \<open>Growth is seen through tables that are neither the log nor the queue.\<close>

lemma log_grows_right:
  "log_grows gen d e \<Longrightarrow> draws f = draws e \<Longrightarrow> events f = events e \<Longrightarrow> deliveries f = deliveries e \<Longrightarrow> log_grows gen d f"
  by (simp add: log_grows_def)

lemma log_grows_left:
  "log_grows gen e f \<Longrightarrow> draws d = draws e \<Longrightarrow> events d = events e \<Longrightarrow> deliveries d = deliveries e \<Longrightarrow> log_grows gen d f"
  by (simp add: log_grows_def)

lemma heartbeat_grows:
  assumes "inj gen"
  shows "log_grows gen d (heartbeatAgent gen now i meta d)"
proof -
  have "log_grows gen d (d\<lparr>agents := t\<rparr>)" for t by (rule log_grows_same) simp_all
  then show ?thesis
    unfolding heartbeatAgent_def Let_def
    by (intro log_grows_right [of gen d _ "_\<lparr>connectors := _\<rparr>"])
      (auto split: option.split intro: log_grows_event' [OF assms])
qed

lemma telemetry_grows:
  assumes "inj gen"
  shows "log_grows gen d (recordTelemetry gen dp now dn i obs node svcs d)"
  unfolding recordTelemetry_def draw_def Let_def prod.case
  by (rule log_grows_all [OF assms], rule log_grows_same) simp_all

lemma sweep_grows:
  assumes "inj gen"
  shows "log_grows gen d (snd (sweepOfflineAgents gen now b d))"
  unfolding sweepOfflineAgents_def Let_def snd_conv
  by (rule log_grows_all [OF assms], rule log_grows_same) simp_all

lemma tls_grows:
  assumes "inj gen"
  shows "log_grows gen d (saveTlsObservation gen iso8601 now i obs d)"
proof -
  have "log_grows gen d (d\<lparr>domains := t\<rparr>)" for t by (rule log_grows_same) simp_all
  then show ?thesis
    by (auto simp: saveTlsObservation_def Let_def log_grows_refl split: option.split intro: log_grows_event' [OF assms])
qed

lemma complete_grows:
  assumes gen: "inj gen"
  shows "log_grows gen d (report_sync_failure gen now a c s d)"
    "log_grows gen d (complete_backup gen now a c s res d)"
    "log_grows gen d (complete_restore gen now a c s res d)"
    "log_grows gen d (complete_runtime_op gen now a c s res d)"
    "log_grows gen d (complete_run gen now a c s res d)"
proof -
  note event = log_grows_event' [OF gen]
  have "log_grows gen d (d\<lparr>backups := t\<rparr>)" "log_grows gen d (d\<lparr>restores := t'\<rparr>)" "log_grows gen d (d\<lparr>runtime_ops := t''\<rparr>)"
    "log_grows gen d (d\<lparr>runs := u\<rparr>)" "log_grows gen d (d\<lparr>runs := u, deployments := u'\<rparr>)" for t t' t'' u u'
    by (rule log_grows_same; simp)+
  then show "log_grows gen d (report_sync_failure gen now a c s d)"
    "log_grows gen d (complete_backup gen now a c s res d)"
    "log_grows gen d (complete_restore gen now a c s res d)"
    "log_grows gen d (complete_runtime_op gen now a c s res d)"
    "log_grows gen d (complete_run gen now a c s res d)"
    by (auto simp: report_sync_failure_def complete_backup_def complete_restore_def complete_runtime_op_def
        complete_run_def Let_def log_grows_refl split: option.split bool.split intro: event)
qed

lemma completed_grows:
  assumes gen: "inj gen"
  shows "log_grows gen d (completed_db gen now a i s res c d)"
proof -
  note trans = log_grows_trans [OF gen]
  let ?d1 = "d\<lparr>commands := update_rows (\<lambda>r. cmd_id r = i \<and> cmd_agent_id r = a) (close_command now s (command_result (cmd_type c) res)) (commands d)\<rparr>"
  let ?d2 = "complete_route now a c s (complete_stack now a c s (complete_connector now a c s res (complete_agent now a (cmd_type c) s res ?d1)))"
  have 2: "log_grows gen d ?d2" by (rule log_grows_same) (simp_all add: frame_simps)
  let ?d3 = "complete_runtime_op gen now a c s res (complete_restore gen now a c s res (complete_backup gen now a c s res (report_sync_failure gen now a c s ?d2)))"
  have 3: "log_grows gen d ?d3" by (rule trans [OF trans [OF trans [OF trans [OF 2 complete_grows(1) [OF gen]] complete_grows(2) [OF gen]] complete_grows(3) [OF gen]] complete_grows(4) [OF gen]])
  have 4: "log_grows gen d (complete_log_request now a c s res ?d3)"
    by (rule log_grows_right [OF 3]) (simp_all add: frame_simps)
  show ?thesis
    unfolding completed_db_def by (rule trans [OF 4 complete_grows(5) [OF gen]])
qed

lemma complete_command_grows:
  assumes "inj gen"
  shows "log_grows gen d (snd (completeCommand gen now a i s res d))"
  by (simp add: completeCommand_cases completed_grows [OF assms] log_grows_refl split: option.split)

lemma fail_grows:
  assumes gen: "inj gen"
  shows "log_grows gen d (fail_backup gen now c d)"
    "log_grows gen d (fail_restore gen now c d)"
    "log_grows gen d (fail_runtime_op gen now c d)"
proof -
  note event = log_grows_event' [OF gen]
  have "log_grows gen d (d\<lparr>backups := t\<rparr>)" "log_grows gen d (d\<lparr>restores := t'\<rparr>)" "log_grows gen d (d\<lparr>runtime_ops := t''\<rparr>)" for t t' t''
    by (rule log_grows_same; simp)+
  then show "log_grows gen d (fail_backup gen now c d)"
    "log_grows gen d (fail_restore gen now c d)"
    "log_grows gen d (fail_runtime_op gen now c d)"
    by (auto simp: fail_backup_def fail_restore_def fail_runtime_op_def Let_def log_grows_refl split: option.split intro: event)
qed

lemma fail_operation_grows:
  assumes gen: "inj gen"
  shows "log_grows gen d (fail_operation gen now c d)"
proof -
  note trans = log_grows_trans [OF gen]
  have "log_grows gen d (fail_connector now c d)" by (rule log_grows_same) (simp_all add: frame_simps)
  then have "log_grows gen d (fail_runtime_op gen now c (fail_restore gen now c (fail_backup gen now c (fail_connector now c d))))"
    by (rule trans [OF trans [OF trans [OF _ fail_grows(1) [OF gen]] fail_grows(2) [OF gen]] fail_grows(3) [OF gen]])
  then show ?thesis
    unfolding fail_operation_def Let_def
    by (rule log_grows_right) (simp_all add: frame_simps)
qed

lemma fail_stale_grows:
  assumes gen: "inj gen"
  shows "log_grows gen d (snd (failStaleCommands gen now t d))"
  unfolding failStaleCommands_eq snd_conv
  by (rule fold_invariant)
    (auto simp: stale_db_def intro: log_grows_same log_grows_trans [OF gen _ fail_operation_grows [OF gen]])

section \<open>The invariant of the queue\<close>

text \<open>
  Identifiers are unique, an attempt count is within the bounds of its column, and a delivery is for an
  event of the log. The events themselves are never changed.
\<close>

definition deliveries_ok :: "(nat \<Rightarrow> uuid) \<Rightarrow> db \<Rightarrow> bool" where
  "deliveries_ok gen d \<longleftrightarrow> distinct (map dlv_id (deliveries d)) \<and> dlv_id ` set (deliveries d) \<subseteq> drawn gen (draws d)
     \<and> (\<forall>r \<in> set (deliveries d). 0 \<le> dlv_attempts r \<and> dlv_attempts r \<le> 10 \<and> dlv_event_id r \<in> evt_id ` set (events d))"

lemma deliveries_ok_empty: "deliveries_ok gen empty_db"
  by (simp add: deliveries_ok_def empty_db_def)

lemma deliveries_ok_grows:
  assumes gen: "inj gen" and ok: "deliveries_ok gen d" and grows: "log_grows gen d e"
  shows "deliveries_ok gen e"
proof -
  from grows obtain evs dls where g: "draws d \<le> draws e" "events e = events d @ evs" "deliveries e = deliveries d @ dls"
    "\<forall>r \<in> set dls. dlv_status r = DlPending \<and> dlv_attempts r = 0 \<and> dlv_event_id r \<in> evt_id ` set evs"
    "distinct (map dlv_id dls)" "dlv_id ` set dls \<subseteq> gen ` {draws d ..< draws e}"
    by (auto simp: log_grows_def)
  have "gen ` {..< draws d} \<inter> gen ` {draws d ..< draws e} = {}"
    by (subst image_Int [OF gen, symmetric]) auto
  with ok g(5,6) have "distinct (map dlv_id (deliveries e))"
    unfolding g(3) deliveries_ok_def drawn_def by (simp add: distinct_append) blast
  moreover have "dlv_id ` set (deliveries e) \<subseteq> drawn gen (draws e)"
  proof -
    have "gen ` {..< draws d} \<subseteq> gen ` {..< draws e}" "gen ` {draws d ..< draws e} \<subseteq> gen ` {..< draws e}"
      using g(1) by (auto intro!: imageI)
    note sub = subset_trans [OF _ this(1)] subset_trans [OF g(6) this(2)]
    have "dlv_id ` set (deliveries d) \<subseteq> gen ` {..< draws d}" using ok by (simp add: deliveries_ok_def drawn_def)
    from sub(1) [OF this] sub(2) show ?thesis
      by (simp only: g(3) drawn_def set_append image_Un Un_subset_iff simp_thms)
  qed
  moreover have "\<forall>r \<in> set (deliveries e). 0 \<le> dlv_attempts r \<and> dlv_attempts r \<le> 10 \<and> dlv_event_id r \<in> evt_id ` set (events e)"
    using ok g(4) unfolding g(2,3) deliveries_ok_def by auto
  ultimately show ?thesis by (simp add: deliveries_ok_def)
qed

lemma deliveries_ok_update:
  assumes ok: "deliveries_ok gen d" and d: "deliveries e = update_rows P f (deliveries d)"
    and frame: "events e = events d" "draws e = draws d"
    and f: "\<And>r. dlv_id (f r) = dlv_id r" "\<And>r. dlv_event_id (f r) = dlv_event_id r"
    and bound: "\<And>r. r \<in> set (deliveries d) \<Longrightarrow> P r \<Longrightarrow> 0 \<le> dlv_attempts (f r) \<and> dlv_attempts (f r) \<le> 10"
  shows "deliveries_ok gen e"
proof -
  have "map dlv_id (deliveries e) = map dlv_id (deliveries d)"
    unfolding d by (rule map_update_rows) (rule f)
  moreover have "dlv_id ` set (deliveries e) = dlv_id ` set (deliveries d)"
    using calculation by (metis list.set_map)
  moreover have "0 \<le> dlv_attempts s \<and> dlv_attempts s \<le> 10 \<and> dlv_event_id s \<in> evt_id ` set (events d)"
    if "s \<in> set (deliveries e)" for s
    using that unfolding d by (cases rule: in_update_rowsE) (use ok bound f in \<open>auto simp: deliveries_ok_def\<close>)
  ultimately show ?thesis using ok by (simp add: deliveries_ok_def frame)
qed

text \<open>A claim moves one delivery, which is pending or was left by a dispatcher that is gone.\<close>

lemma claim_cases:
  assumes ok: "deliveries_ok gen d"
  obtains (none) "claimNotificationDelivery now d = Inr (None, d)" "next_delivery now d = None"
  | (full) r where "claimNotificationDelivery now d = Inl CheckViolation" "next_delivery now d = Some r" "dlv_attempts r = 10"
  | (claimed) r dl where "next_delivery now d = Some r" "r \<in> set (deliveries d)" "claimable now r" "dlv_attempts r < 10"
      "Delivery_id dl = dlv_id r"
      "claimNotificationDelivery now d = Inr (Some dl, d\<lparr>deliveries := update_rows (\<lambda>x. dlv_id x = dlv_id r)
         (\<lambda>x. x\<lparr>dlv_status := DlDispatching, dlv_claimed_at := Some now, dlv_attempts := dlv_attempts x + 1\<rparr>) (deliveries d)\<rparr>)"
proof (cases "next_delivery now d")
  case None
  then show thesis by (intro none) (simp_all add: claimNotificationDelivery_def)
next
  case (Some r)
  note r = next_delivery_claimable [OF Some]
  with ok have att: "dlv_attempts r \<le> 10" and ev: "dlv_event_id r \<in> evt_id ` set (events d)"
    by (auto simp: deliveries_ok_def)
  show thesis
  proof (cases "dlv_attempts r = 10")
    case True
    with Some show thesis by (intro full [of r]) (simp_all add: claimNotificationDelivery_def)
  next
    case False
    from ev obtain e where "find (\<lambda>e. evt_id e = dlv_event_id r) (events d) = Some e"
      by (cases "find (\<lambda>e. evt_id e = dlv_event_id r) (events d)") (auto simp: find_none_iff)
    with Some False att r show thesis by (intro claimed [of r]) (auto simp: claimNotificationDelivery_def)
  qed
qed

lemma claim_deliveries_ok:
  assumes ok: "deliveries_ok gen d"
  shows "deliveries_ok gen (after (claimNotificationDelivery now d) d)"
  using ok
proof (cases rule: claim_cases [of _ _ now])
  case (claimed r dl)
  have same: "x = r" if "x \<in> set (deliveries d)" "dlv_id x = dlv_id r" for x
    using ok that claimed(2) by (auto simp: deliveries_ok_def intro: distinct_key_eq)
  have bound: "0 \<le> dlv_attempts x + 1 \<and> dlv_attempts x + 1 \<le> 10" if "x \<in> set (deliveries d)" "dlv_id x = dlv_id r" for x
    using ok claimed(2,4) same [OF that] by (auto simp: deliveries_ok_def)
  show ?thesis
    unfolding claimed(6) after_def sum.case prod.case
    by (rule deliveries_ok_update [OF ok, where P = "\<lambda>x. dlv_id x = dlv_id r"
          and f = "\<lambda>x. x\<lparr>dlv_status := DlDispatching, dlv_claimed_at := Some now, dlv_attempts := dlv_attempts x + 1\<rparr>"])
      (simp_all add: bound)
qed (use ok in \<open>simp_all add: after_def\<close>)

lemma claim_follows:
  assumes ok: "deliveries_ok gen d"
  shows "deliveries_follow d (after (claimNotificationDelivery now d) d)"
  using ok
proof (cases rule: claim_cases [of _ _ now])
  case (claimed r dl)
  have same: "x = r" if "x \<in> set (deliveries d)" "dlv_id x = dlv_id r" for x
    using ok that claimed(2) by (auto simp: deliveries_ok_def intro: distinct_key_eq)
  have "dlv_status r = DlPending \<or> dlv_status r = DlDispatching" using claimed(3) by (auto simp: claimable_def)
  then have "delivery_step (dlv_status r) DlDispatching" by (auto intro: delivery_step.intros)
  then show ?thesis
    unfolding claimed(6) after_def sum.case prod.case
    by (intro deliveries_follow_update [where P = "\<lambda>x. dlv_id x = dlv_id r"])
      (auto simp: delivery_follows_def dest: same)
qed (simp_all add: after_def deliveries_follow_append)

section \<open>Every step\<close>

lemma deliveries_ok_frame:
  "deliveries_ok gen d \<Longrightarrow> deliveries e = deliveries d \<Longrightarrow> events e = events d \<Longrightarrow> draws d \<le> draws e \<Longrightarrow> deliveries_ok gen e"
  unfolding deliveries_ok_def drawn_def by (auto dest!: subsetD)

lemma step_deliveries_ok:
  assumes gen: "inj gen" and ok: "deliveries_ok gen d" and step: "step gen d e"
  shows "deliveries_ok gen e"
proof -
  have keep: "deliveries_ok gen (d\<lparr>deliveries := update_rows (dispatching i) f (deliveries d)\<rparr>)"
    if "\<And>r. dlv_id (f r) = dlv_id r" "\<And>r. dlv_event_id (f r) = dlv_event_id r" "\<And>r. dlv_attempts (f r) = dlv_attempts r" for i f
    by (rule deliveries_ok_update [OF ok, where P = "dispatching i" and f = f]) (use ok that in \<open>auto simp: deliveries_ok_def\<close>)
  have settle: "deliveries_ok gen (completeNotificationDelivery now i d)"
    "deliveries_ok gen (skipNotificationDelivery now i d)"
    "deliveries_ok gen (retryNotificationDelivery now i err n b d)" for now i err n b
    unfolding delivery_ops_def by (rule keep; simp)+
  note grows = deliveries_ok_grows [OF gen ok]
  note grow = grows [OF heartbeat_grows [OF gen]] grows [OF telemetry_grows [OF gen]] grows [OF sweep_grows [OF gen]]
    grows [OF tls_grows [OF gen]] grows [OF complete_command_grows [OF gen]] grows [OF fail_stale_grows [OF gen]]
  from step show ?thesis
    by cases (simp_all only: settle grow claim_deliveries_ok [OF ok], (rule deliveries_ok_frame [OF ok]; simp add: frame_simps)+)
qed

lemma reachable_deliveries_ok:
  assumes gen: "inj gen" and reach: "reachable gen d"
  shows "deliveries_ok gen d"
  using reach by (induction rule: reachable.induct) (simp_all add: deliveries_ok_empty step_deliveries_ok [OF gen])

lemma log_grows_follow: "log_grows gen d e \<Longrightarrow> deliveries_follow d e"
  by (auto simp: log_grows_def intro: deliveries_follow_append)

lemma step_follows:
  assumes gen: "inj gen" and ok: "deliveries_ok gen d" and step: "step gen d e"
  shows "deliveries_follow d e"
proof -
  note grow = log_grows_follow [OF heartbeat_grows [OF gen]] log_grows_follow [OF telemetry_grows [OF gen]]
    log_grows_follow [OF sweep_grows [OF gen]] log_grows_follow [OF tls_grows [OF gen]]
    log_grows_follow [OF complete_command_grows [OF gen]] log_grows_follow [OF fail_stale_grows [OF gen]]
  from step show ?thesis
    by cases (simp_all only: delivery_ops_follow grow claim_follows [OF ok],
        (rule deliveries_follow_append [where new = "[]"]; simp add: frame_simps)+)
qed

text \<open>A delivery that is finished stays in the queue as it is.\<close>

definition finished :: "delivery_row \<Rightarrow> bool" where
  "finished r \<longleftrightarrow> dlv_status r \<in> {DlSucceeded, DlSkipped, DlFailed}"

lemma follow_finished:
  assumes "deliveries_follow d e" "r \<in> set (deliveries d)" "finished r"
  shows "r \<in> set (deliveries e)"
proof -
  let ?t = "take (length (deliveries d)) (deliveries e)"
  from assms(1) have rel: "list_all2 delivery_follows (deliveries d) ?t" by (auto simp: deliveries_follow_def)
  from assms(2) obtain k where k: "k < length (deliveries d)" "r = deliveries d ! k" by (auto simp: in_set_conv_nth)
  have "delivery_follows r (?t ! k)" using list_all2_nthD [OF rel k(1)] k(2) by simp
  with assms(3) have "?t ! k = r"
    by (auto simp: delivery_follows_def finished_def elim: delivery_step_finished)
  moreover have "k < length ?t" using list_all2_lengthD [OF rel] k(1) by simp
  ultimately show ?thesis by (metis in_set_takeD nth_mem)
qed

section \<open>Properties\<close>

text \<open>C13. A notification that was delivered, skipped or given up stays so: whatever operations run
  afterwards, in whatever order and at whatever times, its row in the queue is never changed again,
  so no message is sent twice once its dispatch was recorded.\<close>

theorem finished_deliveries_stay:
  assumes "inj gen" "reachable gen d" "(step gen)\<^sup>*\<^sup>* d e" "r \<in> set (deliveries d)" "finished r"
  shows "r \<in> set (deliveries e)"
  using assms(3)
proof (induction rule: rtranclp_induct)
  case (step e f)
  have "deliveries_ok gen e"
    by (rule reachable_deliveries_ok [OF assms(1) reachable_steps [OF step(1) assms(2)]])
  from follow_finished [OF step_follows [OF assms(1) this step(2)] step(3) assms(5)] show ?case .
qed (rule assms(4))

definition delivered :: db where
  "delivered = completeNotificationDelivery 400002 (unary 21) (sample 22)"

lemma reachable_delivered: "reachable unary delivered"
  unfolding delivered_def by (rule reachable.more [OF reachable_sample]) (rule step.intros)

lemma delivered_row: "hd (deliveries delivered) \<in> set (deliveries delivered)" "finished (hd (deliveries delivered))"
  by (unfold delivered_def sample_states) code_simp+

theorem finished_deliveries_stay_witness:
  "hd (deliveries delivered) \<in> set (deliveries (snd (sweepOfflineAgents unary 400003 200000 delivered)))"
  by (rule finished_deliveries_stay [OF inj_unary reachable_delivered _ delivered_row])
    (rule r_into_rtranclp, rule step.sweepOfflineAgents)

text \<open>C26. Handing out the next notification fails in exactly one situation: the notification that is due
  first has been handed out ten times, the most its column allows. It stays due, so every later
  attempt fails as well and no other notification is handed out.\<close>

theorem claim_fails_iff:
  assumes "inj gen" "reachable gen d"
  shows "claimNotificationDelivery now d = Inl err \<longleftrightarrow>
    err = CheckViolation \<and> (\<exists>r. next_delivery now d = Some r \<and> dlv_attempts r = 10)"
  using reachable_deliveries_ok [OF assms] by (cases rule: claim_cases [of _ _ now]) auto

text \<open>A dispatcher that dies after each of ten claims, two minutes and more apart.\<close>

definition abandoned_steps :: "(db \<Rightarrow> db) list" where
  "abandoned_steps = map (\<lambda>k d. after (claimNotificationDelivery (400001 + 130000 * int k) d) d) [0..<10]"

definition abandoned :: db where
  "abandoned = fold (\<lambda>f d. f d) abandoned_steps (sample 21)"

lemma reachable_abandoned: "reachable unary abandoned"
  unfolding abandoned_def abandoned_steps_def
  by (rule reachable_fold [OF reachable_sample]) (auto intro: step.intros)

theorem claim_fails_iff_witness:
  "\<exists>r. next_delivery 9999999 abandoned = Some r \<and> dlv_attempts r = 10"
proof -
  have "claimNotificationDelivery 9999999 abandoned = Inl CheckViolation" by (unfold abandoned_def abandoned_steps_def sample_states, code_simp)
  then show ?thesis by (simp only: claim_fails_iff [OF inj_unary reachable_abandoned] simp_thms)
qed

text \<open>C27. A notification that is handed out is the one that is due first, and dispatching it leaves it
  skipped when nobody wants it any more, delivered when the message was accepted, given up after
  the sixth attempt and pending again otherwise; the other notifications keep their status.\<close>

theorem dispatch_of_claimed:
  assumes "inj gen" "reachable gen d" "claimNotificationDelivery t d = Inr (Some dl, e)"
  shows "delivery_status (dispatch opts (pg_store gen now) dl e) (Delivery_id dl) =
      {if \<not> isNotificationDeliveryEnabled dl e then DlSkipped
       else if succeeds (send_message opts (getNotificationSecrets e) dl) then DlSucceeded
       else if 6 \<le> Delivery_attempts dl then DlFailed else DlPending}
    \<and> (\<forall>j. j \<noteq> Delivery_id dl \<longrightarrow> delivery_status (dispatch opts (pg_store gen now) dl e) j = delivery_status e j)"
proof -
  have "distinct (map dlv_id (deliveries d))"
    using reachable_deliveries_ok [OF assms(1,2)] by (simp add: deliveries_ok_def)
  note marked = claim_marks [OF assms(3) this]
  have "delivery_status (dispatch opts (pg_store gen now) dl e) j = delivery_status e j" if "j \<noteq> Delivery_id dl" for j
    by (rule pg_deliveries.dispatch_others [OF that])
  with pg_deliveries.dispatch_outcome [OF marked, where gen = gen and now = now and opts = opts]
  show ?thesis by (simp add: pg_store_def)
qed

definition quiet :: dispatcher_options where
  "quiet = \<lparr>opt_decrypt = Inr, opt_fetch = (\<lambda>_ _. Responded 200), opt_iso8601 = (\<lambda>_. []),
     opt_offlineAfterMs = None, opt_commandStaleAfterMs = None\<rparr>"

definition claimed :: "NotificationDelivery \<times> db" where
  "claimed = (case claimNotificationDelivery 400001 (sample 21) of Inr (Some dl, e) \<Rightarrow> (dl, e) | _ \<Rightarrow> undefined)"

theorem dispatch_of_claimed_witness:
  "delivery_status (dispatch quiet (pg_store unary (\<lambda>_. 400002)) (fst claimed) (snd claimed)) (unary 21) = {DlSucceeded}"
proof -
  have c: "claimNotificationDelivery 400001 (sample 21) = Inr (Some (fst claimed), snd claimed)"
    by (unfold claimed_def sample_states, code_simp)
  have i: "Delivery_id (fst claimed) = unary 21" by (unfold claimed_def sample_states, code_simp)
  have e: "isNotificationDeliveryEnabled (fst claimed) (snd claimed)" by (unfold claimed_def sample_states, code_simp)
  have s: "succeeds (send_message quiet (getNotificationSecrets (snd claimed)) (fst claimed))" by (unfold claimed_def sample_states, code_simp)
  show ?thesis
    using dispatch_of_claimed [OF inj_unary reachable_sample c, of quiet "\<lambda>_. 400002"] e s unfolding i by simp
qed

text \<open>The wait before the next attempt is between five seconds and fifteen minutes and never gets
  shorter as the attempts go on.\<close>

lemma retry_delay_bounded:
  "5 \<le> retry_delay n \<and> retry_delay n \<le> 900 \<and> retry_delay n \<le> retry_delay (n + int k)"
  by (simp add: retry_delay_bounds retry_delay_mono)

end
