(* ===== verification/Gw_Base64.thy ===== *)
theory Gw_Base64
  imports Gw_Js
begin

text \<open>
  Bytes as numbers below 256, and what the code uses of \<open>Buffer\<close>: the hexadecimal and base64
  codecs and the UTF-8 encoding of a string.
\<close>

type_synonym bytes = "nat list"

definition bytes_ok :: "bytes \<Rightarrow> bool" where
  "bytes_ok bs \<longleftrightarrow> (\<forall>b \<in> set bs. b < 256)"

section \<open>Base64\<close>

definition sextet_char :: "nat \<Rightarrow> char" where
  "sextet_char n = char_of
     (if n < 26 then 65 + n else if n < 52 then 71 + n else if n < 62 then n - 4
      else if n = 62 then 43 else (47::nat))"

definition char_sextet :: "char \<Rightarrow> nat option" where
  "char_sextet c =
     (if is_upper c then Some (code c - 65) else if is_lower c then Some (code c - 71)
      else if is_digit c then Some (code c + 4)
      else if c = CHR ''+'' then Some 62 else if c = CHR ''/'' then Some 63 else None)"

text \<open>The alphabet the decoder takes besides: that of \<open>base64url\<close>.\<close>

definition any_sextet :: "char \<Rightarrow> nat option" where
  "any_sextet c = (if c = CHR ''-'' then Some 62 else if c = CHR ''_'' then Some 63 else char_sextet c)"

fun base64 :: "bytes \<Rightarrow> string" where
  "base64 [] = []"
| "base64 [a] = [sextet_char (a div 4), sextet_char (a mod 4 * 16), CHR ''='', CHR ''='']"
| "base64 [a, b] = [sextet_char (a div 4), sextet_char (a mod 4 * 16 + b div 16),
                    sextet_char (b mod 16 * 4), CHR ''='']"
| "base64 (a # b # c # r) =
     [sextet_char (a div 4), sextet_char (a mod 4 * 16 + b div 16),
      sextet_char (b mod 16 * 4 + c div 64), sextet_char (c mod 64)] @ base64 r"

fun sextets_bytes :: "nat list \<Rightarrow> bytes" where
  "sextets_bytes [] = []"
| "sextets_bytes [w] = []"
| "sextets_bytes [w, x] = [w * 4 + x div 16]"
| "sextets_bytes [w, x, y] = [w * 4 + x div 16, x mod 16 * 16 + y div 4]"
| "sextets_bytes (w # x # y # z # r) =
     [w * 4 + x div 16, x mod 16 * 16 + y div 4, y mod 4 * 64 + z] @ sextets_bytes r"

text \<open>\<open>Buffer.from(text, 'base64')\<close> passes over every character outside the alphabet.\<close>

definition Buffer_from_base64 :: "string \<Rightarrow> bytes" where
  "Buffer_from_base64 s = sextets_bytes (List.map_filter any_sextet s)"

lemma base64_signs: "char_of (43::nat) = CHR ''+''" "char_of (47::nat) = CHR ''/''"
  by code_simp+

lemma char_sextet_sextet_char [simp]: "n < 64 \<Longrightarrow> char_sextet (sextet_char n) = Some n"
proof -
  assume "n < 64"
  then consider "n < 26" | "26 \<le> n" "n < 52" | "52 \<le> n" "n < 62" | "n = 62" | "n = 63" by linarith
  then show ?thesis
  proof cases
    case 3
    then have "48 \<le> n - 4" "n - 4 \<le> 57" by linarith+
    with 3 show ?thesis by (simp add: char_sextet_def sextet_char_def char_classes)
  qed (simp_all add: char_sextet_def sextet_char_def char_classes base64_signs)
qed

lemma any_sextet_char_sextet: "char_sextet c = Some n \<Longrightarrow> any_sextet c = Some n"
  by (auto simp: any_sextet_def char_sextet_def char_classes)

lemma any_sextet_sextet_char [simp]: "n < 64 \<Longrightarrow> any_sextet (sextet_char n) = Some n"
  by (simp add: any_sextet_char_sextet)

lemma any_sextet_pad [simp]: "any_sextet (CHR ''='') = None"
  by (simp add: any_sextet_def char_sextet_def char_classes)

lemma map_filter_Cons' [simp]:
  "List.map_filter f (x # xs) = (case f x of None \<Rightarrow> List.map_filter f xs | Some y \<Rightarrow> y # List.map_filter f xs)"
  "List.map_filter f [] = []"
  by (auto simp: List.map_filter_def split: option.split)

lemma high_part:
  assumes "b < d * e"
  shows "(m * d + b div e) div d = m" "(m * d + b div e) mod d = (b div e :: nat)"
proof -
  have "b div e < d" using assms by (simp add: less_mult_imp_div_less)
  then show "(m * d + b div e) div d = m" "(m * d + b div e) mod d = b div e" by simp_all
qed

lemma sextet_bounds:
  "a < 256 \<Longrightarrow> a div 4 < (64::nat)" "b < 256 \<Longrightarrow> a mod 4 * 16 + b div 16 < (64::nat)"
  "c < 256 \<Longrightarrow> b mod 16 * 4 + c div 64 < (64::nat)"
proof -
  show "a < 256 \<Longrightarrow> a div 4 < (64::nat)" by (simp add: less_mult_imp_div_less)
  have "a mod 4 < 4" "b mod 16 < 16" by simp_all
  moreover have "b < 256 \<Longrightarrow> b div 16 < 16" "c < 256 \<Longrightarrow> c div 64 < 4" by (simp_all add: less_mult_imp_div_less)
  ultimately show "b < 256 \<Longrightarrow> a mod 4 * 16 + b div 16 < 64" "c < 256 \<Longrightarrow> b mod 16 * 4 + c div 64 < 64"
    by linarith+
qed

lemma byte_bounds:
  "w < 64 \<Longrightarrow> x < 64 \<Longrightarrow> w * 4 + x div 16 < (256::nat)"
  "y < 64 \<Longrightarrow> x mod 16 * 16 + y div 4 < (256::nat)"
  "z < 64 \<Longrightarrow> y mod 4 * 64 + z < (256::nat)"
proof -
  have "x < 64 \<Longrightarrow> x div 16 < 4" "y < 64 \<Longrightarrow> y div 4 < 16" by (simp_all add: less_mult_imp_div_less)
  moreover have "x mod 16 < 16" "y mod 4 < 4" by simp_all
  ultimately show "w < 64 \<Longrightarrow> x < 64 \<Longrightarrow> w * 4 + x div 16 < 256"
    "y < 64 \<Longrightarrow> x mod 16 * 16 + y div 4 < 256" "z < 64 \<Longrightarrow> y mod 4 * 64 + z < 256"
    by linarith+
qed

text \<open>Decoding undoes encoding.\<close>

lemma Buffer_from_base64_base64 [simp]: "bytes_ok bs \<Longrightarrow> Buffer_from_base64 (base64 bs) = bs"
proof (induction bs rule: base64.induct)
  case (2 a)
  then show ?case
    using sextet_bounds(1) [of a] sextet_bounds(2) [of 0 a]
    by (simp add: Buffer_from_base64_def bytes_ok_def)
next
  case (3 a b)
  then have "a < 256" "b < 256" by (simp_all add: bytes_ok_def)
  then show ?case
    using sextet_bounds(1) [of a] sextet_bounds(2) [of b a] sextet_bounds(3) [of 0 b] high_part [of b 16 16]
    by (simp add: Buffer_from_base64_def)
next
  case (4 a b c r)
  then have ok: "a < 256" "b < 256" "c < 256" and r: "bytes_ok r" by (simp_all add: bytes_ok_def)
  then show ?case
    using sextet_bounds(1) [of a] sextet_bounds(2) [of b a] sextet_bounds(3) [of c b]
      high_part [of b 16 16] high_part [of c 4 64] 4(1) [OF r]
    by (simp add: Buffer_from_base64_def)
qed (simp add: Buffer_from_base64_def)

lemma length_base64: "length (base64 bs) = (length bs + 2) div 3 * 4"
proof (induction bs rule: base64.induct)
  case (4 a b c r)
  have "(length (a # b # c # r) + 2) div 3 = Suc ((length r + 2) div 3)" by simp
  with 4 show ?case by simp
qed simp_all

lemma length_sextets_bytes: "length (sextets_bytes xs) * 4 \<le> length xs * 3"
  by (induction xs rule: sextets_bytes.induct) simp_all

lemma bytes_ok_sextets: "(\<forall>x \<in> set xs. x < 64) \<Longrightarrow> bytes_ok (sextets_bytes xs)"
  by (induction xs rule: sextets_bytes.induct) (simp_all add: bytes_ok_def byte_bounds)

lemma any_sextet_less: "any_sextet c = Some n \<Longrightarrow> n < 64"
  by (auto simp: any_sextet_def char_sextet_def char_classes split: if_splits)

lemma bytes_ok_Buffer [simp]: "bytes_ok (Buffer_from_base64 s)"
  unfolding Buffer_from_base64_def
  by (rule bytes_ok_sextets) (auto simp: List.map_filter_def dest: any_sextet_less)

section \<open>Hexadecimal and UTF-8\<close>

fun hex_pairs :: "string \<Rightarrow> bytes" where
  "hex_pairs (a # b # r) = (hex_digit a * 16 + hex_digit b) # hex_pairs r"
| "hex_pairs _ = []"

definition utf8_bytes :: "string \<Rightarrow> bytes" where
  "utf8_bytes s = concat (map (\<lambda>c. if code c < 128 then [code c] else [192 + code c div 64, 128 + code c mod 64]) s)"

lemma length_hex_pairs: "length (hex_pairs s) = length s div 2"
  by (induction s rule: hex_pairs.induct) simp_all

end
