(* ===== verification/Gw_Config.thy ===== *)
theory Gw_Config
  imports Gw_Base64
begin

text \<open>
  config.ts: the configuration read from the environment. The environment is a function from
  names to values, reading a file a parameter. The path functions of a platform are a record,
  as \<open>pathApi\<close> is in the code; those of POSIX are defined, those of Windows a parameter.
\<close>

type_synonym env = "string \<Rightarrow> string option"

section \<open>Single values\<close>

text \<open>\<open>/^[a-z0-9][a-z0-9_-]{0,62}$/\<close>\<close>

definition COMPOSE_PROJECT_PATTERN :: "string \<Rightarrow> bool" where
  "COMPOSE_PROJECT_PATTERN = named is_lownum (\<lambda>c. is_lownum c \<or> c = CHR ''_'' \<or> c = CHR ''-'') 0 62"

definition parseProtectedProjects :: "string option \<Rightarrow> string + string list" where
  "parseProtectedProjects v =
     (let projects = ''gateway-control'' #
            (case v of None \<Rightarrow> [] | Some s \<Rightarrow> filter (\<lambda>p. p \<noteq> []) (map trim (split_on (CHR '','') s)));
          unique = js_unique projects
      in if 20 < length unique \<or> list_ex (\<lambda>p. \<not> COMPOSE_PROJECT_PATTERN p) unique
         then Inl ''GATEWAY_PROTECTED_PROJECTS must contain at most 20 valid comma-separated Compose project names.''
         else Inr unique)"

definition required :: "env \<Rightarrow> string \<Rightarrow> string + string" where
  "required env name =
     (case map_option trim (env name) of
        None \<Rightarrow> Inl (name @ '' is required.'')
      | Some v \<Rightarrow> if v = [] then Inl (name @ '' is required.'') else Inr v)"

definition boundedInteger :: "string option \<Rightarrow> string \<Rightarrow> int \<Rightarrow> int \<Rightarrow> string + int" where
  "boundedInteger v name fallback maximum =
     (let parsed = (case v of Some s \<Rightarrow> Number_string s | None \<Rightarrow> Finite (of_int fallback));
          err = name @ '' must be an integer between 1 and '' @ string_of_int maximum @ ''.''
      in (case safe_integer parsed of
            None \<Rightarrow> Inl err
          | Some n \<Rightarrow> if n < 1 \<or> maximum < n then Inl err else Inr n))"

definition decodeMasterKey :: "string \<Rightarrow> string + bytes" where
  "decodeMasterKey v =
     (let trimmed = trim v;
          key = (if all_of is_hex 64 64 trimmed then hex_pairs trimmed else Buffer_from_base64 trimmed)
      in if length key \<noteq> 32
         then Inl ''The configured master key must be 32 bytes encoded as base64 or hex.''
         else Inr key)"

section \<open>The staging directory of restores\<close>

record path_api =
  isAbsolute :: "string \<Rightarrow> bool"
  resolve :: "string \<Rightarrow> string"
  relative :: "string \<Rightarrow> string \<Rightarrow> string"
  sep :: string

definition slash :: char where "slash = CHR ''/''"

text \<open>
  The segments of an absolute POSIX path once \<open>.\<close>, \<open>..\<close> and empty segments are resolved.
\<close>

definition push_segment :: "string \<Rightarrow> string list \<Rightarrow> string list" where
  "push_segment p st = (if p = [] \<or> p = ''.'' then st else if p = ''..'' then drop 1 st else p # st)"

definition path_segments :: "string \<Rightarrow> string list" where
  "path_segments p = rev (fold push_segment (split_on slash p) [])"

definition posix_resolve :: "string \<Rightarrow> string" where
  "posix_resolve p = slash # intercalate [slash] (path_segments p)"

fun common_prefix :: "'a list \<Rightarrow> 'a list \<Rightarrow> nat" where
  "common_prefix (x # xs) (y # ys) = (if x = y then Suc (common_prefix xs ys) else 0)"
| "common_prefix _ _ = 0"

definition posix_relative :: "string \<Rightarrow> string \<Rightarrow> string" where
  "posix_relative a b =
     (let p = path_segments a; q = path_segments b; n = common_prefix p q
      in intercalate [slash] (replicate (length p - n) ''..'' @ drop n q))"

definition posix :: path_api where
  "posix = \<lparr>isAbsolute = starts_with [slash], resolve = posix_resolve, relative = posix_relative, sep = [slash]\<rparr>"

definition validateRestoreStageRoot :: "path_api \<Rightarrow> string \<Rightarrow> string \<Rightarrow> string + string" where
  "validateRestoreStageRoot win32 localRoot stageRoot =
     (let pathApi = (if starts_with [slash] localRoot then posix else win32)
      in if \<not> isAbsolute pathApi localRoot \<or> \<not> isAbsolute pathApi stageRoot
         then Inl ''GATEWAY_SYSTEM_BACKUP_LOCAL_ROOT and GATEWAY_SYSTEM_RESTORE_STAGE_ROOT must be absolute paths.''
         else
           (let resolvedLocalRoot = resolve pathApi localRoot;
                resolvedStageRoot = resolve pathApi stageRoot;
                rel = relative pathApi resolvedLocalRoot resolvedStageRoot
            in if rel = [] \<or> rel = ''..'' \<or> starts_with (''..'' @ sep pathApi) rel \<or> isAbsolute pathApi rel
               then Inl ''GATEWAY_SYSTEM_RESTORE_STAGE_ROOT must resolve inside GATEWAY_SYSTEM_BACKUP_LOCAL_ROOT and must not equal it.''
               else Inr resolvedStageRoot))"

section \<open>The whole configuration\<close>

record Config =
  cfg_host :: string
  cfg_port :: js_number
  cfg_databaseUrl :: string
  cfg_masterKey :: bytes
  cfg_secureCookie :: bool
  cfg_sessionTtlHours :: js_number
  cfg_trustProxy :: bool
  cfg_webRoot :: "string option"
  cfg_agentImage :: string
  cfg_traefikDynamicVolume :: string
  cfg_systemBackupLocalRoot :: string
  cfg_systemBackupNasRoot :: string
  cfg_systemBackupNasMarker :: string
  cfg_systemRestoreStageRoot :: string
  cfg_systemBackupMaxBytes :: int
  cfg_recoverySupervisorEnabled :: bool
  cfg_recoveryRequestSecret :: "bytes option"
  cfg_release :: string
  cfg_protectedProjects :: "string list"
  cfg_notificationTopologyMaxAgents :: int
  cfg_notificationTopologyMaxServices :: int
  cfg_notificationTopologyMaxScopes :: int

text \<open>\<open>process.env.X?.trim() || d\<close> and \<open>Number(process.env.X || d)\<close>\<close>

definition trimmed_or :: "env \<Rightarrow> string \<Rightarrow> string \<Rightarrow> string" where
  "trimmed_or env name d =
     (case env name of None \<Rightarrow> d | Some v \<Rightarrow> if trim v = [] then d else trim v)"

definition trimmed_some :: "env \<Rightarrow> string \<Rightarrow> string option" where
  "trimmed_some env name = (case env name of None \<Rightarrow> None | Some v \<Rightarrow> if trim v = [] then None else Some (trim v))"

definition number_or :: "env \<Rightarrow> string \<Rightarrow> int \<Rightarrow> js_number" where
  "number_or env name d =
     (case env name of None \<Rightarrow> Finite (of_int d) | Some v \<Rightarrow> if v = [] then Finite (of_int d) else Number_string v)"

definition max_bytes_of :: "js_number \<Rightarrow> string + int" where
  "max_bytes_of n =
     (let err = ''GATEWAY_SYSTEM_BACKUP_MAX_BYTES must be a safe integer of at least 1 MiB.''
      in (case safe_integer n of None \<Rightarrow> Inl err | Some b \<Rightarrow> if b < 1024 * 1024 then Inl err else Inr b))"

definition recovery_secret :: "(string \<Rightarrow> string + string) \<Rightarrow> string option \<Rightarrow> bool \<Rightarrow> string + bytes option" where
  "recovery_secret readFileSync secretFile enabled =
     bind_ok (case secretFile of None \<Rightarrow> Inr None
              | Some f \<Rightarrow> bind_ok (readFileSync f) (\<lambda>s. Inr (Some (utf8_bytes (trim s)))))
       (\<lambda>secret. bind_ok (check (\<not> enabled \<or> (case secret of None \<Rightarrow> False | Some b \<Rightarrow> 32 \<le> length b))
            ''GATEWAY_RECOVERY_REQUEST_SECRET_FILE must contain at least 32 bytes when the recovery supervisor is enabled.'')
         (\<lambda>_. Inr secret))"

definition loadConfig :: "path_api \<Rightarrow> (string \<Rightarrow> string + string) \<Rightarrow> env \<Rightarrow> string + Config" where
  "loadConfig win32 readFileSync env =
     bind_ok (case trimmed_some env ''GATEWAY_CONTROL_MASTER_KEY_FILE'' of
                Some f \<Rightarrow> readFileSync f | None \<Rightarrow> required env ''GATEWAY_CONTROL_MASTER_KEY'') (\<lambda>encodedKey.
     let localRoot = trimmed_or env ''GATEWAY_SYSTEM_BACKUP_LOCAL_ROOT'' ''/opt/gateway-control/backups/system'';
         stageRoot = trimmed_or env ''GATEWAY_SYSTEM_RESTORE_STAGE_ROOT'' ''/opt/gateway-control/backups/system/.restore-stage'';
         enabled = (env ''GATEWAY_RECOVERY_SUPERVISOR_ENABLED'' = Some ''true'') in
     bind_ok (max_bytes_of (number_or env ''GATEWAY_SYSTEM_BACKUP_MAX_BYTES'' (10 * 1024 ^ 3))) (\<lambda>maxBytes.
     bind_ok (recovery_secret readFileSync (trimmed_some env ''GATEWAY_RECOVERY_REQUEST_SECRET_FILE'') enabled) (\<lambda>secret.
     bind_ok (required env ''DATABASE_URL'') (\<lambda>databaseUrl.
     bind_ok (decodeMasterKey encodedKey) (\<lambda>key.
     bind_ok (validateRestoreStageRoot win32 localRoot stageRoot) (\<lambda>stage.
     bind_ok (parseProtectedProjects (env ''GATEWAY_PROTECTED_PROJECTS'')) (\<lambda>projects.
     bind_ok (boundedInteger (env ''GATEWAY_NOTIFICATION_TOPOLOGY_MAX_AGENTS'') ''GATEWAY_NOTIFICATION_TOPOLOGY_MAX_AGENTS'' 100 1000) (\<lambda>maxAgents.
     bind_ok (boundedInteger (env ''GATEWAY_NOTIFICATION_TOPOLOGY_MAX_SERVICES'') ''GATEWAY_NOTIFICATION_TOPOLOGY_MAX_SERVICES'' 5000 25000) (\<lambda>maxServices.
     bind_ok (boundedInteger (env ''GATEWAY_NOTIFICATION_TOPOLOGY_MAX_SCOPES'') ''GATEWAY_NOTIFICATION_TOPOLOGY_MAX_SCOPES'' 5000 25000) (\<lambda>maxScopes.
     Inr \<lparr>cfg_host = trimmed_or env ''HOST'' ''0.0.0.0'', cfg_port = number_or env ''PORT'' 3000,
       cfg_databaseUrl = databaseUrl, cfg_masterKey = key,
       cfg_secureCookie = (env ''SESSION_COOKIE_SECURE'' \<noteq> Some ''false''),
       cfg_sessionTtlHours = number_or env ''SESSION_TTL_HOURS'' 24,
       cfg_trustProxy = (env ''TRUST_PROXY'' = Some ''true''),
       cfg_webRoot = trimmed_some env ''WEB_ROOT'',
       cfg_agentImage = trimmed_or env ''GATEWAY_AGENT_IMAGE'' ''ghcr.io/gatewaycontrol/gateway-agent:latest'',
       cfg_traefikDynamicVolume = trimmed_or env ''GATEWAY_TRAEFIK_DYNAMIC_VOLUME'' ''gateway-traefik-dynamic'',
       cfg_systemBackupLocalRoot = localRoot,
       cfg_systemBackupNasRoot = trimmed_or env ''GATEWAY_SYSTEM_BACKUP_NAS_ROOT'' ''/mnt/gateway-control-backups'',
       cfg_systemBackupNasMarker = trimmed_or env ''GATEWAY_SYSTEM_BACKUP_NAS_MARKER'' ''.gateway-control-nas'',
       cfg_systemRestoreStageRoot = stage, cfg_systemBackupMaxBytes = maxBytes,
       cfg_recoverySupervisorEnabled = enabled, cfg_recoveryRequestSecret = secret,
       cfg_release = trimmed_or env ''GATEWAY_CONTROL_RELEASE'' ''unknown'',
       cfg_protectedProjects = projects, cfg_notificationTopologyMaxAgents = maxAgents,
       cfg_notificationTopologyMaxServices = maxServices, cfg_notificationTopologyMaxScopes = maxScopes\<rparr>))))))))))"

section \<open>Facts\<close>

lemma parseProtectedProjects_Inr:
  assumes "parseProtectedProjects v = Inr ps"
  shows "distinct ps" "length ps \<le> 20" "''gateway-control'' \<in> set ps"
    "\<And>p. p \<in> set ps \<Longrightarrow> COMPOSE_PROJECT_PATTERN p"
proof -
  obtain projects where ps: "ps = js_unique (''gateway-control'' # projects)"
    and ok: "length ps \<le> 20" "\<not> list_ex (\<lambda>p. \<not> COMPOSE_PROJECT_PATTERN p) ps"
    using assms by (auto simp: parseProtectedProjects_def Let_def simp del: js_unique.simps split: if_splits)
  then show "distinct ps" "length ps \<le> 20" "''gateway-control'' \<in> set ps"
    by (simp_all del: js_unique.simps)
  show "\<And>p. p \<in> set ps \<Longrightarrow> COMPOSE_PROJECT_PATTERN p"
    using ok(2) by (auto simp: list_ex_iff)
qed

lemma boundedInteger_Inr: "boundedInteger v name d m = Inr n \<Longrightarrow> 1 \<le> n \<and> n \<le> m"
  by (auto simp: boundedInteger_def Let_def split: option.splits if_splits)

lemma decodeMasterKey_Inr: "decodeMasterKey v = Inr key \<Longrightarrow> length key = 32"
  by (auto simp: decodeMasterKey_def Let_def split: if_splits)

text \<open>A segment list has neither an empty segment nor \<open>.\<close> or \<open>..\<close>.\<close>

definition plain_segments :: "string list \<Rightarrow> bool" where
  "plain_segments ps \<longleftrightarrow> (\<forall>p \<in> set ps. p \<noteq> [] \<and> p \<noteq> ''.'' \<and> p \<noteq> ''..'' \<and> slash \<notin> set p)"

lemma push_segment_plain:
  "plain_segments st \<Longrightarrow> slash \<notin> set p \<Longrightarrow> plain_segments (push_segment p st)"
  by (auto simp: push_segment_def plain_segments_def dest: in_set_dropD)

lemma fold_push_plain:
  "(\<forall>p \<in> set ps. slash \<notin> set p) \<Longrightarrow> plain_segments st \<Longrightarrow> plain_segments (fold push_segment ps st)"
  by (induction ps arbitrary: st) (simp_all add: push_segment_plain)

lemma path_segments_plain: "plain_segments (path_segments p)"
  using fold_push_plain [of "split_on slash p" "[]"] split_on_parts [of _ slash p]
  by (auto simp: path_segments_def plain_segments_def)

lemma fold_push_segments: "plain_segments ps \<Longrightarrow> fold push_segment ps st = rev ps @ st"
  by (induction ps arbitrary: st) (simp_all add: plain_segments_def push_segment_def)

lemma path_segments_resolve [simp]: "path_segments (posix_resolve p) = path_segments p"
proof -
  have plain: "plain_segments (path_segments p)" by (rule path_segments_plain)
  show ?thesis
  proof (cases "path_segments p = []")
    case True
    then show ?thesis by (simp add: posix_resolve_def path_segments_def push_segment_def)
  next
    case False
    with plain have "split_on slash (intercalate [slash] (path_segments p)) = path_segments p"
      by (intro split_on_intercalate) (auto simp: plain_segments_def)
    then show ?thesis
      using fold_push_segments [OF plain, of "[]"]
      by (subst path_segments_def) (simp add: posix_resolve_def push_segment_def)
  qed
qed

lemma common_prefix_take: "take (common_prefix p q) p = take (common_prefix p q) q"
  by (induction p q rule: common_prefix.induct) simp_all

lemma common_prefix_le: "common_prefix p q \<le> length p" "common_prefix p q \<le> length q"
  by (induction p q rule: common_prefix.induct) simp_all

lemma common_prefix_append [simp]: "common_prefix p (p @ t) = length p"
  by (induction p) simp_all

text \<open>
  The relative path starts with \<open>..\<close> when the target is not below the origin, and is the
  remaining segments when it is.
\<close>

lemma relative_outside:
  assumes "common_prefix (path_segments a) (path_segments b) < length (path_segments a)"
  shows "posix_relative a b = ''..'' \<or> starts_with (''..'' @ [slash]) (posix_relative a b)"
proof -
  let ?p = "path_segments a" and ?q = "path_segments b"
  obtain n where n: "length ?p - common_prefix ?p ?q = Suc n"
    using assms by (metis Suc_diff_Suc)
  show ?thesis
    unfolding posix_relative_def Let_def n
    by (cases "replicate n ''..'' @ drop (common_prefix ?p ?q) ?q")
      (auto simp: starts_with_iff)
qed

lemma relative_inside:
  "path_segments b = path_segments a @ t \<Longrightarrow> posix_relative a b = intercalate [slash] t"
  by (simp add: posix_relative_def)

lemma intercalate_head:
  assumes "plain_segments t" "t \<noteq> []"
  obtains s u where "intercalate [slash] t = s @ u" "s \<noteq> []" "s \<noteq> ''..''" "slash \<notin> set s"
    "u = [] \<or> (\<exists>v. u = slash # v)"
proof -
  obtain p ps where t: "t = p # ps" using assms(2) by (cases t) simp_all
  show thesis
  proof (rule that [of p "if ps = [] then [] else slash # intercalate [slash] ps"])
    show "intercalate [slash] t = p @ (if ps = [] then [] else slash # intercalate [slash] ps)"
      by (simp add: t intercalate_Cons)
  qed (use assms(1) t in \<open>auto simp: plain_segments_def\<close>)
qed

lemma below_not_dots:
  assumes "s \<noteq> []" "s \<noteq> ''..''" "slash \<notin> set s" "u = [] \<or> (\<exists>v. u = slash # v)"
  shows "s @ u \<noteq> []" "s @ u \<noteq> ''..''" "\<not> starts_with (''..'' @ [slash]) (s @ u)" "\<not> starts_with [slash] (s @ u)"
proof -
  have c: "slash \<noteq> CHR ''.''" by (simp add: slash_def)
  show "s @ u \<noteq> []" "s @ u \<noteq> ''..''" "\<not> starts_with [slash] (s @ u)"
    using assms c by (auto simp: starts_with_iff append_eq_Cons_conv Cons_eq_append_conv)
  show "\<not> starts_with (''..'' @ [slash]) (s @ u)"
    using assms c by (auto simp: starts_with_iff append_eq_Cons_conv Cons_eq_append_conv)
qed

text \<open>
  Under POSIX the check accepts exactly the absolute paths whose segments strictly extend
  those of the local root.
\<close>

lemma validateRestoreStageRoot_iff:
  assumes "starts_with [slash] localRoot"
  shows "validateRestoreStageRoot win32 localRoot stageRoot = Inr r \<longleftrightarrow>
    starts_with [slash] stageRoot \<and> r = posix_resolve stageRoot
    \<and> (\<exists>t. t \<noteq> [] \<and> path_segments stageRoot = path_segments localRoot @ t)"
proof -
  let ?p = "path_segments localRoot" and ?q = "path_segments stageRoot"
  let ?rel = "posix_relative (posix_resolve localRoot) (posix_resolve stageRoot)"
  let ?bad = "?rel = [] \<or> ?rel = ''..'' \<or> starts_with (''..'' @ [slash]) ?rel \<or> starts_with [slash] ?rel"
  have "?bad \<longleftrightarrow> \<not> (\<exists>t. t \<noteq> [] \<and> ?q = ?p @ t)"
  proof (cases "common_prefix ?p ?q < length ?p")
    case True
    then have "\<not> (\<exists>t. ?q = ?p @ t)" by auto
    with relative_outside [of "posix_resolve localRoot" "posix_resolve stageRoot"] True show ?thesis by auto
  next
    case False
    then have "common_prefix ?p ?q = length ?p" using common_prefix_le(1) [of ?p ?q] by simp
    then have q: "?q = ?p @ drop (length ?p) ?q"
      using common_prefix_take [of ?p ?q] append_take_drop_id [of "length ?p" ?q] by simp
    let ?t = "drop (length ?p) ?q"
    have rel: "?rel = intercalate [slash] ?t"
      using q by (intro relative_inside) simp
    have plain: "plain_segments ?t"
      using path_segments_plain [of stageRoot] by (auto simp: plain_segments_def dest: in_set_dropD)
    show ?thesis
    proof (cases "?t = []")
      case True
      with q rel show ?thesis by auto
    next
      case False
      from intercalate_head [OF plain this] obtain s u
        where "?rel = s @ u" and su: "s \<noteq> []" "s \<noteq> ''..''" "slash \<notin> set s" "u = [] \<or> (\<exists>v. u = slash # v)"
        unfolding rel by metis
      with below_not_dots [OF su] False q show ?thesis by metis
    qed
  qed
  with assms show ?thesis
    by (auto simp: validateRestoreStageRoot_def posix_def Let_def)
qed

lemma loadConfig_conj:
  assumes "loadConfig win32 readFileSync env = Inr c"
  shows "(\<exists>k. decodeMasterKey k = Inr (cfg_masterKey c))
    \<and> (\<exists>n. max_bytes_of n = Inr (cfg_systemBackupMaxBytes c))
    \<and> (\<exists>f. recovery_secret readFileSync f (cfg_recoverySupervisorEnabled c) = Inr (cfg_recoveryRequestSecret c))
    \<and> (validateRestoreStageRoot win32 (cfg_systemBackupLocalRoot c)
       (trimmed_or env ''GATEWAY_SYSTEM_RESTORE_STAGE_ROOT'' ''/opt/gateway-control/backups/system/.restore-stage'')
       = Inr (cfg_systemRestoreStageRoot c))
    \<and> (parseProtectedProjects (env ''GATEWAY_PROTECTED_PROJECTS'') = Inr (cfg_protectedProjects c))
    \<and> (\<exists>v name. boundedInteger v name 100 1000 = Inr (cfg_notificationTopologyMaxAgents c))
    \<and> (\<exists>v name. boundedInteger v name 5000 25000 = Inr (cfg_notificationTopologyMaxServices c))
    \<and> (\<exists>v name. boundedInteger v name 5000 25000 = Inr (cfg_notificationTopologyMaxScopes c))"
  by (insert assms, unfold loadConfig_def Let_def bind_ok_Inr sum.inject, elim exE conjE, hypsubst, unfold Config.simps,
      intro conjI, (((rule exI)+)?, assumption)+)

lemmas loadConfig_parts =
  loadConfig_conj [THEN conjunct1]
  loadConfig_conj [THEN conjunct2, THEN conjunct1]
  loadConfig_conj [THEN conjunct2, THEN conjunct2, THEN conjunct1]
  loadConfig_conj [THEN conjunct2, THEN conjunct2, THEN conjunct2, THEN conjunct1]
  loadConfig_conj [THEN conjunct2, THEN conjunct2, THEN conjunct2, THEN conjunct2, THEN conjunct1]
  loadConfig_conj [THEN conjunct2, THEN conjunct2, THEN conjunct2, THEN conjunct2, THEN conjunct2, THEN conjunct1]
  loadConfig_conj [THEN conjunct2, THEN conjunct2, THEN conjunct2, THEN conjunct2, THEN conjunct2, THEN conjunct2, THEN conjunct1]
  loadConfig_conj [THEN conjunct2, THEN conjunct2, THEN conjunct2, THEN conjunct2, THEN conjunct2, THEN conjunct2, THEN conjunct2]

lemma max_bytes_of_Inr: "max_bytes_of n = Inr b \<Longrightarrow> 1024 * 1024 \<le> b \<and> b \<le> 2 ^ 53 - 1"
  by (auto simp: max_bytes_of_def Let_def dest!: safe_integer_bound split: option.splits if_splits)

lemma recovery_secret_Inr:
  "recovery_secret r f True = Inr s \<Longrightarrow> \<exists>b. s = Some b \<and> 32 \<le> length b"
  by (auto simp: recovery_secret_def split: option.splits)

section \<open>Properties\<close>

text \<open>C25. A staging directory for restores is accepted exactly when it is an absolute path strictly below the
  directory of local backups, after \<open>.\<close>, \<open>..\<close> and repeated separators are resolved in both; the resolved
  path is what the configuration holds. No spelling of a path leads outside, or to the directory itself.\<close>

theorem restore_stage_is_inside:
  assumes "starts_with [slash] localRoot"
  shows "validateRestoreStageRoot win32 localRoot stageRoot = Inr r \<longleftrightarrow>
    starts_with [slash] stageRoot \<and> r = posix_resolve stageRoot
    \<and> (\<exists>t. t \<noteq> [] \<and> path_segments stageRoot = path_segments localRoot @ t)"
  by (rule validateRestoreStageRoot_iff [OF assms])

theorem restore_stage_is_inside_witness:
  "validateRestoreStageRoot posix ''/backups/system'' ''/backups//system/../system/./stage'' = Inr ''/backups/system/stage''"
proof -
  have s: "path_segments ''/backups//system/../system/./stage'' = path_segments ''/backups/system'' @ [''stage'']"
    "''/backups/system/stage'' = posix_resolve ''/backups//system/../system/./stage''"
    "starts_with [slash] ''/backups//system/../system/./stage''" "starts_with [slash] ''/backups/system''"
    by code_simp+
  show ?thesis
    by (rule iffD2 [OF restore_stage_is_inside [OF s(4)]]) (intro conjI exI [of _ "[''stage'']"] s(1-3), simp)
qed

text \<open>A configuration that was loaded is within its bounds: a master key of 32 bytes; a maximal backup of
  at least one mebibyte that is a safe integer; when the recovery supervisor is enabled, a secret of at
  least 32 bytes; between one and twenty distinct protected projects, \<open>gateway-control\<close> among them, each a
  valid project name; and notification limits between one and their maxima.\<close>

theorem loaded_config_is_bounded:
  assumes "loadConfig win32 readFileSync env = Inr c"
  shows "length (cfg_masterKey c) = 32 \<and> 1024 * 1024 \<le> cfg_systemBackupMaxBytes c \<and> cfg_systemBackupMaxBytes c \<le> 2 ^ 53 - 1
    \<and> (cfg_recoverySupervisorEnabled c \<longrightarrow> (\<exists>b. cfg_recoveryRequestSecret c = Some b \<and> 32 \<le> length b))
    \<and> distinct (cfg_protectedProjects c) \<and> length (cfg_protectedProjects c) \<le> 20
    \<and> ''gateway-control'' \<in> set (cfg_protectedProjects c) \<and> (\<forall>p \<in> set (cfg_protectedProjects c). COMPOSE_PROJECT_PATTERN p)
    \<and> 1 \<le> cfg_notificationTopologyMaxAgents c \<and> cfg_notificationTopologyMaxAgents c \<le> 1000
    \<and> 1 \<le> cfg_notificationTopologyMaxServices c \<and> cfg_notificationTopologyMaxServices c \<le> 25000
    \<and> 1 \<le> cfg_notificationTopologyMaxScopes c \<and> cfg_notificationTopologyMaxScopes c \<le> 25000"
proof -
  note parts = loadConfig_parts [OF assms]
  from parts(1-3) have "length (cfg_masterKey c) = 32" "1024 * 1024 \<le> cfg_systemBackupMaxBytes c \<and> cfg_systemBackupMaxBytes c \<le> 2 ^ 53 - 1"
    "cfg_recoverySupervisorEnabled c \<Longrightarrow> \<exists>b. cfg_recoveryRequestSecret c = Some b \<and> 32 \<le> length b"
    by (auto dest: decodeMasterKey_Inr max_bytes_of_Inr recovery_secret_Inr)
  moreover have "1 \<le> cfg_notificationTopologyMaxAgents c \<and> cfg_notificationTopologyMaxAgents c \<le> 1000"
    "1 \<le> cfg_notificationTopologyMaxServices c \<and> cfg_notificationTopologyMaxServices c \<le> 25000"
    "1 \<le> cfg_notificationTopologyMaxScopes c \<and> cfg_notificationTopologyMaxScopes c \<le> 25000"
    using parts(6-8) by (auto dest: boundedInteger_Inr)
  ultimately show ?thesis using parseProtectedProjects_Inr [OF parts(5)] by simp
qed

definition sample_env :: env where
  "sample_env = map_of [(''GATEWAY_CONTROL_MASTER_KEY'', concat (replicate 32 ''0f'')),
     (''DATABASE_URL'', ''postgres://db''), (''GATEWAY_PROTECTED_PROJECTS'', ''mail, web'')]"

lemma sample_config: "\<exists>c. loadConfig posix (\<lambda>_. Inl []) sample_env = Inr c"
proof -
  have n: "sample_env n = None" if "n \<notin> set [''GATEWAY_CONTROL_MASTER_KEY'', ''DATABASE_URL'', ''GATEWAY_PROTECTED_PROJECTS'']" for n
    using that by (simp add: sample_env_def)
  have bytes: "max_bytes_of (number_or sample_env ''GATEWAY_SYSTEM_BACKUP_MAX_BYTES'' (10 * 1024 ^ 3)) = Inr (10 * 1024 ^ 3)"
    by (simp add: number_or_def n max_bytes_of_def safe_integer_def)
  have limits: "boundedInteger None name d m = Inr d" if "1 \<le> d" "d \<le> m" "m \<le> 25000" for name d m
    using that by (simp add: boundedInteger_def safe_integer_def)
  have key: "required sample_env ''GATEWAY_CONTROL_MASTER_KEY'' = Inr (concat (replicate 32 ''0f''))"
    "decodeMasterKey (concat (replicate 32 ''0f'')) = Inr (replicate 32 15)"
    by code_simp+
  have url: "required sample_env ''DATABASE_URL'' = Inr ''postgres://db''" by code_simp
  have projects: "parseProtectedProjects (sample_env ''GATEWAY_PROTECTED_PROJECTS'') = Inr [''gateway-control'', ''mail'', ''web'']" by code_simp
  have stage: "validateRestoreStageRoot posix ''/opt/gateway-control/backups/system'' ''/opt/gateway-control/backups/system/.restore-stage''
     = Inr ''/opt/gateway-control/backups/system/.restore-stage''" by code_simp
  show ?thesis
    by (simp add: loadConfig_def trimmed_some_def trimmed_or_def n bytes [simplified] limits key url projects stage recovery_secret_def)
qed

theorem loaded_config_is_bounded_witness:
  "\<exists>c. loadConfig posix (\<lambda>_. Inl []) sample_env = Inr c \<and> length (cfg_masterKey c) = 32"
  using sample_config loaded_config_is_bounded [of posix "\<lambda>_. Inl []" sample_env] by blast

end
