(* ===== verification/Gw_Migrations.thy ===== *)
theory Gw_Migrations
  imports Gw_Js "HOL-Library.Multiset"
begin

text \<open>
  migration-runner.ts: which migration files a release may have, which recorded migrations it
  may find in a database, and the run that applies what is missing. What a migration does to
  the rest of the database is a parameter; the table \<open>schema_migrations\<close> is modelled.
\<close>

section \<open>Discovering the files\<close>

text \<open>
  \<open>/^(\d{3})_[a-z0-9]+(?:_[a-z0-9]+)*\.sql$/\<close>; the result is the captured sequence number.
\<close>

definition migration_number :: "string \<Rightarrow> string option" where
  "migration_number name =
     (let body = take (length name - 8) (drop 4 name)
      in if 8 \<le> length name \<and> list_all is_digit (take 3 name) \<and> name ! 3 = CHR ''_''
            \<and> ends_with ''.sql'' name
            \<and> list_all (\<lambda>p. p \<noteq> [] \<and> list_all is_lownum p) (split_on (CHR ''_'') body)
         then Some (take 3 name) else None)"

definition sequence_text :: "nat \<Rightarrow> string" where
  "sequence_text i = pad_start 3 (CHR ''0'') (digits i)"

text \<open>The loop over the sorted names, at position \<open>i\<close>, with the numbers seen so far.\<close>

fun check_names :: "nat \<Rightarrow> string list \<Rightarrow> string list \<Rightarrow> string + unit" where
  "check_names i seen [] = Inr ()"
| "check_names i seen (name # names) =
     (case migration_number name of
        None \<Rightarrow> Inl (''Invalid migration filename: '' @ name @ ''. Expected NNN_description.sql.'')
      | Some n \<Rightarrow>
          if n \<in> set seen then Inl (''Duplicate migration sequence: '' @ n @ ''.'')
          else if n \<noteq> sequence_text (i + 1)
          then Inl (''Migration sequences must be contiguous from 001; expected '' @ sequence_text (i + 1)
                 @ '', found '' @ n @ ''.'')
          else check_names (i + 1) (n # seen) names)"

record Migration =
  mig_name :: string
  mig_sql :: string
  mig_checksum :: string

definition discoverMigrations ::
  "(string \<Rightarrow> string) \<Rightarrow> (string \<Rightarrow> string + string) \<Rightarrow> string list \<Rightarrow> string + Migration list" where
  "discoverMigrations sha256 readFile dir =
     (let names = sort (filter (\<lambda>n. ends_with ''.sql'' (lower n)) dir)
      in bind_ok (check_names 0 [] names) (\<lambda>_.
           map_ok (\<lambda>n. bind_ok (readFile n) (\<lambda>sql. Inr \<lparr>mig_name = n, mig_sql = sql, mig_checksum = sha256 sql\<rparr>)) names))"

section \<open>Comparing with what is applied\<close>

definition HISTORICAL_MIGRATION_CHECKSUMS :: "string \<Rightarrow> string option" where
  "HISTORICAL_MIGRATION_CHECKSUMS = map_of
    [(''001_initial.sql'', ''800d8d999c6d4c7d9dbc33f0de37d0c36f7720ecdf384b28e55268fbf2ea3965''),
     (''002_assign_connectors_to_agents.sql'', ''853509dcf5f4e74cfcce211b26a88f56d66ce4355f3b10542bd970574141e585''),
     (''003_managed_stacks_and_routes.sql'', ''d2bd51a8609fe5afeb44dd6ecea535e71ba6da7b766e1da8069f2b2d83290fc3''),
     (''004_operations_observability_backups.sql'', ''0f7730d360c63e0b5e11d9f08f16841f0e2e5081d18df20e0f36e04001f4d9eb''),
     (''005_cloudflare_management.sql'', ''2ce7613b553f1489406550af0f0e3f697f9bbd04a54ed2c1da1c2de7e49ca88a''),
     (''006_agent_archival.sql'', ''79f51386d8f6fbe7ecd192c9ec31aa3b422a9a6ac9e335860104b8974ff1d22d''),
     (''007_agent_connector_health.sql'', ''404bdc2596c71309702ca9becd91a7b364edf678556b86995f84b0606fb54446''),
     (''008_postgres_backup_config.sql'', ''6dda0acdf31a3f10fa488bc1fbd8e60818e412f6965779261470c3702a9db6e5''),
     (''009_system_recovery.sql'', ''0907ac73ac867a68751aa543eed5dcd5abbeae8d5809200b4fa80b47e7ce23ee''),
     (''010_system_restore_staging.sql'', ''8cde57df53d64862cb6cb5cc83e5be5a04680396fd9a1c5cdb51bbe915ebcc5a''),
     (''011_runtime_control.sql'', ''140e14f9108728ff9c4548cf69d68adeb8f7691ac3d052be70e22fd00e9c9e01''),
     (''012_domain_access.sql'', ''511a53d77b90d5dd83e19ee6a10d2a5379147f486b8956024e053a1238d71780'')]"

type_synonym applied_migration = "string \<times> string option"

text \<open>\<open>new Map(..)\<close> keeps the last of several entries of a key.\<close>

definition available :: "Migration list \<Rightarrow> string \<Rightarrow> Migration option" where
  "available ms = map_of (rev (map (\<lambda>m. (mig_name m, m)) ms))"

definition check_applied :: "Migration list \<Rightarrow> nat \<Rightarrow> applied_migration \<Rightarrow> string + unit" where
  "check_applied ms i row =
     (let (name, checksum) = row in
      case available ms name of
        None \<Rightarrow> Inl (''Applied migration is missing from the release: '' @ name @ ''.'')
      | Some m \<Rightarrow>
          if \<not> (i < length ms \<and> mig_name (ms ! i) = name)
          then Inl (''Applied migrations must form a contiguous prefix; found a gap before '' @ name @ ''.'')
          else
            (case checksum of
               None \<Rightarrow>
                 (case HISTORICAL_MIGRATION_CHECKSUMS name of
                    None \<Rightarrow> Inl (''No reviewed historical checksum exists for migration: '' @ name @ ''.'')
                  | Some baseline \<Rightarrow>
                      if mig_checksum m \<noteq> baseline
                      then Inl (''Historical migration checksum mismatch: '' @ name @ ''. Refusing to baseline edited content.'')
                      else Inr ())
             | Some c \<Rightarrow>
                 if c \<noteq> mig_checksum m
                 then Inl (''Migration checksum mismatch: '' @ name @ ''. Applied migrations must never be edited.'')
                 else Inr ()))"

fun validate_from :: "Migration list \<Rightarrow> nat \<Rightarrow> applied_migration list \<Rightarrow> string + unit" where
  "validate_from ms i [] = Inr ()"
| "validate_from ms i (row # rows) = bind_ok (check_applied ms i row) (\<lambda>_. validate_from ms (i + 1) rows)"

definition validateAppliedMigrations :: "Migration list \<Rightarrow> applied_migration list \<Rightarrow> string + unit" where
  "validateAppliedMigrations ms applied = validate_from ms 0 applied"

section \<open>Running\<close>

text \<open>
  The database: the rows of \<open>schema_migrations\<close>, \<^const>\<open>None\<close> when the table does not exist,
  whether its checksum column is \<open>NOT NULL\<close>, and the rest, on which a migration acts or fails.
\<close>

record schema_row =
  sm_name :: string
  sm_applied_at :: time
  sm_checksum :: "string option"

record 's mig_db =
  mg_rows :: "schema_row list option"
  mg_checksum_required :: bool
  mg_rest :: 's

definition mig_rows :: "'s mig_db \<Rightarrow> schema_row list" where
  "mig_rows d = coalesce (mg_rows d) []"

text \<open>\<open>SELECT name, checksum FROM schema_migrations ORDER BY applied_at, name\<close>\<close>

definition applied_rows :: "'s mig_db \<Rightarrow> applied_migration list" where
  "applied_rows d = map (\<lambda>r. (sm_name r, sm_checksum r)) (sort_key sm_applied_at (sort_key sm_name (mig_rows d)))"

text \<open>The recorded migrations that predate the checksums get theirs, each in a statement of its own.\<close>

fun baseline_rows :: "applied_migration list \<Rightarrow> 's mig_db \<Rightarrow> (string + unit) \<times> 's mig_db" where
  "baseline_rows [] d = (Inr (), d)"
| "baseline_rows ((name, checksum) # rows) d =
     (if checksum \<noteq> None then baseline_rows rows d
      else
        (let hit = (\<lambda>r. sm_name r = name \<and> sm_checksum r = None);
             d' = d\<lparr>mg_rows := Some (update_rows hit
                   (\<lambda>r. r\<lparr>sm_checksum := HISTORICAL_MIGRATION_CHECKSUMS name\<rparr>) (mig_rows d))\<rparr>
         in if count_rows hit (mig_rows d) \<noteq> 1
            then (Inl (''Could not baseline migration checksum: '' @ name @ ''.''), d')
            else baseline_rows rows d'))"

text \<open>A migration and its record are one transaction: both happen or neither does.\<close>

definition apply_migration ::
  "(string \<Rightarrow> 's \<Rightarrow> string + 's) \<Rightarrow> time \<Rightarrow> Migration \<Rightarrow> 's mig_db \<Rightarrow> (string + unit) \<times> 's mig_db" where
  "apply_migration exec now m d =
     (case exec (mig_sql m) (mg_rest d) of
        Inl e \<Rightarrow> (Inl e, d)
      | Inr s \<Rightarrow>
          if list_ex (\<lambda>r. sm_name r = mig_name m) (mig_rows d) then (Inl ''duplicate key'', d)
          else (Inr (), d\<lparr>mg_rest := s, mg_rows := Some (mig_rows d @
                  [\<lparr>sm_name = mig_name m, sm_applied_at = now, sm_checksum = Some (mig_checksum m)\<rparr>])\<rparr>))"

fun apply_missing ::
  "(string \<Rightarrow> 's \<Rightarrow> string + 's) \<Rightarrow> (nat \<Rightarrow> time) \<Rightarrow> nat \<Rightarrow> string list \<Rightarrow> Migration list \<Rightarrow> 's mig_db
     \<Rightarrow> (string + unit) \<times> 's mig_db" where
  "apply_missing exec now i names [] d = (Inr (), d)"
| "apply_missing exec now i names (m # ms) d =
     (if mig_name m \<in> set names then apply_missing exec now (i + 1) names ms d
      else
        (case apply_migration exec (now i) m d of
           (Inl e, d') \<Rightarrow> (Inl e, d')
         | (Inr _, d') \<Rightarrow> apply_missing exec now (i + 1) names ms d'))"

definition runMigrations ::
  "(string \<Rightarrow> 's \<Rightarrow> string + 's) \<Rightarrow> (nat \<Rightarrow> time) \<Rightarrow> Migration list \<Rightarrow> 's mig_db \<Rightarrow> (string + unit) \<times> 's mig_db" where
  "runMigrations exec now ms d =
     (let d = d\<lparr>mg_rows := Some (mig_rows d)\<rparr>; applied = applied_rows d
      in case validateAppliedMigrations ms applied of
           Inl e \<Rightarrow> (Inl e, d)
         | Inr _ \<Rightarrow>
             (case baseline_rows applied d of
                (Inl e, d) \<Rightarrow> (Inl e, d)
              | (Inr _, d) \<Rightarrow>
                  (case apply_missing exec now 0 (map fst applied) ms d of
                     (Inl e, d) \<Rightarrow> (Inl e, d)
                   | (Inr _, d) \<Rightarrow>
                       if list_ex (\<lambda>r. sm_checksum r = None) (mig_rows d)
                       then (Inl ''not_null_violation'', d)
                       else (Inr (), d\<lparr>mg_checksum_required := True\<rparr>))))"

section \<open>Names\<close>

lemma check_names_Inr:
  "check_names i seen names = Inr () \<Longrightarrow>
     \<forall>j < length names. migration_number (names ! j) = Some (sequence_text (i + j + 1))"
proof (induction names arbitrary: i seen)
  case (Cons name names)
  then obtain n where n: "migration_number name = Some n" "n = sequence_text (i + 1)"
    and rest: "check_names (i + 1) (n # seen) names = Inr ()"
    by (auto split: option.splits if_splits)
  from Cons.IH [OF rest] n show ?case
    by (auto simp: less_Suc_eq_0_disj)
qed simp

lemma list_all2_map_eq: "list_all2 (\<lambda>n m. f m = n) ns ms \<Longrightarrow> map f ms = ns"
  by (induction rule: list_all2_induct) auto

lemma discoverMigrations_Inr:
  assumes "discoverMigrations sha256 readFile dir = Inr ms"
  shows "map mig_name ms = sort (filter (\<lambda>n. ends_with ''.sql'' (lower n)) dir)"
    "\<forall>i < length ms. migration_number (mig_name (ms ! i)) = Some (sequence_text (i + 1))"
    "\<forall>m \<in> set ms. readFile (mig_name m) = Inr (mig_sql m) \<and> mig_checksum m = sha256 (mig_sql m)"
proof -
  let ?names = "sort (filter (\<lambda>n. ends_with ''.sql'' (lower n)) dir)"
  have names: "check_names 0 [] ?names = Inr ()"
    and all: "list_all2 (\<lambda>n m. \<exists>sql. readFile n = Inr sql \<and> \<lparr>mig_name = n, mig_sql = sql, mig_checksum = sha256 sql\<rparr> = m) ?names ms"
    using assms by (auto simp: discoverMigrations_def Let_def map_ok_Inr)
  have eq: "map mig_name ms = ?names"
  proof (rule list_all2_map_eq)
    show "list_all2 (\<lambda>n m. mig_name m = n) ?names ms" by (rule list_all2_mono [OF all]) auto
  qed
  then show "map mig_name ms = ?names" .
  show "\<forall>i < length ms. migration_number (mig_name (ms ! i)) = Some (sequence_text (i + 1))"
    using check_names_Inr [OF names] unfolding eq [symmetric] by simp
  show "\<forall>m \<in> set ms. readFile (mig_name m) = Inr (mig_sql m) \<and> mig_checksum m = sha256 (mig_sql m)"
    using list_all2_in_right [OF all] by fastforce
qed

section \<open>The prefix\<close>

lemma available_some:
  assumes "distinct (map mig_name ms)"
  shows "available ms n = Some m \<longleftrightarrow> m \<in> set ms \<and> mig_name m = n"
proof -
  have "distinct (map fst (rev (map (\<lambda>m. (mig_name m, m)) ms)))"
    using assms by (simp add: rev_map [symmetric] o_def)
  then show ?thesis by (auto simp: available_def)
qed

text \<open>A recorded checksum is that of the file; a missing one has a reviewed value, the file's.\<close>

definition row_agrees :: "Migration \<Rightarrow> applied_migration \<Rightarrow> bool" where
  "row_agrees m row \<longleftrightarrow> fst row = mig_name m \<and>
     (case snd row of None \<Rightarrow> HISTORICAL_MIGRATION_CHECKSUMS (mig_name m) = Some (mig_checksum m)
      | Some c \<Rightarrow> c = mig_checksum m)"

lemma check_applied_Inr:
  assumes "distinct (map mig_name ms)"
  shows "check_applied ms i row = Inr () \<longleftrightarrow> i < length ms \<and> row_agrees (ms ! i) row"
proof (cases "i < length ms \<and> mig_name (ms ! i) = fst row")
  case True
  then have "available ms (fst row) = Some (ms ! i)"
    using assms by (simp add: available_some)
  with True show ?thesis
    by (auto simp: check_applied_def row_agrees_def Let_def case_prod_beta split: option.splits)
next
  case False
  then show ?thesis
    by (auto simp: check_applied_def row_agrees_def Let_def case_prod_beta split: option.splits)
qed

lemma validate_from_Inr:
  assumes "distinct (map mig_name ms)"
  shows "validate_from ms i rows = Inr () \<longleftrightarrow>
    (rows = [] \<or> i + length rows \<le> length ms) \<and> list_all2 row_agrees (take (length rows) (drop i ms)) rows"
proof (induction rows arbitrary: i)
  case (Cons row rows)
  show ?case
  proof (cases "i < length ms")
    case True
    then have "drop i ms = ms ! i # drop (i + 1) ms" by (simp add: Cons_nth_drop_Suc)
    with Cons [of "i + 1"] True show ?thesis
      by (auto simp: check_applied_Inr [OF assms])
  qed (simp add: check_applied_Inr [OF assms])
qed simp

text \<open>The check accepts exactly the records of a prefix of the release's migrations.\<close>

lemma validateAppliedMigrations_iff:
  assumes "distinct (map mig_name ms)"
  shows "validateAppliedMigrations ms rows = Inr () \<longleftrightarrow>
    length rows \<le> length ms \<and> list_all2 row_agrees (take (length rows) ms) rows"
  by (auto simp: validateAppliedMigrations_def validate_from_Inr [OF assms])

lemma agreeing_names: "list_all2 row_agrees ms rows \<Longrightarrow> map fst rows = map mig_name ms"
  by (induction rule: list_all2_induct) (simp_all add: row_agrees_def)

section \<open>What a run leaves behind\<close>

definition run_all :: "(string \<Rightarrow> 's \<Rightarrow> string + 's) \<Rightarrow> Migration list \<Rightarrow> 's \<Rightarrow> string + 's" where
  "run_all exec ms s = fold_ok (\<lambda>m. exec (mig_sql m)) ms s"

lemma run_all_simps [simp]:
  "run_all exec [] s = Inr s"
  "run_all exec (m # ms) s = bind_ok (exec (mig_sql m) s) (run_all exec ms)"
  by (simp_all add: run_all_def [abs_def])

lemma apply_missing_skip:
  "set (map mig_name pre) \<subseteq> set names \<Longrightarrow>
     apply_missing exec now i names (pre @ post) d = apply_missing exec now (i + length pre) names post d"
  by (induction pre arbitrary: i) simp_all

text \<open>
  The run stops at the first migration that fails; those before it are recorded, in order, and
  have been executed, and nothing of the failed one remains.
\<close>

lemma apply_missing_prefix:
  assumes "apply_missing exec now i names ms d = (r, e)"
    and "set (map mig_name ms) \<inter> set names = {}"
    and "distinct (map sm_name (mig_rows d) @ map mig_name ms)"
  obtains k new where "k \<le> length ms" "mig_rows e = mig_rows d @ new"
    "map (\<lambda>r. (sm_name r, sm_checksum r)) new = map (\<lambda>m. (mig_name m, Some (mig_checksum m))) (take k ms)"
    "run_all exec (take k ms) (mg_rest d) = Inr (mg_rest e)"
    "(r = Inr () \<and> k = length ms) \<or> (k < length ms \<and> (\<exists>msg. r = Inl msg \<and> exec (mig_sql (ms ! k)) (mg_rest e) = Inl msg))"
  using assms
proof (induction ms arbitrary: i d thesis)
  case Nil
  then show ?case by simp
next
  case (Cons m ms)
  have new_name: "mig_name m \<notin> set names" "\<not> list_ex (\<lambda>r. sm_name r = mig_name m) (mig_rows d)"
    using Cons.prems(3,4) by (auto simp: list_ex_iff) (metis image_eqI)
  show ?case
  proof (cases "exec (mig_sql m) (mg_rest d)")
    case (Inl msg)
    with Cons.prems(2) new_name have "r = Inl msg" "e = d" by (simp_all add: apply_migration_def)
    with Inl show ?thesis by (intro Cons.prems(1) [of 0 "[]"]) simp_all
  next
    case (Inr s)
    let ?row = "\<lparr>sm_name = mig_name m, sm_applied_at = now i, sm_checksum = Some (mig_checksum m)\<rparr>"
    let ?d = "d\<lparr>mg_rest := s, mg_rows := Some (mig_rows d @ [?row])\<rparr>"
    have rows: "mig_rows ?d = mig_rows d @ [?row]" by (simp add: mig_rows_def)
    from Inr Cons.prems(2) new_name have "apply_missing exec now (i + 1) names ms ?d = (r, e)"
      by (simp add: apply_migration_def)
    moreover have "distinct (map sm_name (mig_rows ?d) @ map mig_name ms)"
      using Cons.prems(4) unfolding rows by auto
    ultimately obtain k new where k: "k \<le> length ms" "mig_rows e = mig_rows ?d @ new"
      "map (\<lambda>r. (sm_name r, sm_checksum r)) new = map (\<lambda>m. (mig_name m, Some (mig_checksum m))) (take k ms)"
      "run_all exec (take k ms) s = Inr (mg_rest e)"
      "(r = Inr () \<and> k = length ms) \<or> (k < length ms \<and> (\<exists>msg. r = Inl msg \<and> exec (mig_sql (ms ! k)) (mg_rest e) = Inl msg))"
      using Cons.IH [of ?d _ "i + 1"] Cons.prems(3) by auto
    then show ?thesis
      using Inr by (intro Cons.prems(1) [of "Suc k" "?row # new"]) (auto simp: rows)
  qed
qed

definition schema_entry :: "schema_row \<Rightarrow> applied_migration" where
  "schema_entry r = (sm_name r, sm_checksum r)"

text \<open>Baselining writes reviewed checksums into the rows that had none, and nothing else.\<close>

definition baselined :: "schema_row \<Rightarrow> schema_row \<Rightarrow> bool" where
  "baselined r s \<longleftrightarrow> sm_name s = sm_name r \<and>
     (sm_checksum s = sm_checksum r
      \<or> sm_checksum r = None \<and> sm_checksum s = HISTORICAL_MIGRATION_CHECKSUMS (sm_name r))"

lemma baselined_trans: "list_all2 baselined rs ss \<Longrightarrow> list_all2 baselined ss ts \<Longrightarrow> list_all2 baselined rs ts"
  by (rule list_all2_trans [of baselined baselined baselined]) (auto simp: baselined_def)

lemma baseline_rows_rows:
  assumes "baseline_rows rows d = (r, e)"
  shows "mg_rest e = mg_rest d" "list_all2 baselined (mig_rows d) (mig_rows e)"
    "r = Inr () \<Longrightarrow> (n, None) \<in> set rows \<Longrightarrow> s \<in> set (mig_rows e) \<Longrightarrow> sm_name s = n \<Longrightarrow>
       sm_checksum s = None \<Longrightarrow> HISTORICAL_MIGRATION_CHECKSUMS n = None"
proof -
  have "mg_rest e = mg_rest d \<and> list_all2 baselined (mig_rows d) (mig_rows e) \<and>
    (r = Inr () \<longrightarrow> (\<forall>n s. (n, None) \<in> set rows \<longrightarrow> s \<in> set (mig_rows e) \<longrightarrow> sm_name s = n \<longrightarrow>
       sm_checksum s = None \<longrightarrow> HISTORICAL_MIGRATION_CHECKSUMS n = None))"
    using assms
  proof (induction rows d rule: baseline_rows.induct)
    case (1 d)
    then show ?case by (auto intro: list.rel_refl simp: baselined_def)
  next
    case (2 name checksum rows d)
    let ?hit = "\<lambda>r. sm_name r = name \<and> sm_checksum r = None"
    let ?d = "d\<lparr>mg_rows := Some (update_rows ?hit
                   (\<lambda>r. r\<lparr>sm_checksum := HISTORICAL_MIGRATION_CHECKSUMS name\<rparr>) (mig_rows d))\<rparr>"
    have step: "list_all2 baselined (mig_rows d) (mig_rows ?d)"
      by (auto simp: mig_rows_def update_rows_def list_all2_conv_all_nth baselined_def)
    show ?case
    proof (cases "checksum")
      case (Some c)
      with 2 show ?thesis by auto
    next
      case None
      show ?thesis
      proof (cases "count_rows ?hit (mig_rows d) = 1")
        case True
        with 2(3) None have e: "baseline_rows rows ?d = (r, e)" by (simp add: Let_def)
        from 2(2) [OF _ refl refl _ e] None True
        have IH: "mg_rest e = mg_rest d" "list_all2 baselined (mig_rows ?d) (mig_rows e)"
          "r = Inr () \<Longrightarrow> (n, None) \<in> set rows \<Longrightarrow> s \<in> set (mig_rows e) \<Longrightarrow> sm_name s = n \<Longrightarrow>
             sm_checksum s = None \<Longrightarrow> HISTORICAL_MIGRATION_CHECKSUMS n = None" for n s
          by auto
        have "HISTORICAL_MIGRATION_CHECKSUMS name = None"
          if s: "s \<in> set (mig_rows e)" "sm_name s = name" "sm_checksum s = None" for s
        proof -
          obtain t where "t \<in> set (mig_rows ?d)" "baselined t s"
            using list_all2_in_right [OF IH(2) s(1)] by blast
          with s have t: "t \<in> set (update_rows ?hit (\<lambda>r. r\<lparr>sm_checksum := HISTORICAL_MIGRATION_CHECKSUMS name\<rparr>) (mig_rows d))"
            "sm_name t = name" "sm_checksum t = None"
            by (auto simp: baselined_def mig_rows_def)
          from t(1) show ?thesis
            by (rule in_update_rowsE) (use t(2,3) in auto)
        qed
        with IH baselined_trans [OF step IH(2)] None show ?thesis by auto
      next
        case False
        with 2(3) None step show ?thesis by (auto simp: Let_def)
      qed
    qed
  qed
  note all = this
  from all show "mg_rest e = mg_rest d" by blast
  from all show "list_all2 baselined (mig_rows d) (mig_rows e)" by blast
  from all show "r = Inr () \<Longrightarrow> (n, None) \<in> set rows \<Longrightarrow> s \<in> set (mig_rows e) \<Longrightarrow> sm_name s = n \<Longrightarrow>
       sm_checksum s = None \<Longrightarrow> HISTORICAL_MIGRATION_CHECKSUMS n = None"
    by auto
qed

lemma set_applied_rows: "set (applied_rows d) = schema_entry ` set (mig_rows d)"
  by (simp add: applied_rows_def schema_entry_def)

lemma length_applied_rows: "length (applied_rows d) = length (mig_rows d)"
  by (simp add: applied_rows_def)

text \<open>
  A run that is not refused found the first \<open>n\<close> migrations of the release recorded and left the
  first \<open>k\<close> recorded, having executed those in between; it succeeds only with all of them, and
  then every record carries the checksum of its file.
\<close>

lemma mig_rows_required [simp]: "mig_rows (d\<lparr>mg_checksum_required := b\<rparr>) = mig_rows d"
  by (simp add: mig_rows_def)

lemma names_of_applied: "fst ` set (applied_rows d) = sm_name ` set (mig_rows d)"
  by (simp add: set_applied_rows schema_entry_def image_image)

lemma distinct_applied: "distinct (map fst (applied_rows d)) \<longleftrightarrow> distinct (map sm_name (mig_rows d))"
proof -
  have "mset (map fst (applied_rows d)) = mset (map sm_name (mig_rows d))"
    by (simp add: applied_rows_def o_def)
  then show ?thesis by (metis mset_eq_imp_distinct_iff)
qed

lemma runMigrations_cases:
  assumes run: "runMigrations exec now ms d = (r, e)" and dist: "distinct (map mig_name ms)"
  obtains (refused) msg where "r = Inl msg" "mig_rows e = mig_rows d" "mg_rest e = mg_rest d"
      "validateAppliedMigrations ms (applied_rows d) = Inl msg"
  | (ran) n k where "n = length (mig_rows d)" "n \<le> k" "k \<le> length ms"
      "sm_name ` set (mig_rows d) = mig_name ` set (take n ms)"
      "sm_name ` set (mig_rows e) = mig_name ` set (take k ms)" "length (mig_rows e) = k"
      "run_all exec (take (k - n) (drop n ms)) (mg_rest d) = Inr (mg_rest e)"
      "r = Inr () \<Longrightarrow> k = length ms \<and> mg_checksum_required e
         \<and> (\<forall>s \<in> set (mig_rows e). \<exists>m \<in> set ms. schema_entry s = (mig_name m, Some (mig_checksum m)))"
proof -
  let ?d = "d\<lparr>mg_rows := Some (mig_rows d)\<rparr>"
  have same: "mig_rows ?d = mig_rows d" "applied_rows ?d = applied_rows d"
    by (simp_all add: mig_rows_def applied_rows_def)
  let ?a = "applied_rows d" and ?n = "length (mig_rows d)"
  show thesis
  proof (cases "validateAppliedMigrations ms ?a")
    case (Inl msg)
    with run have "r = Inl msg" "e = ?d" by (simp_all add: runMigrations_def Let_def same)
    with Inl same show ?thesis by (intro refused [of msg]) simp_all
  next
    case (Inr u)
    then have n: "?n \<le> length ms" and agrees: "list_all2 row_agrees (take ?n ms) ?a"
      by (auto simp: validateAppliedMigrations_iff [OF dist] length_applied_rows)
    from agreeing_names [OF agrees] have names: "map fst ?a = map mig_name (take ?n ms)" .
    then have set_names: "sm_name ` set (mig_rows d) = mig_name ` set (take ?n ms)"
      by (metis names_of_applied set_map)
    obtain r1 d1 where base: "baseline_rows ?a ?d = (r1, d1)" by fastforce
    note b = baseline_rows_rows [OF base, unfolded same, simplified]
    have names1: "map sm_name (mig_rows d1) = map sm_name (mig_rows d)"
      using b(2) by (auto simp: list_all2_conv_all_nth baselined_def list_eq_iff_nth_eq)
    then have len1: "length (mig_rows d1) = ?n" by (metis length_map)
    have set1: "sm_name ` set (mig_rows d1) = mig_name ` set (take ?n ms)"
      using names1 set_names by (metis set_map)
    show ?thesis
    proof (cases r1)
      case (Inl msg)
      with run Inr base have "r = Inl msg" "e = d1"
        by (simp_all add: runMigrations_def Let_def same)
      with n set_names set1 b(1) len1 show ?thesis
        by (intro ran [of ?n ?n]) simp_all
    next
      case (Inr v)
      obtain r2 d2 where miss: "apply_missing exec now 0 (map fst ?a) ms d1 = (r2, d2)" by fastforce
      have e: "mig_rows e = mig_rows d2" "mg_rest e = mg_rest d2"
        and r: "r = Inr () \<Longrightarrow> r2 = Inr () \<and> mg_checksum_required e \<and> (\<forall>s \<in> set (mig_rows e). sm_checksum s \<noteq> None)"
        using run \<open>validateAppliedMigrations ms ?a = Inr u\<close> base Inr miss
        by (auto simp: runMigrations_def Let_def same list_ex_iff split: sum.splits if_splits)
      have "apply_missing exec now (0 + length (take ?n ms)) (map fst ?a) (drop ?n ms) d1 = (r2, d2)"
        using apply_missing_skip [of "take ?n ms" "map fst ?a" exec now 0 "drop ?n ms" d1] miss names by simp
      moreover have "set (map mig_name (drop ?n ms)) \<inter> set (map fst ?a) = {}"
        unfolding names using dist
        by (metis append_take_drop_id distinct_append inf_commute map_append)
      moreover have "distinct (map sm_name (mig_rows d1) @ map mig_name (drop ?n ms))"
      proof -
        have "distinct (map fst ?a)" unfolding names using dist by (simp add: take_map [symmetric] distinct_take)
        then have "distinct (map sm_name (mig_rows d1))" unfolding names1 by (simp add: distinct_applied)
        moreover have "set (map sm_name (mig_rows d1)) \<inter> set (map mig_name (drop ?n ms)) = {}"
          using dist set1
          by (metis append_take_drop_id distinct_append map_append set_map)
        moreover have "distinct (map mig_name (drop ?n ms))"
          using dist by (simp add: drop_map [symmetric] distinct_drop)
        ultimately show ?thesis by simp
      qed
      ultimately obtain j new where j: "j \<le> length (drop ?n ms)" "mig_rows d2 = mig_rows d1 @ new"
        "map (\<lambda>r. (sm_name r, sm_checksum r)) new = map (\<lambda>m. (mig_name m, Some (mig_checksum m))) (take j (drop ?n ms))"
        "run_all exec (take j (drop ?n ms)) (mg_rest d1) = Inr (mg_rest d2)"
        "(r2 = Inr () \<and> j = length (drop ?n ms)) \<or> (\<exists>msg. r2 = Inl msg)"
        by (rule apply_missing_prefix) blast
      have "set (map sm_name new) = mig_name ` set (take j (drop ?n ms))"
        using arg_cong [OF j(3), of "\<lambda>xs. set (map fst xs)"] by (simp add: image_image)
      moreover have "take (?n + j) ms = take ?n ms @ take j (drop ?n ms)" by (simp add: take_add)
      ultimately have set2: "sm_name ` set (mig_rows e) = mig_name ` set (take (?n + j) ms)"
        by (simp add: e j(2) set1 image_Un)
      have len2: "length (mig_rows e) = ?n + j"
        using arg_cong [OF j(3), of length] j(1) by (simp add: e j(2) len1)
      have "\<exists>m \<in> set ms. schema_entry s = (mig_name m, Some (mig_checksum m))"
        if ok: "r = Inr ()" and s: "s \<in> set (mig_rows e)" for s
      proof (cases "s \<in> set new")
        case True
        then have "schema_entry s \<in> set (map (\<lambda>m. (mig_name m, Some (mig_checksum m))) (take j (drop ?n ms)))"
          unfolding j(3) [symmetric] schema_entry_def by auto
        then show ?thesis by (auto dest!: in_set_takeD in_set_dropD)
      next
        case False
        with s have "s \<in> set (mig_rows d1)" by (simp add: e j(2))
        then obtain t where t: "t \<in> set (mig_rows d)" "baselined t s"
          using list_all2_in_right [OF b(2)] by blast
        then have "schema_entry t \<in> set ?a" by (simp add: set_applied_rows)
        from list_all2_in_right [OF agrees this] obtain m
          where "m \<in> set (take ?n ms)" and m: "row_agrees m (schema_entry t)" by blast
        then have "m \<in> set ms" by (auto dest: in_set_takeD)
        moreover have "sm_checksum s \<noteq> None" using r [OF ok] s by blast
        ultimately show ?thesis
          using m t(2) by (auto simp: row_agrees_def schema_entry_def baselined_def split: option.splits)
      qed
      with n set_names set2 len2 j(1,4,5) b(1) e r show ?thesis
        by (intro ran [of ?n "?n + j"]) auto
    qed
  qed
qed

section \<open>Properties\<close>

text \<open>C23. A run of the migrations either refuses the records it finds and changes nothing, or continues the
  release's sequence: the first \<open>n\<close> migrations were recorded before, the first \<open>k\<close> are afterwards, and exactly those in
  between were executed, in order. It succeeds only when all are recorded, each with the checksum of its
  file; a failure leaves a prefix, from which the next run continues.\<close>

theorem migrations_extend_a_prefix:
  assumes "runMigrations exec now ms d = (r, e)" "distinct (map mig_name ms)"
  shows "(\<exists>msg. r = Inl msg \<and> validateAppliedMigrations ms (applied_rows d) = Inl msg \<and> mig_rows e = mig_rows d \<and> mg_rest e = mg_rest d)
    \<or> (\<exists>k. length (mig_rows d) \<le> k \<and> k \<le> length ms \<and> length (mig_rows e) = k
        \<and> sm_name ` set (mig_rows d) = mig_name ` set (take (length (mig_rows d)) ms)
        \<and> sm_name ` set (mig_rows e) = mig_name ` set (take k ms)
        \<and> run_all exec (take (k - length (mig_rows d)) (drop (length (mig_rows d)) ms)) (mg_rest d) = Inr (mg_rest e)
        \<and> (r = Inr () \<longrightarrow> k = length ms \<and> mg_checksum_required e
            \<and> (\<forall>s \<in> set (mig_rows e). \<exists>m \<in> set ms. schema_entry s = (mig_name m, Some (mig_checksum m)))))"
  using assms
proof (cases rule: runMigrations_cases)
  case (refused msg)
  then show ?thesis by (intro disjI1 exI conjI)
next
  case (ran n k)
  show ?thesis
    using ran by (intro disjI2 exI [of _ k] conjI impI) simp_all
qed

definition two_migrations :: "Migration list" where
  "two_migrations = [\<lparr>mig_name = ''001_a.sql'', mig_sql = ''a'', mig_checksum = ''x''\<rparr>,
     \<lparr>mig_name = ''002_b.sql'', mig_sql = ''b'', mig_checksum = ''y''\<rparr>]"

text \<open>The second migration fails.\<close>

definition failing :: "string \<Rightarrow> string list \<Rightarrow> string + string list" where
  "failing sql s = (if sql = ''b'' then Inl ''syntax error'' else Inr (s @ [sql]))"

theorem migrations_extend_a_prefix_witness:
  "\<exists>r e. runMigrations failing int two_migrations \<lparr>mg_rows = None, mg_checksum_required = False, mg_rest = []\<rparr> = (r, e)
     \<and> (\<exists>k \<le> 2. length (mig_rows e) = k \<and> run_all failing (take k two_migrations) [] = Inr (mg_rest e))"
proof -
  let ?d = "\<lparr>mg_rows = None, mg_checksum_required = False, mg_rest = []\<rparr> :: string list mig_db"
  obtain r e where run: "runMigrations failing int two_migrations ?d = (r, e)" by fastforce
  have ok: "validateAppliedMigrations two_migrations (applied_rows ?d) = Inr ()" by code_simp
  have names: "distinct (map mig_name two_migrations)" by code_simp
  have "length two_migrations = 2" "mig_rows ?d = []" by (simp_all add: two_migrations_def mig_rows_def)
  with migrations_extend_a_prefix [OF run names] ok run show ?thesis by auto
qed

end
