(* ===== verification/Gw_Crypto.thy ===== *)
theory Gw_Crypto
  imports Gw_Base64
begin

text \<open>
  crypto.ts: the sealing of secrets at rest, and the wrappers of the hash functions. The
  cipher, the hash functions and the source of random bytes are parameters; the textual format
  of a sealed secret and its parsing are modelled.
\<close>

section \<open>base64url and UTF-8\<close>

definition base64url :: "bytes \<Rightarrow> string" where
  "base64url bs = map (\<lambda>c. if c = CHR ''+'' then CHR ''-'' else if c = CHR ''/'' then CHR ''_'' else c)
     (filter (\<lambda>c. c \<noteq> CHR ''='') (base64 bs))"

text \<open>
  Decoding the UTF-8 of a text all of whose units are below 256; any other text is no value of
  \<open>string\<close>.
\<close>

fun utf8_text :: "bytes \<Rightarrow> string option" where
  "utf8_text [] = Some []"
| "utf8_text (b # bs) =
     (if b < 128 then map_option (\<lambda>s. char_of b # s) (utf8_text bs)
      else (case bs of
              c # bs' \<Rightarrow> if (b = 194 \<or> b = 195) \<and> 128 \<le> c \<and> c < 192
                         then map_option (\<lambda>s. char_of ((b - 192) * 64 + (c - 128)) # s) (utf8_text bs') else None
            | [] \<Rightarrow> None))"

lemma utf8_text_utf8_bytes [simp]: "utf8_text (utf8_bytes s) = Some s"
proof (induction s)
  case (Cons c s)
  have c: "char_of (code c) = c" "code c < 256" by (simp_all add: code_def)
  have IH: "utf8_text (concat (map (\<lambda>c. if code c < 128 then [code c] else [192 + code c div 64, 128 + code c mod 64]) s)) = Some s"
    using Cons by (simp add: utf8_bytes_def)
  show ?case
  proof (cases "code c < 128")
    case True
    with c IH show ?thesis by (simp add: utf8_bytes_def)
  next
    case False
    then have "2 \<le> code c div 64" using div_le_mono [of 128 "code c" 64] by simp
    moreover have "code c div 64 < 4" using c(2) by (simp add: less_mult_imp_div_less)
    ultimately have "code c div 64 = 2 \<or> code c div 64 = 3" by linarith
    moreover have "code c div 64 * 64 + code c mod 64 = code c" by simp
    ultimately show ?thesis
      using False c(1) IH by (auto simp: utf8_bytes_def)
  qed
qed (simp add: utf8_bytes_def)

lemma sextet_char_plain:
  assumes "n < 64"
  shows "sextet_char n \<noteq> CHR ''=''" "sextet_char n \<noteq> CHR ''-''" "sextet_char n \<noteq> CHR ''_''" "sextet_char n \<noteq> CHR ''.''"
  using char_sextet_sextet_char [OF assms] by (auto simp: char_sextet_def char_classes)

definition url_char :: "char \<Rightarrow> char" where
  "url_char c = (if c = CHR ''+'' then CHR ''-'' else if c = CHR ''/'' then CHR ''_'' else c)"

lemma base64url_alt: "base64url bs = map url_char (filter (\<lambda>c. c \<noteq> CHR ''='') (base64 bs))"
  by (simp add: base64url_def url_char_def cong: map_cong)

lemma any_sextet_url: "char_sextet c = Some n \<Longrightarrow> any_sextet (url_char c) = Some n"
  by (auto simp: url_char_def any_sextet_def char_sextet_def char_classes split: if_splits)

text \<open>The characters of an encoding.\<close>

lemma base64_chars: "bytes_ok bs \<Longrightarrow> c \<in> set (base64 bs) \<Longrightarrow> c = CHR ''='' \<or> (\<exists>n < 64. c = sextet_char n)"
proof (induction bs rule: base64.induct)
  case (2 a)
  have "\<exists>n < 64. sextet_char (a mod 4 * 16) = sextet_char n"
    by (rule exI [of _ "a mod 4 * 16"]) simp
  with 2 sextet_bounds(1) [of a] show ?case by (auto simp: bytes_ok_def)
next
  case (3 a b)
  have "\<exists>n < 64. sextet_char (b mod 16 * 4) = sextet_char n"
    by (rule exI [of _ "b mod 16 * 4"]) simp
  with 3 sextet_bounds(1) [of a] sextet_bounds(2) [of b a] show ?case by (auto simp: bytes_ok_def)
next
  case (4 a b c' r)
  have "\<exists>n < 64. sextet_char (c' mod 64) = sextet_char n"
    by (rule exI [of _ "c' mod 64"]) simp
  with 4 sextet_bounds(1) [of a] sextet_bounds(2) [of b a] sextet_bounds(3) [of c' b] show ?case
    by (auto simp: bytes_ok_def)
qed simp

lemma map_filter_url:
  assumes "\<forall>c \<in> set s. c = CHR ''='' \<or> (\<exists>n < 64. c = sextet_char n)"
  shows "List.map_filter any_sextet (map url_char (filter (\<lambda>c. c \<noteq> CHR ''='') s)) = List.map_filter any_sextet s"
  using assms
proof (induction s)
  case (Cons c s)
  show ?case
  proof (cases "c = CHR ''=''")
    case False
    with Cons.prems obtain n where "n < 64" "c = sextet_char n" by auto
    then have "any_sextet (url_char c) = Some n" "any_sextet c = Some n" by (simp_all add: any_sextet_url)
    with Cons False show ?thesis by simp
  qed (use Cons in simp)
qed simp

lemma Buffer_from_base64url [simp]: "bytes_ok bs \<Longrightarrow> Buffer_from_base64 (base64url bs) = bs"
  using map_filter_url [of "base64 bs"] base64_chars [of bs] Buffer_from_base64_base64 [of bs]
  by (simp add: base64url_alt Buffer_from_base64_def)

lemma base64url_no_dot: "bytes_ok bs \<Longrightarrow> CHR ''.'' \<notin> set (base64url bs)"
proof
  assume ok: "bytes_ok bs" and "CHR ''.'' \<in> set (base64url bs)"
  then obtain c where c: "c \<in> set (base64 bs)" "c \<noteq> CHR ''=''" "url_char c = CHR ''.''"
    by (auto simp: base64url_alt)
  with base64_chars [OF ok c(1)] obtain n where "n < 64" "c = sextet_char n" by auto
  with c(3) sextet_char_plain(4) [of n] show False by (simp add: url_char_def split: if_splits)
qed

lemma base64url_empty: "bytes_ok bs \<Longrightarrow> base64url bs = [] \<longleftrightarrow> bs = []"
proof
  assume "bytes_ok bs" "base64url bs = []"
  with Buffer_from_base64url [of bs] show "bs = []" by (simp add: Buffer_from_base64_def)
qed (simp add: base64url_def)

section \<open>Hashes\<close>

definition randomToken :: "(nat \<Rightarrow> bytes) \<Rightarrow> nat \<Rightarrow> string" where
  "randomToken randomBytes n = base64url (randomBytes n)"

definition hashToken :: "(bytes \<Rightarrow> string) \<Rightarrow> string \<Rightarrow> string" where
  "hashToken sha256 token = sha256 (utf8_bytes token)"

text \<open>A hash that cannot be verified counts as a wrong password.\<close>

definition verifyPassword :: "(string \<Rightarrow> string \<Rightarrow> string + bool) \<Rightarrow> string \<Rightarrow> string \<Rightarrow> bool" where
  "verifyPassword argon2_verify hash password =
     (case argon2_verify hash password of Inl _ \<Rightarrow> False | Inr ok \<Rightarrow> ok)"

section \<open>The box of secrets\<close>

text \<open>
  AES-256-GCM: \<open>gcm_seal key iv plaintext\<close> gives the ciphertext and the tag, \<open>gcm_open key iv tag
  ciphertext\<close> the plaintext or a failed authentication.
\<close>

record gcm =
  gcm_seal :: "bytes \<Rightarrow> bytes \<Rightarrow> bytes \<Rightarrow> bytes \<times> bytes"
  gcm_open :: "bytes \<Rightarrow> bytes \<Rightarrow> bytes \<Rightarrow> bytes \<Rightarrow> bytes option"

definition SecretBox :: "bytes \<Rightarrow> string + bytes" where
  "SecretBox key = (if length key \<noteq> 32 then Inl ''The master key must decode to exactly 32 bytes.'' else Inr key)"

definition encrypt :: "gcm \<Rightarrow> bytes \<Rightarrow> bytes \<Rightarrow> string \<Rightarrow> string" where
  "encrypt g key iv v =
     (let (ciphertext, tag) = gcm_seal g key iv (utf8_bytes v)
      in intercalate ''.'' [''v1'', base64url iv, base64url tag, base64url ciphertext])"

text \<open>Destructuring takes the first four parts; a missing one is \<open>undefined\<close>.\<close>

definition decrypt :: "gcm \<Rightarrow> bytes \<Rightarrow> string \<Rightarrow> string + string" where
  "decrypt g key v =
     (case split_on (CHR ''.'') v of
        version # iv # tag # ciphertext # _ \<Rightarrow>
          if version \<noteq> ''v1'' \<or> iv = [] \<or> tag = [] \<or> ciphertext = []
          then Inl ''Encrypted secret has an unsupported format.''
          else
            (case gcm_open g key (Buffer_from_base64 iv) (Buffer_from_base64 tag) (Buffer_from_base64 ciphertext) of
               None \<Rightarrow> Inl ''Unsupported state or unable to authenticate data''
             | Some bs \<Rightarrow>
                 (case utf8_text bs of Some s \<Rightarrow> Inr s | None \<Rightarrow> Inl ''not a text of the model''))
      | _ \<Rightarrow> Inl ''Encrypted secret has an unsupported format.'')"

text \<open>
  What the code relies on of the cipher: opening undoes sealing under the same key, the tag is
  not empty, the ciphertext is as long as the plaintext, and all of them are bytes.
\<close>

definition gcm_ok :: "gcm \<Rightarrow> bool" where
  "gcm_ok g \<longleftrightarrow> (\<forall>key iv bs ct tag. bytes_ok bs \<longrightarrow> gcm_seal g key iv bs = (ct, tag) \<longrightarrow>
     gcm_open g key iv tag ct = Some bs \<and> tag \<noteq> [] \<and> length ct = length bs \<and> bytes_ok ct \<and> bytes_ok tag)"

lemma bytes_ok_utf8 [simp]: "bytes_ok (utf8_bytes s)"
proof -
  have c: "code c < 256" for c by (simp add: code_def)
  have q: "code c div 64 < 4" and r: "code c mod 64 < 64" for c
    using c [of c] by (simp_all add: less_mult_imp_div_less)
  have "192 + code c div 64 < 256" "128 + code c mod 64 < 256" for c
    using q [of c] r [of c] by linarith+
  with c show ?thesis by (auto simp: bytes_ok_def utf8_bytes_def)
qed

lemma gcm_okD:
  assumes "gcm_ok g" "gcm_seal g key iv (utf8_bytes v) = (ct, tag)"
  shows "gcm_open g key iv tag ct = Some (utf8_bytes v)" "tag \<noteq> []" "length ct = length (utf8_bytes v)"
    "bytes_ok ct" "bytes_ok tag"
  using assms bytes_ok_utf8 unfolding gcm_ok_def by metis+

lemma sealed_parts:
  assumes "gcm_ok g" "gcm_seal g key iv (utf8_bytes v) = (ct, tag)" "bytes_ok iv"
  shows "split_on (CHR ''.'') (encrypt g key iv v) = [''v1'', base64url iv, base64url tag, base64url ct]"
proof -
  have "bytes_ok ct" "bytes_ok tag" using gcm_okD [OF assms(1,2)] by simp_all
  then show ?thesis
    using assms(2,3) split_on_intercalate [of "[''v1'', base64url iv, base64url tag, base64url ct]" "CHR ''.''"]
    by (simp add: encrypt_def base64url_no_dot)
qed

lemma utf8_bytes_empty: "utf8_bytes s = [] \<longleftrightarrow> s = []"
  by (cases s) (auto simp: utf8_bytes_def)

lemma decrypt_encrypt_cases:
  assumes "gcm_ok g" "bytes_ok iv" "iv \<noteq> []"
  shows "decrypt g key (encrypt g key iv v) =
    (if v = [] then Inl ''Encrypted secret has an unsupported format.'' else Inr v)"
proof -
  obtain ct tag where s: "gcm_seal g key iv (utf8_bytes v) = (ct, tag)" by fastforce
  note ok = gcm_okD [OF assms(1) s]
  then have "ct = [] \<longleftrightarrow> v = []" by (metis length_0_conv utf8_bytes_empty)
  then show ?thesis
    using ok assms(2,3) by (simp add: decrypt_def sealed_parts [OF assms(1) s assms(2)] base64url_empty)
qed

section \<open>Properties\<close>

text \<open>C24. What the secret box encrypted it decrypts to the same text, under the same key and whatever the
  initialisation vector was, with one exception: the empty text, whose sealed form is refused.\<close>

theorem secrets_round_trip:
  assumes "gcm_ok g" "bytes_ok iv" "iv \<noteq> []"
  shows "decrypt g key (encrypt g key iv v) = (if v = [] then Inl ''Encrypted secret has an unsupported format.'' else Inr v)"
  by (rule decrypt_encrypt_cases [OF assms])

text \<open>A cipher that hides nothing but meets the contract.\<close>

definition plain_gcm :: gcm where
  "plain_gcm = \<lparr>gcm_seal = (\<lambda>_ _ bs. (bs, [0])), gcm_open = (\<lambda>_ _ _ ct. Some ct)\<rparr>"

theorem secrets_round_trip_witness:
  "decrypt plain_gcm (replicate 32 7) (encrypt plain_gcm (replicate 32 7) [1, 2, 3] ''token'') = Inr ''token''"
  by (subst secrets_round_trip) (simp_all add: plain_gcm_def gcm_ok_def bytes_ok_def)

end
