(* ===== verification/Gw_Tls.thy ===== *)
theory Gw_Tls
  imports Gw_Domain Gw_Js
begin

text \<open>
  tls-observer.ts: what an HTTPS request to a host name says about its certificate. The request
  is the sequence of events it emits; the first one decides, the later ones find the promise
  settled.
\<close>

definition EXPIRING_WITHIN_MS :: int where
  "EXPIRING_WITHIN_MS = 30 * 24 * 60 * 60 * 1000"

definition classifyTlsFailure :: "string option \<Rightarrow> string" where
  "classifyTlsFailure c =
     (if c = Some ''ERR_TLS_CERT_ALTNAME_INVALID'' then ''certificate_hostname_invalid''
      else if coalesce c [] \<in> set [''DEPTH_ZERO_SELF_SIGNED_CERT'', ''SELF_SIGNED_CERT_IN_CHAIN'',
                ''UNABLE_TO_VERIFY_LEAF_SIGNATURE'', ''CERT_UNTRUSTED''] then ''certificate_untrusted''
      else if c = Some ''CERT_HAS_EXPIRED'' then ''certificate_expired''
      else if c = Some ''ETIMEDOUT'' then ''tls_timeout''
      else ''tls_connection_failed'')"

record certificate =
  crt_raw :: bool
  crt_valid_to :: "time option"
  crt_issuer_O :: "string option"
  crt_issuer_CN :: "string option"

text \<open>An answer with its status code and the peer's certificate, a timeout, or an error with its code.\<close>

datatype tls_event = TlsResponse "nat option" certificate | TlsTimedOut | TlsFailed "string option"

definition tls_failure :: "TlsStatus \<Rightarrow> string \<Rightarrow> TlsObservation" where
  "tls_failure st e = \<lparr>TlsObservation_status = st, TlsObservation_issuer = None,
     TlsObservation_validTo = None, TlsObservation_error = Some e\<rparr>"

text \<open>\<open>filter(Boolean).join(' / ').slice(0, 255) || 'Unknown issuer'\<close>\<close>

definition issuer_text :: "certificate \<Rightarrow> string" where
  "issuer_text c =
     (let t = take 255 (intercalate '' / '' (filter (\<lambda>s. s \<noteq> []) (List.map_filter id [crt_issuer_O c, crt_issuer_CN c])))
      in if t = [] then ''Unknown issuer'' else t)"

definition certificate_status :: "time \<Rightarrow> time \<Rightarrow> TlsStatus" where
  "certificate_status date_now validTo =
     (let remaining = validTo - date_now
      in if remaining \<le> 0 then TlsExpired else if remaining \<le> EXPIRING_WITHIN_MS then TlsExpiring else TlsValid)"

fun observe_event :: "time \<Rightarrow> tls_event \<Rightarrow> TlsObservation" where
  "observe_event date_now (TlsResponse status c) =
     (if 500 \<le> coalesce status 500 then tls_failure TlsError ''https_upstream_unavailable''
      else (case crt_valid_to c of
              None \<Rightarrow> tls_failure TlsError ''certificate_unavailable''
            | Some validTo \<Rightarrow>
                if \<not> crt_raw c then tls_failure TlsError ''certificate_unavailable''
                else \<lparr>TlsObservation_status = certificate_status date_now validTo,
                       TlsObservation_issuer = Some (issuer_text c),
                       TlsObservation_validTo = Some validTo, TlsObservation_error = None\<rparr>))"
| "observe_event date_now TlsTimedOut = tls_failure TlsError ''tls_timeout''"
| "observe_event date_now (TlsFailed c) =
     tls_failure (if c = Some ''CERT_HAS_EXPIRED'' then TlsExpired else TlsError) (classifyTlsFailure c)"

text \<open>\<open>finish\<close> settles once.\<close>

definition finish :: "TlsObservation \<Rightarrow> TlsObservation option \<Rightarrow> TlsObservation option" where
  "finish obs settled = (case settled of None \<Rightarrow> Some obs | Some o' \<Rightarrow> Some o')"

definition observeTlsCertificate :: "time \<Rightarrow> tls_event list \<Rightarrow> TlsObservation option" where
  "observeTlsCertificate date_now evs = fold (\<lambda>e. finish (observe_event date_now e)) evs None"

lemma finish_settled: "fold (\<lambda>e. finish (f e)) evs (Some obs) = Some obs"
  by (induction evs) (simp_all add: finish_def)

lemma observe_first: "observeTlsCertificate date_now (e # evs) = Some (observe_event date_now e)"
  by (simp add: observeTlsCertificate_def finish_settled finish_def)

text \<open>What the schema asks of a stored observation: an issuer and an end of validity, or an error.\<close>

lemma observe_event_shape:
  fixes date_now e
  defines "obs \<equiv> observe_event date_now e"
  shows "TlsObservation_status obs \<noteq> TlsNotObserved"
    "TlsObservation_status obs \<in> {TlsValid, TlsExpiring} \<Longrightarrow>
       (\<exists>v. TlsObservation_validTo obs = Some v \<and> date_now < v) \<and> TlsObservation_error obs = None"
    "TlsObservation_status obs = TlsError \<Longrightarrow> TlsObservation_error obs \<noteq> None"
    "TlsObservation_issuer obs = Some i \<Longrightarrow> i \<noteq> [] \<and> length i \<le> 255"
  unfolding obs_def
  by (cases e; auto simp: tls_failure_def certificate_status_def Let_def issuer_text_def
      split: option.splits if_splits)+

section \<open>Properties\<close>

text \<open>An observation says what the first event of the request says, whatever comes later, and is
  consistent: it is never "not observed"; a certificate that is called valid or expiring has an expiry
  after the time of the observation, within thirty days exactly when it is expiring, and no error;
  an error status comes with an error; and an issuer is never empty nor longer than 255 characters.\<close>

theorem tls_observations_are_consistent:
  assumes "observeTlsCertificate date_now (e # evs) = Some obs"
  shows "obs = observe_event date_now e \<and> TlsObservation_status obs \<noteq> TlsNotObserved
    \<and> (TlsObservation_status obs \<in> {TlsValid, TlsExpiring} \<longrightarrow> TlsObservation_error obs = None
        \<and> (\<exists>v. TlsObservation_validTo obs = Some v \<and> date_now < v
            \<and> (TlsObservation_status obs = TlsExpiring) = (v \<le> date_now + 30 * 24 * 60 * 60 * 1000)))
    \<and> (TlsObservation_status obs = TlsError \<longrightarrow> TlsObservation_error obs \<noteq> None)
    \<and> (\<forall>i. TlsObservation_issuer obs = Some i \<longrightarrow> i \<noteq> [] \<and> length i \<le> 255)"
proof -
  have obs: "obs = observe_event date_now e" using assms by (simp add: observe_first)
  note shape = observe_event_shape [of date_now e]
  have within: "(TlsObservation_status obs = TlsExpiring) = (v \<le> date_now + 30 * 24 * 60 * 60 * 1000)"
    if "TlsObservation_status obs \<in> {TlsValid, TlsExpiring}" "TlsObservation_validTo obs = Some v" for v
    using that unfolding obs
    by (cases e) (auto simp: tls_failure_def certificate_status_def EXPIRING_WITHIN_MS_def Let_def split: if_splits option.splits)
  show ?thesis
    using shape within unfolding obs by blast
qed

definition soon :: certificate where
  "soon = \<lparr>crt_raw = True, crt_valid_to = Some 5000, crt_issuer_O = Some ''CA'', crt_issuer_CN = None\<rparr>"

theorem tls_observations_are_consistent_witness:
  "\<exists>obs. observeTlsCertificate 1000 [TlsResponse (Some 200) soon, TlsTimedOut] = Some obs \<and> TlsObservation_status obs \<noteq> TlsNotObserved"
proof -
  obtain obs where "observeTlsCertificate 1000 [TlsResponse (Some 200) soon, TlsTimedOut] = Some obs"
    by (simp add: observe_first)
  with tls_observations_are_consistent [OF this] show ?thesis by blast
qed

end
