(* ===== verification/Gw_Source.thy ===== *)
theory Gw_Source
  imports Gw_Base64
begin

text \<open>
  deployment-source.ts: where a Git deployment takes its Compose file from, and the bounded
  download of that file. \<open>fetch\<close>, the URL parser, \<open>isIP\<close> and the UTF-8 decoder are parameters.
\<close>

definition MAX_COMPOSE_SOURCE_BYTES :: nat where
  "MAX_COMPOSE_SOURCE_BYTES = 1024 * 1024"

text \<open>An error carries its code.\<close>

type_synonym source_error = "string \<times> string"

record GitComposeSource =
  src_repository :: string
  src_owner :: string
  src_repo :: string
  src_commitSha :: string
  src_composePath :: string
  src_rawUrl :: string

section \<open>Patterns\<close>

definition github_prefix :: string where
  "github_prefix = ''https://github.com/''"

definition is_owner :: "string \<Rightarrow> bool" where
  "is_owner = named is_alnum (\<lambda>c. is_alnum c \<or> c = CHR ''-'') 0 38"

definition repo_char :: "char \<Rightarrow> bool" where
  "repo_char c \<longleftrightarrow> is_alnum c \<or> c = CHR ''.'' \<or> c = CHR ''_'' \<or> c = CHR ''-''"

text \<open>The two groups of \<open>REPOSITORY_PATTERN\<close>.\<close>

definition REPOSITORY_PATTERN :: "string \<Rightarrow> (string \<times> string) option" where
  "REPOSITORY_PATTERN s =
     (if \<not> starts_with github_prefix s then None
      else (case split_on (CHR ''/'') (drop (length github_prefix) s) of
              [owner, repo] \<Rightarrow> if is_owner owner \<and> all_of repo_char 1 100 repo then Some (owner, repo) else None
            | _ \<Rightarrow> None))"

definition COMMIT_PATTERN :: "string \<Rightarrow> bool" where
  "COMMIT_PATTERN = all_of is_hex 40 40"

definition path_char :: "char \<Rightarrow> bool" where
  "path_char c \<longleftrightarrow> repo_char c \<or> c = CHR ''/''"

text \<open>\<open>/^[A-Za-z0-9._/-]+\.(?:ya?ml)$/i\<close>\<close>

definition COMPOSE_PATH_PATTERN :: "string \<Rightarrow> bool" where
  "COMPOSE_PATH_PATTERN s \<longleftrightarrow> list_all path_char s
     \<and> (ends_with ''.yml'' (lower s) \<and> 5 \<le> length s \<or> ends_with ''.yaml'' (lower s) \<and> 6 \<le> length s)"

definition normalized_path :: "string \<Rightarrow> string" where
  "normalized_path p = (let q = replace_all (CHR 0x5C) ''/'' p in if starts_with ''./'' q then drop 2 q else q)"

definition normalizeGitComposeSource :: "string \<Rightarrow> string \<Rightarrow> string \<Rightarrow> source_error + GitComposeSource" where
  "normalizeGitComposeSource repository commitSha composePath =
     (case (if contains ''@'' repository \<or> ends_with ''.git'' repository then None else REPOSITORY_PATTERN repository) of
        None \<Rightarrow> Inl (''invalid_repository'', ''repository must be a public https://github.com/{owner}/{repo} URL.'')
      | Some (owner, repo) \<Rightarrow>
          if \<not> COMMIT_PATTERN commitSha
          then Inl (''invalid_commit'', ''commitSha must contain exactly 40 hexadecimal characters.'')
          else
            (let path = normalized_path composePath; parts = split_on (CHR ''/'') path
             in if \<not> COMPOSE_PATH_PATTERN path \<or> starts_with ''/'' path
                   \<or> list_ex (\<lambda>p. p = [] \<or> p = ''.'' \<or> p = ''..'') parts
                then Inl (''invalid_compose_path'', ''composePath must be a normalized relative .yml or .yaml path without traversal.'')
                else
                  (let revision = lower commitSha
                   in Inr \<lparr>src_repository = github_prefix @ owner @ ''/'' @ repo, src_owner = owner, src_repo = repo,
                        src_commitSha = revision, src_composePath = path,
                        src_rawUrl = ''https://raw.githubusercontent.com/'' @ encodeURIComponent owner @ ''/''
                          @ encodeURIComponent repo @ ''/'' @ revision @ ''/''
                          @ intercalate ''/'' (map encodeURIComponent parts)\<rparr>)))"

section \<open>Fetching\<close>

record fetch_response =
  rsp_status :: nat
  rsp_content_length :: "string option"
  rsp_body :: "bytes list option"

text \<open>The loop over the chunks of the body: the text read, or the chunk that passes the bound.\<close>

fun read_chunks :: "bytes list \<Rightarrow> bytes list \<Rightarrow> nat \<Rightarrow> source_error + bytes" where
  "read_chunks [] chunks n = Inr (concat (rev chunks))"
| "read_chunks (c # cs) chunks n =
     (if MAX_COMPOSE_SOURCE_BYTES < n + length c then Inl (''source_too_large'', ''Compose source exceeds 1 MiB.'')
      else read_chunks cs (c # chunks) (n + length c))"

definition declared_too_large :: "string option \<Rightarrow> bool" where
  "declared_too_large header =
     (case header of
        None \<Rightarrow> False
      | Some s \<Rightarrow> (case Number_string s of Finite q \<Rightarrow> of_nat MAX_COMPOSE_SOURCE_BYTES < q | _ \<Rightarrow> False))"

definition fetchGitComposeSource ::
  "(string \<Rightarrow> url) \<Rightarrow> (string \<Rightarrow> bool) \<Rightarrow> (string \<Rightarrow> fetch_response option) \<Rightarrow> (bytes \<Rightarrow> string option)
     \<Rightarrow> GitComposeSource \<Rightarrow> source_error + string" where
  "fetchGitComposeSource URL isIP fetch decode source =
     (let u = URL (src_rawUrl source) in
      if url_protocol u \<noteq> ''https:'' \<or> url_hostname u \<noteq> ''raw.githubusercontent.com''
         \<or> url_username u \<noteq> [] \<or> url_password u \<noteq> [] \<or> isIP (url_hostname u)
      then Inl (''unsafe_source'', ''The internally constructed Git source URL is unsafe.'')
      else
        (case fetch (src_rawUrl source) of
           None \<Rightarrow> Inl (''source_unavailable'', ''The public GitHub source could not be reached.'')
         | Some r \<Rightarrow>
             if 300 \<le> rsp_status r \<and> rsp_status r < 400
             then Inl (''source_redirected'', ''GitHub source redirects are not accepted.'')
             else if \<not> (200 \<le> rsp_status r \<and> rsp_status r \<le> 299)
             then Inl (''source_unavailable'', ''GitHub returned HTTP '' @ digits (rsp_status r) @ ''.'')
             else if declared_too_large (rsp_content_length r)
             then Inl (''source_too_large'', ''Compose source exceeds 1 MiB.'')
             else
               (case rsp_body r of
                  None \<Rightarrow> Inl (''source_unavailable'', ''GitHub returned an empty response.'')
                | Some chunks \<Rightarrow>
                    bind_ok (read_chunks chunks [] 0) (\<lambda>bs.
                      (case decode bs of
                         None \<Rightarrow> Inl (''source_encoding'', ''Compose source must be valid UTF-8.'')
                       | Some text \<Rightarrow>
                           if trim text = [] then Inl (''source_empty'', ''Compose source is empty.'')
                           else Inr text)))))"

section \<open>Facts\<close>

lemma read_chunks_Inr:
  "read_chunks cs chunks n = Inr bs \<Longrightarrow> n = length (concat chunks) \<Longrightarrow> n \<le> MAX_COMPOSE_SOURCE_BYTES
     \<Longrightarrow> bs = concat (rev chunks @ cs) \<and> length bs \<le> MAX_COMPOSE_SOURCE_BYTES"
proof (induction cs chunks n rule: read_chunks.induct)
  case (1 chunks n)
  then show ?case by (auto simp: length_concat rev_map [symmetric])
next
  case (2 c cs chunks n)
  then show ?case by (auto split: if_splits)
qed

text \<open>The loop accepts exactly the bodies within the bound.\<close>

lemma read_chunks_iff:
  "n \<le> MAX_COMPOSE_SOURCE_BYTES \<Longrightarrow>
     succeeds (read_chunks cs chunks n) \<longleftrightarrow> n + length (concat cs) \<le> MAX_COMPOSE_SOURCE_BYTES"
  by (induction cs chunks n rule: read_chunks.induct) auto

lemma fetch_Inr:
  assumes "fetchGitComposeSource URL isIP fetch decode source = Inr text"
  obtains r chunks where "fetch (src_rawUrl source) = Some r" "rsp_body r = Some chunks"
    "200 \<le> rsp_status r" "rsp_status r \<le> 299" "length (concat chunks) \<le> MAX_COMPOSE_SOURCE_BYTES"
    "decode (concat chunks) = Some text" "trim text \<noteq> []"
    "url_protocol (URL (src_rawUrl source)) = ''https:''"
    "url_hostname (URL (src_rawUrl source)) = ''raw.githubusercontent.com''"
  using assms
  by (auto simp: fetchGitComposeSource_def Let_def dest!: read_chunks_Inr split: option.splits if_splits)

lemma repo_char_unreserved: "repo_char c \<Longrightarrow> is_unreserved c"
  by (auto simp: repo_char_def is_unreserved_def char_classes)

lemma encode_repo: "list_all repo_char s \<Longrightarrow> encodeURIComponent s = s"
  by (rule encodeURIComponent_id) (auto simp: list_all_iff repo_char_unreserved)

lemma owner_repo: "is_owner s \<Longrightarrow> list_all repo_char s"
  by (auto simp: list_all_iff is_owner_def repo_char_def dest!: named_chars)

lemma path_parts_repo:
  assumes "list_all path_char s" "p \<in> set (split_on (CHR ''/'') s)"
  shows "list_all repo_char p"
proof -
  have "set p \<subseteq> set s" by (rule split_on_subset [OF assms(2)])
  with assms split_on_parts [OF assms(2)] show ?thesis
    by (auto simp: list_all_iff path_char_def)
qed

lemma lower_hex: "is_hex c \<Longrightarrow> is_lowhex (lower_char c)"
  by (auto simp: lower_char_def Let_def char_classes)

lemma REPOSITORY_PATTERN_Some:
  assumes "REPOSITORY_PATTERN s = Some (owner, repo)"
  shows "s = github_prefix @ owner @ ''/'' @ repo" "is_owner owner" "all_of repo_char 1 100 repo"
proof -
  let ?rest = "drop (length github_prefix) s"
  have pre: "starts_with github_prefix s" and parts: "split_on (CHR ''/'') ?rest = [owner, repo]"
    and ok: "is_owner owner" "all_of repo_char 1 100 repo"
    using assms by (auto simp: REPOSITORY_PATTERN_def split: if_splits list.splits)
  have "?rest = owner @ ''/'' @ repo"
    using intercalate_split_on [of "CHR ''/''" ?rest] by (simp add: parts)
  with pre show "s = github_prefix @ owner @ ''/'' @ repo"
    by (metis append_take_drop_id starts_with_def)
  from ok show "is_owner owner" "all_of repo_char 1 100 repo" .
qed

lemma normalize_Inr:
  assumes "normalizeGitComposeSource repository commitSha composePath = Inr s"
  shows "src_repository s = repository" "COMMIT_PATTERN commitSha" "src_commitSha s = lower commitSha"
    "all_of is_lowhex 40 40 (src_commitSha s)"
    "repository = github_prefix @ src_owner s @ ''/'' @ src_repo s"
    "is_owner (src_owner s)" "all_of repo_char 1 100 (src_repo s)"
    "COMPOSE_PATH_PATTERN (src_composePath s)"
    "\<forall>p \<in> set (split_on (CHR ''/'') (src_composePath s)). p \<noteq> [] \<and> p \<noteq> ''.'' \<and> p \<noteq> ''..'' \<and> list_all repo_char p"
    "src_rawUrl s = ''https://raw.githubusercontent.com/'' @ src_owner s @ ''/'' @ src_repo s @ ''/''
       @ src_commitSha s @ ''/'' @ src_composePath s"
proof -
  obtain owner repo where rp: "REPOSITORY_PATTERN repository = Some (owner, repo)"
    and commit: "COMMIT_PATTERN commitSha"
    and path: "COMPOSE_PATH_PATTERN (normalized_path composePath)"
      "\<not> list_ex (\<lambda>p. p = [] \<or> p = ''.'' \<or> p = ''..'') (split_on (CHR ''/'') (normalized_path composePath))"
    and s: "s = \<lparr>src_repository = github_prefix @ owner @ ''/'' @ repo, src_owner = owner, src_repo = repo,
      src_commitSha = lower commitSha, src_composePath = normalized_path composePath,
      src_rawUrl = ''https://raw.githubusercontent.com/'' @ encodeURIComponent owner @ ''/''
        @ encodeURIComponent repo @ ''/'' @ lower commitSha @ ''/''
        @ intercalate ''/'' (map encodeURIComponent (split_on (CHR ''/'') (normalized_path composePath)))\<rparr>"
    using assms unfolding normalizeGitComposeSource_def Let_def
    by (auto split: option.splits if_splits prod.splits)
  note r = REPOSITORY_PATTERN_Some [OF rp]
  from r s commit show "src_repository s = repository" "COMMIT_PATTERN commitSha"
    "src_commitSha s = lower commitSha" "repository = github_prefix @ src_owner s @ ''/'' @ src_repo s"
    "is_owner (src_owner s)" "all_of repo_char 1 100 (src_repo s)" by simp_all
  from path(1) s show "COMPOSE_PATH_PATTERN (src_composePath s)" by simp
  from commit show "all_of is_lowhex 40 40 (src_commitSha s)"
    by (simp add: s COMMIT_PATTERN_def all_of_def lower_def list_all_iff lower_hex)
  have repo: "list_all repo_char p" if "p \<in> set (split_on (CHR ''/'') (normalized_path composePath))" for p
    using path_parts_repo [OF _ that] path(1) by (simp add: COMPOSE_PATH_PATTERN_def)
  with path(2) show "\<forall>p \<in> set (split_on (CHR ''/'') (src_composePath s)).
      p \<noteq> [] \<and> p \<noteq> ''.'' \<and> p \<noteq> ''..'' \<and> list_all repo_char p"
    by (simp add: s list_ex_iff)
  have "map encodeURIComponent (split_on (CHR ''/'') (normalized_path composePath))
      = split_on (CHR ''/'') (normalized_path composePath)"
    by (rule map_idI) (simp add: repo encode_repo)
  with r(2,3) show "src_rawUrl s = ''https://raw.githubusercontent.com/'' @ src_owner s @ ''/'' @ src_repo s @ ''/''
       @ src_commitSha s @ ''/'' @ src_composePath s"
    by (simp add: s encode_repo owner_repo all_of_def)
qed

section \<open>Properties\<close>

text \<open>C32. A Git source that was accepted names one file of one commit of one GitHub repository: the commit is 40
  lower-case hexadecimal digits, the path has no empty segment, no \<open>.\<close> and no \<open>..\<close>, and the address that
  will be fetched is made of the owner, repository, commit and path alone. Only the name of the
  repository is not held to that: it may be \<open>.\<close> or \<open>..\<close>.\<close>

theorem sources_are_pinned:
  assumes "normalizeGitComposeSource repository commitSha composePath = Inr s"
  shows "repository = github_prefix @ src_owner s @ ''/'' @ src_repo s \<and> is_owner (src_owner s)
    \<and> src_commitSha s = lower commitSha \<and> all_of is_lowhex 40 40 (src_commitSha s)
    \<and> (\<forall>p \<in> set (split_on (CHR ''/'') (src_composePath s)). p \<noteq> [] \<and> p \<noteq> ''.'' \<and> p \<noteq> ''..'' \<and> list_all repo_char p)
    \<and> src_rawUrl s = ''https://raw.githubusercontent.com/'' @ src_owner s @ ''/'' @ src_repo s @ ''/''
       @ src_commitSha s @ ''/'' @ src_composePath s"
  using normalize_Inr [OF assms] by blast

theorem sources_are_pinned_witness:
  "\<exists>s. normalizeGitComposeSource ''https://github.com/acme/shop'' (concat (replicate 10 ''00Ff'')) ''deploy/compose.yaml'' = Inr s
     \<and> src_commitSha s = concat (replicate 10 ''00ff'')"
proof -
  have "case normalizeGitComposeSource ''https://github.com/acme/shop'' (concat (replicate 10 ''00Ff'')) ''deploy/compose.yaml'' of
      Inr _ \<Rightarrow> True | Inl _ \<Rightarrow> False" by code_simp
  then obtain s where s: "normalizeGitComposeSource ''https://github.com/acme/shop'' (concat (replicate 10 ''00Ff'')) ''deploy/compose.yaml'' = Inr s"
    by (auto split: sum.splits)
  have "lower (concat (replicate 10 ''00Ff'')) = concat (replicate 10 ''00ff'')" by code_simp
  with sources_are_pinned [OF s] s show ?thesis by metis
qed

text \<open>The download of a source is bounded: reading the chunks of the answer succeeds exactly when together they
  are within the limit, however they are cut, and a text that was fetched came from
  raw.githubusercontent.com over HTTPS with a success status, and is within the limit and not blank.\<close>

theorem downloads_are_bounded:
  assumes "fetchGitComposeSource URL isIP fetch decode source = Inr text"
  shows "(\<exists>r chunks. fetch (src_rawUrl source) = Some r \<and> rsp_body r = Some chunks
      \<and> 200 \<le> rsp_status r \<and> rsp_status r \<le> 299 \<and> length (concat chunks) \<le> MAX_COMPOSE_SOURCE_BYTES
      \<and> decode (concat chunks) = Some text \<and> trim text \<noteq> [])
    \<and> url_protocol (URL (src_rawUrl source)) = ''https:'' \<and> url_hostname (URL (src_rawUrl source)) = ''raw.githubusercontent.com''
    \<and> (\<forall>cs. succeeds (read_chunks cs [] 0) \<longleftrightarrow> length (concat cs) \<le> MAX_COMPOSE_SOURCE_BYTES)"
  using assms by (rule fetch_Inr) (use read_chunks_iff [of 0 _ "[]"] in auto)

definition small_source :: GitComposeSource where
  "small_source = \<lparr>src_repository = [], src_owner = ''o'', src_repo = ''r'', src_commitSha = ''c'', src_composePath = ''p'', src_rawUrl = ''u''\<rparr>"

definition raw_url :: url where
  "raw_url = \<lparr>url_protocol = ''https:'', url_hostname = ''raw.githubusercontent.com'', url_username = [], url_password = [],
     url_pathname = [], url_search = [], url_hash = [], url_href = ''u''\<rparr>"

definition two_chunks :: fetch_response where
  "two_chunks = \<lparr>rsp_status = 200, rsp_content_length = None, rsp_body = Some [[65], [66]]\<rparr>"

theorem downloads_are_bounded_witness:
  "\<exists>t. fetchGitComposeSource (\<lambda>_. raw_url) (\<lambda>_. False) (\<lambda>_. Some two_chunks) (\<lambda>_. Some ''AB'') small_source = Inr t
     \<and> length (concat [[65], [66 :: nat]]) \<le> MAX_COMPOSE_SOURCE_BYTES"
proof -
  have "trim ''AB'' \<noteq> []" by code_simp
  then have "fetchGitComposeSource (\<lambda>_. raw_url) (\<lambda>_. False) (\<lambda>_. Some two_chunks) (\<lambda>_. Some ''AB'') small_source = Inr ''AB''"
    by (simp add: fetchGitComposeSource_def raw_url_def two_chunks_def declared_too_large_def MAX_COMPOSE_SOURCE_BYTES_def Let_def)
  from downloads_are_bounded [OF this] this show ?thesis by (auto simp: two_chunks_def)
qed

text \<open>A repository named \<open>..\<close> is accepted; the address then has a dot segment, which takes the owner away.\<close>

lemma dot_dot_repository_accepted:
  "\<exists>s. normalizeGitComposeSource ''https://github.com/acme/..'' (replicate 40 (CHR ''a'')) ''compose.yml'' = Inr s \<and> src_repo s = ''..''"
proof -
  have "case normalizeGitComposeSource ''https://github.com/acme/..'' (replicate 40 (CHR ''a'')) ''compose.yml'' of
      Inr s \<Rightarrow> src_repo s = ''..'' | Inl _ \<Rightarrow> False" by code_simp
  then show ?thesis by (auto split: sum.splits)
qed

end
