(* ===== verification/Gw_Compose.thy ===== *)
theory Gw_Compose
  imports Gw_Js "HOL-Library.Multiset"
begin

text \<open>
  compose-policy.ts: which Compose files a deployment may run. The YAML package (its parser, its
  conversion to JavaScript values and its printer), \<open>localeCompare\<close> and SHA-256 are parameters.
  An error carries its code and the service it concerns; the texts of the messages are left out.
  The values of the parser are trees: two aliases of one anchor are equal values here, and one
  object in JavaScript, where the defaults injected into the first alias are seen by the second.
\<close>

section \<open>Values\<close>

text \<open>A number carries the text \<open>String\<close> gives for it.\<close>

datatype yaml = YNull | YBool bool | YNum js_number string | YStr string
  | YSeq "yaml list" | YMap "(string \<times> yaml) list"

type_synonym yobj = "(string \<times> yaml) list"

type_synonym policy_error = "string \<times> string option"

definition yprop :: "yobj \<Rightarrow> string \<Rightarrow> yaml option" where
  "yprop obj key = map_of obj key"

text \<open>\<open>key in obj\<close>\<close>

definition has_key :: "string \<Rightarrow> yobj \<Rightarrow> bool" where
  "has_key key obj \<longleftrightarrow> yprop obj key \<noteq> None"

text \<open>\<open>isObject\<close>, with the object.\<close>

definition isObject :: "yaml option \<Rightarrow> yobj option" where
  "isObject v = (case v of Some (YMap m) \<Rightarrow> Some m | _ \<Rightarrow> None)"

fun yaml_String :: "yaml \<Rightarrow> string" where
  "yaml_String YNull = ''null''"
| "yaml_String (YBool b) = (if b then ''true'' else ''false'')"
| "yaml_String (YNum n t) = t"
| "yaml_String (YStr s) = s"
| "yaml_String (YSeq vs) = intercalate '','' (map (\<lambda>v. case v of YNull \<Rightarrow> [] | _ \<Rightarrow> yaml_String v) vs)"
| "yaml_String (YMap m) = ''[object Object]''"

definition yaml_Number :: "yaml option \<Rightarrow> js_number" where
  "yaml_Number v =
     (case v of
        None \<Rightarrow> NaN | Some YNull \<Rightarrow> Finite 0 | Some (YBool b) \<Rightarrow> Finite (if b then 1 else 0)
      | Some (YNum n _) \<Rightarrow> n | Some w \<Rightarrow> Number_string (yaml_String w))"

section \<open>Patterns\<close>

definition word_char :: "char \<Rightarrow> bool" where "word_char c \<longleftrightarrow> is_alnum c \<or> c = CHR ''_''"

definition PROJECT_PATTERN :: "string \<Rightarrow> bool" where
  "PROJECT_PATTERN = named is_lownum (\<lambda>c. is_lownum c \<or> c = CHR ''_'' \<or> c = CHR ''-'') 0 62"

definition SERVICE_PATTERN :: "string \<Rightarrow> bool" where
  "SERVICE_PATTERN = named is_alnum (\<lambda>c. word_char c \<or> c = CHR ''.'' \<or> c = CHR ''-'') 0 127"

definition PARAMETER_KEY_PATTERN :: "string \<Rightarrow> bool" where
  "PARAMETER_KEY_PATTERN = named is_upper (\<lambda>c. is_upper c \<or> is_digit c \<or> c = CHR ''_'') 0 63"

definition ENVIRONMENT_KEY_PATTERN :: "string \<Rightarrow> bool" where
  "ENVIRONMENT_KEY_PATTERN = named (\<lambda>c. is_alpha c \<or> c = CHR ''_'') word_char 0 127"

text \<open>
  \<open>/(?:^|_)(?:WORD|..)(?:_|$)/i\<close>: a word between underscores or the ends of the key.
\<close>

definition SECRET_KEY_PATTERN :: "string \<Rightarrow> bool" where
  "SECRET_KEY_PATTERN key \<longleftrightarrow>
     list_ex (\<lambda>w. contains (''_'' @ w @ ''_'') (''_'' @ lower key @ ''_''))
       [''password'', ''passwd'', ''secret'', ''token'', ''api_key'', ''access_key'', ''private_key'',
        ''credential'', ''database_url'']"

definition name_char :: "char \<Rightarrow> bool" where
  "name_char c \<longleftrightarrow> is_lownum c \<or> c \<in> set ''._/-''"

definition tag_char :: "char \<Rightarrow> bool" where
  "tag_char c \<longleftrightarrow> word_char c \<or> c = CHR ''.'' \<or> c = CHR ''-''"

text \<open>\<open>/^[a-z0-9][a-z0-9._/-]*(?::[A-Za-z0-9][A-Za-z0-9._-]*)?(?:@sha256:[a-f0-9]{64})?$/\<close>\<close>

definition IMAGE_PATTERN :: "string \<Rightarrow> bool" where
  "IMAGE_PATTERN s =
     (let r = dropWhile name_char s;
          (tag_ok, r2) = (case r of [] \<Rightarrow> (True, [])
             | c # cs \<Rightarrow> if c = CHR '':''
                 then (named is_alnum tag_char 0 (length cs) (takeWhile tag_char cs), dropWhile tag_char cs)
                 else (True, r))
      in (case s of [] \<Rightarrow> False | c # _ \<Rightarrow> is_lownum c) \<and> tag_ok
         \<and> (r2 = [] \<or> starts_with ''@sha256:'' r2 \<and> all_of is_lowhex 64 64 (drop 8 r2)))"

definition hasPinnedImage :: "string \<Rightarrow> bool" where
  "hasPinnedImage img \<longleftrightarrow> contains ''@sha256:'' img \<or> CHR '':'' \<in> set (after_last (CHR ''/'') img)"

definition latest_tag :: "string \<Rightarrow> bool" where
  "latest_tag img \<longleftrightarrow> contains '':latest@'' (lower img) \<or> ends_with '':latest'' (lower img)"

definition image_ok :: "string \<Rightarrow> bool" where
  "image_ok img \<longleftrightarrow> IMAGE_PATTERN img \<and> hasPinnedImage img \<and> \<not> latest_tag img"

section \<open>Parameters\<close>

datatype pvalue = PStr string | PNum string | PBool bool

fun pvalue_String :: "pvalue \<Rightarrow> string" where
  "pvalue_String (PStr s) = s"
| "pvalue_String (PNum t) = t"
| "pvalue_String (PBool b) = (if b then ''true'' else ''false'')"

definition hex_lower :: "nat \<Rightarrow> char" where
  "hex_lower n = char_of (if n < 10 then 48 + n else 87 + n)"

definition json_escape :: "char \<Rightarrow> string" where
  "json_escape c =
     (let n = code c in
      if c = CHR 0x22 then [CHR 0x5C, CHR 0x22] else if c = CHR 0x5C then [CHR 0x5C, CHR 0x5C]
      else if n = 8 then CHR 0x5C # ''b'' else if n = 9 then CHR 0x5C # ''t'' else if n = 10 then CHR 0x5C # ''n''
      else if n = 12 then CHR 0x5C # ''f'' else if n = 13 then CHR 0x5C # ''r''
      else if n < 32 then CHR 0x5C # ''u00'' @ [hex_lower (n div 16), hex_lower (n mod 16)] else [c])"

text \<open>\<open>JSON.stringify\<close> of a parameter\<close>

fun pvalue_json :: "pvalue \<Rightarrow> string" where
  "pvalue_json (PStr s) = [CHR 0x22] @ concat (map json_escape s) @ [CHR 0x22]"
| "pvalue_json v = pvalue_String v"

text \<open>A match of \<open>/\$\{([A-Z][A-Z0-9_]{0,63})\}/\<close> at the head of the text: the key and what follows.\<close>

definition parameter_at :: "string \<Rightarrow> (string \<times> string) option" where
  "parameter_at s =
     (if starts_with ''${'' s
      then (let key = takeWhile (\<lambda>c. is_upper c \<or> is_digit c \<or> c = CHR ''_'') (drop 2 s); r = drop (2 + length key) s
            in if PARAMETER_KEY_PATTERN key \<and> starts_with ''}'' r then Some (key, drop 1 r) else None)
      else None)"

lemma parameter_at_shorter: "parameter_at s = Some (key, r) \<Longrightarrow> length r < length s"
  by (cases s) (auto simp: parameter_at_def Let_def starts_with_def split: if_splits)

text \<open>The global replacement, with the keys it used.\<close>

function expand :: "(string \<times> pvalue) list \<Rightarrow> string \<Rightarrow> string list \<Rightarrow> policy_error + string \<times> string list" where
  "expand params s used =
     (case s of
        [] \<Rightarrow> Inr ([], used)
      | c # cs \<Rightarrow>
          (case parameter_at s of
             None \<Rightarrow> bind_ok (expand params cs used) (\<lambda>(t, u). Inr (c # t, u))
           | Some (key, r) \<Rightarrow>
               (case map_of params key of
                  None \<Rightarrow> Inl (''parameter_required'', None)
                | Some v \<Rightarrow> bind_ok (expand params r (key # used)) (\<lambda>(t, u). Inr (pvalue_json v @ t, u)))))"
  by pat_completeness auto
termination
  by (relation "measure (\<lambda>(params, s, used). length s)") (auto dest: parameter_at_shorter)

declare expand.simps [simp del]

definition substituteParameters :: "string \<Rightarrow> (string \<times> pvalue) list \<Rightarrow> policy_error + string" where
  "substituteParameters source params =
     (if 50 < length params then Inl (''parameter_count'', None)
      else if list_ex (\<lambda>(key, v). \<not> PARAMETER_KEY_PATTERN key \<or> SECRET_KEY_PATTERN key
                \<or> 256 < length (pvalue_String v)) params
      then Inl (''invalid_parameter'', None)
      else bind_ok (expand params source []) (\<lambda>(expanded, used).
        if contains ''${'' expanded \<or> list_ex (\<lambda>(key, v). key \<notin> set used) params
        then Inl (''invalid_parameter'', None) else Inr expanded))"

section \<open>Checks\<close>

text \<open>The first key outside the list is rejected, unless it is the empty string.\<close>

definition rejectUnknownKeys :: "yobj \<Rightarrow> string list \<Rightarrow> string \<Rightarrow> string option \<Rightarrow> policy_error + unit" where
  "rejectUnknownKeys obj allowed c service =
     (case find (\<lambda>k. k \<notin> set allowed) (map fst obj) of
        None \<Rightarrow> Inr ()
      | Some key \<Rightarrow> check (key = []) (c, service))"

definition validateNamedResources :: "yaml option \<Rightarrow> string \<Rightarrow> policy_error + unit" where
  "validateNamedResources v kind =
     (case v of
        None \<Rightarrow> Inr ()
      | Some _ \<Rightarrow>
          (case isObject v of
             None \<Rightarrow> Inl (''invalid_'' @ kind @ ''s'', None)
           | Some entries \<Rightarrow>
               fold_ok (\<lambda>(name, definition') _.
                 (case isObject (Some definition') of
                    None \<Rightarrow> Inl (''unsafe_'' @ kind, None)
                  | Some m \<Rightarrow>
                      if \<not> SERVICE_PATTERN name \<or> yprop m ''external'' = Some (YBool True) \<or> has_key ''name'' m
                      then Inl (''unsafe_'' @ kind, None)
                      else rejectUnknownKeys m
                        (if kind = ''volume'' then [''driver'', ''driver_opts'', ''labels'']
                         else [''driver'', ''driver_opts'', ''internal'', ''labels'']) (''unsupported_'' @ kind) None))
                 entries ()))"

text \<open>\<open>String(item).split(/=(.*)/s).slice(0, 2)\<close>\<close>

definition environment_item :: "yaml \<Rightarrow> string \<times> yaml option" where
  "environment_item item =
     (let s = yaml_String item; key = before (CHR ''='') s
      in (key, if length key < length s then Some (YStr (drop (length key + 1) s)) else None))"

definition environment_entries :: "yaml \<Rightarrow> (string \<times> yaml option) list" where
  "environment_entries v =
     (case v of YSeq items \<Rightarrow> map environment_item items | YMap m \<Rightarrow> map (\<lambda>(k, w). (k, Some w)) m | _ \<Rightarrow> [])"

definition literal_ok :: "yaml option \<Rightarrow> bool" where
  "literal_ok item =
     (case item of
        Some (YStr s) \<Rightarrow> length s \<le> 2048 | Some (YNum n t) \<Rightarrow> length t \<le> 2048 | Some (YBool b) \<Rightarrow> True | _ \<Rightarrow> False)"

definition validateEnvironment :: "yaml option \<Rightarrow> string \<Rightarrow> policy_error + unit" where
  "validateEnvironment v service =
     (case v of
        None \<Rightarrow> Inr ()
      | Some w \<Rightarrow>
          (let entries = environment_entries w in
           if length entries < 1 \<or> 100 < length entries then Inl (''invalid_environment'', Some service)
           else check (list_all (\<lambda>(key, item). ENVIRONMENT_KEY_PATTERN key \<and> \<not> SECRET_KEY_PATTERN key \<and> literal_ok item) entries)
                  (''unsafe_environment'', Some service)))"

definition mount_ok :: "yaml \<Rightarrow> bool" where
  "mount_ok mount =
     (case mount of
        YStr s \<Rightarrow> (let source = before (CHR '':'') s in
          SERVICE_PATTERN source \<and> source \<noteq> ''.'' \<and> CHR ''/'' \<notin> set source \<and> CHR 0x5C \<notin> set source
          \<and> source \<noteq> ''/var/run/docker.sock'')
      | YMap m \<Rightarrow> yprop m ''type'' = Some (YStr ''volume'')
          \<and> (case yprop m ''source'' of Some (YStr source) \<Rightarrow> SERVICE_PATTERN source | _ \<Rightarrow> False)
          \<and> (case yprop m ''target'' of Some (YStr target) \<Rightarrow> starts_with ''/'' target | _ \<Rightarrow> False)
      | _ \<Rightarrow> False)"

definition validateVolumes :: "yaml option \<Rightarrow> string \<Rightarrow> policy_error + unit" where
  "validateVolumes v service =
     (case v of
        None \<Rightarrow> Inr ()
      | Some (YSeq mounts) \<Rightarrow> check (length mounts \<le> 50 \<and> list_all mount_ok mounts) (''unsafe_volume'', Some service)
      | Some _ \<Rightarrow> Inl (''unsafe_volume'', Some service))"

text \<open>\<open>/(?:seccomp|apparmor):?unconfined|label:disable/i\<close>\<close>

definition disables_isolation :: "string \<Rightarrow> bool" where
  "disables_isolation s \<longleftrightarrow>
     list_ex (\<lambda>w. contains w (lower s))
       [''seccomp:unconfined'', ''seccompunconfined'', ''apparmor:unconfined'', ''apparmorunconfined'', ''label:disable'']"

definition security_option_ok :: "yaml \<Rightarrow> bool" where
  "security_option_ok item = (case item of YStr s \<Rightarrow> \<not> disables_isolation s | _ \<Rightarrow> False)"

definition validateSecurityOptions :: "yaml option \<Rightarrow> string \<Rightarrow> policy_error + unit" where
  "validateSecurityOptions v service =
     (case v of
        None \<Rightarrow> Inr ()
      | Some (YSeq items) \<Rightarrow> check (list_all security_option_ok items) (''unsafe_security_opt'', Some service)
      | Some _ \<Rightarrow> Inl (''unsafe_security_opt'', Some service))"

definition validCpu :: "yaml option \<Rightarrow> bool" where
  "validCpu v = (case yaml_Number v of Finite q \<Rightarrow> 1 / 10 \<le> q \<and> q \<le> 8 | _ \<Rightarrow> False)"

definition memory_unit :: "char \<Rightarrow> nat option" where
  "memory_unit c = (let u = lower_char c in
     if u = CHR ''k'' then Some 1024 else if u = CHR ''m'' then Some (1024 ^ 2)
     else if u = CHR ''g'' then Some (1024 ^ 3) else None)"

definition memory_bytes :: "yaml option \<Rightarrow> nat option" where
  "memory_bytes v =
     (case v of
        Some (YStr s) \<Rightarrow>
          (if length s < 2 \<or> \<not> list_all is_digit (butlast s) then None
           else map_option (\<lambda>u. digits_value (butlast s) * u) (memory_unit (last s)))
      | _ \<Rightarrow> None)"

definition validMemory :: "yaml option \<Rightarrow> bool" where
  "validMemory v = (case memory_bytes v of None \<Rightarrow> False | Some b \<Rightarrow> 32 * 1024 ^ 2 \<le> b \<and> b \<le> 16 * 1024 ^ 3)"

definition default_resources :: yaml where
  "default_resources = YMap [(''limits'', YMap [(''cpus'', YStr ''1.0''), (''memory'', YStr ''512M'')])]"

type_synonym policy_warning = "string \<times> string"

text \<open>The service with the defaults it is given, and the warnings.\<close>

definition validateDeploy :: "yobj \<Rightarrow> string \<Rightarrow> policy_error + yobj \<times> policy_warning list" where
  "validateDeploy service name =
     (let service = (if yprop service ''deploy'' = None then js_set ''deploy'' (YMap []) service else service) in
      case isObject (yprop service ''deploy'') of
        None \<Rightarrow> Inl (''invalid_deploy'', Some name)
      | Some deploy \<Rightarrow>
          bind_ok (rejectUnknownKeys deploy [''resources'', ''restart_policy''] ''unsupported_deploy'' (Some name)) (\<lambda>_.
          if has_key ''placement'' deploy then Inl (''forbidden_placement'', Some name)
          else
            (case yprop deploy ''resources'' of
               None \<Rightarrow> Inr (js_set ''deploy'' (YMap (js_set ''resources'' default_resources deploy)) service,
                           [(''resource_defaults_injected'', name)])
             | Some res \<Rightarrow>
                 (case isObject (Some res) of
                    None \<Rightarrow> Inl (''invalid_resources'', Some name)
                  | Some r \<Rightarrow>
                      bind_ok (rejectUnknownKeys r [''limits'', ''reservations''] ''unsupported_resources'' (Some name)) (\<lambda>_.
                      if (case isObject (yprop r ''reservations'') of None \<Rightarrow> False | Some m \<Rightarrow> has_key ''devices'' m)
                      then Inl (''forbidden_device_reservation'', Some name)
                      else
                        (case isObject (yprop r ''limits'') of
                           None \<Rightarrow> Inl (''resource_limits_required'', Some name)
                         | Some l \<Rightarrow>
                             if validCpu (yprop l ''cpus'') \<and> validMemory (yprop l ''memory'')
                             then Inr (service, []) else Inl (''resource_limits_required'', Some name)))))))"

section \<open>A service\<close>

definition TOP_LEVEL_KEYS :: "string list" where
  "TOP_LEVEL_KEYS = [''services'', ''volumes'', ''networks'']"

definition SERVICE_KEYS :: "string list" where
  "SERVICE_KEYS = [''image'', ''restart'', ''healthcheck'', ''environment'', ''ports'', ''expose'', ''network_mode'',
     ''depends_on'', ''volumes'', ''networks'', ''labels'', ''logging'', ''deploy'', ''user'', ''working_dir'',
     ''read_only'', ''tmpfs'', ''stop_grace_period'', ''init'', ''pull_policy'', ''security_opt'']"

definition FORBIDDEN_KEYS :: "string list" where
  "FORBIDDEN_KEYS = [''build'', ''privileged'', ''use_api_socket'', ''network_mode'', ''ports'', ''expose'', ''pid'',
     ''ipc'', ''devices'', ''cap_add'', ''command'', ''entrypoint'', ''extends'']"

record policy_service =
  ps_name :: string
  ps_image :: string
  ps_digestPinned :: bool
  ps_healthcheck :: bool

definition restart_ok :: "yaml option \<Rightarrow> bool" where
  "restart_ok v =
     ((case v of None \<Rightarrow> [] | Some YNull \<Rightarrow> [] | Some w \<Rightarrow> yaml_String w) \<in> set [''always'', ''unless-stopped'', ''on-failure''])"

definition service_image :: "yobj \<Rightarrow> string option" where
  "service_image service =
     (case yprop service ''image'' of Some (YStr s) \<Rightarrow> if image_ok s then Some s else None | _ \<Rightarrow> None)"

text \<open>The body of the loop over the services.\<close>

definition check_service :: "string \<Rightarrow> yaml \<Rightarrow> policy_error + yobj \<times> policy_service \<times> policy_warning list" where
  "check_service name rawService =
     (case isObject (Some rawService) of
        None \<Rightarrow> Inl (''invalid_service'', Some name)
      | Some service \<Rightarrow>
          if \<not> SERVICE_PATTERN name then Inl (''invalid_service'', Some name)
          else
            bind_ok (rejectUnknownKeys service SERVICE_KEYS ''unsupported_service_key'' (Some name)) (\<lambda>_.
            (case find (\<lambda>k. has_key k service) FORBIDDEN_KEYS of
               Some k \<Rightarrow> Inl (''forbidden_'' @ k, Some name)
             | None \<Rightarrow>
                 (case service_image service of
                    None \<Rightarrow> Inl (''image_not_pinned'', Some name)
                  | Some img \<Rightarrow>
                      bind_ok (check (restart_ok (yprop service ''restart'')) (''restart_required'', Some name)) (\<lambda>_.
                      bind_ok (validateEnvironment (yprop service ''environment'') name) (\<lambda>_.
                      bind_ok (validateVolumes (yprop service ''volumes'') name) (\<lambda>_.
                      bind_ok (validateSecurityOptions (yprop service ''security_opt'') name) (\<lambda>_.
                      bind_ok (validateDeploy service name) (\<lambda>(service', deployWarnings).
                        (let digestPinned = contains ''@sha256:'' img;
                             healthcheck = (isObject (yprop service ''healthcheck'') \<noteq> None)
                         in Inr (service',
                              \<lparr>ps_name = name, ps_image = img, ps_digestPinned = digestPinned, ps_healthcheck = healthcheck\<rparr>,
                              (if digestPinned then [] else [(''image_digest_recommended'', name)]) @ deployWarnings
                              @ (if healthcheck then [] else [(''healthcheck_recommended'', name)]))))))))))))"

fun check_services :: "yobj \<Rightarrow> policy_error + yobj \<times> policy_service list \<times> policy_warning list" where
  "check_services [] = Inr ([], [], [])"
| "check_services ((name, raw) # entries) =
     bind_ok (check_service name raw) (\<lambda>(service, ps, ws).
     bind_ok (check_services entries) (\<lambda>(rest, pss, wss). Inr ((name, YMap service) # rest, ps # pss, ws @ wss)))"

section \<open>The document\<close>

text \<open>A node of the parsed document: its items, its key and its value.\<close>

datatype ynode = YNode "ynode list" "ynode option" "ynode option"

text \<open>The number of visits of \<open>walk\<close>\<close>

fun walk :: "ynode \<Rightarrow> nat" where
  "walk (YNode items key val) =
     1 + sum_list (map walk items) + (case key of None \<Rightarrow> 0 | Some n \<Rightarrow> walk n) + (case val of None \<Rightarrow> 0 | Some n \<Rightarrow> walk n)"

record yaml_document =
  doc_errors :: nat
  doc_contents :: "ynode option"
  doc_toJS :: "yaml option"

text \<open>\<open>Array.prototype.sort\<close> is stable.\<close>

fun insert_by :: "(string \<Rightarrow> string \<Rightarrow> bool) \<Rightarrow> string \<times> 'v \<Rightarrow> (string \<times> 'v) list \<Rightarrow> (string \<times> 'v) list" where
  "insert_by le x [] = [x]"
| "insert_by le x (y # ys) = (if le (fst x) (fst y) then x # y # ys else y # insert_by le x ys)"

definition sort_entries :: "(string \<Rightarrow> string \<Rightarrow> bool) \<Rightarrow> (string \<times> 'v) list \<Rightarrow> (string \<times> 'v) list" where
  "sort_entries le kvs = foldr (insert_by le) kvs []"

fun sortObject :: "(string \<Rightarrow> string \<Rightarrow> bool) \<Rightarrow> yaml \<Rightarrow> yaml" where
  "sortObject le (YSeq vs) = YSeq (map (sortObject le) vs)"
| "sortObject le (YMap m) = YMap (sort_entries le (map (\<lambda>(k, v). (k, sortObject le v)) m))"
| "sortObject le v = v"

record ComposePolicyResult =
  res_policyVersion :: nat
  res_normalizedCompose :: string
  res_checksum :: string
  res_services :: "policy_service list"
  res_warnings :: "policy_warning list"

record yaml_api =
  parseDocument :: "string \<Rightarrow> yaml_document"
  stringify :: "yaml \<Rightarrow> string"
  localeCompare_le :: "string \<Rightarrow> string \<Rightarrow> bool"
  sha256_hex :: "string \<Rightarrow> string"

text \<open>The checks of the converted document: the document with its defaults, the services and the warnings.\<close>

definition check_compose :: "yaml \<Rightarrow> policy_error + yobj \<times> policy_service list \<times> policy_warning list" where
  "check_compose v =
     (case isObject (Some v) of
        None \<Rightarrow> Inl (''invalid_compose'', None)
      | Some doc \<Rightarrow>
          bind_ok (rejectUnknownKeys doc TOP_LEVEL_KEYS ''unsupported_top_level'' None) (\<lambda>_.
          (case isObject (yprop doc ''services'') of
             None \<Rightarrow> Inl (''services_required'', None)
           | Some entries \<Rightarrow>
               if length entries < 1 \<or> 50 < length entries then Inl (''service_count'', None)
               else
                 bind_ok (validateNamedResources (yprop doc ''volumes'') ''volume'') (\<lambda>_.
                 bind_ok (validateNamedResources (yprop doc ''networks'') ''network'') (\<lambda>_.
                 bind_ok (check_services entries) (\<lambda>(services', pss, ws).
                   Inr (js_set ''services'' (YMap services') doc, pss, ws)))))))"

definition evaluateComposePolicy ::
  "yaml_api \<Rightarrow> string \<Rightarrow> string \<Rightarrow> (string \<times> pvalue) list \<Rightarrow> policy_error + ComposePolicyResult" where
  "evaluateComposePolicy api source projectName params =
     (if \<not> PROJECT_PATTERN projectName then Inl (''invalid_project'', None)
      else
        bind_ok (substituteParameters source params) (\<lambda>expanded.
        (let document = parseDocument api expanded in
         if 0 < doc_errors document then Inl (''invalid_yaml'', None)
         else if 10000 < (case doc_contents document of None \<Rightarrow> 0 | Some n \<Rightarrow> walk n)
         then Inl (''compose_too_complex'', None)
         else
           (case doc_toJS document of
              None \<Rightarrow> Inl (''aliases_exceeded'', None)
            | Some v \<Rightarrow>
                bind_ok (check_compose v) (\<lambda>(doc, pss, ws).
                  (let normalizedCompose = trimEnd (stringify api (sortObject (localeCompare_le api) (YMap doc))) @ [CHR 0x0A]
                   in Inr \<lparr>res_policyVersion = 2, res_normalizedCompose = normalizedCompose,
                        res_checksum = sha256_hex api normalizedCompose, res_services = pss, res_warnings = ws\<rparr>))))))"

section \<open>What an accepted service may do\<close>

text \<open>
  The contract of the policy, independent of the order of its checks: no key that gives access to
  the host or builds an image, a pinned image that is not \<open>latest\<close>, a restart policy, no secrets in the
  environment, named volumes only, and limits of CPU and memory within bounds.
\<close>

definition limits_of :: "yobj \<Rightarrow> yobj option" where
  "limits_of service =
     (case isObject (yprop service ''deploy'') of None \<Rightarrow> None | Some d \<Rightarrow>
       (case isObject (yprop d ''resources'') of None \<Rightarrow> None | Some r \<Rightarrow> isObject (yprop r ''limits'')))"

definition environment_ok :: "yaml option \<Rightarrow> bool" where
  "environment_ok v = (case v of None \<Rightarrow> True | Some w \<Rightarrow>
     list_all (\<lambda>(key, item). ENVIRONMENT_KEY_PATTERN key \<and> \<not> SECRET_KEY_PATTERN key \<and> literal_ok item) (environment_entries w))"

definition mounts_ok :: "yaml option \<Rightarrow> bool" where
  "mounts_ok v = (case v of None \<Rightarrow> True | Some (YSeq ms) \<Rightarrow> list_all mount_ok ms | Some _ \<Rightarrow> False)"

definition service_safe :: "yobj \<Rightarrow> bool" where
  "service_safe s \<longleftrightarrow>
     (\<forall>k \<in> set FORBIDDEN_KEYS. \<not> has_key k s)
     \<and> (\<exists>i. yprop s ''image'' = Some (YStr i) \<and> image_ok i)
     \<and> restart_ok (yprop s ''restart'')
     \<and> environment_ok (yprop s ''environment'')
     \<and> mounts_ok (yprop s ''volumes'')
     \<and> (\<exists>l. limits_of s = Some l \<and> validCpu (yprop l ''cpus'') \<and> validMemory (yprop l ''memory''))"

lemma yprop_js_set [simp]: "yprop (js_set k v m) k' = (if k' = k then Some v else yprop m k')"
  by (simp add: yprop_def)

lemma isObject_Some [simp]: "isObject (Some (YMap m)) = Some m"
  by (simp add: isObject_def)

lemma isObject_iff: "isObject v = Some m \<longleftrightarrow> v = Some (YMap m)"
  by (auto simp: isObject_def split: option.splits yaml.splits)

lemma lower_M: "lower_char (CHR ''M'') = CHR ''m''"
  by code_simp

lemma default_limits:
  "validCpu (Some (YStr ''1.0''))" "validMemory (Some (YStr ''512M''))"
  by (simp_all add: validCpu_def yaml_Number_def Number_string_def trim_def trimStart_def trimEnd_def
      unsigned_decimal_def exponent_of_def power_of_ten_def digits_value_def char_classes
      validMemory_def memory_bytes_def memory_unit_def lower_M Let_def)

text \<open>The step of the defaults touches \<open>deploy\<close> only, and leaves valid limits there.\<close>

lemma validateDeploy_Inr:
  assumes "validateDeploy s name = Inr (s', ws)"
  shows "\<And>k. k \<noteq> ''deploy'' \<Longrightarrow> yprop s' k = yprop s k"
    "\<exists>l. limits_of s' = Some l \<and> validCpu (yprop l ''cpus'') \<and> validMemory (yprop l ''memory'')"
proof -
  let ?s = "if yprop s ''deploy'' = None then js_set ''deploy'' (YMap []) s else s"
  obtain deploy where d: "yprop ?s ''deploy'' = Some (YMap deploy)"
    and res: "(case yprop deploy ''resources'' of
        None \<Rightarrow> s' = js_set ''deploy'' (YMap (js_set ''resources'' default_resources deploy)) ?s
      | Some res \<Rightarrow> s' = ?s \<and> (\<exists>r l. res = YMap r \<and> yprop r ''limits'' = Some (YMap l)
          \<and> validCpu (yprop l ''cpus'') \<and> validMemory (yprop l ''memory'')))"
    using assms unfolding validateDeploy_def Let_def isObject_iff
    by (simp add: isObject_iff split: option.splits if_splits)
  have keep: "k \<noteq> ''deploy'' \<Longrightarrow> yprop ?s k = yprop s k" for k by simp
  show "k \<noteq> ''deploy'' \<Longrightarrow> yprop s' k = yprop s k" for k
    using res keep [of k] by (simp split: option.splits)
  show "\<exists>l. limits_of s' = Some l \<and> validCpu (yprop l ''cpus'') \<and> validMemory (yprop l ''memory'')"
  proof (cases "yprop deploy ''resources''")
    case None
    with res default_limits show ?thesis by (simp add: limits_of_def default_resources_def yprop_def)
  next
    case (Some r')
    with res obtain r l where "s' = ?s" "r' = YMap r" "yprop r ''limits'' = Some (YMap l)"
      "validCpu (yprop l ''cpus'')" "validMemory (yprop l ''memory'')" by auto
    with d Some show ?thesis by (simp add: limits_of_def)
  qed
qed

lemma check_service_safe:
  assumes "check_service name raw = Inr (s', ps, ws)"
  shows "service_safe s'" "SERVICE_PATTERN name" "ps_name ps = name" "yprop s' ''image'' = Some (YStr (ps_image ps))"
proof -
  obtain s img wd where raw: "raw = YMap s" and name: "SERVICE_PATTERN name"
    and forbidden: "find (\<lambda>k. has_key k s) FORBIDDEN_KEYS = None" and img: "service_image s = Some img"
    and rest: "restart_ok (yprop s ''restart'')" "validateEnvironment (yprop s ''environment'') name = Inr ()"
      "validateVolumes (yprop s ''volumes'') name = Inr ()" "validateDeploy s name = Inr (s', wd)"
    and ps: "ps_name ps = name" "ps_image ps = img"
    using assms by (auto simp: check_service_def isObject_iff Let_def split: option.splits if_splits)
  then show "SERVICE_PATTERN name" "ps_name ps = name" by simp_all
  note deploy = validateDeploy_Inr [OF rest(4)]
  have "\<not> has_key k s'" if "k \<in> set FORBIDDEN_KEYS" for k
  proof -
    have "k \<noteq> ''deploy''" using that by (auto simp: FORBIDDEN_KEYS_def)
    with forbidden that deploy(1) [of k] show ?thesis by (simp add: find_None_iff has_key_def)
  qed
  moreover have img': "yprop s ''image'' = Some (YStr img)" "image_ok img"
    using img by (auto simp: service_image_def split: option.splits yaml.splits if_splits)
  moreover have "environment_ok (yprop s ''environment'')"
    using rest(2) by (auto simp: validateEnvironment_def environment_ok_def Let_def split: option.splits if_splits)
  moreover have "mounts_ok (yprop s ''volumes'')"
    using rest(3) by (auto simp: validateVolumes_def mounts_ok_def split: option.splits yaml.splits)
  ultimately show "service_safe s'" using rest(1) deploy by (simp add: service_safe_def)
  show "yprop s' ''image'' = Some (YStr (ps_image ps))" using img' deploy(1) ps by simp
qed

lemma check_services_safe:
  "check_services entries = Inr (svcs, pss, ws) \<Longrightarrow>
     map fst svcs = map fst entries \<and> map fst svcs = map ps_name pss
     \<and> (\<forall>(n, v) \<in> set svcs. SERVICE_PATTERN n \<and> (\<exists>s. v = YMap s \<and> service_safe s))"
proof (induction entries arbitrary: svcs pss ws rule: check_services.induct)
  case (2 name raw entries)
  then obtain s ps w rest pss' w' where c: "check_service name raw = Inr (s, ps, w)"
    and r: "check_services entries = Inr (rest, pss', w')" and eq: "svcs = (name, YMap s) # rest" "pss = ps # pss'"
    by auto
  from check_service_safe [OF c] 2(1) [OF r] show ?case by (auto simp: eq)
qed simp

text \<open>The document an accepted evaluation normalises.\<close>

lemma evaluate_Inr:
  assumes "evaluateComposePolicy api source projectName params = Inr r"
  obtains expanded v doc svcs where "substituteParameters source params = Inr expanded"
    "doc_toJS (parseDocument api expanded) = Some v" "check_compose v = Inr (doc, res_services r, res_warnings r)"
    "yprop doc ''services'' = Some (YMap svcs)" "map fst svcs = map ps_name (res_services r)"
    "1 \<le> length svcs" "length svcs \<le> 50"
    "\<forall>(n, w) \<in> set svcs. SERVICE_PATTERN n \<and> (\<exists>s. w = YMap s \<and> service_safe s)"
    "res_normalizedCompose r = trimEnd (stringify api (sortObject (localeCompare_le api) (YMap doc))) @ [CHR 0x0A]"
    "res_checksum r = sha256_hex api (res_normalizedCompose r)"
proof -
  obtain expanded v doc pss ws where e: "substituteParameters source params = Inr expanded"
      "doc_toJS (parseDocument api expanded) = Some v" "check_compose v = Inr (doc, pss, ws)"
    and r: "r = \<lparr>res_policyVersion = 2,
       res_normalizedCompose = trimEnd (stringify api (sortObject (localeCompare_le api) (YMap doc))) @ [CHR 0x0A],
       res_checksum = sha256_hex api (trimEnd (stringify api (sortObject (localeCompare_le api) (YMap doc))) @ [CHR 0x0A]),
       res_services = pss, res_warnings = ws\<rparr>"
    using assms by (auto simp: evaluateComposePolicy_def Let_def split: option.splits if_splits)
  obtain entries svcs where c: "entries \<noteq> []" "length entries \<le> 50"
    "check_services entries = Inr (svcs, pss, ws)" "yprop doc ''services'' = Some (YMap svcs)"
    using e(3) by (auto simp: check_compose_def isObject_iff split: option.splits if_splits)
  from check_services_safe [OF c(3)] have s: "map fst svcs = map fst entries" "map fst svcs = map ps_name pss"
    "\<forall>(n, w) \<in> set svcs. SERVICE_PATTERN n \<and> (\<exists>s. w = YMap s \<and> service_safe s)" by blast+
  then have "length svcs = length entries" by (metis length_map)
  moreover from this c(1) have "1 \<le> length svcs" by (cases svcs) auto
  ultimately show thesis using e r c s by (intro that [of expanded v doc svcs]) simp_all
qed

section \<open>The parameters\<close>

lemma substitute_Inr:
  assumes "substituteParameters source params = Inr t"
  shows "length params \<le> 50" "\<not> contains ''${'' t"
    "\<And>key v. (key, v) \<in> set params \<Longrightarrow> PARAMETER_KEY_PATTERN key \<and> \<not> SECRET_KEY_PATTERN key \<and> length (pvalue_String v) \<le> 256"
  using assms by (auto simp: substituteParameters_def list_ex_iff case_prod_beta split: if_splits)

text \<open>A text without a placeholder is left as it is.\<close>

lemma expand_none: "\<not> contains ''${'' s \<Longrightarrow> expand params s used = Inr (s, used)"
  by (induction s arbitrary: used) (auto simp: expand.simps parameter_at_def)

section \<open>The normal form\<close>

definition linear_le :: "('a \<Rightarrow> 'a \<Rightarrow> bool) \<Rightarrow> bool" where
  "linear_le le \<longleftrightarrow> (\<forall>a b. le a b \<or> le b a) \<and> (\<forall>a b c. le a b \<longrightarrow> le b c \<longrightarrow> le a c) \<and> (\<forall>a b. le a b \<longrightarrow> le b a \<longrightarrow> a = b)"

lemma mset_insert_by [simp]: "mset (insert_by le x ys) = add_mset x (mset ys)"
  by (induction ys) simp_all

lemma mset_sort_entries [simp]: "mset (sort_entries le kvs) = mset kvs"
  by (induction kvs) (simp_all add: sort_entries_def)

abbreviation sorted_entries :: "(string \<Rightarrow> string \<Rightarrow> bool) \<Rightarrow> (string \<times> 'v) list \<Rightarrow> bool" where
  "sorted_entries le \<equiv> sorted_wrt (\<lambda>x y. le (fst x) (fst y))"

lemma set_insert_by [simp]: "set (insert_by le x ys) = insert x (set ys)"
  by (induction ys) auto

lemma sorted_insert_by:
  assumes "linear_le le"
  shows "sorted_entries le ys \<Longrightarrow> sorted_entries le (insert_by le x ys)"
proof (induction ys)
  case (Cons y ys)
  have total: "\<not> le (fst x) (fst y) \<Longrightarrow> le (fst y) (fst x)"
    and trans: "\<And>z. le (fst x) (fst y) \<Longrightarrow> le (fst y) (fst z) \<Longrightarrow> le (fst x) (fst z)"
    using assms unfolding linear_le_def by blast+
  from Cons show ?case by (auto intro: total trans)
qed simp

lemma sorted_sort_entries: "linear_le le \<Longrightarrow> sorted_entries le (sort_entries le kvs)"
  by (induction kvs) (simp_all add: sort_entries_def sorted_insert_by)

text \<open>With distinct keys there is one sorted order.\<close>

lemma sorted_entries_unique:
  assumes "linear_le le"
  shows "mset xs = mset ys \<Longrightarrow> distinct (map fst xs) \<Longrightarrow> sorted_entries le xs \<Longrightarrow> sorted_entries le ys \<Longrightarrow> xs = ys"
proof (induction xs arbitrary: ys)
  case (Cons x xs)
  then obtain y ys' where ys: "ys = y # ys'" by (cases ys) auto
  have "x \<in> set ys" using Cons.prems(1) by (metis list.set_intros(1) set_mset_mset)
  moreover have "y \<in> set (x # xs)" using Cons.prems(1) ys by (metis list.set_intros(1) set_mset_mset)
  ultimately have "x = y \<or> le (fst x) (fst y) \<and> le (fst y) (fst x)"
    using Cons.prems(3,4) ys by auto
  moreover have "fst x = fst y \<Longrightarrow> x = y"
    using Cons.prems(2) \<open>y \<in> set (x # xs)\<close> by (auto simp: image_iff)
  ultimately have "x = y" using assms unfolding linear_le_def by blast
  with Cons ys show ?case by auto
qed simp

lemma sort_entries_perm:
  assumes "linear_le le" "mset xs = mset ys" "distinct (map fst xs)"
  shows "sort_entries le xs = sort_entries le ys"
proof (rule sorted_entries_unique [OF assms(1)])
  have "mset (map fst (sort_entries le xs)) = mset (map fst xs)" by simp
  with assms(3) show "distinct (map fst (sort_entries le xs))" by (metis mset_eq_imp_distinct_iff)
qed (use assms in \<open>simp_all add: sorted_sort_entries\<close>)

text \<open>Documents that differ in the order of the keys of their mappings, at any depth.\<close>

inductive reordered :: "yaml \<Rightarrow> yaml \<Rightarrow> bool" where
  same: "reordered v v"
| seq: "list_all2 reordered us vs \<Longrightarrow> reordered (YSeq us) (YSeq vs)"
| mapping: "list_all2 (\<lambda>x y. fst x = fst y \<and> reordered (snd x) (snd y)) m m' \<Longrightarrow> mset m' = mset m'' \<Longrightarrow>
    distinct (map fst m) \<Longrightarrow> reordered (YMap m) (YMap m'')"

lemma sortObject_reordered:
  assumes "linear_le le"
  shows "reordered u v \<Longrightarrow> sortObject le u = sortObject le v"
proof (induction rule: reordered.induct)
  case (seq us vs)
  then show ?case by (induction us vs rule: list_all2_induct) simp_all
next
  case (mapping m m' m'')
  let ?f = "\<lambda>(k, v). (k, sortObject le v)"
  have "map ?f m = map ?f m'"
    using mapping(1) by (induction m m' rule: list_all2_induct) auto
  moreover have "mset (map ?f m') = mset (map ?f m'')"
    using mapping(2) by simp
  moreover have "distinct (map fst (map ?f m))" using mapping(3) by (simp add: o_def case_prod_beta)
  ultimately have "sort_entries le (map ?f m) = sort_entries le (map ?f m'')"
    using sort_entries_perm [OF assms, of "map ?f m" "map ?f m''"] by simp
  then show ?case by simp
qed simp

section \<open>Properties\<close>

text \<open>C8. Whatever Compose file the policy accepts, every service it runs is contained: each service of the
  normalised document, under a valid name, has none of the forbidden keys (no build, privileges, host
  network, ports, devices, capabilities or command), an image pinned to a tag that is not \<open>latest\<close> or to a
  digest, a restart policy, an environment without secret names and with bounded literals, named volumes only,
  and limits of CPU and memory within bounds, injected when the file had none. There are between one and
  fifty services, reported in the order of the document, and the checksum is of the text that will run.\<close>

theorem accepted_services_are_contained:
  assumes "evaluateComposePolicy api source projectName params = Inr r"
  shows "\<exists>doc svcs. yprop doc ''services'' = Some (YMap svcs) \<and> map fst svcs = map ps_name (res_services r)
    \<and> 1 \<le> length svcs \<and> length svcs \<le> 50
    \<and> (\<forall>(n, w) \<in> set svcs. SERVICE_PATTERN n \<and> (\<exists>s. w = YMap s \<and> service_safe s))
    \<and> res_normalizedCompose r = trimEnd (stringify api (sortObject (localeCompare_le api) (YMap doc))) @ [CHR 0x0A]
    \<and> res_checksum r = sha256_hex api (res_normalizedCompose r)"
  using assms by (rule evaluate_Inr) blast

text \<open>A parser that knows one document.\<close>

definition one_service :: yaml where
  "one_service = YMap [(''services'', YMap [(''app'', YMap [(''image'', YStr ''nginx:1.27''), (''restart'', YStr ''always'')])])]"

definition one_document :: yaml_api where
  "one_document = \<lparr>parseDocument = (\<lambda>_. \<lparr>doc_errors = 0, doc_contents = None, doc_toJS = Some one_service\<rparr>),
     stringify = (\<lambda>_. ''services: {}''), localeCompare_le = (\<lambda>_ _. True), sha256_hex = (\<lambda>_. ''00'')\<rparr>"

lemma single_entry: "map fst xs = [a] \<Longrightarrow> \<exists>w. xs = [(a, w)]"
  by (cases xs) auto

theorem accepted_services_are_contained_witness:
  "\<exists>r doc s. evaluateComposePolicy one_document ''x'' ''shop'' [] = Inr r \<and> yprop doc ''services'' = Some (YMap [(''app'', YMap s)])
     \<and> service_safe s"
proof -
  have "case evaluateComposePolicy one_document ''x'' ''shop'' [] of
      Inr r \<Rightarrow> map ps_name (res_services r) = [''app''] | Inl _ \<Rightarrow> False" by code_simp
  then obtain r where r: "evaluateComposePolicy one_document ''x'' ''shop'' [] = Inr r" "map ps_name (res_services r) = [''app'']"
    by (auto split: sum.splits)
  from accepted_services_are_contained [OF r(1)] obtain doc svcs where d: "yprop doc ''services'' = Some (YMap svcs)"
    "map fst svcs = map ps_name (res_services r)" "\<forall>(n, w) \<in> set svcs. SERVICE_PATTERN n \<and> (\<exists>s. w = YMap s \<and> service_safe s)"
    by (elim exE conjE) (rule that; assumption)
  from single_entry [OF trans [OF d(2) r(2)]] obtain w where svcs: "svcs = [(''app'', w)]" by (elim exE)
  with d(3) obtain s where s: "w = YMap s" "service_safe s" by auto
  show ?thesis
    by (intro exI conjI, rule r(1), rule d(1) [unfolded svcs s(1)], rule s(2))
qed

text \<open>The checksum of a deployment does not depend on how its Compose file is laid out: two documents that
  differ only in the order of their keys, at any depth, are normalised to the same value.\<close>

theorem normal_form_is_canonical:
  assumes "linear_le le" "reordered u v"
  shows "sortObject le u = sortObject le v"
  by (rule sortObject_reordered [OF assms])

theorem normal_form_is_canonical_witness:
  "sortObject (\<le>) (YMap [(''b'', YNull), (''a'', YBool True)]) = sortObject (\<le>) (YMap [(''a'', YBool True), (''b'', YNull)])"
proof (rule normal_form_is_canonical)
  show "linear_le ((\<le>) :: string \<Rightarrow> string \<Rightarrow> bool)" by (auto simp: linear_le_def)
  show "reordered (YMap [(''b'', YNull), (''a'', YBool True)]) (YMap [(''a'', YBool True), (''b'', YNull)])"
    by (rule reordered.mapping [where m' = "[(''b'', YNull), (''a'', YBool True)]"]) (simp_all add: reordered.same)
qed

section \<open>What the policy lets through\<close>

text \<open>A named volume may be a bind mount of a host directory: the options of its driver are not checked.\<close>

lemma host_directory_accepted:
  "succeeds (check_compose (YMap
     [(''services'', YMap [(''app'', YMap [(''image'', YStr ''nginx:1.27''), (''restart'', YStr ''always''),
        (''volumes'', YSeq [YStr ''data:/data''])])]),
      (''volumes'', YMap [(''data'', YMap [(''driver_opts'',
        YMap [(''type'', YStr ''none''), (''o'', YStr ''bind''), (''device'', YStr ''/var/run'')])])])]))"
  by code_simp

text \<open>The current spelling of the options that switch confinement off is not recognised.\<close>

lemma unconfined_accepted:
  "validateSecurityOptions (Some (YSeq [YStr ''seccomp=unconfined'', YStr ''apparmor=unconfined'', YStr ''label=disable''])) ''app'' = Inr ()"
  by code_simp

text \<open>An unknown key is accepted when it is the empty text.\<close>

lemma empty_key_accepted:
  "rejectUnknownKeys [([], YStr ''x'')] SERVICE_KEYS ''unsupported_service_key'' (Some ''app'') = Inr ()"
  by code_simp

text \<open>A list of one restart policy passes for the policy.\<close>

lemma restart_list_accepted: "restart_ok (Some (YSeq [YStr ''always'']))"
  by code_simp

end
