(* ===== verification/Gw_Api.thy ===== *)
theory Gw_Api
  imports Gw_Types Gw_Js
begin

text \<open>
  The helpers of app.ts that read a request: the errors of the API, the fields of a body, the
  parameters and headers, the roles, and the shell commands the console shows to an operator.
\<close>

section \<open>Errors\<close>

text \<open>\<open>ApiError\<close>: the status code, the message and the code.\<close>

datatype ApiError = ApiError (statusCode: nat) (err_message: string) (err_code: "string option")

abbreviation bad_request :: "string \<Rightarrow> ApiError" where
  "bad_request m \<equiv> ApiError 400 m None"

section \<open>Patterns\<close>

definition UUID_PATTERN :: "string \<Rightarrow> bool" where
  "UUID_PATTERN s \<longleftrightarrow> uuid_shape (lower s)"

definition RESOURCE_NAME_PATTERN :: "string \<Rightarrow> bool" where
  "RESOURCE_NAME_PATTERN = named is_alnum (\<lambda>c. is_alnum c \<or> c \<in> set ''._-'') 0 62"

definition PROJECT_NAME_PATTERN :: "string \<Rightarrow> bool" where
  "PROJECT_NAME_PATTERN = named is_lownum (\<lambda>c. is_lownum c \<or> c \<in> set ''_-'') 0 62"

definition SERVICE_NAME_PATTERN :: "string \<Rightarrow> bool" where
  "SERVICE_NAME_PATTERN = named is_alnum (\<lambda>c. is_alnum c \<or> c \<in> set ''._-'') 0 127"

definition DOCKER_VOLUME_PATTERN :: "string \<Rightarrow> bool" where
  "DOCKER_VOLUME_PATTERN = named is_alnum (\<lambda>c. is_alnum c \<or> c \<in> set ''_.-'') 1 127"

definition CLOUDFLARE_IDENTIFIER_PATTERN :: "string \<Rightarrow> bool" where
  "CLOUDFLARE_IDENTIFIER_PATTERN = all_of is_hex 32 32"

text \<open>\<open>/^[^\s@]+@[^\s@]+\.[^\s@]+$/\<close>: one at sign, no space, and a dot inside what follows it.\<close>

definition EMAIL_PATTERN :: "string \<Rightarrow> bool" where
  "EMAIL_PATTERN s \<longleftrightarrow>
     (case split_on (CHR ''@'') s of
        [user', domain] \<Rightarrow> user' \<noteq> [] \<and> \<not> list_ex is_space s
          \<and> CHR ''.'' \<in> set (butlast (drop 1 domain))
      | _ \<Rightarrow> False)"

text \<open>\<open>/^[a-z0-9][a-z0-9._/-]*(?::[a-z0-9][a-z0-9._-]*)?(?:@sha256:[a-f0-9]{64})?$/i\<close>\<close>

definition IMAGE_REFERENCE :: "string \<Rightarrow> bool" where
  "IMAGE_REFERENCE s =
     (let name = (\<lambda>c. is_alnum c \<or> c \<in> set ''._/-''); tag = (\<lambda>c. is_alnum c \<or> c \<in> set ''._-'');
          r = dropWhile name s;
          (tag_ok, r2) = (case r of [] \<Rightarrow> (True, [])
             | c # cs \<Rightarrow> if c = CHR '':''
                 then (named is_alnum tag 0 (length cs) (takeWhile tag cs), dropWhile tag cs)
                 else (True, r))
      in (case s of [] \<Rightarrow> False | c # _ \<Rightarrow> is_alnum c) \<and> tag_ok
         \<and> (r2 = [] \<or> starts_with ''@sha256:'' (lower r2) \<and> all_of is_hex 64 64 (drop 8 r2)))"

section \<open>The body\<close>

definition objectBody :: "json option \<Rightarrow> ApiError + jobj" where
  "objectBody body =
     (case body of Some (JObj kvs) \<Rightarrow> Inr kvs | _ \<Rightarrow> Inl (bad_request ''A JSON object request body is required.''))"

definition length_error :: "string \<Rightarrow> nat \<Rightarrow> nat \<Rightarrow> ApiError" where
  "length_error field lo hi = bad_request (field @ '' must be a string between '' @ digits lo @ '' and '' @ digits hi @ '' characters.'')"

definition stringField :: "jobj \<Rightarrow> string \<Rightarrow> nat \<Rightarrow> nat \<Rightarrow> ApiError + string" where
  "stringField body field lo hi =
     (case jprop body field of
        Some (JStr v) \<Rightarrow>
          if length (trim v) < lo \<or> hi < length (trim v) then Inl (length_error field lo hi) else Inr (trim v)
      | _ \<Rightarrow> Inl (length_error field lo hi))"

definition opaqueStringField :: "jobj \<Rightarrow> string \<Rightarrow> nat \<Rightarrow> nat \<Rightarrow> ApiError + string" where
  "opaqueStringField body field lo hi =
     (case jprop body field of
        Some (JStr v) \<Rightarrow>
          if length v < lo \<or> hi < length v then Inl (length_error field lo hi) else Inr v
      | _ \<Rightarrow> Inl (length_error field lo hi))"

definition optionalBoolean :: "jobj \<Rightarrow> string \<Rightarrow> ApiError + bool option" where
  "optionalBoolean body field =
     (case jprop body field of
        None \<Rightarrow> Inr None | Some (JBool b) \<Rightarrow> Inr (Some b)
      | Some _ \<Rightarrow> Inl (bad_request (field @ '' must be a boolean.'')))"

definition optionalUuid :: "jobj \<Rightarrow> string \<Rightarrow> ApiError + string option" where
  "optionalUuid body field =
     (case jprop body field of
        None \<Rightarrow> Inr None
      | Some _ \<Rightarrow> bind_ok (stringField body field 36 36) (\<lambda>v.
          if UUID_PATTERN v then Inr (Some v) else Inl (bad_request (field @ '' must be a valid UUID.''))))"

text \<open>\<open>body.x === undefined ? undefined : stringField(..)\<close>\<close>

definition optionalString :: "jobj \<Rightarrow> string \<Rightarrow> nat \<Rightarrow> nat \<Rightarrow> ApiError + string option" where
  "optionalString body field lo hi =
     (case jprop body field of
        None \<Rightarrow> Inr None
      | Some _ \<Rightarrow> bind_ok (stringField body field lo hi) (\<lambda>v. Inr (Some v)))"

definition optionalOpaque :: "jobj \<Rightarrow> string \<Rightarrow> nat \<Rightarrow> nat \<Rightarrow> ApiError + string option" where
  "optionalOpaque body field lo hi =
     (case jprop body field of
        None \<Rightarrow> Inr None
      | Some _ \<Rightarrow> bind_ok (opaqueStringField body field lo hi) (\<lambda>v. Inr (Some v)))"

definition cloudflareIdentifier :: "jobj \<Rightarrow> string \<Rightarrow> ApiError + string" where
  "cloudflareIdentifier body field =
     bind_ok (stringField body field 32 32) (\<lambda>v.
       if CLOUDFLARE_IDENTIFIER_PATTERN v then Inr v
       else Inl (bad_request (field @ '' must be a 32-character Cloudflare identifier.'')))"

definition exactKeys :: "jobj \<Rightarrow> string list \<Rightarrow> ApiError + unit" where
  "exactKeys body allowed =
     check (list_all (\<lambda>(k, v). k \<in> set allowed) body)
       (ApiError 400 ''The request contains unsupported fields.'' (Some ''invalid_payload''))"

section \<open>Parameters and headers\<close>

definition idParameter :: "string option \<Rightarrow> ApiError + uuid" where
  "idParameter v =
     (case v of
        Some i \<Rightarrow> if UUID_PATTERN i then Inr i else Inl (bad_request ''A valid UUID is required.'')
      | None \<Rightarrow> Inl (bad_request ''A valid UUID is required.''))"

definition bearerToken :: "string option \<Rightarrow> string option" where
  "bearerToken authorization =
     (case authorization of
        None \<Rightarrow> None
      | Some a \<Rightarrow>
          if \<not> starts_with ''Bearer '' a then None
          else (let token = trim (drop 7 a) in if 32 \<le> length token then Some token else None))"

definition idempotencyKey :: "string option \<Rightarrow> ApiError + string" where
  "idempotencyKey header =
     (let err = ApiError 400 ''A valid Idempotency-Key header is required.'' (Some ''idempotency_key_required'')
      in (case header of
            None \<Rightarrow> Inl err
          | Some v \<Rightarrow> if all_of (\<lambda>c. is_alnum c \<or> c \<in> set ''._:-'') 8 128 v then Inr v else Inl err))"

text \<open>
  \<open>JSON.stringify(value, keys)\<close> keeps, at every depth, the properties among the keys, in that
  order; the stringification of the result and SHA-256 are parameters.
\<close>

fun only_keys :: "string list \<Rightarrow> json \<Rightarrow> json" where
  "only_keys keys (JArr vs) = JArr (map (only_keys keys) vs)"
| "only_keys keys (JObj kvs) =
     JObj (List.map_filter (\<lambda>k. map_option (\<lambda>v. (k, v)) (map_of (map (\<lambda>(k, v). (k, only_keys keys v)) kvs) k)) keys)"
| "only_keys keys v = v"

definition requestHash :: "(string \<Rightarrow> string) \<Rightarrow> (json \<Rightarrow> string) \<Rightarrow> jobj \<Rightarrow> string" where
  "requestHash sha256 json_stringify v = sha256 (json_stringify (only_keys (sort (map fst v)) (JObj v)))"

section \<open>Roles\<close>

fun rank :: "Role \<Rightarrow> nat" where
  "rank Viewer = 1" | "rank Operator = 2" | "rank Owner = 3"

definition canAccess :: "Role \<Rightarrow> Role \<Rightarrow> bool" where
  "canAccess actual needed \<longleftrightarrow> rank needed \<le> rank actual"

record PublicUser =
  pub_id :: uuid
  pub_email :: string
  pub_role :: Role

definition publicUser :: "User \<Rightarrow> PublicUser" where
  "publicUser u = \<lparr>pub_id = User_id u, pub_email = User_email u, pub_role = User_role u\<rparr>"

section \<open>Shell commands\<close>

definition sq :: string where "sq = [CHR 0x27]"
definition dq :: string where "dq = [CHR 0x22]"

definition shellQuote :: "string \<Rightarrow> string" where
  "shellQuote v = sq @ replace_all (CHR 0x27) (sq @ dq @ sq @ dq @ sq) v @ sq"

definition agent_container :: "uuid \<Rightarrow> string" where
  "agent_container agentId = ''gateway-agent-'' @ take 8 agentId"

definition agentCleanupCommand :: "uuid \<Rightarrow> string" where
  "agentCleanupCommand agentId =
     (let containerName = agent_container agentId; stateVolume = containerName @ ''-state''
      in ''docker rm -f '' @ shellQuote containerName @ '' 2>/dev/null || true; docker volume rm ''
         @ shellQuote stateVolume @ '' 2>/dev/null || true'')"

text \<open>\<open>[..].filter(Boolean).join(' ')\<close>\<close>

definition words :: "string list \<Rightarrow> string" where
  "words ws = intercalate '' '' (filter (\<lambda>w. w \<noteq> []) ws)"

text \<open>The URL object of the platform: its parser, and the assignment of a host name.\<close>

record url_platform =
  URL :: "string \<Rightarrow> url option"
  with_hostname :: "url \<Rightarrow> string \<Rightarrow> url"

definition initialize_mounts :: "string \<Rightarrow> string \<Rightarrow> string \<Rightarrow> string" where
  "initialize_mounts pullPolicy volume img = intercalate '' ''
     [''docker run --rm'', pullPolicy, ''--entrypoint /bin/sh'', ''--user root'',
      ''-v /opt/gateway-control/stacks:/opt/gateway-control/stacks'',
      ''-v /opt/gateway-control/deployments:/opt/gateway-control/deployments'',
      ''-v /opt/gateway-control/backups/local:/opt/gateway-control/backups/local'',
      ''-v '' @ shellQuote volume @ '':/srv/traefik-dynamic'', shellQuote img, ''-c'',
      shellQuote (''chown 10001:10001 /opt/gateway-control/stacks /opt/gateway-control/backups/local /srv/traefik-dynamic /opt/gateway-control/deployments''
        @ '' && chmod 0755 /opt/gateway-control/stacks /opt/gateway-control/backups/local /srv/traefik-dynamic /opt/gateway-control/deployments'')]"

definition start_agent ::
  "string \<Rightarrow> string \<Rightarrow> string \<Rightarrow> string \<Rightarrow> uuid \<Rightarrow> string \<Rightarrow> string \<Rightarrow> string \<Rightarrow> string \<Rightarrow> string list \<Rightarrow> string" where
  "start_agent normalizedUrl insecureHttpOption img enrollmentToken agentId agentName volume nasRoot nasMarker projects =
     (let containerName = agent_container agentId; stateVolume = containerName @ ''-state'' in words
     [''docker run -d'', ''--pull never'', ''--name '' @ shellQuote containerName, ''--restart unless-stopped'',
      ''--add-host host.docker.internal:host-gateway'',
      ''--group-add '' @ dq @ ''$(stat -c '' @ sq @ ''%g'' @ sq @ '' /var/run/docker.sock)'' @ dq,
      ''-e GATEWAY_CONTROL_URL='' @ shellQuote normalizedUrl,
      ''-e GATEWAY_ENROLLMENT_TOKEN='' @ shellQuote enrollmentToken,
      ''-e GATEWAY_AGENT_NAME='' @ shellQuote agentName,
      ''-e GATEWAY_AGENT_IMAGE='' @ shellQuote img,
      insecureHttpOption,
      ''-e GATEWAY_STATE_DIR=/var/lib/gateway-agent'',
      ''-e GATEWAY_STATE_VOLUME='' @ shellQuote stateVolume,
      ''-e GATEWAY_STACKS_ROOT=/opt/gateway-control/stacks'',
      ''-e GATEWAY_HOST_STACKS_ROOT=/opt/gateway-control/stacks'',
      ''-e GATEWAY_DEPLOYMENTS_ROOT=/opt/gateway-control/deployments'',
      ''-e GATEWAY_HOST_DEPLOYMENTS_ROOT=/opt/gateway-control/deployments'',
      ''-e GATEWAY_HOST_PROC_ROOT=/host/proc'',
      ''-e GATEWAY_LOCAL_BACKUP_ROOT=/opt/gateway-control/backups/local'',
      ''-e GATEWAY_HOST_LOCAL_BACKUP_ROOT=/opt/gateway-control/backups/local'',
      ''-e GATEWAY_NAS_BACKUP_ROOT='' @ shellQuote nasRoot,
      ''-e GATEWAY_HOST_NAS_BACKUP_ROOT='' @ shellQuote nasRoot,
      ''-e GATEWAY_NAS_MARKER='' @ shellQuote nasMarker,
      ''-e GATEWAY_PROTECTED_PROJECTS='' @ shellQuote (intercalate '','' projects),
      ''-e GATEWAY_TRAEFIK_DYNAMIC_ROOT=/srv/traefik-dynamic'',
      ''-e GATEWAY_TRAEFIK_DYNAMIC_VOLUME='' @ shellQuote volume,
      ''-v /var/run/docker.sock:/var/run/docker.sock'',
      ''-v /proc:/host/proc:ro'',
      ''-v '' @ shellQuote stateVolume @ '':/var/lib/gateway-agent'',
      ''-v /opt/gateway-control/stacks:/opt/gateway-control/stacks'',
      ''-v /opt/gateway-control/deployments:/opt/gateway-control/deployments'',
      ''-v /opt/gateway-control/backups/local:/opt/gateway-control/backups/local'',
      ''-v '' @ shellQuote (nasRoot @ '':'' @ nasRoot),
      ''-v '' @ shellQuote volume @ '':/srv/traefik-dynamic'',
      shellQuote img])"

definition enrollmentCommand ::
  "url_platform \<Rightarrow> string \<Rightarrow> string \<Rightarrow> string \<Rightarrow> uuid \<Rightarrow> string \<Rightarrow> string \<Rightarrow> string \<Rightarrow> string \<Rightarrow> string list \<Rightarrow> ApiError + string" where
  "enrollmentCommand web baseUrl img enrollmentToken agentId agentName volume nasRoot nasMarker projects =
     (case URL web baseUrl of
        None \<Rightarrow> Inl (bad_request ''baseUrl must be a valid absolute HTTP or HTTPS URL.'')
      | Some u \<Rightarrow>
          if url_protocol u \<notin> {''http:'', ''https:''} \<or> url_username u \<noteq> [] \<or> url_password u \<noteq> []
          then Inl (bad_request ''baseUrl must be a valid absolute HTTP or HTTPS URL without credentials.'')
          else
            (let u = (if url_hostname u \<in> {''localhost'', ''127.0.0.1'', ''[::1]''}
                      then with_hostname web u ''host.docker.internal'' else u) in
             if \<not> IMAGE_REFERENCE img then Inl (bad_request ''image is not a valid container image reference.'')
             else if \<not> DOCKER_VOLUME_PATTERN volume
             then Inl (ApiError 500 ''The configured Traefik dynamic volume name is invalid.'' None)
             else if \<not> starts_with ''/'' nasRoot \<or> CHR '':'' \<in> set nasRoot \<or> CHR 0x0D \<in> set nasRoot \<or> CHR 0x0A \<in> set nasRoot
             then Inl (ApiError 500 ''The configured NAS backup root is invalid.'' None)
             else if \<not> (nasMarker \<noteq> [] \<and> list_all (\<lambda>c. is_alnum c \<or> c \<in> set ''._-'') nasMarker) \<or> nasMarker = ''.'' \<or> nasMarker = ''..''
             then Inl (ApiError 500 ''The configured NAS marker is invalid.'' None)
             else
               (let href = url_href u;
                    normalizedUrl = (if ends_with ''/'' href then butlast href else href);
                    insecureHttpOption = (if url_protocol u = ''http:'' then ''-e GATEWAY_ALLOW_INSECURE_HTTP=true'' else []);
                    is_local = ends_with '':local'' img;
                    pullPolicy = (if is_local then ''--pull never'' else ''--pull always'');
                    imagePreflight = (if is_local
                      then ''docker image inspect '' @ shellQuote img @ '' >/dev/null 2>&1 || { printf '' @ sq @ ''%s'' @ [CHR 0x0A] @ sq @ '' ''
                        @ shellQuote (''Local Agent image '' @ img @ '' was not found. Build or load it on this host before enrollment.'')
                        @ '' >&2; false; }'' else [])
                in Inr (intercalate '' && '' (filter (\<lambda>w. w \<noteq> [])
                     [imagePreflight, initialize_mounts pullPolicy volume img,
                      start_agent normalizedUrl insecureHttpOption img enrollmentToken agentId agentName volume nasRoot
                        nasMarker projects])))))"

section \<open>Facts\<close>

lemma stringField_Inr:
  "stringField body field lo hi = Inr v \<Longrightarrow> lo \<le> length v \<and> length v \<le> hi"
  by (auto simp: stringField_def split: option.splits json.splits if_splits)

lemma canAccess_order:
  "canAccess r r" "canAccess a b \<Longrightarrow> canAccess b c \<Longrightarrow> canAccess a c" "canAccess a b \<or> canAccess b a"
  "canAccess a b \<Longrightarrow> canAccess b a \<Longrightarrow> a = b"
proof -
  show "canAccess r r" "canAccess a b \<Longrightarrow> canAccess b c \<Longrightarrow> canAccess a c" "canAccess a b \<or> canAccess b a"
    by (auto simp: canAccess_def)
  show "canAccess a b \<Longrightarrow> canAccess b a \<Longrightarrow> a = b"
    by (cases a; cases b) (simp_all add: canAccess_def)
qed

text \<open>
  A POSIX shell's reading of a word of quoted segments: what is between single quotes is taken
  literally, and so is what is between double quotes unless it holds a character that is special
  there. \<^const>\<open>None\<close> is a word of any other form.
\<close>

fun sh_word :: "char option \<Rightarrow> string \<Rightarrow> string option" where
  "sh_word None [] = Some []"
| "sh_word (Some q) [] = None"
| "sh_word None (c # cs) = (if c = CHR 0x27 \<or> c = CHR 0x22 then sh_word (Some c) cs else None)"
| "sh_word (Some q) (c # cs) =
     (if c = q then sh_word None cs
      else if q = CHR 0x22 \<and> c \<in> {CHR 0x24, CHR 0x60, CHR 0x5C, CHR 0x21} then None
      else map_option (\<lambda>w. c # w) (sh_word (Some q) cs))"

lemma sh_word_quoted:
  "sh_word (Some (CHR 0x27)) (replace_all (CHR 0x27) (sq @ dq @ sq @ dq @ sq) v @ sq @ rest) = map_option (\<lambda>w. v @ w) (sh_word None rest)"
  by (induction v) (simp_all add: replace_all_def sq_def dq_def option.map_comp o_def option.map_ident)

lemma sh_word_shellQuote: "sh_word None (shellQuote v) = Some v"
  using sh_word_quoted [of v "[]"] by (simp add: shellQuote_def sq_def)

section \<open>Properties\<close>

text \<open>C28. A value that is quoted for a shell command is read back by the shell as one word, and as exactly the
  value: quotes, dollar signs, backquotes, blanks and line ends in the name of an agent or an image end no
  word and start no substitution.\<close>

theorem shell_quoting_is_exact: "sh_word None (shellQuote v) = Some v"
  by (rule sh_word_shellQuote)

end
