(* ===== verification/Gw_Net.thy ===== *)
theory Gw_Net
  imports Gw_Api "HOL-Library.Word"
begin

text \<open>
  The helpers of app.ts that judge names and addresses: host names, public IP addresses and their
  canonical text, the backends of a route, the target of a guided publication, and the ingress
  rules of a tunnel. The URL parser is a parameter. The zone of an IPv6 address is read as digits
  or as no number at all.
\<close>

unbundle bit_operations_syntax

section \<open>Host names\<close>

text \<open>\<open>/^[a-z0-9](?:[a-z0-9-]*[a-z0-9])?$/\<close> and at most 63 characters\<close>

definition dns_label :: "string \<Rightarrow> bool" where
  "dns_label l \<longleftrightarrow> l \<noteq> [] \<and> length l \<le> 63 \<and> list_all (\<lambda>c. is_lownum c \<or> c = CHR ''-'') l
     \<and> is_lownum (hd l) \<and> is_lownum (last l)"

definition validateHostname :: "string \<Rightarrow> ApiError + string" where
  "validateHostname v =
     (let hostname = lower v; err = bad_request ''hostname must be an IDNA-safe ASCII DNS hostname.'' in
      if 253 < length hostname \<or> hostname = [] \<or> \<not> list_all (between 0x21 0x7E) hostname \<or> contains ''..'' hostname then Inl err
      else bind_ok (check (list_all dns_label (split_on (CHR ''.'') hostname)) err) (\<lambda>_. Inr hostname))"

definition hostnameWithinZone :: "string \<Rightarrow> string \<Rightarrow> bool" where
  "hostnameWithinZone hostname zone \<longleftrightarrow> lower hostname = lower zone \<or> ends_with (''.'' @ lower zone) (lower hostname)"

section \<open>IP addresses\<close>

text \<open>\<open>isIP\<close> of the platform: an octet has no leading zero.\<close>

definition ipv4_octet :: "string \<Rightarrow> bool" where
  "ipv4_octet s \<longleftrightarrow> all_of is_digit 1 3 s \<and> (length s = 1 \<or> hd s \<noteq> CHR ''0'') \<and> digits_value s \<le> 255"

definition is_ipv4 :: "string \<Rightarrow> bool" where
  "is_ipv4 s \<longleftrightarrow> (let parts = split_on (CHR ''.'') s in length parts = 4 \<and> list_all ipv4_octet parts)"

text \<open>\<open>s.split('::')\<close>\<close>

fun split_double :: "string \<Rightarrow> string list" where
  "split_double [] = [[]]"
| "split_double [c] = [[c]]"
| "split_double (c # d # s) =
     (if c = CHR '':'' \<and> d = CHR '':'' then [] # split_double s
      else (case split_double (d # s) of [] \<Rightarrow> [[c]] | p # ps \<Rightarrow> (c # p) # ps))"

definition ipv6_piece :: "string \<Rightarrow> bool" where
  "ipv6_piece s \<longleftrightarrow> all_of is_hex 1 4 s"

text \<open>The number of 16-bit pieces of a side of an address, \<^const>\<open>None\<close> when it is malformed; only the
  last piece of an address may be written as IPv4.\<close>

definition count_pieces :: "bool \<Rightarrow> string \<Rightarrow> nat option" where
  "count_pieces is_last s =
     (if s = [] then Some 0
      else (let ps = split_on (CHR '':'') s in
            if list_all ipv6_piece ps then Some (length ps)
            else if is_last \<and> list_all ipv6_piece (butlast ps) \<and> is_ipv4 (last ps) then Some (length ps + 1)
            else None))"

definition is_ipv6 :: "string \<Rightarrow> bool" where
  "is_ipv6 s =
     (let addr = before (CHR ''%'') s; zone = drop (length addr + 1) s
      in (addr = s \<or> zone \<noteq> [] \<and> list_all (\<lambda>c. is_alnum c \<or> c \<in> set ''-.:'') zone)
         \<and> (case split_double addr of
              [one] \<Rightarrow> count_pieces True one = Some 8
            | [l, r] \<Rightarrow> (case (count_pieces False l, count_pieces True r) of
                (Some n, Some m) \<Rightarrow> n + m \<le> 7 | _ \<Rightarrow> False)
            | _ \<Rightarrow> False))"

definition isIP :: "string \<Rightarrow> nat" where
  "isIP s = (if is_ipv4 s then 4 else if is_ipv6 s then 6 else 0)"

text \<open>A piece of an expanded address, \<^const>\<open>None\<close> for \<open>NaN\<close>.\<close>

type_synonym piece = "nat option"

definition parse_hex :: "string \<Rightarrow> piece" where
  "parse_hex s = (let p = takeWhile is_hex s in if p = [] then None else Some (radix_value 16 p))"

definition octet_number :: "string option \<Rightarrow> piece" where
  "octet_number v =
     (case v of None \<Rightarrow> None
      | Some s \<Rightarrow> if s = [] then Some 0 else if list_all is_digit s then Some (digits_value s) else None)"

definition octet_pair :: "piece \<Rightarrow> piece \<Rightarrow> piece" where
  "octet_pair a b = (case (a, b) of (Some x, Some y) \<Rightarrow> Some (x * 256 + y) | _ \<Rightarrow> None)"

definition nth_opt :: "'a list \<Rightarrow> nat \<Rightarrow> 'a option" where
  "nth_opt xs i = (if i < length xs then Some (xs ! i) else None)"

definition token_pieces :: "string \<Rightarrow> piece list" where
  "token_pieces token =
     (if CHR ''.'' \<notin> set token then [parse_hex token]
      else (let oct = (\<lambda>i. octet_number (nth_opt (split_on (CHR ''.'') token) i))
            in [octet_pair (oct 0) (oct 1), octet_pair (oct 2) (oct 3)]))"

definition side_pieces :: "string \<Rightarrow> piece list" where
  "side_pieces part = (if part = [] then [] else concat (map token_pieces (split_on (CHR '':'') part)))"

definition expandIpv6 :: "string \<Rightarrow> piece list" where
  "expandIpv6 v =
     (let parts = split_double v;
          left = side_pieces (hd parts); right = side_pieces (coalesce (nth_opt parts 1) [])
      in left @ replicate (8 - length left - length right) (Some 0) @ right)"

fun hex_text :: "nat \<Rightarrow> string" where
  "hex_text n = (let d = (\<lambda>m. char_of (if m < 10 then 48 + m else 87 + m :: nat)) in
     if n < 16 then [d n] else hex_text (n div 16) @ [d (n mod 16)])"

declare hex_text.simps [simp del]

definition piece_text :: "piece \<Rightarrow> string" where
  "piece_text p = (case p of None \<Rightarrow> ''NaN'' | Some n \<Rightarrow> hex_text n)"

definition join_pieces :: "piece list \<Rightarrow> string" where
  "join_pieces ps = intercalate '':'' (map piece_text ps)"

text \<open>The loop that looks for the longest run of zero pieces, the first of several.\<close>

function best_run :: "nat \<Rightarrow> piece list \<Rightarrow> (nat \<times> nat) option \<Rightarrow> (nat \<times> nat) option" where
  "best_run index ps best =
     (case ps of
        [] \<Rightarrow> best
      | p # rest \<Rightarrow>
          if p \<noteq> Some 0 then best_run (index + 1) rest best
          else (let k = length (takeWhile (\<lambda>q. q = Some 0) ps);
                    longer = (case best of None \<Rightarrow> True | Some (_, n) \<Rightarrow> n < k)
                in best_run (index + k) (drop k ps) (if longer \<and> 2 \<le> k then Some (index, k) else best)))"
  by pat_completeness auto
termination
  by (relation "measure (\<lambda>(index, ps, best). length ps)") auto

declare best_run.simps [simp del]

definition ipv6_text :: "piece list \<Rightarrow> string" where
  "ipv6_text ps =
     (case best_run 0 ps None of
        None \<Rightarrow> join_pieces ps
      | Some (start', n) \<Rightarrow> join_pieces (take start' ps) @ ''::'' @ join_pieces (drop (start' + n) ps))"

text \<open>The bits of a piece; \<open>NaN\<close> has none.\<close>

definition bits :: "piece list \<Rightarrow> nat \<Rightarrow> nat" where
  "bits ps i = coalesce (coalesce (nth_opt ps i) None) 0"

definition reserved_ipv4 :: "(nat \<times> nat) list" where
  "reserved_ipv4 =
     [(0x00000000, 8), (0x0a000000, 8), (0x64400000, 10), (0x7f000000, 8), (0xa9fe0000, 16),
      (0xac100000, 12), (0xc0000000, 24), (0xc0000200, 24), (0xc01fc400, 24), (0xc034c100, 24),
      (0xc0586300, 24), (0xc0af3000, 24), (0xc0a80000, 16),
      (0xc6120000, 15), (0xc6336400, 24), (0xcb007100, 24), (0xe0000000, 4), (0xf0000000, 4)]"

definition in_range :: "nat \<Rightarrow> nat \<times> nat \<Rightarrow> bool" where
  "in_range n r \<longleftrightarrow> n div 2 ^ (32 - snd r) = fst r div 2 ^ (32 - snd r)"

definition ipv4_value :: "nat list \<Rightarrow> nat" where
  "ipv4_value octets = foldl (\<lambda>n k. n * 256 + k) 0 octets"

definition special_ipv6 :: "piece list \<Rightarrow> bool" where
  "special_ipv6 e \<longleftrightarrow>
     (let is = (\<lambda>i n. nth_opt e i = Some (Some n)) in
      is 0 0x2001 \<and> (is 1 0 \<or> is 1 2 \<and> is 2 0 \<or> bits e 1 AND 0xfff0 = 0x0010 \<or> bits e 1 AND 0xfff0 = 0x0020 \<or> is 1 0x0db8)
      \<or> is 0 0x2002)"

definition excluded_ipv6 :: "piece list \<Rightarrow> bool" where
  "excluded_ipv6 e \<longleftrightarrow>
     (let is = (\<lambda>i n. nth_opt e i = Some (Some n)) in
      is 0 0x3fff \<and> bits e 1 AND 0xf000 = 0
      \<or> list_all (\<lambda>p. p = Some 0) (take 5 e) \<and> is 5 0xffff
      \<or> is 0 0x0064 \<and> is 1 0xff9b)"

definition ip_error :: ApiError where
  "ip_error = ApiError 400 ''Public IP addresses must be globally routable unicast addresses.'' (Some ''non_global_public_ip'')"

definition canonicalIp :: "json \<Rightarrow> nat \<Rightarrow> ApiError + string" where
  "canonicalIp v version =
     (case v of
        JStr s \<Rightarrow>
          if isIP (trim s) \<noteq> version
          then Inl (ApiError 400 (''Each public IPv'' @ digits version @ '' address must be valid.'') (Some ''invalid_public_ip''))
          else
            (let input = lower (trim s) in
             if version = 4 then
               (let octets = map digits_value (split_on (CHR ''.'') input)
                in if list_ex (in_range (ipv4_value octets)) reserved_ipv4 then Inl ip_error
                   else Inr (intercalate ''.'' (map digits octets)))
             else
               (let e = expandIpv6 input
                in if bits e 0 AND 0xe000 \<noteq> 0x2000 \<or> special_ipv6 e \<or> excluded_ipv6 e then Inl ip_error
                   else Inr (ipv6_text e)))
      | _ \<Rightarrow> Inl (ApiError 400 (''Each public IPv'' @ digits version @ '' address must be valid.'') (Some ''invalid_public_ip'')))"

definition publicIpArray :: "jobj \<Rightarrow> string \<Rightarrow> nat \<Rightarrow> ApiError + string list" where
  "publicIpArray body field version =
     (let v = (case jprop body field of None \<Rightarrow> JArr [] | Some JNull \<Rightarrow> JArr [] | Some w \<Rightarrow> w);
          err = ApiError 400 (field @ '' must contain at most 4 addresses.'') (Some ''invalid_public_ip'')
      in (case v of
            JArr addresses \<Rightarrow>
              if 4 < length addresses then Inl err
              else bind_ok (map_ok (\<lambda>a. canonicalIp a version) addresses) (\<lambda>canonical.
                if \<not> distinct canonical
                then Inl (ApiError 400 (field @ '' must not contain duplicate addresses.'') (Some ''duplicate_public_ip''))
                else Inr canonical)
          | _ \<Rightarrow> Inl err))"

section \<open>Backends\<close>

definition strip_brackets :: "string \<Rightarrow> string" where
  "strip_brackets s = (let t = (if starts_with ''['' s then drop 1 s else s) in if ends_with '']'' t then butlast t else t)"

definition unsafe_host :: "string \<Rightarrow> bool" where
  "unsafe_host h \<longleftrightarrow>
     h \<in> set [''localhost'', ''localhost.localdomain'', ''metadata.google.internal'', ''instance-data'']
     \<or> ends_with ''.localhost'' h \<or> h = ''0.0.0.0'' \<or> h = ''::'' \<or> starts_with ''127.'' h
     \<or> starts_with ''169.254.'' h \<or> h = ''::1'' \<or> starts_with ''fe80:'' (lower h)"

definition validateBackend :: "(string \<Rightarrow> url option) \<Rightarrow> json \<Rightarrow> ApiError + string" where
  "validateBackend parse_url backend =
     (let err = bad_request ''Each backend must be a valid HTTP or HTTPS URL.'' in
      case backend of
        JStr s \<Rightarrow>
          if list_ex is_control s then Inl err
          else
            (case parse_url s of
               None \<Rightarrow> Inl err
             | Some u \<Rightarrow>
                 if url_protocol u \<notin> {''http:'', ''https:''} \<or> url_username u \<noteq> [] \<or> url_password u \<noteq> []
                    \<or> url_hash u \<noteq> [] \<or> url_search u \<noteq> [] \<or> url_hostname u = []
                 then Inl (bad_request ''Each backend must be an absolute HTTP or HTTPS URL without credentials, query, or fragments.'')
                 else if unsafe_host (strip_brackets (lower (url_hostname u)))
                 then Inl (ApiError 400 ''Backend loopback, metadata, unspecified, and link-local targets are not allowed.''
                        (Some ''unsafe_backend_target''))
                 else Inr (url_href u))
      | _ \<Rightarrow> Inl err)"

definition validateBackends :: "(string \<Rightarrow> url option) \<Rightarrow> json option \<Rightarrow> ApiError + string list" where
  "validateBackends parse_url v =
     (case v of
        Some (JArr bs) \<Rightarrow>
          if length bs < 1 \<or> 20 < length bs then Inl (bad_request ''backends must contain between 1 and 20 URLs.'')
          else map_ok (validateBackend parse_url) bs
      | _ \<Rightarrow> Inl (bad_request ''backends must contain between 1 and 20 URLs.''))"

definition target_error :: "string \<Rightarrow> ApiError" where
  "target_error m = ApiError 400 m (Some ''invalid_publish_target'')"

text \<open>\<open>/^(?:localhost|host\.docker\.internal):\d{1,5}$/i\<close>, with the two parts.\<close>

definition host_port :: "string \<Rightarrow> (string \<times> string) option" where
  "host_port s =
     (case split_on (CHR '':'') s of
        [h, p] \<Rightarrow> if lower h \<in> {''localhost'', ''host.docker.internal''} \<and> all_of is_digit 1 5 p then Some (h, p) else None
      | _ \<Rightarrow> None)"

definition host_port_target :: "string \<Rightarrow> ApiError + string" where
  "host_port_target v =
     (let candidate = (if all_of is_digit 1 5 v then ''localhost:'' @ v else v) in
      case host_port candidate of
        None \<Rightarrow> Inl (target_error ''Host port targets must use a port, localhost:port, or host.docker.internal:port.'')
      | Some (h, p) \<Rightarrow>
          if digits_value p < 1 \<or> 65535 < digits_value p then Inl (target_error ''The host port is out of range.'')
          else Inr (''http://'' @ (if lower h = ''localhost'' then ''host.docker.internal'' else lower h) @ '':'' @ digits (digits_value p)))"

definition normalizePublishTarget :: "(string \<Rightarrow> url option) \<Rightarrow> bool \<Rightarrow> string \<Rightarrow> ApiError + string" where
  "normalizePublishTarget parse_url is_host_port v =
     (if length v < 1 \<or> 2048 < length v \<or> trim v \<noteq> v \<or> list_ex is_control v
      then Inl (target_error ''The publish target is invalid.'')
      else
        bind_ok (if is_host_port then host_port_target v else Inr v) (\<lambda>candidate.
        bind_ok (validateBackend parse_url (JStr candidate)) (\<lambda>normalized.
          (case parse_url normalized of
             None \<Rightarrow> Inl (ApiError 500 ''An internal server error occurred.'' None)
           | Some parsed \<Rightarrow>
               if url_pathname parsed \<noteq> ''/''
               then Inl (target_error ''Guided publish targets cannot include a path.'')
               else Inr (if ends_with ''/'' normalized then butlast normalized else normalized)))))"

section \<open>Ingress rules of a tunnel\<close>

record ingress_rule =
  rule_hostname :: "string option"
  rule_service :: string
  rule_extra :: jobj

definition TUNNEL_SERVICE :: string where "TUNNEL_SERVICE = ''http://traefik:80''"
definition TUNNEL_CATCH_ALL_SERVICE :: string where "TUNNEL_CATCH_ALL_SERVICE = ''http_status:404''"

definition plain_rule :: "string option \<Rightarrow> string \<Rightarrow> ingress_rule" where
  "plain_rule h s = \<lparr>rule_hostname = h, rule_service = s, rule_extra = []\<rparr>"

definition retained_rules :: "ingress_rule list \<Rightarrow> string \<Rightarrow> ingress_rule list" where
  "retained_rules ingress hostname = filter (\<lambda>r. map_option lower (rule_hostname r) \<noteq> Some hostname) ingress"

definition catch_alls :: "ingress_rule list \<Rightarrow> ingress_rule list" where
  "catch_alls retained =
     (let cs = filter (\<lambda>r. rule_hostname r = None) retained
      in if cs \<noteq> [] then cs else [plain_rule None TUNNEL_CATCH_ALL_SERVICE])"

definition enabledIngress :: "ingress_rule list \<Rightarrow> string \<Rightarrow> ingress_rule list" where
  "enabledIngress ingress hostname =
     (let retained = retained_rules ingress hostname
      in filter (\<lambda>r. rule_hostname r \<noteq> None) retained @ [plain_rule (Some hostname) TUNNEL_SERVICE] @ catch_alls retained)"

definition disabledIngress :: "ingress_rule list \<Rightarrow> string \<Rightarrow> ingress_rule list" where
  "disabledIngress ingress hostname =
     (let retained = retained_rules ingress hostname
      in filter (\<lambda>r. rule_hostname r \<noteq> None) retained @ catch_alls retained)"

section \<open>Facts about names and rules\<close>

lemma validateHostname_Inr:
  assumes "validateHostname v = Inr h"
  shows "h = lower v" "length h \<le> 253" "\<And>l. l \<in> set (split_on (CHR ''.'') h) \<Longrightarrow> dns_label l"
    "validateHostname h = Inr h"
proof -
  show h: "h = lower v" "length h \<le> 253" "\<And>l. l \<in> set (split_on (CHR ''.'') h) \<Longrightarrow> dns_label l"
    using assms by (auto simp: validateHostname_def Let_def list_all_iff split: if_splits)
  show "validateHostname h = Inr h"
    using assms unfolding h(1) by (simp add: validateHostname_def Let_def)
qed

definition for_host :: "string \<Rightarrow> ingress_rule \<Rightarrow> bool" where
  "for_host h r \<longleftrightarrow> map_option lower (rule_hostname r) = Some h"

lemma catch_alls_none: "r \<in> set (catch_alls rs) \<Longrightarrow> rule_hostname r = None"
  by (auto simp: catch_alls_def Let_def plain_rule_def split: if_splits)

lemma filter_catch_alls: "filter (for_host h) (catch_alls rs) = []"
  by (auto simp: filter_empty_conv for_host_def dest: catch_alls_none)

lemma retained_none: "filter (for_host h) (filter P (retained_rules ingress h)) = []"
proof -
  have "\<forall>r \<in> set (filter P (retained_rules ingress h)). \<not> for_host h r"
    by (auto simp: for_host_def retained_rules_def)
  then show ?thesis by (simp only: filter_empty_conv simp_thms)
qed

lemma enabledIngress_host:
  "lower h = h \<Longrightarrow> filter (for_host h) (enabledIngress ingress h) = [plain_rule (Some h) TUNNEL_SERVICE]"
  unfolding enabledIngress_def Let_def filter_append retained_none filter_catch_alls
  by (simp add: for_host_def plain_rule_def)

lemma disabledIngress_host: "filter (for_host h) (disabledIngress ingress h) = []"
  unfolding disabledIngress_def Let_def filter_append retained_none filter_catch_alls by simp

lemma named_retained:
  "filter (\<lambda>r. rule_hostname r \<noteq> None \<and> \<not> for_host h r) (filter (\<lambda>r. rule_hostname r \<noteq> None) (retained_rules ingress h))
     = filter (\<lambda>r. rule_hostname r \<noteq> None \<and> \<not> for_host h r) ingress"
  by (simp add: retained_rules_def for_host_def) (rule filter_cong, auto)

lemma filter_named_catch_alls: "filter (\<lambda>r. rule_hostname r \<noteq> None \<and> P r) (catch_alls rs) = []"
  by (auto simp: filter_empty_conv dest: catch_alls_none)

lemma ingress_others:
  assumes "lower h = h"
  shows "filter (\<lambda>r. rule_hostname r \<noteq> None \<and> \<not> for_host h r) (enabledIngress ingress h)
      = filter (\<lambda>r. rule_hostname r \<noteq> None \<and> \<not> for_host h r) ingress"
    "filter (\<lambda>r. rule_hostname r \<noteq> None \<and> \<not> for_host h r) (disabledIngress ingress h)
      = filter (\<lambda>r. rule_hostname r \<noteq> None \<and> \<not> for_host h r) ingress"
proof -
  have "filter (\<lambda>r. rule_hostname r \<noteq> None \<and> \<not> for_host h r) [plain_rule (Some h) TUNNEL_SERVICE] = []"
    using assms by (simp add: for_host_def plain_rule_def)
  then show "filter (\<lambda>r. rule_hostname r \<noteq> None \<and> \<not> for_host h r) (enabledIngress ingress h)
      = filter (\<lambda>r. rule_hostname r \<noteq> None \<and> \<not> for_host h r) ingress"
    unfolding enabledIngress_def Let_def filter_append named_retained filter_named_catch_alls by simp
  show "filter (\<lambda>r. rule_hostname r \<noteq> None \<and> \<not> for_host h r) (disabledIngress ingress h)
      = filter (\<lambda>r. rule_hostname r \<noteq> None \<and> \<not> for_host h r) ingress"
    unfolding disabledIngress_def Let_def filter_append named_retained filter_named_catch_alls by simp
qed

lemma catch_alls_not_empty: "catch_alls rs \<noteq> []"
  by (simp add: catch_alls_def Let_def)

text \<open>Every named rule stands before every catch-all, and there is a catch-all.\<close>

lemma ingress_catch_all:
  "\<exists>ns cs. enabledIngress ingress h = ns @ cs \<and> cs \<noteq> [] \<and> (\<forall>r \<in> set ns. rule_hostname r \<noteq> None) \<and> (\<forall>r \<in> set cs. rule_hostname r = None)"
  "\<exists>ns cs. disabledIngress ingress h = ns @ cs \<and> cs \<noteq> [] \<and> (\<forall>r \<in> set ns. rule_hostname r \<noteq> None) \<and> (\<forall>r \<in> set cs. rule_hostname r = None)"
proof -
  let ?ret = "retained_rules ingress h"
  show "\<exists>ns cs. enabledIngress ingress h = ns @ cs \<and> cs \<noteq> [] \<and> (\<forall>r \<in> set ns. rule_hostname r \<noteq> None) \<and> (\<forall>r \<in> set cs. rule_hostname r = None)"
    by (rule exI [of _ "filter (\<lambda>r. rule_hostname r \<noteq> None) ?ret @ [plain_rule (Some h) TUNNEL_SERVICE]"], rule exI [of _ "catch_alls ?ret"])
      (auto simp: enabledIngress_def Let_def catch_alls_not_empty plain_rule_def dest: catch_alls_none)
  show "\<exists>ns cs. disabledIngress ingress h = ns @ cs \<and> cs \<noteq> [] \<and> (\<forall>r \<in> set ns. rule_hostname r \<noteq> None) \<and> (\<forall>r \<in> set cs. rule_hostname r = None)"
    by (rule exI [of _ "filter (\<lambda>r. rule_hostname r \<noteq> None) ?ret"], rule exI [of _ "catch_alls ?ret"])
      (auto simp: disabledIngress_def Let_def catch_alls_not_empty dest: catch_alls_none)
qed

section \<open>Properties\<close>

text \<open>A host name that is accepted is in canonical form: it is the lower-case text of what was given, within
  253 characters, its labels between one and 63 letters, digits and inner hyphens, and accepting it again
  gives the same name.\<close>

theorem hostnames_are_canonical:
  assumes "validateHostname v = Inr h"
  shows "h = lower v \<and> length h \<le> 253 \<and> (\<forall>l \<in> set (split_on (CHR ''.'') h). dns_label l) \<and> validateHostname h = Inr h"
  using validateHostname_Inr [OF assms] by blast

theorem hostnames_are_canonical_witness: "validateHostname ''www.example.org'' = Inr ''www.example.org''"
proof -
  have "validateHostname ''WWW.Example.org'' = Inr ''www.example.org''" by code_simp
  from hostnames_are_canonical [OF this] show ?thesis by blast
qed

text \<open>C31. Publishing a host through a tunnel leaves the tunnel's other rules alone: the new rules have exactly one for the
  host, to the reverse proxy, or none when it is taken down; every rule of another host is kept, in order;
  and all of them stand before the catch-all rules, of which there is at least one.\<close>

theorem ingress_keeps_other_hosts:
  assumes "lower h = h"
  shows "filter (for_host h) (enabledIngress rules h) = [plain_rule (Some h) TUNNEL_SERVICE] \<and> filter (for_host h) (disabledIngress rules h) = []
    \<and> (\<forall>new \<in> {enabledIngress rules h, disabledIngress rules h}.
        filter (\<lambda>r. rule_hostname r \<noteq> None \<and> \<not> for_host h r) new = filter (\<lambda>r. rule_hostname r \<noteq> None \<and> \<not> for_host h r) rules
        \<and> (\<exists>ns cs. new = ns @ cs \<and> cs \<noteq> [] \<and> (\<forall>r \<in> set ns. rule_hostname r \<noteq> None) \<and> (\<forall>r \<in> set cs. rule_hostname r = None)))"
  using enabledIngress_host [OF assms] disabledIngress_host ingress_others [OF assms] ingress_catch_all [of rules h] by simp

theorem ingress_keeps_other_hosts_witness:
  "filter (for_host ''a.org'') (enabledIngress [plain_rule (Some ''A.org'') ''http://old'', plain_rule None ''http_status:404''] ''a.org'')
     = [plain_rule (Some ''a.org'') TUNNEL_SERVICE]"
proof -
  have "lower ''a.org'' = ''a.org''" by code_simp
  from ingress_keeps_other_hosts [OF this] show ?thesis by blast
qed

text \<open>What the range check of canonicalIp looks at.\<close>

lemma ipv4_shape:
  assumes "is_ipv4 s"
  obtains a b c e where "map digits_value (split_on (CHR ''.'') s) = [a, b, c, e]" "a \<le> 255" "b \<le> 255" "c \<le> 255" "e \<le> 255"
proof -
  from assms have len: "length (split_on (CHR ''.'') s) = 4" and oct: "\<forall>p \<in> set (split_on (CHR ''.'') s). digits_value p \<le> 255"
    by (auto simp: is_ipv4_def Let_def list_all_iff ipv4_octet_def)
  define parts where "parts = split_on (CHR ''.'') s"
  from len obtain p q r t where "parts = [p, q, r, t]"
    unfolding parts_def [symmetric] by (auto simp: numeral_eq_Suc length_Suc_conv)
  with oct show thesis
    by (intro that [of "digits_value p" "digits_value q" "digits_value r" "digits_value t"]) (simp_all add: parts_def [symmetric])
qed

lemma quotient: "x < (m :: nat) \<Longrightarrow> (a * m + x) div m = a"
  by simp

lemma ipv4_quotients:
  assumes "b \<le> 255" "c \<le> 255" "e \<le> 255"
  shows "ipv4_value [a, b, c, e] div 16777216 = a" "ipv4_value [a, b, c, e] div 65536 = a * 256 + b"
    "ipv4_value [a, b, c, e] div 256 = (a * 256 + b) * 256 + c"
proof -
  have v: "ipv4_value [a, b, c, e] = a * 16777216 + (b * 65536 + (c * 256 + e))"
    "ipv4_value [a, b, c, e] = (a * 256 + b) * 65536 + (c * 256 + e)"
    "ipv4_value [a, b, c, e] = ((a * 256 + b) * 256 + c) * 256 + e"
    by (simp_all add: ipv4_value_def)
  show "ipv4_value [a, b, c, e] div 16777216 = a"
    unfolding v(1) by (rule quotient) (use assms in linarith)
  show "ipv4_value [a, b, c, e] div 65536 = a * 256 + b"
    unfolding v(2) by (rule quotient) (use assms in linarith)
  show "ipv4_value [a, b, c, e] div 256 = (a * 256 + b) * 256 + c"
    unfolding v(3) by (rule quotient) (use assms in linarith)
qed

lemma in_range_simps:
  "in_range n (base, 8) = (n div 16777216 = base div 16777216)"
  "in_range n (base, 16) = (n div 65536 = base div 65536)"
  "in_range n (base, 24) = (n div 256 = base div 256)"
  "in_range n (base, 10) = (n div 65536 div 64 = base div 4194304)"
  "in_range n (base, 12) = (n div 65536 div 16 = base div 1048576)"
  "in_range n (base, 4) = (n div 16777216 div 16 = base div 268435456)"
  by (simp_all add: in_range_def div_mult2_eq [symmetric])

lemma split_on_chars: "c \<in> set s \<Longrightarrow> c = sep \<or> (\<exists>p \<in> set (split_on sep s). c \<in> set p)"
  by (induction s) (auto split: list.splits if_splits)

lemma lower_digit: "is_digit c \<or> c = CHR ''.'' \<Longrightarrow> lower_char c = c"
  by (auto simp: lower_char_def char_classes)

lemma lower_ipv4:
  assumes "is_ipv4 s"
  shows "lower s = s"
proof -
  have "lower_char c = c" if "c \<in> set s" for c
    using split_on_chars [OF that, of "CHR ''.''"] assms
    by (auto simp: is_ipv4_def Let_def list_all_iff ipv4_octet_def all_of_def intro!: lower_digit)
  then show ?thesis by (simp add: lower_def map_idI)
qed

text \<open>C30. No address in a range that is not publicly routable is accepted as a public IPv4 address: not this
  network, loopback, link-local, multicast or the class above, nor one of the private ranges (10/8, 172.16/12,
  192.168/16) or the shared range 100.64/10. What is accepted is given back as its four octets.\<close>

theorem public_ipv4_is_global:
  assumes "canonicalIp (JStr s) 4 = Inr t"
  shows "\<exists>a b c e. a \<le> 255 \<and> b \<le> 255 \<and> c \<le> 255 \<and> e \<le> 255 \<and> t = intercalate ''.'' (map digits [a, b, c, e])
    \<and> a \<noteq> 0 \<and> a \<noteq> 10 \<and> a \<noteq> 127 \<and> a < 224 \<and> \<not> (a = 169 \<and> b = 254) \<and> \<not> (a = 192 \<and> b = 168)
    \<and> \<not> (a = 172 \<and> 16 \<le> b \<and> b < 32) \<and> \<not> (a = 100 \<and> 64 \<le> b \<and> b < 128)"
proof -
  have four: "isIP (trim s) = 4" using assms by (simp add: canonicalIp_def split: if_splits)
  then have "is_ipv4 (trim s)" by (simp add: isIP_def split: if_splits)
  with lower_ipv4 obtain a b c e where o: "map digits_value (split_on (CHR ''.'') (lower (trim s))) = [a, b, c, e]"
    and le: "a \<le> 255" "b \<le> 255" "c \<le> 255" "e \<le> 255"
    using ipv4_shape [of "trim s"] by metis
  from assms four have "\<not> list_ex (in_range (ipv4_value [a, b, c, e])) reserved_ipv4" "t = intercalate ''.'' (map digits [a, b, c, e])"
    by (simp_all only: canonicalIp_def json.case o Let_def if_True simp_thms split: if_splits) simp_all
  moreover from this(1) have "a \<noteq> 0 \<and> a \<noteq> 10 \<and> a \<noteq> 127 \<and> a * 256 + b \<noteq> 43518 \<and> a * 256 + b \<noteq> 49320
      \<and> (a * 256 + b) div 64 \<noteq> 401 \<and> (a * 256 + b) div 16 \<noteq> 2753 \<and> a div 16 \<noteq> 14 \<and> a div 16 \<noteq> 15"
    by (simp add: reserved_ipv4_def in_range_simps ipv4_quotients le)
  then have "a \<noteq> 0 \<and> a \<noteq> 10 \<and> a \<noteq> 127 \<and> a < 224 \<and> \<not> (a = 169 \<and> b = 254) \<and> \<not> (a = 192 \<and> b = 168)
    \<and> \<not> (a = 172 \<and> 16 \<le> b \<and> b < 32) \<and> \<not> (a = 100 \<and> 64 \<le> b \<and> b < 128)"
  proof -
    assume no: "a \<noteq> 0 \<and> a \<noteq> 10 \<and> a \<noteq> 127 \<and> a * 256 + b \<noteq> 43518 \<and> a * 256 + b \<noteq> 49320
      \<and> (a * 256 + b) div 64 \<noteq> 401 \<and> (a * 256 + b) div 16 \<noteq> 2753 \<and> a div 16 \<noteq> 14 \<and> a div 16 \<noteq> 15"
    have "a < 224"
    proof (rule ccontr)
      assume "\<not> a < 224"
      with le(1) have "14 \<le> a div 16" "a div 16 < 16" using div_le_mono [of 224 a 16] by (simp_all add: less_mult_imp_div_less)
      then have "a div 16 = 14 \<or> a div 16 = 15" by linarith
      with no show False by blast
    qed
    moreover have "(172 * 256 + b) div 16 = 2753" if "16 \<le> b" "b < 32"
      using that by (intro div_nat_eqI) simp_all
    moreover have "(100 * 256 + b) div 64 = 401" if "64 \<le> b" "b < 128"
      using that by (intro div_nat_eqI) simp_all
    ultimately show ?thesis using no by auto
  qed
  ultimately show ?thesis using le by blast
qed

theorem public_ipv4_is_global_witness:
  "canonicalIp (JStr '' 8.8.4.4'') 4 = Inr ''8.8.4.4'' \<and> (\<exists>a b c e. ''8.8.4.4'' = intercalate ''.'' (map digits [a, b, c, e]) \<and> a \<noteq> 10 \<and> a \<noteq> 127)"
proof -
  have "trim '' 8.8.4.4'' = ''8.8.4.4''" "isIP ''8.8.4.4'' = 4" "lower ''8.8.4.4'' = ''8.8.4.4''"
    "map digits_value (split_on (CHR ''.'') ''8.8.4.4'') = [8, 8, 4, 4]" "intercalate ''.'' (map digits [8, 8, 4, 4]) = ''8.8.4.4''"
    by code_simp+
  then have "canonicalIp (JStr '' 8.8.4.4'') 4 = Inr ''8.8.4.4''"
    by (simp only: canonicalIp_def json.case Let_def simp_thms if_True if_False)
      (simp add: reserved_ipv4_def in_range_simps ipv4_quotients, simp add: in_range_def ipv4_value_def)
  with public_ipv4_is_global [OF this] show ?thesis by blast
qed

section \<open>What the check of backends lets through\<close>

definition parsed_host :: "string \<Rightarrow> url" where
  "parsed_host h = \<lparr>url_protocol = ''http:'', url_hostname = h, url_username = [], url_password = [],
     url_pathname = ''/'', url_search = [], url_hash = [], url_href = ''http://'' @ h @ ''/''\<rparr>"

text \<open>
  The host names a URL parser gives for the loopback address mapped into IPv6, for a link-local address
  outside fe80:\<open>:\<close>/16, and for \<open>localhost\<close> with its root dot: none of them is refused.
\<close>

lemma local_backends_accepted:
  "list_all (\<lambda>h. succeeds (validateBackend (\<lambda>_. Some (parsed_host h)) (JStr ''http://x'')))
     [''[::ffff:7f00:1]'', ''[fe90::1]'', ''localhost.'']"
  by code_simp

end
