(* ===== verification/Gw_Ipv6.thy ===== *)
theory Gw_Ipv6
  imports Gw_Net
begin

text \<open>
  What canonicalIp of app.ts writes for an IPv6 address can be read back: expanding the text gives the
  pieces it was written from. The proof follows the text: hexadecimal pieces, pieces joined by colons,
  and the one run of zero pieces that is left out.
\<close>

section \<open>The canonical text of an IPv6 address\<close>

lemma hex_text_chars: "c \<in> set (hex_text n) \<Longrightarrow> is_lowhex c"
proof (induction n rule: hex_text.induct)
  case (1 n)
  have digit: "is_lowhex (char_of (if m < 10 then 48 + m else 87 + m))" if "m < 16" for m :: nat
    using that by (auto simp: char_classes)
  show ?case
  proof (cases "n < 16")
    case True
    with 1(2) digit [of n] show ?thesis by (subst (asm) hex_text.simps) (simp add: Let_def)
  next
    case False
    with 1 digit [of "n mod 16"] show ?thesis by (subst (asm) (2) hex_text.simps) (auto simp: Let_def)
  qed
qed

lemma hex_text_not_empty: "hex_text n \<noteq> []"
  by (subst hex_text.simps) (simp add: Let_def)

lemma radix_value_append: "radix_value r (s @ [c]) = radix_value r s * r + hex_digit c"
  by (simp add: radix_value_def)

lemma hex_digit_char: "m < 16 \<Longrightarrow> hex_digit (char_of (if m < 10 then 48 + m else 87 + m)) = m"
  by (auto simp: hex_digit_def char_classes)

lemma radix_value_hex_text: "radix_value 16 (hex_text n) = n"
proof (induction n rule: hex_text.induct)
  case (1 n)
  show ?case
  proof (cases "n < 16")
    case True
    then show ?thesis
      using hex_digit_char [OF True] by (subst hex_text.simps) (simp add: Let_def radix_value_def)
  next
    case False
    have "hex_digit (char_of (if n mod 16 < 10 then 48 + n mod 16 else 87 + n mod 16)) = n mod 16"
      by (rule hex_digit_char) simp
    with False 1 show ?thesis
      by (subst hex_text.simps) (simp add: Let_def radix_value_append)
  qed
qed

lemma parse_hex_hex_text: "parse_hex (hex_text n) = Some n"
proof -
  have "takeWhile is_hex (hex_text n) = hex_text n"
    by (simp add: takeWhile_eq_all_conv hex_text_chars is_hex_def)
  then show ?thesis unfolding parse_hex_def Let_def by (simp only: hex_text_not_empty radix_value_hex_text if_False)
qed

lemma lowhex_no_sign: "is_lowhex c \<Longrightarrow> c \<noteq> CHR '':'' \<and> c \<noteq> CHR ''.''"
  by (auto simp: char_classes)

lemma token_hex_text: "token_pieces (hex_text n) = [Some n]"
  using hex_text_chars lowhex_no_sign by (auto simp: token_pieces_def parse_hex_hex_text)

lemma hex_text_no_colon: "CHR '':'' \<notin> set (hex_text n)"
  using hex_text_chars lowhex_no_sign by blast

definition numbers :: "nat list \<Rightarrow> piece list" where
  "numbers ns = map Some ns"

lemma join_numbers: "join_pieces (numbers ns) = intercalate '':'' (map hex_text ns)"
  by (simp add: join_pieces_def numbers_def piece_text_def o_def)

lemma join_empty: "join_pieces (numbers ns) = [] \<longleftrightarrow> ns = []"
  by (cases ns rule: remdups_adj.cases) (simp_all add: join_numbers hex_text_not_empty)

lemma concat_tokens: "concat (map token_pieces (map hex_text ns)) = numbers ns"
  by (induction ns) (simp_all add: numbers_def token_hex_text)

lemma side_pieces_join: "side_pieces (join_pieces (numbers ns)) = numbers ns"
proof (cases "ns = []")
  case False
  then have "split_on (CHR '':'') (intercalate '':'' (map hex_text ns)) = map hex_text ns"
    by (intro split_on_intercalate) (auto simp: hex_text_no_colon)
  with False show ?thesis
    unfolding side_pieces_def join_empty by (simp add: join_numbers concat_tokens del: map_map)
qed (simp add: join_pieces_def numbers_def side_pieces_def)

text \<open>A text without two colons in a row, that does not end with one, is split at the first double colon.\<close>

definition no_double :: "string \<Rightarrow> bool" where
  "no_double s \<longleftrightarrow> split_double s = [s]"

lemma split_double_not_empty [simp]: "split_double s \<noteq> []"
  by (induction s rule: split_double.induct) (auto split: list.splits)

lemma split_double_head: "c \<noteq> CHR '':'' \<Longrightarrow> split_double (c # s) = (c # hd (split_double s)) # tl (split_double s)"
  using split_double_not_empty [of s] by (cases s) (auto split: list.splits simp del: split_double_not_empty)

lemma split_double_word:
  "CHR '':'' \<notin> set w \<Longrightarrow> split_double (w @ s) = (w @ hd (split_double s)) # tl (split_double s)"
proof (induction w)
  case Nil
  show ?case by simp
next
  case (Cons a w)
  then have "a \<noteq> CHR '':''" by auto
  from split_double_head [OF this, of "w @ s"] Cons show ?case by simp
qed

lemma split_double_colon:
  "c \<noteq> CHR '':'' \<Longrightarrow> split_double (CHR '':'' # c # s) = (CHR '':'' # hd (split_double (c # s))) # tl (split_double (c # s))"
  using split_double_not_empty [of "c # s"] by (auto split: list.splits simp del: split_double_not_empty)

lemma split_double_join:
  assumes "t = [] \<or> (\<exists>u. t = CHR '':'' # CHR '':'' # u)"
  shows "split_double (join_pieces (numbers ns) @ t) = (join_pieces (numbers ns) @ hd (split_double t)) # tl (split_double t)"
proof (induction ns rule: remdups_adj.induct)
  case 1
  from assms have "split_double t \<noteq> []" by auto
  then show ?case by (simp add: join_pieces_def numbers_def)
next
  case (2 n)
  show ?case by (simp add: join_numbers split_double_word hex_text_no_colon)
next
  case (3 m n ns)
  let ?r = "join_pieces (numbers (n # ns))"
  have IH: "split_double (?r @ t) = (?r @ hd (split_double t)) # tl (split_double t)"
    using 3 by (cases "m = n") simp_all
  have j: "join_pieces (numbers (m # n # ns)) = hex_text m @ CHR '':'' # ?r"
    by (simp add: join_numbers)
  obtain c s where c: "hex_text n = c # s" "c \<noteq> CHR '':''"
    using hex_text_not_empty [of n] hex_text_no_colon [of n] by (cases "hex_text n") auto
  then obtain u where r: "?r = c # u" by (cases ns) (simp_all add: join_numbers)
  have "split_double (CHR '':'' # ?r @ t) = (CHR '':'' # ?r @ hd (split_double t)) # tl (split_double t)"
    using split_double_colon [OF c(2), of "u @ t"] IH by (simp add: r)
  then show ?case by (simp add: j split_double_word hex_text_no_colon)
qed

lemma expand_plain:
  assumes "length ns = 8"
  shows "expandIpv6 (join_pieces (numbers ns)) = numbers ns"
proof -
  have "split_double (join_pieces (numbers ns)) = [join_pieces (numbers ns)]"
    using split_double_join [of "[]" ns] by simp
  with assms show ?thesis
    by (simp add: expandIpv6_def side_pieces_join nth_opt_def side_pieces_def [of "[]"]) (simp add: numbers_def)
qed

lemma expand_compressed:
  "expandIpv6 (join_pieces (numbers ms) @ ''::'' @ join_pieces (numbers ns)) =
     numbers ms @ replicate (8 - length ms - length ns) (Some 0) @ numbers ns"
proof -
  have "split_double (join_pieces (numbers ns)) = [join_pieces (numbers ns)]"
    using split_double_join [of "[]" ns] by simp
  then have "split_double (join_pieces (numbers ms) @ ''::'' @ join_pieces (numbers ns)) =
      [join_pieces (numbers ms), join_pieces (numbers ns)]"
    using split_double_join [of "''::'' @ join_pieces (numbers ns)" ms] by simp
  then show ?thesis
    by (simp add: expandIpv6_def side_pieces_join nth_opt_def) (simp add: numbers_def)
qed

text \<open>The run that was found holds zeros only.\<close>

lemma best_run_zero:
  assumes "best_run index ps best = Some (start', k)"
    and "\<And>a n. best = Some (a, n) \<Longrightarrow> P a n"
    and "\<And>a n. index \<le> a \<Longrightarrow> a - index + n \<le> length ps \<Longrightarrow> (\<forall>i < n. ps ! (a - index + i) = Some 0) \<Longrightarrow> P a n"
  shows "P start' k"
  using assms
proof (induction index ps best rule: best_run.induct)
  case (1 index ps best)
  show ?case
  proof (cases ps)
    case Nil
    with 1(3,4) show ?thesis by (subst (asm) best_run.simps) simp
  next
    case (Cons p rest)
    show ?thesis
    proof (cases "p = Some 0")
      case False
      from 1(3) Cons False have b: "best_run (index + 1) rest best = Some (start', k)"
        by (subst (asm) best_run.simps) simp
      show ?thesis
      proof (rule 1(1) [OF Cons _ b])
        fix a n assume "index + 1 \<le> a" "a - (index + 1) + n \<le> length rest" "\<forall>i < n. rest ! (a - (index + 1) + i) = Some 0"
        moreover have "a - index + i = Suc (a - (index + 1) + i)" if "index + 1 \<le> a" for i using that by auto
        ultimately show "P a n" by (intro 1(5)) (simp_all add: Cons)
      qed (use False 1(4) in auto)
    next
      case True
      let ?k = "length (takeWhile (\<lambda>q. q = Some 0) ps)"
      let ?b = "if (case best of None \<Rightarrow> True | Some (_, n) \<Rightarrow> n < ?k) \<and> 2 \<le> ?k then Some (index, ?k) else best"
      have step: "best_run index ps best = best_run (index + ?k) (drop ?k ps) ?b"
        by (subst best_run.simps) (simp only: Cons list.case True Let_def simp_thms if_False)
      from 1(3) have b: "best_run (index + ?k) (drop ?k ps) ?b = Some (start', k)" unfolding step .
      have zeros: "\<forall>i < ?k. ps ! i = Some 0" by (metis (mono_tags) nth_mem set_takeWhileD takeWhile_nth)
      have len: "?k \<le> length ps" by (rule length_takeWhile_le)
      show ?thesis
      proof (rule 1(2) [OF Cons _ refl refl b])
        fix a n assume "?b = Some (a, n)"
        then show "P a n" using 1(4) 1(5) [of index ?k] zeros len by (auto split: if_splits)
      next
        fix a n assume "index + ?k \<le> a" "a - (index + ?k) + n \<le> length (drop ?k ps)"
          "\<forall>i < n. drop ?k ps ! (a - (index + ?k) + i) = Some 0"
        then show "P a n"
          by (intro 1(5)) (insert len, auto simp: add.commute add.left_commute)
      qed (use True in simp)
    qed
  qed
qed

lemma expandIpv6_text:
  assumes "length ns = 8"
  shows "expandIpv6 (ipv6_text (numbers ns)) = numbers ns"
proof (cases "best_run 0 (numbers ns) None")
  case None
  with assms show ?thesis by (simp add: ipv6_text_def expand_plain)
next
  case (Some r)
  obtain a n where r: "r = (a, n)" by fastforce
  have run: "a + n \<le> 8 \<and> (\<forall>i < n. numbers ns ! (a + i) = Some 0)"
    by (rule best_run_zero [of 0 "numbers ns" None a n]) (use Some r assms in \<open>auto simp: numbers_def\<close>)
  let ?l = "take a ns" and ?r = "drop (a + n) ns"
  have parts: "take a (numbers ns) = numbers ?l" "drop (a + n) (numbers ns) = numbers ?r"
    by (simp_all add: numbers_def take_map drop_map)
  have mid: "take n (drop a (numbers ns)) = replicate n (Some 0)"
    using run assms by (intro nth_equalityI) (auto simp: numbers_def)
  have zeros: "8 - length ?l - length ?r = n" using run assms by auto
  have "ipv6_text (numbers ns) = join_pieces (numbers ?l) @ ''::'' @ join_pieces (numbers ?r)"
    using Some by (simp only: ipv6_text_def r parts option.case prod.case)
  then have "expandIpv6 (ipv6_text (numbers ns)) = numbers ?l @ replicate n (Some 0) @ numbers ?r"
    by (simp only: expand_compressed zeros)
  also have "\<dots> = take a (numbers ns) @ take n (drop a (numbers ns)) @ drop (a + n) (numbers ns)"
    by (simp only: parts mid)
  also have "\<dots> = numbers ns"
    by (metis append_take_drop_id drop_drop add.commute)
  finally show ?thesis .
qed

section \<open>Properties\<close>

text \<open>C29. The text that is stored for a public IPv6 address denotes the address that was given: written without
  a zone, whatever its spelling, expanding the stored text gives the same eight pieces, so no address
  is changed by being compressed. And only addresses of the global unicast range 2000::/3 are stored.\<close>

theorem stored_ipv6_is_the_address:
  assumes "canonicalIp (JStr s) 6 = Inr t" "expandIpv6 (lower (trim s)) = map Some ns" "length ns = 8"
  shows "expandIpv6 t = expandIpv6 (lower (trim s)) \<and> hd ns AND 0xe000 = 0x2000"
proof -
  have "t = ipv6_text (expandIpv6 (lower (trim s)))" "bits (expandIpv6 (lower (trim s))) 0 AND 0xe000 = 0x2000"
    using assms(1) by (auto simp: canonicalIp_def Let_def split: if_splits)
  moreover have "bits (map Some ns) 0 = hd ns"
    using assms(3) by (cases ns) (simp_all add: bits_def nth_opt_def)
  ultimately show ?thesis
    using expandIpv6_text [OF assms(3)] assms(2) by (simp add: numbers_def)
qed

theorem stored_ipv6_is_the_address_witness:
  "canonicalIp (JStr ''2600:0:0:0:0:0:0:1'') 6 = Inr ''2600::1'' \<and> expandIpv6 ''2600::1'' = map Some [0x2600, 0, 0, 0, 0, 0, 0, 1]"
proof -
  let ?s = "''2600:0:0:0:0:0:0:1''"
  have e: "lower (trim ?s) = ?s" "isIP (trim ?s) = 6" by code_simp+
  have pieces: "parse_hex ''2600'' = Some 0x2600" "parse_hex ''0'' = Some 0" "parse_hex ''1'' = Some 1"
    by (simp_all add: parse_hex_def radix_value_def hex_digit_def char_classes)
  have texts: "hex_text 0x2600 = ''2600''" "hex_text 0 = ''0''" "hex_text 1 = ''1''" "hex_text (Suc 0) = ''1''"
    by (simp_all add: hex_text.simps char_of_def bit_Suc_0_iff)
  have x: "expandIpv6 ?s = map Some [0x2600, 0, 0, 0, 0, 0, 0, 1]"
    by (simp add: expandIpv6_def side_pieces_def token_pieces_def pieces nth_opt_def Let_def)
  have b: "bits (expandIpv6 ?s) 0 = 0x2600" "bits (expandIpv6 ?s) 1 = 0" "bits (expandIpv6 ?s) (Suc 0) = 0"
    by (simp_all add: x bits_def nth_opt_def)
  have r: "best_run 0 (map Some [0x2600, 0, 0, 0, 0, 0, 0, 1]) None = Some (1, 6)"
    by (simp add: best_run.simps Let_def)
  have t: "canonicalIp (JStr ?s) 6 = Inr ''2600::1''"
    using e x b r by (simp add: canonicalIp_def Let_def ipv6_text_def special_ipv6_def excluded_ipv6_def join_pieces_def
        piece_text_def texts nth_opt_def)
  from stored_ipv6_is_the_address [OF t, of "[0x2600, 0, 0, 0, 0, 0, 0, 1]"] e x t show ?thesis by simp
qed

end
