(* ===== verification/Gw_Disk.thy ===== *)
theory Gw_Disk
  imports Gw_Config "HOL-Library.AList"
begin

text \<open>
  The disk of the control plane, as far as system recovery uses it: the calls of \<open>node:fs/promises\<close> on absolute,
  normalised POSIX paths. A path is looked up as it is written; links are followed where they end a path that
  is read, and by \<open>realpath\<close>. Modes and owners of files are not modelled. An operation is told how the operating
  system will let it down, if it will: it fails, a write after so many bytes. Errors are codes.
\<close>

section \<open>Files\<close>

datatype node = Regular (node_bytes: bytes) (node_mtime: time) | Directory | Symlink (link_target: string)

type_synonym disk = "(string \<times> node) list"

type_synonym 'a file_op = "nat option \<Rightarrow> disk \<Rightarrow> (string + 'a) \<times> disk"

definition join :: "string \<Rightarrow> string \<Rightarrow> string" where
  "join a b = a @ slash # b"

definition dirname :: "string \<Rightarrow> string" where
  "dirname p = rev (drop 1 (dropWhile (\<lambda>c. c \<noteq> slash) (rev p)))"

definition basename :: "string \<Rightarrow> string" where
  "basename p = rev (takeWhile (\<lambda>c. c \<noteq> slash) (rev p))"

definition is_parent :: "disk \<Rightarrow> string \<Rightarrow> bool" where
  "is_parent d p \<longleftrightarrow> p = [] \<or> (case map_of d p of Some (Regular _ _) \<Rightarrow> False | None \<Rightarrow> False | Some _ \<Rightarrow> True)"

text \<open>What a path leads to when the links at its end are followed, forty at most.\<close>

fun target_of :: "nat \<Rightarrow> disk \<Rightarrow> string \<Rightarrow> node option" where
  "target_of 0 d p = None"
| "target_of (Suc n) d p =
     (case map_of d p of
        Some (Symlink t) \<Rightarrow> target_of n d (if starts_with [slash] t then t else join (dirname p) t)
      | r \<Rightarrow> r)"

section \<open>Operations\<close>

definition sure :: "(disk \<Rightarrow> (string + 'a) \<times> disk) \<Rightarrow> 'a file_op" where
  "sure f x d = (case x of None \<Rightarrow> f d | Some _ \<Rightarrow> (Inl ''EIO'', d))"

definition lstat :: "string \<Rightarrow> node file_op" where
  "lstat p = sure (\<lambda>d. (case map_of d p of None \<Rightarrow> Inl ''ENOENT'' | Some n \<Rightarrow> Inr n, d))"

text \<open>\<open>readFile\<close>, and a stream that reads a file to its end.\<close>

definition read_file :: "string \<Rightarrow> bytes file_op" where
  "read_file p = sure (\<lambda>d. (case target_of 40 d p of
     None \<Rightarrow> Inl ''ENOENT'' | Some (Regular bs _) \<Rightarrow> Inr bs | Some _ \<Rightarrow> Inl ''EISDIR'', d))"

text \<open>Opening with \<open>wx\<close>: the file must not exist, not even as a link.\<close>

definition create_file :: "time \<Rightarrow> string \<Rightarrow> unit file_op" where
  "create_file now p = sure (\<lambda>d.
     if map_of d p \<noteq> None then (Inl ''EEXIST'', d)
     else if \<not> is_parent d (dirname p) then (Inl ''ENOENT'', d)
     else (Inr (), AList.update p (Regular [] now) d))"

definition append_file :: "time \<Rightarrow> string \<Rightarrow> bytes \<Rightarrow> unit file_op" where
  "append_file now p bs x d =
     (case map_of d p of
        Some (Regular old _) \<Rightarrow>
          (case x of
             None \<Rightarrow> (Inr (), AList.update p (Regular (old @ bs) now) d)
           | Some n \<Rightarrow> (Inl ''EIO'', AList.update p (Regular (old @ take n bs) now) d))
      | _ \<Rightarrow> (Inl ''ENOENT'', d))"

text \<open>What a tool writes: the file is made or replaced.\<close>

definition put_file :: "time \<Rightarrow> string \<Rightarrow> bytes \<Rightarrow> unit file_op" where
  "put_file now p bs = sure (\<lambda>d.
     if is_parent d (dirname p) then (Inr (), AList.update p (Regular bs now) d) else (Inl ''ENOENT'', d))"

definition put_node :: "string \<Rightarrow> node \<Rightarrow> unit file_op" where
  "put_node p n = sure (\<lambda>d.
     if is_parent d (dirname p) then (Inr (), AList.update p n d) else (Inl ''ENOENT'', d))"

definition rename_file :: "string \<Rightarrow> string \<Rightarrow> unit file_op" where
  "rename_file p q = sure (\<lambda>d.
     (case map_of d p of
        None \<Rightarrow> (Inl ''ENOENT'', d)
      | Some n \<Rightarrow>
          if map_of d q = Some Directory then (Inl ''EISDIR'', d)
          else if \<not> is_parent d (dirname q) then (Inl ''ENOENT'', d)
          else (Inr (), AList.update q n (AList.delete p d))))"

definition link_file :: "string \<Rightarrow> string \<Rightarrow> unit file_op" where
  "link_file p q = sure (\<lambda>d.
     (case map_of d p of
        None \<Rightarrow> (Inl ''ENOENT'', d)
      | Some n \<Rightarrow>
          if map_of d q \<noteq> None then (Inl ''EEXIST'', d)
          else if \<not> is_parent d (dirname q) then (Inl ''ENOENT'', d)
          else (Inr (), AList.update q n d)))"

text \<open>\<open>rm(path, { force: true })\<close>, and with \<open>recursive: true\<close>.\<close>

definition remove_file :: "string \<Rightarrow> unit file_op" where
  "remove_file p = sure (\<lambda>d.
     if map_of d p = Some Directory then (Inl ''ERR_FS_EISDIR'', d) else (Inr (), AList.delete p d))"

definition below :: "string \<Rightarrow> string \<Rightarrow> bool" where
  "below p q \<longleftrightarrow> q = p \<or> starts_with (p @ [slash]) q"

definition remove_tree :: "string \<Rightarrow> unit file_op" where
  "remove_tree p = sure (\<lambda>d. (Inr (), filter (\<lambda>(q, n). \<not> below p q) d))"

text \<open>\<open>mkdir(path, { recursive: true })\<close> makes the missing directories from the top.\<close>

fun make_each :: "string list \<Rightarrow> disk \<Rightarrow> (string + unit) \<times> disk" where
  "make_each [] d = (Inr (), d)"
| "make_each (p # ps) d =
     (case map_of d p of
        None \<Rightarrow> make_each ps (AList.update p Directory d)
      | Some (Regular _ _) \<Rightarrow> (Inl (if ps = [] then ''EEXIST'' else ''ENOTDIR''), d)
      | Some _ \<Rightarrow> make_each ps d)"

definition ancestors :: "string \<Rightarrow> string list" where
  "ancestors p = [take i p. i \<leftarrow> [1..<length p], p ! i = slash] @ [p]"

definition mkdir :: "string \<Rightarrow> unit file_op" where
  "mkdir p = sure (make_each (ancestors p))"

text \<open>\<open>mkdtemp\<close> makes a new directory under a name nobody has used.\<close>

definition mkdtemp :: "string \<Rightarrow> unit file_op" where
  "mkdtemp p = sure (\<lambda>d.
     if map_of d p \<noteq> None then (Inl ''EEXIST'', d)
     else if \<not> is_parent d (dirname p) then (Inl ''ENOENT'', d)
     else (Inr (), AList.update p Directory d))"

definition readdir :: "string \<Rightarrow> string list file_op" where
  "readdir p = sure (\<lambda>d.
     (case target_of 40 d p of
        Some Directory \<Rightarrow> Inr (map basename (filter (\<lambda>q. dirname q = p) (map fst d)))
      | None \<Rightarrow> Inl ''ENOENT'' | _ \<Rightarrow> Inl ''ENOTDIR'', d))"

text \<open>Opening what must exist, to synchronise it or to set its mode.\<close>

definition touch :: "string \<Rightarrow> unit file_op" where
  "touch p = sure (\<lambda>d. (if target_of 40 d p = None then Inl ''ENOENT'' else Inr (), d))"

text \<open>\<open>realpath\<close>: the segments of a path one by one, with the links among them followed.\<close>

fun walk :: "nat \<Rightarrow> disk \<Rightarrow> string list \<Rightarrow> string list \<Rightarrow> string option" where
  "walk 0 d done todo = None"
| "walk (Suc n) d done [] = Some (slash # intercalate [slash] done)"
| "walk (Suc n) d done (s # ss) =
     (let p = slash # intercalate [slash] (done @ [s]) in
      case map_of d p of
        None \<Rightarrow> None
      | Some (Symlink t) \<Rightarrow>
          (if starts_with [slash] t then walk n d [] (path_segments t @ ss)
           else walk n d [] (path_segments (join (slash # intercalate [slash] done) t) @ ss))
      | Some _ \<Rightarrow> walk n d (done @ [s]) ss)"

definition realpath :: "string \<Rightarrow> string file_op" where
  "realpath p = sure (\<lambda>d. (case walk 4096 d [] (path_segments p) of None \<Rightarrow> Inl ''ENOENT'' | Some q \<Rightarrow> Inr q, d))"

section \<open>Facts\<close>

lemma sure_Inr: "sure f x d = (Inr y, d') \<longleftrightarrow> x = None \<and> f d = (Inr y, d')"
  by (simp add: sure_def split: option.split)

lemma read_regular: "map_of d p = Some (Regular bs t) \<Longrightarrow> target_of (Suc n) d p = Some (Regular bs t)"
  by simp

lemma map_of_remove_tree: "map_of (filter (\<lambda>(q, n). \<not> below p q) d) q = (if below p q then None else map_of d q)"
  by (induction d) auto

lemma below_join [simp]: "below p (join p n)"
  by (simp add: below_def join_def starts_with_def)

lemma join_inject [simp]: "join a b = join a c \<longleftrightarrow> b = c"
  by (simp add: join_def)

end
