(* ===== verification/Gw_Handlers.thy ===== *)
theory Gw_Handlers
  imports Gw_Sample Gw_Api Gw_Crypto Gw_Disk
begin

text \<open>
  The frame of the code in app.ts that awaits the store and remote services. A handler maps a world
  to an exception or a value, and to the world after it: what it wrote before it threw stays
  written. The world holds the database, what the remote services will answer, the requests
  sent to them, the disk, and what the operating system will do at each operation on it. Each answer and
  each pause comes with a function on the database: what other requests did to it while this one was waiting. A request is handled at one instant; the clock, the source of
  identifiers and the key of the secret box are in the environment.
\<close>

named_theorems keeps_rules \<open>what a handler keeps, construct by construct\<close>

section \<open>The world\<close>

text \<open>A response of \<open>fetch\<close>: the status, and the chunks its body delivers, if it has a body.\<close>

datatype answer = Unreachable | Answer (answer_status: nat) (answer_body: "bytes list option")

record http_request =
  req_method :: string
  req_url :: string
  req_token :: string
  req_body :: "json option"

text \<open>
  A pause is the time an operation on the disk or a tool takes: whether the operation fails then, a write after how
  many bytes. The names that \<open>randomUUID\<close> and \<open>mkdtemp\<close> give to files are numbered by \<open>drawn\<close>.
\<close>

record world =
  store :: db
  answers :: "(answer \<times> (db \<Rightarrow> db)) list"
  sent :: "http_request list"
  disk :: disk
  pauses :: "(nat option \<times> (db \<Rightarrow> db)) list"
  drawn :: nat

record api =
  env_gen :: "nat \<Rightarrow> uuid"
  env_now :: time
  env_date_now :: time
  env_gcm :: gcm
  env_key :: bytes
  env_iv :: "nat \<Rightarrow> bytes"
  env_random :: "nat \<Rightarrow> bytes"
  env_sha256 :: "bytes \<Rightarrow> string"
  env_iso8601 :: "time \<Rightarrow> string"
  env_date_parse :: "string \<Rightarrow> time option"
  env_protected :: "string list"

datatype CloudflareClientError = CloudflareClientError (cf_message: string) (cf_status: nat) (cf_code: "int option")

datatype SystemRecoveryFailure = SystemRecoveryFailure (rec_status: nat) (rec_code: string) (rec_message: string)

text \<open>An error of the operating system carries its code.\<close>

datatype failure = Api ApiError | Cloudflare CloudflareClientError | Database pg_error | Thrown string
  | Recovery SystemRecoveryFailure | Errno string

type_synonym 'a handler = "world \<Rightarrow> (failure + 'a) \<times> world"

section \<open>Constructs\<close>

definition give :: "'a \<Rightarrow> 'a handler" where
  "give x w = (Inr x, w)"

definition throw :: "failure \<Rightarrow> 'a handler" where
  "throw e w = (Inl e, w)"

definition chain :: "'a handler \<Rightarrow> ('a \<Rightarrow> 'b handler) \<Rightarrow> 'b handler" where
  "chain m f w = (case m w of (Inl e, w') \<Rightarrow> (Inl e, w') | (Inr x, w') \<Rightarrow> f x w')"

text \<open>\<open>try { .. } catch (error) { .. }\<close>\<close>

definition attempt :: "'a handler \<Rightarrow> (failure \<Rightarrow> 'a handler) \<Rightarrow> 'a handler" where
  "attempt m h w = (case m w of (Inl e, w') \<Rightarrow> h e w' | (Inr x, w') \<Rightarrow> (Inr x, w'))"

text \<open>\<open>for (const x of xs) { .. }\<close>, with what the loop accumulates.\<close>

fun each :: "('a \<Rightarrow> 's \<Rightarrow> 's handler) \<Rightarrow> 'a list \<Rightarrow> 's \<Rightarrow> 's handler" where
  "each f [] s = give s"
| "each f (x # xs) s = chain (f x s) (\<lambda>s'. each f xs s')"

definition require :: "bool \<Rightarrow> ApiError \<Rightarrow> unit handler" where
  "require ok e = (if ok then give () else throw (Api e))"

definition pure :: "ApiError + 'a \<Rightarrow> 'a handler" where
  "pure r = (case r of Inl e \<Rightarrow> throw (Api e) | Inr x \<Rightarrow> give x)"

definition the_or :: "'a option \<Rightarrow> ApiError \<Rightarrow> 'a handler" where
  "the_or v e = (case v of None \<Rightarrow> throw (Api e) | Some x \<Rightarrow> give x)"

text \<open>Calls of the store: a read, a write, and a write that may fail.\<close>

definition reads :: "(db \<Rightarrow> 'a) \<Rightarrow> 'a handler" where
  "reads f w = (Inr (f (store w)), w)"

definition writes :: "(db \<Rightarrow> 'a \<times> db) \<Rightarrow> 'a handler" where
  "writes f w = (case f (store w) of (x, d) \<Rightarrow> (Inr x, w\<lparr>store := d\<rparr>))"

definition tries :: "(db \<Rightarrow> pg_error + 'a \<times> db) \<Rightarrow> 'a handler" where
  "tries f w = (case f (store w) of Inl e \<Rightarrow> (Inl (Database e), w) | Inr (x, d) \<Rightarrow> (Inr x, w\<lparr>store := d\<rparr>))"

text \<open>\<open>fetch\<close>: a service that has no answer left cannot be reached.\<close>

definition fetch :: "http_request \<Rightarrow> answer handler" where
  "fetch r w =
     (case answers w of
        [] \<Rightarrow> (Inr Unreachable, w\<lparr>sent := sent w @ [r]\<rparr>)
      | (a, others) # later \<Rightarrow> (Inr a, w\<lparr>store := others (store w), answers := later, sent := sent w @ [r]\<rparr>))"

text \<open>An operation on the disk, and a run of a tool, which may look at the database.\<close>

definition ended :: "(string + 'a) \<times> disk \<Rightarrow> world \<Rightarrow> (failure + 'a) \<times> world" where
  "ended r w = (case r of (Inl c, d) \<Rightarrow> (Inl (Errno c), w\<lparr>disk := d\<rparr>) | (Inr x, d) \<Rightarrow> (Inr x, w\<lparr>disk := d\<rparr>))"

definition io :: "'a file_op \<Rightarrow> 'a handler" where
  "io f w =
     (case pauses w of
        [] \<Rightarrow> ended (f None (disk w)) w
      | (x, others) # later \<Rightarrow> ended (f x (disk w)) (w\<lparr>store := others (store w), pauses := later\<rparr>))"

definition tool :: "(db \<Rightarrow> 'a option) \<Rightarrow> 'a handler" where
  "tool f w =
     (let (x, w') = (case pauses w of [] \<Rightarrow> (None, w) | (x, others) # later \<Rightarrow> (x, w\<lparr>store := others (store w), pauses := later\<rparr>))
      in case (x, f (store w)) of (None, Some v) \<Rightarrow> (Inr v, w') | _ \<Rightarrow> (Inl (Thrown ''failed.''), w'))"

definition draw_name :: "(nat \<Rightarrow> string) \<Rightarrow> string handler" where
  "draw_name names w = (Inr (names (drawn w)), w\<lparr>drawn := Suc (drawn w)\<rparr>)"

text \<open>\<open>m.catch(() => undefined)\<close>, and \<open>try { .. } finally { .. }\<close>.\<close>

definition quiet :: "'a handler \<Rightarrow> unit handler" where
  "quiet m = attempt (chain m (\<lambda>_. give ())) (\<lambda>_. give ())"

definition lastly :: "'a handler \<Rightarrow> unit handler \<Rightarrow> 'a handler" where
  "lastly m c w =
     (case m w of (r, w1) \<Rightarrow> (case c w1 of (Inl e, w2) \<Rightarrow> (Inl e, w2) | (Inr _, w2) \<Rightarrow> (r, w2)))"

definition open_secret :: "api \<Rightarrow> string \<Rightarrow> string + string" where
  "open_secret e s = decrypt (env_gcm e) (env_key e) s"

definition seal_secret :: "api \<Rightarrow> nat \<Rightarrow> string \<Rightarrow> string" where
  "seal_secret e k s = encrypt (env_gcm e) (env_key e) (env_iv e k) s"

text \<open>\<open>secretBox.decrypt\<close> that throws, and inside \<open>try .. catch\<close> with the error to throw instead.\<close>

definition opened :: "api \<Rightarrow> string \<Rightarrow> string handler" where
  "opened e s = (case open_secret e s of Inl m \<Rightarrow> throw (Thrown m) | Inr t \<Rightarrow> give t)"

text \<open>What a handler sends: the status and the body.\<close>

datatype 'a reply = Reply (reply_status: nat) (reply_body: 'a)

section \<open>What is kept\<close>

definition keeps :: "(world \<Rightarrow> bool) \<Rightarrow> 'a handler \<Rightarrow> bool" where
  "keeps I m \<longleftrightarrow> (\<forall>w. I w \<longrightarrow> I (snd (m w)))"

lemma keepsD: "keeps I m \<Longrightarrow> I w \<Longrightarrow> I (snd (m w))"
  by (simp add: keeps_def)

lemma keeps_give [keeps_rules]: "keeps I (give x)"
  by (simp add: keeps_def give_def)

lemma keeps_throw [keeps_rules]: "keeps I (throw e)"
  by (simp add: keeps_def throw_def)

lemma keeps_chain [keeps_rules]: "keeps I m \<Longrightarrow> (\<And>x. keeps I (f x)) \<Longrightarrow> keeps I (chain m f)"
  unfolding keeps_def chain_def by (auto split: prod.split sum.split)

lemma keeps_attempt [keeps_rules]: "keeps I m \<Longrightarrow> (\<And>e. keeps I (h e)) \<Longrightarrow> keeps I (attempt m h)"
  unfolding keeps_def attempt_def by (auto split: prod.split sum.split)

lemma keeps_each [keeps_rules]: "(\<And>x s. keeps I (f x s)) \<Longrightarrow> keeps I (each f xs s)"
  by (induction xs arbitrary: s) (simp_all add: keeps_give keeps_chain)

lemma keeps_reads [keeps_rules]: "keeps I (reads f)"
  by (simp add: keeps_def reads_def)

lemma keeps_require [keeps_rules]: "keeps I (require ok e)"
  by (simp add: require_def keeps_give keeps_throw)

lemma keeps_pure [keeps_rules]: "keeps I (pure r)"
  by (simp add: pure_def keeps_give keeps_throw split: sum.split)

lemma keeps_the_or [keeps_rules]: "keeps I (the_or v e)"
  by (simp add: the_or_def keeps_give keeps_throw split: option.split)

lemma keeps_opened [keeps_rules]: "keeps I (opened e s)"
  by (simp add: opened_def keeps_give keeps_throw split: sum.split)

lemma keeps_option [keeps_rules]:
  "keeps I a \<Longrightarrow> (\<And>x. keeps I (f x)) \<Longrightarrow> keeps I (case v of None \<Rightarrow> a | Some x \<Rightarrow> f x)"
  by (cases v) simp_all

lemma keeps_sum [keeps_rules]:
  "(\<And>x. keeps I (f x)) \<Longrightarrow> (\<And>x. keeps I (g x)) \<Longrightarrow> keeps I (case v of Inl x \<Rightarrow> f x | Inr x \<Rightarrow> g x)"
  by (cases v) simp_all

lemma keeps_pair [keeps_rules]: "(\<And>x y. keeps I (f x y)) \<Longrightarrow> keeps I (case v of (x, y) \<Rightarrow> f x y)"
  by (cases v) simp

lemma keeps_if [keeps_rules]: "keeps I a \<Longrightarrow> keeps I b \<Longrightarrow> keeps I (if c then a else b)"
  by simp

lemma keeps_Let [keeps_rules]: "keeps I (f v) \<Longrightarrow> keeps I (let x = v in f x)"
  by simp

lemma keeps_outcome [keeps_rules]:
  "(\<And>x. keeps I (f x)) \<Longrightarrow> keeps I a \<Longrightarrow> keeps I b \<Longrightarrow> keeps I (case v of Accepted x \<Rightarrow> f x | Active \<Rightarrow> a | NotFound \<Rightarrow> b)"
  by (cases v) simp_all

lemma keeps_quiet [keeps_rules]: "keeps I m \<Longrightarrow> keeps I (quiet m)"
  unfolding quiet_def by (intro keeps_attempt keeps_chain keeps_give)

lemma keeps_lastly [keeps_rules]: "keeps I m \<Longrightarrow> keeps I c \<Longrightarrow> keeps I (lastly m c)"
  unfolding keeps_def lastly_def by (auto split: prod.split sum.split)

section \<open>Handlers and the steps of the store\<close>

text \<open>
  The contract between the handlers and the store: an invariant of the database that every step of
  the store keeps, and what the other requests do while one waits.
\<close>

definition in_store :: "(db \<Rightarrow> bool) \<Rightarrow> world \<Rightarrow> bool" where
  "in_store I w \<longleftrightarrow> I (store w) \<and> (\<forall>(a, others) \<in> set (answers w). \<forall>d. I d \<longrightarrow> I (others d))
     \<and> (\<forall>(x, others) \<in> set (pauses w). \<forall>d. I d \<longrightarrow> I (others d))"

locale stepwise =
  fixes gen :: "nat \<Rightarrow> uuid" and I :: "db \<Rightarrow> bool"
  assumes step_kept: "step gen d e \<Longrightarrow> I d \<Longrightarrow> I e"
begin

lemma keeps_writes: "(\<And>d. step gen d (snd (f d))) \<Longrightarrow> keeps (in_store I) (writes f)"
  unfolding keeps_def writes_def in_store_def
  by (auto split: prod.split) (metis snd_conv step_kept)

lemma keeps_tries: "(\<And>d. step gen d (after (f d) d)) \<Longrightarrow> keeps (in_store I) (tries f)"
  unfolding keeps_def
proof (intro allI impI)
  fix w
  assume s: "\<And>d. step gen d (after (f d) d)" and w: "in_store I w"
  from s [of "store w"] w have "I (after (f (store w)) (store w))"
    unfolding in_store_def by (metis step_kept)
  with w show "in_store I (snd (tries f w))"
    by (auto simp: tries_def in_store_def after_def split: sum.split prod.split)
qed

lemma keeps_fetch: "keeps (in_store I) (fetch r)"
  unfolding keeps_def fetch_def in_store_def
  by (auto split: list.split)

lemma keeps_io: "keeps (in_store I) (io f)"
  unfolding keeps_def io_def ended_def in_store_def
  by (auto split: list.split prod.split sum.split)

lemma keeps_tool: "keeps (in_store I) (tool f)"
  unfolding keeps_def tool_def in_store_def
  by (auto split: list.split prod.split option.split)

lemma keeps_draw_name: "keeps (in_store I) (draw_name names)"
  by (simp add: keeps_def draw_name_def in_store_def)

end

text \<open>The states the store can reach are such an invariant.\<close>

interpretation reached: stepwise gen "reachable gen" for gen
  by unfold_locales (rule reachable.more)

section \<open>A world for concrete runs\<close>

definition sample_api :: api where
  "sample_api = \<lparr>env_gen = unary, env_now = 15, env_date_now = 15, env_gcm = plain_gcm, env_key = replicate 32 7,
     env_iv = (\<lambda>_. [1]), env_random = (\<lambda>n. replicate n 0), env_sha256 = (\<lambda>_. ''hash''), env_iso8601 = (\<lambda>_. []),
     env_date_parse = (\<lambda>_. Some 0), env_protected = [''gateway-control'']\<rparr>"

definition sample_world :: "nat \<Rightarrow> world" where
  "sample_world n = \<lparr>store = sample n, answers = [], sent = [], disk = [], pauses = [], drawn = 0\<rparr>"

lemma sample_simps [simp]: "env_gen sample_api = unary" "store (sample_world n) = sample n" "answers (sample_world n) = []"
  "pauses (sample_world n) = []"
  by (simp_all add: sample_api_def sample_world_def)

end
