(* ===== verification/Gw_Json.thy ===== *)
theory Gw_Json
  imports Gw_Js
begin

text \<open>
  JSON texts: \<open>JSON.stringify\<close> and \<open>JSON.parse\<close> on the values of the model. A numeral that is no
  integer and an escaped unit above 255 have no value in the model and are refused; the keys of an
  object keep the order of the text. The parser descends with fuel; twice the length of the text
  and two is always enough for what \<open>JSON.stringify\<close> writes.
\<close>

section \<open>Writing\<close>

definition lower_hex :: "nat \<Rightarrow> char" where
  "lower_hex n = char_of (if n < 10 then 48 + n else 87 + n)"

definition escape_char :: "char \<Rightarrow> string" where
  "escape_char c =
     (if c = CHR 0x22 then [CHR 0x5C, CHR 0x22] else if c = CHR 0x5C then [CHR 0x5C, CHR 0x5C]
      else if c = CHR 0x08 then [CHR 0x5C, CHR ''b''] else if c = CHR 0x09 then [CHR 0x5C, CHR ''t'']
      else if c = CHR 0x0A then [CHR 0x5C, CHR ''n''] else if c = CHR 0x0C then [CHR 0x5C, CHR ''f'']
      else if c = CHR 0x0D then [CHR 0x5C, CHR ''r'']
      else if code c < 32 then [CHR 0x5C, CHR ''u'', CHR ''0'', CHR ''0'', lower_hex (code c div 16), lower_hex (code c mod 16)]
      else [c])"

definition quote_string :: "string \<Rightarrow> string" where
  "quote_string s = CHR 0x22 # concat (map escape_char s) @ [CHR 0x22]"

fun JSON_stringify :: "json \<Rightarrow> string" where
  "JSON_stringify JNull = ''null''"
| "JSON_stringify (JBool b) = (if b then ''true'' else ''false'')"
| "JSON_stringify (JNum n) = string_of_int n"
| "JSON_stringify (JStr s) = quote_string s"
| "JSON_stringify (JArr vs) = CHR ''['' # intercalate '','' (map JSON_stringify vs) @ '']''"
| "JSON_stringify (JObj kvs) =
     CHR ''{'' # intercalate '','' (map (\<lambda>(k, v). quote_string k @ CHR '':'' # JSON_stringify v) kvs) @ ''}''"

section \<open>Reading\<close>

definition json_space :: "char \<Rightarrow> bool" where
  "json_space c \<longleftrightarrow> code c \<in> {9, 10, 13, 32}"

definition skip_space :: "string \<Rightarrow> string" where
  "skip_space s = dropWhile json_space s"

definition simple_escape :: "char \<Rightarrow> char option" where
  "simple_escape c =
     (if c \<in> {CHR 0x22, CHR 0x5C, CHR ''/''} then Some c
      else map_of [(CHR ''b'', CHR 0x08), (CHR ''f'', CHR 0x0C), (CHR ''n'', CHR 0x0A), (CHR ''r'', CHR 0x0D), (CHR ''t'', CHR 0x09)] c)"

text \<open>The characters of a string literal up to its closing quote, and what follows.\<close>

fun parse_chars :: "string \<Rightarrow> (string \<times> string) option" where
  "parse_chars [] = None"
| "parse_chars (c # s) =
     (if c = CHR 0x22 then Some ([], s)
      else if c = CHR 0x5C then
        (case s of
           [] \<Rightarrow> None
         | d # t \<Rightarrow>
             if d = CHR ''u'' then
               (case t of
                  h1 # h2 # h3 # h4 # r \<Rightarrow>
                    if list_all is_hex [h1, h2, h3, h4] \<and> radix_value 16 [h1, h2, h3, h4] < 256
                    then map_option (\<lambda>(u, q). (char_of (radix_value 16 [h1, h2, h3, h4]) # u, q)) (parse_chars r)
                    else None
                | _ \<Rightarrow> None)
             else (case simple_escape d of None \<Rightarrow> None | Some x \<Rightarrow> map_option (\<lambda>(u, q). (x # u, q)) (parse_chars t)))
      else if code c < 32 then None
      else map_option (\<lambda>(u, q). (c # u, q)) (parse_chars s))"

definition fraction_part :: "string \<Rightarrow> (string \<times> string) option" where
  "fraction_part s =
     (case s of
        c # cs \<Rightarrow>
          if c = CHR ''.'' then (if takeWhile is_digit cs = [] then None else Some (takeWhile is_digit cs, dropWhile is_digit cs))
          else Some ([], s)
      | [] \<Rightarrow> Some ([], []))"

definition exponent_part :: "string \<Rightarrow> (int \<times> string) option" where
  "exponent_part s =
     (case s of
        c # cs \<Rightarrow>
          if c = CHR ''e'' \<or> c = CHR ''E'' then
            (let (neg, r) = (case cs of [] \<Rightarrow> (False, []) | d # ds \<Rightarrow>
                   if d = CHR ''-'' then (True, ds) else if d = CHR ''+'' then (False, ds) else (False, cs));
                 k = takeWhile is_digit r
             in if k = [] then None
                else Some (if neg then - int (digits_value k) else int (digits_value k), dropWhile is_digit r))
          else Some (0, s)
      | [] \<Rightarrow> Some (0, []))"

definition parse_number :: "string \<Rightarrow> (json \<times> string) option" where
  "parse_number s =
     (let neg = starts_with ''-'' s; t = (if neg then drop 1 s else s);
          ip = takeWhile is_digit t
      in if ip = [] \<or> hd ip = CHR ''0'' \<and> length ip \<noteq> 1 then None
         else
           (case fraction_part (dropWhile is_digit t) of
              None \<Rightarrow> None
            | Some (fp, r) \<Rightarrow>
                (case exponent_part r of
                   None \<Rightarrow> None
                 | Some (x, q) \<Rightarrow>
                     (let v = of_nat (digits_value (ip @ fp)) * power_of_ten (x - int (length fp)); n = floor v
                      in if of_int n = v then Some (JNum (if neg then - n else n), q) else None))))"

text \<open>What an object keeps of its members: the last value of a key, at the place of the first.\<close>

definition gather :: "jobj \<Rightarrow> jobj" where
  "gather kvs = fold (\<lambda>(k, v) obj. js_set k v obj) kvs []"

fun parse_value :: "nat \<Rightarrow> string \<Rightarrow> (json \<times> string) option"
  and parse_elements :: "nat \<Rightarrow> string \<Rightarrow> (json list \<times> string) option"
  and parse_members :: "nat \<Rightarrow> string \<Rightarrow> (jobj \<times> string) option" where
  "parse_value 0 s = None"
| "parse_value (Suc n) s =
     (case skip_space s of
        [] \<Rightarrow> None
      | c # cs \<Rightarrow>
          if c = CHR 0x22 then map_option (\<lambda>(t, r). (JStr t, r)) (parse_chars cs)
          else if c = CHR ''['' then
            (case skip_space cs of
               d # r \<Rightarrow> if d = CHR '']'' then Some (JArr [], r)
                        else map_option (\<lambda>(vs, q). (JArr vs, q)) (parse_elements n cs)
             | [] \<Rightarrow> None)
          else if c = CHR ''{'' then
            (case skip_space cs of
               d # r \<Rightarrow> if d = CHR ''}'' then Some (JObj [], r)
                        else map_option (\<lambda>(kvs, q). (JObj (gather kvs), q)) (parse_members n cs)
             | [] \<Rightarrow> None)
          else if starts_with ''null'' (c # cs) then Some (JNull, drop 4 (c # cs))
          else if starts_with ''true'' (c # cs) then Some (JBool True, drop 4 (c # cs))
          else if starts_with ''false'' (c # cs) then Some (JBool False, drop 5 (c # cs))
          else parse_number (c # cs))"
| "parse_elements 0 s = None"
| "parse_elements (Suc n) s =
     (case parse_value n s of
        None \<Rightarrow> None
      | Some (v, r) \<Rightarrow>
          (case skip_space r of
             [] \<Rightarrow> None
           | c # q \<Rightarrow>
               if c = CHR '']'' then Some ([v], q)
               else if c = CHR '','' then map_option (\<lambda>(vs, p). (v # vs, p)) (parse_elements n q)
               else None))"
| "parse_members 0 s = None"
| "parse_members (Suc n) s =
     (case skip_space s of
        [] \<Rightarrow> None
      | c # cs \<Rightarrow>
          if c \<noteq> CHR 0x22 then None
          else
            (case parse_chars cs of
               None \<Rightarrow> None
             | Some (k, r) \<Rightarrow>
                 (case skip_space r of
                    [] \<Rightarrow> None
                  | d # ds \<Rightarrow>
                      if d \<noteq> CHR '':'' then None
                      else
                        (case parse_value n ds of
                           None \<Rightarrow> None
                         | Some (v, q) \<Rightarrow>
                             (case skip_space q of
                                [] \<Rightarrow> None
                              | x # p \<Rightarrow>
                                  if x = CHR ''}'' then Some ([(k, v)], p)
                                  else if x = CHR '','' then map_option (\<lambda>(kvs, o'). ((k, v) # kvs, o')) (parse_members n p)
                                  else None)))))"

definition JSON_parse :: "string \<Rightarrow> json option" where
  "JSON_parse s =
     (case parse_value (2 * length s + 2) s of
        Some (v, r) \<Rightarrow> if skip_space r = [] then Some v else None
      | None \<Rightarrow> None)"

section \<open>Strings\<close>

lemma parse_chars_plain: "c \<noteq> CHR 0x22 \<Longrightarrow> c \<noteq> CHR 0x5C \<Longrightarrow> \<not> code c < 32 \<Longrightarrow>
  parse_chars (c # s) = map_option (\<lambda>(u, q). (c # u, q)) (parse_chars s)"
  by simp

lemma lower_hex_digit: "n < 16 \<Longrightarrow> is_hex (lower_hex n) \<and> hex_digit (lower_hex n) = n"
  by (simp add: lower_hex_def hex_digit_def char_classes)

lemma parse_escaped: "parse_chars (escape_char c @ s) = map_option (\<lambda>(u, q). (c # u, q)) (parse_chars s)"
proof (cases "c \<in> {CHR 0x22, CHR 0x5C, CHR 0x08, CHR 0x09, CHR 0x0A, CHR 0x0C, CHR 0x0D}")
  case True
  then show ?thesis by (auto simp: escape_char_def simple_escape_def)
next
  case False
  show ?thesis
  proof (cases "code c < 32")
    case True
    have h: "is_hex (lower_hex (code c div 16))" "hex_digit (lower_hex (code c div 16)) = code c div 16"
      "is_hex (lower_hex (code c mod 16))" "hex_digit (lower_hex (code c mod 16)) = code c mod 16"
      using lower_hex_digit [of "code c div 16"] lower_hex_digit [of "code c mod 16"] True by auto
    have z: "is_hex (CHR ''0'')" "hex_digit (CHR ''0'') = 0" by code_simp+
    have "radix_value 16 [CHR ''0'', CHR ''0'', lower_hex (code c div 16), lower_hex (code c mod 16)] = code c"
      using h z by (simp add: radix_value_def)
    moreover have "code c < 256" using True by simp
    moreover have "char_of (code c) = c" by (simp add: code_def)
    ultimately show ?thesis using False True h z by (simp add: escape_char_def)
  qed (use False in \<open>simp add: escape_char_def\<close>)
qed

lemma parse_chars_quoted: "parse_chars (concat (map escape_char s) @ CHR 0x22 # r) = Some (s, r)"
  by (induction s) (simp_all add: parse_escaped)

section \<open>Numerals\<close>

lemma digits_all: "list_all is_digit (digits n)"
proof (induction n rule: digits.induct)
  case (1 n)
  have d: "is_digit (char_of (48 + k))" if "k < 10" for k :: nat
    using that by (simp add: char_classes)
  show ?case
  proof (cases "n < 10")
    case True
    then show ?thesis using d [of n] by (subst digits.simps) simp
  next
    case False
    then show ?thesis using 1 d [of "n mod 10"] by (subst digits.simps) simp
  qed
qed

lemma digits_not_empty [simp]: "digits n \<noteq> []"
  by (subst digits.simps) simp

lemma digits_head: "n \<noteq> 0 \<Longrightarrow> hd (digits n) \<noteq> CHR ''0''"
proof (induction n rule: digits.induct)
  case (1 n)
  show ?case
  proof (cases "n < 10")
    case True
    have "char_of (48 + n) \<noteq> (CHR ''0'')"
    proof
      assume "char_of (48 + n) = (CHR ''0'')"
      then have "of_char (char_of (48 + n) :: char) = (of_char (CHR ''0'') :: nat)" by simp
      with True 1(2) show False by simp
    qed
    with True show ?thesis by (subst digits.simps) simp
  next
    case False
    then have "hd (digits (n div 10)) \<noteq> CHR ''0''" by (intro 1(1)) auto
    with False show ?thesis by (subst digits.simps) (simp add: hd_append)
  qed
qed

lemma digits_zero [simp]: "digits 0 = ''0''"
  by code_simp

lemma digits_value_append: "digits_value (s @ [c]) = digits_value s * 10 + (code c - 48)"
  by (simp add: digits_value_def)

lemma digits_value_digits [simp]: "digits_value (digits n) = n"
proof (induction n rule: digits.induct)
  case (1 n)
  have c: "code (char_of (48 + k)) - 48 = k" if "k < 10" for k :: nat
    using that by (simp add: code_def)
  show ?case
  proof (cases "n < 10")
    case True
    then show ?thesis using c [of n] by (subst digits.simps) (simp add: digits_value_def)
  next
    case False
    then show ?thesis using 1 c [of "n mod 10"] by (subst digits.simps) (simp add: digits_value_append)
  qed
qed

text \<open>What may follow a value in a text: its end, or a character that does not continue a numeral.\<close>

definition ends_value :: "string \<Rightarrow> bool" where
  "ends_value r \<longleftrightarrow> (case r of [] \<Rightarrow> True | c # _ \<Rightarrow> \<not> is_digit c \<and> c \<notin> set ''.eE'')"

lemma take_digits: "ends_value r \<Longrightarrow> takeWhile is_digit (digits n @ r) = digits n \<and> dropWhile is_digit (digits n @ r) = r"
  using digits_all [of n] by (cases r) (auto simp: ends_value_def list_all_iff takeWhile_append dropWhile_append)

lemma ends_parts: "ends_value r \<Longrightarrow> fraction_part r = Some ([], r) \<and> exponent_part r = Some (0, r)"
  by (cases r) (auto simp: ends_value_def fraction_part_def exponent_part_def)

lemma digits_no_minus: "\<not> starts_with ''-'' (digits n @ r)"
proof
  assume "starts_with ''-'' (digits n @ r)"
  then have "hd (digits n) = CHR ''-''" by (cases "digits n") (auto simp: starts_with_def)
  moreover have "is_digit (hd (digits n))" using digits_all [of n] by (cases "digits n") auto
  moreover have "\<not> is_digit (CHR ''-'')" by code_simp
  ultimately show False by metis
qed

lemma digits_ip: "\<not> (digits n = [] \<or> hd (digits n) = CHR ''0'' \<and> length (digits n) \<noteq> 1)"
  using digits_head [of n] by (cases "n = 0") auto

lemma parse_number_of_int:
  assumes "ends_value r"
  shows "parse_number (string_of_int i @ r) = Some (JNum i, r)"
proof (cases "i < 0")
  case True
  define n where "n = nat (- i)"
  with True have i: "i = - int n" "n \<noteq> 0" by simp_all
  then have "string_of_int i = CHR ''-'' # digits n" by (simp add: string_of_int_def)
  with i take_digits [OF assms, of n] ends_parts [OF assms] digits_ip [of n] show ?thesis
    by (simp add: parse_number_def Let_def power_of_ten_def starts_with_def) (metis of_int_of_nat_eq)
next
  case False
  let ?n = "nat i"
  have "string_of_int i @ r = digits ?n @ r" using False by (simp add: string_of_int_def)
  with False take_digits [OF assms, of ?n] ends_parts [OF assms] digits_ip [of ?n] digits_no_minus [of ?n r] show ?thesis
    by (simp add: parse_number_def Let_def power_of_ten_def)
qed

section \<open>Reading what was written\<close>

fun json_ok :: "json \<Rightarrow> bool" where
  "json_ok (JArr vs) \<longleftrightarrow> list_all json_ok vs"
| "json_ok (JObj kvs) \<longleftrightarrow> distinct (map fst kvs) \<and> list_all json_ok (map snd kvs)"
| "json_ok _ \<longleftrightarrow> True"

lemma gather_distinct: "distinct (map fst kvs) \<Longrightarrow> gather kvs = kvs"
proof -
  have new: "k \<notin> fst ` set obj \<Longrightarrow> js_set k v obj = obj @ [(k, v)]" for k :: string and v :: json and obj
    by (induction obj) (auto simp: js_set_def AList.update_def)
  have "distinct (map fst (obj @ kvs)) \<Longrightarrow> fold (\<lambda>(k, v) obj. js_set k v obj) kvs obj = obj @ kvs" for obj
  proof (induction kvs arbitrary: obj)
    case (Cons kv kvs)
    obtain k v where kv: "kv = (k, v)" by (cases kv)
    with Cons.prems have "js_set k v obj = obj @ [(k, v)]" by (intro new) (auto simp: image_iff)
    with Cons.IH [of "obj @ [(k, v)]"] Cons.prems kv show ?case by simp
  qed simp
  from this [of "[]"] show "distinct (map fst kvs) \<Longrightarrow> gather kvs = kvs" by (simp add: gather_def)
qed

definition starts_value :: "string \<Rightarrow> bool" where
  "starts_value s \<longleftrightarrow> (case s of [] \<Rightarrow> False | c # _ \<Rightarrow> \<not> json_space c \<and> c \<notin> set '']}'')"

lemma stringify_starts: "starts_value (JSON_stringify v)"
proof (cases v)
  case (JNum n)
  have "starts_value (digits m)" for m
  proof -
    obtain c cs where d: "digits m = c # cs" by (cases "digits m") auto
    then have "is_digit c" using digits_all [of m] by simp
    with d show ?thesis by (auto simp: starts_value_def json_space_def char_classes)
  qed
  moreover have "\<not> json_space (CHR ''-'')" by code_simp
  ultimately show ?thesis using JNum by (simp add: string_of_int_def starts_value_def)
qed (auto simp: starts_value_def quote_string_def json_space_def code_def)

lemma starts_skip: "starts_value s \<Longrightarrow> skip_space (s @ r) = s @ r"
  by (cases s) (auto simp: starts_value_def skip_space_def)

lemma skip_punctuation [simp]:
  "skip_space (CHR '']'' # r) = CHR '']'' # r" "skip_space (CHR ''}'' # r) = CHR ''}'' # r"
  "skip_space (CHR '','' # r) = CHR '','' # r" "skip_space (CHR '':'' # r) = CHR '':'' # r"
  "skip_space (CHR 0x22 # r) = CHR 0x22 # r" "skip_space (CHR ''['' # r) = CHR ''['' # r"
  "skip_space (CHR ''{'' # r) = CHR ''{'' # r" "skip_space [] = []"
  by (simp_all add: skip_space_def json_space_def code_def)

lemma ends_punctuation [simp]: "ends_value (CHR '']'' # r)" "ends_value (CHR ''}'' # r)" "ends_value (CHR '','' # r)" "ends_value []"
  by (simp_all add: ends_value_def char_classes)

definition reads_back :: "json \<Rightarrow> bool" where
  "reads_back v \<longleftrightarrow> (\<forall>n r. 2 * length (JSON_stringify v) + 1 \<le> n \<longrightarrow> ends_value r
     \<longrightarrow> parse_value n (JSON_stringify v @ r) = Some (v, r))"

lemma reads_backD:
  "reads_back v \<Longrightarrow> 2 * length (JSON_stringify v) + 1 \<le> n \<Longrightarrow> ends_value r \<Longrightarrow> parse_value n (JSON_stringify v @ r) = Some (v, r)"
  by (simp add: reads_back_def)

lemma length_intercalate_head: "length s \<le> length (intercalate sep (s # ss))"
  by (cases ss) simp_all

lemma parse_elements_back:
  assumes "vs \<noteq> []" "\<forall>v \<in> set vs. reads_back v" "2 * length (intercalate '','' (map JSON_stringify vs)) + 2 \<le> n"
  shows "parse_elements n (intercalate '','' (map JSON_stringify vs) @ CHR '']'' # r) = Some (vs, r)"
  using assms
proof (induction vs arbitrary: n)
  case (Cons v vs)
  then obtain m where n: "n = Suc m" by (cases n) auto
  have v: "parse_value m (JSON_stringify v @ t) = Some (v, t)" if "ends_value t" for t
    using Cons.prems n length_intercalate_head [of "JSON_stringify v" "'',''" "map JSON_stringify vs"]
    by (intro reads_backD that) simp_all
  show ?case
  proof (cases "vs = []")
    case True
    with n v show ?thesis by simp
  next
    case False
    then have "parse_elements m (intercalate '','' (map JSON_stringify vs) @ CHR '']'' # r) = Some (vs, r)"
      using Cons.IH Cons.prems n by (simp add: intercalate_Cons)
    with n v False show ?thesis by (simp add: intercalate_Cons)
  qed
qed simp

definition member_text :: "string \<times> json \<Rightarrow> string" where
  "member_text kv = quote_string (fst kv) @ CHR '':'' # JSON_stringify (snd kv)"

lemma member_length: "length (JSON_stringify (snd kv)) \<le> length (member_text kv)"
  by (simp add: member_text_def)

lemma parse_members_back:
  assumes "kvs \<noteq> []" "\<forall>kv \<in> set kvs. reads_back (snd kv)" "2 * length (intercalate '','' (map member_text kvs)) + 2 \<le> n"
  shows "parse_members n (intercalate '','' (map member_text kvs) @ CHR ''}'' # r) = Some (kvs, r)"
  using assms
proof (induction kvs arbitrary: n)
  case (Cons kv kvs)
  then obtain m where n: "n = Suc m" by (cases n) auto
  have v: "parse_value m (JSON_stringify (snd kv) @ t) = Some (snd kv, t)" if "ends_value t" for t
    using Cons.prems n length_intercalate_head [of "member_text kv" "'',''" "map member_text kvs"]
      member_length [of kv]
    by (intro reads_backD that) simp_all
  have k: "skip_space (member_text kv @ t) = CHR 0x22 # concat (map escape_char (fst kv)) @ CHR 0x22 # CHR '':'' # JSON_stringify (snd kv) @ t" for t
    by (simp add: member_text_def quote_string_def)
  show ?case
  proof (cases "kvs = []")
    case True
    with n v k show ?thesis by (simp add: parse_chars_quoted)
  next
    case False
    then have "parse_members m (intercalate '','' (map member_text kvs) @ CHR ''}'' # r) = Some (kvs, r)"
      using Cons.IH Cons.prems n by (simp add: intercalate_Cons)
    with n v k False show ?thesis by (simp add: intercalate_Cons parse_chars_quoted)
  qed
qed simp

lemma stringify_object: "JSON_stringify (JObj kvs) = CHR ''{'' # intercalate '','' (map member_text kvs) @ ''}''"
proof -
  have "(\<lambda>(k, v). quote_string k @ CHR '':'' # JSON_stringify v) = member_text"
    by (auto simp: member_text_def fun_eq_iff)
  then show ?thesis by (simp only: JSON_stringify.simps)
qed

lemma not_in_space [simp]: "\<not> json_space (CHR ''['')" "\<not> json_space (CHR ''{'')" "\<not> json_space (CHR ''n'')"
  "\<not> json_space (CHR ''t'')" "\<not> json_space (CHR ''f'')" "\<not> json_space (CHR 0x22)"
  by (simp_all add: json_space_def code_def)

lemma starts_intercalate: "vs \<noteq> [] \<Longrightarrow> \<forall>s \<in> set vs. starts_value s \<Longrightarrow> starts_value (intercalate '','' vs)"
  by (induction "'',''" vs rule: intercalate.induct) (auto simp: starts_value_def split: list.splits)

lemma json_ok_reads_back: "json_ok v \<Longrightarrow> reads_back v"
proof (induction v rule: JSON_stringify.induct)
  case (3 i)
  have "parse_value n (string_of_int i @ r) = Some (JNum i, r)" if n: "1 \<le> n" and r: "ends_value r" for n r
  proof -
    obtain m where m: "n = Suc m" using n by (cases n) auto
    have s: "skip_space (string_of_int i @ r) = string_of_int i @ r"
      using stringify_starts [of "JNum i"] by (simp add: starts_skip)
    obtain c cs where c: "string_of_int i = c # cs" "is_digit c \<or> c = CHR ''-''"
      using digits_all [of "nat i"] by (cases "string_of_int i") (auto simp: string_of_int_def split: if_splits)
    have "c \<noteq> CHR 0x22" "c \<noteq> CHR ''[''" "c \<noteq> CHR ''{''" "c \<noteq> CHR ''n''" "c \<noteq> CHR ''t''" "c \<noteq> CHR ''f''"
      using c(2) by (auto simp: char_classes)
    with m s c(1) parse_number_of_int [OF r, of i] show ?thesis by (simp add: starts_with_def)
  qed
  then show ?case by (auto simp: reads_back_def)
next
  case (4 s)
  show ?case unfolding reads_back_def
  proof (intro allI impI)
    fix n r
    assume "2 * length (JSON_stringify (JStr s)) + 1 \<le> n"
    then obtain m where "n = Suc m" by (cases n) auto
    then show "parse_value n (JSON_stringify (JStr s) @ r) = Some (JStr s, r)"
      by (simp add: quote_string_def parse_chars_quoted)
  qed
next
  case (5 vs)
  show ?case unfolding reads_back_def
  proof (intro allI impI)
    fix n r
    assume n: "2 * length (JSON_stringify (JArr vs)) + 1 \<le> n"
    then obtain m where m: "n = Suc m" by (cases n) auto
    show "parse_value n (JSON_stringify (JArr vs) @ r) = Some (JArr vs, r)"
    proof (cases "vs = []")
      case True
      with m show ?thesis by simp
    next
      case False
      let ?t = "intercalate '','' (map JSON_stringify vs)"
      have "starts_value ?t" using False stringify_starts by (intro starts_intercalate) auto
      then obtain c cs where t: "?t = c # cs" "c \<noteq> CHR '']''" "skip_space (?t @ CHR '']'' # r) = ?t @ CHR '']'' # r"
        using starts_skip [of ?t] by (cases ?t) (auto simp: starts_value_def)
      have "parse_elements m (?t @ CHR '']'' # r) = Some (vs, r)"
        using False 5 n m by (intro parse_elements_back) (auto simp: list_all_iff)
      with t m show ?thesis by simp
    qed
  qed
next
  case (6 kvs)
  have IH: "\<forall>kv \<in> set kvs. reads_back (snd kv)"
    using 6 by (auto simp: list_all_iff)
  show ?case unfolding reads_back_def stringify_object
  proof (intro allI impI)
    fix n r
    assume n: "2 * length (CHR ''{'' # intercalate '','' (map member_text kvs) @ ''}'') + 1 \<le> n"
    then obtain m where m: "n = Suc m" by (cases n) auto
    show "parse_value n ((CHR ''{'' # intercalate '','' (map member_text kvs) @ ''}'') @ r) = Some (JObj kvs, r)"
    proof (cases "kvs = []")
      case True
      with m show ?thesis by simp
    next
      case False
      let ?t = "intercalate '','' (map member_text kvs)"
      have "starts_value ?t"
        using False by (intro starts_intercalate) (auto simp: member_text_def quote_string_def starts_value_def)
      then obtain c cs where t: "?t = c # cs" "c \<noteq> CHR ''}''" "skip_space (?t @ CHR ''}'' # r) = ?t @ CHR ''}'' # r"
        using starts_skip [of ?t] by (cases ?t) (auto simp: starts_value_def)
      have "parse_members m (?t @ CHR ''}'' # r) = Some (kvs, r)"
        using False IH n m by (intro parse_members_back) auto
      moreover have "gather kvs = kvs" using 6 by (intro gather_distinct) simp
      ultimately show ?thesis using t m by simp
    qed
  qed
next
  case 1
  have "parse_value (Suc m) (JSON_stringify JNull @ r) = Some (JNull, r)" for m r
    by (simp add: skip_space_def starts_with_def)
  then show ?case unfolding reads_back_def by (metis Suc_le_D Suc_eq_plus1 add_leD2)
next
  case (2 b)
  have "parse_value (Suc m) (JSON_stringify (JBool b) @ r) = Some (JBool b, r)" for m r
    by (cases b) (simp_all add: skip_space_def starts_with_def)
  then show ?case unfolding reads_back_def by (metis Suc_le_D Suc_eq_plus1 add_leD2)
qed

text \<open>A value whose objects have no key twice is read back from its text.\<close>

lemma JSON_parse_stringify:
  assumes "json_ok v"
  shows "JSON_parse (JSON_stringify v) = Some v"
proof -
  have "parse_value (2 * length (JSON_stringify v) + 2) (JSON_stringify v @ []) = Some (v, [])"
    using json_ok_reads_back [OF assms] by (rule reads_backD) simp_all
  then show ?thesis by (simp add: JSON_parse_def)
qed

end
