(* ===== verification/Gw_Telemetry.thy ===== *)
theory Gw_Telemetry
  imports Gw_Net Gw_Json Gw_Crypto
begin

text \<open>
  The validation of the telemetry an agent sends: bounded objects, time stamps, the services with
  their counts, and the identities that must be unique. \<open>Date.parse\<close> is a parameter.
\<close>

section \<open>Time stamps\<close>

text \<open>\<open>/^\d{4}-\d{2}-\d{2}T\d{2}:\d{2}:\d{2}(?:\.\d{1,9})?(?:Z|[+-]\d{2}:\d{2})$/\<close>; a \<open>d\<close> of the pattern
  stands for a digit.\<close>

definition fits :: "string \<Rightarrow> string \<Rightarrow> bool" where
  "fits pattern s \<longleftrightarrow> list_all2 (\<lambda>p c. if p = CHR ''d'' then is_digit c else c = p) pattern s"

definition utc_offset :: "string \<Rightarrow> bool" where
  "utc_offset s \<longleftrightarrow> s = ''Z'' \<or> fits ''+dd:dd'' s \<or> fits ''-dd:dd'' s"

definition RFC3339_PATTERN :: "string \<Rightarrow> bool" where
  "RFC3339_PATTERN s \<longleftrightarrow>
     fits ''dddd-dd-ddTdd:dd:dd'' (take 19 s)
     \<and> (let r = drop 19 s in
        case r of
          [] \<Rightarrow> False
        | c # cs \<Rightarrow>
            if c = CHR ''.'' then all_of is_digit 1 9 (takeWhile is_digit cs) \<and> utc_offset (dropWhile is_digit cs)
            else utc_offset r)"

section \<open>Bounded objects\<close>

lemma map_ok_cong [fundef_cong]:
  "xs = ys \<Longrightarrow> (\<And>x. x \<in> set ys \<Longrightarrow> f x = g x) \<Longrightarrow> map_ok f xs = map_ok g ys"
proof -
  have "(\<And>x. x \<in> set ys \<Longrightarrow> f x = g x) \<Longrightarrow> map_ok f ys = map_ok g ys" by (induction ys) auto
  then show "xs = ys \<Longrightarrow> (\<And>x. x \<in> set ys \<Longrightarrow> f x = g x) \<Longrightarrow> map_ok f xs = map_ok g ys" by blast
qed

text \<open>The checks of one entry, before the descent into an object.\<close>

definition bad_timestamp :: "(string \<Rightarrow> time option) \<Rightarrow> json \<Rightarrow> bool" where
  "bad_timestamp date_parse item \<longleftrightarrow>
     (case item of JNull \<Rightarrow> False | JStr s \<Rightarrow> \<not> RFC3339_PATTERN s \<or> date_parse s = None | _ \<Rightarrow> True)"

definition telemetry_entry :: "(string \<Rightarrow> time option) \<Rightarrow> string \<Rightarrow> string \<Rightarrow> json \<Rightarrow> ApiError + unit" where
  "telemetry_entry date_parse field key item =
     (if \<not> named is_alpha (\<lambda>c. is_alnum c \<or> c = CHR ''_'') 0 63 key then Inl (bad_request (field @ '' contains an invalid field name.''))
      else if (case item of JNum n \<Rightarrow> 1000000000000000 < \<bar>n\<bar> | _ \<Rightarrow> False) then Inl (bad_request (field @ '' contains an out-of-range number.''))
      else if (case item of JStr s \<Rightarrow> 2048 < length s | _ \<Rightarrow> False) then Inl (bad_request (field @ '' contains an oversized string.''))
      else if ends_with ''At'' key \<and> bad_timestamp date_parse item
      then Inl (bad_request (field @ ''.'' @ key @ '' must be an RFC3339 timestamp.''))
      else if (case item of JArr vs \<Rightarrow> 64 < length vs | _ \<Rightarrow> False) then Inl (bad_request (field @ '' contains an oversized array.''))
      else Inr ())"

definition is_object :: "json \<Rightarrow> bool" where
  "is_object v \<longleftrightarrow> (case v of JObj _ \<Rightarrow> True | _ \<Rightarrow> False)"

fun validateTelemetryObject :: "(string \<Rightarrow> time option) \<Rightarrow> json \<Rightarrow> string \<Rightarrow> nat \<Rightarrow> ApiError + jobj" where
  "validateTelemetryObject date_parse (JObj kvs) field maxKeys =
     (if maxKeys < length kvs then Inl (bad_request (field @ '' must be a bounded object.''))
      else bind_ok (map_ok (\<lambda>(key, item).
             bind_ok (telemetry_entry date_parse field key item) (\<lambda>_.
               if is_object item
               then bind_ok (validateTelemetryObject date_parse item (field @ ''.'' @ key) 32) (\<lambda>_. Inr ())
               else Inr ())) kvs) (\<lambda>_. Inr kvs))"
| "validateTelemetryObject date_parse v field maxKeys = Inl (bad_request (field @ '' must be a bounded object.''))"

definition validate_member :: "(string \<Rightarrow> time option) \<Rightarrow> json option \<Rightarrow> string \<Rightarrow> nat \<Rightarrow> ApiError + jobj" where
  "validate_member date_parse v field maxKeys = validateTelemetryObject date_parse (coalesce v JNull) field maxKeys"

section \<open>Services and the snapshot\<close>

definition runtime_statuses :: "string list" where
  "runtime_statuses = [''healthy'', ''unhealthy'', ''starting'', ''completed'', ''running'', ''stopped'', ''unknown'']"

definition service_counts :: "string list" where
  "service_counts = [''total'', ''running'', ''healthy'', ''unhealthy'', ''starting'', ''stopped'', ''completed'']"

definition text_where :: "(string \<Rightarrow> bool) \<Rightarrow> jobj \<Rightarrow> string \<Rightarrow> bool" where
  "text_where P obj key \<longleftrightarrow> (case jprop obj key of Some (JStr s) \<Rightarrow> P s | _ \<Rightarrow> False)"

definition text_of :: "jobj \<Rightarrow> string \<Rightarrow> string" where
  "text_of obj key = coalesce (as_string (jprop obj key)) []"

definition count_of :: "jobj \<Rightarrow> string \<Rightarrow> int" where
  "count_of obj key = coalesce (as_number (jprop obj key)) 0"

definition valid_count :: "jobj \<Rightarrow> string \<Rightarrow> bool" where
  "valid_count obj key \<longleftrightarrow> (case jprop obj key of Some (JNum n) \<Rightarrow> 0 \<le> n \<and> n \<le> 250 | _ \<Rightarrow> False)"

definition validateService :: "(string \<Rightarrow> time option) \<Rightarrow> nat \<Rightarrow> json \<Rightarrow> ApiError + jobj" where
  "validateService date_parse index service =
     (let at' = ''services['' @ digits index @ '']''; bad = (\<lambda>m. bad_request (at' @ m)) in
      bind_ok (validateTelemetryObject date_parse service at' 32) (\<lambda>v.
      bind_ok (check (text_where PROJECT_NAME_PATTERN v ''projectName'') (bad ''.projectName is invalid.'')) (\<lambda>_.
      bind_ok (check (text_where SERVICE_NAME_PATTERN v ''serviceName'') (bad ''.serviceName is invalid.'')) (\<lambda>_.
      bind_ok (check (text_where (\<lambda>s. s = text_of v ''projectName'' @ ''/'' @ text_of v ''serviceName'') v ''name'') (bad ''.name is invalid.'')) (\<lambda>_.
      bind_ok (check (text_where (\<lambda>s. s \<in> set runtime_statuses) v ''status'') (bad ''.status is invalid.'')) (\<lambda>_.
      bind_ok (map_ok (\<lambda>key. check (valid_count v key) (bad (''.'' @ key @ '' is invalid.''))) service_counts) (\<lambda>_.
      bind_ok (check (1 \<le> count_of v ''total'' \<and> count_of v ''running'' + count_of v ''stopped'' + count_of v ''completed'' = count_of v ''total'')
        (bad '' counts are inconsistent.'')) (\<lambda>_. Inr v))))))))"

definition service_key :: "jobj \<Rightarrow> string" where
  "service_key v = text_of v ''projectName'' @ CHR 0x00 # text_of v ''serviceName''"

text \<open>\<open>services.map((service, index) => ..)\<close>\<close>

definition validateServices :: "(string \<Rightarrow> time option) \<Rightarrow> json list \<Rightarrow> ApiError + jobj list" where
  "validateServices date_parse services =
     map_ok (\<lambda>(index, service). validateService date_parse index service) (zip [0 ..< length services] services)"

definition MAX_TELEMETRY_BYTES :: nat where "MAX_TELEMETRY_BYTES = 512 * 1024"

definition validate_content :: "(string \<Rightarrow> time option) \<Rightarrow> jobj \<Rightarrow> ApiError + jobj \<times> jobj list" where
  "validate_content date_parse body =
     bind_ok (validate_member date_parse (jprop body ''node'') ''node'' 64) (\<lambda>node.
     (case jprop body ''services'' of
        Some (JArr services) \<Rightarrow>
          if 250 < length services then Inl (bad_request ''services must contain at most 250 entries.'')
          else
            bind_ok (validateServices date_parse services) (\<lambda>validated.
              if \<not> distinct (map service_key validated) then Inl (bad_request ''services must have unique project and service identities.'')
              else Inr (node, validated))
      | _ \<Rightarrow> Inl (bad_request ''services must contain at most 250 entries.'')))"

definition recent_time :: "(string \<Rightarrow> time option) \<Rightarrow> time \<Rightarrow> string \<Rightarrow> time option" where
  "recent_time date_parse date_now observedAt =
     (case date_parse observedAt of
        None \<Rightarrow> None
      | Some t \<Rightarrow>
          if \<not> RFC3339_PATTERN observedAt \<or> date_now + 5 * 60000 < t \<or> t < date_now - 7 * 86400000 then None else Some t)"

definition validateTelemetry ::
  "(string \<Rightarrow> time option) \<Rightarrow> time \<Rightarrow> jobj \<Rightarrow> ApiError + time \<times> jobj \<times> jobj list" where
  "validateTelemetry date_parse date_now body =
     bind_ok (check (length (utf8_bytes (JSON_stringify (JObj body))) \<le> MAX_TELEMETRY_BYTES)
       (bad_request ''Telemetry must not exceed 512 KiB.'')) (\<lambda>_.
     bind_ok (stringField body ''observedAt'' 20 40) (\<lambda>observedAt.
     (case recent_time date_parse date_now observedAt of
        None \<Rightarrow> Inl (bad_request ''observedAt must be a recent RFC3339 timestamp.'')
      | Some observedTime \<Rightarrow> bind_ok (validate_content date_parse body) (\<lambda>(node, services). Inr (observedTime, node, services)))))"

section \<open>What is accepted\<close>

text \<open>
  The bounds of an accepted object: every member of it, and of the objects nested in it, has a bounded
  name and a bounded number, string, object or length of an array. What an array holds is not looked at,
  here as in the source: only the size of the whole text bounds it.
\<close>

fun bounded_value :: "nat \<Rightarrow> json \<Rightarrow> bool" where
  "bounded_value maxKeys (JObj kvs) \<longleftrightarrow> length kvs \<le> maxKeys \<and> list_all (\<lambda>(k, v). length k \<le> 64 \<and> bounded_value 32 v) kvs"
| "bounded_value maxKeys (JNum n) \<longleftrightarrow> \<bar>n\<bar> \<le> 1000000000000000"
| "bounded_value maxKeys (JStr s) \<longleftrightarrow> length s \<le> 2048"
| "bounded_value maxKeys (JArr vs) \<longleftrightarrow> length vs \<le> 64"
| "bounded_value maxKeys v \<longleftrightarrow> True"

lemma if_Inl: "(if c then Inl e else r) = Inr u \<longleftrightarrow> \<not> c \<and> r = Inr u"
  by simp

lemma telemetry_entry_Inr:
  assumes "telemetry_entry date_parse field key item = Inr u"
  shows "length key \<le> 64" "\<not> is_object item \<Longrightarrow> bounded_value m item"
proof -
  note checks = assms [unfolded telemetry_entry_def if_Inl]
  have "named is_alpha (\<lambda>c. is_alnum c \<or> c = CHR ''_'') 0 63 key" using checks by (rule conjE) simp
  from named_length [OF this] show "length key \<le> 64" by simp
  show "\<not> is_object item \<Longrightarrow> bounded_value m item"
    using checks by (cases item) (simp_all add: is_object_def not_less)
qed

lemma validateTelemetryObject_Inr:
  "validateTelemetryObject date_parse v field maxKeys = Inr kvs \<Longrightarrow> v = JObj kvs \<and> bounded_value maxKeys v"
proof (induction date_parse v field maxKeys arbitrary: kvs rule: validateTelemetryObject.induct)
  case (1 date_parse obj field maxKeys)
  let ?f = "\<lambda>(key, item). bind_ok (telemetry_entry date_parse field key item) (\<lambda>_.
    if is_object item then bind_ok (validateTelemetryObject date_parse item (field @ ''.'' @ key) 32) (\<lambda>_. Inr ()) else Inr ())"
  have "\<not> maxKeys < length obj \<and> bind_ok (map_ok ?f obj) (\<lambda>_. Inr obj) = Inr kvs"
    using 1(2) by (simp only: validateTelemetryObject.simps if_Inl simp_thms)
  then obtain us where us: "map_ok ?f obj = Inr us" "kvs = obj" "length obj \<le> maxKeys"
    unfolding bind_ok_Inr by (elim conjE exE) (rule that, simp_all)
  have "length k \<le> 64 \<and> bounded_value 32 x" if kx: "(k, x) \<in> set obj" for k x
  proof -
    from us(1) kx obtain u where u: "?f (k, x) = Inr u"
      unfolding map_ok_Inr by (blast dest: list_all2_in_left)
    then have e: "telemetry_entry date_parse field k x = Inr ()" by (auto split: if_splits)
    show ?thesis
    proof (cases "is_object x")
      case True
      with u obtain o' where "validateTelemetryObject date_parse x (field @ ''.'' @ k) 32 = Inr o'" by auto
      with 1(1) [of "(k, x)" k x] kx us(3) True telemetry_entry_Inr(1) [OF e] show ?thesis by auto
    next
      case False
      with telemetry_entry_Inr [OF e] show ?thesis by simp
    qed
  qed
  with us show ?case by (auto simp: list_all_iff)
qed simp_all

lemma validateService_Inr:
  assumes "validateService date_parse index service = Inr v"
  shows "service = JObj v" "bounded_value 32 service" "PROJECT_NAME_PATTERN (text_of v ''projectName'')"
    "SERVICE_NAME_PATTERN (text_of v ''serviceName'')"
    "text_of v ''name'' = text_of v ''projectName'' @ ''/'' @ text_of v ''serviceName''"
    "text_of v ''status'' \<in> set runtime_statuses" "\<And>key. key \<in> set service_counts \<Longrightarrow> valid_count v key"
    "1 \<le> count_of v ''total''" "count_of v ''running'' + count_of v ''stopped'' + count_of v ''completed'' = count_of v ''total''"
proof -
  have t: "text_where P v key \<Longrightarrow> P (text_of v key)" for P key
    by (auto simp: text_where_def text_of_def as_string_def split: option.splits json.splits)
  from assms obtain us where
    o: "validateTelemetryObject date_parse service (''services['' @ digits index @ '']'') 32 = Inr v"
    and p: "text_where PROJECT_NAME_PATTERN v ''projectName''" "text_where SERVICE_NAME_PATTERN v ''serviceName''"
      "text_where (\<lambda>s. s = text_of v ''projectName'' @ ''/'' @ text_of v ''serviceName'') v ''name''"
      "text_where (\<lambda>s. s \<in> set runtime_statuses) v ''status''"
    and c: "map_ok (\<lambda>key. check (valid_count v key) (bad_request (''services['' @ digits index @ '']'' @ ''.'' @ key @ '' is invalid.'')))
      service_counts = Inr us"
    and n: "1 \<le> count_of v ''total''" "count_of v ''running'' + count_of v ''stopped'' + count_of v ''completed'' = count_of v ''total''"
    by (auto simp: validateService_def Let_def)
  show "service = JObj v" "bounded_value 32 service"
    using validateTelemetryObject_Inr [OF o] by blast+
  show "PROJECT_NAME_PATTERN (text_of v ''projectName'')" "SERVICE_NAME_PATTERN (text_of v ''serviceName'')"
    "text_of v ''name'' = text_of v ''projectName'' @ ''/'' @ text_of v ''serviceName''" "text_of v ''status'' \<in> set runtime_statuses"
    using t [OF p(1)] t [OF p(2)] t [OF p(3)] t [OF p(4)] by simp_all
  show "valid_count v key" if "key \<in> set service_counts" for key
    using c that unfolding map_ok_Inr by (auto dest!: list_all2_in_left)
qed (use assms in \<open>auto simp: validateService_def Let_def\<close>)

lemma validateTelemetry_Inr:
  assumes "validateTelemetry date_parse date_now body = Inr (observed, node, services)"
  shows "date_now - 7 * 86400000 \<le> observed" "observed \<le> date_now + 5 * 60000" "bounded_value 64 (JObj node)"
    "length services \<le> 250" "distinct (map service_key services)"
    "\<And>v. v \<in> set services \<Longrightarrow> \<exists>i s. validateService date_parse i s = Inr v"
proof -
  from assms obtain t where t: "recent_time date_parse date_now t = Some observed"
    and c: "validate_content date_parse body = Inr (node, services)"
    by (auto simp: validateTelemetry_def split: option.split_asm)
  obtain vs where j: "jprop body ''services'' = Some (JArr vs)"
  proof (cases "jprop body ''services''")
    case (Some y)
    with c that show ?thesis by (cases y) (simp_all add: validate_content_def)
  qed (use c in \<open>simp add: validate_content_def\<close>)
  from c [unfolded validate_content_def j option.case json.case] obtain validated where
    n: "validate_member date_parse (jprop body ''node'') ''node'' 64 = Inr node"
    and vs: "\<not> 250 < length vs" "validateServices date_parse vs = Inr services" and d: "\<not> \<not> distinct (map service_key services)"
    by (simp only: bind_ok_Inr if_Inl sum.inject prod.inject) blast
  show "date_now - 7 * 86400000 \<le> observed" "observed \<le> date_now + 5 * 60000"
    using t by (auto simp: recent_time_def split: option.split_asm if_split_asm)
  show "bounded_value 64 (JObj node)"
    using validateTelemetryObject_Inr [OF n [unfolded validate_member_def]] by metis
  show "distinct (map service_key services)" using d by simp
  from vs(2) have all: "list_all2 (\<lambda>x y. (\<lambda>(i, s). validateService date_parse i s) x = Inr y) (zip [0 ..< length vs] vs) services"
    by (simp add: validateServices_def map_ok_Inr)
  from list_all2_lengthD [OF all] vs(1) show "length services \<le> 250" by simp
  show "\<exists>i s. validateService date_parse i s = Inr v" if "v \<in> set services" for v
    using list_all2_in_right [OF all that] by auto
qed

section \<open>Properties\<close>

text \<open>C35. Telemetry that is accepted is recent, bounded and consistent: it was observed within the last seven
  days and at most five minutes ahead of the server; its text has at most 512 KiB; the node has at most 64 members and
  each service at most 32, and every member of them, and of the objects nested in them, has a bounded name and is a
  bounded number, a bounded string, a bounded object or an array of at most 64 elements, whatever these are (the code
  does not look into arrays); no two of its at most 250 services share a project and a name; and each service has a
  valid identity and status, and its counts of running, stopped and completed containers add up to its total.\<close>

theorem accepted_telemetry_is_sound:
  assumes "validateTelemetry date_parse date_now body = Inr (observed, node, services)"
  shows "date_now - 604800000 \<le> observed \<and> observed \<le> date_now + 300000
    \<and> length (utf8_bytes (JSON_stringify (JObj body))) \<le> 524288 \<and> bounded_value 64 (JObj node) \<and> length services \<le> 250
    \<and> distinct (map (\<lambda>v. (text_of v ''projectName'', text_of v ''serviceName'')) services)
    \<and> (\<forall>v \<in> set services. bounded_value 32 (JObj v) \<and> PROJECT_NAME_PATTERN (text_of v ''projectName'')
        \<and> SERVICE_NAME_PATTERN (text_of v ''serviceName'') \<and> text_of v ''status'' \<in> set runtime_statuses
        \<and> (\<forall>key \<in> set service_counts. valid_count v key) \<and> 1 \<le> count_of v ''total''
        \<and> count_of v ''running'' + count_of v ''stopped'' + count_of v ''completed'' = count_of v ''total'')"
proof -
  note ok = validateTelemetry_Inr [OF assms]
  have "map service_key services = map (\<lambda>(p, s). p @ CHR 0x00 # s) (map (\<lambda>v. (text_of v ''projectName'', text_of v ''serviceName'')) services)"
    by (simp add: service_key_def o_def)
  with ok(5) have "distinct (map (\<lambda>(p, s). p @ CHR 0x00 # s) (map (\<lambda>v. (text_of v ''projectName'', text_of v ''serviceName'')) services))"
    by (simp only:)
  then have "distinct (map (\<lambda>v. (text_of v ''projectName'', text_of v ''serviceName'')) services)"
    unfolding distinct_map by (rule conjunct1)
  moreover have "bounded_value 32 (JObj v) \<and> PROJECT_NAME_PATTERN (text_of v ''projectName'')
      \<and> SERVICE_NAME_PATTERN (text_of v ''serviceName'') \<and> text_of v ''status'' \<in> set runtime_statuses
      \<and> (\<forall>key \<in> set service_counts. valid_count v key) \<and> 1 \<le> count_of v ''total''
      \<and> count_of v ''running'' + count_of v ''stopped'' + count_of v ''completed'' = count_of v ''total''"
    if "v \<in> set services" for v
  proof -
    obtain i s where s: "validateService date_parse i s = Inr v" using ok(6) [OF \<open>v \<in> set services\<close>] by blast
    note v = validateService_Inr [OF s]
    from v(2) have "bounded_value 32 (JObj v)" by (simp only: v(1))
    with v(3,4,6,7,8,9) show ?thesis by blast
  qed
  moreover have "length (utf8_bytes (JSON_stringify (JObj body))) \<le> 524288"
    using assms by (simp add: validateTelemetry_def MAX_TELEMETRY_BYTES_def)
  ultimately show ?thesis using ok(1-4) by simp
qed

definition sample_service :: json where
  "sample_service = JObj ([(''projectName'', JStr ''shop''), (''serviceName'', JStr ''web''), (''name'', JStr ''shop/web''), (''status'', JStr ''healthy'')]
     @ map (\<lambda>key. (key, JNum (if key = ''total'' \<or> key = ''running'' then 1 else 0))) service_counts)"

definition sample_telemetry :: jobj where
  "sample_telemetry = [(''observedAt'', JStr ''2026-01-01T00:00:00Z''), (''node'', JObj [(''cpus'', JNum 4)]), (''services'', JArr [sample_service])]"

theorem accepted_telemetry_is_sound_witness:
  "case validateTelemetry (\<lambda>_. Some 0) 1000 sample_telemetry of Inl _ \<Rightarrow> False
   | Inr (observed, node, services) \<Rightarrow> length services = 1 \<and> count_of (hd services) ''running'' + count_of (hd services) ''stopped''
       + count_of (hd services) ''completed'' = count_of (hd services) ''total''"
proof -
  have size: "length (utf8_bytes (JSON_stringify (JObj sample_telemetry))) < 300" by code_simp
  have at': "stringField sample_telemetry ''observedAt'' 20 40 = Inr ''2026-01-01T00:00:00Z''" by code_simp
  have time': "RFC3339_PATTERN ''2026-01-01T00:00:00Z''" by code_simp
  have node: "validate_member (\<lambda>_. Some 0) (jprop sample_telemetry ''node'') ''node'' 64 = Inr [(''cpus'', JNum 4)]"
    by (simp add: validate_member_def sample_telemetry_def jprop_def telemetry_entry_def is_object_def ends_with_def starts_with_def)
      code_simp
  have svcs: "jprop sample_telemetry ''services'' = Some (JArr [sample_service])" by (simp add: sample_telemetry_def jprop_def)
  obtain v where v: "validateServices (\<lambda>_. Some 0) [sample_service] = Inr [v]"
  proof -
    have "validateServices (\<lambda>_. Some 0) [sample_service] = Inr [case sample_service of JObj v \<Rightarrow> v | _ \<Rightarrow> []]" by code_simp
    with that show ?thesis by blast
  qed
  have r: "validateTelemetry (\<lambda>_. Some 0) 1000 sample_telemetry = Inr (0, [(''cpus'', JNum 4)], [v])"
    using size at' time' node svcs v
    by (simp add: validateTelemetry_def MAX_TELEMETRY_BYTES_def recent_time_def validate_content_def)
  from accepted_telemetry_is_sound [OF r] show ?thesis by (simp add: r)
qed

end
