(* ===== verification/Gw_AgentApi.thy ===== *)
theory Gw_AgentApi
  imports Gw_Handlers Gw_Guarantees Gw_Telemetry
begin

text \<open>
  The part of the API that the agents call: enrolment, heartbeats, telemetry, the poll for
  commands, which turns the queued references into the payload an agent executes, and the report
  of a result.
\<close>

section \<open>Payloads\<close>

text \<open>A property of an object literal that is there only when it is not \<open>undefined\<close>, and one that
  is spread in when its value is truthy.\<close>

definition entry :: "string \<Rightarrow> json option \<Rightarrow> jobj" where
  "entry key v = (case v of None \<Rightarrow> [] | Some j \<Rightarrow> [(key, j)])"

definition entry_truthy :: "string \<Rightarrow> json option \<Rightarrow> jobj" where
  "entry_truthy key v = (if truthy v then entry key v else [])"

definition nullable :: "string option \<Rightarrow> json" where
  "nullable v = (case v of None \<Rightarrow> JNull | Some s \<Rightarrow> JStr s)"

definition exposure_text :: "Exposure \<Rightarrow> string" where
  "exposure_text x = (case x of ExpTunnel \<Rightarrow> ''tunnel'' | ExpPublic \<Rightarrow> ''public'')"

definition target_text :: "BackupTarget \<Rightarrow> string" where
  "target_text t = (case t of TargetLocal \<Rightarrow> ''local'' | TargetNas \<Rightarrow> ''nas'')"

definition postgres_entry :: "PostgresBackupConfig option \<Rightarrow> jobj" where
  "postgres_entry cfg = (case cfg of None \<Rightarrow> []
     | Some c \<Rightarrow> [(''postgres'', JObj [(''service'', JStr (PgConfig_service c)), (''database'', JStr (PgConfig_database c)),
                    (''user'', JStr (PgConfig_user c))])])"

definition with_payload :: "AgentCommand \<Rightarrow> jobj \<Rightarrow> AgentCommand" where
  "with_payload c p = c\<lparr>AgentCommand_payload := p\<rparr>"

definition uuid_property :: "AgentCommand \<Rightarrow> string \<Rightarrow> uuid option" where
  "uuid_property c key =
     (case jprop (AgentCommand_payload c) key of
        Some (JStr s) \<Rightarrow> if UUID_PATTERN s then Some s else None
      | _ \<Rightarrow> None)"

definition string_property :: "AgentCommand \<Rightarrow> string \<Rightarrow> string option" where
  "string_property c key = as_string (jprop (AgentCommand_payload c) key)"

text \<open>\<open>completeCommand(agent.id, command.id, 'failed', { error }); continue\<close>\<close>

definition fail_command :: "api \<Rightarrow> uuid \<Rightarrow> AgentCommand \<Rightarrow> string \<Rightarrow> AgentCommand option handler" where
  "fail_command e a c message =
     chain (writes (completeCommand (env_gen e) (env_now e) a (AgentCommand_id c) CmdFailed [(''error'', JStr message)]))
       (\<lambda>_. give None)"

section \<open>The branches of the poll\<close>

definition sha256_hex :: "api \<Rightarrow> string \<Rightarrow> string" where
  "sha256_hex e s = env_sha256 e (utf8_bytes s)"

definition prior_entries :: "api \<Rightarrow> DeploymentCommandSource \<Rightarrow> string option \<Rightarrow> jobj" where
  "prior_entries e source priorCompose =
     (case (CommandSource_priorRevisionId source, priorCompose) of
        (Some prior, Some text) \<Rightarrow>
          if prior \<noteq> [] \<and> text \<noteq> []
          then [(''priorRevisionId'', JStr prior), (''priorCompose'', JStr text), (''priorChecksum'', JStr (sha256_hex e text))]
          else []
      | _ \<Rightarrow> [])"

definition deployment_payload :: "api \<Rightarrow> DeploymentCommandSource \<Rightarrow> string \<Rightarrow> string option \<Rightarrow> jobj" where
  "deployment_payload e source sourceCompose priorCompose =
     [(''runId'', JStr (CommandSource_runId source)), (''revisionId'', JStr (Revision_id source)),
      (''projectName'', JStr (CommandSource_projectName source)), (''sourceCompose'', JStr sourceCompose),
      (''checksum'', JStr (Revision_checksum source)), (''action'', JStr (run_action_text (CommandSource_action source)))]
     @ prior_entries e source priorCompose"

definition prior_compose :: "api \<Rightarrow> DeploymentCommandSource \<Rightarrow> string option handler" where
  "prior_compose e source =
     (case CommandSource_encryptedPriorNormalizedCompose source of
        Some sealed \<Rightarrow> if sealed = [] then give None else chain (opened e sealed) (\<lambda>t. give (Some t))
      | None \<Rightarrow> give None)"

definition open_deployment :: "api \<Rightarrow> AgentCommand \<Rightarrow> DeploymentCommandSource \<Rightarrow> AgentCommand option handler" where
  "open_deployment e c s =
     chain (opened e (CommandSource_encryptedNormalizedCompose s)) (\<lambda>sourceCompose.
       if sha256_hex e sourceCompose \<noteq> Revision_checksum s then throw (Thrown ''checksum mismatch'')
       else chain (prior_compose e s) (\<lambda>priorCompose.
         give (Some (with_payload c (deployment_payload e s sourceCompose priorCompose)))))"

definition deliver_deployment :: "api \<Rightarrow> uuid \<Rightarrow> AgentCommand \<Rightarrow> AgentCommand option handler" where
  "deliver_deployment e a c =
     chain (case uuid_property c ''runId'' of
              Some i \<Rightarrow> reads (getDeploymentCommandSource i) | None \<Rightarrow> give None) (\<lambda>source.
     case source of
       None \<Rightarrow> fail_command e a c ''Deployment is unavailable for this agent.''
     | Some s \<Rightarrow>
         if CommandSource_agentId s \<noteq> a \<or> CommandSource_commandId s \<noteq> AgentCommand_id c
            \<or> CommandSource_projectName s \<in> set (env_protected e)
         then fail_command e a c ''Deployment is unavailable for this agent.''
         else attempt (open_deployment e c s)
           (\<lambda>_. fail_command e a c ''Deployment source could not be authenticated.''))"

definition deliver_runtime_action :: "api \<Rightarrow> uuid \<Rightarrow> AgentCommand \<Rightarrow> AgentCommand option handler" where
  "deliver_runtime_action e a c =
     (let operationId = string_property c ''operationId'' in
      chain (case operationId of Some i \<Rightarrow> reads (getRuntimeOperation i) | None \<Rightarrow> give None) (\<lambda>operation.
      case operation of
        None \<Rightarrow> fail_command e a c ''Runtime action is unavailable for this agent.''
      | Some r \<Rightarrow>
          if RuntimeOp_agentId r \<noteq> a \<or> RuntimeOp_commandId r \<noteq> Some (AgentCommand_id c)
          then fail_command e a c ''Runtime action is unavailable for this agent.''
          else give (Some (with_payload c
            ([(''operationId'', nullable operationId), (''projectName'', JStr (RuntimeOp_projectName r))]
             @ entry_truthy ''serviceName'' (map_option JStr (RuntimeOp_serviceName r))
             @ [(''action'', JStr (action_text (RuntimeOp_action r))), (''scope'', JStr (scope_text (RuntimeOp_scope r)))])))))"

definition deliver_runtime_logs :: "api \<Rightarrow> uuid \<Rightarrow> AgentCommand \<Rightarrow> AgentCommand option handler" where
  "deliver_runtime_logs e a c =
     (let requestId = string_property c ''requestId'' in
      chain (case requestId of Some i \<Rightarrow> reads (getRuntimeLogRequest i None) | None \<Rightarrow> give None) (\<lambda>logRequest.
      case logRequest of
        None \<Rightarrow> fail_command e a c ''Runtime log request is unavailable for this agent.''
      | Some r \<Rightarrow>
          if LogRequest_agentId r \<noteq> a \<or> LogRequest_commandId r \<noteq> Some (AgentCommand_id c)
          then fail_command e a c ''Runtime log request is unavailable for this agent.''
          else give (Some (with_payload c
            ([(''requestId'', nullable requestId), (''projectName'', JStr (LogRequest_projectName r)),
              (''serviceName'', JStr (LogRequest_serviceName r)), (''tail'', JNum (LogRequest_tail r))]
             @ entry ''since'' (map_option (\<lambda>t. JStr (env_iso8601 e t)) (LogRequest_since r)))))))"

definition deliver_route :: "api \<Rightarrow> uuid \<Rightarrow> AgentCommand \<Rightarrow> AgentCommand option handler" where
  "deliver_route e a c =
     chain (case uuid_property c ''routeId'' of Some i \<Rightarrow> reads (getRouteDeployment i) | None \<Rightarrow> give None) (\<lambda>deployment.
     case deployment of
       None \<Rightarrow> fail_command e a c ''Route deployment is unavailable for this agent.''
     | Some r \<Rightarrow>
         if ManagedRoute_gatewayAgentId r \<noteq> a
         then fail_command e a c ''Route deployment is unavailable for this agent.''
         else give (Some (with_payload c
           [(''routeId'', JStr (ManagedRoute_id r)), (''name'', JStr (ManagedRoute_name r)), (''hostname'', JStr (ManagedRoute_hostname r)),
            (''exposure'', JStr (exposure_text (ManagedRoute_exposure r))), (''backends'', JArr (map JStr (ManagedRoute_backends r))),
            (''enabled'', JBool (ManagedRoute_enabled r)), (''revision'', JNum (ManagedRoute_revision r))])))"

definition stack_files :: "uuid \<Rightarrow> jobj" where
  "stack_files i = [(''stackPath'', JStr i), (''composePath'', JStr (i @ ''/compose.yaml''))]"

definition deliver_service_logs :: "api \<Rightarrow> uuid \<Rightarrow> AgentCommand \<Rightarrow> AgentCommand option handler" where
  "deliver_service_logs e a c =
     (let stackId = string_property c ''stackId''; p = AgentCommand_payload c in
      chain (case stackId of Some i \<Rightarrow> reads (getStackDeployment i) | None \<Rightarrow> give None) (\<lambda>deployment.
      case deployment of
        None \<Rightarrow> fail_command e a c ''Stack logs are unavailable for this agent.''
      | Some s \<Rightarrow>
          if ManagedStack_agentId s \<noteq> a then fail_command e a c ''Stack logs are unavailable for this agent.''
          else give (Some (with_payload c
            ([(''stackId'', nullable stackId)] @ entry ''service'' (jprop p ''service'') @ entry ''tail'' (jprop p ''tail'')
             @ entry_truthy ''since'' (jprop p ''since'')
             @ [(''projectName'', JStr (ManagedStack_projectName s))] @ stack_files (ManagedStack_id s))))))"

definition deliver_backup :: "api \<Rightarrow> uuid \<Rightarrow> AgentCommand \<Rightarrow> AgentCommand option handler" where
  "deliver_backup e a c =
     (let backupId = string_property c ''backupId'' in
      chain (case backupId of Some i \<Rightarrow> reads (getBackupDeployment i) | None \<Rightarrow> give None) (\<lambda>deployment.
      case deployment of
        None \<Rightarrow> fail_command e a c ''Stack backup is unavailable for this agent.''
      | Some (b, s) \<Rightarrow>
          if ManagedStack_agentId s \<noteq> a then fail_command e a c ''Stack backup is unavailable for this agent.''
          else give (Some (with_payload c
            ([(''backupId'', nullable backupId), (''stackId'', JStr (ManagedStack_id s)), (''projectName'', JStr (ManagedStack_projectName s)),
              (''revision'', JNum (StackBackup_stackRevision b)), (''target'', JStr (target_text (StackBackup_target b)))]
             @ stack_files (ManagedStack_id s) @ postgres_entry (ManagedStack_postgresBackupConfig s))))))"

definition deliver_restore :: "api \<Rightarrow> uuid \<Rightarrow> AgentCommand \<Rightarrow> AgentCommand option handler" where
  "deliver_restore e a c =
     (let restoreId = string_property c ''restoreId'' in
      chain (case restoreId of Some i \<Rightarrow> reads (getRestoreDeployment i) | None \<Rightarrow> give None) (\<lambda>deployment.
      case deployment of
        None \<Rightarrow> fail_command e a c ''Stack restore is unavailable for this agent.''
      | Some (r, b, s) \<Rightarrow>
          if ManagedStack_agentId s \<noteq> a then fail_command e a c ''Stack restore is unavailable for this agent.''
          else give (Some (with_payload c
            ([(''restoreId'', nullable restoreId), (''backupId'', JStr (StackBackup_id b)), (''stackId'', JStr (ManagedStack_id s)),
              (''projectName'', JStr (ManagedStack_projectName s)), (''revision'', JNum (StackBackup_stackRevision b)),
              (''target'', JStr (target_text (StackBackup_target b)))]
             @ stack_files (ManagedStack_id s) @ postgres_entry (ManagedStack_postgresBackupConfig s))))))"

definition deliver_connector_removal :: "api \<Rightarrow> uuid \<Rightarrow> AgentCommand \<Rightarrow> AgentCommand option handler" where
  "deliver_connector_removal e a c =
     (case (uuid_property c ''connectorId'', as_number (jprop (AgentCommand_payload c) ''revision'')) of
        (Some connectorId, Some revision) \<Rightarrow>
          give (Some (with_payload c [(''connectorId'', JStr connectorId), (''revision'', JNum revision)]))
      | _ \<Rightarrow> fail_command e a c ''Connector cleanup payload is invalid.'')"

definition connectorIdentityAllowsRuntime :: "IdentityStatus \<Rightarrow> string option \<Rightarrow> string option \<Rightarrow> bool" where
  "connectorIdentityAllowsRuntime status accountIdentifier tunnelId \<longleftrightarrow>
     status \<in> {IVerified, IParsed, IUnmatched, IMismatch, IFailed} \<and> accountIdentifier \<noteq> None \<and> tunnelId \<noteq> None"

definition deliver_connector :: "api \<Rightarrow> uuid \<Rightarrow> AgentCommand \<Rightarrow> AgentCommand option handler" where
  "deliver_connector e a c =
     chain (case uuid_property c ''connectorId'' of Some i \<Rightarrow> reads (getConnectorDeployment i) | None \<Rightarrow> give None) (\<lambda>deployment.
     case (deployment, as_number (jprop (AgentCommand_payload c) ''revision'')) of
       (Some k, Some revision) \<Rightarrow>
         if ConnectorDeployment_agentId k \<noteq> a \<or> ConnectorDeployment_desiredRevision k \<noteq> revision
         then fail_command e a c ''Connector deployment is unavailable for this agent.''
         else if \<not> ConnectorDeployment_enabled k
         then give (Some (with_payload c [(''connectorId'', JStr (ConnectorDeployment_connectorId k)), (''revision'', JNum revision),
                (''enabled'', JBool False)]))
         else if \<not> connectorIdentityAllowsRuntime (ConnectorDeployment_identityStatus k)
                (ConnectorDeployment_tokenAccountIdentifier k) (ConnectorDeployment_tokenTunnelId k)
         then fail_command e a c ''Connector token identity is unavailable.''
         else
           (case open_secret e (ConnectorDeployment_encryptedToken k) of
              Inl _ \<Rightarrow> fail_command e a c ''Connector credentials could not be decrypted.''
            | Inr token \<Rightarrow> give (Some (with_payload c
                [(''connectorId'', JStr (ConnectorDeployment_connectorId k)), (''revision'', JNum revision),
                 (''name'', JStr (ConnectorDeployment_name k)), (''enabled'', JBool True), (''token'', JStr token)])))
     | _ \<Rightarrow> fail_command e a c ''Connector deployment is unavailable for this agent.'')"

definition deliver :: "api \<Rightarrow> uuid \<Rightarrow> AgentCommand \<Rightarrow> AgentCommand option handler" where
  "deliver e a c =
     (let type = AgentCommand_type c in
      if type = ''compose.stack.sync'' then fail_command e a c ''Legacy managed stack deployment is disabled.''
      else if type = ''deployment.compose.apply'' then deliver_deployment e a c
      else if type = ''compose.runtime.action'' then deliver_runtime_action e a c
      else if type = ''compose.runtime.logs'' then deliver_runtime_logs e a c
      else if type = ''traefik.route.sync'' then deliver_route e a c
      else if type = ''service.logs.read'' then deliver_service_logs e a c
      else if type = ''stack.backup.create'' then deliver_backup e a c
      else if type = ''stack.restore.apply'' then deliver_restore e a c
      else if type = ''cloudflare.connector.remove'' then deliver_connector_removal e a c
      else if type \<noteq> ''cloudflare.connector.sync'' then give (Some c)
      else deliver_connector e a c)"

text \<open>\<open>GET /api/agent/commands\<close>\<close>

definition poll_commands :: "api \<Rightarrow> uuid \<Rightarrow> AgentCommand list handler" where
  "poll_commands e a =
     chain (writes (claimCommands (env_now e) a 1)) (\<lambda>claimed.
     each (\<lambda>c commands'. chain (deliver e a c) (\<lambda>r. give (commands' @ (case r of None \<Rightarrow> [] | Some d \<Rightarrow> [d])))) claimed [])"

section \<open>The other requests of an agent\<close>

text \<open>\<open>requireAgent\<close>\<close>

definition requireAgent :: "api \<Rightarrow> string option \<Rightarrow> Agent handler" where
  "requireAgent e authorization =
     chain (case bearerToken authorization of
              Some token \<Rightarrow> reads (authenticateAgent (env_date_now e) (hashToken (env_sha256 e) token))
            | None \<Rightarrow> give None) (\<lambda>authenticated.
     the_or authenticated (ApiError 401 ''A valid agent bearer credential is required.'' None))"

text \<open>\<open>POST /api/agent/enroll\<close>: the answer has the agent and its credential.\<close>

definition enroll :: "api \<Rightarrow> json option \<Rightarrow> ((uuid \<times> string) \<times> string) handler" where
  "enroll e body =
     chain (pure (objectBody body)) (\<lambda>b.
     chain (pure (opaqueStringField b ''enrollmentToken'' 32 512)) (\<lambda>enrollmentToken.
     let credential = randomToken (env_random e) 48 in
     chain (writes (enrollAgent (env_now e) (env_date_now e) (hashToken (env_sha256 e) enrollmentToken) (hashToken (env_sha256 e) credential))) (\<lambda>agent'.
     chain (the_or agent' (ApiError 401 ''The enrollment token is invalid, expired, or already used.'' None)) (\<lambda>a.
     give ((Agent_id a, Agent_name a), credential)))))"

definition optional_body :: "json option \<Rightarrow> ApiError + jobj" where
  "optional_body body = (case body of None \<Rightarrow> Inr [] | Some _ \<Rightarrow> objectBody body)"

text \<open>\<open>POST /api/agent/heartbeat\<close>\<close>

definition heartbeat :: "api \<Rightarrow> Agent \<Rightarrow> json option \<Rightarrow> time handler" where
  "heartbeat e a body =
     chain (pure (optional_body body)) (\<lambda>metadata.
     chain (require (length (JSON_stringify (JObj metadata)) \<le> 16384) (bad_request ''Heartbeat metadata is too large.'')) (\<lambda>_.
     chain (writes (\<lambda>d. ((), heartbeatAgent (env_gen e) (env_now e) (Agent_id a) metadata d))) (\<lambda>_.
     give (env_date_now e))))"

text \<open>\<open>POST /api/agent/telemetry\<close>\<close>

definition telemetry_request :: "api \<Rightarrow> Agent \<Rightarrow> json option \<Rightarrow> unit handler" where
  "telemetry_request e a body =
     chain (pure (objectBody body)) (\<lambda>b.
     chain (pure (validateTelemetry (env_date_parse e) (env_date_now e) b)) (\<lambda>(observedAt, node, services).
     writes (\<lambda>d. ((), recordTelemetry (env_gen e) (env_date_parse e) (env_now e) (env_date_now e) (Agent_id a) observedAt node services d))))"

text \<open>\<open>POST /api/agent/commands/:id/result\<close>: the answer says whether the report was a repetition.\<close>

definition completion_status :: "string \<Rightarrow> CommandStatus option" where
  "completion_status s = (if s = ''succeeded'' then Some CmdSucceeded else if s = ''failed'' then Some CmdFailed else None)"

definition report_result :: "api \<Rightarrow> Agent \<Rightarrow> string option \<Rightarrow> json option \<Rightarrow> bool handler" where
  "report_result e a idParam body =
     chain (pure (objectBody body)) (\<lambda>b.
     chain (pure (stringField b ''status'' 1 255)) (\<lambda>status.
     chain (the_or (completion_status status) (bad_request ''status must be succeeded or failed.'')) (\<lambda>st.
     chain (pure (optional_body (jprop b ''result''))) (\<lambda>result.
     chain (require (length (JSON_stringify (JObj result)) \<le> 262144) (bad_request ''Command result is too large.'')) (\<lambda>_.
     chain (pure (idParameter idParam)) (\<lambda>i.
     chain (writes (completeCommand (env_gen e) (env_now e) (Agent_id a) i st result)) (\<lambda>outcome'.
     (case outcome' of
        Missing \<Rightarrow> throw (Api (ApiError 404 ''Command not found.'' None))
      | Conflict \<Rightarrow> throw (Api (ApiError 409 ''The command is not in a claimable completion state.'' None))
      | CompletionRaised \<Rightarrow> throw (Database (JsError ''invalid_text_representation''))
      | _ \<Rightarrow> give (outcome' = Idempotent)))))))))"

section \<open>What the poll does\<close>

text \<open>No branch of the poll throws: a command is handed out or completed as failed.\<close>

definition settles :: "api \<Rightarrow> uuid \<Rightarrow> AgentCommand \<Rightarrow> world \<Rightarrow> (failure + AgentCommand option) \<times> world \<Rightarrow> bool" where
  "settles e a c w r \<longleftrightarrow>
     (\<exists>p. r = (Inr (Some (with_payload c p)), w))
     \<or> (\<exists>m. r = (Inr None, w\<lparr>store := snd (completeCommand (env_gen e) (env_now e) a (AgentCommand_id c) CmdFailed [(''error'', JStr m)] (store w))\<rparr>))"

lemma settles_fail [simp]: "settles e a c w (fail_command e a c m w)"
  unfolding settles_def
  by (rule disjI2, rule exI [of _ m]) (simp add: fail_command_def chain_def writes_def give_def split: prod.split)

lemma settles_give [simp]: "settles e a c w (give (Some (with_payload c p)) w)"
  by (auto simp: settles_def give_def)

lemma chain_reads: "chain (case v of None \<Rightarrow> give None | Some i \<Rightarrow> reads (g i)) f w = f (case v of None \<Rightarrow> None | Some i \<Rightarrow> g i (store w)) w"
  by (cases v) (simp_all add: chain_def give_def reads_def)

lemma with_payload_self: "with_payload c (AgentCommand_payload c) = c"
  by (simp add: with_payload_def)

lemma settles_self [simp]: "settles e a c w (give (Some c) w)"
  using settles_give [of e a c w "AgentCommand_payload c"] by (simp only: with_payload_self)

definition offers :: "AgentCommand \<Rightarrow> AgentCommand option handler \<Rightarrow> world \<Rightarrow> bool" where
  "offers c m w \<longleftrightarrow> (\<exists>x. m w = (Inl x, w)) \<or> (\<exists>p. m w = (Inr (Some (with_payload c p)), w))"

lemma settles_attempt: "offers c m w \<Longrightarrow> settles e a c w (attempt m (\<lambda>_. fail_command e a c t) w)"
  using settles_give [of e a c w] by (auto simp: offers_def attempt_def give_def)

lemma deployment_settles: "settles e a c w (deliver_deployment e a c w)"
proof -
  have "offers c (open_deployment e c s) w" for s
    by (auto simp: offers_def open_deployment_def chain_def opened_def prior_compose_def give_def throw_def
        split: sum.splits option.splits if_splits)
  then show ?thesis
    by (auto simp: deliver_deployment_def chain_reads settles_attempt split: option.split)
qed

lemma deliver_settles: "settles e a c w (deliver e a c w)"
proof -
  note deployment_settles [of e a c w]
  moreover have "settles e a c w (deliver_runtime_action e a c w)"
    by (simp add: deliver_runtime_action_def Let_def chain_reads split: option.split)
  moreover have "settles e a c w (deliver_runtime_logs e a c w)"
    by (simp add: deliver_runtime_logs_def Let_def chain_reads split: option.split)
  moreover have "settles e a c w (deliver_route e a c w)"
    by (simp add: deliver_route_def chain_reads split: option.split)
  moreover have "settles e a c w (deliver_service_logs e a c w)"
    by (simp add: deliver_service_logs_def Let_def chain_reads split: option.split)
  moreover have "settles e a c w (deliver_backup e a c w)"
    by (simp add: deliver_backup_def Let_def chain_reads split: option.split prod.split)
  moreover have "settles e a c w (deliver_restore e a c w)"
    by (simp add: deliver_restore_def Let_def chain_reads split: option.split prod.split)
  moreover have "settles e a c w (deliver_connector_removal e a c w)"
    by (simp add: deliver_connector_removal_def split: option.split)
  moreover have "settles e a c w (deliver_connector e a c w)"
    by (simp add: deliver_connector_def chain_reads split: option.split sum.split)
  ultimately show ?thesis by (simp add: deliver_def Let_def)
qed

text \<open>A command that was claimed and could not be delivered is failed in the store.\<close>

lemma failed_after_claim:
  assumes "inj gen" "reachable gen d" "claimCommands now a n d = (cs, d1)" "c \<in> set cs"
  shows "\<exists>r \<in> set (commands (snd (completeCommand gen now' a (AgentCommand_id c) CmdFailed res d1))).
    cmd_id r = AgentCommand_id c \<and> cmd_status r = CmdFailed"
proof -
  have dist: "distinct (map cmd_id (commands d))"
    using reachable_okD(3) [OF assms(1,2)] by (simp add: queue_ok_def)
  note rows = claimed_rows [OF assms(3)]
  have dist1: "distinct (map cmd_id (commands d1))"
    unfolding rows(2) by (subst map_update_rows) (simp_all add: claimed_command_def dist)
  from assms(4) rows(1) obtain r0 where r0: "r0 \<in> set (commands d)" "claims now a n d r0" "c = command (claimed_command now r0)"
    by auto
  let ?r = "claimed_command now r0"
  have in1: "?r \<in> set (commands d1)" using r0 unfolding rows(2) set_update_rows by force
  have "cmd_agent_id r0 = a"
    using claims_claimable [OF dist r0(1,2)] by (simp add: claimable_command_def)
  then have own: "cmd_agent_id ?r = a" and st: "cmd_status ?r = CmdClaimed" and i: "AgentCommand_id c = cmd_id ?r"
    using r0(3) by (simp_all add: claimed_command_def command_def)
  have the: "the_command a (AgentCommand_id c) d1 = Some ?r"
  proof -
    obtain q where q: "the_command a (AgentCommand_id c) d1 = Some q"
      using in1 own i unfolding the_command_def by (cases "find (\<lambda>c'. cmd_id c' = AgentCommand_id c \<and> cmd_agent_id c' = a) (commands d1)")
        (auto simp: find_none_iff)
    then have "q \<in> set (commands d1)" "cmd_id q = cmd_id ?r"
      using i unfolding the_command_def by (auto dest: find_someD)
    with in1 have "q = ?r" using distinct_key_eq [OF dist1] by blast
    with q show ?thesis by simp
  qed
  let ?f = "close_command now' CmdFailed (command_result (cmd_type ?r) res)"
  have "snd (completeCommand gen now' a (AgentCommand_id c) CmdFailed res d1) = completed_db gen now' a (AgentCommand_id c) CmdFailed res ?r d1"
    using the st by (simp add: completeCommand_cases same_outcome_def unstorable_diagnostics_def)
  moreover have "?f ?r \<in> set (commands (completed_db gen now' a (AgentCommand_id c) CmdFailed res ?r d1))"
    using in1 own i unfolding completed_db_rows(1) set_update_rows by force
  ultimately show ?thesis using i by (intro bexI [of _ "?f ?r"]) (simp_all add: close_command_def)
qed

text \<open>What a handed out deployment carries.\<close>

definition authentic_deployment :: "api \<Rightarrow> jobj \<Rightarrow> bool" where
  "authentic_deployment e p \<longleftrightarrow>
     text_where (\<lambda>t. jprop p ''checksum'' = Some (JStr (sha256_hex e t))) p ''sourceCompose''
     \<and> text_where (\<lambda>project. project \<notin> set (env_protected e)) p ''projectName''"

lemma deployment_payload_props:
  "jprop (deployment_payload e s t q) ''sourceCompose'' = Some (JStr t)"
  "jprop (deployment_payload e s t q) ''checksum'' = Some (JStr (Revision_checksum s))"
  "jprop (deployment_payload e s t q) ''projectName'' = Some (JStr (CommandSource_projectName s))"
  by (simp_all add: deployment_payload_def jprop_def)

lemma fail_command_None: "fail_command e a c m w \<noteq> (Inr (Some d), w')"
  by (simp add: fail_command_def chain_def writes_def give_def split: prod.split)

lemma delivered_deployment:
  assumes "deliver_deployment e a c w = (Inr (Some d), w')"
  shows "authentic_deployment e (AgentCommand_payload d)"
proof -
  obtain s where s: "CommandSource_projectName s \<notin> set (env_protected e)"
    and at': "attempt (open_deployment e c s) (\<lambda>_. fail_command e a c ''Deployment source could not be authenticated.'') w = (Inr (Some d), w')"
    using assms
    by (auto simp: deliver_deployment_def chain_reads fail_command_None split: option.splits if_splits)
  from at' have "open_deployment e c s w = (Inr (Some d), w')"
    by (auto simp: attempt_def fail_command_None split: sum.splits prod.splits)
  then obtain t q where "d = with_payload c (deployment_payload e s t q)" "sha256_hex e t = Revision_checksum s"
    by (auto simp: open_deployment_def chain_def opened_def prior_compose_def give_def throw_def
        split: sum.splits option.splits if_splits prod.splits)
  with s show ?thesis
    by (simp add: authentic_deployment_def text_where_def with_payload_def deployment_payload_props)
qed

text \<open>With a claim of at most one command the poll is one delivery.\<close>

lemma poll_one:
  assumes "claimCommands (env_now e) a 1 (store w) = (cs, d1)" "cs = [] \<or> cs = [c]"
  shows "poll_commands e a w =
    (if cs = [] then (Inr [], w\<lparr>store := d1\<rparr>)
     else (case deliver e a c (w\<lparr>store := d1\<rparr>) of
             (Inl x, w') \<Rightarrow> (Inl x, w') | (Inr None, w') \<Rightarrow> (Inr [], w') | (Inr (Some d), w') \<Rightarrow> (Inr [d], w')))"
  using assms by (auto simp: poll_commands_def chain_def writes_def give_def split: prod.split sum.split option.split)

section \<open>Properties\<close>

text \<open>C34. A poll never fails and leaves no command behind: it hands out at most one command, and the command it
  claimed is either handed out, with the payload the agent executes, or recorded as failed. A deployment that is
  handed out carries a text whose SHA-256 is the checksum that goes with it, of a project that is not protected.\<close>

theorem polls_settle_their_claim:
  assumes "inj (env_gen e)" "reachable (env_gen e) (store w)" "claimCommands (env_now e) a 1 (store w) = (cs, d1)"
  shows "\<exists>out w'. poll_commands e a w = (Inr out, w') \<and> length out \<le> 1
    \<and> (\<forall>c \<in> set cs. (\<exists>p. out = [with_payload c p])
        \<or> (\<exists>r \<in> set (commands (store w')). cmd_id r = AgentCommand_id c \<and> cmd_status r = CmdFailed))
    \<and> (\<forall>c \<in> set out. AgentCommand_type c = ''deployment.compose.apply'' \<longrightarrow> authentic_deployment e (AgentCommand_payload c))"
proof -
  have dist: "distinct (map cmd_id (commands (store w)))"
    using reachable_okD(3) [OF assms(1,2)] by (simp add: queue_ok_def)
  have "length cs \<le> 1"
    using length_claimed [OF dist, of "env_now e" a 1] claimed_rows(1) [OF assms(3)] by simp
  then consider "cs = []" | c where "cs = [c]" by (cases cs; cases "tl cs") auto
  then show ?thesis
  proof cases
    case 1
    with poll_one [OF assms(3), of undefined] show ?thesis by simp
  next
    case (2 c)
    let ?w = "w\<lparr>store := d1\<rparr>"
    note poll = poll_one [OF assms(3), of c]
    from deliver_settles [of e a c ?w] consider
      p where "deliver e a c ?w = (Inr (Some (with_payload c p)), ?w)"
      | m where "deliver e a c ?w = (Inr None, ?w\<lparr>store := snd (completeCommand (env_gen e) (env_now e) a (AgentCommand_id c)
          CmdFailed [(''error'', JStr m)] (store ?w))\<rparr>)"
      unfolding settles_def by blast
    then show ?thesis
    proof cases
      case (1 p)
      have "authentic_deployment e (AgentCommand_payload (with_payload c p))"
        if "AgentCommand_type (with_payload c p) = ''deployment.compose.apply''"
      proof -
        from that have "deliver e a c = deliver_deployment e a c"
          by (simp add: with_payload_def deliver_def)
        with 1 show ?thesis by (metis delivered_deployment)
      qed
      with 1 2 poll show ?thesis by auto
    next
      case (2 m)
      with failed_after_claim [OF assms, of c "env_now e" "[(''error'', JStr m)]"] \<open>cs = [c]\<close> poll show ?thesis by simp
    qed
  qed
qed

theorem polls_settle_their_claim_witness:
  "case fst (poll_commands sample_api (unary 1) (sample_world 12)) of
     Inl _ \<Rightarrow> False | Inr out \<Rightarrow> map AgentCommand_type out = [''stack.backup.create''] \<and> length out \<le> 1"
proof -
  obtain cs d1 where c: "claimCommands (env_now sample_api) (unary 1) 1 (store (sample_world 12)) = (cs, d1)" by (metis surj_pair)
  have "inj (env_gen sample_api)" "reachable (env_gen sample_api) (store (sample_world 12))"
    by (simp_all add: inj_unary reachable_sample)
  from polls_settle_their_claim [OF this c] obtain out w' where
    o: "poll_commands sample_api (unary 1) (sample_world 12) = (Inr out, w')" "length out \<le> 1" by blast
  have "(case fst (poll_commands sample_api (unary 1) (sample_world 12)) of
      Inl _ \<Rightarrow> [] | Inr out \<Rightarrow> map AgentCommand_type out) = [''stack.backup.create'']"
    by (unfold sample_world_def sample_states, code_simp)
  with o show ?thesis by simp
qed

end
