(* ===== verification/Gw_Archive.thy ===== *)
theory Gw_Archive
  imports Gw_Handlers Gw_Json
begin

text \<open>
  System backups as bytes (system-recovery.ts): the encrypted file, the manifest, and the checks of the archive inside.
  scrypt, the cipher, the tools of PostgreSQL and tar are parameters, with the configuration of the service.
\<close>

section \<open>Configuration and tools\<close>

text \<open>
  What a tool makes of its input, \<^const>\<open>None\<close> when it exits with a failure: \<open>pg_dump\<close> in an environment,
  \<open>pg_restore --list\<close>, \<open>tar\<close> with \<open>-cf\<close>, \<open>-tf\<close>, \<open>-tvf\<close>, and with \<open>-xf\<close> of the three expected names. Output
  arrives in pieces.
\<close>

record tools =
  pg_dump :: "(string \<times> string) list \<Rightarrow> db \<Rightarrow> bytes option"
  pg_restore_list :: "bytes \<Rightarrow> bool"
  tar_create :: "(string \<times> bytes) list \<Rightarrow> bytes option"
  tar_list :: "bytes \<Rightarrow> string list option"
  tar_verbose :: "bytes \<Rightarrow> string list option"
  tar_extract :: "bytes \<Rightarrow> (string \<times> node) list option"

record database_url =
  db_protocol :: string
  db_hostname :: string
  db_port :: string
  db_pathname :: string
  db_username :: string
  db_password :: string
  db_sslmode :: "string option"

record recovery_options =
  rec_database :: "database_url option"
  rec_decodeURIComponent :: "string \<Rightarrow> string option"
  rec_environment :: "string \<Rightarrow> string option"
  rec_masterKey :: bytes
  rec_localRoot :: string
  rec_nasRoot :: string
  rec_nasMarker :: string
  rec_stageRoot :: string
  rec_maxImportBytes :: "int option"
  rec_supervisorEnabled :: bool
  rec_requestSecret :: "bytes option"
  rec_tools :: tools
  rec_scrypt :: "string \<Rightarrow> bytes \<Rightarrow> bytes"
  rec_seal :: "bytes \<Rightarrow> bytes \<Rightarrow> bytes \<Rightarrow> bytes \<Rightarrow> bytes \<times> bytes"
  rec_open :: "bytes \<Rightarrow> bytes \<Rightarrow> bytes \<Rightarrow> bytes \<Rightarrow> bytes \<Rightarrow> bytes option"
  rec_hmac :: "bytes \<Rightarrow> string \<Rightarrow> string"
  rec_uuid :: "nat \<Rightarrow> string"
  rec_temporary :: "string \<Rightarrow> nat \<Rightarrow> string"

text \<open>\<open>runTool\<close> keeps the first 8192 characters of what a tool prints.\<close>

definition MAX_TOOL_OUTPUT_BYTES :: nat where
  "MAX_TOOL_OUTPUT_BYTES = 8192"

definition collect_output :: "string list \<Rightarrow> string" where
  "collect_output chunks = foldl (\<lambda>out c.
     if length out < MAX_TOOL_OUTPUT_BYTES then out @ take (MAX_TOOL_OUTPUT_BYTES - length out) c else out) [] chunks"

definition allowlistedEnvironment :: "(string \<Rightarrow> string option) \<Rightarrow> string list \<Rightarrow> (string \<times> string) list" where
  "allowlistedEnvironment env names = concat (map (\<lambda>n. case env n of None \<Rightarrow> [] | Some v \<Rightarrow> [(n, v)]) names)"

definition toolEnvironment :: "(string \<Rightarrow> string option) \<Rightarrow> (string \<times> string) list" where
  "toolEnvironment env = allowlistedEnvironment env [''PATH'', ''LANG'', ''LC_ALL'', ''LC_CTYPE'', ''TZ'', ''TMPDIR'', ''TMP'',
     ''TEMP'', ''SystemRoot'', ''WINDIR'', ''ComSpec'', ''PATHEXT'']"

definition postgresEnvironment :: "recovery_options \<Rightarrow> database_url \<Rightarrow> (string \<times> string) list option" where
  "postgresEnvironment r u =
     (case (rec_decodeURIComponent r (db_username u), rec_decodeURIComponent r (db_password u)) of
        (Some user', Some password) \<Rightarrow>
          Some (toolEnvironment (rec_environment r)
            @ [(''PGHOST'', db_hostname u), (''PGPORT'', if db_port u = [] then ''5432'' else db_port u),
               (''PGDATABASE'', drop 1 (db_pathname u)), (''PGUSER'', user'), (''PGPASSWORD'', password)]
            @ (case db_sslmode u of None \<Rightarrow> [] | Some m \<Rightarrow> if m = [] then [] else [(''PGSSLMODE'', m)]))
      | _ \<Rightarrow> None)"

section \<open>The encrypted file\<close>

definition invalid_backup :: SystemRecoveryFailure where
  "invalid_backup = SystemRecoveryFailure 400 ''invalid_backup'' ''The selected system backup is invalid.''"

definition incorrect_passphrase :: SystemRecoveryFailure where
  "incorrect_passphrase = SystemRecoveryFailure 400 ''incorrect_passphrase'' ''The backup passphrase is incorrect.''"

definition recoveryFailure :: "failure \<Rightarrow> SystemRecoveryFailure" where
  "recoveryFailure x =
     (case x of Recovery f \<Rightarrow> f
      | _ \<Rightarrow> SystemRecoveryFailure 500 ''invalid_backup'' ''The system restore could not be staged.'')"

definition MAGIC :: bytes where
  "MAGIC = utf8_bytes ''GCSYSBKP''"

definition FORMAT_VERSION :: nat where
  "FORMAT_VERSION = 1"

definition HEADER_SIZE :: nat where
  "HEADER_SIZE = length MAGIC + 1 + 16 + 12"

definition AUTH_TAG_SIZE :: nat where
  "AUTH_TAG_SIZE = 16"

definition archive_header :: "bytes \<Rightarrow> bytes \<Rightarrow> bytes" where
  "archive_header salt iv = MAGIC @ [FORMAT_VERSION] @ salt @ iv"

text \<open>What \<open>encryptFile\<close> writes: the header, which is authenticated as well, the ciphertext, the tag.\<close>

definition seal_archive :: "recovery_options \<Rightarrow> string \<Rightarrow> bytes \<Rightarrow> bytes \<Rightarrow> bytes \<Rightarrow> bytes \<times> bytes \<times> bytes" where
  "seal_archive r passphrase salt iv cleartext =
     (let header = archive_header salt iv; (ciphertext, tag) = rec_seal r (rec_scrypt r passphrase salt) iv header cleartext
      in (header, ciphertext, tag))"

text \<open>What \<open>decryptFile\<close> checks of the header and tag it read, and the deciphered content.\<close>

definition header_ok :: "bytes \<Rightarrow> bool" where
  "header_ok header \<longleftrightarrow> take (length MAGIC) header = MAGIC \<and> header ! length MAGIC = FORMAT_VERSION"

definition open_content :: "recovery_options \<Rightarrow> string \<Rightarrow> bytes \<Rightarrow> bytes \<Rightarrow> bytes \<Rightarrow> bytes option" where
  "open_content r passphrase header tag ciphertext =
     rec_open r (rec_scrypt r passphrase (take 16 (drop (length MAGIC + 1) header))) (drop (length MAGIC + 17) header)
       header tag ciphertext"

definition archive_parts :: "bytes \<Rightarrow> bytes \<times> bytes \<times> bytes" where
  "archive_parts bs = (take HEADER_SIZE bs, drop (length bs - AUTH_TAG_SIZE) bs,
     take (length bs - AUTH_TAG_SIZE - HEADER_SIZE) (drop HEADER_SIZE bs))"

definition open_archive :: "recovery_options \<Rightarrow> string \<Rightarrow> bytes \<Rightarrow> bytes option" where
  "open_archive r passphrase bs =
     (case archive_parts bs of (header, tag, ciphertext) \<Rightarrow>
        if length bs \<le> HEADER_SIZE + AUTH_TAG_SIZE \<or> \<not> header_ok header then None
        else open_content r passphrase header tag ciphertext)"

section \<open>The archive\<close>

definition EXPECTED_ARCHIVE_FILES :: "string list" where
  "EXPECTED_ARCHIVE_FILES = [''manifest.json'', ''database.dump'', ''master.key'']"

definition drop_return :: "string \<Rightarrow> string" where
  "drop_return l = (if l \<noteq> [] \<and> last l = CHR 0x0D then butlast l else l)"

text \<open>\<open>value.split(/\r?\n/).filter((line) => line.length > 0)\<close>: the last piece keeps its carriage return.\<close>

definition splitToolLines :: "string \<Rightarrow> string list" where
  "splitToolLines v =
     (let ps = split_on (CHR 0x0A) v in filter (\<lambda>l. l \<noteq> []) (map drop_return (butlast ps) @ [last ps]))"

definition entry_ok :: "string \<Rightarrow> string \<Rightarrow> bool" where
  "entry_ok name detail \<longleftrightarrow>
     \<not> (starts_with [slash] name \<or> CHR 0x5C \<in> set name \<or> ''..'' \<in> set (split_on slash name)
        \<or> take 1 detail \<noteq> ''-'' \<or> \<not> ends_with name detail)"

definition archive_listing_ok :: "string list \<Rightarrow> string list \<Rightarrow> bool" where
  "archive_listing_ok names verbose \<longleftrightarrow>
     length names = length EXPECTED_ARCHIVE_FILES \<and> length verbose = length names \<and> distinct names
     \<and> list_all (\<lambda>n. n \<in> set EXPECTED_ARCHIVE_FILES) names \<and> list_all2 entry_ok names verbose"

section \<open>The manifest\<close>

record Manifest =
  Manifest_backupId :: json
  Manifest_createdAt :: string
  Manifest_dumpSha256 :: json
  Manifest_keySha256 :: json

definition manifest_json :: "uuid \<Rightarrow> string \<Rightarrow> string \<Rightarrow> string \<Rightarrow> json" where
  "manifest_json backupId createdAt dump key = JObj
     [(''format'', JStr ''gateway-control-system-backup''), (''version'', JNum 1), (''backupId'', JStr backupId),
      (''createdAt'', JStr createdAt),
      (''databaseDump'', JObj [(''file'', JStr ''database.dump''), (''sha256'', JStr dump)]),
      (''masterKey'', JObj [(''file'', JStr ''master.key''), (''bytes'', JNum 32), (''sha256'', JStr key)])]"

definition hasExactKeys :: "json option \<Rightarrow> string list \<Rightarrow> bool" where
  "hasExactKeys v keys =
     (case v of
        Some (JObj kvs) \<Rightarrow> length kvs = length keys \<and> list_all (\<lambda>k. k \<in> set (map fst kvs)) keys
      | _ \<Rightarrow> False)"

text \<open>\<open>pattern.test(v ?? '')\<close>: what is no text is turned into one.\<close>

definition test_text :: "json option \<Rightarrow> string" where
  "test_text v = (case v of None \<Rightarrow> [] | Some JNull \<Rightarrow> [] | _ \<Rightarrow> js_String v)"

definition is_digest :: "string \<Rightarrow> bool" where
  "is_digest = all_of is_lowhex 64 64"

definition isCanonicalTimestamp :: "(string \<Rightarrow> time option) \<Rightarrow> (time \<Rightarrow> string) \<Rightarrow> string \<Rightarrow> bool" where
  "isCanonicalTimestamp date_parse iso8601 v = (case date_parse v of None \<Rightarrow> False | Some t \<Rightarrow> iso8601 t = v)"

definition object_of :: "json option \<Rightarrow> jobj" where
  "object_of v = (case v of Some (JObj kvs) \<Rightarrow> kvs | _ \<Rightarrow> [])"

definition manifest_ok :: "(string \<Rightarrow> time option) \<Rightarrow> (time \<Rightarrow> string) \<Rightarrow> json option \<Rightarrow> bool" where
  "manifest_ok date_parse iso8601 v =
     (let p = object_of v; dump = jprop p ''databaseDump''; key = jprop p ''masterKey''
      in hasExactKeys v [''format'', ''version'', ''backupId'', ''createdAt'', ''databaseDump'', ''masterKey'']
         \<and> hasExactKeys dump [''file'', ''sha256''] \<and> hasExactKeys key [''file'', ''bytes'', ''sha256'']
         \<and> jprop p ''format'' = Some (JStr ''gateway-control-system-backup'') \<and> jprop p ''version'' = Some (JNum 1)
         \<and> UUID_PATTERN (test_text (jprop p ''backupId''))
         \<and> (case jprop p ''createdAt'' of Some (JStr t) \<Rightarrow> isCanonicalTimestamp date_parse iso8601 t | _ \<Rightarrow> False)
         \<and> jprop (object_of dump) ''file'' = Some (JStr ''database.dump'')
         \<and> is_digest (test_text (jprop (object_of dump) ''sha256''))
         \<and> jprop (object_of key) ''file'' = Some (JStr ''master.key'') \<and> jprop (object_of key) ''bytes'' = Some (JNum 32)
         \<and> is_digest (test_text (jprop (object_of key) ''sha256'')))"

definition manifest_of :: "jobj \<Rightarrow> Manifest" where
  "manifest_of p =
     \<lparr>Manifest_backupId = coalesce (jprop p ''backupId'') JNull, Manifest_createdAt = js_String (jprop p ''createdAt''),
      Manifest_dumpSha256 = coalesce (jprop (object_of (jprop p ''databaseDump'')) ''sha256'') JNull,
      Manifest_keySha256 = coalesce (jprop (object_of (jprop p ''masterKey'')) ''sha256'') JNull\<rparr>"

definition parseManifest :: "api \<Rightarrow> string \<Rightarrow> SystemRecoveryFailure + Manifest" where
  "parseManifest e text =
     (case JSON_parse text of
        None \<Rightarrow> Inl invalid_backup
      | Some v \<Rightarrow> if manifest_ok (env_date_parse e) (env_iso8601 e) (Some v) then Inr (manifest_of (object_of (Some v)))
                  else Inl invalid_backup)"

text \<open>The sizes of the three extracted files.\<close>

definition extracted_sizes_ok :: "nat \<Rightarrow> nat \<Rightarrow> nat \<Rightarrow> bool" where
  "extracted_sizes_ok manifest dump key \<longleftrightarrow> \<not> (manifest < 2 \<or> manifest > 16384 \<or> dump < 1 \<or> key \<noteq> 32)"

section \<open>Reading a file in pieces\<close>

text \<open>\<open>sha256Handle\<close>: 64 KiB at a time, up to the size the file had when it was opened.\<close>

function read_handle :: "nat \<Rightarrow> nat \<Rightarrow> bytes \<Rightarrow> bytes \<Rightarrow> SystemRecoveryFailure + bytes" where
  "read_handle position whole content acc =
     (if position < whole
      then (let piece = take (min (64 * 1024) (whole - position)) (drop position content)
            in if piece = []
               then Inl (SystemRecoveryFailure 400 ''invalid_backup'' ''The encrypted backup artifact changed during verification.'')
               else read_handle (position + length piece) whole content (acc @ piece))
      else Inr acc)"
  by pat_completeness auto
termination by (relation "measure (\<lambda>(position, whole, _, _). whole - position)") auto

end
