(* ===== verification/Gw_CfClient.thy ===== *)
theory Gw_CfClient
  imports Gw_Handlers Gw_Json Gw_Net
begin

text \<open>
  The client of the Cloudflare API (cloudflare-client.ts): requests, the bounded reading of a
  response, the checks on what came back, and the paginated lists. A response is read whole; a body
  that breaks off is not modelled, nor is the text of a body with units above 255, which is refused
  like invalid JSON. A rule of a tunnel whose host name is neither absent nor a string is refused.
\<close>

section \<open>Requests\<close>

record cf_client =
  cf_token :: string
  cf_fed :: bool

definition cf_error :: "string \<Rightarrow> nat \<Rightarrow> int option \<Rightarrow> CloudflareClientError" where
  "cf_error m status c = CloudflareClientError (take 500 m) status c"

definition bad_gateway :: "string \<Rightarrow> 'a handler" where
  "bad_gateway m = throw (Cloudflare (cf_error m 502 None))"

definition isExplicitNotFound :: "CloudflareClientError \<Rightarrow> bool" where
  "isExplicitNotFound x \<longleftrightarrow> cf_status x = 404 \<and> cf_code x = Some 81044"

definition MAX_RESPONSE_BYTES :: nat where "MAX_RESPONSE_BYTES = 256 * 1024"
definition MAX_ZONE_PAGES :: nat where "MAX_ZONE_PAGES = 10"
definition MAX_DNS_PAGES :: nat where "MAX_DNS_PAGES = 10"

definition base_url :: "cf_client \<Rightarrow> string" where
  "base_url c = (if cf_fed c then ''https://api.fed.cloudflare.com/client/v4'' else ''https://api.cloudflare.com/client/v4'')"

text \<open>The loop over the chunks of a body; \<^const>\<open>None\<close> when they exceed the limit.\<close>

fun read_chunks :: "nat \<Rightarrow> nat \<Rightarrow> bytes list \<Rightarrow> bytes option" where
  "read_chunks limit used [] = Some []"
| "read_chunks limit used (c # cs) =
     (if limit < used + length c then None else map_option (\<lambda>bs. c @ bs) (read_chunks limit (used + length c) cs))"

definition json_of_bytes :: "bytes \<Rightarrow> json option" where
  "json_of_bytes bs = (case utf8_text bs of None \<Rightarrow> None | Some s \<Rightarrow> JSON_parse s)"

definition readEnvelope :: "bytes list option \<Rightarrow> json handler" where
  "readEnvelope body =
     (case body of
        None \<Rightarrow> bad_gateway ''Cloudflare returned an empty response.''
      | Some chunks \<Rightarrow>
          (case read_chunks MAX_RESPONSE_BYTES 0 chunks of
             None \<Rightarrow> bad_gateway ''Cloudflare returned an oversized response.''
           | Some bs \<Rightarrow>
               (case json_of_bytes bs of
                  None \<Rightarrow> bad_gateway ''Cloudflare returned invalid JSON.''
                | Some v \<Rightarrow> give v)))"

text \<open>The properties of a value; reading one of \<open>null\<close> throws.\<close>

definition properties :: "json \<Rightarrow> jobj handler" where
  "properties v = (case v of JNull \<Rightarrow> throw (Thrown ''TypeError'') | JObj kvs \<Rightarrow> give kvs | _ \<Rightarrow> give [])"

definition error_code :: "jobj \<Rightarrow> int option" where
  "error_code envelope =
     (case jprop envelope ''errors'' of
        Some (JArr (JObj x # _)) \<Rightarrow> as_number (jprop x ''code'')
      | _ \<Rightarrow> None)"

definition failed_text :: "nat \<Rightarrow> int option \<Rightarrow> string" where
  "failed_text status c =
     ''Cloudflare request failed (HTTP '' @ digits status @ (case c of None \<Rightarrow> [] | Some n \<Rightarrow> '', code '' @ string_of_int n) @ '').''"

definition request :: "cf_client \<Rightarrow> string \<Rightarrow> string \<Rightarrow> json option \<Rightarrow> jobj handler" where
  "request c method' path body =
     chain (fetch \<lparr>req_method = method', req_url = base_url c @ path, req_token = cf_token c, req_body = body\<rparr>) (\<lambda>response.
     (case response of
        Unreachable \<Rightarrow> throw (Cloudflare (cf_error ''Cloudflare could not be reached.'' 0 None))
      | Answer status chunks \<Rightarrow>
          chain (readEnvelope chunks) (\<lambda>v.
          chain (properties v) (\<lambda>envelope.
            if 200 \<le> status \<and> status < 300 \<and> jprop envelope ''success'' = Some (JBool True) then give envelope
            else throw (Cloudflare (cf_error (failed_text status (error_code envelope)) status (error_code envelope)))))))"

section \<open>Paths and queries\<close>

text \<open>\<open>URLSearchParams\<close>\<close>

definition form_encode :: "string \<Rightarrow> string" where
  "form_encode s =
     concat (map (\<lambda>c. if is_alnum c \<or> c \<in> set ''*-._'' then [c] else if c = CHR '' '' then ''+''
                      else if code c < 128 then percent (code c)
                      else percent (192 + code c div 64) @ percent (128 + code c mod 64)) s)"

definition query :: "(string \<times> string) list \<Rightarrow> string" where
  "query ps = intercalate ''&'' (map (\<lambda>(k, v). form_encode k @ ''='' @ form_encode v) ps)"

definition tunnelPath :: "string \<Rightarrow> string \<Rightarrow> string" where
  "tunnelPath accountIdentifier tunnelId =
     ''/accounts/'' @ encodeURIComponent accountIdentifier @ ''/cfd_tunnel/'' @ encodeURIComponent tunnelId"

definition tunnelConfigPath :: "string \<Rightarrow> string \<Rightarrow> string" where
  "tunnelConfigPath accountIdentifier tunnelId = tunnelPath accountIdentifier tunnelId @ ''/configurations''"

definition dnsPath :: "string \<Rightarrow> string" where
  "dnsPath zoneIdentifier = ''/zones/'' @ encodeURIComponent zoneIdentifier @ ''/dns_records''"

definition dnsRecordPath :: "string \<Rightarrow> string \<Rightarrow> string" where
  "dnsRecordPath zoneIdentifier recordId = dnsPath zoneIdentifier @ ''/'' @ encodeURIComponent recordId"

section \<open>Pages\<close>

text \<open>\<open>Number(v)\<close>\<close>

definition js_Number :: "json \<Rightarrow> js_number" where
  "js_Number v =
     (case v of
        JNull \<Rightarrow> Finite 0 | JBool b \<Rightarrow> Finite (if b then 1 else 0) | JNum n \<Rightarrow> Finite (of_int n)
      | JStr s \<Rightarrow> Number_string s | JArr vs \<Rightarrow> Number_string (json_String (JArr vs)) | JObj _ \<Rightarrow> NaN)"

definition integer_of :: "js_number \<Rightarrow> int option" where
  "integer_of n = (case n of Finite q \<Rightarrow> if of_int (floor q) = q then Some (floor q) else None | _ \<Rightarrow> None)"

definition page_info :: "jobj \<Rightarrow> string \<Rightarrow> json option" where
  "page_info envelope key = (case jprop envelope ''result_info'' of Some (JObj x) \<Rightarrow> jprop x key | _ \<Rightarrow> None)"

text \<open>\<open>Number(envelope.result_info?.total_pages ?? page)\<close>\<close>

definition total_pages :: "jobj \<Rightarrow> nat \<Rightarrow> int option" where
  "total_pages envelope page =
     (case page_info envelope ''total_pages'' of
        None \<Rightarrow> Some (int page) | Some JNull \<Rightarrow> Some (int page) | Some v \<Rightarrow> integer_of (js_Number v))"

definition result_array :: "jobj \<Rightarrow> string \<Rightarrow> json list handler" where
  "result_array envelope m = (case jprop envelope ''result'' of Some (JArr vs) \<Rightarrow> give vs | _ \<Rightarrow> bad_gateway m)"

record CloudflareZoneResult =
  zone_result_id :: string
  zone_result_name :: string
  zone_result_status :: string

definition cf_label :: "string \<Rightarrow> bool" where
  "cf_label l \<longleftrightarrow> l \<noteq> [] \<and> length l \<le> 63 \<and> list_all (\<lambda>c. is_alnum c \<or> c = CHR ''-'') l \<and> is_alnum (hd l) \<and> is_alnum (last l)"

definition isHostname :: "string \<Rightarrow> bool" where
  "isHostname v \<longleftrightarrow> 1 \<le> length v \<and> length v \<le> 253 \<and> \<not> contains ''..'' v \<and> list_all cf_label (split_on (CHR ''.'') v)"

definition zone_of :: "json \<Rightarrow> CloudflareZoneResult option" where
  "zone_of item =
     (case item of
        JObj z \<Rightarrow>
          (case (jprop z ''id'', jprop z ''name'', jprop z ''status'') of
             (Some (JStr i), Some (JStr n), Some (JStr s)) \<Rightarrow>
               if CLOUDFLARE_IDENTIFIER_PATTERN i \<and> isHostname n \<and> 1 \<le> length s \<and> length s \<le> 64
               then Some \<lparr>zone_result_id = lower i, zone_result_name = n, zone_result_status = s\<rparr> else None
           | _ \<Rightarrow> None)
      | _ \<Rightarrow> None)"

text \<open>The loop over the items of a page; the zones found so far carry the identifiers seen.\<close>

definition add_zone :: "json \<Rightarrow> CloudflareZoneResult list \<Rightarrow> CloudflareZoneResult list handler" where
  "add_zone item found =
     (case zone_of item of
        None \<Rightarrow> bad_gateway ''Cloudflare returned an invalid zone.''
      | Some z \<Rightarrow>
          if zone_result_id z \<in> zone_result_id ` set found
          then bad_gateway ''Cloudflare returned duplicate zone identifiers.'' else give (found @ [z]))"

definition zone_pagination_ok :: "jobj \<Rightarrow> nat \<Rightarrow> int option \<Rightarrow> bool" where
  "zone_pagination_ok envelope page expected \<longleftrightarrow>
     (case page_info envelope ''page'' of None \<Rightarrow> True | Some v \<Rightarrow> integer_of (js_Number v) = Some (int page))
     \<and> (case total_pages envelope page of
          None \<Rightarrow> False | Some n \<Rightarrow> int page \<le> n \<and> (case expected of None \<Rightarrow> True | Some m \<Rightarrow> n = m))"

text \<open>Pages from \<open>page\<close>, with \<open>left\<close> of them still allowed.\<close>

fun zone_pages :: "cf_client \<Rightarrow> string \<Rightarrow> nat \<Rightarrow> nat \<Rightarrow> CloudflareZoneResult list \<Rightarrow> int option \<Rightarrow> CloudflareZoneResult list handler" where
  "zone_pages c account 0 page found expected =
     bad_gateway (''Cloudflare zone pagination exceeded the '' @ digits MAX_ZONE_PAGES @ ''-page safety limit.'')"
| "zone_pages c account (Suc left) page found expected =
     chain (request c ''GET'' (''/zones?'' @ query [(''account.id'', account), (''per_page'', ''50''), (''page'', digits page)]) None) (\<lambda>envelope.
     chain (result_array envelope ''Cloudflare returned an invalid zones response.'') (\<lambda>items.
     chain (each add_zone items found) (\<lambda>found'.
       if \<not> zone_pagination_ok envelope page expected then bad_gateway ''Cloudflare returned invalid zone pagination metadata.''
       else if total_pages envelope page = Some (int page) then give found'
       else zone_pages c account left (page + 1) found' (case expected of None \<Rightarrow> total_pages envelope page | Some m \<Rightarrow> Some m))))"

definition verifyToken :: "cf_client \<Rightarrow> unit handler" where
  "verifyToken c = chain (request c ''GET'' ''/user/tokens/verify'' None) (\<lambda>_. give ())"

definition listZones :: "cf_client \<Rightarrow> string \<Rightarrow> CloudflareZoneResult list handler" where
  "listZones c accountIdentifier = zone_pages c accountIdentifier MAX_ZONE_PAGES 1 [] None"

section \<open>Tunnels\<close>

definition typed_rule :: "json \<Rightarrow> ingress_rule handler" where
  "typed_rule v =
     (case v of
        JObj r \<Rightarrow>
          (case jprop r ''service'' of
             Some (JStr s) \<Rightarrow>
               (case jprop r ''hostname'' of
                  None \<Rightarrow> give \<lparr>rule_hostname = None, rule_service = s, rule_extra = filter (\<lambda>(k, _). k \<notin> {''hostname'', ''service''}) r\<rparr>
                | Some (JStr h) \<Rightarrow>
                    give \<lparr>rule_hostname = Some h, rule_service = s, rule_extra = filter (\<lambda>(k, _). k \<notin> {''hostname'', ''service''}) r\<rparr>
                | Some _ \<Rightarrow> throw (Thrown ''TypeError''))
           | _ \<Rightarrow> bad_gateway ''Cloudflare returned an invalid tunnel ingress rule.'')
      | _ \<Rightarrow> bad_gateway ''Cloudflare returned an invalid tunnel ingress rule.'')"

definition rule_json :: "ingress_rule \<Rightarrow> json" where
  "rule_json r = JObj ((case rule_hostname r of None \<Rightarrow> [] | Some h \<Rightarrow> [(''hostname'', JStr h)])
     @ [(''service'', JStr (rule_service r))] @ rule_extra r)"

definition getTunnelConfig :: "cf_client \<Rightarrow> string \<Rightarrow> string \<Rightarrow> ingress_rule list handler" where
  "getTunnelConfig c accountIdentifier tunnelId =
     chain (request c ''GET'' (tunnelConfigPath accountIdentifier tunnelId) None) (\<lambda>envelope.
     (case jprop envelope ''result'' of
        Some (JObj r) \<Rightarrow>
          (case jprop r ''config'' of
             Some (JObj g) \<Rightarrow>
               (case jprop g ''ingress'' of
                  Some (JArr rules) \<Rightarrow> each (\<lambda>v acc. chain (typed_rule v) (\<lambda>rule. give (acc @ [rule]))) rules []
                | _ \<Rightarrow> bad_gateway ''Cloudflare returned an invalid tunnel configuration.'')
           | _ \<Rightarrow> bad_gateway ''Cloudflare returned an invalid tunnel configuration.'')
      | _ \<Rightarrow> bad_gateway ''Cloudflare returned an invalid tunnel configuration.''))"

record CloudflareTunnelMetadata =
  metadata_id :: string
  metadata_accountIdentifier :: string
  metadata_deleted :: bool

definition metadata_of :: "jobj \<Rightarrow> string \<Rightarrow> CloudflareTunnelMetadata option" where
  "metadata_of envelope tunnelId =
     (case jprop envelope ''result'' of
        Some (JObj r) \<Rightarrow>
          (case (jprop r ''id'', jprop r ''account_tag'') of
             (Some (JStr i), Some (JStr account)) \<Rightarrow>
               let deleted_at = jprop r ''deleted_at''; absent = (deleted_at = None \<or> deleted_at = Some JNull) in
               if lower i \<noteq> lower tunnelId \<or> \<not> CLOUDFLARE_IDENTIFIER_PATTERN account \<or> \<not> (absent \<or> is_string deleted_at) then None
               else Some \<lparr>metadata_id = lower i, metadata_accountIdentifier = lower account, metadata_deleted = \<not> absent\<rparr>
           | _ \<Rightarrow> None)
      | _ \<Rightarrow> None)"

definition getTunnelMetadata :: "cf_client \<Rightarrow> string \<Rightarrow> string \<Rightarrow> CloudflareTunnelMetadata handler" where
  "getTunnelMetadata c accountIdentifier tunnelId =
     chain (request c ''GET'' (tunnelPath accountIdentifier tunnelId) None) (\<lambda>envelope.
     (case metadata_of envelope tunnelId of
        None \<Rightarrow> bad_gateway ''Cloudflare returned invalid tunnel metadata.'' | Some m \<Rightarrow> give m))"

definition token_in :: "jobj \<Rightarrow> string option" where
  "token_in envelope =
     (case jprop envelope ''result'' of
        Some (JStr t) \<Rightarrow> if length t < 48 \<or> 4096 < length t \<or> list_ex is_space t then None else Some t
      | _ \<Rightarrow> None)"

definition getTunnelToken :: "cf_client \<Rightarrow> string \<Rightarrow> string \<Rightarrow> string handler" where
  "getTunnelToken c accountIdentifier tunnelId =
     chain (request c ''GET'' (tunnelPath accountIdentifier tunnelId @ ''/token'') None) (\<lambda>envelope.
     (case token_in envelope of
        None \<Rightarrow> bad_gateway ''Cloudflare returned an invalid tunnel token.'' | Some t \<Rightarrow> give t))"

definition TUNNEL_ID_PATTERN :: "string \<Rightarrow> bool" where
  "TUNNEL_ID_PATTERN = all_of (\<lambda>c. is_hex c \<or> c = CHR ''-'') 36 36"

definition exact_tunnel :: "string \<Rightarrow> json \<Rightarrow> string list" where
  "exact_tunnel name v =
     (case v of
        JObj t \<Rightarrow>
          (case jprop t ''id'' of
             Some (JStr i) \<Rightarrow>
               if TUNNEL_ID_PATTERN i \<and> jprop t ''name'' = Some (JStr name) \<and> \<not> truthy (jprop t ''deleted_at'') then [lower i] else []
           | _ \<Rightarrow> [])
      | _ \<Rightarrow> [])"

definition findActiveTunnelByName :: "cf_client \<Rightarrow> string \<Rightarrow> string \<Rightarrow> string option handler" where
  "findActiveTunnelByName c accountIdentifier name =
     chain (request c ''GET'' (''/accounts/'' @ encodeURIComponent accountIdentifier @ ''/cfd_tunnel?''
       @ query [(''name'', name), (''is_deleted'', ''false''), (''per_page'', ''10'')]) None) (\<lambda>envelope.
     chain (result_array envelope ''Cloudflare returned an invalid tunnels response.'') (\<lambda>vs.
     (case concat (map (exact_tunnel name) vs) of
        [] \<Rightarrow> give None | [i] \<Rightarrow> give (Some i)
      | _ \<Rightarrow> bad_gateway ''Cloudflare returned duplicate managed tunnels.'')))"

text \<open>\<open>desiredName.toLowerCase().replace(/[^a-z0-9-]+/g, '-').replace(/^-+|-+$/g, '').slice(0, 100)\<close>\<close>

fun dash_runs :: "bool \<Rightarrow> string \<Rightarrow> string" where
  "dash_runs inside [] = []"
| "dash_runs inside (c # s) =
     (if is_lownum c \<or> c = CHR ''-'' then c # dash_runs False s
      else if inside then dash_runs True s else CHR ''-'' # dash_runs True s)"

definition strip_dashes :: "string \<Rightarrow> string" where
  "strip_dashes s = rev (dropWhile (\<lambda>c. c = CHR ''-'') (rev (dropWhile (\<lambda>c. c = CHR ''-'') s)))"

definition tunnel_name :: "string \<Rightarrow> string" where
  "tunnel_name desired = take 100 (strip_dashes (dash_runs False (lower desired)))"

definition createRemotelyManagedTunnel :: "cf_client \<Rightarrow> bytes \<Rightarrow> string \<Rightarrow> string \<Rightarrow> string handler" where
  "createRemotelyManagedTunnel c secret accountIdentifier desiredName =
     (let name = tunnel_name desiredName in
      if length name < 3 then throw (Cloudflare (cf_error ''The generated Cloudflare tunnel name is invalid.'' 400 None))
      else
        chain (request c ''POST'' (''/accounts/'' @ encodeURIComponent accountIdentifier @ ''/cfd_tunnel'')
          (Some (JObj [(''name'', JStr name), (''tunnel_secret'', JStr (base64 secret))]))) (\<lambda>envelope.
        (case jprop envelope ''result'' of
           Some (JObj r) \<Rightarrow>
             (case jprop r ''id'' of
                Some (JStr i) \<Rightarrow>
                  if TUNNEL_ID_PATTERN i \<and> jprop r ''name'' = Some (JStr name) then give (lower i)
                  else bad_gateway ''Cloudflare returned invalid tunnel metadata.''
              | _ \<Rightarrow> bad_gateway ''Cloudflare returned invalid tunnel metadata.'')
         | _ \<Rightarrow> bad_gateway ''Cloudflare returned invalid tunnel metadata.'')))"

definition putTunnelConfig :: "cf_client \<Rightarrow> string \<Rightarrow> string \<Rightarrow> ingress_rule list \<Rightarrow> unit handler" where
  "putTunnelConfig c accountIdentifier tunnelId ingress =
     chain (request c ''PUT'' (tunnelConfigPath accountIdentifier tunnelId)
       (Some (JObj [(''config'', JObj [(''ingress'', JArr (map rule_json ingress))])]))) (\<lambda>_. give ())"

section \<open>DNS records\<close>

record CloudflareDnsRecord =
  cfr_id :: string
  cfr_type :: RecordType
  cfr_name :: string
  cfr_content :: string
  cfr_proxied :: bool
  cfr_comment :: "string option"

definition type_text :: "RecordType \<Rightarrow> string" where
  "type_text t = (case t of RecA \<Rightarrow> ''A'' | RecAAAA \<Rightarrow> ''AAAA'' | RecCNAME \<Rightarrow> ''CNAME'')"

definition record_type :: "json option \<Rightarrow> RecordType option" where
  "record_type v = find (\<lambda>t. type_text t = js_String v) [RecA, RecAAAA, RecCNAME]"

definition dnsRecord :: "json option \<Rightarrow> string \<Rightarrow> CloudflareDnsRecord handler" where
  "dnsRecord v expectedHostname =
     (case v of
        Some (JObj r) \<Rightarrow>
          (case (jprop r ''id'', record_type (jprop r ''type''), jprop r ''name'', jprop r ''content'', jprop r ''proxied'') of
             (Some (JStr i), Some t, Some (JStr n), Some (JStr content), Some (JBool p)) \<Rightarrow>
               if lower n \<noteq> lower expectedHostname then bad_gateway ''Cloudflare returned an invalid DNS record.''
               else
                 (case jprop r ''comment'' of
                    None \<Rightarrow> give \<lparr>cfr_id = i, cfr_type = t, cfr_name = lower n, cfr_content = content, cfr_proxied = p, cfr_comment = None\<rparr>
                  | Some JNull \<Rightarrow> give \<lparr>cfr_id = i, cfr_type = t, cfr_name = lower n, cfr_content = content, cfr_proxied = p, cfr_comment = None\<rparr>
                  | Some (JStr m) \<Rightarrow>
                      give \<lparr>cfr_id = i, cfr_type = t, cfr_name = lower n, cfr_content = content, cfr_proxied = p, cfr_comment = Some m\<rparr>
                  | Some _ \<Rightarrow> bad_gateway ''Cloudflare returned an invalid DNS record comment.'')
           | _ \<Rightarrow> bad_gateway ''Cloudflare returned an invalid DNS record.'')
      | _ \<Rightarrow> bad_gateway ''Cloudflare returned an invalid DNS record.'')"

definition add_record :: "string \<Rightarrow> json \<Rightarrow> CloudflareDnsRecord list \<Rightarrow> CloudflareDnsRecord list handler" where
  "add_record hostname v records =
     (case v of
        JObj r \<Rightarrow>
          if record_type (jprop r ''type'') = None then give records
          else chain (dnsRecord (Some v) hostname) (\<lambda>d. give (records @ [d]))
      | _ \<Rightarrow> give records)"

fun dns_pages :: "cf_client \<Rightarrow> string \<Rightarrow> string \<Rightarrow> nat \<Rightarrow> nat \<Rightarrow> CloudflareDnsRecord list \<Rightarrow> CloudflareDnsRecord list handler" where
  "dns_pages c zoneIdentifier hostname 0 page records =
     bad_gateway (''Cloudflare DNS pagination exceeded the '' @ digits MAX_DNS_PAGES @ ''-page safety limit.'')"
| "dns_pages c zoneIdentifier hostname (Suc left) page records =
     chain (request c ''GET'' (dnsPath zoneIdentifier @ ''?'' @ query [(''name'', hostname), (''per_page'', ''100''), (''page'', digits page)]) None) (\<lambda>envelope.
     chain (result_array envelope ''Cloudflare returned an invalid DNS records response.'') (\<lambda>vs.
     chain (each (add_record hostname) vs records) (\<lambda>records'.
     (case total_pages envelope page of
        None \<Rightarrow> bad_gateway ''Cloudflare returned invalid DNS pagination metadata.''
      | Some n \<Rightarrow>
          if n < int page then bad_gateway ''Cloudflare returned invalid DNS pagination metadata.''
          else if n = int page then give records'
          else dns_pages c zoneIdentifier hostname left (page + 1) records'))))"

definition listDnsRecordsExact :: "cf_client \<Rightarrow> string \<Rightarrow> string \<Rightarrow> CloudflareDnsRecord list handler" where
  "listDnsRecordsExact c zoneIdentifier hostname = dns_pages c zoneIdentifier hostname MAX_DNS_PAGES 1 []"

definition createDnsRecord :: "cf_client \<Rightarrow> string \<Rightarrow> RecordType \<Rightarrow> string \<Rightarrow> string \<Rightarrow> bool \<Rightarrow> string \<Rightarrow> CloudflareDnsRecord handler" where
  "createDnsRecord c zoneIdentifier type hostname content proxied comment' =
     chain (request c ''POST'' (dnsPath zoneIdentifier) (Some (JObj
       [(''type'', JStr (type_text type)), (''name'', JStr hostname), (''content'', JStr content), (''proxied'', JBool proxied),
        (''ttl'', JNum 1), (''comment'', JStr comment')]))) (\<lambda>envelope.
     dnsRecord (jprop envelope ''result'') hostname)"

definition createDnsCname :: "cf_client \<Rightarrow> string \<Rightarrow> string \<Rightarrow> string \<Rightarrow> bool \<Rightarrow> string \<Rightarrow> CloudflareDnsRecord handler" where
  "createDnsCname c zoneIdentifier hostname tunnelId proxied comment' =
     createDnsRecord c zoneIdentifier RecCNAME hostname (tunnelId @ ''.cfargotunnel.com'') proxied comment'"

definition createDnsAddress :: "cf_client \<Rightarrow> string \<Rightarrow> RecordType \<Rightarrow> string \<Rightarrow> string \<Rightarrow> bool \<Rightarrow> string \<Rightarrow> CloudflareDnsRecord handler" where
  "createDnsAddress c zoneIdentifier type hostname content proxied comment' =
     createDnsRecord c zoneIdentifier type hostname content proxied comment'"

definition getDnsRecord :: "cf_client \<Rightarrow> string \<Rightarrow> string \<Rightarrow> string \<Rightarrow> CloudflareDnsRecord handler" where
  "getDnsRecord c zoneIdentifier dnsRecordId expectedHostname =
     chain (request c ''GET'' (dnsRecordPath zoneIdentifier dnsRecordId) None) (\<lambda>envelope.
     dnsRecord (jprop envelope ''result'') expectedHostname)"

definition deleteDnsRecord :: "cf_client \<Rightarrow> string \<Rightarrow> string \<Rightarrow> unit handler" where
  "deleteDnsRecord c zoneIdentifier dnsRecordId =
     chain (request c ''DELETE'' (dnsRecordPath zoneIdentifier dnsRecordId) None) (\<lambda>_. give ())"

section \<open>What a call sends\<close>

text \<open>At most \<open>n\<close> requests, all of a kind.\<close>

definition sends :: "(http_request \<Rightarrow> bool) \<Rightarrow> nat \<Rightarrow> 'a handler \<Rightarrow> bool" where
  "sends P n m \<longleftrightarrow> (\<forall>w. \<exists>rs. sent (snd (m w)) = sent w @ rs \<and> length rs \<le> n \<and> list_all P rs)"

lemma sends_give: "sends P 0 (give x)" and sends_throw: "sends P 0 (throw e)"
  by (simp_all add: sends_def give_def throw_def)

lemma sends_more: "sends P n m \<Longrightarrow> n \<le> k \<Longrightarrow> sends P k m"
  unfolding sends_def by (meson le_trans)

lemma sends_chain:
  assumes "sends P a m" "\<And>x. sends P b (f x)"
  shows "sends P (a + b) (chain m f)"
  unfolding sends_def
proof
  fix w
  obtain rs where rs: "sent (snd (m w)) = sent w @ rs" "length rs \<le> a" "list_all P rs" using assms(1) by (auto simp: sends_def)
  show "\<exists>rs. sent (snd (chain m f w)) = sent w @ rs \<and> length rs \<le> a + b \<and> list_all P rs"
  proof (cases "m w")
    case (Pair r w')
    show ?thesis
    proof (cases r)
      case (Inl e)
      with Pair rs show ?thesis by (auto simp: chain_def)
    next
      case (Inr x)
      obtain qs where "sent (snd (f x w')) = sent w' @ qs" "length qs \<le> b" "list_all P qs"
        using assms(2) [of x] by (auto simp: sends_def)
      with Pair Inr rs show ?thesis by (auto simp: chain_def intro: exI [of _ "rs @ qs"])
    qed
  qed
qed

lemma sends_each: "(\<And>x s. sends P 0 (f x s)) \<Longrightarrow> sends P 0 (each f xs s)"
proof (induction xs arbitrary: s)
  case (Cons x xs)
  then have "sends P (0 + 0) (chain (f x s) (\<lambda>s'. each f xs s'))" by (intro sends_chain) auto
  then show ?case by simp
qed (simp add: sends_give)

lemma sends_fetch: "P r \<Longrightarrow> sends P 1 (fetch r)"
  by (auto simp: sends_def fetch_def split: list.split)

lemma sends_if: "sends P n a \<Longrightarrow> sends P n b \<Longrightarrow> sends P n (if c then a else b)"
  by simp

lemma sends_bad_gateway: "sends P 0 (bad_gateway m)"
  by (simp add: bad_gateway_def sends_throw)

lemma sends_readEnvelope: "sends P 0 (readEnvelope b)"
  by (simp add: readEnvelope_def sends_bad_gateway sends_give split: option.split)

lemma sends_properties: "sends P 0 (properties v)"
  by (simp add: properties_def sends_throw sends_give split: json.split)

lemma sends_result_array: "sends P 0 (result_array v m)"
  by (simp add: result_array_def sends_bad_gateway sends_give split: option.split json.split)

lemma sends_request:
  assumes "P \<lparr>req_method = method', req_url = base_url c @ path, req_token = cf_token c, req_body = body\<rparr>"
  shows "sends P 1 (request c method' path body)"
proof -
  have "sends P (0 + 0) (chain (readEnvelope chunks) (\<lambda>v. chain (properties v) (\<lambda>envelope.
      if 200 \<le> status \<and> status < 300 \<and> jprop envelope ''success'' = Some (JBool True) then give envelope
      else throw (Cloudflare (cf_error (failed_text status (error_code envelope)) status (error_code envelope))))))" for chunks status
    by (intro sends_chain [of _ 0 _ 0, simplified] sends_chain sends_readEnvelope sends_properties) (simp_all add: sends_give sends_throw)
  then have "sends P (1 + 0) (request c method' path body)"
    unfolding request_def by (intro sends_chain sends_fetch assms) (simp_all add: sends_throw split: answer.split)
  then show ?thesis by simp
qed

section \<open>Lists of zones\<close>

definition valid_zone :: "CloudflareZoneResult \<Rightarrow> bool" where
  "valid_zone z \<longleftrightarrow> all_of is_lowhex 32 32 (zone_result_id z) \<and> isHostname (zone_result_name z)
     \<and> 1 \<le> length (zone_result_status z) \<and> length (zone_result_status z) \<le> 64"

definition zones_ok :: "CloudflareZoneResult list \<Rightarrow> bool" where
  "zones_ok zs \<longleftrightarrow> distinct (map zone_result_id zs) \<and> (\<forall>z \<in> set zs. valid_zone z)"

lemma lower_hex_text: "list_all is_hex s \<Longrightarrow> list_all is_lowhex (lower s)"
proof -
  have "is_hex c \<Longrightarrow> is_lowhex (lower_char c)" for c
    by (auto simp: char_classes lower_char_def Let_def)
  then show "list_all is_hex s \<Longrightarrow> list_all is_lowhex (lower s)" by (simp add: list_all_iff lower_def)
qed

lemma zone_of_valid: "zone_of v = Some z \<Longrightarrow> valid_zone z"
  by (auto simp: zone_of_def valid_zone_def CLOUDFLARE_IDENTIFIER_PATTERN_def all_of_def lower_hex_text
      split: json.splits option.splits if_splits) (simp_all add: lower_def)

lemma add_zone_Inr: "add_zone v zs w = (Inr zs', w') \<Longrightarrow> zones_ok zs \<Longrightarrow> zones_ok zs'"
  by (auto simp: add_zone_def bad_gateway_def throw_def give_def zones_ok_def split: option.splits if_splits dest: zone_of_valid)

lemma each_Inr:
  assumes "each f xs s w = (Inr t, w')" "I s" "\<And>x s w t w'. f x s w = (Inr t, w') \<Longrightarrow> I s \<Longrightarrow> I t"
  shows "I t"
  using assms(1,2)
proof (induction xs arbitrary: s w)
  case (Cons x xs)
  then show ?case by (auto simp: chain_def split: prod.splits sum.splits dest: assms(3))
qed (simp add: give_def)

lemma chain_InrE:
  assumes "chain m f w = (Inr y, w')"
  obtains x w1 where "m w = (Inr x, w1)" "f x w1 = (Inr y, w')"
  using assms by (auto simp: chain_def split: prod.splits sum.splits)

lemma zone_pages_ok:
  "zone_pages c account left page zs expected w = (Inr zs', w') \<Longrightarrow> zones_ok zs \<Longrightarrow> zones_ok zs'"
proof (induction c account left page zs expected arbitrary: w rule: zone_pages.induct)
  case (2 c account left page zs expected)
  from 2(2) obtain envelope zones' items w2 w3 where e: "each add_zone items zs w2 = (Inr zones', w3)"
    and r: "(if \<not> zone_pagination_ok envelope page expected then bad_gateway ''Cloudflare returned invalid zone pagination metadata.''
       else if total_pages envelope page = Some (int page) then give zones'
       else zone_pages c account left (page + 1) zones' (case expected of None \<Rightarrow> total_pages envelope page | Some m \<Rightarrow> Some m)) w3 = (Inr zs', w')"
    unfolding zone_pages.simps by (elim chain_InrE) (rule that; assumption)
  have ok: "zones_ok zones'"
    by (rule each_Inr [where I = zones_ok, OF e 2(3)]) (rule add_zone_Inr)
  show ?case
  proof (cases "zone_pagination_ok envelope page expected \<and> total_pages envelope page \<noteq> Some (int page)")
    case True
    with r 2(1) [OF _ _ _ ok] show ?thesis by auto
  next
    case False
    with r ok show ?thesis by (auto simp: bad_gateway_def throw_def give_def split: if_splits)
  qed
qed (simp add: bad_gateway_def throw_def)

text \<open>Every request of a listing is a \<open>GET\<close>, and there is one for each page that is read.\<close>

definition is_get :: "http_request \<Rightarrow> bool" where
  "is_get r \<longleftrightarrow> req_method r = ''GET'' \<and> req_body r = None"

lemma sends_get: "sends is_get 1 (request c ''GET'' path None)"
  by (rule sends_request) (simp add: is_get_def)

lemma sends_add_zone: "sends P 0 (add_zone v zs)"
  by (simp add: add_zone_def sends_bad_gateway sends_give split: option.split)

lemma sends_zone_pages: "sends is_get left (zone_pages c account left page zs expected)"
proof (induction left arbitrary: page zs expected)
  case (Suc left)
  have "sends is_get (1 + (0 + (0 + left))) (zone_pages c account (Suc left) page zs expected)"
    unfolding zone_pages.simps
    by (intro sends_chain sends_get sends_result_array sends_each sends_add_zone sends_if Suc
        sends_more [OF sends_bad_gateway] sends_more [OF sends_give]) simp_all
  then show ?case by simp
qed (simp add: sends_bad_gateway)

section \<open>Lists of DNS records\<close>

definition record_for :: "string \<Rightarrow> CloudflareDnsRecord \<Rightarrow> bool" where
  "record_for hostname r \<longleftrightarrow> cfr_name r = lower hostname"

lemma dnsRecord_Inr: "dnsRecord v h w = (Inr r, w') \<Longrightarrow> record_for h r \<and> w' = w"
  by (auto simp: dnsRecord_def record_for_def bad_gateway_def throw_def give_def split: option.splits json.splits if_splits)

lemma sends_dnsRecord: "sends P 0 (dnsRecord v h)"
  by (auto simp: dnsRecord_def sends_bad_gateway sends_give split: option.split json.split)

lemma sends_add_record: "sends P 0 (add_record h v rs)"
proof -
  have "sends P (0 + 0) (chain (dnsRecord u h) (\<lambda>d. give (rs @ [d])))" for u
    by (intro sends_chain sends_dnsRecord sends_give)
  then show ?thesis by (simp add: add_record_def sends_give split: json.split)
qed

lemma sends_option: "sends P n a \<Longrightarrow> (\<And>x. sends P n (f x)) \<Longrightarrow> sends P n (case v of None \<Rightarrow> a | Some x \<Rightarrow> f x)"
  by (cases v) simp_all

lemma sends_dns_pages: "sends is_get left (dns_pages c zone h left page rs)"
proof (induction left arbitrary: page rs)
  case (Suc left)
  have "sends is_get (1 + (0 + (0 + left))) (dns_pages c zone h (Suc left) page rs)"
    unfolding dns_pages.simps
    by (intro sends_chain sends_get sends_result_array sends_each sends_add_record sends_option sends_if Suc
        sends_more [OF sends_bad_gateway] sends_more [OF sends_give]) simp_all
  then show ?case by simp
qed (simp add: sends_bad_gateway)

lemma add_record_Inr:
  assumes "add_record h v rs w = (Inr rs', w')" "\<forall>r \<in> set rs. record_for h r"
  shows "\<forall>r \<in> set rs'. record_for h r"
proof (cases "\<exists>r w1. dnsRecord (Some v) h w = (Inr r, w1) \<and> rs' = rs @ [r]")
  case True
  with assms(2) show ?thesis by (auto dest: dnsRecord_Inr)
next
  case False
  with assms show ?thesis by (auto simp: add_record_def give_def split: json.splits if_splits elim!: chain_InrE)
qed

lemma dns_pages_ok:
  "dns_pages c zone h left page rs w = (Inr rs', w') \<Longrightarrow> \<forall>r \<in> set rs. record_for h r \<Longrightarrow> \<forall>r \<in> set rs'. record_for h r"
proof (induction c zone h left page rs arbitrary: w rule: dns_pages.induct)
  case (2 c zone h left page rs)
  from 2(2) obtain envelope records' items w2 w3 where e: "each (add_record h) items rs w2 = (Inr records', w3)"
    and r: "(case total_pages envelope page of
        None \<Rightarrow> bad_gateway ''Cloudflare returned invalid DNS pagination metadata.''
      | Some n \<Rightarrow>
          if n < int page then bad_gateway ''Cloudflare returned invalid DNS pagination metadata.''
          else if n = int page then give records'
          else dns_pages c zone h left (page + 1) records') w3 = (Inr rs', w')"
    unfolding dns_pages.simps by (elim chain_InrE) (rule that; assumption)
  have ok: "\<forall>r \<in> set records'. record_for h r"
    by (rule each_Inr [where I = "\<lambda>rs. \<forall>r \<in> set rs. record_for h r", OF e 2(3)]) (rule add_record_Inr)
  show ?case
  proof (cases "total_pages envelope page")
    case None
    with r show ?thesis by (simp add: bad_gateway_def throw_def)
  next
    case (Some n)
    show ?thesis
    proof (cases "int page < n")
      case True
      with r Some 2(1) [OF Some _ _ _ ok] show ?thesis by auto
    next
      case False
      with r Some ok show ?thesis by (auto simp: bad_gateway_def throw_def give_def split: if_splits)
    qed
  qed
qed (simp add: bad_gateway_def throw_def)

lemma listDnsRecordsExact_Inr: "listDnsRecordsExact c zone h w = (Inr rs, w') \<Longrightarrow> r \<in> set rs \<Longrightarrow> record_for h r"
  using dns_pages_ok unfolding listDnsRecordsExact_def by fastforce

section \<open>Properties\<close>

text \<open>C36. Listing the zones of an account always ends: it sends at most ten requests, all of them reads, whatever Cloudflare
  answers, and a list that it returns has no zone twice, and each with a canonical identifier, a host name and a
  status of at most 64 characters.\<close>

theorem zone_listings_are_bounded:
  "\<exists>rs. sent (snd (listZones c account w)) = sent w @ rs \<and> length rs \<le> 10 \<and> list_all is_get rs
    \<and> (\<forall>zs. fst (listZones c account w) = Inr zs \<longrightarrow> distinct (map zone_result_id zs) \<and> (\<forall>z \<in> set zs. valid_zone z))"
proof -
  obtain rs where "sent (snd (listZones c account w)) = sent w @ rs" "length rs \<le> MAX_ZONE_PAGES" "list_all is_get rs"
    using sends_zone_pages [of MAX_ZONE_PAGES c account 1 "[]" None] by (auto simp: sends_def listZones_def)
  moreover have "distinct (map zone_result_id zs) \<and> (\<forall>z \<in> set zs. valid_zone z)" if "fst (listZones c account w) = Inr zs" for zs
    using zone_pages_ok [of c account MAX_ZONE_PAGES 1 "[]" None w zs] that
    by (cases "listZones c account w") (auto simp: listZones_def zones_ok_def)
  ultimately show ?thesis by (auto simp: MAX_ZONE_PAGES_def)
qed

text \<open>A response to a request, given as the value of its JSON text.\<close>

definition json_answer :: "jobj \<Rightarrow> answer" where
  "json_answer envelope = Answer 200 (Some [utf8_bytes (JSON_stringify (JObj envelope))])"

lemma request_answered:
  assumes "answers w = (json_answer envelope, others) # later" "json_ok (JObj envelope)"
    "length (utf8_bytes (JSON_stringify (JObj envelope))) \<le> 262144" "jprop envelope ''success'' = Some (JBool True)"
  shows "request c method' path body w = (Inr envelope, w\<lparr>store := others (store w), answers := later,
    sent := sent w @ [\<lparr>req_method = method', req_url = base_url c @ path, req_token = cf_token c, req_body = body\<rparr>]\<rparr>)"
  using assms
  by (simp add: request_def chain_def fetch_def json_answer_def readEnvelope_def MAX_RESPONSE_BYTES_def json_of_bytes_def
      JSON_parse_stringify give_def properties_def del: JSON_stringify.simps)

definition zone_page :: jobj where
  "zone_page = [(''success'', JBool True), (''result'', JArr [JObj [(''id'', JStr (replicate 32 (CHR ''A''))), (''name'', JStr ''example.org''),
     (''status'', JStr ''active'')]]), (''result_info'', JObj [(''page'', JNum 1), (''total_pages'', JNum 1)])]"

definition zone_world :: world where
  "zone_world = \<lparr>store = empty_db, answers = [(json_answer zone_page, \<lambda>d. d)], sent = [], disk = [], pauses = [], drawn = 0\<rparr>"

theorem zone_listings_are_bounded_witness:
  "case listZones \<lparr>cf_token = ''t'', cf_fed = False\<rparr> ''a'' zone_world of
     (Inl _, _) \<Rightarrow> False | (Inr zs, w') \<Rightarrow> length (sent w') \<le> 10 \<and> map zone_result_id zs = [replicate 32 (CHR ''a'')] \<and> valid_zone (hd zs)"
proof -
  let ?c = "\<lparr>cf_token = ''t'', cf_fed = False\<rparr>"
  have "length (utf8_bytes (JSON_stringify (JObj zone_page))) < 300" "json_ok (JObj zone_page)" by code_simp+
  then obtain w1 where r: "request ?c ''GET'' path None zone_world = (Inr zone_page, w1 path)" for path
    using request_answered [of zone_world zone_page "\<lambda>d. d" "[]"] by (force simp: zone_world_def zone_page_def jprop_def)
  let ?item = "JObj [(''id'', JStr (replicate 32 (CHR ''A''))), (''name'', JStr ''example.org''), (''status'', JStr ''active'')]"
  have "case zone_of ?item of None \<Rightarrow> False | Some z \<Rightarrow> zone_result_id z = replicate 32 (CHR ''a'')" by code_simp
  then obtain z where z: "zone_of ?item = Some z" "zone_result_id z = replicate 32 (CHR ''a'')"
    by (cases "zone_of ?item") simp_all
  have info: "zone_pagination_ok zone_page 1 None" "total_pages zone_page 1 = Some 1" by code_simp+
  have res: "jprop zone_page ''result'' = Some (JArr [?item])" by (simp add: zone_page_def jprop_def)
  have "fst (listZones ?c ''a'' zone_world) = Inr [z]"
    using r z info res
    by (simp add: listZones_def MAX_ZONE_PAGES_def numeral_eq_Suc chain_def result_array_def give_def add_zone_def)
  with z zone_listings_are_bounded [of ?c "''a''" zone_world] show ?thesis
    by (cases "listZones ?c ''a'' zone_world") (auto simp: zone_world_def)
qed

end
