(* ===== verification/Gw_Trace.thy ===== *)
theory Gw_Trace
  imports Gw_CfClient
begin

text \<open>
  A small logic for handlers: what they return, what they send, and from which answers of the remote
  service it stems.
\<close>

section \<open>Triples\<close>

text \<open>
  A triple: a handler started in a world with \<open>I\<close> ends in one, and what it returns satisfies \<open>Q\<close>.
  The invariant here is on the outside: the answers still to come are among those of \<open>S\<close>, and what
  has been sent since \<open>s0\<close> satisfies \<open>P\<close>.
\<close>

named_theorems holds_rules \<open>triples of handlers, construct by construct\<close>

definition holds :: "(world \<Rightarrow> bool) \<Rightarrow> 'a handler \<Rightarrow> ('a \<Rightarrow> bool) \<Rightarrow> bool" where
  "holds I m Q \<longleftrightarrow> (\<forall>w. I w \<longrightarrow> I (snd (m w)) \<and> (\<forall>x. fst (m w) = Inr x \<longrightarrow> Q x))"

lemma holds_weaken: "holds I m Q \<Longrightarrow> (\<And>x. Q x \<Longrightarrow> R x) \<Longrightarrow> holds I m R"
  by (auto simp: holds_def)

lemma holds_give [holds_rules]: "Q x \<Longrightarrow> holds I (give x) Q"
  by (simp add: holds_def give_def)

lemma holds_throw [holds_rules]: "holds I (throw e) Q"
  by (simp add: holds_def throw_def)

lemma holds_bad_gateway [holds_rules]: "holds I (bad_gateway m) Q"
  by (simp add: bad_gateway_def holds_throw)

lemma holdsD: "holds I m Q \<Longrightarrow> I w \<Longrightarrow> m w = (r, w') \<Longrightarrow> I w' \<and> (\<forall>x. r = Inr x \<longrightarrow> Q x)"
  unfolding holds_def by (metis fst_conv snd_conv)

lemma holdsI:
  assumes "\<And>w r w'. I w \<Longrightarrow> m w = (r, w') \<Longrightarrow> I w' \<and> (\<forall>x. r = Inr x \<longrightarrow> Q x)"
  shows "holds I m Q"
  unfolding holds_def
proof (intro allI impI)
  fix w
  assume "I w"
  from assms [OF this prod.collapse [symmetric]] show "I (snd (m w)) \<and> (\<forall>x. fst (m w) = Inr x \<longrightarrow> Q x)" .
qed

lemma holds_chain:
  assumes "holds I m Q" "\<And>x. Q x \<Longrightarrow> holds I (f x) R"
  shows "holds I (chain m f) R"
proof (rule holdsI)
  fix w r w'
  assume w: "I w" and run: "chain m f w = (r, w')"
  obtain r1 w1 where m: "m w = (r1, w1)" by fastforce
  note first = holdsD [OF assms(1) w m]
  show "I w' \<and> (\<forall>x. r = Inr x \<longrightarrow> R x)"
  proof (cases r1)
    case (Inl e)
    with run m first show ?thesis by (auto simp: chain_def)
  next
    case (Inr x)
    with first have "Q x" "I w1" by simp_all
    with holdsD [OF assms(2)] run m Inr show ?thesis by (simp add: chain_def)
  qed
qed

lemma holds_then [holds_rules]: "holds I m (\<lambda>_. True) \<Longrightarrow> (\<And>x. holds I (f x) R) \<Longrightarrow> holds I (chain m f) R"
  by (rule holds_chain)

lemma holds_attempt [holds_rules]:
  assumes "holds I m Q" "\<And>e. holds I (h e) Q"
  shows "holds I (attempt m h) Q"
proof (rule holdsI)
  fix w r w'
  assume w: "I w" and run: "attempt m h w = (r, w')"
  obtain r1 w1 where m: "m w = (r1, w1)" by fastforce
  note first = holdsD [OF assms(1) w m]
  show "I w' \<and> (\<forall>x. r = Inr x \<longrightarrow> Q x)"
  proof (cases r1)
    case (Inl e)
    with holdsD [OF assms(2)] run m first show ?thesis by (simp add: attempt_def)
  next
    case (Inr x)
    with run m first show ?thesis by (auto simp: attempt_def)
  qed
qed

lemma holds_each:
  "(\<And>x t. x \<in> set xs \<Longrightarrow> T t \<Longrightarrow> holds I (f x t) T) \<Longrightarrow> T t \<Longrightarrow> holds I (each f xs t) T"
proof (induction xs arbitrary: t)
  case (Cons x xs)
  have "holds I (f x t) T" using Cons(2,3) by simp
  then have "holds I (chain (f x t) (\<lambda>t'. each f xs t')) T"
    by (rule holds_chain) (rule Cons(1), use Cons(2) in simp_all)
  then show ?case by simp
qed (simp add: holds_give)

lemma holds_if [holds_rules]: "(c \<Longrightarrow> holds I a Q) \<Longrightarrow> (\<not> c \<Longrightarrow> holds I b Q) \<Longrightarrow> holds I (if c then a else b) Q"
  by simp

lemma holds_option [holds_rules]:
  "(v = None \<Longrightarrow> holds I a Q) \<Longrightarrow> (\<And>x. v = Some x \<Longrightarrow> holds I (f x) Q) \<Longrightarrow> holds I (case v of None \<Rightarrow> a | Some x \<Rightarrow> f x) Q"
  by (cases v) simp_all

lemma holds_require: "holds I (require ok e) (\<lambda>_. ok)"
  by (simp add: require_def holds_give holds_throw)

definition traced :: "(answer \<times> (db \<Rightarrow> db)) set \<Rightarrow> (http_request \<Rightarrow> bool) \<Rightarrow> http_request list \<Rightarrow> world \<Rightarrow> bool" where
  "traced S P s0 w \<longleftrightarrow> set (answers w) \<subseteq> S \<and> (\<exists>rs. sent w = s0 @ rs \<and> list_all P rs)"

lemma holds_reads [holds_rules]: "holds (traced S P s0) (reads f) (\<lambda>_. True)"
  by (simp add: holds_def reads_def)

lemma holds_writes [holds_rules]: "holds (traced S P s0) (writes f) (\<lambda>_. True)"
  by (simp add: holds_def writes_def traced_def split: prod.split)

lemma holds_tries [holds_rules]: "holds (traced S P s0) (tries f) (\<lambda>_. True)"
  by (simp add: holds_def tries_def traced_def split: prod.split sum.split)

lemma holds_fetch: "P r \<Longrightarrow> holds (traced S P s0) (fetch r) (\<lambda>a. a = Unreachable \<or> a \<in> fst ` S)"
  unfolding holds_def fetch_def traced_def by (force split: list.split)

text \<open>The object that an answer carries.\<close>

definition envelope_of :: "answer \<Rightarrow> jobj option" where
  "envelope_of a =
     (case a of
        Answer status (Some chunks) \<Rightarrow>
          (case Option.bind (read_chunks MAX_RESPONSE_BYTES 0 chunks) json_of_bytes of Some (JObj kvs) \<Rightarrow> Some kvs | _ \<Rightarrow> None)
      | _ \<Rightarrow> None)"

lemma holds_envelope:
  "holds I (chain (readEnvelope chunks) (\<lambda>v. chain (properties v) (\<lambda>envelope.
      if 200 \<le> status \<and> status < 300 \<and> jprop envelope ''success'' = Some (JBool True) then give envelope else throw (g envelope))))
    (\<lambda>envelope. envelope_of (Answer status chunks) = Some envelope)"
  by (auto simp: holds_def chain_def readEnvelope_def properties_def bad_gateway_def throw_def give_def envelope_of_def jprop_def
      split: option.splits json.splits)

lemma holds_request:
  assumes "P \<lparr>req_method = method', req_url = base_url c @ path, req_token = cf_token c, req_body = body\<rparr>"
  shows "holds (traced S P s0) (request c method' path body) (\<lambda>envelope. \<exists>a \<in> fst ` S. envelope_of a = Some envelope)"
  unfolding request_def
proof (rule holds_chain, rule holds_fetch, rule assms)
  fix a
  assume a: "a = Unreachable \<or> a \<in> fst ` S"
  show "holds (traced S P s0) (case a of
        Unreachable \<Rightarrow> throw (Cloudflare (cf_error ''Cloudflare could not be reached.'' 0 None))
      | Answer status chunks \<Rightarrow>
          chain (readEnvelope chunks) (\<lambda>v.
          chain (properties v) (\<lambda>envelope.
            if 200 \<le> status \<and> status < 300 \<and> jprop envelope ''success'' = Some (JBool True) then give envelope
            else throw (Cloudflare (cf_error (failed_text status (error_code envelope)) status (error_code envelope))))))
    (\<lambda>envelope. \<exists>a \<in> fst ` S. envelope_of a = Some envelope)"
  proof (cases a)
    case (Answer status chunks)
    show ?thesis
      unfolding Answer answer.case by (rule holds_weaken [OF holds_envelope]) (use a Answer in \<open>metis answer.distinct(1)\<close>)
  qed (simp add: holds_throw)
qed

end
