(* ===== verification/Gw_Token.thy ===== *)
theory Gw_Token
  imports Gw_Json Gw_Crypto "HOL-Library.Multiset"
begin

text \<open>
  The connector token of a Cloudflare tunnel (cloudflare-tunnel-token.ts): canonical base64 of a
  JSON object with the account, the tunnel, the secret and perhaps the endpoint, no key twice. The
  one error of the module is \<^const>\<open>None\<close>; SHA-256 is a parameter. A token whose text has a unit
  above 255 or a numeral is refused by the code as well, so that the bounds of the JSON parser of
  the model do not show.
\<close>

datatype endpoint = Fed | Us

record TunnelToken =
  token_accountIdentifier :: string
  token_tunnelId :: string
  token_secretFingerprint :: string
  token_endpoint :: "endpoint option"
  token_secretMaterial :: bytes

definition publicTunnelTokenIdentity :: "TunnelToken \<Rightarrow> string \<times> string \<times> string \<times> endpoint option" where
  "publicTunnelTokenIdentity p = (token_accountIdentifier p, token_tunnelId p, token_secretFingerprint p, token_endpoint p)"

section \<open>Canonical base64\<close>

definition base64_char :: "char \<Rightarrow> bool" where
  "base64_char c \<longleftrightarrow> is_alnum c \<or> c = CHR ''+'' \<or> c = CHR ''/''"

text \<open>\<open>/^(?:[A-Za-z0-9+/]{4})*(?:[A-Za-z0-9+/]{2}==|[A-Za-z0-9+/]{3}=)?$/\<close>\<close>

fun BASE64_PATTERN :: "string \<Rightarrow> bool" where
  "BASE64_PATTERN [] \<longleftrightarrow> True"
| "BASE64_PATTERN (a # b # c # d # s) \<longleftrightarrow>
     base64_char a \<and> base64_char b
     \<and> (base64_char c \<and> base64_char d \<and> BASE64_PATTERN s
        \<or> s = [] \<and> d = CHR ''='' \<and> (c = CHR ''='' \<or> base64_char c))"
| "BASE64_PATTERN _ \<longleftrightarrow> False"

definition decodeCanonicalBase64 :: "string \<Rightarrow> nat \<Rightarrow> nat \<Rightarrow> bytes option" where
  "decodeCanonicalBase64 v minBytes maxBytes =
     (if v = [] \<or> (maxBytes + 2) div 3 * 4 < length v \<or> \<not> BASE64_PATTERN v then None
      else (let decoded = Buffer_from_base64 v in
            if length decoded < minBytes \<or> maxBytes < length decoded \<or> base64 decoded \<noteq> v then None else Some decoded))"

section \<open>The keys as they are written\<close>

text \<open>\<open>/"(?:[^"\\]|\\.)*"\s*:/g\<close>: what follows the opening quote, up to the closing one.\<close>

fun key_body :: "string \<Rightarrow> (string \<times> string) option" where
  "key_body [] = None"
| "key_body (c # s) =
     (if c = CHR 0x22 then Some ([], s)
      else if c = CHR 0x5C then
        (case s of
           [] \<Rightarrow> None
         | d # t \<Rightarrow> if d = CHR 0x0A \<or> d = CHR 0x0D then None else map_option (\<lambda>(u, r). (c # d # u, r)) (key_body t))
      else map_option (\<lambda>(u, r). (c # u, r)) (key_body s))"

text \<open>The key of a match that starts here, and what follows the colon.\<close>

definition key_match :: "string \<Rightarrow> (string \<times> string) option" where
  "key_match s =
     (case s of
        [] \<Rightarrow> None
      | q # t \<Rightarrow>
          if q \<noteq> CHR 0x22 then None
          else
            (case key_body t of
               None \<Rightarrow> None
             | Some (k, r) \<Rightarrow>
                 (case dropWhile is_space r of
                    [] \<Rightarrow> None
                  | c # rest \<Rightarrow> if c = CHR '':'' then Some (q # k @ [q], rest) else None)))"

lemma key_body_shorter: "key_body s = Some (k, r) \<Longrightarrow> length r < length s"
proof (induction s arbitrary: k r rule: key_body.induct)
  case (2 c s)
  then show ?case by (fastforce split: if_splits list.splits)
qed simp

lemma key_match_shorter: "key_match s = Some (k, r) \<Longrightarrow> length r < length s"
proof -
  assume "key_match s = Some (k, r)"
  then obtain q t k' r' c where s: "s = q # t" "key_body t = Some (k', r')" "dropWhile is_space r' = c # r"
    by (auto simp: key_match_def split: list.splits if_splits option.splits)
  then have "length r < length r'" using length_dropWhile_le [of is_space r'] by simp
  with key_body_shorter [OF s(2)] s(1) show ?thesis by simp
qed

function serialized_keys :: "string \<Rightarrow> string list" where
  "serialized_keys s =
     (case s of
        [] \<Rightarrow> []
      | c # t \<Rightarrow> (case key_match s of Some (k, r) \<Rightarrow> k # serialized_keys r | None \<Rightarrow> serialized_keys t))"
  by pat_completeness auto
termination
  by (relation "measure length") (auto dest: key_match_shorter)

declare serialized_keys.simps [simp del]

section \<open>The token\<close>

definition quoted_key :: "string \<Rightarrow> string" where
  "quoted_key k = CHR 0x22 # k @ [CHR 0x22]"

definition token_keys :: "string list" where
  "token_keys = map quoted_key [''a'', ''e'', ''s'', ''t'']"

definition endpoint_of :: "json option \<Rightarrow> endpoint option option" where
  "endpoint_of v =
     (case v of
        None \<Rightarrow> Some None
      | Some (JStr s) \<Rightarrow> if s = ''fed'' then Some (Some Fed) else if s = ''us'' then Some (Some Us) else None
      | Some _ \<Rightarrow> None)"

definition token_of_object :: "(bytes \<Rightarrow> string) \<Rightarrow> jobj \<Rightarrow> TunnelToken option" where
  "token_of_object sha256 record' =
     (case (jprop record' ''a'', jprop record' ''t'', jprop record' ''s'', endpoint_of (jprop record' ''e'')) of
        (Some (JStr a), Some (JStr t), Some (JStr s), Some endpoint') \<Rightarrow>
          if \<not> all_of is_lowhex 32 32 a \<or> \<not> uuid_shape t then None
          else map_option (\<lambda>secret. \<lparr>token_accountIdentifier = a, token_tunnelId = lower t, token_secretFingerprint = sha256 secret,
                 token_endpoint = endpoint', token_secretMaterial = secret\<rparr>) (decodeCanonicalBase64 s 16 1024)
      | _ \<Rightarrow> None)"

definition token_of_text :: "(bytes \<Rightarrow> string) \<Rightarrow> string \<Rightarrow> TunnelToken option" where
  "token_of_text sha256 text =
     (case JSON_parse text of
        Some (JObj record') \<Rightarrow>
          let keys = sort (map fst record'); written = serialized_keys text in
          if length written \<noteq> length keys \<or> \<not> list_all (\<lambda>k. k \<in> set token_keys) written
             \<or> keys \<noteq> [''a'', ''s'', ''t''] \<and> keys \<noteq> [''a'', ''e'', ''s'', ''t'']
          then None else token_of_object sha256 record'
      | _ \<Rightarrow> None)"

definition parseCloudflareTunnelToken :: "(bytes \<Rightarrow> string) \<Rightarrow> string \<Rightarrow> TunnelToken option" where
  "parseCloudflareTunnelToken sha256 token =
     (if length token < 48 \<or> 4096 < length token \<or> list_ex is_space token then None
      else
        (case decodeCanonicalBase64 token 2 3072 of
           None \<Rightarrow> None
         | Some decoded \<Rightarrow>
             (case utf8_text decoded of
                None \<Rightarrow> None
              | Some text \<Rightarrow> if utf8_bytes text \<noteq> decoded then None else token_of_text sha256 text)))"

section \<open>Reading what was written\<close>

text \<open>A character that can stand in a member of a token.\<close>

definition token_char :: "char \<Rightarrow> bool" where
  "token_char c \<longleftrightarrow> base64_char c \<or> c = CHR ''='' \<or> c = CHR ''-''"

lemma token_char_codes: "token_char c \<Longrightarrow> 42 < code c \<and> code c < 128 \<and> code c \<noteq> 92"
proof -
  assume "token_char c"
  then consider "is_alnum c" | "c \<in> {CHR ''+'', CHR ''/'', CHR ''='', CHR ''-''}"
    by (auto simp: token_char_def base64_char_def)
  then show ?thesis by cases (auto simp: char_classes)
qed

lemma token_charD: "token_char c \<Longrightarrow> c \<noteq> CHR 0x22 \<and> c \<noteq> CHR 0x5C \<and> \<not> is_space c \<and> escape_char c = [c]"
proof -
  assume "token_char c"
  note code' = token_char_codes [OF this]
  then have "c \<noteq> CHR 0x22" "c \<noteq> CHR 0x5C" "c \<noteq> CHR 0x08" "c \<noteq> CHR 0x09" "c \<noteq> CHR 0x0A" "c \<noteq> CHR 0x0C" "c \<noteq> CHR 0x0D"
    by (auto simp: code_def)
  moreover have "\<not> is_space c" using code' by (auto simp: char_classes)
  ultimately show ?thesis using code' by (simp add: escape_char_def)
qed

lemma token_text_plain: "list_all token_char s \<Longrightarrow> quote_string s = quoted_key s"
proof -
  assume "list_all token_char s"
  then have "concat (map escape_char s) = s" by (induction s) (simp_all add: token_charD)
  then show ?thesis by (simp add: quote_string_def quoted_key_def)
qed

lemma sextet_char_base64: "n < 64 \<Longrightarrow> base64_char (sextet_char n)"
proof -
  assume "n < 64"
  then consider "n < 26" | "26 \<le> n" "n < 52" | "52 \<le> n" "n < 62" | "n = 62" | "n = 63" by linarith
  then show ?thesis
  proof cases
    case 3
    then have "48 \<le> n - 4" "n - 4 \<le> 57" by linarith+
    with 3 show ?thesis by (simp add: base64_char_def sextet_char_def char_classes)
  qed (simp_all add: base64_char_def sextet_char_def char_classes base64_signs)
qed

lemma base64_is_canonical: "bytes_ok bs \<Longrightarrow> BASE64_PATTERN (base64 bs) \<and> list_all token_char (base64 bs)"
proof (induction bs rule: base64.induct)
  case (2 a)
  then show ?case
    using sextet_bounds(1) [of a] sextet_bounds(2) [of 0 a]
    by (simp add: bytes_ok_def token_char_def sextet_char_base64)
next
  case (3 a b)
  then show ?case
    using sextet_bounds(1) [of a] sextet_bounds(2) [of b a] sextet_bounds(3) [of 0 b]
    by (simp add: bytes_ok_def token_char_def sextet_char_base64)
next
  case (4 a b c r)
  then have ok: "a < 256" "b < 256" "c < 256" and r: "bytes_ok r" by (simp_all add: bytes_ok_def)
  then show ?case
    using sextet_bounds(1) [of a] sextet_bounds(2) [of b a] sextet_bounds(3) [of c b] 4(1) [OF r]
    by (simp add: token_char_def sextet_char_base64)
qed simp

lemma decode_base64:
  assumes "bytes_ok bs" "bs \<noteq> []" "lo \<le> length bs" "length bs \<le> hi"
  shows "decodeCanonicalBase64 (base64 bs) lo hi = Some bs"
proof -
  have "base64 bs \<noteq> []" using assms(2) by (cases bs rule: base64.cases) simp_all
  moreover have "length (base64 bs) \<le> (hi + 2) div 3 * 4"
    using assms(4) by (simp add: length_base64 div_le_mono)
  ultimately show ?thesis
    using assms base64_is_canonical [OF assms(1)] by (simp add: decodeCanonicalBase64_def not_less [symmetric])
qed

lemma key_body_plain: "list_all token_char k \<Longrightarrow> key_body (k @ CHR 0x22 # r) = Some (k, r)"
  by (induction k) (simp_all add: token_charD)

lemma serialized_keys_skip: "list_all token_char v \<Longrightarrow> serialized_keys (v @ r) = serialized_keys r"
proof (induction v)
  case (Cons c v)
  then have "key_match (c # v @ r) = None" by (simp add: key_match_def token_charD)
  with Cons show ?case by (subst serialized_keys.simps) simp
qed simp

lemma serialized_keys_char: "key_match (c # s) = None \<Longrightarrow> serialized_keys (c # s) = serialized_keys s"
  by (subst serialized_keys.simps) simp

lemma serialized_keys_member:
  assumes "list_all token_char k" "list_all token_char v" "e = CHR '','' \<or> e = CHR ''}''" "key_match (CHR 0x22 # e # r) = None"
  shows "serialized_keys (quoted_key k @ CHR '':'' # quoted_key v @ e # r) = quoted_key k # serialized_keys (e # r)"
proof -
  have colon: "\<not> is_space (CHR '':'')" "\<not> is_space (CHR 0x22)" "\<not> is_space e" "e \<noteq> CHR '':''"
    using assms(3) by (auto simp: char_classes)
  have "key_match (quoted_key k @ CHR '':'' # quoted_key v @ e # r) = Some (quoted_key k, quoted_key v @ e # r)"
    using assms(1) colon by (simp add: quoted_key_def key_match_def key_body_plain)
  then have "serialized_keys (quoted_key k @ CHR '':'' # quoted_key v @ e # r) = quoted_key k # serialized_keys (quoted_key v @ e # r)"
    by (subst serialized_keys.simps) (simp add: quoted_key_def)
  also have "serialized_keys (quoted_key v @ e # r) = serialized_keys (v @ CHR 0x22 # e # r)"
    using assms(2) colon by (simp add: quoted_key_def, subst serialized_keys_char) (simp_all add: key_match_def key_body_plain)
  also have "\<dots> = serialized_keys (e # r)"
    by (simp add: serialized_keys_skip [OF assms(2)] serialized_keys_char [OF assms(4)])
  finally show ?thesis .
qed

text \<open>The text of an object whose members are texts of such characters.\<close>

definition plain_members :: "(string \<times> string) list \<Rightarrow> bool" where
  "plain_members kvs \<longleftrightarrow> (\<forall>(k, v) \<in> set kvs. list_all token_char k \<and> list_all token_char v)"

lemma key_match_between: "list_all token_char k \<Longrightarrow> k \<noteq> [] \<Longrightarrow> key_match (CHR 0x22 # CHR '','' # quoted_key k @ r) = None"
proof -
  assume k: "list_all token_char k" "k \<noteq> []"
  then obtain c k' where "k = c # k'" "token_char c" by (cases k) auto
  moreover from this have "c \<noteq> CHR '':''" by (auto simp: token_char_def base64_char_def char_classes)
  ultimately show ?thesis by (simp add: key_match_def quoted_key_def token_charD)
qed

lemma serialized_keys_punctuation [simp]:
  "serialized_keys (CHR '','' # s) = serialized_keys s" "serialized_keys (CHR ''{'' # s) = serialized_keys s"
  "serialized_keys ''}'' = []"
  by (subst serialized_keys.simps, simp add: key_match_def serialized_keys.simps [of "[]"])+

lemma serialized_keys_members:
  assumes "kvs \<noteq> []" "plain_members kvs" "\<forall>(k, v) \<in> set kvs. k \<noteq> []"
  shows "serialized_keys (intercalate '','' (map (\<lambda>(k, v). quoted_key k @ CHR '':'' # quoted_key v) kvs) @ ''}'') = map (quoted_key \<circ> fst) kvs"
  using assms
proof (induction kvs rule: induct_list012)
  case (2 x)
  obtain k v where x: "x = (k, v)" by fastforce
  with 2 have "list_all token_char k" "list_all token_char v" by (simp_all add: plain_members_def)
  from serialized_keys_member [OF this, of "CHR ''}''" "[]"] x show ?case by (simp add: key_match_def)
next
  case (3 x y kvs)
  obtain k v l w where x: "x = (k, v)" "y = (l, w)" by fastforce
  with 3 have p: "list_all token_char k" "list_all token_char v" "list_all token_char l" "l \<noteq> []"
    by (simp_all add: plain_members_def)
  obtain tail where tail: "intercalate '','' (map (\<lambda>(k, v). quoted_key k @ CHR '':'' # quoted_key v) (y # kvs)) @ ''}'' = quoted_key l @ tail"
    using x(2) by (cases kvs) auto
  have "serialized_keys (quoted_key l @ tail) = map (quoted_key \<circ> fst) (y # kvs)"
    using 3 by (simp add: plain_members_def tail [symmetric])
  with serialized_keys_member [OF p(1,2), of "CHR '',''" "quoted_key l @ tail"] key_match_between [OF p(3,4)] x tail
  show ?case by simp
qed simp

lemma set_intercalate: "c \<in> set (intercalate [s] ps) \<Longrightarrow> c = s \<or> (\<exists>p \<in> set ps. c \<in> set p)"
  by (induction "[s]" ps rule: intercalate.induct) auto

lemma uuid_shape_chars: "uuid_shape t \<Longrightarrow> c \<in> set t \<Longrightarrow> is_lowhex c \<or> c = CHR ''-''"
proof -
  assume u: "uuid_shape t" and "c \<in> set t"
  then have "c = CHR ''-'' \<or> (\<exists>p \<in> set (split_on (CHR ''-'') t). c \<in> set p)"
    by (intro set_intercalate) simp
  moreover obtain a b v n e where parts: "split_on (CHR ''-'') t = [a, b, v, n, e]"
    "all_of is_lowhex 8 8 a" "all_of is_lowhex 4 4 b" "named (between 49 53) is_lowhex 3 3 v"
    "named (\<lambda>x. x \<in> set ''89ab'') is_lowhex 3 3 n" "all_of is_lowhex 12 12 e"
    using u by (auto simp: uuid_shape_def split: list.splits)
  moreover have "between 49 53 c \<Longrightarrow> is_lowhex c" "c \<in> set ''89ab'' \<Longrightarrow> is_lowhex c" by (auto simp: char_classes)
  ultimately show ?thesis
    by (auto simp: all_of_def list_all_iff dest!: named_chars)
qed

lemma length_intercalate: "ps \<noteq> [] \<Longrightarrow> length (intercalate [s] ps) + 1 = (\<Sum>p\<leftarrow>ps. length p + 1)"
  by (induction "[s]" ps rule: intercalate.induct) auto

lemma uuid_shape_length: "uuid_shape t \<Longrightarrow> length t = 36"
proof -
  assume u: "uuid_shape t"
  then obtain a b v n e where parts: "split_on (CHR ''-'') t = [a, b, v, n, e]"
    "all_of is_lowhex 8 8 a" "all_of is_lowhex 4 4 b" "named (between 49 53) is_lowhex 3 3 v"
    "named (\<lambda>x. x \<in> set ''89ab'') is_lowhex 3 3 n" "all_of is_lowhex 12 12 e"
    by (auto simp: uuid_shape_def split: list.splits)
  have "length (intercalate [CHR ''-''] [a, b, v, n, e]) = 36"
    using parts(2-) by (auto simp: all_of_def named_def split: list.splits)
  then show ?thesis by (simp add: parts(1) [symmetric])
qed

section \<open>Property\<close>

text \<open>What Cloudflare puts into a token, and the token: the object written in any order, as base64.\<close>

definition endpoint_text :: "endpoint \<Rightarrow> string" where
  "endpoint_text e = (case e of Fed \<Rightarrow> ''fed'' | Us \<Rightarrow> ''us'')"

definition token_members :: "string \<Rightarrow> string \<Rightarrow> bytes \<Rightarrow> endpoint option \<Rightarrow> (string \<times> string) list" where
  "token_members a t secret e = [(''a'', a), (''t'', t), (''s'', base64 secret)]
     @ (case e of None \<Rightarrow> [] | Some x \<Rightarrow> [(''e'', endpoint_text x)])"

definition issued_token :: "(string \<times> string) list \<Rightarrow> string" where
  "issued_token kvs = base64 (utf8_bytes (JSON_stringify (JObj (map (\<lambda>(k, v). (k, JStr v)) kvs))))"

lemma plain_object_text:
  assumes "plain_members kvs"
  shows "JSON_stringify (JObj (map (\<lambda>(k, v). (k, JStr v)) kvs))
    = CHR ''{'' # intercalate '','' (map (\<lambda>(k, v). quoted_key k @ CHR '':'' # quoted_key v) kvs) @ ''}''"
proof -
  have "map member_text (map (\<lambda>(k, v). (k, JStr v)) kvs) = map (\<lambda>(k, v). quoted_key k @ CHR '':'' # quoted_key v) kvs"
    using assms by (auto simp: plain_members_def member_text_def token_text_plain)
  then show ?thesis by (simp only: stringify_object)
qed

lemma utf8_bytes_length: "length s \<le> length (utf8_bytes s) \<and> length (utf8_bytes s) \<le> 2 * length s"
  by (induction s) (auto simp: utf8_bytes_def)

lemma plain_object_length:
  assumes "plain_members kvs" "kvs \<noteq> []"
  shows "length (JSON_stringify (JObj (map (\<lambda>(k, v). (k, JStr v)) kvs))) = 1 + (\<Sum>(k, v)\<leftarrow>kvs. length k + length v + 6)"
proof -
  let ?ps = "map (\<lambda>(k, v). quoted_key k @ CHR '':'' # quoted_key v) kvs"
  have "length (intercalate '','' ?ps) + 1 = (\<Sum>p\<leftarrow>?ps. length p + 1)" using assms(2) by (intro length_intercalate) simp
  also have "\<dots> = (\<Sum>(k, v)\<leftarrow>kvs. length k + length v + 6)"
    by (induction kvs) (auto simp: quoted_key_def)
  finally show ?thesis unfolding plain_object_text [OF assms(1)] by simp
qed

lemma token_members_plain:
  assumes "all_of is_lowhex 32 32 a" "uuid_shape t" "bytes_ok secret"
  shows "plain_members (token_members a t secret e)"
proof -
  have hex: "is_lowhex c \<Longrightarrow> token_char c" for c by (auto simp: token_char_def base64_char_def char_classes)
  have "list_all token_char a" using assms(1) hex by (auto simp: all_of_def list_all_iff)
  moreover have "list_all token_char t"
    using uuid_shape_chars [OF assms(2)] hex by (auto simp: list_all_iff token_char_def)
  moreover have "list_all token_char ''a''" "list_all token_char ''t''" "list_all token_char ''s''" "list_all token_char ''e''"
    "list_all token_char ''fed''" "list_all token_char ''us''"
    by (simp_all add: token_char_def base64_char_def char_classes)
  moreover have "list_all token_char (base64 secret)" using base64_is_canonical [OF assms(3)] by (rule conjunct2)
  ultimately show ?thesis
    by (cases e) (auto simp: plain_members_def token_members_def endpoint_text_def split: endpoint.splits)
qed

lemma lower_lowhex: "is_lowhex c \<or> c = CHR ''-'' \<Longrightarrow> lower_char c = c"
  by (auto simp: lower_char_def char_classes)

text \<open>What is read from the members of a token, in any order.\<close>

lemma token_keys_sorted:
  "mset ks = mset (map fst (token_members a t secret e)) \<Longrightarrow>
    sort ks = (case e of None \<Rightarrow> [''a'', ''s'', ''t''] | Some _ \<Rightarrow> [''a'', ''e'', ''s'', ''t''])"
proof -
  assume ks: "mset ks = mset (map fst (token_members a t secret e))"
  let ?s = "case e of None \<Rightarrow> [''a'', ''s'', ''t''] | Some _ \<Rightarrow> [''a'', ''e'', ''s'', ''t'']"
  have "sorted [''a'', ''s'', ''t'']" "sorted [''a'', ''e'', ''s'', ''t'']" by code_simp+
  then have "sorted ?s" by (simp split: option.split)
  moreover have "mset ?s = mset ks" unfolding ks by (simp add: token_members_def split: option.split)
  ultimately show ?thesis using properties_for_sort [of ?s ks] by simp
qed

lemma token_of_issued:
  assumes "all_of is_lowhex 32 32 a" "uuid_shape t" "bytes_ok secret" "16 \<le> length secret" "length secret \<le> 1024"
    and "set kvs = set (token_members a t secret e)" "distinct (map fst kvs)"
    and "mset (map fst kvs) = mset (map fst (token_members a t secret e))"
    and "JSON_parse text = Some (JObj (map (\<lambda>(k, v). (k, JStr v)) kvs))" "serialized_keys text = map (quoted_key \<circ> fst) kvs"
  shows "token_of_text sha256 text =
    Some \<lparr>token_accountIdentifier = a, token_tunnelId = t, token_secretFingerprint = sha256 secret, token_endpoint = e,
      token_secretMaterial = secret\<rparr>"
proof -
  let ?obj = "map (\<lambda>(k, v). (k, JStr v)) kvs"
  have fsts: "map fst ?obj = map fst kvs" by (simp add: comp_def case_prod_unfold)
  have member: "jprop ?obj k = Some (JStr v)" if "(k, v) \<in> set (token_members a t secret e)" for k v
    unfolding jprop_def using that assms(6,7) by (intro map_of_is_SomeI) (simp only: fsts, force)
  have "jprop ?obj ''e'' = map_option (JStr \<circ> endpoint_text) e"
  proof (cases e)
    case None
    then have "''e'' \<notin> fst ` set kvs" by (auto simp: assms(6) token_members_def)
    with None show ?thesis by (auto simp: jprop_def map_of_eq_None_iff image_image case_prod_unfold)
  next
    case (Some x)
    then show ?thesis by (simp add: member token_members_def)
  qed
  then have e: "endpoint_of (jprop ?obj ''e'') = Some e"
    by (simp add: endpoint_of_def endpoint_text_def split: option.split endpoint.split)
  have "lower t = t"
    unfolding lower_def using uuid_shape_chars [OF assms(2)]
    by (intro map_idI) (simp add: lower_lowhex)
  moreover have "decodeCanonicalBase64 (base64 secret) 16 1024 = Some secret" using assms(3-5) by (intro decode_base64) auto
  moreover have "jprop ?obj ''a'' = Some (JStr a)" "jprop ?obj ''t'' = Some (JStr t)" "jprop ?obj ''s'' = Some (JStr (base64 secret))"
    by (simp_all add: member token_members_def)
  ultimately have "token_of_object sha256 ?obj = Some \<lparr>token_accountIdentifier = a, token_tunnelId = t,
      token_secretFingerprint = sha256 secret, token_endpoint = e, token_secretMaterial = secret\<rparr>"
    using assms(1,2) e by (simp add: token_of_object_def)
  moreover have "fst ` set kvs \<subseteq> {''a'', ''e'', ''s'', ''t''}" by (auto simp: assms(6) token_members_def split: option.splits)
  then have "list_all (\<lambda>k. k \<in> set token_keys) (map (quoted_key \<circ> fst) kvs)"
    by (auto simp: list_all_iff token_keys_def)
  moreover have "length kvs = length (sort (map fst kvs))" by simp
  ultimately show ?thesis
    using token_keys_sorted [OF assms(8)]
    by (simp add: token_of_text_def assms(9,10) Let_def fsts [unfolded map_map] split: option.splits)
qed

lemma issued_token_parses:
  assumes "all_of is_lowhex 32 32 a" "uuid_shape t" "bytes_ok secret" "16 \<le> length secret" "length secret \<le> 1024"
    and "mset kvs = mset (token_members a t secret e)"
  shows "parseCloudflareTunnelToken sha256 (issued_token kvs) =
    Some \<lparr>token_accountIdentifier = a, token_tunnelId = t, token_secretFingerprint = sha256 secret, token_endpoint = e,
      token_secretMaterial = secret\<rparr>"
proof -
  let ?text = "JSON_stringify (JObj (map (\<lambda>(k, v). (k, JStr v)) kvs))"
  have same: "set kvs = set (token_members a t secret e)" using assms(6) by (rule mset_eq_setD)
  have plain: "plain_members kvs"
    using token_members_plain [OF assms(1-3), of e] by (simp add: plain_members_def same)
  have keys: "mset (map fst kvs) = mset (map fst (token_members a t secret e))" using assms(6) by simp
  have dist: "distinct (map fst kvs)"
    using mset_eq_imp_distinct_iff [OF keys] by (auto simp: token_members_def split: option.split)
  have ne: "kvs \<noteq> []" using assms(6) by (auto simp: token_members_def)
  have len: "length ?text = 1 + (\<Sum>(k, v)\<leftarrow>token_members a t secret e. length k + length v + 6)"
  proof -
    have "(\<Sum>x\<leftarrow>kvs. f x) = (\<Sum>x\<leftarrow>token_members a t secret e. f x)" for f :: "string \<times> string \<Rightarrow> nat"
      using assms(6) by (metis mset_map sum_mset_sum_list)
    then show ?thesis by (simp only: plain_object_length [OF plain ne])
  qed
  have "length a = 32" "length t = 36" "length (base64 secret) \<le> 1368"
    using assms(1,4,5) uuid_shape_length [OF assms(2)] by (auto simp: all_of_def length_base64)
  with len have bounds: "36 \<le> length ?text" "length ?text \<le> 1500"
    by (auto simp: token_members_def endpoint_text_def split: option.split endpoint.split)
  note read = token_of_issued [OF assms(1-5) same dist keys]
  let ?bytes = "utf8_bytes ?text"
  have size: "36 \<le> length ?bytes" "length ?bytes \<le> 3000" using bounds utf8_bytes_length [of ?text] by auto
  then have "decodeCanonicalBase64 (base64 ?bytes) 2 3072 = Some ?bytes" by (intro decode_base64) auto
  moreover have "48 \<le> length (base64 ?bytes)" "length (base64 ?bytes) \<le> 4096"
    using div_le_mono [of 36 "length ?bytes + 2" 3] div_le_mono [of "length ?bytes + 2" 3002 3] size by (simp_all add: length_base64)
  moreover have "\<not> list_ex is_space (base64 ?bytes)"
    using base64_is_canonical [OF bytes_ok_utf8] token_charD by (auto simp: list_all_iff list_ex_iff)
  moreover have "JSON_parse ?text = Some (JObj (map (\<lambda>(k, v). (k, JStr v)) kvs))"
    using dist by (intro JSON_parse_stringify) (auto simp: list_all_iff comp_def case_prod_unfold)
  moreover have "serialized_keys ?text = map (quoted_key \<circ> fst) kvs"
    unfolding plain_object_text [OF plain]
    using serialized_keys_members [OF ne plain] same by (auto simp: token_members_def split: option.splits)
  ultimately show ?thesis
    using read by (simp add: parseCloudflareTunnelToken_def issued_token_def not_less [symmetric])
qed
text \<open>C37. A connector token that carries a well-formed account, tunnel and secret, and perhaps an endpoint, is
  accepted whatever the order of its members, and is read back as exactly that identity: the
  account, the tunnel, the secret with its fingerprint, and the endpoint.\<close>

theorem tunnel_tokens_read_back:
  assumes "all_of is_lowhex 32 32 a" "uuid_shape t" "bytes_ok secret" "16 \<le> length secret" "length secret \<le> 1024"
    and "mset kvs = mset (token_members a t secret e)"
  shows "parseCloudflareTunnelToken sha256 (issued_token kvs) =
    Some \<lparr>token_accountIdentifier = a, token_tunnelId = t, token_secretFingerprint = sha256 secret, token_endpoint = e,
      token_secretMaterial = secret\<rparr>"
  by (rule issued_token_parses [OF assms])

theorem tunnel_tokens_read_back_witness:
  "parseCloudflareTunnelToken (\<lambda>_. ''f0'') (issued_token (token_members (replicate 32 (CHR ''a'')) ''00000000-0000-4000-8000-000000000001'' (replicate 16 7) (Some Fed)))
   = Some \<lparr>token_accountIdentifier = replicate 32 (CHR ''a''), token_tunnelId = ''00000000-0000-4000-8000-000000000001'',
      token_secretFingerprint = ''f0'', token_endpoint = Some Fed, token_secretMaterial = replicate 16 7\<rparr>"
proof (rule tunnel_tokens_read_back)
  show "uuid_shape ''00000000-0000-4000-8000-000000000001''" by code_simp
qed (simp_all add: all_of_def list_all_iff bytes_ok_def char_classes)

end
