(* ===== verification/Gw_Identity.thy ===== *)
theory Gw_Identity
  imports Gw_Trace Gw_Token
begin

text \<open>
  The identity of connectors (app.ts, verifyParsedConnectorIdentity to reconcileConnectorIdentities):
  a connector is verified when the account its token names is known, and Cloudflare, asked with the
  key of that account, knows the tunnel and hands out the same token. \<open>timingSafeEqual\<close> on secrets
  of one length is equality. The flag of the periodic pass is an argument.
\<close>

section \<open>Verification\<close>

definition identity_unavailable :: ApiError where
  "identity_unavailable = ApiError 503 ''Cloudflare connector identity verification is temporarily unavailable.''
     (Some ''connector_identity_verification_failed'')"

definition invalid_token :: ApiError where
  "invalid_token = ApiError 400 ''The Cloudflare tunnel connector token is invalid.'' (Some ''invalid_connector_token'')"

definition parse_token :: "api \<Rightarrow> string \<Rightarrow> TunnelToken option" where
  "parse_token e token = parseCloudflareTunnelToken (env_sha256 e) token"

text \<open>The comparison with the token that Cloudflare hands out.\<close>

definition same_identity :: "TunnelToken \<Rightarrow> TunnelToken \<Rightarrow> bool" where
  "same_identity r p \<longleftrightarrow> token_accountIdentifier r = token_accountIdentifier p \<and> token_tunnelId r = token_tunnelId p
     \<and> token_endpoint r = token_endpoint p"

definition same_secret :: "TunnelToken \<Rightarrow> TunnelToken \<Rightarrow> bool" where
  "same_secret r p \<longleftrightarrow> length (token_secretMaterial r) = length (token_secretMaterial p)
     \<and> token_secretMaterial r = token_secretMaterial p"

definition check_remote_token :: "api \<Rightarrow> cf_client \<Rightarrow> TunnelToken \<Rightarrow> unit handler" where
  "check_remote_token e c p =
     chain (getTunnelToken c (token_accountIdentifier p) (token_tunnelId p)) (\<lambda>token.
     (case parse_token e token of
        None \<Rightarrow> throw (Thrown ''The Cloudflare tunnel connector token is invalid.'')
      | Some r \<Rightarrow>
          require (same_identity r p \<and> same_secret r p)
            (ApiError 409 ''The connector token is not the current Cloudflare tunnel token.'' (Some ''connector_token_mismatch''))))"

definition check_remote :: "api \<Rightarrow> cf_client \<Rightarrow> TunnelToken \<Rightarrow> unit handler" where
  "check_remote e c p =
     chain (getTunnelMetadata c (token_accountIdentifier p) (token_tunnelId p)) (\<lambda>m.
     chain (require (\<not> metadata_deleted m) (ApiError 409 ''The Cloudflare tunnel has been deleted.'' (Some ''connector_tunnel_deleted''))) (\<lambda>_.
     chain (require (metadata_accountIdentifier m = token_accountIdentifier p \<and> metadata_id m = token_tunnelId p)
       (ApiError 409 ''The connector token does not match the Cloudflare tunnel.'' (Some ''connector_identity_mismatch''))) (\<lambda>_.
     check_remote_token e c p)))"

text \<open>What is thrown instead of the failure of a check.\<close>

definition remote_failure :: "failure \<Rightarrow> ApiError" where
  "remote_failure x =
     (case x of
        Api a \<Rightarrow> a
      | Cloudflare f \<Rightarrow>
          if isExplicitNotFound f then ApiError 409 ''The Cloudflare tunnel was not found.'' (Some ''connector_tunnel_not_found'')
          else identity_unavailable
      | _ \<Rightarrow> identity_unavailable)"

record VerifiedIdentity =
  verified_accountId :: uuid
  verified_accountIdentifier :: string
  verified_tunnelId :: string

definition verifyParsedConnectorIdentity :: "api \<Rightarrow> TunnelToken \<Rightarrow> VerifiedIdentity handler" where
  "verifyParsedConnectorIdentity e p =
     chain (reads (getCloudflareAccountSecretByIdentifier (token_accountIdentifier p))) (\<lambda>found.
     chain (the_or found (ApiError 409 ''No enabled Cloudflare account matches the connector token.'' (Some ''connector_account_unlinked''))) (\<lambda>account.
     chain (case open_secret e (CloudflareAccountSecret_encryptedApiToken account) of
              Inl _ \<Rightarrow> throw (Api identity_unavailable) | Inr t \<Rightarrow> give t) (\<lambda>apiToken.
     chain (attempt (check_remote e \<lparr>cf_token = apiToken, cf_fed = (token_endpoint p = Some Fed)\<rparr> p) (\<lambda>x. throw (Api (remote_failure x)))) (\<lambda>_.
     give \<lparr>verified_accountId = CloudflareAccount_id account, verified_accountIdentifier = token_accountIdentifier p,
       verified_tunnelId = token_tunnelId p\<rparr>))))"

definition verifyConnectorToken :: "api \<Rightarrow> string \<Rightarrow> VerifiedIdentity handler" where
  "verifyConnectorToken e token =
     (case parse_token e token of None \<Rightarrow> throw (Api invalid_token) | Some p \<Rightarrow> verifyParsedConnectorIdentity e p)"

text \<open>\<open>error instanceof ApiError ? error : new ApiError(503, ..)\<close>\<close>

definition identity_error :: "failure \<Rightarrow> ApiError" where
  "identity_error x = (case x of Api a \<Rightarrow> a | _ \<Rightarrow> identity_unavailable)"

definition error_or_default :: "ApiError \<Rightarrow> string" where
  "error_or_default a = (case err_code a of Some c \<Rightarrow> c | None \<Rightarrow> ''connector_identity_verification_failed'')"

section \<open>New connectors\<close>

record CreationIdentity =
  creation_accountId :: "uuid option"
  creation_accountIdentifier :: string
  creation_tunnelId :: string
  creation_status :: IdentityStatus
  creation_error :: "string option"

definition creation_identity :: "TunnelToken \<Rightarrow> uuid option \<Rightarrow> IdentityStatus \<Rightarrow> string option \<Rightarrow> CreationIdentity" where
  "creation_identity p account status err =
     \<lparr>creation_accountId = account, creation_accountIdentifier = token_accountIdentifier p, creation_tunnelId = token_tunnelId p,
      creation_status = status, creation_error = err\<rparr>"

text \<open>What was submitted beside the token; an empty text counts as nothing.\<close>

definition submitted :: "string option \<Rightarrow> string option" where
  "submitted v = (if v = Some [] then None else v)"

definition submission_differs :: "TunnelToken \<Rightarrow> uuid \<Rightarrow> string option \<Rightarrow> string option \<Rightarrow> bool" where
  "submission_differs p account submittedAccountId submittedTunnelId \<longleftrightarrow>
     (case submitted submittedAccountId of None \<Rightarrow> False | Some a \<Rightarrow> a \<noteq> account)
     \<or> (case submitted submittedTunnelId of None \<Rightarrow> False | Some t \<Rightarrow> lower t \<noteq> token_tunnelId p)"

definition failed_creation :: "TunnelToken \<Rightarrow> uuid \<Rightarrow> failure \<Rightarrow> CreationIdentity" where
  "failed_creation p account x =
     (let a = identity_error x in
      creation_identity p (Some account)
        (if err_code a = Some ''connector_identity_verification_failed'' then IParsed else IMismatch) (Some (error_or_default a)))"

definition connectorIdentityForCreation :: "api \<Rightarrow> string \<Rightarrow> string option \<Rightarrow> string option \<Rightarrow> CreationIdentity handler" where
  "connectorIdentityForCreation e token submittedAccountId submittedTunnelId =
     (case parse_token e token of
        None \<Rightarrow> throw (Api invalid_token)
      | Some p \<Rightarrow>
          chain (reads (getCloudflareAccountSecretByIdentifier (token_accountIdentifier p))) (\<lambda>account.
          (case account of
             None \<Rightarrow> give (creation_identity p None IUnmatched (Some ''connector_account_unlinked''))
           | Some a \<Rightarrow>
               if submission_differs p (CloudflareAccount_id a) submittedAccountId submittedTunnelId
               then give (creation_identity p (Some (CloudflareAccount_id a)) IMismatch (Some ''connector_submitted_identity_mismatch''))
               else attempt
                 (chain (verifyParsedConnectorIdentity e p) (\<lambda>v.
                    give (creation_identity p (Some (verified_accountId v)) IVerified None)))
                 (\<lambda>x. give (failed_creation p (CloudflareAccount_id a) x)))))"

section \<open>Stored connectors\<close>

definition parsed_values :: "TunnelToken \<Rightarrow> IdentityStatus \<Rightarrow> string option \<Rightarrow> IdentityValues" where
  "parsed_values p status err = \<lparr>Identity_status = status, Identity_accountId = None,
     Identity_accountIdentifier = Some (token_accountIdentifier p), Identity_tunnelId = Some (token_tunnelId p), Identity_error = err\<rparr>"

definition bare_values :: "IdentityStatus \<Rightarrow> string \<Rightarrow> IdentityValues" where
  "bare_values status err = \<lparr>Identity_status = status, Identity_accountId = None, Identity_accountIdentifier = None,
     Identity_tunnelId = None, Identity_error = Some err\<rparr>"

definition verified_values :: "VerifiedIdentity \<Rightarrow> IdentityValues" where
  "verified_values v = \<lparr>Identity_status = IVerified, Identity_accountId = Some (verified_accountId v),
     Identity_accountIdentifier = Some (verified_accountIdentifier v), Identity_tunnelId = Some (verified_tunnelId v), Identity_error = None\<rparr>"

definition failed_status :: "ApiError \<Rightarrow> IdentityStatus" where
  "failed_status a =
     (if err_code a = Some ''connector_account_unlinked'' then IUnmatched
      else if err_code a = Some ''connector_identity_verification_failed'' then IPending else IMismatch)"

definition mark_identity :: "api \<Rightarrow> uuid \<Rightarrow> ConnectorDeployment \<Rightarrow> IdentityValues \<Rightarrow> Connector option handler" where
  "mark_identity e i k v =
     tries (markConnectorIdentity (env_now e) i
       \<lparr>Expectation_desiredRevision = ConnectorDeployment_desiredRevision k, Expectation_encryptedToken = ConnectorDeployment_encryptedToken k\<rparr> v)"

text \<open>The verification of a parsed token and the record of its failure: \<^const>\<open>None\<close> when the
  connector has changed meanwhile.\<close>

definition verify_or_mark :: "api \<Rightarrow> uuid \<Rightarrow> ConnectorDeployment \<Rightarrow> TunnelToken \<Rightarrow> VerifiedIdentity option handler" where
  "verify_or_mark e i k p =
     attempt (chain (verifyParsedConnectorIdentity e p) (\<lambda>v. give (Some v)))
       (\<lambda>x. let a = identity_error x in
          chain (mark_identity e i k (parsed_values p (failed_status a) (Some (error_or_default a)))) (\<lambda>marked.
          if marked = None then give None else throw (Api a)))"

definition record_verified :: "api \<Rightarrow> uuid \<Rightarrow> ConnectorDeployment \<Rightarrow> VerifiedIdentity \<Rightarrow> Connector option handler" where
  "record_verified e i k v =
     chain (mark_identity e i k (verified_values v)) (\<lambda>verified.
     if map_option Connector_identityStatus verified = Some IMismatch
     then throw (Api (ApiError 409 ''The connector token identity does not match its persisted topology.'' (Some ''connector_identity_mismatch'')))
     else give verified)"

definition verify_token :: "api \<Rightarrow> uuid \<Rightarrow> ConnectorDeployment \<Rightarrow> string \<Rightarrow> Connector option handler" where
  "verify_token e i k token =
     (case parse_token e token of
        None \<Rightarrow>
          chain (mark_identity e i k (bare_values IInvalid ''invalid_connector_token'')) (\<lambda>invalid.
          if invalid = None then give None else throw (Api invalid_token))
      | Some p \<Rightarrow>
          chain (mark_identity e i k (parsed_values p IParsed None)) (\<lambda>marked.
          if marked = None then give None
          else chain (verify_or_mark e i k p) (\<lambda>identity.
            (case identity of None \<Rightarrow> give None | Some v \<Rightarrow> record_verified e i k v))))"

definition verifyStoredConnector :: "api \<Rightarrow> uuid \<Rightarrow> Connector option handler" where
  "verifyStoredConnector e i =
     chain (reads (getConnectorDeployment i)) (\<lambda>deployment.
     chain (the_or deployment (ApiError 404 ''Connector not found.'' (Some ''connector_not_found''))) (\<lambda>k.
     (case open_secret e (ConnectorDeployment_encryptedToken k) of
        Inl _ \<Rightarrow> mark_identity e i k (bare_values IFailed ''connector_credentials_unavailable'')
      | Inr token \<Rightarrow> verify_token e i k token)))"

text \<open>The periodic pass, which does nothing while another one is running.\<close>

definition reconcileConnectorIdentities :: "api \<Rightarrow> bool \<Rightarrow> unit handler" where
  "reconcileConnectorIdentities e running =
     (if running then give ()
      else chain (reads (listConnectorIdentityDeployments (env_now e) 20)) (\<lambda>ks.
        each (\<lambda>k _. attempt (chain (verifyStoredConnector e (ConnectorDeployment_connectorId k)) (\<lambda>_. give ())) (\<lambda>_. give ())) ks ()))"

section \<open>Property\<close>

text \<open>
  What Cloudflare said about a token: an answer that describes its tunnel, in its account and not
  deleted, and an answer with a token for it that carries the same identity and the same secret.
\<close>

definition describes :: "jobj \<Rightarrow> TunnelToken \<Rightarrow> bool" where
  "describes envelope p \<longleftrightarrow> (\<exists>r i account. jprop envelope ''result'' = Some (JObj r)
     \<and> jprop r ''id'' = Some (JStr i) \<and> lower i = token_tunnelId p
     \<and> jprop r ''account_tag'' = Some (JStr account) \<and> lower account = token_accountIdentifier p
     \<and> (jprop r ''deleted_at'' = None \<or> jprop r ''deleted_at'' = Some JNull))"

definition hands_out :: "api \<Rightarrow> jobj \<Rightarrow> TunnelToken \<Rightarrow> bool" where
  "hands_out e envelope p \<longleftrightarrow> (\<exists>t r. jprop envelope ''result'' = Some (JStr t) \<and> parse_token e t = Some r
     \<and> same_identity r p \<and> token_secretMaterial r = token_secretMaterial p)"

text \<open>One of the answers carries an object with \<open>P\<close>.\<close>

definition carried :: "(answer \<times> (db \<Rightarrow> db)) set \<Rightarrow> (jobj \<Rightarrow> bool) \<Rightarrow> bool" where
  "carried S P \<longleftrightarrow> (\<exists>a \<in> fst ` S. \<exists>envelope. envelope_of a = Some envelope \<and> P envelope)"

definition attested :: "(answer \<times> (db \<Rightarrow> db)) set \<Rightarrow> api \<Rightarrow> TunnelToken \<Rightarrow> bool" where
  "attested S e p \<longleftrightarrow> carried S (\<lambda>envelope. describes envelope p) \<and> carried S (\<lambda>envelope. hands_out e envelope p)"

abbreviation heard :: "(answer \<times> (db \<Rightarrow> db)) set \<Rightarrow> http_request list \<Rightarrow> world \<Rightarrow> bool" where
  "heard S s0 \<equiv> traced S (\<lambda>_. True) s0"

lemma holds_answer: "holds (heard S s0) (request c method' path body) (\<lambda>envelope. carried S (\<lambda>x. x = envelope))"
  by (rule holds_weaken [OF holds_request]) (auto simp: carried_def)

lemma carried_weaken: "carried S P \<Longrightarrow> (\<And>x. P x \<Longrightarrow> Q x) \<Longrightarrow> carried S Q"
  unfolding carried_def by blast

definition metadata_in :: "jobj \<Rightarrow> CloudflareTunnelMetadata \<Rightarrow> bool" where
  "metadata_in envelope m \<longleftrightarrow> (\<exists>r i account. jprop envelope ''result'' = Some (JObj r)
     \<and> jprop r ''id'' = Some (JStr i) \<and> metadata_id m = lower i
     \<and> jprop r ''account_tag'' = Some (JStr account) \<and> metadata_accountIdentifier m = lower account
     \<and> (\<not> metadata_deleted m \<longrightarrow> jprop r ''deleted_at'' = None \<or> jprop r ''deleted_at'' = Some JNull))"

lemma metadata_of_Some: "metadata_of envelope t = Some m \<Longrightarrow> metadata_in envelope m"
  by (auto simp: metadata_of_def metadata_in_def Let_def split: option.splits json.splits if_splits)

lemma token_in_Some: "token_in envelope = Some t \<Longrightarrow> jprop envelope ''result'' = Some (JStr t)"
  by (auto simp: token_in_def split: option.splits json.splits if_splits)

lemma getTunnelMetadata_holds:
  "holds (heard S s0) (getTunnelMetadata c a t) (\<lambda>m. carried S (\<lambda>envelope. metadata_in envelope m))"
  unfolding getTunnelMetadata_def
proof (rule holds_chain [OF holds_answer], rule holds_option, rule holds_bad_gateway, rule holds_give)
  fix envelope m
  assume "carried S (\<lambda>x. x = envelope)" "metadata_of envelope t = Some m"
  then show "carried S (\<lambda>envelope. metadata_in envelope m)" by (elim carried_weaken) (simp add: metadata_of_Some)
qed

lemma getTunnelToken_holds:
  "holds (heard S s0) (getTunnelToken c a t) (\<lambda>token. carried S (\<lambda>envelope. jprop envelope ''result'' = Some (JStr token)))"
  unfolding getTunnelToken_def
proof (rule holds_chain [OF holds_answer], rule holds_option, rule holds_bad_gateway, rule holds_give)
  fix envelope token
  assume "carried S (\<lambda>x. x = envelope)" "token_in envelope = Some token"
  then show "carried S (\<lambda>envelope. jprop envelope ''result'' = Some (JStr token))" by (elim carried_weaken) (simp add: token_in_Some)
qed

lemma check_remote_token_holds:
  "holds (heard S s0) (check_remote_token e c p) (\<lambda>_. carried S (\<lambda>envelope. hands_out e envelope p))"
  unfolding check_remote_token_def
proof (rule holds_chain [OF getTunnelToken_holds], rule holds_option, rule holds_throw, rule holds_weaken [OF holds_require])
  fix token r
  assume "carried S (\<lambda>envelope. jprop envelope ''result'' = Some (JStr token))"
    "parse_token e token = Some r" "same_identity r p \<and> same_secret r p"
  then show "carried S (\<lambda>envelope. hands_out e envelope p)"
    unfolding carried_def hands_out_def same_secret_def by blast
qed

lemma check_remote_holds: "holds (heard S s0) (check_remote e c p) (\<lambda>_. attested S e p)"
  unfolding check_remote_def
proof (rule holds_chain [OF getTunnelMetadata_holds], rule holds_chain [OF holds_require], rule holds_chain [OF holds_require],
    rule holds_weaken [OF check_remote_token_holds], goal_cases)
  case (1 m)
  then show ?case unfolding attested_def carried_def describes_def metadata_in_def by metis
qed

lemma verifyParsed_holds:
  "holds (heard S s0) (verifyParsedConnectorIdentity e p)
    (\<lambda>v. attested S e p \<and> verified_accountIdentifier v = token_accountIdentifier p \<and> verified_tunnelId v = token_tunnelId p)"
  unfolding verifyParsedConnectorIdentity_def
proof (rule holds_then [OF holds_reads], rule holds_then, goal_cases)
  case 1
  show ?case by (simp add: the_or_def holds_throw holds_give split: option.split)
next
  case (2 found account)
  have "holds (heard S s0) (case open_secret e (CloudflareAccountSecret_encryptedApiToken account) of
      Inl _ \<Rightarrow> throw (Api identity_unavailable) | Inr t \<Rightarrow> give t) (\<lambda>_. True)"
    by (simp add: holds_throw holds_give split: sum.split)
  then show ?case
    by (rule holds_then, intro holds_chain [OF holds_attempt [OF check_remote_holds holds_throw]] holds_give) simp
qed

lemma mark_identity_holds:
  "holds (heard S s0) (mark_identity e i k v) (\<lambda>c. \<forall>c'. c = Some c' \<longrightarrow>
     Connector_identityStatus c' = IVerified \<longrightarrow> Identity_status v = IVerified)"
  unfolding holds_def mark_identity_def tries_def traced_def
  by (auto simp: markConnectorIdentity_def connector_def marked_connector_def Let_def split: prod.splits sum.splits option.splits if_splits)

lemma mark_identity_Some:
  assumes "mark_identity e i k v w = (Inr (Some c), w')"
  obtains r where "r \<in> set (connectors (store w'))" "c = connector r" "con_id r = i"
    "con_token_encrypted r = ConnectorDeployment_encryptedToken k" "con_desired_revision r = ConnectorDeployment_desiredRevision k"
    "con_token_account_identifier r = Identity_accountIdentifier v" "con_token_tunnel_id r = map_option lower (Identity_tunnelId v)"
    "con_identity_status r = IVerified \<longrightarrow> Identity_status v = IVerified" "answers w' = answers w"
proof -
  let ?x = "\<lparr>Expectation_desiredRevision = ConnectorDeployment_desiredRevision k, Expectation_encryptedToken = ConnectorDeployment_encryptedToken k\<rparr>"
  obtain d where d: "markConnectorIdentity (env_now e) i ?x v (store w) = Inr (Some c, d)" and w': "w' = w\<lparr>store := d\<rparr>"
    using assms by (auto simp: mark_identity_def tries_def split: sum.splits prod.splits)
  from d obtain r where r: "find (\<lambda>r. con_id r = i \<and> con_desired_revision r = ConnectorDeployment_desiredRevision k
      \<and> con_token_encrypted r = ConnectorDeployment_encryptedToken k) (connectors (store w)) = Some r"
    and wr: "write_connector r (marked_connector (env_now e) v r) (store w) = Inr d" and c: "c = connector (marked_connector (env_now e) v r)"
    by (auto simp: markConnectorIdentity_def split: option.splits sum.splits)
  let ?m = "marked_connector (env_now e) v r"
  from find_someD [OF r] have row: "r \<in> set (connectors (store w))" "con_id r = i"
    "con_desired_revision r = ConnectorDeployment_desiredRevision k" "con_token_encrypted r = ConnectorDeployment_encryptedToken k" by simp_all
  have m: "con_id ?m = con_id r" "con_token_encrypted ?m = con_token_encrypted r" "con_desired_revision ?m = con_desired_revision r"
    "con_token_account_identifier ?m = Identity_accountIdentifier v" "con_token_tunnel_id ?m = map_option lower (Identity_tunnelId v)"
    "con_identity_status ?m = IVerified \<longrightarrow> Identity_status v = IVerified"
    by (simp_all add: marked_connector_def Let_def)
  have "?m \<in> set (connectors (store w'))"
    using row(1) by (auto simp: w' write_connector_Inr(1) [OF wr] set_update_rows)
  then show thesis
    by (rule that) (simp_all add: c m row w')
qed

lemma mark_identity_answers: "mark_identity e i k v w = (r, w') \<Longrightarrow> answers w' = answers w"
  by (auto simp: mark_identity_def tries_def split: sum.splits prod.splits)

lemma verify_or_mark_Some:
  assumes "verify_or_mark e i k p w = (Inr (Some v), w')"
  shows "verifyParsedConnectorIdentity e p w = (Inr v, w')"
proof (cases "verifyParsedConnectorIdentity e p w")
  case (Pair r w1)
  show ?thesis
  proof (cases r)
    case (Inl x)
    with assms Pair show ?thesis
      by (auto simp: verify_or_mark_def attempt_def chain_def give_def throw_def Let_def split: sum.splits prod.splits if_splits)
  next
    case (Inr u)
    with assms Pair show ?thesis by (simp add: verify_or_mark_def attempt_def chain_def give_def)
  qed
qed

text \<open>C39. A stored connector is recorded as verified only on Cloudflare's word: when a verification returns it as verified, among the
  answers of Cloudflare there was one that describes the tunnel of the stored token, in the token's account and not
  deleted, and one with a token of the same identity and the same secret; the row that is marked is still that of
  the verified token and revision, whatever happened to the store while Cloudflare was asked.\<close>

theorem verified_connectors_are_attested:
  assumes "verifyStoredConnector e i w = (Inr (Some c), w')" "Connector_identityStatus c = IVerified"
  shows "\<exists>k token p r. getConnectorDeployment i (store w) = Some k \<and> open_secret e (ConnectorDeployment_encryptedToken k) = Inr token
    \<and> parse_token e token = Some p \<and> attested (set (answers w)) e p
    \<and> r \<in> set (connectors (store w')) \<and> connector r = c \<and> con_id r = i
    \<and> con_token_encrypted r = ConnectorDeployment_encryptedToken k \<and> con_desired_revision r = ConnectorDeployment_desiredRevision k
    \<and> con_token_account_identifier r = Some (token_accountIdentifier p) \<and> con_token_tunnel_id r = Some (lower (token_tunnelId p))"
proof -
  obtain k where k: "getConnectorDeployment i (store w) = Some k"
    and run: "(case open_secret e (ConnectorDeployment_encryptedToken k) of
        Inl _ \<Rightarrow> mark_identity e i k (bare_values IFailed ''connector_credentials_unavailable'')
      | Inr token \<Rightarrow> verify_token e i k token) w = (Inr (Some c), w')"
    using assms(1) by (auto simp: verifyStoredConnector_def chain_def reads_def the_or_def give_def throw_def split: option.splits)
  have not_marked: "False" if "mark_identity e i k v w1 = (Inr (Some c), w2)" "Identity_status v \<noteq> IVerified" for v w1 w2
    using mark_identity_Some [OF that(1)] that(2) assms(2) by (metis connector_def Connector.select_convs(10))
  obtain token where token: "open_secret e (ConnectorDeployment_encryptedToken k) = Inr token"
    using run not_marked by (fastforce simp: bare_values_def split: sum.splits)
  with run have "verify_token e i k token w = (Inr (Some c), w')" by simp
  then obtain p where p: "parse_token e token = Some p" and
    rest: "chain (mark_identity e i k (parsed_values p IParsed None)) (\<lambda>marked.
        if marked = None then give None
        else chain (verify_or_mark e i k p) (\<lambda>identity. (case identity of None \<Rightarrow> give None | Some v \<Rightarrow> record_verified e i k v))) w
      = (Inr (Some c), w')"
    by (cases "parse_token e token")
      (auto simp: verify_token_def chain_def give_def throw_def split: sum.splits prod.splits if_splits)
  from rest obtain m w1 where m: "mark_identity e i k (parsed_values p IParsed None) w = (Inr m, w1)"
    and rest: "(if m = None then give None
        else chain (verify_or_mark e i k p) (\<lambda>identity. (case identity of None \<Rightarrow> give None | Some v \<Rightarrow> record_verified e i k v))) w1
      = (Inr (Some c), w')" by (rule chain_InrE)
  then have "chain (verify_or_mark e i k p) (\<lambda>identity. (case identity of None \<Rightarrow> give None | Some v \<Rightarrow> record_verified e i k v)) w1
      = (Inr (Some c), w')" by (auto simp: give_def split: if_splits)
  then obtain v w2 where v: "verify_or_mark e i k p w1 = (Inr (Some v), w2)" and rec: "record_verified e i k v w2 = (Inr (Some c), w')"
    by (rule chain_InrE) (auto simp: give_def split: option.splits)
  have "traced (set (answers w1)) (\<lambda>_. True) (sent w1) w1" by (simp add: traced_def list_all_iff)
  from holdsD [OF verifyParsed_holds this verify_or_mark_Some [OF v]]
  have att: "attested (set (answers w)) e p" "verified_accountIdentifier v = token_accountIdentifier p" "verified_tunnelId v = token_tunnelId p"
    using mark_identity_answers [OF m] by auto
  from rec have "mark_identity e i k (verified_values v) w2 = (Inr (Some c), w')"
    by (auto simp: record_verified_def give_def throw_def elim!: chain_InrE split: if_splits)
  from mark_identity_Some [OF this] obtain r where "r \<in> set (connectors (store w'))" "c = connector r" "con_id r = i"
    "con_token_encrypted r = ConnectorDeployment_encryptedToken k" "con_desired_revision r = ConnectorDeployment_desiredRevision k"
    "con_token_account_identifier r = Some (token_accountIdentifier p)" "con_token_tunnel_id r = Some (lower (token_tunnelId p))"
    using att by (auto simp: verified_values_def)
  with k token p att show ?thesis by blast
qed

text \<open>A verification that Cloudflare confirms, in general.\<close>

lemma escape_char_length: "length (escape_char c) \<le> 6"
  by (simp add: escape_char_def)

lemma quote_string_length: "length (quote_string s) \<le> 6 * length s + 2"
proof -
  have "length (concat (map escape_char s)) \<le> 6 * length s"
    by (induction s) (use escape_char_length in \<open>auto intro: add_mono\<close>)
  then show ?thesis by (simp add: quote_string_def)
qed

lemma verifyParsed_confirmed:
  assumes "getCloudflareAccountSecretByIdentifier (token_accountIdentifier p) (store w) = Some a"
    and "open_secret e (CloudflareAccountSecret_encryptedApiToken a) = Inr t"
    and "answers w = [(json_answer env1, id), (json_answer env2, id)]"
    and "\<forall>x \<in> {env1, env2}. json_ok (JObj x) \<and> length (utf8_bytes (JSON_stringify (JObj x))) \<le> 262144
      \<and> jprop x ''success'' = Some (JBool True)"
    and "metadata_of env1 (token_tunnelId p) = Some \<lparr>metadata_id = token_tunnelId p,
      metadata_accountIdentifier = token_accountIdentifier p, metadata_deleted = False\<rparr>"
    and "token_in env2 = Some tok" "parse_token e tok = Some p"
  shows "\<exists>w'. verifyParsedConnectorIdentity e p w = (Inr \<lparr>verified_accountId = CloudflareAccount_id a,
      verified_accountIdentifier = token_accountIdentifier p, verified_tunnelId = token_tunnelId p\<rparr>, w') \<and> store w' = store w"
proof -
  let ?c = "\<lparr>cf_token = t, cf_fed = (token_endpoint p = Some Fed)\<rparr>"
  obtain w1 where w1: "request ?c ''GET'' (tunnelPath (token_accountIdentifier p) (token_tunnelId p)) None w = (Inr env1, w1)"
    "store w1 = store w" "answers w1 = [(json_answer env2, id)]"
    using request_answered [OF assms(3)] assms(4) by (simp add: id_def)
  obtain w2 where w2: "request ?c ''GET'' (tunnelPath (token_accountIdentifier p) (token_tunnelId p) @ ''/token'') None w1 = (Inr env2, w2)"
    "store w2 = store w"
    using request_answered [OF w1(3)] assms(4) w1(2) by (simp add: id_def)
  have "check_remote e ?c p w = (Inr (), w2)"
    using w1(1) w2(1) assms(5-7)
    by (simp add: check_remote_def check_remote_token_def getTunnelMetadata_def getTunnelToken_def chain_def give_def require_def
        same_identity_def same_secret_def)
  with assms(1,2) w2(2) show ?thesis
    by (simp add: verifyParsedConnectorIdentity_def chain_def reads_def the_or_def give_def attempt_def)
qed

text \<open>A connector that was created with a token, and the account of the token.\<close>

definition sample_tunnel :: string where
  "sample_tunnel = ''00000000-0000-4000-8000-000000000001''"

definition sample_account :: string where
  "sample_account = replicate 32 (CHR ''a'')"

definition sample_token :: string where
  "sample_token = issued_token (token_members sample_account sample_tunnel (replicate 16 7) None)"

definition sample_identity :: TunnelToken where
  "sample_identity = \<lparr>token_accountIdentifier = sample_account, token_tunnelId = sample_tunnel, token_secretFingerprint = ''hash'',
     token_endpoint = None, token_secretMaterial = replicate 16 7\<rparr>"

definition token_connector :: connector_row where
  "token_connector = \<lparr>con_id = ''k'', con_name = ''tunnel'', con_token_encrypted = seal_secret sample_api 0 sample_token,
     con_enabled = True, con_agent_id = ''a'', con_cloudflare_account_id = None, con_tunnel_id = None, con_desired_revision = 1,
     con_token_account_identifier = None, con_token_tunnel_id = None, con_identity_status = IPending, con_identity_verified_at = None,
     con_identity_error = None, con_deployment_status = KPending, con_runtime_status = RtUnknown, con_last_error = None,
     con_last_deployed_at = None, con_last_observed_at = None, con_created_at = 1, con_updated_at = 1\<rparr>"

definition token_account :: account_row where
  "token_account = \<lparr>acc_id = ''c'', acc_name = ''cf'', acc_account_identifier = sample_account,
     acc_api_token_encrypted = seal_secret sample_api 0 ''key'', acc_enabled = True, acc_last_synced_at = None,
     acc_last_error_at = None, acc_last_error = None, acc_created_at = 1, acc_updated_at = 1\<rparr>"

definition confirmed_world :: world where
  "confirmed_world = \<lparr>store = empty_db\<lparr>accounts := [token_account], connectors := [token_connector]\<rparr>,
     answers = [(json_answer [(''success'', JBool True), (''result'', JObj [(''id'', JStr sample_tunnel), (''account_tag'', JStr sample_account)])], id),
       (json_answer [(''success'', JBool True), (''result'', JStr sample_token)], id)],
     sent = [], disk = [], pauses = [], drawn = 0\<rparr>"

lemma sample_parts: "uuid_shape sample_tunnel" "lower sample_tunnel = sample_tunnel" "lower sample_account = sample_account"
  "CLOUDFLARE_IDENTIFIER_PATTERN sample_account" "length sample_tunnel = 36" "length sample_account = 32"
  by code_simp+

lemma sample_token_parses: "parse_token sample_api sample_token = Some sample_identity"
proof -
  have "all_of is_lowhex 32 32 sample_account" by code_simp
  from issued_token_parses [OF this sample_parts(1), of "replicate 16 7" _ None "env_sha256 sample_api"]
  show ?thesis
    by (simp add: parse_token_def sample_token_def sample_identity_def bytes_ok_def sample_api_def)
qed

lemma sample_token_text: "length sample_token \<le> 4096" "48 \<le> length sample_token" "\<not> list_ex is_space sample_token" "sample_token \<noteq> []"
  using sample_token_parses by (auto simp: parse_token_def parseCloudflareTunnelToken_def split: if_splits)

lemma sealed_opens: "v \<noteq> [] \<Longrightarrow> open_secret sample_api (seal_secret sample_api 0 v) = Inr v"
  unfolding open_secret_def seal_secret_def
  by (subst decrypt_encrypt_cases) (simp_all add: sample_api_def plain_gcm_def gcm_ok_def bytes_ok_def)

text \<open>The two marks of a verification that succeeds.\<close>

lemma mark_only_connector:
  assumes "connectors d = [r]" "domains d = []" "con_id r = i" "con_desired_revision r = Expectation_desiredRevision x"
    "con_token_encrypted r = Expectation_encryptedToken x" "connector_checks (marked_connector now v r)"
  shows "markConnectorIdentity now i x v d
    = Inr (Some (connector (marked_connector now v r)), d\<lparr>connectors := [marked_connector now v r]\<rparr>)"
proof -
  have "con_id (marked_connector now v r) = con_id r" by (simp add: marked_connector_def Let_def)
  then have "\<not> connector_conflict (marked_connector now v r) [r]" by (simp add: connector_conflict_def)
  moreover have "\<not> connector_guard d r (marked_connector now v r)"
    using assms(2) by (simp add: connector_guard_def)
  ultimately show ?thesis using assms by (simp add: markConnectorIdentity_def write_connector_def update_rows_def)
qed

definition tunnel_answer :: jobj where
  "tunnel_answer = [(''success'', JBool True), (''result'', JObj [(''id'', JStr sample_tunnel), (''account_tag'', JStr sample_account)])]"

definition token_answer :: jobj where
  "token_answer = [(''success'', JBool True), (''result'', JStr sample_token)]"

lemma token_answer_small: "length (utf8_bytes (JSON_stringify (JObj token_answer))) \<le> 262144"
proof -
  have "length (JSON_stringify (JObj token_answer)) \<le> 40000"
    using quote_string_length [of sample_token] sample_token_text(1)
      quote_string_length [of "''success''"] quote_string_length [of "''result''"]
    by (simp add: token_answer_def)
  with utf8_bytes_length [of "JSON_stringify (JObj token_answer)"] show ?thesis by linarith
qed

lemma tunnel_answer_small: "length (utf8_bytes (JSON_stringify (JObj tunnel_answer))) \<le> 262144"
proof -
  have "length (JSON_stringify (JObj tunnel_answer)) \<le> 40000"
    using quote_string_length [of sample_tunnel] quote_string_length [of sample_account] sample_parts(5,6)
      quote_string_length [of "''success''"] quote_string_length [of "''result''"]
      quote_string_length [of "''id''"] quote_string_length [of "''account_tag''"]
    by (simp add: tunnel_answer_def)
  with utf8_bytes_length [of "JSON_stringify (JObj tunnel_answer)"] show ?thesis by linarith
qed

lemma sample_answers: "answers confirmed_world = [(json_answer tunnel_answer, id), (json_answer token_answer, id)]"
  by (simp add: confirmed_world_def tunnel_answer_def token_answer_def)

lemma tunnel_answer_metadata: "metadata_of tunnel_answer sample_tunnel = Some \<lparr>metadata_id = sample_tunnel,
    metadata_accountIdentifier = sample_account, metadata_deleted = False\<rparr>"
  by (simp add: metadata_of_def tunnel_answer_def jprop_def sample_parts)

lemma token_answer_token: "token_in token_answer = Some sample_token"
  using sample_token_text by (simp add: token_in_def token_answer_def jprop_def)

text \<open>The run: the token is parsed and recorded, Cloudflare confirms it, and the confirmation is recorded.\<close>

definition parsed_world :: world where
  "parsed_world = confirmed_world\<lparr>store := (store confirmed_world)\<lparr>connectors :=
     [marked_connector 15 (parsed_values sample_identity IParsed None) token_connector]\<rparr>\<rparr>"

lemma parsed_confirmed:
  obtains w where "verifyParsedConnectorIdentity sample_api sample_identity parsed_world = (Inr \<lparr>verified_accountId = ''c'',
      verified_accountIdentifier = sample_account, verified_tunnelId = sample_tunnel\<rparr>, w)" "store w = store parsed_world"
proof -
  let ?a = "cloudflareAccountSecret token_account"
  have "\<exists>w. verifyParsedConnectorIdentity sample_api sample_identity parsed_world = (Inr \<lparr>verified_accountId = CloudflareAccount_id ?a,
      verified_accountIdentifier = token_accountIdentifier sample_identity, verified_tunnelId = token_tunnelId sample_identity\<rparr>, w)
      \<and> store w = store parsed_world"
  proof (rule verifyParsed_confirmed)
    show "getCloudflareAccountSecretByIdentifier (token_accountIdentifier sample_identity) (store parsed_world) = Some ?a"
      by (simp add: getCloudflareAccountSecretByIdentifier_def parsed_world_def confirmed_world_def sample_identity_def token_account_def)
    show "open_secret sample_api (CloudflareAccountSecret_encryptedApiToken ?a) = Inr ''key''"
      by (simp add: cloudflareAccountSecret_def token_account_def sealed_opens CloudflareAccount.defs CloudflareAccountSecret.defs cloudflareAccount_def)
    show "answers parsed_world = [(json_answer tunnel_answer, id), (json_answer token_answer, id)]"
      by (simp add: parsed_world_def sample_answers)
    show "\<forall>x \<in> {tunnel_answer, token_answer}. json_ok (JObj x) \<and> length (utf8_bytes (JSON_stringify (JObj x))) \<le> 262144
      \<and> jprop x ''success'' = Some (JBool True)"
      using tunnel_answer_small token_answer_small
      by (simp add: tunnel_answer_def token_answer_def jprop_def del: JSON_stringify.simps)
    show "metadata_of tunnel_answer (token_tunnelId sample_identity) = Some \<lparr>metadata_id = token_tunnelId sample_identity,
      metadata_accountIdentifier = token_accountIdentifier sample_identity, metadata_deleted = False\<rparr>"
      by (simp add: sample_identity_def tunnel_answer_metadata)
    show "token_in token_answer = Some sample_token" by (rule token_answer_token)
    show "parse_token sample_api sample_token = Some sample_identity" by (rule sample_token_parses)
  qed
  then show thesis by (auto intro: that simp: sample_identity_def cloudflareAccountSecret_def token_account_def cloudflareAccount_def
      CloudflareAccount.defs CloudflareAccountSecret.defs)
qed

lemma token_connector_sealed: "con_token_encrypted token_connector = seal_secret sample_api 0 sample_token"
  by (simp add: token_connector_def)

lemma mark_parsed:
  "mark_identity sample_api ''k'' (connectorDeployment token_connector) (parsed_values sample_identity IParsed None) confirmed_world
     = (Inr (Some (connector (marked_connector 15 (parsed_values sample_identity IParsed None) token_connector))), parsed_world)"
proof -
  have "markConnectorIdentity 15 ''k'' \<lparr>Expectation_desiredRevision = 1, Expectation_encryptedToken = seal_secret sample_api 0 sample_token\<rparr>
      (parsed_values sample_identity IParsed None) (store confirmed_world)
    = Inr (Some (connector (marked_connector 15 (parsed_values sample_identity IParsed None) token_connector)), store parsed_world)"
    unfolding parsed_world_def
    by (subst mark_only_connector [where r = token_connector])
      (simp_all add: confirmed_world_def empty_db_def token_connector_def connector_checks_def marked_connector_def parsed_values_def Let_def)
  then show ?thesis
    by (simp add: mark_identity_def tries_def connectorDeployment_def token_connector_def sample_api_def parsed_world_def)
qed

lemma sample_verified:
  obtains c w where "verifyStoredConnector sample_api ''k'' confirmed_world = (Inr (Some c), w)" "Connector_identityStatus c = IVerified"
proof -
  let ?k = "connectorDeployment token_connector" and ?p = sample_identity
  let ?v = "\<lparr>verified_accountId = ''c'', verified_accountIdentifier = sample_account, verified_tunnelId = sample_tunnel\<rparr>"
  let ?r = "marked_connector 15 (parsed_values ?p IParsed None) token_connector"
  let ?s = "marked_connector 15 (verified_values ?v) ?r"
  obtain w where w: "verifyParsedConnectorIdentity sample_api ?p parsed_world = (Inr ?v, w)" "store w = store parsed_world"
    by (rule parsed_confirmed)
  have s: "con_identity_status ?s = IVerified"
    by (simp add: marked_connector_def verified_values_def parsed_values_def token_connector_def identity_differs_def Let_def)
  have "markConnectorIdentity 15 ''k'' \<lparr>Expectation_desiredRevision = 1, Expectation_encryptedToken = con_token_encrypted token_connector\<rparr>
      (verified_values ?v) (store w) = Inr (Some (connector ?s), (store w)\<lparr>connectors := [?s]\<rparr>)"
    by (rule mark_only_connector)
      (simp_all add: w parsed_world_def confirmed_world_def empty_db_def token_connector_def connector_checks_def
        marked_connector_def parsed_values_def verified_values_def identity_differs_def sample_identity_def Let_def)
  then have rec: "record_verified sample_api ''k'' ?k ?v w = (Inr (Some (connector ?s)), w\<lparr>store := (store w)\<lparr>connectors := [?s]\<rparr>\<rparr>)"
    using s by (simp add: record_verified_def mark_identity_def tries_def chain_def give_def connectorDeployment_def token_connector_def
        sample_api_def connector_def)
  have "verify_or_mark sample_api ''k'' ?k ?p parsed_world = (Inr (Some ?v), w)"
    using w by (simp add: verify_or_mark_def attempt_def chain_def give_def)
  with rec mark_parsed sample_token_parses
  have "verify_token sample_api ''k'' ?k sample_token confirmed_world = (Inr (Some (connector ?s)), w\<lparr>store := (store w)\<lparr>connectors := [?s]\<rparr>\<rparr>)"
    by (simp add: verify_token_def chain_def)
  moreover have "open_secret sample_api (ConnectorDeployment_encryptedToken ?k) = Inr sample_token"
    by (simp add: connectorDeployment_def token_connector_sealed sealed_opens sample_token_text)
  moreover have "getConnectorDeployment ''k'' (store confirmed_world) = Some ?k"
    by (simp add: getConnectorDeployment_def confirmed_world_def token_connector_def)
  ultimately have "verifyStoredConnector sample_api ''k'' confirmed_world = (Inr (Some (connector ?s)), w\<lparr>store := (store w)\<lparr>connectors := [?s]\<rparr>\<rparr>)"
    by (simp add: verifyStoredConnector_def chain_def reads_def the_or_def give_def)
  moreover have "Connector_identityStatus (connector ?s) = IVerified" using s by (simp add: connector_def)
  ultimately show thesis by (rule that)
qed

theorem verified_connectors_are_attested_witness:
  "\<exists>c w. verifyStoredConnector sample_api ''k'' confirmed_world = (Inr (Some c), w) \<and> Connector_identityStatus c = IVerified
     \<and> Connector_id c = ''k'' \<and> attested (set (answers confirmed_world)) sample_api sample_identity"
proof -
  obtain c w where run: "verifyStoredConnector sample_api ''k'' confirmed_world = (Inr (Some c), w)" "Connector_identityStatus c = IVerified"
    by (rule sample_verified)
  have k: "getConnectorDeployment ''k'' (store confirmed_world) = Some (connectorDeployment token_connector)"
    by (simp add: getConnectorDeployment_def confirmed_world_def token_connector_def)
  have t: "open_secret sample_api (ConnectorDeployment_encryptedToken (connectorDeployment token_connector)) = Inr sample_token"
    by (simp add: connectorDeployment_def token_connector_sealed sealed_opens sample_token_text)
  from verified_connectors_are_attested [OF run] k t sample_token_parses
  have "attested (set (answers confirmed_world)) sample_api sample_identity" "Connector_id c = ''k''"
    by (auto simp: connector_def)
  with run show ?thesis by blast
qed

end
