(* ===== verification/Gw_Reconcile.thy ===== *)
theory Gw_Reconcile
  imports Gw_Trace
begin

text \<open>
  The reconciliation of a publication with Cloudflare (app.ts, cloudflareClientForAccount and
  reconcileDomainAccess): the DNS records and the ingress rules that the publication wants are
  created, those it does not want are removed, and a failed attempt is undone. The advisory lock
  that serialises reconciliations of one publication is not modelled; the write-backs are fenced by
  the revision anyway. A tunnel that is \<open>null\<close> is rendered as such in texts.
\<close>

section \<open>Variables that a \<open>catch\<close> sees\<close>

text \<open>A piece of a handler with local variables that outlive an exception.\<close>

type_synonym ('s, 'a) job = "'s \<Rightarrow> world \<Rightarrow> (failure + 'a) \<times> 's \<times> world"

definition lift :: "'a handler \<Rightarrow> ('s, 'a) job" where
  "lift m s w = (case m w of (r, w') \<Rightarrow> (r, s, w'))"

definition jchain :: "('s, 'a) job \<Rightarrow> ('a \<Rightarrow> ('s, 'b) job) \<Rightarrow> ('s, 'b) job" where
  "jchain m f s w = (case m s w of (Inl e, s', w') \<Rightarrow> (Inl e, s', w') | (Inr x, s', w') \<Rightarrow> f x s' w')"

definition assign :: "('s \<Rightarrow> 's) \<Rightarrow> ('s, unit) job" where
  "assign f s w = (Inr (), f s, w)"

fun jeach :: "('a \<Rightarrow> 't \<Rightarrow> ('s, 't) job) \<Rightarrow> 'a list \<Rightarrow> 't \<Rightarrow> ('s, 't) job" where
  "jeach f [] t = lift (give t)"
| "jeach f (x # xs) t = jchain (f x t) (\<lambda>t'. jeach f xs t')"

text \<open>\<open>try\<close> a job from its initial variables; the handler of the exception gets them as they are then.\<close>

definition jattempt :: "('s, 'a) job \<Rightarrow> 's \<Rightarrow> (failure \<Rightarrow> 's \<Rightarrow> 'a handler) \<Rightarrow> 'a handler" where
  "jattempt m s h w = (case m s w of (Inl e, s', w') \<Rightarrow> h e s' w' | (Inr x, s', w') \<Rightarrow> (Inr x, w'))"

section \<open>Errors\<close>

definition safeCloudflareError :: "failure \<Rightarrow> string" where
  "safeCloudflareError x = (case x of Cloudflare f \<Rightarrow> take 500 (cf_message f) | _ \<Rightarrow> ''Cloudflare reconciliation failed.'')"

definition superseded :: failure where
  "superseded = Api (ApiError 409 ''A newer domain access change superseded this operation.'' (Some ''domain_access_superseded''))"

definition not_found_at_cloudflare :: "failure \<Rightarrow> bool" where
  "not_found_at_cloudflare x = (case x of Cloudflare f \<Rightarrow> isExplicitNotFound f | _ \<Rightarrow> False)"

definition credentials_lost :: ApiError where
  "credentials_lost = ApiError 500 ''Cloudflare account credentials could not be decrypted.'' None"

definition cloudflareClientForAccount :: "api \<Rightarrow> uuid \<Rightarrow> (cf_client \<times> string) handler" where
  "cloudflareClientForAccount e i =
     chain (reads (getCloudflareAccountSecret i)) (\<lambda>found.
     chain (the_or found (ApiError 404 ''Cloudflare account not found.'' None)) (\<lambda>account.
     (case open_secret e (CloudflareAccountSecret_encryptedApiToken account) of
        Inl _ \<Rightarrow> throw (Api credentials_lost)
      | Inr apiToken \<Rightarrow> give (\<lparr>cf_token = apiToken, cf_fed = False\<rparr>, CloudflareAccount_accountIdentifier account))))"

section \<open>What a publication wants\<close>

type_synonym deployment = CloudflareDomainAccessDeployment

definition marker_of :: "deployment \<Rightarrow> string" where
  "marker_of k = ''gateway-control:domain-access:'' @ DomainAccess_id k"

definition tunnel_text :: "deployment \<Rightarrow> string" where
  "tunnel_text k = (case DomainDeployment_tunnelId k of None \<Rightarrow> ''null'' | Some t \<Rightarrow> t)"

definition has_tunnel :: "deployment \<Rightarrow> bool" where
  "has_tunnel k \<longleftrightarrow> DomainDeployment_tunnelId k \<noteq> None \<and> DomainDeployment_tunnelId k \<noteq> Some []"

definition address_records :: "deployment \<Rightarrow> (RecordType \<times> string) list" where
  "address_records k = map (Pair RecA) (DomainAccess_publicIpv4 k) @ map (Pair RecAAAA) (DomainAccess_publicIpv6 k)"

definition tunnel_record :: "deployment \<Rightarrow> RecordType \<times> string" where
  "tunnel_record k = (RecCNAME, tunnel_text k @ ''.cfargotunnel.com'')"

definition desired_records :: "deployment \<Rightarrow> (RecordType \<times> string) list" where
  "desired_records k = (if DomainAccess_accessMethod k = Tunnel then [tunnel_record k] else address_records k)"

definition recoverable_desired :: "deployment \<Rightarrow> (RecordType \<times> string) list" where
  "recoverable_desired k =
     (if DomainAccess_accessMethod k = Tunnel then (if has_tunnel k then [tunnel_record k] else []) else address_records k)"

definition item_for :: "(RecordType \<times> string) list \<Rightarrow> RecordType \<Rightarrow> string \<Rightarrow> (RecordType \<times> string) option" where
  "item_for items t content = find (\<lambda>(u, c). u = t \<and> lower c = lower content) items"

definition marked :: "deployment \<Rightarrow> CloudflareDnsRecord \<Rightarrow> bool" where
  "marked k r \<longleftrightarrow> cfr_proxied r = DomainAccess_proxied k \<and> cfr_comment r = Some (marker_of k)"

definition owned_records :: "deployment \<Rightarrow> DomainAccessDnsRecord list" where
  "owned_records k = filter (\<lambda>r. DnsRecord_status r \<noteq> RecDeleted) (DomainAccess_ownedDnsRecords k)"

definition tunnel_topology_valid :: "deployment \<Rightarrow> bool" where
  "tunnel_topology_valid k \<longleftrightarrow>
     DomainAccess_accessMethod k \<noteq> Tunnel
     \<or> (DomainAccess_connectorId k \<noteq> None \<and> DomainDeployment_connectorEnabled k = Some True \<and> DomainDeployment_tunnelId k \<noteq> None
        \<and> DomainDeployment_connectorIdentityStatus k = Some IVerified
        \<and> map_option lower (DomainDeployment_connectorTokenAccountIdentifier k) = Some (lower (DomainDeployment_accountIdentifier k))
        \<and> map_option lower (DomainDeployment_connectorTokenTunnelId k) = map_option lower (DomainDeployment_tunnelId k)
        \<and> DomainDeployment_connectorAccountId k = Some (DomainAccess_cloudflareAccountId k)
        \<and> DomainDeployment_connectorAgentId k = Some (DomainDeployment_routeAgentId k))"

definition topology_valid :: "deployment \<Rightarrow> bool" where
  "topology_valid k \<longleftrightarrow>
     DomainDeployment_accountEnabled k \<and> DomainDeployment_zoneStatus k = ''active''
     \<and> DomainDeployment_zoneAccountId k = DomainAccess_cloudflareAccountId k
     \<and> DomainDeployment_routeExposure k = (if DomainAccess_accessMethod k = Tunnel then ExpTunnel else ExpPublic)
     \<and> DomainDeployment_routeEnabled k \<and> DomainDeployment_routeStatus k = DepActive
     \<and> lower (DomainDeployment_routeHostname k) = lower (DomainAccess_hostname k)
     \<and> hostnameWithinZone (DomainAccess_hostname k) (DomainDeployment_zoneName k) \<and> tunnel_topology_valid k"

section \<open>Write-backs\<close>

definition outcome_of :: "api \<Rightarrow> deployment \<Rightarrow> uuid \<Rightarrow> DomainStatus \<Rightarrow> string option \<Rightarrow> CloudflareDomainAccess handler" where
  "outcome_of e k i status lastError =
     chain (tries (markDomainAccessOutcome (env_now e) i (DomainAccess_revision k) status lastError)) (\<lambda>saved.
     (case saved of None \<Rightarrow> throw superseded | Some a \<Rightarrow> give a))"

definition mark_record :: "deployment \<Rightarrow> uuid \<Rightarrow> string \<Rightarrow> RecordStatus \<Rightarrow> string option \<Rightarrow> bool handler" where
  "mark_record k i rid status err = writes (markDomainAccessDnsRecordStatus i (DomainAccess_revision k) rid status err)"

definition mark_deleted :: "deployment \<Rightarrow> uuid \<Rightarrow> string \<Rightarrow> unit handler" where
  "mark_deleted k i rid = chain (mark_record k i rid RecDeleted None) (\<lambda>done'. if done' then give () else throw superseded)"

definition save_record :: "api \<Rightarrow> deployment \<Rightarrow> uuid \<Rightarrow> RecordType \<times> string \<Rightarrow> string \<Rightarrow> unit handler" where
  "save_record e k i item rid =
     chain (tries (saveDomainAccessDnsRecord (env_now e) i (DomainAccess_revision k) (fst item) (snd item) rid (marker_of k))) (\<lambda>saved.
     if saved = None then throw superseded else give ())"

definition deleteOwnedRecord :: "cf_client \<Rightarrow> deployment \<Rightarrow> uuid \<Rightarrow> string \<Rightarrow> unit handler" where
  "deleteOwnedRecord c k i rid =
     attempt (chain (deleteDnsRecord c (DomainDeployment_zoneIdentifier k) rid) (\<lambda>_. mark_deleted k i rid))
       (\<lambda>x. if not_found_at_cloudflare x then mark_deleted k i rid
            else chain (mark_record k i rid RecCleanupPending (Some (safeCloudflareError x))) (\<lambda>_. throw x))"

section \<open>Withdrawing a publication\<close>

record progress =
  created_ids :: "string list"
  original_ingress :: "ingress_rule list option"

definition remove_recoverable :: "api \<Rightarrow> cf_client \<Rightarrow> deployment \<Rightarrow> uuid \<Rightarrow> CloudflareDnsRecord \<Rightarrow> unit handler" where
  "remove_recoverable e c k i r =
     (case item_for (recoverable_desired k) (cfr_type r) (cfr_content r) of
        None \<Rightarrow> give ()
      | Some item \<Rightarrow> chain (save_record e k i item (cfr_id r)) (\<lambda>_. deleteOwnedRecord c k i (cfr_id r)))"

definition recoverable :: "deployment \<Rightarrow> CloudflareDnsRecord \<Rightarrow> bool" where
  "recoverable k r \<longleftrightarrow> marked k r \<and> item_for (recoverable_desired k) (cfr_type r) (cfr_content r) \<noteq> None"

definition change_ingress ::
  "cf_client \<Rightarrow> deployment \<Rightarrow> (ingress_rule list \<Rightarrow> string \<Rightarrow> ingress_rule list) \<Rightarrow> (progress, unit) job" where
  "change_ingress c k f =
     jchain (lift (getTunnelConfig c (DomainDeployment_accountIdentifier k) (tunnel_text k))) (\<lambda>ingress.
     jchain (assign (\<lambda>s. s\<lparr>original_ingress := Some ingress\<rparr>)) (\<lambda>_.
     lift (putTunnelConfig c (DomainDeployment_accountIdentifier k) (tunnel_text k) (f ingress (DomainAccess_hostname k)))))"

definition withdraw :: "api \<Rightarrow> cf_client \<Rightarrow> deployment \<Rightarrow> uuid \<Rightarrow> (progress, CloudflareDomainAccess) job" where
  "withdraw e c k i =
     jchain (lift (each (\<lambda>r _. deleteOwnedRecord c k i (DnsRecord_cloudflareRecordId r)) (owned_records k) ())) (\<lambda>_.
     jchain (lift (listDnsRecordsExact c (DomainDeployment_zoneIdentifier k) (DomainAccess_hostname k))) (\<lambda>remote.
     jchain (lift (each (\<lambda>r _. remove_recoverable e c k i r) (filter (recoverable k) remote) ())) (\<lambda>_.
     jchain (if DomainAccess_accessMethod k = Tunnel \<and> has_tunnel k then change_ingress c k disabledIngress else lift (give ())) (\<lambda>_.
     lift (outcome_of e k i DomDisabled None)))))"

section \<open>Publishing\<close>

text \<open>Records that carry the marker and were not recorded are adopted; the loop keeps the owned records
  and their identifiers.\<close>

definition adopt_record ::
  "api \<Rightarrow> deployment \<Rightarrow> uuid \<Rightarrow> CloudflareDnsRecord \<Rightarrow> DomainAccessDnsRecord list \<times> string list
    \<Rightarrow> (DomainAccessDnsRecord list \<times> string list) handler" where
  "adopt_record e k i r =
     (\<lambda>(owned, ownedIds).
     (case item_for (desired_records k) (cfr_type r) (cfr_content r) of
        None \<Rightarrow> give (owned, ownedIds)
      | Some item \<Rightarrow>
          if cfr_id r \<in> set ownedIds \<or> \<not> marked k r then give (owned, ownedIds)
          else chain (save_record e k i item (cfr_id r)) (\<lambda>_.
            give (owned @ [\<lparr>DnsRecord_type = fst item, DnsRecord_content = snd item, DnsRecord_cloudflareRecordId = cfr_id r,
                    DnsRecord_ownershipMarker = marker_of k, DnsRecord_status = RecActive, DnsRecord_lastError = None\<rparr>],
                  ownedIds @ [cfr_id r]))))"

definition foreign_record :: "deployment \<Rightarrow> string list \<Rightarrow> CloudflareDnsRecord \<Rightarrow> bool" where
  "foreign_record k ownedIds r \<longleftrightarrow> cfr_type r \<in> fst ` set (desired_records k) \<and> cfr_id r \<notin> set ownedIds"

text \<open>An owned record that is not wanted, or is not at Cloudflare as it was recorded.\<close>

definition outdated :: "deployment \<Rightarrow> CloudflareDnsRecord list \<Rightarrow> DomainAccessDnsRecord \<Rightarrow> bool" where
  "outdated k remote r \<longleftrightarrow>
     item_for (desired_records k) (DnsRecord_type r) (DnsRecord_content r) = None
     \<or> (case find (\<lambda>a. cfr_id a = DnsRecord_cloudflareRecordId r) remote of
          None \<Rightarrow> True
        | Some a \<Rightarrow> lower (cfr_content a) \<noteq> lower (DnsRecord_content r) \<or> \<not> marked k a)"

definition drop_outdated ::
  "cf_client \<Rightarrow> deployment \<Rightarrow> uuid \<Rightarrow> CloudflareDnsRecord list \<Rightarrow> DomainAccessDnsRecord \<Rightarrow> DomainAccessDnsRecord list
    \<Rightarrow> DomainAccessDnsRecord list handler" where
  "drop_outdated c k i remote r owned =
     (if outdated k remote r
      then chain (deleteOwnedRecord c k i (DnsRecord_cloudflareRecordId r)) (\<lambda>_. give (remove1 r owned))
      else give owned)"

definition already_there ::
  "deployment \<Rightarrow> DomainAccessDnsRecord list \<Rightarrow> CloudflareDnsRecord list \<Rightarrow> RecordType \<times> string \<Rightarrow> bool" where
  "already_there k owned remote item \<longleftrightarrow>
     (\<exists>r \<in> set owned. DnsRecord_type r = fst item \<and> lower (DnsRecord_content r) = lower (snd item)
        \<and> (\<exists>a \<in> set remote. cfr_id a = DnsRecord_cloudflareRecordId r \<and> marked k a))"

definition create_record :: "cf_client \<Rightarrow> deployment \<Rightarrow> RecordType \<times> string \<Rightarrow> CloudflareDnsRecord handler" where
  "create_record c k item =
     (if fst item = RecCNAME
      then createDnsCname c (DomainDeployment_zoneIdentifier k) (DomainAccess_hostname k) (tunnel_text k) (DomainAccess_proxied k) (marker_of k)
      else createDnsAddress c (DomainDeployment_zoneIdentifier k) (fst item) (DomainAccess_hostname k) (snd item)
             (DomainAccess_proxied k) (marker_of k))"

text \<open>The record that a failed creation left behind after all, and the list it was found in.\<close>

definition is_wanted :: "deployment \<Rightarrow> RecordType \<times> string \<Rightarrow> CloudflareDnsRecord \<Rightarrow> bool" where
  "is_wanted k item r \<longleftrightarrow> cfr_type r = fst item \<and> lower (cfr_content r) = lower (snd item) \<and> marked k r"

definition create_or_recover ::
  "cf_client \<Rightarrow> deployment \<Rightarrow> CloudflareDnsRecord list \<Rightarrow> RecordType \<times> string
    \<Rightarrow> (CloudflareDnsRecord \<times> CloudflareDnsRecord list) handler" where
  "create_or_recover c k remote item =
     attempt (chain (create_record c k item) (\<lambda>r. give (r, remote)))
       (\<lambda>x. chain (listDnsRecordsExact c (DomainDeployment_zoneIdentifier k) (DomainAccess_hostname k)) (\<lambda>remote'.
          (case find (is_wanted k item) remote' of None \<Rightarrow> throw x | Some r \<Rightarrow> give (r, remote'))))"

definition ensure_record ::
  "api \<Rightarrow> cf_client \<Rightarrow> deployment \<Rightarrow> uuid \<Rightarrow> DomainAccessDnsRecord list \<Rightarrow> RecordType \<times> string \<Rightarrow> CloudflareDnsRecord list
    \<Rightarrow> (progress, CloudflareDnsRecord list) job" where
  "ensure_record e c k i owned item remote =
     (if already_there k owned remote item then lift (give remote)
      else
        jchain (lift (create_or_recover c k remote item)) (\<lambda>(created, remote').
        jchain (assign (\<lambda>s. s\<lparr>created_ids := created_ids s @ [cfr_id created]\<rparr>)) (\<lambda>_.
        jchain (lift (save_record e k i item (cfr_id created))) (\<lambda>_.
        jchain (lift (getDnsRecord c (DomainDeployment_zoneIdentifier k) (cfr_id created) (DomainAccess_hostname k))) (\<lambda>readBack.
        lift (if is_wanted k item readBack then give remote'
              else bad_gateway ''Cloudflare DNS record read-back did not match the requested ownership metadata.''))))))"

definition publish :: "api \<Rightarrow> cf_client \<Rightarrow> deployment \<Rightarrow> uuid \<Rightarrow> bool \<Rightarrow> (progress, CloudflareDomainAccess) job" where
  "publish e c k i requireHttpsObservation =
     jchain (lift (listDnsRecordsExact c (DomainDeployment_zoneIdentifier k) (DomainAccess_hostname k))) (\<lambda>remote.
     jchain (lift (each (adopt_record e k i) remote (owned_records k, map DnsRecord_cloudflareRecordId (owned_records k)))) (\<lambda>(owned, ownedIds).
     jchain (lift (require (\<not> list_ex (foreign_record k ownedIds) remote)
       (ApiError 409 ''A DNS record with this hostname and type already exists and is not owned by GatewayControl.'' (Some ''dns_record_conflict'')))) (\<lambda>_.
     jchain (lift (each (drop_outdated c k i remote) owned owned)) (\<lambda>owned'.
     jchain (if DomainAccess_accessMethod k = Tunnel then change_ingress c k enabledIngress else lift (give ())) (\<lambda>_.
     jchain (jeach (ensure_record e c k i owned') (desired_records k) remote) (\<lambda>_.
     lift (outcome_of e k i (if requireHttpsObservation then DomPending else DomActive) None)))))))"

section \<open>Undoing a failed attempt\<close>

definition undo_creation :: "cf_client \<Rightarrow> deployment \<Rightarrow> uuid \<Rightarrow> string \<Rightarrow> unit handler" where
  "undo_creation c k i rid =
     attempt (chain (deleteDnsRecord c (DomainDeployment_zoneIdentifier k) rid) (\<lambda>_.
              chain (mark_record k i rid RecDeleted None) (\<lambda>_. give ())))
       (\<lambda>x. chain (if not_found_at_cloudflare x then mark_record k i rid RecDeleted None
                   else mark_record k i rid RecCleanupPending (Some (safeCloudflareError x))) (\<lambda>_. give ()))"

definition restore_ingress :: "cf_client \<Rightarrow> deployment \<Rightarrow> ingress_rule list option \<Rightarrow> unit handler" where
  "restore_ingress c k ingress =
     (case ingress of
        Some rules \<Rightarrow>
          if DomainAccess_accessMethod k = Tunnel \<and> DomainAccess_enabled k \<and> has_tunnel k
          then attempt (putTunnelConfig c (DomainDeployment_accountIdentifier k) (tunnel_text k) rules) (\<lambda>_. give ())
          else give ()
      | None \<Rightarrow> give ())"

definition safe_error :: "failure \<Rightarrow> string" where
  "safe_error x = (case x of Api a \<Rightarrow> take 500 (err_message a) | _ \<Rightarrow> safeCloudflareError x)"

definition was_superseded :: "failure \<Rightarrow> bool" where
  "was_superseded x \<longleftrightarrow> (case x of Api a \<Rightarrow> err_code a = Some ''domain_access_superseded'' | _ \<Rightarrow> False)"

definition final_failure :: "failure \<Rightarrow> failure" where
  "final_failure x = (case x of Api a \<Rightarrow> Api a | _ \<Rightarrow> Api (ApiError 502 (safe_error x) (Some ''cloudflare_reconciliation_failed'')))"

definition undo :: "api \<Rightarrow> cf_client \<Rightarrow> deployment \<Rightarrow> uuid \<Rightarrow> failure \<Rightarrow> progress \<Rightarrow> CloudflareDomainAccess handler" where
  "undo e c k i x s =
     chain (each (\<lambda>rid _. undo_creation c k i rid) (created_ids s) ()) (\<lambda>_.
     chain (restore_ingress c k (original_ingress s)) (\<lambda>_.
     chain (if was_superseded x then give ()
            else chain (tries (markDomainAccessOutcome (env_now e) i (DomainAccess_revision k) DomFailed (Some (safe_error x)))) (\<lambda>_. give ())) (\<lambda>_.
     throw (final_failure x))))"

section \<open>The reconciliation\<close>

definition topology_message :: string where
  "topology_message = ''Cloudflare domain access topology or active route requirements are no longer valid.''"

definition reconcile_deployment :: "api \<Rightarrow> deployment \<Rightarrow> uuid \<Rightarrow> bool \<Rightarrow> CloudflareDomainAccess handler" where
  "reconcile_deployment e k i requireHttpsObservation =
     chain (if DomainAccess_enabled k \<and> \<not> topology_valid k
            then chain (outcome_of e k i DomFailed (Some topology_message)) (\<lambda>_.
              throw (Api (ApiError 409 topology_message (Some ''domain_access_topology_invalid''))))
            else give ()) (\<lambda>_.
     (case open_secret e (DomainDeployment_encryptedApiToken k) of
        Inl _ \<Rightarrow> chain (outcome_of e k i DomFailed (Some (err_message credentials_lost))) (\<lambda>_. throw (Api credentials_lost))
      | Inr apiToken \<Rightarrow>
          let c = \<lparr>cf_token = apiToken, cf_fed = False\<rparr> in
          jattempt (if DomainAccess_enabled k then publish e c k i requireHttpsObservation else withdraw e c k i)
            \<lparr>created_ids = [], original_ingress = None\<rparr> (undo e c k i)))"

definition reconcileDomainAccess :: "api \<Rightarrow> uuid \<Rightarrow> bool \<Rightarrow> CloudflareDomainAccess handler" where
  "reconcileDomainAccess e i requireHttpsObservation =
     chain (reads (getCloudflareDomainAccessDeployment i)) (\<lambda>found.
     chain (the_or found (ApiError 404 ''Cloudflare domain access was not found.'' (Some ''domain_access_not_found''))) (\<lambda>k.
     reconcile_deployment e k i requireHttpsObservation))"

section \<open>Whose records are deleted\<close>

definition record_of :: "string \<Rightarrow> json option \<Rightarrow> CloudflareDnsRecord \<Rightarrow> bool" where
  "record_of h v r \<longleftrightarrow> (\<exists>w. fst (dnsRecord v h w) = Inr r)"

text \<open>A record that an answer of \<open>S\<close> lists, and one that an answer reports as its single result.\<close>

definition listed :: "(answer \<times> (db \<Rightarrow> db)) set \<Rightarrow> string \<Rightarrow> CloudflareDnsRecord \<Rightarrow> bool" where
  "listed S h r \<longleftrightarrow> (\<exists>a \<in> fst ` S. \<exists>envelope vs v. envelope_of a = Some envelope
     \<and> jprop envelope ''result'' = Some (JArr vs) \<and> v \<in> set vs \<and> record_of h (Some v) r)"

definition reported :: "(answer \<times> (db \<Rightarrow> db)) set \<Rightarrow> string \<Rightarrow> CloudflareDnsRecord \<Rightarrow> bool" where
  "reported S h r \<longleftrightarrow> (\<exists>a \<in> fst ` S. \<exists>envelope. envelope_of a = Some envelope \<and> record_of h (jprop envelope ''result'') r)"

definition own_record :: "(answer \<times> (db \<Rightarrow> db)) set \<Rightarrow> deployment \<Rightarrow> string \<Rightarrow> bool" where
  "own_record S k rid \<longleftrightarrow> rid \<in> DnsRecord_cloudflareRecordId ` set (owned_records k)
     \<or> (\<exists>r. cfr_id r = rid \<and> (listed S (DomainAccess_hostname k) r \<and> marked k r \<or> reported S (DomainAccess_hostname k) r))"

definition spares_others :: "(answer \<times> (db \<Rightarrow> db)) set \<Rightarrow> deployment \<Rightarrow> http_request \<Rightarrow> bool" where
  "spares_others S k r \<longleftrightarrow> (req_method r = ''DELETE'' \<longrightarrow>
     (\<exists>rid c. own_record S k rid \<and> req_url r = base_url c @ dnsRecordPath (DomainDeployment_zoneIdentifier k) rid))"

abbreviation spares :: "(answer \<times> (db \<Rightarrow> db)) set \<Rightarrow> deployment \<Rightarrow> http_request list \<Rightarrow> world \<Rightarrow> bool" where
  "spares S k s0 \<equiv> traced S (spares_others S k) s0"

lemma holds_harmless [holds_rules]:
  "method' \<noteq> ''DELETE'' \<Longrightarrow> holds (spares S k s0) (request c method' path body) (\<lambda>envelope. \<exists>a \<in> fst ` S. envelope_of a = Some envelope)"
  by (rule holds_request) (simp add: spares_others_def)

lemma holds_delete [holds_rules]:
  "own_record S k rid \<Longrightarrow> holds (spares S k s0) (deleteDnsRecord c (DomainDeployment_zoneIdentifier k) rid) (\<lambda>_. True)"
  unfolding deleteDnsRecord_def
  by (rule holds_then, rule holds_weaken, rule holds_request) (auto simp: spares_others_def holds_give)

lemma dnsRecord_holds: "holds I (dnsRecord v h) (record_of h v)"
proof -
  have "holds I (dnsRecord v h) (\<lambda>_. True)"
    by (auto simp: dnsRecord_def holds_bad_gateway holds_give split: option.split json.split)
  then show ?thesis by (auto simp: holds_def record_of_def)
qed

lemma holds_result_array: "holds I (result_array envelope m) (\<lambda>vs. jprop envelope ''result'' = Some (JArr vs))"
  by (auto simp: result_array_def holds_bad_gateway holds_give split: option.split json.split)

lemma add_record_holds:
  "(\<And>r. record_of h (Some v) r \<Longrightarrow> R r) \<Longrightarrow> \<forall>r \<in> set rs. R r \<Longrightarrow> holds I (add_record h v rs) (\<lambda>rs'. \<forall>r \<in> set rs'. R r)"
  unfolding add_record_def
  by (auto simp: holds_give split: json.split intro!: holds_chain [OF dnsRecord_holds])

lemma dns_pages_holds:
  "\<forall>r \<in> set rs. listed S h r \<Longrightarrow> holds (spares S k s0) (dns_pages c zone h left page rs) (\<lambda>rs'. \<forall>r \<in> set rs'. listed S h r)"
proof (induction left arbitrary: page rs)
  case (Suc left)
  show ?case
    unfolding dns_pages.simps
  proof (rule holds_chain [OF holds_harmless], simp, rule holds_chain [OF holds_result_array], rule holds_chain)
    fix envelope vs
    assume "\<exists>a \<in> fst ` S. envelope_of a = Some envelope" "jprop envelope ''result'' = Some (JArr vs)"
    then have "record_of h (Some v) r \<Longrightarrow> v \<in> set vs \<Longrightarrow> listed S h r" for v r unfolding listed_def by blast
    then show "holds (spares S k s0) (each (add_record h) vs rs) (\<lambda>rs'. \<forall>r \<in> set rs'. listed S h r)"
      by (intro holds_each add_record_holds Suc.prems)
  next
    fix envelope vs rs'
    assume "\<forall>r \<in> set rs'. listed S h r"
    then show "holds (spares S k s0) (case total_pages envelope page of
        None \<Rightarrow> bad_gateway ''Cloudflare returned invalid DNS pagination metadata.''
      | Some n \<Rightarrow>
          if n < int page then bad_gateway ''Cloudflare returned invalid DNS pagination metadata.''
          else if n = int page then give rs'
          else dns_pages c zone h left (page + 1) rs') (\<lambda>rs'. \<forall>r \<in> set rs'. listed S h r)"
      by (intro holds_option holds_if holds_bad_gateway holds_give Suc.IH)
  qed
qed (simp add: holds_bad_gateway)

lemma listDnsRecordsExact_holds:
  "holds (spares S k s0) (listDnsRecordsExact c zone h) (\<lambda>rs. \<forall>r \<in> set rs. listed S h r)"
  unfolding listDnsRecordsExact_def by (rule dns_pages_holds) simp

lemma create_record_holds:
  "holds (spares S k s0) (create_record c k item) (reported S (DomainAccess_hostname k))"
proof -
  have "holds (spares S k s0) (createDnsRecord c zone type (DomainAccess_hostname k) content proxied m) (reported S (DomainAccess_hostname k))"
    for zone type content proxied m
    unfolding createDnsRecord_def
    by (rule holds_chain [OF holds_harmless], simp, rule holds_weaken [OF dnsRecord_holds]) (auto simp: reported_def)
  then show ?thesis by (simp add: create_record_def createDnsCname_def createDnsAddress_def)
qed

section \<open>The reconciliation, piece by piece\<close>

lemma mark_deleted_holds [holds_rules]: "holds (spares S k s0) (mark_deleted k' i rid) (\<lambda>_. True)"
  unfolding mark_deleted_def mark_record_def superseded_def by (intro holds_rules) simp

lemma mark_record_holds [holds_rules]: "holds (spares S k s0) (mark_record k' i rid st err) (\<lambda>_. True)"
  unfolding mark_record_def by (rule holds_writes)

lemma save_record_holds [holds_rules]: "holds (spares S k s0) (save_record e k' i item rid) (\<lambda>_. True)"
  unfolding save_record_def by (intro holds_rules) simp

lemma outcome_of_holds [holds_rules]: "holds (spares S k s0) (outcome_of e k' i st err) (\<lambda>_. True)"
  unfolding outcome_of_def by (intro holds_rules) simp

lemma deleteOwnedRecord_holds [holds_rules]:
  "own_record S k rid \<Longrightarrow> holds (spares S k s0) (deleteOwnedRecord c k i rid) (\<lambda>_. True)"
  unfolding deleteOwnedRecord_def by (intro holds_rules) simp_all

lemma undo_creation_holds:
  "own_record S k rid \<Longrightarrow> holds (spares S k s0) (undo_creation c k i rid) (\<lambda>_. True)"
  unfolding undo_creation_def by (intro holds_rules) simp_all

lemma putTunnelConfig_holds [holds_rules]: "holds (spares S k s0) (putTunnelConfig c a t ingress) (\<lambda>_. True)"
  unfolding putTunnelConfig_def by (rule holds_chain [OF holds_harmless]) (simp_all add: holds_give)

lemma getDnsRecord_holds: "holds (spares S k s0) (getDnsRecord c zone rid h) (\<lambda>_. True)"
  unfolding getDnsRecord_def
  by (rule holds_chain [OF holds_harmless], simp, rule holds_weaken [OF dnsRecord_holds]) simp

lemma typed_rule_holds: "holds I (typed_rule v) (\<lambda>_. True)"
  by (auto simp: typed_rule_def holds_bad_gateway holds_give holds_throw split: option.split json.split)

lemma getTunnelConfig_holds: "holds (spares S k s0) (getTunnelConfig c a t) (\<lambda>_. True)"
proof -
  have rules: "holds I (each (\<lambda>v acc. chain (typed_rule v) (\<lambda>rule. give (acc @ [rule]))) vs []) (\<lambda>_. True)" for I vs
    by (intro holds_each holds_then typed_rule_holds holds_give) simp_all
  show ?thesis
    unfolding getTunnelConfig_def
    by (rule holds_chain [OF holds_harmless]) (auto simp: holds_bad_gateway rules split: option.split json.split)
qed

lemma adopted_holds:
  assumes "\<forall>r \<in> set remote. listed S (DomainAccess_hostname k) r"
    and "\<forall>r \<in> set owned. own_record S k (DnsRecord_cloudflareRecordId r)"
  shows "holds (spares S k s0) (each (adopt_record e k i) remote (owned, ids))
    (\<lambda>(owned, _). \<forall>r \<in> set owned. own_record S k (DnsRecord_cloudflareRecordId r))"
proof (rule holds_each)
  fix x and t :: "DomainAccessDnsRecord list \<times> string list"
  assume x: "x \<in> set remote" and t: "case t of (owned, _) \<Rightarrow> \<forall>r \<in> set owned. own_record S k (DnsRecord_cloudflareRecordId r)"
  obtain o' ids' where t': "t = (o', ids')" by fastforce
  have "own_record S k (cfr_id x)" if "marked k x"
    using that x assms(1) unfolding own_record_def by blast
  with t show "holds (spares S k s0) (adopt_record e k i x t)
      (\<lambda>(owned, _). \<forall>r \<in> set owned. own_record S k (DnsRecord_cloudflareRecordId r))"
    unfolding t' adopt_record_def prod.case
    by (intro holds_option holds_if holds_then save_record_holds holds_give) auto
qed (use assms(2) in simp)

lemma outdated_holds:
  assumes "\<forall>r \<in> set owned. own_record S k (DnsRecord_cloudflareRecordId r)"
  shows "holds (spares S k s0) (each (drop_outdated c k i remote) owned owned) (\<lambda>_. True)"
  by (rule holds_each) (use assms in \<open>auto simp: drop_outdated_def intro!: holds_rules\<close>)

lemma create_or_recover_holds:
  assumes "\<forall>r \<in> set remote. listed S (DomainAccess_hostname k) r"
  shows "holds (spares S k s0) (create_or_recover c k remote item)
    (\<lambda>(r, remote'). own_record S k (cfr_id r) \<and> (\<forall>r \<in> set remote'. listed S (DomainAccess_hostname k) r))"
  unfolding create_or_recover_def
proof (rule holds_attempt)
  show "holds (spares S k s0) (chain (create_record c k item) (\<lambda>r. give (r, remote)))
    (\<lambda>(r, remote'). own_record S k (cfr_id r) \<and> (\<forall>r \<in> set remote'. listed S (DomainAccess_hostname k) r))"
    by (rule holds_chain [OF create_record_holds], rule holds_give) (use assms in \<open>auto simp: own_record_def\<close>)
next
  fix x
  show "holds (spares S k s0) (chain (listDnsRecordsExact c (DomainDeployment_zoneIdentifier k) (DomainAccess_hostname k)) (\<lambda>remote'.
      (case find (is_wanted k item) remote' of None \<Rightarrow> throw x | Some r \<Rightarrow> give (r, remote'))))
    (\<lambda>(r, remote'). own_record S k (cfr_id r) \<and> (\<forall>r \<in> set remote'. listed S (DomainAccess_hostname k) r))"
    by (rule holds_chain [OF listDnsRecordsExact_holds], intro holds_option holds_throw holds_give)
      (auto simp: own_record_def is_wanted_def dest: find_someD)
qed

text \<open>Triples of jobs: \<open>J\<close> is kept of the local variables.\<close>

definition jholds :: "(world \<Rightarrow> bool) \<Rightarrow> ('s \<Rightarrow> bool) \<Rightarrow> ('s, 'a) job \<Rightarrow> ('a \<Rightarrow> bool) \<Rightarrow> bool" where
  "jholds I J m Q \<longleftrightarrow> (\<forall>s w r s' w'. I w \<longrightarrow> J s \<longrightarrow> m s w = (r, s', w') \<longrightarrow> I w' \<and> J s' \<and> (\<forall>x. r = Inr x \<longrightarrow> Q x))"

lemma jholds_lift: "holds I m Q \<Longrightarrow> jholds I J (lift m) Q"
  unfolding jholds_def lift_def by (auto split: prod.splits dest: holdsD)

lemma jholds_assign: "(\<And>s. J s \<Longrightarrow> J (f s)) \<Longrightarrow> jholds I J (assign f) (\<lambda>_. True)"
  by (simp add: jholds_def assign_def)

lemma jholds_chain:
  assumes "jholds I J m Q" "\<And>x. Q x \<Longrightarrow> jholds I J (f x) R"
  shows "jholds I J (jchain m f) R"
  unfolding jholds_def
proof (intro allI impI)
  fix s w r s' w'
  assume w: "I w" "J s" and run: "jchain m f s w = (r, s', w')"
  obtain r1 s1 w1 where m: "m s w = (r1, s1, w1)" by (metis surj_pair)
  have first: "I w1 \<and> J s1 \<and> (\<forall>x. r1 = Inr x \<longrightarrow> Q x)" using assms(1) w m unfolding jholds_def by blast
  show "I w' \<and> J s' \<and> (\<forall>x. r = Inr x \<longrightarrow> R x)"
  proof (cases r1)
    case (Inl e)
    with run m first show ?thesis by (auto simp: jchain_def)
  next
    case (Inr x)
    with run m have "f x s1 w1 = (r, s', w')" by (simp add: jchain_def)
    with assms(2) [of x] Inr first show ?thesis unfolding jholds_def by blast
  qed
qed

lemma jholds_each:
  "(\<And>x t. x \<in> set xs \<Longrightarrow> T t \<Longrightarrow> jholds I J (f x t) T) \<Longrightarrow> T t \<Longrightarrow> jholds I J (jeach f xs t) T"
proof (induction xs arbitrary: t)
  case (Cons x xs)
  have "jholds I J (f x t) T" using Cons(2,3) by simp
  then have "jholds I J (jchain (f x t) (\<lambda>t'. jeach f xs t')) T"
    by (rule jholds_chain) (rule Cons(1), use Cons(2) in simp_all)
  then show ?case by simp
qed (simp add: jholds_lift holds_give)

lemma jholds_if: "(c \<Longrightarrow> jholds I J a Q) \<Longrightarrow> (\<not> c \<Longrightarrow> jholds I J b Q) \<Longrightarrow> jholds I J (if c then a else b) Q"
  by simp

lemma jattempt_holds:
  assumes "jholds I J m Q" "J s" "\<And>e s. J s \<Longrightarrow> holds I (h e s) Q"
  shows "holds I (jattempt m s h) Q"
proof (rule holdsI)
  fix w r w'
  assume w: "I w" and run: "jattempt m s h w = (r, w')"
  obtain r1 s1 w1 where m: "m s w = (r1, s1, w1)" by (metis surj_pair)
  have first: "I w1 \<and> J s1 \<and> (\<forall>x. r1 = Inr x \<longrightarrow> Q x)" using assms(1,2) w m unfolding jholds_def by blast
  show "I w' \<and> (\<forall>x. r = Inr x \<longrightarrow> Q x)"
  proof (cases r1)
    case (Inl e)
    with run m have "h e s1 w1 = (r, w')" by (simp add: jattempt_def)
    from holdsD [OF assms(3) _ this] first show ?thesis by blast
  next
    case (Inr x)
    with run m first show ?thesis by (auto simp: jattempt_def)
  qed
qed

definition own_created :: "(answer \<times> (db \<Rightarrow> db)) set \<Rightarrow> deployment \<Rightarrow> progress \<Rightarrow> bool" where
  "own_created S k s \<longleftrightarrow> (\<forall>rid \<in> set (created_ids s). own_record S k rid)"

lemma change_ingress_holds: "jholds (spares S k s0) (own_created S k) (change_ingress c k f) (\<lambda>_. True)"
  unfolding change_ingress_def
  by (rule jholds_chain [OF jholds_lift [OF getTunnelConfig_holds]], rule jholds_chain [OF jholds_assign])
    (simp_all add: own_created_def jholds_lift putTunnelConfig_holds)

lemma owned_own: "r \<in> set (owned_records k) \<Longrightarrow> own_record S k (DnsRecord_cloudflareRecordId r)"
  by (simp add: own_record_def)

lemma withdraw_holds: "jholds (spares S k s0) (own_created S k) (withdraw e c k i) (\<lambda>_. True)"
  unfolding withdraw_def
proof (rule jholds_chain [OF jholds_lift, where Q = "\<lambda>_. True"], goal_cases)
  case 1
  show ?case by (rule holds_each [where T = "\<lambda>_. True"]) (auto intro: deleteOwnedRecord_holds owned_own)
next
  case 2
  show ?case
  proof (rule jholds_chain [OF jholds_lift [OF listDnsRecordsExact_holds]], rule jholds_chain [OF jholds_lift])
    fix remote
    assume "\<forall>r \<in> set remote. listed S (DomainAccess_hostname k) r"
    then have "own_record S k (cfr_id r)" if "r \<in> set (filter (recoverable k) remote)" for r
      using that by (auto simp: own_record_def recoverable_def)
    then show "holds (spares S k s0) (each (\<lambda>r _. remove_recoverable e c k i r) (filter (recoverable k) remote) ()) (\<lambda>_. True)"
      by (intro holds_each) (auto simp: remove_recoverable_def intro!: holds_rules)
  next
    fix x
    show "jholds (spares S k s0) (own_created S k)
      (jchain (if DomainAccess_accessMethod k = Tunnel \<and> has_tunnel k then change_ingress c k disabledIngress else lift (give ()))
        (\<lambda>_. lift (outcome_of e k i DomDisabled None))) (\<lambda>_. True)"
      by (rule jholds_chain [OF jholds_if, where Q = "\<lambda>_. True"], rule change_ingress_holds, rule jholds_lift, rule holds_give, simp,
          rule jholds_lift, rule outcome_of_holds)
  qed
qed

lemma ensure_record_holds:
  assumes "\<forall>r \<in> set remote. listed S (DomainAccess_hostname k) r"
  shows "jholds (spares S k s0) (own_created S k) (ensure_record e c k i owned item remote)
    (\<lambda>remote'. \<forall>r \<in> set remote'. listed S (DomainAccess_hostname k) r)"
  unfolding ensure_record_def
proof (rule jholds_if)
  show "jholds (spares S k s0) (own_created S k) (lift (give remote)) (\<lambda>remote'. \<forall>r \<in> set remote'. listed S (DomainAccess_hostname k) r)"
    by (rule jholds_lift, rule holds_give) (rule assms)
next
  have rest: "jholds (spares S k s0) (own_created S k)
      (jchain (assign (\<lambda>s. s\<lparr>created_ids := created_ids s @ [cfr_id created]\<rparr>)) (\<lambda>_.
       jchain (lift (save_record e k i item (cfr_id created))) (\<lambda>_.
       jchain (lift (getDnsRecord c (DomainDeployment_zoneIdentifier k) (cfr_id created) (DomainAccess_hostname k))) (\<lambda>readBack.
       lift (if is_wanted k item readBack then give remote'
             else bad_gateway ''Cloudflare DNS record read-back did not match the requested ownership metadata.'')))))
      (\<lambda>remote'. \<forall>r \<in> set remote'. listed S (DomainAccess_hostname k) r)"
    if "own_record S k (cfr_id created)" "\<forall>r \<in> set remote'. listed S (DomainAccess_hostname k) r" for created remote'
    by (rule jholds_chain [OF jholds_assign], use that(1) in \<open>simp add: own_created_def ball_Un\<close>,
        rule jholds_chain [OF jholds_lift [OF save_record_holds]], rule jholds_chain [OF jholds_lift [OF getDnsRecord_holds]],
        rule jholds_lift, intro holds_if holds_give holds_bad_gateway, rule that(2))
  show "jholds (spares S k s0) (own_created S k)
      (jchain (lift (create_or_recover c k remote item)) (\<lambda>(created, remote').
       jchain (assign (\<lambda>s. s\<lparr>created_ids := created_ids s @ [cfr_id created]\<rparr>)) (\<lambda>_.
       jchain (lift (save_record e k i item (cfr_id created))) (\<lambda>_.
       jchain (lift (getDnsRecord c (DomainDeployment_zoneIdentifier k) (cfr_id created) (DomainAccess_hostname k))) (\<lambda>readBack.
       lift (if is_wanted k item readBack then give remote'
             else bad_gateway ''Cloudflare DNS record read-back did not match the requested ownership metadata.''))))))
      (\<lambda>remote'. \<forall>r \<in> set remote'. listed S (DomainAccess_hostname k) r)"
    by (rule jholds_chain [OF jholds_lift [OF create_or_recover_holds [OF assms]]], erule case_prodE, hypsubst, unfold prod.case,
        elim conjE, rule rest)
qed

lemma publish_holds: "jholds (spares S k s0) (own_created S k) (publish e c k i b) (\<lambda>_. True)"
  unfolding publish_def
proof (rule jholds_chain [OF jholds_lift [OF listDnsRecordsExact_holds]])
  fix remote
  assume remote: "\<forall>r \<in> set remote. listed S (DomainAccess_hostname k) r"
  have "\<forall>r \<in> set (owned_records k). own_record S k (DnsRecord_cloudflareRecordId r)" by (simp add: owned_own)
  note adopted = adopted_holds [OF remote this, of s0 e i "map DnsRecord_cloudflareRecordId (owned_records k)"]
  have rest: "jholds (spares S k s0) (own_created S k)
      (jchain (lift (require (\<not> list_ex (foreign_record k ownedIds) remote) err)) (\<lambda>_.
       jchain (lift (each (drop_outdated c k i remote) owned owned)) (\<lambda>owned'.
       jchain (if DomainAccess_accessMethod k = Tunnel then change_ingress c k enabledIngress else lift (give ())) (\<lambda>_.
       jchain (jeach (ensure_record e c k i owned') (desired_records k) remote) (\<lambda>_.
       lift (outcome_of e k i (if b then DomPending else DomActive) None)))))) (\<lambda>_. True)"
    if "\<forall>r \<in> set owned. own_record S k (DnsRecord_cloudflareRecordId r)" for owned ownedIds err
    by (rule jholds_chain [OF jholds_lift [OF holds_require]], rule jholds_chain [OF jholds_lift [OF outdated_holds [OF that]]],
        rule jholds_chain [OF jholds_if, where Q = "\<lambda>_. True"],
        rule change_ingress_holds, rule jholds_lift, rule holds_give, simp,
        rule jholds_chain [OF jholds_each [where T = "\<lambda>remote. \<forall>r \<in> set remote. listed S (DomainAccess_hostname k) r"]],
        rule ensure_record_holds, assumption, rule remote, rule jholds_lift, rule outcome_of_holds)
  show "jholds (spares S k s0) (own_created S k)
      (jchain (lift (each (adopt_record e k i) remote (owned_records k, map DnsRecord_cloudflareRecordId (owned_records k)))) (\<lambda>(owned, ownedIds).
       jchain (lift (require (\<not> list_ex (foreign_record k ownedIds) remote)
         (ApiError 409 ''A DNS record with this hostname and type already exists and is not owned by GatewayControl.'' (Some ''dns_record_conflict'')))) (\<lambda>_.
       jchain (lift (each (drop_outdated c k i remote) owned owned)) (\<lambda>owned'.
       jchain (if DomainAccess_accessMethod k = Tunnel then change_ingress c k enabledIngress else lift (give ())) (\<lambda>_.
       jchain (jeach (ensure_record e c k i owned') (desired_records k) remote) (\<lambda>_.
       lift (outcome_of e k i (if b then DomPending else DomActive) None))))))) (\<lambda>_. True)"
    by (rule jholds_chain [OF jholds_lift [OF adopted]], erule case_prodE, hypsubst, unfold prod.case, rule rest, assumption)
qed

lemma restore_ingress_holds: "holds (spares S k s0) (restore_ingress c k' ingress) (\<lambda>_. True)"
  unfolding restore_ingress_def by (intro holds_rules) simp_all

lemma undo_holds:
  assumes "own_created S k s"
  shows "holds (spares S k s0) (undo e c k i x s) Q"
proof -
  have "holds (spares S k s0) (each (\<lambda>rid _. undo_creation c k i rid) (created_ids s) ()) (\<lambda>_. True)"
    by (rule holds_each) (use assms in \<open>auto simp: own_created_def intro: undo_creation_holds\<close>)
  then show ?thesis
    unfolding undo_def
    by (intro holds_then restore_ingress_holds holds_throw) (auto intro!: holds_rules)
qed

lemma reconcile_deployment_holds: "holds (spares S k s0) (reconcile_deployment e k i b) (\<lambda>_. True)"
  unfolding reconcile_deployment_def
proof (rule holds_then, goal_cases)
  case 1
  show ?case by (intro holds_if holds_then outcome_of_holds holds_throw holds_give) simp
next
  case (2 u)
  show ?case
  proof (cases "open_secret e (DomainDeployment_encryptedApiToken k)")
    case (Inl m)
    show ?thesis unfolding Inl sum.case by (intro holds_then outcome_of_holds holds_throw)
  next
    case (Inr t)
    show ?thesis
      unfolding Inr sum.case Let_def
      by (rule jattempt_holds [where J = "own_created S k"], intro jholds_if publish_holds withdraw_holds)
        (simp_all add: own_created_def undo_holds)
  qed
qed

section \<open>Property\<close>

text \<open>C38. Reconciling a publication deletes no DNS record that is not its own: every \<open>DELETE\<close> it sends, on
  whatever path, be it the withdrawal, the removal of outdated records or the undoing of a failed attempt,
  names a record of its zone that it had recorded as its own, or that Cloudflare listed under its host name
  with its ownership marker and its proxy setting, or that Cloudflare reported as a record of that host name
  in answer to a single request such as the creation.\<close>

theorem only_own_records_are_deleted:
  assumes "getCloudflareDomainAccessDeployment i (store w) = Some k"
    and "r \<in> set (drop (length (sent w)) (sent (snd (reconcileDomainAccess e i b w))))" "req_method r = ''DELETE''"
  shows "\<exists>rid c. own_record (set (answers w)) k rid \<and> req_url r = base_url c @ dnsRecordPath (DomainDeployment_zoneIdentifier k) rid"
proof -
  have run: "reconcileDomainAccess e i b w = reconcile_deployment e k i b w"
    using assms(1) by (simp add: reconcileDomainAccess_def chain_def reads_def the_or_def give_def)
  have "traced (set (answers w)) (spares_others (set (answers w)) k) (sent w) w" by (simp add: traced_def)
  with reconcile_deployment_holds [of "set (answers w)" k "sent w" e i b]
  have "traced (set (answers w)) (spares_others (set (answers w)) k) (sent w) (snd (reconcile_deployment e k i b w))"
    by (simp add: holds_def)
  then have "spares_others (set (answers w)) k r"
    using assms(2) unfolding run traced_def by (auto simp: list_all_iff)
  with assms(3) show ?thesis by (simp add: spares_others_def)
qed

text \<open>A publication that is switched off and still has a record, when Cloudflare cannot be reached.\<close>

definition switched_off :: db where
  "switched_off = sample_state_20
     \<lparr>accounts := map (\<lambda>a. a\<lparr>acc_api_token_encrypted := seal_secret sample_api 0 ''token''\<rparr>) (accounts sample_state_20),
      domains := map (\<lambda>h. h\<lparr>dom_enabled := False\<rparr>) (domains sample_state_20),
      dns_records := [\<lparr>dns_domain_access_id = unary 18, dns_record_type = RecCNAME, dns_content = ''tid.cfargotunnel.com'',
        dns_cloudflare_record_id = ''rec1'', dns_ownership_marker = ownership_marker (unary 18), dns_status = RecActive,
        dns_last_error = None, dns_created_at = 18\<rparr>]\<rparr>"

definition off_world :: world where
  "off_world = \<lparr>store = switched_off, answers = [], sent = [], disk = [], pauses = [], drawn = 0\<rparr>"

theorem only_own_records_are_deleted_witness:
  "\<exists>k r rid c. getCloudflareDomainAccessDeployment (unary 18) (store off_world) = Some k
     \<and> r \<in> set (sent (snd (reconcileDomainAccess sample_api (unary 18) False off_world))) \<and> req_method r = ''DELETE''
     \<and> own_record {} k rid \<and> req_url r = base_url c @ dnsRecordPath (DomainDeployment_zoneIdentifier k) rid"
proof -
  have "getCloudflareDomainAccessDeployment (unary 18) (store off_world) \<noteq> None" by code_simp
  then obtain k where k: "getCloudflareDomainAccessDeployment (unary 18) (store off_world) = Some k" by blast
  have "list_ex (\<lambda>r. req_method r = ''DELETE'') (sent (snd (reconcileDomainAccess sample_api (unary 18) False off_world)))"
    by code_simp
  then obtain r where r: "r \<in> set (sent (snd (reconcileDomainAccess sample_api (unary 18) False off_world)))" "req_method r = ''DELETE''"
    by (auto simp: list_ex_iff)
  then have r': "r \<in> set (drop (length (sent off_world)) (sent (snd (reconcileDomainAccess sample_api (unary 18) False off_world))))"
    by (simp add: off_world_def)
  have "set (answers off_world) = {}" by (simp add: off_world_def)
  with only_own_records_are_deleted [OF k r' r(2)] k r show ?thesis by auto
qed

end
