(* ===== verification/Gw_Http.thy ===== *)
theory Gw_Http
  imports Gw_Archive Gw_AgentApi Gw_Identity Gw_Reconcile Gw_Tls Gw_Compose Gw_Source
begin

text \<open>
  The frame of the routes of app.ts: a request, the options of the application, the check of the
  session of a user, the answer to an error, and the routes of users and sessions. A route that
  needs a user is a function of the user its check returned.
\<close>

section \<open>Requests and options\<close>

record http_in =
  in_cookie :: "string option"
  in_authorization :: "string option"
  in_id :: "string option"
  in_query_agent :: "json option"
  in_key :: "string option"
  in_body :: "json option"
  in_content_type :: "string option"
  in_content_length :: "string option"
  in_stream :: "bytes list"
  in_aborted :: bool

text \<open>
  What \<open>BuildAppOptions\<close> configures, and the parts of the platform that a route calls: argon2, the
  URL object, the service of system recovery if there is one, GitHub as a function from addresses to responses, the YAML package, the texts of the
  errors of the Compose policy, the observer of certificates, which hosts it observes too late for
  the bounded variant, and the texts of the errors of the database driver.
\<close>

record options =
  opt_argon2_hash :: "string \<Rightarrow> string"
  opt_argon2_verify :: "string \<Rightarrow> string \<Rightarrow> bool"
  opt_sessionTtlHours :: int
  opt_defaultAgentImage :: "string option"
  opt_traefikDynamicVolume :: "string option"
  opt_systemBackupNasRoot :: "string option"
  opt_systemBackupNasMarker :: "string option"
  opt_recoverySupervisorEnabled :: bool
  opt_recovery :: "recovery_options option"
  opt_guidedVerificationTimeoutMs :: "int option"
  opt_web :: url_platform
  opt_raw_url :: "string \<Rightarrow> url"
  opt_github :: "string \<Rightarrow> fetch_response option"
  opt_yaml :: yaml_api
  opt_policy_message :: "policy_error \<Rightarrow> string"
  opt_tlsObserver :: "string \<Rightarrow> TlsObservation"
  opt_tls_late :: "string \<Rightarrow> bool"
  opt_pg_message :: "pg_error \<Rightarrow> string"
  opt_topology :: topology_limits

section \<open>Runs that succeed\<close>

text \<open>What a successful run of a handler went through, construct by construct.\<close>

lemma chain_pureE: "chain (pure v) f w = (Inr x, w') \<Longrightarrow> (\<And>y. v = Inr y \<Longrightarrow> f y w = (Inr x, w') \<Longrightarrow> P) \<Longrightarrow> P"
  by (auto simp: chain_def pure_def give_def throw_def split: sum.splits)

lemma chain_readsE: "chain (reads g) f w = (Inr x, w') \<Longrightarrow> (f (g (store w)) w = (Inr x, w') \<Longrightarrow> P) \<Longrightarrow> P"
  by (simp add: chain_def reads_def)

lemma chain_requireE: "chain (require c err) f w = (Inr x, w') \<Longrightarrow> (c \<Longrightarrow> f () w = (Inr x, w') \<Longrightarrow> P) \<Longrightarrow> P"
  by (auto simp: chain_def require_def give_def throw_def split: if_splits)

lemma chain_the_orE: "chain (the_or v err) f w = (Inr x, w') \<Longrightarrow> (\<And>y. v = Some y \<Longrightarrow> f y w = (Inr x, w') \<Longrightarrow> P) \<Longrightarrow> P"
  by (auto simp: chain_def the_or_def give_def throw_def split: option.splits)

lemma chain_triesE:
  "chain (tries g) f w = (Inr x, w') \<Longrightarrow> (\<And>y w1. tries g w = (Inr y, w1) \<Longrightarrow> f y w1 = (Inr x, w') \<Longrightarrow> P) \<Longrightarrow> P"
  by (erule chain_InrE)

lemma chain_writesE:
  "chain (writes g) f w = (Inr x, w') \<Longrightarrow> (f (fst (g (store w))) (w\<lparr>store := snd (g (store w))\<rparr>) = (Inr x, w') \<Longrightarrow> P) \<Longrightarrow> P"
  by (cases "g (store w)") (simp add: chain_def writes_def)

lemmas run_elims = chain_pureE chain_readsE chain_requireE chain_the_orE chain_triesE

section \<open>Errors\<close>

text \<open>
  \<open>setErrorHandler\<close>: the status, the text and the code of the answer to what a handler threw. The
  errors of the framework itself (413, 429) do not come from a handler.
\<close>

definition error_reply :: "failure \<Rightarrow> nat \<times> string \<times> string option" where
  "error_reply x =
     (case x of
        Api a \<Rightarrow> (statusCode a, err_message a, if err_code a = Some [] then None else err_code a)
      | Database (TriggerException m) \<Rightarrow>
          if m = ''domain_access_dependency_enabled''
          then (409, ''Disable linked domain access before changing this dependency.'', Some ''domain_access_dependency_enabled'')
          else (500, ''An internal server error occurred.'', None)
      | Database UniqueViolation \<Rightarrow> (409, ''A record with that value already exists.'', None)
      | _ \<Rightarrow> (500, ''An internal server error occurred.'', None))"

definition unreachable :: ApiError where
  "unreachable = ApiError 502 ''Cloudflare could not be reached.'' (Some ''cloudflare_unreachable'')"

definition token_invalid :: ApiError where
  "token_invalid = ApiError 502 ''The Cloudflare API token is invalid.'' (Some ''cloudflare_token_invalid'')"

datatype account_call = TokenCall | ZonesCall

definition cloudflareAccountApiError :: "failure \<Rightarrow> account_call \<Rightarrow> ApiError" where
  "cloudflareAccountApiError x operation =
     (case x of
        Cloudflare c \<Rightarrow>
          let status = cf_status c; code_in = (\<lambda>codes. \<exists>n \<in> set codes. cf_code c = Some n) in
          if operation = TokenCall \<and> (status = 401 \<or> status = 403 \<or> code_in [10000, 9109]) then token_invalid
          else if operation = ZonesCall \<and> code_in [1001, 7003]
          then ApiError 502 ''The Cloudflare API token does not have access to the configured account.'' (Some ''cloudflare_account_scope_mismatch'')
          else if operation = ZonesCall \<and> status = 401 then token_invalid
          else if operation = ZonesCall \<and> status = 403
          then ApiError 502 ''The Cloudflare API token cannot list zones for this account.'' (Some ''cloudflare_zone_access_denied'')
          else if status = 0 \<or> status \<ge> 500 \<and> status \<noteq> 502 then unreachable
          else ApiError 502 ''Cloudflare returned an invalid zones response.'' (Some ''cloudflare_zone_response_invalid'')
      | _ \<Rightarrow> unreachable)"

section \<open>The session of a request\<close>

text \<open>A write of the store that returns nothing but may fail.\<close>

definition with_unit :: "pg_error + db \<Rightarrow> pg_error + unit \<times> db" where
  "with_unit r = (case r of Inl x \<Rightarrow> Inl x | Inr d \<Rightarrow> Inr ((), d))"

lemma after_with_unit [simp]: "after (with_unit r) d = after_unit r d"
  by (simp add: with_unit_def after_def after_unit_def split: sum.split)

definition changes :: "(db \<Rightarrow> db) \<Rightarrow> unit handler" where
  "changes f = writes (\<lambda>d. ((), f d))"

definition cookie_user :: "api \<Rightarrow> string option \<Rightarrow> User option handler" where
  "cookie_user e cookie =
     (case cookie of
        None \<Rightarrow> give None
      | Some token \<Rightarrow> if token = [] then give None
          else writes (findSessionUser (env_now e) (hashToken (env_sha256 e) token)))"

definition authentication_required :: ApiError where
  "authentication_required = ApiError 401 ''Authentication is required.'' None"

definition permission_denied :: ApiError where
  "permission_denied = ApiError 403 ''You do not have permission to perform this action.'' None"

definition requireUser :: "api \<Rightarrow> string option \<Rightarrow> Role \<Rightarrow> User handler" where
  "requireUser e cookie role =
     chain (cookie_user e cookie) (\<lambda>authenticated.
     chain (the_or authenticated authentication_required) (\<lambda>u.
     chain (require (canAccess (User_role u) role) permission_denied) (\<lambda>_.
     give u)))"

section \<open>Setup, sessions and users\<close>

definition setup_complete :: ApiError where
  "setup_complete = ApiError 409 ''Initial setup has already been completed.'' None"

text \<open>\<open>POST /api/setup\<close>\<close>

definition post_setup :: "api \<Rightarrow> options \<Rightarrow> http_in \<Rightarrow> PublicUser reply handler" where
  "post_setup e o' r =
     chain (pure (objectBody (in_body r))) (\<lambda>b.
     chain (pure (stringField b ''email'' 3 254)) (\<lambda>mail.
     chain (pure (opaqueStringField b ''password'' 12 1024)) (\<lambda>password.
     chain (require (EMAIL_PATTERN (lower mail)) (bad_request ''email must be a valid email address.'')) (\<lambda>_.
     chain (reads isSetupComplete) (\<lambda>complete.
     chain (require (\<not> complete) setup_complete) (\<lambda>_.
     chain (writes (createOwner (env_gen e) (env_now e) (lower mail) (opt_argon2_hash o' password))) (\<lambda>owner.
     chain (the_or owner setup_complete) (\<lambda>u.
     give (Reply 201 (publicUser u))))))))))"

text \<open>\<open>POST /api/auth/login\<close>: the answer has the cookie, the moment it expires, and the user.\<close>

definition wrong_credentials :: ApiError where
  "wrong_credentials = ApiError 401 ''The email or password is incorrect.'' None"

definition checked_user :: "options \<Rightarrow> User option \<Rightarrow> string \<Rightarrow> ApiError + User" where
  "checked_user o' found password =
     (case found of
        None \<Rightarrow> Inl wrong_credentials
      | Some u \<Rightarrow> if opt_argon2_verify o' (User_passwordHash u) password then Inr u else Inl wrong_credentials)"

definition session_expiry :: "api \<Rightarrow> options \<Rightarrow> time" where
  "session_expiry e o' = env_date_now e + opt_sessionTtlHours o' * 3600000"

definition login :: "api \<Rightarrow> options \<Rightarrow> http_in \<Rightarrow> (string \<times> time \<times> PublicUser) reply handler" where
  "login e o' r =
     chain (pure (objectBody (in_body r))) (\<lambda>b.
     chain (pure (stringField b ''email'' 3 254)) (\<lambda>mail.
     chain (pure (opaqueStringField b ''password'' 1 1024)) (\<lambda>password.
     chain (reads (findUserByEmail (lower mail))) (\<lambda>found.
     chain (pure (checked_user o' found password)) (\<lambda>u.
     let token = randomToken (env_random e) 32; expiresAt = session_expiry e o' in
     chain (tries (\<lambda>d. with_unit (createSession (env_now e) (User_id u) (hashToken (env_sha256 e) token) expiresAt d))) (\<lambda>_.
     give (Reply 200 (token, expiresAt, publicUser u))))))))"

text \<open>\<open>POST /api/auth/logout\<close>\<close>

definition logout :: "api \<Rightarrow> http_in \<Rightarrow> User \<Rightarrow> unit reply handler" where
  "logout e r u =
     chain (case in_cookie r of
              None \<Rightarrow> give ()
            | Some token \<Rightarrow> if token = [] then give () else changes (deleteSession (hashToken (env_sha256 e) token))) (\<lambda>_.
     give (Reply 204 ()))"

text \<open>\<open>GET /api/auth/me\<close>, \<open>GET /api/configuration\<close>, \<open>GET /api/users\<close>\<close>

definition get_me :: "User \<Rightarrow> PublicUser reply handler" where
  "get_me u = give (Reply 200 (publicUser u))"

definition get_configuration :: "options \<Rightarrow> (string \<times> bool) reply handler" where
  "get_configuration o' = give (Reply 200
     (case opt_defaultAgentImage o' of Some i \<Rightarrow> i | None \<Rightarrow> ''ghcr.io/gatewaycontrol/gateway-agent:latest'',
      opt_recoverySupervisorEnabled o'))"

text \<open>A list of the store as the whole answer.\<close>

definition listing :: "(db \<Rightarrow> 'a) \<Rightarrow> 'a reply handler" where
  "listing f = chain (reads f) (\<lambda>x. give (Reply 200 x))"

text \<open>\<open>POST /api/users\<close>\<close>

definition new_user_role :: "string \<Rightarrow> Role option" where
  "new_user_role s = (if s = ''operator'' then Some Operator else if s = ''viewer'' then Some Viewer else None)"

definition post_user :: "api \<Rightarrow> options \<Rightarrow> http_in \<Rightarrow> PublicUser reply handler" where
  "post_user e o' r =
     chain (pure (objectBody (in_body r))) (\<lambda>b.
     chain (pure (stringField b ''email'' 3 254)) (\<lambda>mail.
     chain (pure (opaqueStringField b ''password'' 12 1024)) (\<lambda>password.
     chain (pure (stringField b ''role'' 1 255)) (\<lambda>role'.
     chain (require (EMAIL_PATTERN (lower mail)) (bad_request ''email must be a valid email address.'')) (\<lambda>_.
     chain (the_or (new_user_role role') (bad_request ''role must be operator or viewer.'')) (\<lambda>role.
     chain (tries (createUser (env_gen e) (env_now e) (lower mail) (opt_argon2_hash o' password) role)) (\<lambda>u.
     give (Reply 201 (publicUser u)))))))))"

section \<open>Property\<close>

lemma checked_user_Inr:
  assumes "checked_user o' found password = Inr u"
  shows "found = Some u" "opt_argon2_verify o' (User_passwordHash u) password"
  using assms by (auto simp: checked_user_def split: option.splits if_splits)

lemma login_Inr:
  assumes "login e o' r w = (Inr (Reply s (token, t, p)), w')"
  obtains b mail password u where "in_body r = Some (JObj b)" "stringField b ''email'' 3 254 = Inr mail"
    "opaqueStringField b ''password'' 1 1024 = Inr password" "findUserByEmail (lower mail) (store w) = Some u"
    "opt_argon2_verify o' (User_passwordHash u) password" "token = randomToken (env_random e) 32" "t = session_expiry e o'"
    "p = publicUser u" "createSession (env_now e) (User_id u) (hashToken (env_sha256 e) token) t (store w) = Inr (store w')"
  using assms unfolding login_def Let_def
proof (elim run_elims)
  fix b mail password u y w1
  assume run: "objectBody (in_body r) = Inr b" "stringField b ''email'' 3 254 = Inr mail" "opaqueStringField b ''password'' 1 1024 = Inr password"
    "checked_user o' (findUserByEmail (lower mail) (store w)) password = Inr u"
    "tries (\<lambda>d. with_unit (createSession (env_now e) (User_id u) (hashToken (env_sha256 e) (randomToken (env_random e) 32))
      (session_expiry e o') d)) w = (Inr y, w1)"
    "give (Reply 200 (randomToken (env_random e) 32, session_expiry e o', publicUser u)) w1 = (Inr (Reply s (token, t, p)), w')"
  then have "in_body r = Some (JObj b)" by (auto simp: objectBody_def split: option.splits json.splits)
  with run checked_user_Inr [OF run(4)] show thesis
    by (intro that [of b mail password u]) (auto simp: tries_def give_def with_unit_def split: sum.splits prod.splits)
qed

text \<open>What the check of a session returns, from the row of the session and of its user.\<close>

lemma requireUser_result:
  "token \<noteq> [] \<Longrightarrow> fst (requireUser e (Some token) role w)
     = (case fst (findSessionUser (env_now e) (hashToken (env_sha256 e) token) (store w)) of
          None \<Rightarrow> Inl (Api authentication_required)
        | Some u \<Rightarrow> if canAccess (User_role u) role then Inr u else Inl (Api permission_denied))"
  by (auto simp: requireUser_def cookie_user_def chain_def writes_def the_or_def require_def give_def throw_def
      split: prod.split option.split)

lemma new_session_found:
  assumes "users_ok gen d" "createSession now (User_id u) h t d = Inr d'" "findUserByEmail m d = Some u"
  shows "fst (findSessionUser now' h d') = (if now' < t then Some u else None)"
proof -
  from assms(2) have new: "\<forall>s \<in> set (sessions d). ses_token_hash s \<noteq> h" and d': "sessions d' = sessions d @
      [\<lparr>ses_user_id = User_id u, ses_token_hash = h, ses_expires_at = t, ses_last_seen_at = now\<rparr>]" "users d' = users d"
    by (auto simp: createSession_def split: if_splits)
  obtain row where row: "row \<in> set (users d)" "u = user row"
    using assms(3) by (auto simp: findUserByEmail_def dest: find_someD)
  have "find (\<lambda>v. usr_id v = usr_id row) (users d) = Some row"
  proof -
    obtain v where v: "find (\<lambda>v. usr_id v = usr_id row) (users d) = Some v"
      using row(1) by (cases "find (\<lambda>v. usr_id v = usr_id row) (users d)") (auto simp: find_None_iff)
    with find_someD [OF v] row(1) assms(1) have "v = row"
      using unique_where_eq [of "\<lambda>_. True" usr_id "users d" v row] by (simp add: users_ok_def)
    with v show ?thesis by simp
  qed
  then have u: "find (\<lambda>v. usr_id v = User_id u) (users d') = Some row" using row d' by (simp add: user_def)
  have "find (\<lambda>s. ses_token_hash s = h \<and> ses_expires_at s > now') (sessions d) = None"
    using new by (auto simp: find_None_iff)
  with u row show ?thesis by (simp add: findSessionUser_def Let_def d'(1) find_append)
qed

text \<open>C40. A login opens a session for the user it authenticated, and for nobody else: it succeeds only with an e-mail address
  of a user and a password that matches the stored hash, the cookie it sets then stands for that user, with the
  user's role, exactly until it expires, the configured number of hours later, and after a logout with that cookie it stands for nobody.\<close>

theorem logins_open_sessions:
  assumes "inj (env_gen e)" "reachable (env_gen e) (store w)" "bytes_ok (env_random e 32)" "env_random e 32 \<noteq> []" "env_sha256 e' = env_sha256 e"
    and "login e o' r w = (Inr (Reply s (token, t, p)), w')"
  shows "\<exists>b mail password u. in_body r = Some (JObj b) \<and> stringField b ''email'' 3 254 = Inr mail
    \<and> opaqueStringField b ''password'' 1 1024 = Inr password \<and> findUserByEmail (lower mail) (store w) = Some u
    \<and> opt_argon2_verify o' (User_passwordHash u) password \<and> p = publicUser u
    \<and> t = env_date_now e + opt_sessionTtlHours o' * 3600000
    \<and> fst (requireUser e' (Some token) role w')
        = (if t \<le> env_now e' then Inl (Api authentication_required)
           else if canAccess (User_role u) role then Inr u else Inl (Api permission_denied))
    \<and> fst (requireUser e'' (Some token) role (snd (logout e'' (r\<lparr>in_cookie := Some token\<rparr>) u w')))
        = Inl (Api authentication_required)"
proof -
  from assms(6) obtain b mail password u where login: "in_body r = Some (JObj b)" "stringField b ''email'' 3 254 = Inr mail"
    "opaqueStringField b ''password'' 1 1024 = Inr password" and u: "findUserByEmail (lower mail) (store w) = Some u"
    "opt_argon2_verify o' (User_passwordHash u) password" and t: "token = randomToken (env_random e) 32" "t = session_expiry e o'"
    "p = publicUser u" and cr: "createSession (env_now e) (User_id u) (hashToken (env_sha256 e) token) t (store w) = Inr (store w')"
    by (rule login_Inr)
  have ok: "users_ok (env_gen e) (store w)" using reachable_okD(1) [OF assms(1,2)] .
  have token: "token \<noteq> []" using assms(3,4) t(1) by (simp add: randomToken_def base64url_empty)
  note found = new_session_found [OF ok cr u(1)]
  have "fst (requireUser e' (Some token) role w')
      = (if t \<le> env_now e' then Inl (Api authentication_required)
         else if canAccess (User_role u) role then Inr u else Inl (Api permission_denied))"
    by (simp add: requireUser_result [OF token] assms(5) found)
  moreover have "fst (requireUser e'' (Some token) role (snd (logout e'' (r\<lparr>in_cookie := Some token\<rparr>) u w'))) = Inl (Api authentication_required)"
    by (simp add: requireUser_result [OF token] logout_def token changes_def writes_def chain_def give_def findSessionUser_after_delete)
  ultimately show ?thesis using login u t by (auto simp: session_expiry_def)
qed

definition sample_options :: options where
  "sample_options = \<lparr>opt_argon2_hash = (\<lambda>p. p), opt_argon2_verify = (\<lambda>h p. h = p), opt_sessionTtlHours = 24,
     opt_defaultAgentImage = None, opt_traefikDynamicVolume = None, opt_systemBackupNasRoot = None, opt_systemBackupNasMarker = None,
     opt_recoverySupervisorEnabled = False, opt_recovery = None, opt_guidedVerificationTimeoutMs = None,
     opt_web = \<lparr>URL = (\<lambda>_. None), with_hostname = (\<lambda>u _. u)\<rparr>,
     opt_raw_url = (\<lambda>_. parsed_host []),
     opt_github = (\<lambda>_. None),
     opt_yaml = one_document, opt_policy_message = fst,
     opt_tlsObserver = (\<lambda>_. \<lparr>TlsObservation_status = TlsError, TlsObservation_issuer = None, TlsObservation_validTo = None, TlsObservation_error = None\<rparr>),
     opt_tls_late = (\<lambda>_. False), opt_pg_message = (\<lambda>_. ''database error''),
     opt_topology = \<lparr>max_agents = 100, max_services = 1000, max_scopes = 1000\<rparr>\<rparr>"

definition blank_request :: http_in where
  "blank_request = \<lparr>in_cookie = None, in_authorization = None, in_id = None, in_query_agent = None, in_key = None, in_body = None,
     in_content_type = None, in_content_length = None, in_stream = [], in_aborted = False\<rparr>"

definition login_request :: http_in where
  "login_request = blank_request\<lparr>in_body := Some (JObj [(''email'', JStr ''O@x''), (''password'', JStr ''hash'')])\<rparr>"

lemma sample_login:
  obtains t p w' where "login sample_api sample_options login_request (sample_world 1)
    = (Inr (Reply 200 (randomToken (env_random sample_api) 32, t, p)), w')"
proof -
  have body: "stringField [(''email'', JStr ''O@x''), (''password'', JStr ''hash'')] ''email'' 3 254 = Inr ''O@x''"
    "opaqueStringField [(''email'', JStr ''O@x''), (''password'', JStr ''hash'')] ''password'' 1 1024 = Inr ''hash''"
    by code_simp+
  have user: "find (\<lambda>r. lower (usr_email r) = lower ''O@x'') (users (sample 1))
      = Some \<lparr>usr_id = [], usr_email = ''o@x'', usr_password_hash = ''hash'', usr_role = Owner, usr_created_at = 0\<rparr>"
    "sessions (sample 1) = []"
    unfolding sample_states by code_simp+
  show thesis
    by (rule that) (simp add: login_def login_request_def blank_request_def objectBody_def pure_def chain_def give_def body [simplified] reads_def
        findUserByEmail_def user [simplified] checked_user_def sample_options_def user_def tries_def with_unit_def createSession_def Let_def)
qed

theorem logins_open_sessions_witness:
  "\<exists>token t p w' b mail password u. login sample_api sample_options login_request (sample_world 1) = (Inr (Reply 200 (token, t, p)), w')
    \<and> in_body login_request = Some (JObj b) \<and> stringField b ''email'' 3 254 = Inr mail \<and> opaqueStringField b ''password'' 1 1024 = Inr password
    \<and> findUserByEmail (lower mail) (store (sample_world 1)) = Some u \<and> p = publicUser u
    \<and> fst (requireUser sample_api (Some token) Viewer (snd (logout sample_api (login_request\<lparr>in_cookie := Some token\<rparr>) u w')))
        = Inl (Api authentication_required)"
proof -
  obtain t p w' where run: "login sample_api sample_options login_request (sample_world 1)
    = (Inr (Reply 200 (randomToken (env_random sample_api) 32, t, p)), w')" by (rule sample_login)
  have random: "bytes_ok (env_random sample_api 32)" "env_random sample_api 32 \<noteq> []" "inj (env_gen sample_api)"
    "reachable (env_gen sample_api) (store (sample_world 1))"
    by (simp_all add: sample_api_def bytes_ok_def inj_unary reachable_sample)
  from logins_open_sessions [OF random(3,4,1,2) refl run] run show ?thesis by blast
qed

end
