(* ===== verification/Gw_Resources.thy ===== *)
theory Gw_Resources
  imports Gw_Http
begin

text \<open>
  The routes of connectors, Cloudflare accounts, stacks, routes and backups: what they read from a
  request, which errors they answer with, and which operations of the store they call.
\<close>

section \<open>Optional fields\<close>

definition uuid_field :: "jobj \<Rightarrow> string \<Rightarrow> ApiError + uuid" where
  "uuid_field body field =
     bind_ok (stringField body field 36 36) (\<lambda>v.
       if UUID_PATTERN v then Inr v else Inl (bad_request (field @ '' must be a valid UUID.'')))"

definition optional_field :: "(jobj \<Rightarrow> string \<Rightarrow> ApiError + 'a) \<Rightarrow> jobj \<Rightarrow> string \<Rightarrow> ApiError + 'a option" where
  "optional_field read body field =
     (case jprop body field of None \<Rightarrow> Inr None | Some _ \<Rightarrow> bind_ok (read body field) (\<lambda>v. Inr (Some v)))"

definition invalid_payload :: "string \<Rightarrow> ApiError" where
  "invalid_payload m = ApiError 400 m (Some ''invalid_payload'')"

definition nothing_to_edit :: ApiError where
  "nothing_to_edit = bad_request ''At least one editable field is required.''"

definition dependency_enabled :: "string \<Rightarrow> ApiError" where
  "dependency_enabled what = ApiError 409 (''Disable linked domain access before changing this '' @ what @ ''.'') (Some ''domain_access_dependency_enabled'')"

text \<open>\<open>const enabled = optionalBoolean(..) ?? true\<close>\<close>

definition or_true :: "bool option \<Rightarrow> bool" where
  "or_true b = (b \<noteq> Some False)"

section \<open>Connectors\<close>

definition connector_keys :: "string list" where
  "connector_keys = [''name'', ''token'', ''enabled'', ''agentId'', ''cloudflareAccountId'', ''tunnelId'']"

definition connector_target_unavailable :: "string \<Rightarrow> ApiError" where
  "connector_target_unavailable m = ApiError 409 m (Some ''connector_target_unavailable'')"

text \<open>\<open>store.createConnector({ name, encryptedToken, enabled, agentId, ...identity })\<close>, with the number of the sealing in the request.\<close>

definition create_connector :: "api \<Rightarrow> nat \<Rightarrow> string \<Rightarrow> string \<Rightarrow> bool \<Rightarrow> uuid \<Rightarrow> CreationIdentity \<Rightarrow> Connector option handler" where
  "create_connector e sealing name token enabled agentId identity =
     tries (createConnector (env_gen e) (env_now e) name (seal_secret e sealing token) enabled agentId (creation_accountId identity)
       (creation_accountIdentifier identity) (creation_tunnelId identity) (creation_status identity) (creation_error identity))"

definition post_connector :: "api \<Rightarrow> http_in \<Rightarrow> Connector reply handler" where
  "post_connector e r =
     chain (pure (objectBody (in_body r))) (\<lambda>b.
     chain (pure (exactKeys b connector_keys)) (\<lambda>_.
     chain (pure (stringField b ''name'' 1 120)) (\<lambda>name.
     chain (pure (opaqueStringField b ''token'' 20 4096)) (\<lambda>token.
     chain (pure (optionalBoolean b ''enabled'')) (\<lambda>enabled.
     chain (pure (uuid_field b ''agentId'')) (\<lambda>agentId.
     chain (pure (optionalUuid b ''cloudflareAccountId'')) (\<lambda>submittedAccountId.
     chain (pure (optionalUuid b ''tunnelId'')) (\<lambda>submittedTunnelId.
     chain (connectorIdentityForCreation e token submittedAccountId submittedTunnelId) (\<lambda>identity.
     chain (create_connector e 0 name token (or_true enabled) agentId identity) (\<lambda>created.
     chain (the_or created (connector_target_unavailable ''An enabled, enrolled agent is required.'')) (\<lambda>k.
     give (Reply 201 k))))))))))))"

text \<open>Whether the account or the tunnel that was submitted beside the token is another one.\<close>

definition binding_differs :: "VerifiedIdentity option \<Rightarrow> Connector \<Rightarrow> string option \<Rightarrow> string option \<Rightarrow> bool" where
  "binding_differs identity current submittedAccountId submittedTunnelId \<longleftrightarrow>
     (submittedAccountId \<noteq> None
        \<and> submittedAccountId \<noteq> (case identity of Some v \<Rightarrow> Some (verified_accountId v) | None \<Rightarrow> Connector_cloudflareAccountId current))
     \<or> (submittedTunnelId \<noteq> None
        \<and> map_option lower submittedTunnelId \<noteq> (case identity of Some v \<Rightarrow> Some (verified_tunnelId v) | None \<Rightarrow> Connector_tokenTunnelId current))"

definition connector_update :: "api \<Rightarrow> string option \<Rightarrow> string option \<Rightarrow> bool option \<Rightarrow> uuid option \<Rightarrow> VerifiedIdentity option \<Rightarrow> ConnectorUpdate" where
  "connector_update e name token enabled agentId identity =
     \<lparr>Update_name = name, Update_encryptedToken = map_option (seal_secret e 0) token, Update_enabled = enabled, Update_agentId = agentId,
      Update_accountId = map_option verified_accountId identity, Update_accountIdentifier = map_option verified_accountIdentifier identity,
      Update_tunnelId = map_option verified_tunnelId identity\<rparr>"

definition check_dependency :: "bool \<Rightarrow> dependency \<Rightarrow> uuid \<Rightarrow> ApiError \<Rightarrow> unit handler" where
  "check_dependency relevant kind i err =
     (if relevant then chain (reads (hasEnabledDomainAccessDependency kind i)) (\<lambda>used. require (\<not> used) err) else give ())"

definition submitted_mismatch :: ApiError where
  "submitted_mismatch = ApiError 409 ''Submitted connector binding does not match the token identity.'' (Some ''connector_submitted_identity_mismatch'')"

definition identity_unverified :: "string \<Rightarrow> ApiError" where
  "identity_unverified m = ApiError 409 m (Some ''connector_identity_unverified'')"

definition connector_not_found :: ApiError where
  "connector_not_found = ApiError 404 ''Connector not found.'' None"

text \<open>The change of a connector that has been found, with the identity of its new token.\<close>

definition change_connector ::
  "api \<Rightarrow> uuid \<Rightarrow> string option \<Rightarrow> string option \<Rightarrow> bool option \<Rightarrow> uuid option \<Rightarrow> string option \<Rightarrow> string option
     \<Rightarrow> Connector \<Rightarrow> Connector reply handler" where
  "change_connector e i name token enabled agentId submittedAccountId submittedTunnelId current =
     chain (check_dependency (enabled = Some False \<or> agentId \<noteq> None \<or> token \<noteq> None \<or> submittedAccountId \<noteq> None \<or> submittedTunnelId \<noteq> None)
       DependsConnector i (dependency_enabled ''connector'')) (\<lambda>_.
     chain (case token of None \<Rightarrow> give None | Some t \<Rightarrow> chain (verifyConnectorToken e t) (\<lambda>v. give (Some v))) (\<lambda>identity.
     chain (require (\<not> binding_differs identity current submittedAccountId submittedTunnelId) submitted_mismatch) (\<lambda>_.
     chain (require (\<not> (enabled = Some True \<and> identity = None
         \<and> \<not> connectorIdentityAllowsRuntime (Connector_identityStatus current) (Connector_tokenAccountIdentifier current) (Connector_tokenTunnelId current)))
       (identity_unverified ''The connector token must contain a parsed identity before it can be enabled.'')) (\<lambda>_.
     chain (tries (updateConnector (env_gen e) (env_now e) i (connector_update e name token enabled agentId identity))) (\<lambda>updated.
     chain (the_or updated connector_not_found) (\<lambda>k.
     give (Reply 200 k)))))))"

definition patch_connector :: "api \<Rightarrow> http_in \<Rightarrow> Connector reply handler" where
  "patch_connector e r =
     chain (pure (idParameter (in_id r))) (\<lambda>i.
     chain (pure (objectBody (in_body r))) (\<lambda>b.
     chain (pure (exactKeys b connector_keys)) (\<lambda>_.
     chain (pure (optionalString b ''name'' 1 120)) (\<lambda>name.
     chain (pure (optionalOpaque b ''token'' 20 4096)) (\<lambda>token.
     chain (pure (optionalBoolean b ''enabled'')) (\<lambda>enabled.
     chain (pure (optional_field uuid_field b ''agentId'')) (\<lambda>agentId.
     chain (pure (optionalUuid b ''cloudflareAccountId'')) (\<lambda>submittedAccountId.
     chain (pure (optionalUuid b ''tunnelId'')) (\<lambda>submittedTunnelId.
     chain (require (\<not> (name = None \<and> token = None \<and> enabled = None \<and> agentId = None \<and> submittedAccountId = None \<and> submittedTunnelId = None))
       nothing_to_edit) (\<lambda>_.
     chain (reads (\<lambda>d. find (\<lambda>k. Connector_id k = i) (listConnectors d))) (\<lambda>found.
     chain (the_or found connector_not_found) (\<lambda>current.
     change_connector e i name token enabled agentId submittedAccountId submittedTunnelId current))))))))))))"

definition post_connector_verify :: "api \<Rightarrow> http_in \<Rightarrow> Connector option reply handler" where
  "post_connector_verify e r =
     chain (pure (idParameter (in_id r))) (\<lambda>i.
     chain (verifyStoredConnector e i) (\<lambda>k.
     give (Reply 200 k)))"

section \<open>Cloudflare accounts\<close>

definition account_not_found :: ApiError where
  "account_not_found = ApiError 404 ''Cloudflare account not found.'' None"

text \<open>\<open>POST /api/cloudflare/accounts\<close> without a managed tunnel, after its body has been read.\<close>

definition create_account :: "api \<Rightarrow> jobj \<Rightarrow> CloudflareAccount reply handler" where
  "create_account e b =
     chain (pure (stringField b ''name'' 1 120)) (\<lambda>name.
     chain (pure (cloudflareIdentifier b ''accountIdentifier'')) (\<lambda>accountIdentifier.
     chain (pure (opaqueStringField b ''apiToken'' 20 4096)) (\<lambda>apiToken.
     chain (pure (optionalBoolean b ''enabled'')) (\<lambda>enabled.
     chain (tries (createCloudflareAccount (env_gen e) (env_now e) name accountIdentifier (seal_secret e 0 apiToken) (or_true enabled))) (\<lambda>account.
     give (Reply 201 account))))))"

definition patch_account :: "api \<Rightarrow> http_in \<Rightarrow> CloudflareAccount reply handler" where
  "patch_account e r =
     chain (pure (idParameter (in_id r))) (\<lambda>i.
     chain (pure (objectBody (in_body r))) (\<lambda>b.
     chain (pure (optionalString b ''name'' 1 120)) (\<lambda>name.
     chain (pure (optional_field cloudflareIdentifier b ''accountIdentifier'')) (\<lambda>accountIdentifier.
     chain (pure (optionalOpaque b ''apiToken'' 20 4096)) (\<lambda>apiToken.
     chain (pure (optionalBoolean b ''enabled'')) (\<lambda>enabled.
     chain (require (\<not> (name = None \<and> accountIdentifier = None \<and> apiToken = None \<and> enabled = None)) nothing_to_edit) (\<lambda>_.
     chain (check_dependency (enabled = Some False \<or> accountIdentifier \<noteq> None \<or> apiToken \<noteq> None) DependsAccount i
       (dependency_enabled ''Cloudflare account'')) (\<lambda>_.
     chain (tries (updateCloudflareAccount (env_now e) i name accountIdentifier (map_option (seal_secret e 0) apiToken) enabled)) (\<lambda>updated.
     chain (the_or updated account_not_found) (\<lambda>account.
     give (Reply 200 account)))))))))))"

definition delete_account :: "http_in \<Rightarrow> unit reply handler" where
  "delete_account r =
     chain (pure (idParameter (in_id r))) (\<lambda>i.
     chain (writes (deleteCloudflareAccount i)) (\<lambda>result.
     chain (the_or result (ApiError 404 ''Cloudflare account not found.'' (Some ''cloudflare_account_not_found''))) (\<lambda>(deleted, _).
     chain (require deleted (ApiError 409 ''Remove Cloudflare connectors, domain access, and guided operation references before deleting this account.''
       (Some ''cloudflare_account_delete_blocked''))) (\<lambda>_.
     give (Reply 204 ())))))"

text \<open>\<open>try { .. } catch (error) { throw cloudflareAccountApiError(error, operation); }\<close>\<close>

definition for_account :: "account_call \<Rightarrow> 'a handler \<Rightarrow> 'a handler" where
  "for_account operation m = attempt m (\<lambda>x. throw (Api (cloudflareAccountApiError x operation)))"

definition post_account_test :: "api \<Rightarrow> http_in \<Rightarrow> nat reply handler" where
  "post_account_test e r =
     chain (pure (idParameter (in_id r))) (\<lambda>i.
     chain (cloudflareClientForAccount e i) (\<lambda>(client, accountIdentifier).
     chain (for_account TokenCall (verifyToken client)) (\<lambda>_.
     chain (for_account ZonesCall (listZones client accountIdentifier)) (\<lambda>found.
     give (Reply 200 (length found))))))"

definition zone_entries :: "CloudflareZoneResult list \<Rightarrow> (string \<times> string \<times> string) list" where
  "zone_entries found = map (\<lambda>z. (zone_result_id z, zone_result_name z, zone_result_status z)) found"

definition sync_failed :: "api \<Rightarrow> uuid \<Rightarrow> account_call \<Rightarrow> failure \<Rightarrow> 'a handler" where
  "sync_failed e i operation x =
     (case x of
        Api a \<Rightarrow> throw x
      | _ \<Rightarrow>
          let a = cloudflareAccountApiError x operation in
          chain (tries (syncCloudflareZones (env_gen e) (env_now e) i []
            (Some (case err_code a of Some c \<Rightarrow> c | None \<Rightarrow> ''cloudflare_unreachable'')))) (\<lambda>_.
          throw (Api a)))"

definition post_account_sync :: "api \<Rightarrow> http_in \<Rightarrow> (CloudflareZone list \<times> nat) reply handler" where
  "post_account_sync e r =
     chain (pure (idParameter (in_id r))) (\<lambda>i.
     chain (cloudflareClientForAccount e i) (\<lambda>(client, accountIdentifier).
     chain (attempt (verifyToken client) (sync_failed e i TokenCall)) (\<lambda>_.
     attempt
       (chain (listZones client accountIdentifier) (\<lambda>found.
        chain (tries (syncCloudflareZones (env_gen e) (env_now e) i (zone_entries found) None)) (\<lambda>stored.
        chain (the_or stored account_not_found) (\<lambda>zs.
        give (Reply 200 (zs, length found))))))
       (sync_failed e i ZonesCall))))"

definition get_zones :: "http_in \<Rightarrow> CloudflareZone list reply handler" where
  "get_zones r =
     chain (pure (idParameter (in_id r))) (\<lambda>i.
     chain (reads (listCloudflareZones i)) (\<lambda>found.
     chain (the_or found account_not_found) (\<lambda>zs.
     give (Reply 200 zs))))"

section \<open>Stacks and their backups\<close>

text \<open>Every change of a stack is refused: stacks are managed as deployments now.\<close>

definition legacyStackMutation :: "unit reply handler" where
  "legacyStackMutation = throw (Api (ApiError 410 ''Managed stack deployment is no longer available.'' (Some ''legacy_stack_mutation_disabled'')))"

definition backup_target :: "string \<Rightarrow> BackupTarget option" where
  "backup_target s = (if s = ''local'' then Some TargetLocal else if s = ''nas'' then Some TargetNas else None)"

definition stack_operation_active :: ApiError where
  "stack_operation_active = ApiError 409 ''This stack already has an active backup or restore operation.'' None"

text \<open>\<open>'active'\<close>, null, or what was created.\<close>

definition accepted :: "'a outcome \<Rightarrow> ApiError \<Rightarrow> ApiError \<Rightarrow> 'a handler" where
  "accepted v active missing = (case v of Accepted x \<Rightarrow> give x | Active \<Rightarrow> throw (Api active) | NotFound \<Rightarrow> throw (Api missing))"

definition post_stack_backup :: "api \<Rightarrow> http_in \<Rightarrow> User \<Rightarrow> StackBackup reply handler" where
  "post_stack_backup e r u =
     chain (pure (objectBody (in_body r))) (\<lambda>b.
     chain (pure (stringField b ''target'' 1 255)) (\<lambda>target.
     chain (the_or (backup_target target) (bad_request ''target must be local or nas.'')) (\<lambda>t.
     chain (pure (idParameter (in_id r))) (\<lambda>i.
     chain (writes (createBackup (env_gen e) (env_now e) i (User_id u) t)) (\<lambda>created.
     chain (accepted created stack_operation_active (ApiError 404 ''Enabled stack or agent not found.'' None)) (\<lambda>x.
     give (Reply 202 x)))))))"

definition post_backup_restore :: "api \<Rightarrow> http_in \<Rightarrow> User \<Rightarrow> StackRestore reply handler" where
  "post_backup_restore e r u =
     chain (pure (idParameter (in_id r))) (\<lambda>i.
     chain (writes (createRestore (env_gen e) (env_now e) i (User_id u))) (\<lambda>created.
     chain (accepted created stack_operation_active
       (ApiError 409 ''Only a succeeded backup for an enabled stack and agent can be restored.'' None)) (\<lambda>x.
     give (Reply 202 x))))"

section \<open>Managed routes\<close>

definition exposure_of :: "string \<Rightarrow> ApiError + Exposure" where
  "exposure_of s =
     (if s = ''tunnel'' then Inr ExpTunnel else if s = ''public'' then Inr ExpPublic
      else Inl (bad_request ''exposure must be tunnel or public.''))"

definition exposure_field :: "jobj \<Rightarrow> string \<Rightarrow> ApiError + Exposure" where
  "exposure_field b field = bind_ok (stringField b field 1 255) exposure_of"

definition validateResourceName :: "string \<Rightarrow> ApiError + string" where
  "validateResourceName v = (if RESOURCE_NAME_PATTERN v then Inr v else Inl (bad_request ''name contains unsupported characters.''))"

definition name_field :: "jobj \<Rightarrow> string \<Rightarrow> ApiError + string" where
  "name_field b field = bind_ok (stringField b field 1 63) validateResourceName"

definition hostname_field :: "jobj \<Rightarrow> string \<Rightarrow> ApiError + string" where
  "hostname_field b field = bind_ok (stringField b field 1 253) validateHostname"

definition backends_field :: "options \<Rightarrow> jobj \<Rightarrow> string \<Rightarrow> ApiError + string list" where
  "backends_field o' b field = validateBackends (URL (opt_web o')) (jprop b field)"

definition post_route :: "api \<Rightarrow> options \<Rightarrow> http_in \<Rightarrow> ManagedRoute reply handler" where
  "post_route e o' r =
     chain (pure (objectBody (in_body r))) (\<lambda>b.
     chain (pure (uuid_field b ''gatewayAgentId'')) (\<lambda>gatewayAgentId.
     chain (pure (exposure_field b ''exposure'')) (\<lambda>exposure.
     chain (pure (name_field b ''name'')) (\<lambda>name.
     chain (pure (hostname_field b ''hostname'')) (\<lambda>hostname.
     chain (pure (backends_field o' b ''backends'')) (\<lambda>backends.
     chain (pure (optionalBoolean b ''enabled'')) (\<lambda>enabled.
     chain (tries (createRoute (env_gen e) (env_now e) gatewayAgentId name hostname exposure backends (or_true enabled))) (\<lambda>created.
     chain (the_or created (ApiError 404 ''Enabled gateway agent not found.'' None)) (\<lambda>x.
     give (Reply 201 x))))))))))"

definition patch_route :: "api \<Rightarrow> options \<Rightarrow> http_in \<Rightarrow> ManagedRoute reply handler" where
  "patch_route e o' r =
     chain (pure (idParameter (in_id r))) (\<lambda>i.
     chain (pure (objectBody (in_body r))) (\<lambda>b.
     chain (pure (optional_field uuid_field b ''gatewayAgentId'')) (\<lambda>gatewayAgentId.
     chain (pure (optional_field name_field b ''name'')) (\<lambda>name.
     chain (pure (optional_field hostname_field b ''hostname'')) (\<lambda>hostname.
     chain (pure (optional_field exposure_field b ''exposure'')) (\<lambda>exposure.
     chain (pure (optional_field (backends_field o') b ''backends'')) (\<lambda>backends.
     chain (pure (optionalBoolean b ''enabled'')) (\<lambda>enabled.
     chain (require (\<not> (gatewayAgentId = None \<and> name = None \<and> hostname = None \<and> exposure = None \<and> backends = None \<and> enabled = None))
       nothing_to_edit) (\<lambda>_.
     chain (check_dependency (enabled = Some False \<or> gatewayAgentId \<noteq> None \<or> hostname \<noteq> None \<or> exposure \<noteq> None) DependsRoute i
       (dependency_enabled ''route'')) (\<lambda>_.
     chain (tries (updateRoute (env_gen e) (env_now e) i gatewayAgentId name hostname exposure backends enabled)) (\<lambda>updated.
     chain (the_or updated (ApiError 404 ''Route or enabled gateway agent not found.'' None)) (\<lambda>x.
     give (Reply 200 x)))))))))))))"

end
