(* ===== verification/Gw_Public.thy ===== *)
theory Gw_Public
  imports Gw_Types Gw_Js Gw_Dispatcher Gw_Api
begin

text \<open>
  What the API shows of the records of the store: views that leave internal columns out, the
  sanitised result of a backup or restore, and the runtime projects computed from the inventory.
\<close>

section \<open>Results of operations\<close>

definition result_keys :: "string list" where
  "result_keys = [''sizeBytes'', ''fileCount'', ''durationMs'', ''checksum'', ''startedAt'', ''completedAt'', ''message'']"

text \<open>\<open>Object.fromEntries(allowed.filter(..).map(..))\<close>: the allowed properties that are scalars, in the
  order of the list.\<close>

definition scalar_entries :: "jobj \<Rightarrow> jobj" where
  "scalar_entries result =
     concat (map (\<lambda>k. case jprop result k of Some v \<Rightarrow> if is_scalar v then [(k, v)] else [] | None \<Rightarrow> []) result_keys)"

definition with_message :: "jobj \<Rightarrow> jobj \<Rightarrow> jobj" where
  "with_message result sanitized =
     (case jprop result ''error'' of
        Some (JStr s) \<Rightarrow> if truthy (jprop sanitized ''message'') then sanitized else js_set ''message'' (JStr (take 500 s)) sanitized
      | _ \<Rightarrow> sanitized)"

definition is_sha256 :: "string \<Rightarrow> bool" where
  "is_sha256 = all_of is_hex 64 64"

definition artifact :: "json \<Rightarrow> json list" where
  "artifact a =
     (case a of
        JObj v \<Rightarrow>
          (case (jprop v ''type'', jprop v ''name'', jprop v ''sizeBytes'', jprop v ''sha256'') of
             (Some type, Some (JStr name), Some (JNum n), Some (JStr hash)) \<Rightarrow>
               if json_String type \<in> {''volume_archive'', ''postgres_dump''} \<and> length name \<le> 128 \<and> is_sha256 hash
               then [JObj [(''type'', type), (''name'', JStr name), (''sizeBytes'', JNum n), (''sha256'', JStr hash)]]
               else []
           | _ \<Rightarrow> [])
      | _ \<Rightarrow> [])"

definition with_artifacts :: "jobj \<Rightarrow> jobj \<Rightarrow> jobj" where
  "with_artifacts result sanitized =
     (case jprop result ''artifacts'' of
        Some (JArr as) \<Rightarrow> js_set ''artifacts'' (JArr (concat (map artifact (take 100 as)))) sanitized
      | _ \<Rightarrow> sanitized)"

definition operationResult :: "jobj option \<Rightarrow> jobj option" where
  "operationResult result = map_option (\<lambda>r. with_artifacts r (with_message r (scalar_entries r))) result"

section \<open>Views\<close>

record PublicBackup =
  PublicBackup_id :: uuid
  PublicBackup_stackId :: uuid
  PublicBackup_agentId :: uuid
  PublicBackup_commandId :: uuid
  PublicBackup_target :: BackupTarget
  PublicBackup_stackRevision :: int
  PublicBackup_status :: OperationStatus
  PublicBackup_result :: "jobj option"
  PublicBackup_createdAt :: time
  PublicBackup_updatedAt :: time
  PublicBackup_completedAt :: "time option"

definition publicBackup :: "StackBackup \<Rightarrow> PublicBackup" where
  "publicBackup i = \<lparr>PublicBackup_id = StackBackup_id i, PublicBackup_stackId = StackBackup_stackId i,
     PublicBackup_agentId = StackBackup_agentId i, PublicBackup_commandId = StackBackup_commandId i,
     PublicBackup_target = StackBackup_target i, PublicBackup_stackRevision = StackBackup_stackRevision i,
     PublicBackup_status = StackBackup_status i, PublicBackup_result = operationResult (StackBackup_result i),
     PublicBackup_createdAt = StackBackup_createdAt i, PublicBackup_updatedAt = StackBackup_updatedAt i,
     PublicBackup_completedAt = StackBackup_completedAt i\<rparr>"

record PublicRestore =
  PublicRestore_id :: uuid
  PublicRestore_stackId :: uuid
  PublicRestore_backupId :: uuid
  PublicRestore_agentId :: uuid
  PublicRestore_commandId :: uuid
  PublicRestore_status :: OperationStatus
  PublicRestore_result :: "jobj option"
  PublicRestore_createdAt :: time
  PublicRestore_updatedAt :: time
  PublicRestore_completedAt :: "time option"

definition publicRestore :: "StackRestore \<Rightarrow> PublicRestore" where
  "publicRestore i = \<lparr>PublicRestore_id = StackRestore_id i, PublicRestore_stackId = StackRestore_stackId i,
     PublicRestore_backupId = StackRestore_backupId i, PublicRestore_agentId = StackRestore_agentId i,
     PublicRestore_commandId = StackRestore_commandId i, PublicRestore_status = StackRestore_status i,
     PublicRestore_result = operationResult (StackRestore_result i), PublicRestore_createdAt = StackRestore_createdAt i,
     PublicRestore_updatedAt = StackRestore_updatedAt i, PublicRestore_completedAt = StackRestore_completedAt i\<rparr>"

record PublicSystemBackup =
  PublicSystemBackup_id :: uuid
  PublicSystemBackup_target :: BackupTarget
  PublicSystemBackup_status :: SystemBackupStatus
  PublicSystemBackup_sizeBytes :: "int option"
  PublicSystemBackup_checksum :: "string option"
  PublicSystemBackup_error :: "string option"
  PublicSystemBackup_source :: BackupSource
  PublicSystemBackup_createdAt :: time
  PublicSystemBackup_completedAt :: "time option"

definition publicSystemBackup :: "StoredSystemBackup \<Rightarrow> PublicSystemBackup" where
  "publicSystemBackup i = \<lparr>PublicSystemBackup_id = SystemBackup_id i, PublicSystemBackup_target = SystemBackup_target i,
     PublicSystemBackup_status = SystemBackup_status i, PublicSystemBackup_sizeBytes = SystemBackup_sizeBytes i,
     PublicSystemBackup_checksum = SystemBackup_checksum i, PublicSystemBackup_error = SystemBackup_error i,
     PublicSystemBackup_source = SystemBackup_source i, PublicSystemBackup_createdAt = SystemBackup_createdAt i,
     PublicSystemBackup_completedAt = SystemBackup_completedAt i\<rparr>"

record PublicSystemImport =
  PublicSystemImport_id :: uuid
  PublicSystemImport_status :: ImportStatus
  PublicSystemImport_sizeBytes :: "int option"
  PublicSystemImport_checksum :: "string option"
  PublicSystemImport_backupId :: "uuid option"
  PublicSystemImport_error :: "string option"
  PublicSystemImport_createdAt :: time
  PublicSystemImport_updatedAt :: time
  PublicSystemImport_completedAt :: "time option"

definition publicSystemBackupImport :: "SystemBackupImport \<Rightarrow> PublicSystemImport" where
  "publicSystemBackupImport i = \<lparr>PublicSystemImport_id = SystemImport_id i, PublicSystemImport_status = SystemImport_status i,
     PublicSystemImport_sizeBytes = SystemImport_sizeBytes i, PublicSystemImport_checksum = SystemImport_checksum i,
     PublicSystemImport_backupId = SystemImport_backupId i, PublicSystemImport_error = SystemImport_error i,
     PublicSystemImport_createdAt = SystemImport_createdAt i, PublicSystemImport_updatedAt = SystemImport_updatedAt i,
     PublicSystemImport_completedAt = SystemImport_completedAt i\<rparr>"

record PublicSystemRestore =
  PublicSystemRestore_id :: uuid
  PublicSystemRestore_backupId :: uuid
  PublicSystemRestore_status :: SystemRestoreStatus
  PublicSystemRestore_error :: "string option"
  PublicSystemRestore_createdAt :: time
  PublicSystemRestore_completedAt :: "time option"

definition publicSystemRestore :: "SystemRestore \<Rightarrow> PublicSystemRestore" where
  "publicSystemRestore i = \<lparr>PublicSystemRestore_id = SystemRestore_id i, PublicSystemRestore_backupId = SystemRestore_backupId i,
     PublicSystemRestore_status = SystemRestore_status i, PublicSystemRestore_error = SystemRestore_error i,
     PublicSystemRestore_createdAt = SystemRestore_createdAt i, PublicSystemRestore_completedAt = SystemRestore_completedAt i\<rparr>"

record PublicGuidedOperation =
  PublicGuided_id :: uuid
  PublicGuided_kind :: GuidedKind
  PublicGuided_status :: GuidedStatus
  PublicGuided_stage :: string
  PublicGuided_cloudflareAccountId :: "uuid option"
  PublicGuided_connectorId :: "uuid option"
  PublicGuided_routeId :: "uuid option"
  PublicGuided_domainAccessId :: "uuid option"
  PublicGuided_remoteTunnelId :: "string option"
  PublicGuided_remoteTunnelName :: "string option"
  PublicGuided_result :: "jobj option"
  PublicGuided_error :: "string option"
  PublicGuided_verificationDeadlineAt :: "time option"
  PublicGuided_verificationAttempts :: int
  PublicGuided_createdAt :: time
  PublicGuided_updatedAt :: time
  PublicGuided_completedAt :: "time option"

definition publicGuidedOperation :: "GuidedOperation \<Rightarrow> PublicGuidedOperation" where
  "publicGuidedOperation i = \<lparr>PublicGuided_id = Guided_id i, PublicGuided_kind = Guided_kind i, PublicGuided_status = Guided_status i,
     PublicGuided_stage = Guided_stage i, PublicGuided_cloudflareAccountId = Guided_cloudflareAccountId i,
     PublicGuided_connectorId = Guided_connectorId i, PublicGuided_routeId = Guided_routeId i,
     PublicGuided_domainAccessId = Guided_domainAccessId i, PublicGuided_remoteTunnelId = Guided_remoteTunnelId i,
     PublicGuided_remoteTunnelName = Guided_remoteTunnelName i, PublicGuided_result = Guided_result i, PublicGuided_error = Guided_error i,
     PublicGuided_verificationDeadlineAt = Guided_verificationDeadlineAt i,
     PublicGuided_verificationAttempts = Guided_verificationAttempts i, PublicGuided_createdAt = Guided_createdAt i,
     PublicGuided_updatedAt = Guided_updatedAt i, PublicGuided_completedAt = Guided_completedAt i\<rparr>"

record PublicRuntimeOperation =
  PublicRuntimeOp_id :: uuid
  PublicRuntimeOp_agentId :: uuid
  PublicRuntimeOp_action :: RuntimeAction
  PublicRuntimeOp_scope :: RuntimeScope
  PublicRuntimeOp_projectName :: string
  PublicRuntimeOp_serviceName :: "string option"
  PublicRuntimeOp_status :: OperationStatus
  PublicRuntimeOp_result :: "jobj option"
  PublicRuntimeOp_error :: "string option"
  PublicRuntimeOp_createdAt :: time
  PublicRuntimeOp_updatedAt :: time
  PublicRuntimeOp_completedAt :: "time option"

definition publicRuntimeOperation :: "RuntimeOperation \<Rightarrow> PublicRuntimeOperation" where
  "publicRuntimeOperation i = \<lparr>PublicRuntimeOp_id = RuntimeOp_id i, PublicRuntimeOp_agentId = RuntimeOp_agentId i,
     PublicRuntimeOp_action = RuntimeOp_action i, PublicRuntimeOp_scope = RuntimeOp_scope i,
     PublicRuntimeOp_projectName = RuntimeOp_projectName i, PublicRuntimeOp_serviceName = RuntimeOp_serviceName i,
     PublicRuntimeOp_status = RuntimeOp_status i, PublicRuntimeOp_result = RuntimeOp_result i, PublicRuntimeOp_error = RuntimeOp_error i,
     PublicRuntimeOp_createdAt = RuntimeOp_createdAt i, PublicRuntimeOp_updatedAt = RuntimeOp_updatedAt i,
     PublicRuntimeOp_completedAt = RuntimeOp_completedAt i\<rparr>"

record PublicLogRequest =
  PublicLog_id :: uuid
  PublicLog_agentId :: uuid
  PublicLog_projectName :: string
  PublicLog_serviceName :: string
  PublicLog_tail :: int
  PublicLog_since :: "time option"
  PublicLog_status :: OperationStatus
  PublicLog_result :: "jobj option"
  PublicLog_error :: "string option"
  PublicLog_createdAt :: time
  PublicLog_updatedAt :: time
  PublicLog_completedAt :: "time option"

definition publicRuntimeLogRequest :: "RuntimeLogRequest \<Rightarrow> PublicLogRequest" where
  "publicRuntimeLogRequest i = \<lparr>PublicLog_id = LogRequest_id i, PublicLog_agentId = LogRequest_agentId i,
     PublicLog_projectName = LogRequest_projectName i, PublicLog_serviceName = LogRequest_serviceName i,
     PublicLog_tail = LogRequest_tail i, PublicLog_since = LogRequest_since i, PublicLog_status = LogRequest_status i,
     PublicLog_result = LogRequest_result i, PublicLog_error = LogRequest_error i, PublicLog_createdAt = LogRequest_createdAt i,
     PublicLog_updatedAt = LogRequest_updatedAt i, PublicLog_completedAt = LogRequest_completedAt i\<rparr>"

section \<open>Runtime projects\<close>

record RuntimeProject =
  Project_agentId :: uuid
  Project_agentName :: string
  Project_projectName :: string
  Project_observedAt :: time
  Project_receivedAt :: time
  Project_stale :: bool
  Project_protected :: bool
  Project_actionable :: bool
  Project_status :: string
  Project_services :: "jobj list"

definition entry_of :: "string \<Rightarrow> json option \<Rightarrow> jobj" where
  "entry_of k v = (case v of None \<Rightarrow> [] | Some j \<Rightarrow> [(k, j)])"

definition project_service :: "jobj \<Rightarrow> jobj" where
  "project_service service =
     entry_of ''name'' (jprop service ''serviceName'')
     @ concat (map (\<lambda>k. entry_of k (jprop service k))
         [''status'', ''total'', ''running'', ''healthy'', ''unhealthy'', ''starting'', ''stopped'', ''completed''])"

text \<open>The map from project names to their services, in the order the projects appear.\<close>

definition add_service :: "jobj \<Rightarrow> (string \<times> jobj list) list \<Rightarrow> (string \<times> jobj list) list" where
  "add_service service projects =
     (case (jprop service ''projectName'', jprop service ''serviceName'') of
        (Some (JStr p), Some (JStr _)) \<Rightarrow>
          js_set p ((case map_of projects p of Some l \<Rightarrow> l | None \<Rightarrow> []) @ [project_service service]) projects
      | _ \<Rightarrow> projects)"

definition project_status :: "jobj list \<Rightarrow> string" where
  "project_status services =
     (let statuses = map (\<lambda>s. js_String (jprop s ''status'')) services in
      if ''unhealthy'' \<in> set statuses then ''unhealthy''
      else if ''starting'' \<in> set statuses then ''starting''
      else if ''stopped'' \<in> set statuses then ''stopped''
      else if list_all (\<lambda>v. v = ''completed'') statuses then ''completed''
      else if ''running'' \<in> set statuses then ''running''
      else if list_all (\<lambda>v. v = ''healthy'' \<or> v = ''completed'') statuses then ''healthy''
      else ''unknown'')"

definition is_stale :: "time \<Rightarrow> TelemetrySnapshot \<Rightarrow> bool" where
  "is_stale date_now latest \<longleftrightarrow> date_now - Telemetry_receivedAt latest > 90000"

definition runtime_project ::
  "time \<Rightarrow> string list \<Rightarrow> Agent \<Rightarrow> TelemetrySnapshot \<Rightarrow> string \<times> jobj list \<Rightarrow> RuntimeProject" where
  "runtime_project date_now protectedProjects a latest p =
     (let protected = fst p \<in> set protectedProjects; stale = is_stale date_now latest in
      \<lparr>Project_agentId = Agent_id a, Project_agentName = Agent_name a, Project_projectName = fst p,
       Project_observedAt = Telemetry_observedAt latest, Project_receivedAt = Telemetry_receivedAt latest,
       Project_stale = stale, Project_protected = protected,
       Project_actionable = (Agent_enabled a \<and> Agent_healthStatus a = HConnected \<and> \<not> stale \<and> \<not> protected),
       Project_status = project_status (snd p), Project_services = snd p\<rparr>)"

definition runtimeProjects :: "time \<Rightarrow> RuntimeInventory list \<Rightarrow> string list \<Rightarrow> RuntimeProject list" where
  "runtimeProjects date_now inventory protectedProjects =
     concat (map (\<lambda>i. case Inventory_latest i of
         None \<Rightarrow> []
       | Some latest \<Rightarrow> map (runtime_project date_now protectedProjects (Inventory_agent i) latest)
           (fold add_service (Telemetry_services latest) [])) inventory)"

section \<open>What is shown\<close>

definition artifact_ok :: "json \<Rightarrow> bool" where
  "artifact_ok a \<longleftrightarrow> (\<exists>type name n hash. a = JObj [(''type'', type), (''name'', JStr name), (''sizeBytes'', JNum n), (''sha256'', JStr hash)]
     \<and> json_String type \<in> {''volume_archive'', ''postgres_dump''} \<and> length name \<le> 128 \<and> is_sha256 hash)"

definition shown_entry :: "string \<times> json \<Rightarrow> bool" where
  "shown_entry kv \<longleftrightarrow> fst kv \<in> set result_keys \<and> is_scalar (snd kv)
     \<or> fst kv = ''artifacts'' \<and> (\<exists>as. snd kv = JArr as \<and> length as \<le> 100 \<and> list_all artifact_ok as)"

lemma list_all_js_set: "list_all P m \<Longrightarrow> P (k, v) \<Longrightarrow> list_all P (js_set k v m)"
  by (induction m) (auto simp: js_set_def)

lemma artifact_cases:
  obtains "artifact a = []" | x where "artifact a = [x]" "artifact_ok x"
proof (cases "artifact a = []")
  case False
  then obtain type name n hash where "artifact a = [JObj [(''type'', type), (''name'', JStr name), (''sizeBytes'', JNum n), (''sha256'', JStr hash)]]"
    "json_String type \<in> {''volume_archive'', ''postgres_dump''} \<and> length name \<le> 128 \<and> is_sha256 hash"
    unfolding artifact_def by (force split: option.splits json.splits if_splits)
  then show thesis by (intro that(2)) (auto simp only: artifact_ok_def)
qed (rule that)

lemma artifacts_shape: "list_all artifact_ok (concat (map artifact as)) \<and> length (concat (map artifact as)) \<le> length as"
proof (induction as)
  case (Cons a as)
  then show ?case by (cases a rule: artifact_cases) simp_all
qed simp

lemma scalar_entries_shown: "set (scalar_entries r) \<subseteq> {kv. fst kv \<in> set result_keys \<and> is_scalar (snd kv)}"
proof -
  have "set (concat (map (\<lambda>k. case jprop r k of Some v \<Rightarrow> if is_scalar v then [(k, v)] else [] | None \<Rightarrow> []) ks))
      \<subseteq> {kv. fst kv \<in> set ks \<and> is_scalar (snd kv)}" for ks
    by (induction ks) (auto split: option.split)
  then show ?thesis by (simp add: scalar_entries_def)
qed

lemma shown_message: "list_all shown_entry s \<Longrightarrow> list_all shown_entry (with_message r s)"
  unfolding with_message_def
  by (simp add: list_all_js_set shown_entry_def [of "(''message'', v)" for v] result_keys_def is_scalar_def split: option.split json.split)

lemma shown_artifacts: "list_all shown_entry s \<Longrightarrow> list_all shown_entry (with_artifacts r s)"
proof -
  assume s: "list_all shown_entry s"
  have "shown_entry (''artifacts'', JArr (concat (map artifact (take 100 as))))" for as
    using artifacts_shape [of "take 100 as"] by (simp add: shown_entry_def)
  with s show ?thesis by (simp add: with_artifacts_def list_all_js_set split: option.split json.split)
qed

text \<open>The result of a backup or restore is reported by an agent; what the console shows of it has only known
  keys with scalar values and at most a hundred artifacts with a bounded name and a digest.\<close>

lemma operationResult_shown: "operationResult r = Some s \<Longrightarrow> list_all shown_entry s"
proof -
  have "list_all shown_entry (scalar_entries v)" for v
    using scalar_entries_shown [of v] by (auto simp: list_all_iff shown_entry_def)
  then have "list_all shown_entry (with_artifacts v (with_message v (scalar_entries v)))" for v
    by (intro shown_artifacts shown_message)
  then show "operationResult r = Some s \<Longrightarrow> ?thesis" by (auto simp: operationResult_def)
qed

end
