(* ===== verification/Gw_Operations.thy ===== *)
theory Gw_Operations
  imports Gw_Resources Gw_Public
begin

text \<open>
  The routes of notifications, agents, commands, monitoring, runtime operations and Git
  deployments.
\<close>

section \<open>Notifications\<close>

text \<open>\<open>Object.keys(body).some((key) => key !== 'enabled')\<close>\<close>

definition only_keys_of :: "string list \<Rightarrow> jobj \<Rightarrow> bool" where
  "only_keys_of ks b \<longleftrightarrow> list_all (\<lambda>(k, _). k \<in> set ks) b"

definition patch_notification_agent :: "api \<Rightarrow> options \<Rightarrow> http_in \<Rightarrow> User \<Rightarrow> NotificationAgentPreference reply handler" where
  "patch_notification_agent e o' r u =
     chain (pure (objectBody (in_body r))) (\<lambda>b.
     chain (pure (optionalBoolean b ''enabled'')) (\<lambda>enabled.
     chain (the_or (if only_keys_of [''enabled''] b then enabled else None) (bad_request ''enabled must be the only field.'')) (\<lambda>on.
     chain (pure (idParameter (in_id r))) (\<lambda>i.
     chain (writes (setAgentNotificationPreference (opt_topology o') (env_now e) (env_date_now e) i on (User_id u))) (\<lambda>preference.
     chain (the_or preference (ApiError 404 ''Agent not found.'' None)) (\<lambda>p.
     give (Reply 200 p)))))))"

definition patch_notification_service :: "api \<Rightarrow> options \<Rightarrow> http_in \<Rightarrow> User \<Rightarrow> NotificationServicePreference reply handler" where
  "patch_notification_service e o' r u =
     chain (pure (objectBody (in_body r))) (\<lambda>b.
     chain (pure (stringField b ''agentId'' 36 36)) (\<lambda>agentId.
     chain (pure (stringField b ''projectName'' 1 63)) (\<lambda>projectName.
     chain (pure (stringField b ''serviceName'' 1 128)) (\<lambda>serviceName.
     chain (pure (optionalBoolean b ''enabled'')) (\<lambda>enabled.
     chain (the_or (if UUID_PATTERN agentId \<and> PROJECT_NAME_PATTERN projectName \<and> SERVICE_NAME_PATTERN serviceName
         \<and> only_keys_of [''agentId'', ''projectName'', ''serviceName'', ''enabled''] b then enabled else None)
       (bad_request ''Notification service identity is invalid.'')) (\<lambda>on.
     chain (writes (setServiceNotificationPreference (opt_topology o') (env_now e) (env_date_now e) agentId projectName serviceName on (User_id u)))
       (\<lambda>preference.
     chain (the_or preference (ApiError 404 ''Discovered or retained service not found.'' None)) (\<lambda>p.
     give (Reply 200 p)))))))))"

definition selected_events :: "jobj \<Rightarrow> ApiError + string list" where
  "selected_events b =
     (case jprop b ''selectedEvents'' of
        Some (JArr vs) \<Rightarrow>
          if length vs \<le> length OPERATIONAL_EVENT_TYPES \<and> list_all (\<lambda>v. case v of JStr s \<Rightarrow> s \<in> OPERATIONAL_EVENT_TYPE_SET | _ \<Rightarrow> False) vs
          then Inr (new_set (map json_String vs))
          else Inl (bad_request ''selectedEvents contains an unsupported operational event.'')
      | _ \<Rightarrow> Inl (bad_request ''selectedEvents contains an unsupported operational event.''))"

text \<open>\<open>/^\d+:[A-Za-z0-9_-]{20,}$/\<close>\<close>

definition BOT_TOKEN :: "string \<Rightarrow> bool" where
  "BOT_TOKEN s \<longleftrightarrow> takeWhile is_digit s \<noteq> []
     \<and> (case dropWhile is_digit s of
          c # t \<Rightarrow> c = CHR '':'' \<and> 20 \<le> length t \<and> list_all (\<lambda>x. is_alnum x \<or> x \<in> set ''_-'') t
        | [] \<Rightarrow> False)"

definition telegram_secrets :: "api \<Rightarrow> jobj \<Rightarrow> (string \<times> string) option \<Rightarrow> ApiError + (string \<times> string) option" where
  "telegram_secrets e b stored =
     (if jprop b ''botToken'' = None then Inr stored
      else
        bind_ok (opaqueStringField b ''botToken'' 20 512) (\<lambda>botToken.
        bind_ok (opaqueStringField b ''groupId'' 1 128) (\<lambda>groupId.
          if BOT_TOKEN botToken then Inr (Some (seal_secret e 0 botToken, seal_secret e 1 groupId))
          else Inl (bad_request ''botToken is not a valid Telegram bot token.''))))"

definition put_telegram :: "api \<Rightarrow> http_in \<Rightarrow> string list reply handler" where
  "put_telegram e r =
     chain (pure (objectBody (in_body r))) (\<lambda>b.
     chain (pure (selected_events b)) (\<lambda>selectedEvents.
     chain (require ((jprop b ''botToken'' = None) = (jprop b ''groupId'' = None))
       (bad_request ''botToken and groupId must be provided together.'')) (\<lambda>_.
     chain (reads getNotificationSecrets) (\<lambda>stored.
     chain (pure (telegram_secrets e b stored)) (\<lambda>secrets.
     chain (the_or secrets (ApiError 409 ''Telegram credentials must be configured before updating selected events.'' None)) (\<lambda>(bot, grp).
     chain (changes (saveNotificationSettings bot grp selectedEvents)) (\<lambda>_.
     give (Reply 200 selectedEvents))))))))"

definition telegram_request :: "string \<Rightarrow> string \<Rightarrow> http_request" where
  "telegram_request botToken groupId =
     \<lparr>req_method = ''POST'', req_url = ''https://api.telegram.org/bot'' @ encodeURIComponent botToken @ ''/sendMessage'', req_token = [],
      req_body = Some (JObj [(''chat_id'', JStr groupId), (''text'', JStr ''Gateway Control test notification.'')])\<rparr>"

definition post_telegram_test :: "api \<Rightarrow> unit reply handler" where
  "post_telegram_test e =
     chain (reads getNotificationSecrets) (\<lambda>stored.
     chain (the_or stored (ApiError 409 ''Telegram notifications are not configured.'' None)) (\<lambda>(bot, grp).
     chain (opened e bot) (\<lambda>botToken.
     chain (opened e grp) (\<lambda>groupId.
     chain (fetch (telegram_request botToken groupId)) (\<lambda>response.
     (case response of
        Unreachable \<Rightarrow> throw (Api (ApiError 502 ''Telegram could not be reached.'' None))
      | Answer status _ \<Rightarrow>
          if response_ok status then give (Reply 200 ())
          else throw (Api (ApiError 502 (''Telegram rejected the test message with HTTP '' @ digits status @ ''.'') None))))))))"

section \<open>Agents\<close>

definition enrollment_command :: "api \<Rightarrow> options \<Rightarrow> string \<Rightarrow> string \<Rightarrow> string \<Rightarrow> uuid \<Rightarrow> string \<Rightarrow> ApiError + string" where
  "enrollment_command e o' baseUrl img token agentId agentName =
     enrollmentCommand (opt_web o') baseUrl img token agentId agentName
       (coalesce (opt_traefikDynamicVolume o') ''gateway-traefik-dynamic'')
       (coalesce (opt_systemBackupNasRoot o') ''/mnt/gateway-control-backups'')
       (coalesce (opt_systemBackupNasMarker o') ''.gateway-control-nas'')
       (env_protected e)"

text \<open>The command shown beside a new agent, when an address or an image was given.\<close>

definition requested_command :: "api \<Rightarrow> options \<Rightarrow> jobj \<Rightarrow> string \<Rightarrow> Agent \<Rightarrow> ApiError + string option" where
  "requested_command e o' b token a =
     (if jprop b ''baseUrl'' = None \<and> jprop b ''image'' = None then Inr None
      else
        bind_ok (stringField b ''baseUrl'' 8 2048) (\<lambda>baseUrl.
        bind_ok (stringField b ''image'' 1 512) (\<lambda>img.
        bind_ok (enrollment_command e o' baseUrl img token (Agent_id a) (Agent_name a)) (\<lambda>c. Inr (Some c)))))"

definition post_agent :: "api \<Rightarrow> options \<Rightarrow> http_in \<Rightarrow> (Agent \<times> string \<times> time \<times> string option) reply handler" where
  "post_agent e o' r =
     chain (pure (objectBody (in_body r))) (\<lambda>b.
     chain (pure (stringField b ''name'' 1 120)) (\<lambda>name.
     let token = randomToken (env_random e) 32; expiresAt = env_date_now e + 30 * 60000 in
     chain (tries (createAgent (env_gen e) (env_now e) (env_date_now e) name (hashToken (env_sha256 e) token) expiresAt)) (\<lambda>a.
     chain (pure (requested_command e o' b token a)) (\<lambda>c.
     give (Reply 201 (a, token, expiresAt, c))))))"

definition delete_agent :: "api \<Rightarrow> http_in \<Rightarrow> (removal \<times> string) reply handler" where
  "delete_agent e r =
     chain (pure (idParameter (in_id r))) (\<lambda>i.
     chain (writes (removeAgent (env_now e) i)) (\<lambda>result.
     if result = RemovalMissing then throw (Api (ApiError 404 ''Agent not found.'' None))
     else if result = RemovalBlocked
     then throw (Api (ApiError 409
       ''Reassign or remove the Agent dependencies and wait for active commands to finish before removing it.'' None))
     else if result = RemovalRaised then throw (Database (JsError ''foreign_key_violation''))
     else give (Reply 200 (result, agentCleanupCommand i))))"

definition post_enrollment_command :: "api \<Rightarrow> options \<Rightarrow> http_in \<Rightarrow> string reply handler" where
  "post_enrollment_command e o' r =
     chain (pure (objectBody (in_body r))) (\<lambda>b.
     chain (pure (uuid_field b ''agentId'')) (\<lambda>agentId.
     chain (pure (stringField b ''baseUrl'' 8 2048)) (\<lambda>baseUrl.
     chain (pure (stringField b ''image'' 1 512)) (\<lambda>img.
     chain (pure (opaqueStringField b ''enrollmentToken'' 32 512)) (\<lambda>token.
     chain (pure (stringField b ''agentName'' 1 120)) (\<lambda>agentName.
     chain (pure (enrollment_command e o' baseUrl img token agentId agentName)) (\<lambda>c.
     give (Reply 200 c))))))))"

section \<open>Commands and monitoring\<close>

definition sensitive_result :: "string list" where
  "sensitive_result = [''cloudflare.connector.sync'', ''compose.stack.sync'', ''compose.runtime.logs'', ''traefik.route.sync'', ''deployment.compose.apply'']"

definition listed_command :: "AgentCommand \<Rightarrow> AgentCommand" where
  "listed_command c = (if AgentCommand_type c \<in> set sensitive_result then c\<lparr>AgentCommand_result := None\<rparr> else c)"

definition agent_filter :: "json option \<Rightarrow> ApiError + uuid option" where
  "agent_filter q =
     (case q of
        None \<Rightarrow> Inr None
      | Some (JStr i) \<Rightarrow> if UUID_PATTERN i then Inr (Some i) else Inl (bad_request ''agentId must be a valid UUID.'')
      | Some _ \<Rightarrow> Inl (bad_request ''agentId must be a valid UUID.''))"

definition get_commands :: "http_in \<Rightarrow> AgentCommand list reply handler" where
  "get_commands r =
     chain (pure (agent_filter (in_query_agent r))) (\<lambda>agentId.
     chain (reads (listCommands agentId)) (\<lambda>cs.
     give (Reply 200 (map listed_command cs))))"

text \<open>A single command is shown in full only when it is a diagnosis.\<close>

datatype command_view = Brief uuid CommandStatus string | Full AgentCommand

definition command_view_of :: "AgentCommand \<Rightarrow> command_view" where
  "command_view_of c =
     (if AgentCommand_type c \<noteq> ''agent.diagnostics.run'' then Brief (AgentCommand_id c) (AgentCommand_status c) (AgentCommand_type c)
      else Full c)"

definition get_command :: "http_in \<Rightarrow> command_view reply handler" where
  "get_command r =
     chain (pure (idParameter (in_id r))) (\<lambda>i.
     chain (reads (getCommand i)) (\<lambda>found.
     chain (the_or found (ApiError 404 ''Command not found.'' None)) (\<lambda>c.
     give (Reply 200 (command_view_of c)))))"

definition post_diagnostics :: "api \<Rightarrow> http_in \<Rightarrow> AgentCommand reply handler" where
  "post_diagnostics e r =
     chain (pure (idParameter (in_id r))) (\<lambda>i.
     chain (tries (createCommand (env_gen e) (env_now e) i ''agent.diagnostics.run'' [])) (\<lambda>created.
     chain (the_or created (ApiError 404 ''Enabled Agent not found.'' None)) (\<lambda>c.
     give (Reply 202 c))))"

definition USER_COMMAND_TYPES :: "string list" where
  "USER_COMMAND_TYPES = [''ping'', ''docker.info'', ''agent.diagnostics.run'']"

definition post_command :: "api \<Rightarrow> http_in \<Rightarrow> AgentCommand reply handler" where
  "post_command e r =
     chain (pure (objectBody (in_body r))) (\<lambda>b.
     chain (pure (stringField b ''agentId'' 1 255)) (\<lambda>agentId.
     chain (require (UUID_PATTERN agentId) (bad_request ''agentId must be a valid UUID.'')) (\<lambda>_.
     chain (pure (stringField b ''type'' 1 120)) (\<lambda>type.
     chain (require (type \<in> set USER_COMMAND_TYPES) (bad_request ''type is not an allowed user command.'')) (\<lambda>_.
     chain (pure (optional_body (jprop b ''payload''))) (\<lambda>payload.
     chain (require (length (JSON_stringify (JObj payload)) \<le> 262144) (bad_request ''Command payload is too large.'')) (\<lambda>_.
     chain (tries (createCommand (env_gen e) (env_now e) agentId type payload)) (\<lambda>created.
     chain (the_or created (ApiError 404 ''Enabled agent not found.'' None)) (\<lambda>c.
     give (Reply 201 c))))))))))"

text \<open>The result of an old log request: the logs, and whether they were cut.\<close>

definition log_text :: "jobj option \<Rightarrow> string option" where
  "log_text result =
     (case result of
        None \<Rightarrow> None
      | Some v \<Rightarrow> (case as_string (jprop v ''logs'') of Some s \<Rightarrow> Some s | None \<Rightarrow> as_string (jprop v ''output'')))"

definition log_truncated :: "jobj option \<Rightarrow> bool" where
  "log_truncated result = (case result of None \<Rightarrow> False | Some v \<Rightarrow> jprop v ''truncated'' = Some (JBool True))"

definition get_log_request :: "http_in \<Rightarrow> User \<Rightarrow> (uuid \<times> CommandStatus \<times> (string \<times> bool) option) reply handler" where
  "get_log_request r u =
     chain (pure (idParameter (in_id r))) (\<lambda>i.
     chain (reads (getLogRequest i (User_id u))) (\<lambda>found.
     chain (the_or found (ApiError 404 ''Log request not found.'' None)) (\<lambda>c.
     give (Reply 200 (AgentCommand_id c, AgentCommand_status c,
       map_option (\<lambda>logs. (logs, log_truncated (AgentCommand_result c))) (log_text (AgentCommand_result c)))))))"

definition get_monitoring :: "api \<Rightarrow> http_in \<Rightarrow> (Agent \<times> TelemetrySnapshot option \<times> TelemetrySnapshot list) reply handler" where
  "get_monitoring e r =
     chain (pure (idParameter (in_id r))) (\<lambda>i.
     chain (reads (getAgentMonitoring (env_date_now e) i)) (\<lambda>found.
     chain (the_or found (ApiError 404 ''Agent not found.'' None)) (\<lambda>m.
     give (Reply 200 m))))"

end
