(* ===== verification/Gw_Runtimes.thy ===== *)
theory Gw_Runtimes
  imports Gw_Operations
begin

text \<open>
  The routes that act on what runs at an agent: runtime actions and log requests, which are
  checked against the latest telemetry, and the deployment of Compose files from Git.
\<close>

section \<open>Runtime actions and logs\<close>

definition agent_unavailable :: "string \<Rightarrow> ApiError" where
  "agent_unavailable m = ApiError 409 m (Some ''agent_unavailable'')"

definition invalid_target :: "string \<Rightarrow> ApiError" where
  "invalid_target m = ApiError 400 m (Some ''invalid_target'')"

definition scope_of :: "string \<Rightarrow> RuntimeScope option" where
  "scope_of s = (if s = ''project'' then Some ScopeProject else if s = ''service'' then Some ScopeService else None)"

definition action_of :: "string \<Rightarrow> RuntimeAction option" where
  "action_of s = (if s = ''start'' then Some ActStart else if s = ''stop'' then Some ActStop
     else if s = ''restart'' then Some ActRestart else None)"

definition is_online :: "Agent \<Rightarrow> bool" where
  "is_online a \<longleftrightarrow> Agent_enabled a \<and> Agent_enrolledAt a \<noteq> None \<and> Agent_healthStatus a = HConnected"

definition telemetry_stale :: ApiError where
  "telemetry_stale = ApiError 409 ''Runtime discovery is stale.'' (Some ''telemetry_stale'')"

text \<open>The telemetry of an agent, when there is some that is not stale.\<close>

definition fresh_telemetry :: "api \<Rightarrow> RuntimeInventory \<Rightarrow> ApiError + TelemetrySnapshot" where
  "fresh_telemetry e target =
     (case Inventory_latest target of
        None \<Rightarrow> Inl telemetry_stale
      | Some latest \<Rightarrow> if is_stale (env_date_now e) latest then Inl telemetry_stale else Inr latest)"

definition discovered :: "TelemetrySnapshot \<Rightarrow> string \<Rightarrow> string option \<Rightarrow> bool" where
  "discovered latest projectName serviceName \<longleftrightarrow>
     list_ex (\<lambda>s. jprop s ''projectName'' = Some (JStr projectName)
       \<and> (case serviceName of None \<Rightarrow> True | Some n \<Rightarrow> jprop s ''serviceName'' = Some (JStr n))) (Telemetry_services latest)"

text \<open>The scope and the action, and the name of the service that the scope asks for.\<close>

definition action_fields :: "jobj \<Rightarrow> string \<Rightarrow> string \<Rightarrow> string \<Rightarrow> string \<Rightarrow> ApiError + RuntimeScope \<times> RuntimeAction" where
  "action_fields b agentId projectName scope action =
     (if \<not> UUID_PATTERN agentId \<or> \<not> PROJECT_NAME_PATTERN projectName then Inl (invalid_target ''Runtime action fields are invalid.'')
      else
        (case (scope_of scope, action_of action) of
           (Some s, Some a) \<Rightarrow> Inr (s, a)
         | _ \<Rightarrow> Inl (invalid_target ''Runtime action fields are invalid.'')))"

definition scoped_service_name :: "jobj \<Rightarrow> RuntimeScope \<Rightarrow> ApiError + string option" where
  "scoped_service_name b scope =
     (case scope of
        ScopeService \<Rightarrow>
          bind_ok (stringField b ''serviceName'' 1 128) (\<lambda>n.
            if SERVICE_NAME_PATTERN n then Inr (Some n) else Inl (invalid_target ''serviceName must match the selected scope.''))
      | ScopeProject \<Rightarrow>
          if jprop b ''serviceName'' = None then Inr None else Inl (invalid_target ''serviceName must match the selected scope.''))"

definition inventory_of :: "api \<Rightarrow> uuid \<Rightarrow> RuntimeInventory option handler" where
  "inventory_of e agentId =
     reads (\<lambda>d. find (\<lambda>i. Agent_id (Inventory_agent i) = agentId) (getLatestRuntimeInventory (env_date_now e) d))"

definition queue_action :: "api \<Rightarrow> User \<Rightarrow> uuid \<Rightarrow> string \<Rightarrow> RuntimeScope \<Rightarrow> RuntimeAction \<Rightarrow> string option \<Rightarrow> PublicRuntimeOperation reply handler" where
  "queue_action e u agentId projectName scope action serviceName =
     chain (inventory_of e agentId) (\<lambda>found.
     chain (the_or found (ApiError 404 ''Agent not found.'' (Some ''agent_not_found''))) (\<lambda>target.
     chain (require (is_online (Inventory_agent target)) (agent_unavailable ''The assigned agent is offline or disabled.'')) (\<lambda>_.
     chain (pure (fresh_telemetry e target)) (\<lambda>latest.
     chain (require (discovered latest projectName serviceName)
       (ApiError 404 ''Runtime project or service was not discovered.'' (Some ''target_not_found''))) (\<lambda>_.
     chain (require (projectName \<notin> set (env_protected e)) (ApiError 403 ''This runtime project is protected.'' (Some ''project_protected''))) (\<lambda>_.
     chain (tries (createRuntimeOperation (env_gen e) (env_now e) (User_id u) agentId action scope projectName serviceName)) (\<lambda>created.
     chain (accepted created (ApiError 409 ''An action is already active for this target.'' (Some ''operation_active''))
       (agent_unavailable ''The assigned agent is unavailable.'')) (\<lambda>x.
     give (Reply 202 (publicRuntimeOperation x))))))))))"

definition post_runtime_action :: "api \<Rightarrow> http_in \<Rightarrow> User \<Rightarrow> PublicRuntimeOperation reply handler" where
  "post_runtime_action e r u =
     chain (pure (objectBody (in_body r))) (\<lambda>b.
     chain (pure (exactKeys b [''agentId'', ''projectName'', ''serviceName'', ''action'', ''scope''])) (\<lambda>_.
     chain (pure (stringField b ''agentId'' 36 36)) (\<lambda>agentId.
     chain (pure (stringField b ''projectName'' 1 63)) (\<lambda>projectName.
     chain (pure (stringField b ''scope'' 1 255)) (\<lambda>scope'.
     chain (pure (stringField b ''action'' 1 255)) (\<lambda>action'.
     chain (pure (action_fields b agentId projectName scope' action')) (\<lambda>(scope, action).
     chain (pure (scoped_service_name b scope)) (\<lambda>serviceName.
     queue_action e u agentId projectName scope action serviceName))))))))"

definition tail_of :: "json option \<Rightarrow> int option" where
  "tail_of v = (case as_number v of Some n \<Rightarrow> if 1 \<le> n \<and> n \<le> 1000 then Some n else None | None \<Rightarrow> None)"

definition since_of :: "api \<Rightarrow> jobj \<Rightarrow> ApiError + time option" where
  "since_of e b =
     (case jprop b ''since'' of
        None \<Rightarrow> Inr None
      | Some _ \<Rightarrow>
          bind_ok (stringField b ''since'' 20 40) (\<lambda>s.
            (case env_date_parse e s of
               Some t \<Rightarrow>
                 if RFC3339_PATTERN s \<and> t \<le> env_date_now e \<and> env_date_now e - 86400000 \<le> t then Inr (Some t)
                 else Inl (ApiError 400 ''since must be within the last 24 hours.'' (Some ''invalid_since''))
             | None \<Rightarrow> Inl (ApiError 400 ''since must be within the last 24 hours.'' (Some ''invalid_since'')))))"

definition owner_required :: "string \<Rightarrow> ApiError" where
  "owner_required m = ApiError 403 m (Some ''protected_logs_owner_required'')"

definition queue_logs :: "api \<Rightarrow> User \<Rightarrow> uuid \<Rightarrow> string \<Rightarrow> string \<Rightarrow> int \<Rightarrow> time option \<Rightarrow> PublicLogRequest reply handler" where
  "queue_logs e u agentId projectName serviceName tail since =
     chain (inventory_of e agentId) (\<lambda>found.
     chain (the_or (case found of Some t \<Rightarrow> if is_online (Inventory_agent t) then Some t else None | None \<Rightarrow> None)
       (agent_unavailable ''The assigned agent is offline or disabled.'')) (\<lambda>target.
     chain (pure (fresh_telemetry e target)) (\<lambda>latest.
     chain (require (discovered latest projectName (Some serviceName))
       (ApiError 404 ''Runtime service was not discovered.'' (Some ''target_not_found''))) (\<lambda>_.
     chain (require (projectName \<notin> set (env_protected e) \<or> User_role u = Owner)
       (owner_required ''Only an Owner may request logs for a protected runtime project.'')) (\<lambda>_.
     chain (tries (createRuntimeLogRequest (env_gen e) (env_now e) (User_id u) agentId projectName serviceName tail since)) (\<lambda>created.
     chain (the_or created (agent_unavailable ''The assigned agent is unavailable.'')) (\<lambda>x.
     give (Reply 202 (publicRuntimeLogRequest x)))))))))"

definition post_runtime_logs :: "api \<Rightarrow> http_in \<Rightarrow> User \<Rightarrow> PublicLogRequest reply handler" where
  "post_runtime_logs e r u =
     chain (pure (objectBody (in_body r))) (\<lambda>b.
     chain (pure (exactKeys b [''agentId'', ''projectName'', ''serviceName'', ''tail'', ''since''])) (\<lambda>_.
     chain (pure (stringField b ''agentId'' 36 36)) (\<lambda>agentId.
     chain (pure (stringField b ''projectName'' 1 63)) (\<lambda>projectName.
     chain (pure (stringField b ''serviceName'' 1 128)) (\<lambda>serviceName.
     chain (the_or (if UUID_PATTERN agentId \<and> PROJECT_NAME_PATTERN projectName \<and> SERVICE_NAME_PATTERN serviceName
         then tail_of (jprop b ''tail'') else None) (invalid_target ''Runtime log request fields are invalid.'')) (\<lambda>tail.
     chain (pure (since_of e b)) (\<lambda>since.
     queue_logs e u agentId projectName serviceName tail since)))))))"

definition get_runtime_logs :: "api \<Rightarrow> http_in \<Rightarrow> User \<Rightarrow> PublicLogRequest reply handler" where
  "get_runtime_logs e r u =
     chain (pure (idParameter (in_id r))) (\<lambda>i.
     chain (reads (getRuntimeLogRequest i (Some (User_id u)))) (\<lambda>found.
     chain (the_or found (ApiError 404 ''Runtime log request not found.'' (Some ''log_request_not_found''))) (\<lambda>x.
     chain (require (LogRequest_projectName x \<notin> set (env_protected e) \<or> User_role u = Owner)
       (owner_required ''Only an Owner may view logs for a protected runtime project.'')) (\<lambda>_.
     give (Reply 200 (publicRuntimeLogRequest x))))))"

section \<open>Deployments\<close>

text \<open>The parameters of a Compose file: the scalar properties of an object.\<close>

definition parameter_value :: "json \<Rightarrow> pvalue option" where
  "parameter_value v =
     (case v of JStr s \<Rightarrow> Some (PStr s) | JNum n \<Rightarrow> Some (PNum (string_of_int n)) | JBool b \<Rightarrow> Some (PBool b) | _ \<Rightarrow> None)"

fun typed_parameters :: "jobj \<Rightarrow> ApiError + (string \<times> pvalue) list" where
  "typed_parameters [] = Inr []"
| "typed_parameters ((k, v) # kvs) =
     (case parameter_value v of
        None \<Rightarrow> Inl (ApiError 400 ''parameters must contain typed scalar values.'' (Some ''invalid_parameter''))
      | Some p \<Rightarrow> bind_ok (typed_parameters kvs) (\<lambda>ps. Inr ((k, p) # ps)))"

definition deployment_parameters :: "jobj \<Rightarrow> ApiError + (string \<times> pvalue) list" where
  "deployment_parameters b =
     (case jprop b ''parameters'' of
        None \<Rightarrow> Inr []
      | Some JNull \<Rightarrow> Inr []
      | Some (JObj kvs) \<Rightarrow> typed_parameters kvs
      | Some _ \<Rightarrow> Inl (ApiError 400 ''parameters must be an object.'' (Some ''invalid_parameter'')))"

definition source_failed :: "source_error \<Rightarrow> ApiError" where
  "source_failed x = ApiError 400 (snd x) (Some (fst x))"

definition policy_failed :: "options \<Rightarrow> policy_error \<Rightarrow> ApiError" where
  "policy_failed o' x = ApiError 400 (opt_policy_message o' x) (Some (fst x))"

definition map_error :: "('e \<Rightarrow> ApiError) \<Rightarrow> 'e + 'a \<Rightarrow> ApiError + 'a" where
  "map_error f r = (case r of Inl x \<Rightarrow> Inl (f x) | Inr v \<Rightarrow> Inr v)"

text \<open>The source, its text, and what the policy makes of it.\<close>

definition candidate_source :: "options \<Rightarrow> jobj \<Rightarrow> ApiError + GitComposeSource \<times> string" where
  "candidate_source o' b =
     bind_ok (stringField b ''repository'' 20 255) (\<lambda>repository.
     bind_ok (stringField b ''commitSha'' 40 40) (\<lambda>commitSha.
     bind_ok (stringField b ''composePath'' 5 255) (\<lambda>composePath.
     bind_ok (map_error source_failed (normalizeGitComposeSource repository commitSha composePath)) (\<lambda>source.
     bind_ok (map_error source_failed
       (fetchGitComposeSource (opt_raw_url o') (\<lambda>h. isIP h \<noteq> 0) (opt_github o') utf8_text source)) (\<lambda>text.
     Inr (source, text))))))"

definition deploymentCandidate ::
  "options \<Rightarrow> jobj \<Rightarrow> string option \<Rightarrow> ApiError + GitComposeSource \<times> string \<times> ComposePolicyResult" where
  "deploymentCandidate o' b projectName =
     bind_ok (exactKeys b [''repository'', ''commitSha'', ''composePath'', ''projectName'', ''parameters'', ''agentId'', ''displayName'']) (\<lambda>_.
     bind_ok (candidate_source o' b) (\<lambda>(source, text).
     bind_ok (deployment_parameters b) (\<lambda>parameters.
     bind_ok (case projectName of Some p \<Rightarrow> Inr p | None \<Rightarrow> stringField b ''projectName'' 1 63) (\<lambda>project.
     bind_ok (map_error (policy_failed o') (evaluateComposePolicy (opt_yaml o') text project parameters)) (\<lambda>policy.
     Inr (source, text, policy))))))"

definition post_preview :: "options \<Rightarrow> http_in \<Rightarrow> ((string \<times> string \<times> string) \<times> nat \<times> string \<times> policy_service list \<times> policy_warning list) reply handler" where
  "post_preview o' r =
     chain (pure (objectBody (in_body r))) (\<lambda>b.
     chain (pure (deploymentCandidate o' b None)) (\<lambda>(source, _, policy).
     give (Reply 200 ((src_repository source, src_commitSha source, src_composePath source),
       res_policyVersion policy, res_checksum policy, res_services policy, res_warnings policy))))"

definition policy_json :: "ComposePolicyResult \<Rightarrow> json" where
  "policy_json policy = JObj
     [(''services'', JArr (map (\<lambda>s. JObj [(''name'', JStr (ps_name s)), (''image'', JStr (ps_image s)),
         (''digestPinned'', JBool (ps_digestPinned s)), (''healthcheck'', JBool (ps_healthcheck s))]) (res_services policy))),
      (''warnings'', JArr (map (\<lambda>(c, s). JObj [(''code'', JStr c), (''service'', JStr s)]) (res_warnings policy)))]"

definition revision_values :: "api \<Rightarrow> User \<Rightarrow> GitComposeSource \<Rightarrow> string \<Rightarrow> ComposePolicyResult \<Rightarrow> RevisionValues" where
  "revision_values e u source text policy =
     \<lparr>Values_sourceRepository = src_repository source, Values_commitSha = src_commitSha source, Values_composePath = src_composePath source,
      Values_encryptedSourceCompose = seal_secret e 0 text,
      Values_encryptedNormalizedCompose = seal_secret e 1 (res_normalizedCompose policy),
      Values_checksum = res_checksum policy, Values_policyVersion = int (res_policyVersion policy),
      Values_policyResult = policy_json policy, Values_requestedByUserId = User_id u\<rparr>"

definition project_protected :: ApiError where
  "project_protected = ApiError 403 ''This project is protected from deployment.'' (Some ''project_protected'')"

definition post_deployment :: "api \<Rightarrow> options \<Rightarrow> http_in \<Rightarrow> User \<Rightarrow> Deployment reply handler" where
  "post_deployment e o' r u =
     chain (pure (objectBody (in_body r))) (\<lambda>b.
     chain (pure (deploymentCandidate o' b None)) (\<lambda>(source, text, policy).
     chain (pure (stringField b ''agentId'' 36 36)) (\<lambda>agentId.
     chain (pure (stringField b ''displayName'' 1 120)) (\<lambda>displayName.
     chain (pure (stringField b ''projectName'' 1 63)) (\<lambda>projectName.
     chain (require (UUID_PATTERN agentId \<and> PROJECT_NAME_PATTERN projectName) (invalid_target ''Deployment target is invalid.'')) (\<lambda>_.
     chain (require (projectName \<notin> set (env_protected e)) project_protected) (\<lambda>_.
     chain (tries (createDeployment (env_gen e) (env_now e) agentId displayName projectName (revision_values e u source text policy))) (\<lambda>created.
     chain (the_or created (ApiError 409 ''The target agent is unavailable or the project is already active.'' (Some ''deployment_conflict''))) (\<lambda>x.
     give (Reply 201 x))))))))))"

definition deployment_not_found :: ApiError where
  "deployment_not_found = ApiError 404 ''Deployment not found.'' (Some ''deployment_not_found'')"

definition find_deployment :: "uuid \<Rightarrow> Deployment handler" where
  "find_deployment i =
     chain (reads (\<lambda>d. find (\<lambda>x. Deployment_id x = i) (listDeployments d))) (\<lambda>found. the_or found deployment_not_found)"

definition post_revision :: "api \<Rightarrow> options \<Rightarrow> http_in \<Rightarrow> User \<Rightarrow> DeploymentRevision reply handler" where
  "post_revision e o' r u =
     chain (pure (objectBody (in_body r))) (\<lambda>b.
     chain (reads listDeployments) (\<lambda>known.
     chain (if known = [] then throw (Api deployment_not_found) else pure (idParameter (in_id r))) (\<lambda>i.
     chain (the_or (find (\<lambda>x. Deployment_id x = i) known) deployment_not_found) (\<lambda>target.
     chain (pure (deploymentCandidate o' b (Some (Deployment_projectName target)))) (\<lambda>(source, text, policy).
     chain (require (src_repository source = Deployment_sourceRepository target)
       (ApiError 400 ''A deployment source repository cannot be changed.'' (Some ''repository_immutable''))) (\<lambda>_.
     chain (tries (createDeploymentRevision (env_gen e) (env_now e) (Deployment_id target) (revision_values e u source text policy))) (\<lambda>created.
     chain (the_or created (ApiError 409 ''This immutable revision already exists or the deployment is unavailable.'' (Some ''revision_conflict''))) (\<lambda>x.
     give (Reply 201 x)))))))))"

definition invalid_revision :: "nat \<Rightarrow> string \<Rightarrow> ApiError" where
  "invalid_revision status m = ApiError status m (Some ''invalid_revision'')"

definition run_revision :: "RunAction \<Rightarrow> jobj \<Rightarrow> Deployment \<Rightarrow> ApiError + uuid" where
  "run_revision action b target =
     bind_ok (if action = StopRun then Inr (Deployment_currentRevisionId target)
              else bind_ok (stringField b ''revisionId'' 36 36) (\<lambda>v. Inr (Some v))) (\<lambda>chosen.
     (case chosen of
        Some i \<Rightarrow>
          if UUID_PATTERN i \<and> list_ex (\<lambda>v. Revision_id v = i) (Deployment_revisions target)
          then (if action = Rollback \<and> Some i = Deployment_currentRevisionId target
                then Inl (invalid_revision 409 ''Rollback requires an older revision.'') else Inr i)
          else Inl (invalid_revision 400 ''A revision belonging to this deployment is required.'')
      | None \<Rightarrow> Inl (invalid_revision 400 ''A revision belonging to this deployment is required.'')))"

definition queueDeploymentRun :: "api \<Rightarrow> RunAction \<Rightarrow> http_in \<Rightarrow> User \<Rightarrow> DeploymentRun reply handler" where
  "queueDeploymentRun e action r u =
     chain (pure (idParameter (in_id r))) (\<lambda>i.
     chain (find_deployment i) (\<lambda>target.
     chain (require (Deployment_projectName target \<notin> set (env_protected e)) project_protected) (\<lambda>_.
     chain (pure (optional_body (in_body r))) (\<lambda>b.
     chain (pure (exactKeys b [''revisionId''])) (\<lambda>_.
     chain (pure (run_revision action b target)) (\<lambda>revisionId.
     chain (writes (createDeploymentRun (env_gen e) (env_now e) i revisionId action (User_id u))) (\<lambda>created.
     chain (accepted created (ApiError 409 ''A deployment run is already active.'' (Some ''deployment_active''))
       (ApiError 409 ''The deployment or assigned agent is unavailable.'' (Some ''deployment_unavailable''))) (\<lambda>x.
     give (Reply 202 x)))))))))"

definition get_deployment_run :: "http_in \<Rightarrow> DeploymentRun reply handler" where
  "get_deployment_run r =
     chain (pure (idParameter (in_id r))) (\<lambda>i.
     chain (reads (getDeploymentRun i)) (\<lambda>found.
     chain (the_or found (ApiError 404 ''Deployment run not found.'' (Some ''deployment_run_not_found''))) (\<lambda>x.
     give (Reply 200 x))))"

end
