(* ===== verification/Gw_Views.thy ===== *)
theory Gw_Views
  imports Gw_AgentApi Gw_CfClient
begin

text \<open>
  The JSON of the interfaces that a guided operation stores in its result. Time stamps are rendered
  as ISO texts.
\<close>

definition time_json :: "api \<Rightarrow> time \<Rightarrow> json" where
  "time_json e t = JStr (env_iso8601 e t)"

definition time_or_null :: "api \<Rightarrow> time option \<Rightarrow> json" where
  "time_or_null e t = (case t of None \<Rightarrow> JNull | Some v \<Rightarrow> time_json e v)"

definition identity_status_text :: "IdentityStatus \<Rightarrow> string" where
  "identity_status_text s = (case s of IParsed \<Rightarrow> ''parsed'' | IPending \<Rightarrow> ''pending'' | IVerified \<Rightarrow> ''verified'' | IUnmatched \<Rightarrow> ''unmatched''
     | IMismatch \<Rightarrow> ''mismatch'' | IInvalid \<Rightarrow> ''invalid'' | IFailed \<Rightarrow> ''failed'')"

definition connector_deployment_text :: "ConnectorDeploymentStatus \<Rightarrow> string" where
  "connector_deployment_text s = (case s of KPending \<Rightarrow> ''pending'' | KDeploying \<Rightarrow> ''deploying'' | KActive \<Rightarrow> ''active''
     | KFailed \<Rightarrow> ''failed'' | KStopping \<Rightarrow> ''stopping'' | KStopped \<Rightarrow> ''stopped'')"

definition connector_runtime_text :: "ConnectorRuntimeStatus \<Rightarrow> string" where
  "connector_runtime_text s = (case s of RtUnknown \<Rightarrow> ''unknown'' | RtConnected \<Rightarrow> ''connected'' | RtOriginUnhealthy \<Rightarrow> ''origin_unhealthy''
     | RtReconnecting \<Rightarrow> ''reconnecting'' | RtStopped \<Rightarrow> ''stopped'' | RtFailed \<Rightarrow> ''failed'')"

definition connector_json :: "api \<Rightarrow> Connector \<Rightarrow> json" where
  "connector_json e k = JObj
     [(''id'', JStr (Connector_id k)), (''agentId'', JStr (Connector_agentId k)), (''name'', JStr (Connector_name k)),
      (''enabled'', JBool (Connector_enabled k)), (''cloudflareAccountId'', nullable (Connector_cloudflareAccountId k)),
      (''tunnelId'', nullable (Connector_tunnelId k)), (''desiredRevision'', JNum (Connector_desiredRevision k)),
      (''tokenAccountIdentifier'', nullable (Connector_tokenAccountIdentifier k)), (''tokenTunnelId'', nullable (Connector_tokenTunnelId k)),
      (''identityStatus'', JStr (identity_status_text (Connector_identityStatus k))),
      (''identityVerifiedAt'', time_or_null e (Connector_identityVerifiedAt k)), (''identityError'', nullable (Connector_identityError k)),
      (''deploymentStatus'', JStr (connector_deployment_text (Connector_deploymentStatus k))),
      (''runtimeStatus'', JStr (connector_runtime_text (Connector_runtimeStatus k))), (''lastError'', nullable (Connector_lastError k)),
      (''lastDeployedAt'', time_or_null e (Connector_lastDeployedAt k)), (''lastObservedAt'', time_or_null e (Connector_lastObservedAt k)),
      (''createdAt'', time_json e (Connector_createdAt k)), (''updatedAt'', time_json e (Connector_updatedAt k))]"

definition account_json :: "api \<Rightarrow> CloudflareAccount \<Rightarrow> json" where
  "account_json e a = JObj
     [(''id'', JStr (CloudflareAccount_id a)), (''name'', JStr (CloudflareAccount_name a)),
      (''accountIdentifier'', JStr (CloudflareAccount_accountIdentifier a)), (''configured'', JBool (CloudflareAccount_configured a)),
      (''enabled'', JBool (CloudflareAccount_enabled a)), (''lastSyncedAt'', time_or_null e (CloudflareAccount_lastSyncedAt a)),
      (''lastErrorAt'', time_or_null e (CloudflareAccount_lastErrorAt a)), (''lastError'', nullable (CloudflareAccount_lastError a)),
      (''createdAt'', time_json e (CloudflareAccount_createdAt a)), (''updatedAt'', time_json e (CloudflareAccount_updatedAt a))]"

definition deployment_status_text :: "DeploymentStatus \<Rightarrow> string" where
  "deployment_status_text s = (case s of DepPending \<Rightarrow> ''pending'' | DepActive \<Rightarrow> ''active'' | DepFailed \<Rightarrow> ''failed'')"

definition route_json :: "api \<Rightarrow> ManagedRoute \<Rightarrow> json" where
  "route_json e r = JObj
     [(''id'', JStr (ManagedRoute_id r)), (''gatewayAgentId'', JStr (ManagedRoute_gatewayAgentId r)), (''name'', JStr (ManagedRoute_name r)),
      (''hostname'', JStr (ManagedRoute_hostname r)), (''exposure'', JStr (exposure_text (ManagedRoute_exposure r))),
      (''backends'', JArr (map JStr (ManagedRoute_backends r))), (''enabled'', JBool (ManagedRoute_enabled r)),
      (''revision'', JNum (ManagedRoute_revision r)), (''status'', JStr (deployment_status_text (ManagedRoute_status r))),
      (''createdAt'', time_json e (ManagedRoute_createdAt r)), (''updatedAt'', time_json e (ManagedRoute_updatedAt r))]"

definition access_method_text :: "AccessMethod \<Rightarrow> string" where
  "access_method_text m = (case m of Tunnel \<Rightarrow> ''tunnel'' | PublicIp \<Rightarrow> ''public_ip'')"

definition record_status_text :: "RecordStatus \<Rightarrow> string" where
  "record_status_text s = (case s of RecActive \<Rightarrow> ''active'' | RecCleanupPending \<Rightarrow> ''cleanup_pending'' | RecDeleted \<Rightarrow> ''deleted'')"

definition domain_status_text :: "DomainStatus \<Rightarrow> string" where
  "domain_status_text s = (case s of DomPending \<Rightarrow> ''pending'' | DomActive \<Rightarrow> ''active'' | DomFailed \<Rightarrow> ''failed'' | DomDisabled \<Rightarrow> ''disabled'')"

definition tls_status_text :: "TlsStatus \<Rightarrow> string" where
  "tls_status_text s = (case s of TlsNotObserved \<Rightarrow> ''not_observed'' | TlsValid \<Rightarrow> ''valid'' | TlsExpiring \<Rightarrow> ''expiring''
     | TlsExpired \<Rightarrow> ''expired'' | TlsError \<Rightarrow> ''error'')"

definition owned_record_json :: "DomainAccessDnsRecord \<Rightarrow> json" where
  "owned_record_json r = JObj
     [(''type'', JStr (type_text (DnsRecord_type r))), (''content'', JStr (DnsRecord_content r)),
      (''cloudflareRecordId'', JStr (DnsRecord_cloudflareRecordId r)), (''ownershipMarker'', JStr (DnsRecord_ownershipMarker r)),
      (''status'', JStr (record_status_text (DnsRecord_status r))), (''lastError'', nullable (DnsRecord_lastError r))]"

definition domain_access_json :: "api \<Rightarrow> CloudflareDomainAccess \<Rightarrow> json" where
  "domain_access_json e a = JObj
     [(''id'', JStr (DomainAccess_id a)), (''cloudflareZoneId'', JStr (DomainAccess_cloudflareZoneId a)),
      (''cloudflareAccountId'', JStr (DomainAccess_cloudflareAccountId a)), (''connectorId'', nullable (DomainAccess_connectorId a)),
      (''routeId'', JStr (DomainAccess_routeId a)), (''hostname'', JStr (DomainAccess_hostname a)),
      (''accessMethod'', JStr (access_method_text (DomainAccess_accessMethod a))),
      (''publicIpv4'', JArr (map JStr (DomainAccess_publicIpv4 a))), (''publicIpv6'', JArr (map JStr (DomainAccess_publicIpv6 a))),
      (''ownedDnsRecords'', JArr (map owned_record_json (DomainAccess_ownedDnsRecords a))),
      (''dnsRecordId'', nullable (DomainAccess_dnsRecordId a)), (''enabled'', JBool (DomainAccess_enabled a)),
      (''revision'', JNum (DomainAccess_revision a)), (''proxied'', JBool (DomainAccess_proxied a)),
      (''status'', JStr (domain_status_text (DomainAccess_status a))), (''lastError'', nullable (DomainAccess_lastError a)),
      (''lastReconciledAt'', time_or_null e (DomainAccess_lastReconciledAt a)),
      (''tlsStatus'', JStr (tls_status_text (DomainAccess_tlsStatus a))), (''tlsIssuer'', nullable (DomainAccess_tlsIssuer a)),
      (''tlsValidTo'', time_or_null e (DomainAccess_tlsValidTo a)), (''tlsObservedAt'', time_or_null e (DomainAccess_tlsObservedAt a)),
      (''tlsError'', nullable (DomainAccess_tlsError a)), (''createdAt'', time_json e (DomainAccess_createdAt a)),
      (''updatedAt'', time_json e (DomainAccess_updatedAt a))]"

end
