(* ===== verification/Gw_Guided.thy ===== *)
theory Gw_Guided
  imports Gw_Resources Gw_Public Gw_Views
begin

text \<open>
  The guided operations of app.ts: the bootstrap of a Cloudflare account with a managed tunnel, and
  the publication of a host name. Each is stored under an idempotency key and resumed by a later
  request. The variable that holds the operation outlives an exception, so the code that uses it
  is a job over it. The lock of \<open>withGuidedOperationLock\<close> is not modelled. An update of an operation that is
  gone, which nothing deletes, throws at once instead of at the next use of the variable.
\<close>

section \<open>The operation as a variable\<close>

definition no_update :: GuidedUpdate where
  "no_update = \<lparr>GuidedUpdate_status = None, GuidedUpdate_stage = None, GuidedUpdate_accountId = None, GuidedUpdate_connectorId = None,
     GuidedUpdate_routeId = None, GuidedUpdate_domainAccessId = None, GuidedUpdate_remoteTunnelId = None,
     GuidedUpdate_remoteTunnelName = None, GuidedUpdate_result = None, GuidedUpdate_error = None,
     GuidedUpdate_clearEncryptedRequest = False, GuidedUpdate_verificationDeadlineAt = None,
     GuidedUpdate_incrementVerificationAttempts = False\<rparr>"

definition set_operation :: "api \<Rightarrow> uuid \<Rightarrow> GuidedUpdate \<Rightarrow> GuidedOperation handler" where
  "set_operation e i v =
     chain (writes (updateGuidedOperation (env_now e) i v)) (\<lambda>updated.
     (case updated of None \<Rightarrow> throw (Thrown ''Cannot read properties of null'') | Some g \<Rightarrow> give g))"

definition current :: "('s, 's) job" where
  "current s w = (Inr s, s, w)"

text \<open>\<open>operation = (await options.store.updateGuidedOperation(operation.id, ..))!\<close>\<close>

definition update_operation :: "api \<Rightarrow> GuidedUpdate \<Rightarrow> (GuidedOperation, GuidedOperation) job" where
  "update_operation e v =
     jchain current (\<lambda>g.
     jchain (lift (set_operation e (Guided_id g) v)) (\<lambda>g'.
     jchain (assign (\<lambda>_. g')) (\<lambda>_. lift (give g'))))"

definition idempotency_conflict :: ApiError where
  "idempotency_conflict = ApiError 409 ''The idempotency key was already used for a different request.'' (Some ''idempotency_conflict'')"

definition request_hash :: "api \<Rightarrow> jobj \<Rightarrow> string" where
  "request_hash e b = requestHash (Gw_AgentApi.sha256_hex e) JSON_stringify b"

definition persist_operation :: "api \<Rightarrow> GuidedKind \<Rightarrow> string \<Rightarrow> uuid \<Rightarrow> jobj \<Rightarrow> (GuidedOperation \<times> bool) handler" where
  "persist_operation e kind key userId b =
     chain (writes (createOrGetGuidedOperation (env_gen e) (env_now e) kind key userId (request_hash e b)
       (seal_secret e 0 (JSON_stringify (JObj b))))) (\<lambda>(g, created).
     chain (require (Guided_requestHash g = request_hash e b) idempotency_conflict) (\<lambda>_.
     give (g, created)))"

section \<open>Bootstrap of an account\<close>

record bootstrap =
  boot_name :: string
  boot_accountIdentifier :: string
  boot_apiToken :: string
  boot_agentId :: uuid
  boot_connectorName :: string

definition find_account :: "uuid \<Rightarrow> CloudflareAccount option handler" where
  "find_account i = reads (\<lambda>d. find (\<lambda>a. CloudflareAccount_id a = i) (listCloudflareAccounts d))"

definition find_connector :: "uuid \<Rightarrow> Connector option handler" where
  "find_connector i = reads (\<lambda>d. find (\<lambda>k. Connector_id k = i) (listConnectors d))"

definition looked_up :: "('k \<Rightarrow> 'a option handler) \<Rightarrow> 'k option \<Rightarrow> 'a option handler" where
  "looked_up f k = (case k of None \<Rightarrow> give None | Some i \<Rightarrow> f i)"

definition boot_account :: "api \<Rightarrow> jobj \<Rightarrow> bootstrap \<Rightarrow> (GuidedOperation, CloudflareAccount) job" where
  "boot_account e b s =
     jchain current (\<lambda>g.
     jchain (lift (looked_up find_account (Guided_cloudflareAccountId g))) (\<lambda>found.
     (case found of
        Some a \<Rightarrow> lift (give a)
      | None \<Rightarrow>
          jchain (lift (pure (optionalBoolean b ''enabled''))) (\<lambda>enabled.
          jchain (lift (tries (createCloudflareAccount (env_gen e) (env_now e) (boot_name s) (boot_accountIdentifier s)
            (seal_secret e 1 (boot_apiToken s)) (or_true enabled)))) (\<lambda>a.
          jchain (update_operation e (no_update\<lparr>GuidedUpdate_accountId := Some (CloudflareAccount_id a),
            GuidedUpdate_stage := Some ''account_created'', GuidedUpdate_error := Some None\<rparr>)) (\<lambda>_.
          lift (give a)))))))"

definition boot_tunnel_name :: "api \<Rightarrow> bootstrap \<Rightarrow> (GuidedOperation, string) job" where
  "boot_tunnel_name e s =
     jchain current (\<lambda>g.
     (case Guided_remoteTunnelName g of
        Some n \<Rightarrow>
          if n = [] then jchain (update_operation e (no_update\<lparr>GuidedUpdate_remoteTunnelName := Some n, GuidedUpdate_stage := Some ''zones_synced''\<rparr>))
                 (\<lambda>_. lift (give n))
          else lift (give n)
      | None \<Rightarrow>
          let n = boot_connectorName s @ ''-'' @ take 8 (Guided_id g) in
          jchain (update_operation e (no_update\<lparr>GuidedUpdate_remoteTunnelName := Some n, GuidedUpdate_stage := Some ''zones_synced''\<rparr>)) (\<lambda>_.
          lift (give n))))"

definition tunnel_created :: "string \<Rightarrow> GuidedUpdate" where
  "tunnel_created tunnelId = no_update\<lparr>GuidedUpdate_remoteTunnelId := Some tunnelId, GuidedUpdate_stage := Some ''tunnel_created''\<rparr>"

definition boot_tunnel :: "api \<Rightarrow> cf_client \<Rightarrow> bootstrap \<Rightarrow> string \<Rightarrow> (GuidedOperation, string \<times> string) job" where
  "boot_tunnel e c s tunnelName =
     jchain current (\<lambda>g.
     jchain (case submitted (Guided_remoteTunnelId g) of
               Some t \<Rightarrow> lift (give (Some t))
             | None \<Rightarrow> lift (findActiveTunnelByName c (boot_accountIdentifier s) (tunnel_name tunnelName))) (\<lambda>existing.
     jchain (case existing of
               Some t \<Rightarrow> lift (give t)
             | None \<Rightarrow>
                 jchain (lift (createRemotelyManagedTunnel c (env_random e 32) (boot_accountIdentifier s) tunnelName)) (\<lambda>t.
                 jchain (update_operation e (tunnel_created t)) (\<lambda>_. lift (give t)))) (\<lambda>tunnelId.
     jchain (lift (getTunnelToken c (boot_accountIdentifier s) tunnelId)) (\<lambda>connectorToken.
     jchain (update_operation e (tunnel_created tunnelId)) (\<lambda>_.
     lift (give (tunnelId, connectorToken)))))))"

definition boot_connector :: "api \<Rightarrow> bootstrap \<Rightarrow> CloudflareAccount \<Rightarrow> string \<Rightarrow> string \<Rightarrow> (GuidedOperation, Connector) job" where
  "boot_connector e s account tunnelId connectorToken =
     jchain current (\<lambda>g.
     jchain (lift (looked_up find_connector (Guided_connectorId g))) (\<lambda>found.
     (case found of
        Some k \<Rightarrow> lift (give k)
      | None \<Rightarrow>
          jchain (lift (connectorIdentityForCreation e connectorToken (Some (CloudflareAccount_id account)) (Some tunnelId))) (\<lambda>identity.
          jchain (lift (require (creation_status identity = IVerified)
            (identity_unverified ''The created tunnel token could not be verified.''))) (\<lambda>_.
          jchain (lift (create_connector e 2 (boot_connectorName s) connectorToken True (boot_agentId s) identity)) (\<lambda>created.
          jchain (lift (the_or created (connector_target_unavailable ''The selected Agent became unavailable.''))) (\<lambda>k.
          jchain (update_operation e (no_update\<lparr>GuidedUpdate_connectorId := Some (Connector_id k),
            GuidedUpdate_stage := Some ''connector_queued''\<rparr>)) (\<lambda>_.
          lift (give k)))))))))"

definition bootstrap_result :: "api \<Rightarrow> CloudflareAccount \<Rightarrow> nat \<Rightarrow> string \<Rightarrow> string \<Rightarrow> Connector \<Rightarrow> jobj" where
  "bootstrap_result e account zoneCount tunnelId tunnelName k =
     [(''account'', account_json e account), (''zoneCount'', JNum (int zoneCount)),
      (''tunnel'', JObj [(''id'', JStr tunnelId), (''name'', JStr tunnelName)]), (''connector'', connector_json e k)]"

type_synonym guided_answer = "PublicGuidedOperation \<times> jobj option"

definition run_bootstrap :: "api \<Rightarrow> jobj \<Rightarrow> bootstrap \<Rightarrow> bool \<Rightarrow> (GuidedOperation, guided_answer reply) job" where
  "run_bootstrap e b s created =
     (let c = \<lparr>cf_token = boot_apiToken s, cf_fed = False\<rparr> in
      jchain (lift (verifyToken c)) (\<lambda>_.
      jchain (lift (listZones c (boot_accountIdentifier s))) (\<lambda>found.
      jchain (boot_account e b s) (\<lambda>account.
      jchain (lift (tries (syncCloudflareZones (env_gen e) (env_now e) (CloudflareAccount_id account) (zone_entries found) None))) (\<lambda>stored.
      jchain (lift (the_or stored (ApiError 409 ''The Cloudflare account could not be synchronized.'' (Some ''cloudflare_account_unavailable'')))) (\<lambda>zs.
      jchain (boot_tunnel_name e s) (\<lambda>tunnelName.
      jchain (boot_tunnel e c s tunnelName) (\<lambda>(tunnelId, connectorToken).
      jchain (boot_connector e s account tunnelId connectorToken) (\<lambda>k.
      let result = bootstrap_result e account (length zs) tunnelId tunnelName k in
      jchain (update_operation e (no_update\<lparr>GuidedUpdate_status := Some GSucceeded, GuidedUpdate_stage := Some ''complete'',
        GuidedUpdate_result := Some result, GuidedUpdate_error := Some None, GuidedUpdate_clearEncryptedRequest := True\<rparr>)) (\<lambda>g.
      lift (give (Reply (if created then 201 else 200) (publicGuidedOperation g, Some result)))))))))))))"

definition bootstrap_failed :: "api \<Rightarrow> failure \<Rightarrow> GuidedOperation \<Rightarrow> 'a handler" where
  "bootstrap_failed e x g =
     chain (writes (updateGuidedOperation (env_now e) (Guided_id g) (no_update\<lparr>GuidedUpdate_status := Some GFailed,
       GuidedUpdate_stage := Some (Guided_stage g),
       GuidedUpdate_error := Some (Some (case x of Api a \<Rightarrow> err_message a | _ \<Rightarrow> safeCloudflareError x))\<rparr>))) (\<lambda>_.
     throw (case x of
        Cloudflare c \<Rightarrow> Api (ApiError (if cf_status c = 403 then 403 else 502) (cf_message c) (Some ''cloudflare_bootstrap_failed''))
      | _ \<Rightarrow> x))"

definition bootstrap_fields :: "jobj \<Rightarrow> ApiError + bootstrap" where
  "bootstrap_fields b =
     bind_ok (stringField b ''name'' 1 120) (\<lambda>name.
     bind_ok (cloudflareIdentifier b ''accountIdentifier'') (\<lambda>accountIdentifier.
     bind_ok (opaqueStringField b ''apiToken'' 20 4096) (\<lambda>apiToken.
     bind_ok (optionalUuid b ''agentId'') (\<lambda>agentId.
     bind_ok (stringField b ''connectorName'' 1 120) (\<lambda>connectorName.
     (case agentId of
        None \<Rightarrow> Inl (invalid_payload ''agentId is required when creating a managed tunnel.'')
      | Some a \<Rightarrow> Inr \<lparr>boot_name = name, boot_accountIdentifier = lower accountIdentifier, boot_apiToken = apiToken, boot_agentId = a,
          boot_connectorName = connectorName\<rparr>))))))"

definition ready_agent :: "api \<Rightarrow> uuid \<Rightarrow> ApiError \<Rightarrow> unit handler" where
  "ready_agent e i err =
     chain (reads (listAgents (env_date_now e))) (\<lambda>known.
     require (list_ex (\<lambda>a. Agent_id a = i \<and> Agent_enabled a \<and> Agent_enrolledAt a \<noteq> None) known) err)"

definition post_managed_account :: "api \<Rightarrow> http_in \<Rightarrow> User \<Rightarrow> jobj \<Rightarrow> guided_answer reply handler" where
  "post_managed_account e r u b =
     chain (pure (bootstrap_fields b)) (\<lambda>s.
     chain (ready_agent e (boot_agentId s) (connector_target_unavailable ''An enabled, enrolled agent is required.'')) (\<lambda>_.
     chain (pure (idempotencyKey (in_key r))) (\<lambda>key.
     chain (persist_operation e CloudflareBootstrap key (User_id u) b) (\<lambda>(g, created).
     if Guided_status g = GSucceeded then give (Reply 200 (publicGuidedOperation g, Guided_result g))
     else jattempt (run_bootstrap e b s created) g (bootstrap_failed e)))))"

text \<open>\<open>POST /api/cloudflare/accounts\<close>: the answer is an account, or the guided operation.\<close>

datatype account_answer = NewAccount CloudflareAccount | GuidedAccount guided_answer

definition map_reply :: "('a \<Rightarrow> 'b) \<Rightarrow> 'a reply \<Rightarrow> 'b reply" where
  "map_reply f p = Reply (reply_status p) (f (reply_body p))"

definition post_account :: "api \<Rightarrow> http_in \<Rightarrow> User \<Rightarrow> account_answer reply handler" where
  "post_account e r u =
     chain (pure (objectBody (in_body r))) (\<lambda>b.
     chain (pure (exactKeys b [''name'', ''accountIdentifier'', ''apiToken'', ''enabled'', ''createManagedTunnel'', ''agentId'', ''connectorName''])) (\<lambda>_.
     chain (pure (optionalBoolean b ''createManagedTunnel'')) (\<lambda>managed.
     if managed = Some True then chain (post_managed_account e r u b) (\<lambda>p. give (map_reply GuidedAccount p))
     else chain (create_account e b) (\<lambda>p. give (map_reply NewAccount p)))))"

end
