(* ===== verification/Gw_Access.thy ===== *)
theory Gw_Access
  imports Gw_Guided
begin

text \<open>
  Publishing host names: the guided publication and its continuation, domain access with its older
  name \<open>public-hostnames\<close>, and the two periodic passes that observe certificates.
\<close>

section \<open>Lookups\<close>

definition access_method_of :: "string \<Rightarrow> AccessMethod option" where
  "access_method_of s = (if s = ''tunnel'' then Some Tunnel else if s = ''public_ip'' then Some PublicIp else None)"

definition find_access :: "uuid \<Rightarrow> CloudflareDomainAccess option handler" where
  "find_access i = reads (\<lambda>d. find (\<lambda>a. DomainAccess_id a = i) (listCloudflareDomainAccess d))"

definition active_zone :: "uuid \<Rightarrow> uuid \<Rightarrow> CloudflareZone option handler" where
  "active_zone accountId zoneId =
     reads (\<lambda>d. case listCloudflareZones accountId d of
        None \<Rightarrow> None
      | Some zs \<Rightarrow> find (\<lambda>z. CloudflareZone_id z = zoneId \<and> CloudflareZone_status z = ''active'') zs)"

definition same_text :: "string option \<Rightarrow> string option \<Rightarrow> bool" where
  "same_text a b \<longleftrightarrow> map_option lower a = map_option lower b"

text \<open>The connector of a tunnel fits the account and the route.\<close>

definition connector_fits :: "CloudflareAccount \<Rightarrow> ManagedRoute \<Rightarrow> Connector \<Rightarrow> bool" where
  "connector_fits account rt k \<longleftrightarrow>
     Connector_enabled k \<and> Connector_identityStatus k = IVerified \<and> Connector_agentId k = ManagedRoute_gatewayAgentId rt
     \<and> Connector_cloudflareAccountId k = Some (CloudflareAccount_id account)
     \<and> same_text (Connector_tokenAccountIdentifier k) (Some (CloudflareAccount_accountIdentifier account))
     \<and> same_text (Connector_tunnelId k) (Connector_tokenTunnelId k)"

section \<open>Continuing a guided publication\<close>

datatype publish_answer =
    PublishDone "jobj option"
  | PublishVerifying "CloudflareDomainAccess option"
  | PublishWaiting ManagedRoute
  | PublishReconciled ManagedRoute CloudflareDomainAccess

type_synonym publish_reply = "(PublicGuidedOperation \<times> publish_answer) reply"

definition publish_not_found :: ApiError where
  "publish_not_found = ApiError 404 ''Guided publish operation not found.'' (Some ''publish_operation_not_found'')"

definition route_invalid :: "string \<Rightarrow> ApiError" where
  "route_invalid m = ApiError 409 m (Some ''domain_access_route_invalid'')"

definition invalid_access :: "string \<Rightarrow> ApiError" where
  "invalid_access m = ApiError 400 m (Some ''invalid_access_configuration'')"

text \<open>The request that was stored with the operation.\<close>

definition stored_request :: "api \<Rightarrow> GuidedOperation \<Rightarrow> jobj handler" where
  "stored_request e g =
     (case submitted (Guided_encryptedRequest g) of
        None \<Rightarrow> throw (Api (ApiError 409 ''Guided publish operation cannot be resumed.'' (Some ''publish_operation_unavailable'')))
      | Some sealed \<Rightarrow>
          chain (opened e sealed) (\<lambda>text.
          (case JSON_parse text of Some (JObj b) \<Rightarrow> give b | _ \<Rightarrow> throw (Thrown ''Unexpected token''))))"

record publication =
  pub_accountId :: uuid
  pub_zoneId :: uuid
  pub_accessMethod :: AccessMethod
  pub_connectorId :: "uuid option"
  pub_publicIpv4 :: "string list"
  pub_publicIpv6 :: "string list"

definition zone_invalid :: "string \<Rightarrow> ApiError" where
  "zone_invalid m = ApiError 409 m (Some ''cloudflare_zone_invalid'')"

text \<open>
  What the stored request says. It was normalised before it was stored, so the two identifiers are
  there and the access method is one of the two.
\<close>

definition publication_of :: "jobj \<Rightarrow> ApiError + publication" where
  "publication_of b =
     bind_ok (optionalUuid b ''accountId'') (\<lambda>accountId.
     bind_ok (optionalUuid b ''zoneId'') (\<lambda>zoneId.
     bind_ok (stringField b ''accessMethod'' 1 255) (\<lambda>accessMethod.
     bind_ok (optionalUuid b ''connectorId'') (\<lambda>connectorId.
     bind_ok (publicIpArray b ''publicIpv4'' 4) (\<lambda>publicIpv4.
     bind_ok (publicIpArray b ''publicIpv6'' 6) (\<lambda>publicIpv6.
     (case (accountId, zoneId, access_method_of accessMethod) of
        (Some a, Some z, Some m) \<Rightarrow>
          Inr \<lparr>pub_accountId = a, pub_zoneId = z, pub_accessMethod = m, pub_connectorId = connectorId,
               pub_publicIpv4 = publicIpv4, pub_publicIpv6 = publicIpv6\<rparr>
      | _ \<Rightarrow> Inl (zone_invalid ''The selected account or zone is no longer valid.''))))))))"

definition check_publication :: "publication \<Rightarrow> ManagedRoute \<Rightarrow> unit handler" where
  "check_publication p rt =
     chain (find_account (pub_accountId p)) (\<lambda>found.
     chain (active_zone (pub_accountId p) (pub_zoneId p)) (\<lambda>zone.
     (case (found, zone) of
        (Some account, Some z) \<Rightarrow>
          if \<not> CloudflareAccount_enabled account \<or> \<not> hostnameWithinZone (ManagedRoute_hostname rt) (CloudflareZone_name z)
          then throw (Api (zone_invalid ''The selected account or zone is no longer valid.''))
          else chain (looked_up find_connector (pub_connectorId p)) (\<lambda>connector.
            chain (require (pub_accessMethod p \<noteq> Tunnel \<or> (case connector of None \<Rightarrow> False | Some k \<Rightarrow> connector_fits account rt k))
              (ApiError 409 ''The tunnel topology is no longer valid.'' (Some ''tunnel_topology_mismatch''))) (\<lambda>_.
            require (pub_accessMethod p \<noteq> PublicIp \<or> pub_publicIpv4 p @ pub_publicIpv6 p \<noteq> [])
              (invalid_access ''At least one public IP is required.'')))
      | _ \<Rightarrow> throw (Api (zone_invalid ''The selected account or zone is no longer valid.'')))))"

definition pending_access :: "api \<Rightarrow> publication \<Rightarrow> ManagedRoute \<Rightarrow> (GuidedOperation, CloudflareDomainAccess) job" where
  "pending_access e p rt =
     jchain current (\<lambda>g.
     jchain (lift (looked_up find_access (submitted (Guided_domainAccessId g)))) (\<lambda>found.
     (case found of
        Some a \<Rightarrow> lift (give a)
      | None \<Rightarrow>
          jchain (lift (tries (createPendingDomainAccess (env_gen e) (env_now e) (pub_accountId p) (pub_zoneId p) (ManagedRoute_id rt)
            (pub_accessMethod p) (pub_connectorId p) (pub_publicIpv4 p) (pub_publicIpv6 p) (pub_accessMethod p = Tunnel)))) (\<lambda>created.
          jchain (lift (the_or created (ApiError 409 ''Domain access relationships changed or are already managed.'' (Some ''domain_access_invalid'')))) (\<lambda>a.
          jchain (update_operation e (no_update\<lparr>GuidedUpdate_domainAccessId := Some (DomainAccess_id a), GuidedUpdate_status := Some GPending,
            GuidedUpdate_stage := Some ''domain_access_created''\<rparr>)) (\<lambda>_.
          lift (give a)))))))"

definition verification_deadline :: "api \<Rightarrow> options \<Rightarrow> time" where
  "verification_deadline e o' = env_date_now e + coalesce (opt_guidedVerificationTimeoutMs o') (15 * 60000)"

definition run_publish :: "api \<Rightarrow> options \<Rightarrow> jobj \<Rightarrow> ManagedRoute \<Rightarrow> (GuidedOperation, publish_reply) job" where
  "run_publish e o' b rt =
     jchain (lift (pure (publication_of b))) (\<lambda>p.
     jchain (lift (check_publication p rt)) (\<lambda>_.
     jchain (pending_access e p rt) (\<lambda>a.
     jchain (lift (reconcileDomainAccess e (DomainAccess_id a) True)) (\<lambda>reconciled.
     jchain (update_operation e (no_update\<lparr>GuidedUpdate_status := Some GWaiting, GuidedUpdate_stage := Some ''pending_https_verification'',
       GuidedUpdate_error := Some None, GuidedUpdate_verificationDeadlineAt := Some (verification_deadline e o')\<rparr>)) (\<lambda>g.
     lift (give (Reply 202 (publicGuidedOperation g, PublishReconciled rt reconciled))))))))"

definition failure_message :: "options \<Rightarrow> failure \<Rightarrow> string" where
  "failure_message o' x =
     (case x of Api a \<Rightarrow> err_message a | Cloudflare c \<Rightarrow> cf_message c | Database p \<Rightarrow> opt_pg_message o' p | Thrown m \<Rightarrow> m
      | Recovery f \<Rightarrow> rec_message f | Errno c \<Rightarrow> c)"

definition publish_failed :: "api \<Rightarrow> options \<Rightarrow> failure \<Rightarrow> GuidedOperation \<Rightarrow> 'a handler" where
  "publish_failed e o' x g =
     chain (writes (updateGuidedOperation (env_now e) (Guided_id g)
       (no_update\<lparr>GuidedUpdate_status := Some GFailed, GuidedUpdate_error := Some (Some (take 500 (failure_message o' x)))\<rparr>))) (\<lambda>_.
     throw x)"

definition publish_route :: "api \<Rightarrow> options \<Rightarrow> GuidedOperation \<Rightarrow> jobj \<Rightarrow> ManagedRoute \<Rightarrow> publish_reply handler" where
  "publish_route e o' g b rt =
     (if ManagedRoute_status rt = DepPending
      then chain (set_operation e (Guided_id g) (no_update\<lparr>GuidedUpdate_status := Some GWaiting, GuidedUpdate_stage := Some ''waiting_for_route'',
        GuidedUpdate_error := Some None\<rparr>)) (\<lambda>g'.
        give (Reply 202 (publicGuidedOperation g', PublishWaiting rt)))
      else if ManagedRoute_status rt \<noteq> DepActive \<or> \<not> ManagedRoute_enabled rt
      then chain (set_operation e (Guided_id g) (no_update\<lparr>GuidedUpdate_status := Some GFailed, GuidedUpdate_stage := Some ''route_failed'',
        GuidedUpdate_error := Some (Some ''The Agent route probe or deployment failed.'')\<rparr>)) (\<lambda>_.
        throw (Api (route_invalid ''The Agent route probe or deployment failed.'')))
      else jattempt (run_publish e o' b rt) g (publish_failed e o'))"

definition continueGuidedPublish :: "api \<Rightarrow> options \<Rightarrow> uuid \<Rightarrow> uuid \<Rightarrow> publish_reply handler" where
  "continueGuidedPublish e o' operationId requestedByUserId =
     chain (reads (getGuidedOperation operationId)) (\<lambda>found.
     chain (the_or (case found of
         Some g \<Rightarrow> if Guided_kind g = DomainPublish \<and> Guided_requestedByUserId g = requestedByUserId then Some g else None
       | None \<Rightarrow> None) publish_not_found) (\<lambda>g.
     if Guided_status g = GSucceeded then give (Reply 200 (publicGuidedOperation g, PublishDone (Guided_result g)))
     else if Guided_stage g = ''pending_https_verification''
     then chain (looked_up find_access (submitted (Guided_domainAccessId g))) (\<lambda>a.
       give (Reply 202 (publicGuidedOperation g, PublishVerifying a)))
     else
       chain (stored_request e g) (\<lambda>b.
       chain (case submitted (Guided_routeId g) of Some i \<Rightarrow> reads (getRouteDeployment i) | None \<Rightarrow> give None) (\<lambda>rt'.
       chain (the_or rt' (route_invalid ''The guided route is unavailable.'')) (\<lambda>rt.
       publish_route e o' g b rt)))))"

section \<open>Starting a guided publication\<close>

record publish_request =
  want_accountId :: uuid
  want_zoneId :: uuid
  want_agentId :: uuid
  want_hostname :: string
  want_targetKind :: string
  want_backend :: string
  want_accessMethod :: AccessMethod

definition publish_target :: "options \<Rightarrow> jobj \<Rightarrow> ApiError + string \<times> string" where
  "publish_target o' b =
     bind_ok (stringField b ''targetKind'' 1 255) (\<lambda>kind.
       if kind \<notin> {''host_port'', ''url''} then Inl (ApiError 400 ''targetKind must be host_port or url.'' (Some ''invalid_publish_target''))
       else
         bind_ok (stringField b ''target'' 1 2048) (\<lambda>target.
         bind_ok (normalizePublishTarget (URL (opt_web o')) (kind = ''host_port'') target) (\<lambda>backend. Inr (kind, backend))))"

definition access_method_field :: "jobj \<Rightarrow> ApiError + AccessMethod" where
  "access_method_field b =
     bind_ok (stringField b ''accessMethod'' 1 255) (\<lambda>s.
       (case access_method_of s of
          Some m \<Rightarrow> Inr m
        | None \<Rightarrow> Inl (ApiError 400 ''accessMethod must be tunnel or public_ip.'' (Some ''invalid_access_method''))))"

definition publish_fields :: "options \<Rightarrow> jobj \<Rightarrow> ApiError + publish_request" where
  "publish_fields o' b =
     bind_ok (exactKeys b [''accountId'', ''zoneId'', ''hostname'', ''agentId'', ''targetKind'', ''target'', ''accessMethod'', ''connectorId'',
       ''publicIpv4'', ''publicIpv6'']) (\<lambda>_.
     bind_ok (optionalUuid b ''accountId'') (\<lambda>accountId.
     bind_ok (optionalUuid b ''zoneId'') (\<lambda>zoneId.
     bind_ok (optionalUuid b ''agentId'') (\<lambda>agentId.
     (case (accountId, zoneId, agentId) of
        (Some acc, Some z, Some a) \<Rightarrow>
          bind_ok (hostname_field b ''hostname'') (\<lambda>hostname.
          bind_ok (publish_target o' b) (\<lambda>(kind, backend).
          bind_ok (access_method_field b) (\<lambda>m.
          Inr \<lparr>want_accountId = acc, want_zoneId = z, want_agentId = a, want_hostname = hostname, want_targetKind = kind,
               want_backend = backend, want_accessMethod = m\<rparr>)))
      | _ \<Rightarrow> Inl (invalid_payload ''accountId, zoneId, and agentId are required.''))))))"

definition publish_addresses :: "jobj \<Rightarrow> AccessMethod \<Rightarrow> ApiError + uuid option \<times> string list \<times> string list" where
  "publish_addresses b m =
     bind_ok (optionalUuid b ''connectorId'') (\<lambda>connectorId.
     bind_ok (publicIpArray b ''publicIpv4'' 4) (\<lambda>publicIpv4.
     bind_ok (publicIpArray b ''publicIpv6'' 6) (\<lambda>publicIpv6.
       if m = Tunnel \<and> connectorId = None then Inl (invalid_access ''Tunnel publishing requires connectorId.'')
       else if m = PublicIp \<and> (connectorId \<noteq> None \<or> publicIpv4 @ publicIpv6 = [])
       then Inl (invalid_access ''Public publishing requires public IP addresses and no connector.'')
       else Inr (connectorId, publicIpv4, publicIpv6))))"

definition normalized_request :: "publish_request \<Rightarrow> uuid option \<Rightarrow> string list \<Rightarrow> string list \<Rightarrow> jobj" where
  "normalized_request q connectorId publicIpv4 publicIpv6 =
     [(''accountId'', JStr (want_accountId q)), (''zoneId'', JStr (want_zoneId q)), (''hostname'', JStr (want_hostname q)),
      (''agentId'', JStr (want_agentId q)), (''targetKind'', JStr (want_targetKind q)), (''target'', JStr (want_backend q)),
      (''accessMethod'', JStr (access_method_text (want_accessMethod q)))]
     @ entry ''connectorId'' (map_option JStr connectorId)
     @ [(''publicIpv4'', JArr (map JStr publicIpv4)), (''publicIpv6'', JArr (map JStr publicIpv6))]"

definition exposure_for :: "AccessMethod \<Rightarrow> Exposure" where
  "exposure_for m = (if m = Tunnel then ExpTunnel else ExpPublic)"

definition guided_route :: "api \<Rightarrow> publish_request \<Rightarrow> GuidedOperation \<Rightarrow> unit handler" where
  "guided_route e q g =
     (if submitted (Guided_routeId g) \<noteq> None then give ()
      else
        let routeName = ''publish-'' @ take 8 (Guided_id g) in
        chain (reads (\<lambda>d. find (\<lambda>x. ManagedRoute_name x = routeName \<and> ManagedRoute_gatewayAgentId x = want_agentId q
          \<and> ManagedRoute_hostname x = want_hostname q) (listRoutes d))) (\<lambda>found.
        chain (case found of
                 Some x \<Rightarrow> give (Some x)
               | None \<Rightarrow> tries (createRoute (env_gen e) (env_now e) (want_agentId q) routeName (want_hostname q)
                   (exposure_for (want_accessMethod q)) [want_backend q] True)) (\<lambda>rt'.
        chain (the_or rt' (route_invalid ''The Agent became unavailable or hostname already exists.'')) (\<lambda>rt.
        chain (set_operation e (Guided_id g) (no_update\<lparr>GuidedUpdate_routeId := Some (ManagedRoute_id rt), GuidedUpdate_status := Some GWaiting,
          GuidedUpdate_stage := Some ''waiting_for_route'', GuidedUpdate_error := Some None\<rparr>)) (\<lambda>_.
        give ())))))"

definition post_domain_publish :: "api \<Rightarrow> options \<Rightarrow> http_in \<Rightarrow> User \<Rightarrow> publish_reply handler" where
  "post_domain_publish e o' r u =
     chain (pure (objectBody (in_body r))) (\<lambda>b.
     chain (pure (publish_fields o' b)) (\<lambda>q.
     chain (reads (\<lambda>d. list_ex (\<lambda>a. Agent_id a = want_agentId q \<and> Agent_enabled a \<and> Agent_enrolledAt a \<noteq> None) (listAgents (env_date_now e) d))) (\<lambda>ready.
     chain (active_zone (want_accountId q) (want_zoneId q)) (\<lambda>zone.
     chain (require ready (ApiError 409 ''An enabled, enrolled Agent is required.'' (Some ''agent_unavailable''))) (\<lambda>_.
     chain (require (case zone of None \<Rightarrow> False | Some z \<Rightarrow> hostnameWithinZone (want_hostname q) (CloudflareZone_name z))
       (zone_invalid ''The hostname must belong to the selected active zone.'')) (\<lambda>_.
     chain (pure (publish_addresses b (want_accessMethod q))) (\<lambda>(connectorId, publicIpv4, publicIpv6).
     chain (pure (idempotencyKey (in_key r))) (\<lambda>key.
     chain (persist_operation e DomainPublish key (User_id u) (normalized_request q connectorId publicIpv4 publicIpv6)) (\<lambda>(g, _).
     chain (guided_route e q g) (\<lambda>_.
     continueGuidedPublish e o' (Guided_id g) (User_id u)))))))))))"

definition post_publish_reconcile :: "api \<Rightarrow> options \<Rightarrow> http_in \<Rightarrow> User \<Rightarrow> publish_reply handler" where
  "post_publish_reconcile e o' r u =
     chain (pure (idParameter (in_id r))) (\<lambda>i.
     continueGuidedPublish e o' i (User_id u))"

section \<open>Domain access\<close>

record access_request =
  acq_zoneId :: uuid
  acq_routeId :: uuid
  acq_accountId :: uuid
  acq_accessMethod :: AccessMethod
  acq_connectorId :: "uuid option"
  acq_publicIpv4 :: "string list"
  acq_publicIpv6 :: "string list"
  acq_proxied :: bool

definition access_keys :: "bool \<Rightarrow> string list" where
  "access_keys legacy = (if legacy then [''zoneId'', ''connectorId'', ''routeId'', ''proxied'']
     else [''accountId'', ''zoneId'', ''routeId'', ''accessMethod'', ''connectorId'', ''publicIpv4'', ''publicIpv6'', ''proxied''])"

definition required_uuid :: "jobj \<Rightarrow> string \<Rightarrow> ApiError + uuid" where
  "required_uuid b field =
     bind_ok (optionalUuid b field) (\<lambda>v.
     (case v of None \<Rightarrow> Inl (invalid_payload (field @ '' is required.'')) | Some i \<Rightarrow> Inr i))"

definition access_head :: "jobj \<Rightarrow> bool \<Rightarrow> ApiError + uuid \<times> uuid \<times> uuid option \<times> AccessMethod" where
  "access_head b legacy =
     bind_ok (exactKeys b (access_keys legacy)) (\<lambda>_.
     bind_ok (required_uuid b ''zoneId'') (\<lambda>zoneId.
     bind_ok (required_uuid b ''routeId'') (\<lambda>routeId.
     bind_ok (optionalUuid b ''connectorId'') (\<lambda>connectorId.
     bind_ok (if legacy then Inr Tunnel else access_method_field b) (\<lambda>m.
     Inr (zoneId, routeId, connectorId, m))))))"

definition access_account :: "jobj \<Rightarrow> bool \<Rightarrow> Connector option \<Rightarrow> ApiError + uuid" where
  "access_account b legacy chosen =
     bind_ok (if legacy then Inr (case chosen of None \<Rightarrow> None | Some k \<Rightarrow> Connector_cloudflareAccountId k)
              else optionalUuid b ''accountId'') (\<lambda>v.
     (case submitted v of None \<Rightarrow> Inl (invalid_payload ''accountId is required.'') | Some i \<Rightarrow> Inr i))"

definition access_addresses :: "jobj \<Rightarrow> bool \<Rightarrow> AccessMethod \<Rightarrow> uuid option \<Rightarrow> ApiError + string list \<times> string list \<times> bool" where
  "access_addresses b legacy m connectorId =
     bind_ok (if legacy then Inr [] else publicIpArray b ''publicIpv4'' 4) (\<lambda>publicIpv4.
     bind_ok (if legacy then Inr [] else publicIpArray b ''publicIpv6'' 6) (\<lambda>publicIpv6.
       if m = Tunnel \<and> (connectorId = None \<or> jprop b ''publicIpv4'' \<noteq> None \<or> jprop b ''publicIpv6'' \<noteq> None)
       then Inl (invalid_access ''Tunnel access requires connectorId and does not accept public IP addresses.'')
       else if m = PublicIp \<and> (connectorId \<noteq> None \<or> publicIpv4 @ publicIpv6 = [])
       then Inl (invalid_access ''Public IP access requires at least one IP address and does not accept connectorId.'')
       else
         bind_ok (optionalBoolean b ''proxied'') (\<lambda>p.
         let proxied = coalesce p (m = Tunnel)
         in if m = PublicIp \<and> proxied
            then Inl (ApiError 400 ''Public IP access requires DNS-only records until a trusted origin-certificate mode is configured.''
              (Some ''public_ip_proxied_unsupported''))
            else Inr (publicIpv4, publicIpv6, proxied))))"

definition access_request_of :: "jobj \<Rightarrow> bool \<Rightarrow> (access_request \<times> Connector option) handler" where
  "access_request_of b legacy =
     chain (pure (access_head b legacy)) (\<lambda>(zoneId, routeId, connectorId, m).
     chain (looked_up find_connector connectorId) (\<lambda>chosen.
     chain (pure (access_account b legacy chosen)) (\<lambda>accountId.
     chain (pure (access_addresses b legacy m connectorId)) (\<lambda>(publicIpv4, publicIpv6, proxied).
     give (\<lparr>acq_zoneId = zoneId, acq_routeId = routeId, acq_accountId = accountId, acq_accessMethod = m, acq_connectorId = connectorId,
            acq_publicIpv4 = publicIpv4, acq_publicIpv6 = publicIpv6, acq_proxied = proxied\<rparr>, chosen)))))"

definition account_unavailable :: ApiError where
  "account_unavailable = ApiError 409 ''The Cloudflare account is missing or disabled.'' (Some ''cloudflare_account_unavailable'')"

definition enabled_account :: "uuid \<Rightarrow> CloudflareAccount handler" where
  "enabled_account i =
     chain (find_account i) (\<lambda>found.
     the_or (case found of Some a \<Rightarrow> if CloudflareAccount_enabled a then Some a else None | None \<Rightarrow> None) account_unavailable)"

definition access_zone :: "uuid \<Rightarrow> uuid \<Rightarrow> CloudflareZone handler" where
  "access_zone accountId zoneId =
     chain (reads (\<lambda>d. case listCloudflareZones accountId d of None \<Rightarrow> None | Some zs \<Rightarrow> find (\<lambda>z. CloudflareZone_id z = zoneId) zs)) (\<lambda>found.
     the_or (case found of Some z \<Rightarrow> if CloudflareZone_status z = ''active'' then Some z else None | None \<Rightarrow> None)
       (zone_invalid ''The Cloudflare zone is not active or does not belong to the selected account.''))"

definition access_route :: "access_request \<Rightarrow> CloudflareZone \<Rightarrow> ManagedRoute handler" where
  "access_route q z =
     chain (reads (\<lambda>d. find (\<lambda>x. ManagedRoute_id x = acq_routeId q) (listRoutes d))) (\<lambda>found.
     the_or (case found of
         Some rt \<Rightarrow>
           if ManagedRoute_enabled rt \<and> ManagedRoute_status rt = DepActive \<and> ManagedRoute_exposure rt = exposure_for (acq_accessMethod q)
             \<and> hostnameWithinZone (ManagedRoute_hostname rt) (CloudflareZone_name z)
           then Some rt else None
       | None \<Rightarrow> None)
       (route_invalid ''The route must be active, enabled, match the access method, and have a hostname in the selected zone.''))"

definition already_managed :: "uuid \<Rightarrow> string \<Rightarrow> db \<Rightarrow> bool" where
  "already_managed routeId hostname d \<longleftrightarrow>
     list_ex (\<lambda>a. DomainAccess_routeId a = routeId \<or> lower (DomainAccess_hostname a) = lower hostname) (listCloudflareDomainAccess d)"

definition topology_mismatch :: ApiError where
  "topology_mismatch = ApiError 409 ''The tunnel connector must have a verified identity, use the same account, and be assigned to the route agent.''
     (Some ''tunnel_topology_mismatch'')"

definition usable_connector :: "CloudflareAccount \<Rightarrow> ManagedRoute \<Rightarrow> Connector option \<Rightarrow> bool" where
  "usable_connector account rt chosen \<longleftrightarrow>
     (case chosen of None \<Rightarrow> False | Some k \<Rightarrow> submitted (Connector_tokenTunnelId k) \<noteq> None \<and> connector_fits account rt k)"

definition createDomainAccess :: "api \<Rightarrow> http_in \<Rightarrow> bool \<Rightarrow> CloudflareDomainAccess reply handler" where
  "createDomainAccess e r legacy =
     chain (pure (objectBody (in_body r))) (\<lambda>b.
     chain (access_request_of b legacy) (\<lambda>(q, chosen).
     chain (enabled_account (acq_accountId q)) (\<lambda>account.
     chain (access_zone (acq_accountId q) (acq_zoneId q)) (\<lambda>z.
     chain (access_route q z) (\<lambda>rt.
     chain (require (acq_accessMethod q \<noteq> Tunnel \<or> usable_connector account rt chosen) topology_mismatch) (\<lambda>_.
     chain (reads (already_managed (acq_routeId q) (ManagedRoute_hostname rt))) (\<lambda>taken.
     chain (require (\<not> taken) (ApiError 409 ''This route or hostname is already managed.'' (Some ''domain_access_duplicate''))) (\<lambda>_.
     chain (tries (createPendingDomainAccess (env_gen e) (env_now e) (acq_accountId q) (acq_zoneId q) (acq_routeId q) (acq_accessMethod q)
       (acq_connectorId q) (acq_publicIpv4 q) (acq_publicIpv6 q) (acq_proxied q))) (\<lambda>found.
     chain (the_or found (ApiError 409 ''Domain access relationships changed or are already managed.'' (Some ''domain_access_invalid''))) (\<lambda>created.
     chain (reconcileDomainAccess e (DomainAccess_id created) False) (\<lambda>reconciled.
     give (Reply 201 reconciled))))))))))))"

definition access_not_found :: ApiError where
  "access_not_found = ApiError 404 ''Cloudflare domain access was not found.'' (Some ''domain_access_not_found'')"

text \<open>
  \<open>idParameter\<close> is evaluated for each domain access that is compared, so not at all when there is none.
\<close>

definition updateDomainAccess :: "api \<Rightarrow> http_in \<Rightarrow> CloudflareDomainAccess handler" where
  "updateDomainAccess e r =
     chain (pure (objectBody (in_body r))) (\<lambda>b.
     chain (pure (optionalBoolean b ''enabled'')) (\<lambda>wanted.
     (case wanted of
        None \<Rightarrow> throw (Api (bad_request ''Only enabled may be updated.''))
      | Some enabled \<Rightarrow>
          chain (require (list_all (\<lambda>(k, v). k = ''enabled'') b) (bad_request ''Only enabled may be updated.'')) (\<lambda>_.
          chain (reads listCloudflareDomainAccess) (\<lambda>all.
          chain (if all = [] then give None else chain (pure (idParameter (in_id r))) (\<lambda>i. give (find (\<lambda>a. DomainAccess_id a = i) all))) (\<lambda>found.
          chain (the_or found access_not_found) (\<lambda>a.
          if DomainAccess_enabled a = enabled \<and> (if enabled then DomainAccess_status a = DomActive else DomainAccess_status a = DomDisabled)
          then give a
          else
            chain (writes (setDomainAccessPending (env_now e) (DomainAccess_id a) (Some enabled))) (\<lambda>pending.
            (case pending of
               None \<Rightarrow> throw (Thrown ''Cannot read properties of null'')
             | Some p \<Rightarrow> reconcileDomainAccess e (DomainAccess_id p) False)))))))))"

definition post_access_reconcile :: "api \<Rightarrow> http_in \<Rightarrow> CloudflareDomainAccess handler" where
  "post_access_reconcile e r =
     chain (pure (idParameter (in_id r))) (\<lambda>i.
     chain (writes (setDomainAccessPending (env_now e) i None)) (\<lambda>pending.
     chain (the_or pending access_not_found) (\<lambda>p.
     reconcileDomainAccess e (DomainAccess_id p) False)))"

section \<open>Certificates observed periodically\<close>

text \<open>A pass that meets a failure logs it and ends; no two runs of a pass overlap.\<close>

definition observePublicCertificates :: "api \<Rightarrow> options \<Rightarrow> unit handler" where
  "observePublicCertificates e o' =
     attempt
       (chain (reads (listTlsObservationTargets (env_now e) 20)) (\<lambda>targets.
        each (\<lambda>t _. changes (saveTlsObservation (env_gen e) (env_iso8601 e) (env_now e) (TlsTarget_domainAccessId t)
          (opt_tlsObserver o' (TlsTarget_hostname t)))) targets ()))
       (\<lambda>_. give ())"

definition boundedTlsObservation :: "options \<Rightarrow> string \<Rightarrow> TlsObservation" where
  "boundedTlsObservation o' hostname =
     (if opt_tls_late o' hostname then tls_failure TlsError ''tls_timeout'' else opt_tlsObserver o' hostname)"

definition verified_result :: "api \<Rightarrow> ManagedRoute \<Rightarrow> CloudflareDomainAccess \<Rightarrow> jobj" where
  "verified_result e rt a =
     [(''route'', route_json e rt), (''domainAccess'', domain_access_json e a),
      (''certificateMode'', JStr (if DomainAccess_accessMethod a = Tunnel then ''cloudflare_edge'' else ''traefik_letsencrypt_tls_alpn'')),
      (''trafficPath'', JStr (if DomainAccess_accessMethod a = Tunnel
         then ''Browser HTTPS -> Cloudflare edge TLS -> Cloudflare Tunnel -> Traefik HTTP -> backend''
         else ''Browser HTTPS -> DNS-only public IP:443 -> Traefik TLS -> backend''))]"

definition verification_error :: "TlsObservation \<Rightarrow> string" where
  "verification_error obs = coalesce (TlsObservation_error obs)
     (if TlsObservation_status obs = TlsExpired then ''certificate_expired'' else ''https_unreachable'')"

definition verification_succeeded :: "api \<Rightarrow> GuidedOperation \<Rightarrow> ManagedRoute \<Rightarrow> CloudflareDomainAccess \<Rightarrow> unit handler" where
  "verification_succeeded e g rt a =
     chain (tries (markDomainAccessOutcome (env_now e) (DomainAccess_id a) (DomainAccess_revision a) DomActive None)) (\<lambda>marked.
     (case marked of
        None \<Rightarrow> give ()
      | Some active \<Rightarrow>
          chain (writes (updateGuidedOperation (env_now e) (Guided_id g)
            (no_update\<lparr>GuidedUpdate_status := Some GSucceeded, GuidedUpdate_stage := Some ''complete'',
              GuidedUpdate_result := Some (verified_result e rt active), GuidedUpdate_error := Some None,
              GuidedUpdate_clearEncryptedRequest := True, GuidedUpdate_incrementVerificationAttempts := True\<rparr>))) (\<lambda>_.
          give ())))"

definition deadline_passed :: "api \<Rightarrow> GuidedOperation \<Rightarrow> bool" where
  "deadline_passed e g \<longleftrightarrow> (case Guided_verificationDeadlineAt g of None \<Rightarrow> False | Some t \<Rightarrow> t \<le> env_date_now e)"

definition verification_failed :: "api \<Rightarrow> GuidedOperation \<Rightarrow> CloudflareDomainAccess \<Rightarrow> string \<Rightarrow> unit handler" where
  "verification_failed e g a err =
     (if deadline_passed e g
      then
        chain (tries (markDomainAccessOutcome (env_now e) (DomainAccess_id a) (DomainAccess_revision a) DomFailed (Some err))) (\<lambda>_.
        chain (writes (updateGuidedOperation (env_now e) (Guided_id g)
          (no_update\<lparr>GuidedUpdate_status := Some GFailed, GuidedUpdate_stage := Some ''https_verification_failed'',
            GuidedUpdate_error := Some (Some err), GuidedUpdate_incrementVerificationAttempts := True\<rparr>))) (\<lambda>_.
        give ()))
      else
        chain (writes (updateGuidedOperation (env_now e) (Guided_id g)
          (no_update\<lparr>GuidedUpdate_error := Some (Some err), GuidedUpdate_incrementVerificationAttempts := True\<rparr>))) (\<lambda>_.
        give ()))"

definition verify_publication :: "api \<Rightarrow> options \<Rightarrow> GuidedOperation \<Rightarrow> unit handler" where
  "verify_publication e o' g =
     (case (submitted (Guided_domainAccessId g), submitted (Guided_routeId g)) of
        (Some ai, Some ri) \<Rightarrow>
          chain (find_access ai) (\<lambda>found.
          chain (reads (getRouteDeployment ri)) (\<lambda>rt'.
          (case (found, rt') of
             (Some a, Some rt) \<Rightarrow>
               if DomainAccess_revision a < 1 then give ()
               else
                 let obs = boundedTlsObservation o' (DomainAccess_hostname a) in
                 chain (changes (saveTlsObservation (env_gen e) (env_iso8601 e) (env_now e) (DomainAccess_id a) obs)) (\<lambda>_.
                 if TlsObservation_status obs \<in> {TlsValid, TlsExpiring} then verification_succeeded e g rt a
                 else verification_failed e g a (verification_error obs))
           | _ \<Rightarrow> give ())))
      | _ \<Rightarrow> give ())"

definition reconcileGuidedVerifications :: "api \<Rightarrow> options \<Rightarrow> unit handler" where
  "reconcileGuidedVerifications e o' =
     attempt
       (chain (reads (listGuidedOperationsPendingVerification 5)) (\<lambda>operations.
        each (\<lambda>g _. verify_publication e o' g) operations ()))
       (\<lambda>_. give ())"

end
