(* ===== verification/Gw_Backups.thy ===== *)
theory Gw_Backups
  imports Gw_Http
begin

text \<open>
  The service of system recovery (system-recovery.ts): backups of the control plane, the staging of a restore, transfers of
  backups, and the request that the supervisor on the host apply a staged restore. The modes of files and the
  zeroing of keys are not modelled; directories that a path passes through are taken as they are written.
\<close>

section \<open>Files and tools\<close>

definition refuse :: "SystemRecoveryFailure \<Rightarrow> 'a handler" where
  "refuse f = throw (Recovery f)"

definition demand :: "bool \<Rightarrow> SystemRecoveryFailure \<Rightarrow> unit handler" where
  "demand c f = (if c then give () else refuse f)"

definition lstat_or_null :: "string \<Rightarrow> node option handler" where
  "lstat_or_null p = attempt (chain (io (lstat p)) (\<lambda>n. give (Some n))) (\<lambda>_. give None)"

text \<open>\<open>requireRegularFile\<close>, with the size of the file.\<close>

definition requireRegularFile :: "string \<Rightarrow> string \<Rightarrow> nat handler" where
  "requireRegularFile p m =
     chain (lstat_or_null p) (\<lambda>v.
     case v of
       None \<Rightarrow> refuse (SystemRecoveryFailure 400 ''invalid_backup'' m)
     | Some n \<Rightarrow>
         (case n of
            Regular bs _ \<Rightarrow> give (length bs)
          | _ \<Rightarrow> refuse (SystemRecoveryFailure 400 ''invalid_backup'' m)))"

definition sha256File :: "api \<Rightarrow> string \<Rightarrow> string handler" where
  "sha256File e p = chain (io (read_file p)) (\<lambda>bs. give (env_sha256 e bs))"

text \<open>\<open>writeFile\<close> with the flag \<open>wx\<close>.\<close>

definition write_new :: "api \<Rightarrow> string \<Rightarrow> bytes \<Rightarrow> unit handler" where
  "write_new e p bs = chain (io (create_file (env_now e) p)) (\<lambda>_. io (append_file (env_now e) p bs))"

definition read_text :: "string \<Rightarrow> string handler" where
  "read_text p = chain (io (read_file p)) (\<lambda>bs.
     case utf8_text bs of Some s \<Rightarrow> give s | None \<Rightarrow> throw (Thrown ''text outside the model''))"

definition temporary_directory :: "recovery_options \<Rightarrow> string \<Rightarrow> string handler" where
  "temporary_directory r prefix =
     chain (draw_name (rec_temporary r prefix)) (\<lambda>dir. chain (io (mkdtemp dir)) (\<lambda>_. give dir))"

definition syncDirectory :: "string \<Rightarrow> unit handler" where
  "syncDirectory p = io (touch p)"

definition runTool :: "(db \<Rightarrow> string list option) \<Rightarrow> string handler" where
  "runTool f = chain (tool f) (\<lambda>out. give (collect_output out))"

definition runPostgresTool :: "recovery_options \<Rightarrow> ((string \<times> string) list \<Rightarrow> db \<Rightarrow> bytes option) \<Rightarrow> bytes handler" where
  "runPostgresTool r f =
     (case rec_database r of
        None \<Rightarrow> throw (Thrown ''Invalid URL'')
      | Some u \<Rightarrow>
          if db_protocol u \<notin> {''postgres:'', ''postgresql:''} then throw (Thrown ''DATABASE_URL must use PostgreSQL.'')
          else (case postgresEnvironment r u of None \<Rightarrow> throw (Thrown ''URI malformed'') | Some env \<Rightarrow> tool (f env)))"

definition ensureTarget :: "recovery_options \<Rightarrow> string \<Rightarrow> BackupTarget \<Rightarrow> unit handler" where
  "ensureTarget r base target =
     (if target = TargetLocal
      then chain (io (mkdir base)) (\<lambda>_.
           chain (io (lstat base)) (\<lambda>n.
           if n = Directory then give () else throw (Thrown ''The local backup base is invalid.'')))
      else chain (lstat_or_null base) (\<lambda>n.
           chain (lstat_or_null (join base (rec_nasMarker r))) (\<lambda>marker.
           demand (n = Some Directory \<and> (case marker of Some (Regular _ _) \<Rightarrow> True | _ \<Rightarrow> False))
             (SystemRecoveryFailure 409 ''nas_unavailable'' ''The NAS backup target is unavailable.''))))"

section \<open>Sealing and opening\<close>

definition encryptFile :: "api \<Rightarrow> recovery_options \<Rightarrow> string \<Rightarrow> string \<Rightarrow> string \<Rightarrow> unit handler" where
  "encryptFile e r source destination passphrase =
     (let salt = env_random e 16; iv = env_random e 12 in
      chain (io (create_file (env_now e) destination)) (\<lambda>_.
      chain (io (append_file (env_now e) destination (archive_header salt iv))) (\<lambda>_.
      chain (io (read_file source)) (\<lambda>cleartext.
      case seal_archive r passphrase salt iv cleartext of (header, ciphertext, tag) \<Rightarrow>
      chain (io (append_file (env_now e) destination ciphertext)) (\<lambda>_.
      io (append_file (env_now e) destination tag))))))"

definition decipher :: "api \<Rightarrow> recovery_options \<Rightarrow> string \<Rightarrow> string \<Rightarrow> string \<Rightarrow> unit handler" where
  "decipher e r source destination passphrase =
     chain (io (read_file source)) (\<lambda>bs.
     case archive_parts bs of (header, tag, _) \<Rightarrow>
     chain (demand (header_ok header) invalid_backup) (\<lambda>_.
     chain (io (create_file (env_now e) destination)) (\<lambda>_.
     chain (io (read_file source)) (\<lambda>again.
     case archive_parts again of (_, _, ciphertext) \<Rightarrow>
     case open_content r passphrase header tag ciphertext of
       None \<Rightarrow> refuse incorrect_passphrase
     | Some cleartext \<Rightarrow> io (append_file (env_now e) destination cleartext)))))"

definition decryptFile :: "api \<Rightarrow> recovery_options \<Rightarrow> string \<Rightarrow> string \<Rightarrow> string \<Rightarrow> unit handler" where
  "decryptFile e r source destination passphrase =
     chain (requireRegularFile source ''The encrypted backup artifact is invalid.'') (\<lambda>size.
     chain (demand (size > HEADER_SIZE + AUTH_TAG_SIZE) invalid_backup) (\<lambda>_.
     chain (io (touch source)) (\<lambda>_.
     attempt (decipher e r source destination passphrase) (\<lambda>x.
     chain (quiet (io (remove_file destination))) (\<lambda>_. throw x)))))"

definition validateArchive :: "recovery_options \<Rightarrow> string \<Rightarrow> unit handler" where
  "validateArchive r bundle =
     chain (io (read_file bundle)) (\<lambda>bs.
     chain (runTool (\<lambda>_. tar_list (rec_tools r) bs)) (\<lambda>names.
     chain (runTool (\<lambda>_. tar_verbose (rec_tools r) bs)) (\<lambda>verbose.
     demand (archive_listing_ok (splitToolLines names) (splitToolLines verbose)) invalid_backup)))"

definition unpack :: "recovery_options \<Rightarrow> string \<Rightarrow> string \<Rightarrow> unit handler" where
  "unpack r bundle dir =
     chain (io (read_file bundle)) (\<lambda>bs.
     chain (tool (\<lambda>_. tar_extract (rec_tools r) bs)) (\<lambda>files.
     each (\<lambda>f _. io (put_node (join dir (fst f)) (snd f))) files ()))"

definition validateExtractedFiles :: "string \<Rightarrow> unit handler" where
  "validateExtractedFiles dir =
     chain (requireRegularFile (join dir ''manifest.json'') ''The backup archive is invalid.'') (\<lambda>manifest.
     chain (requireRegularFile (join dir ''database.dump'') ''The backup archive is invalid.'') (\<lambda>dump.
     chain (requireRegularFile (join dir ''master.key'') ''The backup archive is invalid.'') (\<lambda>key.
     demand (extracted_sizes_ok manifest dump key) invalid_backup)))"

definition mismatch :: "string \<Rightarrow> SystemRecoveryFailure" where
  "mismatch m = SystemRecoveryFailure 400 ''backup_mismatch'' m"

text \<open>
  What \<open>stageRestore\<close> and \<open>inspectArtifact\<close> do alike: the artifact is opened into a directory of its own, and everything
  inside is checked. The key is compared in constant time, which throws on different lengths.
\<close>

definition inspect_bundle :: "api \<Rightarrow> recovery_options \<Rightarrow> string \<Rightarrow> string \<Rightarrow> string \<Rightarrow> uuid option \<Rightarrow> Manifest handler" where
  "inspect_bundle e r dir path passphrase expected =
     (let bundle = join dir ''bundle.tar''; dump = join dir ''database.dump'' in
      chain (decryptFile e r path bundle passphrase) (\<lambda>_.
      chain (validateArchive r bundle) (\<lambda>_.
      chain (unpack r bundle dir) (\<lambda>_.
      chain (validateExtractedFiles dir) (\<lambda>_.
      chain (read_text (join dir ''manifest.json'')) (\<lambda>text.
      chain (case parseManifest e text of Inl f \<Rightarrow> refuse f | Inr m \<Rightarrow> give m) (\<lambda>manifest.
      chain (demand (case expected of None \<Rightarrow> True | Some i \<Rightarrow> Manifest_backupId manifest = JStr i)
        (mismatch ''The selected backup does not match this recovery request.'')) (\<lambda>_.
      chain (io (read_file (join dir ''master.key''))) (\<lambda>key.
      chain (if length key = 32 \<and> length (rec_masterKey r) \<noteq> 32 then throw (Thrown ''RangeError'')
             else demand (length key = 32 \<and> key = rec_masterKey r)
               (mismatch ''The selected backup belongs to a different GatewayControl instance.'')) (\<lambda>_.
      chain (demand (Manifest_keySha256 manifest = JStr (env_sha256 e key)) invalid_backup) (\<lambda>_.
      chain (sha256File e dump) (\<lambda>hash.
      chain (demand (Manifest_dumpSha256 manifest = JStr hash) invalid_backup) (\<lambda>_.
      chain (io (read_file dump)) (\<lambda>bs.
      chain (tool (\<lambda>_. if pg_restore_list (rec_tools r) bs then Some () else None)) (\<lambda>_.
      give manifest)))))))))))))))"

definition inspectArtifact :: "api \<Rightarrow> recovery_options \<Rightarrow> string \<Rightarrow> string \<Rightarrow> uuid option \<Rightarrow> Manifest handler" where
  "inspectArtifact e r path passphrase expected =
     chain (temporary_directory r ''gateway-control-inspect-'') (\<lambda>dir.
     lastly (inspect_bundle e r dir path passphrase expected) (quiet (io (remove_tree dir))))"

section \<open>Creating a backup\<close>

definition artifact_path :: "api \<Rightarrow> string \<Rightarrow> uuid \<Rightarrow> string" where
  "artifact_path e base i =
     join base (''system-'' @ replace_all (CHR '':'') ''-'' (env_iso8601 e (env_date_now e)) @ ''-'' @ i @ ''.gcsb'')"

definition pack :: "recovery_options \<Rightarrow> string \<Rightarrow> string \<Rightarrow> unit handler" where
  "pack r dir bundle =
     chain (io (read_file (join dir ''manifest.json''))) (\<lambda>manifest.
     chain (io (read_file (join dir ''database.dump''))) (\<lambda>dump.
     chain (io (read_file (join dir ''master.key''))) (\<lambda>key.
     chain (tool (\<lambda>_. tar_create (rec_tools r)
       [(''manifest.json'', manifest), (''database.dump'', dump), (''master.key'', key)])) (\<lambda>bs.
     io (put_file 0 bundle bs)))))"

definition build_backup ::
  "api \<Rightarrow> recovery_options \<Rightarrow> BackupTarget \<Rightarrow> string \<Rightarrow> string \<Rightarrow> string \<Rightarrow> string \<Rightarrow> uuid \<Rightarrow> string \<Rightarrow> StoredSystemBackup handler" where
  "build_backup e r target base path tmp dir i passphrase =
     (let dump = join dir ''database.dump''; bundle = join dir ''bundle.tar'' in
      chain (ensureTarget r base target) (\<lambda>_.
      chain (runPostgresTool r (pg_dump (rec_tools r))) (\<lambda>bs.
      chain (io (put_file (env_now e) dump bs)) (\<lambda>_.
      chain (requireRegularFile dump ''The database dump is invalid.'') (\<lambda>_.
      chain (io (touch dump)) (\<lambda>_.
      chain (write_new e (join dir ''master.key'') (rec_masterKey r)) (\<lambda>_.
      chain (sha256File e dump) (\<lambda>hash.
      chain (write_new e (join dir ''manifest.json'') (utf8_bytes (JSON_stringify (manifest_json i (env_iso8601 e (env_date_now e))
        hash (env_sha256 e (rec_masterKey r))) @ [CHR 0x0A]))) (\<lambda>_.
      chain (pack r dir bundle) (\<lambda>_.
      chain (requireRegularFile bundle ''The backup archive is invalid.'') (\<lambda>_.
      chain (io (touch bundle)) (\<lambda>_.
      chain (encryptFile e r bundle tmp passphrase) (\<lambda>_.
      chain (io (touch tmp)) (\<lambda>_.
      chain (io (rename_file tmp path)) (\<lambda>_.
      chain (requireRegularFile path ''The encrypted backup artifact is invalid.'') (\<lambda>size.
      chain (sha256File e path) (\<lambda>checksum.
      tries (completeSystemBackup (env_now e) i (int size) checksum))))))))))))))))))"

definition backup_failed :: "api \<Rightarrow> string \<Rightarrow> uuid \<Rightarrow> failure \<Rightarrow> 'a handler" where
  "backup_failed e tmp i x =
     chain (quiet (io (remove_file tmp))) (\<lambda>_.
     chain (quiet (tries (failSystemBackup (env_now e) i ''System backup creation failed.''))) (\<lambda>_.
     refuse (case x of Recovery f \<Rightarrow> f
       | _ \<Rightarrow> SystemRecoveryFailure 500 ''invalid_backup'' ''The system backup could not be created.'')))"

definition create_backup :: "api \<Rightarrow> recovery_options \<Rightarrow> uuid \<Rightarrow> BackupTarget \<Rightarrow> string \<Rightarrow> StoredSystemBackup handler" where
  "create_backup e r requestedByUserId target passphrase =
     (let base = (if target = TargetNas then rec_nasRoot r else rec_localRoot r) in
      chain (draw_name (rec_uuid r)) (\<lambda>i.
      let path = artifact_path e base i in
      chain (writes (createSystemBackup (env_gen e) (env_now e) requestedByUserId target path)) (\<lambda>record'.
      chain (temporary_directory r ''gateway-control-backup-'') (\<lambda>dir.
      chain (draw_name (rec_uuid r)) (\<lambda>j.
      let tmp = path @ ''.'' @ j @ ''.tmp'' in
      lastly
        (attempt (build_backup e r target base path tmp dir (SystemBackup_id record') passphrase)
           (backup_failed e tmp (SystemBackup_id record')))
        (quiet (io (remove_tree dir))))))))"

end
