(* ===== verification/Gw_Restores.thy ===== *)
theory Gw_Restores
  imports Gw_Backups
begin

text \<open>
  The rest of the service of system recovery (system-recovery.ts): staging a restore, exporting and importing backups, asking
  the supervisor to apply a restore. \<open>restore.lock\<close> keeps the staging area to one attempt, \<open>restore.pending\<close> tells
  the script on the host what was staged.
\<close>

section \<open>The staging area\<close>

record staged =
  staged_token :: string
  staged_dump :: string

definition stage_path :: "recovery_options \<Rightarrow> string \<Rightarrow> string" where
  "stage_path r name = join (rec_stageRoot r) name"

definition marker_path :: "recovery_options \<Rightarrow> string" where
  "marker_path r = stage_path r ''restore.pending''"

definition temporary_marker :: "recovery_options \<Rightarrow> string \<Rightarrow> string" where
  "temporary_marker r token = stage_path r (''restore.pending.'' @ token @ ''.tmp'')"

definition lock_path :: "recovery_options \<Rightarrow> string" where
  "lock_path r = stage_path r ''restore.lock''"

definition line :: "string \<Rightarrow> bytes" where
  "line s = utf8_bytes (s @ [CHR 0x0A])"

text \<open>\<open>readFile(path, 'utf8').catch(() => '')\<close>\<close>

definition text_or_empty :: "string \<Rightarrow> string handler" where
  "text_or_empty p = attempt (read_text p) (\<lambda>_. give [])"

definition removeOwnedLock :: "recovery_options \<Rightarrow> string \<Rightarrow> unit handler" where
  "removeOwnedLock r token =
     chain (text_or_empty (lock_path r)) (\<lambda>t.
     if t = token @ [CHR 0x0A] then io (remove_file (lock_path r)) else give ())"

definition marker_token :: "string \<Rightarrow> json option" where
  "marker_token text = (case JSON_parse text of Some (JObj kvs) \<Rightarrow> jprop kvs ''token'' | _ \<Rightarrow> None)"

definition remove_marker :: "recovery_options \<Rightarrow> string \<Rightarrow> unit handler" where
  "remove_marker r token =
     chain (text_or_empty (marker_path r)) (\<lambda>t.
     quiet (if marker_token t = Some (JStr token) then io (remove_file (marker_path r)) else give ()))"

definition rollback :: "recovery_options \<Rightarrow> staged \<Rightarrow> bool \<Rightarrow> bool \<Rightarrow> unit handler" where
  "rollback r s dumpCreated markerPublished =
     chain (if markerPublished then remove_marker r (staged_token s) else give ()) (\<lambda>_.
     chain (io (remove_file (temporary_marker r (staged_token s)))) (\<lambda>_.
     if dumpCreated then io (remove_file (stage_path r (staged_dump s))) else give ()))"

definition already_staged :: SystemRecoveryFailure where
  "already_staged = SystemRecoveryFailure 409 ''restore_already_staged'' ''A system restore is already staged or being staged.''"

definition take_lock :: "api \<Rightarrow> recovery_options \<Rightarrow> string \<Rightarrow> unit handler" where
  "take_lock e r token =
     attempt (write_new e (lock_path r) (line token))
       (\<lambda>x. if x = Errno ''EEXIST'' then refuse already_staged else throw x)"

definition no_active_marker :: "recovery_options \<Rightarrow> unit handler" where
  "no_active_marker r =
     chain (lstat_or_null (stage_path r ''restore.pending'')) (\<lambda>p.
     chain (lstat_or_null (stage_path r ''restore.applying'')) (\<lambda>q.
     chain (lstat_or_null (stage_path r ''restore.applied'')) (\<lambda>s.
     demand (p = None \<and> q = None \<and> s = None) already_staged)))"

text \<open>An attempt to stage that fails undoes what it did, lets go of the lock, and fails as it would have.\<close>

definition undo_stage :: "recovery_options \<Rightarrow> staged \<Rightarrow> bool \<Rightarrow> failure \<Rightarrow> 'a handler" where
  "undo_stage r s dumpCreated x =
     chain (quiet (rollback r s dumpCreated False)) (\<lambda>_.
     chain (quiet (removeOwnedLock r (staged_token s))) (\<lambda>_.
     throw x))"

definition prepareStage :: "api \<Rightarrow> recovery_options \<Rightarrow> string \<Rightarrow> uuid \<Rightarrow> staged handler" where
  "prepareStage e r sourceDump backupId =
     chain (demand (UUID_PATTERN backupId) invalid_backup) (\<lambda>_.
     chain (io (mkdir (rec_stageRoot r))) (\<lambda>_.
     chain (lstat_or_null (rec_stageRoot r)) (\<lambda>n.
     chain (demand (n = Some Directory) (SystemRecoveryFailure 400 ''invalid_backup'' ''The restore staging area is invalid.'')) (\<lambda>_.
     chain (draw_name (rec_uuid r)) (\<lambda>token.
     chain (take_lock e r token) (\<lambda>_.
     let s = \<lparr>staged_token = token, staged_dump = ''database-'' @ backupId @ ''-'' @ token @ ''.dump''\<rparr>;
         dump = stage_path r (staged_dump s) in
     chain (attempt (chain (no_active_marker r) (\<lambda>_. io (create_file (env_now e) dump))) (undo_stage r s False)) (\<lambda>_.
     chain (attempt (chain (io (read_file sourceDump)) (\<lambda>bs. io (append_file (env_now e) dump bs))) (undo_stage r s True)) (\<lambda>_.
     give s))))))))"

definition marker_json :: "uuid \<Rightarrow> uuid \<Rightarrow> int \<Rightarrow> string \<Rightarrow> staged \<Rightarrow> json" where
  "marker_json restoreId backupId sizeBytes checksum s = JObj
     [(''version'', JNum 2), (''restoreId'', JStr restoreId), (''backupId'', JStr backupId), (''backupSizeBytes'', JNum sizeBytes),
      (''backupChecksum'', JStr checksum), (''dump'', JStr (staged_dump s)), (''token'', JStr (staged_token s))]"

definition publish_stage :: "api \<Rightarrow> recovery_options \<Rightarrow> staged \<Rightarrow> uuid \<Rightarrow> int \<Rightarrow> string \<Rightarrow> uuid \<Rightarrow> unit handler" where
  "publish_stage e r s backupId sizeBytes checksum restoreId =
     (if \<not> UUID_PATTERN restoreId then throw (Thrown ''The system restore audit record is invalid.'')
      else chain (write_new e (temporary_marker r (staged_token s))
             (line (JSON_stringify (marker_json restoreId backupId sizeBytes checksum s)))) (\<lambda>_.
           io (rename_file (temporary_marker r (staged_token s)) (marker_path r))))"

section \<open>Staging a restore\<close>

definition unavailable_backup :: SystemRecoveryFailure where
  "unavailable_backup = SystemRecoveryFailure 404 ''invalid_backup'' ''The selected system backup is unavailable.''"

definition vetted_stage :: "api \<Rightarrow> recovery_options \<Rightarrow> string \<Rightarrow> StoredSystemBackup \<Rightarrow> uuid \<Rightarrow> string \<Rightarrow> (staged \<times> int \<times> string) handler" where
  "vetted_stage e r dir stored backupId passphrase =
     chain (requireRegularFile (SystemBackup_artifactPath stored) ''The encrypted backup artifact is invalid.'') (\<lambda>size.
     case SystemBackup_checksum stored of
       None \<Rightarrow> refuse invalid_backup
     | Some checksum \<Rightarrow>
         chain (demand (is_digest checksum \<and> SystemBackup_sizeBytes stored = Some (int size)) invalid_backup) (\<lambda>_.
         chain (sha256File e (SystemBackup_artifactPath stored)) (\<lambda>hash.
         chain (demand (hash = checksum) invalid_backup) (\<lambda>_.
         chain (inspect_bundle e r dir (SystemBackup_artifactPath stored) passphrase (Some backupId)) (\<lambda>_.
         chain (prepareStage e r (join dir ''database.dump'') backupId) (\<lambda>s.
         give (s, int size, checksum)))))))"

definition stage_failed :: "api \<Rightarrow> uuid \<Rightarrow> uuid \<Rightarrow> failure \<Rightarrow> 'a handler" where
  "stage_failed e backupId requestedByUserId x =
     chain (quiet (writes (createSystemRestore (env_gen e) (env_now e) backupId requestedByUserId SrFailed
       (Some (rec_code (recoveryFailure x)))))) (\<lambda>_.
     refuse (recoveryFailure x))"

definition abandon_stage :: "api \<Rightarrow> recovery_options \<Rightarrow> staged \<Rightarrow> uuid \<Rightarrow> bool \<Rightarrow> failure \<Rightarrow> 'a handler" where
  "abandon_stage e r s restoreId markerPublished x =
     chain (quiet (rollback r s True markerPublished)) (\<lambda>_.
     chain (quiet (tries (updateSystemRestore (env_now e) restoreId SrFailed (Some (rec_code (recoveryFailure x)))))) (\<lambda>_.
     chain (quiet (removeOwnedLock r (staged_token s))) (\<lambda>_.
     refuse (recoveryFailure x))))"

definition stage_vetted :: "api \<Rightarrow> recovery_options \<Rightarrow> string \<Rightarrow> StoredSystemBackup \<Rightarrow> uuid \<Rightarrow> uuid \<Rightarrow> string \<Rightarrow> SystemRestore handler" where
  "stage_vetted e r dir stored backupId requestedByUserId passphrase =
     chain (attempt (vetted_stage e r dir stored backupId passphrase) (stage_failed e backupId requestedByUserId)) (\<lambda>(s, size, checksum).
     chain (writes (createSystemRestore (env_gen e) (env_now e) backupId requestedByUserId SrStaging None)) (\<lambda>restore.
     let i = SystemRestore_id restore in
     chain (attempt (publish_stage e r s backupId size checksum i) (abandon_stage e r s i False)) (\<lambda>_.
     attempt (tries (updateSystemRestore (env_now e) i SrStaged None)) (abandon_stage e r s i True))))"

definition stageRestore :: "api \<Rightarrow> recovery_options \<Rightarrow> uuid \<Rightarrow> uuid \<Rightarrow> string \<Rightarrow> SystemRestore handler" where
  "stageRestore e r backupId requestedByUserId passphrase =
     chain (reads (getSystemBackup backupId)) (\<lambda>found.
     case found of
       None \<Rightarrow> refuse unavailable_backup
     | Some stored \<Rightarrow>
         chain (temporary_directory r ''gateway-control-restore-'') (\<lambda>dir.
         lastly (stage_vetted e r dir stored backupId requestedByUserId passphrase) (quiet (io (remove_tree dir)))))"

section \<open>Exports\<close>

definition invalid_artifact :: SystemRecoveryFailure where
  "invalid_artifact = SystemRecoveryFailure 400 ''invalid_backup'' ''The encrypted backup artifact is invalid.''"

text \<open>\<open>relative\<close> leads out of the base when it starts with two dots.\<close>

definition outside_root :: "string \<Rightarrow> string \<Rightarrow> bool" where
  "outside_root base parent =
     (let rel = posix_relative base parent in rel = ''..'' \<or> starts_with (''..'' @ [slash]) rel \<or> starts_with [slash] rel)"

definition openArtifactNoFollow :: "string \<Rightarrow> string \<Rightarrow> string handler" where
  "openArtifactNoFollow base path =
     attempt
       (chain (io (realpath (posix_resolve base))) (\<lambda>resolvedRoot.
        chain (io (realpath (dirname (posix_resolve path)))) (\<lambda>parent.
        if outside_root resolvedRoot parent then throw (Thrown ''outside base'')
        else
          let p = join parent (basename path) in
          chain (io (lstat p)) (\<lambda>n. case n of Regular _ _ \<Rightarrow> give p | _ \<Rightarrow> throw (Thrown ''not regular'')))))
       (\<lambda>_. refuse invalid_artifact)"

definition sha256Handle :: "api \<Rightarrow> string \<Rightarrow> nat \<Rightarrow> string handler" where
  "sha256Handle e p bytes_in_all =
     chain (io (read_file p)) (\<lambda>bs. case read_handle 0 bytes_in_all bs [] of Inl f \<Rightarrow> refuse f | Inr seen \<Rightarrow> give (env_sha256 e seen))"

definition export_name :: "uuid \<Rightarrow> string" where
  "export_name i = ''gateway-control-system-'' @ i @ ''.gcsb''"

text \<open>The answer: the bytes the stream delivers, their number, and the name of the download.\<close>

definition exportArtifact :: "api \<Rightarrow> recovery_options \<Rightarrow> uuid \<Rightarrow> uuid \<Rightarrow> (bytes \<times> nat \<times> string) handler" where
  "exportArtifact e r backupId requestedByUserId =
     chain (reads (getSystemBackup backupId)) (\<lambda>found.
     case found of
       None \<Rightarrow> refuse unavailable_backup
     | Some b \<Rightarrow>
         (case (SystemBackup_checksum b, SystemBackup_sizeBytes b) of
            (Some checksum, Some sizeBytes) \<Rightarrow>
              chain (demand (checksum \<noteq> []) unavailable_backup) (\<lambda>_.
              chain (openArtifactNoFollow (if SystemBackup_target b = TargetNas then rec_nasRoot r else rec_localRoot r)
                (SystemBackup_artifactPath b)) (\<lambda>p.
              chain (io (lstat p)) (\<lambda>before_node.
              let size = (case before_node of Regular bs _ \<Rightarrow> length bs | _ \<Rightarrow> 0) in
              chain (sha256Handle e p size) (\<lambda>hash.
              chain (io (lstat p)) (\<lambda>after_node.
              chain (demand (after_node = before_node \<and> int size = sizeBytes \<and> hash = checksum) invalid_backup) (\<lambda>_.
              chain (changes (recordSystemBackupTransferEvent requestedByUserId OpExport (Some (SystemBackup_id b)) None None
                (Some [(''sizeBytes'', JNum (int size)), (''checksum'', JStr checksum)]))) (\<lambda>_.
              chain (io (read_file p)) (\<lambda>bs.
              give (bs, size, export_name (SystemBackup_id b))))))))))
          | _ \<Rightarrow> refuse unavailable_backup))"

end
