(* ===== verification/Gw_Imports.thy ===== *)
theory Gw_Imports
  imports Gw_Restores
begin

text \<open>
  Backups that come from elsewhere, and the request to apply a staged restore (system-recovery.ts). An upload is kept in
  quarantine until it is opened with its passphrase; a request is published as one signed file.
\<close>

section \<open>Uploads\<close>

definition import_too_large :: SystemRecoveryFailure where
  "import_too_large = SystemRecoveryFailure 413 ''import_too_large'' ''The system backup import exceeds the configured size limit.''"

definition import_active_failure :: "string \<Rightarrow> SystemRecoveryFailure" where
  "import_active_failure m = SystemRecoveryFailure 409 ''import_active'' m"

definition invalid_import :: "string \<Rightarrow> SystemRecoveryFailure" where
  "invalid_import m = SystemRecoveryFailure 400 ''invalid_import'' m"

definition max_import :: "recovery_options \<Rightarrow> int" where
  "max_import r = coalesce (rec_maxImportBytes r) (10 * 1024 ^ 3)"

text \<open>The declared length, when it is one that may be uploaded.\<close>

definition declared_length :: "recovery_options \<Rightarrow> js_number \<Rightarrow> int option" where
  "declared_length r n =
     (case safe_integer n of None \<Rightarrow> None | Some i \<Rightarrow> if i \<le> 0 \<or> max_import r < i then None else Some i)"

text \<open>The pipeline of the upload: every piece is counted before it is written. A connection may break off.\<close>

fun receive :: "api \<Rightarrow> string \<Rightarrow> int \<Rightarrow> int \<Rightarrow> bool \<Rightarrow> bytes list \<Rightarrow> bytes \<Rightarrow> bytes handler" where
  "receive e p maxBytes declared aborted [] got = (if aborted then throw (Thrown ''aborted'') else give got)"
| "receive e p maxBytes declared aborted (c # cs) got =
     (let size = int (length got + length c) in
      if size > maxBytes \<or> size > declared then refuse import_too_large
      else chain (io (append_file (env_now e) p c)) (\<lambda>_. receive e p maxBytes declared aborted cs (got @ c)))"

definition quarantine :: "recovery_options \<Rightarrow> string" where
  "quarantine r = join (rec_localRoot r) ''.imports''"

definition store_upload ::
  "api \<Rightarrow> recovery_options \<Rightarrow> string \<Rightarrow> string \<Rightarrow> uuid \<Rightarrow> int \<Rightarrow> bytes list \<Rightarrow> bool \<Rightarrow> SystemBackupImport handler" where
  "store_upload e r partial path i declared chunks aborted =
     chain (io (create_file (env_now e) partial)) (\<lambda>_.
     chain (receive e partial (max_import r) declared aborted chunks []) (\<lambda>got.
     chain (demand (int (length got) = declared) (invalid_import ''The system backup upload was truncated.'')) (\<lambda>_.
     chain (io (touch partial)) (\<lambda>_.
     chain (io (rename_file partial path)) (\<lambda>_.
     chain (syncDirectory (quarantine r)) (\<lambda>_.
     tries (updateSystemBackupImport (env_now e) i ImUploaded (Some (int (length got))) (Some (env_sha256 e got)) None None)))))))"

definition failure_code :: "failure \<Rightarrow> string" where
  "failure_code x = (case x of Recovery f \<Rightarrow> rec_code f | _ \<Rightarrow> ''upload_failed'')"

definition upload_failed :: "api \<Rightarrow> string \<Rightarrow> string \<Rightarrow> uuid \<Rightarrow> failure \<Rightarrow> 'a handler" where
  "upload_failed e partial path i x =
     chain (quiet (io (remove_file partial))) (\<lambda>_.
     chain (quiet (io (remove_file path))) (\<lambda>_.
     chain (quiet (tries (updateSystemBackupImport (env_now e) i ImRejected None None None (Some (failure_code x))))) (\<lambda>_.
     throw x)))"

definition uploadImport :: "api \<Rightarrow> recovery_options \<Rightarrow> uuid \<Rightarrow> bytes list \<Rightarrow> bool \<Rightarrow> js_number \<Rightarrow> SystemBackupImport handler" where
  "uploadImport e r requestedByUserId chunks aborted contentLength =
     (case declared_length r contentLength of
        None \<Rightarrow> refuse import_too_large
      | Some declared \<Rightarrow>
          chain (ensureTarget r (rec_localRoot r) TargetLocal) (\<lambda>_.
          chain (io (mkdir (quarantine r))) (\<lambda>_.
          chain (io (lstat (quarantine r))) (\<lambda>n.
          chain (demand (n = Directory) (invalid_import ''The backup import quarantine is invalid.'')) (\<lambda>_.
          chain (draw_name (rec_uuid r)) (\<lambda>token.
          let partial = join (quarantine r) (token @ ''.partial''); path = join (quarantine r) (token @ ''.gcsb'') in
          chain (writes (createSystemBackupImport (env_gen e) (env_now e) requestedByUserId path)) (\<lambda>created.
          case created of
            Accepted i \<Rightarrow>
              attempt (store_upload e r partial path (SystemImport_id i) declared chunks aborted)
                (upload_failed e partial path (SystemImport_id i))
          | _ \<Rightarrow> refuse (import_active_failure ''Another system backup import is active.''))))))))"

section \<open>Validation\<close>

definition import_conflict :: "string \<Rightarrow> SystemRecoveryFailure" where
  "import_conflict m = SystemRecoveryFailure 409 ''import_conflict'' m"

definition same_identifier :: SystemRecoveryFailure where
  "same_identifier = import_conflict ''A different system backup already uses the authenticated backup identifier.''"

definition as_uuid :: "json \<Rightarrow> uuid handler" where
  "as_uuid v = (case v of JStr s \<Rightarrow> give s | _ \<Rightarrow> throw (Database (JsError ''invalid input syntax for type uuid'')))"

text \<open>The claim on the import may have been lost to another validation meanwhile.\<close>

definition finish_validation :: "api \<Rightarrow> uuid \<Rightarrow> SystemBackupImport \<Rightarrow> StoredSystemBackup \<Rightarrow> bool \<Rightarrow> (SystemBackupImport \<times> StoredSystemBackup \<times> bool) handler" where
  "finish_validation e requestedByUserId record' stored idempotent =
     chain (writes (finishSystemBackupImport (env_now e) (SystemImport_id record') (SystemImport_validationRevision record') ImImported
       (Some (SystemBackup_id stored)) None)) (\<lambda>completed.
     case completed of
       None \<Rightarrow> throw (Thrown ''The system backup import validation claim was lost.'')
     | Some c \<Rightarrow>
         chain (changes (recordSystemBackupTransferEvent requestedByUserId OpImport (Some (SystemBackup_id stored)) None
           (Some (SystemImport_id record')) (Some [(''idempotent'', JBool idempotent)]))) (\<lambda>_.
         give (c, stored, idempotent)))"

definition imported_path :: "recovery_options \<Rightarrow> uuid \<Rightarrow> string" where
  "imported_path r i = join (rec_localRoot r) (''imported-'' @ i @ ''.gcsb'')"

text \<open>A backup that is not known yet leaves the quarantine and becomes a record.\<close>

definition adopt_import ::
  "api \<Rightarrow> recovery_options \<Rightarrow> uuid \<Rightarrow> SystemBackupImport \<Rightarrow> int \<Rightarrow> string \<Rightarrow> uuid \<Rightarrow> (SystemBackupImport \<times> StoredSystemBackup \<times> bool) handler" where
  "adopt_import e r requestedByUserId record' sizeBytes checksum i =
     (let destination = imported_path r i in
      chain (lstat_or_null destination) (\<lambda>n.
      chain (demand (n = None) (import_conflict ''The imported backup destination is already occupied.'')) (\<lambda>_.
      chain (io (rename_file (SystemImport_quarantinePath record') destination)) (\<lambda>_.
      chain (syncDirectory (rec_localRoot r)) (\<lambda>_.
      chain (tries (importSystemBackup (env_now e) i requestedByUserId destination sizeBytes checksum (SystemImport_id record'))) (\<lambda>result.
      chain (if result = ImportConflict then chain (io (remove_file destination)) (\<lambda>_. refuse same_identifier)
             else if result = ImportIdempotent then io (remove_file destination) else give ()) (\<lambda>_.
      chain (reads (getSystemBackup i)) (\<lambda>found.
      case found of
        None \<Rightarrow> throw (Thrown ''The imported backup record could not be loaded.'')
      | Some stored \<Rightarrow> finish_validation e requestedByUserId record' stored (result = ImportIdempotent)))))))))"

definition vet_import ::
  "api \<Rightarrow> recovery_options \<Rightarrow> uuid \<Rightarrow> SystemBackupImport \<Rightarrow> int \<Rightarrow> string \<Rightarrow> string \<Rightarrow> (SystemBackupImport \<times> StoredSystemBackup \<times> bool) handler" where
  "vet_import e r requestedByUserId record' sizeBytes checksum passphrase =
     (let path = SystemImport_quarantinePath record' in
      chain (requireRegularFile path ''The imported backup artifact is invalid.'') (\<lambda>size.
      chain (demand (int size = sizeBytes) (invalid_import ''The imported backup artifact is invalid.'')) (\<lambda>_.
      chain (sha256File e path) (\<lambda>hash.
      chain (demand (hash = checksum) (invalid_import ''The imported backup artifact is invalid.'')) (\<lambda>_.
      chain (inspectArtifact e r path passphrase None) (\<lambda>manifest.
      chain (as_uuid (Manifest_backupId manifest)) (\<lambda>i.
      chain (reads (getSystemBackup i)) (\<lambda>existing.
      case existing of
        Some b \<Rightarrow>
          chain (demand (SystemBackup_checksum b = Some checksum \<and> SystemBackup_sizeBytes b = Some sizeBytes) same_identifier) (\<lambda>_.
          chain (io (remove_file path)) (\<lambda>_.
          finish_validation e requestedByUserId record' b True))
      | None \<Rightarrow> adopt_import e r requestedByUserId record' sizeBytes checksum i))))))))"

definition import_rejected :: "api \<Rightarrow> SystemBackupImport \<Rightarrow> failure \<Rightarrow> 'a handler" where
  "import_rejected e record' x =
     chain (quiet (io (remove_file (SystemImport_quarantinePath record')))) (\<lambda>_.
     chain (quiet (writes (finishSystemBackupImport (env_now e) (SystemImport_id record') (SystemImport_validationRevision record')
       ImRejected None (Some (rec_code (recoveryFailure x)))))) (\<lambda>_.
     refuse (recoveryFailure x)))"

definition validateImport ::
  "api \<Rightarrow> recovery_options \<Rightarrow> uuid \<Rightarrow> uuid \<Rightarrow> string \<Rightarrow> (SystemBackupImport \<times> StoredSystemBackup \<times> bool) handler" where
  "validateImport e r importId requestedByUserId passphrase =
     chain (writes (claimSystemBackupImport (env_now e) importId requestedByUserId)) (\<lambda>claimed.
     case claimed of
       ImportValidating \<Rightarrow> refuse (import_active_failure ''The system backup import is already being validated.'')
     | ImportNotClaimable \<Rightarrow> refuse (SystemRecoveryFailure 404 ''invalid_import'' ''The system backup import is unavailable.'')
     | ImportClaimed record' \<Rightarrow>
         (case (SystemImport_sizeBytes record', SystemImport_checksum record') of
            (Some sizeBytes, Some checksum) \<Rightarrow>
              if checksum = [] then refuse (SystemRecoveryFailure 404 ''invalid_import'' ''The system backup import is unavailable.'')
              else attempt (vet_import e r requestedByUserId record' sizeBytes checksum passphrase) (import_rejected e record')
          | _ \<Rightarrow> refuse (SystemRecoveryFailure 404 ''invalid_import'' ''The system backup import is unavailable.'')))"

section \<open>Cleaning up\<close>

definition without_suffix :: "string \<Rightarrow> string \<Rightarrow> string" where
  "without_suffix suffix s = (if ends_with suffix s then take (length s - length suffix) s else s)"

definition is_partial :: "string \<Rightarrow> bool" where
  "is_partial name \<longleftrightarrow> UUID_PATTERN (without_suffix ''.partial'' name) \<and> ends_with ''.partial'' name"

definition day :: int where
  "day = 24 * 60 * 60000"

definition clean_partial :: "api \<Rightarrow> recovery_options \<Rightarrow> string \<Rightarrow> unit handler" where
  "clean_partial e r name =
     (if \<not> is_partial name then give ()
      else chain (lstat_or_null (join (quarantine r) name)) (\<lambda>n.
        case n of
          Some v \<Rightarrow>
            (case v of
               Regular _ t \<Rightarrow> if t < env_date_now e - day then io (remove_file (join (quarantine r) name)) else give ()
             | _ \<Rightarrow> give ())
        | None \<Rightarrow> give ()))"

definition cleanupStaleImports :: "api \<Rightarrow> recovery_options \<Rightarrow> unit handler" where
  "cleanupStaleImports e r =
     chain (writes (rejectStaleSystemBackupImports (env_now e) (env_date_now e - day))) (\<lambda>stale.
     chain (each (\<lambda>i _. quiet (io (remove_file (SystemImport_quarantinePath i)))) stale ()) (\<lambda>_.
     chain (attempt (io (readdir (quarantine r))) (\<lambda>_. give [])) (\<lambda>names.
     each (\<lambda>name _. clean_partial e r name) names ())))"

section \<open>Requests to apply a restore\<close>

definition spool :: "recovery_options \<Rightarrow> string" where
  "spool r = join (rec_localRoot r) ''.recovery-requests''"

definition request_members :: "uuid \<Rightarrow> jobj" where
  "request_members restoreId =
     [(''version'', JNum 1), (''operation'', JStr ''apply-system-restore''), (''restoreId'', JStr restoreId)]"

definition signed_request :: "(string \<Rightarrow> string) \<Rightarrow> uuid \<Rightarrow> string" where
  "signed_request hmac restoreId =
     JSON_stringify (JObj (request_members restoreId @ [(''signature'', JStr (hmac (JSON_stringify (JObj (request_members restoreId)))))])) @ [CHR 0x0A]"

definition pending_path :: "recovery_options \<Rightarrow> string" where
  "pending_path r = join (spool r) ''request.pending''"

text \<open>The request appears under its name at once, or not at all: it is linked there, and nothing is there to be replaced.\<close>

definition publishRecoveryRequest :: "api \<Rightarrow> recovery_options \<Rightarrow> string \<Rightarrow> string \<Rightarrow> unit handler" where
  "publishRecoveryRequest e r text token =
     (let tmp = join (spool r) (''request.'' @ token @ ''.partial'') in
      attempt
        (chain (write_new e tmp (utf8_bytes text)) (\<lambda>_.
         chain (io (touch tmp)) (\<lambda>_.
         chain (io (link_file tmp (pending_path r))) (\<lambda>_.
         chain (io (remove_file tmp)) (\<lambda>_.
         syncDirectory (spool r))))))
        (\<lambda>x. chain (quiet (io (remove_file tmp))) (\<lambda>_. throw x)))"

definition request_pending :: SystemRecoveryFailure where
  "request_pending = SystemRecoveryFailure 409 ''recovery_request_pending'' ''A platform recovery request is already pending.''"

definition request_failed :: "api \<Rightarrow> uuid \<Rightarrow> uuid \<Rightarrow> failure \<Rightarrow> 'a handler" where
  "request_failed e i token x =
     (let f = (if x = Errno ''EEXIST'' then request_pending else recoveryFailure x) in
      chain (quiet (writes (finishSystemRecoveryRequest (env_now e) i token RqFailed (Some (rec_code f))))) (\<lambda>_. refuse f))"

definition send_request :: "api \<Rightarrow> recovery_options \<Rightarrow> bytes \<Rightarrow> uuid \<Rightarrow> uuid \<Rightarrow> uuid \<Rightarrow> unit handler" where
  "send_request e r secret restoreId backupId requestedByUserId =
     chain (io (mkdir (spool r))) (\<lambda>_.
     chain (io (lstat (spool r))) (\<lambda>n.
     chain (demand (n = Directory) (SystemRecoveryFailure 400 ''invalid_backup'' ''The recovery request spool is invalid.'')) (\<lambda>_.
     chain (draw_name (rec_uuid r)) (\<lambda>token.
     chain (writes (createSystemRecoveryRequest (env_gen e) (env_now e) restoreId requestedByUserId token)) (\<lambda>audit.
     case audit of
       Accepted (i, _) \<Rightarrow>
         chain (attempt (publishRecoveryRequest e r (signed_request (rec_hmac r secret) restoreId) token) (request_failed e i token)) (\<lambda>_.
         chain (quiet (writes (finishSystemRecoveryRequest (env_now e) i token RqPublished None))) (\<lambda>_.
         quiet (changes (recordSystemBackupTransferEvent requestedByUserId OpRestoreApplyRequested (Some backupId) (Some restoreId) None None))))
     | _ \<Rightarrow> refuse request_pending)))))"

definition found_or :: "'a option \<Rightarrow> SystemRecoveryFailure \<Rightarrow> 'a handler" where
  "found_or v f = (case v of None \<Rightarrow> refuse f | Some x \<Rightarrow> give x)"

definition request_for :: "api \<Rightarrow> recovery_options \<Rightarrow> bytes \<Rightarrow> uuid \<Rightarrow> string \<Rightarrow> SystemRestore \<Rightarrow> StoredSystemBackup \<Rightarrow> unit handler" where
  "request_for e r secret requestedByUserId passphrase s b =
     chain (requireRegularFile (SystemBackup_artifactPath b) ''The encrypted backup artifact is invalid.'') (\<lambda>size.
     chain (demand (SystemBackup_checksum b \<notin> {None, Some []} \<and> SystemBackup_sizeBytes b = Some (int size)) invalid_backup) (\<lambda>_.
     chain (sha256File e (SystemBackup_artifactPath b)) (\<lambda>hash.
     chain (demand (SystemBackup_checksum b = Some hash) invalid_backup) (\<lambda>_.
     chain (inspectArtifact e r (SystemBackup_artifactPath b) passphrase (Some (SystemBackup_id b))) (\<lambda>_.
     send_request e r secret (SystemRestore_id s) (SystemBackup_id b) requestedByUserId)))))"

definition requestApply :: "api \<Rightarrow> recovery_options \<Rightarrow> uuid \<Rightarrow> uuid \<Rightarrow> string \<Rightarrow> string \<Rightarrow> unit handler" where
  "requestApply e r restoreId requestedByUserId confirmation passphrase =
     chain (found_or (if rec_supervisorEnabled r then rec_requestSecret r else None)
       (SystemRecoveryFailure 409 ''recovery_supervisor_unavailable'' ''Platform-assisted recovery is not configured.'')) (\<lambda>secret.
     chain (demand (confirmation = ''APPLY '' @ restoreId)
       (SystemRecoveryFailure 400 ''invalid_backup'' ''The restore confirmation does not match.'')) (\<lambda>_.
     chain (reads (getSystemRestore restoreId)) (\<lambda>restore.
     chain (found_or (case restore of None \<Rightarrow> None | Some s \<Rightarrow> if SystemRestore_status s = SrStaged then Some s else None)
       (SystemRecoveryFailure 404 ''invalid_backup'' ''The staged system restore is unavailable.'')) (\<lambda>s.
     chain (reads (getSystemBackup (SystemRestore_backupId s))) (\<lambda>found.
     chain (found_or found unavailable_backup) (\<lambda>b.
     request_for e r secret requestedByUserId passphrase s b))))))"

end
