(* ===== verification/Gw_RecoveryApi.thy ===== *)
theory Gw_RecoveryApi
  imports Gw_Imports Gw_Resources
begin

text \<open>
  The routes of system backups, imports and restores (app.ts). The failures of the service become answers with its status,
  text and code.
\<close>

section \<open>Views\<close>

record PublicSystemBackup =
  PublicSystemBackup_id :: uuid
  PublicSystemBackup_target :: BackupTarget
  PublicSystemBackup_status :: SystemBackupStatus
  PublicSystemBackup_sizeBytes :: "int option"
  PublicSystemBackup_checksum :: "string option"
  PublicSystemBackup_error :: "string option"
  PublicSystemBackup_source :: BackupSource
  PublicSystemBackup_createdAt :: time
  PublicSystemBackup_completedAt :: "time option"

definition publicSystemBackup :: "StoredSystemBackup \<Rightarrow> PublicSystemBackup" where
  "publicSystemBackup b =
     \<lparr>PublicSystemBackup_id = SystemBackup_id b, PublicSystemBackup_target = SystemBackup_target b,
      PublicSystemBackup_status = SystemBackup_status b, PublicSystemBackup_sizeBytes = SystemBackup_sizeBytes b,
      PublicSystemBackup_checksum = SystemBackup_checksum b, PublicSystemBackup_error = SystemBackup_error b,
      PublicSystemBackup_source = SystemBackup_source b, PublicSystemBackup_createdAt = SystemBackup_createdAt b,
      PublicSystemBackup_completedAt = SystemBackup_completedAt b\<rparr>"

record PublicSystemBackupImport =
  PublicSystemImport_id :: uuid
  PublicSystemImport_status :: ImportStatus
  PublicSystemImport_sizeBytes :: "int option"
  PublicSystemImport_checksum :: "string option"
  PublicSystemImport_backupId :: "uuid option"
  PublicSystemImport_error :: "string option"
  PublicSystemImport_createdAt :: time
  PublicSystemImport_updatedAt :: time
  PublicSystemImport_completedAt :: "time option"

definition publicSystemBackupImport :: "SystemBackupImport \<Rightarrow> PublicSystemBackupImport" where
  "publicSystemBackupImport i =
     \<lparr>PublicSystemImport_id = SystemImport_id i, PublicSystemImport_status = SystemImport_status i,
      PublicSystemImport_sizeBytes = SystemImport_sizeBytes i, PublicSystemImport_checksum = SystemImport_checksum i,
      PublicSystemImport_backupId = SystemImport_backupId i, PublicSystemImport_error = SystemImport_error i,
      PublicSystemImport_createdAt = SystemImport_createdAt i, PublicSystemImport_updatedAt = SystemImport_updatedAt i,
      PublicSystemImport_completedAt = SystemImport_completedAt i\<rparr>"

record PublicSystemRestore =
  PublicSystemRestore_id :: uuid
  PublicSystemRestore_backupId :: uuid
  PublicSystemRestore_status :: SystemRestoreStatus
  PublicSystemRestore_error :: "string option"
  PublicSystemRestore_createdAt :: time
  PublicSystemRestore_completedAt :: "time option"

definition publicSystemRestore :: "SystemRestore \<Rightarrow> PublicSystemRestore" where
  "publicSystemRestore s =
     \<lparr>PublicSystemRestore_id = SystemRestore_id s, PublicSystemRestore_backupId = SystemRestore_backupId s,
      PublicSystemRestore_status = SystemRestore_status s, PublicSystemRestore_error = SystemRestore_error s,
      PublicSystemRestore_createdAt = SystemRestore_createdAt s, PublicSystemRestore_completedAt = SystemRestore_completedAt s\<rparr>"

section \<open>Routes\<close>

text \<open>\<open>if (error instanceof SystemRecoveryFailure) throw new ApiError(..); throw error;\<close>\<close>

definition recovered :: "'a handler \<Rightarrow> 'a handler" where
  "recovered m = attempt m (\<lambda>x. case x of
     Recovery f \<Rightarrow> throw (Api (ApiError (rec_status f) (rec_message f) (Some (rec_code f))))
   | _ \<Rightarrow> throw x)"

definition not_configured :: "string \<Rightarrow> ApiError" where
  "not_configured m = ApiError 503 m None"

record system_backups_view =
  view_backups :: "PublicSystemBackup list"
  view_restores :: "PublicSystemRestore list"
  view_imports :: "PublicSystemBackupImport list"
  view_supervisor :: bool

text \<open>Without the service there are no imports to list.\<close>

definition public_imports :: "options \<Rightarrow> db \<Rightarrow> PublicSystemBackupImport list" where
  "public_imports o' d = (case opt_recovery o' of None \<Rightarrow> [] | Some _ \<Rightarrow> map publicSystemBackupImport (listSystemBackupImports d))"

definition system_backups_list :: "options \<Rightarrow> db \<Rightarrow> system_backups_view" where
  "system_backups_list o' d =
     \<lparr>view_backups = map publicSystemBackup (listSystemBackups d), view_restores = map publicSystemRestore (listSystemRestores d),
      view_imports = public_imports o' d, view_supervisor = opt_recoverySupervisorEnabled o'\<rparr>"

text \<open>\<open>GET /api/system-backups/:id/export\<close>, while so many exports are under way.\<close>

definition get_export :: "api \<Rightarrow> options \<Rightarrow> nat \<Rightarrow> http_in \<Rightarrow> User \<Rightarrow> (bytes \<times> nat \<times> string) reply handler" where
  "get_export e o' exports r u =
     chain (the_or (opt_recovery o') (not_configured ''System backup export is not configured.'')) (\<lambda>c.
     chain (require (exports < 2) (ApiError 429 ''Too many system backup exports are active.'' None)) (\<lambda>_.
     recovered (chain (pure (idParameter (in_id r))) (\<lambda>i.
       chain (exportArtifact e c i (User_id u)) (\<lambda>a. give (Reply 200 a))))))"

definition octet_stream :: "string option \<Rightarrow> bool" where
  "octet_stream contentType =
     (case contentType of None \<Rightarrow> False
      | Some t \<Rightarrow> lower (trim (takeWhile (\<lambda>c. c \<noteq> CHR '';'') t)) = ''application/octet-stream'')"

definition content_length :: "http_in \<Rightarrow> js_number" where
  "content_length r = (case in_content_length r of None \<Rightarrow> NaN | Some s \<Rightarrow> Number_string s)"

definition post_import :: "api \<Rightarrow> options \<Rightarrow> http_in \<Rightarrow> User \<Rightarrow> PublicSystemBackupImport reply handler" where
  "post_import e o' r u =
     chain (the_or (opt_recovery o') (not_configured ''System backup import is not configured.'')) (\<lambda>c.
     chain (require (octet_stream (in_content_type r)) (ApiError 415 ''Content-Type must be application/octet-stream.'' None)) (\<lambda>_.
     recovered (chain (uploadImport e c (User_id u) (in_stream r) (in_aborted r) (content_length r)) (\<lambda>i.
       give (Reply 201 (publicSystemBackupImport i))))))"

definition passphrase_of :: "http_in \<Rightarrow> string handler" where
  "passphrase_of r = chain (pure (objectBody (in_body r))) (\<lambda>b. pure (opaqueStringField b ''passphrase'' 16 1024))"

definition post_import_validate ::
  "api \<Rightarrow> options \<Rightarrow> http_in \<Rightarrow> User \<Rightarrow> (PublicSystemBackupImport \<times> PublicSystemBackup \<times> bool) reply handler" where
  "post_import_validate e o' r u =
     chain (the_or (opt_recovery o') (not_configured ''System backup import is not configured.'')) (\<lambda>c.
     chain (passphrase_of r) (\<lambda>passphrase.
     recovered (chain (pure (idParameter (in_id r))) (\<lambda>i.
       chain (validateImport e c i (User_id u) passphrase) (\<lambda>(n, b, idempotent).
       give (Reply 200 (publicSystemBackupImport n, publicSystemBackup b, idempotent)))))))"

definition post_system_backup :: "api \<Rightarrow> options \<Rightarrow> http_in \<Rightarrow> User \<Rightarrow> PublicSystemBackup reply handler" where
  "post_system_backup e o' r u =
     chain (the_or (opt_recovery o') (not_configured ''System recovery is not configured.'')) (\<lambda>c.
     chain (pure (objectBody (in_body r))) (\<lambda>b.
     chain (pure (stringField b ''target'' 1 255)) (\<lambda>t.
     chain (the_or (backup_target t) (bad_request ''target must be local or nas.'')) (\<lambda>target.
     chain (pure (opaqueStringField b ''passphrase'' 16 1024)) (\<lambda>passphrase.
     recovered (chain (create_backup e c (User_id u) target passphrase) (\<lambda>s. give (Reply 201 (publicSystemBackup s)))))))))"

definition post_stage_restore :: "api \<Rightarrow> options \<Rightarrow> http_in \<Rightarrow> User \<Rightarrow> PublicSystemRestore reply handler" where
  "post_stage_restore e o' r u =
     chain (the_or (opt_recovery o') (not_configured ''System recovery is not configured.'')) (\<lambda>c.
     chain (passphrase_of r) (\<lambda>passphrase.
     recovered (chain (pure (idParameter (in_id r))) (\<lambda>i.
       chain (stageRestore e c i (User_id u) passphrase) (\<lambda>s. give (Reply 202 (publicSystemRestore s)))))))"

definition post_request_apply :: "api \<Rightarrow> options \<Rightarrow> http_in \<Rightarrow> User \<Rightarrow> unit reply handler" where
  "post_request_apply e o' r u =
     chain (the_or (opt_recovery o') (not_configured ''Platform-assisted recovery is not configured.'')) (\<lambda>c.
     chain (pure (objectBody (in_body r))) (\<lambda>b.
     chain (pure (exactKeys b [''confirmation'', ''passphrase''])) (\<lambda>_.
     recovered (
       chain (pure (idParameter (in_id r))) (\<lambda>i.
       chain (pure (opaqueStringField b ''confirmation'' 42 42)) (\<lambda>confirmation.
       chain (pure (opaqueStringField b ''passphrase'' 16 1024)) (\<lambda>passphrase.
       chain (requestApply e c i (User_id u) confirmation passphrase) (\<lambda>_.
       give (Reply 202 ())))))))))"

end
