(* ===== verification/Gw_Server.thy ===== *)
theory Gw_Server
  imports Gw_Runtimes Gw_Access Gw_RecoveryApi
begin

text \<open>
  The routes of app.ts put together: which handler a route has, who may call it, and the status it
  answers with. The health checks and the static files are not here.
\<close>

section \<open>Guards\<close>

definition answered :: "'a reply handler \<Rightarrow> nat handler" where
  "answered m = chain m (\<lambda>x. give (reply_status x))"

text \<open>\<open>{ preHandler: (request, reply) => requireUser(request, reply, role) }\<close> and \<open>{ preHandler: requireAgent }\<close>\<close>

definition as_user :: "api \<Rightarrow> http_in \<Rightarrow> Role \<Rightarrow> (User \<Rightarrow> 'a reply handler) \<Rightarrow> nat handler" where
  "as_user e r role m = chain (requireUser e (in_cookie r) role) (\<lambda>u. answered (m u))"

definition as_agent :: "api \<Rightarrow> http_in \<Rightarrow> (Agent \<Rightarrow> 'a handler) \<Rightarrow> nat handler" where
  "as_agent e r m = chain (requireAgent e (in_authorization r)) (\<lambda>a. chain (m a) (\<lambda>_. give 200))"

definition with_status :: "nat \<Rightarrow> 'a handler \<Rightarrow> 'a reply handler" where
  "with_status s m = chain m (\<lambda>x. give (Reply s x))"

section \<open>Routes\<close>

datatype user_route = GetSetupStatus | PostSetup | PostLogin | PostLogout | GetMe | GetConfiguration | GetUsers | PostUser

definition serve_users :: "api \<Rightarrow> options \<Rightarrow> http_in \<Rightarrow> user_route \<Rightarrow> nat handler" where
  "serve_users e o' r p =
     (case p of
        GetSetupStatus \<Rightarrow> answered (listing isSetupComplete)
      | PostSetup \<Rightarrow> answered (post_setup e o' r)
      | PostLogin \<Rightarrow> answered (login e o' r)
      | PostLogout \<Rightarrow> as_user e r Viewer (logout e r)
      | GetMe \<Rightarrow> as_user e r Viewer get_me
      | GetConfiguration \<Rightarrow> as_user e r Viewer (\<lambda>_. get_configuration o')
      | GetUsers \<Rightarrow> as_user e r Owner (\<lambda>_. listing listUsers)
      | PostUser \<Rightarrow> as_user e r Owner (\<lambda>_. post_user e o' r))"

datatype cloudflare_route = GetConnectors | PostConnector | PatchConnector | PostConnectorVerify | GetAccounts | PostAccount
  | PatchAccount | DeleteAccount | PostAccountTest | PostAccountSync | GetZones

definition serve_cloudflare :: "api \<Rightarrow> http_in \<Rightarrow> cloudflare_route \<Rightarrow> nat handler" where
  "serve_cloudflare e r p =
     (case p of
        GetConnectors \<Rightarrow> as_user e r Viewer (\<lambda>_. listing listConnectors)
      | PostConnector \<Rightarrow> as_user e r Operator (\<lambda>_. post_connector e r)
      | PatchConnector \<Rightarrow> as_user e r Operator (\<lambda>_. patch_connector e r)
      | PostConnectorVerify \<Rightarrow> as_user e r Operator (\<lambda>_. post_connector_verify e r)
      | GetAccounts \<Rightarrow> as_user e r Viewer (\<lambda>_. listing listCloudflareAccounts)
      | PostAccount \<Rightarrow> as_user e r Operator (post_account e r)
      | PatchAccount \<Rightarrow> as_user e r Operator (\<lambda>_. patch_account e r)
      | DeleteAccount \<Rightarrow> as_user e r Owner (\<lambda>_. delete_account r)
      | PostAccountTest \<Rightarrow> as_user e r Operator (\<lambda>_. post_account_test e r)
      | PostAccountSync \<Rightarrow> as_user e r Operator (\<lambda>_. post_account_sync e r)
      | GetZones \<Rightarrow> as_user e r Viewer (\<lambda>_. get_zones r))"

datatype domain_route = PostDomainPublish | PostPublishReconcile | GetDomainAccess | PostDomainAccess | PatchDomainAccess
  | PostAccessReconcile | GetPublicHostnames | PostPublicHostname | PatchPublicHostname

definition serve_domains :: "api \<Rightarrow> options \<Rightarrow> http_in \<Rightarrow> domain_route \<Rightarrow> nat handler" where
  "serve_domains e o' r p =
     (case p of
        PostDomainPublish \<Rightarrow> as_user e r Operator (post_domain_publish e o' r)
      | PostPublishReconcile \<Rightarrow> as_user e r Operator (post_publish_reconcile e o' r)
      | GetDomainAccess \<Rightarrow> as_user e r Viewer (\<lambda>_. listing listCloudflareDomainAccess)
      | PostDomainAccess \<Rightarrow> as_user e r Operator (\<lambda>_. createDomainAccess e r False)
      | PatchDomainAccess \<Rightarrow> as_user e r Operator (\<lambda>_. with_status 200 (updateDomainAccess e r))
      | PostAccessReconcile \<Rightarrow> as_user e r Operator (\<lambda>_. with_status 200 (post_access_reconcile e r))
      | GetPublicHostnames \<Rightarrow> as_user e r Viewer (\<lambda>_. listing listCloudflareDomainAccess)
      | PostPublicHostname \<Rightarrow> as_user e r Operator (\<lambda>_. createDomainAccess e r True)
      | PatchPublicHostname \<Rightarrow> as_user e r Operator (\<lambda>_. with_status 200 (updateDomainAccess e r)))"

datatype runtime_route = GetRuntimeProjects | GetRuntimeOperations | PostRuntimeAction | PostRuntimeLogs | GetRuntimeLogs
  | GetDeployments | PostPreview | PostDeployment | PostRevision | PostDeploy | PostRollback | PostStop | GetDeploymentRun

definition serve_runtime :: "api \<Rightarrow> options \<Rightarrow> http_in \<Rightarrow> runtime_route \<Rightarrow> nat handler" where
  "serve_runtime e o' r p =
     (case p of
        GetRuntimeProjects \<Rightarrow> as_user e r Viewer (\<lambda>_. listing (\<lambda>d. runtimeProjects (env_date_now e) (getLatestRuntimeInventory (env_date_now e) d) (env_protected e)))
      | GetRuntimeOperations \<Rightarrow> as_user e r Viewer (\<lambda>_. listing (\<lambda>d. map publicRuntimeOperation (listRuntimeOperations d)))
      | PostRuntimeAction \<Rightarrow> as_user e r Operator (post_runtime_action e r)
      | PostRuntimeLogs \<Rightarrow> as_user e r Operator (post_runtime_logs e r)
      | GetRuntimeLogs \<Rightarrow> as_user e r Operator (get_runtime_logs e r)
      | GetDeployments \<Rightarrow> as_user e r Viewer (\<lambda>_. listing listDeployments)
      | PostPreview \<Rightarrow> as_user e r Owner (\<lambda>_. post_preview o' r)
      | PostDeployment \<Rightarrow> as_user e r Owner (post_deployment e o' r)
      | PostRevision \<Rightarrow> as_user e r Owner (post_revision e o' r)
      | PostDeploy \<Rightarrow> as_user e r Owner (queueDeploymentRun e Deploy r)
      | PostRollback \<Rightarrow> as_user e r Owner (queueDeploymentRun e Rollback r)
      | PostStop \<Rightarrow> as_user e r Owner (queueDeploymentRun e StopRun r)
      | GetDeploymentRun \<Rightarrow> as_user e r Viewer (\<lambda>_. get_deployment_run r))"

datatype stack_route = GetStacks | PostStack | PatchStack | PostStackRestart | PostStackStop | PostStackLogs | PostStackBackup
  | GetRoutes | PostRoute | PatchRoute | GetBackups | GetRestores | PostBackupRestore

definition serve_stacks :: "api \<Rightarrow> options \<Rightarrow> http_in \<Rightarrow> stack_route \<Rightarrow> nat handler" where
  "serve_stacks e o' r p =
     (case p of
        GetStacks \<Rightarrow> as_user e r Viewer (\<lambda>_. listing listStacks)
      | PostStack \<Rightarrow> as_user e r Operator (\<lambda>_. legacyStackMutation)
      | PatchStack \<Rightarrow> as_user e r Operator (\<lambda>_. legacyStackMutation)
      | PostStackRestart \<Rightarrow> as_user e r Operator (\<lambda>_. legacyStackMutation)
      | PostStackStop \<Rightarrow> as_user e r Operator (\<lambda>_. legacyStackMutation)
      | PostStackLogs \<Rightarrow> as_user e r Operator (\<lambda>_. legacyStackMutation)
      | PostStackBackup \<Rightarrow> as_user e r Operator (post_stack_backup e r)
      | GetRoutes \<Rightarrow> as_user e r Viewer (\<lambda>_. listing listRoutes)
      | PostRoute \<Rightarrow> as_user e r Operator (\<lambda>_. post_route e o' r)
      | PatchRoute \<Rightarrow> as_user e r Operator (\<lambda>_. patch_route e o' r)
      | GetBackups \<Rightarrow> as_user e r Viewer (\<lambda>_. listing (\<lambda>d. map publicBackup (listBackups d)))
      | GetRestores \<Rightarrow> as_user e r Viewer (\<lambda>_. listing (\<lambda>d. map publicRestore (listRestores d)))
      | PostBackupRestore \<Rightarrow> as_user e r Owner (post_backup_restore e r))"

datatype operation_route = GetTelegram | GetTopology | PatchNotificationAgent | PatchNotificationService | PutTelegram | PostTelegramTest
  | GetAgents | PostAgent | DeleteAgent | PostEnrollmentCommand | GetCommands | GetCommand | PostDiagnostics | GetLogRequest
  | GetMonitoringSummary | GetMonitoring | PostCommand

definition serve_operations :: "api \<Rightarrow> options \<Rightarrow> http_in \<Rightarrow> operation_route \<Rightarrow> nat handler" where
  "serve_operations e o' r p =
     (case p of
        GetTelegram \<Rightarrow> as_user e r Viewer (\<lambda>_. listing getNotificationSettings)
      | GetTopology \<Rightarrow> as_user e r Viewer (\<lambda>_. listing (getNotificationTopology (opt_topology o') (env_date_now e) None))
      | PatchNotificationAgent \<Rightarrow> as_user e r Operator (patch_notification_agent e o' r)
      | PatchNotificationService \<Rightarrow> as_user e r Operator (patch_notification_service e o' r)
      | PutTelegram \<Rightarrow> as_user e r Owner (\<lambda>_. put_telegram e r)
      | PostTelegramTest \<Rightarrow> as_user e r Owner (\<lambda>_. post_telegram_test e)
      | GetAgents \<Rightarrow> as_user e r Viewer (\<lambda>_. listing (listAgents (env_date_now e)))
      | PostAgent \<Rightarrow> as_user e r Operator (\<lambda>_. post_agent e o' r)
      | DeleteAgent \<Rightarrow> as_user e r Owner (\<lambda>_. delete_agent e r)
      | PostEnrollmentCommand \<Rightarrow> as_user e r Operator (\<lambda>_. post_enrollment_command e o' r)
      | GetCommands \<Rightarrow> as_user e r Viewer (\<lambda>_. get_commands r)
      | GetCommand \<Rightarrow> as_user e r Viewer (\<lambda>_. get_command r)
      | PostDiagnostics \<Rightarrow> as_user e r Operator (\<lambda>_. post_diagnostics e r)
      | GetLogRequest \<Rightarrow> as_user e r Operator (get_log_request r)
      | GetMonitoringSummary \<Rightarrow> as_user e r Viewer (\<lambda>_. listing getMonitoringSummary)
      | GetMonitoring \<Rightarrow> as_user e r Viewer (\<lambda>_. get_monitoring e r)
      | PostCommand \<Rightarrow> as_user e r Operator (\<lambda>_. post_command e r))"

datatype agent_route = PostEnroll | PostHeartbeat | PostTelemetry | GetAgentCommands | PostResult

definition serve_agents :: "api \<Rightarrow> http_in \<Rightarrow> agent_route \<Rightarrow> nat handler" where
  "serve_agents e r p =
     (case p of
        PostEnroll \<Rightarrow> chain (enroll e (in_body r)) (\<lambda>_. give 200)
      | PostHeartbeat \<Rightarrow> as_agent e r (\<lambda>a. heartbeat e a (in_body r))
      | PostTelemetry \<Rightarrow> as_agent e r (\<lambda>a. telemetry_request e a (in_body r))
      | GetAgentCommands \<Rightarrow> as_agent e r (\<lambda>a. poll_commands e (Agent_id a))
      | PostResult \<Rightarrow> as_agent e r (\<lambda>a. report_result e a (in_id r) (in_body r)))"

text \<open>An export comes with the number of those under way: the variable \<open>activeSystemBackupExports\<close>.\<close>

datatype recovery_route = GetSystemBackups | GetExport nat | PostImport | GetImports | PostImportValidate | PostSystemBackup
  | PostStageRestore | PostRequestApply

definition serve_recovery :: "api \<Rightarrow> options \<Rightarrow> http_in \<Rightarrow> recovery_route \<Rightarrow> nat handler" where
  "serve_recovery e o' r p =
     (case p of
        GetSystemBackups \<Rightarrow> as_user e r Owner (\<lambda>_. listing (system_backups_list o'))
      | GetExport exports \<Rightarrow> as_user e r Owner (get_export e o' exports r)
      | PostImport \<Rightarrow> as_user e r Owner (post_import e o' r)
      | GetImports \<Rightarrow> as_user e r Owner (\<lambda>_. listing (public_imports o'))
      | PostImportValidate \<Rightarrow> as_user e r Owner (post_import_validate e o' r)
      | PostSystemBackup \<Rightarrow> as_user e r Owner (post_system_backup e o' r)
      | PostStageRestore \<Rightarrow> as_user e r Owner (post_stage_restore e o' r)
      | PostRequestApply \<Rightarrow> as_user e r Owner (post_request_apply e o' r))"

datatype endpoint = Users user_route | Cf cloudflare_route | Domains domain_route | Runtime runtime_route
  | Stacks stack_route | Operations operation_route | AgentApi agent_route
  | SystemRecovery recovery_route

definition serve :: "api \<Rightarrow> options \<Rightarrow> http_in \<Rightarrow> endpoint \<Rightarrow> nat handler" where
  "serve e o' r p =
     (case p of
        Users q \<Rightarrow> serve_users e o' r q
      | Cf q \<Rightarrow> serve_cloudflare e r q
      | Domains q \<Rightarrow> serve_domains e o' r q
      | Runtime q \<Rightarrow> serve_runtime e o' r q
      | Stacks q \<Rightarrow> serve_stacks e o' r q
      | Operations q \<Rightarrow> serve_operations e o' r q
      | AgentApi q \<Rightarrow> serve_agents e r q
      | SystemRecovery q \<Rightarrow> serve_recovery e o' r q)"

text \<open>The status of the answer: that of the reply, or that of the error handler.\<close>

definition respond :: "api \<Rightarrow> options \<Rightarrow> http_in \<Rightarrow> endpoint \<Rightarrow> world \<Rightarrow> nat \<times> world" where
  "respond e o' r p w =
     (case serve e o' r p w of (Inl x, w') \<Rightarrow> (fst (error_reply x), w') | (Inr s, w') \<Rightarrow> (s, w'))"

end
