(* ===== verification/Gw_Kept.thy ===== *)
theory Gw_Kept
  imports Gw_Server
begin

text \<open>
  Every handler of app.ts, on every branch, changes the store by operations of its interface only: a
  store that its operations can reach stays one that they can reach, whatever the other requests do
  while a handler waits for a remote service. So the invariants of all reachable stores hold before and
  after every request.
\<close>

section \<open>Rules\<close>

named_theorems kept \<open>what keeps the store reachable\<close>

definition jkeeps :: "(world \<Rightarrow> bool) \<Rightarrow> ('s, 'a) job \<Rightarrow> bool" where
  "jkeeps I m \<longleftrightarrow> (\<forall>s w. I w \<longrightarrow> I (snd (snd (m s w))))"

lemma jkeeps_lift [kept]: "keeps I m \<Longrightarrow> jkeeps I (lift m)"
  by (auto simp: jkeeps_def keeps_def lift_def split: prod.split)

lemma jkeeps_assign [kept]: "jkeeps I (assign f)"
  by (simp add: jkeeps_def assign_def)

lemma jkeeps_current [kept]: "jkeeps I current"
  by (simp add: jkeeps_def current_def)

lemma jkeeps_chain [kept]: "jkeeps I m \<Longrightarrow> (\<And>x. jkeeps I (f x)) \<Longrightarrow> jkeeps I (jchain m f)"
  by (auto simp: jkeeps_def jchain_def split: prod.split sum.split) (metis snd_conv)+

lemma jkeeps_each [kept]: "(\<And>x t. jkeeps I (f x t)) \<Longrightarrow> jkeeps I (jeach f xs t)"
  by (induction xs arbitrary: t) (simp_all add: jkeeps_lift keeps_give jkeeps_chain)

lemma jkeeps_if [kept]: "jkeeps I a \<Longrightarrow> jkeeps I b \<Longrightarrow> jkeeps I (if c then a else b)"
  by simp

lemma jkeeps_Let [kept]: "jkeeps I (f v) \<Longrightarrow> jkeeps I (let x = v in f x)"
  by simp

lemma jkeeps_option [kept]: "jkeeps I a \<Longrightarrow> (\<And>x. jkeeps I (f x)) \<Longrightarrow> jkeeps I (case v of None \<Rightarrow> a | Some x \<Rightarrow> f x)"
  by (cases v) simp_all

lemma jkeeps_pair [kept]: "(\<And>x y. jkeeps I (f x y)) \<Longrightarrow> jkeeps I (case v of (x, y) \<Rightarrow> f x y)"
  by (cases v) simp

lemma keeps_jattempt [kept]: "jkeeps I m \<Longrightarrow> (\<And>x t. keeps I (h x t)) \<Longrightarrow> keeps I (jattempt m s h)"
  by (auto simp: jkeeps_def keeps_def jattempt_def split: prod.split sum.split) (metis snd_conv)+

lemma keeps_json [kept]:
  "keeps I a \<Longrightarrow> (\<And>x. keeps I (b x)) \<Longrightarrow> (\<And>x. keeps I (c x)) \<Longrightarrow> (\<And>x. keeps I (f x)) \<Longrightarrow> (\<And>x. keeps I (g x)) \<Longrightarrow> (\<And>x. keeps I (h x))
    \<Longrightarrow> keeps I (case v of JNull \<Rightarrow> a | JBool x \<Rightarrow> b x | JNum x \<Rightarrow> c x | JStr x \<Rightarrow> f x | JArr x \<Rightarrow> g x | JObj x \<Rightarrow> h x)"
  by (cases v) simp_all

lemma keeps_list [kept]: "keeps I a \<Longrightarrow> (\<And>x xs. keeps I (f x xs)) \<Longrightarrow> keeps I (case v of [] \<Rightarrow> a | x # xs \<Rightarrow> f x xs)"
  by (cases v) simp_all

lemma keeps_answer [kept]:
  "keeps I a \<Longrightarrow> (\<And>x y. keeps I (f x y)) \<Longrightarrow> keeps I (case v of Unreachable \<Rightarrow> a | Answer x y \<Rightarrow> f x y)"
  by (cases v) simp_all

lemma keeps_failure [kept]:
  "(\<And>x. keeps I (f x)) \<Longrightarrow> (\<And>x. keeps I (g x)) \<Longrightarrow> (\<And>x. keeps I (h x)) \<Longrightarrow> (\<And>x. keeps I (k x))
    \<Longrightarrow> (\<And>x. keeps I (l x)) \<Longrightarrow> (\<And>x. keeps I (m x))
    \<Longrightarrow> keeps I (case v of Api x \<Rightarrow> f x | Cloudflare x \<Rightarrow> g x | Database x \<Rightarrow> h x | Thrown x \<Rightarrow> k x | Recovery x \<Rightarrow> l x | Errno x \<Rightarrow> m x)"
  by (cases v) simp_all

lemma keeps_completion [kept]:
  "keeps I a \<Longrightarrow> keeps I b \<Longrightarrow> keeps I c \<Longrightarrow> keeps I f \<Longrightarrow> keeps I g
    \<Longrightarrow> keeps I (case v of Updated \<Rightarrow> a | Idempotent \<Rightarrow> b | Conflict \<Rightarrow> c | Missing \<Rightarrow> f | CompletionRaised \<Rightarrow> g)"
  by (cases v) simp_all

lemma keeps_changes [kept]: "stepwise gen I \<Longrightarrow> (\<And>d. step gen d (f d)) \<Longrightarrow> keeps (in_store I) (changes f)"
  unfolding changes_def by (rule stepwise.keeps_writes, assumption) simp

lemma keeps_found: "(\<And>x. v = Some x \<Longrightarrow> keeps I (f x)) \<Longrightarrow> keeps I (chain (the_or v err) f)"
  by (cases v) (simp_all add: keeps_def chain_def the_or_def throw_def give_def)

lemma keeps_looked_up [kept]: "(\<And>i. keeps I (f i)) \<Longrightarrow> keeps I (looked_up f k)"
  by (simp add: looked_up_def keeps_give split: option.split)

lemma step_of_unit [kept]: "step gen d x \<Longrightarrow> step gen d (snd ((), x))"
  by simp

lemma step_of_with_unit [kept]: "step gen d (after_unit r d) \<Longrightarrow> step gen d (after (with_unit r) d)"
  by simp

lemmas [kept] = keeps_rules stepwise.keeps_fetch stepwise.keeps_io stepwise.keeps_tool stepwise.keeps_draw_name stepwise.keeps_writes stepwise.keeps_tries step.intros
  step.completeCommand [OF disjI1 [OF refl]] step.completeCommand [OF disjI2 [OF refl]]

section \<open>Clients of the remote services\<close>

lemma bad_gateway_sound [kept]: "stepwise gen I \<Longrightarrow> keeps (in_store I) (bad_gateway m)"
  unfolding bad_gateway_def by (assumption | rule kept)+

lemma readEnvelope_sound [kept]: "stepwise gen I \<Longrightarrow> keeps (in_store I) (readEnvelope body)"
  unfolding readEnvelope_def by (assumption | rule kept)+

lemma properties_sound [kept]: "stepwise gen I \<Longrightarrow> keeps (in_store I) (properties v)"
  unfolding properties_def by (assumption | rule kept)+

lemma request_sound [kept]: "stepwise gen I \<Longrightarrow> keeps (in_store I) (request c method' path body)"
  unfolding request_def by (assumption | rule kept)+

lemma result_array_sound [kept]: "stepwise gen I \<Longrightarrow> keeps (in_store I) (result_array envelope m)"
  unfolding result_array_def by (assumption | rule kept)+

lemma add_zone_sound [kept]: "stepwise gen I \<Longrightarrow> keeps (in_store I) (add_zone item found)"
  unfolding add_zone_def by (assumption | rule kept)+

lemma zone_pages_sound [kept]:
  assumes "stepwise gen I"
  shows "keeps (in_store I) (zone_pages c a n page found expected)"
  by (induction n arbitrary: page found expected) (simp_all only: zone_pages.simps, (assumption | rule assms kept)+)

lemma verifyToken_sound [kept]: "stepwise gen I \<Longrightarrow> keeps (in_store I) (verifyToken c)"
  unfolding verifyToken_def by (assumption | rule kept)+

lemma listZones_sound [kept]: "stepwise gen I \<Longrightarrow> keeps (in_store I) (listZones c accountIdentifier)"
  unfolding listZones_def by (assumption | rule kept)+

lemma typed_rule_sound [kept]: "stepwise gen I \<Longrightarrow> keeps (in_store I) (typed_rule v)"
  unfolding typed_rule_def by (assumption | rule kept)+

lemma getTunnelConfig_sound [kept]: "stepwise gen I \<Longrightarrow> keeps (in_store I) (getTunnelConfig c accountIdentifier tunnelId)"
  unfolding getTunnelConfig_def by (assumption | rule kept)+

lemma getTunnelMetadata_sound [kept]: "stepwise gen I \<Longrightarrow> keeps (in_store I) (getTunnelMetadata c accountIdentifier tunnelId)"
  unfolding getTunnelMetadata_def by (assumption | rule kept)+

lemma getTunnelToken_sound [kept]: "stepwise gen I \<Longrightarrow> keeps (in_store I) (getTunnelToken c accountIdentifier tunnelId)"
  unfolding getTunnelToken_def by (assumption | rule kept)+

lemma findActiveTunnelByName_sound [kept]: "stepwise gen I \<Longrightarrow> keeps (in_store I) (findActiveTunnelByName c accountIdentifier name)"
  unfolding findActiveTunnelByName_def by (assumption | rule kept)+

lemma createRemotelyManagedTunnel_sound [kept]: "stepwise gen I \<Longrightarrow> keeps (in_store I) (createRemotelyManagedTunnel c secret accountIdentifier desiredName)"
  unfolding createRemotelyManagedTunnel_def by (assumption | rule kept)+

lemma putTunnelConfig_sound [kept]: "stepwise gen I \<Longrightarrow> keeps (in_store I) (putTunnelConfig c accountIdentifier tunnelId ingress)"
  unfolding putTunnelConfig_def by (assumption | rule kept)+

lemma dnsRecord_sound [kept]: "stepwise gen I \<Longrightarrow> keeps (in_store I) (dnsRecord v expectedHostname)"
  unfolding dnsRecord_def by (assumption | rule kept)+

lemma add_record_sound [kept]: "stepwise gen I \<Longrightarrow> keeps (in_store I) (add_record hostname v records)"
  unfolding add_record_def by (assumption | rule kept)+

lemma dns_pages_sound [kept]:
  assumes "stepwise gen I"
  shows "keeps (in_store I) (dns_pages c z h n page found)"
  by (induction n arbitrary: page found) (simp_all only: dns_pages.simps, (assumption | rule assms kept)+)

lemma listDnsRecordsExact_sound [kept]: "stepwise gen I \<Longrightarrow> keeps (in_store I) (listDnsRecordsExact c zoneIdentifier hostname)"
  unfolding listDnsRecordsExact_def by (assumption | rule kept)+

lemma createDnsRecord_sound [kept]: "stepwise gen I \<Longrightarrow> keeps (in_store I) (createDnsRecord c zoneIdentifier type hostname content proxied comment')"
  unfolding createDnsRecord_def by (assumption | rule kept)+

lemma createDnsCname_sound [kept]: "stepwise gen I \<Longrightarrow> keeps (in_store I) (createDnsCname c zoneIdentifier hostname tunnelId proxied comment')"
  unfolding createDnsCname_def by (assumption | rule kept)+

lemma createDnsAddress_sound [kept]: "stepwise gen I \<Longrightarrow> keeps (in_store I) (createDnsAddress c zoneIdentifier type hostname content proxied comment')"
  unfolding createDnsAddress_def by (assumption | rule kept)+

lemma getDnsRecord_sound [kept]: "stepwise gen I \<Longrightarrow> keeps (in_store I) (getDnsRecord c zoneIdentifier dnsRecordId expectedHostname)"
  unfolding getDnsRecord_def by (assumption | rule kept)+

lemma deleteDnsRecord_sound [kept]: "stepwise gen I \<Longrightarrow> keeps (in_store I) (deleteDnsRecord c zoneIdentifier dnsRecordId)"
  unfolding deleteDnsRecord_def by (assumption | rule kept)+

section \<open>Requests of agents\<close>

lemma fail_command_sound [kept]: "stepwise (env_gen e) I \<Longrightarrow> keeps (in_store I) (fail_command e a c m)"
  unfolding fail_command_def by (assumption | rule kept)+

lemma prior_compose_sound [kept]: "stepwise (env_gen e) I \<Longrightarrow> keeps (in_store I) (prior_compose e source)"
  unfolding prior_compose_def by (assumption | rule kept)+

lemma open_deployment_sound [kept]: "stepwise (env_gen e) I \<Longrightarrow> keeps (in_store I) (open_deployment e c s)"
  unfolding open_deployment_def by (assumption | rule kept)+

lemma deliver_deployment_sound [kept]: "stepwise (env_gen e) I \<Longrightarrow> keeps (in_store I) (deliver_deployment e a c)"
  unfolding deliver_deployment_def by (assumption | rule kept)+

lemma deliver_runtime_action_sound [kept]: "stepwise (env_gen e) I \<Longrightarrow> keeps (in_store I) (deliver_runtime_action e a c)"
  unfolding deliver_runtime_action_def by (assumption | rule kept)+

lemma deliver_runtime_logs_sound [kept]: "stepwise (env_gen e) I \<Longrightarrow> keeps (in_store I) (deliver_runtime_logs e a c)"
  unfolding deliver_runtime_logs_def by (assumption | rule kept)+

lemma deliver_route_sound [kept]: "stepwise (env_gen e) I \<Longrightarrow> keeps (in_store I) (deliver_route e a c)"
  unfolding deliver_route_def by (assumption | rule kept)+

lemma deliver_service_logs_sound [kept]: "stepwise (env_gen e) I \<Longrightarrow> keeps (in_store I) (deliver_service_logs e a c)"
  unfolding deliver_service_logs_def by (assumption | rule kept)+

lemma deliver_backup_sound [kept]: "stepwise (env_gen e) I \<Longrightarrow> keeps (in_store I) (deliver_backup e a c)"
  unfolding deliver_backup_def by (assumption | rule kept)+

lemma deliver_restore_sound [kept]: "stepwise (env_gen e) I \<Longrightarrow> keeps (in_store I) (deliver_restore e a c)"
  unfolding deliver_restore_def by (assumption | rule kept)+

lemma deliver_connector_removal_sound [kept]: "stepwise (env_gen e) I \<Longrightarrow> keeps (in_store I) (deliver_connector_removal e a c)"
  unfolding deliver_connector_removal_def by (assumption | rule kept)+

lemma deliver_connector_sound [kept]: "stepwise (env_gen e) I \<Longrightarrow> keeps (in_store I) (deliver_connector e a c)"
  unfolding deliver_connector_def by (assumption | rule kept)+

lemma deliver_sound [kept]: "stepwise (env_gen e) I \<Longrightarrow> keeps (in_store I) (deliver e a c)"
  unfolding deliver_def by (assumption | rule kept)+

lemma poll_commands_sound [kept]: "stepwise (env_gen e) I \<Longrightarrow> keeps (in_store I) (poll_commands e a)"
  unfolding poll_commands_def by (assumption | rule kept)+

lemma requireAgent_sound [kept]: "stepwise (env_gen e) I \<Longrightarrow> keeps (in_store I) (requireAgent e authorization)"
  unfolding requireAgent_def by (assumption | rule kept)+

lemma enroll_sound [kept]: "stepwise (env_gen e) I \<Longrightarrow> keeps (in_store I) (enroll e body)"
  unfolding enroll_def by (assumption | rule kept)+

lemma heartbeat_sound [kept]: "stepwise (env_gen e) I \<Longrightarrow> keeps (in_store I) (heartbeat e a body)"
  unfolding heartbeat_def by (assumption | rule kept)+

lemma telemetry_request_sound [kept]: "stepwise (env_gen e) I \<Longrightarrow> keeps (in_store I) (telemetry_request e a body)"
  unfolding telemetry_request_def by (assumption | rule kept)+

lemma completion_status_Some: "completion_status s = Some st \<Longrightarrow> st = CmdSucceeded \<or> st = CmdFailed"
  by (auto simp: completion_status_def split: if_splits)

lemma report_result_sound [kept]: "stepwise (env_gen e) I \<Longrightarrow> keeps (in_store I) (report_result e a i body)"
  unfolding report_result_def by (assumption | rule keeps_found kept completion_status_Some)+

section \<open>Verification of connectors\<close>

lemma check_remote_token_sound [kept]: "stepwise (env_gen e) I \<Longrightarrow> keeps (in_store I) (check_remote_token e c p)"
  unfolding check_remote_token_def by (assumption | rule kept)+

lemma check_remote_sound [kept]: "stepwise (env_gen e) I \<Longrightarrow> keeps (in_store I) (check_remote e c p)"
  unfolding check_remote_def by (assumption | rule kept)+

lemma verifyParsedConnectorIdentity_sound [kept]: "stepwise (env_gen e) I \<Longrightarrow> keeps (in_store I) (verifyParsedConnectorIdentity e p)"
  unfolding verifyParsedConnectorIdentity_def by (assumption | rule kept)+

lemma verifyConnectorToken_sound [kept]: "stepwise (env_gen e) I \<Longrightarrow> keeps (in_store I) (verifyConnectorToken e token)"
  unfolding verifyConnectorToken_def by (assumption | rule kept)+

lemma connectorIdentityForCreation_sound [kept]: "stepwise (env_gen e) I \<Longrightarrow> keeps (in_store I) (connectorIdentityForCreation e token submittedAccountId submittedTunnelId)"
  unfolding connectorIdentityForCreation_def by (assumption | rule kept)+

lemma mark_identity_sound [kept]: "stepwise (env_gen e) I \<Longrightarrow> keeps (in_store I) (mark_identity e i k v)"
  unfolding mark_identity_def by (assumption | rule kept)+

lemma verify_or_mark_sound [kept]: "stepwise (env_gen e) I \<Longrightarrow> keeps (in_store I) (verify_or_mark e i k p)"
  unfolding verify_or_mark_def by (assumption | rule kept)+

lemma record_verified_sound [kept]: "stepwise (env_gen e) I \<Longrightarrow> keeps (in_store I) (record_verified e i k v)"
  unfolding record_verified_def by (assumption | rule kept)+

lemma verify_token_sound [kept]: "stepwise (env_gen e) I \<Longrightarrow> keeps (in_store I) (verify_token e i k token)"
  unfolding verify_token_def by (assumption | rule kept)+

lemma verifyStoredConnector_sound [kept]: "stepwise (env_gen e) I \<Longrightarrow> keeps (in_store I) (verifyStoredConnector e i)"
  unfolding verifyStoredConnector_def by (assumption | rule kept)+

lemma reconcileConnectorIdentities_sound [kept]: "stepwise (env_gen e) I \<Longrightarrow> keeps (in_store I) (reconcileConnectorIdentities e running)"
  unfolding reconcileConnectorIdentities_def by (assumption | rule kept)+

section \<open>Reconciliation\<close>

lemma cloudflareClientForAccount_sound [kept]: "stepwise (env_gen e) I \<Longrightarrow> keeps (in_store I) (cloudflareClientForAccount e i)"
  unfolding cloudflareClientForAccount_def by (assumption | rule kept)+

lemma outcome_of_sound [kept]: "stepwise (env_gen e) I \<Longrightarrow> keeps (in_store I) (outcome_of e k i status lastError)"
  unfolding outcome_of_def by (assumption | rule kept)+

lemma mark_record_sound [kept]: "stepwise gen I \<Longrightarrow> keeps (in_store I) (mark_record k i rid status err)"
  unfolding mark_record_def by (assumption | rule kept)+

lemma mark_deleted_sound [kept]: "stepwise gen I \<Longrightarrow> keeps (in_store I) (mark_deleted k i rid)"
  unfolding mark_deleted_def by (assumption | rule kept)+

lemma save_record_sound [kept]: "stepwise (env_gen e) I \<Longrightarrow> keeps (in_store I) (save_record e k i item rid)"
  unfolding save_record_def by (assumption | rule kept)+

lemma deleteOwnedRecord_sound [kept]: "stepwise gen I \<Longrightarrow> keeps (in_store I) (deleteOwnedRecord c k i rid)"
  unfolding deleteOwnedRecord_def by (assumption | rule kept)+

lemma remove_recoverable_sound [kept]: "stepwise (env_gen e) I \<Longrightarrow> keeps (in_store I) (remove_recoverable e c k i r)"
  unfolding remove_recoverable_def by (assumption | rule kept)+

lemma change_ingress_sound [kept]: "stepwise gen I \<Longrightarrow> jkeeps (in_store I) (change_ingress c k f)"
  unfolding change_ingress_def by (assumption | rule kept)+

lemma withdraw_sound [kept]: "stepwise (env_gen e) I \<Longrightarrow> jkeeps (in_store I) (withdraw e c k i)"
  unfolding withdraw_def by (assumption | rule kept)+

lemma adopt_record_sound [kept]: "stepwise (env_gen e) I \<Longrightarrow> keeps (in_store I) (adopt_record e k i r y)"
  unfolding adopt_record_def by (assumption | rule kept)+

lemma drop_outdated_sound [kept]: "stepwise gen I \<Longrightarrow> keeps (in_store I) (drop_outdated c k i remote r owned)"
  unfolding drop_outdated_def by (assumption | rule kept)+

lemma create_record_sound [kept]: "stepwise gen I \<Longrightarrow> keeps (in_store I) (create_record c k item)"
  unfolding create_record_def by (assumption | rule kept)+

lemma create_or_recover_sound [kept]: "stepwise gen I \<Longrightarrow> keeps (in_store I) (create_or_recover c k remote item)"
  unfolding create_or_recover_def by (assumption | rule kept)+

lemma ensure_record_sound [kept]: "stepwise (env_gen e) I \<Longrightarrow> jkeeps (in_store I) (ensure_record e c k i owned item remote)"
  unfolding ensure_record_def by (assumption | rule kept)+

lemma publish_sound [kept]: "stepwise (env_gen e) I \<Longrightarrow> jkeeps (in_store I) (publish e c k i requireHttpsObservation)"
  unfolding publish_def by (assumption | rule kept)+

lemma undo_creation_sound [kept]: "stepwise gen I \<Longrightarrow> keeps (in_store I) (undo_creation c k i rid)"
  unfolding undo_creation_def by (assumption | rule kept)+

lemma restore_ingress_sound [kept]: "stepwise gen I \<Longrightarrow> keeps (in_store I) (restore_ingress c k ingress)"
  unfolding restore_ingress_def by (assumption | rule kept)+

lemma undo_sound [kept]: "stepwise (env_gen e) I \<Longrightarrow> keeps (in_store I) (undo e c k i x s)"
  unfolding undo_def by (assumption | rule kept)+

lemma reconcile_deployment_sound [kept]: "stepwise (env_gen e) I \<Longrightarrow> keeps (in_store I) (reconcile_deployment e k i requireHttpsObservation)"
  unfolding reconcile_deployment_def by (assumption | rule kept)+

lemma reconcileDomainAccess_sound [kept]: "stepwise (env_gen e) I \<Longrightarrow> keeps (in_store I) (reconcileDomainAccess e i requireHttpsObservation)"
  unfolding reconcileDomainAccess_def by (assumption | rule kept)+

section \<open>Sessions and users\<close>

lemma cookie_user_sound [kept]: "stepwise (env_gen e) I \<Longrightarrow> keeps (in_store I) (cookie_user e cookie)"
  unfolding cookie_user_def by (assumption | rule kept)+

lemma requireUser_sound [kept]: "stepwise (env_gen e) I \<Longrightarrow> keeps (in_store I) (requireUser e cookie role)"
  unfolding requireUser_def by (assumption | rule kept)+

lemma post_setup_sound [kept]: "stepwise (env_gen e) I \<Longrightarrow> keeps (in_store I) (post_setup e o' r)"
  unfolding post_setup_def by (assumption | rule kept)+

lemma login_sound [kept]: "stepwise (env_gen e) I \<Longrightarrow> keeps (in_store I) (login e o' r)"
  unfolding login_def by (assumption | rule kept)+

lemma logout_sound [kept]: "stepwise (env_gen e) I \<Longrightarrow> keeps (in_store I) (logout e r u)"
  unfolding logout_def by (assumption | rule kept)+

lemma get_me_sound [kept]: "stepwise gen I \<Longrightarrow> keeps (in_store I) (get_me u)"
  unfolding get_me_def by (assumption | rule kept)+

lemma get_configuration_sound [kept]: "stepwise gen I \<Longrightarrow> keeps (in_store I) (get_configuration o')"
  unfolding get_configuration_def by (assumption | rule kept)+

lemma listing_sound [kept]: "stepwise gen I \<Longrightarrow> keeps (in_store I) (listing f)"
  unfolding listing_def by (assumption | rule kept)+

lemma new_user_role_Some: "new_user_role s = Some role \<Longrightarrow> role \<noteq> Owner"
  by (auto simp: new_user_role_def split: if_splits)

lemma post_user_sound [kept]: "stepwise (env_gen e) I \<Longrightarrow> keeps (in_store I) (post_user e o' r)"
  unfolding post_user_def by (assumption | rule keeps_found kept new_user_role_Some)+

section \<open>Connectors, accounts, stacks and routes\<close>

lemma create_connector_sound [kept]: "stepwise (env_gen e) I \<Longrightarrow> keeps (in_store I) (create_connector e sealing name token enabled agentId identity)"
  unfolding create_connector_def by (assumption | rule kept)+

lemma post_connector_sound [kept]: "stepwise (env_gen e) I \<Longrightarrow> keeps (in_store I) (post_connector e r)"
  unfolding post_connector_def by (assumption | rule kept)+

lemma check_dependency_sound [kept]: "stepwise gen I \<Longrightarrow> keeps (in_store I) (check_dependency relevant kind i err)"
  unfolding check_dependency_def by (assumption | rule kept)+

lemma change_connector_sound [kept]: "stepwise (env_gen e) I \<Longrightarrow> keeps (in_store I) (change_connector e i name token enabled agentId submittedAccountId submittedTunnelId k)"
  unfolding change_connector_def by (assumption | rule kept)+

lemma patch_connector_sound [kept]: "stepwise (env_gen e) I \<Longrightarrow> keeps (in_store I) (patch_connector e r)"
  unfolding patch_connector_def by (assumption | rule kept)+

lemma post_connector_verify_sound [kept]: "stepwise (env_gen e) I \<Longrightarrow> keeps (in_store I) (post_connector_verify e r)"
  unfolding post_connector_verify_def by (assumption | rule kept)+

lemma create_account_sound [kept]: "stepwise (env_gen e) I \<Longrightarrow> keeps (in_store I) (create_account e b)"
  unfolding create_account_def by (assumption | rule kept)+

lemma patch_account_sound [kept]: "stepwise (env_gen e) I \<Longrightarrow> keeps (in_store I) (patch_account e r)"
  unfolding patch_account_def by (assumption | rule kept)+

lemma delete_account_sound [kept]: "stepwise gen I \<Longrightarrow> keeps (in_store I) (delete_account r)"
  unfolding delete_account_def by (assumption | rule kept)+

lemma for_account_sound [kept]: "stepwise gen I \<Longrightarrow> keeps (in_store I) m \<Longrightarrow> keeps (in_store I) (for_account operation m)"
  unfolding for_account_def by (assumption | rule kept)+

lemma post_account_test_sound [kept]: "stepwise (env_gen e) I \<Longrightarrow> keeps (in_store I) (post_account_test e r)"
  unfolding post_account_test_def by (assumption | rule kept)+

lemma sync_failed_sound [kept]: "stepwise (env_gen e) I \<Longrightarrow> keeps (in_store I) (sync_failed e i operation x)"
  unfolding sync_failed_def by (assumption | rule kept)+

lemma post_account_sync_sound [kept]: "stepwise (env_gen e) I \<Longrightarrow> keeps (in_store I) (post_account_sync e r)"
  unfolding post_account_sync_def by (assumption | rule kept)+

lemma get_zones_sound [kept]: "stepwise gen I \<Longrightarrow> keeps (in_store I) (get_zones r)"
  unfolding get_zones_def by (assumption | rule kept)+

lemma legacyStackMutation_sound [kept]: "stepwise gen I \<Longrightarrow> keeps (in_store I) (legacyStackMutation)"
  unfolding legacyStackMutation_def by (assumption | rule kept)+

lemma accepted_sound [kept]: "stepwise gen I \<Longrightarrow> keeps (in_store I) (accepted v active missing)"
  unfolding accepted_def by (assumption | rule kept)+

lemma post_stack_backup_sound [kept]: "stepwise (env_gen e) I \<Longrightarrow> keeps (in_store I) (post_stack_backup e r u)"
  unfolding post_stack_backup_def by (assumption | rule kept)+

lemma post_backup_restore_sound [kept]: "stepwise (env_gen e) I \<Longrightarrow> keeps (in_store I) (post_backup_restore e r u)"
  unfolding post_backup_restore_def by (assumption | rule kept)+

lemma post_route_sound [kept]: "stepwise (env_gen e) I \<Longrightarrow> keeps (in_store I) (post_route e o' r)"
  unfolding post_route_def by (assumption | rule kept)+

lemma patch_route_sound [kept]: "stepwise (env_gen e) I \<Longrightarrow> keeps (in_store I) (patch_route e o' r)"
  unfolding patch_route_def by (assumption | rule kept)+

section \<open>Notifications, agents and commands\<close>

lemma patch_notification_agent_sound [kept]: "stepwise (env_gen e) I \<Longrightarrow> keeps (in_store I) (patch_notification_agent e o' r u)"
  unfolding patch_notification_agent_def by (assumption | rule kept)+

lemma patch_notification_service_sound [kept]: "stepwise (env_gen e) I \<Longrightarrow> keeps (in_store I) (patch_notification_service e o' r u)"
  unfolding patch_notification_service_def by (assumption | rule kept)+

lemma put_telegram_sound [kept]: "stepwise (env_gen e) I \<Longrightarrow> keeps (in_store I) (put_telegram e r)"
  unfolding put_telegram_def by (assumption | rule kept)+

lemma post_telegram_test_sound [kept]: "stepwise (env_gen e) I \<Longrightarrow> keeps (in_store I) (post_telegram_test e)"
  unfolding post_telegram_test_def by (assumption | rule kept)+

lemma post_agent_sound [kept]: "stepwise (env_gen e) I \<Longrightarrow> keeps (in_store I) (post_agent e o' r)"
  unfolding post_agent_def by (assumption | rule kept)+

lemma delete_agent_sound [kept]: "stepwise (env_gen e) I \<Longrightarrow> keeps (in_store I) (delete_agent e r)"
  unfolding delete_agent_def by (assumption | rule kept)+

lemma post_enrollment_command_sound [kept]: "stepwise (env_gen e) I \<Longrightarrow> keeps (in_store I) (post_enrollment_command e o' r)"
  unfolding post_enrollment_command_def by (assumption | rule kept)+

lemma get_commands_sound [kept]: "stepwise gen I \<Longrightarrow> keeps (in_store I) (get_commands r)"
  unfolding get_commands_def by (assumption | rule kept)+

lemma get_command_sound [kept]: "stepwise gen I \<Longrightarrow> keeps (in_store I) (get_command r)"
  unfolding get_command_def by (assumption | rule kept)+

lemma post_diagnostics_sound [kept]: "stepwise (env_gen e) I \<Longrightarrow> keeps (in_store I) (post_diagnostics e r)"
  unfolding post_diagnostics_def by (assumption | rule kept)+

lemma post_command_sound [kept]: "stepwise (env_gen e) I \<Longrightarrow> keeps (in_store I) (post_command e r)"
  unfolding post_command_def by (assumption | rule kept)+

lemma get_log_request_sound [kept]: "stepwise gen I \<Longrightarrow> keeps (in_store I) (get_log_request r u)"
  unfolding get_log_request_def by (assumption | rule kept)+

lemma get_monitoring_sound [kept]: "stepwise (env_gen e) I \<Longrightarrow> keeps (in_store I) (get_monitoring e r)"
  unfolding get_monitoring_def by (assumption | rule kept)+

section \<open>Runtime and deployments\<close>

lemma inventory_of_sound [kept]: "stepwise (env_gen e) I \<Longrightarrow> keeps (in_store I) (inventory_of e agentId)"
  unfolding inventory_of_def by (assumption | rule kept)+

lemma queue_action_sound [kept]: "stepwise (env_gen e) I \<Longrightarrow> keeps (in_store I) (queue_action e u agentId projectName scope action serviceName)"
  unfolding queue_action_def by (assumption | rule kept)+

lemma post_runtime_action_sound [kept]: "stepwise (env_gen e) I \<Longrightarrow> keeps (in_store I) (post_runtime_action e r u)"
  unfolding post_runtime_action_def by (assumption | rule kept)+

lemma queue_logs_sound [kept]: "stepwise (env_gen e) I \<Longrightarrow> keeps (in_store I) (queue_logs e u agentId projectName serviceName tail since)"
  unfolding queue_logs_def by (assumption | rule kept)+

lemma post_runtime_logs_sound [kept]: "stepwise (env_gen e) I \<Longrightarrow> keeps (in_store I) (post_runtime_logs e r u)"
  unfolding post_runtime_logs_def by (assumption | rule kept)+

lemma get_runtime_logs_sound [kept]: "stepwise (env_gen e) I \<Longrightarrow> keeps (in_store I) (get_runtime_logs e r u)"
  unfolding get_runtime_logs_def by (assumption | rule kept)+

lemma post_preview_sound [kept]: "stepwise gen I \<Longrightarrow> keeps (in_store I) (post_preview o' r)"
  unfolding post_preview_def by (assumption | rule kept)+

lemma post_deployment_sound [kept]: "stepwise (env_gen e) I \<Longrightarrow> keeps (in_store I) (post_deployment e o' r u)"
  unfolding post_deployment_def by (assumption | rule kept)+

lemma find_deployment_sound [kept]: "stepwise gen I \<Longrightarrow> keeps (in_store I) (find_deployment i)"
  unfolding find_deployment_def by (assumption | rule kept)+

lemma post_revision_sound [kept]: "stepwise (env_gen e) I \<Longrightarrow> keeps (in_store I) (post_revision e o' r u)"
  unfolding post_revision_def by (assumption | rule kept)+

lemma queueDeploymentRun_sound [kept]: "stepwise (env_gen e) I \<Longrightarrow> keeps (in_store I) (queueDeploymentRun e action r u)"
  unfolding queueDeploymentRun_def by (assumption | rule kept)+

lemma get_deployment_run_sound [kept]: "stepwise gen I \<Longrightarrow> keeps (in_store I) (get_deployment_run r)"
  unfolding get_deployment_run_def by (assumption | rule kept)+

section \<open>Guided bootstrap\<close>

lemma set_operation_sound [kept]: "stepwise (env_gen e) I \<Longrightarrow> keeps (in_store I) (set_operation e i v)"
  unfolding set_operation_def by (assumption | rule kept)+

lemma update_operation_sound [kept]: "stepwise (env_gen e) I \<Longrightarrow> jkeeps (in_store I) (update_operation e v)"
  unfolding update_operation_def by (assumption | rule kept)+

lemma persist_operation_sound [kept]: "stepwise (env_gen e) I \<Longrightarrow> keeps (in_store I) (persist_operation e kind key userId b)"
  unfolding persist_operation_def by (assumption | rule kept)+

lemma find_account_sound [kept]: "stepwise gen I \<Longrightarrow> keeps (in_store I) (find_account i)"
  unfolding find_account_def by (assumption | rule kept)+

lemma find_connector_sound [kept]: "stepwise gen I \<Longrightarrow> keeps (in_store I) (find_connector i)"
  unfolding find_connector_def by (assumption | rule kept)+

lemma boot_account_sound [kept]: "stepwise (env_gen e) I \<Longrightarrow> jkeeps (in_store I) (boot_account e b s)"
  unfolding boot_account_def by (assumption | rule kept)+

lemma boot_tunnel_name_sound [kept]: "stepwise (env_gen e) I \<Longrightarrow> jkeeps (in_store I) (boot_tunnel_name e s)"
  unfolding boot_tunnel_name_def by (assumption | rule kept)+

lemma boot_tunnel_sound [kept]: "stepwise (env_gen e) I \<Longrightarrow> jkeeps (in_store I) (boot_tunnel e c s tunnelName)"
  unfolding boot_tunnel_def by (assumption | rule kept)+

lemma boot_connector_sound [kept]: "stepwise (env_gen e) I \<Longrightarrow> jkeeps (in_store I) (boot_connector e s account tunnelId connectorToken)"
  unfolding boot_connector_def by (assumption | rule kept)+

lemma run_bootstrap_sound [kept]: "stepwise (env_gen e) I \<Longrightarrow> jkeeps (in_store I) (run_bootstrap e b s created)"
  unfolding run_bootstrap_def by (assumption | rule kept)+

lemma bootstrap_failed_sound [kept]: "stepwise (env_gen e) I \<Longrightarrow> keeps (in_store I) (bootstrap_failed e x g)"
  unfolding bootstrap_failed_def by (assumption | rule kept)+

lemma ready_agent_sound [kept]: "stepwise (env_gen e) I \<Longrightarrow> keeps (in_store I) (ready_agent e i err)"
  unfolding ready_agent_def by (assumption | rule kept)+

lemma post_managed_account_sound [kept]: "stepwise (env_gen e) I \<Longrightarrow> keeps (in_store I) (post_managed_account e r u b)"
  unfolding post_managed_account_def by (assumption | rule kept)+

lemma post_account_sound [kept]: "stepwise (env_gen e) I \<Longrightarrow> keeps (in_store I) (post_account e r u)"
  unfolding post_account_def by (assumption | rule kept)+

section \<open>Publications\<close>

lemma find_access_sound [kept]: "stepwise gen I \<Longrightarrow> keeps (in_store I) (find_access i)"
  unfolding find_access_def by (assumption | rule kept)+

lemma active_zone_sound [kept]: "stepwise gen I \<Longrightarrow> keeps (in_store I) (active_zone accountId zoneId)"
  unfolding active_zone_def by (assumption | rule kept)+

lemma stored_request_sound [kept]: "stepwise (env_gen e) I \<Longrightarrow> keeps (in_store I) (stored_request e g)"
  unfolding stored_request_def by (assumption | rule kept)+

lemma check_publication_sound [kept]: "stepwise gen I \<Longrightarrow> keeps (in_store I) (check_publication p rt)"
  unfolding check_publication_def by (assumption | rule kept)+

lemma pending_access_sound [kept]: "stepwise (env_gen e) I \<Longrightarrow> jkeeps (in_store I) (pending_access e p rt)"
  unfolding pending_access_def by (assumption | rule kept)+

lemma run_publish_sound [kept]: "stepwise (env_gen e) I \<Longrightarrow> jkeeps (in_store I) (run_publish e o' b rt)"
  unfolding run_publish_def by (assumption | rule kept)+

lemma publish_failed_sound [kept]: "stepwise (env_gen e) I \<Longrightarrow> keeps (in_store I) (publish_failed e o' x g)"
  unfolding publish_failed_def by (assumption | rule kept)+

lemma publish_route_sound [kept]: "stepwise (env_gen e) I \<Longrightarrow> keeps (in_store I) (publish_route e o' g b rt)"
  unfolding publish_route_def by (assumption | rule kept)+

lemma continueGuidedPublish_sound [kept]: "stepwise (env_gen e) I \<Longrightarrow> keeps (in_store I) (continueGuidedPublish e o' operationId requestedByUserId)"
  unfolding continueGuidedPublish_def by (assumption | rule kept)+

lemma guided_route_sound [kept]: "stepwise (env_gen e) I \<Longrightarrow> keeps (in_store I) (guided_route e q g)"
  unfolding guided_route_def by (assumption | rule kept)+

lemma post_domain_publish_sound [kept]: "stepwise (env_gen e) I \<Longrightarrow> keeps (in_store I) (post_domain_publish e o' r u)"
  unfolding post_domain_publish_def by (assumption | rule kept)+

lemma post_publish_reconcile_sound [kept]: "stepwise (env_gen e) I \<Longrightarrow> keeps (in_store I) (post_publish_reconcile e o' r u)"
  unfolding post_publish_reconcile_def by (assumption | rule kept)+

lemma access_request_of_sound [kept]: "stepwise gen I \<Longrightarrow> keeps (in_store I) (access_request_of b legacy)"
  unfolding access_request_of_def by (assumption | rule kept)+

lemma enabled_account_sound [kept]: "stepwise gen I \<Longrightarrow> keeps (in_store I) (enabled_account i)"
  unfolding enabled_account_def by (assumption | rule kept)+

lemma access_zone_sound [kept]: "stepwise gen I \<Longrightarrow> keeps (in_store I) (access_zone accountId zoneId)"
  unfolding access_zone_def by (assumption | rule kept)+

lemma access_route_sound [kept]: "stepwise gen I \<Longrightarrow> keeps (in_store I) (access_route q z)"
  unfolding access_route_def by (assumption | rule kept)+

lemma createDomainAccess_sound [kept]: "stepwise (env_gen e) I \<Longrightarrow> keeps (in_store I) (createDomainAccess e r legacy)"
  unfolding createDomainAccess_def by (assumption | rule kept)+

lemma updateDomainAccess_sound [kept]: "stepwise (env_gen e) I \<Longrightarrow> keeps (in_store I) (updateDomainAccess e r)"
  unfolding updateDomainAccess_def by (assumption | rule kept)+

lemma post_access_reconcile_sound [kept]: "stepwise (env_gen e) I \<Longrightarrow> keeps (in_store I) (post_access_reconcile e r)"
  unfolding post_access_reconcile_def by (assumption | rule kept)+

lemma observePublicCertificates_sound [kept]: "stepwise (env_gen e) I \<Longrightarrow> keeps (in_store I) (observePublicCertificates e o')"
  unfolding observePublicCertificates_def by (assumption | rule kept)+

lemma verification_succeeded_sound [kept]: "stepwise (env_gen e) I \<Longrightarrow> keeps (in_store I) (verification_succeeded e g rt a)"
  unfolding verification_succeeded_def by (assumption | rule kept)+

lemma verification_failed_sound [kept]: "stepwise (env_gen e) I \<Longrightarrow> keeps (in_store I) (verification_failed e g a err)"
  unfolding verification_failed_def by (assumption | rule kept)+

lemma verify_publication_sound [kept]: "stepwise (env_gen e) I \<Longrightarrow> keeps (in_store I) (verify_publication e o' g)"
  unfolding verify_publication_def by (assumption | rule kept)+

lemma reconcileGuidedVerifications_sound [kept]: "stepwise (env_gen e) I \<Longrightarrow> keeps (in_store I) (reconcileGuidedVerifications e o')"
  unfolding reconcileGuidedVerifications_def by (assumption | rule kept)+

section \<open>System recovery\<close>

lemma keeps_node [kept]:
  "(\<And>x y. keeps I (f x y)) \<Longrightarrow> keeps I a \<Longrightarrow> (\<And>x. keeps I (g x)) \<Longrightarrow> keeps I (case v of Regular x y \<Rightarrow> f x y | Directory \<Rightarrow> a | Symlink x \<Rightarrow> g x)"
  by (cases v) simp_all

lemma keeps_import_claim [kept]:
  "(\<And>x. keeps I (f x)) \<Longrightarrow> keeps I a \<Longrightarrow> keeps I b
    \<Longrightarrow> keeps I (case v of ImportClaimed x \<Rightarrow> f x | ImportValidating \<Rightarrow> a | ImportNotClaimable \<Rightarrow> b)"
  by (cases v) simp_all

lemma keeps_bool [kept]: "keeps I a \<Longrightarrow> keeps I b \<Longrightarrow> keeps I (case v of True \<Rightarrow> a | False \<Rightarrow> b)"
  by (cases v) simp_all

lemma step_finish_import [kept]:
  "step gen d (snd (finishSystemBackupImport now i n ImImported b err d))" "step gen d (snd (finishSystemBackupImport now i n ImRejected b err d))"
  by (rule step.finishSystemBackupImport; simp)+

lemma refuse_sound [kept]: "stepwise gen I \<Longrightarrow> keeps (in_store I) (refuse f)"
  unfolding refuse_def by (assumption | rule kept)+

lemma demand_sound [kept]: "stepwise gen I \<Longrightarrow> keeps (in_store I) (demand c f)"
  unfolding demand_def by (assumption | rule kept)+

lemma lstat_or_null_sound [kept]: "stepwise gen I \<Longrightarrow> keeps (in_store I) (lstat_or_null p)"
  unfolding lstat_or_null_def by (assumption | rule kept)+

lemma requireRegularFile_sound [kept]: "stepwise gen I \<Longrightarrow> keeps (in_store I) (requireRegularFile p m)"
  unfolding requireRegularFile_def by (assumption | rule kept)+

lemma sha256File_sound [kept]: "stepwise (env_gen e) I \<Longrightarrow> keeps (in_store I) (sha256File e p)"
  unfolding sha256File_def by (assumption | rule kept)+

lemma write_new_sound [kept]: "stepwise (env_gen e) I \<Longrightarrow> keeps (in_store I) (write_new e p bs)"
  unfolding write_new_def by (assumption | rule kept)+

lemma read_text_sound [kept]: "stepwise gen I \<Longrightarrow> keeps (in_store I) (read_text p)"
  unfolding read_text_def by (assumption | rule kept)+

lemma temporary_directory_sound [kept]: "stepwise gen I \<Longrightarrow> keeps (in_store I) (temporary_directory r prefix)"
  unfolding temporary_directory_def by (assumption | rule kept)+

lemma syncDirectory_sound [kept]: "stepwise gen I \<Longrightarrow> keeps (in_store I) (syncDirectory p)"
  unfolding syncDirectory_def by (assumption | rule kept)+

lemma runTool_sound [kept]: "stepwise gen I \<Longrightarrow> keeps (in_store I) (runTool f)"
  unfolding runTool_def by (assumption | rule kept)+

lemma runPostgresTool_sound [kept]: "stepwise gen I \<Longrightarrow> keeps (in_store I) (runPostgresTool r f)"
  unfolding runPostgresTool_def by (assumption | rule kept)+

lemma ensureTarget_sound [kept]: "stepwise gen I \<Longrightarrow> keeps (in_store I) (ensureTarget r b t)"
  unfolding ensureTarget_def by (assumption | rule kept)+

lemma encryptFile_sound [kept]: "stepwise (env_gen e) I \<Longrightarrow> keeps (in_store I) (encryptFile e r p q pass)"
  unfolding encryptFile_def by (assumption | rule kept)+

lemma decipher_sound [kept]: "stepwise (env_gen e) I \<Longrightarrow> keeps (in_store I) (decipher e r p q pass)"
  unfolding decipher_def by (assumption | rule kept)+

lemma decryptFile_sound [kept]: "stepwise (env_gen e) I \<Longrightarrow> keeps (in_store I) (decryptFile e r p q pass)"
  unfolding decryptFile_def by (assumption | rule kept)+

lemma validateArchive_sound [kept]: "stepwise gen I \<Longrightarrow> keeps (in_store I) (validateArchive r b)"
  unfolding validateArchive_def by (assumption | rule kept)+

lemma unpack_sound [kept]: "stepwise gen I \<Longrightarrow> keeps (in_store I) (unpack r b dir)"
  unfolding unpack_def by (assumption | rule kept)+

lemma validateExtractedFiles_sound [kept]: "stepwise gen I \<Longrightarrow> keeps (in_store I) (validateExtractedFiles dir)"
  unfolding validateExtractedFiles_def by (assumption | rule kept)+

lemma inspect_bundle_sound [kept]: "stepwise (env_gen e) I \<Longrightarrow> keeps (in_store I) (inspect_bundle e r dir p pass ex)"
  unfolding inspect_bundle_def by (assumption | rule kept)+

lemma inspectArtifact_sound [kept]: "stepwise (env_gen e) I \<Longrightarrow> keeps (in_store I) (inspectArtifact e r p pass ex)"
  unfolding inspectArtifact_def by (assumption | rule kept)+

lemma pack_sound [kept]: "stepwise gen I \<Longrightarrow> keeps (in_store I) (pack r dir b)"
  unfolding pack_def by (assumption | rule kept)+

lemma build_backup_sound [kept]: "stepwise (env_gen e) I \<Longrightarrow> keeps (in_store I) (build_backup e r t b p q dir i pass)"
  unfolding build_backup_def by (assumption | rule kept)+

lemma backup_failed_sound [kept]: "stepwise (env_gen e) I \<Longrightarrow> keeps (in_store I) (backup_failed e q i x)"
  unfolding backup_failed_def by (assumption | rule kept)+

lemma create_backup_sound [kept]: "stepwise (env_gen e) I \<Longrightarrow> keeps (in_store I) (create_backup e r u t pass)"
  unfolding create_backup_def by (assumption | rule kept)+

lemma text_or_empty_sound [kept]: "stepwise gen I \<Longrightarrow> keeps (in_store I) (text_or_empty p)"
  unfolding text_or_empty_def by (assumption | rule kept)+

lemma removeOwnedLock_sound [kept]: "stepwise gen I \<Longrightarrow> keeps (in_store I) (removeOwnedLock r t)"
  unfolding removeOwnedLock_def by (assumption | rule kept)+

lemma remove_marker_sound [kept]: "stepwise gen I \<Longrightarrow> keeps (in_store I) (remove_marker r t)"
  unfolding remove_marker_def by (assumption | rule kept)+

lemma rollback_sound [kept]: "stepwise gen I \<Longrightarrow> keeps (in_store I) (rollback r s a b)"
  unfolding rollback_def by (assumption | rule kept)+

lemma take_lock_sound [kept]: "stepwise (env_gen e) I \<Longrightarrow> keeps (in_store I) (take_lock e r t)"
  unfolding take_lock_def by (assumption | rule kept)+

lemma no_active_marker_sound [kept]: "stepwise gen I \<Longrightarrow> keeps (in_store I) (no_active_marker r)"
  unfolding no_active_marker_def by (assumption | rule kept)+

lemma undo_stage_sound [kept]: "stepwise gen I \<Longrightarrow> keeps (in_store I) (undo_stage r s a x)"
  unfolding undo_stage_def by (assumption | rule kept)+

lemma prepareStage_sound [kept]: "stepwise (env_gen e) I \<Longrightarrow> keeps (in_store I) (prepareStage e r p i)"
  unfolding prepareStage_def by (assumption | rule kept)+

lemma publish_stage_sound [kept]: "stepwise (env_gen e) I \<Longrightarrow> keeps (in_store I) (publish_stage e r s i n c j)"
  unfolding publish_stage_def by (assumption | rule kept)+

lemma vetted_stage_sound [kept]: "stepwise (env_gen e) I \<Longrightarrow> keeps (in_store I) (vetted_stage e r dir b i pass)"
  unfolding vetted_stage_def by (assumption | rule kept)+

lemma stage_failed_sound [kept]: "stepwise (env_gen e) I \<Longrightarrow> keeps (in_store I) (stage_failed e i u x)"
  unfolding stage_failed_def by (assumption | rule kept)+

lemma abandon_stage_sound [kept]: "stepwise (env_gen e) I \<Longrightarrow> keeps (in_store I) (abandon_stage e r s i m x)"
  unfolding abandon_stage_def by (assumption | rule kept)+

lemma stage_vetted_sound [kept]: "stepwise (env_gen e) I \<Longrightarrow> keeps (in_store I) (stage_vetted e r dir b i u pass)"
  unfolding stage_vetted_def by (assumption | rule kept)+

lemma stageRestore_sound [kept]: "stepwise (env_gen e) I \<Longrightarrow> keeps (in_store I) (stageRestore e r i u pass)"
  unfolding stageRestore_def by (assumption | rule kept)+

lemma openArtifactNoFollow_sound [kept]: "stepwise gen I \<Longrightarrow> keeps (in_store I) (openArtifactNoFollow b p)"
  unfolding openArtifactNoFollow_def by (assumption | rule kept)+

lemma sha256Handle_sound [kept]: "stepwise (env_gen e) I \<Longrightarrow> keeps (in_store I) (sha256Handle e p n)"
  unfolding sha256Handle_def by (assumption | rule kept)+

lemma exportArtifact_sound [kept]: "stepwise (env_gen e) I \<Longrightarrow> keeps (in_store I) (exportArtifact e r i u)"
  unfolding exportArtifact_def by (assumption | rule kept)+

lemma receive_sound [kept]: "stepwise (env_gen e) I \<Longrightarrow> keeps (in_store I) (receive e p m n ab cs got)"
proof (induction cs arbitrary: got)
  case Nil
  show ?case unfolding receive.simps by (rule kept)+
next
  case (Cons c cs)
  show ?case unfolding receive.simps by (assumption | rule kept Cons)+
qed

lemma recovered_sound [kept]: "stepwise gen I \<Longrightarrow> keeps (in_store I) m \<Longrightarrow> keeps (in_store I) (recovered m)"
  unfolding recovered_def by (assumption | rule kept)+

lemma store_upload_sound [kept]: "stepwise (env_gen e) I \<Longrightarrow> keeps (in_store I) (store_upload e r p q i n cs ab)"
  unfolding store_upload_def by (assumption | rule kept)+

lemma upload_failed_sound [kept]: "stepwise (env_gen e) I \<Longrightarrow> keeps (in_store I) (upload_failed e p q i x)"
  unfolding upload_failed_def by (assumption | rule kept)+

lemma uploadImport_sound [kept]: "stepwise (env_gen e) I \<Longrightarrow> keeps (in_store I) (uploadImport e r u cs ab n)"
  unfolding uploadImport_def by (assumption | rule kept)+

lemma as_uuid_sound [kept]: "stepwise gen I \<Longrightarrow> keeps (in_store I) (as_uuid v)"
  unfolding as_uuid_def by (assumption | rule kept)+

lemma finish_validation_sound [kept]: "stepwise (env_gen e) I \<Longrightarrow> keeps (in_store I) (finish_validation e u i b idem)"
  unfolding finish_validation_def by (assumption | rule kept)+

lemma adopt_import_sound [kept]: "stepwise (env_gen e) I \<Longrightarrow> keeps (in_store I) (adopt_import e r u i n c j)"
  unfolding adopt_import_def by (assumption | rule kept)+

lemma vet_import_sound [kept]: "stepwise (env_gen e) I \<Longrightarrow> keeps (in_store I) (vet_import e r u i n c pass)"
  unfolding vet_import_def by (assumption | rule kept)+

lemma import_rejected_sound [kept]: "stepwise (env_gen e) I \<Longrightarrow> keeps (in_store I) (import_rejected e i x)"
  unfolding import_rejected_def by (assumption | rule kept)+

lemma validateImport_sound [kept]: "stepwise (env_gen e) I \<Longrightarrow> keeps (in_store I) (validateImport e r i u pass)"
  unfolding validateImport_def by (assumption | rule kept)+

lemma clean_partial_sound [kept]: "stepwise (env_gen e) I \<Longrightarrow> keeps (in_store I) (clean_partial e r n)"
  unfolding clean_partial_def by (assumption | rule kept)+

lemma cleanupStaleImports_sound [kept]: "stepwise (env_gen e) I \<Longrightarrow> keeps (in_store I) (cleanupStaleImports e r)"
  unfolding cleanupStaleImports_def by (assumption | rule kept)+

lemma publishRecoveryRequest_sound [kept]: "stepwise (env_gen e) I \<Longrightarrow> keeps (in_store I) (publishRecoveryRequest e r t tok)"
  unfolding publishRecoveryRequest_def by (assumption | rule kept)+

lemma request_failed_sound [kept]: "stepwise (env_gen e) I \<Longrightarrow> keeps (in_store I) (request_failed e i t x)"
  unfolding request_failed_def by (assumption | rule kept)+

lemma send_request_sound [kept]: "stepwise (env_gen e) I \<Longrightarrow> keeps (in_store I) (send_request e r k i b u)"
  unfolding send_request_def by (assumption | rule kept)+

lemma found_or_sound [kept]: "keeps I (found_or v f)"
  by (simp add: found_or_def refuse_def keeps_def throw_def give_def split: option.split)

lemma request_for_sound [kept]: "stepwise (env_gen e) I \<Longrightarrow> keeps (in_store I) (request_for e r k u pass s b)"
  unfolding request_for_def by (assumption | rule kept)+

lemma requestApply_sound [kept]: "stepwise (env_gen e) I \<Longrightarrow> keeps (in_store I) (requestApply e r i u c pass)"
  unfolding requestApply_def by (assumption | rule kept)+

lemma get_export_sound [kept]: "stepwise (env_gen e) I \<Longrightarrow> keeps (in_store I) (get_export e o' n r u)"
  unfolding get_export_def by (assumption | rule kept)+

lemma post_import_sound [kept]: "stepwise (env_gen e) I \<Longrightarrow> keeps (in_store I) (post_import e o' r u)"
  unfolding post_import_def by (assumption | rule kept)+

lemma passphrase_of_sound [kept]: "stepwise gen I \<Longrightarrow> keeps (in_store I) (passphrase_of r)"
  unfolding passphrase_of_def by (assumption | rule kept)+

lemma post_import_validate_sound [kept]: "stepwise (env_gen e) I \<Longrightarrow> keeps (in_store I) (post_import_validate e o' r u)"
  unfolding post_import_validate_def by (assumption | rule kept)+

lemma post_system_backup_sound [kept]: "stepwise (env_gen e) I \<Longrightarrow> keeps (in_store I) (post_system_backup e o' r u)"
  unfolding post_system_backup_def by (assumption | rule kept)+

lemma post_stage_restore_sound [kept]: "stepwise (env_gen e) I \<Longrightarrow> keeps (in_store I) (post_stage_restore e o' r u)"
  unfolding post_stage_restore_def by (assumption | rule kept)+

lemma post_request_apply_sound [kept]: "stepwise (env_gen e) I \<Longrightarrow> keeps (in_store I) (post_request_apply e o' r u)"
  unfolding post_request_apply_def by (assumption | rule kept)+

section \<open>Requests and passes\<close>

lemma answered_sound [kept]: "stepwise gen I \<Longrightarrow> keeps (in_store I) m \<Longrightarrow> keeps (in_store I) (answered m)"
  unfolding answered_def by (assumption | rule kept)+

lemma with_status_sound [kept]: "stepwise gen I \<Longrightarrow> keeps (in_store I) m \<Longrightarrow> keeps (in_store I) (with_status s m)"
  unfolding with_status_def by (assumption | rule kept)+

lemma as_user_sound [kept]: "stepwise (env_gen e) I \<Longrightarrow> (\<And>u. keeps (in_store I) (m u)) \<Longrightarrow> keeps (in_store I) (as_user e r role m)"
  unfolding as_user_def by (assumption | rule kept)+

lemma as_agent_sound [kept]: "stepwise (env_gen e) I \<Longrightarrow> (\<And>a. keeps (in_store I) (m a)) \<Longrightarrow> keeps (in_store I) (as_agent e r m)"
  unfolding as_agent_def by (assumption | rule kept)+

lemma serve_users_sound: "stepwise (env_gen e) I \<Longrightarrow> keeps (in_store I) (serve_users e o' r p)"
  unfolding serve_users_def by (cases p; simp only: user_route.case; (assumption | rule kept)+)

lemma serve_cloudflare_sound: "stepwise (env_gen e) I \<Longrightarrow> keeps (in_store I) (serve_cloudflare e r p)"
  unfolding serve_cloudflare_def by (cases p; simp only: cloudflare_route.case; (assumption | rule kept)+)

lemma serve_domains_sound: "stepwise (env_gen e) I \<Longrightarrow> keeps (in_store I) (serve_domains e o' r p)"
  unfolding serve_domains_def by (cases p; simp only: domain_route.case; (assumption | rule kept)+)

lemma serve_runtime_sound: "stepwise (env_gen e) I \<Longrightarrow> keeps (in_store I) (serve_runtime e o' r p)"
  unfolding serve_runtime_def by (cases p; simp only: runtime_route.case; (assumption | rule kept)+)

lemma serve_stacks_sound: "stepwise (env_gen e) I \<Longrightarrow> keeps (in_store I) (serve_stacks e o' r p)"
  unfolding serve_stacks_def by (cases p; simp only: stack_route.case; (assumption | rule kept)+)

lemma serve_operations_sound: "stepwise (env_gen e) I \<Longrightarrow> keeps (in_store I) (serve_operations e o' r p)"
  unfolding serve_operations_def by (cases p; simp only: operation_route.case; (assumption | rule kept)+)

lemma serve_agents_sound: "stepwise (env_gen e) I \<Longrightarrow> keeps (in_store I) (serve_agents e r p)"
  unfolding serve_agents_def by (cases p; simp only: agent_route.case; (assumption | rule kept)+)

lemma serve_recovery_sound: "stepwise (env_gen e) I \<Longrightarrow> keeps (in_store I) (serve_recovery e o' r p)"
  unfolding serve_recovery_def by (cases p; simp only: recovery_route.case; (assumption | rule kept)+)

lemmas serve_group_sound = serve_users_sound serve_cloudflare_sound serve_domains_sound serve_runtime_sound serve_stacks_sound
  serve_operations_sound serve_agents_sound serve_recovery_sound

lemma serve_sound: "stepwise (env_gen e) I \<Longrightarrow> keeps (in_store I) (serve e o' r p)"
  unfolding serve_def by (cases p) (simp_all add: serve_group_sound)

text \<open>
  What the server does: it answers a request or runs one of its passes, the store performs an operation on
  behalf of another part of the program, or remote services become ready to answer. While a handler
  waits for an answer the other requests have their turn; they only use the operations of the store.
\<close>

definition well_behaved :: "(nat \<Rightarrow> uuid) \<Rightarrow> ('a \<times> (db \<Rightarrow> db)) list \<Rightarrow> bool" where
  "well_behaved gen as \<longleftrightarrow> (\<forall>(a, others) \<in> set as. \<forall>d. (step gen)\<^sup>*\<^sup>* d (others d))"

inductive runs :: "(nat \<Rightarrow> uuid) \<Rightarrow> options \<Rightarrow> world \<Rightarrow> world \<Rightarrow> bool" for gen o' where
  request: "env_gen e = gen \<Longrightarrow> runs gen o' w (snd (respond e o' r p w))"
| identity_pass: "env_gen e = gen \<Longrightarrow> runs gen o' w (snd (reconcileConnectorIdentities e running w))"
| certificate_pass: "env_gen e = gen \<Longrightarrow> runs gen o' w (snd (observePublicCertificates e o' w))"
| verification_pass: "env_gen e = gen \<Longrightarrow> runs gen o' w (snd (reconcileGuidedVerifications e o' w))"
| upload_pass: "env_gen e = gen \<Longrightarrow> opt_recovery o' = Some c \<Longrightarrow> runs gen o' w (snd (cleanupStaleImports e c w))"
| store_step: "step gen (store w) d \<Longrightarrow> runs gen o' w (w\<lparr>store := d\<rparr>)"
| remote: "well_behaved gen as \<Longrightarrow> runs gen o' w (w\<lparr>answers := as\<rparr>)"
| pausing: "well_behaved gen ps \<Longrightarrow> runs gen o' w (w\<lparr>pauses := ps, drawn := n\<rparr>)"

inductive history :: "(nat \<Rightarrow> uuid) \<Rightarrow> options \<Rightarrow> world \<Rightarrow> bool" for gen o' where
  begins: "history gen o' \<lparr>store = empty_db, answers = [], sent = [], disk = d, pauses = [], drawn = 0\<rparr>"
| continues: "history gen o' w \<Longrightarrow> runs gen o' w w' \<Longrightarrow> history gen o' w'"

lemma respond_world: "snd (respond e o' r p w) = snd (serve e o' r p w)"
  by (simp add: respond_def split: prod.split sum.split)

context stepwise
begin

lemma steps_kept: "(step gen)\<^sup>*\<^sup>* d d' \<Longrightarrow> I d \<Longrightarrow> I d'"
  by (induction rule: rtranclp_induct) (auto intro: step_kept)

lemma well_behaved_kept: "well_behaved gen as \<Longrightarrow> (a, others) \<in> set as \<Longrightarrow> I d \<Longrightarrow> I (others d)"
  by (rule steps_kept [of d]) (force simp: well_behaved_def)

lemma run_kept: "runs gen o' w w' \<Longrightarrow> in_store I w \<Longrightarrow> in_store I w'"
proof (induction rule: runs.induct)
  case (request e w r p)
  have "stepwise (env_gen e) I" using stepwise_axioms request(1) by simp
  from keepsD [OF serve_sound [OF this] request(2)] show ?case by (simp add: respond_world)
next
  case (store_step w d)
  then show ?case by (auto simp: in_store_def intro: step_kept)
next
  case (remote as w)
  then show ?case by (auto simp: in_store_def intro: well_behaved_kept)
next
  case (pausing ps w n)
  then show ?case by (auto simp: in_store_def intro: well_behaved_kept)
next
  case (upload_pass e c w)
  then show ?case using stepwise_axioms by (intro keepsD [OF cleanupStaleImports_sound]) simp_all
next
  case (identity_pass e w running)
  then show ?case using stepwise_axioms by (intro keepsD [OF reconcileConnectorIdentities_sound]) simp_all
next
  case (certificate_pass e w)
  then show ?case using stepwise_axioms by (intro keepsD [OF observePublicCertificates_sound]) simp_all
next
  case (verification_pass e w)
  then show ?case using stepwise_axioms by (intro keepsD [OF reconcileGuidedVerifications_sound]) simp_all
qed

lemma history_kept: "history gen o' w \<Longrightarrow> I empty_db \<Longrightarrow> in_store I w"
proof (induction rule: history.induct)
  case (begins d)
  then show ?case by (simp add: in_store_def)
next
  case (continues w w')
  then show ?case by (simp add: run_kept)
qed

end

section \<open>The store after any history\<close>

text \<open>C3. Whatever the server has been asked and whatever the remote services answered, its store is one that the operations
  of its interface can reach, so every invariant of such stores holds of it: each operation under way is tied to a live command of an
  enabled agent, there is at most one owner, and e-mail addresses are unique.\<close>

theorem requests_keep_the_invariants:
  assumes "history gen o' w" "inj gen"
  shows "reachable gen (store w)
    \<and> (\<forall>l \<in> live_links (store w). \<exists>c \<in> set (commands (store w)). carries c l \<and> agent_enabled (cmd_agent_id c) (store w))
    \<and> length (filter (\<lambda>u. usr_role u = Owner) (users (store w))) \<le> 1
    \<and> distinct (map (\<lambda>u. lower (usr_email u)) (users (store w)))"
proof -
  have "reachable gen (store w)" using reached.history_kept [OF assms(1) reachable.start] by (simp add: in_store_def)
  note ok = reachable_okD [OF assms(2) this]
  have "\<exists>c \<in> set (commands (store w)). carries c l \<and> agent_enabled (cmd_agent_id c) (store w)" if l: "l \<in> live_links (store w)" for l
  proof -
    from ok(5) l obtain c where c: "c \<in> set (commands (store w))" "carries c l" by (auto simp: links_ok_def)
    with ok(4) carries_live [OF c(2)] show ?thesis by (auto simp: owners_ok_def)
  qed
  with \<open>reachable gen (store w)\<close> ok(1) at_most_one_of [of "\<lambda>u. usr_role u = Owner" usr_role "users (store w)" Owner] show ?thesis
    by (auto simp: users_ok_def unique_where_def cong: conj_cong)
qed

definition setup_request :: http_in where
  "setup_request = blank_request\<lparr>in_body := Some (JObj [(''email'', JStr ''O@x.org''), (''password'', JStr ''correct horse'')])\<rparr>"

definition fresh_world :: world where
  "fresh_world = \<lparr>store = empty_db, answers = [], sent = [], disk = [], pauses = [], drawn = 0\<rparr>"

theorem requests_keep_the_invariants_witness:
  "reachable unary (store (snd (respond sample_api sample_options setup_request (Users PostSetup) fresh_world)))"
proof -
  have "history unary sample_options fresh_world" unfolding fresh_world_def by (rule history.begins)
  moreover have "runs unary sample_options fresh_world (snd (respond sample_api sample_options setup_request (Users PostSetup) fresh_world))"
    by (rule runs.request) simp
  ultimately have "history unary sample_options (snd (respond sample_api sample_options setup_request (Users PostSetup) fresh_world))"
    by (rule history.continues)
  from requests_keep_the_invariants [OF this inj_unary] show ?thesis by simp
qed

end
