(* ===== verification/Gw_Guards.thy ===== *)
theory Gw_Guards
  imports Gw_Kept
begin

text \<open>
  Who may do what: the role that each route of the console needs, and what follows for requests without
  a session, of somebody with a lesser role, and of a viewer.
\<close>

section \<open>The access table\<close>

definition public_endpoints :: "endpoint list" where
  "public_endpoints = map Users [GetSetupStatus, PostSetup, PostLogin]
     @ map AgentApi [PostEnroll, PostHeartbeat, PostTelemetry, GetAgentCommands, PostResult]"

definition viewer_endpoints :: "endpoint list" where
  "viewer_endpoints = map Users [PostLogout, GetMe, GetConfiguration] @ map Cf [GetConnectors, GetAccounts, GetZones]
     @ map Domains [GetDomainAccess, GetPublicHostnames]
     @ map Runtime [GetRuntimeProjects, GetRuntimeOperations, GetDeployments, GetDeploymentRun]
     @ map Stacks [GetStacks, GetRoutes, GetBackups, GetRestores]
     @ map Operations [GetTelegram, GetTopology, GetAgents, GetCommands, GetCommand, GetMonitoringSummary, GetMonitoring]"

definition owner_endpoints :: "endpoint list" where
  "owner_endpoints = map Users [GetUsers, PostUser] @ [Cf DeleteAccount]
     @ map Runtime [PostPreview, PostDeployment, PostRevision, PostDeploy, PostRollback, PostStop]
     @ [Stacks PostBackupRestore] @ map Operations [PutTelegram, PostTelegramTest, DeleteAgent]"

definition needs :: "endpoint \<Rightarrow> Role option" where
  "needs p =
     (if p \<in> set public_endpoints then None
      else if p \<in> set viewer_endpoints then Some Viewer
      else if p \<in> set owner_endpoints \<or> (case p of SystemRecovery _ \<Rightarrow> True | _ \<Rightarrow> False) then Some Owner
      else Some Operator)"

lemmas access_table = needs_def public_endpoints_def viewer_endpoints_def owner_endpoints_def

section \<open>What only touches sessions\<close>

definition calm :: "world \<Rightarrow> world \<Rightarrow> bool" where
  "calm v w \<longleftrightarrow> (\<exists>ss. w = v\<lparr>store := (store v)\<lparr>sessions := ss\<rparr>\<rparr>)"

lemma calm_refl [simp]: "calm v v"
  unfolding calm_def by (rule exI [of _ "sessions (store v)"]) simp

lemma calm_deleteSession: "keeps (calm v) (changes (deleteSession h))"
  by (auto simp: keeps_def calm_def changes_def writes_def deleteSession_def)

lemma calm_logout: "keeps (calm v) (logout e r u)"
  unfolding logout_def by (intro keeps_rules calm_deleteSession)

lemma calm_listing: "keeps (calm v) (listing f)"
  unfolding listing_def by (intro keeps_rules)

lemma calm_handlers:
  "keeps (calm v) (get_me u)" "keeps (calm v) (get_configuration o')" "keeps (calm v) (get_zones r)"
  "keeps (calm v) (get_deployment_run r)" "keeps (calm v) (get_commands r)" "keeps (calm v) (get_command r)"
  "keeps (calm v) (get_monitoring e r)"
  unfolding get_me_def get_configuration_def get_zones_def get_deployment_run_def get_commands_def get_command_def get_monitoring_def
  by (intro keeps_rules)+

lemma calm_answered: "keeps (calm v) m \<Longrightarrow> keeps (calm v) (answered m)"
  unfolding answered_def by (intro keeps_rules)

lemmas calm_rules = calm_answered calm_logout calm_listing calm_handlers

text \<open>A route of the console is its guard and a handler; the handler of a viewer's route only touches sessions.\<close>

definition guarded :: "api \<Rightarrow> http_in \<Rightarrow> Role \<Rightarrow> nat handler \<Rightarrow> bool" where
  "guarded e r role m \<longleftrightarrow>
     (\<exists>h. m = chain (requireUser e (in_cookie r) role) h \<and> (role = Viewer \<longrightarrow> (\<forall>u v. keeps (calm v) (h u))))"

lemma guarded_as_user: "(role = Viewer \<longrightarrow> (\<forall>u v. keeps (calm v) (m u))) \<Longrightarrow> guarded e r role (as_user e r role m)"
  unfolding guarded_def as_user_def by (intro exI conjI refl) (auto intro: calm_answered)

lemma guarded_viewer: "(\<And>u v. keeps (calm v) (m u)) \<Longrightarrow> guarded e r Viewer (as_user e r Viewer m)"
  and guarded_operator: "guarded e r Operator (as_user e r Operator m')"
  and guarded_owner: "guarded e r Owner (as_user e r Owner m')"
  by (simp_all add: guarded_as_user)

lemmas guarded_rules = guarded_viewer guarded_operator guarded_owner calm_rules

lemma serve_guarded:
  assumes "needs p = Some role"
  shows "guarded e r role (serve e o' r p)"
proof (cases p)
  case (Users q)
  with assms show ?thesis by (cases q) (simp_all add: access_table serve_def serve_users_def guarded_rules)
next
  case (Cf q)
  with assms show ?thesis by (cases q) (simp_all add: access_table serve_def serve_cloudflare_def guarded_rules)
next
  case (Domains q)
  with assms show ?thesis by (cases q) (simp_all add: access_table serve_def serve_domains_def guarded_rules)
next
  case (Runtime q)
  with assms show ?thesis by (cases q) (simp_all add: access_table serve_def serve_runtime_def guarded_rules)
next
  case (Stacks q)
  with assms show ?thesis by (cases q) (simp_all add: access_table serve_def serve_stacks_def guarded_rules)
next
  case (Operations q)
  with assms show ?thesis by (cases q) (simp_all add: access_table serve_def serve_operations_def guarded_rules)
next
  case (AgentApi q)
  with assms show ?thesis by (cases q) (simp_all add: access_table)
next
  case (SystemRecovery q)
  with assms show ?thesis by (cases q) (auto simp: access_table serve_def serve_recovery_def guarded_rules)
qed

section \<open>The guard\<close>

text \<open>What a look at a session leaves of it.\<close>

definition session_key :: "session_row \<Rightarrow> string \<times> uuid \<times> time" where
  "session_key s = (ses_token_hash s, ses_user_id s, ses_expires_at s)"

lemma cookie_user_run:
  obtains found ss where "cookie_user e c w = (Inr found, w\<lparr>store := (store w)\<lparr>sessions := ss\<rparr>\<rparr>)"
    "map session_key ss = map session_key (sessions (store w))"
proof (cases "c = None \<or> c = Some []")
  case True
  then have "cookie_user e c w = (Inr None, w\<lparr>store := (store w)\<lparr>sessions := sessions (store w)\<rparr>\<rparr>)"
    by (auto simp: cookie_user_def give_def)
  then show thesis by (rule that) simp
next
  case False
  then obtain t where t: "c = Some t" "t \<noteq> []" by (cases c) auto
  show thesis
    by (rule that [of "fst (findSessionUser (env_now e) (hashToken (env_sha256 e) t) (store w))"
          "sessions (snd (findSessionUser (env_now e) (hashToken (env_sha256 e) t) (store w)))"])
      (auto simp: t cookie_user_def writes_def findSessionUser_def Let_def update_rows_def session_key_def)
qed

lemma cookie_user_effect:
  assumes "cookie_user e c w = (found, w')"
  obtains ss where "w' = w\<lparr>store := (store w)\<lparr>sessions := ss\<rparr>\<rparr>" "map session_key ss = map session_key (sessions (store w))"
  using cookie_user_run [of e c w] assms by (metis prod.inject)

lemma requireUser_run:
  assumes "cookie_user e c w = (Inr found, w')"
  shows "requireUser e c role w = (case found of
      None \<Rightarrow> (Inl (Api authentication_required), w')
    | Some u \<Rightarrow> (if canAccess (User_role u) role then Inr u else Inl (Api permission_denied), w'))"
  using assms by (auto simp: requireUser_def chain_def the_or_def require_def give_def throw_def split: option.split)

lemma guarded_run:
  assumes "guarded e r role m" "cookie_user e (in_cookie r) w = (Inr found, w')"
  obtains h where "m w = (case found of
      None \<Rightarrow> (Inl (Api authentication_required), w')
    | Some u \<Rightarrow> if canAccess (User_role u) role then h u w' else (Inl (Api permission_denied), w'))"
    "role = Viewer \<longrightarrow> (\<forall>u v. keeps (calm v) (h u))"
  using assms(1) unfolding guarded_def
  by (elim exE conjE) (rule that, auto simp: chain_def requireUser_run [OF assms(2)] split: option.split)

lemma refusal_status: "fst (error_reply (Api authentication_required)) = 401" "fst (error_reply (Api permission_denied)) = 403"
  by (simp_all add: error_reply_def authentication_required_def permission_denied_def)

section \<open>Properties\<close>

text \<open>C5. A request of a route of the console without a valid session is answered with 401, and one of somebody whose role is less than
  the route needs with 403; either way nothing is sent to any remote service, and nothing in the store changes but when
  the sessions were last seen.\<close>

theorem unauthorized_requests_are_refused:
  assumes "needs p = Some role" "cookie_user e (in_cookie r) w = (Inr found, w1)"
    and "\<And>u. found = Some u \<Longrightarrow> \<not> canAccess (User_role u) role"
  shows "fst (respond e o' r p w) = (if found = None then 401 else 403)
    \<and> (\<exists>ss. snd (respond e o' r p w) = w\<lparr>store := (store w)\<lparr>sessions := ss\<rparr>\<rparr> \<and> map session_key ss = map session_key (sessions (store w)))"
proof -
  obtain h where h: "serve e o' r p w = (case found of
      None \<Rightarrow> (Inl (Api authentication_required), w1)
    | Some u \<Rightarrow> if canAccess (User_role u) role then h u w1 else (Inl (Api permission_denied), w1))"
    by (rule guarded_run [OF serve_guarded [OF assms(1)] assms(2)])
  obtain ss where "w1 = w\<lparr>store := (store w)\<lparr>sessions := ss\<rparr>\<rparr>" "map session_key ss = map session_key (sessions (store w))"
    using assms(2) by (rule cookie_user_effect)
  with h assms(3) show ?thesis by (cases found) (auto simp: respond_def refusal_status)
qed

theorem unauthorized_requests_are_refused_witness:
  "fst (respond sample_api sample_options blank_request (Users PostUser) (sample_world 1)) = 401"
proof -
  have "cookie_user sample_api (in_cookie blank_request) (sample_world 1) = (Inr None, sample_world 1)"
    by (simp add: cookie_user_def blank_request_def give_def)
  from unauthorized_requests_are_refused [OF _ this, of "Users PostUser" Owner sample_options] show ?thesis
    by (simp add: access_table)
qed

text \<open>C6. A viewer looks and touches nothing: whatever route of the console the request of a viewer names and whatever it carries, no
  request is sent to a remote service and nothing in the store changes but sessions.\<close>

theorem viewers_change_nothing:
  assumes "needs p \<noteq> None" "cookie_user e (in_cookie r) w = (Inr (Some u), w1)" "User_role u = Viewer"
  shows "\<exists>ss. snd (respond e o' r p w) = w\<lparr>store := (store w)\<lparr>sessions := ss\<rparr>\<rparr>"
proof -
  from assms(1) obtain role where role: "needs p = Some role" by blast
  obtain h where h: "serve e o' r p w = (if canAccess (User_role u) role then h u w1 else (Inl (Api permission_denied), w1))"
      and v: "role = Viewer \<longrightarrow> (\<forall>u v. keeps (calm v) (h u))"
    by (rule guarded_run [OF serve_guarded [OF role] assms(2)]) simp
  obtain ss where "w1 = w\<lparr>store := (store w)\<lparr>sessions := ss\<rparr>\<rparr>" using assms(2) by (rule cookie_user_effect)
  then have w1: "calm w w1" by (auto simp: calm_def)
  have "calm w (snd (serve e o' r p w))"
  proof (cases "role = Viewer")
    case True
    with v w1 h show ?thesis by (auto simp: keeps_def)
  next
    case False
    then have "\<not> canAccess (User_role u) role" using assms(3) by (cases role) (simp_all add: canAccess_def)
    with h w1 show ?thesis by simp
  qed
  then show ?thesis by (simp add: calm_def respond_world)
qed

text \<open>A world with a viewer who has a session.\<close>

definition viewer_world :: world where
  "viewer_world = (sample_world 1)\<lparr>store := (sample 1)\<lparr>
     users := [\<lparr>usr_id = unary 9, usr_email = ''v@x'', usr_password_hash = ''pw'', usr_role = Viewer, usr_created_at = 0\<rparr>],
     sessions := [\<lparr>ses_user_id = unary 9, ses_token_hash = ''hash'', ses_expires_at = 100, ses_last_seen_at = 0\<rparr>]\<rparr>\<rparr>"

definition removal_request :: http_in where
  "removal_request = blank_request\<lparr>in_cookie := Some ''cookie'', in_id := Some (unary 1)\<rparr>"

theorem viewers_change_nothing_witness:
  "agents (store (snd (respond sample_api sample_options removal_request (Operations DeleteAgent) viewer_world))) = agents (store viewer_world)"
proof -
  obtain u w where u: "cookie_user sample_api (in_cookie removal_request) viewer_world = (Inr (Some u), w)" "User_role u = Viewer"
    by (simp add: cookie_user_def removal_request_def viewer_world_def writes_def findSessionUser_def Let_def hashToken_def sample_api_def user_def)
  have "needs (Operations DeleteAgent) \<noteq> None" by (simp add: access_table)
  from viewers_change_nothing [OF this u, of sample_options] show ?thesis by auto
qed

end
