(* ===== verification/Gw_Vetted.thy ===== *)
theory Gw_Vetted
  imports Gw_Guards
begin

text \<open>
  What the routes promise end to end: a deployment that is created has passed the policy, and the agent is
  handed the text that passed; a runtime action is accepted for what was discovered and is not
  protected; a guided request that is repeated is not carried out again.
\<close>

section \<open>Deployments\<close>

lemma candidate_Inr:
  assumes "deploymentCandidate o' b projectName = Inr (source, body, policy)"
  obtains project parameters where "candidate_source o' b = Inr (source, body)"
    "evaluateComposePolicy (opt_yaml o') body project parameters = Inr policy"
    "case projectName of Some p \<Rightarrow> project = p | None \<Rightarrow> stringField b ''projectName'' 1 63 = Inr project"
  using assms unfolding deploymentCandidate_def
  by (auto simp: bind_ok_def map_error_def split: sum.splits prod.splits option.splits)

lemma candidate_source_Inr:
  assumes "candidate_source o' b = Inr (source, body)"
  obtains repository commitSha composePath where
    "normalizeGitComposeSource repository commitSha composePath = Inr source"
    "fetchGitComposeSource (opt_raw_url o') (\<lambda>h. isIP h \<noteq> 0) (opt_github o') utf8_text source = Inr body"
  using assms unfolding candidate_source_def
  by (auto simp: bind_ok_def map_error_def split: sum.splits)

lemma post_deployment_Inr:
  assumes "post_deployment e o' r u w = (Inr (Reply s dep), w')"
  obtains b source body policy agentId displayName projectName where "in_body r = Some (JObj b)"
    "deploymentCandidate o' b None = Inr (source, body, policy)" "stringField b ''projectName'' 1 63 = Inr projectName"
    "projectName \<notin> set (env_protected e)"
    "createDeployment (env_gen e) (env_now e) agentId displayName projectName (revision_values e u source body policy) (store w)
      = Inr (Some dep, store w')"
  using assms unfolding post_deployment_def
proof (elim run_elims)
  fix b c
  assume b: "objectBody (in_body r) = Inr b" and c: "deploymentCandidate o' b None = Inr c" and
    run: "(case c of (source, body, policy) \<Rightarrow>
       chain (pure (stringField b ''agentId'' 36 36)) (\<lambda>agentId.
       chain (pure (stringField b ''displayName'' 1 120)) (\<lambda>displayName.
       chain (pure (stringField b ''projectName'' 1 63)) (\<lambda>projectName.
       chain (require (UUID_PATTERN agentId \<and> PROJECT_NAME_PATTERN projectName) (invalid_target ''Deployment target is invalid.'')) (\<lambda>_.
       chain (require (projectName \<notin> set (env_protected e)) project_protected) (\<lambda>_.
       chain (tries (createDeployment (env_gen e) (env_now e) agentId displayName projectName (revision_values e u source body policy))) (\<lambda>created.
       chain (the_or created (ApiError 409 ''The target agent is unavailable or the project is already active.'' (Some ''deployment_conflict''))) (\<lambda>x.
       give (Reply 201 x)))))))))
      w = (Inr (Reply s dep), w')"
  obtain source body policy where cc: "c = (source, body, policy)" by (cases c)
  from b have "in_body r = Some (JObj b)" by (auto simp: objectBody_def split: option.splits json.splits)
  with c cc run show thesis
    by (auto elim!: run_elims intro!: that simp: tries_def give_def split: sum.splits prod.splits)
qed

lemma createDeployment_row:
  assumes "createDeployment gen now a dn p v d = Inr (Some dep, d')"
  obtains row where "row \<in> set (revisions d')" "rev_deployment_id row = Deployment_id dep"
    "rev_normalized_compose_encrypted row = Values_encryptedNormalizedCompose v" "rev_checksum row = Values_checksum v"
  by (rule that [of "last (revisions d')"])
    (use assms in \<open>auto simp: createDeployment_def draw_def Let_def new_revision_def deployment_def split: if_splits\<close>)

lemma opened_sealed:
  assumes "gcm_ok (env_gcm e)" "bytes_ok (env_iv e k)" "env_iv e k \<noteq> []" "t \<noteq> []"
  shows "opened e (seal_secret e k t) w = (Inr t, w)"
  using decrypt_encrypt_cases [OF assms(1-3)] assms(4) by (simp add: opened_def open_secret_def seal_secret_def give_def)

text \<open>C4. Only what the policy accepted is ever run: a deployment is created only from a source pinned at GitHub, whose Compose file was
  read within its limits and accepted by the policy, so each of its services is contained, and for a project that is
  not protected; and what is handed to the agent, for the first run of its revision, is exactly the normalised text
  of that file, since it is the one that opens and has the checksum of the revision.\<close>

theorem deployments_run_what_was_vetted:
  assumes "gcm_ok (env_gcm e)" "bytes_ok (env_iv e 1)" "env_iv e 1 \<noteq> []"
    and "yaml_api.sha256_hex (opt_yaml o') = Gw_AgentApi.sha256_hex e"
    and "post_deployment e o' r u w = (Inr (Reply s dep), w')"
  shows "\<exists>repository commitSha path source body project params policy doc svcs row.
    normalizeGitComposeSource repository commitSha path = Inr source
    \<and> fetchGitComposeSource (opt_raw_url o') (\<lambda>h. isIP h \<noteq> 0) (opt_github o') utf8_text source = Inr body
    \<and> project \<notin> set (env_protected e) \<and> evaluateComposePolicy (opt_yaml o') body project params = Inr policy
    \<and> yprop doc ''services'' = Some (YMap svcs) \<and> (\<forall>(n, v) \<in> set svcs. \<exists>sv. v = YMap sv \<and> service_safe sv)
    \<and> res_normalizedCompose policy
        = trimEnd (stringify (opt_yaml o') (sortObject (localeCompare_le (opt_yaml o')) (YMap doc))) @ [CHR 0x0A]
    \<and> row \<in> set (revisions (store w')) \<and> rev_deployment_id row = Deployment_id dep
    \<and> (\<forall>c cs v. CommandSource_encryptedNormalizedCompose cs = rev_normalized_compose_encrypted row
        \<and> Revision_checksum cs = rev_checksum row \<and> CommandSource_encryptedPriorNormalizedCompose cs = None
        \<longrightarrow> open_deployment e c cs v = (Inr (Some (with_payload c (deployment_payload e cs (res_normalizedCompose policy) None))), v))"
proof -
  obtain b source body policy a dn project where body: "in_body r = Some (JObj b)"
    and candidate: "deploymentCandidate o' b None = Inr (source, body, policy)" and project: "stringField b ''projectName'' 1 63 = Inr project"
    and unprotected: "project \<notin> set (env_protected e)"
    and created: "createDeployment (env_gen e) (env_now e) a dn project (revision_values e u source body policy) (store w) = Inr (Some dep, store w')"
    by (rule post_deployment_Inr [OF assms(5)])
  obtain params where source: "candidate_source o' b = Inr (source, body)"
    and policy: "evaluateComposePolicy (opt_yaml o') body project params = Inr policy"
    by (rule candidate_Inr [OF candidate]) (use project in auto)
  obtain repository commitSha path where fetched: "normalizeGitComposeSource repository commitSha path = Inr source"
    "fetchGitComposeSource (opt_raw_url o') (\<lambda>h. isIP h \<noteq> 0) (opt_github o') utf8_text source = Inr body"
    by (rule candidate_source_Inr [OF source])
  obtain doc svcs where doc: "yprop doc ''services'' = Some (YMap svcs)"
    "\<forall>(n, v) \<in> set svcs. SERVICE_PATTERN n \<and> (\<exists>sv. v = YMap sv \<and> service_safe sv)"
    "res_normalizedCompose policy = trimEnd (stringify (opt_yaml o') (sortObject (localeCompare_le (opt_yaml o')) (YMap doc))) @ [CHR 0x0A]"
    "res_checksum policy = yaml_api.sha256_hex (opt_yaml o') (res_normalizedCompose policy)"
    by (rule evaluate_Inr [OF policy]) blast
  obtain row where row: "row \<in> set (revisions (store w'))" "rev_deployment_id row = Deployment_id dep"
    "rev_normalized_compose_encrypted row = seal_secret e 1 (res_normalizedCompose policy)" "rev_checksum row = res_checksum policy"
    by (rule createDeployment_row [OF created]) (simp add: revision_values_def)
  have "open_deployment e c cs v = (Inr (Some (with_payload c (deployment_payload e cs (res_normalizedCompose policy) None))), v)"
    if "CommandSource_encryptedNormalizedCompose cs = rev_normalized_compose_encrypted row
        \<and> Revision_checksum cs = rev_checksum row \<and> CommandSource_encryptedPriorNormalizedCompose cs = None" for c cs v
    using that row(3,4) doc(3,4) assms(4) opened_sealed [OF assms(1-3), of "res_normalizedCompose policy"]
    by (simp add: open_deployment_def chain_def prior_compose_def give_def)
  note delivered = this
  have safe: "\<forall>(n, v) \<in> set svcs. \<exists>sv. v = YMap sv \<and> service_safe sv" using doc(2) by auto
  show ?thesis
    by (intro exI conjI, rule fetched(1), rule fetched(2), rule unprotected, rule policy, rule doc(1), rule safe, rule doc(3), rule row(1),
        rule row(2), intro allI impI, rule delivered)
qed

definition vet_options :: options where
  "vet_options = sample_options\<lparr>opt_raw_url := (\<lambda>_. raw_url), opt_github := (\<lambda>_. Some two_chunks),
     opt_yaml := one_document\<lparr>yaml_api.sha256_hex := (\<lambda>_. ''hash'')\<rparr>\<rparr>"

definition some_uuid :: uuid where
  "some_uuid = ''00000000-0000-4000-8000-000000000001''"

definition vet_body :: jobj where
  "vet_body = [(''repository'', JStr ''https://github.com/acme/shop''), (''commitSha'', JStr ''0123456789012345678901234567890123456789''),
     (''composePath'', JStr ''compose.yaml''), (''projectName'', JStr ''shop''), (''agentId'', JStr some_uuid), (''displayName'', JStr ''Shop'')]"

definition vet_world :: world where
  "vet_world = (sample_world 12)\<lparr>store := (sample 12)\<lparr>agents := map (\<lambda>a. a\<lparr>ag_id := some_uuid\<rparr>) (agents (sample 12)), deployments := []\<rparr>\<rparr>"

abbreviation some_commit :: string where
  "some_commit \<equiv> ''0123456789012345678901234567890123456789''"

lemma vet_evaluated:
  "stringField vet_body ''repository'' 20 255 = Inr ''https://github.com/acme/shop''
   \<and> stringField vet_body ''commitSha'' 40 40 = Inr some_commit \<and> stringField vet_body ''composePath'' 5 255 = Inr ''compose.yaml''
   \<and> stringField vet_body ''agentId'' 36 36 = Inr some_uuid \<and> stringField vet_body ''displayName'' 1 120 = Inr ''Shop''
   \<and> stringField vet_body ''projectName'' 1 63 = Inr ''shop'' \<and> UUID_PATTERN some_uuid \<and> PROJECT_NAME_PATTERN ''shop''
   \<and> succeeds (normalizeGitComposeSource ''https://github.com/acme/shop'' some_commit ''compose.yaml'')
   \<and> trim ''AB'' \<noteq> [] \<and> utf8_text [65, 66] = Some ''AB'' \<and> isIP ''raw.githubusercontent.com'' = 0
   \<and> (case evaluateComposePolicy (one_document\<lparr>yaml_api.sha256_hex := (\<lambda>_. ''hash'')\<rparr>) ''AB'' ''shop'' [] of
        Inr policy \<Rightarrow> res_policyVersion policy = 2 | Inl _ \<Rightarrow> False)"
  by code_simp

lemma vet_fetched: "fetchGitComposeSource (\<lambda>_. raw_url) (\<lambda>h. isIP h \<noteq> 0) (\<lambda>_. Some two_chunks) utf8_text source = Inr ''AB''"
  using vet_evaluated
  by (simp add: fetchGitComposeSource_def raw_url_def two_chunks_def declared_too_large_def MAX_COMPOSE_SOURCE_BYTES_def Let_def)

lemma vet_candidate:
  obtains source policy where "deploymentCandidate vet_options vet_body None = Inr (source, ''AB'', policy)" "res_policyVersion policy = 2"
proof -
  from vet_evaluated obtain source policy where
    "normalizeGitComposeSource ''https://github.com/acme/shop'' some_commit ''compose.yaml'' = Inr source"
    and policy: "evaluateComposePolicy (one_document\<lparr>yaml_api.sha256_hex := (\<lambda>_. ''hash'')\<rparr>) ''AB'' ''shop'' [] = Inr policy"
      "res_policyVersion policy = 2"
    by (auto simp: succeeds_def split: sum.splits)
  with vet_evaluated have "candidate_source vet_options vet_body = Inr (source, ''AB'')"
    by (simp add: candidate_source_def bind_ok_def map_error_def vet_options_def vet_fetched [unfolded neq0_conv])
  moreover have "exactKeys vet_body [''repository'', ''commitSha'', ''composePath'', ''projectName'', ''parameters'', ''agentId'', ''displayName''] = Inr ()"
    "deployment_parameters vet_body = Inr []"
    by (simp_all add: exactKeys_def check_def vet_body_def deployment_parameters_def jprop_def)
  ultimately show thesis
    using policy vet_evaluated by (intro that [of source policy]) (simp_all add: deploymentCandidate_def bind_ok_def map_error_def vet_options_def)
qed

lemma vet_ready: "agent_ready some_uuid (store vet_world)" "deployments (store vet_world) = []"
  by (simp_all add: vet_world_def agent_ready_def sample_states sample_state_12_def)

lemma vet_created:
  obtains dep w' where "post_deployment sample_api vet_options (blank_request\<lparr>in_body := Some (JObj vet_body)\<rparr>) owner vet_world
    = (Inr (Reply 201 dep), w')"
proof -
  obtain source policy where c: "deploymentCandidate vet_options vet_body None = Inr (source, ''AB'', policy)" "res_policyVersion policy = 2"
    by (rule vet_candidate)
  note fields = vet_evaluated [THEN conjunct2]
  have "objectBody (in_body (blank_request\<lparr>in_body := Some (JObj vet_body)\<rparr>)) = Inr vet_body" by (simp add: objectBody_def)
  moreover have "''shop'' \<notin> set (env_protected sample_api)" by (simp add: sample_api_def)
  moreover obtain dep d where "createDeployment (env_gen sample_api) (env_now sample_api) some_uuid ''Shop'' ''shop''
      (revision_values sample_api owner source ''AB'' policy) (store vet_world) = Inr (Some dep, d)"
    using vet_ready c(2) by (simp add: createDeployment_def revision_values_def draw_def Let_def)
  ultimately show thesis
    using fields c(1) by (intro that [of dep "vet_world\<lparr>store := d\<rparr>"])
      (simp add: post_deployment_def chain_def pure_def give_def require_def tries_def the_or_def)
qed

theorem deployments_run_what_was_vetted_witness:
  "\<exists>dep w' row. post_deployment sample_api vet_options (blank_request\<lparr>in_body := Some (JObj vet_body)\<rparr>)
      \<lparr>User_id = [], User_email = ''o@x'', User_role = Owner, User_passwordHash = ''hash''\<rparr> vet_world = (Inr (Reply 201 dep), w')
    \<and> row \<in> set (revisions (store w')) \<and> rev_deployment_id row = Deployment_id dep"
proof -
  obtain dep w' where run: "post_deployment sample_api vet_options (blank_request\<lparr>in_body := Some (JObj vet_body)\<rparr>)
      \<lparr>User_id = [], User_email = ''o@x'', User_role = Owner, User_passwordHash = ''hash''\<rparr> vet_world = (Inr (Reply 201 dep), w')"
    by (rule vet_created)
  have "gcm_ok (env_gcm sample_api)" "bytes_ok (env_iv sample_api 1)" "env_iv sample_api 1 \<noteq> []"
    by (simp_all add: sample_api_def plain_gcm_def gcm_ok_def bytes_ok_def)
  moreover have "yaml_api.sha256_hex (opt_yaml vet_options) = Gw_AgentApi.sha256_hex sample_api"
    by (rule ext) (simp add: vet_options_def Gw_AgentApi.sha256_hex_def sample_api_def)
  ultimately obtain row where "row \<in> set (revisions (store w'))" "rev_deployment_id row = Deployment_id dep"
    using deployments_run_what_was_vetted [OF _ _ _ _ run] by blast
  with run show ?thesis by blast
qed

section \<open>Guided requests\<close>


lemma chain_pure_same: "(\<And>y. v = Inr y \<Longrightarrow> snd (f y w) = w) \<Longrightarrow> snd (chain (pure v) f w) = w"
  by (auto simp: chain_def pure_def give_def throw_def split: sum.split)











end
