(* ===== verification/Gw_Vault.thy ===== *)
theory Gw_Vault
  imports Gw_Imports
begin

text \<open>
  What the service of system recovery achieves on the disk: a backup that was created can be opened again and passes the
  checks of a restore; what is staged has passed them; a request to apply a restore is signed and never replaces
  another one.
\<close>

section \<open>Operations that succeeded\<close>

named_theorems ran \<open>what an operation that succeeded did to the disk\<close>

lemma io_ran:
  assumes "io f w = (Inr y, w')"
  obtains x where "f x (disk w) = (Inr y, disk w')"
proof (cases "pauses w")
  case Nil
  with assms show thesis by (intro that [of None]) (auto simp: io_def ended_def split: prod.splits sum.splits)
next
  case (Cons p later)
  with assms show thesis by (intro that [of "fst p"]) (auto simp: io_def ended_def split: prod.splits sum.splits)
qed

lemma sure_ran: "io (sure f) w = (Inr y, w') \<Longrightarrow> f (disk w) = (Inr y, disk w')"
  by (erule io_ran) (simp add: sure_Inr)

lemma tool_ran: "tool f w = (Inr y, w') \<Longrightarrow> f (store w) = Some y \<and> disk w' = disk w"
  by (auto simp: tool_def Let_def split: list.splits option.splits prod.splits)

lemma lstat_ran: "io (lstat p) w = (Inr n, w') \<Longrightarrow> disk w' = disk w \<and> map_of (disk w) p = Some n"
  unfolding lstat_def by (drule sure_ran) (auto split: option.splits)

lemma read_ran: "io (read_file p) w = (Inr bs, w') \<Longrightarrow> disk w' = disk w \<and> (\<exists>t. target_of 40 (disk w) p = Some (Regular bs t))"
  unfolding read_file_def by (drule sure_ran) (auto split: option.splits node.splits simp del: target_of.simps)

lemma read_ran_at:
  assumes "io (read_file p) w = (Inr bs, w')" "map_of (disk w) p = Some (Regular cs t)"
  shows "disk w' = disk w \<and> bs = cs"
proof -
  have "target_of (Suc 39) (disk w) p = Some (Regular cs t)" by (rule read_regular) (rule assms(2))
  with read_ran [OF assms(1)] show ?thesis by simp
qed

lemma updated: "AList.update p n d = d' \<Longrightarrow> map_of d' = (map_of d)(p \<mapsto> n)"
  by (auto simp: update_conv')

lemma create_ran: "io (create_file now p) w = (Inr y, w') \<Longrightarrow>
    map_of (disk w) p = None \<and> map_of (disk w') = (map_of (disk w))(p \<mapsto> Regular [] now)"
  unfolding create_file_def by (drule sure_ran) (auto dest!: updated split: if_splits)

lemma append_ran: "io (append_file now p bs) w = (Inr y, w') \<Longrightarrow>
    \<exists>old t. map_of (disk w) p = Some (Regular old t) \<and> map_of (disk w') = (map_of (disk w))(p \<mapsto> Regular (old @ bs) now)"
  by (erule io_ran) (auto simp: append_file_def dest!: updated split: option.splits node.splits)

lemma write_new_ran: "write_new e p bs w = (Inr y, w') \<Longrightarrow>
    map_of (disk w) p = None \<and> map_of (disk w') = (map_of (disk w))(p \<mapsto> Regular bs (env_now e))"
  unfolding write_new_def by (erule chain_InrE) (auto dest!: create_ran append_ran)

lemma put_ran: "io (put_node p n) w = (Inr y, w') \<Longrightarrow> map_of (disk w') = (map_of (disk w))(p \<mapsto> n)"
  unfolding put_node_def by (drule sure_ran) (auto dest!: updated split: if_splits)

lemma put_file_ran: "io (put_file now p bs) w = (Inr y, w') \<Longrightarrow> map_of (disk w') = (map_of (disk w))(p \<mapsto> Regular bs now)"
  unfolding put_file_def by (drule sure_ran) (auto dest!: updated split: if_splits)

lemma touch_ran: "io (touch p) w = (Inr y, w') \<Longrightarrow> disk w' = disk w"
  unfolding touch_def by (drule sure_ran) (auto split: if_splits)

lemma mkdtemp_ran: "io (mkdtemp p) w = (Inr y, w') \<Longrightarrow> map_of (disk w) p = None \<and> map_of (disk w') = (map_of (disk w))(p \<mapsto> Directory)"
  unfolding mkdtemp_def by (drule sure_ran) (auto dest!: updated split: if_splits)

lemma make_each_adds: "make_each ps d = (y, d') \<Longrightarrow> (\<forall>q n. map_of d q = Some n \<longrightarrow> map_of d' q = Some n)
    \<and> (\<forall>q. map_of d' q = map_of d q \<or> map_of d' q = Some Directory)"
proof (induction ps arbitrary: d)
  case (Cons p ps)
  show ?case
  proof (cases "map_of d p")
    case None
    with Cons.prems have "make_each ps (AList.update p Directory d) = (y, d')" by simp
    from Cons.IH [OF this] None show ?thesis by (simp add: update_conv') (metis option.distinct(1))
  next
    case (Some n)
    with Cons show ?thesis by (cases n) simp_all
  qed
qed simp

lemma mkdir_ran: "io (mkdir p) w = (Inr y, w') \<Longrightarrow> (\<forall>q n. map_of (disk w) q = Some n \<longrightarrow> map_of (disk w') q = Some n)
    \<and> (\<forall>q. map_of (disk w') q = map_of (disk w) q \<or> map_of (disk w') q = Some Directory)"
  unfolding mkdir_def by (drule sure_ran) (erule make_each_adds)

lemma lstat_or_null_ran: "lstat_or_null p w = (r, w') \<Longrightarrow> disk w' = disk w \<and> (\<forall>n. r = Inr (Some n) \<longrightarrow> map_of (disk w) p = Some n)"
  unfolding lstat_or_null_def attempt_def chain_def give_def io_def ended_def lstat_def sure_def
  by (auto split: prod.splits sum.splits list.splits option.splits)

lemma requireRegularFile_ran:
  assumes "requireRegularFile p m w = (Inr n, w')"
  shows "disk w' = disk w \<and> (\<exists>bs t. map_of (disk w) p = Some (Regular bs t) \<and> n = length bs)"
  using assms unfolding requireRegularFile_def
  by (elim chain_InrE) (auto dest!: lstat_or_null_ran simp: refuse_def throw_def give_def split: option.splits node.splits)

lemma sha256File_ran_at:
  assumes "sha256File e p w = (Inr h, w')" "map_of (disk w) p = Some (Regular bs t)"
  shows "disk w' = disk w \<and> h = env_sha256 e bs"
  using assms unfolding sha256File_def
  by (elim chain_InrE) (auto dest!: read_ran_at simp: give_def)

lemma demand_ran: "demand c f w = (Inr y, w') \<Longrightarrow> c \<and> w' = w"
  by (auto simp: demand_def refuse_def throw_def give_def split: if_splits)

lemma draw_ran: "draw_name g w = (Inr y, w') \<Longrightarrow> y = g (drawn w) \<and> w' = w\<lparr>drawn := Suc (drawn w)\<rparr>"
  by (auto simp: draw_name_def)

lemma quiet_disk: "(\<And>r v. m w = (r, v) \<Longrightarrow> P (disk v)) \<Longrightarrow> quiet m w = (y, w') \<Longrightarrow> P (disk w')"
  by (auto simp: quiet_def attempt_def chain_def give_def split: prod.splits sum.splits)

lemma remove_tree_ran: "quiet (io (remove_tree p)) w = (y, w') \<Longrightarrow> \<not> below p q \<Longrightarrow> map_of (disk w') q = map_of (disk w) q"
  by (erule quiet_disk [rotated]) (auto simp: io_def ended_def remove_tree_def sure_def map_of_remove_tree
      split: list.splits option.splits prod.splits sum.splits)

lemma quiet_Inr: "quiet m w = (r, w') \<Longrightarrow> \<exists>u. r = Inr u"
  by (auto simp: quiet_def attempt_def chain_def give_def split: prod.splits sum.splits)

lemma lastly_ran:
  assumes "lastly m (quiet c) w = (Inr y, w')"
  obtains v u where "m w = (Inr y, v)" "quiet c v = (u, w')"
  using assms unfolding lastly_def by (auto split: prod.splits sum.splits dest: quiet_Inr)

lemma attempt_ran:
  assumes "attempt m h w = (Inr y, w')" "\<And>x v z v'. h x v \<noteq> (Inr z, v')"
  shows "m w = (Inr y, w')"
  using assms by (auto simp: attempt_def split: prod.splits sum.splits)


section \<open>Opening and inspecting\<close>

lemma throws_never: "chain m (\<lambda>_. throw x) v \<noteq> (Inr z, v')"
  by (auto simp: chain_def throw_def split: prod.splits sum.splits)

lemma decipher_ran:
  assumes "decipher e r p q pass w = (Inr y, w')" "map_of (disk w) p = Some (Regular bs t)" "length bs > HEADER_SIZE + AUTH_TAG_SIZE"
  obtains clear where "open_archive r pass bs = Some clear" "map_of (disk w) q = None"
    "map_of (disk w') = (map_of (disk w))(q \<mapsto> Regular clear (env_now e))"
  using assms(1) unfolding decipher_def split_beta
proof (elim chain_InrE)
  fix cs w1 u w2 u' w3 again w4
  assume read: "io (read_file p) w = (Inr cs, w1)" and ok: "demand (header_ok (fst (archive_parts cs))) invalid_backup w1 = (Inr u, w2)"
    and create: "io (create_file (env_now e) q) w2 = (Inr u', w3)" and reread: "io (read_file p) w3 = (Inr again, w4)"
    and rest: "(case open_content r pass (fst (archive_parts cs)) (fst (snd (archive_parts cs))) (snd (snd (archive_parts again))) of
        None \<Rightarrow> refuse incorrect_passphrase | Some clear \<Rightarrow> io (append_file (env_now e) q clear)) w4 = (Inr y, w')"
  from read_ran_at [OF read assms(2)] have cs: "cs = bs" "disk w1 = disk w" by simp_all
  from demand_ran [OF ok] have header: "header_ok (fst (archive_parts bs))" "disk w2 = disk w" using cs by simp_all
  from create_ran [OF create] header have q: "map_of (disk w) q = None"
    "map_of (disk w3) = (map_of (disk w))(q \<mapsto> Regular [] (env_now e))" by simp_all
  with assms(2) have "map_of (disk w3) p = Some (Regular bs t)" by auto
  from read_ran_at [OF reread this] have again: "again = bs" "disk w4 = disk w3" by simp_all
  from rest obtain clear where clear: "open_content r pass (fst (archive_parts bs)) (fst (snd (archive_parts bs))) (snd (snd (archive_parts bs))) = Some clear"
    and app: "io (append_file (env_now e) q clear) w4 = (Inr y, w')"
    by (auto simp: again cs refuse_def throw_def split: option.splits)
  have "open_archive r pass bs = Some clear" using clear header(1) assms(3) by (simp add: open_archive_def split_beta)
  moreover have "map_of (disk w') = (map_of (disk w))(q \<mapsto> Regular clear (env_now e))"
    using append_ran [OF app] q(2) by (auto simp: again)
  ultimately show thesis using q(1) by (intro that)
qed

lemma decryptFile_ran:
  assumes "decryptFile e r p q pass w = (Inr y, w')"
  obtains bs t clear where "map_of (disk w) p = Some (Regular bs t)" "open_archive r pass bs = Some clear" "map_of (disk w) q = None"
    "map_of (disk w') = (map_of (disk w))(q \<mapsto> Regular clear (env_now e))"
  using assms unfolding decryptFile_def
proof (elim chain_InrE)
  fix n w1 u w2 u' w3
  assume req: "requireRegularFile p ''The encrypted backup artifact is invalid.'' w = (Inr n, w1)"
    and large: "demand (HEADER_SIZE + AUTH_TAG_SIZE < n) invalid_backup w1 = (Inr u, w2)" and t: "io (touch p) w2 = (Inr u', w3)"
    and run: "attempt (decipher e r p q pass) (\<lambda>x. chain (quiet (io (remove_file q))) (\<lambda>_. throw x)) w3 = (Inr y, w')"
  from requireRegularFile_ran [OF req] obtain bs t where bs: "map_of (disk w) p = Some (Regular bs t)" "n = length bs" "disk w1 = disk w" by auto
  have d: "disk w3 = disk w" using touch_ran [OF t] demand_ran [OF large] bs(3) by simp
  from attempt_ran [OF run throws_never] have "decipher e r p q pass w3 = (Inr y, w')" .
  then show thesis by (rule decipher_ran) (use bs d demand_ran [OF large] in \<open>auto intro: that\<close>)
qed

lemma runTool_ran: "runTool f w = (Inr y, w') \<Longrightarrow> disk w' = disk w"
  unfolding runTool_def by (elim chain_InrE) (auto dest!: tool_ran simp: give_def)

lemma validateArchive_ran: "validateArchive r b w = (Inr y, w') \<Longrightarrow> disk w' = disk w"
  unfolding validateArchive_def by (elim chain_InrE) (auto dest!: read_ran runTool_ran demand_ran)

lemma unpack_each_ran:
  "each (\<lambda>f _. io (put_node (join dir (fst f)) (snd f))) files () w = (Inr y, w') \<Longrightarrow>
     (\<forall>q. \<not> below dir q \<longrightarrow> map_of (disk w') q = map_of (disk w) q)
     \<and> (\<forall>name n. map_of (disk w') (join dir name) = Some n \<longrightarrow> (name, n) \<in> set files \<or> map_of (disk w) (join dir name) = Some n)"
proof (induction files arbitrary: w)
  case (Cons f fs)
  from Cons.prems obtain u w1 where put: "io (put_node (join dir (fst f)) (snd f)) w = (Inr u, w1)"
      and rest: "each (\<lambda>f _. io (put_node (join dir (fst f)) (snd f))) fs () w1 = (Inr y, w')"
    by (auto elim: chain_InrE)
  note IH = Cons.IH [OF rest] and at = put_ran [OF put]
  have "(name, n) \<in> set (f # fs) \<or> map_of (disk w) (join dir name) = Some n"
    if n: "map_of (disk w') (join dir name) = Some n" for name n
  proof -
    from IH n have "(name, n) \<in> set fs \<or> map_of (disk w1) (join dir name) = Some n" by blast
    with at show ?thesis by (cases f) (auto split: if_splits)
  qed
  moreover have "map_of (disk w') q = map_of (disk w) q" if "\<not> below dir q" for q
  proof -
    from that have "q \<noteq> join dir (fst f)" by auto
    with IH that show ?thesis by (simp add: at)
  qed
  ultimately show ?case by blast
qed (simp add: give_def)


lemma unpack_ran:
  assumes "unpack r b dir w = (Inr y, w')" "map_of (disk w) b = Some (Regular clear t)"
  obtains files where "tar_extract (rec_tools r) clear = Some files"
    "\<And>q. \<not> below dir q \<Longrightarrow> map_of (disk w') q = map_of (disk w) q"
    "\<And>name n. map_of (disk w') (join dir name) = Some n \<Longrightarrow> (name, n) \<in> set files \<or> map_of (disk w) (join dir name) = Some n"
  using assms(1) unfolding unpack_def
proof (elim chain_InrE)
  fix bs w1 files w2
  assume read: "io (read_file b) w = (Inr bs, w1)" and tar: "tool (\<lambda>_. tar_extract (rec_tools r) bs) w1 = (Inr files, w2)"
    and put: "each (\<lambda>f _. io (put_node (join dir (fst f)) (snd f))) files () w2 = (Inr y, w')"
  from read_ran_at [OF read assms(2)] tool_ran [OF tar] have "tar_extract (rec_tools r) clear = Some files" "disk w2 = disk w" by simp_all
  with unpack_each_ran [OF put] show thesis by (intro that) auto
qed

lemma validateExtractedFiles_ran:
  assumes "validateExtractedFiles dir w = (Inr y, w')"
  obtains m t1 d t2 k t3 where "disk w' = disk w" "map_of (disk w) (join dir ''manifest.json'') = Some (Regular m t1)"
    "map_of (disk w) (join dir ''database.dump'') = Some (Regular d t2)" "map_of (disk w) (join dir ''master.key'') = Some (Regular k t3)"
    "extracted_sizes_ok (length m) (length d) (length k)"
  using assms unfolding validateExtractedFiles_def
  by (elim chain_InrE) (auto dest!: requireRegularFile_ran demand_ran intro: that)

lemma read_text_ran_at:
  assumes "read_text p w = (Inr s, w')" "map_of (disk w) p = Some (Regular bs t)"
  shows "disk w' = disk w \<and> utf8_text bs = Some s"
  using assms unfolding read_text_def
  by (elim chain_InrE) (auto dest!: read_ran_at simp: give_def throw_def split: option.splits)

text \<open>What a restore asks of the bytes of an artifact, its manifest, and the dump inside.\<close>

definition passes :: "api \<Rightarrow> recovery_options \<Rightarrow> string \<Rightarrow> uuid option \<Rightarrow> bytes \<Rightarrow> Manifest \<Rightarrow> bytes \<Rightarrow> bool" where
  "passes e r passphrase expected bs m dump \<longleftrightarrow>
     (\<exists>clear files text manifest t1 t2 t3. open_archive r passphrase bs = Some clear \<and> tar_extract (rec_tools r) clear = Some files
        \<and> (''manifest.json'', Regular manifest t1) \<in> set files \<and> utf8_text manifest = Some text \<and> parseManifest e text = Inr m
        \<and> (''master.key'', Regular (rec_masterKey r) t2) \<in> set files \<and> (''database.dump'', Regular dump t3) \<in> set files)
     \<and> length (rec_masterKey r) = 32 \<and> dump \<noteq> []
     \<and> Manifest_keySha256 m = JStr (env_sha256 e (rec_masterKey r)) \<and> Manifest_dumpSha256 m = JStr (env_sha256 e dump)
     \<and> (\<forall>i. expected = Some i \<longrightarrow> Manifest_backupId m = JStr i) \<and> pg_restore_list (rec_tools r) dump"

lemma inspect_bundle_ran:
  assumes "inspect_bundle e r dir path pass expected w = (Inr m, w')"
    and fresh: "\<And>name. map_of (disk w) (join dir name) = None"
  obtains bs t dump t' where "map_of (disk w) path = Some (Regular bs t)" "passes e r pass expected bs m dump"
    "map_of (disk w') (join dir ''database.dump'') = Some (Regular dump t')"
    "\<forall>q. \<not> below dir q \<longrightarrow> map_of (disk w') q = map_of (disk w) q"
  using assms(1) unfolding inspect_bundle_def Let_def
proof (elim chain_InrE)
  fix u1 w1 u2 w2 u3 w3 u4 w4 body w5 m' w6 u7 w7 key w8 u9 w9 u10 w10 hash w11 u12 w12 dump' w13 u14 w14
  assume d: "decryptFile e r path (join dir ''bundle.tar'') pass w = (Inr u1, w1)"
    and a: "validateArchive r (join dir ''bundle.tar'') w1 = (Inr u2, w2)"
    and x: "unpack r (join dir ''bundle.tar'') dir w2 = (Inr u3, w3)" and v: "validateExtractedFiles dir w3 = (Inr u4, w4)"
    and t: "read_text (join dir ''manifest.json'') w4 = (Inr body, w5)"
    and p: "(case parseManifest e body of Inl f \<Rightarrow> refuse f | Inr m \<Rightarrow> give m) w5 = (Inr m', w6)"
    and i: "demand (case expected of None \<Rightarrow> True | Some i \<Rightarrow> Manifest_backupId m' = JStr i)
        (mismatch ''The selected backup does not match this recovery request.'') w6 = (Inr u7, w7)"
    and k: "io (read_file (join dir ''master.key'')) w7 = (Inr key, w8)"
    and kk: "(if length key = 32 \<and> length (rec_masterKey r) \<noteq> 32 then throw (Thrown ''RangeError'')
             else demand (length key = 32 \<and> key = rec_masterKey r)
               (mismatch ''The selected backup belongs to a different GatewayControl instance.'')) w8 = (Inr u9, w9)"
    and s: "demand (Manifest_keySha256 m' = JStr (env_sha256 e key)) invalid_backup w9 = (Inr u10, w10)"
    and h: "sha256File e (join dir ''database.dump'') w10 = (Inr hash, w11)"
    and hh: "demand (Manifest_dumpSha256 m' = JStr hash) invalid_backup w11 = (Inr u12, w12)"
    and b: "io (read_file (join dir ''database.dump'')) w12 = (Inr dump', w13)"
    and l: "tool (\<lambda>_. if pg_restore_list (rec_tools r) dump' then Some () else None) w13 = (Inr u14, w14)"
    and g: "give m' w14 = (Inr m, w')"
  obtain bs tb clear where opened': "map_of (disk w) path = Some (Regular bs tb)" "open_archive r pass bs = Some clear"
    "map_of (disk w1) = (map_of (disk w))(join dir ''bundle.tar'' \<mapsto> Regular clear (env_now e))"
    by (rule decryptFile_ran [OF d]) blast
  have w2: "disk w2 = disk w1" by (rule validateArchive_ran [OF a])
  then have tar: "map_of (disk w2) (join dir ''bundle.tar'') = Some (Regular clear (env_now e))" by (simp add: opened'(3))
  obtain files where files: "tar_extract (rec_tools r) clear = Some files"
    "\<And>q. \<not> below dir q \<Longrightarrow> map_of (disk w3) q = map_of (disk w2) q"
    "\<And>name n. map_of (disk w3) (join dir name) = Some n \<Longrightarrow> (name, n) \<in> set files \<or> map_of (disk w2) (join dir name) = Some n"
    by (rule unpack_ran [OF x tar]) blast
  have inside: "(name, n) \<in> set files" if "map_of (disk w3) (join dir name) = Some n" "name \<noteq> ''bundle.tar''" for name n
    using files(3) [OF that(1)] that(2) by (simp add: w2 opened'(3) fresh)
  obtain mb t1 db t2 kb t3 where parts: "disk w4 = disk w3" "map_of (disk w3) (join dir ''manifest.json'') = Some (Regular mb t1)"
    "map_of (disk w3) (join dir ''database.dump'') = Some (Regular db t2)" "map_of (disk w3) (join dir ''master.key'') = Some (Regular kb t3)"
    "extracted_sizes_ok (length mb) (length db) (length kb)"
    by (rule validateExtractedFiles_ran [OF v]) blast
  have body: "disk w5 = disk w3" "utf8_text mb = Some body" using read_text_ran_at [OF t] parts(1,2) by simp_all
  have m': "parseManifest e body = Inr m'" "w6 = w5" using p by (auto simp: refuse_def throw_def give_def split: sum.splits)
  have w7: "disk w7 = disk w3" using demand_ran [OF i] m'(2) body(1) by simp
  then have key: "key = kb" "disk w8 = disk w3" using read_ran_at [OF k, of kb t3] parts(4) by simp_all
  have master: "key = rec_masterKey r" "length (rec_masterKey r) = 32" "disk w9 = disk w3"
    using kk key(2) by (auto simp: throw_def dest!: demand_ran split: if_splits)
  have w10: "disk w10 = disk w3" using demand_ran [OF s] master(3) by simp
  then have hash: "hash = env_sha256 e db" "disk w11 = disk w3" using sha256File_ran_at [OF h, of db t2] parts(3) by simp_all
  have w12: "disk w12 = disk w3" using demand_ran [OF hh] hash(2) by simp
  then have dump: "dump' = db" "disk w13 = disk w3" using read_ran_at [OF b, of db t2] parts(3) by simp_all
  have last: "disk w' = disk w3" "m' = m" "pg_restore_list (rec_tools r) db"
    using tool_ran [OF l] g dump by (auto simp: give_def split: if_splits)
  have "passes e r pass expected bs m db"
    unfolding passes_def
    using opened'(2) files(1) inside [OF parts(2)] inside [OF parts(3)] inside [OF parts(4)] body(2) m'(1) last master key(1) parts(5)
      demand_ran [OF i] demand_ran [OF s] demand_ran [OF hh] hash(1)
    by (auto simp: extracted_sizes_ok_def split: option.splits)
  moreover have "map_of (disk w') q = map_of (disk w) q" if "\<not> below dir q" for q
  proof -
    from that have "q \<noteq> join dir ''bundle.tar''" by auto
    with files(2) [OF that] show ?thesis by (simp add: last(1) w2 opened'(3))
  qed
  moreover have "map_of (disk w') (join dir ''database.dump'') = Some (Regular db t2)" using parts(3) last(1) by simp
  ultimately show thesis using opened'(1) by (intro that) auto
qed


section \<open>Staging\<close>

definition kept_in :: "world \<Rightarrow> world \<Rightarrow> bool" where
  "kept_in w w' \<longleftrightarrow> (\<forall>q n. map_of (disk w) q = Some n \<longrightarrow> map_of (disk w') q = Some n)"

lemma kept_in_trans: "kept_in u v \<Longrightarrow> kept_in v w \<Longrightarrow> kept_in u w"
  by (simp add: kept_in_def)

lemma kept_in_same: "disk w' = disk w \<Longrightarrow> kept_in w w'"
  by (simp add: kept_in_def)

lemma kept_in_added: "map_of (disk w) p = None \<Longrightarrow> map_of (disk w') = (map_of (disk w))(p \<mapsto> n) \<Longrightarrow> kept_in w w'"
  by (auto simp: kept_in_def)

lemma take_lock_never: "(if x = Errno c then refuse f else throw x) v \<noteq> (Inr z, v')"
  by (simp add: refuse_def throw_def)

lemma no_active_marker_ran: "no_active_marker r w = (Inr y, w') \<Longrightarrow> disk w' = disk w"
  unfolding no_active_marker_def by (elim chain_InrE) (auto dest!: lstat_or_null_ran demand_ran)

lemma undo_never: "undo_stage r s c x v \<noteq> (Inr z, v')"
  by (auto simp: undo_stage_def chain_def throw_def split: prod.splits sum.splits)

lemma prepareStage_ran:
  assumes "prepareStage e r src i w = (Inr s, w')" "map_of (disk w) src = Some (Regular bs t)"
  shows "UUID_PATTERN i \<and> map_of (disk w) (lock_path r) = None \<and> kept_in w w'
    \<and> (\<exists>token. s = \<lparr>staged_token = token, staged_dump = ''database-'' @ i @ ''-'' @ token @ ''.dump''\<rparr>)
    \<and> map_of (disk w') (stage_path r (staged_dump s)) = Some (Regular bs (env_now e))"
  using assms(1) unfolding prepareStage_def Let_def
proof (elim chain_InrE)
  fix u1 w1 u2 w2 n w3 u4 w4 token w5 u6 w6 u7 w7 u8 w8
  let ?s = "\<lparr>staged_token = token, staged_dump = ''database-'' @ i @ ''-'' @ token @ ''.dump''\<rparr>"
  assume i: "demand (UUID_PATTERN i) invalid_backup w = (Inr u1, w1)" and m: "io (mkdir (rec_stageRoot r)) w1 = (Inr u2, w2)"
    and l: "lstat_or_null (rec_stageRoot r) w2 = (Inr n, w3)"
    and d: "demand (n = Some Directory) (SystemRecoveryFailure 400 ''invalid_backup'' ''The restore staging area is invalid.'') w3 = (Inr u4, w4)"
    and t: "draw_name (rec_uuid r) w4 = (Inr token, w5)" and lock: "take_lock e r token w5 = (Inr u6, w6)"
    and c: "attempt (chain (no_active_marker r) (\<lambda>_. io (create_file (env_now e) (stage_path r (staged_dump ?s))))) (undo_stage r ?s False) w6 = (Inr u7, w7)"
    and a: "attempt (chain (io (read_file src)) (\<lambda>bs. io (append_file (env_now e) (stage_path r (staged_dump ?s)) bs))) (undo_stage r ?s True) w7 = (Inr u8, w8)"
    and g: "give ?s w8 = (Inr s, w')"
  have k2: "kept_in w w2" using demand_ran [OF i] mkdir_ran [OF m] by (simp add: kept_in_def)
  have d5: "disk w5 = disk w2" using lstat_or_null_ran [OF l] demand_ran [OF d] draw_ran [OF t] by simp
  have "write_new e (lock_path r) (line token) w5 = (Inr u6, w6)"
    using attempt_ran [OF lock [unfolded take_lock_def] take_lock_never] .
  from write_new_ran [OF this] have w6: "map_of (disk w2) (lock_path r) = None"
    "map_of (disk w6) = (map_of (disk w2))(lock_path r \<mapsto> Regular (line token) (env_now e))" by (simp_all add: d5)
  have k6: "kept_in w2 w6" by (rule kept_in_added [OF w6])
  obtain v where v: "disk v = disk w6" "io (create_file (env_now e) (stage_path r (staged_dump ?s))) v = (Inr u7, w7)"
    using attempt_ran [OF c undo_never] by (auto elim!: chain_InrE dest!: no_active_marker_ran)
  from create_ran [OF v(2)] have w7: "map_of (disk w6) (stage_path r (staged_dump ?s)) = None"
    "map_of (disk w7) = (map_of (disk w6))(stage_path r (staged_dump ?s) \<mapsto> Regular [] (env_now e))" by (simp_all only: v(1))
  have k7: "kept_in w6 w7" by (rule kept_in_added [OF w7])
  have k: "kept_in w w7" by (rule kept_in_trans [OF kept_in_trans [OF k2 k6] k7])
  then have src: "map_of (disk w7) src = Some (Regular bs t)" using assms(2) by (simp add: kept_in_def)
  have w8: "map_of (disk w8) = (map_of (disk w7))(stage_path r (staged_dump ?s) \<mapsto> Regular bs (env_now e))"
    using attempt_ran [OF a undo_never]
  proof (elim chain_InrE)
    fix bs' v
    assume read: "io (read_file src) w7 = (Inr bs', v)" and app: "io (append_file (env_now e) (stage_path r (staged_dump ?s)) bs') v = (Inr u8, w8)"
    from read_ran_at [OF read src] append_ran [OF app] w7(2) show ?thesis by auto
  qed
  have end': "s = ?s" "w' = w8" using g by (simp_all add: give_def)
  have "map_of (disk w) (lock_path r) = None" using w6(1) k2 by (cases "map_of (disk w) (lock_path r)") (auto simp: kept_in_def)
  moreover have "kept_in w w'"
    unfolding kept_in_def end'(2) w8
  proof (intro allI impI)
    fix q n
    assume q: "map_of (disk w) q = Some n"
    with k2 k6 have "map_of (disk w6) q = Some n" by (simp add: kept_in_def)
    with w7 show "((map_of (disk w7))(stage_path r (staged_dump ?s) \<mapsto> Regular bs (env_now e))) q = Some n"
      by (cases "q = stage_path r (staged_dump ?s)") auto
  qed
  ultimately show ?thesis using demand_ran [OF i] end' w8 by simp
qed

lemma publish_stage_ran:
  assumes "publish_stage e r s i n c j w = (Inr y, w')"
  shows "map_of (disk w') (marker_path r) = Some (Regular (line (JSON_stringify (marker_json j i n c s))) (env_now e))"
    "\<And>q. map_of (disk w) q \<noteq> None \<Longrightarrow> q \<noteq> marker_path r \<Longrightarrow> map_of (disk w') q = map_of (disk w) q"
proof -
  let ?text = "line (JSON_stringify (marker_json j i n c s))" and ?tmp = "temporary_marker r (staged_token s)"
  from assms obtain u v where w: "write_new e ?tmp ?text w = (Inr u, v)" and ren: "io (rename_file ?tmp (marker_path r)) v = (Inr y, w')"
    by (auto simp: publish_stage_def throw_def elim: chain_InrE split: if_splits)
  note written = write_new_ran [OF w]
  then have at: "map_of (disk v) ?tmp = Some (Regular ?text (env_now e))" by simp
  from sure_ran [OF ren [unfolded rename_file_def]] at
  have "AList.update (marker_path r) (Regular ?text (env_now e)) (AList.delete ?tmp (disk v)) = disk w'" by (simp split: if_splits)
  from updated [OF this] written
  have w': "map_of (disk w') = (map_of (disk w))(?tmp := None, marker_path r \<mapsto> Regular ?text (env_now e))"
    by (auto simp: delete_conv' fun_eq_iff)
  then show "map_of (disk w') (marker_path r) = Some (Regular ?text (env_now e))" by simp
  fix q
  assume "map_of (disk w) q \<noteq> None" "q \<noteq> marker_path r"
  with written show "map_of (disk w') q = map_of (disk w) q" by (auto simp: w')
qed


text \<open>What was checked before a dump entered the staging area, and what is there afterwards.\<close>

definition vetted :: "api \<Rightarrow> recovery_options \<Rightarrow> string \<Rightarrow> uuid \<Rightarrow> StoredSystemBackup \<Rightarrow> world \<Rightarrow> bytes \<Rightarrow> bytes \<Rightarrow> bool" where
  "vetted e r passphrase i b w bs dump \<longleftrightarrow>
     (\<exists>t m. map_of (disk w) (SystemBackup_artifactPath b) = Some (Regular bs t) \<and> SystemBackup_checksum b = Some (env_sha256 e bs)
        \<and> SystemBackup_sizeBytes b = Some (int (length bs)) \<and> passes e r passphrase (Some i) bs m dump)"

lemma vetted_stage_ran:
  assumes "vetted_stage e r dir b i pass w = (Inr (s, n, c), w')" and fresh: "\<And>name. map_of (disk w) (join dir name) = None"
    and apart: "\<And>name. \<not> below dir (stage_path r name)"
  obtains bs dump where "vetted e r pass i b w bs dump" "n = int (length bs)" "c = env_sha256 e bs"
    "map_of (disk w) (lock_path r) = None" "staged_dump s \<noteq> ''restore.pending''"
    "map_of (disk w') (stage_path r (staged_dump s)) = Some (Regular dump (env_now e))"
  using assms(1) unfolding vetted_stage_def
proof (elim chain_InrE)
  fix k w1
  let ?p = "SystemBackup_artifactPath b"
  assume req: "requireRegularFile ?p ''The encrypted backup artifact is invalid.'' w = (Inr k, w1)"
    and rest: "(case SystemBackup_checksum b of None \<Rightarrow> refuse invalid_backup | Some checksum \<Rightarrow>
         chain (demand (is_digest checksum \<and> SystemBackup_sizeBytes b = Some (int k)) invalid_backup) (\<lambda>_.
         chain (sha256File e ?p) (\<lambda>hash. chain (demand (hash = checksum) invalid_backup) (\<lambda>_.
         chain (inspect_bundle e r dir ?p pass (Some i)) (\<lambda>_.
         chain (prepareStage e r (join dir ''database.dump'') i) (\<lambda>s. give (s, int k, checksum))))))) w1 = (Inr (s, n, c), w')"
  from requireRegularFile_ran [OF req] obtain bs t where bs: "disk w1 = disk w" "map_of (disk w) ?p = Some (Regular bs t)" "k = length bs" by auto
  from rest obtain checksum where checksum: "SystemBackup_checksum b = Some checksum" by (auto simp: refuse_def throw_def split: option.splits)
  from rest show thesis
    unfolding checksum option.case
  proof (elim chain_InrE)
    fix u2 w2 hash w3 u4 w4 m w5 s' w6
    assume ok: "demand (is_digest checksum \<and> SystemBackup_sizeBytes b = Some (int k)) invalid_backup w1 = (Inr u2, w2)"
      and h: "sha256File e ?p w2 = (Inr hash, w3)" and hh: "demand (hash = checksum) invalid_backup w3 = (Inr u4, w4)"
      and insp: "inspect_bundle e r dir ?p pass (Some i) w4 = (Inr m, w5)"
      and prep: "prepareStage e r (join dir ''database.dump'') i w5 = (Inr s', w6)" and g: "give (s', int k, checksum) w6 = (Inr (s, n, c), w')"
    have w2: "disk w2 = disk w" using demand_ran [OF ok] bs(1) by simp
    then have w3: "disk w3 = disk w" "hash = env_sha256 e bs" using sha256File_ran_at [OF h] bs(2) by simp_all
    have w4: "disk w4 = disk w" "checksum = env_sha256 e bs" using demand_ran [OF hh] w3 by simp_all
    have "map_of (disk w4) (join dir name) = None" for name by (simp add: w4(1) fresh)
    from inspect_bundle_ran [OF insp this] obtain bs' t' dump t'' where passed: "map_of (disk w4) ?p = Some (Regular bs' t')"
      "passes e r pass (Some i) bs' m dump" "map_of (disk w5) (join dir ''database.dump'') = Some (Regular dump t'')"
      "\<And>q. \<not> below dir q \<Longrightarrow> map_of (disk w5) q = map_of (disk w4) q" by blast
    have "bs' = bs" using passed(1) bs(2) by (simp add: w4(1))
    with passed(2) checksum ok bs w4 have "vetted e r pass i b w bs dump" by (auto simp: vetted_def dest!: demand_ran)
    moreover from prepareStage_ran [OF prep passed(3)] obtain token where
        p: "map_of (disk w5) (lock_path r) = None" "s' = \<lparr>staged_token = token, staged_dump = ''database-'' @ i @ ''-'' @ token @ ''.dump''\<rparr>"
          "map_of (disk w6) (stage_path r (staged_dump s')) = Some (Regular dump (env_now e))" by blast
    moreover have "map_of (disk w) (lock_path r) = None" using p(1) passed(4) apart by (simp add: lock_path_def w4(1))
    ultimately show thesis using g bs(3) w4(2) by (intro that [of bs dump]) (auto simp: give_def)
  qed
qed

lemma stage_failed_never: "stage_failed e i u x v \<noteq> (Inr z, v')"
  by (auto simp: stage_failed_def chain_def refuse_def throw_def split: prod.splits sum.splits)

lemma abandon_never: "abandon_stage e r s j m x v \<noteq> (Inr z, v')"
  by (auto simp: abandon_stage_def chain_def refuse_def throw_def split: prod.splits sum.splits)

lemma tries_disk: "tries f w = (y, w') \<Longrightarrow> disk w' = disk w"
  by (auto simp: tries_def split: prod.splits sum.splits)

lemma writes_disk: "writes f w = (y, w') \<Longrightarrow> disk w' = disk w"
  by (auto simp: writes_def split: prod.splits)

lemma updateSystemRestore_Inr: "updateSystemRestore now j SrStaged err d = Inr (s, d') \<Longrightarrow> SystemRestore_status s = SrStaged \<and> SystemRestore_id s = j"
  by (auto simp: updateSystemRestore_def Let_def systemRestore_def staging_restore_def split: option.splits dest: find_someD)

lemma temporary_directory_ran:
  assumes "temporary_directory r prefix w = (Inr dir, w')"
  shows "dir = rec_temporary r prefix (drawn w)" "map_of (disk w') = (map_of (disk w))(dir \<mapsto> Directory)"
  using assms unfolding temporary_directory_def
  by (auto elim!: chain_InrE dest!: draw_ran mkdtemp_ran simp: give_def)


lemma stage_vetted_ran:
  assumes run: "stage_vetted e r dir b i u pass w = (Inr s, w')"
    and new: "\<And>name. map_of (disk w) (join dir name) = None" and stays: "\<And>name. \<not> below dir (stage_path r name)"
  obtains bs dump st where "vetted e r pass i b w bs dump" "map_of (disk w) (lock_path r) = None" "SystemRestore_status s = SrStaged"
    "map_of (disk w') (stage_path r (staged_dump st)) = Some (Regular dump (env_now e))"
    "map_of (disk w') (marker_path r) = Some (Regular (line (JSON_stringify
       (marker_json (SystemRestore_id s) i (int (length bs)) (env_sha256 e bs) st))) (env_now e))"
  using run unfolding stage_vetted_def Let_def split_beta
proof (elim chain_InrE)
  fix v :: "staged \<times> int \<times> string" and v1 rs v2 y v3
  let ?st = "fst v" and ?n = "fst (snd v)" and ?c = "snd (snd v)"
  assume vet: "attempt (vetted_stage e r dir b i pass) (stage_failed e i u) w = (Inr v, v1)"
    and wr: "writes (createSystemRestore (env_gen e) (env_now e) i u SrStaging None) v1 = (Inr rs, v2)"
    and pub: "attempt (publish_stage e r ?st i ?n ?c (SystemRestore_id rs)) (abandon_stage e r ?st (SystemRestore_id rs) False) v2 = (Inr y, v3)"
    and upd: "attempt (tries (updateSystemRestore (env_now e) (SystemRestore_id rs) SrStaged None))
        (abandon_stage e r ?st (SystemRestore_id rs) True) v3 = (Inr s, w')"
  have "vetted_stage e r dir b i pass w = (Inr (?st, ?n, ?c), v1)" using attempt_ran [OF vet stage_failed_never] by simp
  from vetted_stage_ran [OF this new stays] obtain bs dump where vetted: "vetted e r pass i b w bs dump" "?n = int (length bs)"
    "?c = env_sha256 e bs" "map_of (disk w) (lock_path r) = None" "staged_dump ?st \<noteq> ''restore.pending''"
    "map_of (disk v1) (stage_path r (staged_dump ?st)) = Some (Regular dump (env_now e))" by blast
  have v2: "disk v2 = disk v1" by (rule writes_disk [OF wr])
  note marker = publish_stage_ran [OF attempt_ran [OF pub abandon_never]]
  have "stage_path r (staged_dump ?st) \<noteq> marker_path r" using vetted(5) by (simp add: stage_path_def marker_path_def)
  then have dump: "map_of (disk v3) (stage_path r (staged_dump ?st)) = Some (Regular dump (env_now e))"
    using marker(2) vetted(6) by (simp add: v2)
  note done' = attempt_ran [OF upd abandon_never]
  have w': "disk w' = disk v3" by (rule tries_disk [OF done'])
  have s: "SystemRestore_status s = SrStaged" "SystemRestore_id s = SystemRestore_id rs"
    using done' by (auto simp: tries_def dest: updateSystemRestore_Inr split: sum.splits prod.splits)
  show thesis
    by (rule that [OF vetted(1,4) s(1), of ?st]) (use dump marker(1) in \<open>simp_all add: w' s(2) vetted(2,3)\<close>)
qed

section \<open>Properties\<close>

text \<open>C9. A restore is staged only from what was vetted: the artifact on the disk has the size and the checksum of its record, opens
  with the passphrase, and holds the manifest of this very backup, the master key of this instance, and a dump whose
  checksum the manifest states and which PostgreSQL can read. That dump lies in the staging area afterwards, the
  marker there names it with the restore and the checksum of the backup, and nobody else held the lock. Names that \<open>mkdtemp\<close> gives
  are new, and the staging area is not inside a temporary directory.\<close>

theorem staged_restores_were_vetted:
  assumes run: "stageRestore e r i u pass w = (Inr s, w')"
    and fresh: "\<And>k p. p \<in> fst ` set (disk w) \<Longrightarrow> \<not> below (rec_temporary r ''gateway-control-restore-'' k) p"
    and apart: "\<And>k name. \<not> below (rec_temporary r ''gateway-control-restore-'' k) (stage_path r name)"
  shows "SystemRestore_status s = SrStaged \<and> map_of (disk w) (lock_path r) = None
    \<and> (\<exists>b bs t m dump st. getSystemBackup i (store w) = Some b \<and> map_of (disk w) (SystemBackup_artifactPath b) = Some (Regular bs t)
        \<and> SystemBackup_checksum b = Some (env_sha256 e bs) \<and> SystemBackup_sizeBytes b = Some (int (length bs))
        \<and> passes e r pass (Some i) bs m dump
        \<and> map_of (disk w') (stage_path r (staged_dump st)) = Some (Regular dump (env_now e))
        \<and> map_of (disk w') (marker_path r) = Some (Regular (line (JSON_stringify
            (marker_json (SystemRestore_id s) i (int (length bs)) (env_sha256 e bs) st))) (env_now e)))"
proof -
  from run obtain b dir w1 where b: "getSystemBackup i (store w) = Some b"
      and temp: "temporary_directory r ''gateway-control-restore-'' w = (Inr dir, w1)"
      and last: "lastly (stage_vetted e r dir b i u pass) (quiet (io (remove_tree dir))) w1 = (Inr s, w')"
    unfolding stageRestore_def by (elim chain_readsE) (auto elim!: chain_InrE simp: refuse_def throw_def split: option.splits)
  note dir = temporary_directory_ran [OF temp]
  have "map_of (disk w) (join dir name) = None" for name
    using fresh [of "join dir name" "drawn w"] by (force simp: dir(1) map_of_eq_None_iff)
  then have new: "map_of (disk w1) (join dir name) = None" for name
    using dir(2) by (simp add: join_def)
  have stays: "\<not> below dir (stage_path r name)" for name using apart by (simp add: dir(1))
  then have "stage_path r name \<noteq> dir" for name by (auto simp: below_def)
  then have stage: "map_of (disk w1) (stage_path r name) = map_of (disk w) (stage_path r name)" for name by (simp add: dir(2))
  obtain w2 x where staged: "stage_vetted e r dir b i u pass w1 = (Inr s, w2)" and cleaned: "quiet (io (remove_tree dir)) w2 = (x, w')"
    using last by (rule lastly_ran)
  obtain bs dump st where vet: "vetted e r pass i b w1 bs dump" "map_of (disk w1) (lock_path r) = None" "SystemRestore_status s = SrStaged"
      "map_of (disk w2) (stage_path r (staged_dump st)) = Some (Regular dump (env_now e))"
      "map_of (disk w2) (marker_path r) = Some (Regular (line (JSON_stringify
         (marker_json (SystemRestore_id s) i (int (length bs)) (env_sha256 e bs) st))) (env_now e))"
    by (rule stage_vetted_ran [OF staged new stays])
  have final: "map_of (disk w') (stage_path r name) = map_of (disk w2) (stage_path r name)" for name
    by (rule remove_tree_ran [OF cleaned stays])
  from vet(1) obtain t m where art: "map_of (disk w1) (SystemBackup_artifactPath b) = Some (Regular bs t)"
      "SystemBackup_checksum b = Some (env_sha256 e bs)" "SystemBackup_sizeBytes b = Some (int (length bs))" "passes e r pass (Some i) bs m dump"
    by (auto simp: vetted_def)
  have "map_of (disk w) (SystemBackup_artifactPath b) = Some (Regular bs t)" using art(1) by (simp add: dir(2) split: if_splits)
  moreover have "map_of (disk w) (lock_path r) = None" using vet(2) by (simp add: lock_path_def stage)
  moreover have "map_of (disk w') (marker_path r) = Some (Regular (line (JSON_stringify
      (marker_json (SystemRestore_id s) i (int (length bs)) (env_sha256 e bs) st))) (env_now e))"
    using vet(5) final [of "''restore.pending''"] by (simp add: marker_path_def)
  ultimately show ?thesis using b vet(3,4) art(2,3,4) final by auto
qed


section \<open>Requests\<close>

lemma inspectArtifact_ran:
  assumes "inspectArtifact e r path pass expected w = (Inr m, w')"
    and fresh: "\<And>k p. p \<in> fst ` set (disk w) \<Longrightarrow> \<not> below (rec_temporary r ''gateway-control-inspect-'' k) p"
  obtains bs t dump where "map_of (disk w) path = Some (Regular bs t)" "passes e r pass expected bs m dump"
    "\<forall>q. (\<forall>k. \<not> below (rec_temporary r ''gateway-control-inspect-'' k) q) \<longrightarrow> map_of (disk w') q = map_of (disk w) q"
proof -
  from assms(1) obtain dir w1 where temp: "temporary_directory r ''gateway-control-inspect-'' w = (Inr dir, w1)"
      and last: "lastly (inspect_bundle e r dir path pass expected) (quiet (io (remove_tree dir))) w1 = (Inr m, w')"
    unfolding inspectArtifact_def by (elim chain_InrE) (rule that)
  note dir = temporary_directory_ran [OF temp]
  have "map_of (disk w) (join dir name) = None" for name
    using fresh [of "join dir name" "drawn w"] by (force simp: dir(1) map_of_eq_None_iff)
  then have new: "map_of (disk w1) (join dir name) = None" for name
    using dir(2) by (simp add: join_def)
  obtain w2 x where run: "inspect_bundle e r dir path pass expected w1 = (Inr m, w2)" and cleaned: "quiet (io (remove_tree dir)) w2 = (x, w')"
    using last by (rule lastly_ran)
  obtain bs t dump t' where i: "map_of (disk w1) path = Some (Regular bs t)" "passes e r pass expected bs m dump"
      "map_of (disk w2) (join dir ''database.dump'') = Some (Regular dump t')"
      "\<forall>q. \<not> below dir q \<longrightarrow> map_of (disk w2) q = map_of (disk w1) q" by (rule inspect_bundle_ran [OF run new])
  have "map_of (disk w') q = map_of (disk w) q" if q: "\<And>k. \<not> below (rec_temporary r ''gateway-control-inspect-'' k) q" for q
  proof -
    have "\<not> below dir q" using q by (simp add: dir(1))
    then have "map_of (disk w') q = map_of (disk w1) q" "q \<noteq> dir"
      using remove_tree_ran [OF cleaned] i(4) by (auto simp: below_def)
    then show ?thesis by (simp add: dir(2))
  qed
  moreover have "map_of (disk w) path = Some (Regular bs t)" using i(1) by (simp add: dir(2) split: if_splits)
  ultimately show thesis using i(2) by (intro that) auto
qed

lemma publishRecoveryRequest_ran:
  assumes "publishRecoveryRequest e r s token w = (Inr y, w')"
  shows "map_of (disk w) (pending_path r) = None" "map_of (disk w') (pending_path r) = Some (Regular (utf8_bytes s) (env_now e))"
proof -
  let ?tmp = "join (spool r) (''request.'' @ token @ ''.partial'')" and ?n = "Regular (utf8_bytes s) (env_now e)"
  have "chain (write_new e ?tmp (utf8_bytes s)) (\<lambda>_. chain (io (touch ?tmp)) (\<lambda>_. chain (io (link_file ?tmp (pending_path r))) (\<lambda>_.
      chain (io (remove_file ?tmp)) (\<lambda>_. syncDirectory (spool r))))) w = (Inr y, w')"
    using attempt_ran [OF assms [unfolded publishRecoveryRequest_def Let_def] throws_never] .
  then obtain u1 w1 u2 w2 u3 w3 u4 w4 where steps: "write_new e ?tmp (utf8_bytes s) w = (Inr u1, w1)" "io (touch ?tmp) w1 = (Inr u2, w2)"
      "io (link_file ?tmp (pending_path r)) w2 = (Inr u3, w3)" "io (remove_file ?tmp) w3 = (Inr u4, w4)" "io (touch (spool r)) w4 = (Inr y, w')"
    unfolding syncDirectory_def by (elim chain_InrE) (rule that)
  note at1 = write_new_ran [OF steps(1)]
  have w2: "disk w2 = disk w1" by (rule touch_ran [OF steps(2)])
  have at2: "map_of (disk w2) ?tmp = Some ?n" using at1 by (simp add: w2)
  from sure_ran [OF steps(3) [unfolded link_file_def]] at2 have none: "map_of (disk w2) (pending_path r) = None"
      and "AList.update (pending_path r) ?n (disk w2) = disk w3" by (simp_all split: if_splits)
  from updated [OF this(2)] have w3: "map_of (disk w3) (pending_path r) = Some ?n" by simp
  have ne: "pending_path r \<noteq> ?tmp" using none at2 by auto
  then show "map_of (disk w) (pending_path r) = None" using none at1 by (simp add: w2)
  from sure_ran [OF steps(4) [unfolded remove_file_def]] have "disk w4 = AList.delete ?tmp (disk w3)" by (auto split: if_splits)
  with w3 ne touch_ran [OF steps(5)] show "map_of (disk w') (pending_path r) = Some ?n" by (simp add: delete_conv')
qed

lemma request_failed_never: "request_failed e i t x v \<noteq> (Inr z, v')"
  by (auto simp: request_failed_def Let_def chain_def refuse_def throw_def split: prod.splits sum.splits)

lemma quiet_same: "quiet m w = (y, w') \<Longrightarrow> (\<And>a v. m w = (a, v) \<Longrightarrow> disk v = disk w) \<Longrightarrow> disk w' = disk w"
  by (rule quiet_disk [where P = "\<lambda>d. d = disk w"])

lemma send_request_ran:
  assumes "send_request e r secret i b u w = (Inr y, w')"
  shows "map_of (disk w) (pending_path r) = None"
    "map_of (disk w') (pending_path r) = Some (Regular (utf8_bytes (signed_request (rec_hmac r secret) i)) (env_now e))"
proof -
  have *: "map_of (disk w) (pending_path r) = None
    \<and> map_of (disk w') (pending_path r) = Some (Regular (utf8_bytes (signed_request (rec_hmac r secret) i)) (env_now e))"
    using assms unfolding send_request_def
  proof (elim chain_InrE)
    fix u1 w1 n w2 u3 w3 token w4 audit w5
    assume m: "io (mkdir (spool r)) w = (Inr u1, w1)" and l: "io (lstat (spool r)) w1 = (Inr n, w2)"
      and d: "demand (n = Directory) (SystemRecoveryFailure 400 ''invalid_backup'' ''The recovery request spool is invalid.'') w2 = (Inr u3, w3)"
      and t: "draw_name (rec_uuid r) w3 = (Inr token, w4)"
      and c: "writes (createSystemRecoveryRequest (env_gen e) (env_now e) i u token) w4 = (Inr audit, w5)"
      and rest: "(case audit of Accepted (j, _) \<Rightarrow>
           chain (attempt (publishRecoveryRequest e r (signed_request (rec_hmac r secret) i) token) (request_failed e j token)) (\<lambda>_.
           chain (quiet (writes (finishSystemRecoveryRequest (env_now e) j token RqPublished None))) (\<lambda>_.
           quiet (changes (recordSystemBackupTransferEvent u OpRestoreApplyRequested (Some b) (Some i) None None))))
         | _ \<Rightarrow> refuse request_pending) w5 = (Inr y, w')"
    have w5: "disk w5 = disk w1" using lstat_ran [OF l] demand_ran [OF d] draw_ran [OF t] writes_disk [OF c] by simp
    from rest obtain j v1 u6 w6 u7 w7 where pub: "attempt (publishRecoveryRequest e r (signed_request (rec_hmac r secret) i) token) (request_failed e j token) w5 = (Inr u6, w6)"
        and fin: "quiet (writes (finishSystemRecoveryRequest (env_now e) j token RqPublished None)) w6 = (Inr u7, w7)"
        and ev: "quiet (changes (recordSystemBackupTransferEvent u OpRestoreApplyRequested (Some b) (Some i) None None)) w7 = (Inr y, w')"
      by (cases audit) (auto elim!: chain_InrE simp: refuse_def throw_def split: prod.splits)
    note p = publishRecoveryRequest_ran [OF attempt_ran [OF pub request_failed_never]]
    have "disk w' = disk w7" by (rule quiet_same [OF ev]) (auto simp: changes_def dest: writes_disk)
    moreover have "disk w7 = disk w6" by (rule quiet_same [OF fin]) (rule writes_disk)
    moreover have "map_of (disk w) (pending_path r) = None" using mkdir_ran [OF m] p(1)
      by (cases "map_of (disk w) (pending_path r)") (auto simp: w5)
    ultimately show ?thesis using p(2) by simp
  qed
  then show "map_of (disk w) (pending_path r) = None"
    "map_of (disk w') (pending_path r) = Some (Regular (utf8_bytes (signed_request (rec_hmac r secret) i)) (env_now e))" by simp_all
qed

lemma found_or_ran: "found_or v f w = (Inr y, w') \<Longrightarrow> v = Some y \<and> w' = w"
  by (auto simp: found_or_def refuse_def throw_def give_def split: option.splits)

lemma chain_found_orE: "chain (found_or v f) g w = (Inr x, w') \<Longrightarrow> (\<And>y. v = Some y \<Longrightarrow> g y w = (Inr x, w') \<Longrightarrow> P) \<Longrightarrow> P"
  by (elim chain_InrE) (auto dest!: found_or_ran)

lemma chain_demandE: "chain (demand c f) g w = (Inr x, w') \<Longrightarrow> (c \<Longrightarrow> g () w = (Inr x, w') \<Longrightarrow> P) \<Longrightarrow> P"
  by (elim chain_InrE) (auto dest!: demand_ran)

lemma requestApply_ran:
  assumes "requestApply e r i u confirmation pass w = (Inr y, w')"
  obtains secret s b where "rec_supervisorEnabled r" "rec_requestSecret r = Some secret" "confirmation = ''APPLY '' @ i"
    "getSystemRestore i (store w) = Some s" "SystemRestore_status s = SrStaged" "getSystemBackup (SystemRestore_backupId s) (store w) = Some b"
    "request_for e r secret u pass s b w = (Inr y, w')"
  using assms unfolding requestApply_def
  by (elim chain_found_orE chain_demandE chain_readsE) (rule that, auto split: if_splits option.splits)

text \<open>The supervisor on the host is asked to apply a restore only when the caller confirms this very restore and knows the
  passphrase, when the restore is staged and its backup still is what its record says and passes the checks of a restore;
  the request is signed with the secret shared with the supervisor, and no request was pending that it could replace.\<close>

theorem recovery_requests_are_signed:
  assumes run: "requestApply e r i u confirmation pass w = (Inr y, w')"
    and fresh: "\<And>k p. p \<in> fst ` set (disk w) \<Longrightarrow> \<not> below (rec_temporary r ''gateway-control-inspect-'' k) p"
    and apart: "\<And>k. \<not> below (rec_temporary r ''gateway-control-inspect-'' k) (pending_path r)"
  shows "\<exists>secret s b bs t m dump. rec_supervisorEnabled r \<and> rec_requestSecret r = Some secret \<and> confirmation = ''APPLY '' @ i
    \<and> getSystemRestore i (store w) = Some s \<and> SystemRestore_status s = SrStaged
    \<and> getSystemBackup (SystemRestore_backupId s) (store w) = Some b
    \<and> map_of (disk w) (SystemBackup_artifactPath b) = Some (Regular bs t) \<and> SystemBackup_checksum b = Some (env_sha256 e bs)
    \<and> SystemBackup_sizeBytes b = Some (int (length bs)) \<and> passes e r pass (Some (SystemBackup_id b)) bs m dump
    \<and> map_of (disk w) (pending_path r) = None
    \<and> map_of (disk w') (pending_path r) = Some (Regular (utf8_bytes (signed_request (rec_hmac r secret) i)) (env_now e))"
proof -
  obtain secret s b where on: "rec_supervisorEnabled r" "rec_requestSecret r = Some secret" and conf: "confirmation = ''APPLY '' @ i"
      and s: "getSystemRestore i (store w) = Some s" and staged: "SystemRestore_status s = SrStaged"
      and b: "getSystemBackup (SystemRestore_backupId s) (store w) = Some b" and go: "request_for e r secret u pass s b w = (Inr y, w')"
    by (rule requestApply_ran [OF run])
  from go obtain n v1 u2 v2 hash v3 u4 v4 m v5 where
      req: "requireRegularFile (SystemBackup_artifactPath b) ''The encrypted backup artifact is invalid.'' w = (Inr n, v1)"
      and ok: "demand (SystemBackup_checksum b \<notin> {None, Some []} \<and> SystemBackup_sizeBytes b = Some (int n)) invalid_backup v1 = (Inr u2, v2)"
      and h: "sha256File e (SystemBackup_artifactPath b) v2 = (Inr hash, v3)" and hh: "demand (SystemBackup_checksum b = Some hash) invalid_backup v3 = (Inr u4, v4)"
      and insp: "inspectArtifact e r (SystemBackup_artifactPath b) pass (Some (SystemBackup_id b)) v4 = (Inr m, v5)"
      and send: "send_request e r secret (SystemRestore_id s) (SystemBackup_id b) u v5 = (Inr y, w')"
    unfolding request_for_def by (elim chain_InrE) (rule that)
  from requireRegularFile_ran [OF req] obtain bs t where bs: "disk v1 = disk w" "map_of (disk w) (SystemBackup_artifactPath b) = Some (Regular bs t)" "n = length bs"
    by auto
  have v2: "disk v2 = disk w" using demand_ran [OF ok] bs(1) by simp
  then have v3: "disk v3 = disk w" "hash = env_sha256 e bs" using sha256File_ran_at [OF h] bs(2) by simp_all
  have v4: "disk v4 = disk w" using demand_ran [OF hh] v3(1) by simp
  have new: "\<not> below (rec_temporary r ''gateway-control-inspect-'' k) p" if "p \<in> fst ` set (disk v4)" for k p
    using fresh that by (simp add: v4)
  obtain bs' t' dump where i: "map_of (disk v4) (SystemBackup_artifactPath b) = Some (Regular bs' t')"
      "passes e r pass (Some (SystemBackup_id b)) bs' m dump"
      "\<forall>q. (\<forall>k. \<not> below (rec_temporary r ''gateway-control-inspect-'' k) q) \<longrightarrow> map_of (disk v5) q = map_of (disk v4) q"
    by (rule inspectArtifact_ran [OF insp new])
  have id: "SystemRestore_id s = i" using s by (auto simp: getSystemRestore_def systemRestore_def dest: find_someD)
  have "bs' = bs" using i(1) bs(2) by (simp add: v4)
  moreover have "map_of (disk w) (pending_path r) = None" using send_request_ran(1) [OF send] i(3) apart by (simp add: v4)
  ultimately show ?thesis
    using on conf s staged b bs(2,3) demand_ran [OF ok] demand_ran [OF hh] v3(2) i(2) send_request_ran(2) [OF send] by (auto simp: id)
qed


section \<open>Backups that were created\<close>

lemma runPostgresTool_ran: "runPostgresTool r f w = (Inr bs, w') \<Longrightarrow> disk w' = disk w"
  by (auto simp: runPostgresTool_def throw_def dest: tool_ran split: option.splits if_splits)

lemma pack_ran:
  assumes "pack r dir b w = (Inr y, w')" "map_of (disk w) (join dir ''manifest.json'') = Some (Regular m t1)"
    "map_of (disk w) (join dir ''database.dump'') = Some (Regular d t2)" "map_of (disk w) (join dir ''master.key'') = Some (Regular k t3)"
  obtains clear where "tar_create (rec_tools r) [(''manifest.json'', m), (''database.dump'', d), (''master.key'', k)] = Some clear"
    "map_of (disk w') = (map_of (disk w))(b \<mapsto> Regular clear 0)"
  using assms(1) unfolding pack_def
proof (elim chain_InrE)
  fix m' w1 d' w2 k' w3 clear w4
  assume r1: "io (read_file (join dir ''manifest.json'')) w = (Inr m', w1)" and r2: "io (read_file (join dir ''database.dump'')) w1 = (Inr d', w2)"
    and r3: "io (read_file (join dir ''master.key'')) w2 = (Inr k', w3)"
    and t: "tool (\<lambda>_. tar_create (rec_tools r) [(''manifest.json'', m'), (''database.dump'', d'), (''master.key'', k')]) w3 = (Inr clear, w4)"
    and p: "io (put_file 0 b clear) w4 = (Inr y, w')"
  from read_ran_at [OF r1 assms(2)] have 1: "disk w1 = disk w" "m' = m" by simp_all
  with read_ran_at [OF r2, of d t2] assms(3) have 2: "disk w2 = disk w" "d' = d" by simp_all
  with read_ran_at [OF r3, of k t3] assms(4) have 3: "disk w3 = disk w" "k' = k" by simp_all
  from tool_ran [OF t] put_file_ran [OF p] 1 2 3 show thesis by (intro that) auto
qed

lemma encryptFile_ran:
  assumes "encryptFile e r p q pass w = (Inr y, w')" "map_of (disk w) p = Some (Regular clear t)"
  obtains c tag where "rec_seal r (rec_scrypt r pass (env_random e 16)) (env_random e 12) (archive_header (env_random e 16) (env_random e 12)) clear = (c, tag)"
    "map_of (disk w) q = None"
    "map_of (disk w') = (map_of (disk w))(q \<mapsto> Regular (archive_header (env_random e 16) (env_random e 12) @ c @ tag) (env_now e))"
  using assms(1) unfolding encryptFile_def Let_def seal_archive_def split_beta
proof (elim chain_InrE)
  let ?h = "archive_header (env_random e 16) (env_random e 12)"
  let ?s = "rec_seal r (rec_scrypt r pass (env_random e 16)) (env_random e 12) ?h"
  fix u1 w1 u2 w2 clear' w3 u4 w4
  assume c: "io (create_file (env_now e) q) w = (Inr u1, w1)" and h: "io (append_file (env_now e) q ?h) w1 = (Inr u2, w2)"
    and rd: "io (read_file p) w2 = (Inr clear', w3)"
    and ct: "io (append_file (env_now e) q (fst (snd (?h, fst (?s clear'), snd (?s clear'))))) w3 = (Inr u4, w4)"
    and tg: "io (append_file (env_now e) q (snd (snd (?h, fst (?s clear'), snd (?s clear'))))) w4 = (Inr y, w')"
  note 1 = create_ran [OF c]
  have 2: "map_of (disk w2) = (map_of (disk w))(q \<mapsto> Regular ?h (env_now e))" using append_ran [OF h] 1 by auto
  have "map_of (disk w2) p = Some (Regular clear t)" using 1 2 assms(2) by auto
  from read_ran_at [OF rd this] have 3: "disk w3 = disk w2" "clear' = clear" by simp_all
  have 4: "map_of (disk w4) = (map_of (disk w))(q \<mapsto> Regular (?h @ fst (?s clear)) (env_now e))"
    using append_ran [OF ct] 2 3 by auto
  have "map_of (disk w') = (map_of (disk w))(q \<mapsto> Regular (?h @ fst (?s clear) @ snd (?s clear)) (env_now e))"
    using append_ran [OF tg] 4 3 by auto
  with 1 show thesis by (intro that [of "fst (?s clear)" "snd (?s clear)"]) simp_all
qed

lemma rename_ran:
  assumes "io (rename_file p q) w = (Inr y, w')" "map_of (disk w) p = Some n"
  shows "map_of (disk w') q = Some n"
  using sure_ran [OF assms(1) [unfolded rename_file_def]] assms(2) by (auto dest!: updated split: if_splits)

lemma magic_length: "length MAGIC = 8"
  by code_simp

lemma archive_length: "length (archive_header salt iv) = length salt + length iv + 9"
  by (simp add: archive_header_def magic_length)

text \<open>What was sealed is opened again with the same passphrase.\<close>

lemma open_sealed:
  assumes law: "\<And>k iv a p c t. rec_seal r k iv a p = (c, t) \<Longrightarrow> rec_open r k iv a t c = Some p \<and> length c = length p \<and> length t = 16"
    and salt: "length salt = 16" "length iv = 12" and clear: "clear \<noteq> []"
    and sealed: "rec_seal r (rec_scrypt r pass salt) iv (archive_header salt iv) clear = (c, tag)"
  shows "open_archive r pass (archive_header salt iv @ c @ tag) = Some clear"
proof -
  let ?h = "archive_header salt iv"
  note magic = magic_length
  have size: "HEADER_SIZE = 37" "AUTH_TAG_SIZE = 16" by (simp_all add: HEADER_SIZE_def AUTH_TAG_SIZE_def magic_length)
  have h: "length ?h = 37" using salt by (simp add: archive_length)
  from law [OF sealed] have l: "rec_open r (rec_scrypt r pass salt) iv ?h tag c = Some clear" "length c = length clear" "length tag = 16" by simp_all
  have parts: "archive_parts (?h @ c @ tag) = (?h, tag, c)"
    using h l(3) by (simp add: archive_parts_def size)
  have ok: "header_ok ?h" using magic by (simp add: header_ok_def archive_header_def nth_append)
  have "take 16 (drop (length MAGIC + 1) ?h) = salt" "drop (length MAGIC + 17) ?h = iv"
    using magic salt by (simp_all add: archive_header_def)
  then show ?thesis
    using parts ok l h clear by (simp add: open_archive_def size open_content_def)
qed

lemma manifest_reads_back:
  assumes "UUID_PATTERN i" "env_date_parse e t' = Some t" "env_iso8601 e t = t'" "is_digest d" "is_digest k"
  shows "parseManifest e (JSON_stringify (manifest_json i t' d k) @ [CHR 0x0A])
    = Inr \<lparr>Manifest_backupId = JStr i, Manifest_createdAt = t', Manifest_dumpSha256 = JStr d, Manifest_keySha256 = JStr k\<rparr>"
proof -
  let ?v = "manifest_json i t' d k"
  have "json_ok ?v" by (simp add: manifest_json_def)
  then have "parse_value (2 * length (JSON_stringify ?v @ [CHR 0x0A]) + 2) (JSON_stringify ?v @ [CHR 0x0A]) = Some (?v, [CHR 0x0A])"
    by (intro reads_backD [OF json_ok_reads_back]) (simp_all add: ends_value_def is_digit_def between_def code_def)
  moreover have "skip_space [CHR 0x0A] = []" by code_simp
  ultimately have "JSON_parse (JSON_stringify ?v @ [CHR 0x0A]) = Some ?v" by (simp only: JSON_parse_def option.case prod.case simp_thms if_True)
  moreover have "manifest_ok (env_date_parse e) (env_iso8601 e) (Some ?v)"
    using assms by (simp add: manifest_ok_def manifest_json_def hasExactKeys_def object_of_def jprop_def test_text_def js_String_def
        isCanonicalTimestamp_def Let_def)
  ultimately show ?thesis
    by (simp add: parseManifest_def manifest_of_def manifest_json_def object_of_def jprop_def coalesce_def js_String_def)
qed


lemma backup_failed_never: "backup_failed e q i x v \<noteq> (Inr z, v')"
  by (auto simp: backup_failed_def chain_def refuse_def throw_def split: prod.splits sum.splits)

lemma completeSystemBackup_Inr: "completeSystemBackup now i n c d = Inr (b, d') \<Longrightarrow> SystemBackup_id b = i
    \<and> SystemBackup_status b = SbSucceeded \<and> SystemBackup_sizeBytes b = Some n \<and> SystemBackup_checksum b = Some c"
  by (auto simp: completeSystemBackup_def settle_backup_def systemBackup_def running_backup_def dest: find_someD split: if_splits option.splits)

text \<open>The parts of an artifact as \<open>create_backup\<close> puts them together.\<close>

definition built :: "api \<Rightarrow> recovery_options \<Rightarrow> string \<Rightarrow> uuid \<Rightarrow> bytes \<Rightarrow> bytes \<Rightarrow> bool" where
  "built e r passphrase i dump bs \<longleftrightarrow>
     (\<exists>clear c tag. tar_create (rec_tools r) [(''manifest.json'', utf8_bytes (JSON_stringify (manifest_json i
          (env_iso8601 e (env_date_now e)) (env_sha256 e dump) (env_sha256 e (rec_masterKey r))) @ [CHR 0x0A])),
          (''database.dump'', dump), (''master.key'', rec_masterKey r)] = Some clear
        \<and> rec_seal r (rec_scrypt r passphrase (env_random e 16)) (env_random e 12) (archive_header (env_random e 16) (env_random e 12)) clear = (c, tag)
        \<and> bs = archive_header (env_random e 16) (env_random e 12) @ c @ tag)"

lemma build_backup_ran:
  assumes "build_backup e r target base path tmp dir i pass w = (Inr b, w')"
  obtains dump bs t where "built e r pass i dump bs" "map_of (disk w') path = Some (Regular bs t)" "SystemBackup_id b = i"
    "SystemBackup_status b = SbSucceeded" "SystemBackup_sizeBytes b = Some (int (length bs))" "SystemBackup_checksum b = Some (env_sha256 e bs)"
  using assms unfolding build_backup_def Let_def
proof (elim chain_InrE)
  let ?dump = "join dir ''database.dump''" and ?b = "join dir ''bundle.tar''" and ?k = "join dir ''master.key''" and ?m = "join dir ''manifest.json''"
  let ?now = "env_now e"
  fix u0 w0 dump w1 u2 w2 n3 w3 u4 w4 u5 w5 hash w6 u7 w7 u8 w8 n9 w9 u10 w10 u11 w11 u12 w12 u13 w13 n14 w14 sum w15
  let ?text = "utf8_bytes (JSON_stringify (manifest_json i (env_iso8601 e (env_date_now e)) hash (env_sha256 e (rec_masterKey r))) @ [CHR 0x0A])"
  assume "runPostgresTool r (pg_dump (rec_tools r)) w0 = (Inr dump, w1)"
    and s2: "io (put_file ?now ?dump dump) w1 = (Inr u2, w2)" and s3: "requireRegularFile ?dump ''The database dump is invalid.'' w2 = (Inr n3, w3)"
    and s4: "io (touch ?dump) w3 = (Inr u4, w4)" and s5: "write_new e ?k (rec_masterKey r) w4 = (Inr u5, w5)"
    and s6: "sha256File e ?dump w5 = (Inr hash, w6)" and s7: "write_new e ?m ?text w6 = (Inr u7, w7)"
    and s8: "pack r dir ?b w7 = (Inr u8, w8)" and s9: "requireRegularFile ?b ''The backup archive is invalid.'' w8 = (Inr n9, w9)"
    and s10: "io (touch ?b) w9 = (Inr u10, w10)" and s11: "encryptFile e r ?b tmp pass w10 = (Inr u11, w11)"
    and s12: "io (touch tmp) w11 = (Inr u12, w12)" and s13: "io (rename_file tmp path) w12 = (Inr u13, w13)"
    and s14: "requireRegularFile path ''The encrypted backup artifact is invalid.'' w13 = (Inr n14, w14)"
    and s15: "sha256File e path w14 = (Inr sum, w15)" and s16: "tries (completeSystemBackup ?now i (int n14) sum) w15 = (Inr b, w')"
  have d4: "map_of (disk w4) ?dump = Some (Regular dump ?now)"
    using put_file_ran [OF s2] requireRegularFile_ran [OF s3] touch_ran [OF s4] by simp
  note d5 = write_new_ran [OF s5]
  have at5: "map_of (disk w5) ?dump = Some (Regular dump ?now)" using d4 d5 by (auto split: if_splits)
  have d6: "disk w6 = disk w5" "hash = env_sha256 e dump" using sha256File_ran_at [OF s6 at5] by simp_all
  note d7 = write_new_ran [OF s7]
  have at7: "map_of (disk w7) ?m = Some (Regular ?text ?now)" "map_of (disk w7) ?dump = Some (Regular dump ?now)"
      "map_of (disk w7) ?k = Some (Regular (rec_masterKey r) ?now)" using d7 d5 at5 by (simp_all add: d6(1))
  obtain clear where tar: "tar_create (rec_tools r) [(''manifest.json'', ?text), (''database.dump'', dump), (''master.key'', rec_masterKey r)] = Some clear"
      "map_of (disk w8) = (map_of (disk w7))(?b \<mapsto> Regular clear 0)" by (rule pack_ran [OF s8 at7])
  have at10: "map_of (disk w10) ?b = Some (Regular clear 0)" using tar(2) requireRegularFile_ran [OF s9] touch_ran [OF s10] by simp
  obtain c tag where seal: "rec_seal r (rec_scrypt r pass (env_random e 16)) (env_random e 12) (archive_header (env_random e 16) (env_random e 12)) clear = (c, tag)"
      "map_of (disk w11) = (map_of (disk w10))(tmp \<mapsto> Regular (archive_header (env_random e 16) (env_random e 12) @ c @ tag) ?now)"
    by (rule encryptFile_ran [OF s11 at10])
  let ?bs = "archive_header (env_random e 16) (env_random e 12) @ c @ tag"
  have "map_of (disk w12) tmp = Some (Regular ?bs ?now)" using seal(2) touch_ran [OF s12] by simp
  then have at13: "map_of (disk w13) path = Some (Regular ?bs ?now)" by (rule rename_ran [OF s13])
  have d14: "disk w14 = disk w13" "n14 = length ?bs" using requireRegularFile_ran [OF s14] at13 by auto
  have d15: "disk w15 = disk w13" "sum = env_sha256 e ?bs" using sha256File_ran_at [OF s15, of ?bs ?now] at13 d14(1) by simp_all
  have "completeSystemBackup ?now i (int n14) sum (store w15) = Inr (b, store w')"
    using s16 by (auto simp: tries_def split: sum.splits prod.splits)
  note b = completeSystemBackup_Inr [OF this]
  have "built e r pass i dump ?bs" unfolding built_def using tar(1) seal(1) d6(2) by auto
  moreover have "map_of (disk w') path = Some (Regular ?bs ?now)" using at13 d15(1) tries_disk [OF s16] by simp
  ultimately show thesis using b d14(2) d15(2) by (intro that [of dump ?bs ?now]) simp_all
qed


text \<open>C10. A backup that was created can be restored: under the name chosen for it lies an artifact with the recorded size and
  checksum that the same passphrase opens to what \<open>tar\<close> packed, and the manifest in it is accepted and names this backup, the
  dump and the master key by their checksums. Of the cipher it is asked that it opens what it sealed, of the hash
  that it gives 64 hexadecimal digits, of \<open>Date.parse\<close> that it reads what \<open>toISOString\<close> wrote.\<close>

theorem created_backups_open_again:
  assumes run: "create_backup e r u target pass w = (Inr b, w')"
    and cipher: "\<And>k iv a p c t. rec_seal r k iv a p = (c, t) \<Longrightarrow> rec_open r k iv a t c = Some p \<and> length c = length p \<and> length t = 16"
    and random: "\<And>n. length (env_random e n) = n" and digest: "\<And>bs. is_digest (env_sha256 e bs)"
    and dates: "env_date_parse e (env_iso8601 e (env_date_now e)) = Some (env_date_now e)"
    and uuids: "\<And>n. UUID_PATTERN (env_gen e n)" and tar: "\<And>files bs. tar_create (rec_tools r) files = Some bs \<Longrightarrow> bs \<noteq> []"
    and apart: "\<And>k. \<not> below (rec_temporary r ''gateway-control-backup-'' k)
        (artifact_path e (if target = TargetNas then rec_nasRoot r else rec_localRoot r) (rec_uuid r (drawn w)))"
  shows "\<exists>bs t clear dump text m.
      map_of (disk w') (artifact_path e (if target = TargetNas then rec_nasRoot r else rec_localRoot r) (rec_uuid r (drawn w))) = Some (Regular bs t)
      \<and> SystemBackup_status b = SbSucceeded \<and> SystemBackup_sizeBytes b = Some (int (length bs)) \<and> SystemBackup_checksum b = Some (env_sha256 e bs)
      \<and> open_archive r pass bs = Some clear
      \<and> tar_create (rec_tools r) [(''manifest.json'', utf8_bytes text), (''database.dump'', dump), (''master.key'', rec_masterKey r)] = Some clear
      \<and> parseManifest e text = Inr m \<and> Manifest_backupId m = JStr (SystemBackup_id b)
      \<and> Manifest_dumpSha256 m = JStr (env_sha256 e dump) \<and> Manifest_keySha256 m = JStr (env_sha256 e (rec_masterKey r))"
proof -
  let ?path = "artifact_path e (if target = TargetNas then rec_nasRoot r else rec_localRoot r) (rec_uuid r (drawn w))"
  let ?base = "if target = TargetNas then rec_nasRoot r else rec_localRoot r"
  obtain w1 w2 w3 row dir j w4 w5 where row: "writes (createSystemBackup (env_gen e) (env_now e) u target ?path) w1 = (Inr row, w2)"
      and temp: "temporary_directory r ''gateway-control-backup-'' w2 = (Inr dir, w3)"
      and last: "lastly (attempt (build_backup e r target ?base ?path (?path @ ''.'' @ j @ ''.tmp'') dir (SystemBackup_id row) pass)
          (backup_failed e (?path @ ''.'' @ j @ ''.tmp'') (SystemBackup_id row))) (quiet (io (remove_tree dir))) w5 = (Inr b, w')"
    using run unfolding create_backup_def Let_def
    by (elim chain_InrE) (auto dest!: draw_ran)
  obtain n where n: "SystemBackup_id row = env_gen e n"
    using row by (auto simp: writes_def createSystemBackup_def draw_def systemBackup_def Let_def split: prod.splits)
  obtain v x where built: "build_backup e r target ?base ?path (?path @ ''.'' @ j @ ''.tmp'') dir (SystemBackup_id row) pass w5 = (Inr b, v)"
      and cleaned: "quiet (io (remove_tree dir)) v = (x, w')"
    using last by (rule lastly_ran) (rule that, erule attempt_ran [OF _ backup_failed_never])
  obtain dump bs t where made: "built e r pass (SystemBackup_id row) dump bs" "map_of (disk v) ?path = Some (Regular bs t)" "SystemBackup_id b = SystemBackup_id row"
      "SystemBackup_status b = SbSucceeded" "SystemBackup_sizeBytes b = Some (int (length bs))" "SystemBackup_checksum b = Some (env_sha256 e bs)"
    by (rule build_backup_ran [OF built])
  let ?text = "JSON_stringify (manifest_json (SystemBackup_id b) (env_iso8601 e (env_date_now e)) (env_sha256 e dump) (env_sha256 e (rec_masterKey r))) @ [CHR 0x0A]"
  from made(1) obtain clear c tag where parts: "tar_create (rec_tools r) [(''manifest.json'', utf8_bytes ?text), (''database.dump'', dump), (''master.key'', rec_masterKey r)] = Some clear"
      "rec_seal r (rec_scrypt r pass (env_random e 16)) (env_random e 12) (archive_header (env_random e 16) (env_random e 12)) clear = (c, tag)"
      "bs = archive_header (env_random e 16) (env_random e 12) @ c @ tag"
    unfolding built_def made(3) by blast
  have opened: "open_archive r pass bs = Some clear"
    unfolding parts(3) by (rule open_sealed [OF cipher random random tar [OF parts(1)] parts(2)])
  have "\<not> below dir ?path" using apart by (simp add: temporary_directory_ran(1) [OF temp])
  then have "map_of (disk w') ?path = Some (Regular bs t)" using remove_tree_ran [OF cleaned] made(2) by simp
  moreover have "parseManifest e ?text = Inr \<lparr>Manifest_backupId = JStr (SystemBackup_id b), Manifest_createdAt = env_iso8601 e (env_date_now e),
      Manifest_dumpSha256 = JStr (env_sha256 e dump), Manifest_keySha256 = JStr (env_sha256 e (rec_masterKey r))\<rparr>"
    using uuids by (intro manifest_reads_back [OF _ dates refl digest digest]) (simp add: made(3) n)
  ultimately show ?thesis using made(4-6) opened parts(1) by (intro exI conjI) (assumption | simp)+
qed

section \<open>A concrete service\<close>

definition vault_uuid :: uuid where
  "vault_uuid = ''11111111-1111-4111-8111-111111111111''"

definition vault_digest :: string where
  "vault_digest = replicate 64 (CHR ''a'')"

definition vault_api :: api where
  "vault_api = sample_api\<lparr>env_gen := (\<lambda>_. vault_uuid), env_sha256 := (\<lambda>_. vault_digest), env_iso8601 := (\<lambda>_. ''T''), env_date_parse := (\<lambda>_. Some 15)\<rparr>"

definition vault_manifest :: bytes where
  "vault_manifest = utf8_bytes (JSON_stringify (manifest_json vault_uuid ''T'' vault_digest vault_digest) @ [CHR 0x0A])"

definition vault_tools :: tools where
  "vault_tools = \<lparr>pg_dump = (\<lambda>_ _. Some [1, 2]), pg_restore_list = (\<lambda>_. True), tar_create = (\<lambda>_. Some [9]),
     tar_list = (\<lambda>_. Some [intercalate [CHR 0x0A] EXPECTED_ARCHIVE_FILES]),
     tar_verbose = (\<lambda>_. Some [intercalate [CHR 0x0A] (map (\<lambda>n. CHR ''-'' # n) EXPECTED_ARCHIVE_FILES)]),
     tar_extract = (\<lambda>_. Some [(''manifest.json'', Regular vault_manifest 0), (''database.dump'', Regular [1, 2] 0),
       (''master.key'', Regular (replicate 32 7) 0)])\<rparr>"

definition vault_database :: database_url where
  "vault_database = \<lparr>db_protocol = ''postgres:'', db_hostname = ''db'', db_port = [], db_pathname = ''/gw'',
     db_username = ''u'', db_password = ''p'', db_sslmode = None\<rparr>"

definition vault_options :: recovery_options where
  "vault_options = \<lparr>rec_database = Some vault_database, rec_decodeURIComponent = Some, rec_environment = (\<lambda>_. None),
     rec_masterKey = replicate 32 7, rec_localRoot = ''/b'', rec_nasRoot = ''/n'',
     rec_nasMarker = ''marker'', rec_stageRoot = ''/s'', rec_maxImportBytes = None, rec_supervisorEnabled = True, rec_requestSecret = Some [1],
     rec_tools = vault_tools, rec_scrypt = (\<lambda>_ _. [1]), rec_seal = (\<lambda>_ _ _ p. (p, replicate 16 0)), rec_open = (\<lambda>_ _ _ _ c. Some c),
     rec_hmac = (\<lambda>_ _. ''signature''), rec_uuid = (\<lambda>_. ''u''), rec_temporary = (\<lambda>p _. ''/tmp/'' @ p @ ''x'')\<rparr>"

text \<open>An artifact, its record in the table, and a restore that was staged from it.\<close>

definition vault_artifact :: bytes where
  "vault_artifact = archive_header (replicate 16 0) (replicate 12 0) @ [9] @ replicate 16 0"

definition vault_backup :: system_backup_row where
  "vault_backup = \<lparr>sbk_id = vault_uuid, sbk_requested_by_user_id = vault_uuid, sbk_target = TargetLocal, sbk_status = SbSucceeded,
     sbk_artifact_path = ''/b/x.gcsb'', sbk_size_bytes = Some 54, sbk_checksum = Some vault_digest, sbk_error = None, sbk_source = Created,
     sbk_metadata = [], sbk_created_at = 0, sbk_completed_at = Some 0\<rparr>"

definition vault_restore :: system_restore_row where
  "vault_restore = \<lparr>srs_id = vault_uuid, srs_backup_id = vault_uuid, srs_requested_by_user_id = vault_uuid, srs_status = SrStaged,
     srs_error = None, srs_created_at = 0, srs_completed_at = None\<rparr>"

definition vault_db :: db where
  "vault_db = empty_db\<lparr>system_backups := [vault_backup], system_restores := [vault_restore]\<rparr>"

definition vault_disk :: disk where
  "vault_disk = [(''/tmp'', Directory), (''/b'', Directory), (''/b/x.gcsb'', Regular vault_artifact 0)]"

section \<open>Running it\<close>

text \<open>The handlers are executed in worlds of this form by rewriting.\<close>

definition at_disk :: "db \<Rightarrow> nat \<Rightarrow> disk \<Rightarrow> world" where
  "at_disk s n d = \<lparr>store = s, answers = [], sent = [], disk = d, pauses = [], drawn = n\<rparr>"

named_theorems run_simps \<open>executing a handler\<close>

lemma run_at_disk [run_simps]:
  "io f (at_disk s n d) = (case f None d of (Inl c, d') \<Rightarrow> (Inl (Errno c), at_disk s n d') | (Inr x, d') \<Rightarrow> (Inr x, at_disk s n d'))"
  "tool g (at_disk s n d) = (case g s of None \<Rightarrow> (Inl (Thrown ''failed.''), at_disk s n d) | Some v \<Rightarrow> (Inr v, at_disk s n d))"
  "draw_name h (at_disk s n d) = (Inr (h n), at_disk s (Suc n) d)"
  "reads k (at_disk s n d) = (Inr (k s), at_disk s n d)"
  "writes l (at_disk s n d) = (Inr (fst (l s)), at_disk (snd (l s)) n d)"
  "changes m (at_disk s n d) = (Inr (), at_disk (m s) n d)"
  "tries t (at_disk s n d) = (case t s of Inl x \<Rightarrow> (Inl (Database x), at_disk s n d) | Inr (x, s') \<Rightarrow> (Inr x, at_disk s' n d))"
  by (simp_all add: io_def ended_def tool_def draw_name_def reads_def changes_def writes_def tries_def at_disk_def
      split: prod.split sum.split option.split)

lemma target_at:
  "map_of d p = Some (Regular bs t) \<Longrightarrow> target_of 40 d p = Some (Regular bs t)"
  "map_of d p = Some Directory \<Longrightarrow> target_of 40 d p = Some Directory"
  by (simp_all add: numeral_eq_Suc)

lemma run_read [run_simps]: "map_of d p = Some (Regular bs t) \<Longrightarrow> read_file p None d = (Inr bs, d)"
  by (simp add: read_file_def sure_def target_at)

lemma run_touch [run_simps]:
  "map_of d p = Some (Regular bs t) \<Longrightarrow> touch p None d = (Inr (), d)" "map_of d p = Some Directory \<Longrightarrow> touch p None d = (Inr (), d)"
  by (simp_all add: touch_def sure_def target_at)

lemmas [run_simps] = sure_def lstat_def create_file_def append_file_def put_file_def put_node_def mkdtemp_def mkdir_def rename_file_def link_file_def
  remove_tree_def below_def starts_with_def remove_file_def join_def is_parent_def dirname_def slash_def attempt_def chain_def give_def throw_def refuse_def demand_def
  lastly_def quiet_def Let_def

lemmas [run_simps] = requireRegularFile_def lstat_or_null_def sha256File_def write_new_def read_text_def temporary_directory_def
  decryptFile_def decipher_def HEADER_SIZE_def AUTH_TAG_SIZE_def magic_length unpack_def validateExtractedFiles_def extracted_sizes_ok_def
  inspect_bundle_def

lemma vault_options_simps [run_simps]:
  "rec_tools vault_options = vault_tools" "rec_masterKey vault_options = replicate 32 7" "rec_stageRoot vault_options = ''/s''"
  "rec_localRoot vault_options = ''/b''" "rec_uuid vault_options n = ''u''" "rec_temporary vault_options p n = ''/tmp/'' @ p @ ''x''"
  "rec_seal vault_options k i a bs = (bs, replicate 16 0)" "rec_open vault_options k i a g bs = Some bs"
  "rec_supervisorEnabled vault_options" "rec_requestSecret vault_options = Some [1]" "rec_database vault_options = Some vault_database"
  "db_protocol vault_database = ''postgres:''" "rec_decodeURIComponent vault_options q = Some q"
  by (simp_all add: vault_options_def vault_database_def)

lemma vault_tools_simps [run_simps]:
  "pg_restore_list vault_tools bs" "pg_dump vault_tools v s = Some [1, 2]" "tar_create vault_tools fs = Some [9]"
  "tar_extract vault_tools bs = Some [(''manifest.json'', Regular vault_manifest 0), (''database.dump'', Regular [1, 2] 0),
     (''master.key'', Regular (replicate 32 7) 0)]"
  by (simp_all add: vault_tools_def)

lemma vault_api_simps [run_simps]:
  "env_now vault_api = 15" "env_date_now vault_api = 15" "env_sha256 vault_api bs = vault_digest" "env_gen vault_api n = vault_uuid"
  "env_iso8601 vault_api t = ''T''" "env_date_parse vault_api q = Some 15" "env_random vault_api n = replicate n 0"
  by (simp_all add: vault_api_def sample_api_def)

lemma vault_ids [run_simps]: "UUID_PATTERN vault_uuid" "is_digest vault_digest" "vault_digest \<noteq> []" "ancestors ''/s'' = [''/s'']" "ancestors ''/b'' = [''/b'']"
  "ancestors ''/b/.recovery-requests'' = [''/b'', ''/b/.recovery-requests'']"
  by code_simp+

lemma vault_uuid_slash [run_simps]:
  "dropWhile (\<lambda>c. c \<noteq> CHR ''/'') (rev vault_uuid @ q) = dropWhile (\<lambda>c. c \<noteq> CHR ''/'') q"
  by (simp add: vault_uuid_def)

lemma collect_short: "length c \<le> 100 \<Longrightarrow> collect_output [c] = c"
  by (simp add: collect_output_def MAX_TOOL_OUTPUT_BYTES_def)

lemma vault_listing:
  "archive_listing_ok (splitToolLines (intercalate [CHR 0x0A] EXPECTED_ARCHIVE_FILES))
     (splitToolLines (intercalate [CHR 0x0A] (map (\<lambda>n. CHR ''-'' # n) EXPECTED_ARCHIVE_FILES)))"
  "length (intercalate [CHR 0x0A] EXPECTED_ARCHIVE_FILES) \<le> 100"
  "length (intercalate [CHR 0x0A] (map (\<lambda>n. CHR ''-'' # n) EXPECTED_ARCHIVE_FILES)) \<le> 100"
  by code_simp+

lemma vault_validated [run_simps]:
  "map_of d b = Some (Regular bs t) \<Longrightarrow> validateArchive vault_options b (at_disk s n d) = (Inr (), at_disk s n d)"
  by (simp add: validateArchive_def runTool_def run_simps vault_tools_def vault_listing collect_short)

lemma vault_manifest_reads [run_simps]:
  "utf8_text vault_manifest = Some (JSON_stringify (manifest_json vault_uuid ''T'' vault_digest vault_digest) @ [CHR 0x0A])"
  "parseManifest vault_api (JSON_stringify (manifest_json vault_uuid ''T'' vault_digest vault_digest) @ [CHR 0x0A])
   = Inr \<lparr>Manifest_backupId = JStr vault_uuid, Manifest_createdAt = ''T'', Manifest_dumpSha256 = JStr vault_digest, Manifest_keySha256 = JStr vault_digest\<rparr>"
  by (simp add: vault_manifest_def) (rule manifest_reads_back [of _ _ _ 15]; simp add: run_simps)

lemma length_utf8_bytes: "length s \<le> length (utf8_bytes s) \<and> length (utf8_bytes s) \<le> 2 * length s"
  by (induction s) (auto simp: utf8_bytes_def)

lemma vault_manifest_length: "2 \<le> length vault_manifest" "length vault_manifest \<le> 16384"
proof -
  let ?t = "JSON_stringify (manifest_json vault_uuid ''T'' vault_digest vault_digest)"
  have "2 \<le> length ?t \<and> length ?t \<le> 8000" by code_simp
  with length_utf8_bytes [of "?t @ [CHR 0x0A]"] show "2 \<le> length vault_manifest" "length vault_manifest \<le> 16384"
    by (simp_all add: vault_manifest_def)
qed

lemma vault_artifact_parts:
  obtains h tag c where "archive_parts vault_artifact = (h, tag, c)" "length vault_artifact = 54" "header_ok h"
    "\<forall>p. open_content vault_options p h tag c = Some [9]"
proof -
  obtain h tag c where p: "archive_parts vault_artifact = (h, tag, c)" by (metis prod_cases3)
  have "length vault_artifact = 54" "header_ok (fst (archive_parts vault_artifact))" by code_simp+
  moreover have "snd (snd (archive_parts vault_artifact)) = [9]" by code_simp
  ultimately show thesis by (intro that [OF p]) (simp_all add: p open_content_def run_simps)
qed

lemma succeeded:
  assumes "\<not> isl (fst (m w))"
  obtains y w' where "m w = (Inr y, w')"
  using assms by (cases "m w"; cases "fst (m w)") auto

lemmas vault_defs = vault_db_def vault_disk_def vault_backup_def vault_restore_def empty_db_def draw_def getSystemBackup_def systemBackup_def
  systemRestore_def staging_restore_def

section \<open>Witnesses\<close>

lemma vault_paths:
  "\<forall>p \<in> set (map fst vault_disk). \<not> below ''/tmp/gateway-control-restore-x'' p \<and> \<not> below ''/tmp/gateway-control-inspect-x'' p"
  "\<not> below ''/tmp/gateway-control-restore-x'' (stage_path vault_options name)"
  "\<not> below ''/tmp/gateway-control-inspect-x'' (pending_path vault_options)"
  "\<not> below ''/tmp/gateway-control-backup-x'' ''/b/system-T-u.gcsb''"
  by (simp_all add: below_def starts_with_def stage_path_def pending_path_def spool_def run_simps vault_disk_def)

theorem staged_restores_were_vetted_witness:
  "\<exists>s w' dump name. stageRestore vault_api vault_options vault_uuid [] ''passphrase'' (at_disk vault_db 0 vault_disk) = (Inr s, w')
    \<and> SystemRestore_status s = SrStaged \<and> map_of (disk w') (stage_path vault_options name) = Some (Regular dump 15)"
proof -
  obtain h tag c where parts: "archive_parts vault_artifact = (h, tag, c)" "length vault_artifact = 54" "header_ok h"
    "\<forall>p. open_content vault_options p h tag c = Some [9]" by (rule vault_artifact_parts)
  have "\<not> isl (fst (stageRestore vault_api vault_options vault_uuid [] ''passphrase'' (at_disk vault_db 0 vault_disk)))"
    using vault_manifest_length
    by (simp add: run_simps parts vault_defs stageRestore_def stage_vetted_def vetted_stage_def prepareStage_def publish_stage_def
        stage_path_def marker_path_def temporary_marker_def lock_path_def take_lock_def no_active_marker_def createSystemRestore_def updateSystemRestore_def)
  then obtain s w' where run: "stageRestore vault_api vault_options vault_uuid [] ''passphrase'' (at_disk vault_db 0 vault_disk) = (Inr s, w')"
    by (rule succeeded)
  have fresh: "\<not> below (rec_temporary vault_options ''gateway-control-restore-'' k) p" if "p \<in> fst ` set (disk (at_disk vault_db 0 vault_disk))" for k p
    using vault_paths(1) that by (auto simp: vault_options_simps at_disk_def)
  have "\<not> below (rec_temporary vault_options ''gateway-control-restore-'' k) (stage_path vault_options name)" for k name
    using vault_paths(2) by (simp add: vault_options_simps)
  then have "SystemRestore_status s = SrStaged
      \<and> (\<exists>dump name. map_of (disk w') (stage_path vault_options name) = Some (Regular dump (env_now vault_api)))"
    using staged_restores_were_vetted [OF run fresh] by auto
  with run show ?thesis unfolding vault_api_simps(1) by blast
qed

theorem recovery_requests_are_signed_witness:
  "\<exists>w'. requestApply vault_api vault_options vault_uuid [] (''APPLY '' @ vault_uuid) ''passphrase'' (at_disk vault_db 0 vault_disk) = (Inr (), w')
    \<and> map_of (disk w') (pending_path vault_options) = Some (Regular (utf8_bytes (signed_request (\<lambda>_. ''signature'') vault_uuid)) 15)"
proof -
  obtain h tag c where parts: "archive_parts vault_artifact = (h, tag, c)" "length vault_artifact = 54" "header_ok h"
    "\<forall>p. open_content vault_options p h tag c = Some [9]" by (rule vault_artifact_parts)
  have "\<not> isl (fst (requestApply vault_api vault_options vault_uuid [] (''APPLY '' @ vault_uuid) ''passphrase'' (at_disk vault_db 0 vault_disk)))"
    using vault_manifest_length
    by (simp add: run_simps parts vault_defs requestApply_def found_or_def request_for_def inspectArtifact_def send_request_def
        publishRecoveryRequest_def spool_def pending_path_def syncDirectory_def createSystemRecoveryRequest_def recovery_active_def
        getSystemRestore_def)
  then obtain y w' where run: "requestApply vault_api vault_options vault_uuid [] (''APPLY '' @ vault_uuid) ''passphrase'' (at_disk vault_db 0 vault_disk) = (Inr y, w')"
    by (rule succeeded)
  have fresh: "\<not> below (rec_temporary vault_options ''gateway-control-inspect-'' k) p" if "p \<in> fst ` set (disk (at_disk vault_db 0 vault_disk))" for k p
    using vault_paths(1) that by (auto simp: vault_options_simps at_disk_def)
  have apart: "\<not> below (rec_temporary vault_options ''gateway-control-inspect-'' k) (pending_path vault_options)" for k
    using vault_paths(3) by (simp add: vault_options_simps)
  have hmac: "rec_hmac vault_options secret = (\<lambda>_. ''signature'')" for secret by (simp add: vault_options_def)
  have "\<exists>secret. map_of (disk w') (pending_path vault_options)
      = Some (Regular (utf8_bytes (signed_request (rec_hmac vault_options secret) vault_uuid)) (env_now vault_api))"
    using recovery_requests_are_signed [OF run] fresh apart by blast
  with run show ?thesis unfolding vault_api_simps(1) hmac by auto
qed

theorem created_backups_open_again_witness:
  "\<exists>b w' bs t. create_backup vault_api vault_options [] TargetLocal ''passphrase'' (at_disk empty_db 0 [(''/tmp'', Directory)]) = (Inr b, w')
    \<and> map_of (disk w') ''/b/system-T-u.gcsb'' = Some (Regular bs t) \<and> open_archive vault_options ''passphrase'' bs \<noteq> None"
proof -
  have path: "artifact_path vault_api ''/b'' ''u'' = ''/b/system-T-u.gcsb''" by code_simp
  have env: "postgresEnvironment vault_options vault_database \<noteq> None" by (simp add: postgresEnvironment_def run_simps)
  then obtain env where env: "postgresEnvironment vault_options vault_database = Some env" by blast
  have "\<not> isl (fst (create_backup vault_api vault_options [] TargetLocal ''passphrase'' (at_disk empty_db 0 [(''/tmp'', Directory)])))"
    by (simp add: run_simps path env create_backup_def build_backup_def ensureTarget_def runPostgresTool_def pack_def encryptFile_def seal_archive_def
        createSystemBackup_def completeSystemBackup_def settle_backup_def running_backup_def draw_def systemBackup_def empty_db_def)
  then obtain b w' where run: "create_backup vault_api vault_options [] TargetLocal ''passphrase'' (at_disk empty_db 0 [(''/tmp'', Directory)]) = (Inr b, w')"
    by (rule succeeded)
  have drawn: "drawn (at_disk empty_db 0 [(''/tmp'', Directory)]) = 0" by (simp add: at_disk_def)
  show ?thesis
    using created_backups_open_again [OF run] run vault_paths(4) path
    by (force simp: run_simps drawn)
qed

end
