(* ===== verification/Spec2Isabelle.thy ===== *)
theory Spec2Isabelle
  imports Gw_Guarantees Gw_Deliveries Gw_Config Gw_Migrations Gw_Crypto Gw_Tls Gw_Source Gw_Compose Gw_Api Gw_Ipv6
    Gw_AgentApi Gw_Vetted Gw_Vault
begin

text \<open>
  GatewayControl is the control plane of a fleet of gateways: a Node.js server (\<open>src/server/src\<close>) over
  one PostgreSQL database. People use it through a web console, agents on the gateways poll it for
  commands and report telemetry, and it publishes host names by calling Cloudflare. This development
  models the server.

  \<^bold>\<open>How the program is put together.\<close> \<open>postgres-store.ts\<close> implements the interface \<open>Store\<close> of \<open>types.ts\<close>;
  every operation is one transaction. \<open>app.ts\<close> holds the routes: a route reads its request, asks for a
  session or an agent credential, calls the store, Cloudflare, GitHub or Telegram, and answers.
  \<open>system-recovery.ts\<close> keeps encrypted backups of the control plane itself in files. Work for
  a gateway becomes a row of \<open>agent_commands\<close>, which its agent claims under a lease and completes once;
  completing it moves the operation behind it. Maintenance passes fail what nobody completes, sweep silent
  agents, dispatch notifications and verify connectors and publications. \<open>compose-policy.ts\<close> decides
  what may be deployed, \<open>config.ts\<close>, \<open>crypto.ts\<close> and \<open>migration-runner.ts\<close> serve all of it.

  \<^bold>\<open>Foundations.\<close>
  \<^item> \<^verbatim>\<open>Gw_Prelude\<close>: tables as lists of rows, the SQL statements in use, JSON values, time in milliseconds,
    and the collections of facts the other theories share. \<^verbatim>\<open>Gw_Js\<close>, \<^verbatim>\<open>Gw_Base64\<close>, \<^verbatim>\<open>Gw_Json\<close>: the
    parts of the JavaScript library the code uses (strings, numbers, \<open>Buffer\<close>, \<open>JSON.parse\<close> and
    \<open>JSON.stringify\<close>). The JSON parser has fuel of twice the length of the text and two, which is enough
    because every second call consumes a character.
  \<^item> \<^verbatim>\<open>Gw_Types\<close> (\<open>types.ts\<close>): an interface \<open>I\<close> is a record with the fields \<open>I_f\<close>, a union of literals a
    datatype. \<^verbatim>\<open>Gw_Schema\<close> (\<open>migrations\<close>): a record per table and the record \<open>db\<close> of all tables.

  \<^bold>\<open>The store\<close> (\<open>postgres-store.ts\<close>), an operation per method under the name of the method. An operation
  maps a database to a result and the database after it; one that can violate a constraint gives \<open>Inl\<close> of
  the error and is rolled back. \<open>gen_random_uuid()\<close> is a parameter \<open>gen\<close>, an injective enumeration, and the
  field \<open>draws\<close> counts how much of it was drawn.
  \<^item> \<^verbatim>\<open>Gw_Rows\<close> row mappers; \<^verbatim>\<open>Gw_Users\<close> users and sessions; \<^verbatim>\<open>Gw_Notify\<close> events and deliveries;
    \<^verbatim>\<open>Gw_Agents\<close>; \<^verbatim>\<open>Gw_Queue\<close> insertion of commands; \<^verbatim>\<open>Gw_Stacks\<close> stacks, routes, backups and restores;
    \<^verbatim>\<open>Gw_Deploy\<close> Git deployments; \<^verbatim>\<open>Gw_Runtime\<close> runtime actions and logs; \<^verbatim>\<open>Gw_Connectors\<close>;
    \<^verbatim>\<open>Gw_Cloudflare\<close> accounts, zones, guided operations; \<^verbatim>\<open>Gw_Domain\<close> publications; \<^verbatim>\<open>Gw_Commands\<close> claiming
    and completing; \<^verbatim>\<open>Gw_Stale\<close> maintenance; \<^verbatim>\<open>Gw_Recovery\<close> records of system recovery; \<^verbatim>\<open>Gw_Topology\<close>
    notification preferences.
  \<^item> \<^verbatim>\<open>Gw_Effects\<close>, \<^verbatim>\<open>Gw_Live\<close>, \<^verbatim>\<open>Gw_Frames\<close>, \<^verbatim>\<open>Gw_Owners\<close>, \<^verbatim>\<open>Gw_Store\<close>, \<^verbatim>\<open>Gw_Steps\<close>, \<^verbatim>\<open>Gw_Reach\<close>, \<^verbatim>\<open>Gw_Leases\<close>: what
    each operation leaves alone, the step relation \<open>step\<close> of the interface \<open>Store\<close> (any operation, any
    arguments, any order), the states it reaches and the invariant \<open>store_ok\<close> of them all, and what stays of
    a lease whatever is done meanwhile. \<^verbatim>\<open>Gw_Sample\<close> is a
    concrete run on which the witnesses rest. \<^verbatim>\<open>Gw_Guarantees\<close> and \<^verbatim>\<open>Gw_Deliveries\<close> state what the store
    promises: leases, single outcomes, mutual exclusion of operations, accounts, sessions as a finite map,
    enrolment, fenced reconciliation, the life of notifications.

  \<^bold>\<open>Modules of their own.\<close> \<^verbatim>\<open>Gw_Config\<close> (\<open>config.ts\<close>), \<^verbatim>\<open>Gw_Crypto\<close> (\<open>crypto.ts\<close>), \<^verbatim>\<open>Gw_Migrations\<close>
  (\<open>migration-runner.ts\<close>), \<^verbatim>\<open>Gw_Compose\<close> (\<open>compose-policy.ts\<close>), \<^verbatim>\<open>Gw_Source\<close> (\<open>deployment-source.ts\<close>),
  \<^verbatim>\<open>Gw_Tls\<close> (\<open>tls-observer.ts\<close>), \<^verbatim>\<open>Gw_Dispatcher\<close> (\<open>notification-dispatcher.ts\<close>), \<^verbatim>\<open>Gw_Token\<close>
  (\<open>cloudflare-tunnel-token.ts\<close>), \<^verbatim>\<open>Gw_CfClient\<close> (\<open>cloudflare-client.ts\<close>: ten pages per listing, 256 KiB per
  answer).

  \<^bold>\<open>System recovery\<close> (\<open>system-recovery.ts\<close>). \<^verbatim>\<open>Gw_Disk\<close> is the disk, a table of absolute paths, with the calls
  of \<open>node:fs/promises\<close> the service makes; \<^verbatim>\<open>Gw_Archive\<close> the format of an artifact, the environments and output of
  tools, the listing of an archive and the manifest; \<^verbatim>\<open>Gw_Backups\<close> creating and inspecting a backup; \<^verbatim>\<open>Gw_Restores\<close>
  staging a restore under \<open>restore.lock\<close>, with its undoing, and exports; \<^verbatim>\<open>Gw_Imports\<close> uploads, their validation and the
  signed request to the supervisor. \<^verbatim>\<open>Gw_Vault\<close> follows successful runs on the disk: what was staged had passed every
  check, what was created opens again, what was requested is signed. Every call on the disk and every tool may fail,
  a write after so many bytes.

  \<^bold>\<open>The routes\<close> (\<open>app.ts\<close>). A handler (\<^verbatim>\<open>Gw_Handlers\<close>) maps a world, which is the database, the disk, the answers
  still to come from remote services and the log of what was sent, to an exception or a value and the world
  after it; what it wrote before it threw stays written. While it waits for a remote service, the disk or a tool, other
  requests may change the store: each answer and each pause brings a change with it.
  \<^item> \<^verbatim>\<open>Gw_Api\<close>, \<^verbatim>\<open>Gw_Net\<close>, \<^verbatim>\<open>Gw_Telemetry\<close>, \<^verbatim>\<open>Gw_Public\<close>, \<^verbatim>\<open>Gw_Views\<close>: the helpers that read requests,
    judge names and addresses, validate telemetry (512 KiB) and shape what is shown; \<^verbatim>\<open>Gw_Ipv6\<close> proves that
    the canonical text of an IPv6 address reads back.
  \<^item> \<^verbatim>\<open>Gw_AgentApi\<close> the requests of agents; \<^verbatim>\<open>Gw_Http\<close> sessions and users; \<^verbatim>\<open>Gw_Resources\<close>,
    \<^verbatim>\<open>Gw_Operations\<close>, \<^verbatim>\<open>Gw_Runtimes\<close> the routes of the resources; \<^verbatim>\<open>Gw_Guided\<close> and \<^verbatim>\<open>Gw_Access\<close> the guided
    bootstrap and publication; \<^verbatim>\<open>Gw_Identity\<close> and \<^verbatim>\<open>Gw_Reconcile\<close> the verification of connectors and the
    reconciliation with Cloudflare; \<^verbatim>\<open>Gw_RecoveryApi\<close> the routes of system
    recovery; \<^verbatim>\<open>Gw_Server\<close> all routes with their guards.
  \<^item> \<^verbatim>\<open>Gw_Trace\<close> is a logic of triples for what a handler sends and on which answers its result rests;
    \<^verbatim>\<open>Gw_Kept\<close> shows that every handler, on every branch, keeps whatever the operations of the store keep, so
    that all invariants hold after any history of requests and passes; \<^verbatim>\<open>Gw_Guards\<close> derives the access
    table from the routes; \<^verbatim>\<open>Gw_Vetted\<close> holds the promises from a route to the database.

  \<^bold>\<open>Interfaces\<close> are locales: the \<open>Store\<close> that the dispatcher is given, the platform's paths, ciphers, and
  the invariants of components; each is interpreted on the definitions of the model.

  \<^bold>\<open>Parameters\<close> stand for what is not under \<open>src\<close>: hashes, cipher and password hashing, random bytes, the YAML
  package, the URL parser, \<open>fetch\<close>, \<open>isIP\<close>, \<open>Date.parse\<close>, \<open>localeCompare\<close>, the clock, \<open>tar\<close>, \<open>pg_dump\<close> and
  \<open>pg_restore\<close>, the names \<open>mkdtemp\<close> and \<open>randomUUID\<close> give, the answers of Cloudflare, GitHub and Telegram. What a theorem asks of them is a premise of it.

  \<^bold>\<open>Not modelled.\<close> Of the database: foreign keys (their effect is written out where an operation relies on it or
  can run into it, as the removal of an agent does), checks of formats and lengths, syntax errors of uuids, the canonical form of \<open>inet\<close>,
  collations, advisory locks, the order of rows that \<open>UPDATE ... RETURNING\<close> gives, \<open>checkReady\<close> and \<open>close\<close>.
  Of JavaScript: numbers of JSON that are no integers, rounding of doubles, code units above 255, the order
  of keys that look like integers, shared YAML aliases. Of the routes: bodies that break off (uploads of backups apart), attributes of
  cookies, reply bodies in \<open>serve\<close> (the status is kept), rate limits, static files, timers and the flags
  that keep passes from overlapping; a request happens at one instant, and other requests interfere at
  remote calls, calls on the disk and tools only. The texts of the errors of the Compose policy and the zone of an IPv6 address are
  parameters. Of the disk: modes and owners of files, links in the middle of a path (other than for \<open>realpath\<close>), other
  processes that change it, synchronisation with the medium; of system recovery, the zeroing of keys and
  the limit on concurrent exports, which is an argument. The script that applies a restore
  (\<open>restore-system.ts\<close>), the web console and the agent are left out: a program of its own on the host, a browser program,
  and a program in another language.
\<close>

section \<open>Commands and the operations they carry\<close>

text \<open>C1. In every reachable state each backup, restore, runtime action, log request and deployment run
  that is pending or running is tied to exactly the command that carries it: a command that is itself
  pending or claimed, of the kind the operation needs, with the operation's identifier as its payload,
  created with it, and queued at an agent that is enabled. No operation is ever left without a
  command that can finish it.\<close>

theorem operations_are_carried:
  assumes "inj gen" "reachable gen d" "l \<in> live_links d"
  shows "\<exists>c \<in> set (commands d). carries c l \<and> agent_enabled (cmd_agent_id c) d"
proof -
  from reachable_okD(5) [OF assms(1,2)] assms(3) obtain c where c: "c \<in> set (commands d)" "carries c l"
    by (auto simp: links_ok_def)
  with reachable_okD(4) [OF assms(1,2)] carries_live [OF c(2)] show ?thesis
    by (auto simp: owners_ok_def)
qed

theorem operations_are_carried_witness:
  "\<exists>c \<in> set (commands (sample 12)). carries c (Some (unary 5), unary 1, ''stack.backup.create'', ''backupId'', unary 4, 7)
     \<and> agent_enabled (cmd_agent_id c) (sample 12)"
proof (rule operations_are_carried [OF inj_unary reachable_sample])
  show "(Some (unary 5), unary 1, ''stack.backup.create'', ''backupId'', unary 4, 7) \<in> live_links (sample 12)"
    by (unfold sample_states, code_simp)
qed

text \<open>C2. Nothing stays under way for ever: after the maintenance pass of a reachable state, whatever is still
  pending or running was created within the completion window.\<close>

theorem stale_operations_are_closed:
  assumes "inj gen" "reachable gen d"
    and "(ci, a, ty, k, i, created) \<in> live_links (snd (failStaleCommands gen now staleBefore d))"
  shows "staleBefore \<le> created"
  using fail_window [OF reachable_okD(5) [OF assms(1,2)] assms(3)] by simp

theorem stale_operations_are_closed_witness:
  "(Some (unary 5), unary 1, ''stack.backup.create'', ''backupId'', unary 4, 7)
     \<in> live_links (snd (failStaleCommands unary 20 7 (sample 12))) \<and> (7::int) \<le> 7
   \<and> live_links (snd (failStaleCommands unary 20 11 (sample 12))) = {}"
proof -
  have l: "(Some (unary 5), unary 1, ''stack.backup.create'', ''backupId'', unary 4, 7)
     \<in> live_links (snd (failStaleCommands unary 20 7 (sample 12)))" by (unfold sample_states, code_simp)
  have "live_links (snd (failStaleCommands unary 20 11 (sample 12))) = {}" by (unfold sample_states, code_simp)
  with l stale_operations_are_closed [OF inj_unary reachable_sample l] show ?thesis by blast
qed

end
